(* ===== verification/Prelude.thy ===== *)
theory Prelude
  imports Main "HOL-Library.Word" "HOL-Library.Multiset"
begin

text \<open>
  Shared vocabulary of the development: machine integers, pointers, the two ordered containers
  of the C++ standard library the dispatcher uses (\<open>std::map\<close> and \<open>std::set\<close>), and the contract of
  \<open>boost::multi_index_container\<close>.

  \<^item> A \<open>std::map\<close> is the list of its \<open>(key, value)\<close> pairs in iteration order, that is, by
    increasing key; \<open>insert\<close> does not overwrite, as in C++.
  \<^item> A \<open>std::set\<close> is the list of its elements in iteration order.
  \<^item> A \<open>boost::multi_index_container\<close> is library code the repository only calls. Its operations are
    a parameter (the record \<open>mi_ops\<close>) of every definition that uses such a container, and what
    Boost documents about them is the locale \<open>multi_index\<close>. The sequence of a container's
    elements, in the order of its first index, stands for its state.
\<close>

unbundle bit_operations_syntax

named_theorems table_simps \<open>rewrite rules of the table operations\<close>
named_theorems keeps \<open>an operation keeps an invariant\<close>

type_synonym u8 = "8 word"
type_synonym u16 = "16 word"
type_synonym u32 = "32 word"
type_synonym bytes = "8 word list"

text \<open>Addresses of \<open>ConnectionHandler\<close> and \<open>ConnectionRecord\<close> objects; 0 is the null pointer.\<close>

type_synonym chptr = nat
type_synonym recptr = nat

section \<open>Counters of 32 bits\<close>

lemma unat_count: "n < 2 ^ 32 \<Longrightarrow> unat (of_nat n :: u32) = n"
  by (simp add: unat_of_nat)

lemma sint_count: "n < 2 ^ 31 \<Longrightarrow> sint (of_nat n :: u32) = int n"
  by (simp add: signed_of_nat signed_take_bit_int_eq_self)

lemma count_less: "n < 2 ^ 32 \<Longrightarrow> m < 2 ^ 32 \<Longrightarrow> (of_nat m :: u32) < of_nat n \<longleftrightarrow> m < n"
  by (simp add: word_less_nat_alt unat_count)

lemma count_gt_1: "n < 2 ^ 32 \<Longrightarrow> (1 :: u32) < of_nat n \<longleftrightarrow> 1 < n"
  using count_less [of n 1] by simp

lemma count_gt_2: "n < 2 ^ 32 \<Longrightarrow> (2 :: u32) < of_nat n \<longleftrightarrow> 2 < n"
  using count_less [of n 2] by simp

lemma count_eq: "m < 2 ^ 32 \<Longrightarrow> n < 2 ^ 32 \<Longrightarrow> (of_nat m :: u32) = of_nat n \<longleftrightarrow> m = n"
  by (metis unat_count)

section \<open>Numbers in text\<close>

text \<open>\<open>atoi\<close> of the C library: white space, a sign, and the digits that follow.\<close>

fun digits_value :: "int \<Rightarrow> string \<Rightarrow> int" where
  "digits_value acc [] = acc"
| "digits_value acc (d # ds) =
     (let v = of_char d - 48 in if 0 \<le> v \<and> v \<le> 9 then digits_value (10 * acc + v) ds else acc)"

fun atoi :: "string \<Rightarrow> int" where
  "atoi [] = 0"
| "atoi (d # ds) =
     (if d = CHR '' '' \<or> d = CHR 0x09 \<or> d = CHR 0x0A \<or> d = CHR 0x0B \<or> d = CHR 0x0C \<or> d = CHR 0x0D then atoi ds
      else if d = CHR ''-'' then - digits_value 0 ds
      else if d = CHR ''+'' then digits_value 0 ds
      else digits_value 0 (d # ds))"

section \<open>The ordered map of the standard library\<close>

type_synonym ('k, 'v) smap = "('k \<times> 'v) list"

fun smap_find :: "'k \<Rightarrow> ('k, 'v) smap \<Rightarrow> 'v option" where
  "smap_find k [] = None"
| "smap_find k ((a, b) # m) = (if k = a then Some b else smap_find k m)"

fun smap_set :: "'k::linorder \<Rightarrow> 'v \<Rightarrow> ('k, 'v) smap \<Rightarrow> ('k, 'v) smap" where
  "smap_set k v [] = [(k, v)]"
| "smap_set k v ((a, b) # m) =
     (if k < a then (k, v) # (a, b) # m
      else if k = a then (k, v) # m
      else (a, b) # smap_set k v m)"

fun smap_erase :: "'k \<Rightarrow> ('k, 'v) smap \<Rightarrow> ('k, 'v) smap" where
  "smap_erase k [] = []"
| "smap_erase k ((a, b) # m) = (if k = a then m else (a, b) # smap_erase k m)"

definition smap_insert :: "'k::linorder \<Rightarrow> 'v \<Rightarrow> ('k, 'v) smap \<Rightarrow> ('k, 'v) smap \<times> bool" where
  "smap_insert k v m =
     (case smap_find k m of Some _ \<Rightarrow> (m, False) | None \<Rightarrow> (smap_set k v m, True))"

definition smap_keys :: "('k, 'v) smap \<Rightarrow> 'k set" where
  "smap_keys m = set (map fst m)"

definition smap_ok :: "('k::linorder, 'v) smap \<Rightarrow> bool" where
  "smap_ok m \<longleftrightarrow> sorted_wrt (<) (map fst m)"

lemma smap_keys_simps [simp]:
  "smap_keys [] = {}" "smap_keys ((a, b) # m) = insert a (smap_keys m)"
  by (simp_all add: smap_keys_def)

lemma smap_keysI: "(k, v) \<in> set m \<Longrightarrow> k \<in> smap_keys m"
  by (force simp: smap_keys_def)

lemma smap_ok_simps [simp]:
  "smap_ok []" "smap_ok ((a, b) # m) \<longleftrightarrow> (\<forall>k \<in> smap_keys m. a < k) \<and> smap_ok m"
  by (auto simp: smap_ok_def smap_keys_def)

lemma smap_find_None: "smap_find k m = None \<longleftrightarrow> k \<notin> smap_keys m"
  by (induction m rule: smap_find.induct) auto

lemma smap_find_Some: "(\<exists>v. smap_find k m = Some v) \<longleftrightarrow> k \<in> smap_keys m"
  using smap_find_None [of k m] by auto

lemma smap_find_mem: "smap_find k m = Some v \<Longrightarrow> (k, v) \<in> set m"
  by (induction m rule: smap_find.induct) (auto split: if_splits)

lemma smap_find_iff: "smap_ok m \<Longrightarrow> smap_find k m = Some v \<longleftrightarrow> (k, v) \<in> set m"
  by (induction k m rule: smap_find.induct) (auto dest: smap_keysI)

lemma smap_keys_set [simp]: "smap_keys (smap_set k v m) = insert k (smap_keys m)"
  by (induction k v m rule: smap_set.induct) auto

lemma smap_find_set [simp]:
  "smap_find j (smap_set k v m) = (if j = k then Some v else smap_find j m)"
  by (induction k v m rule: smap_set.induct) auto

lemma smap_ok_set [keeps]: "smap_ok m \<Longrightarrow> smap_ok (smap_set k v m)"
  by (induction k v m rule: smap_set.induct) (auto dest: less_trans)

lemma smap_find_erase:
  "smap_ok m \<Longrightarrow> smap_find j (smap_erase k m) = (if j = k then None else smap_find j m)"
  by (induction k m rule: smap_erase.induct) (auto simp: smap_find_None)

lemma smap_keys_erase: "smap_ok m \<Longrightarrow> smap_keys (smap_erase k m) = smap_keys m - {k}"
  by (induction k m rule: smap_erase.induct) auto

lemma smap_ok_erase [keeps]: "smap_ok m \<Longrightarrow> smap_ok (smap_erase k m)"
  by (induction k m rule: smap_erase.induct) (auto simp: smap_keys_erase)

lemma smap_insert_cases:
  "smap_insert k v m = (if k \<in> smap_keys m then (m, False) else (smap_set k v m, True))"
  by (auto simp: smap_insert_def smap_find_None [symmetric] split: option.splits)

lemma smap_ok_insert [keeps]: "smap_ok m \<Longrightarrow> smap_ok (fst (smap_insert k v m))"
  by (auto simp: smap_insert_cases keeps)

text \<open>What a client may rely on of an ordered map, and that the list model provides it.\<close>

locale ordered_map =
  fixes find :: "'k \<Rightarrow> 'm \<Rightarrow> 'v option"
    and insert :: "'k \<Rightarrow> 'v \<Rightarrow> 'm \<Rightarrow> 'm \<times> bool"
    and erase :: "'k \<Rightarrow> 'm \<Rightarrow> 'm"
    and ok :: "'m \<Rightarrow> bool"
  assumes find_insert_new:
      "ok m \<Longrightarrow> find k m = None \<Longrightarrow> insert k v m = (m', b) \<Longrightarrow>
         b \<and> find j m' = (if j = k then Some v else find j m)"
    and insert_dup: "ok m \<Longrightarrow> find k m = Some w \<Longrightarrow> insert k v m = (m, False)"
    and find_erase: "ok m \<Longrightarrow> find j (erase k m) = (if j = k then None else find j m)"
    and ok_insert: "ok m \<Longrightarrow> insert k v m = (m', b) \<Longrightarrow> ok m'"
    and ok_erase: "ok m \<Longrightarrow> ok (erase k m)"
begin

lemma insert_idem:
  assumes "ok m" and "insert k v m = (m', b)"
  shows "insert k w m' = (m', False)"
proof (cases "find k m")
  case None
  with assms have "find k m' = Some v"
    using find_insert_new [of m k v m' b k] by simp
  with assms show ?thesis by (blast intro: insert_dup ok_insert)
next
  case (Some u)
  with assms insert_dup [of m k u v] have "m' = m" by simp
  with assms Some show ?thesis by (simp add: insert_dup)
qed

lemma insert_result: "ok m \<Longrightarrow> insert k v m = (m', b) \<Longrightarrow> b \<longleftrightarrow> find k m = None"
  by (cases "find k m") (auto simp: insert_dup dest: find_insert_new [where j = k])

lemma insert_frame:
  "ok m \<Longrightarrow> insert k v m = (m', b) \<Longrightarrow> j \<noteq> k \<Longrightarrow> find j m' = find j m"
  by (cases "find k m") (auto simp: insert_dup dest: find_insert_new [where j = j])

lemma erase_insert:
  assumes "ok m" and "find k m = None" and "insert k v m = (m', b)"
  shows "find j (erase k m') = find j m"
proof -
  have "ok m'" using assms ok_insert by blast
  then show ?thesis using assms find_insert_new [of m k v m' b j] by (auto simp: find_erase)
qed

end

interpretation stdmap: ordered_map smap_find smap_insert smap_erase smap_ok
  by unfold_locales
    (auto simp: smap_insert_cases smap_find_erase smap_find_None keeps split: if_splits
      dest: smap_find_Some [THEN iffD1, OF exI])

section \<open>The ordered set of the standard library\<close>

abbreviation sset_insert :: "'a::linorder \<Rightarrow> 'a list \<Rightarrow> 'a list" where
  "sset_insert \<equiv> insort_insert"

definition sset_erase :: "'a \<Rightarrow> 'a list \<Rightarrow> 'a list" where
  "sset_erase x xs = filter (\<lambda>y. y \<noteq> x) xs"

definition sset_ok :: "'a::linorder list \<Rightarrow> bool" where
  "sset_ok xs \<longleftrightarrow> sorted xs \<and> distinct xs"

lemma set_sset_erase [simp]: "set (sset_erase x xs) = set xs - {x}"
  by (auto simp: sset_erase_def)

lemma sset_ok_insert [keeps]: "sset_ok xs \<Longrightarrow> sset_ok (sset_insert x xs)"
  by (simp add: sset_ok_def sorted_insort_insert distinct_insort_insert)

lemma sset_ok_erase [keeps]: "sset_ok xs \<Longrightarrow> sset_ok (sset_erase x xs)"
  by (simp add: sset_ok_def sset_erase_def sorted_filter [of "\<lambda>x. x", simplified])

lemma sset_ok_Nil [simp]: "sset_ok []"
  by (simp add: sset_ok_def)

section \<open>The contract of a multi-index container\<close>

text \<open>
  \<open>boost::multi_index_container<V, indexed_by<...>>\<close>: \<open>insert\<close> refuses an element that has the same
  key as a stored one in some unique index and returns whether it inserted; \<open>erase\<close> on an index
  removes the elements with the given key; \<open>find\<close> on an index returns an element with the given key
  or the end iterator; \<open>equal_range\<close> gives the elements with the given key. An index and a key are
  given as the predicate "has this key in this index".
\<close>

record 'r mi_ops =
  mi_insert :: "'r \<Rightarrow> 'r list \<Rightarrow> 'r list \<times> bool"
  mi_erase :: "('r \<Rightarrow> bool) \<Rightarrow> 'r list \<Rightarrow> 'r list"
  mi_find :: "('r \<Rightarrow> bool) \<Rightarrow> 'r list \<Rightarrow> 'r option"
  mi_range :: "('r \<Rightarrow> bool) \<Rightarrow> 'r list \<Rightarrow> 'r list"

text \<open>\<open>clash x y\<close>: the two elements agree on the key of some unique index.\<close>

definition unique_keys :: "('r \<Rightarrow> 'r \<Rightarrow> bool) \<Rightarrow> 'r list \<Rightarrow> bool" where
  "unique_keys clash xs \<longleftrightarrow>
     distinct xs \<and> (\<forall>x \<in> set xs. \<forall>y \<in> set xs. clash x y \<longrightarrow> x = y)"

definition key_of_unique :: "('r \<Rightarrow> 'r \<Rightarrow> bool) \<Rightarrow> ('r \<Rightarrow> bool) \<Rightarrow> bool" where
  "key_of_unique clash P \<longleftrightarrow> (\<forall>x y. P x \<longrightarrow> P y \<longrightarrow> clash x y)"

lemma unique_keys_Nil [simp]: "unique_keys clash []"
  by (simp add: unique_keys_def)

lemma unique_keys_mset:
  "mset xs = mset ys \<Longrightarrow> unique_keys clash xs \<Longrightarrow> unique_keys clash ys"
  by (metis unique_keys_def mset_eq_imp_distinct_iff mset_eq_setD)

locale multi_index =
  fixes C :: "'r mi_ops" and clash :: "'r \<Rightarrow> 'r \<Rightarrow> bool"
  assumes clash_refl: "clash x x"
    and clash_sym: "clash x y \<Longrightarrow> clash y x"
    and insert_refused: "y \<in> set xs \<Longrightarrow> clash x y \<Longrightarrow> mi_insert C x xs = (xs, False)"
    and insert_done:
      "\<forall>y \<in> set xs. \<not> clash x y \<Longrightarrow>
         \<exists>ys. mi_insert C x xs = (ys, True) \<and> mset ys = add_mset x (mset xs)"
    and erase_mset: "mset (mi_erase C P xs) = filter_mset (\<lambda>x. \<not> P x) (mset xs)"
    and find_is: "mi_find C P xs = Some x \<Longrightarrow> x \<in> set xs \<and> P x"
    and find_not: "mi_find C P xs = None \<Longrightarrow> \<forall>x \<in> set xs. \<not> P x"
    and range_mset: "mset (mi_range C P xs) = filter_mset P (mset xs)"
begin

lemma set_erase: "set (mi_erase C P xs) = {x \<in> set xs. \<not> P x}"
  using arg_cong [OF erase_mset, of set_mset] by simp

lemma set_range: "set (mi_range C P xs) = {x \<in> set xs. P x}"
  using arg_cong [OF range_mset, of set_mset] by simp

lemma insert_flag: "snd (mi_insert C x xs) \<longleftrightarrow> (\<forall>y \<in> set xs. \<not> clash x y)"
  using insert_refused insert_done by (metis snd_conv)

lemma insert_contents:
  "mset (fst (mi_insert C x xs)) = (if snd (mi_insert C x xs) then add_mset x (mset xs) else mset xs)"
  using insert_refused [of _ xs x] insert_done [of xs x] by (cases "\<forall>y \<in> set xs. \<not> clash x y") auto

lemma set_insert:
  "set (fst (mi_insert C x xs)) = (if snd (mi_insert C x xs) then insert x (set xs) else set xs)"
  using arg_cong [OF insert_contents, of set_mset] by (auto split: if_splits)

lemma unique_insert:
  assumes "unique_keys clash xs"
  shows "unique_keys clash (fst (mi_insert C x xs))"
proof (cases "snd (mi_insert C x xs)")
  case True
  then have fresh: "\<forall>y \<in> set xs. \<not> clash x y" by (simp add: insert_flag)
  then have "unique_keys clash (x # xs)"
    using assms clash_refl clash_sym by (fastforce simp: unique_keys_def)
  moreover have "mset (x # xs) = mset (fst (mi_insert C x xs))"
    using True by (simp add: insert_contents)
  ultimately show ?thesis by (blast intro: unique_keys_mset)
next
  case False
  then have "mset xs = mset (fst (mi_insert C x xs))" by (simp add: insert_contents)
  with assms show ?thesis by (blast intro: unique_keys_mset)
qed

lemma unique_erase:
  assumes "unique_keys clash xs"
  shows "unique_keys clash (mi_erase C P xs)"
proof -
  have "unique_keys clash (filter (\<lambda>x. \<not> P x) xs)"
    using assms by (auto simp: unique_keys_def)
  moreover have "mset (filter (\<lambda>x. \<not> P x) xs) = mset (mi_erase C P xs)"
    by (simp add: erase_mset)
  ultimately show ?thesis by (blast intro: unique_keys_mset)
qed

lemma find_unique:
  assumes "unique_keys clash xs" and "key_of_unique clash P" and "x \<in> set xs" and "P x"
  shows "mi_find C P xs = Some x"
proof (cases "mi_find C P xs")
  case None
  then show ?thesis using find_not assms by blast
next
  case (Some y)
  then have "y \<in> set xs" "P y" using find_is by blast+
  with assms Some show ?thesis by (auto simp: unique_keys_def key_of_unique_def)
qed

lemma find_erased: "mi_find C P (mi_erase C P xs) = None"
  using find_is [of P "mi_erase C P xs"] by (cases "mi_find C P (mi_erase C P xs)") (auto simp: set_erase)

lemma find_same_contents:
  assumes "unique_keys clash xs" and "key_of_unique clash P"
    and "{x \<in> set xs. P x} = {x \<in> set ys. P x}" and "unique_keys clash ys"
  shows "mi_find C P ys = mi_find C P xs"
proof (cases "mi_find C P xs")
  case None
  then have "\<forall>x \<in> set ys. \<not> P x" using find_not [of P xs] assms(3) by blast
  then show ?thesis using None find_is [of P ys] by (cases "mi_find C P ys") auto
next
  case (Some x)
  then have "x \<in> set ys" "P x" using find_is [of P xs x] assms(3) by blast+
  with assms Some show ?thesis by (simp add: find_unique)
qed

lemma find_inserted:
  assumes "unique_keys clash xs" and "key_of_unique clash P" and "snd (mi_insert C x xs)"
  shows "mi_find C P (fst (mi_insert C x xs)) = (if P x then Some x else mi_find C P xs)"
proof (cases "P x")
  case True
  with assms show ?thesis by (simp add: find_unique unique_insert set_insert)
next
  case False
  then have "{y \<in> set xs. P y} = {y \<in> set (fst (mi_insert C x xs)). P y}"
    using assms(3) by (auto simp: set_insert)
  from find_same_contents [OF assms(1,2) this unique_insert [OF assms(1)]] False
  show ?thesis by simp
qed

lemma find_erase:
  assumes "unique_keys clash xs" and "key_of_unique clash P"
  shows "mi_find C P (mi_erase C Q xs) =
    (case mi_find C P xs of None \<Rightarrow> None | Some x \<Rightarrow> if Q x then None else Some x)"
proof (cases "mi_find C P xs")
  case None
  then have "\<forall>x \<in> set (mi_erase C Q xs). \<not> P x" using find_not by (auto simp: set_erase)
  then show ?thesis using None find_is [of P "mi_erase C Q xs"]
    by (cases "mi_find C P (mi_erase C Q xs)") auto
next
  case (Some x)
  then have x: "x \<in> set xs" "P x" using find_is by blast+
  show ?thesis
  proof (cases "Q x")
    case True
    have "\<forall>y \<in> set (mi_erase C Q xs). \<not> P y"
      using x True assms by (auto simp: set_erase unique_keys_def key_of_unique_def)
    then show ?thesis using Some True find_is [of P "mi_erase C Q xs"]
      by (cases "mi_find C P (mi_erase C Q xs)") auto
  next
    case False
    with x have "mi_find C P (mi_erase C Q xs) = Some x"
      using assms by (intro find_unique) (auto simp: unique_erase set_erase)
    with Some False show ?thesis by simp
  qed
qed

text \<open>A container with a single unique index: \<open>P\<close> is "has the key of \<open>x\<close>".\<close>

lemma insert_single_flag:
  assumes "\<And>y. clash x y \<longleftrightarrow> P y"
  shows "snd (mi_insert C x xs) \<longleftrightarrow> mi_find C P xs = None"
proof
  assume "snd (mi_insert C x xs)"
  then have "\<forall>y \<in> set xs. \<not> P y" by (simp add: insert_flag assms)
  then show "mi_find C P xs = None" using find_is by (cases "mi_find C P xs") auto
next
  assume "mi_find C P xs = None"
  then show "snd (mi_insert C x xs)" using find_not by (simp add: insert_flag assms)
qed

lemma insert_single_find:
  assumes "\<And>y. clash x y \<longleftrightarrow> P y" and "unique_keys clash xs" and "key_of_unique clash Q"
    and "Q x \<Longrightarrow> Q = P"
  shows "mi_find C Q (fst (mi_insert C x xs)) =
    (if Q x \<and> mi_find C Q xs = None then Some x else mi_find C Q xs)"
proof (cases "snd (mi_insert C x xs)")
  case True
  then have "mi_find C P xs = None" using insert_single_flag [OF assms(1)] by blast
  with True assms(2-4) show ?thesis by (auto simp: find_inserted)
next
  case False
  then have "mi_find C P xs \<noteq> None" using insert_single_flag [OF assms(1)] by blast
  moreover obtain y where "y \<in> set xs" "clash x y" using False by (auto simp: insert_flag)
  ultimately show ?thesis using assms(4) by (auto simp: insert_refused)
qed

lemma range_distinct: "unique_keys clash xs \<Longrightarrow> distinct (mi_range C P xs)"
  by (metis distinct_filter mset_eq_imp_distinct_iff mset_filter range_mset unique_keys_def)

end

text \<open>
  An executable container that meets the contract: elements in insertion order. It is the instance
  the witnesses run on.
\<close>

definition list_mi :: "('r \<Rightarrow> 'r \<Rightarrow> bool) \<Rightarrow> 'r mi_ops" where
  "list_mi clash =
     \<lparr>mi_insert = (\<lambda>x xs. if list_ex (clash x) xs then (xs, False) else (xs @ [x], True)),
      mi_erase = (\<lambda>P. filter (\<lambda>x. \<not> P x)),
      mi_find = List.find,
      mi_range = filter\<rparr>"

lemma list_mi_simps [simp]:
  "mi_insert (list_mi clash) x xs =
     (if list_ex (clash x) xs then (xs, False) else (xs @ [x], True))"
  "mi_erase (list_mi clash) P xs = filter (\<lambda>x. \<not> P x) xs"
  "mi_find (list_mi clash) P xs = List.find P xs"
  "mi_range (list_mi clash) P xs = filter P xs"
  by (simp_all add: list_mi_def)

lemma list_mi_multi_index:
  assumes "\<And>x. clash x x" and "\<And>x y. clash x y \<Longrightarrow> clash y x"
  shows "multi_index (list_mi clash) clash"
  using assms by unfold_locales (auto simp: list_ex_iff find_Some_iff find_None_iff)

end
