(* ===== verification/Protocol.thy ===== *)
theory Protocol
  imports Prelude
begin

text \<open>
  The vocabulary of messages the dispatcher, the peers and the controllers exchange. The C++ headers
  \<open>Common/SimMsgType.h\<close>, \<open>Common/SimMsgFlag.h\<close> and \<open>SamsonHeader.h\<close> are not part of the repository;
  the Ruby files \<open>SimMsgType.rb\<close>, \<open>SimMsgFlag.rb\<close> and \<open>SamsonHeader.rb\<close>, which the repository keeps
  in step with them, give the numbers, the masks and the fields.
\<close>

datatype SimMsgType =
    ROUTE | SUBSCRIBE | DATA | RECOVERABLE_ERROR_STATUS_RESPONSE | FATAL_ERROR_STATUS_RESPONSE
  | OK_STATUS_RESPONSE | STATUS_REQUEST | XML_COMMAND | START_FRAME | END_FRAME_REQUEST
  | END_FRAME_OK_RESPONSE | END_FRAME_ERROR_RESPONSE | END_FRAME_COMMAND | START_SIMULATION
  | END_SIMULATION | START_CASE | END_CASE | BREAKWIRE | IGNITION | INVOKE_REQUEST
  | INVOKE_RESPONSE | LOCATE_REQUEST | LOCATE_RESPONSE | HELLO | INIT | GOODBYE | D2D_CONNECT
  | GOODBYE_REQUEST | DISPATCHER_COMMAND | LOG_CHANNEL_STATUS | ADVANCE_TIME_REQUEST
  | TIME_ADVANCED | CONTROL | LOG_EVENT_CHANNEL_STATUS

fun type_code :: "SimMsgType \<Rightarrow> u32" where
  "type_code ROUTE = 0"
| "type_code SUBSCRIBE = 1"
| "type_code DATA = 2"
| "type_code RECOVERABLE_ERROR_STATUS_RESPONSE = 3"
| "type_code FATAL_ERROR_STATUS_RESPONSE = 4"
| "type_code OK_STATUS_RESPONSE = 5"
| "type_code STATUS_REQUEST = 6"
| "type_code XML_COMMAND = 7"
| "type_code START_FRAME = 8"
| "type_code END_FRAME_REQUEST = 9"
| "type_code END_FRAME_OK_RESPONSE = 10"
| "type_code END_FRAME_ERROR_RESPONSE = 11"
| "type_code END_FRAME_COMMAND = 12"
| "type_code START_SIMULATION = 13"
| "type_code END_SIMULATION = 14"
| "type_code START_CASE = 15"
| "type_code END_CASE = 16"
| "type_code BREAKWIRE = 17"
| "type_code IGNITION = 18"
| "type_code INVOKE_REQUEST = 19"
| "type_code INVOKE_RESPONSE = 20"
| "type_code LOCATE_REQUEST = 21"
| "type_code LOCATE_RESPONSE = 22"
| "type_code HELLO = 23"
| "type_code INIT = 24"
| "type_code GOODBYE = 25"
| "type_code D2D_CONNECT = 26"
| "type_code GOODBYE_REQUEST = 27"
| "type_code DISPATCHER_COMMAND = 28"
| "type_code LOG_CHANNEL_STATUS = 29"
| "type_code ADVANCE_TIME_REQUEST = 30"
| "type_code TIME_ADVANCED = 31"
| "type_code CONTROL = 32"
| "type_code LOG_EVENT_CHANNEL_STATUS = 33"

datatype SimMsgFlag =
    flag_object | flag_strip_header | flag_trace | flag_log_it
  | flag_b64_encode | flag_gzip | flag_b16_encode
  | flag_master_only | flag_nowhere | flag_job | flag_p2p | flag_p2ch | flag_control
  | flag_status_log_local | flag_status_log_dispatcherd | flag_status_log_sender

fun flag_mask :: "SimMsgFlag \<Rightarrow> u32" where
  "flag_mask flag_object = 0x00000001"
| "flag_mask flag_strip_header = 0x00000002"
| "flag_mask flag_trace = 0x00000004"
| "flag_mask flag_log_it = 0x00000008"
| "flag_mask flag_b64_encode = 0x00000010"
| "flag_mask flag_gzip = 0x00000020"
| "flag_mask flag_b16_encode = 0x00000040"
| "flag_mask flag_master_only = 0x00000100"
| "flag_mask flag_nowhere = 0x00000200"
| "flag_mask flag_job = 0x00000400"
| "flag_mask flag_p2p = 0x00000800"
| "flag_mask flag_p2ch = 0x00001000"
| "flag_mask flag_control = 0x00002000"
| "flag_mask flag_status_log_local = 0x00100000"
| "flag_mask flag_status_log_dispatcherd = 0x00200000"
| "flag_mask flag_status_log_sender = 0x00400000"

definition flag_test :: "u32 \<Rightarrow> SimMsgFlag \<Rightarrow> bool" where
  "flag_test v f \<longleftrightarrow> flag_mask f = v AND flag_mask f"

text \<open>
  The message header. \<open>h_connection_id\<close>, \<open>h_handle\<close> and \<open>h_encoded\<close> are the fields the C++ class keeps
  beside the ones on the wire.
\<close>

record SamsonHeader =
  h_magic :: bytes
  h_version_id :: u8
  h_dispatched :: u8
  h_run_id :: u32
  h_peer_id :: u32
  h_message_id :: u32
  h_app_msg_id :: u16
  h_unit_id :: u16
  h_flags :: u32
  h_type :: u32
  h_dest_peer_id :: u32
  h_frame_count :: u32
  h_send_count :: u32
  h_message_crc32 :: u32
  h_message_length :: u32
  h_connection_id :: int
  h_handle :: int
  h_encoded :: bool

definition blank_header :: SamsonHeader where
  "blank_header =
     \<lparr>h_magic = [0x53, 0x4E], h_version_id = 1, h_dispatched = 0, h_run_id = 0, h_peer_id = 0, h_message_id = 0, h_app_msg_id = 0, h_unit_id = 0,
      h_flags = 0, h_type = 0, h_dest_peer_id = 0, h_frame_count = 0, h_send_count = 0,
      h_message_crc32 = 0, h_message_length = 0, h_connection_id = 0, h_handle = 0, h_encoded = False\<rparr>"

definition header_enabled :: "SamsonHeader \<Rightarrow> SimMsgFlag \<Rightarrow> bool" where
  "header_enabled sh f \<longleftrightarrow> flag_test (h_flags sh) f"

definition has_type :: "SamsonHeader \<Rightarrow> SimMsgType \<Rightarrow> bool" where
  "has_type sh t \<longleftrightarrow> h_type sh = type_code t"

text \<open>Where a peer is attached (\<open>PeerRoute.h\<close> of the shared library).\<close>

record PeerRoute =
  pr_peer_id :: u32
  pr_node_id :: u32

lemma type_code_inj: "type_code s = type_code t \<longleftrightarrow> s = t"
  by (cases s; cases t; simp)

lemma has_type_unique: "has_type sh s \<Longrightarrow> has_type sh t \<longleftrightarrow> s = t"
  by (auto simp: has_type_def type_code_inj)

section \<open>The header on the wire\<close>

text \<open>
  The 48 bytes of a header, item by item: the magic (two characters, directive \<open>A2\<close> of \<open>pack\<close>: written
  padded with spaces, read without the spaces and zeros at its end), the version and the \<open>dispatched\<close> byte, then
  the fields in network byte order. A new header has the magic \<open>SN\<close> and version 1; decoding stores what it
  finds. It refuses a buffer that is too short.
\<close>

definition samson_header_length :: nat where
  "samson_header_length = 48"

definition be16 :: "u16 \<Rightarrow> bytes" where
  "be16 w = [ucast (drop_bit 8 w), ucast w]"

definition be32 :: "u32 \<Rightarrow> bytes" where
  "be32 w = [ucast (drop_bit 24 w), ucast (drop_bit 16 w), ucast (drop_bit 8 w), ucast w]"

definition of_be16 :: "bytes \<Rightarrow> u16" where
  "of_be16 bs = push_bit 8 (ucast (bs ! 0)) OR ucast (bs ! 1)"

definition of_be32 :: "bytes \<Rightarrow> u32" where
  "of_be32 bs = push_bit 24 (ucast (bs ! 0)) OR push_bit 16 (ucast (bs ! 1))
     OR push_bit 8 (ucast (bs ! 2)) OR ucast (bs ! 3)"

definition pack_A2 :: "bytes \<Rightarrow> bytes" where
  "pack_A2 m = take 2 (m @ [0x20, 0x20])"

definition unpack_A2 :: "bytes \<Rightarrow> bytes" where
  "unpack_A2 bs = rev (dropWhile (\<lambda>b. b = 0x20 \<or> b = 0) (rev (take 2 bs)))"

definition encode_header :: "SamsonHeader \<Rightarrow> bytes" where
  "encode_header h =
     pack_A2 (h_magic h) @ [h_version_id h, h_dispatched h] @ be32 (h_run_id h) @ be32 (h_peer_id h) @ be32 (h_message_id h)
     @ be16 (h_app_msg_id h) @ be16 (h_unit_id h) @ be32 (h_flags h) @ be32 (h_type h)
     @ be32 (h_dest_peer_id h) @ be32 (h_frame_count h) @ be32 (h_send_count h)
     @ be32 (h_message_crc32 h) @ be32 (h_message_length h)"

definition decode_header :: "bytes \<Rightarrow> SamsonHeader option" where
  "decode_header bs =
     (if length bs < samson_header_length then None
      else Some (blank_header
        \<lparr>h_magic := unpack_A2 bs, h_version_id := bs ! 2, h_dispatched := bs ! 3, h_run_id := of_be32 (drop 4 bs), h_peer_id := of_be32 (drop 8 bs),
         h_message_id := of_be32 (drop 12 bs), h_app_msg_id := of_be16 (drop 16 bs),
         h_unit_id := of_be16 (drop 18 bs), h_flags := of_be32 (drop 20 bs), h_type := of_be32 (drop 24 bs),
         h_dest_peer_id := of_be32 (drop 28 bs), h_frame_count := of_be32 (drop 32 bs),
         h_send_count := of_be32 (drop 36 bs), h_message_crc32 := of_be32 (drop 40 bs),
         h_message_length := of_be32 (drop 44 bs)\<rparr>))"

lemma of_be16_be16: "of_be16 (be16 w @ bs) = w"
proof (rule bit_word_eqI)
  fix n assume "n < LENGTH(16)"
  then show "bit (of_be16 (be16 w @ bs)) n = bit w n"
    by (cases "n < 8") (auto simp: of_be16_def be16_def bit_simps)
qed

lemma of_be32_be32: "of_be32 (be32 w @ bs) = w"
proof (rule bit_word_eqI)
  fix n assume "n < LENGTH(32)"
  then show "bit (of_be32 (be32 w @ bs)) n = bit w n"
    by (cases "n < 8"; cases "n < 16"; cases "n < 24") (auto simp: of_be32_def be32_def bit_simps)
qed

lemma length_be [simp]: "length (be16 w) = 2" "length (be32 v) = 4"
  by (simp_all add: be16_def be32_def)

lemma length_pack_A2 [simp]: "length (pack_A2 m) = 2"
  by (simp add: pack_A2_def)

lemma length_encode_header [simp]: "length (encode_header h) = samson_header_length"
  by (simp add: encode_header_def samson_header_length_def)

text \<open>A magic that \<open>A2\<close> can carry: at most two characters, the last of them neither a space nor a zero.\<close>

definition magic_ok :: "bytes \<Rightarrow> bool" where
  "magic_ok m \<longleftrightarrow> length m \<le> 2 \<and> (m \<noteq> [] \<longrightarrow> last m \<noteq> 0x20 \<and> last m \<noteq> 0)"

lemma unpack_pack_A2: "magic_ok m \<Longrightarrow> unpack_A2 (pack_A2 m @ bs) = m"
proof -
  assume ok: "magic_ok m"
  then consider "m = []" | a where "m = [a]" | a b where "m = [a, b]"
    by (cases m; cases "tl m"; cases "tl (tl m)") (auto simp: magic_ok_def)
  then show ?thesis using ok by cases (auto simp: magic_ok_def pack_A2_def unpack_A2_def)
qed

lemma pack_unpack_A2: "2 \<le> length bs \<Longrightarrow> bs ! 0 \<noteq> 0 \<Longrightarrow> bs ! 1 \<noteq> 0 \<Longrightarrow> pack_A2 (unpack_A2 bs) = take 2 bs"
proof -
  assume a: "2 \<le> length bs" "bs ! 0 \<noteq> 0" "bs ! 1 \<noteq> 0"
  then obtain x y cs where "bs = x # y # cs" by (metis Suc_le_length_iff numeral_2_eq_2)
  with a show ?thesis by (simp add: pack_A2_def unpack_A2_def)
qed

lemma decode_encode:
  "decode_header (encode_header h @ bs) =
     Some (h\<lparr>h_magic := unpack_A2 (pack_A2 (h_magic h)), h_connection_id := 0, h_handle := 0, h_encoded := False\<rparr>)"
proof -
  have b: "of_be32 (be32 v) = v" for v using of_be32_be32 [of v "[]"] by simp
  have m: "unpack_A2 (encode_header h @ bs) = unpack_A2 (pack_A2 (h_magic h))"
    by (simp add: unpack_A2_def encode_header_def)
  show ?thesis
    by (simp add: decode_header_def blank_header_def m, simp add: encode_header_def samson_header_length_def nth_append
        of_be16_be16 of_be32_be32 b)
qed

lemma decode_encode_header:
  assumes "magic_ok (h_magic h)"
  shows "decode_header (encode_header h @ bs) = Some (h\<lparr>h_connection_id := 0, h_handle := 0, h_encoded := False\<rparr>)"
  using unpack_pack_A2 [OF assms, of "[]"] by (simp add: decode_encode)

lemma magic_blank [simp]: "magic_ok (h_magic blank_header)"
  by (simp add: magic_ok_def blank_header_def)

lemma byte_bit: "8 \<le> n \<Longrightarrow> \<not> bit (b :: u8) n"
  using bit_imp_le_length [of b n] by auto

lemma be16_of_be16: "2 \<le> length bs \<Longrightarrow> be16 (of_be16 bs) = take 2 bs"
proof -
  assume "2 \<le> length bs"
  then obtain a b cs where "bs = a # b # cs" by (metis Suc_le_length_iff numeral_2_eq_2)
  then show ?thesis
    by (simp add: be16_def of_be16_def) (auto intro!: bit_word_eqI simp: bit_simps byte_bit)
qed

lemma be32_of_be32: "4 \<le> length bs \<Longrightarrow> be32 (of_be32 bs) = take 4 bs"
proof -
  assume "4 \<le> length bs"
  then obtain a b c d cs where "bs = a # b # c # d # cs" by (auto simp: numeral_eq_Suc Suc_le_length_iff)
  then show ?thesis
    by (simp add: be32_def of_be32_def) (auto intro!: bit_word_eqI simp: bit_simps byte_bit)
qed

lemma take_drop_join: "k = n + m \<Longrightarrow> take m (drop n bs) @ drop k bs = drop n bs"
  by (metis append_take_drop_id drop_drop add.commute)

lemma encode_decode_header:
  assumes "length bs = 48" and "bs ! 0 \<noteq> 0" and "bs ! 1 \<noteq> 0" and "decode_header bs = Some h"
  shows "encode_header h = bs"
proof -
  have "bs = take 2 bs @ [bs ! 2, bs ! 3] @ take 4 (drop 4 bs) @ take 4 (drop 8 bs) @ take 4 (drop 12 bs) @ take 2 (drop 16 bs)
      @ take 2 (drop 18 bs) @ take 4 (drop 20 bs) @ take 4 (drop 24 bs) @ take 4 (drop 28 bs)
      @ take 4 (drop 32 bs) @ take 4 (drop 36 bs) @ take 4 (drop 40 bs) @ take 4 (drop 44 bs)"
    (is "_ = ?rhs")
  proof -
    have "bs ! 2 # drop 3 bs = drop 2 bs" "bs ! 3 # drop 4 bs = drop 3 bs"
      using assms(1) Cons_nth_drop_Suc [of 2 bs] Cons_nth_drop_Suc [of 3 bs] by simp_all
    then show ?thesis using assms(1) by (simp add: take_drop_join)
  qed
  with assms pack_unpack_A2 [of bs] show ?thesis
    by (auto simp: decode_header_def encode_header_def samson_header_length_def be16_of_be16 be32_of_be32)
qed

lemma decode_header_None: "decode_header bs = None \<longleftrightarrow> length bs < samson_header_length"
  by (simp add: decode_header_def)

text \<open>
  C37. The wire format of headers. Decoding what \<open>encode_header\<close> wrote, followed by anything, gives every item on the wire
  back, the magic and the version included, for a magic of at most two characters that does not end in a space or
  a zero (a new header has \<open>SN\<close>); decoding fails exactly on fewer than 48 bytes; and encoding the header that was read from 48 bytes gives these
  bytes again, unless there is a zero in the magic, which is written back as a space at the end.
\<close>

theorem header_roundtrip:
  "(magic_ok (h_magic h) \<longrightarrow> decode_header (encode_header h @ bs) =
     Some (h\<lparr>h_connection_id := 0, h_handle := 0, h_encoded := False\<rparr>)) \<and>
   (decode_header bs = None \<longleftrightarrow> length bs < samson_header_length) \<and>
   (decode_header bs = Some g \<and> length bs = 48 \<and> bs ! 0 \<noteq> 0 \<and> bs ! 1 \<noteq> 0 \<longrightarrow> encode_header g = bs)"
  using decode_encode_header [of h bs] decode_header_None [of bs] encode_decode_header [of bs g] by simp

theorem header_roundtrip_witness:
  "\<exists>g. decode_header (encode_header blank_header) = Some blank_header \<and>
    decode_header (9 # 9 # 9 # replicate 45 7) = Some g \<and> encode_header g = 9 # 9 # 9 # replicate 45 7"
proof -
  obtain g where g: "decode_header (9 # 9 # 9 # replicate 45 7) = Some g"
    by (simp add: decode_header_def samson_header_length_def)
  have "blank_header\<lparr>h_connection_id := 0, h_handle := 0, h_encoded := False\<rparr> = blank_header" by (simp add: blank_header_def)
  with g header_roundtrip [of blank_header "[]"] header_roundtrip [where bs = "9 # 9 # 9 # replicate 45 7" and g = g] show ?thesis by simp
qed

text \<open>The exception is real: a zero at the end of the magic comes back as a space.\<close>

lemma zero_in_magic_changed:
  "\<exists>g. decode_header (0x53 # 0 # replicate 46 0) = Some g \<and> encode_header g \<noteq> 0x53 # 0 # replicate 46 0"
  by (simp add: decode_header_def samson_header_length_def encode_header_def pack_A2_def unpack_A2_def)

end
