(* ===== verification/ReceiveHandler.thy ===== *)
theory ReceiveHandler
  imports Protocol
begin

text \<open>
  \<open>ReceiveHandler\<close>: the framing of messages on a stream socket. \<open>recv_header\<close> is called by the reactor
  whenever the socket is readable; it keeps what it has of the current message in \<open>header_frag_\<close>,
  \<open>header_recvd_\<close> and \<open>data_frag_\<close> and hands a message over when it is complete. \<open>recv_noheader\<close> takes
  whatever one read gives.

  The socket (\<open>peer().recv\<close>), the header class behind the \<open>EventHeader\<close> interface and the allocator are
  code outside the repository: they are the fields of the record \<open>rx_env\<close>. The locale \<open>stream_socket\<close>
  states what TCP promises of the socket and what a fixed-length header does.

  A result \<open>None\<close> of an operation is undefined behaviour of the C++ code: a write outside the header
  object, or a null pointer that is followed.
\<close>

datatype errno = NO_ERROR | EWOULDBLOCK | OTHER_ERROR

text \<open>One \<open>recv\<close>: the bytes that arrived (none at end of file), or \<open>-1\<close> with \<open>errno\<close> set.\<close>

datatype rx = Rx bytes | RxFail errno

text \<open>An \<open>EventHeader\<close> object: the memory behind \<open>addr()\<close> and the decoded fields.\<close>

record EventHeaderObj =
  eh_raw :: bytes
  eh_hdr :: SamsonHeader

record 'k rx_env =
  sock_recv :: "'k \<Rightarrow> nat \<Rightarrow> rx \<times> 'k"
  sock_readable :: "'k \<Rightarrow> bool"
  evh_get :: "int \<Rightarrow> EventHeaderObj option"
  evh_length :: "EventHeaderObj \<Rightarrow> int"
  evh_decode :: "EventHeaderObj \<Rightarrow> EventHeaderObj"
  evh_data_length :: "EventHeaderObj \<Rightarrow> int"
  evh_set_data_length :: "int \<Rightarrow> EventHeaderObj \<Rightarrow> EventHeaderObj"
  mb_alloc :: "nat \<Rightarrow> bool"

record rx_state =
  data_frag :: "bytes option"
  header_frag :: "EventHeaderObj option"
  header_recvd :: int

text \<open>The constructor.\<close>

definition rx_init :: rx_state where
  "rx_init = \<lparr>data_frag = None, header_frag = None, header_recvd = 0\<rparr>"

text \<open>
  What a receive action gives: its result, \<open>errno\<close>, the event and the header it hands over, and the new
  state of the handler and of the socket.
\<close>

record 'k rx_result =
  rx_ret :: int
  rx_errno :: errno
  rx_event :: "bytes option"
  rx_header :: "EventHeaderObj option"
  rx_next :: rx_state
  rx_sock :: 'k

section \<open>recv\_header\<close>

text \<open>The number \<open>recv\<close> returns, and the value of \<open>errno\<close> after it.\<close>

fun rx_count :: "rx \<Rightarrow> int" where
  "rx_count (Rx bs) = int (length bs)"
| "rx_count (RxFail e) = -1"

fun rx_err :: "rx \<Rightarrow> errno \<Rightarrow> errno" where
  "rx_err (Rx bs) e = e"
| "rx_err (RxFail e') e = e'"

fun rx_bytes :: "rx \<Rightarrow> bytes" where
  "rx_bytes (Rx bs) = bs"
| "rx_bytes (RxFail e) = []"

text \<open>Writing the received bytes at an offset of a buffer; outside the buffer it is undefined.\<close>

definition write_at :: "int \<Rightarrow> bytes \<Rightarrow> bytes \<Rightarrow> bytes option" where
  "write_at i bs buf =
     (if bs = [] then Some buf
      else if 0 \<le> i \<and> nat i + length bs \<le> length buf
      then Some (take (nat i) buf @ bs @ drop (nat i + length bs) buf)
      else None)"

text \<open>Stages 3 to 5 of \<open>recv_header\<close>: the header \<open>eh\<close> is complete, \<open>err\<close> is \<open>errno\<close> so far.\<close>

definition recv_data ::
  "'k rx_env \<Rightarrow> EventHeaderObj \<Rightarrow> errno \<Rightarrow> rx_state \<Rightarrow> 'k \<Rightarrow> 'k rx_result" where
  "recv_data E eh err st k =
     (let total = evh_data_length E eh in
      if total > 0 then
        (if data_frag st = None \<and> \<not> mb_alloc E (nat total)
         then \<lparr>rx_ret = -2, rx_errno = OTHER_ERROR, rx_event = None, rx_header = None, rx_next = st, rx_sock = k\<rparr>
         else
           (let frag = (case data_frag st of Some d \<Rightarrow> d | None \<Rightarrow> []);
                st1 = st\<lparr>data_frag := Some frag\<rparr>;
                left = total - int (length frag);
                (r, k1) = (if left = 0 then (Rx [], k) else sock_recv E k (nat left));
                err1 = rx_err r err
            in case r of
                 RxFail e \<Rightarrow>
                   \<lparr>rx_ret = (if e = EWOULDBLOCK then -1 else 0), rx_errno = err1, rx_event = None,
                    rx_header = None, rx_next = st1, rx_sock = k1\<rparr>
               | Rx bs \<Rightarrow>
                   if bs = [] then
                     \<lparr>rx_ret = -1, rx_errno = EWOULDBLOCK, rx_event = None, rx_header = None,
                      rx_next = st1, rx_sock = k1\<rparr>
                   else if int (length bs) \<noteq> left then
                     \<lparr>rx_ret = -1, rx_errno = EWOULDBLOCK, rx_event = None, rx_header = None,
                      rx_next = st1\<lparr>data_frag := Some (frag @ bs)\<rparr>, rx_sock = k1\<rparr>
                   else
                     \<lparr>rx_ret = header_recvd st + total, rx_errno = err1, rx_event = Some (frag @ bs),
                      rx_header = Some eh, rx_next = rx_init, rx_sock = k1\<rparr>))
      else if total < 0 then
        \<lparr>rx_ret = -2, rx_errno = err, rx_event = None, rx_header = None,
         rx_next = st\<lparr>header_frag := None, header_recvd := 0\<rparr>, rx_sock = k\<rparr>
      else
        \<lparr>rx_ret = header_recvd st, rx_errno = err, rx_event = None, rx_header = Some eh,
         rx_next = rx_init, rx_sock = k\<rparr>)"

text \<open>
  The whole function. \<open>type_id\<close>, \<open>cid\<close> and \<open>hndl\<close> are \<open>header_type_id_\<close>, \<open>connection_id_\<close> and the
  handle of the connection.
\<close>

definition fill_hidden :: "int \<Rightarrow> int \<Rightarrow> EventHeaderObj \<Rightarrow> EventHeaderObj" where
  "fill_hidden cid hndl eh =
     eh\<lparr>eh_hdr := (eh_hdr eh)\<lparr>h_connection_id := cid, h_handle := hndl\<rparr>\<rparr>"

definition set_encoded :: "bool \<Rightarrow> EventHeaderObj \<Rightarrow> EventHeaderObj" where
  "set_encoded b eh = eh\<lparr>eh_hdr := (eh_hdr eh)\<lparr>h_encoded := b\<rparr>\<rparr>"

definition recv_header ::
  "'k rx_env \<Rightarrow> int \<Rightarrow> int \<Rightarrow> int \<Rightarrow> errno \<Rightarrow> rx_state \<Rightarrow> 'k \<Rightarrow> 'k rx_result option" where
  "recv_header E type_id cid hndl err st k =
     (let start = (case header_frag st of
          Some eh \<Rightarrow> Some (eh, st)
        | None \<Rightarrow> (case evh_get E type_id of
              None \<Rightarrow> None
            | Some eh \<Rightarrow> Some (eh, st\<lparr>header_frag := Some eh, header_recvd := 0\<rparr>)))
      in case start of
           None \<Rightarrow> Some \<lparr>rx_ret = -2, rx_errno = err, rx_event = None, rx_header = None, rx_next = st, rx_sock = k\<rparr>
         | Some (eh, st1) \<Rightarrow>
             (let size = evh_length E eh in
              if header_recvd st1 \<noteq> size then
                (let (r, k1) = sock_recv E k (nat (size - header_recvd st1));
                     recvd = header_recvd st1 + rx_count r;
                     err1 = rx_err r NO_ERROR
                 in case write_at (header_recvd st1) (rx_bytes r) (eh_raw eh) of
                      None \<Rightarrow> None
                    | Some raw \<Rightarrow>
                        (let eh1 = eh\<lparr>eh_raw := raw\<rparr>;
                             st2 = st1\<lparr>header_frag := Some eh1, header_recvd := recvd\<rparr>
                         in if recvd \<noteq> size then
                              (let (res, err2) =
                                 (if recvd > 0 \<and> err1 = NO_ERROR then (-1, EWOULDBLOCK)
                                  else if err1 = EWOULDBLOCK then (-1, err1)
                                  else (0, err1))
                               in Some \<lparr>rx_ret = res, rx_errno = err2, rx_event = None, rx_header = None,
                                        rx_next = st2, rx_sock = k1\<rparr>)
                            else
                              (let eh2 = fill_hidden cid hndl (evh_decode E (set_encoded True eh1))
                               in Some (recv_data E eh2 err1 (st2\<lparr>header_frag := Some eh2\<rparr>) k1))))
              else Some (recv_data E eh err st1 k)))"

section \<open>recv\_noheader\<close>

text \<open>\<open>read_buff\<close> is that of the connection record; a failed header allocation is only logged.\<close>

definition recv_noheader ::
  "'k rx_env \<Rightarrow> int \<Rightarrow> int \<Rightarrow> int \<Rightarrow> u32 \<Rightarrow> errno \<Rightarrow> rx_state \<Rightarrow> 'k \<Rightarrow> 'k rx_result option" where
  "recv_noheader E type_id cid hndl read_buff err st k =
     (let max_size = (if sint read_buff \<noteq> 0 then sint read_buff else 1024);
          size_t = nat (max_size mod 2 ^ 64);
          hdr = evh_get E type_id
      in if \<not> mb_alloc E size_t
         then Some \<lparr>rx_ret = -1, rx_errno = OTHER_ERROR, rx_event = None, rx_header = hdr, rx_next = st, rx_sock = k\<rparr>
         else
           (let (r, k1) = sock_recv E k size_t in
            case r of
              RxFail e \<Rightarrow>
                Some \<lparr>rx_ret = (if e = EWOULDBLOCK then -1 else 0), rx_errno = e, rx_event = None,
                      rx_header = None, rx_next = st, rx_sock = k1\<rparr>
            | Rx bs \<Rightarrow>
                if bs = [] then
                  Some \<lparr>rx_ret = 0, rx_errno = err, rx_event = None, rx_header = None, rx_next = st, rx_sock = k1\<rparr>
                else
                  (case hdr of
                     None \<Rightarrow> None
                   | Some eh \<Rightarrow>
                       Some \<lparr>rx_ret = int (length bs), rx_errno = err, rx_event = Some bs,
                             rx_header = Some (evh_set_data_length E (int (length bs)) (fill_hidden cid hndl eh)),
                             rx_next = st, rx_sock = k1\<rparr>)))"

section \<open>Reassembly of messages\<close>

text \<open>
  The calls the reactor makes: \<open>recv_header\<close> is called while the socket is readable; a positive result
  hands a message to the event channel, a short read waits, anything else ends the connection.
\<close>

type_synonym rx_message = "EventHeaderObj option \<times> bytes option"

fun rx_pump ::
  "'k rx_env \<Rightarrow> int \<Rightarrow> int \<Rightarrow> int \<Rightarrow> nat \<Rightarrow> rx_state \<Rightarrow> 'k \<Rightarrow> (rx_message list \<times> rx_state \<times> 'k) option" where
  "rx_pump E t cid h 0 st k = Some ([], st, k)"
| "rx_pump E t cid h (Suc n) st k =
     (if \<not> sock_readable E k then Some ([], st, k)
      else case recv_header E t cid h NO_ERROR st k of
        None \<Rightarrow> None
      | Some r \<Rightarrow>
          if rx_ret r > 0 then
            map_option (\<lambda>(ms, st', k'). ((rx_header r, rx_event r) # ms, st', k'))
              (rx_pump E t cid h n (rx_next r) (rx_sock r))
          else if rx_ret r < 0 \<and> rx_errno r = EWOULDBLOCK then rx_pump E t cid h n (rx_next r) (rx_sock r)
          else Some ([], rx_next r, rx_sock r))"

text \<open>The header object a complete raw header gives, and the message delivered for a frame.\<close>

definition framed_header :: "'k rx_env \<Rightarrow> int \<Rightarrow> int \<Rightarrow> int \<Rightarrow> bytes \<Rightarrow> EventHeaderObj" where
  "framed_header E t cid h raw =
     fill_hidden cid h (evh_decode E (set_encoded True ((case evh_get E t of Some eh \<Rightarrow> eh | None \<Rightarrow> undefined)\<lparr>eh_raw := raw\<rparr>)))"

definition delivered :: "'k rx_env \<Rightarrow> int \<Rightarrow> int \<Rightarrow> int \<Rightarrow> bytes \<times> bytes \<Rightarrow> rx_message" where
  "delivered E t cid h m =
     (Some (framed_header E t cid h (fst m)), if snd m = [] then None else Some (snd m))"

text \<open>A frame: a raw header of the fixed size that announces the length of the data after it.\<close>

definition is_frame :: "'k rx_env \<Rightarrow> int \<Rightarrow> int \<Rightarrow> int \<Rightarrow> nat \<Rightarrow> bytes \<times> bytes \<Rightarrow> bool" where
  "is_frame E t cid h hsize m \<longleftrightarrow>
     length (fst m) = hsize \<and>
     evh_data_length E (framed_header E t cid h (fst m)) = int (length (snd m))"

abbreviation wire :: "(bytes \<times> bytes) list \<Rightarrow> bytes" where
  "wire ms \<equiv> concat (map (\<lambda>m. fst m @ snd m) ms)"

text \<open>
  What the receiver relies on. \<open>pending k\<close> are the bytes the peer sent that were not read: a read on a
  socket with pending bytes gives a non-empty prefix of them that fits the buffer, of any length (TCP
  may cut the stream anywhere); a read on one without fails with \<open>EWOULDBLOCK\<close>. The header class
  has a fixed size, and memory is available.
\<close>

locale stream_socket =
  fixes E :: "'k rx_env" and t :: int and pending :: "'k \<Rightarrow> bytes" and hsize :: nat
  assumes readable: "sock_readable E k \<longleftrightarrow> pending k \<noteq> []"
    and recv_some: "pending k \<noteq> [] \<Longrightarrow> 0 < n \<Longrightarrow>
      \<exists>bs k'. sock_recv E k n = (Rx bs, k') \<and> bs \<noteq> [] \<and> length bs \<le> n \<and> pending k = bs @ pending k'"
    and recv_none: "pending k = [] \<Longrightarrow> 0 < n \<Longrightarrow>
      \<exists>k'. sock_recv E k n = (RxFail EWOULDBLOCK, k') \<and> pending k' = []"
    and header_size: "0 < hsize"
    and new_header: "\<exists>eh. evh_get E t = Some eh \<and> length (eh_raw eh) = hsize"
    and fixed_size: "evh_length E eh = int hsize"
    and memory: "mb_alloc E n"
begin

abbreviation new_eh :: EventHeaderObj where
  "new_eh \<equiv> (case evh_get E t of Some eh \<Rightarrow> eh | None \<Rightarrow> undefined)"

text \<open>\<open>part\<close>: the handler has exactly the prefix \<open>pre\<close> of the frame \<open>(raw, d)\<close>.\<close>

definition part :: "int \<Rightarrow> int \<Rightarrow> bytes \<Rightarrow> bytes \<Rightarrow> rx_state \<Rightarrow> bytes \<Rightarrow> bool" where
  "part cid h raw d st pre \<longleftrightarrow>
     st = rx_init \<and> pre = [] \<or>
     (\<exists>buf. st = \<lparr>data_frag = None, header_frag = Some (new_eh\<lparr>eh_raw := buf\<rparr>), header_recvd = int (length pre)\<rparr>
        \<and> length pre < hsize \<and> length buf = hsize \<and> take (length pre) buf = pre) \<or>
     (\<exists>dpre. st = \<lparr>data_frag = Some dpre, header_frag = Some (framed_header E t cid h raw), header_recvd = int hsize\<rparr>
        \<and> pre = raw @ dpre \<and> length dpre < length d)"

text \<open>The two ways a read of a frame may end; \<open>tail\<close> are the bytes of later frames.\<close>

definition short :: "int \<Rightarrow> int \<Rightarrow> bytes \<Rightarrow> bytes \<Rightarrow> bytes \<Rightarrow> 'k rx_result \<Rightarrow> bool" where
  "short cid h raw d tail r \<longleftrightarrow>
     rx_ret r = -1 \<and> rx_errno r = EWOULDBLOCK \<and>
     (\<exists>pre. part cid h raw d (rx_next r) pre \<and> pre @ pending (rx_sock r) = raw @ d @ tail)"

definition complete :: "int \<Rightarrow> int \<Rightarrow> bytes \<Rightarrow> bytes \<Rightarrow> bytes \<Rightarrow> 'k rx_result \<Rightarrow> bool" where
  "complete cid h raw d tail r \<longleftrightarrow>
     rx_ret r = int hsize + int (length d) \<and> (rx_header r, rx_event r) = delivered E t cid h (raw, d) \<and>
     rx_next r = rx_init \<and> pending (rx_sock r) = tail"

lemma recv_data_frame:
  fixes cid h F e raw k
  assumes frame: "is_frame E t cid h hsize (raw, d)"
    and bytes: "dpre @ pending k = d @ tail"
    and more: "length dpre < length d \<or> d = [] \<and> dpre = []"
    and F: "F = Some dpre \<or> F = None \<and> dpre = []"
  defines "r \<equiv> recv_data E (framed_header E t cid h raw) e
    \<lparr>data_frag = F, header_frag = Some (framed_header E t cid h raw), header_recvd = int hsize\<rparr> k"
  shows "(short cid h raw d tail r \<or> complete cid h raw d tail r) \<and>
    length (pending (rx_sock r)) \<le> length (pending k) \<and>
    (d \<noteq> [] \<longrightarrow> pending k \<noteq> [] \<longrightarrow> length (pending (rx_sock r)) < length (pending k))"
proof -
  let ?fh = "framed_header E t cid h raw"
  have total: "evh_data_length E ?fh = int (length d)" using frame by (simp add: is_frame_def)
  have frag: "(case F of Some x \<Rightarrow> x | None \<Rightarrow> []) = dpre" using F by auto
  show ?thesis
  proof (cases "d = []")
    case True
    with more bytes show ?thesis
      by (simp add: r_def recv_data_def total complete_def delivered_def)
  next
    case False
    let ?n = "length d - length dpre"
    have n: "0 < ?n" "nat (int (length d) - int (length dpre)) = ?n" "length dpre < length d"
      using more False by auto
    show ?thesis
    proof (cases "pending k = []")
      case True
      then obtain k' where "sock_recv E k ?n = (RxFail EWOULDBLOCK, k')" "pending k' = []"
        using recv_none n by blast
      with True False n bytes show ?thesis
        by (auto simp: r_def recv_data_def total frag memory Let_def short_def part_def intro!: exI [of _ "raw @ dpre"])
    next
      case some: False
      then obtain bs k' where bs: "sock_recv E k ?n = (Rx bs, k')" "bs \<noteq> []" "length bs \<le> ?n"
        "pending k = bs @ pending k'"
        using recv_some n by blast
      show ?thesis
      proof (cases "length bs = ?n")
        case True
        with bs bytes n have "d = dpre @ bs" "tail = pending k'"
          using append_eq_append_conv [of "dpre @ bs" d "pending k'" tail] by auto
        with True bs False n show ?thesis
          by (simp add: r_def recv_data_def total frag memory Let_def complete_def delivered_def
              add_nonneg_pos)
      next
        case False
        with n bs have "int (length bs) \<noteq> int (length d) - int (length dpre)" by auto
        moreover have "length (dpre @ bs) < length d" using False bs(3) n by auto
        moreover have "(raw @ dpre @ bs) @ pending k' = raw @ d @ tail" using bytes bs by simp
        ultimately show ?thesis using bs n
          by (auto simp: r_def recv_data_def total frag memory Let_def short_def part_def
              intro!: exI [of _ "raw @ dpre @ bs"])
      qed
    qed
  qed
qed

lemma new_eh: "evh_get E t = Some new_eh" "length (eh_raw new_eh) = hsize"
  using new_header by auto

lemma recv_header_phase:
  assumes frame: "is_frame E t cid h hsize (raw, d)"
    and buf: "length pre < hsize" "length buf = hsize" "take (length pre) buf = pre"
    and bytes: "pre @ pending k = raw @ d @ tail" and some: "pending k \<noteq> []"
  shows "\<exists>r. recv_header E t cid h e
      \<lparr>data_frag = None, header_frag = Some (new_eh\<lparr>eh_raw := buf\<rparr>), header_recvd = int (length pre)\<rparr> k = Some r \<and>
    (short cid h raw d tail r \<or> complete cid h raw d tail r) \<and>
    length (pending (rx_sock r)) < length (pending k)"
proof -
  let ?n = "hsize - length pre"
  have n: "0 < ?n" "nat (int hsize - int (length pre)) = ?n" using buf by auto
  obtain bs k' where bs: "sock_recv E k ?n = (Rx bs, k')" "bs \<noteq> []" "length bs \<le> ?n"
    "pending k = bs @ pending k'"
    using recv_some [OF some n(1)] by blast
  let ?buf = "pre @ bs @ drop (length pre + length bs) buf"
  have w: "write_at (int (length pre)) bs buf = Some ?buf"
    using buf bs by (simp add: write_at_def)
  show ?thesis
  proof (cases "length pre + length bs = hsize")
    case True
    with buf have "?buf = pre @ bs" by simp
    moreover have raw: "raw = pre @ bs" "[] @ pending k' = d @ tail"
      using True frame bytes bs append_eq_append_conv [of "pre @ bs" raw "pending k'" "d @ tail"]
      by (auto simp: is_frame_def)
    ultimately have "recv_header E t cid h e
        \<lparr>data_frag = None, header_frag = Some (new_eh\<lparr>eh_raw := buf\<rparr>), header_recvd = int (length pre)\<rparr> k =
      Some (recv_data E (framed_header E t cid h raw) NO_ERROR
        \<lparr>data_frag = None, header_frag = Some (framed_header E t cid h raw), header_recvd = int hsize\<rparr> k')"
      using True buf bs w n
      by (simp add: recv_header_def fixed_size Let_def framed_header_def flip: of_nat_add)
    moreover have "length (pending k') < length (pending k)" using bs by simp
    ultimately show ?thesis
      using recv_data_frame [OF frame raw(2), of None NO_ERROR] by fastforce
  next
    case False
    let ?st = "\<lparr>data_frag = None, header_frag = Some (new_eh\<lparr>eh_raw := ?buf\<rparr>),
      header_recvd = int (length (pre @ bs))\<rparr>"
    have "length ?buf = hsize" "length (pre @ bs) < hsize" "take (length (pre @ bs)) ?buf = pre @ bs"
      using False buf bs by auto
    then have "part cid h raw d ?st (pre @ bs)" unfolding part_def by blast
    moreover have "(pre @ bs) @ pending k' = raw @ d @ tail" using bytes bs by simp
    moreover have "int (length pre) + int (length bs) \<noteq> int hsize" using False by linarith
    moreover have "0 < int (length pre) + int (length bs)" using bs by (simp add: add_nonneg_pos)
    ultimately show ?thesis using buf bs w n
      by (auto simp: recv_header_def fixed_size Let_def short_def)
  qed
qed

lemma recv_header_fresh:
  "recv_header E t cid h e rx_init k = recv_header E t cid h e
    \<lparr>data_frag = None, header_frag = Some (new_eh\<lparr>eh_raw := eh_raw new_eh\<rparr>), header_recvd = int (length [])\<rparr> k"
proof -
  obtain eh where "evh_get E t = Some eh" using new_eh by blast
  then show ?thesis by (simp add: recv_header_def rx_init_def)
qed

lemma recv_header_step:
  assumes frame: "is_frame E t cid h hsize (raw, d)" and part: "part cid h raw d st pre"
    and bytes: "pre @ pending k = raw @ d @ tail" and some: "pending k \<noteq> []"
  shows "\<exists>r. recv_header E t cid h NO_ERROR st k = Some r \<and>
    (short cid h raw d tail r \<or> complete cid h raw d tail r) \<and>
    length (pending (rx_sock r)) < length (pending k)"
  using part unfolding part_def
proof (elim disjE exE conjE)
  assume st: "st = rx_init" "pre = []"
  obtain r where r: "recv_header E t cid h NO_ERROR
      \<lparr>data_frag = None, header_frag = Some (new_eh\<lparr>eh_raw := eh_raw new_eh\<rparr>), header_recvd = int (length [])\<rparr> k = Some r"
    "short cid h raw d tail r \<or> complete cid h raw d tail r" "length (pending (rx_sock r)) < length (pending k)"
    using recv_header_phase [OF frame, of "[]" "eh_raw new_eh" k tail NO_ERROR] bytes some st(2) new_eh header_size
    by auto
  with trans [OF recv_header_fresh r(1)] st(1) show ?thesis by blast
next
  fix buf
  assume "st = \<lparr>data_frag = None, header_frag = Some (new_eh\<lparr>eh_raw := buf\<rparr>), header_recvd = int (length pre)\<rparr>"
    "length pre < hsize" "length buf = hsize" "take (length pre) buf = pre"
  with recv_header_phase [OF frame, of pre buf k tail] bytes some show ?thesis by blast
next
  fix dpre
  assume st: "st = \<lparr>data_frag = Some dpre, header_frag = Some (framed_header E t cid h raw), header_recvd = int hsize\<rparr>"
    "pre = raw @ dpre" "length dpre < length d"
  with bytes have "dpre @ pending k = d @ tail" by simp
  moreover have "recv_header E t cid h NO_ERROR st k = Some (recv_data E (framed_header E t cid h raw) NO_ERROR st k)"
    using st by (simp add: recv_header_def fixed_size)
  moreover have "d \<noteq> []" using st by auto
  ultimately show ?thesis
    using recv_data_frame [OF frame, of dpre k tail "Some dpre" NO_ERROR] st some by auto
qed

definition holds :: "int \<Rightarrow> int \<Rightarrow> (bytes \<times> bytes) list \<Rightarrow> rx_state \<Rightarrow> bytes \<Rightarrow> bool" where
  "holds cid h ms st pre \<longleftrightarrow>
     (case ms of [] \<Rightarrow> st = rx_init \<and> pre = [] | m # _ \<Rightarrow> part cid h (fst m) (snd m) st pre)"

lemma holds_init: "holds cid h ms rx_init []"
  by (simp add: holds_def part_def split: list.split)

lemma drained:
  assumes "\<forall>m \<in> set ms. is_frame E t cid h hsize m" and "holds cid h ms st pre" and "pre = wire ms"
  shows "ms = [] \<and> st = rx_init"
proof (cases ms)
  case (Cons m ms')
  then have "length (fst m) = hsize" using assms(1) by (simp add: is_frame_def)
  with Cons assms header_size show ?thesis by (auto simp: holds_def part_def)
qed (use assms in \<open>simp add: holds_def\<close>)

lemma pump_delivers:
  assumes "\<forall>m \<in> set ms. is_frame E t cid h hsize m" and "holds cid h ms st pre"
    and "pre @ pending k = wire ms" and "length (pending k) \<le> fuel"
  shows "\<exists>k'. rx_pump E t cid h fuel st k = Some (map (delivered E t cid h) ms, rx_init, k') \<and> pending k' = []"
  using assms
proof (induction fuel arbitrary: ms st pre k)
  case 0
  with drained show ?case by auto
next
  case (Suc n)
  show ?case
  proof (cases "pending k = []")
    case True
    with Suc.prems drained readable show ?thesis by auto
  next
    case False
    with Suc.prems(2,3) obtain m ms' where ms: "ms = m # ms'" by (cases ms) (auto simp: holds_def)
    with Suc.prems have "is_frame E t cid h hsize (fst m, snd m)" "part cid h (fst m) (snd m) st pre"
      "pre @ pending k = fst m @ snd m @ wire ms'"
      by (auto simp: holds_def)
    then obtain r where r: "recv_header E t cid h NO_ERROR st k = Some r"
      "short cid h (fst m) (snd m) (wire ms') r \<or> complete cid h (fst m) (snd m) (wire ms') r"
      and less: "length (pending (rx_sock r)) < length (pending k)"
      using recv_header_step False by blast
    then have n: "length (pending (rx_sock r)) \<le> n" using Suc.prems by simp
    from r(2) show ?thesis
    proof
      assume "short cid h (fst m) (snd m) (wire ms') r"
      then obtain pre' where "rx_ret r = -1" "rx_errno r = EWOULDBLOCK" "holds cid h ms (rx_next r) pre'"
        "pre' @ pending (rx_sock r) = wire ms"
        by (auto simp: short_def holds_def ms)
      with Suc.IH [of ms "rx_next r" pre' "rx_sock r"] Suc.prems n r False readable
      show ?thesis by auto
    next
      assume c: "complete cid h (fst m) (snd m) (wire ms') r"
      with Suc.IH [of ms' rx_init "[]" "rx_sock r"] Suc.prems n ms holds_init
      obtain k' where "rx_pump E t cid h n rx_init (rx_sock r) = Some (map (delivered E t cid h) ms', rx_init, k')"
        "pending k' = []"
        by (auto simp: complete_def)
      with c r ms False readable header_size show ?thesis by (auto simp: complete_def)
    qed
  qed
qed

end

section \<open>A socket that cuts the stream, and SAMSON headers\<close>

text \<open>
  A concrete environment: the socket is the list of segments that arrived, one read never crosses a
  segment, and the headers are the SAMSON headers of the wire format.
\<close>

fun chunk_recv :: "bytes list \<Rightarrow> nat \<Rightarrow> rx \<times> bytes list" where
  "chunk_recv [] n = (RxFail EWOULDBLOCK, [])"
| "chunk_recv (c # cs) n =
     (if c = [] then chunk_recv cs n
      else (Rx (take n c), if length c \<le> n then cs else drop n c # cs))"

definition samson_env :: "bytes list rx_env" where
  "samson_env =
     \<lparr>sock_recv = chunk_recv,
      sock_readable = list_ex (\<lambda>c. c \<noteq> []),
      evh_get = (\<lambda>i. Some \<lparr>eh_raw = replicate samson_header_length 0, eh_hdr = blank_header\<rparr>),
      evh_length = (\<lambda>eh. int samson_header_length),
      evh_decode = (\<lambda>eh. case decode_header (eh_raw eh) of Some h \<Rightarrow> eh\<lparr>eh_hdr := h\<rparr> | None \<Rightarrow> eh),
      evh_data_length = (\<lambda>eh. uint (h_message_length (eh_hdr eh))),
      evh_set_data_length = (\<lambda>n eh. eh\<lparr>eh_hdr := (eh_hdr eh)\<lparr>h_message_length := of_int n\<rparr>\<rparr>),
      mb_alloc = (\<lambda>n. True)\<rparr>"

lemma chunk_recv_some:
  "concat cs \<noteq> [] \<Longrightarrow> 0 < n \<Longrightarrow>
    \<exists>bs cs'. chunk_recv cs n = (Rx bs, cs') \<and> bs \<noteq> [] \<and> length bs \<le> n \<and> concat cs = bs @ concat cs'"
  by (induction cs n rule: chunk_recv.induct) auto

lemma chunk_recv_none: "concat cs = [] \<Longrightarrow> chunk_recv cs n = (RxFail EWOULDBLOCK, [])"
  by (induction cs n rule: chunk_recv.induct) auto

interpretation tcp: stream_socket samson_env t concat samson_header_length
proof unfold_locales
  fix cs :: "bytes list" and n :: nat
  show "sock_readable samson_env cs \<longleftrightarrow> concat cs \<noteq> []"
    by (auto simp: samson_env_def list_ex_iff)
  show "\<exists>bs k'. sock_recv samson_env cs n = (Rx bs, k') \<and> bs \<noteq> [] \<and> length bs \<le> n \<and> concat cs = bs @ concat k'"
    if "concat cs \<noteq> []" "0 < n"
    using chunk_recv_some [OF that] by (simp add: samson_env_def)
  show "\<exists>k'. sock_recv samson_env cs n = (RxFail EWOULDBLOCK, k') \<and> concat k' = []"
    if "concat cs = []"
    using chunk_recv_none [OF that] by (simp add: samson_env_def)
qed (simp_all add: samson_env_def samson_header_length_def)

text \<open>
  C6. Reassembly. Over a socket that delivers the bytes of the frames \<open>ms\<close>, however the stream is cut into
  reads, the calls the reactor makes hand over exactly these messages, in order, each with its header and
  its data; they end (as many calls as there are bytes are enough), never write outside the header object,
  and leave the handler ready for the next message.
\<close>

theorem frames_reassembled:
  assumes "stream_socket E t pending hsize"
    and "\<forall>m \<in> set ms. is_frame E t cid h hsize m"
    and "pending k = wire ms" and "length (pending k) \<le> fuel"
  shows "\<exists>k'. rx_pump E t cid h fuel rx_init k = Some (map (delivered E t cid h) ms, rx_init, k') \<and>
    pending k' = []"
  using stream_socket.pump_delivers [OF assms(1,2) stream_socket.holds_init [OF assms(1)], of k fuel]
    assms(3,4) by simp

definition example_header :: SamsonHeader where
  "example_header = blank_header\<lparr>h_message_id := 7, h_message_length := 2\<rparr>"

lemma example_frame:
  "is_frame samson_env t cid h samson_header_length (encode_header example_header, [1, 2])"
  using decode_encode_header [of example_header "[]"]
  by (simp add: is_frame_def framed_header_def samson_env_def fill_hidden_def set_encoded_def example_header_def)

theorem frames_reassembled_witness:
  "\<exists>k'. rx_pump samson_env 1 9 4 50 rx_init
      [take 5 (encode_header example_header), drop 5 (encode_header example_header) @ [1], [2]] =
    Some ([delivered samson_env 1 9 4 (encode_header example_header, [1, 2])], rx_init, k')"
proof -
  let ?cs = "[take 5 (encode_header example_header), drop 5 (encode_header example_header) @ [1], [2]]"
  have "concat ?cs = encode_header example_header @ [1, 2]"
    using append_take_drop_id [of 5 "encode_header example_header"] by (metis (no_types) append_Cons append_Nil append_assoc concat.simps)
  then show ?thesis
    using frames_reassembled [OF tcp.stream_socket_axioms, of "[(encode_header example_header, [1, 2])]" 1 9 4 ?cs 50]
      example_frame [of 1 9 4]
    by (auto simp: samson_header_length_def)
qed

text \<open>
  A read that would block before the first byte of a header moves \<open>header_recvd_\<close> to \<open>-1\<close> (the result
  \<open>-1\<close> of \<open>recv\<close> is added to it), and the next bytes that arrive are written before the header object.
\<close>

lemma would_block_underflows_header:
  assumes "evh_get E t = Some eh" and "\<And>x. evh_length E x = int n" and "0 < n"
    and "sock_recv E k n = (RxFail EWOULDBLOCK, k1)"
    and "sock_recv E k1 (n + 1) = (Rx bs, k2)" and "bs \<noteq> []"
  shows "\<exists>r. recv_header E t cid h e rx_init k = Some r \<and> rx_ret r = -1 \<and> header_recvd (rx_next r) = -1 \<and>
    recv_header E t cid h e (rx_next r) (rx_sock r) = None"
proof -
  let ?st = "\<lparr>data_frag = None, header_frag = Some (eh\<lparr>eh_raw := eh_raw eh\<rparr>), header_recvd = -1\<rparr>"
  have "recv_header E t cid h e rx_init k = Some \<lparr>rx_ret = -1, rx_errno = EWOULDBLOCK, rx_event = None,
      rx_header = None, rx_next = ?st, rx_sock = k1\<rparr>"
    using assms by (simp add: recv_header_def rx_init_def write_at_def Let_def)
  moreover have "recv_header E t cid h e ?st k1 = None"
    using assms by (simp add: recv_header_def write_at_def nat_add_distrib Let_def)
  ultimately show ?thesis by simp
qed

lemma would_block_underflows_header_witness:
  "\<exists>r. recv_header (samson_env\<lparr>sock_recv := \<lambda>k n. case k of [] \<Rightarrow> (RxFail EWOULDBLOCK, [[1]]) | c # cs \<Rightarrow> (Rx c, cs)\<rparr>)
      1 9 4 NO_ERROR rx_init [] = Some r \<and> header_recvd (rx_next r) = -1"
proof -
  let ?E = "samson_env\<lparr>sock_recv := \<lambda>k n. case k of [] \<Rightarrow> (RxFail EWOULDBLOCK, [[1]]) | c # cs \<Rightarrow> (Rx c, cs)\<rparr>"
  from would_block_underflows_header [of ?E 1 _ 48 "[]" "[[1]]" "[1]" "[]" 9 4 NO_ERROR]
  show ?thesis by (auto simp: samson_env_def samson_header_length_def)
qed

text \<open>
  The end of the stream inside a message is not noticed: once a byte of the header has arrived, a read that
  returns 0 is reported as a short read (\<open>-1\<close> with \<open>EWOULDBLOCK\<close>), in the header and in the data, and the
  handler keeps waiting in the state it had.
\<close>

lemma end_of_stream_in_message_ignored:
  assumes "header_frag st = Some eh" and "\<And>n. sock_recv E k n = (Rx [], k)"
    and "0 < header_recvd st \<and> header_recvd st < evh_length E eh \<or>
         header_recvd st = evh_length E eh \<and> data_frag st \<noteq> None \<and> 0 < evh_data_length E eh"
  shows "\<exists>r. recv_header E t cid h e st k = Some r \<and>
    rx_ret r = -1 \<and> rx_errno r = EWOULDBLOCK \<and> rx_next r = st \<and> rx_sock r = k"
  using assms by (auto simp: recv_header_def recv_data_def write_at_def Let_def)

lemma end_of_stream_in_message_ignored_witness:
  "\<exists>r. recv_header (samson_env\<lparr>sock_recv := \<lambda>k n. (Rx [], k)\<rparr>) 1 9 4 NO_ERROR
      \<lparr>data_frag = None, header_frag = Some \<lparr>eh_raw = replicate 48 0, eh_hdr = blank_header\<rparr>, header_recvd = 5\<rparr> [] = Some r
    \<and> rx_ret r = -1 \<and> rx_errno r = EWOULDBLOCK"
  using end_of_stream_in_message_ignored
    [of "\<lparr>data_frag = None, header_frag = Some \<lparr>eh_raw = replicate 48 0, eh_hdr = blank_header\<rparr>, header_recvd = 5\<rparr>" _
      "samson_env\<lparr>sock_recv := \<lambda>k n. (Rx [], k)\<rparr>" "[]" 1 9 4 NO_ERROR]
  by (auto simp: samson_env_def samson_header_length_def)

end
