(* ===== verification/RouterStats.thy ===== *)
theory RouterStats
  imports Complex_Main Prelude
begin

text \<open>
  The traffic statistics each connection handler keeps: \<open>RouteByteStats\<close> (bytes and messages sent or
  received, and the time between messages) and \<open>RouteTimeStats\<close> (processing times). Byte and message
  counters are 32-bit words and wrap; the \<open>double\<close> accumulators are read as reals, so rounding is not
  modelled. \<open>first_call\<close> in \<open>RouteByteStats::sample\<close> is a \<open>static\<close> local, one flag for all objects of
  the class, so it is a state of its own here. The microsecond part of the difference of two
  \<open>ACE_Time_Value\<close>s is a parameter.
\<close>

section \<open>RouteTimeStats\<close>

record RouteTimeStats =
  t_delta_sum :: real
  t_delta_sq :: real
  t_delta_min :: real
  t_delta_max :: real
  t_count :: u32

definition RouteTimeStats_reset :: RouteTimeStats where
  "RouteTimeStats_reset =
     \<lparr>t_delta_sum = 0, t_delta_sq = 0, t_delta_min = 3, t_delta_max = 0, t_count = 0\<rparr>"

definition RouteTimeStats_sample :: "real \<Rightarrow> RouteTimeStats \<Rightarrow> RouteTimeStats" where
  "RouteTimeStats_sample delta s =
     (let s1 = s\<lparr>t_delta_sum := t_delta_sum s + delta,
                 t_delta_sq := t_delta_sq s + delta * delta,
                 t_count := t_count s + 1\<rparr>
      in if t_count s > 1
         then s1\<lparr>t_delta_min := (if delta < t_delta_min s then delta else t_delta_min s),
                 t_delta_max := (if delta > t_delta_max s then delta else t_delta_max s)\<rparr>
         else s1\<lparr>t_delta_min := delta, t_delta_max := delta\<rparr>)"

text \<open>The formula both \<open>compute\<close> functions use, on the count, the sum and the sum of squares.\<close>

definition stats_mean :: "u32 \<Rightarrow> real \<Rightarrow> real" where
  "stats_mean n dsum = (if n > 2 then dsum / real (unat n) else 0)"

definition stats_variance :: "u32 \<Rightarrow> real \<Rightarrow> real \<Rightarrow> real" where
  "stats_variance n dsum dsq =
     (real (unat n) * dsq - dsum * dsum) / of_int (sint n) / of_int (sint n - 1)"

definition stats_stddev :: "u32 \<Rightarrow> real \<Rightarrow> real \<Rightarrow> real" where
  "stats_stddev n dsum dsq = (if n > 2 then sqrt (stats_variance n dsum dsq) else 0)"

text \<open>Results: count, mean, standard deviation, smallest and largest time.\<close>

definition RouteTimeStats_compute :: "RouteTimeStats \<Rightarrow> int \<times> real \<times> real \<times> real \<times> real" where
  "RouteTimeStats_compute s =
     (sint (t_count s), stats_mean (t_count s) (t_delta_sum s),
      stats_stddev (t_count s) (t_delta_sum s) (t_delta_sq s), t_delta_min s, t_delta_max s)"

section \<open>RouteByteStats\<close>

definition SAMPLE_SIZE :: nat where
  "SAMPLE_SIZE = 20"

text \<open>\<open>sample_length\<close> is not initialised by the constructor: \<open>None\<close> is an entry never written.\<close>

record 't RouteByteStats =
  sample_length :: "int option list"
  current_sample :: nat
  total_bytes :: u32
  total_msgs :: u32
  b_delta_sum :: real
  b_delta_sq :: real
  b_delta_min :: real
  b_delta_max :: real
  b_count :: u32
  last_time :: 't

definition RouteByteStats_reset :: "'t RouteByteStats \<Rightarrow> 't RouteByteStats" where
  "RouteByteStats_reset s =
     s\<lparr>b_delta_sum := 0, b_delta_sq := 0, b_delta_min := 0, b_delta_max := 0, b_count := 0\<rparr>"

definition RouteByteStats_new :: "'t \<Rightarrow> 't RouteByteStats" where
  "RouteByteStats_new zero = RouteByteStats_reset
     \<lparr>sample_length = replicate SAMPLE_SIZE None, current_sample = 0, total_bytes = 0, total_msgs = 0,
      b_delta_sum = 0, b_delta_sq = 0, b_delta_min = 0, b_delta_max = 0, b_count = 0,
      last_time = zero\<rparr>"

text \<open>
  \<open>usec_diff now last\<close> is \<open>(now - last).usec()\<close>. The result is the new value of the shared flag and of
  the object.
\<close>

definition RouteByteStats_sample ::
  "('t \<Rightarrow> 't \<Rightarrow> int) \<Rightarrow> 't \<Rightarrow> nat \<Rightarrow> bool \<times> 't RouteByteStats \<Rightarrow> bool \<times> 't RouteByteStats" where
  "RouteByteStats_sample usec_diff now bytes st =
     (let (first_call, s) = st;
          s1 = s\<lparr>total_bytes := total_bytes s + of_nat bytes,
                 sample_length := (sample_length s)[current_sample s := Some (sint (of_nat bytes :: u32))],
                 current_sample := (current_sample s + 1) mod SAMPLE_SIZE,
                 total_msgs := total_msgs s + 1\<rparr>
      in if \<not> first_call then
           (let tval = of_int (usec_diff now (last_time s)) * (1 / 10 ^ 6);
                s2 = s1\<lparr>b_delta_sum := b_delta_sum s + tval, b_delta_sq := b_delta_sq s + tval * tval,
                        b_count := b_count s + 1\<rparr>;
                s3 = (if b_count s > 1
                      then s2\<lparr>b_delta_min := (if tval < b_delta_min s then tval else b_delta_min s),
                              b_delta_max := (if tval > b_delta_max s then tval else b_delta_max s)\<rparr>
                      else s2\<lparr>b_delta_min := tval, b_delta_max := tval\<rparr>)
            in (first_call, s3\<lparr>last_time := now\<rparr>))
         else (False, s1\<lparr>last_time := now\<rparr>))"

text \<open>Results: mean, standard deviation, total bytes and messages, smallest and largest delta.\<close>

definition RouteByteStats_compute ::
  "'t RouteByteStats \<Rightarrow> real \<times> real \<times> int \<times> int \<times> real \<times> real" where
  "RouteByteStats_compute s =
     (stats_mean (b_count s) (b_delta_sum s),
      stats_stddev (b_count s) (b_delta_sum s) (b_delta_sq s),
      sint (total_bytes s), sint (total_msgs s), b_delta_min s, b_delta_max s)"

text \<open>The values \<open>print_lastmsg\<close> logs, in the order it logs them.\<close>

definition RouteByteStats_lastmsg :: "'t RouteByteStats \<Rightarrow> int option list" where
  "RouteByteStats_lastmsg s =
     map (\<lambda>i. sample_length s ! ((i + current_sample s - 1) mod SAMPLE_SIZE)) (rev [1..<SAMPLE_SIZE + 1])"

section \<open>Processing times\<close>

abbreviation time_run :: "real list \<Rightarrow> RouteTimeStats" where
  "time_run ds \<equiv> fold RouteTimeStats_sample ds RouteTimeStats_reset"

lemma time_sample_simps [simp]:
  "t_count (RouteTimeStats_sample d s) = t_count s + 1"
  "t_delta_sum (RouteTimeStats_sample d s) = t_delta_sum s + d"
  "t_delta_sq (RouteTimeStats_sample d s) = t_delta_sq s + d * d"
  "t_delta_min (RouteTimeStats_sample d s) = (if t_count s > 1 then min d (t_delta_min s) else d)"
  "t_delta_max (RouteTimeStats_sample d s) = (if t_count s > 1 then max d (t_delta_max s) else d)"
  by (auto simp: RouteTimeStats_sample_def Let_def)

lemma time_run_sums:
  "t_count (time_run ds) = of_nat (length ds)"
  "t_delta_sum (time_run ds) = sum_list ds"
  "t_delta_sq (time_run ds) = sum_list (map (\<lambda>d. d * d) ds)"
  by (induction ds rule: rev_induct) (simp_all add: RouteTimeStats_reset_def)

lemma tl_snoc: "xs \<noteq> [] \<Longrightarrow> tl (xs @ [x]) = tl xs @ [x]"
  by (cases xs) auto

lemma time_run_extremes:
  assumes "length ds < 2 ^ 32" and "2 \<le> length ds"
  shows "t_delta_min (time_run ds) = Min (set (tl ds)) \<and>
    t_delta_max (time_run ds) = Max (set (tl ds))"
  using assms
proof (induction ds rule: rev_induct)
  case (snoc d ds)
  show ?case
  proof (cases "2 \<le> length ds")
    case True
    then have "tl ds \<noteq> []" and "ds \<noteq> []" by (cases ds; auto)+
    with True snoc show ?thesis
      by (auto simp: time_run_sums count_gt_1 tl_snoc)
  next
    case False
    with snoc.prems obtain e where "ds = [e]" by (cases ds) (auto simp: le_Suc_eq)
    then show ?thesis by (simp add: RouteTimeStats_reset_def)
  qed
qed simp

text \<open>
  The extremes of a \<open>RouteTimeStats\<close> object that received the samples \<open>ds\<close> since its reset are those
  of all samples but the first: both the first and the second sample take the branch that overwrites
  \<open>delta_min\<close> and \<open>delta_max\<close>, since the guard is \<open>count++ > 1\<close>.
\<close>

lemma time_stats_extremes_skip_first:
  assumes "length ds < 2 ^ 32" and "2 \<le> length ds"
  shows "\<exists>n m sd. RouteTimeStats_compute (time_run ds) = (n, m, sd, Min (set (tl ds)), Max (set (tl ds)))"
  using time_run_extremes [OF assms] by (simp add: RouteTimeStats_compute_def)

lemma time_stats_extremes_skip_first_witness:
  "\<exists>n m sd. RouteTimeStats_compute (time_run [1, 7, 5]) = (n, m, sd, 5, 7)"
  using time_stats_extremes_skip_first [of "[1, 7, 5]"] by simp

lemma square_of_sum: "(sum_list xs)\<^sup>2 \<le> real (length xs) * sum_list (map (\<lambda>d. d * d) xs)"
proof (induction xs)
  case (Cons x xs)
  let ?s = "sum_list xs" and ?q = "sum_list (map (\<lambda>d. d * d) xs)" and ?n = "real (length xs)"
  have "2 * x * ?s \<le> ?q + ?n * (x * x)"
  proof (cases "xs = []")
    case False
    then have n: "?n > 0" by simp
    have "0 \<le> (?n * x - ?s)\<^sup>2" by simp
    then have "?n * (2 * x * ?s) \<le> ?n * (?n * (x * x)) + ?s\<^sup>2"
      by (simp add: power2_eq_square algebra_simps)
    also have "\<dots> \<le> ?n * (?n * (x * x)) + ?n * ?q" using Cons.IH by simp
    finally have "?n * (2 * x * ?s) \<le> ?n * (?q + ?n * (x * x))" by (simp add: algebra_simps)
    with n show ?thesis by (simp only: mult_le_cancel_left_pos)
  qed simp
  with Cons.IH show ?case by (simp add: power2_eq_square algebra_simps)
qed simp

lemma time_run_compute:
  assumes "2 < length ds" and "length ds < 2 ^ 31"
  shows "\<exists>sd lo hi. RouteTimeStats_compute (time_run ds) =
      (int (length ds), sum_list ds / real (length ds), sd, lo, hi)"
    and "0 \<le> stats_variance (t_count (time_run ds)) (t_delta_sum (time_run ds)) (t_delta_sq (time_run ds))"
proof -
  have n: "length ds < 2 ^ 32" using assms by simp
  show "\<exists>sd lo hi. RouteTimeStats_compute (time_run ds) =
      (int (length ds), sum_list ds / real (length ds), sd, lo, hi)"
    using assms n
    by (simp add: RouteTimeStats_compute_def time_run_sums stats_mean_def count_gt_2 unat_count sint_count)
  have "0 \<le> real (length ds) * sum_list (map (\<lambda>d. d * d) ds) - sum_list ds * sum_list ds"
    using square_of_sum [of ds] by (simp add: power2_eq_square)
  then show "0 \<le> stats_variance (t_count (time_run ds)) (t_delta_sum (time_run ds))
      (t_delta_sq (time_run ds))"
    using assms n
    by (simp add: stats_variance_def time_run_sums unat_count sint_count)
qed

text \<open>
  The mean and the deviation are well defined: after the samples \<open>ds\<close>, more than two and fewer than
  \<open>2 ^ 31\<close>, \<open>compute\<close> reports the number of samples, their arithmetic mean, and the square root of a
  number that is not negative (the argument of \<open>sqrt\<close> in the code never is).
\<close>

lemma time_stats_mean_and_variance:
  assumes "2 < length ds" and "length ds < 2 ^ 31"
  shows "(\<exists>sd lo hi. RouteTimeStats_compute (time_run ds) =
      (int (length ds), sum_list ds / real (length ds), sd, lo, hi)) \<and>
    0 \<le> stats_variance (t_count (time_run ds)) (t_delta_sum (time_run ds)) (t_delta_sq (time_run ds))"
  using time_run_compute [OF assms] by blast

lemma time_stats_mean_and_variance_witness:
  "\<exists>sd lo hi. RouteTimeStats_compute (time_run [1, 2, 6]) = (3, 3, sd, lo, hi)"
  using time_stats_mean_and_variance [of "[1, 2, 6]"] by simp

section \<open>The last message lengths\<close>

abbreviation ring_ok :: "'t RouteByteStats \<Rightarrow> bool" where
  "ring_ok s \<equiv> length (sample_length s) = SAMPLE_SIZE \<and> current_sample s < SAMPLE_SIZE"

lemma lastmsg_nth:
  assumes "k < SAMPLE_SIZE"
  shows "RouteByteStats_lastmsg s ! k = sample_length s ! ((SAMPLE_SIZE - k + current_sample s - 1) mod SAMPLE_SIZE)"
  using assms by (simp add: RouteByteStats_lastmsg_def rev_nth del: upt_Suc)

lemma lastmsg_length [simp]: "length (RouteByteStats_lastmsg s) = SAMPLE_SIZE"
  by (simp add: RouteByteStats_lastmsg_def)

lemma sample_ring:
  fixes usec now bytes st
  defines "s' \<equiv> snd (RouteByteStats_sample usec now bytes st)"
  shows "sample_length s' = (sample_length (snd st))[current_sample (snd st) := Some (sint (of_nat bytes :: u32))]"
    and "current_sample s' = (current_sample (snd st) + 1) mod SAMPLE_SIZE"
    and "total_bytes s' = total_bytes (snd st) + of_nat bytes"
    and "total_msgs s' = total_msgs (snd st) + 1"
  by (auto simp: s'_def RouteByteStats_sample_def Let_def split: prod.splits)

lemma ring_ok_sample: "ring_ok (snd st) \<Longrightarrow> ring_ok (snd (RouteByteStats_sample usec now bytes st))"
  by (simp add: sample_ring SAMPLE_SIZE_def)

text \<open>A sample pushes its length in front and drops the oldest one.\<close>

lemma sample_lastmsg:
  assumes "ring_ok (snd st)"
  shows "RouteByteStats_lastmsg (snd (RouteByteStats_sample usec now bytes st)) =
    Some (sint (of_nat bytes :: u32)) # butlast (RouteByteStats_lastmsg (snd st))"
    (is "?l = ?x # butlast ?r")
proof (rule nth_equalityI)
  show "length ?l = length (?x # butlast ?r)" by (simp add: SAMPLE_SIZE_def)
next
  fix k assume "k < length ?l"
  then have k: "k < 20" by (simp add: SAMPLE_SIZE_def)
  obtain c where c: "current_sample (snd st) = c" "c < 20" "length (sample_length (snd st)) = 20"
    using assms by (simp add: SAMPLE_SIZE_def)
  show "?l ! k = (?x # butlast ?r) ! k"
  proof (cases k)
    case 0
    have "(20 + (c + 1) mod 20 - Suc 0) mod 20 = c" using c by (cases "c = 19") auto
    with c 0 show ?thesis by (simp add: lastmsg_nth sample_ring SAMPLE_SIZE_def)
  next
    case (Suc j)
    have "(20 - k + (c + 1) mod 20 - Suc 0) mod 20 = (20 - j + c - Suc 0) mod 20"
      using c k Suc by (cases "c = 19") (auto simp: le_mod_geq)
    moreover have "(20 - j + c - Suc 0) mod 20 \<noteq> c"
      using c k Suc by (cases "20 - j + c - Suc 0 < 20") (auto simp: le_mod_geq)
    ultimately show ?thesis using c k Suc
      by (simp add: lastmsg_nth sample_ring SAMPLE_SIZE_def nth_butlast)
  qed
qed

abbreviation byte_run :: "('t \<Rightarrow> 't \<Rightarrow> int) \<Rightarrow> ('t \<times> nat) list \<Rightarrow> bool \<times> 't RouteByteStats \<Rightarrow> bool \<times> 't RouteByteStats" where
  "byte_run usec ms st \<equiv> fold (\<lambda>m. RouteByteStats_sample usec (fst m) (snd m)) ms st"

text \<open>
  Whatever the arrival times, and whatever the flag shared by all counters, a new \<open>RouteByteStats\<close>
  that sampled the messages \<open>ms\<close> logs the lengths of the last twenty of them, newest first (and the
  uninitialised cells after them when there were fewer); the totals are the sums modulo \<open>2 ^ 32\<close>.
\<close>

lemma byte_stats_last_messages:
  fixes usec :: "'t \<Rightarrow> 't \<Rightarrow> int"
  shows "(let s = snd (byte_run usec ms (flag, RouteByteStats_new t0)) in
    RouteByteStats_lastmsg s =
      take 20 (map (\<lambda>m. Some (sint (of_nat (snd m) :: u32))) (rev ms) @ replicate 20 None) \<and>
    total_bytes s = of_nat (sum_list (map snd ms)) \<and> total_msgs s = of_nat (length ms))"
proof -
  let ?r = "\<lambda>ms. byte_run usec ms (flag, RouteByteStats_new t0)"
  have ok: "ring_ok (snd (?r ms))" for ms
    by (induction ms rule: rev_induct)
      (auto simp: RouteByteStats_new_def RouteByteStats_reset_def SAMPLE_SIZE_def sample_ring)
  have "RouteByteStats_lastmsg (snd (?r ms)) =
      take 20 (map (\<lambda>m. Some (sint (of_nat (snd m) :: u32))) (rev ms) @ replicate 20 None) \<and>
    total_bytes (snd (?r ms)) = of_nat (sum_list (map snd ms)) \<and> total_msgs (snd (?r ms)) = of_nat (length ms)"
  proof (induction ms rule: rev_induct)
    case Nil
    show ?case
      by (auto intro!: nth_equalityI
          simp: RouteByteStats_new_def RouteByteStats_reset_def SAMPLE_SIZE_def lastmsg_nth)
  next
    case (snoc m ms)
    let ?l = "\<lambda>ms. map (\<lambda>m. Some (sint (of_nat (snd m) :: u32))) (rev ms) @ replicate 20 None"
    have "RouteByteStats_lastmsg (snd (?r (ms @ [m]))) =
        Some (sint (of_nat (snd m) :: u32)) # butlast (RouteByteStats_lastmsg (snd (?r ms)))"
      using sample_lastmsg [OF ok [of ms], of usec "fst m" "snd m"] by simp
    also have "\<dots> = take 20 (?l (ms @ [m]))"
      using snoc by (simp add: butlast_take take_Cons' del: take_append)
    finally show ?case using snoc by (simp add: sample_ring del: take_append)
  qed
  then show ?thesis by (simp add: Let_def)
qed

end
