(* ===== verification/IdentityTables.thy ===== *)
theory IdentityTables
  imports Protocol
begin

text \<open>
  The three identity tables of the dispatcher: \<open>D2M_TABLE\<close> (models), \<open>D2D_TABLE\<close> (other
  dispatchers) and \<open>D2C_TABLE\<close> (command channels). Each is a class around one
  \<open>boost::multi_index_container\<close>; the \<open>typedef\<close> in the header file says which indices are unique,
  which is the \<open>clash\<close> predicate here. The lemmas show that every operation keeps the uniqueness of
  keys, what a lookup returns after a bind or an unbind, and that the tables implement the
  interface \<open>identity_table\<close> the routing code relies on.
\<close>

datatype table_state = Active | Destroyed

section \<open>ModelIdentity\<close>

record ModelIdentityRecord =
  m_chid :: int
  m_jid :: u32
  m_mid :: u32
  m_nodeid :: u32
  m_unitid :: u32
  m_statsid :: u32
  m_pid :: int
  m_mid_name :: string
  m_ch :: chptr

definition ModelIdentitySet_clash :: "ModelIdentityRecord \<Rightarrow> ModelIdentityRecord \<Rightarrow> bool" where
  "ModelIdentitySet_clash a b \<longleftrightarrow>
     m_chid a = m_chid b \<or> m_mid a = m_mid b \<or> m_pid a = m_pid b \<or> m_ch a = m_ch b"

record ModelIdentity =
  m_map :: "ModelIdentityRecord list"
  m_state :: table_state

type_synonym m_ops = "ModelIdentityRecord mi_ops"

definition ModelIdentity_new :: ModelIdentity where
  "ModelIdentity_new = \<lparr>m_map = [], m_state = Active\<rparr>"

definition ModelIdentity_destroy :: "ModelIdentity \<Rightarrow> ModelIdentity" where
  "ModelIdentity_destroy t = t\<lparr>m_map := [], m_state := Destroyed\<rparr>"

definition ModelIdentity_bind ::
  "m_ops \<Rightarrow> ModelIdentityRecord \<Rightarrow> ModelIdentity \<Rightarrow> ModelIdentity \<times> bool" where
  "ModelIdentity_bind C e t =
     (let (xs, ok) = mi_insert C e (m_map t) in (t\<lparr>m_map := xs\<rparr>, ok))"

definition findModelID :: "m_ops \<Rightarrow> u32 \<Rightarrow> ModelIdentity \<Rightarrow> ModelIdentityRecord option" where
  "findModelID C i t = mi_find C (\<lambda>r. m_mid r = i) (m_map t)"

definition getCHfromModelID :: "m_ops \<Rightarrow> u32 \<Rightarrow> ModelIdentity \<Rightarrow> chptr" where
  "getCHfromModelID C i t =
     (case mi_find C (\<lambda>r. m_mid r = i) (m_map t) of Some r \<Rightarrow> m_ch r | None \<Rightarrow> 0)"

definition unbindModelID :: "m_ops \<Rightarrow> u32 \<Rightarrow> ModelIdentity \<Rightarrow> ModelIdentity" where
  "unbindModelID C i t =
     (case findModelID C i t of
        Some _ \<Rightarrow> t\<lparr>m_map := mi_erase C (\<lambda>r. m_mid r = i) (m_map t)\<rparr>
      | None \<Rightarrow> t)"

text \<open>The parameter is an \<open>ACE_UINT32\<close> and the key an \<open>int\<close>: the comparison converts.\<close>

definition m_getCHfromCHID :: "m_ops \<Rightarrow> u32 \<Rightarrow> ModelIdentity \<Rightarrow> chptr" where
  "m_getCHfromCHID C i t =
     (case mi_find C (\<lambda>r. m_chid r = sint i) (m_map t) of Some r \<Rightarrow> m_ch r | None \<Rightarrow> 0)"

definition m_findNodeID :: "m_ops \<Rightarrow> u32 \<Rightarrow> ModelIdentity \<Rightarrow> ModelIdentityRecord option" where
  "m_findNodeID C i t = mi_find C (\<lambda>r. m_nodeid r = i) (m_map t)"

definition m_findCHID :: "m_ops \<Rightarrow> int \<Rightarrow> ModelIdentity \<Rightarrow> ModelIdentityRecord option" where
  "m_findCHID C i t = mi_find C (\<lambda>r. m_chid r = i) (m_map t)"

definition m_unbindCHID :: "m_ops \<Rightarrow> int \<Rightarrow> ModelIdentity \<Rightarrow> ModelIdentity" where
  "m_unbindCHID C i t =
     (case m_findCHID C i t of
        Some _ \<Rightarrow> t\<lparr>m_map := mi_erase C (\<lambda>r. m_chid r = i) (m_map t)\<rparr>
      | None \<Rightarrow> t)"

definition m_findCH :: "m_ops \<Rightarrow> chptr \<Rightarrow> ModelIdentity \<Rightarrow> ModelIdentityRecord option" where
  "m_findCH C p t = mi_find C (\<lambda>r. m_ch r = p) (m_map t)"

definition m_unbindCH :: "m_ops \<Rightarrow> chptr \<Rightarrow> ModelIdentity \<Rightarrow> ModelIdentity" where
  "m_unbindCH C p t =
     (case m_findCH C p t of
        Some _ \<Rightarrow> t\<lparr>m_map := mi_erase C (\<lambda>r. m_ch r = p) (m_map t)\<rparr>
      | None \<Rightarrow> t)"

definition allRecordsInJob :: "m_ops \<Rightarrow> u32 \<Rightarrow> ModelIdentity \<Rightarrow> ModelIdentityRecord list" where
  "allRecordsInJob C j t = mi_range C (\<lambda>r. m_jid r = j) (m_map t)"

section \<open>DispatcherIdentity\<close>

record DispatcherIdentityRecord =
  d_chid :: int
  d_peer :: u32
  d_node :: u32
  d_ch :: chptr

definition DispatcherIdentitySet_clash ::
  "DispatcherIdentityRecord \<Rightarrow> DispatcherIdentityRecord \<Rightarrow> bool" where
  "DispatcherIdentitySet_clash a b \<longleftrightarrow>
     d_chid a = d_chid b \<or> d_peer a = d_peer b \<or> d_node a = d_node b \<or> d_ch a = d_ch b"

record DispatcherIdentity =
  d_map :: "DispatcherIdentityRecord list"
  d_state :: table_state

type_synonym d_ops = "DispatcherIdentityRecord mi_ops"

definition DispatcherIdentity_new :: DispatcherIdentity where
  "DispatcherIdentity_new = \<lparr>d_map = [], d_state = Active\<rparr>"

definition DispatcherIdentity_destroy :: "DispatcherIdentity \<Rightarrow> DispatcherIdentity" where
  "DispatcherIdentity_destroy t = t\<lparr>d_map := [], d_state := Destroyed\<rparr>"

definition DispatcherIdentity_bind ::
  "d_ops \<Rightarrow> DispatcherIdentityRecord \<Rightarrow> DispatcherIdentity \<Rightarrow> DispatcherIdentity \<times> bool" where
  "DispatcherIdentity_bind C e t =
     (let (xs, ok) = mi_insert C e (d_map t) in (t\<lparr>d_map := xs\<rparr>, ok))"

definition d_unbindCHID :: "d_ops \<Rightarrow> int \<Rightarrow> DispatcherIdentity \<Rightarrow> DispatcherIdentity" where
  "d_unbindCHID C i t = t\<lparr>d_map := mi_erase C (\<lambda>r. d_chid r = i) (d_map t)\<rparr>"

definition d_unbindCH :: "d_ops \<Rightarrow> chptr \<Rightarrow> DispatcherIdentity \<Rightarrow> DispatcherIdentity" where
  "d_unbindCH C p t = t\<lparr>d_map := mi_erase C (\<lambda>r. d_ch r = p) (d_map t)\<rparr>"

definition findPeerID :: "d_ops \<Rightarrow> u32 \<Rightarrow> DispatcherIdentity \<Rightarrow> DispatcherIdentityRecord option" where
  "findPeerID C i t = mi_find C (\<lambda>r. d_peer r = i) (d_map t)"

definition getCHfromPeerID :: "d_ops \<Rightarrow> u32 \<Rightarrow> DispatcherIdentity \<Rightarrow> chptr" where
  "getCHfromPeerID C i t =
     (case mi_find C (\<lambda>r. d_peer r = i) (d_map t) of Some r \<Rightarrow> d_ch r | None \<Rightarrow> 0)"

definition getCHfromNodeID :: "d_ops \<Rightarrow> u32 \<Rightarrow> DispatcherIdentity \<Rightarrow> chptr" where
  "getCHfromNodeID C i t =
     (case mi_find C (\<lambda>r. d_node r = i) (d_map t) of Some r \<Rightarrow> d_ch r | None \<Rightarrow> 0)"

definition d_getCHfromCHID :: "d_ops \<Rightarrow> u32 \<Rightarrow> DispatcherIdentity \<Rightarrow> chptr" where
  "d_getCHfromCHID C i t =
     (case mi_find C (\<lambda>r. d_chid r = sint i) (d_map t) of Some r \<Rightarrow> d_ch r | None \<Rightarrow> 0)"

definition d_findNodeID :: "d_ops \<Rightarrow> u32 \<Rightarrow> DispatcherIdentity \<Rightarrow> DispatcherIdentityRecord option" where
  "d_findNodeID C i t = mi_find C (\<lambda>r. d_node r = i) (d_map t)"

definition d_findCHID :: "d_ops \<Rightarrow> int \<Rightarrow> DispatcherIdentity \<Rightarrow> DispatcherIdentityRecord option" where
  "d_findCHID C i t = mi_find C (\<lambda>r. d_chid r = i) (d_map t)"

section \<open>CommandIdentity\<close>

record CommandIdentityRecord =
  c_chid :: int
  c_ch :: chptr

definition CommandIdentitySet_clash :: "CommandIdentityRecord \<Rightarrow> CommandIdentityRecord \<Rightarrow> bool" where
  "CommandIdentitySet_clash a b \<longleftrightarrow> c_chid a = c_chid b \<or> c_ch a = c_ch b"

record CommandIdentity =
  c_map :: "CommandIdentityRecord list"
  c_state :: table_state

type_synonym c_ops = "CommandIdentityRecord mi_ops"

definition CommandIdentity_new :: CommandIdentity where
  "CommandIdentity_new = \<lparr>c_map = [], c_state = Active\<rparr>"

definition CommandIdentity_destroy :: "CommandIdentity \<Rightarrow> CommandIdentity" where
  "CommandIdentity_destroy t = t\<lparr>c_map := [], c_state := Destroyed\<rparr>"

definition CommandIdentity_bind ::
  "c_ops \<Rightarrow> CommandIdentityRecord \<Rightarrow> CommandIdentity \<Rightarrow> CommandIdentity \<times> bool" where
  "CommandIdentity_bind C e t =
     (let (xs, ok) = mi_insert C e (c_map t) in (t\<lparr>c_map := xs\<rparr>, ok))"

definition c_unbindCHID :: "c_ops \<Rightarrow> int \<Rightarrow> CommandIdentity \<Rightarrow> CommandIdentity" where
  "c_unbindCHID C i t = t\<lparr>c_map := mi_erase C (\<lambda>r. c_chid r = i) (c_map t)\<rparr>"

definition c_unbindCH :: "c_ops \<Rightarrow> chptr \<Rightarrow> CommandIdentity \<Rightarrow> CommandIdentity" where
  "c_unbindCH C p t = t\<lparr>c_map := mi_erase C (\<lambda>r. c_ch r = p) (c_map t)\<rparr>"

definition c_getCHfromCHID :: "c_ops \<Rightarrow> u32 \<Rightarrow> CommandIdentity \<Rightarrow> chptr" where
  "c_getCHfromCHID C i t =
     (case mi_find C (\<lambda>r. c_chid r = sint i) (c_map t) of Some r \<Rightarrow> c_ch r | None \<Rightarrow> 0)"

definition c_findCHID :: "c_ops \<Rightarrow> int \<Rightarrow> CommandIdentity \<Rightarrow> CommandIdentityRecord option" where
  "c_findCHID C i t = mi_find C (\<lambda>r. c_chid r = i) (c_map t)"

section \<open>The interface of an identity table\<close>

text \<open>
  What the routing code relies on: a table binds an identity record, forgets it again, and maps a
  key of the record to the connection handler, the null pointer when the key is not bound.
\<close>

locale identity_table =
  fixes bind :: "'r \<Rightarrow> 't \<Rightarrow> 't \<times> bool"
    and unbind :: "'k \<Rightarrow> 't \<Rightarrow> 't"
    and lookup :: "'k \<Rightarrow> 't \<Rightarrow> chptr"
    and key :: "'r \<Rightarrow> 'k"
    and handler :: "'r \<Rightarrow> chptr"
    and ok :: "'t \<Rightarrow> bool"
  assumes ok_bind: "ok t \<Longrightarrow> ok (fst (bind r t))"
    and ok_unbind: "ok t \<Longrightarrow> ok (unbind k t)"
    and bind_refused: "ok t \<Longrightarrow> \<not> snd (bind r t) \<Longrightarrow> fst (bind r t) = t"
    and lookup_bind: "ok t \<Longrightarrow> snd (bind r t) \<Longrightarrow>
      lookup k (fst (bind r t)) = (if k = key r then handler r else lookup k t)"
    and lookup_unbind: "ok t \<Longrightarrow> lookup k (unbind j t) = (if k = j then 0 else lookup k t)"
begin

text \<open>A session of binds and unbinds, and the partial map it stands for.\<close>

fun session :: "('r + 'k) list \<Rightarrow> 't \<Rightarrow> 't" where
  "session [] t = t"
| "session (Inl r # ops) t = session ops (fst (bind r t))"
| "session (Inr k # ops) t = session ops (unbind k t)"

lemma ok_session: "ok t \<Longrightarrow> ok (session ops t)"
  by (induction ops t rule: session.induct) (auto intro: ok_bind ok_unbind)

lemma unbind_after_bind:
  assumes "ok t" and "snd (bind r t)" and "lookup (key r) t = 0"
  shows "lookup k (unbind (key r) (fst (bind r t))) = lookup k t"
  using assms by (auto simp: lookup_unbind ok_bind lookup_bind)

lemma bind_frame: "ok t \<Longrightarrow> k \<noteq> key r \<Longrightarrow> lookup k (fst (bind r t)) = lookup k t"
  by (cases "snd (bind r t)") (auto simp: lookup_bind bind_refused)

lemma session_frame:
  assumes "ok t" and "\<forall>r. Inl r \<in> set ops \<longrightarrow> key r \<noteq> k" and "Inr k \<notin> set ops"
  shows "lookup k (session ops t) = lookup k t"
  using assms
proof (induction ops t rule: session.induct)
  case (2 r ops t)
  then have "k \<noteq> key r" by auto
  with 2 show ?case by (simp add: ok_bind bind_frame)
next
  case (3 j ops t)
  then show ?case by (auto simp: ok_unbind lookup_unbind)
qed simp

end

lemma clash_laws:
  "ModelIdentitySet_clash a a" "ModelIdentitySet_clash a b \<Longrightarrow> ModelIdentitySet_clash b a"
  "DispatcherIdentitySet_clash d d" "DispatcherIdentitySet_clash d e \<Longrightarrow> DispatcherIdentitySet_clash e d"
  "CommandIdentitySet_clash c c" "CommandIdentitySet_clash c f \<Longrightarrow> CommandIdentitySet_clash f c"
  by (auto simp: ModelIdentitySet_clash_def DispatcherIdentitySet_clash_def CommandIdentitySet_clash_def)

lemma unique_index_keys [simp]:
  "key_of_unique ModelIdentitySet_clash (\<lambda>r. m_mid r = i)"
  "key_of_unique ModelIdentitySet_clash (\<lambda>r. m_chid r = h)"
  "key_of_unique ModelIdentitySet_clash (\<lambda>r. m_ch r = p)"
  "key_of_unique DispatcherIdentitySet_clash (\<lambda>r. d_node r = i)"
  "key_of_unique DispatcherIdentitySet_clash (\<lambda>r. d_peer r = i)"
  "key_of_unique DispatcherIdentitySet_clash (\<lambda>r. d_chid r = h)"
  "key_of_unique DispatcherIdentitySet_clash (\<lambda>r. d_ch r = p)"
  "key_of_unique CommandIdentitySet_clash (\<lambda>r. c_chid r = h)"
  "key_of_unique CommandIdentitySet_clash (\<lambda>r. c_ch r = p)"
  by (auto simp: key_of_unique_def ModelIdentitySet_clash_def DispatcherIdentitySet_clash_def
      CommandIdentitySet_clash_def)

abbreviation m_ok :: "ModelIdentity \<Rightarrow> bool" where
  "m_ok t \<equiv> unique_keys ModelIdentitySet_clash (m_map t)"

abbreviation d_ok :: "DispatcherIdentity \<Rightarrow> bool" where
  "d_ok t \<equiv> unique_keys DispatcherIdentitySet_clash (d_map t)"

abbreviation c_ok :: "CommandIdentity \<Rightarrow> bool" where
  "c_ok t \<equiv> unique_keys CommandIdentitySet_clash (c_map t)"

lemma bind_fst_snd:
  "fst (ModelIdentity_bind C e t) = t\<lparr>m_map := fst (mi_insert C e (m_map t))\<rparr>"
  "snd (ModelIdentity_bind C e t) = snd (mi_insert C e (m_map t))"
  "fst (DispatcherIdentity_bind D f u) = u\<lparr>d_map := fst (mi_insert D f (d_map u))\<rparr>"
  "snd (DispatcherIdentity_bind D f u) = snd (mi_insert D f (d_map u))"
  "fst (CommandIdentity_bind B g v) = v\<lparr>c_map := fst (mi_insert B g (c_map v))\<rparr>"
  "snd (CommandIdentity_bind B g v) = snd (mi_insert B g (c_map v))"
  by (simp_all add: ModelIdentity_bind_def DispatcherIdentity_bind_def CommandIdentity_bind_def
      split: prod.split)

text \<open>Where the container keeps its contract, each table meets the interface.\<close>

locale model_table = multi_index C ModelIdentitySet_clash for C :: m_ops
begin

lemma unbindModelID_map:
  "m_map (unbindModelID C i t) =
     (if findModelID C i t = None then m_map t else mi_erase C (\<lambda>r. m_mid r = i) (m_map t))"
  by (auto simp: unbindModelID_def split: option.split)

lemma m_unbindCHID_map:
  "m_map (m_unbindCHID C i t) =
     (if m_findCHID C i t = None then m_map t else mi_erase C (\<lambda>r. m_chid r = i) (m_map t))"
  by (auto simp: m_unbindCHID_def split: option.split)

lemma m_unbindCH_map:
  "m_map (m_unbindCH C p t) =
     (if m_findCH C p t = None then m_map t else mi_erase C (\<lambda>r. m_ch r = p) (m_map t))"
  by (auto simp: m_unbindCH_def split: option.split)

lemma m_ok_bind: "m_ok t \<Longrightarrow> m_ok (fst (ModelIdentity_bind C e t))"
  by (simp add: bind_fst_snd unique_insert)

lemma m_ok_unbind:
  "m_ok t \<Longrightarrow> m_ok (unbindModelID C i t)"
  "m_ok t \<Longrightarrow> m_ok (m_unbindCHID C h t)"
  "m_ok t \<Longrightarrow> m_ok (m_unbindCH C p t)"
  by (simp_all add: unbindModelID_map m_unbindCHID_map m_unbindCH_map unique_erase)

lemma getCHfromModelID_iff:
  assumes "m_ok t" and "p \<noteq> 0"
  shows "getCHfromModelID C i t = p \<longleftrightarrow> (\<exists>r \<in> set (m_map t). m_mid r = i \<and> m_ch r = p)"
proof
  assume "getCHfromModelID C i t = p"
  with assms(2) show "\<exists>r \<in> set (m_map t). m_mid r = i \<and> m_ch r = p"
    by (auto simp: getCHfromModelID_def split: option.splits dest: find_is)
next
  assume "\<exists>r \<in> set (m_map t). m_mid r = i \<and> m_ch r = p"
  then obtain r where "r \<in> set (m_map t)" "m_mid r = i" "m_ch r = p" by blast
  with assms(1) show "getCHfromModelID C i t = p"
    by (auto simp: getCHfromModelID_def find_unique [OF assms(1), of "\<lambda>r. m_mid r = i" r])
qed

lemma getCH_unbindCHID:
  assumes "m_ok t"
  shows "getCHfromModelID C i (m_unbindCHID C h t) =
    (case findModelID C i t of
       Some r \<Rightarrow> if m_chid r = h then 0 else m_ch r
     | None \<Rightarrow> 0)"
proof (cases "m_findCHID C h t")
  case None
  then have "\<forall>r \<in> set (m_map t). m_chid r \<noteq> h" using find_not by (simp add: m_findCHID_def)
  with None show ?thesis
    by (auto simp: getCHfromModelID_def findModelID_def m_unbindCHID_def split: option.split
        dest: find_is)
next
  case (Some r)
  with assms show ?thesis
    by (auto simp: getCHfromModelID_def findModelID_def m_unbindCHID_def find_erase
        split: option.split)
qed

end

sublocale model_table \<subseteq> by_mid: identity_table
  "ModelIdentity_bind C" "unbindModelID C" "getCHfromModelID C" m_mid m_ch m_ok
proof unfold_locales
  fix t r assume "m_ok t" "\<not> snd (ModelIdentity_bind C r t)"
  then obtain y where "y \<in> set (m_map t)" "ModelIdentitySet_clash r y"
    by (auto simp: bind_fst_snd insert_flag)
  then show "fst (ModelIdentity_bind C r t) = t"
    using insert_refused by (simp add: bind_fst_snd)
next
  fix t r k assume "m_ok t" "snd (ModelIdentity_bind C r t)"
  then show "getCHfromModelID C k (fst (ModelIdentity_bind C r t)) =
      (if k = m_mid r then m_ch r else getCHfromModelID C k t)"
    by (auto simp: getCHfromModelID_def bind_fst_snd find_inserted)
next
  fix t k j assume ok: "m_ok t"
  show "getCHfromModelID C k (unbindModelID C j t) =
      (if k = j then 0 else getCHfromModelID C k t)"
    using ok find_is [of "\<lambda>r. m_mid r = k" "m_map t"]
    by (auto simp: getCHfromModelID_def unbindModelID_map findModelID_def find_erase
        split: option.split)
qed (auto intro: m_ok_bind m_ok_unbind)

locale dispatcher_table = multi_index C DispatcherIdentitySet_clash for C :: d_ops
begin

lemma d_ok_bind: "d_ok t \<Longrightarrow> d_ok (fst (DispatcherIdentity_bind C e t))"
  by (simp add: bind_fst_snd unique_insert)

lemma d_ok_unbind: "d_ok t \<Longrightarrow> d_ok (d_unbindCHID C h t)" "d_ok t \<Longrightarrow> d_ok (d_unbindCH C p t)"
  by (simp_all add: d_unbindCHID_def d_unbindCH_def unique_erase)

lemma node_lookup_unbind:
  assumes "d_ok t"
  shows "getCHfromNodeID C n (d_unbindCHID C h t) =
    (case d_findNodeID C n t of Some r \<Rightarrow> if d_chid r = h then 0 else d_ch r | None \<Rightarrow> 0)"
  using assms
  by (auto simp: getCHfromNodeID_def d_findNodeID_def d_unbindCHID_def find_erase split: option.split)

end

sublocale dispatcher_table \<subseteq> by_chid: identity_table
  "DispatcherIdentity_bind C" "d_unbindCHID C"
  "\<lambda>h t. case d_findCHID C h t of Some r \<Rightarrow> d_ch r | None \<Rightarrow> 0" d_chid d_ch d_ok
proof unfold_locales
  fix t r assume "d_ok t" "\<not> snd (DispatcherIdentity_bind C r t)"
  then obtain y where "y \<in> set (d_map t)" "DispatcherIdentitySet_clash r y"
    by (auto simp: bind_fst_snd insert_flag)
  then show "fst (DispatcherIdentity_bind C r t) = t"
    using insert_refused by (simp add: bind_fst_snd)
next
  fix t r k assume "d_ok t" "snd (DispatcherIdentity_bind C r t)"
  then show "(case d_findCHID C k (fst (DispatcherIdentity_bind C r t)) of
        Some r \<Rightarrow> d_ch r | None \<Rightarrow> 0) =
      (if k = d_chid r then d_ch r else case d_findCHID C k t of Some r \<Rightarrow> d_ch r | None \<Rightarrow> 0)"
    by (auto simp: d_findCHID_def bind_fst_snd find_inserted)
next
  fix t k j assume "d_ok t"
  then show "(case d_findCHID C k (d_unbindCHID C j t) of Some r \<Rightarrow> d_ch r | None \<Rightarrow> 0) =
      (if k = j then 0 else case d_findCHID C k t of Some r \<Rightarrow> d_ch r | None \<Rightarrow> 0)"
    by (auto simp: d_findCHID_def d_unbindCHID_def find_erase split: option.split dest: find_is)
qed (auto intro: d_ok_bind d_ok_unbind)

locale command_table = multi_index C CommandIdentitySet_clash for C :: c_ops
begin

lemma c_ok_bind: "c_ok t \<Longrightarrow> c_ok (fst (CommandIdentity_bind C e t))"
  by (simp add: bind_fst_snd unique_insert)

lemma c_ok_unbind: "c_ok t \<Longrightarrow> c_ok (c_unbindCHID C h t)" "c_ok t \<Longrightarrow> c_ok (c_unbindCH C p t)"
  by (simp_all add: c_unbindCHID_def c_unbindCH_def unique_erase)

end

sublocale command_table \<subseteq> by_handle: identity_table
  "CommandIdentity_bind C" "c_unbindCHID C"
  "\<lambda>h t. case c_findCHID C h t of Some r \<Rightarrow> c_ch r | None \<Rightarrow> 0" c_chid c_ch c_ok
proof unfold_locales
  fix t r assume "c_ok t" "\<not> snd (CommandIdentity_bind C r t)"
  then obtain y where "y \<in> set (c_map t)" "CommandIdentitySet_clash r y"
    by (auto simp: bind_fst_snd insert_flag)
  then show "fst (CommandIdentity_bind C r t) = t"
    using insert_refused by (simp add: bind_fst_snd)
next
  fix t r k assume "c_ok t" "snd (CommandIdentity_bind C r t)"
  then show "(case c_findCHID C k (fst (CommandIdentity_bind C r t)) of
        Some r \<Rightarrow> c_ch r | None \<Rightarrow> 0) =
      (if k = c_chid r then c_ch r else case c_findCHID C k t of Some r \<Rightarrow> c_ch r | None \<Rightarrow> 0)"
    by (auto simp: c_findCHID_def bind_fst_snd find_inserted)
next
  fix t k j assume "c_ok t"
  then show "(case c_findCHID C k (c_unbindCHID C j t) of Some r \<Rightarrow> c_ch r | None \<Rightarrow> 0) =
      (if k = j then 0 else case c_findCHID C k t of Some r \<Rightarrow> c_ch r | None \<Rightarrow> 0)"
    by (auto simp: c_findCHID_def c_unbindCHID_def find_erase split: option.split dest: find_is)
qed (auto intro: c_ok_bind c_ok_unbind)

text \<open>The executable containers of the three tables, and the interfaces on them.\<close>

abbreviation m_list :: m_ops where "m_list \<equiv> list_mi ModelIdentitySet_clash"
abbreviation d_list :: d_ops where "d_list \<equiv> list_mi DispatcherIdentitySet_clash"
abbreviation c_list :: c_ops where "c_list \<equiv> list_mi CommandIdentitySet_clash"

interpretation d2m: model_table m_list
  by (intro model_table.intro list_mi_multi_index) (fact clash_laws)+

interpretation d2d: dispatcher_table d_list
  by (intro dispatcher_table.intro list_mi_multi_index) (fact clash_laws)+

interpretation d2c: command_table c_list
  by (intro command_table.intro list_mi_multi_index) (fact clash_laws)+

section \<open>The model table over a run of the dispatcher\<close>

text \<open>The states of \<open>D2M_TABLE\<close>: every operation that changes the table is a step.\<close>

inductive m_reach :: "m_ops \<Rightarrow> ModelIdentity \<Rightarrow> bool" for C :: m_ops where
  m_new: "m_reach C ModelIdentity_new"
| m_bind: "m_reach C t \<Longrightarrow> m_reach C (fst (ModelIdentity_bind C e t))"
| m_unbind_model: "m_reach C t \<Longrightarrow> m_reach C (unbindModelID C i t)"
| m_unbind_chid: "m_reach C t \<Longrightarrow> m_reach C (m_unbindCHID C h t)"
| m_unbind_ch: "m_reach C t \<Longrightarrow> m_reach C (m_unbindCH C p t)"
| m_destroy: "m_reach C t \<Longrightarrow> m_reach C (ModelIdentity_destroy t)"

context model_table
begin

lemmas m_lookup_bind = by_mid.lookup_bind
lemmas m_bind_refused = by_mid.bind_refused

lemma m_reach_ok: "m_reach C t \<Longrightarrow> m_ok t"
  by (induction rule: m_reach.induct)
    (simp_all add: m_ok_bind m_ok_unbind ModelIdentity_new_def ModelIdentity_destroy_def)

lemma same_handler_same_model:
  assumes "m_ok t" and "getCHfromModelID C i t = p" and "getCHfromModelID C j t = p" and "p \<noteq> 0"
  shows "i = j"
proof -
  obtain r s where "r \<in> set (m_map t)" "m_mid r = i" "m_ch r = p"
    "s \<in> set (m_map t)" "m_mid s = j" "m_ch s = p"
    using assms getCHfromModelID_iff by blast
  moreover from this have "r = s"
    using assms(1) by (auto simp: unique_keys_def ModelIdentitySet_clash_def)
  ultimately show ?thesis by blast
qed

lemma findCHID_iff:
  assumes "m_ok t"
  shows "m_findCHID C h t = Some r \<longleftrightarrow> r \<in> set (m_map t) \<and> m_chid r = h"
  using assms find_is [of "\<lambda>r. m_chid r = h" "m_map t" r]
    find_unique [of "m_map t" "\<lambda>r. m_chid r = h" r] by (auto simp: m_findCHID_def)

lemma findModelID_iff:
  assumes "m_ok t"
  shows "findModelID C i t = Some r \<longleftrightarrow> r \<in> set (m_map t) \<and> m_mid r = i"
  using assms find_is [of "\<lambda>r. m_mid r = i" "m_map t" r]
    find_unique [of "m_map t" "\<lambda>r. m_mid r = i" r] by (auto simp: findModelID_def)

end

lemma m_reach_indices:
  assumes "model_table C" and "m_reach C t"
  shows "getCHfromModelID C i t = p \<Longrightarrow> getCHfromModelID C j t = p \<Longrightarrow> p \<noteq> 0 \<Longrightarrow> i = j"
    and "findModelID C i t = Some r \<longleftrightarrow> m_findCHID C (m_chid r) t = Some r \<and> m_mid r = i"
  using assms(2) model_table.m_reach_ok [OF assms] model_table.same_handler_same_model [OF assms(1)]
  by (auto simp: model_table.findCHID_iff [OF assms(1)] model_table.findModelID_iff [OF assms(1)])

text \<open>
  In every state \<open>D2M_TABLE\<close> reaches, over a container that keeps Boost's contract, a handler
  serves one model: two model ids that are routed to the same handler are the same id, and the record
  a model id finds is the record the connection id of that handler finds.
\<close>

lemma d2m_one_model_per_handler:
  assumes "model_table C" and "m_reach C t"
  shows "(getCHfromModelID C i t = p \<and> getCHfromModelID C j t = p \<and> p \<noteq> 0 \<longrightarrow> i = j) \<and>
    (findModelID C i t = Some r \<longleftrightarrow> m_findCHID C (m_chid r) t = Some r \<and> m_mid r = i)"
  using m_reach_indices [OF assms] by blast

definition example_model :: "int \<Rightarrow> u32 \<Rightarrow> int \<Rightarrow> chptr \<Rightarrow> ModelIdentityRecord" where
  "example_model chid mid pid ch =
     \<lparr>m_chid = chid, m_jid = 1, m_mid = mid, m_nodeid = 3, m_unitid = 0, m_statsid = 0, m_pid = pid,
      m_mid_name = ''m'', m_ch = ch\<rparr>"

lemma example_model_simps [simp]:
  "m_chid (example_model c m i h) = c" "m_mid (example_model c m i h) = m"
  "m_pid (example_model c m i h) = i" "m_ch (example_model c m i h) = h"
  by (simp_all add: example_model_def)

definition example_table :: ModelIdentity where
  "example_table = fst (ModelIdentity_bind m_list (example_model 65534 8 101 20)
     (fst (ModelIdentity_bind m_list (example_model 65535 7 100 10) ModelIdentity_new)))"

lemma example_table_reach: "m_reach m_list example_table"
  unfolding example_table_def by (intro m_reach.intros)

lemma example_table_map:
  "m_map example_table = [example_model 65535 7 100 10, example_model 65534 8 101 20]"
  by (simp add: example_table_def bind_fst_snd ModelIdentity_new_def ModelIdentitySet_clash_def)

lemma d2m_one_model_per_handler_witness:
  "(findModelID m_list 8 example_table = Some (example_model 65534 8 101 20) \<longleftrightarrow>
     m_findCHID m_list 65534 example_table = Some (example_model 65534 8 101 20)) \<and>
   getCHfromModelID m_list 8 example_table = 20"
  using d2m_one_model_per_handler
    [OF d2m.model_table_axioms example_table_reach, of 8 0 8 "example_model 65534 8 101 20"]
  by (simp add: getCHfromModelID_def example_table_map)

lemma m_reach_bind:
  assumes "model_table C" and "m_reach C t"
  shows "snd (ModelIdentity_bind C e t) \<longleftrightarrow>
      (\<forall>r \<in> set (m_map t). m_chid r \<noteq> m_chid e \<and> m_mid r \<noteq> m_mid e \<and> m_pid r \<noteq> m_pid e \<and> m_ch r \<noteq> m_ch e)"
    and "snd (ModelIdentity_bind C e t) \<Longrightarrow>
      getCHfromModelID C i (fst (ModelIdentity_bind C e t)) =
        (if i = m_mid e then m_ch e else getCHfromModelID C i t)"
    and "\<not> snd (ModelIdentity_bind C e t) \<Longrightarrow> fst (ModelIdentity_bind C e t) = t"
proof -
  have mi: "multi_index C ModelIdentitySet_clash"
    using assms(1) by (rule model_table.axioms)
  note ok = model_table.m_reach_ok [OF assms]
  show "snd (ModelIdentity_bind C e t) \<longleftrightarrow>
      (\<forall>r \<in> set (m_map t). m_chid r \<noteq> m_chid e \<and> m_mid r \<noteq> m_mid e \<and> m_pid r \<noteq> m_pid e \<and> m_ch r \<noteq> m_ch e)"
    by (auto simp: bind_fst_snd multi_index.insert_flag [OF mi] ModelIdentitySet_clash_def)
  show "getCHfromModelID C i (fst (ModelIdentity_bind C e t)) =
        (if i = m_mid e then m_ch e else getCHfromModelID C i t)"
    if "snd (ModelIdentity_bind C e t)"
    using model_table.m_lookup_bind [OF assms(1) ok that] .
  show "fst (ModelIdentity_bind C e t) = t" if "\<not> snd (ModelIdentity_bind C e t)"
    using model_table.m_bind_refused [OF assms(1) ok that] .
qed

text \<open>
  \<open>ModelIdentity::bind\<close> succeeds exactly when no bound model has the connection id, the model id, the
  process id or the handler of the new record; when it succeeds the new model is routed to its handler
  and every other model where it was, and when it fails the table is unchanged.
\<close>

lemma d2m_bind_accepts_fresh:
  assumes "model_table C" and "m_reach C t"
  shows "if \<forall>r \<in> set (m_map t). m_chid r \<noteq> m_chid e \<and> m_mid r \<noteq> m_mid e \<and> m_pid r \<noteq> m_pid e \<and> m_ch r \<noteq> m_ch e
    then snd (ModelIdentity_bind C e t) \<and>
      getCHfromModelID C i (fst (ModelIdentity_bind C e t)) =
        (if i = m_mid e then m_ch e else getCHfromModelID C i t)
    else \<not> snd (ModelIdentity_bind C e t) \<and> fst (ModelIdentity_bind C e t) = t"
  using m_reach_bind [OF assms] by auto

lemma d2m_bind_accepts_fresh_witness:
  "snd (ModelIdentity_bind m_list (example_model 65533 9 102 30) example_table) \<and>
   getCHfromModelID m_list 9 (fst (ModelIdentity_bind m_list (example_model 65533 9 102 30) example_table)) = 30 \<and>
   fst (ModelIdentity_bind m_list (example_model 65533 7 102 30) example_table) = example_table"
  using d2m_bind_accepts_fresh
    [OF d2m.model_table_axioms example_table_reach, of "example_model 65533 9 102 30" 9]
    d2m_bind_accepts_fresh
    [OF d2m.model_table_axioms example_table_reach, of "example_model 65533 7 102 30" 7]
  by (simp add: example_table_map)

lemma m_reach_unbind:
  assumes "model_table C" and "m_reach C t"
  shows "findModelID C i (m_unbindCHID C h t) =
      (case findModelID C i t of Some r \<Rightarrow> if m_chid r = h then None else Some r | None \<Rightarrow> None)"
    and "m_findCHID C h (m_unbindCHID C h t) = None"
proof -
  have mi: "multi_index C ModelIdentitySet_clash" using assms(1) by (rule model_table.axioms)
  have ok: "m_ok t" using model_table.m_reach_ok [OF assms] .
  have ok': "m_ok (m_unbindCHID C h t)" using model_table.m_ok_unbind(2) [OF assms(1) ok] .
  have set: "set (m_map (m_unbindCHID C h t)) = {r \<in> set (m_map t). m_chid r \<noteq> h}"
    using multi_index.find_not [OF mi, of "\<lambda>r. m_chid r = h" "m_map t"]
    by (auto simp: model_table.m_unbindCHID_map [OF assms(1)] multi_index.set_erase [OF mi] m_findCHID_def)
  have iff: "findModelID C i (m_unbindCHID C h t) = Some r \<longleftrightarrow> findModelID C i t = Some r \<and> m_chid r \<noteq> h" for r
    by (auto simp: model_table.findModelID_iff [OF assms(1) ok] model_table.findModelID_iff [OF assms(1) ok'] set)
  then show "findModelID C i (m_unbindCHID C h t) =
      (case findModelID C i t of Some r \<Rightarrow> if m_chid r = h then None else Some r | None \<Rightarrow> None)"
    by (auto split: option.split simp: not_Some_eq [symmetric] simp del: not_Some_eq)
  show "m_findCHID C h (m_unbindCHID C h t) = None"
    using model_table.findCHID_iff [OF assms(1) ok', of h] set
    by (cases "m_findCHID C h (m_unbindCHID C h t)") auto
qed

text \<open>
  When a connection closes, \<open>unbindCHID\<close> removes exactly the model of that connection: after it, a
  model id finds what it found before, unless that was the record of the closed connection.
\<close>

lemma d2m_unbind_removes_connection:
  assumes "model_table C" and "m_reach C t"
  shows "findModelID C i (m_unbindCHID C h t) =
      (case findModelID C i t of Some r \<Rightarrow> if m_chid r = h then None else Some r | None \<Rightarrow> None) \<and>
    m_findCHID C h (m_unbindCHID C h t) = None"
  using m_reach_unbind [OF assms] by blast

lemma d2m_unbind_removes_connection_witness:
  "findModelID m_list 8 (m_unbindCHID m_list 65534 example_table) = None \<and>
   findModelID m_list 7 (m_unbindCHID m_list 65534 example_table) = Some (example_model 65535 7 100 10)"
  using d2m_unbind_removes_connection [OF d2m.model_table_axioms example_table_reach, of 8 65534]
    d2m_unbind_removes_connection [OF d2m.model_table_axioms example_table_reach, of 7 65534]
  by (simp add: findModelID_def example_table_map)

end
