(* ===== verification/RouteCaches.thy ===== *)
theory RouteCaches
  imports Protocol
begin

text \<open>
  The two route caches of the dispatcher: \<open>SubscriptionCache\<close> (\<open>SUBSCR_SET\<close>: the subscribers of a
  message, by message and unit id) and \<open>PeerRouteCache\<close> (\<open>PEER_ROUTE_SET\<close>: the route of a peer, by
  peer id). Both live around a \<open>multi_index_container\<close> with one unique key and a non-unique index by
  job; a job's entries are flushed together when the job ends. The lemmas show that a cache answers
  with what was stored first under a key until the job that stored it is flushed, that a flush
  removes exactly the entries of its job, and that looking up changes only the two counters.
\<close>

section \<open>SubscriptionCache\<close>

record SubscriptionRecordKey =
  k_msg_id :: u32
  k_unitID :: u32

record SubscriptionRecord =
  theJobID :: u32
  theKey :: SubscriptionRecordKey
  theLocal :: "PeerRoute list"
  theRemote :: "u32 list"

definition SubscriptionRecordSet_clash :: "SubscriptionRecord \<Rightarrow> SubscriptionRecord \<Rightarrow> bool" where
  "SubscriptionRecordSet_clash a b \<longleftrightarrow> theKey a = theKey b"

record SubscriptionCache =
  s_map :: "SubscriptionRecord list"
  s_hit :: u32
  s_called :: u32

type_synonym s_ops = "SubscriptionRecord mi_ops"

definition SubscriptionCache_new :: SubscriptionCache where
  "SubscriptionCache_new = \<lparr>s_map = [], s_hit = 0, s_called = 0\<rparr>"

definition SubscriptionCache_destroy :: "SubscriptionCache \<Rightarrow> SubscriptionCache" where
  "SubscriptionCache_destroy c = c\<lparr>s_map := []\<rparr>"

definition SubscriptionCache_bind ::
  "s_ops \<Rightarrow> SubscriptionRecord \<Rightarrow> SubscriptionCache \<Rightarrow> SubscriptionCache \<times> bool" where
  "SubscriptionCache_bind C e c =
     (let (xs, ok) = mi_insert C e (s_map c) in (c\<lparr>s_map := xs\<rparr>, ok))"

definition s_unbindRunID :: "s_ops \<Rightarrow> u32 \<Rightarrow> SubscriptionCache \<Rightarrow> SubscriptionCache" where
  "s_unbindRunID C rid c = c\<lparr>s_map := mi_erase C (\<lambda>r. theJobID r = rid) (s_map c)\<rparr>"

definition s_unbindKey :: "s_ops \<Rightarrow> SubscriptionRecordKey \<Rightarrow> SubscriptionCache \<Rightarrow> SubscriptionCache" where
  "s_unbindKey C i c = c\<lparr>s_map := mi_erase C (\<lambda>r. theKey r = i) (s_map c)\<rparr>"

text \<open>The two vectors are reference parameters, left alone when the key is not found.\<close>

definition s_findRouting ::
  "s_ops \<Rightarrow> SubscriptionRecordKey \<Rightarrow> PeerRoute list \<Rightarrow> u32 list \<Rightarrow> SubscriptionCache
     \<Rightarrow> bool \<times> PeerRoute list \<times> u32 list \<times> SubscriptionCache" where
  "s_findRouting C i local remote c =
     (case mi_find C (\<lambda>r. theKey r = i) (s_map c) of
        Some r \<Rightarrow>
          (True, theLocal r, theRemote r, c\<lparr>s_hit := s_hit c + 1, s_called := s_called c + 1\<rparr>)
      | None \<Rightarrow> (False, local, remote, c\<lparr>s_called := s_called c + 1\<rparr>))"

section \<open>PeerRouteCache\<close>

record PeerRouteRecord =
  theRunID :: u32
  p_theKey :: u32
  theRoute :: "PeerRoute list"

definition PeerRouteRecordSet_clash :: "PeerRouteRecord \<Rightarrow> PeerRouteRecord \<Rightarrow> bool" where
  "PeerRouteRecordSet_clash a b \<longleftrightarrow> p_theKey a = p_theKey b"

datatype cache_state = CacheActive | CacheDestroyed

record PeerRouteCache =
  p_map :: "PeerRouteRecord list"
  p_hit :: u32
  p_called :: u32
  p_state :: cache_state

type_synonym p_ops = "PeerRouteRecord mi_ops"

definition PeerRouteCache_new :: PeerRouteCache where
  "PeerRouteCache_new = \<lparr>p_map = [], p_hit = 0, p_called = 0, p_state = CacheActive\<rparr>"

definition PeerRouteCache_destroy :: "PeerRouteCache \<Rightarrow> PeerRouteCache" where
  "PeerRouteCache_destroy c = c\<lparr>p_map := [], p_state := CacheDestroyed\<rparr>"

definition PeerRouteCache_bind ::
  "p_ops \<Rightarrow> PeerRouteRecord \<Rightarrow> PeerRouteCache \<Rightarrow> PeerRouteCache \<times> bool" where
  "PeerRouteCache_bind C e c =
     (let (xs, ok) = mi_insert C e (p_map c) in (c\<lparr>p_map := xs\<rparr>, ok))"

definition p_unbindRunID :: "p_ops \<Rightarrow> u32 \<Rightarrow> PeerRouteCache \<Rightarrow> PeerRouteCache" where
  "p_unbindRunID C rid c = c\<lparr>p_map := mi_erase C (\<lambda>r. theRunID r = rid) (p_map c)\<rparr>"

definition p_findRouting ::
  "p_ops \<Rightarrow> u32 \<Rightarrow> PeerRoute list \<Rightarrow> PeerRouteCache \<Rightarrow> bool \<times> PeerRoute list \<times> PeerRouteCache" where
  "p_findRouting C i route c =
     (case mi_find C (\<lambda>r. p_theKey r = i) (p_map c) of
        Some r \<Rightarrow> (True, theRoute r, c\<lparr>p_hit := p_hit c + 1, p_called := p_called c + 1\<rparr>)
      | None \<Rightarrow> (False, route, c\<lparr>p_called := p_called c + 1\<rparr>))"

section \<open>The interface of a route cache\<close>

text \<open>
  A history of a cache is a list of requests. \<open>cache_run\<close> performs it with the operations of a cache and
  collects the answers of the lookups; \<open>cache_spec\<close> does the same on a partial map from keys to records,
  in which the first store under a key wins and a flush forgets the records of a job.
\<close>

datatype ('r, 'k) cache_op = Store 'r | Flush u32 | Fetch 'k

fun cache_run ::
  "('r \<Rightarrow> 'c \<Rightarrow> 'c \<times> bool) \<Rightarrow> (u32 \<Rightarrow> 'c \<Rightarrow> 'c) \<Rightarrow> ('k \<Rightarrow> 'v \<Rightarrow> 'c \<Rightarrow> bool \<times> 'v \<times> 'c) \<Rightarrow> 'v
    \<Rightarrow> ('r, 'k) cache_op list \<Rightarrow> 'c \<Rightarrow> (bool \<times> 'v) list" where
  "cache_run store flush fetch d [] c = []"
| "cache_run store flush fetch d (Store r # ops) c = cache_run store flush fetch d ops (fst (store r c))"
| "cache_run store flush fetch d (Flush j # ops) c = cache_run store flush fetch d ops (flush j c)"
| "cache_run store flush fetch d (Fetch k # ops) c =
     (case fetch k d c of (b, v, c') \<Rightarrow> (b, v) # cache_run store flush fetch d ops c')"

definition spec_store :: "('r \<Rightarrow> 'k) \<Rightarrow> 'r \<Rightarrow> ('k \<rightharpoonup> 'r) \<Rightarrow> ('k \<rightharpoonup> 'r)" where
  "spec_store key r m = (if m (key r) = None then m(key r \<mapsto> r) else m)"

definition spec_flush :: "('r \<Rightarrow> u32) \<Rightarrow> u32 \<Rightarrow> ('k \<rightharpoonup> 'r) \<Rightarrow> ('k \<rightharpoonup> 'r)" where
  "spec_flush job j m k = (case m k of Some r \<Rightarrow> if job r = j then None else Some r | None \<Rightarrow> None)"

fun cache_spec ::
  "('r \<Rightarrow> 'k) \<Rightarrow> ('r \<Rightarrow> u32) \<Rightarrow> ('r \<Rightarrow> 'v) \<Rightarrow> 'v \<Rightarrow> ('r, 'k) cache_op list \<Rightarrow> ('k \<rightharpoonup> 'r) \<Rightarrow> (bool \<times> 'v) list" where
  "cache_spec key job val d [] m = []"
| "cache_spec key job val d (Store r # ops) m = cache_spec key job val d ops (spec_store key r m)"
| "cache_spec key job val d (Flush j # ops) m = cache_spec key job val d ops (spec_flush job j m)"
| "cache_spec key job val d (Fetch k # ops) m =
     (case m k of Some r \<Rightarrow> (True, val r) | None \<Rightarrow> (False, d)) # cache_spec key job val d ops m"

locale route_cache =
  fixes store :: "'r \<Rightarrow> 'c \<Rightarrow> 'c \<times> bool"
    and flush :: "u32 \<Rightarrow> 'c \<Rightarrow> 'c"
    and fetch :: "'k \<Rightarrow> 'v \<Rightarrow> 'c \<Rightarrow> bool \<times> 'v \<times> 'c"
    and entry :: "'k \<Rightarrow> 'c \<Rightarrow> 'r option"
    and key :: "'r \<Rightarrow> 'k" and job :: "'r \<Rightarrow> u32" and val :: "'r \<Rightarrow> 'v"
    and ok :: "'c \<Rightarrow> bool"
  assumes ok_store: "ok c \<Longrightarrow> ok (fst (store r c))"
    and ok_flush: "ok c \<Longrightarrow> ok (flush j c)"
    and ok_fetch: "ok c \<Longrightarrow> fetch k d c = (b, v, c') \<Longrightarrow> ok c'"
    and entry_key: "ok c \<Longrightarrow> entry k c = Some r \<Longrightarrow> key r = k"
    and store_flag: "ok c \<Longrightarrow> snd (store r c) \<longleftrightarrow> entry (key r) c = None"
    and store_entry: "ok c \<Longrightarrow> entry k (fst (store r c)) =
      (if k = key r \<and> entry k c = None then Some r else entry k c)"
    and flush_entry: "ok c \<Longrightarrow> entry k (flush j c) =
      (case entry k c of None \<Rightarrow> None | Some r \<Rightarrow> if job r = j then None else Some r)"
    and fetch_result: "ok c \<Longrightarrow> fetch k d c = (b, v, c') \<Longrightarrow>
      b = (entry k c \<noteq> None) \<and> v = (case entry k c of None \<Rightarrow> d | Some r \<Rightarrow> val r)
      \<and> (\<forall>j. entry j c' = entry j c)"
begin

lemma first_store_wins:
  assumes "ok c" and "entry (key r) c = None" and "key r' = key r"
  shows "\<not> snd (store r' (fst (store r c)))"
    and "fetch (key r) d (fst (store r' (fst (store r c)))) = (b, v, c') \<Longrightarrow> b \<and> v = val r"
proof -
  let ?c1 = "fst (store r c)" and ?c2 = "fst (store r' (fst (store r c)))"
  have ok1: "ok ?c1" and ok2: "ok ?c2" using assms(1) by (simp_all add: ok_store)
  have e1: "entry (key r) ?c1 = Some r" using assms by (simp add: store_entry)
  show "\<not> snd (store r' ?c1)" using ok1 e1 assms(3) by (simp add: store_flag)
  have "entry (key r) ?c2 = Some r" using ok1 e1 by (simp add: store_entry)
  then show "fetch (key r) d ?c2 = (b, v, c') \<Longrightarrow> b \<and> v = val r"
    using fetch_result [OF ok2, of "key r" d b v c'] by auto
qed

lemma flushed_job_misses:
  assumes "ok c" and "entry k c = Some r" and "fetch k d (flush (job r) c) = (b, v, c')"
  shows "\<not> b \<and> v = d"
  using assms fetch_result [OF ok_flush [OF assms(1)], of k d "job r" b v c']
  by (simp add: flush_entry)

lemma flush_keeps_others:
  assumes "ok c" and "entry k c = Some r" and "job r \<noteq> j"
  shows "entry k (flush j c) = Some r"
  using assms by (simp add: flush_entry)

lemma fetch_repeatable:
  assumes "ok c" and "fetch k d c = (b, v, c')" and "fetch k d c' = (b', v', c'')"
  shows "b' = b \<and> v' = v"
  using fetch_result [OF assms(1,2)] fetch_result [OF ok_fetch [OF assms(1,2)] assms(3)] by auto

lemma store_simulates: "ok c \<Longrightarrow> entry k (fst (store r c)) = spec_store key r (\<lambda>k. entry k c) k"
  by (auto simp: store_entry spec_store_def)

lemma flush_simulates: "ok c \<Longrightarrow> entry k (flush j c) = spec_flush job j (\<lambda>k. entry k c) k"
  by (simp add: flush_entry spec_flush_def split: option.split)

lemma simulates:
  assumes "ok c"
  shows "cache_run store flush fetch d ops c = cache_spec key job val d ops (\<lambda>k. entry k c)"
  using assms
proof (induction ops arbitrary: c)
  case (Cons a ops)
  show ?case
  proof (cases a)
    case (Store r)
    with Cons store_simulates show ?thesis by (simp add: ok_store)
  next
    case (Flush j)
    with Cons flush_simulates show ?thesis by (simp add: ok_flush)
  next
    case (Fetch k)
    obtain b v c' where f: "fetch k d c = (b, v, c')" by (cases "fetch k d c") auto
    with Cons have "ok c'" by (blast intro: ok_fetch)
    with Cons Fetch f fetch_result [OF Cons.prems f] show ?thesis by (auto split: option.split)
  qed
qed simp

end

abbreviation s_ok :: "SubscriptionCache \<Rightarrow> bool" where
  "s_ok c \<equiv> unique_keys SubscriptionRecordSet_clash (s_map c)"

abbreviation p_ok :: "PeerRouteCache \<Rightarrow> bool" where
  "p_ok c \<equiv> unique_keys PeerRouteRecordSet_clash (p_map c)"

lemma cache_clash_laws:
  "SubscriptionRecordSet_clash a a" "SubscriptionRecordSet_clash a b \<Longrightarrow> SubscriptionRecordSet_clash b a"
  "PeerRouteRecordSet_clash p p" "PeerRouteRecordSet_clash p q \<Longrightarrow> PeerRouteRecordSet_clash q p"
  by (auto simp: SubscriptionRecordSet_clash_def PeerRouteRecordSet_clash_def)

lemma cache_clash_key:
  "SubscriptionRecordSet_clash r y \<longleftrightarrow> theKey y = theKey r"
  "PeerRouteRecordSet_clash p q \<longleftrightarrow> p_theKey q = p_theKey p"
  by (auto simp: SubscriptionRecordSet_clash_def PeerRouteRecordSet_clash_def)

lemma cache_unique_keys [simp]:
  "key_of_unique SubscriptionRecordSet_clash (\<lambda>r. theKey r = k)"
  "key_of_unique PeerRouteRecordSet_clash (\<lambda>r. p_theKey r = i)"
  by (auto simp: key_of_unique_def SubscriptionRecordSet_clash_def PeerRouteRecordSet_clash_def)

lemma cache_bind_simps:
  "fst (SubscriptionCache_bind C e c) = c\<lparr>s_map := fst (mi_insert C e (s_map c))\<rparr>"
  "snd (SubscriptionCache_bind C e c) = snd (mi_insert C e (s_map c))"
  "fst (PeerRouteCache_bind D f p) = p\<lparr>p_map := fst (mi_insert D f (p_map p))\<rparr>"
  "snd (PeerRouteCache_bind D f p) = snd (mi_insert D f (p_map p))"
  by (simp_all add: SubscriptionCache_bind_def PeerRouteCache_bind_def split: prod.split)

definition s_entry :: "s_ops \<Rightarrow> SubscriptionRecordKey \<Rightarrow> SubscriptionCache \<Rightarrow> SubscriptionRecord option" where
  "s_entry C k c = mi_find C (\<lambda>r. theKey r = k) (s_map c)"

definition s_fetch ::
  "s_ops \<Rightarrow> SubscriptionRecordKey \<Rightarrow> PeerRoute list \<times> u32 list \<Rightarrow> SubscriptionCache
     \<Rightarrow> bool \<times> (PeerRoute list \<times> u32 list) \<times> SubscriptionCache" where
  "s_fetch C k d c =
     (let (b, l, r, c') = s_findRouting C k (fst d) (snd d) c in (b, (l, r), c'))"

definition p_entry :: "p_ops \<Rightarrow> u32 \<Rightarrow> PeerRouteCache \<Rightarrow> PeerRouteRecord option" where
  "p_entry C i c = mi_find C (\<lambda>r. p_theKey r = i) (p_map c)"

locale subscription_cache = multi_index C SubscriptionRecordSet_clash for C :: s_ops

sublocale subscription_cache \<subseteq> subscr: route_cache
  "SubscriptionCache_bind C" "s_unbindRunID C" "s_fetch C" "s_entry C"
  theKey theJobID "\<lambda>r. (theLocal r, theRemote r)" s_ok
proof unfold_locales
  fix c k d b v c' assume "s_fetch C k d c = (b, v, c')"
  then show "b = (s_entry C k c \<noteq> None) \<and>
      v = (case s_entry C k c of None \<Rightarrow> d | Some r \<Rightarrow> (theLocal r, theRemote r)) \<and>
      (\<forall>j. s_entry C j c' = s_entry C j c)"
    by (auto simp: s_fetch_def s_findRouting_def s_entry_def split: option.splits)
next
  fix c :: SubscriptionCache and r assume "s_ok c"
  show "snd (SubscriptionCache_bind C r c) \<longleftrightarrow> s_entry C (theKey r) c = None"
    using insert_single_flag [OF cache_clash_key(1)] by (simp add: cache_bind_simps s_entry_def)
next
  fix c :: SubscriptionCache and k r assume "s_ok c"
  then show "s_entry C k (fst (SubscriptionCache_bind C r c)) =
      (if k = theKey r \<and> s_entry C k c = None then Some r else s_entry C k c)"
    using insert_single_find [OF cache_clash_key(1), of "s_map c" "\<lambda>x. theKey x = k" r]
    by (auto simp: cache_bind_simps s_entry_def)
next
  fix c :: SubscriptionCache and k d b v c' assume "s_ok c" "s_fetch C k d c = (b, v, c')"
  then show "s_ok c'"
    by (auto simp: s_fetch_def s_findRouting_def split: option.splits)
next
  fix c :: SubscriptionCache and k r assume "s_ok c" "s_entry C k c = Some r"
  then show "theKey r = k" using find_is by (auto simp: s_entry_def)
qed (auto simp: cache_bind_simps unique_insert unique_erase s_unbindRunID_def s_entry_def find_erase
    split: option.split)

locale peer_route_cache = multi_index C PeerRouteRecordSet_clash for C :: p_ops

sublocale peer_route_cache \<subseteq> proute: route_cache
  "PeerRouteCache_bind C" "p_unbindRunID C" "p_findRouting C" "p_entry C"
  p_theKey theRunID theRoute p_ok
proof unfold_locales
  fix c k d b v c' assume "p_findRouting C k d c = (b, v, c')"
  then show "b = (p_entry C k c \<noteq> None) \<and>
      v = (case p_entry C k c of None \<Rightarrow> d | Some r \<Rightarrow> theRoute r) \<and>
      (\<forall>j. p_entry C j c' = p_entry C j c)"
    by (auto simp: p_findRouting_def p_entry_def split: option.splits)
next
  fix c :: PeerRouteCache and r assume "p_ok c"
  show "snd (PeerRouteCache_bind C r c) \<longleftrightarrow> p_entry C (p_theKey r) c = None"
    using insert_single_flag [OF cache_clash_key(2)] by (simp add: cache_bind_simps p_entry_def)
next
  fix c :: PeerRouteCache and k r assume "p_ok c"
  then show "p_entry C k (fst (PeerRouteCache_bind C r c)) =
      (if k = p_theKey r \<and> p_entry C k c = None then Some r else p_entry C k c)"
    using insert_single_find [OF cache_clash_key(2), of "p_map c" "\<lambda>x. p_theKey x = k" r]
    by (auto simp: cache_bind_simps p_entry_def)
next
  fix c :: PeerRouteCache and k d b v c' assume "p_ok c" "p_findRouting C k d c = (b, v, c')"
  then show "p_ok c'"
    by (auto simp: p_findRouting_def split: option.splits)
next
  fix c :: PeerRouteCache and k r assume "p_ok c" "p_entry C k c = Some r"
  then show "p_theKey r = k" using find_is by (auto simp: p_entry_def)
qed (auto simp: cache_bind_simps unique_insert unique_erase p_unbindRunID_def p_entry_def find_erase
    split: option.split)

abbreviation s_list :: s_ops where "s_list \<equiv> list_mi SubscriptionRecordSet_clash"
abbreviation p_list :: p_ops where "p_list \<equiv> list_mi PeerRouteRecordSet_clash"

interpretation subscr_set: subscription_cache s_list
  by (intro subscription_cache.intro list_mi_multi_index) (fact cache_clash_laws)+

interpretation peer_route_set: peer_route_cache p_list
  by (intro peer_route_cache.intro list_mi_multi_index) (fact cache_clash_laws)+

section \<open>Properties\<close>

context subscription_cache
begin

lemmas subscription_cache_simulates = subscr.simulates

end

context peer_route_cache
begin

lemmas peer_route_cache_simulates = proute.simulates

end

text \<open>
  C36. Over a container that keeps Boost's contract, the subscription cache answers every history of binds,
  flushes and lookups as the partial map from (message id, unit id) to records does: the first record bound
  under a key is the one every lookup returns until the job of that record is flushed; a miss leaves the
  caller's vectors alone.
\<close>

theorem subscription_cache_refines_map:
  assumes "subscription_cache C"
  shows "cache_run (SubscriptionCache_bind C) (s_unbindRunID C) (s_fetch C) d ops SubscriptionCache_new =
    cache_spec theKey theJobID (\<lambda>r. (theLocal r, theRemote r)) d ops Map.empty"
proof -
  have mi: "multi_index C SubscriptionRecordSet_clash" using assms by (rule subscription_cache.axioms)
  have "s_entry C k SubscriptionCache_new = None" for k
    using multi_index.find_is [OF mi, of "\<lambda>r. theKey r = k" "[]"]
    by (cases "s_entry C k SubscriptionCache_new") (auto simp: s_entry_def SubscriptionCache_new_def)
  with subscription_cache.subscription_cache_simulates [OF assms, of SubscriptionCache_new d ops]
  show ?thesis by (simp add: SubscriptionCache_new_def)
qed

theorem subscription_cache_refines_map_witness:
  "cache_run (SubscriptionCache_bind s_list) (s_unbindRunID s_list) (s_fetch s_list) ([], [])
     [Store \<lparr>theJobID = 1, theKey = \<lparr>k_msg_id = 5, k_unitID = 0\<rparr>, theLocal = [], theRemote = [9]\<rparr>,
      Store \<lparr>theJobID = 2, theKey = \<lparr>k_msg_id = 5, k_unitID = 0\<rparr>, theLocal = [], theRemote = [8]\<rparr>,
      Flush 2, Fetch \<lparr>k_msg_id = 5, k_unitID = 0\<rparr>, Flush 1, Fetch \<lparr>k_msg_id = 5, k_unitID = 0\<rparr>]
     SubscriptionCache_new = [(True, [], [9]), (False, [], [])]"
  unfolding subscription_cache_refines_map [OF subscr_set.subscription_cache_axioms]
  by (simp add: spec_store_def spec_flush_def)

text \<open>
  The same for the peer route cache and the partial map from peer ids to routes.
\<close>

lemma peer_route_cache_refines_map:
  assumes "peer_route_cache C"
  shows "cache_run (PeerRouteCache_bind C) (p_unbindRunID C) (p_findRouting C) d ops PeerRouteCache_new =
    cache_spec p_theKey theRunID theRoute d ops Map.empty"
proof -
  have mi: "multi_index C PeerRouteRecordSet_clash" using assms by (rule peer_route_cache.axioms)
  have "p_entry C k PeerRouteCache_new = None" for k
    using multi_index.find_is [OF mi, of "\<lambda>r. p_theKey r = k" "[]"]
    by (cases "p_entry C k PeerRouteCache_new") (auto simp: p_entry_def PeerRouteCache_new_def)
  with peer_route_cache.peer_route_cache_simulates [OF assms, of PeerRouteCache_new d ops]
  show ?thesis by (simp add: PeerRouteCache_new_def)
qed

lemma peer_route_cache_refines_map_witness:
  "cache_run (PeerRouteCache_bind p_list) (p_unbindRunID p_list) (p_findRouting p_list) []
     [Store \<lparr>theRunID = 1, p_theKey = 4, theRoute = [\<lparr>pr_peer_id = 4, pr_node_id = 2\<rparr>]\<rparr>, Fetch 4, Flush 1, Fetch 4]
     PeerRouteCache_new = [(True, [\<lparr>pr_peer_id = 4, pr_node_id = 2\<rparr>]), (False, [])]"
  unfolding peer_route_cache_refines_map [OF peer_route_set.peer_route_cache_axioms]
  by (simp add: spec_store_def spec_flush_def)

end
