(* ===== verification/MessageTrace.thy ===== *)
theory MessageTrace
  imports Protocol
begin

text \<open>
  The debugging aids of the dispatcher: \<open>SamsonTrace\<close> keeps, per connection handler, the last
  messages that asked to be traced together with where they were routed; \<open>IdentityTrace\<close> is the set
  of peer ids whose messages are logged. The lemmas show that a trace is exactly the 25 most recent
  records, newest first, and that inserting an identity toggles it.
\<close>

section \<open>SamsonTrace\<close>

record SamsonTraceRecord =
  tr_sh :: SamsonHeader
  tr_sl :: "PeerRoute list"
  tr_sr :: "int list"

type_synonym SamsonTraceList = "SamsonTraceRecord list"

definition SamsonTraceList_add :: "SamsonTraceRecord \<Rightarrow> SamsonTraceList \<Rightarrow> SamsonTraceList" where
  "SamsonTraceList_add tr str = (let str' = tr # str in
     if length str' > 25 then butlast str' else str')"

type_synonym SamsonTrace = "(chptr, SamsonTraceList) smap"

text \<open>\<open>tm_[rh]\<close> creates an empty list for a handler it does not know.\<close>

definition SamsonTrace_at :: "chptr \<Rightarrow> SamsonTrace \<Rightarrow> SamsonTraceList" where
  "SamsonTrace_at rh tm = (case smap_find rh tm of Some l \<Rightarrow> l | None \<Rightarrow> [])"

definition SamsonTrace_add :: "chptr \<Rightarrow> SamsonTraceRecord \<Rightarrow> SamsonTrace \<Rightarrow> SamsonTrace" where
  "SamsonTrace_add rh tr tm = smap_set rh (SamsonTraceList_add tr (SamsonTrace_at rh tm)) tm"

definition SamsonTrace_report :: "chptr \<Rightarrow> SamsonTrace \<Rightarrow> SamsonTraceList \<times> SamsonTrace" where
  "SamsonTrace_report rh tm =
     (SamsonTrace_at rh tm, fst (smap_insert rh [] tm))"

section \<open>IdentityTrace\<close>

type_synonym IdentityTrace = "(int, int) smap"

definition IdentityTrace_insert :: "int \<Rightarrow> int \<Rightarrow> IdentityTrace \<Rightarrow> IdentityTrace" where
  "IdentityTrace_insert i dir t =
     (if smap_find i t \<noteq> None then smap_erase i t else smap_set i dir t)"

definition IdentityTrace_remove :: "int \<Rightarrow> IdentityTrace \<Rightarrow> IdentityTrace" where
  "IdentityTrace_remove i t = smap_erase i t"

definition IdentityTrace_trace :: "int \<Rightarrow> IdentityTrace \<Rightarrow> bool" where
  "IdentityTrace_trace i t \<longleftrightarrow> smap_find i t \<noteq> None"

section \<open>Lemmas\<close>

lemma add_take: "length str \<le> 25 \<Longrightarrow> SamsonTraceList_add tr str = take 25 (tr # str)"
  by (cases "length str = 25") (auto simp: SamsonTraceList_add_def Let_def butlast_conv_take)

lemma fold_add_take:
  "length str \<le> 25 \<Longrightarrow> fold SamsonTraceList_add trs str = take 25 (rev trs @ str)"
proof (induction trs arbitrary: str)
  case (Cons t trs)
  have "fold SamsonTraceList_add (t # trs) str = take 25 (rev trs @ take 25 (t # str))"
    using Cons by (simp add: add_take)
  also have "\<dots> = take 25 (rev (t # trs) @ str)"
    by (simp add: take_append min_def take_Cons')
  finally show ?case .
qed simp

lemma SamsonTrace_at_add:
  "SamsonTrace_at h (SamsonTrace_add rh tr tm) =
     (if h = rh then SamsonTraceList_add tr (SamsonTrace_at rh tm) else SamsonTrace_at h tm)"
  by (simp add: SamsonTrace_at_def SamsonTrace_add_def)

definition add_event :: "chptr \<times> SamsonTraceRecord \<Rightarrow> SamsonTrace \<Rightarrow> SamsonTrace" where
  "add_event e = SamsonTrace_add (fst e) (snd e)"

lemma trace_of_events:
  "length (SamsonTrace_at h tm) \<le> 25 \<Longrightarrow>
   SamsonTrace_at h (fold add_event evs tm) =
     take 25 (rev (map snd (filter (\<lambda>e. fst e = h) evs)) @ SamsonTrace_at h tm)"
proof (induction evs arbitrary: tm)
  case (Cons e evs)
  have "length (SamsonTrace_at h (add_event e tm)) \<le> 25"
    using Cons.prems by (auto simp: add_event_def SamsonTrace_at_add add_take)
  note IH = Cons.IH [OF this]
  show ?case
  proof (cases "fst e = h")
    case True
    then have "SamsonTrace_at h (add_event e tm) = take 25 (snd e # SamsonTrace_at h tm)"
      using Cons.prems by (simp add: add_event_def SamsonTrace_at_add add_take)
    with True IH show ?thesis by (simp add: take_append min_def take_Cons')
  next
    case False
    then show ?thesis using IH by (simp add: add_event_def SamsonTrace_at_add)
  qed
qed simp

text \<open>
  After any sequence of traced messages the list a handler reports is the 25 most recent of the
  records added for that handler, newest first, whatever was added for other handlers in between.
\<close>

lemma trace_keeps_most_recent:
  "fst (SamsonTrace_report h (fold add_event evs [])) =
     take 25 (rev (map snd (filter (\<lambda>e. fst e = h) evs)))"
  using trace_of_events [of h "[]" evs] by (simp add: SamsonTrace_report_def SamsonTrace_at_def)

text \<open>
  \<open>IdentityTrace::insert\<close> toggles: an id is traced after it exactly when it was not traced before,
  the other ids keep their state, and the map stays well formed.
\<close>

lemma identity_insert_toggles:
  assumes "smap_ok t"
  shows "IdentityTrace_trace j (IdentityTrace_insert i dir t) =
      (if j = i then \<not> IdentityTrace_trace i t else IdentityTrace_trace j t) \<and>
    smap_ok (IdentityTrace_insert i dir t)"
  using assms
  by (auto simp: IdentityTrace_trace_def IdentityTrace_insert_def smap_find_erase keeps)

lemma identity_insert_toggles_witness:
  "IdentityTrace_trace 4 (IdentityTrace_insert 7 1 [(4, 1), (7, 2)]) \<and>
   \<not> IdentityTrace_trace 7 (IdentityTrace_insert 7 1 [(4, 1), (7, 2)]) \<and>
   IdentityTrace_trace 5 (IdentityTrace_insert 5 0 [(4, 1), (7, 2)])"
  using identity_insert_toggles [of "[(4, 1), (7, 2)]" 4 7 1]
    identity_insert_toggles [of "[(4, 1), (7, 2)]" 7 7 1]
    identity_insert_toggles [of "[(4, 1), (7, 2)]" 5 5 0]
  by (simp add: IdentityTrace_trace_def)

end
