(* ===== verification/ChannelFilterMgr.thy ===== *)
theory ChannelFilterMgr
  imports Protocol "HOL-Library.List_Lexorder" "HOL-Library.Char_ord"
begin

text \<open>
  \<open>ChannelFilterMgr\<close>: the filters of connections are shared libraries that are loaded once and counted.
  The manager keeps a \<open>std::map\<close> from library name to its record. The ACE service repository that loads
  and removes the libraries is outside the repository: its operations are the record \<open>svc_ops\<close> over an
  opaque state \<open>'x\<close>. Objects of class \<open>FilterBase\<close> are addresses, 0 the null pointer.
\<close>

type_synonym fptr = nat

record 'x svc_ops =
  process_directive :: "string \<Rightarrow> 'x \<Rightarrow> 'x"
  svc_found :: "string \<Rightarrow> 'x \<Rightarrow> bool"
  svc_instance :: "string \<Rightarrow> 'x \<Rightarrow> fptr"

record ChannelFilterRecord =
  dll_name :: string
  app :: fptr
  ref_count :: u32

datatype filter_state = FilterActive | FilterDestroyed

record ChannelFilterMgr =
  f_map :: "(string, ChannelFilterRecord) smap"
  f_state :: filter_state

definition ChannelFilterMgr_new :: ChannelFilterMgr where
  "ChannelFilterMgr_new = \<lparr>f_map = [], f_state = FilterActive\<rparr>"

definition ChannelFilterMgr_initialize :: "ChannelFilterMgr \<Rightarrow> int \<times> ChannelFilterMgr" where
  "ChannelFilterMgr_initialize m = (1, m\<lparr>f_state := FilterActive\<rparr>)"

definition f_find :: "string \<Rightarrow> ChannelFilterMgr \<Rightarrow> ChannelFilterRecord option" where
  "f_find key m = smap_find key (f_map m)"

definition f_bind :: "ChannelFilterRecord \<Rightarrow> ChannelFilterMgr \<Rightarrow> int \<times> ChannelFilterMgr" where
  "f_bind entity m =
     (let (xs, ok) = smap_insert (dll_name entity) entity (f_map m)
      in (if ok then 0 else -1, m\<lparr>f_map := xs\<rparr>))"

definition f_unbind :: "string \<Rightarrow> ChannelFilterMgr \<Rightarrow> int \<times> ChannelFilterMgr" where
  "f_unbind key m =
     (case smap_find key (f_map m) of
        Some _ \<Rightarrow> (0, m\<lparr>f_map := smap_erase key (f_map m)\<rparr>)
      | None \<Rightarrow> (-1, m))"

text \<open>A record is reached through the map only, so updating it in place is updating the map's value.\<close>

definition load_directive :: "string \<Rightarrow> string list \<Rightarrow> string" where
  "load_directive dll argv =
     ''dynamic '' @ dll @ '' Service_Object * '' @ dll @ '':_make_'' @ dll @ ''() active '' @ [CHR 0x22]
     @ concat (map (\<lambda>a. a @ '' '') argv) @ [CHR 0x22]"

definition f_load ::
  "'x svc_ops \<Rightarrow> string \<Rightarrow> string list \<Rightarrow> ChannelFilterMgr \<times> 'x \<Rightarrow> fptr \<times> ChannelFilterMgr \<times> 'x" where
  "f_load S dll argv st =
     (let (m, x) = st in
      case f_find dll m of
        Some r \<Rightarrow> (app r, m\<lparr>f_map := smap_set dll (r\<lparr>ref_count := ref_count r + 1\<rparr>) (f_map m)\<rparr>, x)
      | None \<Rightarrow>
          (let x1 = process_directive S (load_directive dll argv) x in
           if svc_found S dll x1 then
             (let r = \<lparr>dll_name = dll, app = svc_instance S dll x1, ref_count = 1\<rparr>
              in (app r, snd (f_bind r m), x1))
           else (0, m, x1)))"

definition f_unload ::
  "'x svc_ops \<Rightarrow> string \<Rightarrow> ChannelFilterMgr \<times> 'x \<Rightarrow> fptr \<times> ChannelFilterMgr \<times> 'x" where
  "f_unload S dll st =
     (let (m, x) = st in
      case f_find dll m of
        Some r \<Rightarrow>
          (let r1 = r\<lparr>ref_count := ref_count r - 1\<rparr> in
           if ref_count r1 = 0 then
             (0, snd (f_unbind (dll_name r1) m), process_directive S (''remove '' @ dll_name r1) x)
           else (0, m\<lparr>f_map := smap_set dll r1 (f_map m)\<rparr>, x))
      | None \<Rightarrow> (0, m, x))"

text \<open>
  \<open>destroy\<close> erases the element its iterator stands on and then advances the iterator: with an entry in the
  map the behaviour is undefined (\<open>None\<close>).
\<close>

definition ChannelFilterMgr_destroy ::
  "'x svc_ops \<Rightarrow> ChannelFilterMgr \<times> 'x \<Rightarrow> (ChannelFilterMgr \<times> 'x) option" where
  "ChannelFilterMgr_destroy S st =
     (let (m, x) = st in
      case f_map m of
        [] \<Rightarrow> Some (m\<lparr>f_map := [], f_state := FilterDestroyed\<rparr>, x)
      | _ # _ \<Rightarrow> None)"

section \<open>Reference counting\<close>

datatype filter_op = Load string "string list" | Unload string

fun filter_step :: "'x svc_ops \<Rightarrow> filter_op \<Rightarrow> ChannelFilterMgr \<times> 'x \<Rightarrow> ChannelFilterMgr \<times> 'x" where
  "filter_step S (Load d argv) st = snd (f_load S d argv st)"
| "filter_step S (Unload d) st = snd (f_unload S d st)"

text \<open>How many users a library has: loads count up, unloads count down but not below zero.\<close>

fun users_step :: "filter_op \<Rightarrow> (string \<Rightarrow> nat) \<Rightarrow> (string \<Rightarrow> nat)" where
  "users_step (Load d argv) u = u(d := u d + 1)"
| "users_step (Unload d) u = u(d := u d - 1)"

definition counted :: "(string \<Rightarrow> nat) \<Rightarrow> ChannelFilterMgr \<Rightarrow> bool" where
  "counted u m \<longleftrightarrow> smap_ok (f_map m) \<and>
     (\<forall>d. f_find d m = None \<longleftrightarrow> u d = 0) \<and>
     (\<forall>d r. f_find d m = Some r \<longrightarrow> dll_name r = d \<and> ref_count r = of_nat (u d))"

lemma f_load_found:
  assumes "\<And>d x. svc_found S d x" and "smap_ok (f_map m)"
  shows "smap_ok (f_map (fst (snd (f_load S d argv (m, x)))))"
    and "f_find e (fst (snd (f_load S d argv (m, x)))) =
      (if e = d then
         (case f_find d m of
            Some r \<Rightarrow> Some (r\<lparr>ref_count := ref_count r + 1\<rparr>)
          | None \<Rightarrow> Some \<lparr>dll_name = d, app = svc_instance S d (process_directive S (load_directive d argv) x), ref_count = 1\<rparr>)
       else f_find e m)"
  using assms
  by (auto simp: f_load_def f_find_def f_bind_def smap_insert_def Let_def keeps split: option.splits)

lemma f_unload_find:
  assumes "smap_ok (f_map m)" and "\<And>r. f_find d m = Some r \<Longrightarrow> dll_name r = d"
  shows "smap_ok (f_map (fst (snd (f_unload S d (m, x)))))"
    and "f_find e (fst (snd (f_unload S d (m, x)))) =
      (if e = d then
         (case f_find d m of
            Some r \<Rightarrow> if ref_count r = 1 then None else Some (r\<lparr>ref_count := ref_count r - 1\<rparr>)
          | None \<Rightarrow> None)
       else f_find e m)"
  using assms
  by (auto simp: f_unload_def f_find_def f_unbind_def Let_def keeps smap_find_erase split: option.splits)

lemma counted_step:
  assumes "\<And>d x. svc_found S d x" and "counted u (fst st)" and "\<And>d. u d < 2 ^ 32 - 1"
  shows "counted (users_step op u) (fst (filter_step S op st))"
proof -
  obtain m x where st: "st = (m, x)" by (cases st)
  have ok: "smap_ok (f_map m)" and none: "\<And>d. f_find d m = None \<longleftrightarrow> u d = 0"
    and some: "\<And>d r. f_find d m = Some r \<Longrightarrow> dll_name r = d \<and> ref_count r = of_nat (u d)"
    using assms(2) st by (auto simp: counted_def)
  show ?thesis
  proof (cases op)
    case (Load d argv)
    with ok some none show ?thesis
      by (auto simp: st counted_def f_load_found [OF assms(1) ok] split: option.split)
  next
    case (Unload d)
    have name: "f_find d m = Some r \<Longrightarrow> dll_name r = d" for r using some by blast
    have "(of_nat (u d) :: u32) = 1 \<longleftrightarrow> u d = 1"
      using count_eq [of "u d" 1] assms(3) [of d] by simp
    moreover have "f_find d m = Some r \<Longrightarrow> 0 < u d \<and> (of_nat (u d - Suc 0) :: u32) = of_nat (u d) - 1" for r
      using none [of d] by (cases "u d") auto
    ultimately show ?thesis using Unload ok some none
      by (auto simp: st counted_def f_unload_find [OF ok name] split: option.split if_splits)
  qed
qed

lemma counted_run:
  assumes "\<And>d x. svc_found S d x"
  shows "counted u (fst st) \<Longrightarrow> \<forall>d. u d + length ops < 2 ^ 32 \<Longrightarrow>
    counted (fold users_step ops u) (fst (fold (filter_step S) ops st))"
proof (induction ops arbitrary: u st)
  case (Cons op ops)
  have "counted (users_step op u) (fst (filter_step S op st))"
  proof (intro counted_step assms Cons.prems(1))
    fix d show "u d < 2 ^ 32 - 1" using Cons.prems(2) [rule_format, of d] by simp
  qed
  moreover have "users_step op u d + length ops < 2 ^ 32" for d
  proof -
    have "users_step op u d \<le> u d + 1" by (cases op) auto
    moreover have "u d + length (op # ops) < 2 ^ 32" using Cons.prems(2) by blast
    ultimately show ?thesis by simp
  qed
  ultimately show ?case using Cons.IH by simp
qed simp

text \<open>
  Reference counting of filters. When the service repository finds the libraries it is asked for, then
  after any history of fewer than \<open>2 ^ 32\<close> loads and unloads from the empty manager a library is
  registered exactly while it has users, with their number as its count.
\<close>

lemma filters_counted:
  assumes "\<And>d x. svc_found S d x" and "length ops < 2 ^ 32"
  shows "map_option ref_count (f_find d (fst (fold (filter_step S) ops (ChannelFilterMgr_new, x)))) =
    (let n = fold users_step ops (\<lambda>_. 0) d in if n = 0 then None else Some (of_nat n))"
proof -
  have "counted (\<lambda>_. 0) (fst (ChannelFilterMgr_new, x))"
    by (simp add: counted_def ChannelFilterMgr_new_def f_find_def)
  with counted_run [of S, OF assms(1) this, of ops] assms(2)
  have c: "counted (fold users_step ops (\<lambda>_. 0)) (fst (fold (filter_step S) ops (ChannelFilterMgr_new, x)))"
    by simp
  show ?thesis
  proof (cases "f_find d (fst (fold (filter_step S) ops (ChannelFilterMgr_new, x)))")
    case (Some r)
    then have "fold users_step ops (\<lambda>_. 0) d \<noteq> 0" using c unfolding counted_def by (metis option.distinct(1))
    with Some c show ?thesis by (simp add: counted_def)
  qed (use c in \<open>simp add: counted_def\<close>)
qed

definition example_svc :: "string list svc_ops" where
  "example_svc = \<lparr>process_directive = (\<lambda>d x. d # x), svc_found = (\<lambda>d x. True), svc_instance = (\<lambda>d x. 77)\<rparr>"

lemma filters_counted_witness:
  "map_option ref_count (f_find ''a'' (fst (fold (filter_step example_svc)
     [Load ''a'' [], Load ''b'' [], Load ''a'' [], Unload ''b'', Unload ''a''] (ChannelFilterMgr_new, [])))) = Some 1"
  using filters_counted [of example_svc "[Load ''a'' [], Load ''b'' [], Load ''a'' [], Unload ''b'', Unload ''a'']" "''a''" "[]"]
  by (simp add: example_svc_def)

text \<open>
  A load and an unload of a library that was not loaded cancel out: the table is the one before, and the
  repository got the directive that starts the service and the one that removes it.
\<close>

lemma load_unload_restores:
  assumes "smap_ok (f_map m)" and "f_find d m = None" and "svc_found S d (process_directive S (load_directive d argv) x)"
  shows "\<exists>m'. f_unload S d (snd (f_load S d argv (m, x))) =
      (0, m', process_directive S (''remove '' @ d) (process_directive S (load_directive d argv) x)) \<and>
    (\<forall>e. f_find e m' = f_find e m)"
  using assms
  by (auto simp: f_load_def f_unload_def f_find_def f_bind_def f_unbind_def smap_insert_def Let_def keeps smap_find_erase)

lemma load_unload_restores_witness:
  "\<exists>m'. f_unload example_svc ''a'' (snd (f_load example_svc ''a'' [] (ChannelFilterMgr_new, []))) =
     (0, m', [''remove a'', load_directive ''a'' []]) \<and> f_find ''a'' m' = None"
  using load_unload_restores [of ChannelFilterMgr_new "''a''" example_svc "[]" "[]"]
  by (auto simp: ChannelFilterMgr_new_def f_find_def example_svc_def)

end
