(* ===== verification/DispatcherState.thy ===== *)
theory DispatcherState
  imports Complex_Main ReceiveHandler RouterStats IdentityTables RouteCaches MessageTrace ChannelFilterMgr
    "HOL-Library.Monad_Syntax"
begin

text \<open>
  The state of a running dispatcher: the connection records and connection handlers as two heaps of
  objects (a handler is shared by its record's \<open>ch_set_\<close> and the identity tables), the connection table,
  the identity tables, the route caches and the traces. What the code calls outside the repository (ACE
  sockets, connector, reactor and timers, the header classes, the object manager with its database, the
  options) is the record \<open>env\<close>, over an opaque state \<open>'x\<close> of the outside, a state \<open>'k\<close> of each socket and
  a type \<open>'t\<close> of time values.

  Operations return \<open>option\<close>: \<open>None\<close> is undefined behaviour of the C++ code (a null or dangling pointer
  that is followed, a double release, an invalidated iterator that is used).
\<close>

section \<open>Objects\<close>

type_synonym inet_addr = "string \<times> u16"

record ConnectionRecord =
  r_id :: u32
  r_name :: string
  r_host :: string
  r_input_filter :: string
  r_output_filter :: string
  r_port :: u16
  r_header :: string
  r_proxy_role :: char
  r_connection_type :: char
  r_max_retry_timeout :: u32
  r_priority :: u32
  r_tcp_nodelay :: bool
  r_isMaster :: bool
  r_first_message_alert :: bool
  r_send_buff :: u32
  r_recv_buff :: u32
  r_read_buff :: u32
  r_peer_acceptor :: bool
  r_ch_set :: "chptr list"

datatype State = UNINITIALIZED | IDLE | CONNECTING | ESTABLISHED | DISCONNECTING | FAILED

text \<open>The class of a handler; a transceiver is both a receive and a transmit handler.\<close>

datatype handler_class = TransmitHandler | ReceiveHandler | TransceiverHandler

text \<open>
  A handler. The last five fields are the parts of its base class \<open>ACE_Svc_Handler\<close> the code uses: the
  socket and its handle (\<open>-1\<close> invalid), the message queue, and whether the reactor is asked for a
  wakeup when the socket is writable.
\<close>

record ('k, 't) ConnectionHandler =
  ch_class :: handler_class
  ch_entity :: recptr
  ch_input_filter :: fptr
  ch_output_filter :: fptr
  ch_input_filter_dll :: string
  ch_output_filter_dll :: string
  ch_remote_addr0 :: inet_addr
  ch_remote_addr :: inet_addr
  ch_local_addr :: inet_addr
  ch_connection_id :: int
  ch_state :: State
  ch_timeout :: u32
  ch_timer_id :: int
  ch_header_type_id :: int
  ch_commanded_close :: bool
  ch_send_stats :: "'t RouteByteStats"
  ch_recv_stats :: "'t RouteByteStats"
  ch_process_time :: RouteTimeStats
  ch_rx :: rx_state
  ch_handle :: int
  ch_sock :: 'k
  ch_queue :: "bytes list"
  ch_wakeup :: bool

datatype ConnectionTable_State = Empty | Populating | Populated | Clearing

section \<open>The outside\<close>

datatype 'k connect_result = Connected int 'k | ConnectPending int 'k | ConnectFailed

text \<open>
  Sockets and the ACE reactor. \<open>send_n\<close> gives its result, the number of bytes that went out and \<open>errno\<close>;
  \<open>queue_full\<close> says whether the message queue is above its high water mark.
\<close>

record ('x, 'k, 't) net_ops =
  n_rx :: "'k rx_env"
  n_send_n :: "'k \<Rightarrow> bytes \<Rightarrow> int \<times> nat \<times> errno \<times> 'k"
  n_queue_full :: "bytes list \<Rightarrow> bool"
  n_wakeup_ok :: bool
  n_usec_diff :: "'t \<Rightarrow> 't \<Rightarrow> int"
  n_time_zero :: 't
  n_elapsed :: "'x \<Rightarrow> real"
  n_new_sock :: 'k
  n_schedule_timer :: "u32 \<Rightarrow> 'x \<Rightarrow> int \<times> 'x"
  n_cancel_timer :: "int \<Rightarrow> 'x \<Rightarrow> 'x"
  n_connector_cancel :: "int \<Rightarrow> 'x \<Rightarrow> int \<times> 'x"
  n_connect :: "inet_addr \<Rightarrow> 'x \<Rightarrow> 'k connect_result \<times> 'x"
  n_enable_nonblock :: "'k \<Rightarrow> bool"
  n_local_addr :: "'k \<Rightarrow> inet_addr option"
  n_remote_addr :: "'k \<Rightarrow> inet_addr option"
  n_register_read :: "int \<Rightarrow> 'x \<Rightarrow> bool \<times> 'x"
  n_remove_handler :: "int \<Rightarrow> 'x \<Rightarrow> 'x"
  n_acceptor_open :: "inet_addr \<Rightarrow> 'x \<Rightarrow> bool \<times> 'x"
  n_acceptor_close :: "inet_addr \<Rightarrow> 'x \<Rightarrow> 'x"

text \<open>The header classes and the filters.\<close>

record 'x header_ops =
  hd_noheader :: int
  hd_samson :: int
  hd_new_samson :: EventHeaderObj
  hd_lookup :: "string \<Rightarrow> int"
  hd_header_type :: "EventHeaderObj \<Rightarrow> int"
  hd_encode :: "EventHeaderObj \<Rightarrow> EventHeaderObj"
  hd_filter_process :: "fptr \<Rightarrow> bytes option \<Rightarrow> EventHeaderObj \<Rightarrow> 'x \<Rightarrow> bytes option \<times> EventHeaderObj \<times> 'x"

text \<open>
  The object manager (\<open>SAMSON_OBJMGR\<close>), which answers from the database and the two route caches.
\<close>

record model_details =
  md_name :: string
  md_jid :: u32
  md_nodeid :: u32
  md_pid :: int
  md_unitid :: u32
  md_statsid :: u32

record 'x objmgr_ops =
  om_getModelDetails :: "u32 \<Rightarrow> 'x \<Rightarrow> model_details option"
  om_isDispatcher :: "u32 \<Rightarrow> 'x \<Rightarrow> u32 option"
  om_setReady :: "u32 \<Rightarrow> 'x \<Rightarrow> 'x"
  om_NodeID :: "'x \<Rightarrow> u32"
  om_ModelID :: "'x \<Rightarrow> u32"
  om_isMasterDispatcher :: "'x \<Rightarrow> bool"
  om_getJobMaster :: "u32 \<Rightarrow> 'x \<Rightarrow> int \<times> PeerRoute list"
  om_getPeerRoute :: "u32 \<Rightarrow> u32 \<Rightarrow> bool \<Rightarrow> PeerRouteCache \<times> 'x \<Rightarrow> PeerRoute list \<times> PeerRouteCache \<times> 'x"
  om_getAllSubscribers :: "u32 \<Rightarrow> u32 \<Rightarrow> u32 \<Rightarrow> bool \<Rightarrow> SubscriptionCache \<times> 'x
     \<Rightarrow> (PeerRoute list \<times> u32 list) \<times> SubscriptionCache \<times> 'x"
  om_unsubscribe :: "u32 \<Rightarrow> u32 \<Rightarrow> u32 \<Rightarrow> 'x \<Rightarrow> 'x"
  om_reset_cache :: "'x \<Rightarrow> 'x"
  om_getOtherDispatchers :: "'x \<Rightarrow> u32 list"
  om_getHigherDispatchers :: "'x \<Rightarrow> u32 list"
  om_DispatcherInfo :: "u32 \<Rightarrow> 'x \<Rightarrow> string option"
  om_DispatcherStats :: "u32 \<Rightarrow> u32 \<Rightarrow> char \<Rightarrow> int \<Rightarrow> int \<Rightarrow> real \<Rightarrow> real \<Rightarrow> real \<Rightarrow> real \<Rightarrow> 'x \<Rightarrow> 'x"

record ('x, 'k, 't) env =
  net :: "('x, 'k, 't) net_ops"
  hdr :: "'x header_ops"
  om :: "'x objmgr_ops"
  svc :: "'x svc_ops"
  mC :: m_ops
  dC :: d_ops
  cC :: c_ops
  sC :: s_ops
  pC :: p_ops
  debug_route :: "'x \<Rightarrow> bool"
  opt_max_timeout :: u32
  opt_max_buffer_size :: u32
  opt_command_port :: u16
  opt_d2d_port :: u16
  opt_default_host :: string

section \<open>The dispatcher\<close>

record ('x, 'k, 't) dispatcher =
  handlers :: "chptr \<Rightarrow> ('k, 't) ConnectionHandler option"
  records :: "recptr \<Rightarrow> ConnectionRecord option"
  next_ch :: chptr
  next_rec :: recptr
  ctable :: "(int, recptr) smap"
  ctable_state :: ConnectionTable_State
  FreeKey :: int
  d2m_table :: ModelIdentity
  d2d_table :: DispatcherIdentity
  d2c_table :: CommandIdentity
  subscr :: SubscriptionCache
  proute :: PeerRouteCache
  msg_trace :: SamsonTrace
  id_trace :: IdentityTrace
  filters :: ChannelFilterMgr
  first_call :: bool
  my_ch :: chptr
  cmd_debug :: bool
  now :: 't
  outside :: 'x

definition dispatcher_init :: "'t \<Rightarrow> 'x \<Rightarrow> ('x, 'k, 't) dispatcher" where
  "dispatcher_init t0 x =
     \<lparr>handlers = Map.empty, records = Map.empty, next_ch = 1, next_rec = 1, ctable = [],
      ctable_state = Empty, FreeKey = 65535, d2m_table = ModelIdentity_new,
      d2d_table = DispatcherIdentity_new, d2c_table = CommandIdentity_new,
      subscr = SubscriptionCache_new, proute = PeerRouteCache_new, msg_trace = [], id_trace = [],
      filters = ChannelFilterMgr_new, first_call = True, my_ch = 0, cmd_debug = False, now = t0, outside = x\<rparr>"

text \<open>Following a pointer, and writing through it.\<close>

definition the_ch :: "chptr \<Rightarrow> ('x, 'k, 't) dispatcher \<Rightarrow> ('k, 't) ConnectionHandler option" where
  "the_ch p w = handlers w p"

definition the_rec :: "recptr \<Rightarrow> ('x, 'k, 't) dispatcher \<Rightarrow> ConnectionRecord option" where
  "the_rec p w = records w p"

definition set_ch :: "chptr \<Rightarrow> ('k, 't) ConnectionHandler \<Rightarrow> ('x, 'k, 't) dispatcher \<Rightarrow> ('x, 'k, 't) dispatcher" where
  "set_ch p h w = w\<lparr>handlers := (handlers w)(p \<mapsto> h)\<rparr>"

definition set_rec :: "recptr \<Rightarrow> ConnectionRecord \<Rightarrow> ('x, 'k, 't) dispatcher \<Rightarrow> ('x, 'k, 't) dispatcher" where
  "set_rec p r w = w\<lparr>records := (records w)(p \<mapsto> r)\<rparr>"

definition set_state :: "State \<Rightarrow> chptr \<Rightarrow> ('x, 'k, 't) dispatcher \<Rightarrow> ('x, 'k, 't) dispatcher option" where
  "set_state s p w = do { h \<leftarrow> the_ch p w; Some (set_ch p (h\<lparr>ch_state := s\<rparr>) w) }"

lemma heap_simps [simp]:
  "the_ch p (set_ch q h w) = (if p = q then Some h else the_ch p w)"
  "the_rec p (set_ch q h w) = the_rec p w"
  "the_rec p (set_rec q r w) = (if p = q then Some r else the_rec p w)"
  "the_ch p (set_rec q r w) = the_ch p w"
  by (auto simp: the_ch_def set_ch_def the_rec_def set_rec_def)

end
