(* ===== verification/ExampleEnv.thy ===== *)
theory ExampleEnv
  imports DispatcherState
begin

text \<open>
  A concrete outside for the witnesses: sockets are the segments that arrived and the bytes that were sent,
  a connection always succeeds, headers are SAMSON headers, the containers are lists, and the object manager
  answers from fixed data: peers 7 and 8 are models of job 1 on node 3 (this node), peer 40 is the
  dispatcher of node 4, message 5 has the local subscribers 7 and 8 and a remote one on node 4. The state of
  the outside is the list of directives the service repository received.
\<close>

type_synonym sock = "bytes list \<times> bytes"
type_synonym example_dispatcher = "(string list, sock, int) dispatcher"

definition pair_rx :: "sock rx_env" where
  "pair_rx =
     \<lparr>sock_recv = (\<lambda>k n. let (r, cs) = chunk_recv (fst k) n in (r, (cs, snd k))),
      sock_readable = (\<lambda>k. list_ex (\<lambda>c. c \<noteq> []) (fst k)),
      evh_get = evh_get samson_env,
      evh_length = evh_length samson_env,
      evh_decode = evh_decode samson_env,
      evh_data_length = evh_data_length samson_env,
      evh_set_data_length = evh_set_data_length samson_env,
      mb_alloc = (\<lambda>n. True)\<rparr>"

definition example_net :: "(string list, sock, int) net_ops" where
  "example_net =
     \<lparr>n_rx = pair_rx,
      n_send_n = (\<lambda>k bs. (int (length bs), length bs, if bs = [] then EWOULDBLOCK else NO_ERROR, (fst k, snd k @ bs))),
      n_queue_full = (\<lambda>q. length q > 100),
      n_wakeup_ok = True,
      n_usec_diff = (\<lambda>a b. (a - b) mod 1000000),
      n_time_zero = 0,
      n_elapsed = (\<lambda>x. 1),
      n_new_sock = ([], []),
      n_schedule_timer = (\<lambda>t x. (1, x)),
      n_cancel_timer = (\<lambda>i x. x),
      n_connector_cancel = (\<lambda>i x. (0, x)),
      n_connect = (\<lambda>a x. (Connected 50 ([], []), x)),
      n_enable_nonblock = (\<lambda>k. True),
      n_local_addr = (\<lambda>k. Some (''here'', 1000)),
      n_remote_addr = (\<lambda>k. Some (''there'', 2000)),
      n_register_read = (\<lambda>i x. (True, x)),
      n_remove_handler = (\<lambda>i x. x),
      n_acceptor_open = (\<lambda>a x. (True, x)),
      n_acceptor_close = (\<lambda>a x. x)\<rparr>"

definition example_hdr :: "string list header_ops" where
  "example_hdr =
     \<lparr>hd_noheader = 0, hd_samson = 1, hd_new_samson = \<lparr>eh_raw = [], eh_hdr = blank_header\<rparr>,
      hd_lookup = (\<lambda>s. if s = ''samson'' then 1 else 0),
      hd_header_type = (\<lambda>eh. 1),
      hd_encode = (\<lambda>eh. eh\<lparr>eh_raw := encode_header (eh_hdr eh), eh_hdr := (eh_hdr eh)\<lparr>h_encoded := True\<rparr>\<rparr>),
      hd_filter_process = (\<lambda>f d eh x. (d, eh, x))\<rparr>"

definition example_om :: "string list objmgr_ops" where
  "example_om =
     \<lparr>om_getModelDetails = (\<lambda>i x. if i = 7 \<or> i = 8
        then Some \<lparr>md_name = ''model'', md_jid = 1, md_nodeid = 3, md_pid = uint i + 100, md_unitid = 0, md_statsid = 0\<rparr>
        else None),
      om_isDispatcher = (\<lambda>i x. if i = 40 then Some 4 else None),
      om_setReady = (\<lambda>i x. x),
      om_NodeID = (\<lambda>x. 3),
      om_ModelID = (\<lambda>x. 30),
      om_isMasterDispatcher = (\<lambda>x. True),
      om_getJobMaster = (\<lambda>j x. (1, [\<lparr>pr_peer_id = 7, pr_node_id = 3\<rparr>])),
      om_getPeerRoute = (\<lambda>j p tr cx. ([\<lparr>pr_peer_id = p, pr_node_id = 3\<rparr>], cx)),
      om_getAllSubscribers = (\<lambda>j m u tr cx.
        (if m = 5 then ([\<lparr>pr_peer_id = 7, pr_node_id = 3\<rparr>, \<lparr>pr_peer_id = 8, pr_node_id = 3\<rparr>], [4]) else ([], []), cx)),
      om_unsubscribe = (\<lambda>p m u x. x),
      om_reset_cache = (\<lambda>x. x),
      om_getOtherDispatchers = (\<lambda>x. [4]),
      om_getHigherDispatchers = (\<lambda>x. [4]),
      om_DispatcherInfo = (\<lambda>n x. if n = 4 then Some ''10.0.0.4'' else None),
      om_DispatcherStats = (\<lambda>j p c tb tm m sd lo hi x. x)\<rparr>"

definition example_env :: "(string list, sock, int) env" where
  "example_env =
     \<lparr>net = example_net, hdr = example_hdr, om = example_om, svc = example_svc,
      mC = m_list, dC = d_list, cC = c_list, sC = s_list, pC = p_list, debug_route = (\<lambda>x. False),
      opt_max_timeout = 32, opt_max_buffer_size = 4096, opt_command_port = 8010, opt_d2d_port = 8001,
      opt_default_host = ''localhost''\<rparr>"

lemmas example_defs = example_env_def example_net_def example_hdr_def example_om_def example_svc_def pair_rx_def

definition example_record :: ConnectionRecord where
  "example_record =
     \<lparr>r_id = 12, r_name = ''models'', r_host = '''', r_input_filter = '''', r_output_filter = '''', r_port = 8001,
      r_header = ''samson'', r_proxy_role = CHR ''B'', r_connection_type = CHR ''P'', r_max_retry_timeout = 32,
      r_priority = 0, r_tcp_nodelay = True, r_isMaster = False, r_first_message_alert = False, r_send_buff = 0,
      r_recv_buff = 0, r_read_buff = 0, r_peer_acceptor = True, r_ch_set = []\<rparr>"

end
