(* ===== verification/ConnectionHandler.thy ===== *)
theory ConnectionHandler
  imports ExampleEnv
begin

text \<open>
  \<open>ConnectionHandler\<close>, the base class of all handlers: construction, the retry timeout with exponential
  backoff, closing and destruction, together with the operations of \<open>EventChannel\<close> that \<open>handle_close\<close>
  calls (\<open>cancel_connection\<close>, \<open>reinitiate_connection\<close>). The lemmas show what closing a handler removes
  from the tables, that nothing else is touched, and the sequence of retry delays.
\<close>

section \<open>Construction\<close>

text \<open>\<open>initialize\<close> on the object the constructors of the derived classes made.\<close>

definition new_handler ::
  "('x, 'k, 't) env \<Rightarrow> handler_class \<Rightarrow> recptr \<Rightarrow> ConnectionRecord \<Rightarrow> ('k, 't) ConnectionHandler" where
  "new_handler E c p r =
     (let remote = (if r_host r = [] then opt_default_host E else r_host r, r_port r) in
      \<lparr>ch_class = c, ch_entity = p, ch_input_filter = 0, ch_output_filter = 0,
       ch_input_filter_dll = r_input_filter r, ch_output_filter_dll = r_output_filter r,
       ch_remote_addr0 = remote, ch_remote_addr = remote, ch_local_addr = ([], 0),
       ch_connection_id = sint (r_id r), ch_state = IDLE, ch_timeout = 1, ch_timer_id = 0,
       ch_header_type_id = hd_lookup (hdr E) (r_header r), ch_commanded_close = False,
       ch_send_stats = RouteByteStats_new (n_time_zero (net E)),
       ch_recv_stats = RouteByteStats_new (n_time_zero (net E)),
       ch_process_time = RouteTimeStats_reset,
       ch_rx = rx_init, ch_handle = -1, ch_sock = n_new_sock (net E), ch_queue = [], ch_wakeup = False\<rparr>)"

definition command_role :: "ConnectionRecord \<Rightarrow> bool" where
  "command_role r \<longleftrightarrow> r_proxy_role r = CHR ''C''"

definition ch_passive :: "ConnectionRecord \<Rightarrow> bool" where
  "ch_passive r \<longleftrightarrow> r_connection_type r \<noteq> CHR ''A''"

section \<open>The retry timeout\<close>

definition timeout_set :: "u32 \<Rightarrow> u32 \<Rightarrow> ('k, 't) ConnectionHandler \<Rightarrow> ('k, 't) ConnectionHandler" where
  "timeout_set limit to h = h\<lparr>ch_timeout := (if to > limit then limit else to)\<rparr>"

definition timeout_next :: "u32 \<Rightarrow> ('k, 't) ConnectionHandler \<Rightarrow> u32 \<times> ('k, 't) ConnectionHandler" where
  "timeout_next limit h =
     (let old = ch_timeout h; doubled = ch_timeout h * 2
      in (old, h\<lparr>ch_timeout := (if doubled > limit then limit else doubled)\<rparr>))"

definition schedule_reconnect ::
  "('x, 'k, 't) env \<Rightarrow> chptr \<Rightarrow> ('x, 'k, 't) dispatcher \<Rightarrow> (int \<times> ('x, 'k, 't) dispatcher) option" where
  "schedule_reconnect E p w = do {
     h \<leftarrow> the_ch p w;
     r \<leftarrow> the_rec (ch_entity h) w;
     let (t, h1) = timeout_next (r_max_retry_timeout r) h;
     let (i, x) = n_schedule_timer (net E) t (outside w);
     Some (if i = -1 then -1 else 0, (set_ch p (h1\<lparr>ch_timer_id := i\<rparr>) w)\<lparr>outside := x\<rparr>)
   }"

section \<open>EventChannel::cancel\_connection and reinitiate\_connection\<close>

definition cancel_connection ::
  "('x, 'k, 't) env \<Rightarrow> chptr \<Rightarrow> ('x, 'k, 't) dispatcher \<Rightarrow> (int \<times> ('x, 'k, 't) dispatcher) option" where
  "cancel_connection E p w = do {
     h \<leftarrow> the_ch p w;
     if ch_handle h \<noteq> -1 then do {
       r \<leftarrow> the_rec (ch_entity h) w;
       if \<not> ch_passive r
       then (let (i, x) = n_connector_cancel (net E) (ch_handle h) (outside w) in Some (i, w\<lparr>outside := x\<rparr>))
       else Some (-1, w)
     } else Some (-1, w)
   }"

definition reinitiate_connection ::
  "('x, 'k, 't) env \<Rightarrow> chptr \<Rightarrow> ('x, 'k, 't) dispatcher \<Rightarrow> (int \<times> ('x, 'k, 't) dispatcher) option" where
  "reinitiate_connection E p w = do {
     (i, w1) \<leftarrow> cancel_connection E p w;
     h \<leftarrow> the_ch p w1;
     if ch_state h \<noteq> DISCONNECTING then schedule_reconnect E p w1 else Some (0, w1)
   }"

section \<open>Destruction\<close>

definition save_stats ::
  "('x, 'k, 't) env \<Rightarrow> u32 \<Rightarrow> u32 \<Rightarrow> ('k, 't) ConnectionHandler \<Rightarrow> 'x \<Rightarrow> 'x" where
  "save_stats E job peer h x =
     (let (rm, rs, rb, rn, rmin, rmax) = RouteByteStats_compute (ch_recv_stats h);
          x1 = om_DispatcherStats (om E) job peer CHR ''R'' rb rn rm rs rmin rmax x;
          (sm, ss, sb, sn, smin, smax) = RouteByteStats_compute (ch_send_stats h);
          x2 = om_DispatcherStats (om E) job peer CHR ''S'' sb sn sm ss smin smax x1;
          (pn, pm, ps, pmin, pmax) = RouteTimeStats_compute (ch_process_time h)
      in om_DispatcherStats (om E) job peer CHR ''P'' 0 pn pm ps pmin pmax x2)"

definition unload_filter ::
  "('x, 'k, 't) env \<Rightarrow> string \<Rightarrow> ('x, 'k, 't) dispatcher \<Rightarrow> ('x, 'k, 't) dispatcher" where
  "unload_filter E dll w =
     (if dll \<noteq> [] then
        (let (_, m, x) = f_unload (svc E) dll (filters w, outside w) in w\<lparr>filters := m, outside := x\<rparr>)
      else w)"

text \<open>
  The destructor, followed by the release of the object: the handler leaves its record's set, the tables
  and the heap.
\<close>

definition leave_tables ::
  "('x, 'k, 't) env \<Rightarrow> ConnectionRecord \<Rightarrow> ('k, 't) ConnectionHandler \<Rightarrow> ('x, 'k, 't) dispatcher \<Rightarrow> ('x, 'k, 't) dispatcher" where
  "leave_tables E r h w =
     (if \<not> command_role r then
        (let w1 = (case m_findCHID (mC E) (ch_handle h) (d2m_table w) of
               Some sir \<Rightarrow>
                 w\<lparr>outside := save_stats E (m_jid sir) (m_mid sir) h (outside w),
                   d2m_table := m_unbindCHID (mC E) (ch_handle h) (d2m_table w)\<rparr>
             | None \<Rightarrow> w);
             w2 = w1\<lparr>d2d_table := d_unbindCHID (dC E) (ch_handle h) (d2d_table w1)\<rparr>
         in unload_filter E (ch_output_filter_dll h) (unload_filter E (ch_input_filter_dll h) w2))
      else w\<lparr>d2c_table := c_unbindCHID (cC E) (ch_handle h) (d2c_table w)\<rparr>)"

definition ConnectionHandler_destroy ::
  "('x, 'k, 't) env \<Rightarrow> chptr \<Rightarrow> ('x, 'k, 't) dispatcher \<Rightarrow> ('x, 'k, 't) dispatcher option" where
  "ConnectionHandler_destroy E p w = do {
     h \<leftarrow> the_ch p w;
     let w1 = (if ch_timer_id h > 0 then w\<lparr>outside := n_cancel_timer (net E) (ch_timer_id h) (outside w)\<rparr> else w);
     r \<leftarrow> the_rec (ch_entity h) w1;
     let w2 = set_rec (ch_entity h) (r\<lparr>r_ch_set := sset_erase p (r_ch_set r)\<rparr>) w1;
     let w3 = leave_tables E r h w2;
     Some (w3\<lparr>handlers := (handlers w3)(p := None)\<rparr>)
   }"

section \<open>handle\_close\<close>

definition handle_close ::
  "('x, 'k, 't) env \<Rightarrow> chptr \<Rightarrow> ('x, 'k, 't) dispatcher \<Rightarrow> (int \<times> ('x, 'k, 't) dispatcher) option" where
  "handle_close E p w = do {
     h \<leftarrow> the_ch p w;
     r \<leftarrow> the_rec (ch_entity h) w;
     if \<not> ch_passive r \<and> \<not> ch_commanded_close h then do {
       w1 \<leftarrow> set_state FAILED p w;
       reinitiate_connection E p w1
     } else do {
       w1 \<leftarrow> (if \<not> ch_passive r then map_option snd (cancel_connection E p w) else Some w);
       w2 \<leftarrow> set_state DISCONNECTING p w1;
       let w3 = w2\<lparr>outside := n_remove_handler (net E) (ch_handle h) (outside w2)\<rparr>;
       w4 \<leftarrow> ConnectionHandler_destroy E p w3;
       Some (0, w4)
     }
   }"

section \<open>handle\_input of a handler that does not receive\<close>

definition ConnectionHandler_handle_input ::
  "('x, 'k, 't) env \<Rightarrow> chptr \<Rightarrow> ('x, 'k, 't) dispatcher \<Rightarrow> (int \<times> ('x, 'k, 't) dispatcher) option" where
  "ConnectionHandler_handle_input E p w = do {
     h \<leftarrow> the_ch p w;
     let (r, k) = sock_recv (n_rx (net E)) (ch_sock h) 8192;
     let h1 = h\<lparr>ch_sock := k\<rparr>;
     Some (case r of
         RxFail e \<Rightarrow> (-1, set_ch p (h1\<lparr>ch_state := FAILED\<rparr>) w)
       | Rx bs \<Rightarrow> if bs = [] then (-1, set_ch p (h1\<lparr>ch_state := FAILED\<rparr>) w) else (0, set_ch p h1 w))
   }"

section \<open>Retry delays\<close>

text \<open>The delays of \<open>n\<close> successive reconnects of a handler whose timeout was reset to 1.\<close>

fun retry_delays :: "u32 \<Rightarrow> nat \<Rightarrow> ('k, 't) ConnectionHandler \<Rightarrow> u32 list" where
  "retry_delays limit 0 h = []"
| "retry_delays limit (Suc n) h = (let (t, h1) = timeout_next limit h in t # retry_delays limit n h1)"

lemma min_double:
  assumes "unat limit < 2 ^ 31" and "ch_timeout h = of_nat (min (2 ^ k) (unat limit))"
  shows "ch_timeout (snd (timeout_next limit h)) = of_nat (min (2 ^ Suc k) (unat limit))"
proof -
  let ?m = "min (2 ^ k) (unat limit)"
  have "?m < 2147483648" using assms(1) by simp
  then have small: "2 * ?m < 2 ^ 32" by simp
  have d: "ch_timeout h * 2 = of_nat (2 * ?m)" using assms(2) by simp
  have "limit < of_nat (2 * ?m) \<longleftrightarrow> unat limit < 2 * ?m"
    using unat_count [OF small] by (simp add: word_less_nat_alt)
  moreover have "of_nat (unat limit) = limit" by simp
  ultimately show ?thesis
    by (auto simp: timeout_next_def Let_def d min_def unat_eq_0 simp del: of_nat_mult)
qed

lemma retry_delays_from:
  assumes "unat limit < 2 ^ 31" and "ch_timeout h = of_nat (min (2 ^ k) (unat limit))"
  shows "retry_delays limit n h = map (\<lambda>i. of_nat (min (2 ^ (k + i)) (unat limit))) [0..<n]"
  using assms(2)
proof (induction n arbitrary: h k)
  case (Suc n)
  have "ch_timeout (snd (timeout_next limit h)) = of_nat (min (2 ^ Suc k) (unat limit))"
    using min_double [OF assms(1) Suc.prems] .
  from Suc.IH [OF this]
  have "retry_delays limit n (snd (timeout_next limit h)) =
      map (\<lambda>i. of_nat (min (2 ^ (k + i)) (unat limit))) [Suc 0..<Suc n]"
    by (simp only: map_Suc_upt [symmetric] map_map o_def add_Suc_shift add_Suc add_Suc_right)
  then show ?case using Suc.prems by (simp add: timeout_next_def Let_def upt_conv_Cons del: upt_Suc)
qed simp

text \<open>
  Exponential backoff. After \<open>timeout(1)\<close> the delays of successive reconnect attempts are
  1, 2, 4, 8, \<dots> seconds up to the record's limit and stay there; with a limit below \<open>2 ^ 31\<close> the
  doubling never wraps.
\<close>

lemma backoff_doubles_to_limit:
  assumes "0 < limit" and "unat limit < 2 ^ 31"
  shows "retry_delays limit n (timeout_set limit 1 h) = map (\<lambda>i. of_nat (min (2 ^ i) (unat limit))) [0..<n]"
proof -
  have "\<not> limit < 1" "1 \<le> unat limit" using assms(1) by (simp_all add: word_less_nat_alt unat_gt_0 Suc_le_eq)
  then have "ch_timeout (timeout_set limit 1 h) = of_nat (min (2 ^ 0) (unat limit))"
    by (simp add: timeout_set_def min_def)
  from retry_delays_from [OF assms(2) this] show ?thesis by simp
qed

lemma backoff_doubles_to_limit_witness:
  "retry_delays 10 6 (timeout_set 10 1 (new_handler example_env TransceiverHandler 1 example_record)) = [1, 2, 4, 8, 10, 10]"
  using backoff_doubles_to_limit [of 10 6 "new_handler example_env TransceiverHandler 1 example_record"]
  by (simp add: upt_rec)

section \<open>What the tables refer to\<close>

text \<open>
  \<open>linked\<close>: every identity record names a live handler by its address and its handle; models and
  dispatchers are on data channels, command identities on command channels.
\<close>

definition owns :: "('x, 'k, 't) dispatcher \<Rightarrow> bool \<Rightarrow> chptr \<Rightarrow> int \<Rightarrow> bool" where
  "owns w cmd p i \<longleftrightarrow> (\<exists>h r. the_ch p w = Some h \<and> ch_handle h = i \<and>
     the_rec (ch_entity h) w = Some r \<and> command_role r = cmd)"

definition linked :: "('x, 'k, 't) dispatcher \<Rightarrow> bool" where
  "linked w \<longleftrightarrow>
     (\<forall>r \<in> set (m_map (d2m_table w)). owns w False (m_ch r) (m_chid r)) \<and>
     (\<forall>r \<in> set (d_map (d2d_table w)). owns w False (d_ch r) (d_chid r)) \<and>
     (\<forall>r \<in> set (c_map (d2c_table w)). owns w True (c_ch r) (c_chid r))"

text \<open>The containers keep their contract.\<close>

locale dispatcher_env =
  fixes E :: "('x, 'k, 't) env"
  assumes m_contract: "model_table (mC E)"
    and d_contract: "dispatcher_table (dC E)"
    and c_contract: "command_table (cC E)"
begin

lemma m_unbind_set:
  "set (m_map (m_unbindCHID (mC E) i t)) = {r \<in> set (m_map t). m_chid r \<noteq> i}"
proof -
  have mi: "multi_index (mC E) ModelIdentitySet_clash" using m_contract by (rule model_table.axioms)
  show ?thesis
    using multi_index.find_not [OF mi, of "\<lambda>r. m_chid r = i" "m_map t"]
    by (auto simp: model_table.m_unbindCHID_map [OF m_contract] multi_index.set_erase [OF mi] m_findCHID_def)
qed

lemma m_unbind_none: "m_findCHID (mC E) i t = None \<Longrightarrow> m_unbindCHID (mC E) i t = t"
  by (simp add: m_unbindCHID_def)

lemma d_unbind_set: "set (d_map (d_unbindCHID (dC E) i t)) = {r \<in> set (d_map t). d_chid r \<noteq> i}"
  using multi_index.set_erase [OF dispatcher_table.axioms [OF d_contract]] by (auto simp: d_unbindCHID_def)

lemma c_unbind_set: "set (c_map (c_unbindCHID (cC E) i t)) = {r \<in> set (c_map t). c_chid r \<noteq> i}"
  using multi_index.set_erase [OF command_table.axioms [OF c_contract]] by (auto simp: c_unbindCHID_def)

lemma unload_keeps [simp]:
  "d2m_table (unload_filter E d w) = d2m_table w" "d2d_table (unload_filter E d w) = d2d_table w"
  "d2c_table (unload_filter E d w) = d2c_table w" "handlers (unload_filter E d w) = handlers w"
  "records (unload_filter E d w) = records w"
  by (auto simp: unload_filter_def split: prod.split)

lemma leave_tables_simps:
  "d2m_table (leave_tables E r h w) =
     (if command_role r then d2m_table w else m_unbindCHID (mC E) (ch_handle h) (d2m_table w))"
  "d2d_table (leave_tables E r h w) =
     (if command_role r then d2d_table w else d_unbindCHID (dC E) (ch_handle h) (d2d_table w))"
  "d2c_table (leave_tables E r h w) =
     (if command_role r then c_unbindCHID (cC E) (ch_handle h) (d2c_table w) else d2c_table w)"
  "handlers (leave_tables E r h w) = handlers w"
  "records (leave_tables E r h w) = records w"
  by (auto simp: leave_tables_def Let_def m_unbind_none split: option.split)

lemma destroy_spec:
  assumes "the_ch p w = Some h" and "the_rec (ch_entity h) w = Some r"
  shows "\<exists>w'. ConnectionHandler_destroy E p w = Some w' \<and> handlers w' = (handlers w)(p := None) \<and>
    records w' = (records w)(ch_entity h \<mapsto> r\<lparr>r_ch_set := sset_erase p (r_ch_set r)\<rparr>) \<and>
    d2m_table w' = (if command_role r then d2m_table w else m_unbindCHID (mC E) (ch_handle h) (d2m_table w)) \<and>
    d2d_table w' = (if command_role r then d2d_table w else d_unbindCHID (dC E) (ch_handle h) (d2d_table w)) \<and>
    d2c_table w' = (if command_role r then c_unbindCHID (cC E) (ch_handle h) (d2c_table w) else d2c_table w)"
  using assms
  by (auto simp: ConnectionHandler_destroy_def the_ch_def the_rec_def leave_tables_simps set_rec_def Let_def)

lemma owns_other:
  assumes "owns w cmd q i" and "q \<noteq> p" and "handlers w' = (handlers w)(p := None)"
    and "records w' = (records w)(e \<mapsto> r\<lparr>r_ch_set := s\<rparr>)" and "the_rec e w = Some r"
  shows "owns w' cmd q i"
  using assms by (auto simp: owns_def the_ch_def the_rec_def command_role_def)

lemma destroy_linked:
  assumes "linked w" and "the_ch p w = Some h" and "the_rec (ch_entity h) w = Some r"
    and "ConnectionHandler_destroy E p w = Some w'"
  shows "linked w'" and "the_ch p w' = None"
    and "\<forall>x \<in> set (m_map (d2m_table w')). m_ch x \<noteq> p"
    and "\<forall>x \<in> set (d_map (d2d_table w')). d_ch x \<noteq> p"
    and "\<forall>x \<in> set (c_map (d2c_table w')). c_ch x \<noteq> p"
proof -
  have spec: "handlers w' = (handlers w)(p := None)"
    "records w' = (records w)(ch_entity h \<mapsto> r\<lparr>r_ch_set := sset_erase p (r_ch_set r)\<rparr>)"
    "d2m_table w' = (if command_role r then d2m_table w else m_unbindCHID (mC E) (ch_handle h) (d2m_table w))"
    "d2d_table w' = (if command_role r then d2d_table w else d_unbindCHID (dC E) (ch_handle h) (d2d_table w))"
    "d2c_table w' = (if command_role r then c_unbindCHID (cC E) (ch_handle h) (d2c_table w) else d2c_table w)"
    using destroy_spec [OF assms(2,3)] assms(4) by auto
  have p_handle: "owns w cmd p i \<Longrightarrow> i = ch_handle h \<and> cmd = command_role r" for cmd i
    using assms(2,3) by (auto simp: owns_def)
  have sub: "set (m_map (d2m_table w')) \<subseteq> set (m_map (d2m_table w))"
    "set (d_map (d2d_table w')) \<subseteq> set (d_map (d2d_table w))"
    "set (c_map (d2c_table w')) \<subseteq> set (c_map (d2c_table w))"
    by (auto simp: spec m_unbind_set d_unbind_set c_unbind_set)
  show m: "\<forall>x \<in> set (m_map (d2m_table w')). m_ch x \<noteq> p"
  proof (intro ballI notI)
    fix x assume x: "x \<in> set (m_map (d2m_table w'))" "m_ch x = p"
    then have "owns w False p (m_chid x)" using assms(1) sub(1) by (auto simp: linked_def)
    then have "m_chid x = ch_handle h" "\<not> command_role r" using p_handle by auto
    with x spec(3) show False by (simp add: m_unbind_set)
  qed
  show d: "\<forall>x \<in> set (d_map (d2d_table w')). d_ch x \<noteq> p"
  proof (intro ballI notI)
    fix x assume x: "x \<in> set (d_map (d2d_table w'))" "d_ch x = p"
    then have "owns w False p (d_chid x)" using assms(1) sub(2) by (auto simp: linked_def)
    then have "d_chid x = ch_handle h" "\<not> command_role r" using p_handle by auto
    with x spec(4) show False by (simp add: d_unbind_set)
  qed
  show c: "\<forall>x \<in> set (c_map (d2c_table w')). c_ch x \<noteq> p"
  proof (intro ballI notI)
    fix x assume x: "x \<in> set (c_map (d2c_table w'))" "c_ch x = p"
    then have "owns w True p (c_chid x)" using assms(1) sub(3) by (auto simp: linked_def)
    then have "c_chid x = ch_handle h" "command_role r" using p_handle by auto
    with x spec(5) show False by (simp add: c_unbind_set)
  qed
  show "the_ch p w' = None" by (simp add: the_ch_def spec)
  note own = owns_other [OF _ _ spec(1,2) assms(3)]
  show "linked w'"
    using assms(1) m d c sub own unfolding linked_def by (meson subsetD)
qed

text \<open>Reconnecting an active handler changes only its timeout and timer.\<close>

lemma outside_same: "\<exists>x. w = w\<lparr>outside := x\<rparr>"
  by (rule exI [of _ "outside w"]) simp

lemma cancel_spec:
  assumes "the_ch p w = Some h" and "the_rec (ch_entity h) w = Some r"
  shows "\<exists>i x. cancel_connection E p w = Some (i, w\<lparr>outside := x\<rparr>)"
  using assms outside_same by (auto simp: cancel_connection_def split: prod.split)

lemma linked_outside [simp]: "linked (w\<lparr>outside := x\<rparr>) = linked w"
  by (simp add: linked_def owns_def the_ch_def the_rec_def)

lemma heap_outside [simp]:
  "the_ch p (w\<lparr>outside := x\<rparr>) = the_ch p w" "the_rec q (w\<lparr>outside := x\<rparr>) = the_rec q w"
  by (simp_all add: the_ch_def the_rec_def)

lemma linked_set_ch:
  assumes "linked w" and "the_ch p w = Some h" and "ch_handle h' = ch_handle h" and "ch_entity h' = ch_entity h"
  shows "linked (set_ch p h' w)"
proof -
  have "owns (set_ch p h' w) cmd q i" if "owns w cmd q i" for cmd q i
    using that assms by (auto simp: owns_def)
  moreover have "d2m_table (set_ch p h' w) = d2m_table w" "d2d_table (set_ch p h' w) = d2d_table w"
    "d2c_table (set_ch p h' w) = d2c_table w"
    by (simp_all add: set_ch_def)
  ultimately show ?thesis using assms(1) by (simp add: linked_def)
qed

lemma set_ch_tables [simp]:
  "d2m_table (set_ch p h w) = d2m_table w" "d2d_table (set_ch p h w) = d2d_table w"
  "d2c_table (set_ch p h w) = d2c_table w" "outside (set_ch p h w) = outside w"
  by (simp_all add: set_ch_def)

lemma close_reconnects:
  assumes "linked w" and h: "the_ch p w = Some h" "the_rec (ch_entity h) w = Some r"
    and "\<not> ch_passive r" "\<not> ch_commanded_close h"
  shows "\<exists>i w' h'. handle_close E p w = Some (i, w') \<and> linked w' \<and> the_ch p w' = Some h' \<and> ch_state h' = FAILED \<and>
    d2m_table w' = d2m_table w \<and> d2d_table w' = d2d_table w \<and> d2c_table w' = d2c_table w"
proof -
  let ?w = "set_ch p (h\<lparr>ch_state := FAILED\<rparr>) w"
  have w: "linked ?w" "the_ch p ?w = Some (h\<lparr>ch_state := FAILED\<rparr>)" "the_rec (ch_entity h) ?w = Some r"
    using linked_set_ch [OF assms(1) h(1)] h by simp_all
  obtain i x where "cancel_connection E p ?w = Some (i, ?w\<lparr>outside := x\<rparr>)"
    using cancel_spec [OF w(2)] w(3) by auto
  with w h assms(4,5) show ?thesis
    by (auto simp: handle_close_def reinitiate_connection_def schedule_reconnect_def set_state_def timeout_next_def
        Let_def intro!: linked_set_ch split: prod.split)
qed

lemma close_destroys:
  assumes "linked w" and h: "the_ch p w = Some h" "the_rec (ch_entity h) w = Some r"
    and "ch_passive r \<or> ch_commanded_close h"
  shows "\<exists>w'. handle_close E p w = Some (0, w') \<and> linked w' \<and> the_ch p w' = None \<and>
    (\<forall>x \<in> set (m_map (d2m_table w')). m_ch x \<noteq> p) \<and> (\<forall>x \<in> set (d_map (d2d_table w')). d_ch x \<noteq> p) \<and>
    (\<forall>x \<in> set (c_map (d2c_table w')). c_ch x \<noteq> p)"
proof -
  obtain x where "(if \<not> ch_passive r then map_option snd (cancel_connection E p w) else Some w) = Some (w\<lparr>outside := x\<rparr>)"
    using cancel_spec [OF h] outside_same [of w] by (cases "ch_passive r") (simp, metis, force)
  moreover define w1 where "w1 = (set_ch p (h\<lparr>ch_state := DISCONNECTING\<rparr>) (w\<lparr>outside := x\<rparr>))
      \<lparr>outside := n_remove_handler (net E) (ch_handle h) x\<rparr>"
  moreover have w1: "linked w1" "the_ch p w1 = Some (h\<lparr>ch_state := DISCONNECTING\<rparr>)" "the_rec (ch_entity h) w1 = Some r"
    using linked_set_ch [of "w\<lparr>outside := x\<rparr>" p h] assms by (simp_all add: w1_def)
  ultimately have "handle_close E p w = Option.bind (ConnectionHandler_destroy E p w1) (\<lambda>w4. Some (0, w4))"
    using assms by (auto simp: handle_close_def set_state_def)
  moreover obtain w2 where "ConnectionHandler_destroy E p w1 = Some w2"
    using destroy_spec [OF w1(2)] w1(3) by auto
  moreover note destroy_linked [OF w1(1,2) _ this]
  ultimately show ?thesis using w1(3) by auto
qed

end

text \<open>
  C5. Closing keeps the tables free of dangling pointers. Where the identity tables are linked to live
  handlers, \<open>handle_close\<close> is defined and they are linked after it; an accepted or commanded-closed
  handler is destroyed and no table mentions it any more, any other handler is FAILED, alive, and still bound.
\<close>

theorem close_keeps_tables_linked:
  assumes "dispatcher_env E" and "linked w" and "the_ch p w = Some h" and "the_rec (ch_entity h) w = Some r"
  shows "\<exists>i w'. handle_close E p w = Some (i, w') \<and> linked w' \<and>
    (if ch_passive r \<or> ch_commanded_close h
     then the_ch p w' = None \<and> (\<forall>x \<in> set (m_map (d2m_table w')). m_ch x \<noteq> p) \<and>
       (\<forall>x \<in> set (d_map (d2d_table w')). d_ch x \<noteq> p) \<and> (\<forall>x \<in> set (c_map (d2c_table w')). c_ch x \<noteq> p)
     else map_option ch_state (the_ch p w') = Some FAILED \<and> d2m_table w' = d2m_table w \<and> d2d_table w' = d2d_table w)"
  using dispatcher_env.close_reconnects [OF assms] dispatcher_env.close_destroys [OF assms]
  by (cases "ch_passive r \<or> ch_commanded_close h") fastforce+

interpretation example: dispatcher_env example_env
  by (rule dispatcher_env.intro)
    (simp_all add: example_env_def d2m.model_table_axioms d2d.dispatcher_table_axioms d2c.command_table_axioms)

text \<open>A dispatcher with one accepted model connection, bound as model 7.\<close>

definition example_ch :: "int \<Rightarrow> (sock, int) ConnectionHandler" where
  "example_ch i = (new_handler example_env TransceiverHandler 1 example_record)\<lparr>ch_handle := i, ch_state := ESTABLISHED\<rparr>"

definition example_w :: example_dispatcher where
  "example_w = (dispatcher_init 0 [])
     \<lparr>handlers := [1 \<mapsto> example_ch 21], records := [1 \<mapsto> example_record\<lparr>r_ch_set := [1]\<rparr>],
      d2m_table := \<lparr>m_map = [example_model 21 7 107 1], m_state = Active\<rparr>\<rparr>"

lemma example_w_facts:
  "linked example_w" "the_ch 1 example_w = Some (example_ch 21)"
  "the_rec (ch_entity (example_ch 21)) example_w = Some (example_record\<lparr>r_ch_set := [1]\<rparr>)"
  by (auto simp: linked_def owns_def example_w_def the_ch_def the_rec_def example_ch_def new_handler_def Let_def
      dispatcher_init_def DispatcherIdentity_new_def CommandIdentity_new_def command_role_def example_record_def)

theorem close_keeps_tables_linked_witness:
  "\<exists>i w'. handle_close example_env 1 example_w = Some (i, w') \<and> linked w' \<and> the_ch 1 w' = None"
  using close_keeps_tables_linked [OF example.dispatcher_env_axioms example_w_facts]
  by (auto simp: ch_passive_def example_record_def)

text \<open>
  The destructor finds the identity by the handle the socket has now. A handler bound under an earlier handle
  (it reconnected since) is destroyed while the dispatcher table keeps its address.
\<close>

lemma stale_handle_leaves_dangling_entry:
  assumes "dispatcher_env E" and "the_ch p w = Some h" and "the_rec (ch_entity h) w = Some r"
    and "e \<in> set (d_map (d2d_table w))" and "d_ch e = p" and "d_chid e \<noteq> ch_handle h"
  shows "\<exists>w'. ConnectionHandler_destroy E p w = Some w' \<and> the_ch p w' = None \<and> e \<in> set (d_map (d2d_table w'))"
  using dispatcher_env.destroy_spec [OF assms(1-3)] assms(4-6) dispatcher_env.d_unbind_set [OF assms(1)]
  by (auto simp: the_ch_def)

lemma stale_handle_leaves_dangling_entry_witness:
  "\<exists>w'. ConnectionHandler_destroy example_env 1 (example_w\<lparr>d2d_table :=
      \<lparr>d_map = [\<lparr>d_chid = 20, d_peer = 40, d_node = 4, d_ch = 1\<rparr>], d_state = Active\<rparr>\<rparr>) = Some w' \<and> the_ch 1 w' = None"
  using stale_handle_leaves_dangling_entry [OF example.dispatcher_env_axioms,
      of 1 "example_w\<lparr>d2d_table := \<lparr>d_map = [\<lparr>d_chid = 20, d_peer = 40, d_node = 4, d_ch = 1\<rparr>], d_state = Active\<rparr>\<rparr>"
        "example_ch 21" "example_record\<lparr>r_ch_set := [1]\<rparr>" "\<lparr>d_chid = 20, d_peer = 40, d_node = 4, d_ch = 1\<rparr>"]
    example_w_facts(2,3)
  by (auto simp: the_ch_def the_rec_def example_ch_def)

end
