(* ===== verification/TransmitHandler.thy ===== *)
theory TransmitHandler
  imports ConnectionHandler
begin

text \<open>
  \<open>TransmitHandler\<close>: sending messages without blocking. What the socket does not take is kept in the
  handler's message queue and sent by \<open>handle_output\<close> when the reactor reports the socket writable.
  The lemmas show that every message that is accepted is appended, whole and in order, to the byte
  stream of the connection, which is what the socket took followed by what is queued.
\<close>

section \<open>Operations\<close>

definition total_bytes_send ::
  "('x, 'k, 't) env \<Rightarrow> nat \<Rightarrow> chptr \<Rightarrow> ('x, 'k, 't) dispatcher \<Rightarrow> ('x, 'k, 't) dispatcher option" where
  "total_bytes_send E n p w = do {
     h \<leftarrow> the_ch p w;
     let (fc, s) = RouteByteStats_sample (n_usec_diff (net E)) (now w) n (first_call w, ch_send_stats h);
     Some ((set_ch p (h\<lparr>ch_send_stats := s\<rparr>) w)\<lparr>first_call := fc\<rparr>)
   }"

text \<open>
  What is left of an event goes to the head of the queue, and the reactor is asked for a wakeup. The event
  is in the queue already when the wakeup fails.
\<close>

datatype requeue_result = Requeued | QueueFull | NoWakeup

definition requeue ::
  "('x, 'k, 't) env \<Rightarrow> bytes \<Rightarrow> bytes \<Rightarrow> ('k, 't) ConnectionHandler \<Rightarrow> requeue_result \<times> ('k, 't) ConnectionHandler" where
  "requeue E ev rest h =
     (if n_queue_full (net E) (ch_queue h) then (QueueFull, h)
      else if \<not> n_wakeup_ok (net E) then (NoWakeup, h\<lparr>ch_queue := ev # ch_queue h\<rparr>)
      else (Requeued, h\<lparr>ch_queue := rest # ch_queue h, ch_wakeup := True\<rparr>))"

text \<open>
  The result, \<open>errno\<close>, and whether the event is in the queue although the result is \<open>-1\<close>.
\<close>

definition nonblk_put ::
  "('x, 'k, 't) env \<Rightarrow> chptr \<Rightarrow> bytes \<Rightarrow> ('x, 'k, 't) dispatcher \<Rightarrow> (int \<times> errno \<times> bool \<times> ('x, 'k, 't) dispatcher) option" where
  "nonblk_put E p ev w = do {
     h \<leftarrow> the_ch p w;
     let (nsent, bt, err, k) = n_send_n (net E) (ch_sock h) ev;
     let h1 = h\<lparr>ch_sock := k\<rparr>;
     if nsent \<le> 0 then
       if err = EWOULDBLOCK then
         (let (q, h2) = requeue E ev (drop bt ev) h1 in
          if q = Requeued then do {
            w1 \<leftarrow> total_bytes_send E bt p (set_ch p h2 w);
            Some (int bt, err, False, w1)
          } else Some (-1, err, q = NoWakeup, set_ch p h2 w))
       else do {
         (i, w1) \<leftarrow> handle_close E p (set_ch p (h1\<lparr>ch_state := FAILED\<rparr>) w);
         Some (-1, err, False, w1)
       }
     else if nsent < int (length ev) then
       (let rest = drop (nat nsent) ev; (q, h2) = requeue E rest rest h1 in
        if q = Requeued then do {
          w1 \<leftarrow> total_bytes_send E (nat nsent) p (set_ch p h2 w);
          Some (nsent, EWOULDBLOCK, False, w1)
        } else Some (-1, EWOULDBLOCK, q = NoWakeup, set_ch p h2 w))
     else do {
       w1 \<leftarrow> total_bytes_send E (nat nsent) p (set_ch p h1 w);
       Some (nsent, NO_ERROR, False, w1)
     }
   }"

text \<open>\<open>consolidate\<close>: one block with the bytes of the chain. The chain is the list of its blocks.\<close>

definition consolidate :: "bytes list \<Rightarrow> bytes" where
  "consolidate chain = concat chain"

definition put_block ::
  "('x, 'k, 't) env \<Rightarrow> chptr \<Rightarrow> bytes list \<Rightarrow> ('x, 'k, 't) dispatcher \<Rightarrow> (int \<times> errno \<times> bool \<times> ('x, 'k, 't) dispatcher) option" where
  "put_block E p chain w =
     (case chain of
        [] \<Rightarrow> None
      | b # bs \<Rightarrow> do {
          let block2send = (if bs \<noteq> [] then consolidate chain else b);
          h \<leftarrow> the_ch p w;
          if ch_queue h = [] then nonblk_put E p block2send w
          else if n_queue_full (net E) (ch_queue h) then Some (-1, EWOULDBLOCK, False, w)
          else Some (int (length (ch_queue h)) + 1, NO_ERROR, False, set_ch p (h\<lparr>ch_queue := ch_queue h @ [block2send]\<rparr>) w)
        })"

text \<open>
  The entry point. The header object is the caller's: encoding and filtering change it. When sending
  failed the code looks at the handle again and releases the block it started with; that block is gone
  when the chain was consolidated, the handler is gone when the failure destroyed it, and a block that is
  released while it is queued leaves a freed block in the queue: all three are undefined.
\<close>

definition put ::
  "('x, 'k, 't) env \<Rightarrow> chptr \<Rightarrow> bytes option \<Rightarrow> EventHeaderObj \<Rightarrow> ('x, 'k, 't) dispatcher
     \<Rightarrow> (int \<times> EventHeaderObj \<times> ('x, 'k, 't) dispatcher) option" where
  "put E p event eh w = do {
     h \<leftarrow> the_ch p w;
     if ch_state h = ESTABLISHED then do {
       (start, eh1, w1) \<leftarrow>
         (if ch_output_filter h \<noteq> 0 then
            (case event of
               None \<Rightarrow> None
             | Some d \<Rightarrow>
                 (let (d1, e1, x) = hd_filter_process (hdr E) (ch_output_filter h) (Some d) eh (outside w)
                  in Some (d1, e1, w\<lparr>outside := x\<rparr>)))
          else Some (event, eh, w));
       let (chain, eh2) =
         (if ch_header_type_id h \<noteq> hd_noheader (hdr E) \<and> evh_length (n_rx (net E)) eh1 > 0 then
            (let e = hd_encode (hdr E) eh1
             in (take (nat (evh_length (n_rx (net E)) eh1)) (eh_raw e) # (case start of Some d \<Rightarrow> [d] | None \<Rightarrow> []), e))
          else (case start of Some d \<Rightarrow> [d] | None \<Rightarrow> [], eh1));
       (i, err, queued, w2) \<leftarrow> put_block E p chain w1;
       if i = -1 \<and> (length chain > 1 \<or> queued \<or> the_ch p w2 = None) then None
       else Some (i, eh2, w2)
     } else Some (-1, eh, w)
   }"

text \<open>The reactor's upcall when the socket is writable.\<close>

definition handle_output ::
  "('x, 'k, 't) env \<Rightarrow> chptr \<Rightarrow> ('x, 'k, 't) dispatcher \<Rightarrow> (int \<times> ('x, 'k, 't) dispatcher) option" where
  "handle_output E p w = do {
     h \<leftarrow> the_ch p w;
     case ch_queue h of
       [] \<Rightarrow> Some (0, w)
     | ev # q \<Rightarrow> do {
         (i, err, queued, w1) \<leftarrow> nonblk_put E p ev (set_ch p (h\<lparr>ch_queue := q\<rparr>) w);
         if i = 0 then Some (0, w1)
         else do {
           h1 \<leftarrow> the_ch p w1;
           if i = -1 \<and> queued then None
           else Some (0, if ch_queue h1 = [] then set_ch p (h1\<lparr>ch_wakeup := False\<rparr>) w1 else w1)
         }
       }
   }"

text \<open>The bytes a handler without output filter sends for a message.\<close>

definition message_bytes :: "('x, 'k, 't) env \<Rightarrow> int \<Rightarrow> bytes option \<Rightarrow> EventHeaderObj \<Rightarrow> bytes" where
  "message_bytes E type_id event eh =
     (if type_id \<noteq> hd_noheader (hdr E) \<and> evh_length (n_rx (net E)) eh > 0
      then take (nat (evh_length (n_rx (net E)) eh)) (eh_raw (hd_encode (hdr E) eh)) else [])
     @ (case event of Some d \<Rightarrow> d | None \<Rightarrow> [])"

text \<open>A history of a connection: messages handed to \<open>put\<close> and writable upcalls.\<close>

datatype tx_op = Put "bytes option" EventHeaderObj | Writable

fun tx_run ::
  "('x, 'k, 't) env \<Rightarrow> chptr \<Rightarrow> tx_op list \<Rightarrow> ('x, 'k, 't) dispatcher \<Rightarrow> ('x, 'k, 't) dispatcher option" where
  "tx_run E p [] w = Some w"
| "tx_run E p (Put ev eh # ops) w = (case put E p ev eh w of Some (i, eh', w') \<Rightarrow> tx_run E p ops w' | None \<Rightarrow> None)"
| "tx_run E p (Writable # ops) w = (case handle_output E p w of Some (i, w') \<Rightarrow> tx_run E p ops w' | None \<Rightarrow> None)"

fun op_bytes :: "('x, 'k, 't) env \<Rightarrow> int \<Rightarrow> tx_op \<Rightarrow> bytes" where
  "op_bytes E type_id (Put ev eh) = message_bytes E type_id ev eh"
| "op_bytes E type_id Writable = []"

section \<open>The byte stream of a connection\<close>

text \<open>
  What \<open>send_n\<close> documents: the bytes it reports as transferred, and no others, went out, from the front of
  the block. \<open>out k\<close> are the bytes a socket took so far.
\<close>

definition ch_stream :: "('k \<Rightarrow> bytes) \<Rightarrow> ('k, 't) ConnectionHandler \<Rightarrow> bytes" where
  "ch_stream out h = out (ch_sock h) @ concat (ch_queue h)"

locale sending_socket =
  fixes E :: "('x, 'k, 't) env" and out :: "'k \<Rightarrow> bytes"
  assumes sent_all: "n_send_n (net E) k bs = (n, bt, e, k') \<Longrightarrow> 0 < n \<Longrightarrow>
      nat n \<le> length bs \<and> out k' = out k @ take (nat n) bs"
    and sent_part: "n_send_n (net E) k bs = (n, bt, e, k') \<Longrightarrow> n \<le> 0 \<Longrightarrow>
      bt \<le> length bs \<and> out k' = out k @ take bt bs"

text \<open>Two handlers that differ at most in socket, queue, wakeup and statistics.\<close>

abbreviation io_of :: "('k, 't) ConnectionHandler \<Rightarrow> ('k, 't) ConnectionHandler \<Rightarrow> ('k, 't) ConnectionHandler" where
  "io_of h h' \<equiv> h'\<lparr>ch_sock := ch_sock h, ch_queue := ch_queue h, ch_wakeup := ch_wakeup h, ch_send_stats := ch_send_stats h\<rparr>"

definition same_but_io :: "('k, 't) ConnectionHandler \<Rightarrow> ('k, 't) ConnectionHandler \<Rightarrow> bool" where
  "same_but_io h h' \<longleftrightarrow> io_of h h' = h"

lemma same_but_io_refl [simp]: "same_but_io h h"
  by (simp add: same_but_io_def)

lemma same_but_io_upd:
  assumes "same_but_io h h'"
  shows "same_but_io h (h'\<lparr>ch_sock := k\<rparr>)" "same_but_io h (h'\<lparr>ch_queue := q\<rparr>)"
    "same_but_io h (h'\<lparr>ch_wakeup := b\<rparr>)" "same_but_io h (h'\<lparr>ch_send_stats := st\<rparr>)"
  using assms by (simp_all add: same_but_io_def)

lemma same_but_io_trans:
  assumes "same_but_io h h'" and "same_but_io h' h''"
  shows "same_but_io h h''"
proof -
  have "io_of h h'' = io_of h (io_of h' h'')" by simp
  also have "\<dots> = h" using assms by (simp only: same_but_io_def)
  finally show ?thesis by (simp only: same_but_io_def)
qed

lemma same_but_io_keeps:
  assumes "same_but_io h h'"
  shows "ch_state h' = ch_state h" "ch_output_filter h' = ch_output_filter h" "ch_class h' = ch_class h"
    "ch_header_type_id h' = ch_header_type_id h" "ch_handle h' = ch_handle h" "ch_entity h' = ch_entity h"
  using arg_cong [OF assms [unfolded same_but_io_def], of ch_state]
    arg_cong [OF assms [unfolded same_but_io_def], of ch_output_filter]
    arg_cong [OF assms [unfolded same_but_io_def], of ch_class]
    arg_cong [OF assms [unfolded same_but_io_def], of ch_header_type_id]
    arg_cong [OF assms [unfolded same_but_io_def], of ch_handle]
    arg_cong [OF assms [unfolded same_but_io_def], of ch_entity]
  by simp_all

text \<open>A handler that is open for plain sending.\<close>

definition ch_ready :: "('x, 'k, 't) env \<Rightarrow> ('k, 't) ConnectionHandler \<Rightarrow> bool" where
  "ch_ready E h \<longleftrightarrow> ch_state h = ESTABLISHED \<and> ch_output_filter h = 0 \<and> ch_header_type_id h \<noteq> hd_noheader (hdr E)"

lemma ready_same: "same_but_io h h' \<Longrightarrow> ch_ready E h' = ch_ready E h"
  by (simp add: ch_ready_def same_but_io_keeps)

text \<open>
  When the code has a failure to handle. \<open>goes_through E k bs q\<close>: the socket \<open>k\<close> does not report an error for the block \<open>bs\<close>, and
  if it does not take all of it, the queue \<open>q\<close> is below its high water mark and the reactor accepts the wakeup. \<open>accepts_block E h bs\<close>:
  the handler can accept the block, that is, it goes through to the socket when nothing is queued, and the
  queue is below its mark when something is. \<open>untroubled E op h\<close>: the operation meets no failure.
\<close>

definition goes_through :: "('x, 'k, 't) env \<Rightarrow> 'k \<Rightarrow> bytes \<Rightarrow> bytes list \<Rightarrow> bool" where
  "goes_through E k bs q \<longleftrightarrow>
     (let (n, bt, e, k') = n_send_n (net E) k bs
      in (n \<le> 0 \<longrightarrow> e = EWOULDBLOCK) \<and>
         (n \<le> 0 \<or> n < int (length bs) \<longrightarrow> \<not> n_queue_full (net E) q \<and> n_wakeup_ok (net E)))"

definition accepts_block :: "('x, 'k, 't) env \<Rightarrow> ('k, 't) ConnectionHandler \<Rightarrow> bytes \<Rightarrow> bool" where
  "accepts_block E h bs \<longleftrightarrow>
     (if ch_queue h = [] then goes_through E (ch_sock h) bs [] else \<not> n_queue_full (net E) (ch_queue h))"

fun untroubled :: "('x, 'k, 't) env \<Rightarrow> tx_op \<Rightarrow> ('k, 't) ConnectionHandler \<Rightarrow> bool" where
  "untroubled E (Put ev eh) h = accepts_block E h (message_bytes E (ch_header_type_id h) ev eh)"
| "untroubled E Writable h = (case ch_queue h of [] \<Rightarrow> True | b # q \<Rightarrow> goes_through E (ch_sock h) b q)"

context sending_socket
begin

abbreviation stream :: "('k, 't) ConnectionHandler \<Rightarrow> bytes" where
  "stream \<equiv> ch_stream out"

text \<open>
  \<open>advanced p h s w w'\<close>: of the dispatcher \<open>w\<close>, only the handler \<open>h\<close> at \<open>p\<close> changed, and of it only socket,
  queue, wakeup and statistics; its stream is now \<open>s\<close>.
\<close>

definition advanced ::
  "chptr \<Rightarrow> ('k, 't) ConnectionHandler \<Rightarrow> bytes \<Rightarrow> ('x, 'k, 't) dispatcher \<Rightarrow> ('x, 'k, 't) dispatcher \<Rightarrow> bool" where
  "advanced p h s w w' \<longleftrightarrow> (\<exists>h' fc. w' = (set_ch p h' w)\<lparr>first_call := fc\<rparr> \<and> stream h' = s \<and> same_but_io h h')"

lemma advancedI:
  "w' = (set_ch p h' w)\<lparr>first_call := fc\<rparr> \<Longrightarrow> stream h' = s \<Longrightarrow> same_but_io h h' \<Longrightarrow> advanced p h s w w'"
  by (auto simp: advanced_def)

lemma set_ch_same [simp]: "(set_ch p h' ((set_ch p h w)\<lparr>first_call := f\<rparr>))\<lparr>first_call := g\<rparr> = (set_ch p h' w)\<lparr>first_call := g\<rparr>"
  "(set_ch p h' (set_ch p h w)) = set_ch p h' w"
  by (simp_all add: set_ch_def)

lemma total_bytes_send_advanced:
  assumes "stream h = s" and "same_but_io h0 h"
  shows "\<exists>w'. total_bytes_send E n p (set_ch p h w) = Some w' \<and> advanced p h0 s w w'"
proof -
  obtain fc st where r: "RouteByteStats_sample (n_usec_diff (net E)) (now (set_ch p h w)) n
      (first_call (set_ch p h w), ch_send_stats h) = (fc, st)" by force
  have "same_but_io h0 (h\<lparr>ch_send_stats := st\<rparr>)"
    using assms(2) by (rule same_but_io_upd)
  moreover have "stream (h\<lparr>ch_send_stats := st\<rparr>) = s" using assms(1) by (simp add: ch_stream_def)
  ultimately show ?thesis using r by (auto simp: total_bytes_send_def intro!: advancedI)
qed

lemma nonblk_put_advanced:
  assumes "the_ch p w = Some h" and "goes_through E (ch_sock h) ev (ch_queue h)"
  shows "\<exists>i e w'. nonblk_put E p ev w = Some (i, e, False, w') \<and> 0 \<le> i \<and>
    advanced p h (out (ch_sock h) @ ev @ concat (ch_queue h)) w w'"
proof -
  obtain n bt err k where s: "n_send_n (net E) (ch_sock h) ev = (n, bt, err, k)"
    by (cases "n_send_n (net E) (ch_sock h) ev") auto
  let ?s = "out (ch_sock h) @ ev @ concat (ch_queue h)"
  let ?h = "\<lambda>rest. h\<lparr>ch_sock := k, ch_queue := rest # ch_queue h, ch_wakeup := True\<rparr>"
  have io: "same_but_io h (?h rest)" "same_but_io h (h\<lparr>ch_sock := k\<rparr>)" for rest
    by (simp_all add: same_but_io_upd)
  show ?thesis
  proof (cases "n \<le> 0")
    case True
    have err: "err = EWOULDBLOCK" and room: "\<not> n_queue_full (net E) (ch_queue h)" "n_wakeup_ok (net E)"
      and "out k = out (ch_sock h) @ take bt ev"
      using assms(2) s True sent_part [OF s True] by (auto simp: goes_through_def)
    then have "stream (?h (drop bt ev)) = ?s" by (simp add: ch_stream_def)
    from total_bytes_send_advanced [OF this io(1), of bt p w] True err room assms(1) s show ?thesis
      by (auto simp: nonblk_put_def requeue_def Let_def)
  next
    case False
    then have n: "nat n \<le> length ev" "out k = out (ch_sock h) @ take (nat n) ev" using sent_all [OF s] by auto
    show ?thesis
    proof (cases "n < int (length ev)")
      case True
      have "\<not> n_queue_full (net E) (ch_queue h)" "n_wakeup_ok (net E)" using assms(2) s True by (auto simp: goes_through_def)
      moreover have "stream (?h (drop (nat n) ev)) = ?s" using n by (simp add: ch_stream_def)
      note total_bytes_send_advanced [OF this io(1), of "nat n" p w]
      ultimately show ?thesis using True False assms(1) s by (auto simp: nonblk_put_def requeue_def Let_def)
    next
      case all: False
      then have "stream (h\<lparr>ch_sock := k\<rparr>) = ?s" using n by (simp add: ch_stream_def)
      from total_bytes_send_advanced [OF this io(2), of "nat n" p w] all False assms(1) s show ?thesis
        by (auto simp: nonblk_put_def Let_def)
    qed
  qed
qed

lemma put_block_advanced:
  assumes "the_ch p w = Some h" and "chain \<noteq> []" and "accepts_block E h (concat chain)"
  shows "\<exists>i e w'. put_block E p chain w = Some (i, e, False, w') \<and> 0 \<le> i \<and> advanced p h (stream h @ concat chain) w w'"
proof -
  obtain b bs where chain: "chain = b # bs" using assms(2) by (cases chain) auto
  let ?ev = "if bs \<noteq> [] then consolidate chain else b"
  have ev: "?ev = concat chain" using chain by (auto simp: consolidate_def)
  show ?thesis
  proof (cases "ch_queue h = []")
    case True
    with nonblk_put_advanced [OF assms(1), of "concat chain"] assms ev chain show ?thesis
      by (auto simp: put_block_def ch_stream_def accepts_block_def Let_def)
  next
    case False
    let ?h = "h\<lparr>ch_queue := ch_queue h @ [?ev]\<rparr>"
    have "advanced p h (stream h @ concat chain) w (set_ch p ?h w)"
      using ev by (intro advancedI [where h' = ?h and fc = "first_call w"]) (auto simp: ch_stream_def set_ch_def same_but_io_upd)
    with False assms chain show ?thesis by (auto simp: put_block_def accepts_block_def Let_def)
  qed
qed

lemma put_advanced:
  assumes "the_ch p w = Some h" and "ch_ready E h" and "evh_length (n_rx (net E)) eh > 0"
    and "accepts_block E h (message_bytes E (ch_header_type_id h) ev eh)"
  shows "\<exists>i w'. put E p ev eh w = Some (i, hd_encode (hdr E) eh, w') \<and>
    advanced p h (stream h @ message_bytes E (ch_header_type_id h) ev eh) w w'"
proof -
  let ?chain = "take (nat (evh_length (n_rx (net E)) eh)) (eh_raw (hd_encode (hdr E) eh)) #
    (case ev of Some d \<Rightarrow> [d] | None \<Rightarrow> [])"
  have msg: "message_bytes E (ch_header_type_id h) ev eh = concat ?chain"
    using assms by (auto simp: message_bytes_def ch_ready_def split: option.split)
  obtain i e w' where "put_block E p ?chain w = Some (i, e, False, w')" "0 \<le> i"
    "advanced p h (stream h @ concat ?chain) w w'"
    using put_block_advanced [OF assms(1), of ?chain] assms(4) unfolding msg by auto
  then show ?thesis using assms by (auto simp: put_def Let_def msg ch_ready_def)
qed

lemma handle_output_advanced:
  assumes "the_ch p w = Some h" and "untroubled E Writable h"
  shows "\<exists>i w'. handle_output E p w = Some (i, w') \<and> (w' = w \<or> advanced p h (stream h) w w')"
proof (cases "ch_queue h")
  case Nil
  with assms show ?thesis by (simp add: handle_output_def)
next
  case (Cons ev q)
  let ?h = "h\<lparr>ch_queue := q\<rparr>"
  from nonblk_put_advanced [of p "set_ch p ?h w" ?h ev] obtain i e w' where
    r: "nonblk_put E p ev (set_ch p ?h w) = Some (i, e, False, w')" "0 \<le> i"
    and adv: "advanced p ?h (stream h) (set_ch p ?h w) w'"
    using Cons assms(2) by (auto simp: ch_stream_def)
  then obtain h' fc where h': "w' = (set_ch p h' w)\<lparr>first_call := fc\<rparr>" "stream h' = stream h" "same_but_io ?h h'"
    by (auto simp: advanced_def)
  have io: "same_but_io h h'" "same_but_io h (h'\<lparr>ch_wakeup := False\<rparr>)"
    using same_but_io_trans [OF same_but_io_upd(2) [OF same_but_io_refl] h'(3)] by (simp_all add: same_but_io_upd)
  have "the_ch p w' = Some h'" by (simp add: h'(1) the_ch_def set_ch_def)
  moreover have "advanced p h (stream h) w w'" using h' io(1) by (auto intro: advancedI)
  moreover have "advanced p h (stream h) w (set_ch p (h'\<lparr>ch_wakeup := False\<rparr>) w')"
    using h' io(2) by (intro advancedI [where h' = "h'\<lparr>ch_wakeup := False\<rparr>" and fc = fc]) (simp_all add: ch_stream_def set_ch_def)
  ultimately show ?thesis using assms(1) Cons r by (auto simp: handle_output_def)
qed

lemma op_advanced:
  assumes "\<And>eh. evh_length (n_rx (net E)) eh > 0"
    and "the_ch p w = Some h" and "ch_ready E h" and "untroubled E op h"
  shows "\<exists>w'. (\<forall>ops. tx_run E p (op # ops) w = tx_run E p ops w') \<and>
    (\<exists>h'. the_ch p w' = Some h' \<and> stream h' = stream h @ op_bytes E (ch_header_type_id h) op \<and> same_but_io h h')"
proof (cases op)
  case (Put ev eh)
  with put_advanced [OF assms(2,3,1), of ev eh] assms(4) obtain i w' where
    "put E p ev eh w = Some (i, hd_encode (hdr E) eh, w')"
    "advanced p h (stream h @ message_bytes E (ch_header_type_id h) ev eh) w w'" by auto
  with Put show ?thesis by (intro exI [of _ w']) (auto simp: advanced_def the_ch_def set_ch_def)
next
  case Writable
  with handle_output_advanced [OF assms(2)] assms(4) obtain i w' where
    "handle_output E p w = Some (i, w')" "w' = w \<or> advanced p h (stream h) w w'" by blast
  with Writable assms(2) show ?thesis by (intro exI [of _ w']) (auto simp: advanced_def the_ch_def set_ch_def)
qed

lemma tx_run_stream:
  assumes "\<And>eh. evh_length (n_rx (net E)) eh > 0"
  shows "the_ch p w = Some h \<Longrightarrow> ch_ready E h \<Longrightarrow>
    \<exists>k w' h'. k \<le> length ops \<and> tx_run E p (take k ops) w = Some w' \<and> the_ch p w' = Some h' \<and>
      stream h' = stream h @ concat (map (op_bytes E (ch_header_type_id h)) (take k ops)) \<and>
      (k = length ops \<or> \<not> untroubled E (ops ! k) h')"
proof (induction ops arbitrary: w h)
  case (Cons a ops)
  show ?case
  proof (cases "untroubled E a h")
    case True
    from op_advanced [OF assms Cons.prems True] obtain w1 h1 where w1: "\<And>ops. tx_run E p (a # ops) w = tx_run E p ops w1"
      "the_ch p w1 = Some h1" "stream h1 = stream h @ op_bytes E (ch_header_type_id h) a" "same_but_io h h1" by blast
    with Cons.IH [of w1 h1] Cons.prems(2) obtain k w' h' where k: "k \<le> length ops" "tx_run E p (take k ops) w1 = Some w'"
      "the_ch p w' = Some h'" "stream h' = stream h1 @ concat (map (op_bytes E (ch_header_type_id h)) (take k ops))"
      "k = length ops \<or> \<not> untroubled E (ops ! k) h'"
      by (auto simp: ready_same same_but_io_keeps)
    with w1 show ?thesis by (intro exI [of _ "Suc k"] exI [of _ w'] exI [of _ h']) auto
  next
    case False
    with Cons.prems show ?thesis by (intro exI [of _ 0] exI [of _ w] exI [of _ h]) simp
  qed
qed simp

end

interpretation example_out: sending_socket example_env "snd :: sock \<Rightarrow> bytes"
  by unfold_locales (auto simp: example_defs)

text \<open>
  C7. Sending under flow control. On an open connection that carries headers and has no output filter, whatever part of each block the
  socket takes, a history of messages and writable upcalls is performed without failure, and the byte stream
  of the connection (what the socket took, then what is queued) is extended by exactly its messages, whole
  and in order: to its end, or up to the first operation at which the socket reports an error, the reactor refuses a
  wakeup, or the queue has reached its high water mark. Nothing is assumed of the socket but that the bytes it
  reports as sent went out.
\<close>

theorem messages_sent_in_order:
  assumes "sending_socket E out" and "the_ch p w = Some h" and "ch_state h = ESTABLISHED"
    and "ch_output_filter h = 0" and "ch_header_type_id h \<noteq> hd_noheader (hdr E)"
    and "\<And>eh. evh_length (n_rx (net E)) eh > 0"
  shows "\<exists>k w' h'. k \<le> length ops \<and> tx_run E p (take k ops) w = Some w' \<and> the_ch p w' = Some h' \<and>
    out (ch_sock h') @ concat (ch_queue h') =
      out (ch_sock h) @ concat (ch_queue h) @ concat (map (op_bytes E (ch_header_type_id h)) (take k ops)) \<and>
    (k = length ops \<or> \<not> untroubled E (ops ! k) h')"
proof -
  have "ch_ready E h" using assms by (simp add: ch_ready_def)
  from sending_socket.tx_run_stream [OF assms(1,6,2) this, of ops] show ?thesis
    by (auto simp: ch_stream_def)
qed

lemma example_ch_ready: "ch_ready example_env (example_ch i)" "ch_queue (example_ch i) = []" "snd (ch_sock (example_ch i)) = []"
  "accepts_block example_env (example_ch i) bs"
  by (simp_all add: ch_ready_def accepts_block_def goes_through_def example_ch_def new_handler_def Let_def example_defs example_record_def)

lemma example_length: "evh_length (n_rx (net example_env)) eh > 0"
  by (simp add: example_defs samson_env_def samson_header_length_def)

theorem messages_sent_in_order_witness:
  "\<exists>w' h'. tx_run example_env 1 [Put (Some [1, 2]) \<lparr>eh_raw = [], eh_hdr = example_header\<rparr>] example_w = Some w' \<and>
    the_ch 1 w' = Some h' \<and> snd (ch_sock h') @ concat (ch_queue h') = encode_header example_header @ [1, 2]"
proof -
  let ?ops = "[Put (Some [1, 2]) \<lparr>eh_raw = [], eh_hdr = example_header\<rparr>]"
  have r: "ch_state (example_ch 21) = ESTABLISHED" "ch_output_filter (example_ch 21) = 0"
    "ch_header_type_id (example_ch 21) \<noteq> hd_noheader (hdr example_env)" using example_ch_ready(1) by (simp_all add: ch_ready_def)
  obtain k w' h' where k: "k \<le> length ?ops" "tx_run example_env 1 (take k ?ops) example_w = Some w'" "the_ch 1 w' = Some h'"
    "snd (ch_sock h') @ concat (ch_queue h') = concat (map (op_bytes example_env (ch_header_type_id (example_ch 21))) (take k ?ops))"
    "k = length ?ops \<or> \<not> untroubled example_env (?ops ! k) h'"
    using messages_sent_in_order [OF example_out.sending_socket_axioms example_w_facts(2) r example_length, of ?ops]
    by (simp only: example_ch_ready(2,3) concat.simps append_Nil) blast
  have "k = 1"
  proof (rule ccontr)
    assume "k \<noteq> 1"
    then have "k = 0" using k(1) by simp
    with k example_w_facts(2) show False by (simp add: example_ch_ready(4))
  qed
  moreover have "message_bytes example_env (ch_header_type_id (example_ch 21)) (Some [1, 2]) \<lparr>eh_raw = [], eh_hdr = example_header\<rparr> =
      encode_header example_header @ [1, 2]"
    using r(3) by (simp add: message_bytes_def example_defs samson_env_def samson_header_length_def)
  ultimately show ?thesis using k(2-4) by auto
qed

text \<open>
  What the high water mark does. A message that finds the queue at its mark is dropped: whole when it has no data, and when
  it has data, \<open>put\<close> releases a block that \<open>consolidate\<close> has released already. A queued message of which the socket accepts_block a part,
  while the messages behind it still reach the mark, loses its rest, and the next message follows in the middle of it.
\<close>

lemma full_queue_drops:
  assumes "the_ch p w = Some h" and "ch_ready E h" and "evh_length (n_rx (net E)) eh > 0"
    and "ch_queue h \<noteq> []" and "n_queue_full (net E) (ch_queue h)"
  shows "put E p None eh w = Some (-1, hd_encode (hdr E) eh, w)" "put E p (Some d) eh w = None"
  using assms by (simp_all add: put_def put_block_def ch_ready_def Let_def)

lemma full_queue_tears:
  assumes "the_ch p w = Some h" and "ch_queue h = ev # q" and "q \<noteq> []" and "n_queue_full (net E) q"
    and "n_send_n (net E) (ch_sock h) ev = (n, bt, e, k)" and "0 < n" and "n < int (length ev)"
  shows "handle_output E p w = Some (0, set_ch p (h\<lparr>ch_queue := q, ch_sock := k\<rparr>) w)"
  using assms by (simp add: handle_output_def nonblk_put_def requeue_def Let_def set_ch_def the_ch_def)

text \<open>
  A transmission error on a message with header and data is fatal: whether or not \<open>handle_close\<close> succeeds,
  \<open>put\<close> then releases the block that \<open>consolidate\<close> has released already.
\<close>

lemma send_error_releases_twice:
  assumes "the_ch p w = Some h" and "ch_state h = ESTABLISHED" and "ch_output_filter h = 0"
    and "ch_header_type_id h \<noteq> hd_noheader (hdr E)" and "evh_length (n_rx (net E)) eh > 0"
    and "ch_queue h = []" and "\<And>bs. n_send_n (net E) (ch_sock h) bs = (-1, 0, OTHER_ERROR, k)"
  shows "put E p (Some d) eh w = None"
  using assms by (auto simp: put_def put_block_def nonblk_put_def consolidate_def Let_def bind_eq_None_conv)

lemma send_error_releases_twice_witness:
  "put (example_env\<lparr>net := example_net\<lparr>n_send_n := (\<lambda>k bs. (-1, 0, OTHER_ERROR, k))\<rparr>\<rparr>) 1 (Some [1, 2])
     \<lparr>eh_raw = [], eh_hdr = example_header\<rparr> example_w = None"
  by (rule send_error_releases_twice [OF example_w_facts(2), where k = "ch_sock (example_ch 21)"])
    (simp_all add: example_ch_def new_handler_def Let_def example_defs samson_env_def samson_header_length_def
      example_record_def)

text \<open>
  A message without data cannot pass an output filter: \<open>put\<close> clones the event without looking whether there
  is one.
\<close>

lemma filter_needs_data:
  assumes "the_ch p w = Some h" and "ch_state h = ESTABLISHED" and "ch_output_filter h \<noteq> 0"
  shows "put E p None eh w = None"
  using assms by (simp add: put_def)

lemma filter_needs_data_witness:
  "put example_env 1 None \<lparr>eh_raw = [], eh_hdr = example_header\<rparr>
     (set_ch 1 ((example_ch 21)\<lparr>ch_output_filter := 77\<rparr>) example_w) = None"
  by (rule filter_needs_data [where h = "(example_ch 21)\<lparr>ch_output_filter := 77\<rparr>"])
    (simp_all add: example_ch_def)

end
