(* ===== verification/CommandReply.thy ===== *)
theory CommandReply
  imports TransmitHandler
begin

text \<open>
  Replies of the command parser: the message blocks its \<open>create_\<close> functions build (plain text or an HTTP
  response) and \<open>cmd_status\<close>, which sends a reply to the command channel with a given handle.
\<close>

section \<open>Message blocks\<close>

definition byte_of :: "char \<Rightarrow> u8" where
  "byte_of c = of_nat (of_char c)"

text \<open>The block holds the string and its terminating zero.\<close>

definition create_block :: "string \<Rightarrow> bytes" where
  "create_block msg = map byte_of msg @ [0]"

fun digits :: "nat \<Rightarrow> string" where
  "digits n = (if n < 10 then [char_of (48 + n)] else digits (n div 10) @ [char_of (48 + n mod 10)])"

text \<open>\<open>boost::lexical_cast<std::string>\<close> of an \<open>int\<close>.\<close>

definition lexical_cast :: "int \<Rightarrow> string" where
  "lexical_cast i = (if i < 0 then CHR ''-'' # digits (nat (- i)) else digits (nat i))"

abbreviation newline :: string where
  "newline \<equiv> [CHR 0x0A]"

definition http_header :: "string \<Rightarrow> int \<Rightarrow> string" where
  "http_header msg rtncode =
     ''HTTP/1.1 '' @ lexical_cast rtncode @ '' OK'' @ newline
     @ ''Content-Length: '' @ lexical_cast (int (length msg)) @ newline @ newline"

definition create_block_as_HTTP :: "string \<Rightarrow> int \<Rightarrow> bytes" where
  "create_block_as_HTTP msg rtncode = create_block (http_header msg rtncode @ msg @ newline)"

definition create_block_Unified :: "string \<Rightarrow> string \<Rightarrow> int \<Rightarrow> bytes" where
  "create_block_Unified msg ctype rtncode =
     (if ctype = ''text'' then create_block msg
      else create_block (http_header msg rtncode @ msg @ newline))"

definition create_OK :: "string \<Rightarrow> bytes" where
  "create_OK ctype = (if ctype = ''text'' then create_block (''OK'' @ newline) else create_block_as_HTTP [] 204)"

definition not_found_page :: string where
  "not_found_page =
     ''<!DOCTYPE HTML PUBLIC '' @ [CHR 0x22] @ ''-//IETF//DTD HTML 2.0//EN'' @ [CHR 0x22] @ ''>''
     @ ''<HTML><HEAD>'' @ ''<TITLE>404 Not Found</TITLE>'' @ ''</HEAD><BODY>'' @ ''<H1>Not Found</H1>''
     @ ''The requested URL was not found on this server.<P>'' @ ''<HR>''
     @ ''<ADDRESS>ISE dispatcher on port 8010</ADDRESS>'' @ ''</BODY></HTML>''"

definition create_NOT_OK :: "string \<Rightarrow> bytes" where
  "create_NOT_OK ctype =
     (if ctype = ''text'' then create_block (''FAILED'' @ newline) else create_block_as_HTTP not_found_page 404)"

section \<open>cmd\_status\<close>

text \<open>
  The report goes to the command channel bound under handle \<open>h\<close> when it is a transceiver; the standard
  input handle (0), the channel being served and an unknown handle only log. The error branch reads the
  handler again and releases the block.
\<close>

definition cmd_status ::
  "('x, 'k, 't) env \<Rightarrow> int \<Rightarrow> bytes \<Rightarrow> ('x, 'k, 't) dispatcher \<Rightarrow> ('x, 'k, 't) dispatcher option" where
  "cmd_status E h report w =
     (if h = 0 then Some w
      else
        (let ch = c_getCHfromCHID (cC E) (word_of_int h) (d2c_table w) in
         if ch \<noteq> 0 then do {
           c \<leftarrow> the_ch ch w;
           if ch_class c = TransceiverHandler then do {
             (i, err, queued, w1) \<leftarrow> put_block E ch [report] w;
             if i = -1 \<and> (the_ch ch w1 = None \<or> queued) then None else Some w1
           } else Some w
         } else Some w))"

section \<open>Properties\<close>

lemma length_create_block [simp]: "length (create_block s) = length s + 1"
  by (simp add: create_block_def)

text \<open>
  The HTTP replies announce a length that is not theirs: the body that follows the blank line of the header is the
  message, a newline and a zero byte, two bytes more than \<open>Content-Length\<close> says.
\<close>

lemma http_body_longer_than_announced:
  "\<exists>body. create_block_as_HTTP msg rtncode = map byte_of (http_header msg rtncode) @ body \<and>
     length body = length msg + 2 \<and>
     http_header msg rtncode = ''HTTP/1.1 '' @ lexical_cast rtncode @ '' OK'' @ newline
       @ ''Content-Length: '' @ lexical_cast (int (length msg)) @ newline @ newline"
  by (simp add: create_block_as_HTTP_def create_block_def http_header_def)

end
