(* ===== verification/ConnectionTable.thy ===== *)
theory ConnectionTable
  imports CommandReply
begin

text \<open>
  The connection table and how connections come to life: \<open>ConnectionTable\<close>, the opening of a handler
  (\<open>ConnectionHandler::open\<close>, \<open>complete_connection\<close>, the hello message of \<open>PubSubDispatch\<close>), the active
  side (\<open>Peer_Connector\<close>), the passive side (\<open>Peer_Acceptor\<close>) and the \<open>initiate_\<close> operations of
  \<open>EventChannel\<close>.
\<close>

section \<open>Control messages\<close>

definition send_ctrl_event ::
  "('x, 'k, 't) env \<Rightarrow> chptr \<Rightarrow> SimMsgType \<Rightarrow> bool \<Rightarrow> ('x, 'k, 't) dispatcher \<Rightarrow> (int \<times> ('x, 'k, 't) dispatcher) option" where
  "send_ctrl_event E p type master_only w = do {
     let sh0 = eh_hdr (hd_new_samson (hdr E));
     let sh = sh0\<lparr>h_run_id := 0, h_peer_id := om_ModelID (om E) (outside w),
                  h_flags := (if master_only then flag_mask flag_master_only else 0),
                  h_type := type_code type, h_message_length := 0\<rparr>;
     let nsh = (hd_new_samson (hdr E))\<lparr>eh_hdr := sh\<rparr>;
     let block = take (nat (evh_length (n_rx (net E)) nsh)) (eh_raw (hd_encode (hdr E) nsh));
     h \<leftarrow> the_ch p w;
     if ch_class h = ReceiveHandler then Some (0, w)
     else do {
       (i, err, queued, w1) \<leftarrow> put_block E p [block] w;
       if i = -1 then
         (if the_ch p w1 = None \<or> err = EWOULDBLOCK \<and> queued then None
          else Some (if err = EWOULDBLOCK then 0 else -1, w1))
       else Some (0, w1)
     }
   }"

definition send_hello ::
  "('x, 'k, 't) env \<Rightarrow> chptr \<Rightarrow> ('x, 'k, 't) dispatcher \<Rightarrow> (int \<times> ('x, 'k, 't) dispatcher) option" where
  "send_hello E p w = send_ctrl_event E p HELLO False w"

section \<open>Opening a connection\<close>

definition load_filter ::
  "('x, 'k, 't) env \<Rightarrow> string \<Rightarrow> fptr \<Rightarrow> ('x, 'k, 't) dispatcher \<Rightarrow> fptr \<times> ('x, 'k, 't) dispatcher" where
  "load_filter E dll old w =
     (if dll \<noteq> [] then
        (let (f, m, x) = f_load (svc E) dll [] (filters w, outside w) in (f, w\<lparr>filters := m, outside := x\<rparr>))
      else (old, w))"

definition complete_connection ::
  "('x, 'k, 't) env \<Rightarrow> chptr \<Rightarrow> ('x, 'k, 't) dispatcher \<Rightarrow> (int \<times> ('x, 'k, 't) dispatcher) option" where
  "complete_connection E p w = do {
     h0 \<leftarrow> the_ch p w;
     (result, w1) \<leftarrow> (if ch_header_type_id h0 = hd_samson (hdr E) then send_hello E p w else Some (0, w));
     h \<leftarrow> the_ch p w1;
     let (fi, w2) = load_filter E (ch_input_filter_dll h) (ch_input_filter h) w1;
     let (fo, w3) = load_filter E (ch_output_filter_dll h) (ch_output_filter h) w2;
     let w4 = set_ch p (h\<lparr>ch_input_filter := fi, ch_output_filter := fo\<rparr>) w3;
     r \<leftarrow> the_rec (ch_entity h) w4;
     Some (result,
       if command_role r
       then w4\<lparr>d2c_table := fst (CommandIdentity_bind (cC E) \<lparr>c_chid = ch_handle h, c_ch = p\<rparr> (d2c_table w4))\<rparr>
       else w4)
   }"

definition open_connection ::
  "('x, 'k, 't) env \<Rightarrow> chptr \<Rightarrow> ('x, 'k, 't) dispatcher \<Rightarrow> (int \<times> ('x, 'k, 't) dispatcher) option" where
  "open_connection E p w = do {
     h \<leftarrow> the_ch p w;
     r \<leftarrow> the_rec (ch_entity h) w;
     if \<not> n_enable_nonblock (net E) (ch_sock h) then Some (-1, w)
     else case n_local_addr (net E) (ch_sock h) of
       None \<Rightarrow> Some (-1, w)
     | Some la \<Rightarrow>
        (case n_remote_addr (net E) (ch_sock h) of
           None \<Rightarrow> Some (-1, set_ch p (h\<lparr>ch_local_addr := la\<rparr>) w)
         | Some ra \<Rightarrow>
             (let h1 = h\<lparr>ch_local_addr := la, ch_remote_addr := ra\<rparr>;
                  (ok, x) = (if r_proxy_role r \<noteq> CHR ''T'' then n_register_read (net E) (ch_handle h) (outside w)
                             else (True, outside w));
                  w1 = (set_ch p h1 w)\<lparr>outside := x\<rparr>
              in if \<not> ok then Some (-1, w1)
                 else complete_connection E p
                   (set_ch p (timeout_set (r_max_retry_timeout r) 1 (h1\<lparr>ch_state := ESTABLISHED\<rparr>)) w1)))
   }"

section \<open>Peer\_Connector\<close>

text \<open>
  ACE connects and then calls \<open>open\<close>; when the connection or \<open>open\<close> fails it closes the handler, which calls
  \<open>handle_close\<close>, before it returns \<open>-1\<close>.
\<close>

definition Peer_Connector_initiate ::
  "('x, 'k, 't) env \<Rightarrow> chptr \<Rightarrow> ('x, 'k, 't) dispatcher \<Rightarrow> (int \<times> ('x, 'k, 't) dispatcher) option" where
  "Peer_Connector_initiate E p w = do {
     h \<leftarrow> the_ch p w;
     if ch_state h \<noteq> ESTABLISHED then
       (let h1 = h\<lparr>ch_state := IDLE, ch_local_addr := ([], 0)\<rparr>;
            (res, x) = n_connect (net E) (ch_remote_addr h1) (outside w);
            w1 = w\<lparr>outside := x\<rparr>
        in case res of
             Connected i k \<Rightarrow> do {
               (ok, w2) \<leftarrow> open_connection E p (set_ch p (h1\<lparr>ch_handle := i, ch_sock := k\<rparr>) w1);
               if ok = -1 then do {
                 (_, w3) \<leftarrow> handle_close E p w2;
                 w4 \<leftarrow> set_state FAILED p w3;
                 Some (-1, w4)
               } else do {
                 w3 \<leftarrow> set_state ESTABLISHED p w2;
                 Some (0, w3)
               }
             }
           | ConnectPending i k \<Rightarrow>
               Some (0, set_ch p (h1\<lparr>ch_handle := i, ch_sock := k, ch_state := CONNECTING\<rparr>) w1)
           | ConnectFailed \<Rightarrow> do {
               (_, w2) \<leftarrow> handle_close E p (set_ch p h1 w1);
               w3 \<leftarrow> set_state FAILED p w2;
               Some (-1, w3)
             })
     else Some (0, w)
   }"

text \<open>\<open>EventChannel::initiate_connection\<close> only chooses synchronous or asynchronous connecting.\<close>

definition initiate_handler ::
  "('x, 'k, 't) env \<Rightarrow> chptr \<Rightarrow> ('x, 'k, 't) dispatcher \<Rightarrow> (int \<times> ('x, 'k, 't) dispatcher) option" where
  "initiate_handler E p w = Peer_Connector_initiate E p w"

text \<open>The timer upcall of a handler that waits to reconnect.\<close>

definition handle_timeout ::
  "('x, 'k, 't) env \<Rightarrow> chptr \<Rightarrow> ('x, 'k, 't) dispatcher \<Rightarrow> (int \<times> ('x, 'k, 't) dispatcher) option" where
  "handle_timeout E p w = do {
     h \<leftarrow> the_ch p w;
     (_, w1) \<leftarrow> initiate_handler E p (set_ch p (h\<lparr>ch_timer_id := 0\<rparr>) w);
     Some (0, w1)
   }"

section \<open>The table\<close>

definition ct_find :: "int \<Rightarrow> ('x, 'k, 't) dispatcher \<Rightarrow> recptr" where
  "ct_find i w = (case smap_find i (ctable w) of Some p \<Rightarrow> p | None \<Rightarrow> 0)"

definition ct_bind ::
  "recptr \<Rightarrow> ('x, 'k, 't) dispatcher \<Rightarrow> (int \<times> ('x, 'k, 't) dispatcher) option" where
  "ct_bind p w = do {
     r \<leftarrow> the_rec p w;
     let w1 = w\<lparr>ctable_state := Populating\<rparr>;
     let (r1, w2) = (if r_id r = 0
        then (r\<lparr>r_id := word_of_int (FreeKey w)\<rparr>, w1\<lparr>FreeKey := FreeKey w - 1\<rparr>) else (r, w1));
     let (m, ok) = smap_insert (sint (r_id r1)) p (ctable w2);
     Some (if ok then 0 else -1, (set_rec p r1 w2)\<lparr>ctable := m\<rparr>)
   }"

definition ct_unbind :: "int \<Rightarrow> ('x, 'k, 't) dispatcher \<Rightarrow> int \<times> ('x, 'k, 't) dispatcher" where
  "ct_unbind i w =
     (case smap_find i (ctable w) of
        Some _ \<Rightarrow> (0, w\<lparr>ctable := smap_erase i (ctable w)\<rparr>)
      | None \<Rightarrow> (-1, w))"

definition new_record :: "ConnectionRecord \<Rightarrow> ('x, 'k, 't) dispatcher \<Rightarrow> recptr \<times> ('x, 'k, 't) dispatcher" where
  "new_record r w = (next_rec w, (set_rec (next_rec w) r w)\<lparr>next_rec := next_rec w + 1\<rparr>)"

definition handler_class_of :: "char \<Rightarrow> handler_class" where
  "handler_class_of role =
     (if role = CHR ''T'' then TransmitHandler else if role = CHR ''R'' then ReceiveHandler else TransceiverHandler)"

definition make_connection_handler ::
  "('x, 'k, 't) env \<Rightarrow> recptr \<Rightarrow> ('x, 'k, 't) dispatcher \<Rightarrow> (chptr \<times> ('x, 'k, 't) dispatcher) option" where
  "make_connection_handler E rp w = do {
     r \<leftarrow> the_rec rp w;
     let p = next_ch w;
     Some (p, (set_ch p (new_handler E (handler_class_of (r_proxy_role r)) rp r) w)\<lparr>next_ch := p + 1\<rparr>)
   }"

definition make_connection_handler_id ::
  "('x, 'k, 't) env \<Rightarrow> int \<Rightarrow> ('x, 'k, 't) dispatcher \<Rightarrow> (chptr \<times> ('x, 'k, 't) dispatcher) option" where
  "make_connection_handler_id E i w =
     (case smap_find i (ctable w) of Some rp \<Rightarrow> make_connection_handler E rp w | None \<Rightarrow> Some (0, w))"

definition insert_into_set ::
  "recptr \<Rightarrow> chptr \<Rightarrow> ('x, 'k, 't) dispatcher \<Rightarrow> ('x, 'k, 't) dispatcher option" where
  "insert_into_set rp p w = do {
     r \<leftarrow> the_rec rp w;
     Some (set_rec rp (r\<lparr>r_ch_set := sset_insert p (r_ch_set r)\<rparr>) w)
   }"

definition insert_connection_handler ::
  "int \<Rightarrow> chptr \<Rightarrow> ('x, 'k, 't) dispatcher \<Rightarrow> ('x, 'k, 't) dispatcher option" where
  "insert_connection_handler i p w =
     (case smap_find i (ctable w) of Some rp \<Rightarrow> insert_into_set rp p w | None \<Rightarrow> Some w)"

definition initiate_connection ::
  "('x, 'k, 't) env \<Rightarrow> recptr \<Rightarrow> ('x, 'k, 't) dispatcher \<Rightarrow> (int \<times> ('x, 'k, 't) dispatcher) option" where
  "initiate_connection E rp w = do {
     r \<leftarrow> the_rec rp w;
     if r_connection_type r = CHR ''A'' then do {
       (p, w1) \<leftarrow> make_connection_handler E rp w;
       w2 \<leftarrow> insert_into_set rp p w1;
       (_, w3) \<leftarrow> initiate_handler E p w2;
       Some (0, w3)
     } else if r_connection_type r = CHR ''P'' then
       (let (ok, x) = n_acceptor_open (net E) (r_host r, r_port r) (outside w)
        in Some (0, (set_rec rp (r\<lparr>r_peer_acceptor := True\<rparr>) w)\<lparr>outside := x\<rparr>))
     else Some (-1, w)
   }"

fun initiate_all ::
  "('x, 'k, 't) env \<Rightarrow> recptr list \<Rightarrow> ('x, 'k, 't) dispatcher \<Rightarrow> (int \<times> ('x, 'k, 't) dispatcher) option" where
  "initiate_all E [] w = Some (0, w)"
| "initiate_all E (rp # rps) w = do {
     (i, w1) \<leftarrow> initiate_connection E rp w;
     if i \<noteq> 0 then Some (-1, w1) else initiate_all E rps w1
   }"

definition initiate_connections ::
  "('x, 'k, 't) env \<Rightarrow> ('x, 'k, 't) dispatcher \<Rightarrow> (int \<times> ('x, 'k, 't) dispatcher) option" where
  "initiate_connections E w =
     (if ctable_state w = Populating \<and> ctable w \<noteq> []
      then initiate_all E (map snd (ctable w)) (w\<lparr>ctable_state := Populated\<rparr>)
      else Some (0, w))"

text \<open>Command and master connections, in the order of the table and of each set.\<close>

definition role_connections :: "char \<Rightarrow> ('x, 'k, 't) dispatcher \<Rightarrow> chptr list" where
  "role_connections role w =
     concat (map (\<lambda>(i, rp). case the_rec rp w of
         Some r \<Rightarrow> if \<not> r_isMaster r \<and> r_proxy_role r = role then r_ch_set r else []
       | None \<Rightarrow> []) (ctable w))"

definition command_connections :: "('x, 'k, 't) dispatcher \<Rightarrow> chptr list" where
  "command_connections w = role_connections CHR ''C'' w"

definition master_connections :: "('x, 'k, 't) dispatcher \<Rightarrow> chptr list" where
  "master_connections w = role_connections CHR ''M'' w"

section \<open>Closing the table\<close>

text \<open>
  \<open>close_connections\<close> destroys the handler its iterator stands on, whose destructor takes it out of the
  set, and then reads the iterator: with a connection in the table the behaviour is undefined.
\<close>

definition close_connections :: "('x, 'k, 't) dispatcher \<Rightarrow> ('x, 'k, 't) dispatcher option" where
  "close_connections w =
     (if list_all (\<lambda>(i, rp). case the_rec rp w of Some r \<Rightarrow> r_ch_set r = [] | None \<Rightarrow> False) (ctable w)
      then Some w else None)"

fun destroy_handlers ::
  "('x, 'k, 't) env \<Rightarrow> chptr list \<Rightarrow> ('x, 'k, 't) dispatcher \<Rightarrow> ('x, 'k, 't) dispatcher option" where
  "destroy_handlers E [] w = Some w"
| "destroy_handlers E (p # ps) w = do {
     h \<leftarrow> the_ch p w;
     w1 \<leftarrow> (if ch_state h = CONNECTING then map_option snd (cancel_connection E p w) else set_state DISCONNECTING p w);
     w2 \<leftarrow> ConnectionHandler_destroy E p (w1\<lparr>outside := n_remove_handler (net E) (ch_handle h) (outside w1)\<rparr>);
     destroy_handlers E ps w2
   }"

definition destroy_entity ::
  "('x, 'k, 't) env \<Rightarrow> recptr \<Rightarrow> ('x, 'k, 't) dispatcher \<Rightarrow> ('x, 'k, 't) dispatcher option" where
  "destroy_entity E rp w = do {
     r \<leftarrow> the_rec rp w;
     if r_connection_type r = CHR ''P'' \<and> r_ch_set r = [] then
       (if r_peer_acceptor r
        then Some (w\<lparr>outside := n_acceptor_close (net E) (r_host r, r_port r) (outside w), records := (records w)(rp := None)\<rparr>)
        else None)
     else if r_ch_set r \<noteq> [] then
       (if r_proxy_role r = CHR ''C'' then Some w
        else do {
          w1 \<leftarrow> destroy_handlers E (r_ch_set r) w;
          Some (w1\<lparr>outside := (if r_peer_acceptor r then n_acceptor_close (net E) (r_host r, r_port r) (outside w1) else outside w1),
                   records := (records w1)(rp := None)\<rparr>)
        })
     else Some (w\<lparr>records := (records w)(rp := None)\<rparr>)
   }"

fun destroy_entities ::
  "('x, 'k, 't) env \<Rightarrow> recptr list \<Rightarrow> ('x, 'k, 't) dispatcher \<Rightarrow> ('x, 'k, 't) dispatcher option" where
  "destroy_entities E [] w = Some w"
| "destroy_entities E (rp # rps) w = do { w1 \<leftarrow> destroy_entity E rp w; destroy_entities E rps w1 }"

definition ConnectionTable_destroy ::
  "('x, 'k, 't) env \<Rightarrow> ('x, 'k, 't) dispatcher \<Rightarrow> ('x, 'k, 't) dispatcher option" where
  "ConnectionTable_destroy E w = do {
     w1 \<leftarrow> destroy_entities E (map snd (ctable w)) (w\<lparr>ctable_state := Clearing\<rparr>);
     Some (w1\<lparr>ctable := [], ctable_state := Empty\<rparr>)
   }"

section \<open>Restoring a record from its archive\<close>

text \<open>The record the archive holds is the argument; what the archive does not hold is set here.\<close>

definition restored :: "('x, 'k, 't) env \<Rightarrow> ConnectionRecord \<Rightarrow> ConnectionRecord" where
  "restored E r =
     r\<lparr>r_priority := 0, r_isMaster := False, r_tcp_nodelay := False, r_first_message_alert := False,
       r_max_retry_timeout := (if r_max_retry_timeout r = 0 then opt_max_timeout E else r_max_retry_timeout r),
       r_send_buff := (if r_send_buff r = 0 then opt_max_buffer_size E else r_send_buff r),
       r_recv_buff := (if r_recv_buff r = 0 then opt_max_buffer_size E else r_recv_buff r),
       r_read_buff := (if r_read_buff r = 0 then opt_max_buffer_size E else r_read_buff r),
       r_peer_acceptor := False, r_ch_set := []\<rparr>"

definition ConnectionTable_restore ::
  "('x, 'k, 't) env \<Rightarrow> ConnectionRecord \<Rightarrow> ('x, 'k, 't) dispatcher \<Rightarrow> ('x, 'k, 't) dispatcher option" where
  "ConnectionTable_restore E r w = do {
     w1 \<leftarrow> (if ctable_state w = Populated then ConnectionTable_destroy E w else Some w);
     let (rp, w2) = new_record (restored E r) (w1\<lparr>ctable_state := Populating\<rparr>);
     (_, w3) \<leftarrow> ct_bind rp w2;
     Some w3
   }"

section \<open>Reports that write\<close>

text \<open>
  \<open>ConnectionHandler::status\<close> resets the retry timeout; \<open>ReceiveHandler\<close> and \<open>TransceiverHandler\<close> override it
  with a report that does not.
\<close>

definition status_handler :: "chptr \<Rightarrow> ('x, 'k, 't) dispatcher \<Rightarrow> ('x, 'k, 't) dispatcher option" where
  "status_handler p w = do {
     h \<leftarrow> the_ch p w;
     if ch_class h = TransmitHandler then do {
       r \<leftarrow> the_rec (ch_entity h) w;
       Some (set_ch p (timeout_set (r_max_retry_timeout r) 1 h) w)
     } else Some w
   }"

fun status_handlers :: "chptr list \<Rightarrow> ('x, 'k, 't) dispatcher \<Rightarrow> ('x, 'k, 't) dispatcher option" where
  "status_handlers [] w = Some w"
| "status_handlers (p # ps) w = do { w1 \<leftarrow> status_handler p w; status_handlers ps w1 }"

fun status_records :: "recptr list \<Rightarrow> ('x, 'k, 't) dispatcher \<Rightarrow> ('x, 'k, 't) dispatcher option" where
  "status_records [] w = Some w"
| "status_records (rp # rps) w = do {
     r \<leftarrow> the_rec rp w;
     w1 \<leftarrow> status_handlers (r_ch_set r) w;
     status_records rps w1
   }"

definition status_connections :: "('x, 'k, 't) dispatcher \<Rightarrow> ('x, 'k, 't) dispatcher option" where
  "status_connections w = status_records (map snd (ctable w)) w"

section \<open>EventChannel: initiating connections\<close>

definition auto_record :: "('x, 'k, 't) env \<Rightarrow> ConnectionRecord" where
  "auto_record E =
     \<lparr>r_id = 0, r_name = [], r_host = [], r_input_filter = [], r_output_filter = [], r_port = 0, r_header = [],
      r_proxy_role = CHR ''B'', r_connection_type = CHR ''A'', r_max_retry_timeout = opt_max_timeout E,
      r_priority = 0, r_tcp_nodelay = True, r_isMaster = False, r_first_message_alert = False, r_send_buff = 0,
      r_recv_buff = 0, r_read_buff = 0, r_peer_acceptor = False, r_ch_set = []\<rparr>"

definition initiate_command_acceptor ::
  "('x, 'k, 't) env \<Rightarrow> ('x, 'k, 't) dispatcher \<Rightarrow> (int \<times> ('x, 'k, 't) dispatcher) option" where
  "initiate_command_acceptor E w = do {
     let (rp, w1) = new_record ((auto_record E)\<lparr>r_name := ''cmd listener'', r_header := ''none'',
        r_proxy_role := CHR ''C'', r_connection_type := CHR ''P'', r_host := ''0.0.0.0'',
        r_port := opt_command_port E\<rparr>) w;
     (_, w2) \<leftarrow> ct_bind rp w1;
     Some (0, w2)
   }"

definition initiate_connect ::
  "('x, 'k, 't) env \<Rightarrow> int \<Rightarrow> string \<Rightarrow> string \<Rightarrow> ('x, 'k, 't) dispatcher \<Rightarrow> (int \<times> ('x, 'k, 't) dispatcher) option" where
  "initiate_connect E port host name w = do {
     let (rp, w1) = new_record ((auto_record E)\<lparr>r_name := name, r_header := ''samson'', r_host := host,
        r_port := word_of_int port\<rparr>) w;
     (_, w2) \<leftarrow> ct_bind rp w1;
     (_, w3) \<leftarrow> initiate_connection E rp w2;
     Some (0, w3)
   }"

definition initiate_d2d_connect ::
  "('x, 'k, 't) env \<Rightarrow> string \<Rightarrow> ('x, 'k, 't) dispatcher \<Rightarrow> (int \<times> ('x, 'k, 't) dispatcher) option" where
  "initiate_d2d_connect E host w = initiate_connect E (uint (opt_d2d_port E)) host ''d2d'' w"

fun d2d_loop ::
  "('x, 'k, 't) env \<Rightarrow> u32 list \<Rightarrow> ('x, 'k, 't) dispatcher \<Rightarrow> ('x, 'k, 't) dispatcher option" where
  "d2d_loop E [] w = Some w"
| "d2d_loop E (n # ns) w =
     (if d_findNodeID (dC E) n (d2d_table w) \<noteq> None then d2d_loop E ns w
      else case om_DispatcherInfo (om E) n (outside w) of
        Some ip \<Rightarrow> do { (_, w1) \<leftarrow> initiate_d2d_connect E ip w; d2d_loop E ns w1 }
      | None \<Rightarrow> d2d_loop E ns w)"

definition initiate_all_d2d_connections ::
  "('x, 'k, 't) env \<Rightarrow> ('x, 'k, 't) dispatcher \<Rightarrow> ('x, 'k, 't) dispatcher option" where
  "initiate_all_d2d_connections E w = d2d_loop E (om_getHigherDispatchers (om E) (outside w)) w"

section \<open>Peer\_Acceptor\<close>

text \<open>
  A connection that arrives: ACE calls \<open>make_svc_handler\<close>, \<open>accept_svc_handler\<close> (which gives the handler its
  socket and puts it into the record's set) and \<open>open\<close>, and closes the handler when \<open>open\<close> fails. When an
  address cannot be read the handler is left outside the set.
\<close>

definition accept_connection ::
  "('x, 'k, 't) env \<Rightarrow> recptr \<Rightarrow> int \<Rightarrow> 'k \<Rightarrow> ('x, 'k, 't) dispatcher \<Rightarrow> ('x, 'k, 't) dispatcher option" where
  "accept_connection E rp i k w = do {
     (p, w1) \<leftarrow> make_connection_handler E rp w;
     h \<leftarrow> the_ch p w1;
     let h1 = h\<lparr>ch_handle := i, ch_sock := k\<rparr>;
     case (n_remote_addr (net E) k, n_local_addr (net E) k) of
       (Some ra, Some la) \<Rightarrow> do {
         w2 \<leftarrow> insert_into_set rp p (set_ch p (h1\<lparr>ch_remote_addr := ra\<rparr>) w1);
         (ok, w3) \<leftarrow> open_connection E p w2;
         if ok = -1 then map_option snd (handle_close E p w3) else Some w3
       }
     | _ \<Rightarrow> Some (set_ch p h1 w1)
   }"

section \<open>Binding records\<close>

text \<open>
  \<open>bind\<close> puts a record under its id, or under the next free key when the id is 0, unless that key is taken;
  then the table is unchanged and \<open>-1\<close> is returned. After it, \<open>find\<close> gives the record at that key and what it gave
  before at every other key.
\<close>

lemma bind_then_find:
  assumes "smap_ok (ctable w)" and "the_rec p w = Some r"
    and "key = (if r_id r = 0 then word_of_int (FreeKey w) else r_id r)"
  shows "\<exists>i w'. ct_bind p w = Some (i, w') \<and> smap_ok (ctable w') \<and> the_rec p w' = Some (r\<lparr>r_id := key\<rparr>) \<and>
    (if smap_find (sint key) (ctable w) = None
     then i = 0 \<and> (\<forall>j. ct_find j w' = (if j = sint key then p else ct_find j w))
     else i = -1 \<and> ctable w' = ctable w)"
  using assms by (cases "smap_find (sint key) (ctable w)"; cases "r_id r = 0")
    (simp_all add: ct_bind_def ct_find_def smap_insert_def the_rec_def set_rec_def smap_find_set smap_ok_set)

lemma bind_then_find_witness:
  "\<exists>w'. ct_bind 1 (example_w\<lparr>ctable := [(3, 9)]\<rparr>) = Some (0, w') \<and> ct_find 12 w' = 1 \<and> ct_find 3 w' = 9"
proof -
  let ?w = "example_w\<lparr>ctable := [(3, 9)]\<rparr>"
  have "the_rec 1 ?w = Some (example_record\<lparr>r_ch_set := [1]\<rparr>)" by (simp add: example_w_def the_rec_def)
  from bind_then_find [OF _ this refl] show ?thesis by (auto simp: example_record_def ct_find_def smap_ok_def smap_keys_def)
qed

section \<open>Destroying the table\<close>

text \<open>
  A record of the table is in order when it is live, its set holds live handlers that belong to it, and a listener
  without connections has its acceptor.
\<close>

definition entity_ok :: "('x, 'k, 't) dispatcher \<Rightarrow> recptr \<Rightarrow> bool" where
  "entity_ok w rp \<longleftrightarrow> (\<exists>r. the_rec rp w = Some r \<and> distinct (r_ch_set r) \<and>
     (\<forall>p \<in> set (r_ch_set r). \<exists>h. the_ch p w = Some h \<and> ch_entity h = rp) \<and>
     (r_connection_type r = CHR ''P'' \<and> r_ch_set r = [] \<longrightarrow> r_peer_acceptor r))"

definition table_ok :: "('x, 'k, 't) dispatcher \<Rightarrow> bool" where
  "table_ok w \<longleftrightarrow> distinct (map snd (ctable w)) \<and> (\<forall>rp \<in> snd ` set (ctable w). entity_ok w rp)"

text \<open>The handlers \<open>destroy\<close> leaves of a record: those of a command record.\<close>

definition doomed :: "('x, 'k, 't) dispatcher \<Rightarrow> recptr \<Rightarrow> chptr set" where
  "doomed w rp = (case the_rec rp w of Some r \<Rightarrow> if r_proxy_role r = CHR ''C'' then {} else set (r_ch_set r) | None \<Rightarrow> {})"

context dispatcher_env
begin

lemma destroy_one:
  assumes "the_ch p w = Some h" and "the_rec (ch_entity h) w = Some r"
  shows "\<exists>w'. destroy_handlers E [p] w = Some w' \<and> handlers w' = (handlers w)(p := None) \<and>
    records w' = (records w)(ch_entity h \<mapsto> r\<lparr>r_ch_set := sset_erase p (r_ch_set r)\<rparr>)"
proof -
  obtain w1 h1 where w1: "(if ch_state h = CONNECTING then map_option snd (cancel_connection E p w) else set_state DISCONNECTING p w) = Some w1"
    "handlers w1 = (handlers w)(p \<mapsto> h1)" "records w1 = records w" "ch_entity h1 = ch_entity h"
  proof (cases "ch_state h = CONNECTING")
    case True
    obtain i x where "cancel_connection E p w = Some (i, w\<lparr>outside := x\<rparr>)" using cancel_spec [OF assms] by blast
    with True that [of "w\<lparr>outside := x\<rparr>" h] assms(1) show ?thesis by (simp add: the_ch_def fun_upd_idem)
  next
    case False
    with that [of "set_ch p (h\<lparr>ch_state := DISCONNECTING\<rparr>) w" "h\<lparr>ch_state := DISCONNECTING\<rparr>"] assms(1) show ?thesis
      by (simp add: set_state_def set_ch_def)
  qed
  let ?w2 = "w1\<lparr>outside := n_remove_handler (net E) (ch_handle h) (outside w1)\<rparr>"
  have "the_ch p ?w2 = Some h1" "the_rec (ch_entity h1) ?w2 = Some r" using w1 assms(2) by (simp_all add: the_ch_def the_rec_def)
  from destroy_spec [OF this] w1 assms(1) show ?thesis by auto
qed

lemma destroy_handlers_Cons:
  "destroy_handlers E (p # ps) w = Option.bind (destroy_handlers E [p] w) (destroy_handlers E ps)"
  by (auto simp: Option.bind_assoc intro!: Option.bind_cong)

lemma destroy_handlers_spec:
  assumes "distinct ps" and "\<forall>p \<in> set ps. \<exists>h. the_ch p w = Some h \<and> ch_entity h = rp" and "the_rec rp w = Some r"
  shows "\<exists>w'. destroy_handlers E ps w = Some w' \<and> handlers w' = (\<lambda>q. if q \<in> set ps then None else handlers w q) \<and>
    (\<forall>q. q \<noteq> rp \<longrightarrow> records w' q = records w q)"
  using assms
proof (induction ps arbitrary: w r)
  case (Cons p ps)
  then obtain h where h: "the_ch p w = Some h" "ch_entity h = rp" by auto
  from destroy_one [OF h(1)] h(2) Cons.prems(3) obtain w1 where w1: "destroy_handlers E [p] w = Some w1"
    "handlers w1 = (handlers w)(p := None)" "records w1 = (records w)(rp \<mapsto> r\<lparr>r_ch_set := sset_erase p (r_ch_set r)\<rparr>)" by auto
  have "\<forall>q \<in> set ps. \<exists>h. the_ch q w1 = Some h \<and> ch_entity h = rp"
    using Cons.prems(1,2) w1(2) by (auto simp: the_ch_def)
  moreover have "the_rec rp w1 = Some (r\<lparr>r_ch_set := sset_erase p (r_ch_set r)\<rparr>)" by (simp add: the_rec_def w1(3))
  ultimately obtain w' where "destroy_handlers E ps w1 = Some w'"
    "handlers w' = (\<lambda>q. if q \<in> set ps then None else handlers w1 q)" "\<forall>q. q \<noteq> rp \<longrightarrow> records w' q = records w1 q"
    using Cons.IH [of w1] Cons.prems(1) by auto
  with w1 show ?case unfolding destroy_handlers_Cons [of p ps w] by (auto simp del: destroy_handlers.simps)
qed auto

lemma destroy_entity_spec:
  assumes "entity_ok w rp"
  shows "\<exists>w'. destroy_entity E rp w = Some w' \<and> handlers w' = (\<lambda>q. if q \<in> doomed w rp then None else handlers w q) \<and>
    (\<forall>q. q \<noteq> rp \<longrightarrow> records w' q = records w q)"
proof -
  obtain r where r: "the_rec rp w = Some r" "distinct (r_ch_set r)"
    "\<forall>p \<in> set (r_ch_set r). \<exists>h. the_ch p w = Some h \<and> ch_entity h = rp"
    "r_connection_type r = CHR ''P'' \<and> r_ch_set r = [] \<longrightarrow> r_peer_acceptor r"
    using assms by (auto simp: entity_ok_def)
  from destroy_handlers_spec [OF r(2,3,1)] r show ?thesis
    by (cases "r_ch_set r = []") (auto simp: destroy_entity_def doomed_def)
qed

lemma destroy_entities_spec:
  assumes "distinct rps" and "\<forall>rp \<in> set rps. entity_ok w rp"
  shows "\<exists>w'. destroy_entities E rps w = Some w' \<and>
    handlers w' = (\<lambda>q. if \<exists>rp \<in> set rps. q \<in> doomed w rp then None else handlers w q)"
  using assms
proof (induction rps arbitrary: w)
  case (Cons rp rps)
  then obtain w1 where w1: "destroy_entity E rp w = Some w1"
    "handlers w1 = (\<lambda>q. if q \<in> doomed w rp then None else handlers w q)" "\<forall>q. q \<noteq> rp \<longrightarrow> records w1 q = records w q"
    using destroy_entity_spec [of w rp] by auto
  have owner: "ch_entity h = rp" if "q \<in> doomed w rp" "the_ch q w = Some h" for q h
    using that Cons.prems(2) by (auto simp: doomed_def entity_ok_def split: option.splits if_splits)
  have rest: "entity_ok w1 e \<and> doomed w1 e = doomed w e" if "e \<in> set rps" for e
  proof -
    have e: "e \<noteq> rp" "entity_ok w e" using that Cons.prems by auto
    then have "the_rec e w1 = the_rec e w" using w1(3) by (simp add: the_rec_def)
    moreover have "the_ch q w1 = the_ch q w" if "the_ch q w = Some h" "ch_entity h = e" for q h
      using owner [OF _ that(1)] that(2) e(1) w1(2) by (auto simp: the_ch_def)
    ultimately show ?thesis using e(2) by (force simp: entity_ok_def doomed_def)
  qed
  then obtain w' where "destroy_entities E rps w1 = Some w'"
    "handlers w' = (\<lambda>q. if \<exists>e \<in> set rps. q \<in> doomed w1 e then None else handlers w1 q)"
    using Cons.IH [of w1] Cons.prems(1) by auto
  with w1 rest show ?case by (auto simp: fun_eq_iff)
qed simp

end

text \<open>
  \<open>destroy\<close> of a table in order is defined: it deletes every handler of a record that is not a command record, and
  no other handler, and leaves the table empty.
\<close>

lemma destroy_removes_handlers:
  assumes "dispatcher_env E" and "table_ok w"
  shows "\<exists>w'. ConnectionTable_destroy E w = Some w' \<and> ctable w' = [] \<and> ctable_state w' = Empty \<and>
    (\<forall>q. the_ch q w' = (if \<exists>rp \<in> snd ` set (ctable w). q \<in> doomed w rp then None else the_ch q w))"
proof -
  let ?w = "w\<lparr>ctable_state := Clearing\<rparr>"
  have same: "entity_ok ?w rp = entity_ok w rp" "doomed ?w rp = doomed w rp" for rp
    by (simp_all add: entity_ok_def doomed_def the_ch_def the_rec_def)
  have "distinct (map snd (ctable w))" "\<forall>rp \<in> set (map snd (ctable w)). entity_ok ?w rp"
    using assms(2) by (simp_all add: table_ok_def same)
  from dispatcher_env.destroy_entities_spec [OF assms(1) this] show ?thesis
    by (auto simp: ConnectionTable_destroy_def the_ch_def same)
qed

lemma destroy_removes_handlers_witness:
  "\<exists>w'. ConnectionTable_destroy example_env (example_w\<lparr>ctable := [(12, 1)]\<rparr>) = Some w' \<and> the_ch 1 w' = None \<and> ctable w' = []"
proof -
  let ?w = "example_w\<lparr>ctable := [(12, 1)]\<rparr>"
  have "table_ok ?w" and d: "doomed ?w 1 = {1}"
    by (auto simp: table_ok_def entity_ok_def doomed_def example_w_def the_ch_def the_rec_def example_ch_def new_handler_def
        example_record_def Let_def)
  from destroy_removes_handlers [OF example.dispatcher_env_axioms this(1)] d show ?thesis by auto
qed

end
