(* ===== verification/PubSubDispatch.thy ===== *)
theory PubSubDispatch
  imports ConnectionTable
begin

text \<open>
  \<open>PubSubDispatch\<close>: what the dispatcher does with a message. Hellos fill the identity tables; goodbyes end
  the connection; everything else is routed by the flags of its header to the job master, a peer, all
  models of a job, a connection, or the subscribers of the message. The header object is shared by all
  receivers of a message and is changed by encoding, so it is threaded through. \<open>SamsonMsgSender\<close>, which
  publishes control messages through \<open>process\<close>, is at the end.
\<close>

section \<open>Hello\<close>

definition process_hello_event ::
  "('x, 'k, 't) env \<Rightarrow> chptr \<Rightarrow> SamsonHeader \<Rightarrow> ('x, 'k, 't) dispatcher \<Rightarrow> ('x, 'k, 't) dispatcher option" where
  "process_hello_event E rh sh w = do {
     h \<leftarrow> the_ch rh w;
     case om_getModelDetails (om E) (h_peer_id sh) (outside w) of
       Some d \<Rightarrow>
         (let entity = \<lparr>m_chid = ch_handle h, m_jid = md_jid d, m_mid = h_peer_id sh, m_nodeid = md_nodeid d,
                        m_unitid = md_unitid d, m_statsid = md_statsid d, m_pid = md_pid d,
                        m_mid_name = md_name d, m_ch = rh\<rparr>
          in Some (w\<lparr>d2m_table := fst (ModelIdentity_bind (mC E) entity (d2m_table w)),
                     outside := om_setReady (om E) (h_peer_id sh) (outside w)\<rparr>))
     | None \<Rightarrow>
         (case om_isDispatcher (om E) (h_peer_id sh) (outside w) of
            Some node \<Rightarrow>
              if debug_route E (outside w) then Some w
              else Some (w\<lparr>d2d_table := fst (DispatcherIdentity_bind (dC E)
                   \<lparr>d_chid = ch_handle h, d_peer = h_peer_id sh, d_node = node, d_ch = rh\<rparr> (d2d_table w))\<rparr>)
          | None \<Rightarrow> status_connections w)
   }"

section \<open>Routing\<close>

text \<open>
  \<open>dynamic_cast<TransmitHandler *>(ch)\<close> and \<open>put\<close>; the cast reads the object, so the pointer must be live.
\<close>

definition send_to ::
  "('x, 'k, 't) env \<Rightarrow> chptr \<Rightarrow> bytes option \<Rightarrow> EventHeaderObj \<Rightarrow> ('x, 'k, 't) dispatcher
     \<Rightarrow> (EventHeaderObj \<times> ('x, 'k, 't) dispatcher) option" where
  "send_to E ch data eh w = do {
     c \<leftarrow> the_ch ch w;
     if ch_class c = ReceiveHandler then Some (eh, w)
     else do { (i, eh1, w1) \<leftarrow> put E ch data eh w; Some (eh1, w1) }
   }"

fun send_to_all ::
  "('x, 'k, 't) env \<Rightarrow> chptr list \<Rightarrow> bytes option \<Rightarrow> EventHeaderObj \<Rightarrow> ('x, 'k, 't) dispatcher
     \<Rightarrow> (EventHeaderObj \<times> ('x, 'k, 't) dispatcher) option" where
  "send_to_all E [] data eh w = Some (eh, w)"
| "send_to_all E (ch # chs) data eh w = do {
     (eh1, w1) \<leftarrow> send_to E ch data eh w;
     send_to_all E chs data eh1 w1
   }"

text \<open>The header before it is encoded: \<open>dispatched(1)\<close> marks it as routed.\<close>

definition mark_dispatched :: "EventHeaderObj \<Rightarrow> EventHeaderObj" where
  "mark_dispatched eh = eh\<lparr>eh_hdr := (eh_hdr eh)\<lparr>h_dispatched := 1\<rparr>\<rparr>"

definition add_trace ::
  "bool \<Rightarrow> chptr \<Rightarrow> SamsonHeader \<Rightarrow> PeerRoute list \<Rightarrow> u32 list \<Rightarrow> ('x, 'k, 't) dispatcher \<Rightarrow> ('x, 'k, 't) dispatcher" where
  "add_trace save_it rh sh sl sr w =
     (if save_it
      then w\<lparr>msg_trace := SamsonTrace_add rh \<lparr>tr_sh = sh, tr_sl = sl, tr_sr = map sint sr\<rparr> (msg_trace w)\<rparr>
      else w)"

text \<open>
  The local subscribers: a subscriber without a bound handler is unsubscribed.
\<close>

fun route_local ::
  "('x, 'k, 't) env \<Rightarrow> u32 \<Rightarrow> u32 \<Rightarrow> PeerRoute list \<Rightarrow> bytes option \<Rightarrow> EventHeaderObj \<Rightarrow> ('x, 'k, 't) dispatcher
     \<Rightarrow> (EventHeaderObj \<times> ('x, 'k, 't) dispatcher) option" where
  "route_local E msg_id uid [] data eh w = Some (eh, w)"
| "route_local E msg_id uid (l # ls) data eh w =
     (let ch = getCHfromModelID (mC E) (pr_peer_id l) (d2m_table w) in
      if ch \<noteq> 0 then do {
        (eh1, w1) \<leftarrow> send_to E ch data eh w;
        route_local E msg_id uid ls data eh1 w1
      } else
        route_local E msg_id uid ls data eh
          (w\<lparr>outside := om_reset_cache (om E) (om_unsubscribe (om E) (pr_peer_id l) msg_id uid (outside w))\<rparr>))"

fun route_remote ::
  "('x, 'k, 't) env \<Rightarrow> u32 list \<Rightarrow> bytes option \<Rightarrow> EventHeaderObj \<Rightarrow> ('x, 'k, 't) dispatcher
     \<Rightarrow> (EventHeaderObj \<times> ('x, 'k, 't) dispatcher) option" where
  "route_remote E [] data eh w = Some (eh, w)"
| "route_remote E (n # ns) data eh w =
     (let ch = getCHfromNodeID (dC E) n (d2d_table w) in
      if ch \<noteq> 0 then do {
        (eh1, w1) \<leftarrow> send_to E ch data eh w;
        route_remote E ns data eh1 w1
      } else route_remote E ns data eh w)"

definition trace_enabled :: "('x, 'k, 't) env \<Rightarrow> SamsonHeader \<Rightarrow> ('x, 'k, 't) dispatcher \<Rightarrow> bool" where
  "trace_enabled E sh w \<longleftrightarrow> debug_route E (outside w) \<or> IdentityTrace_trace (sint (h_peer_id sh)) (id_trace w)"

definition route_to_subscriber ::
  "('x, 'k, 't) env \<Rightarrow> chptr \<Rightarrow> bytes option \<Rightarrow> EventHeaderObj \<Rightarrow> ('x, 'k, 't) dispatcher
     \<Rightarrow> (EventHeaderObj \<times> ('x, 'k, 't) dispatcher) option" where
  "route_to_subscriber E rh data eh w = do {
     let sh = eh_hdr eh;
     let local_only = h_dispatched sh \<noteq> 0;
     let eh1 = mark_dispatched eh;
     let save_it = header_enabled sh flag_trace;
     let eh2 = hd_encode (hdr E) eh1;
     let ((local, remote), c, x) = om_getAllSubscribers (om E) (h_run_id sh) (h_message_id sh)
        (ucast (h_unit_id sh)) (trace_enabled E sh w) (subscr w, outside w);
     let w1 = w\<lparr>subscr := c, outside := x\<rparr>;
     (eh3, w2) \<leftarrow> route_local E (h_message_id sh) (ucast (h_unit_id sh)) local data eh2 w1;
     (eh4, w3) \<leftarrow> (if \<not> local_only then route_remote E remote data eh3 w2 else Some (eh3, w2));
     Some (eh4, add_trace save_it rh (eh_hdr eh1) local (if \<not> local_only then remote else []) w3)
   }"

text \<open>The handler of a route: a model on this node, or else the dispatcher of the route's node.\<close>

definition route_handler :: "('x, 'k, 't) env \<Rightarrow> PeerRoute \<Rightarrow> ('x, 'k, 't) dispatcher \<Rightarrow> chptr" where
  "route_handler E r w =
     (let local = (if pr_node_id r = om_NodeID (om E) (outside w)
                   then getCHfromModelID (mC E) (pr_peer_id r) (d2m_table w) else 0)
      in if local \<noteq> 0 then local else getCHfromNodeID (dC E) (pr_node_id r) (d2d_table w))"

definition route_to_master ::
  "('x, 'k, 't) env \<Rightarrow> chptr \<Rightarrow> bytes option \<Rightarrow> EventHeaderObj \<Rightarrow> ('x, 'k, 't) dispatcher
     \<Rightarrow> (EventHeaderObj \<times> ('x, 'k, 't) dispatcher) option" where
  "route_to_master E rh data eh w =
     (let eh2 = hd_encode (hdr E) (mark_dispatched eh);
          (n, sr) = om_getJobMaster (om E) (h_run_id (eh_hdr eh)) (outside w)
      in if n \<noteq> 1 then Some (eh2, w)
         else case sr of
           [] \<Rightarrow> None
         | m # _ \<Rightarrow>
             (let ch = route_handler E m w
              in if ch \<noteq> 0 then send_to E ch data eh2 w else Some (eh2, w)))"

definition route_to_peer ::
  "('x, 'k, 't) env \<Rightarrow> chptr \<Rightarrow> bytes option \<Rightarrow> EventHeaderObj \<Rightarrow> ('x, 'k, 't) dispatcher
     \<Rightarrow> (EventHeaderObj \<times> ('x, 'k, 't) dispatcher) option" where
  "route_to_peer E rh data eh w = do {
     let sh = eh_hdr eh;
     let eh1 = mark_dispatched eh;
     let save_it = header_enabled sh flag_trace;
     let eh2 = hd_encode (hdr E) eh1;
     let (sr, c, x) = om_getPeerRoute (om E) (h_run_id sh) (h_dest_peer_id sh) (trace_enabled E sh w) (proute w, outside w);
     let w1 = w\<lparr>proute := c, outside := x\<rparr>;
     case sr of
       [r] \<Rightarrow>
         (let ch = route_handler E r w1 in
          if ch \<noteq> 0 then do {
            (eh3, w2) \<leftarrow> send_to E ch data eh2 w1;
            Some (eh3, add_trace save_it rh (eh_hdr eh1) [r] [] w2)
          } else Some (eh2, add_trace save_it rh (eh_hdr eh1) [] [] w1))
     | _ \<Rightarrow> Some (eh2, w1)
   }"

definition route_to_connection ::
  "('x, 'k, 't) env \<Rightarrow> chptr \<Rightarrow> bytes option \<Rightarrow> EventHeaderObj \<Rightarrow> ('x, 'k, 't) dispatcher
     \<Rightarrow> (EventHeaderObj \<times> ('x, 'k, 't) dispatcher) option" where
  "route_to_connection E rh data eh w = do {
     let sh = eh_hdr eh;
     let eh1 = mark_dispatched eh;
     let save_it = header_enabled sh flag_trace;
     let eh2 = hd_encode (hdr E) eh1;
     let rp = ct_find (sint (h_dest_peer_id sh)) w;
     if rp = 0 then Some (eh2, w)
     else do {
       r \<leftarrow> the_rec rp w;
       (eh3, w1) \<leftarrow> send_to_all E (r_ch_set r) data eh2 w;
       Some (eh3, add_trace save_it rh (eh_hdr eh1) [] [] w1)
     }
   }"

definition route_to_job ::
  "('x, 'k, 't) env \<Rightarrow> chptr \<Rightarrow> bytes option \<Rightarrow> EventHeaderObj \<Rightarrow> ('x, 'k, 't) dispatcher
     \<Rightarrow> (EventHeaderObj \<times> ('x, 'k, 't) dispatcher) option" where
  "route_to_job E rh data eh w = do {
     let sh = eh_hdr eh;
     let local_only = h_dispatched sh \<noteq> 0;
     let eh2 = hd_encode (hdr E) (mark_dispatched eh);
     (eh3, w1) \<leftarrow> send_to_all E (map m_ch (allRecordsInJob (mC E) (h_run_id sh) (d2m_table w))) data eh2 w;
     if \<not> local_only then route_remote E (om_getOtherDispatchers (om E) (outside w1)) data eh3 w1
     else Some (eh3, w1)
   }"

section \<open>process\<close>

text \<open>
  The status responses: \<open>flags\<close> is an \<open>ACE_UINT16\<close>, so the bits above the low sixteen are cut off before
  they are tested.
\<close>

definition status_response ::
  "('x, 'k, 't) env \<Rightarrow> bytes option \<Rightarrow> SamsonHeader \<Rightarrow> ('x, 'k, 't) dispatcher \<Rightarrow> ('x, 'k, 't) dispatcher option" where
  "status_response E event sh w =
     (case event of
        Some d \<Rightarrow>
          (let flags = ucast (h_flags sh) :: u16 in
           if d \<noteq> [] \<and> ucast flags AND flag_mask flag_status_log_sender = flag_mask flag_status_log_sender
           then cmd_status E (sint (h_message_id sh)) d w else Some w)
      | None \<Rightarrow> Some w)"

definition process_routing ::
  "('x, 'k, 't) env \<Rightarrow> chptr \<Rightarrow> bytes option \<Rightarrow> EventHeaderObj \<Rightarrow> ('x, 'k, 't) dispatcher
     \<Rightarrow> (EventHeaderObj \<times> ('x, 'k, 't) dispatcher) option" where
  "process_routing E rh event eh w =
     (let sh = eh_hdr eh in
      if header_enabled sh flag_master_only then route_to_master E rh event eh w
      else if header_enabled sh flag_p2p then route_to_peer E rh event eh w
      else if header_enabled sh flag_job then do {
        (eh1, w1) \<leftarrow> route_to_job E rh event eh w;
        Some (eh1,
          if has_type sh GOODBYE_REQUEST
          then w1\<lparr>subscr := s_unbindRunID (sC E) (h_run_id sh) (subscr w1),
                  proute := p_unbindRunID (pC E) (h_run_id sh) (proute w1)\<rparr>
          else w1)
      }
      else if header_enabled sh flag_p2ch then route_to_connection E rh event eh w
      else if header_enabled sh flag_nowhere then Some (eh, w)
      else route_to_subscriber E rh event eh w)"

definition PubSubDispatch_process ::
  "('x, 'k, 't) env \<Rightarrow> chptr \<Rightarrow> bytes option \<Rightarrow> EventHeaderObj \<Rightarrow> ('x, 'k, 't) dispatcher
     \<Rightarrow> (int \<times> EventHeaderObj \<times> ('x, 'k, 't) dispatcher) option" where
  "PubSubDispatch_process E rh event eh w =
     (let sh = eh_hdr eh in
      if has_type sh HELLO then map_option (\<lambda>w1. (0, eh, w1)) (process_hello_event E rh sh w)
      else if has_type sh SUBSCRIBE then Some (0, eh, w)
      else if has_type sh D2D_CONNECT then map_option (\<lambda>w1. (0, eh, w1)) (initiate_all_d2d_connections E w)
      else if has_type sh GOODBYE then do {
        h \<leftarrow> the_ch rh w;
        Some (-1, eh, set_ch rh (h\<lparr>ch_commanded_close := True\<rparr>) w)
      }
      else if has_type sh LOG_EVENT_CHANNEL_STATUS then map_option (\<lambda>w1. (0, eh, w1)) (status_connections w)
      else if has_type sh LOG_CHANNEL_STATUS
      then Some (0, eh, w\<lparr>msg_trace := snd (SamsonTrace_report rh (msg_trace w))\<rparr>)
      else if has_type sh RECOVERABLE_ERROR_STATUS_RESPONSE \<or> has_type sh FATAL_ERROR_STATUS_RESPONSE
        \<or> has_type sh OK_STATUS_RESPONSE
      then map_option (\<lambda>w1. (0, eh, w1)) (status_response E event sh w)
      else map_option (\<lambda>(eh1, w1). (0, eh1, w1)) (process_routing E rh event eh w))"

section \<open>SamsonMsgSender\<close>

definition ctrl_header ::
  "('x, 'k, 't) env \<Rightarrow> u32 \<Rightarrow> u32 \<Rightarrow> int \<Rightarrow> SimMsgType \<Rightarrow> u32 \<Rightarrow> EventHeaderObj" where
  "ctrl_header E job dest hndl type flags =
     (let eh = hd_new_samson (hdr E)
      in eh\<lparr>eh_hdr := (eh_hdr eh)\<lparr>h_run_id := job, h_peer_id := 0, h_dest_peer_id := dest,
            h_message_id := word_of_int hndl, h_app_msg_id := 0, h_unit_id := 0, h_message_length := 0,
            h_flags := flags, h_type := type_code type\<rparr>\<rparr>)"

text \<open>\<open>publish\<close> with a block of length 0.\<close>

definition publish ::
  "('x, 'k, 't) env \<Rightarrow> bytes \<Rightarrow> EventHeaderObj \<Rightarrow> chptr \<Rightarrow> ('x, 'k, 't) dispatcher \<Rightarrow> (int \<times> ('x, 'k, 't) dispatcher) option" where
  "publish E msg eh rh w = do {
     (i, eh1, w1) \<leftarrow> PubSubDispatch_process E rh (Some msg) eh w;
     Some (i, w1)
   }"

definition sendCtrlMsgToModel ::
  "('x, 'k, 't) env \<Rightarrow> int \<Rightarrow> SimMsgType \<Rightarrow> u32 \<Rightarrow> chptr \<Rightarrow> ('x, 'k, 't) dispatcher \<Rightarrow> (int \<times> ('x, 'k, 't) dispatcher) option" where
  "sendCtrlMsgToModel E mdl type flags rh w = do {
     h \<leftarrow> the_ch rh w;
     publish E [] (ctrl_header E 0 (word_of_int mdl) (ch_handle h) type (flags OR flag_mask flag_p2p)) rh w
   }"

definition sendCtrlMsgToJob ::
  "('x, 'k, 't) env \<Rightarrow> int \<Rightarrow> SimMsgType \<Rightarrow> u32 \<Rightarrow> chptr \<Rightarrow> ('x, 'k, 't) dispatcher \<Rightarrow> (int \<times> ('x, 'k, 't) dispatcher) option" where
  "sendCtrlMsgToJob E job type flags rh w = do {
     h \<leftarrow> the_ch rh w;
     publish E [] (ctrl_header E (word_of_int job) 0 (ch_handle h) type (flags OR flag_mask flag_job)) rh w
   }"

section \<open>Who receives a message\<close>

text \<open>
  \<open>dispatched out ps msg w w'\<close>: from \<open>w\<close> to \<open>w'\<close>, the message \<open>msg\<close> was appended to the byte stream of every
  handler as often as it occurs in \<open>ps\<close>, the handlers are otherwise as they were, the other handlers are not touched at all, and
  the tables are unchanged.
\<close>

definition dispatched ::
  "('k \<Rightarrow> bytes) \<Rightarrow> chptr list \<Rightarrow> bytes \<Rightarrow> ('x, 'k, 't) dispatcher \<Rightarrow> ('x, 'k, 't) dispatcher \<Rightarrow> bool" where
  "dispatched out ps msg w w' \<longleftrightarrow>
     d2m_table w' = d2m_table w \<and> d2d_table w' = d2d_table w \<and> d2c_table w' = d2c_table w \<and>
     (\<forall>p. p \<notin> set ps \<longrightarrow> the_ch p w' = the_ch p w) \<and>
     (\<forall>p. rel_option (\<lambda>h h'. same_but_io h h' \<and>
        ch_stream out h' = ch_stream out h @ concat (replicate (count_list ps p) msg)) (the_ch p w) (the_ch p w'))"

text \<open>The bytes of a message: its encoded header and its data.\<close>

definition wire_message :: "('x, 'k, 't) env \<Rightarrow> bytes option \<Rightarrow> EventHeaderObj \<Rightarrow> bytes" where
  "wire_message E data eh =
     take (nat (evh_length (n_rx (net E)) eh)) (eh_raw (hd_encode (hdr E) eh)) @ (case data of Some d \<Rightarrow> d | None \<Rightarrow> [])"

text \<open>
  A handler that sends: the connection is up, and it is not one that only receives. \<open>put\<close> refuses a message on a
  connection that is not up, and nobody looks at the result. \<open>deliverable E msg w p\<close>: the handler at \<open>p\<close> is alive and, if it sends, it has
  no output filter, its connection carries headers, and it can accept the message now (\<open>accepts_block\<close>).
\<close>

definition listening :: "('x, 'k, 't) dispatcher \<Rightarrow> chptr \<Rightarrow> bool" where
  "listening w p \<longleftrightarrow> (\<exists>h. the_ch p w = Some h \<and> ch_state h = ESTABLISHED \<and> ch_class h \<noteq> ReceiveHandler)"

definition deliverable :: "('x, 'k, 't) env \<Rightarrow> bytes \<Rightarrow> ('x, 'k, 't) dispatcher \<Rightarrow> chptr \<Rightarrow> bool" where
  "deliverable E msg w p \<longleftrightarrow>
     (\<exists>h. the_ch p w = Some h \<and> (listening w p \<longrightarrow>
        ch_output_filter h = 0 \<and> ch_header_type_id h \<noteq> hd_noheader (hdr E) \<and> accepts_block E h msg))"

definition model_targets :: "('x, 'k, 't) env \<Rightarrow> PeerRoute list \<Rightarrow> ('x, 'k, 't) dispatcher \<Rightarrow> chptr list" where
  "model_targets E ls w = filter (\<lambda>p. p \<noteq> 0) (map (\<lambda>l. getCHfromModelID (mC E) (pr_peer_id l) (d2m_table w)) ls)"

definition node_targets :: "('x, 'k, 't) env \<Rightarrow> u32 list \<Rightarrow> ('x, 'k, 't) dispatcher \<Rightarrow> chptr list" where
  "node_targets E ns w = filter (\<lambda>p. p \<noteq> 0) (map (\<lambda>n. getCHfromNodeID (dC E) n (d2d_table w)) ns)"

lemma dispatched_refl: "dispatched out [] msg w w"
  by (simp add: dispatched_def option.rel_refl)

lemma dispatched_trans:
  assumes "dispatched out ps msg w w'" and "dispatched out qs msg w' w''"
  shows "dispatched out (ps @ qs) msg w w''"
  unfolding dispatched_def
proof (intro conjI allI)
  fix p
  have "rel_option (\<lambda>h h'. same_but_io h h' \<and> ch_stream out h' = ch_stream out h @ concat (replicate (count_list ps p) msg))
      (the_ch p w) (the_ch p w')"
    "rel_option (\<lambda>h h'. same_but_io h h' \<and> ch_stream out h' = ch_stream out h @ concat (replicate (count_list qs p) msg))
      (the_ch p w') (the_ch p w'')"
    using assms by (simp_all add: dispatched_def)
  then show "rel_option (\<lambda>h h'. same_but_io h h' \<and>
      ch_stream out h' = ch_stream out h @ concat (replicate (count_list (ps @ qs) p) msg)) (the_ch p w) (the_ch p w'')"
    by (cases "the_ch p w"; cases "the_ch p w'"; cases "the_ch p w''")
      (auto simp: replicate_add count_list_append dest: same_but_io_trans)
qed (use assms in \<open>auto simp: dispatched_def\<close>)

lemma dispatched_outside:
  assumes "dispatched out ps msg w w'" and "handlers w2 = handlers w'" and "d2m_table w2 = d2m_table w'"
    and "d2d_table w2 = d2d_table w'" and "d2c_table w2 = d2c_table w'"
  shows "dispatched out ps msg w w2"
  using assms by (simp add: dispatched_def the_ch_def)

lemma targets_same:
  "d2m_table w' = d2m_table w \<Longrightarrow> model_targets E ls w' = model_targets E ls w"
  "d2d_table w' = d2d_table w \<Longrightarrow> node_targets E ns w' = node_targets E ns w"
  by (simp_all add: model_targets_def node_targets_def)

text \<open>
  All targets accept the message, and no connection that sends is among them twice. Sending to one of them leaves the
  others as they are.
\<close>

definition all_deliverable :: "('x, 'k, 't) env \<Rightarrow> bytes \<Rightarrow> ('x, 'k, 't) dispatcher \<Rightarrow> chptr list \<Rightarrow> bool" where
  "all_deliverable E msg w ps \<longleftrightarrow> (\<forall>p \<in> set ps. deliverable E msg w p) \<and> distinct (filter (listening w) ps)"

lemma same_handlers:
  assumes "\<And>p. p \<in> set ps \<Longrightarrow> the_ch p w' = the_ch p w"
  shows "filter (listening w') ps = filter (listening w) ps" "all_deliverable E msg w' ps = all_deliverable E msg w ps"
proof -
  have l: "\<forall>p \<in> set ps. listening w' p = listening w p" using assms by (simp add: listening_def)
  then show f: "filter (listening w') ps = filter (listening w) ps" by (intro filter_cong) auto
  show "all_deliverable E msg w' ps = all_deliverable E msg w ps"
    using assms l unfolding all_deliverable_def f by (auto simp: deliverable_def)
qed

lemma deliverable_rest:
  assumes "all_deliverable E msg w (ps @ qs)" and "dispatched out (filter (listening w) ps) msg w w'"
  shows "all_deliverable E msg w' qs" "filter (listening w') qs = filter (listening w) qs"
proof -
  have "the_ch q w' = the_ch q w" if "q \<in> set qs" for q
  proof -
    have "q \<notin> set (filter (listening w) ps)" using assms(1) that by (auto simp: all_deliverable_def)
    with assms(2) show ?thesis by (simp add: dispatched_def)
  qed
  note same = same_handlers [of qs w' w, OF this]
  show "filter (listening w') qs = filter (listening w) qs" by (rule same)
  show "all_deliverable E msg w' qs" using assms(1) same(2) by (auto simp: all_deliverable_def)
qed

lemma all_deliverable_append: "all_deliverable E msg w (ps @ qs) \<Longrightarrow> all_deliverable E msg w ps"
  by (auto simp: all_deliverable_def)

lemma deliverable_elsewhere:
  assumes "handlers w' = handlers w"
  shows "all_deliverable E msg w' ps = all_deliverable E msg w ps" "filter (listening w') ps = filter (listening w) ps"
  using same_handlers [of ps w' w] assms by (simp_all add: the_ch_def)

lemma deliverable_fields [simp]:
  "all_deliverable E msg (w\<lparr>outside := x\<rparr>) ps = all_deliverable E msg w ps" "listening (w\<lparr>outside := x\<rparr>) = listening w"
  "all_deliverable E msg (w\<lparr>subscr := c\<rparr>) ps = all_deliverable E msg w ps" "listening (w\<lparr>subscr := c\<rparr>) = listening w"
  "all_deliverable E msg (w\<lparr>proute := d\<rparr>) ps = all_deliverable E msg w ps" "listening (w\<lparr>proute := d\<rparr>) = listening w"
  "all_deliverable E msg (w\<lparr>my_ch := q\<rparr>) ps = all_deliverable E msg w ps" "listening (w\<lparr>my_ch := q\<rparr>) = listening w"
  by (intro deliverable_elsewhere(1) ext; simp add: listening_def the_ch_def)+

text \<open>
  What routing relies on of the header class: encoding an encoded header changes nothing, and a header has
  a length.
\<close>

locale routing_env = sending_socket E out for E :: "('x, 'k, 't) env" and out +
  assumes encode_idem: "hd_encode (hdr E) (hd_encode (hdr E) eh) = hd_encode (hdr E) eh"
    and header_length: "evh_length (n_rx (net E)) eh > 0"
begin

lemma send_to_dispatches:
  assumes "all_deliverable E (wire_message E data (hd_encode (hdr E) eh)) w [p]"
  shows "\<exists>w'. send_to E p data (hd_encode (hdr E) eh) w = Some (hd_encode (hdr E) eh, w') \<and>
    dispatched out (filter (listening w) [p]) (wire_message E data (hd_encode (hdr E) eh)) w w'"
proof (cases "listening w p")
  case True
  let ?eh = "hd_encode (hdr E) eh"
  obtain h where h: "the_ch p w = Some h" "ch_ready E h" "ch_class h \<noteq> ReceiveHandler" "accepts_block E h (wire_message E data ?eh)"
    using assms True by (auto simp: all_deliverable_def deliverable_def listening_def ch_ready_def)
  have msg: "message_bytes E (ch_header_type_id h) data ?eh = wire_message E data ?eh"
    using h(2) header_length by (simp add: message_bytes_def wire_message_def ch_ready_def)
  obtain i w' where put: "put E p data ?eh w = Some (i, ?eh, w')"
    and adv: "advanced p h (ch_stream out h @ wire_message E data ?eh) w w'"
    using put_advanced [OF h(1,2) header_length, of data ?eh] h(4) by (auto simp: msg encode_idem)
  then obtain h' fc where "w' = (set_ch p h' w)\<lparr>first_call := fc\<rparr>" "same_but_io h h'"
    "ch_stream out h' = ch_stream out h @ wire_message E data ?eh"
    by (auto simp: advanced_def)
  then have "dispatched out [p] (wire_message E data ?eh) w w'"
    using h(1) by (auto simp: dispatched_def set_ch_def the_ch_def option.rel_refl)
  with put h True show ?thesis by (auto simp: send_to_def)
next
  case False
  obtain h where "the_ch p w = Some h" using assms by (auto simp: all_deliverable_def deliverable_def)
  with False show ?thesis by (auto simp: send_to_def put_def listening_def dispatched_refl)
qed

lemma send_to_all_dispatches:
  "all_deliverable E (wire_message E data (hd_encode (hdr E) eh)) w ps \<Longrightarrow>
    \<exists>w'. send_to_all E ps data (hd_encode (hdr E) eh) w = Some (hd_encode (hdr E) eh, w') \<and>
      dispatched out (filter (listening w) ps) (wire_message E data (hd_encode (hdr E) eh)) w w'"
proof (induction ps arbitrary: w)
  case Nil
  then show ?case by (simp add: dispatched_refl)
next
  case (Cons p ps)
  have c: "all_deliverable E (wire_message E data (hd_encode (hdr E) eh)) w ([p] @ ps)" using Cons.prems by simp
  obtain w1 where w1: "send_to E p data (hd_encode (hdr E) eh) w = Some (hd_encode (hdr E) eh, w1)"
    "dispatched out (filter (listening w) [p]) (wire_message E data (hd_encode (hdr E) eh)) w w1"
    using send_to_dispatches [OF all_deliverable_append [OF c]] by auto
  note rest = deliverable_rest [OF c w1(2)]
  obtain w2 where w2: "send_to_all E ps data (hd_encode (hdr E) eh) w1 = Some (hd_encode (hdr E) eh, w2)"
    "dispatched out (filter (listening w) ps) (wire_message E data (hd_encode (hdr E) eh)) w1 w2"
    using Cons.IH [OF rest(1)] rest(2) by auto
  show ?case using w1(1) w2(1) dispatched_trans [OF w1(2) w2(2)] by (auto split: if_splits)
qed

lemma route_local_dispatches:
  "all_deliverable E (wire_message E data (hd_encode (hdr E) eh)) w (model_targets E ls w) \<Longrightarrow>
    \<exists>w'. route_local E m u ls data (hd_encode (hdr E) eh) w = Some (hd_encode (hdr E) eh, w') \<and>
      dispatched out (filter (listening w) (model_targets E ls w)) (wire_message E data (hd_encode (hdr E) eh)) w w'"
proof (induction ls arbitrary: w)
  case Nil
  then show ?case by (simp add: dispatched_refl model_targets_def)
next
  case (Cons l ls)
  let ?msg = "wire_message E data (hd_encode (hdr E) eh)" and ?ch = "getCHfromModelID (mC E) (pr_peer_id l) (d2m_table w)"
  show ?case
  proof (cases "?ch = 0")
    case True
    let ?w = "w\<lparr>outside := om_reset_cache (om E) (om_unsubscribe (om E) (pr_peer_id l) m u (outside w))\<rparr>"
    have t: "model_targets E (l # ls) w = model_targets E ls ?w" using True by (simp add: model_targets_def)
    have ws: "dispatched out [] ?msg w ?w" by (rule dispatched_outside [OF dispatched_refl]) simp_all
    from Cons.IH [of ?w] Cons.prems t True show ?thesis using dispatched_trans [OF ws] by auto
  next
    case False
    then have t: "model_targets E (l # ls) w = [?ch] @ model_targets E ls w" by (simp add: model_targets_def)
    note c = Cons.prems [unfolded t]
    obtain w1 where w1: "send_to E ?ch data (hd_encode (hdr E) eh) w = Some (hd_encode (hdr E) eh, w1)"
      "dispatched out (filter (listening w) [?ch]) ?msg w w1"
      using send_to_dispatches [OF all_deliverable_append [OF c]] by auto
    then have same: "model_targets E ls w1 = model_targets E ls w" by (intro targets_same) (simp add: dispatched_def)
    note rest = deliverable_rest [OF c w1(2), folded same]
    obtain w2 where w2: "route_local E m u ls data (hd_encode (hdr E) eh) w1 = Some (hd_encode (hdr E) eh, w2)"
      "dispatched out (filter (listening w) (model_targets E ls w)) ?msg w1 w2"
      using Cons.IH [OF rest(1)] rest(2) same by auto
    show ?thesis using w1(1) w2(1) dispatched_trans [OF w1(2) w2(2)] False t by (auto split: if_splits)
  qed
qed

lemma route_remote_dispatches:
  "all_deliverable E (wire_message E data (hd_encode (hdr E) eh)) w (node_targets E ns w) \<Longrightarrow>
    \<exists>w'. route_remote E ns data (hd_encode (hdr E) eh) w = Some (hd_encode (hdr E) eh, w') \<and>
      dispatched out (filter (listening w) (node_targets E ns w)) (wire_message E data (hd_encode (hdr E) eh)) w w'"
proof (induction ns arbitrary: w)
  case Nil
  then show ?case by (simp add: dispatched_refl node_targets_def)
next
  case (Cons n ns)
  let ?msg = "wire_message E data (hd_encode (hdr E) eh)" and ?ch = "getCHfromNodeID (dC E) n (d2d_table w)"
  show ?case
  proof (cases "?ch = 0")
    case True
    with Cons show ?thesis by (simp add: node_targets_def)
  next
    case False
    then have t: "node_targets E (n # ns) w = [?ch] @ node_targets E ns w" by (simp add: node_targets_def)
    note c = Cons.prems [unfolded t]
    obtain w1 where w1: "send_to E ?ch data (hd_encode (hdr E) eh) w = Some (hd_encode (hdr E) eh, w1)"
      "dispatched out (filter (listening w) [?ch]) ?msg w w1"
      using send_to_dispatches [OF all_deliverable_append [OF c]] by auto
    then have same: "node_targets E ns w1 = node_targets E ns w" by (intro targets_same) (simp add: dispatched_def)
    note rest = deliverable_rest [OF c w1(2), folded same]
    obtain w2 where w2: "route_remote E ns data (hd_encode (hdr E) eh) w1 = Some (hd_encode (hdr E) eh, w2)"
      "dispatched out (filter (listening w) (node_targets E ns w)) ?msg w1 w2"
      using Cons.IH [OF rest(1)] rest(2) same by auto
    show ?thesis using w1(1) w2(1) dispatched_trans [OF w1(2) w2(2)] False t by (auto split: if_splits)
  qed
qed

end

interpretation example_route: routing_env example_env "snd :: sock \<Rightarrow> bytes"
proof
  fix eh :: EventHeaderObj
  let ?E = example_env
  have "encode_header (h\<lparr>h_encoded := b\<rparr>) = encode_header h" for h b by (simp add: encode_header_def)
  then show "hd_encode (hdr ?E) (hd_encode (hdr ?E) eh) = hd_encode (hdr ?E) eh" by (simp add: example_defs)
  show "0 < evh_length (n_rx (net ?E)) eh" by (simp add: example_defs samson_env_def samson_header_length_def)
qed

section \<open>Properties\<close>

text \<open>The message types that are routed by their flags.\<close>

definition routed_type :: "SamsonHeader \<Rightarrow> bool" where
  "routed_type sh \<longleftrightarrow> \<not> has_type sh HELLO \<and> \<not> has_type sh SUBSCRIBE \<and> \<not> has_type sh D2D_CONNECT \<and> \<not> has_type sh GOODBYE
     \<and> \<not> has_type sh LOG_EVENT_CHANNEL_STATUS \<and> \<not> has_type sh LOG_CHANNEL_STATUS
     \<and> \<not> has_type sh RECOVERABLE_ERROR_STATUS_RESPONSE \<and> \<not> has_type sh FATAL_ERROR_STATUS_RESPONSE
     \<and> \<not> has_type sh OK_STATUS_RESPONSE"

lemma process_routed:
  "routed_type (eh_hdr eh) \<Longrightarrow>
    PubSubDispatch_process E rh data eh w = map_option (\<lambda>(eh1, w1). (0, eh1, w1)) (process_routing E rh data eh w)"
  by (simp add: PubSubDispatch_process_def routed_type_def)

text \<open>
  C4. Publish and subscribe. A message of a routed type without a routing flag is sent to its subscribers: exactly one
  copy (its header marked as dispatched, encoded, then its data) is appended to the byte stream of the handler of
  every local subscriber that is bound and, if the message has not been through a dispatcher before, of every
  dispatcher with remote subscribers that is bound, as far as their connections are up; a handler whose connection is down stays
  bound and gets nothing, no other handler is touched and the tables are unchanged. A message from another dispatcher is not sent to
  dispatchers again. The bound handlers are alive (C3), no connection serves two of them, and those that are up have no
  output filter, carry headers, and can accept the message: when nothing is queued on it, the socket reports no error (and what it leaves over is queued),
  and when something is queued, the queue is below its high water mark.
\<close>

theorem subscribers_get_message:
  assumes "routing_env E out" and "routed_type (eh_hdr eh)"
    and "\<not> header_enabled (eh_hdr eh) flag_master_only" and "\<not> header_enabled (eh_hdr eh) flag_p2p"
    and "\<not> header_enabled (eh_hdr eh) flag_job" and "\<not> header_enabled (eh_hdr eh) flag_p2ch"
    and "\<not> header_enabled (eh_hdr eh) flag_nowhere"
    and "om_getAllSubscribers (om E) (h_run_id (eh_hdr eh)) (h_message_id (eh_hdr eh)) (ucast (h_unit_id (eh_hdr eh)))
      (trace_enabled E (eh_hdr eh) w) (subscr w, outside w) = ((local, remote), c, x)"
    and "ps = model_targets E local w @ (if h_dispatched (eh_hdr eh) = 0 then node_targets E remote w else [])"
    and "\<forall>p \<in> set ps. deliverable E (wire_message E data (hd_encode (hdr E) (mark_dispatched eh))) w p"
    and "distinct (filter (listening w) ps)"
  shows "\<exists>eh' w'. PubSubDispatch_process E rh data eh w = Some (0, eh', w') \<and>
    dispatched out (filter (listening w) ps) (wire_message E data (hd_encode (hdr E) (mark_dispatched eh))) w w'"
proof -
  let ?eh = "hd_encode (hdr E) (mark_dispatched eh)" and ?msg = "wire_message E data (hd_encode (hdr E) (mark_dispatched eh))"
  let ?w1 = "w\<lparr>subscr := c, outside := x\<rparr>"
  have t: "model_targets E local ?w1 = model_targets E local w" "node_targets E remote ?w1 = node_targets E remote w"
    by (intro targets_same; simp)+
  let ?ms = "model_targets E local w" and ?rs = "if h_dispatched (eh_hdr eh) = 0 then node_targets E remote w else []"
  have all: "all_deliverable E ?msg w (?ms @ ?rs)" using assms(9-11) by (simp add: all_deliverable_def)
  have w1: "dispatched out [] ?msg w ?w1" by (rule dispatched_outside [OF dispatched_refl]) simp_all
  obtain w2 where w2: "route_local E (h_message_id (eh_hdr eh)) (ucast (h_unit_id (eh_hdr eh))) local data ?eh ?w1 = Some (?eh, w2)"
    "dispatched out (filter (listening w) ?ms) ?msg ?w1 w2"
    using routing_env.route_local_dispatches [OF assms(1), of data "mark_dispatched eh" ?w1 local "h_message_id (eh_hdr eh)"
        "ucast (h_unit_id (eh_hdr eh))"] all_deliverable_append [OF all] t by auto
  have d2: "dispatched out (filter (listening w) ?ms) ?msg w w2" using dispatched_trans [OF w1 w2(2)] by simp
  note rest = deliverable_rest [OF all d2]
  obtain w3 where w3: "(if h_dispatched (eh_hdr eh) = 0 then route_remote E remote data ?eh w2 else Some (?eh, w2)) = Some (?eh, w3)"
    "dispatched out (filter (listening w) ?rs) ?msg w2 w3"
  proof (cases "h_dispatched (eh_hdr eh) = 0")
    case True
    have "node_targets E remote w2 = node_targets E remote w" using d2 by (intro targets_same) (simp add: dispatched_def)
    with routing_env.route_remote_dispatches [OF assms(1), of data "mark_dispatched eh" w2 remote] rest True that show ?thesis by auto
  next
    case False
    with that [of w2] show ?thesis by (simp add: dispatched_refl)
  qed
  have "dispatched out (filter (listening w) ps) ?msg w w3" using dispatched_trans [OF d2 w3(2)] assms(9) by simp
  then have "dispatched out (filter (listening w) ps) ?msg w (add_trace b rh sh l r w3)" for b sh l r
    by (rule dispatched_outside) (simp_all add: add_trace_def)
  with w2(1) w3(1) assms(2-8) show ?thesis
    by (auto simp: process_routed process_routing_def route_to_subscriber_def Let_def)
qed

text \<open>A dispatcher with the models 7 and 8 and the dispatcher of node 4 connected.\<close>

definition example_net_w :: example_dispatcher where
  "example_net_w = (dispatcher_init 0 [])
     \<lparr>handlers := [1 \<mapsto> example_ch 21, 2 \<mapsto> example_ch 22, 3 \<mapsto> example_ch 23],
      records := [1 \<mapsto> example_record\<lparr>r_ch_set := [1, 2, 3]\<rparr>],
      d2m_table := \<lparr>m_map = [example_model 21 7 107 1, example_model 22 8 108 2], m_state = Active\<rparr>,
      d2d_table := \<lparr>d_map = [\<lparr>d_chid = 23, d_peer = 40, d_node = 4, d_ch = 3\<rparr>], d_state = Active\<rparr>\<rparr>"

definition example_msg :: EventHeaderObj where
  "example_msg = \<lparr>eh_raw = [], eh_hdr = blank_header\<lparr>h_run_id := 1, h_message_id := 5, h_type := 2, h_message_length := 2\<rparr>\<rparr>"

lemma example_net_targets:
  "model_targets example_env [\<lparr>pr_peer_id = 7, pr_node_id = 3\<rparr>, \<lparr>pr_peer_id = 8, pr_node_id = 3\<rparr>] example_net_w = [1, 2]"
  "node_targets example_env [4] example_net_w = [3]"
  "p = 1 \<or> p = 2 \<or> p = 3 \<Longrightarrow> listening example_net_w p \<and> deliverable example_env msg example_net_w p"
proof -
  show "p = 1 \<or> p = 2 \<or> p = 3 \<Longrightarrow> listening example_net_w p \<and> deliverable example_env msg example_net_w p"
    using example_ch_ready(1,4)
    by (auto simp: deliverable_def listening_def the_ch_def example_net_w_def ch_ready_def)
      (simp_all add: example_ch_def new_handler_def Let_def example_record_def)
qed (auto simp: model_targets_def node_targets_def getCHfromModelID_def getCHfromNodeID_def example_net_w_def
      example_defs the_ch_def example_ch_def new_handler_def Let_def example_record_def)

lemma example_all: "filter (listening example_net_w) [1, 2, 3] = [1, 2, 3]"
  using example_net_targets(3) by auto

theorem subscribers_get_message_witness:
  "\<exists>eh' w'. PubSubDispatch_process example_env 1 (Some [1, 2]) example_msg example_net_w = Some (0, eh', w') \<and>
    dispatched snd [1, 2, 3] (wire_message example_env (Some [1, 2]) (hd_encode (hdr example_env) (mark_dispatched example_msg))) example_net_w w'"
proof -
  note f = example_all
  have "\<exists>eh' w'. PubSubDispatch_process example_env 1 (Some [1, 2]) example_msg example_net_w = Some (0, eh', w') \<and>
      dispatched snd (filter (listening example_net_w) [1, 2, 3])
        (wire_message example_env (Some [1, 2]) (hd_encode (hdr example_env) (mark_dispatched example_msg))) example_net_w w'"
    by (rule subscribers_get_message [OF example_route.routing_env_axioms, where
        local = "[\<lparr>pr_peer_id = 7, pr_node_id = 3\<rparr>, \<lparr>pr_peer_id = 8, pr_node_id = 3\<rparr>]" and remote = "[4]"])
      (use example_net_targets f in \<open>auto simp: routed_type_def has_type_def header_enabled_def flag_test_def example_msg_def
        blank_header_def example_defs\<close>)
  then show ?thesis unfolding f .
qed

lemma cut_flags: "(ucast (ucast (f :: u32) :: u16) :: u32) AND 0x00400000 \<noteq> 0x00400000"
proof
  assume "(ucast (ucast f :: u16) :: u32) AND 0x00400000 = 0x00400000"
  then have "bit ((ucast (ucast f :: u16) :: u32) AND push_bit 22 1) 22 = bit (push_bit 22 1 :: u32) 22" by simp
  then show False by (simp add: bit_simps)
qed

text \<open>
  A status response is never relayed to the command channel that asked for it, nor logged for it: the flags are cut
  to sixteen bits, and the bits that ask for it are above them. Whatever the flags, the event and the tables are,
  nothing happens.
\<close>

lemma status_never_relayed:
  assumes "has_type (eh_hdr eh) RECOVERABLE_ERROR_STATUS_RESPONSE \<or> has_type (eh_hdr eh) FATAL_ERROR_STATUS_RESPONSE \<or>
    has_type (eh_hdr eh) OK_STATUS_RESPONSE"
  shows "PubSubDispatch_process E rh event eh w = Some (0, eh, w)"
proof -
  have "status_response E event (eh_hdr eh) w = Some w"
    using cut_flags by (simp add: status_response_def split: option.split)
  moreover have "\<not> has_type (eh_hdr eh) HELLO" "\<not> has_type (eh_hdr eh) SUBSCRIBE" "\<not> has_type (eh_hdr eh) D2D_CONNECT"
    "\<not> has_type (eh_hdr eh) GOODBYE" "\<not> has_type (eh_hdr eh) LOG_EVENT_CHANNEL_STATUS" "\<not> has_type (eh_hdr eh) LOG_CHANNEL_STATUS"
    using assms has_type_unique by blast+
  ultimately show ?thesis using assms by (simp add: PubSubDispatch_process_def)
qed

lemma status_never_relayed_witness:
  "PubSubDispatch_process example_env 1 (Some [1]) \<lparr>eh_raw = [], eh_hdr = blank_header\<lparr>h_type := 5, h_flags := 0x00400000\<rparr>\<rparr> example_w
   = Some (0, \<lparr>eh_raw = [], eh_hdr = blank_header\<lparr>h_type := 5, h_flags := 0x00400000\<rparr>\<rparr>, example_w)"
  by (rule status_never_relayed) (simp add: has_type_def)

text \<open>Messages to a job.\<close>

lemma job_dispatches:
  assumes "routing_env E out" and "subscription_cache (sC E)" and "peer_route_cache (pC E)"
    and "routed_type (eh_hdr eh)" and "\<not> header_enabled (eh_hdr eh) flag_master_only"
    and "\<not> header_enabled (eh_hdr eh) flag_p2p" and "header_enabled (eh_hdr eh) flag_job"
    and "\<And>x. om_getOtherDispatchers (om E) x = nodes"
    and "ps = map m_ch (allRecordsInJob (mC E) (h_run_id (eh_hdr eh)) (d2m_table w)) @
      (if h_dispatched (eh_hdr eh) = 0 then node_targets E nodes w else [])"
    and "\<forall>p \<in> set ps. deliverable E (wire_message E data (hd_encode (hdr E) (mark_dispatched eh))) w p"
    and "distinct (filter (listening w) ps)"
  shows "\<exists>eh' w'. PubSubDispatch_process E rh data eh w = Some (0, eh', w') \<and>
    dispatched out (filter (listening w) ps) (wire_message E data (hd_encode (hdr E) (mark_dispatched eh))) w w' \<and>
    (has_type (eh_hdr eh) GOODBYE_REQUEST \<longrightarrow>
      (\<forall>r \<in> set (s_map (subscr w')). theJobID r \<noteq> h_run_id (eh_hdr eh)) \<and>
      (\<forall>r \<in> set (p_map (proute w')). theRunID r \<noteq> h_run_id (eh_hdr eh)))"
proof -
  let ?eh = "hd_encode (hdr E) (mark_dispatched eh)" and ?msg = "wire_message E data (hd_encode (hdr E) (mark_dispatched eh))"
  let ?ms = "map m_ch (allRecordsInJob (mC E) (h_run_id (eh_hdr eh)) (d2m_table w))"
  let ?rs = "if h_dispatched (eh_hdr eh) = 0 then node_targets E nodes w else []"
  have all: "all_deliverable E ?msg w (?ms @ ?rs)" using assms(9-11) by (simp add: all_deliverable_def)
  obtain w1 where w1: "send_to_all E ?ms data ?eh w = Some (?eh, w1)" "dispatched out (filter (listening w) ?ms) ?msg w w1"
    using routing_env.send_to_all_dispatches [OF assms(1) all_deliverable_append [OF all]] by auto
  note rest = deliverable_rest [OF all w1(2)]
  obtain w2 where w2: "route_to_job E rh data eh w = Some (?eh, w2)" "dispatched out (filter (listening w) ps) ?msg w w2"
  proof (cases "h_dispatched (eh_hdr eh) = 0")
    case True
    have same: "node_targets E nodes w1 = node_targets E nodes w" using w1(2) by (intro targets_same) (simp add: dispatched_def)
    from routing_env.route_remote_dispatches [OF assms(1), of data "mark_dispatched eh" w1 nodes] rest True same obtain w2 where
      "route_remote E nodes data ?eh w1 = Some (?eh, w2)" "dispatched out (filter (listening w) (node_targets E nodes w)) ?msg w1 w2"
      by auto
    with True w1 assms(8,9) dispatched_trans [OF w1(2)] that show ?thesis by (auto simp: route_to_job_def Let_def)
  next
    case False
    with w1 assms(9) that show ?thesis by (auto simp: route_to_job_def Let_def)
  qed
  let ?w3 = "w2\<lparr>subscr := s_unbindRunID (sC E) (h_run_id (eh_hdr eh)) (subscr w2),
    proute := p_unbindRunID (pC E) (h_run_id (eh_hdr eh)) (proute w2)\<rparr>"
  have "dispatched out (filter (listening w) ps) ?msg w ?w3" by (rule dispatched_outside [OF w2(2)]) simp_all
  moreover have "\<forall>r \<in> set (s_map (subscr ?w3)). theJobID r \<noteq> h_run_id (eh_hdr eh)"
    "\<forall>r \<in> set (p_map (proute ?w3)). theRunID r \<noteq> h_run_id (eh_hdr eh)"
    using multi_index.set_erase [OF subscription_cache.axioms [OF assms(2)]]
      multi_index.set_erase [OF peer_route_cache.axioms [OF assms(3)]]
    by (simp_all add: s_unbindRunID_def p_unbindRunID_def)
  ultimately show ?thesis using assms(4-7) w2
    by (cases "has_type (eh_hdr eh) GOODBYE_REQUEST") (simp_all add: process_routed process_routing_def Let_def)
qed

text \<open>
  C24. A message to a job goes to every model of the job that is bound here and, unless it came from a dispatcher, to
  every other dispatcher that is bound, one copy each, as far as their connections are up; a handler whose connection is down gets
  nothing, and no other handler is touched. A goodbye request also empties the two route caches of the job. The conditions on the bound handlers are those
  of C4: they are alive, no connection serves two of them, and those that are up have no output filter, carry headers and can accept the
  message.
\<close>

theorem job_gets_message:
  assumes "routing_env E out" and "subscription_cache (sC E)" and "peer_route_cache (pC E)"
    and "routed_type (eh_hdr eh)" and "\<not> header_enabled (eh_hdr eh) flag_master_only"
    and "\<not> header_enabled (eh_hdr eh) flag_p2p" and "header_enabled (eh_hdr eh) flag_job"
    and "\<And>x. om_getOtherDispatchers (om E) x = nodes"
    and "ps = map m_ch (allRecordsInJob (mC E) (h_run_id (eh_hdr eh)) (d2m_table w)) @
      (if h_dispatched (eh_hdr eh) = 0 then node_targets E nodes w else [])"
    and "\<forall>p \<in> set ps. deliverable E (wire_message E data (hd_encode (hdr E) (mark_dispatched eh))) w p"
    and "distinct (filter (listening w) ps)"
  shows "\<exists>eh' w'. PubSubDispatch_process E rh data eh w = Some (0, eh', w') \<and>
    dispatched out (filter (listening w) ps) (wire_message E data (hd_encode (hdr E) (mark_dispatched eh))) w w' \<and>
    (has_type (eh_hdr eh) GOODBYE_REQUEST \<longrightarrow>
      (\<forall>r \<in> set (s_map (subscr w')). theJobID r \<noteq> h_run_id (eh_hdr eh)) \<and>
      (\<forall>r \<in> set (p_map (proute w')). theRunID r \<noteq> h_run_id (eh_hdr eh)))"
  by (rule job_dispatches [OF assms])

theorem job_gets_message_witness:
  "\<exists>eh' w'. PubSubDispatch_process example_env 1 (Some [1, 2]) (example_msg\<lparr>eh_hdr := (eh_hdr example_msg)\<lparr>h_flags := 0x400\<rparr>\<rparr>)
      example_net_w = Some (0, eh', w') \<and>
    dispatched snd [1, 2, 3] (wire_message example_env (Some [1, 2]) (hd_encode (hdr example_env)
      (mark_dispatched (example_msg\<lparr>eh_hdr := (eh_hdr example_msg)\<lparr>h_flags := 0x400\<rparr>\<rparr>)))) example_net_w w'"
proof -
  let ?eh = "example_msg\<lparr>eh_hdr := (eh_hdr example_msg)\<lparr>h_flags := 0x400\<rparr>\<rparr>"
  have 1: "subscription_cache (sC example_env)" "peer_route_cache (pC example_env)"
    using subscr_set.subscription_cache_axioms peer_route_set.peer_route_cache_axioms by (simp_all add: example_env_def)
  have 2: "routed_type (eh_hdr ?eh)" "\<not> header_enabled (eh_hdr ?eh) flag_master_only" "\<not> header_enabled (eh_hdr ?eh) flag_p2p"
    "header_enabled (eh_hdr ?eh) flag_job"
    by (simp_all add: routed_type_def has_type_def header_enabled_def flag_test_def example_msg_def blank_header_def)
  have 3: "om_getOtherDispatchers (om example_env) x = [4]" for x by (simp add: example_defs)
  have 4: "map m_ch (allRecordsInJob (mC example_env) (h_run_id (eh_hdr ?eh)) (d2m_table example_net_w)) = [1, 2]"
    by (simp add: allRecordsInJob_def example_env_def example_net_w_def example_msg_def example_model_def)
  have 5: "h_dispatched (eh_hdr ?eh) = 0" by (simp add: example_msg_def blank_header_def)
  show ?thesis
    using job_gets_message [OF example_route.routing_env_axioms 1 2 3 refl, where rh = 1 and data = "Some [1, 2]" and w = example_net_w]
      example_net_targets(2,3) example_all 4 5
    by (simp only: if_True append.simps) fastforce
qed

text \<open>
  Point to point. A message to a peer that has one route goes, once, to the handler of that route (the model when
  it is attached to this node and bound, else the dispatcher of its node) and to nobody else; without such a handler,
  or with no unique route, nobody gets it.
\<close>

lemma peer_gets_message:
  assumes "routing_env E out" and "routed_type (eh_hdr eh)"
    and "\<not> header_enabled (eh_hdr eh) flag_master_only" and "header_enabled (eh_hdr eh) flag_p2p"
    and "om_getPeerRoute (om E) (h_run_id (eh_hdr eh)) (h_dest_peer_id (eh_hdr eh)) (trace_enabled E (eh_hdr eh) w)
      (proute w, outside w) = (sr, c, x)"
    and "ps = (case sr of [r] \<Rightarrow> filter (\<lambda>p. p \<noteq> 0) [route_handler E r (w\<lparr>outside := x\<rparr>)] | _ \<Rightarrow> [])"
    and "\<forall>p \<in> set ps. deliverable E (wire_message E data (hd_encode (hdr E) (mark_dispatched eh))) w p"
  shows "\<exists>eh' w'. PubSubDispatch_process E rh data eh w = Some (0, eh', w') \<and>
    dispatched out (filter (listening w) ps) (wire_message E data (hd_encode (hdr E) (mark_dispatched eh))) w w'"
proof -
  let ?eh = "hd_encode (hdr E) (mark_dispatched eh)" and ?msg = "wire_message E data (hd_encode (hdr E) (mark_dispatched eh))"
  let ?w1 = "w\<lparr>proute := c, outside := x\<rparr>"
  have w1: "dispatched out [] ?msg w ?w1" by (rule dispatched_outside [OF dispatched_refl]) simp_all
  have trace: "dispatched out qs ?msg w (add_trace b rh sh l r v)" if "dispatched out qs ?msg w v" for qs b sh l r v
    by (rule dispatched_outside [OF that]) (simp_all add: add_trace_def)
  have run: "PubSubDispatch_process E rh data eh w = map_option (\<lambda>(eh1, w1). (0, eh1, w1)) (route_to_peer E rh data eh w)"
    using assms(2-4) by (simp add: process_routed process_routing_def Let_def)
  show ?thesis
  proof (cases "\<exists>r. sr = [r] \<and> route_handler E r ?w1 \<noteq> 0")
    case True
    then obtain r where r: "sr = [r]" "route_handler E r ?w1 \<noteq> 0" by blast
    have same: "route_handler E r (w\<lparr>outside := x\<rparr>) = route_handler E r ?w1" by (simp add: route_handler_def Let_def)
    have "all_deliverable E ?msg w [route_handler E r ?w1]" using assms(6,7) r same by (simp add: all_deliverable_def)
    then have "all_deliverable E ?msg ?w1 [route_handler E r ?w1]" by simp
    from routing_env.send_to_dispatches [OF assms(1) this]
    obtain w2 where w2: "send_to E (route_handler E r ?w1) data ?eh ?w1 = Some (?eh, w2)"
      "dispatched out (filter (listening ?w1) [route_handler E r ?w1]) ?msg ?w1 w2" by blast
    have "ps = [route_handler E r ?w1]" using assms(6) r same by simp
    with w2(2) have "dispatched out (filter (listening w) ps) ?msg ?w1 w2" by (simp only: deliverable_fields)
    then have "dispatched out (filter (listening w) ps) ?msg w w2" using dispatched_trans [OF w1] by fastforce
    with r w2(1) assms(5) trace run show ?thesis by (auto simp: route_to_peer_def Let_def)
  next
    case False
    then have "ps = []" using assms(6) by (auto simp: route_handler_def Let_def split: list.split if_splits)
    with False assms(5) w1 trace [OF w1] run show ?thesis by (auto simp: route_to_peer_def Let_def split: list.splits)
  qed
qed

lemma peer_gets_message_witness:
  "\<exists>eh' w'. PubSubDispatch_process example_env 1 (Some [1, 2])
      (example_msg\<lparr>eh_hdr := (eh_hdr example_msg)\<lparr>h_flags := flag_mask flag_p2p, h_dest_peer_id := 8\<rparr>\<rparr>) example_net_w = Some (0, eh', w') \<and>
    dispatched snd (filter (listening example_net_w) [2]) (wire_message example_env (Some [1, 2]) (hd_encode (hdr example_env) (mark_dispatched
      (example_msg\<lparr>eh_hdr := (eh_hdr example_msg)\<lparr>h_flags := flag_mask flag_p2p, h_dest_peer_id := 8\<rparr>\<rparr>)))) example_net_w w'"
  by (rule peer_gets_message [OF example_route.routing_env_axioms, where sr = "[\<lparr>pr_peer_id = 8, pr_node_id = 3\<rparr>]"])
    (use example_net_targets(3) in \<open>auto simp: routed_type_def has_type_def header_enabled_def flag_test_def example_msg_def
      blank_header_def example_defs route_handler_def getCHfromModelID_def example_net_w_def\<close>)

text \<open>
  A message for the master of a job goes, once, to the handler of the master's route and to nobody else.
\<close>

lemma master_gets_message:
  assumes "routing_env E out" and "routed_type (eh_hdr eh)" and "header_enabled (eh_hdr eh) flag_master_only"
    and "om_getJobMaster (om E) (h_run_id (eh_hdr eh)) (outside w) = (1, m # ms)"
    and "ps = filter (\<lambda>p. p \<noteq> 0) [route_handler E m w]"
    and "\<forall>p \<in> set ps. deliverable E (wire_message E data (hd_encode (hdr E) (mark_dispatched eh))) w p"
  shows "\<exists>eh' w'. PubSubDispatch_process E rh data eh w = Some (0, eh', w') \<and>
    dispatched out (filter (listening w) ps) (wire_message E data (hd_encode (hdr E) (mark_dispatched eh))) w w'"
proof -
  have run: "PubSubDispatch_process E rh data eh w = map_option (\<lambda>(eh1, w1). (0, eh1, w1)) (route_to_master E rh data eh w)"
    using assms(2,3) by (simp add: process_routed process_routing_def Let_def)
  show ?thesis
  proof (cases "route_handler E m w = 0")
    case True
    with assms(4,5) run show ?thesis by (auto simp: route_to_master_def Let_def dispatched_refl)
  next
    case False
    then have ps: "ps = [route_handler E m w]" using assms(5) by simp
    with assms(6) have "all_deliverable E (wire_message E data (hd_encode (hdr E) (mark_dispatched eh))) w [route_handler E m w]"
      by (simp add: all_deliverable_def)
    from routing_env.send_to_dispatches [OF assms(1) this] False assms(4) run
    show ?thesis unfolding ps by (auto simp: route_to_master_def Let_def)
  qed
qed

lemma master_gets_message_witness:
  "\<exists>eh' w'. PubSubDispatch_process example_env 2 (Some [1, 2])
      (example_msg\<lparr>eh_hdr := (eh_hdr example_msg)\<lparr>h_flags := flag_mask flag_master_only\<rparr>\<rparr>) example_net_w = Some (0, eh', w') \<and>
    dispatched snd (filter (listening example_net_w) [1]) (wire_message example_env (Some [1, 2]) (hd_encode (hdr example_env) (mark_dispatched
      (example_msg\<lparr>eh_hdr := (eh_hdr example_msg)\<lparr>h_flags := flag_mask flag_master_only\<rparr>\<rparr>)))) example_net_w w'"
  by (rule master_gets_message [OF example_route.routing_env_axioms, where m = "\<lparr>pr_peer_id = 7, pr_node_id = 3\<rparr>" and ms = "[]"])
    (use example_net_targets(3) in \<open>auto simp: routed_type_def has_type_def header_enabled_def flag_test_def example_msg_def
      blank_header_def example_defs route_handler_def getCHfromModelID_def example_net_w_def\<close>)

text \<open>
  C27. A hello from a model makes it reachable: when the object manager knows the sender as a model and no bound model
  shares its connection, model or process id, the model is routed to the connection the hello came on, and
  every other model where it was.
\<close>

theorem hello_binds_model:
  assumes "model_table (mC E)" and "m_ok (d2m_table w)" and "the_ch rh w = Some h" and "has_type (eh_hdr eh) HELLO"
    and "om_getModelDetails (om E) (h_peer_id (eh_hdr eh)) (outside w) = Some d"
    and "\<forall>r \<in> set (m_map (d2m_table w)). m_chid r \<noteq> ch_handle h \<and> m_mid r \<noteq> h_peer_id (eh_hdr eh) \<and> m_pid r \<noteq> md_pid d \<and> m_ch r \<noteq> rh"
  shows "\<exists>w'. PubSubDispatch_process E rh data eh w = Some (0, eh, w') \<and>
    (\<forall>i. getCHfromModelID (mC E) i (d2m_table w') =
      (if i = h_peer_id (eh_hdr eh) then rh else getCHfromModelID (mC E) i (d2m_table w)))"
proof -
  let ?e = "\<lparr>m_chid = ch_handle h, m_jid = md_jid d, m_mid = h_peer_id (eh_hdr eh), m_nodeid = md_nodeid d,
    m_unitid = md_unitid d, m_statsid = md_statsid d, m_pid = md_pid d, m_mid_name = md_name d, m_ch = rh\<rparr>"
  have "snd (ModelIdentity_bind (mC E) ?e (d2m_table w))"
    using assms(6) by (auto simp: bind_fst_snd multi_index.insert_flag [OF model_table.axioms [OF assms(1)]] ModelIdentitySet_clash_def)
  from model_table.m_lookup_bind [OF assms(1,2) this] assms(3-5) show ?thesis
    by (simp add: PubSubDispatch_process_def process_hello_event_def Let_def)
qed

theorem hello_binds_model_witness:
  "\<exists>w'. PubSubDispatch_process example_env 1 None
      \<lparr>eh_raw = [], eh_hdr = blank_header\<lparr>h_type := type_code HELLO, h_peer_id := 8\<rparr>\<rparr>
      (example_w\<lparr>d2m_table := ModelIdentity_new\<rparr>) = Some (0, \<lparr>eh_raw = [], eh_hdr = blank_header\<lparr>h_type := type_code HELLO, h_peer_id := 8\<rparr>\<rparr>, w') \<and>
    getCHfromModelID m_list 8 (d2m_table w') = 1"
proof -
  let ?eh = "\<lparr>eh_raw = [], eh_hdr = blank_header\<lparr>h_type := type_code HELLO, h_peer_id := 8\<rparr>\<rparr>"
  let ?w = "example_w\<lparr>d2m_table := ModelIdentity_new\<rparr>"
  have h: "the_ch 1 ?w = Some (example_ch 21)" using example_w_facts(2) by (simp add: the_ch_def)
  have m: "model_table (mC example_env)" using d2m.model_table_axioms by (simp add: example_env_def)
  obtain d where "om_getModelDetails (om example_env) (h_peer_id (eh_hdr ?eh)) (outside ?w) = Some d"
    by (simp add: example_defs)
  from hello_binds_model [OF m _ h _ this, where data = None] show ?thesis
    by (auto simp: has_type_def ModelIdentity_new_def example_env_def)
qed

text \<open>
  With routing debug output on, the hello of another dispatcher is logged and then forgotten: the function returns
  before the dispatcher table is filled, and the dispatcher stays unreachable.
\<close>

lemma hello_of_dispatcher_lost_when_debugging:
  assumes "debug_route E (outside w)" and "the_ch rh w = Some h" and "has_type (eh_hdr eh) HELLO"
    and "om_getModelDetails (om E) (h_peer_id (eh_hdr eh)) (outside w) = None"
    and "om_isDispatcher (om E) (h_peer_id (eh_hdr eh)) (outside w) = Some node"
  shows "PubSubDispatch_process E rh data eh w = Some (0, eh, w)"
  using assms by (simp add: PubSubDispatch_process_def process_hello_event_def)

lemma hello_of_dispatcher_lost_when_debugging_witness:
  "PubSubDispatch_process (example_env\<lparr>debug_route := (\<lambda>x. True)\<rparr>) 1 None
      \<lparr>eh_raw = [], eh_hdr = blank_header\<lparr>h_type := type_code HELLO, h_peer_id := 40\<rparr>\<rparr> example_w =
    Some (0, \<lparr>eh_raw = [], eh_hdr = blank_header\<lparr>h_type := type_code HELLO, h_peer_id := 40\<rparr>\<rparr>, example_w)"
  by (rule hello_of_dispatcher_lost_when_debugging [OF _ example_w_facts(2)])
    (simp_all add: has_type_def example_defs)

end
