(* ===== verification/EventChannel.thy ===== *)
theory EventChannel
  imports PubSubDispatch
begin

text \<open>
  \<open>EventChannel::process\<close>, which hands a received message to the command parser, the echo channel or the
  publish/subscribe dispatch; \<open>ReceiveHandler::handle_input\<close>, which receives and processes; and the upcalls
  of the reactor put together. The XML parser and the command parser are arguments (\<open>xml\<close> and \<open>cmd\<close>).
\<close>

type_synonym ('x, 'k, 't) xml_parser =
  "chptr \<Rightarrow> bytes option \<Rightarrow> ('x, 'k, 't) dispatcher \<Rightarrow> (int \<times> ('x, 'k, 't) dispatcher) option"

section \<open>process\<close>

definition disconnect_text :: bytes where
  "disconnect_text = map byte_of ''disconnect''"

text \<open>
  \<open>strncmp\<close> on the ten bytes of the text; it reads behind a shorter block only when the block agrees with the
  beginning of the text.
\<close>

definition echo_disconnect :: "bytes \<Rightarrow> bool option" where
  "echo_disconnect d =
     (if length d < 10 \<and> take (length d) disconnect_text = d then None
      else Some (take 10 d = disconnect_text))"

definition process_echo ::
  "('x, 'k, 't) env \<Rightarrow> chptr \<Rightarrow> bytes option \<Rightarrow> EventHeaderObj \<Rightarrow> ('x, 'k, 't) dispatcher
     \<Rightarrow> (int \<times> ('x, 'k, 't) dispatcher) option" where
  "process_echo E rh event eh w = do {
     d \<leftarrow> event;
     bye \<leftarrow> echo_disconnect d;
     if bye then do {
       h \<leftarrow> the_ch rh w;
       Some (-1, set_ch rh (h\<lparr>ch_commanded_close := True\<rparr>) w)
     } else do {
       r \<leftarrow> the_rec (ct_find (h_connection_id (eh_hdr eh)) w) w;
       (_, w1) \<leftarrow> send_to_all E (filter (\<lambda>p. p \<noteq> rh) (r_ch_set r)) event eh w;
       Some (0, w1)
     }
   }"

definition EventChannel_process ::
  "('x, 'k, 't) env \<Rightarrow> ('x, 'k, 't) xml_parser \<Rightarrow> ('x, 'k, 't) xml_parser \<Rightarrow> chptr \<Rightarrow> bytes option \<Rightarrow> EventHeaderObj
     \<Rightarrow> ('x, 'k, 't) dispatcher \<Rightarrow> (int \<times> ('x, 'k, 't) dispatcher) option" where
  "EventChannel_process E xml cmd rh event eh0 w = do {
     h \<leftarrow> the_ch rh w;
     r \<leftarrow> the_rec (ch_entity h) w;
     let eh = (if h_connection_id (eh_hdr eh0) = 0
               then eh0\<lparr>eh_hdr := (eh_hdr eh0)\<lparr>h_connection_id := ch_connection_id h\<rparr>\<rparr> else eh0);
     if command_role r \<or> has_type (eh_hdr eh) DISPATCHER_COMMAND then
       (if has_type (eh_hdr eh) XML_COMMAND then xml rh event w else cmd rh event w)
     else if r_proxy_role r = CHR ''E'' then process_echo E rh event eh w
     else if hd_header_type (hdr E) eh = hd_samson (hdr E) then
       map_option (\<lambda>(i, eh1, w1). (i, w1)) (PubSubDispatch_process E rh event eh w)
     else Some (0, w)
   }"

section \<open>ReceiveHandler::handle\_input\<close>

definition total_bytes_recv ::
  "('x, 'k, 't) env \<Rightarrow> nat \<Rightarrow> chptr \<Rightarrow> ('x, 'k, 't) dispatcher \<Rightarrow> ('x, 'k, 't) dispatcher option" where
  "total_bytes_recv E n p w = do {
     h \<leftarrow> the_ch p w;
     let (fc, s) = RouteByteStats_sample (n_usec_diff (net E)) (now w) n (first_call w, ch_recv_stats h);
     Some ((set_ch p (h\<lparr>ch_recv_stats := s\<rparr>) w)\<lparr>first_call := fc\<rparr>)
   }"

definition recv_action ::
  "('x, 'k, 't) env \<Rightarrow> ('k, 't) ConnectionHandler \<Rightarrow> ConnectionRecord \<Rightarrow> 'k rx_result option" where
  "recv_action E h r =
     (if ch_header_type_id h = hd_noheader (hdr E)
      then recv_noheader (n_rx (net E)) (ch_header_type_id h) (ch_connection_id h) (ch_handle h) (r_read_buff r)
             NO_ERROR (ch_rx h) (ch_sock h)
      else recv_header (n_rx (net E)) (ch_header_type_id h) (ch_connection_id h) (ch_handle h) NO_ERROR (ch_rx h) (ch_sock h))"

definition process_received ::
  "('x, 'k, 't) env \<Rightarrow> ('x, 'k, 't) xml_parser \<Rightarrow> ('x, 'k, 't) xml_parser \<Rightarrow> chptr \<Rightarrow> nat \<Rightarrow> bytes option \<Rightarrow> EventHeaderObj
     \<Rightarrow> ('x, 'k, 't) dispatcher \<Rightarrow> (int \<times> ('x, 'k, 't) dispatcher) option" where
  "process_received E xml cmd p n event eh w = do {
     w1 \<leftarrow> total_bytes_recv E n p w;
     h1 \<leftarrow> the_ch p w1;
     let (event1, eh1, w2) =
       (if ch_input_filter h1 \<noteq> 0 then
          (let (d, e, x) = hd_filter_process (hdr E) (ch_input_filter h1) event eh (outside w1)
           in (d, e, w1\<lparr>outside := x\<rparr>))
        else (event, eh, w1));
     (presult, w3) \<leftarrow> EventChannel_process E xml cmd p event1 eh1 w2;
     h3 \<leftarrow> the_ch p w3;
     let h4 = h3\<lparr>ch_process_time := RouteTimeStats_sample (n_elapsed (net E) (outside w3)) (ch_process_time h3)\<rparr>;
     if presult \<noteq> 0 then Some (-1, set_ch p (h4\<lparr>ch_state := FAILED\<rparr>) w3) else Some (0, set_ch p h4 w3)
   }"

definition ReceiveHandler_handle_input ::
  "('x, 'k, 't) env \<Rightarrow> ('x, 'k, 't) xml_parser \<Rightarrow> ('x, 'k, 't) xml_parser \<Rightarrow> chptr \<Rightarrow> ('x, 'k, 't) dispatcher
     \<Rightarrow> (int \<times> ('x, 'k, 't) dispatcher) option" where
  "ReceiveHandler_handle_input E xml cmd p w = do {
     h \<leftarrow> the_ch p w;
     r \<leftarrow> the_rec (ch_entity h) w;
     res \<leftarrow> recv_action E h r;
     let h1 = h\<lparr>ch_rx := rx_next res, ch_sock := rx_sock res\<rparr>;
     let w1 = set_ch p h1 w;
     if rx_ret res > 0 then
       (case rx_header res of
          Some eh \<Rightarrow> process_received E xml cmd p (nat (rx_ret res)) (rx_event res) eh w1
        | None \<Rightarrow> do { w2 \<leftarrow> status_connections w1; Some (0, w2) })
     else if rx_ret res = 0 then Some (-1, set_ch p (h1\<lparr>ch_state := FAILED\<rparr>) w)
     else if rx_errno res = EWOULDBLOCK then Some (0, w1)
     else Some (-1, set_ch p (h1\<lparr>ch_state := FAILED\<rparr>) w)
   }"

section \<open>EventChannel as a whole\<close>

datatype channel_role = Master | Node

definition EventChannel_initialize ::
  "('x, 'k, 't) env \<Rightarrow> ('x, 'k, 't) dispatcher \<Rightarrow> channel_role \<times> ('x, 'k, 't) dispatcher" where
  "EventChannel_initialize E w =
     (if om_isMasterDispatcher (om E) (outside w) then Master else Node,
      w\<lparr>filters := snd (ChannelFilterMgr_initialize (filters w)), ctable_state := Empty\<rparr>)"

definition EventChannel_open ::
  "('x, 'k, 't) env \<Rightarrow> ('x, 'k, 't) dispatcher \<Rightarrow> (int \<times> ('x, 'k, 't) dispatcher) option" where
  "EventChannel_open E w = do {
     (a, w1) \<leftarrow> initiate_command_acceptor E w;
     (b, w2) \<leftarrow> initiate_connections E w1;
     Some (if a \<noteq> 0 \<or> b \<noteq> 0 then -1 else 0, w2)
   }"

text \<open>\<open>reinitiate_connection(cid)\<close>: the one handler of an active record is closed, which reconnects it.\<close>

definition reinitiate_by_id ::
  "('x, 'k, 't) env \<Rightarrow> int \<Rightarrow> ('x, 'k, 't) dispatcher \<Rightarrow> (int \<times> ('x, 'k, 't) dispatcher) option" where
  "reinitiate_by_id E cid w =
     (let rp = ct_find cid w in
      if rp = 0 then Some (-1, w)
      else do {
        r \<leftarrow> the_rec rp w;
        case r_ch_set r of
          [p] \<Rightarrow> do {
            h \<leftarrow> the_ch p w;
            handle_close E p (set_ch p (timeout_set (r_max_retry_timeout r) 1 h) w)
          }
        | _ \<Rightarrow> Some (-1, w)
      })"

text \<open>
  \<open>destroy\<close>: the identity tables are closed, which clears them, then the connection table and the filters.
\<close>

definition EventChannel_destroy ::
  "('x, 'k, 't) env \<Rightarrow> ('x, 'k, 't) dispatcher \<Rightarrow> ('x, 'k, 't) dispatcher option" where
  "EventChannel_destroy E w = do {
     let w1 = w\<lparr>d2m_table := ModelIdentity_destroy (d2m_table w), d2d_table := DispatcherIdentity_destroy (d2d_table w),
                d2c_table := CommandIdentity_destroy (d2c_table w), proute := PeerRouteCache_destroy (proute w)\<rparr>;
     w2 \<leftarrow> ConnectionTable_destroy E w1;
     (f, x) \<leftarrow> ChannelFilterMgr_destroy (svc E) (filters w2, outside w2);
     Some (w2\<lparr>filters := f, outside := x, id_trace := []\<rparr>)
   }"

section \<open>The reactor\<close>

text \<open>
  The upcalls. After a result of \<open>-1\<close> the reactor removes the handler and calls its \<open>handle_close\<close>.
\<close>

datatype 'k reactor_event = Input chptr | Output chptr | Timeout chptr | Accept recptr int 'k

definition after_upcall ::
  "('x, 'k, 't) env \<Rightarrow> chptr \<Rightarrow> int \<times> ('x, 'k, 't) dispatcher \<Rightarrow> ('x, 'k, 't) dispatcher option" where
  "after_upcall E p r = (case r of (i, w) \<Rightarrow> if i = -1 then map_option snd (handle_close E p w) else Some w)"

fun reactor_step ::
  "('x, 'k, 't) env \<Rightarrow> ('x, 'k, 't) xml_parser \<Rightarrow> ('x, 'k, 't) xml_parser \<Rightarrow> 'k reactor_event \<Rightarrow> ('x, 'k, 't) dispatcher
     \<Rightarrow> ('x, 'k, 't) dispatcher option" where
  "reactor_step E xml cmd (Input p) w = do {
     h \<leftarrow> the_ch p w;
     r \<leftarrow> (if ch_class h = TransmitHandler then ConnectionHandler_handle_input E p w
           else ReceiveHandler_handle_input E xml cmd p w);
     after_upcall E p r
   }"
| "reactor_step E xml cmd (Output p) w = Option.bind (handle_output E p w) (after_upcall E p)"
| "reactor_step E xml cmd (Timeout p) w = Option.bind (handle_timeout E p w) (after_upcall E p)"
| "reactor_step E xml cmd (Accept rp i k) w = accept_connection E rp i k w"

end
