(* ===== verification/TableSafety.thy ===== *)
theory TableSafety
  imports EventChannel
begin

text \<open>
  The identity tables hold addresses of handlers that other code deletes. This theory shows that no upcall of
  the reactor leaves a dangling address behind: \<open>heap_ok\<close> (the tables are \<open>linked\<close> to live handlers, and the
  next address to allocate is free) is preserved by every operation of the dispatcher, bottom up, except for the
  reconnection of a handler that is bound in a table.
\<close>

definition heap_ok :: "('x, 'k, 't) dispatcher \<Rightarrow> bool" where
  "heap_ok w \<longleftrightarrow> linked w \<and> (\<forall>p \<ge> next_ch w. the_ch p w = None) \<and> (\<forall>q \<ge> next_rec w. the_rec q w = None)"

text \<open>No table mentions the handler.\<close>

definition unbound :: "chptr \<Rightarrow> ('x, 'k, 't) dispatcher \<Rightarrow> bool" where
  "unbound p w \<longleftrightarrow> (\<forall>r \<in> set (m_map (d2m_table w)). m_ch r \<noteq> p) \<and> (\<forall>r \<in> set (d_map (d2d_table w)). d_ch r \<noteq> p) \<and>
     (\<forall>r \<in> set (c_map (d2c_table w)). c_ch r \<noteq> p)"

section \<open>The heap\<close>

named_theorems heap_keeps

lemma heap_ok_fields [simp]:
  "heap_ok (w\<lparr>outside := x\<rparr>) = heap_ok w" "heap_ok (w\<lparr>first_call := b\<rparr>) = heap_ok w"
  "heap_ok (w\<lparr>ctable := t\<rparr>) = heap_ok w" "heap_ok (w\<lparr>ctable_state := s\<rparr>) = heap_ok w"
  "heap_ok (w\<lparr>FreeKey := k\<rparr>) = heap_ok w" "heap_ok (w\<lparr>filters := f\<rparr>) = heap_ok w"
  "heap_ok (w\<lparr>subscr := c\<rparr>) = heap_ok w" "heap_ok (w\<lparr>proute := d\<rparr>) = heap_ok w"
  "heap_ok (w\<lparr>msg_trace := m\<rparr>) = heap_ok w"
  by (simp_all add: heap_ok_def linked_def owns_def the_ch_def the_rec_def)

lemma heap_fields [simp]:
  "the_ch p (w\<lparr>outside := x\<rparr>) = the_ch p w" "the_rec q (w\<lparr>outside := x\<rparr>) = the_rec q w"
  "the_ch p (w\<lparr>first_call := b\<rparr>) = the_ch p w" "the_rec q (w\<lparr>first_call := b\<rparr>) = the_rec q w"
  "the_ch p (w\<lparr>filters := f\<rparr>) = the_ch p w" "the_rec q (w\<lparr>filters := f\<rparr>) = the_rec q w"
  "the_ch p (w\<lparr>next_ch := n\<rparr>) = the_ch p w" "the_rec q (w\<lparr>next_ch := n\<rparr>) = the_rec q w"
  "the_ch p (w\<lparr>next_rec := n\<rparr>) = the_ch p w" "the_rec q (w\<lparr>next_rec := n\<rparr>) = the_rec q w"
  "the_ch p (w\<lparr>ctable := t\<rparr>) = the_ch p w" "the_rec q (w\<lparr>ctable := t\<rparr>) = the_rec q w"
  "the_rec q (w\<lparr>ctable_state := s\<rparr>) = the_rec q w" "the_rec q (w\<lparr>FreeKey := k\<rparr>) = the_rec q w"
  "unbound p (w\<lparr>outside := x\<rparr>) = unbound p w" "unbound p (set_ch q h w) = unbound p w"
  "unbound p (set_rec rp r w) = unbound p w" "unbound p (w\<lparr>next_ch := n\<rparr>) = unbound p w"
  by (simp_all add: the_ch_def the_rec_def unbound_def set_ch_def set_rec_def)

lemma heap_tables [simp]:
  "d2m_table (set_ch p h w) = d2m_table w" "d2d_table (set_ch p h w) = d2d_table w"
  "d2c_table (set_ch p h w) = d2c_table w" "d2m_table (set_rec q r w) = d2m_table w"
  "d2d_table (set_rec q r w) = d2d_table w" "d2c_table (set_rec q r w) = d2c_table w"
  "next_ch (set_ch p h w) = next_ch w" "next_rec (set_ch p h w) = next_rec w"
  "next_ch (set_rec q r w) = next_ch w" "next_rec (set_rec q r w) = next_rec w"
  by (simp_all add: set_ch_def set_rec_def)

lemma heap_ok_set_ch:
  assumes "heap_ok w" and "the_ch p w = Some h" and "ch_handle h' = ch_handle h" and "ch_entity h' = ch_entity h"
  shows "heap_ok (set_ch p h' w)"
proof -
  have "owns (set_ch p h' w) cmd q i" if "owns w cmd q i" for cmd q i
    using that assms by (auto simp: owns_def)
  with assms show ?thesis by (auto simp: heap_ok_def linked_def)
qed

lemma heap_ok_update [simp]:
  "heap_ok w \<Longrightarrow> the_ch p w \<noteq> None \<Longrightarrow> ch_handle h' = ch_handle (the (the_ch p w)) \<Longrightarrow>
    ch_entity h' = ch_entity (the (the_ch p w)) \<Longrightarrow> heap_ok (set_ch p h' w)"
  using heap_ok_set_ch by auto

lemma heap_ok_set_unbound:
  assumes "heap_ok w" and "unbound p w" and "p < next_ch w"
  shows "heap_ok (set_ch p h w)"
proof -
  have "owns (set_ch p h w) cmd q i" if "owns w cmd q i" and "q \<noteq> p" for cmd q i
    using that by (auto simp: owns_def)
  with assms show ?thesis by (auto simp: heap_ok_def linked_def unbound_def)
qed

lemma heap_ok_set_rec:
  assumes "heap_ok w" and "the_rec q w = Some r" and "r_proxy_role r' = r_proxy_role r"
  shows "heap_ok (set_rec q r' w)"
proof -
  have "owns (set_rec q r' w) cmd p i" if "owns w cmd p i" for cmd p i
    using that assms by (auto simp: owns_def command_role_def)
  with assms show ?thesis by (auto simp: heap_ok_def linked_def)
qed

lemma heap_ok_update_rec [simp]:
  "heap_ok w \<Longrightarrow> the_rec q w \<noteq> None \<Longrightarrow> r_proxy_role r' = r_proxy_role (the (the_rec q w)) \<Longrightarrow> heap_ok (set_rec q r' w)"
  using heap_ok_set_rec by auto

lemma free_unbound: "heap_ok w \<Longrightarrow> the_ch p w = None \<Longrightarrow> unbound p w"
  by (auto simp: heap_ok_def linked_def unbound_def owns_def)

lemma live_below: "heap_ok w \<Longrightarrow> the_ch p w = Some h \<Longrightarrow> p < next_ch w"
  by (metis heap_ok_def leI option.distinct(1))

section \<open>Results that satisfy a predicate\<close>

text \<open>\<open>ends I m\<close>: if \<open>m\<close> is defined its result satisfies \<open>I\<close>. The rules follow the shape of the operations.\<close>

definition ends :: "('a \<Rightarrow> bool) \<Rightarrow> 'a option \<Rightarrow> bool" where
  "ends I m \<longleftrightarrow> (\<forall>r. m = Some r \<longrightarrow> I r)"

lemma ends_simps [simp]: "ends I None" "ends I (Some r) = I r" "ends I (map_option f m) = ends (\<lambda>r. I (f r)) m"
  by (auto simp: ends_def)

lemma ends_bind: "ends J m \<Longrightarrow> (\<And>r. J r \<Longrightarrow> ends I (f r)) \<Longrightarrow> ends I (Option.bind m f)"
  by (cases m) (auto simp: ends_def)

lemma ends_mono: "ends J m \<Longrightarrow> (\<And>r. J r \<Longrightarrow> I r) \<Longrightarrow> ends I m"
  by (auto simp: ends_def)

lemma ends_get: "(\<And>r. m = Some r \<Longrightarrow> ends I (f r)) \<Longrightarrow> ends I (Option.bind m f)"
  by (cases m) auto

lemmas ends_ch [intro!] = ends_get [where m = "the_ch p w" for p w]
lemmas ends_rec [intro!] = ends_get [where m = "the_rec p w" for p w]
lemmas ends_recv [intro!] = ends_get [where m = "recv_action E h r" for E h r]

lemma ends_if [intro!]: "(c \<Longrightarrow> ends I a) \<Longrightarrow> (\<not> c \<Longrightarrow> ends I b) \<Longrightarrow> ends I (if c then a else b)"
  by simp

lemma ends_prod [intro!]: "(\<And>a b. x = (a, b) \<Longrightarrow> ends I (f a b)) \<Longrightarrow> ends I (case x of (a, b) \<Rightarrow> f a b)"
  by (cases x) simp

lemma ends_option [intro!]:
  "(x = None \<Longrightarrow> ends I a) \<Longrightarrow> (\<And>y. x = Some y \<Longrightarrow> ends I (b y)) \<Longrightarrow> ends I (case x of None \<Rightarrow> a | Some y \<Rightarrow> b y)"
  by (cases x) simp_all

lemma ends_list [intro!]:
  "(x = [] \<Longrightarrow> ends I a) \<Longrightarrow> (\<And>y ys. x = y # ys \<Longrightarrow> ends I (b y ys)) \<Longrightarrow> ends I (case x of [] \<Rightarrow> a | y # ys \<Rightarrow> b y ys)"
  by (cases x) simp_all

text \<open>Sequencing where the invariant holds in between, for the shapes of results there are.\<close>

abbreviation keeps1 :: "('x, 'k, 't) dispatcher option \<Rightarrow> bool" where
  "keeps1 m \<equiv> ends heap_ok m"

abbreviation keeps2 :: "('a \<times> ('x, 'k, 't) dispatcher) option \<Rightarrow> bool" where
  "keeps2 m \<equiv> ends (\<lambda>r. heap_ok (snd r)) m"

abbreviation keeps3 :: "('a \<times> 'b \<times> ('x, 'k, 't) dispatcher) option \<Rightarrow> bool" where
  "keeps3 m \<equiv> ends (\<lambda>r. heap_ok (snd (snd r))) m"

abbreviation keeps4 :: "('a \<times> 'b \<times> 'c \<times> ('x, 'k, 't) dispatcher) option \<Rightarrow> bool" where
  "keeps4 m \<equiv> ends (\<lambda>r. heap_ok (snd (snd (snd r)))) m"

lemma ends_seq [intro!]:
  "keeps1 m1 \<Longrightarrow> (\<And>w. heap_ok w \<Longrightarrow> ends I (f1 w)) \<Longrightarrow> ends I (Option.bind m1 f1)"
  "keeps2 m2 \<Longrightarrow> (\<And>a w. heap_ok w \<Longrightarrow> ends I (f2 (a, w))) \<Longrightarrow> ends I (Option.bind m2 f2)"
  "keeps3 m3 \<Longrightarrow> (\<And>a b w. heap_ok w \<Longrightarrow> ends I (f3 (a, b, w))) \<Longrightarrow> ends I (Option.bind m3 f3)"
  "keeps4 m4 \<Longrightarrow> (\<And>a b c w. heap_ok w \<Longrightarrow> ends I (f4 (a, b, c, w))) \<Longrightarrow> ends I (Option.bind m4 f4)"
  by (auto simp: ends_def Option.bind_eq_Some_conv)

text \<open>What the theorems ask of the command parser and the XML parser.\<close>

definition parser_keeps :: "('x, 'k, 't) xml_parser \<Rightarrow> bool" where
  "parser_keeps f \<longleftrightarrow> (\<forall>p d w. heap_ok w \<longrightarrow> keeps2 (f p d w))"

section \<open>Closing, sending\<close>

context dispatcher_env
begin

lemma destroy_next:
  "ends (\<lambda>w'. next_ch w' = next_ch w \<and> next_rec w' = next_rec w) (ConnectionHandler_destroy E p w)"
  by (simp add: ConnectionHandler_destroy_def) (auto simp: leave_tables_def unload_filter_def Let_def split: option.split prod.split)

lemma destroy_heap [heap_keeps]:
  assumes "heap_ok w"
  shows "keeps1 (ConnectionHandler_destroy E p w)"
  unfolding ends_def
proof (intro allI impI)
  fix w' assume w': "ConnectionHandler_destroy E p w = Some w'"
  obtain h where h: "the_ch p w = Some h" using w' by (auto simp: ConnectionHandler_destroy_def Option.bind_eq_Some_conv)
  obtain r where r: "the_rec (ch_entity h) w = Some r"
    using w' h by (cases "ch_timer_id h > 0") (auto simp: ConnectionHandler_destroy_def Option.bind_eq_Some_conv)
  have "linked w'" using destroy_linked(1) [OF _ h r w'] assms by (simp add: heap_ok_def)
  moreover have "handlers w' = (handlers w)(p := None)"
    "records w' = (records w)(ch_entity h \<mapsto> r\<lparr>r_ch_set := sset_erase p (r_ch_set r)\<rparr>)"
    using destroy_spec [OF h r] w' by auto
  ultimately show "heap_ok w'"
    using assms r destroy_next [of w p] w' by (auto simp: heap_ok_def the_ch_def the_rec_def)
qed

lemma set_state_heap [heap_keeps]: "heap_ok w \<Longrightarrow> keeps1 (set_state s p w)"
  by (auto simp: set_state_def)

lemma cancel_heap [heap_keeps]: "heap_ok w \<Longrightarrow> keeps2 (cancel_connection E p w)"
  by (auto simp: cancel_connection_def)

lemma schedule_heap [heap_keeps]: "heap_ok w \<Longrightarrow> keeps2 (schedule_reconnect E p w)"
  by (auto simp: schedule_reconnect_def timeout_next_def Let_def)

lemma reinitiate_heap [heap_keeps]: "heap_ok w \<Longrightarrow> keeps2 (reinitiate_connection E p w)"
  by (auto simp: reinitiate_connection_def heap_keeps)

lemma close_heap [heap_keeps]: "heap_ok w \<Longrightarrow> keeps2 (handle_close E p w)"
  by (auto simp: handle_close_def Let_def heap_keeps)

lemma total_send_heap [heap_keeps]: "heap_ok w \<Longrightarrow> keeps1 (total_bytes_send E n p w)"
  by (auto simp: total_bytes_send_def)

lemma requeue_same: "requeue E ev rest h = (q, h') \<Longrightarrow> ch_handle h' = ch_handle h \<and> ch_entity h' = ch_entity h"
  by (auto simp: requeue_def split: if_splits)

lemma nonblk_put_heap [heap_keeps]: "heap_ok w \<Longrightarrow> keeps4 (nonblk_put E p ev w)"
  by (auto simp: nonblk_put_def Let_def heap_keeps dest!: requeue_same)

lemma put_block_heap [heap_keeps]: "heap_ok w \<Longrightarrow> keeps4 (put_block E p chain w)"
  by (auto simp: put_block_def Let_def heap_keeps)

lemma put_heap [heap_keeps]: "heap_ok w \<Longrightarrow> keeps3 (put E p ev eh w)"
  by (auto simp: put_def Let_def heap_keeps)

lemma output_heap [heap_keeps]: "heap_ok w \<Longrightarrow> keeps2 (handle_output E p w)"
  by (auto simp: handle_output_def heap_keeps split: if_splits)

lemma cmd_status_heap [heap_keeps]: "heap_ok w \<Longrightarrow> keeps1 (cmd_status E h d w)"
  by (auto simp: cmd_status_def Let_def heap_keeps)

section \<open>Connecting\<close>

lemma send_ctrl_heap [heap_keeps]: "heap_ok w \<Longrightarrow> keeps2 (send_ctrl_event E p t m w)"
  by (auto simp: send_ctrl_event_def Let_def heap_keeps)

lemma send_hello_heap [heap_keeps]: "heap_ok w \<Longrightarrow> keeps2 (send_hello E p w)"
  by (simp add: send_hello_def heap_keeps)

lemma load_filter_heap [simp]:
  "heap_ok (snd (load_filter E d f w)) = heap_ok w"
  "the_ch p (snd (load_filter E d f w)) = the_ch p w" "the_rec q (snd (load_filter E d f w)) = the_rec q w"
  by (auto simp: load_filter_def split: prod.split)

lemma bind_heap:
  assumes "heap_ok w"
  shows "t = d2c_table w \<Longrightarrow> owns w True (c_ch c) (c_chid c) \<Longrightarrow> heap_ok (w\<lparr>d2c_table := fst (CommandIdentity_bind (cC E) c t)\<rparr>)"
    and "u = d2m_table w \<Longrightarrow> owns w False (m_ch m) (m_chid m) \<Longrightarrow> heap_ok (w\<lparr>d2m_table := fst (ModelIdentity_bind (mC E) m u)\<rparr>)"
    and "v = d2d_table w \<Longrightarrow> owns w False (d_ch d) (d_chid d) \<Longrightarrow> heap_ok (w\<lparr>d2d_table := fst (DispatcherIdentity_bind (dC E) d v)\<rparr>)"
  using assms multi_index.set_insert [OF command_table.axioms [OF c_contract], of c "c_map (d2c_table w)"]
    multi_index.set_insert [OF model_table.axioms [OF m_contract], of m "m_map (d2m_table w)"]
    multi_index.set_insert [OF dispatcher_table.axioms [OF d_contract], of d "d_map (d2d_table w)"]
  by (auto simp: heap_ok_def linked_def owns_def the_ch_def the_rec_def bind_fst_snd split: if_splits)

lemma complete_heap [heap_keeps]: "heap_ok w \<Longrightarrow> keeps2 (complete_connection E p w)"
  by (auto simp: complete_connection_def Let_def case_prod_beta heap_keeps owns_def split: if_splits intro!: bind_heap)

lemma timeout_set_same [simp]:
  "ch_handle (timeout_set l t h) = ch_handle h" "ch_entity (timeout_set l t h) = ch_entity h"
  by (simp_all add: timeout_set_def)

lemma open_heap [heap_keeps]: "heap_ok w \<Longrightarrow> keeps2 (open_connection E p w)"
  by (auto simp: open_connection_def Let_def heap_keeps)

lemma connector_heap: "heap_ok w \<Longrightarrow> unbound p w \<Longrightarrow> keeps2 (Peer_Connector_initiate E p w)"
  by (auto simp: Peer_Connector_initiate_def Let_def heap_keeps heap_ok_set_unbound live_below split: connect_result.split)

lemma initiate_handler_heap: "heap_ok w \<Longrightarrow> unbound p w \<Longrightarrow> keeps2 (initiate_handler E p w)"
  by (simp add: initiate_handler_def connector_heap)

lemma handle_timeout_heap: "heap_ok w \<Longrightarrow> unbound p w \<Longrightarrow> keeps2 (handle_timeout E p w)"
  by (auto simp: handle_timeout_def initiate_handler_heap)

text \<open>Allocation: the next address is free, so the new object is not bound.\<close>

lemma heap_ok_new_ch:
  assumes "heap_ok w"
  shows "heap_ok ((set_ch (next_ch w) h w)\<lparr>next_ch := Suc (next_ch w)\<rparr>)"
proof -
  have "the_ch (next_ch w) w = None" using assms by (simp add: heap_ok_def)
  then have "unbound (next_ch w) w" by (rule free_unbound [OF assms])
  moreover have "owns ((set_ch p h w)\<lparr>next_ch := n\<rparr>) cmd q i" if "owns w cmd q i" and "q \<noteq> p" for cmd p q i n
    using that by (auto simp: owns_def)
  ultimately show ?thesis using assms by (auto simp: heap_ok_def linked_def unbound_def)
qed

lemma make_heap:
  assumes "heap_ok w"
  shows "ends (\<lambda>(p, w'). heap_ok w' \<and> unbound p w' \<and> the_ch p w' \<noteq> None) (make_connection_handler E rp w)"
  using heap_ok_new_ch [OF assms] free_unbound [OF assms, of "next_ch w"] assms
  by (auto simp: make_connection_handler_def Let_def heap_ok_def)

lemma insert_set_heap: "heap_ok w \<Longrightarrow> ends (\<lambda>w'. heap_ok w' \<and> (\<forall>p. unbound p w' = unbound p w)) (insert_into_set rp q w)"
  by (auto simp: insert_into_set_def)

lemma insert_set_keeps [heap_keeps]: "heap_ok w \<Longrightarrow> keeps1 (insert_into_set rp q w)"
  by (auto simp: insert_into_set_def)

lemma connect_new_heap:
  assumes "heap_ok w"
  shows "keeps2 (do { (p, w1) \<leftarrow> make_connection_handler E rp w; w2 \<leftarrow> insert_into_set rp p w1;
    (_, w3) \<leftarrow> initiate_handler E p w2; Some (0, w3) })"
  by (rule ends_bind [OF make_heap [OF assms]], clarsimp, rule ends_bind [OF insert_set_heap])
    (auto simp: initiate_handler_heap)

lemma initiate_connection_heap [heap_keeps]: "heap_ok w \<Longrightarrow> keeps2 (initiate_connection E rp w)"
  by (simp add: initiate_connection_def, rule ends_rec) (auto simp: connect_new_heap Let_def)

lemma new_record_heap: "heap_ok w \<Longrightarrow> heap_ok (snd (new_record r w))"
proof -
  assume w: "heap_ok w"
  have "owns ((set_rec q r w)\<lparr>next_rec := n\<rparr>) cmd p i" if "owns w cmd p i" and "the_rec q w = None" for cmd p q i n
    using that by (auto simp: owns_def)
  with w show ?thesis by (auto simp: new_record_def heap_ok_def linked_def)
qed

lemma ct_bind_heap [heap_keeps]: "heap_ok w \<Longrightarrow> keeps2 (ct_bind rp w)"
  by (auto simp: ct_bind_def Let_def split: if_splits)

lemma initiate_connect_heap [heap_keeps]: "heap_ok w \<Longrightarrow> keeps2 (initiate_connect E port host name w)"
  by (auto simp: initiate_connect_def Let_def case_prod_beta new_record_heap heap_keeps)

lemma d2d_heap [heap_keeps]: "heap_ok w \<Longrightarrow> keeps1 (initiate_all_d2d_connections E w)"
proof -
  have "heap_ok w \<Longrightarrow> keeps1 (d2d_loop E ns w)" for ns
    by (induction ns arbitrary: w) (auto simp: initiate_d2d_connect_def heap_keeps)
  then show "heap_ok w \<Longrightarrow> keeps1 (initiate_all_d2d_connections E w)" by (simp add: initiate_all_d2d_connections_def)
qed

lemma status_heap [heap_keeps]: "heap_ok w \<Longrightarrow> keeps1 (status_connections w)"
proof -
  have one: "heap_ok w \<Longrightarrow> keeps1 (status_handlers ps w)" for ps w
    by (induction ps arbitrary: w) (auto simp: status_handler_def)
  have "heap_ok w \<Longrightarrow> keeps1 (status_records rps w)" for rps
    by (induction rps arbitrary: w) (auto simp: one)
  then show "heap_ok w \<Longrightarrow> keeps1 (status_connections w)" by (simp add: status_connections_def)
qed

lemma accept_heap: "heap_ok w \<Longrightarrow> keeps1 (accept_connection E rp i k w)"
  by (simp add: accept_connection_def, rule ends_bind [OF make_heap])
    (auto simp: heap_ok_set_unbound live_below heap_keeps Let_def)

section \<open>Dispatching\<close>

lemma hello_heap: "heap_ok w \<Longrightarrow> owns w False p i \<Longrightarrow> keeps1 (process_hello_event E p sh w)"
  by (auto simp: process_hello_event_def Let_def owns_def heap_keeps bind_heap)

lemma send_to_heap [heap_keeps]: "heap_ok w \<Longrightarrow> keeps2 (send_to E p d eh w)"
  by (auto simp: send_to_def heap_keeps)

lemma send_all_heap [heap_keeps]: "heap_ok w \<Longrightarrow> keeps2 (send_to_all E ps d eh w)"
  by (induction ps arbitrary: w eh) (auto simp: heap_keeps)

lemma local_heap [heap_keeps]: "heap_ok w \<Longrightarrow> keeps2 (route_local E m u ls d eh w)"
  by (induction ls arbitrary: w eh) (auto simp: heap_keeps Let_def)

lemma remote_heap [heap_keeps]: "heap_ok w \<Longrightarrow> keeps2 (route_remote E ns d eh w)"
  by (induction ns arbitrary: w eh) (auto simp: heap_keeps Let_def)

lemma add_trace_heap [simp]: "heap_ok (add_trace b p sh l r w) = heap_ok w"
  by (simp add: add_trace_def)

lemma routing_heap [heap_keeps]: "heap_ok w \<Longrightarrow> keeps2 (process_routing E rh d eh w)"
  by (auto simp: process_routing_def route_to_master_def route_to_peer_def route_to_job_def route_to_connection_def
      route_to_subscriber_def Let_def heap_keeps)

lemma pubsub_heap: "heap_ok w \<Longrightarrow> owns w False rh i \<Longrightarrow> keeps3 (PubSubDispatch_process E rh d eh w)"
  by (auto simp: PubSubDispatch_process_def status_response_def Let_def heap_keeps hello_heap case_prod_beta)

section \<open>Upcalls\<close>

lemma echo_heap [heap_keeps]: "heap_ok w \<Longrightarrow> keeps2 (process_echo E rh d eh w)"
  by (cases d; cases "echo_disconnect (the d)") (auto simp: process_echo_def heap_keeps)

lemma channel_heap:
  assumes "heap_ok w" and "parser_keeps xml" and "parser_keeps cmd"
  shows "keeps2 (EventChannel_process E xml cmd p d eh w)"
  using assms by (auto simp: EventChannel_process_def Let_def heap_keeps pubsub_heap owns_def case_prod_beta parser_keeps_def)

lemma total_recv_heap [heap_keeps]: "heap_ok w \<Longrightarrow> keeps1 (total_bytes_recv E n p w)"
  by (auto simp: total_bytes_recv_def)

lemma received_heap:
  assumes "heap_ok w" and "parser_keeps xml" and "parser_keeps cmd"
  shows "keeps2 (process_received E xml cmd p n d eh w)"
  using assms(1) by (auto simp: process_received_def Let_def heap_keeps channel_heap [OF _ assms(2,3)] split: if_splits prod.splits)

lemma input_heap:
  assumes "heap_ok w" and "parser_keeps xml" and "parser_keeps cmd"
  shows "keeps2 (ReceiveHandler_handle_input E xml cmd p w)"
  using assms(1) by (auto simp: ReceiveHandler_handle_input_def Let_def heap_keeps received_heap [OF _ assms(2,3)])

lemma plain_input_heap: "heap_ok w \<Longrightarrow> keeps2 (ConnectionHandler_handle_input E p w)"
  by (auto simp: ConnectionHandler_handle_input_def Let_def split: rx.split)

lemma step_heap:
  assumes "heap_ok w" and "\<And>p. ev = Timeout p \<Longrightarrow> unbound p w"
    and "parser_keeps xml" and "parser_keeps cmd"
  shows "keeps1 (reactor_step E xml cmd ev w)"
  using assms(1,2) input_heap [OF _ assms(3,4)]
  by (cases ev) (auto simp: after_upcall_def heap_keeps plain_input_heap handle_timeout_heap accept_heap)

lemma restore_heap: "heap_ok w \<Longrightarrow> ctable_state w \<noteq> Populated \<Longrightarrow> keeps1 (ConnectionTable_restore E r w)"
  by (auto simp: ConnectionTable_restore_def Let_def case_prod_beta heap_keeps new_record_heap)

lemma initiate_all_heap [heap_keeps]: "heap_ok w \<Longrightarrow> keeps2 (initiate_all E rps w)"
  by (induction rps arbitrary: w) (auto simp: heap_keeps)

lemma open_channel_heap: "heap_ok w \<Longrightarrow> keeps2 (EventChannel_open E w)"
  by (auto simp: EventChannel_open_def initiate_command_acceptor_def initiate_connections_def Let_def case_prod_beta
      heap_keeps new_record_heap)

end

section \<open>A running dispatcher\<close>

text \<open>
  The states of a dispatcher: it starts empty, restores the connection records of its configuration, or fails to,
  before it is opened, is opened, reports, and answers upcalls in any order, while the outside changes as it likes. \<open>ok\<close> says which upcalls
  are considered: \<open>running\<close> admits all of them, \<open>settled\<close> all but the timer upcall of a handler that is bound in an identity table. That
  upcall reconnects the handler under another handle, and breaks the link (\<open>bound_reconnect_unlinks\<close> below).
\<close>

inductive dispatcher_states ::
  "('k reactor_event \<Rightarrow> ('x, 'k, 't) dispatcher \<Rightarrow> bool) \<Rightarrow> ('x, 'k, 't) env \<Rightarrow> ('x, 'k, 't) xml_parser \<Rightarrow> ('x, 'k, 't) xml_parser
     \<Rightarrow> ('x, 'k, 't) dispatcher \<Rightarrow> bool"
  for ok E xml cmd where
  start: "dispatcher_states ok E xml cmd (snd (EventChannel_initialize E (dispatcher_init t x)))"
| restore: "dispatcher_states ok E xml cmd w \<Longrightarrow> ctable_state w \<noteq> Populated \<Longrightarrow> ConnectionTable_restore E r w = Some w' \<Longrightarrow>
    dispatcher_states ok E xml cmd w'"
| restore_fails: "dispatcher_states ok E xml cmd w \<Longrightarrow> ctable_state w \<noteq> Populated \<Longrightarrow>
    dispatcher_states ok E xml cmd (w\<lparr>ctable_state := Populating\<rparr>)"
| elsewhere: "dispatcher_states ok E xml cmd w \<Longrightarrow> dispatcher_states ok E xml cmd (w\<lparr>outside := x\<rparr>)"
| reported: "dispatcher_states ok E xml cmd w \<Longrightarrow> status_connections w = Some w' \<Longrightarrow> dispatcher_states ok E xml cmd w'"
| opened: "dispatcher_states ok E xml cmd w \<Longrightarrow> EventChannel_open E w = Some (i, w') \<Longrightarrow> dispatcher_states ok E xml cmd w'"
| upcall: "dispatcher_states ok E xml cmd w \<Longrightarrow> ok ev w \<Longrightarrow> reactor_step E xml cmd ev w = Some w' \<Longrightarrow>
    dispatcher_states ok E xml cmd w'"

definition no_bound_reconnect :: "'k reactor_event \<Rightarrow> ('x, 'k, 't) dispatcher \<Rightarrow> bool" where
  "no_bound_reconnect ev w \<longleftrightarrow> (case ev of Timeout p \<Rightarrow> unbound p w | _ \<Rightarrow> True)"

abbreviation running ::
  "('x, 'k, 't) env \<Rightarrow> ('x, 'k, 't) xml_parser \<Rightarrow> ('x, 'k, 't) xml_parser \<Rightarrow> ('x, 'k, 't) dispatcher \<Rightarrow> bool" where
  "running \<equiv> dispatcher_states (\<lambda>ev w. True)"

abbreviation settled ::
  "('x, 'k, 't) env \<Rightarrow> ('x, 'k, 't) xml_parser \<Rightarrow> ('x, 'k, 't) xml_parser \<Rightarrow> ('x, 'k, 't) dispatcher \<Rightarrow> bool" where
  "settled \<equiv> dispatcher_states no_bound_reconnect"

lemma settled_running: "settled E xml cmd w \<Longrightarrow> running E xml cmd w"
  by (induction rule: dispatcher_states.induct) (auto intro: dispatcher_states.intros)

lemma settled_heap:
  assumes "dispatcher_env E" and "parser_keeps xml" and "parser_keeps cmd" and "settled E xml cmd w"
  shows "heap_ok w"
  using assms(4)
proof (induction rule: dispatcher_states.induct)
  case (start t x)
  then show ?case
    by (simp add: EventChannel_initialize_def dispatcher_init_def heap_ok_def linked_def the_ch_def the_rec_def
        ModelIdentity_new_def DispatcherIdentity_new_def CommandIdentity_new_def)
next
  case (restore w r w')
  then show ?case using dispatcher_env.restore_heap [OF assms(1)] by (metis ends_def)
next
  case (restore_fails w)
  then show ?case by simp
next
  case (elsewhere w x)
  then show ?case by simp
next
  case (reported w w')
  then show ?case using dispatcher_env.status_heap [OF assms(1)] by (metis ends_def)
next
  case (opened w i w')
  then show ?case using dispatcher_env.open_channel_heap [OF assms(1)] by (metis ends_def snd_conv)
next
  case (upcall w ev w')
  then have "\<And>p. ev = Timeout p \<Longrightarrow> unbound p w" by (auto simp: no_bound_reconnect_def)
  with upcall show ?case using dispatcher_env.step_heap [OF assms(1) _ _ assms(2,3)] by (metis ends_def)
qed

text \<open>
  No dangling handlers. In every state of a running dispatcher in which no handler reconnected while it was bound, whatever messages
  arrive and whatever sockets and database answer, every record of the three identity tables holds the address of a live handler, with the handle
  this handler has, whose connection record is live and of the right role.
\<close>

lemma tables_never_dangle:
  assumes "dispatcher_env E" and "parser_keeps xml" and "parser_keeps cmd" and "settled E xml cmd w"
  shows "linked w"
  using settled_heap [OF assms] by (simp add: heap_ok_def)

text \<open>
  The exception is necessary: when the timer of a handler that a table knows goes off and the connection is started again
  under another handle, the table keeps the old one, and the link is broken. With C5, which shows that a failed active
  connection stays bound and schedules this timer, it is what happens to every active connection that is lost.
\<close>

lemma bound_reconnect_unlinks:
  assumes "the_ch p w = Some h" and "ch_state h \<noteq> ESTABLISHED" and "e \<in> set (d_map (d2d_table w))" and "d_ch e = p"
    and "d_chid e = ch_handle h" and "n_connect (net E) (ch_remote_addr h) (outside w) = (ConnectPending i k, x)" and "i \<noteq> ch_handle h"
  shows "\<exists>w'. reactor_step E xml cmd (Timeout p) w = Some w' \<and> \<not> linked w'"
proof -
  obtain h' w' where w': "reactor_step E xml cmd (Timeout p) w = Some w'" "the_ch p w' = Some h'" "ch_handle h' = i"
    "d2d_table w' = d2d_table w"
    using assms(1,2,6) by (simp add: handle_timeout_def initiate_handler_def Peer_Connector_initiate_def after_upcall_def)
  have "\<not> linked w'"
  proof
    assume "linked w'"
    then have "d_chid e = ch_handle h'" using assms(3,4) w'(2,4) by (auto simp: linked_def owns_def)
    with assms(5,7) w'(3) show False by simp
  qed
  with w'(1) show ?thesis by blast
qed

lemma bound_reconnect_unlinks_witness:
  "\<exists>w'. reactor_step (example_env\<lparr>net := example_net\<lparr>n_connect := (\<lambda>a x. (ConnectPending 51 ([], []), x))\<rparr>\<rparr>) xml cmd (Timeout 1)
      (example_w\<lparr>handlers := [1 \<mapsto> (example_ch 21)\<lparr>ch_state := FAILED\<rparr>],
        d2d_table := \<lparr>d_map = [\<lparr>d_chid = 21, d_peer = 40, d_node = 4, d_ch = 1\<rparr>], d_state = Active\<rparr>\<rparr>) = Some w' \<and> \<not> linked w'"
  by (rule bound_reconnect_unlinks [where h = "(example_ch 21)\<lparr>ch_state := FAILED\<rparr>" and i = 51 and k = "([], [])"
        and e = "\<lparr>d_chid = 21, d_peer = 40, d_node = 4, d_ch = 1\<rparr>"])
    (auto simp: the_ch_def example_ch_def)

text \<open>A run: the dispatcher opens its command listener, and a command connection arrives.\<close>

definition no_parser :: "(string list, sock, int) xml_parser" where
  "no_parser p d w = Some (0, w)"

definition example_listener :: ConnectionRecord where
  "example_listener = (auto_record example_env)\<lparr>r_id := 65535, r_name := ''cmd listener'', r_header := ''none'',
     r_proxy_role := CHR ''C'', r_connection_type := CHR ''P'', r_host := ''0.0.0.0'', r_port := 8010, r_peer_acceptor := True\<rparr>"

definition example_open :: example_dispatcher where
  "example_open = (dispatcher_init 0 [])\<lparr>records := [1 \<mapsto> example_listener], next_rec := 2, ctable := [(65535, 1)],
     ctable_state := Populated, FreeKey := 65534\<rparr>"

lemma example_opens:
  "EventChannel_open example_env (snd (EventChannel_initialize example_env (dispatcher_init 0 []))) = Some (0, example_open)"
  by (simp add: EventChannel_open_def EventChannel_initialize_def initiate_command_acceptor_def new_record_def ct_bind_def
      initiate_connections_def initiate_connection_def dispatcher_init_def the_rec_def set_rec_def auto_record_def
      example_open_def example_listener_def example_defs smap_insert_def Let_def ChannelFilterMgr_initialize_def ChannelFilterMgr_new_def)

lemma example_accepts:
  "\<exists>w. reactor_step example_env no_parser no_parser (Accept 1 21 ([], [])) example_open = Some w \<and>
    c_map (d2c_table w) = [\<lparr>c_chid = 21, c_ch = 1\<rparr>]"
  by (simp add: accept_connection_def make_connection_handler_def insert_into_set_def open_connection_def complete_connection_def
      example_open_def example_listener_def auto_record_def dispatcher_init_def the_rec_def the_ch_def set_rec_def set_ch_def
      new_handler_def handler_class_of_def load_filter_def command_role_def example_defs Let_def timeout_set_def
      CommandIdentity_bind_def CommandIdentity_new_def)

lemma tables_never_dangle_witness:
  "\<exists>w. settled example_env no_parser no_parser w \<and> linked w \<and> c_map (d2c_table w) = [\<lparr>c_chid = 21, c_ch = 1\<rparr>]"
proof -
  have keeps: "parser_keeps no_parser" by (simp add: parser_keeps_def no_parser_def)
  obtain w where w: "reactor_step example_env no_parser no_parser (Accept 1 21 ([], [])) example_open = Some w"
    "c_map (d2c_table w) = [\<lparr>c_chid = 21, c_ch = 1\<rparr>]"
    using example_accepts by blast
  have "settled example_env no_parser no_parser w"
    by (rule dispatcher_states.upcall [OF dispatcher_states.opened [OF dispatcher_states.start example_opens] _ w(1)])
      (simp add: no_bound_reconnect_def)
  with w(2) tables_never_dangle [OF example.dispatcher_env_axioms keeps keeps this] show ?thesis by blast
qed

section \<open>Saying goodbye\<close>

text \<open>A GOODBYE message marks the handler, fails it, and asks the reactor to close it.\<close>

lemma pubsub_goodbye:
  assumes "the_ch p w = Some h" and "has_type (eh_hdr eh) GOODBYE"
  shows "PubSubDispatch_process E p d eh w = Some (-1, eh, set_ch p (h\<lparr>ch_commanded_close := True\<rparr>) w)"
  using assms has_type_unique [OF assms(2)] by (simp add: PubSubDispatch_process_def)

lemma channel_goodbye:
  assumes "the_ch p w = Some h" and "the_rec (ch_entity h) w = Some r" and "\<not> command_role r" and "r_proxy_role r \<noteq> CHR ''E''"
    and "has_type (eh_hdr eh) GOODBYE"
    and "\<And>c. hd_header_type (hdr E) (eh\<lparr>eh_hdr := (eh_hdr eh)\<lparr>h_connection_id := c\<rparr>\<rparr>) = hd_samson (hdr E)"
  shows "EventChannel_process E xml cmd p d eh w = Some (-1, set_ch p (h\<lparr>ch_commanded_close := True\<rparr>) w)"
proof -
  let ?eh = "if h_connection_id (eh_hdr eh) = 0 then eh\<lparr>eh_hdr := (eh_hdr eh)\<lparr>h_connection_id := ch_connection_id h\<rparr>\<rparr> else eh"
  have bye: "has_type (eh_hdr ?eh) GOODBYE" using assms(5) by (simp add: has_type_def)
  have "hd_header_type (hdr E) ?eh = hd_samson (hdr E)"
    using assms(6) [of "ch_connection_id h"] assms(6) [of "h_connection_id (eh_hdr eh)"] by simp
  moreover have "\<not> has_type (eh_hdr ?eh) DISPATCHER_COMMAND" using has_type_unique [OF bye] by simp
  ultimately show ?thesis
    using assms(1-4) pubsub_goodbye [OF assms(1) bye, of E d] by (simp only: EventChannel_process_def Let_def) simp
qed

lemma goodbye_fails:
  assumes "the_ch p w = Some h" and "the_rec (ch_entity h) w = Some r" and "\<not> command_role r" and "r_proxy_role r \<noteq> CHR ''E''"
    and "ch_input_filter h = 0" and "recv_action E h r = Some res" and "rx_ret res > 0" and "rx_header res = Some eh"
    and "has_type (eh_hdr eh) GOODBYE"
    and "\<And>c. hd_header_type (hdr E) (eh\<lparr>eh_hdr := (eh_hdr eh)\<lparr>h_connection_id := c\<rparr>\<rparr>) = hd_samson (hdr E)"
  shows "\<exists>h' fc. ReceiveHandler_handle_input E xml cmd p w = Some (-1, (set_ch p h' w)\<lparr>first_call := fc\<rparr>) \<and>
    ch_entity h' = ch_entity h \<and> ch_handle h' = ch_handle h \<and> ch_commanded_close h'"
proof -
  let ?h1 = "h\<lparr>ch_rx := rx_next res, ch_sock := rx_sock res\<rparr>"
  obtain fc s where s: "RouteByteStats_sample (n_usec_diff (net E)) (now w) (nat (rx_ret res)) (first_call w, ch_recv_stats h) = (fc, s)"
    by (cases "RouteByteStats_sample (n_usec_diff (net E)) (now w) (nat (rx_ret res)) (first_call w, ch_recv_stats h)")
  define h2 where "h2 = ?h1\<lparr>ch_recv_stats := s\<rparr>"
  have h2: "total_bytes_recv E (nat (rx_ret res)) p (set_ch p ?h1 w) = Some ((set_ch p h2 w)\<lparr>first_call := fc\<rparr>)"
    using s by (simp add: total_bytes_recv_def h2_def) (simp add: set_ch_def)
  let ?w2 = "(set_ch p h2 w)\<lparr>first_call := fc\<rparr>"
  let ?h4 = "h2\<lparr>ch_commanded_close := True, ch_process_time := RouteTimeStats_sample (n_elapsed (net E) (outside w)) (ch_process_time h2),
    ch_state := FAILED\<rparr>"
  have e: "ch_entity h2 = ch_entity h" "ch_input_filter h2 = 0" "ch_handle h2 = ch_handle h" using assms(5) by (simp_all add: h2_def)
  have "EventChannel_process E xml cmd p (rx_event res) eh ?w2 = Some (-1, set_ch p (h2\<lparr>ch_commanded_close := True\<rparr>) ?w2)"
    by (rule channel_goodbye) (use assms(2-4,9,10) e in simp_all)
  with h2 e assms(1,2,6-8)
  have "ReceiveHandler_handle_input E xml cmd p w = Some (-1, (set_ch p ?h4 w)\<lparr>first_call := fc\<rparr>)"
    by (simp add: ReceiveHandler_handle_input_def process_received_def Let_def) (simp add: set_ch_def)
  with e show ?thesis by (intro exI [of _ ?h4] exI [of _ fc]) simp
qed

text \<open>
  C26. Leaving. When a model or dispatcher says GOODBYE, the upcall that receives the message closes its connection for
  good: the handler is destroyed, none of the tables mentions it any more, and the tables are linked as before.
\<close>

theorem goodbye_disconnects:
  assumes "dispatcher_env E" and "linked w" and "the_ch p w = Some h" and "the_rec (ch_entity h) w = Some r"
    and "\<not> command_role r" and "r_proxy_role r \<noteq> CHR ''E''" and "ch_class h \<noteq> TransmitHandler" and "ch_input_filter h = 0"
    and "recv_action E h r = Some res" and "rx_ret res > 0" and "rx_header res = Some eh" and "has_type (eh_hdr eh) GOODBYE"
    and "\<And>c. hd_header_type (hdr E) (eh\<lparr>eh_hdr := (eh_hdr eh)\<lparr>h_connection_id := c\<rparr>\<rparr>) = hd_samson (hdr E)"
  shows "\<exists>w'. reactor_step E xml cmd (Input p) w = Some w' \<and> the_ch p w' = None \<and> unbound p w' \<and> linked w'"
proof -
  obtain h' fc where in': "ReceiveHandler_handle_input E xml cmd p w = Some (-1, (set_ch p h' w)\<lparr>first_call := fc\<rparr>)"
    "ch_entity h' = ch_entity h" "ch_handle h' = ch_handle h" "ch_commanded_close h'"
    using goodbye_fails [OF assms(3-6,8-13)] by blast
  let ?w = "(set_ch p h' w)\<lparr>first_call := fc\<rparr>"
  have "linked ?w" using dispatcher_env.linked_set_ch [OF assms(1-3) in'(3,2)]
    by (simp add: linked_def owns_def the_ch_def the_rec_def)
  from dispatcher_env.close_destroys [OF assms(1) this, of p h' r] in' assms(4)
  obtain w' where "handle_close E p ?w = Some (0, w')" "linked w'" "the_ch p w' = None" "unbound p w'"
    by (auto simp: unbound_def)
  with in'(1) assms(3,7) show ?thesis by (simp add: after_upcall_def)
qed

text \<open>The connection of model 7, on whose socket a GOODBYE has arrived.\<close>

definition bye_header :: SamsonHeader where
  "bye_header = blank_header\<lparr>h_type := type_code GOODBYE, h_peer_id := 7\<rparr>"

definition bye_ch :: "(sock, int) ConnectionHandler" where
  "bye_ch = (example_ch 21)\<lparr>ch_sock := ([encode_header bye_header], [])\<rparr>"

lemma bye_received:
  "\<exists>res eh. recv_action example_env bye_ch r = Some res \<and> rx_ret res > 0 \<and> rx_header res = Some eh \<and> has_type (eh_hdr eh) GOODBYE"
proof -
  have "samson_header_length = 48" "encode_header x \<noteq> []" for x by (simp_all add: samson_header_length_def encode_header_def)
  then show ?thesis
    using decode_encode_header [of bye_header "[]"]
    by (simp add: magic_ok_def recv_action_def bye_ch_def example_ch_def new_handler_def example_record_def example_defs Let_def
        recv_header_def rx_init_def samson_env_def recv_data_def write_at_def fill_hidden_def set_encoded_def has_type_def bye_header_def
        blank_header_def)
qed

theorem goodbye_disconnects_witness:
  "\<exists>w'. reactor_step example_env no_parser no_parser (Input 1) (set_ch 1 bye_ch example_w) = Some w' \<and>
    the_ch 1 w' = None \<and> unbound 1 w' \<and> linked w'"
proof -
  obtain res eh where r: "recv_action example_env bye_ch (example_record\<lparr>r_ch_set := [1]\<rparr>) = Some res" "rx_ret res > 0"
    "rx_header res = Some eh" "has_type (eh_hdr eh) GOODBYE"
    using bye_received by blast
  have w: "linked (set_ch 1 bye_ch example_w)"
    using example.linked_set_ch [OF example_w_facts(1,2)] by (simp add: bye_ch_def)
  have "the_rec (ch_entity bye_ch) (set_ch 1 bye_ch example_w) = Some (example_record\<lparr>r_ch_set := [1]\<rparr>)"
    using example_w_facts(3) by (simp add: bye_ch_def)
  from goodbye_disconnects [OF example.dispatcher_env_axioms w _ this _ _ _ _ r] show ?thesis
    by (simp add: command_role_def example_record_def bye_ch_def example_ch_def new_handler_def example_defs Let_def)
qed

end
