(* ===== verification/Reports.thy ===== *)
theory Reports
  imports ConnectionTable
begin

text \<open>
  The text reports the command channel asks for: the three identity tables, the connection table, the open
  connections and the traffic statistics. A report is a string; what a stream prints for a pointer, a \<open>double\<close>,
  an Internet address and the message blocks a handler has begun to receive is the record \<open>show_ops\<close>. The reports
  follow pointers, so they are defined only where these are live, and \<open>ConnectionHandler::status\<close> also resets the
  retry timeout (\<open>status_handler\<close>).
\<close>

record show_ops =
  sh_ptr :: "nat \<Rightarrow> string"
  sh_double :: "real \<Rightarrow> string"
  sh_host_addr :: "inet_addr \<Rightarrow> string"
  sh_data_frag :: "bytes option \<Rightarrow> string"
  sh_header_frag :: "EventHeaderObj option \<Rightarrow> string"

text \<open>\<open>std::setw\<close>: padded on the left, never cut.\<close>

definition setw :: "nat \<Rightarrow> string \<Rightarrow> string" where
  "setw n s = replicate (n - length s) CHR '' '' @ s"

definition show_uint :: "'a::len word \<Rightarrow> string" where
  "show_uint x = lexical_cast (uint x)"

section \<open>The identity tables\<close>

text \<open>The index over the handles is ordered, so a report lists the records in the order of their handles.\<close>

definition CommandIdentityRecord_print :: "show_ops \<Rightarrow> CommandIdentityRecord \<Rightarrow> string" where
  "CommandIdentityRecord_print S r = setw 5 (lexical_cast (c_chid r)) @ '' '' @ sh_ptr S (c_ch r) @ newline"

definition CommandIdentity_report :: "show_ops \<Rightarrow> CommandIdentity \<Rightarrow> string" where
  "CommandIdentity_report S t =
     (if c_map t \<noteq> [] then
        '' CHID ConnHndlr'' @ newline @ ''----- ---------'' @ newline
        @ concat (map (CommandIdentityRecord_print S) (sort_key c_chid (c_map t)))
      else [])"

definition DispatcherIdentityRecord_print :: "show_ops \<Rightarrow> DispatcherIdentityRecord \<Rightarrow> string" where
  "DispatcherIdentityRecord_print S r =
     setw 5 (lexical_cast (d_chid r)) @ '' '' @ setw 5 (show_uint (d_peer r)) @ '' ''
     @ setw 5 (show_uint (d_node r)) @ '' '' @ sh_ptr S (d_ch r) @ newline"

definition DispatcherIdentity_report :: "show_ops \<Rightarrow> DispatcherIdentity \<Rightarrow> string" where
  "DispatcherIdentity_report S t =
     (if d_map t \<noteq> [] then
        '' CHID Peer  Node  ConnHndlr'' @ newline @ ''----- ----- ----- ---------'' @ newline
        @ concat (map (DispatcherIdentityRecord_print S) (sort_key d_chid (d_map t)))
      else [])"

definition ModelIdentityRecord_print :: "show_ops \<Rightarrow> ModelIdentityRecord \<Rightarrow> string" where
  "ModelIdentityRecord_print S r =
     setw 5 (lexical_cast (m_chid r)) @ '' '' @ setw 5 (show_uint (m_jid r)) @ '' ''
     @ setw 5 (show_uint (m_mid r)) @ '' '' @ setw 3 (show_uint (m_unitid r)) @ '' ''
     @ setw 5 (show_uint (m_statsid r)) @ '' '' @ setw 5 (show_uint (m_nodeid r)) @ '' ''
     @ setw 8 (lexical_cast (m_pid r)) @ '' '' @ sh_ptr S (m_ch r) @ '' '' @ setw 12 (m_mid_name r) @ newline"

definition ModelIdentity_report :: "show_ops \<Rightarrow> ModelIdentity \<Rightarrow> string" where
  "ModelIdentity_report S t =
     (if m_map t \<noteq> [] then
        '' CHID  JID   MID  UID  SID  Peer    PID    ConnHndlr  Model Name  (''
        @ lexical_cast (int (length (m_map t))) @ '')'' @ newline
        @ ''----- ----- ----- --- ----- ----- -------- --------- ------------'' @ newline
        @ concat (map (ModelIdentityRecord_print S) (sort_key m_chid (m_map t)))
      else [])"

section \<open>The connection table\<close>

definition ctable_row :: "show_ops \<Rightarrow> recptr \<Rightarrow> ConnectionRecord \<Rightarrow> string" where
  "ctable_row S rp r =
     setw 5 (show_uint (r_id r)) @ '' '' @ setw 15 (r_name r) @ '' '' @ setw 10 (r_header r) @ '' ''
     @ setw 15 (r_host r) @ '':'' @ setw 5 (show_uint (r_port r)) @ '' '' @ [r_connection_type r] @ '' ''
     @ [r_proxy_role r] @ '' '' @ setw 3 (show_uint (r_max_retry_timeout r)) @ '' ''
     @ setw 2 (show_uint (r_priority r)) @ '' '' @ setw 3 (lexical_cast (int (length (r_ch_set r)))) @ '' ''
     @ (if r_isMaster r then ''1'' else ''0'') @ '' '' @ sh_ptr S rp @ '' '' @ newline"

fun ctable_rows :: "show_ops \<Rightarrow> recptr list \<Rightarrow> ('x, 'k, 't) dispatcher \<Rightarrow> string option" where
  "ctable_rows S [] w = Some []"
| "ctable_rows S (rp # rps) w = do {
     r \<leftarrow> the_rec rp w;
     rest \<leftarrow> ctable_rows S rps w;
     Some (ctable_row S rp r @ rest)
   }"

text \<open>\<open>init_key\<close> is the initialization key when the table was read from the database (\<open>DATABASE_INIT\<close>).\<close>

definition print_ctable :: "show_ops \<Rightarrow> string option \<Rightarrow> ('x, 'k, 't) dispatcher \<Rightarrow> string option" where
  "print_ctable S init_key w = do {
     rows \<leftarrow> ctable_rows S (map snd (ctable w)) w;
     Some (''Connection Table ('' @ lexical_cast (int (length (ctable w))) @ '')'' @ newline
       @ (case init_key of Some k \<Rightarrow> ''Key ('' @ k @ '')'' @ newline | None \<Rightarrow> [])
       @ '' ID      Name           Header        Address          C D T/O Pr #CH M'' @ newline
       @ ''----- --------------- ---------- --------------------- - - --- -- --- -'' @ newline
       @ rows)
   }"

section \<open>The open connections\<close>

fun state_number :: "State \<Rightarrow> int" where
  "state_number UNINITIALIZED = 0"
| "state_number IDLE = 1"
| "state_number CONNECTING = 2"
| "state_number ESTABLISHED = 3"
| "state_number DISCONNECTING = 4"
| "state_number FAILED = 5"

definition show_addr :: "show_ops \<Rightarrow> inet_addr \<Rightarrow> string" where
  "show_addr S a = setw 15 (sh_host_addr S a) @ '':'' @ setw 5 (show_uint (snd a)) @ '' ''"

definition ConnectionHandler_status_text ::
  "show_ops \<Rightarrow> bool \<Rightarrow> chptr \<Rightarrow> ('k, 't) ConnectionHandler \<Rightarrow> ConnectionRecord \<Rightarrow> string" where
  "ConnectionHandler_status_text S header p h r =
     (if header then
        ''Current Connection List (Both Active and Passive)'' @ newline
        @ ''(CID  ConnHndlr  Hndl)         Local                 Remote        C D S'' @ newline
        @ ''----- ---------- ----- --------------------- --------------------- - - -'' @ newline
      else [])
     @ setw 5 (lexical_cast (ch_connection_id h)) @ '' '' @ sh_ptr S p @ '' ''
     @ setw 5 (lexical_cast (ch_handle h)) @ '' '' @ show_addr S (ch_local_addr h) @ show_addr S (ch_remote_addr h)
     @ [r_connection_type r] @ '' '' @ [r_proxy_role r] @ '' '' @ lexical_cast (state_number (ch_state h)) @ '' '' @ newline"

definition ReceiveHandler_status_text ::
  "show_ops \<Rightarrow> bool \<Rightarrow> chptr \<Rightarrow> ('k, 't) ConnectionHandler \<Rightarrow> string" where
  "ReceiveHandler_status_text S header p h =
     (if header then
        ''Current Connection List (Both Active and Passive)'' @ newline
        @ ''(CID  ConnHndlr Hndl)         Local                 Remote       '' @ newline
        @ ''----- --------- ----- --------------------- ---------------------'' @ newline
      else [])
     @ setw 5 (lexical_cast (ch_connection_id h)) @ '' '' @ sh_ptr S p @ '' ''
     @ setw 5 (lexical_cast (ch_handle h)) @ '' '' @ show_addr S (ch_local_addr h) @ show_addr S (ch_remote_addr h)
     @ sh_data_frag S (data_frag (ch_rx h)) @ '' '' @ sh_header_frag S (header_frag (ch_rx h)) @ '' ''
     @ setw 5 (lexical_cast (header_recvd (ch_rx h))) @ newline"

text \<open>
  The handlers of a table in the order the reports visit them; the report of each handler is by its class, the
  first one with the header line.
\<close>

fun table_handlers :: "recptr list \<Rightarrow> ('x, 'k, 't) dispatcher \<Rightarrow> chptr list option" where
  "table_handlers [] w = Some []"
| "table_handlers (rp # rps) w = do {
     r \<leftarrow> the_rec rp w;
     rest \<leftarrow> table_handlers rps w;
     Some (r_ch_set r @ rest)
   }"

definition status_line :: "show_ops \<Rightarrow> bool \<Rightarrow> chptr \<Rightarrow> ('x, 'k, 't) dispatcher \<Rightarrow> string option" where
  "status_line S header p w = do {
     h \<leftarrow> the_ch p w;
     if ch_class h = TransmitHandler then do {
       r \<leftarrow> the_rec (ch_entity h) w;
       Some (ConnectionHandler_status_text S header p h r)
     } else Some (ReceiveHandler_status_text S header p h)
   }"

fun status_lines :: "show_ops \<Rightarrow> bool \<Rightarrow> chptr list \<Rightarrow> ('x, 'k, 't) dispatcher \<Rightarrow> string option" where
  "status_lines S header [] w = Some []"
| "status_lines S header (p # ps) w = do {
     line \<leftarrow> status_line S header p w;
     rest \<leftarrow> status_lines S False ps w;
     Some (line @ rest)
   }"

text \<open>\<open>status_connections\<close>: its text, and its effect on the handlers.\<close>

definition status_connections_report ::
  "show_ops \<Rightarrow> ('x, 'k, 't) dispatcher \<Rightarrow> (string \<times> ('x, 'k, 't) dispatcher) option" where
  "status_connections_report S w = do {
     ps \<leftarrow> table_handlers (map snd (ctable w)) w;
     text \<leftarrow> status_lines S True ps w;
     w1 \<leftarrow> status_connections w;
     Some (text, w1)
   }"

text \<open>The receivers among the handlers; the cast reads the object.\<close>

fun receivers :: "chptr list \<Rightarrow> ('x, 'k, 't) dispatcher \<Rightarrow> chptr list option" where
  "receivers [] w = Some []"
| "receivers (p # ps) w = do {
     h \<leftarrow> the_ch p w;
     rest \<leftarrow> receivers ps w;
     Some (if ch_class h = TransmitHandler then rest else p # rest)
   }"

definition status_recv_connections :: "show_ops \<Rightarrow> ('x, 'k, 't) dispatcher \<Rightarrow> string option" where
  "status_recv_connections S w = do {
     ps \<leftarrow> table_handlers (map snd (ctable w)) w;
     rs \<leftarrow> receivers ps w;
     status_lines S True rs w
   }"

section \<open>The statistics\<close>

text \<open>\<open>print\<close> with type 0. \<open>count\<close> is unsigned, and so is \<open>count-1\<close>.\<close>

definition RouteByteStats_print :: "show_ops \<Rightarrow> string \<Rightarrow> 't RouteByteStats \<Rightarrow> string" where
  "RouteByteStats_print S label s =
     setw 8 (sh_double S (real (unat (total_bytes s)) / 1024)) @ '' '' @ setw 5 (show_uint (total_msgs s)) @ '' ''
     @ setw 8 (sh_double S (stats_mean (b_count s) (b_delta_sum s))) @ '' ''
     @ setw 8 (sh_double S (stats_stddev (b_count s) (b_delta_sum s) (b_delta_sq s))) @ '' ''
     @ setw 6 (show_uint (b_count s - 1)) @ '' '' @ setw 10 (sh_double S (b_delta_min s)) @ '' ''
     @ setw 10 (sh_double S (b_delta_max s)) @ '' '' @ ''('' @ label @ '')''"

definition ConnectionHandler_stats :: "show_ops \<Rightarrow> bool \<Rightarrow> ('k, 't) ConnectionHandler \<Rightarrow> string" where
  "ConnectionHandler_stats S header h =
     (if header then
        ''                     |-             delta  (sec)                 -|'' @ newline
        @ '' ID   #bytes   #msgs  mean     std dv    #       min        max    '' @ newline
        @ ''----- -------- ----- -------- -------- ------ ---------- ----------'' @ newline
      else [])
     @ setw 5 (lexical_cast (ch_handle h)) @ RouteByteStats_print S ''recv'' (ch_recv_stats h) @ newline
     @ ''     '' @ RouteByteStats_print S ''send'' (ch_send_stats h) @ newline"

fun stats_lines :: "show_ops \<Rightarrow> bool \<Rightarrow> chptr list \<Rightarrow> ('x, 'k, 't) dispatcher \<Rightarrow> string option" where
  "stats_lines S header [] w = Some []"
| "stats_lines S header (p # ps) w = do {
     h \<leftarrow> the_ch p w;
     rest \<leftarrow> stats_lines S False ps w;
     Some (ConnectionHandler_stats S header h @ rest)
   }"

definition compute_stats :: "show_ops \<Rightarrow> ('x, 'k, 't) dispatcher \<Rightarrow> string option" where
  "compute_stats S w = do {
     ps \<leftarrow> table_handlers (map snd (ctable w)) w;
     stats_lines S True ps w
   }"

end
