(* ===== verification/CommandParser.thy ===== *)
theory CommandParser
  imports TableSafety Reports "HOL-Library.List_Lexorder" "HOL-Library.Char_ord"
begin

text \<open>
  The command channel: the grammar of a command line, the commands, and \<open>CommandParser::process\<close>. The grammar is
  written with Boost.Spirit, a library of greedy parser combinators that run their actions as soon as a part has
  matched; it is read here as functions from the input to what matched and the rest. The number parsers and the
  symbol table are the library's (\<open>spirit_ops\<close>): a number parser gives the value and the length of its match.
  The rest of the outside (file system, tracing, debug flags, serialization to XML) is \<open>cmd_ops\<close>.

  \<open>Action\<close> keeps a reference to a constructor parameter it takes by value, so the extension a command is called with
  would be read from a destroyed string (\<open>Action_ext\<close>): a line that is a command is undefined behaviour. The commands
  themselves (\<open>run_action\<close>) are modelled with the extension as an argument.
\<close>

section \<open>Names and values\<close>

datatype any = AnyBool bool | AnyInt int | AnyReal real | AnyString string

text \<open>A \<open>multimap\<close>: ordered by the key, equal keys in the order of insertion.\<close>

type_synonym many = "(string \<times> any) list"

fun nv_insert :: "string \<Rightarrow> any \<Rightarrow> many \<Rightarrow> many" where
  "nv_insert k v [] = [(k, v)]"
| "nv_insert k v (x # nv) = (if k < fst x then (k, v) # x # nv else x # nv_insert k v nv)"

datatype Action_t =
    acceptors_a | ctable_a | command_a | connections_a | rcv_conn_a | d2m_a | d2d_a | id_a | opt_a | anneal_a
  | job_a | trace_a | verbose_a | disconnect_a | quit_a | status_a | stats_a | kill_a | alive_a

definition action_table :: "(string \<times> Action_t) list" where
  "action_table =
     [(''acceptors'', acceptors_a), (''ctable'', ctable_a), (''command'', command_a), (''connections'', connections_a),
      (''rcv_conn'', rcv_conn_a), (''models'', d2m_a), (''dispatchers'', d2d_a), (''identity'', id_a), (''opt'', opt_a),
      (''anneal'', anneal_a), (''job'', job_a), (''status'', status_a), (''stats'', stats_a), (''kill'', kill_a),
      (''trace'', trace_a), (''verbose'', verbose_a), (''disconnect'', disconnect_a), (''d'', disconnect_a),
      (''alive'', alive_a), (''options'', opt_a), (''quit'', quit_a)]"

section \<open>The outside\<close>

record spirit_ops =
  sp_strict_real_p :: "string \<Rightarrow> (real \<times> nat) option"
  sp_int_p :: "string \<Rightarrow> (int \<times> nat) option"
  sp_symbols :: "(string \<times> Action_t) list \<Rightarrow> string \<Rightarrow> (Action_t \<times> nat) option"

text \<open>The reports whose text is not modelled: those of other classes, and the serialized form of all of them.\<close>

datatype report =
    Rep_options | Rep_options_xml | Rep_commands_xml | Rep_dispatchers_xml | Rep_models_xml | Rep_recv_xml
  | Rep_connections_xml | Rep_acceptors | Rep_acceptors_xml | Rep_ctable_xml | Rep_identity | Rep_identity_xml

record ('x, 'k, 't) cmd_ops =
  cp_spirit :: spirit_ops
  cp_show :: show_ops
  cp_report :: "report \<Rightarrow> ('x, 'k, 't) dispatcher \<Rightarrow> string"
  cp_init_key :: "string option"
  cp_printable :: "bytes \<Rightarrow> string"
  cp_ise_root :: string
  cp_read_file :: "string \<Rightarrow> 'x \<Rightarrow> string option"
  cp_debug_on :: "'x \<Rightarrow> 'x"
  cp_debug_off :: "'x \<Rightarrow> 'x"
  cp_is_tracing :: "'x \<Rightarrow> bool"
  cp_start_tracing :: "'x \<Rightarrow> 'x"
  cp_stop_tracing :: "'x \<Rightarrow> 'x"
  cp_end_event_loop :: "'x \<Rightarrow> 'x"

definition HtmlPath :: "('x, 'k, 't) cmd_ops \<Rightarrow> string" where
  "HtmlPath C = cp_ise_root C @ ''/www/html/''"

section \<open>The commands\<close>

text \<open>A command gives the block of its reply, the value of \<open>process_retval\<close>, and the new state.\<close>

type_synonym ('x, 'k, 't) reply = "bytes \<times> int \<times> ('x, 'k, 't) dispatcher"

definition show_any :: "('x, 'k, 't) cmd_ops \<Rightarrow> any \<Rightarrow> string" where
  "show_any C v =
     (case v of
        AnyBool b \<Rightarrow> ''(b) '' @ (if b then ''true'' else ''false'')
      | AnyInt i \<Rightarrow> ''(i) '' @ lexical_cast i
      | AnyReal x \<Rightarrow> ''(r) '' @ sh_double (cp_show C) x
      | AnyString s \<Rightarrow> ''(s) '' @ s)"

definition web_ext :: "string \<Rightarrow> bool" where
  "web_ext ext \<longleftrightarrow> ext = ''xml'' \<or> ext = ''html'' \<or> ext = ''htm''"

definition nvprint :: "('x, 'k, 't) cmd_ops \<Rightarrow> many \<Rightarrow> string \<Rightarrow> bytes" where
  "nvprint C nv ext =
     (let text = ''sizeof nv: '' @ lexical_cast (int (length nv)) @ newline
            @ concat (map (\<lambda>(k, v). k @ '': '' @ show_any C v @ newline) nv)
      in if web_ext ext then create_block_as_HTTP text 200 else create_block text)"

definition nv_job :: "('x, 'k, 't) cmd_ops \<Rightarrow> many \<Rightarrow> string \<Rightarrow> bytes" where
  "nv_job C nv ext = nvprint C nv ext"

definition to_lower :: "char \<Rightarrow> char" where
  "to_lower c = (if c \<in> set ''ABCDEFGHIJKLMNOPQRSTUVWXYZ'' then char_of (of_char c + 32 :: nat) else c)"

definition iends_with :: "string \<Rightarrow> string \<Rightarrow> bool" where
  "iends_with s e \<longleftrightarrow>
     length e \<le> length s \<and> map to_lower (drop (length s - length e) s) = map to_lower e"

definition file_ext :: "string \<Rightarrow> string" where
  "file_ext filename =
     (if iends_with filename ''.xml'' then ''xml''
      else if iends_with filename ''.xsl'' then ''xsl''
      else if iends_with filename ''.htm'' then ''htm''
      else if iends_with filename ''.html'' then ''html''
      else ''text'')"

definition send_file :: "('x, 'k, 't) cmd_ops \<Rightarrow> string \<Rightarrow> 'x \<Rightarrow> bytes" where
  "send_file C name x =
     (let filename = (if name = [] then ''index.html'' else name);
          ext = file_ext filename
      in if web_ext ext \<or> ext = ''xsl'' then
           (case cp_read_file C (HtmlPath C @ filename) x of
              Some str \<Rightarrow> create_block_as_HTTP str 200
            | None \<Rightarrow> create_NOT_OK ext)
         else nvprint C [] ext)"

text \<open>
  \<open>dynamic_cast<TransceiverHandler *>\<close> of the handler being served: the cast of a null pointer is null, and so is
  that of a handler of another class.
\<close>

definition served_transceiver :: "('x, 'k, 't) dispatcher \<Rightarrow> chptr option" where
  "served_transceiver w =
     (if my_ch w = 0 then Some 0
      else do { h \<leftarrow> the_ch (my_ch w) w; Some (if ch_class h = TransceiverHandler then my_ch w else 0) })"

text \<open>The loop of \<open>nv_kill\<close> and \<open>nv_status\<close>, which differ in the type of the message they send.\<close>

fun nv_control ::
  "('x, 'k, 't) env \<Rightarrow> SimMsgType \<Rightarrow> many \<Rightarrow> ('x, 'k, 't) dispatcher \<Rightarrow> ('x, 'k, 't) dispatcher option" where
  "nv_control E type [] w = Some w"
| "nv_control E type ((k, v) # nv) w = do {
     w1 \<leftarrow> (case v of
        AnyInt i \<Rightarrow>
          (if k = ''job'' then do {
             ch \<leftarrow> served_transceiver w;
             (_, w1) \<leftarrow> sendCtrlMsgToJob E i type (flag_mask flag_status_log_local) ch w;
             Some w1
           } else if k = ''model'' then do {
             ch \<leftarrow> served_transceiver w;
             (_, w1) \<leftarrow> sendCtrlMsgToModel E i type (flag_mask flag_status_log_sender) ch w;
             Some w1
           } else Some w)
      | _ \<Rightarrow> Some w);
     nv_control E type nv w1
   }"

definition nv_kill ::
  "('x, 'k, 't) env \<Rightarrow> many \<Rightarrow> string \<Rightarrow> int \<Rightarrow> ('x, 'k, 't) dispatcher \<Rightarrow> ('x, 'k, 't) reply option" where
  "nv_kill E nv ext rv w = do { w1 \<leftarrow> nv_control E GOODBYE_REQUEST nv w; Some (create_OK ext, rv, w1) }"

definition nv_status ::
  "('x, 'k, 't) env \<Rightarrow> many \<Rightarrow> string \<Rightarrow> int \<Rightarrow> ('x, 'k, 't) dispatcher \<Rightarrow> ('x, 'k, 't) reply option" where
  "nv_status E nv ext rv w = do { w1 \<leftarrow> nv_control E STATUS_REQUEST nv w; Some (create_OK ext, rv, w1) }"

text \<open>The reports; a report is defined where the handlers and records it reads are live.\<close>

definition nv_opt :: "('x, 'k, 't) cmd_ops \<Rightarrow> string \<Rightarrow> ('x, 'k, 't) dispatcher \<Rightarrow> bytes" where
  "nv_opt C ext w =
     create_block_Unified (cp_report C (if ext = ''text'' then Rep_options else Rep_options_xml) w) ext 200"

definition nv_d2c :: "('x, 'k, 't) cmd_ops \<Rightarrow> string \<Rightarrow> ('x, 'k, 't) dispatcher \<Rightarrow> bytes" where
  "nv_d2c C ext w =
     create_block_Unified (if ext = ''text'' then CommandIdentity_report (cp_show C) (d2c_table w)
       else cp_report C Rep_commands_xml w) ext 200"

definition nv_d2d :: "('x, 'k, 't) cmd_ops \<Rightarrow> string \<Rightarrow> ('x, 'k, 't) dispatcher \<Rightarrow> bytes" where
  "nv_d2d C ext w =
     create_block_Unified (if ext = ''text'' then DispatcherIdentity_report (cp_show C) (d2d_table w)
       else cp_report C Rep_dispatchers_xml w) ext 200"

definition nv_d2m :: "('x, 'k, 't) cmd_ops \<Rightarrow> string \<Rightarrow> ('x, 'k, 't) dispatcher \<Rightarrow> bytes" where
  "nv_d2m C ext w =
     create_block_Unified (if ext = ''text'' then ModelIdentity_report (cp_show C) (d2m_table w)
       else cp_report C Rep_models_xml w) ext 200"

text \<open>Serialization of a handler reads its record too, that of a receiver does not.\<close>

definition serialized :: "chptr list \<Rightarrow> ('x, 'k, 't) dispatcher \<Rightarrow> bool" where
  "serialized ps w \<longleftrightarrow> list_all (\<lambda>p. case the_ch p w of Some h \<Rightarrow> the_rec (ch_entity h) w \<noteq> None | None \<Rightarrow> False) ps"

definition nv_rcv_conn :: "('x, 'k, 't) cmd_ops \<Rightarrow> string \<Rightarrow> ('x, 'k, 't) dispatcher \<Rightarrow> bytes option" where
  "nv_rcv_conn C ext w = do {
     data \<leftarrow> (if ext = ''text'' then status_recv_connections (cp_show C) w
       else do {
         ps \<leftarrow> table_handlers (map snd (ctable w)) w;
         _ \<leftarrow> receivers ps w;
         Some (cp_report C Rep_recv_xml w)
       });
     Some (create_block_Unified data ext 200)
   }"

definition nv_connections ::
  "('x, 'k, 't) cmd_ops \<Rightarrow> string \<Rightarrow> ('x, 'k, 't) dispatcher \<Rightarrow> (bytes \<times> ('x, 'k, 't) dispatcher) option" where
  "nv_connections C ext w = do {
     (data, w1) \<leftarrow> (if ext = ''text'' then status_connections_report (cp_show C) w
       else do {
         ps \<leftarrow> table_handlers (map snd (ctable w)) w;
         if serialized ps w then Some (cp_report C Rep_connections_xml w, w) else None
       });
     Some (create_block_Unified data ext 200, w1)
   }"

definition nv_acceptors :: "('x, 'k, 't) cmd_ops \<Rightarrow> string \<Rightarrow> ('x, 'k, 't) dispatcher \<Rightarrow> bytes option" where
  "nv_acceptors C ext w = do {
     _ \<leftarrow> table_handlers (map snd (ctable w)) w;
     Some (create_block_Unified (cp_report C (if ext = ''text'' then Rep_acceptors else Rep_acceptors_xml) w) ext 200)
   }"

definition nv_ctable :: "('x, 'k, 't) cmd_ops \<Rightarrow> string \<Rightarrow> ('x, 'k, 't) dispatcher \<Rightarrow> bytes option" where
  "nv_ctable C ext w = do {
     data \<leftarrow> (if ext = ''text'' then print_ctable (cp_show C) (cp_init_key C) w
       else do { _ \<leftarrow> table_handlers (map snd (ctable w)) w; Some (cp_report C Rep_ctable_xml w) });
     Some (create_block_Unified data ext 200)
   }"

definition nv_identity :: "('x, 'k, 't) cmd_ops \<Rightarrow> string \<Rightarrow> ('x, 'k, 't) dispatcher \<Rightarrow> bytes" where
  "nv_identity C ext w =
     create_block_Unified (cp_report C (if ext = ''text'' then Rep_identity else Rep_identity_xml) w) ext 200"

definition nv_alive :: "string \<Rightarrow> int \<Rightarrow> ('x, 'k, 't) dispatcher \<Rightarrow> ('x, 'k, 't) reply" where
  "nv_alive ext rv w = (create_OK ext, rv, w)"

definition nv_disconnect :: "string \<Rightarrow> ('x, 'k, 't) dispatcher \<Rightarrow> ('x, 'k, 't) reply" where
  "nv_disconnect ext w = (create_OK ext, 1, w)"

definition nv_quit :: "('x, 'k, 't) cmd_ops \<Rightarrow> string \<Rightarrow> ('x, 'k, 't) dispatcher \<Rightarrow> ('x, 'k, 't) reply" where
  "nv_quit C ext w = (create_OK ext, 1, w\<lparr>outside := cp_end_event_loop C (outside w)\<rparr>)"

definition nv_anneal ::
  "('x, 'k, 't) env \<Rightarrow> string \<Rightarrow> int \<Rightarrow> ('x, 'k, 't) dispatcher \<Rightarrow> ('x, 'k, 't) reply option" where
  "nv_anneal E ext rv w = do { w1 \<leftarrow> initiate_all_d2d_connections E w; Some (create_OK ext, rv, w1) }"

text \<open>\<open>debug_\<close> is a static variable of the function.\<close>

definition nv_verbose ::
  "('x, 'k, 't) cmd_ops \<Rightarrow> string \<Rightarrow> int \<Rightarrow> ('x, 'k, 't) dispatcher \<Rightarrow> ('x, 'k, 't) reply" where
  "nv_verbose C ext rv w =
     (create_OK ext, rv,
      if cmd_debug w then w\<lparr>outside := cp_debug_off C (outside w), cmd_debug := False\<rparr>
      else w\<lparr>outside := cp_debug_on C (outside w), cmd_debug := True\<rparr>)"

definition nv_trace ::
  "('x, 'k, 't) cmd_ops \<Rightarrow> string \<Rightarrow> int \<Rightarrow> ('x, 'k, 't) dispatcher \<Rightarrow> ('x, 'k, 't) reply" where
  "nv_trace C ext rv w =
     (create_OK ext, rv,
      w\<lparr>outside := (if cp_is_tracing C (outside w) then cp_stop_tracing C else cp_start_tracing C) (outside w)\<rparr>)"

definition nv_stats :: "('x, 'k, 't) cmd_ops \<Rightarrow> string \<Rightarrow> ('x, 'k, 't) dispatcher \<Rightarrow> bytes option" where
  "nv_stats C ext w = do {
     data \<leftarrow> compute_stats (cp_show C) w;
     Some (if web_ext ext
       then create_block_as_HTTP (''<pre>'' @ newline @ data @ newline @ ''</pre>'' @ newline) 200
       else create_block data)
   }"

definition run_action ::
  "('x, 'k, 't) cmd_ops \<Rightarrow> ('x, 'k, 't) env \<Rightarrow> Action_t \<Rightarrow> many \<Rightarrow> string \<Rightarrow> int \<Rightarrow> ('x, 'k, 't) dispatcher
     \<Rightarrow> ('x, 'k, 't) reply option" where
  "run_action C E a nv ext rv w =
     (case a of
        acceptors_a \<Rightarrow> map_option (\<lambda>b. (b, rv, w)) (nv_acceptors C ext w)
      | ctable_a \<Rightarrow> map_option (\<lambda>b. (b, rv, w)) (nv_ctable C ext w)
      | command_a \<Rightarrow> Some (nv_d2c C ext w, rv, w)
      | connections_a \<Rightarrow> map_option (\<lambda>(b, w1). (b, rv, w1)) (nv_connections C ext w)
      | rcv_conn_a \<Rightarrow> map_option (\<lambda>b. (b, rv, w)) (nv_rcv_conn C ext w)
      | d2m_a \<Rightarrow> Some (nv_d2m C ext w, rv, w)
      | d2d_a \<Rightarrow> Some (nv_d2d C ext w, rv, w)
      | id_a \<Rightarrow> Some (nv_identity C ext w, rv, w)
      | opt_a \<Rightarrow> Some (nv_opt C ext w, rv, w)
      | anneal_a \<Rightarrow> nv_anneal E ext rv w
      | job_a \<Rightarrow> Some (nv_job C nv ext, rv, w)
      | trace_a \<Rightarrow> Some (nv_trace C ext rv w)
      | verbose_a \<Rightarrow> Some (nv_verbose C ext rv w)
      | disconnect_a \<Rightarrow> Some (nv_disconnect ext w)
      | quit_a \<Rightarrow> Some (nv_quit C ext w)
      | status_a \<Rightarrow> nv_status E nv ext rv w
      | stats_a \<Rightarrow> map_option (\<lambda>b. (b, rv, w)) (nv_stats C ext w)
      | kill_a \<Rightarrow> nv_kill E nv ext rv w
      | alive_a \<Rightarrow> Some (nv_alive ext rv w))"

lemmas action_defs = run_action_def nv_quit_def nv_verbose_def nv_trace_def nv_kill_def nv_status_def nv_anneal_def nv_alive_def
  nv_disconnect_def

section \<open>The grammar\<close>

definition space_p :: "char \<Rightarrow> bool" where
  "space_p c \<longleftrightarrow> c \<in> set [CHR '' '', CHR 0x09, CHR 0x0A, CHR 0x0B, CHR 0x0C, CHR 0x0D]"

definition blank_p :: "char \<Rightarrow> bool" where
  "blank_p c \<longleftrightarrow> c = CHR '' '' \<or> c = CHR 0x09"

text \<open>\<open>GET\<close>: the word in any case, spaces before and after, and a slash. The result is the rest of the input.\<close>

definition GET :: "string \<Rightarrow> string option" where
  "GET s =
     (let a = dropWhile space_p s; b = drop 3 a; c = dropWhile space_p b
      in if map to_lower (take 3 a) = ''get'' \<and> c \<noteq> b \<and> take 1 c = ''/'' then Some (drop 1 c) else None)"

definition exts :: "string \<Rightarrow> (string \<times> string) option" where
  "exts s =
     (if take 4 s = ''.xml'' then Some (''xml'', drop 4 s)
      else if take 5 s = ''.html'' then Some (''html'', drop 5 s)
      else if take 4 s = ''.htm'' then Some (''htm'', drop 4 s)
      else None)"

text \<open>\<open>Assign\<close> of a range of characters.\<close>

definition assign_chars :: "string \<Rightarrow> any" where
  "assign_chars s = (if s = ''true'' then AnyBool True else if s = ''false'' then AnyBool False else AnyString s)"

definition value_p :: "spirit_ops \<Rightarrow> string \<Rightarrow> any \<times> string" where
  "value_p P s =
     (case sp_strict_real_p P s of
        Some (x, n) \<Rightarrow> (AnyReal x, drop n s)
      | None \<Rightarrow>
          (case sp_int_p P s of
             Some (i, n) \<Rightarrow> (AnyInt i, drop n s)
           | None \<Rightarrow>
               if take 4 s = ''true'' then (assign_chars ''true'', drop 4 s)
               else if take 5 s = ''false'' then (assign_chars ''false'', drop 5 s)
               else (assign_chars (takeWhile (\<lambda>c. c \<noteq> CHR '','' \<and> c \<noteq> CHR ''&'') s),
                     dropWhile (\<lambda>c. c \<noteq> CHR '','' \<and> c \<noteq> CHR ''&'') s)))"

lemma value_p_shorter: "length (snd (value_p P s)) \<le> length s"
  by (auto simp: value_p_def length_dropWhile_le split: option.split)

text \<open>Values separated by commas.\<close>

function values_p :: "spirit_ops \<Rightarrow> string \<Rightarrow> any list \<times> string" where
  "values_p P s =
     (let (v, r) = value_p P s
      in case r of
           [] \<Rightarrow> ([v], r)
         | c # r1 \<Rightarrow> if c = CHR '','' then (let (vs, r2) = values_p P r1 in (v # vs, r2)) else ([v], r))"
  by pat_completeness auto
termination
proof (relation "measure (\<lambda>(P, s). length s)")
  fix P s and x :: "any \<times> string" and v r c r1
  assume "x = value_p P s" "(v, r) = x" "r = c # r1"
  then show "((P, r1), P, s) \<in> measure (\<lambda>(P, s). length s)" using value_p_shorter [of P s] by (metis (no_types, lifting)
        case_prod_conv impossible_Cons in_measure leI le_trans snd_conv)
qed simp

declare values_p.simps [simp del]

lemma values_p_shorter: "length (snd (values_p P s)) \<le> length s"
proof (induction P s rule: values_p.induct)
  case (1 P s)
  obtain v r where v: "value_p P s = (v, r)" by fastforce
  show ?case
  proof (cases "\<exists>r1. r = CHR '','' # r1")
    case True
    then obtain r1 where r: "r = CHR '','' # r1" by auto
    from 1 [OF v [symmetric] refl r] value_p_shorter [of P s] v r show ?thesis
      by (simp add: values_p.simps [of P s] split: prod.split) (metis Suc_leD le_trans snd_conv)
  next
    case False
    with v value_p_shorter [of P s] show ?thesis by (auto simp: values_p.simps [of P s] split: list.split)
  qed
qed

text \<open>One key with its values. The key is everything up to the equals sign.\<close>

definition kv_item :: "spirit_ops \<Rightarrow> string \<Rightarrow> ((string \<times> any list) \<times> string) option" where
  "kv_item P s =
     (case dropWhile (\<lambda>c. c \<noteq> CHR ''='') s of
        [] \<Rightarrow> None
      | _ # r \<Rightarrow> (let (vs, r1) = values_p P r in Some ((takeWhile (\<lambda>c. c \<noteq> CHR ''='') s, vs), r1)))"

lemma kv_item_shorter: "kv_item P s = Some (kv, r) \<Longrightarrow> length r < length s"
proof -
  assume a: "kv_item P s = Some (kv, r)"
  then obtain c t where d: "dropWhile (\<lambda>c. c \<noteq> CHR ''='') s = c # t" by (auto simp: kv_item_def split: list.splits)
  with a have "r = snd (values_p P t)" by (auto simp: kv_item_def split: prod.splits)
  moreover have "length t < length s" using length_dropWhile_le [of "\<lambda>c. c \<noteq> CHR ''=''" s] d by simp
  ultimately show ?thesis using values_p_shorter [of P t] by simp
qed

text \<open>Keys separated by \<open>&\<close>. A last item without an equals sign is left where it is.\<close>

function kv_p :: "spirit_ops \<Rightarrow> string \<Rightarrow> ((string \<times> any list) list \<times> string) option" where
  "kv_p P s =
     (case kv_item P s of
        None \<Rightarrow> None
      | Some (kv, r) \<Rightarrow>
          (case r of
             [] \<Rightarrow> Some ([kv], r)
           | c # r1 \<Rightarrow>
               if c = CHR ''&'' then
                 (case kv_p P r1 of Some (kvs, r2) \<Rightarrow> Some (kv # kvs, r2) | None \<Rightarrow> Some ([kv], r))
               else Some ([kv], r)))"
  by pat_completeness auto
termination
  by (relation "measure (\<lambda>(P, s). length s)") (auto dest: kv_item_shorter)

declare kv_p.simps [simp del]

definition opts :: "spirit_ops \<Rightarrow> string \<Rightarrow> (string \<times> any list) list option" where
  "opts P s = (if take 1 s = ''?'' then map_option fst (kv_p P (drop 1 s)) else None)"

text \<open>
  What may follow the command word, \<open>exts || opts || space_p\<close>: an extension, options or both, and where there is
  neither, a space. The result is the extension, if any, and the options.
\<close>

definition suffix_p :: "spirit_ops \<Rightarrow> string \<Rightarrow> (string option \<times> (string \<times> any list) list) option" where
  "suffix_p P s =
     (case exts s of
        Some (e, r) \<Rightarrow> Some (Some e, case opts P r of Some kvs \<Rightarrow> kvs | None \<Rightarrow> [])
      | None \<Rightarrow>
          (case opts P s of
             Some kvs \<Rightarrow> Some (None, kvs)
           | None \<Rightarrow> if s \<noteq> [] \<and> space_p (hd s) then Some (None, []) else None))"

text \<open>The names and values the options insert, in their order.\<close>

definition nv_of :: "(string \<times> any list) list \<Rightarrow> many" where
  "nv_of kvs = fold (\<lambda>(k, v). nv_insert k v) (concat (map (\<lambda>(k, vs). map (Pair k) vs) kvs)) []"

text \<open>A line is a command with its extension and its options, or the name of a file.\<close>

datatype command_line = Command Action_t string many | File string

definition parse_line :: "spirit_ops \<Rightarrow> string \<Rightarrow> command_line" where
  "parse_line P buf =
     (let (ext, s) = (case GET buf of Some r \<Rightarrow> (''html'', r) | None \<Rightarrow> (''text'', buf))
      in case Option.bind (sp_symbols P action_table s) (\<lambda>(a, n). map_option (Pair a) (suffix_p P (drop n s))) of
           Some (a, e, kvs) \<Rightarrow> Command a (case e of Some x \<Rightarrow> x | None \<Rightarrow> ext) (nv_of kvs)
         | None \<Rightarrow> File (takeWhile (\<lambda>c. c \<noteq> CHR ''?'' \<and> \<not> blank_p c) s))"

section \<open>process\<close>

text \<open>
  The member \<open>ext\<close> of the object \<open>Action nv_a(nv, action_a, ext, h)\<close>: the string it refers to when \<open>operator()\<close> uses it. The constructor takes
  \<open>ext\<close> by value and binds the member, a reference, to this parameter, which is gone when the constructor has returned; there is
  no string to read. Every command reads it.
\<close>

definition Action_ext :: "string \<Rightarrow> string option" where
  "Action_ext ext = None"

text \<open>\<open>process(buf, h)\<close>. No command makes \<open>process_retval\<close> negative, but the test is there.\<close>

definition process_line ::
  "('x, 'k, 't) cmd_ops \<Rightarrow> ('x, 'k, 't) env \<Rightarrow> string \<Rightarrow> int \<Rightarrow> ('x, 'k, 't) dispatcher
     \<Rightarrow> (int \<times> ('x, 'k, 't) dispatcher) option" where
  "process_line C E buf h w = do {
     (rv, w1) \<leftarrow> (case parse_line (cp_spirit C) buf of
        Command a ext nv \<Rightarrow> do {
          e \<leftarrow> Action_ext ext;
          (report, rv, w1) \<leftarrow> run_action C E a nv e 0 w;
          w2 \<leftarrow> cmd_status E h report w1;
          Some (rv, w2)
        }
      | File name \<Rightarrow> do {
          w1 \<leftarrow> cmd_status E h (send_file C name (outside w)) w;
          Some (0, w1)
        });
     Some (if rv < 0 then (1, w1\<lparr>outside := cp_end_event_loop C (outside w1)\<rparr>) else (rv, w1))
   }"

text \<open>\<open>process(rh, event)\<close>; the handle of \<open>rh\<close> is logged at the end.\<close>

definition CommandParser_process ::
  "('x, 'k, 't) cmd_ops \<Rightarrow> ('x, 'k, 't) env \<Rightarrow> ('x, 'k, 't) xml_parser" where
  "CommandParser_process C E rh event w = do {
     d \<leftarrow> event;
     h \<leftarrow> the_ch rh w;
     (result, w1) \<leftarrow> process_line C E (cp_printable C d) (ch_handle h) (w\<lparr>my_ch := rh\<rparr>);
     _ \<leftarrow> the_ch rh w1;
     Some (result, w1\<lparr>my_ch := 0\<rparr>)
   }"

end
