(* ===== verification/CommandGrammar.thy ===== *)
theory CommandGrammar
  imports CommandParser
begin

text \<open>
  What the grammar accepts: the contract of the library's parsers (locale \<open>spirit\<close>), the printed form of a
  command line, and that parsing it gives the command back. The contract is shown for a number parser and a symbol
  table that compute.
\<close>

section \<open>The parsers of the library\<close>

definition digit_char :: "char \<Rightarrow> bool" where
  "digit_char c \<longleftrightarrow> c \<in> set ''0123456789''"

definition number_start :: "string \<Rightarrow> bool" where
  "number_start s \<longleftrightarrow> s \<noteq> [] \<and> (digit_char (hd s) \<or> hd s \<in> set ''+-.'')"

definition starts :: "string \<Rightarrow> string \<Rightarrow> bool" where
  "starts k s \<longleftrightarrow> take (length k) s = k"

text \<open>
  The symbol table matches the longest of its symbols; \<open>int_p\<close> reads a decimal number in the range of \<open>int\<close> up to the
  first character that is not a digit; \<open>strict_real_p\<close> does not accept a number without a decimal point or an
  exponent.
\<close>

locale spirit =
  fixes P :: spirit_ops
  assumes symbols_longest:
      "distinct (map fst tab) \<Longrightarrow> (k, a) \<in> set tab \<Longrightarrow> starts k s \<Longrightarrow>
       (\<And>k' a'. (k', a') \<in> set tab \<Longrightarrow> starts k' s \<Longrightarrow> length k' \<le> length k) \<Longrightarrow> sp_symbols P tab s = Some (a, length k)"
    and symbols_none: "(\<And>k a. (k, a) \<in> set tab \<Longrightarrow> \<not> starts k s) \<Longrightarrow> sp_symbols P tab s = None"
    and int_printed: "- (2 ^ 31) \<le> i \<Longrightarrow> i < 2 ^ 31 \<Longrightarrow> r = [] \<or> \<not> digit_char (hd r) \<Longrightarrow>
       sp_int_p P (lexical_cast i @ r) = Some (i, length (lexical_cast i))"
    and real_has_point: "r = [] \<or> hd r \<in> set '',& '' \<Longrightarrow> sp_strict_real_p P (lexical_cast i @ r) = None"
    and no_number: "\<not> number_start s \<Longrightarrow> sp_int_p P s = None" "\<not> number_start s \<Longrightarrow> sp_strict_real_p P s = None"

section \<open>Printed command lines\<close>

fun show_value :: "any \<Rightarrow> string" where
  "show_value (AnyInt i) = lexical_cast i"
| "show_value (AnyBool b) = (if b then ''true'' else ''false'')"
| "show_value (AnyString s) = s"
| "show_value (AnyReal x) = []"

text \<open>The values a command line can carry as they are: no real numbers, no strings that read as something else.\<close>

fun plain_value :: "any \<Rightarrow> bool" where
  "plain_value (AnyInt i) \<longleftrightarrow> - (2 ^ 31) \<le> i \<and> i < 2 ^ 31"
| "plain_value (AnyBool b) \<longleftrightarrow> True"
| "plain_value (AnyString s) \<longleftrightarrow>
     (\<forall>c \<in> set s. c \<noteq> CHR '','' \<and> c \<noteq> CHR ''&'') \<and> \<not> number_start s \<and> \<not> starts ''true'' s \<and> \<not> starts ''false'' s"
| "plain_value (AnyReal x) \<longleftrightarrow> False"

fun show_values :: "any list \<Rightarrow> string" where
  "show_values [] = []"
| "show_values [v] = show_value v"
| "show_values (v # vs) = show_value v @ CHR '','' # show_values vs"

definition show_kv :: "string \<times> any list \<Rightarrow> string" where
  "show_kv kv = fst kv @ CHR ''='' # show_values (snd kv)"

fun show_kvs :: "(string \<times> any list) list \<Rightarrow> string" where
  "show_kvs [] = []"
| "show_kvs [kv] = show_kv kv"
| "show_kvs (kv # kvs) = show_kv kv @ CHR ''&'' # show_kvs kvs"

definition plain_kv :: "string \<times> any list \<Rightarrow> bool" where
  "plain_kv kv \<longleftrightarrow> (\<forall>c \<in> set (fst kv). c \<noteq> CHR ''='') \<and> snd kv \<noteq> [] \<and> (\<forall>v \<in> set (snd kv). plain_value v)"

text \<open>A command line, or a request for the command: the path of the request is followed by the version of the protocol.\<close>

definition http_version :: string where
  "http_version = '' HTTP/1.1''"

definition show_line :: "bool \<Rightarrow> string \<Rightarrow> string option \<Rightarrow> (string \<times> any list) list \<Rightarrow> string" where
  "show_line get word e kvs =
     (if get then ''GET /'' else []) @ word @ (case e of Some x \<Rightarrow> CHR ''.'' # x | None \<Rightarrow> [])
     @ (if kvs = [] then [] else CHR ''?'' # show_kvs kvs) @ (if get then http_version else if kvs = [] then '' '' else [])"

text \<open>
  What is read when the text \<open>t\<close> follows the options: a string goes on up to the next separator, so that the last value, if it is
  a string, has \<open>t\<close> at its end.
\<close>

fun attach :: "string \<Rightarrow> any \<Rightarrow> any" where
  "attach t (AnyString s) = AnyString (s @ t)"
| "attach t v = v"

definition on_last :: "('a \<Rightarrow> 'a) \<Rightarrow> 'a list \<Rightarrow> 'a list" where
  "on_last f xs = (if xs = [] then [] else butlast xs @ [f (last xs)])"

definition as_read :: "string \<Rightarrow> (string \<times> any list) list \<Rightarrow> (string \<times> any list) list" where
  "as_read t kvs = on_last (\<lambda>(k, vs). (k, on_last (attach t) vs)) kvs"

lemma on_last_simps [simp]: "on_last f [] = []" "on_last f [x] = [f x]" "on_last f (x # y # xs) = x # on_last f (y # xs)"
  by (simp_all add: on_last_def)

lemma attach_nothing [simp]: "attach [] v = v"
  by (cases v) simp_all

lemma as_read_nothing [simp]: "as_read [] kvs = kvs"
proof -
  have i: "(\<And>x. f x = x) \<Longrightarrow> on_last f xs = xs" for f :: "'b \<Rightarrow> 'b" and xs by (simp add: on_last_def)
  have "on_last (attach []) vs = vs" for vs by (rule i) simp
  then show ?thesis unfolding as_read_def by (intro i) (auto split: prod.split)
qed

section \<open>Values and options\<close>

lemma digit_of: "n < 10 \<Longrightarrow> digit_char (char_of (48 + n :: nat))"
proof -
  have "list_all (\<lambda>n. digit_char (char_of (48 + n :: nat))) [0..<10]" by code_simp
  then show "n < 10 \<Longrightarrow> ?thesis" by (simp add: list_all_iff)
qed

declare digits.simps [simp del]

lemma digits_digits: "digits n \<noteq> []" "\<forall>c \<in> set (digits n). digit_char c"
  by (induction n rule: digits.induct; subst digits.simps; simp add: digit_of)+

lemma cast_start: "number_start (lexical_cast i @ r)"
  using digits_digits [of "nat i"] hd_in_set [of "digits (nat i)"] by (auto simp: lexical_cast_def number_start_def)

text \<open>The rest after a value.\<close>

definition value_end :: "string \<Rightarrow> bool" where
  "value_end r \<longleftrightarrow> r = [] \<or> hd r = CHR '','' \<or> hd r = CHR ''&''"

lemma value_end_facts:
  "value_end r \<Longrightarrow> takeWhile (\<lambda>c. c \<noteq> CHR '','' \<and> c \<noteq> CHR ''&'') r = []"
  "value_end r \<Longrightarrow> dropWhile (\<lambda>c. c \<noteq> CHR '','' \<and> c \<noteq> CHR ''&'') r = r"
  "value_end r \<Longrightarrow> r = [] \<or> hd r \<in> set '',& ''"
  "value_end r \<Longrightarrow> r = [] \<or> \<not> digit_char (hd r)"
  "value_end r \<Longrightarrow> \<not> number_start r"
  by (cases r; auto simp: value_end_def digit_char_def number_start_def)+

lemma starts_simps [simp]: "starts [] s" "starts (c # k) [] = False" "starts (c # k) (d # s) \<longleftrightarrow> c = d \<and> starts k s"
  by (auto simp: starts_def)

lemma starts_append: "starts k (k @ r)"
  by (simp add: starts_def)

lemma take_starts: "take 4 s = ''true'' \<longleftrightarrow> starts ''true'' s" "take 5 s = ''false'' \<longleftrightarrow> starts ''false'' s"
  by (simp_all add: starts_def eval_nat_numeral)

text \<open>What reads as a boolean does so in the string itself, as what follows does not begin with a letter.\<close>

lemma starts_value:
  assumes "starts k (s @ r)" and "r = [] \<or> hd r \<notin> set k"
  shows "starts k s"
  using assms
proof (induction k arbitrary: s)
  case (Cons c k)
  then show ?case by (cases s; cases r) auto
qed simp

text \<open>The rest of the line after the options.\<close>

definition line_end :: "string \<Rightarrow> bool" where
  "line_end t \<longleftrightarrow> t = [] \<or> hd t = CHR '' '' \<and> (\<forall>c \<in> set t. c \<noteq> CHR '','' \<and> c \<noteq> CHR ''&'')"

lemma line_end_version [simp]: "line_end []" "line_end http_version"
  by (simp_all add: line_end_def http_version_def)

lemma line_end_facts:
  "line_end t \<Longrightarrow> t = [] \<or> hd t \<in> set '',& ''" "line_end t \<Longrightarrow> t = [] \<or> \<not> digit_char (hd t)" "line_end t \<Longrightarrow> \<not> number_start t"
  "line_end t \<Longrightarrow> takeWhile (\<lambda>c. c \<noteq> CHR '','' \<and> c \<noteq> CHR ''&'') t = t"
  "line_end t \<Longrightarrow> dropWhile (\<lambda>c. c \<noteq> CHR '','' \<and> c \<noteq> CHR ''&'') t = []"
proof -
  assume "line_end t"
  then show "t = [] \<or> hd t \<in> set '',& ''" "t = [] \<or> \<not> digit_char (hd t)" "\<not> number_start t"
    by (cases t; simp add: line_end_def digit_char_def number_start_def)+
  show "takeWhile (\<lambda>c. c \<noteq> CHR '','' \<and> c \<noteq> CHR ''&'') t = t" "dropWhile (\<lambda>c. c \<noteq> CHR '','' \<and> c \<noteq> CHR ''&'') t = []"
    using \<open>line_end t\<close> by (auto simp: line_end_def takeWhile_eq_all_conv)
qed

context spirit
begin

lemma value_text:
  "\<not> number_start s \<Longrightarrow> value_p P s =
    (if starts ''true'' s then (AnyBool True, drop 4 s)
     else if starts ''false'' s then (AnyBool False, drop 5 s)
     else (assign_chars (takeWhile (\<lambda>c. c \<noteq> CHR '','' \<and> c \<noteq> CHR ''&'') s),
           dropWhile (\<lambda>c. c \<noteq> CHR '','' \<and> c \<noteq> CHR ''&'') s))"
  by (simp add: value_p_def no_number take_starts assign_chars_def)

lemma string_value:
  assumes "plain_value (AnyString s)" and "value_end r"
  shows "value_p P (s @ r) = (AnyString s, r)"
proof -
  have n: "\<not> number_start (s @ r)" using assms value_end_facts(5) [of r] by (cases s) (auto simp: number_start_def)
  have nb: "\<not> starts ''true'' s" "\<not> starts ''false'' s" using assms(1) unfolding plain_value.simps by blast+
  have "r = [] \<or> hd r \<notin> set k" if "k = ''true'' \<or> k = ''false''" for k using that assms(2) by (auto simp: value_end_def)
  then have b: "\<not> starts ''true'' (s @ r)" "\<not> starts ''false'' (s @ r)" using nb starts_value [of _ s r] by blast+
  have "s \<noteq> ''true''" "s \<noteq> ''false''" using nb starts_append [of _ "[]"] by (metis append_Nil2)+
  moreover have "takeWhile (\<lambda>c. c \<noteq> CHR '','' \<and> c \<noteq> CHR ''&'') (s @ r) = s"
    "dropWhile (\<lambda>c. c \<noteq> CHR '','' \<and> c \<noteq> CHR ''&'') (s @ r) = r"
    using assms value_end_facts(1,2) [OF assms(2)] by (simp_all add: takeWhile_append dropWhile_append)
  ultimately show ?thesis using b by (simp add: value_text [OF n] assign_chars_def)
qed

lemma value_roundtrip:
  assumes "plain_value v" and "value_end r"
  shows "value_p P (show_value v @ r) = (v, r)"
proof (cases v)
  case (AnyBool b)
  have "\<not> number_start (show_value v @ r)" using AnyBool by (simp add: number_start_def digit_char_def)
  from value_text [OF this] AnyBool show ?thesis by simp
next
  case (AnyInt i)
  with assms show ?thesis
    by (simp add: value_p_def int_printed [OF _ _ value_end_facts(4)] real_has_point [OF value_end_facts(3)])
next
  case (AnyString s)
  with assms string_value show ?thesis by simp
qed (use assms in simp)

lemma values_roundtrip:
  "vs \<noteq> [] \<Longrightarrow> \<forall>v \<in> set vs. plain_value v \<Longrightarrow> r = [] \<or> hd r = CHR ''&'' \<Longrightarrow> values_p P (show_values vs @ r) = (vs, r)"
proof (induction vs rule: show_values.induct)
  case (2 v)
  then have "value_p P (show_value v @ r) = (v, r)" by (intro value_roundtrip) (auto simp: value_end_def)
  with 2 show ?case by (cases r) (simp_all add: values_p.simps)
next
  case (3 v v' vs)
  have "value_p P (show_value v @ CHR '','' # show_values (v' # vs) @ r) = (v, CHR '','' # show_values (v' # vs) @ r)"
    using 3 by (intro value_roundtrip) (auto simp: value_end_def)
  with 3 show ?case by (subst values_p.simps) simp
qed simp

lemma kv_roundtrip:
  assumes "plain_kv kv" and "r = [] \<or> hd r = CHR ''&''"
  shows "kv_item P (show_kv kv @ r) = Some (kv, r)"
proof -
  obtain k vs where kv: "kv = (k, vs)" by fastforce
  have "takeWhile (\<lambda>c. c \<noteq> CHR ''='') (k @ CHR ''='' # s) = k" "dropWhile (\<lambda>c. c \<noteq> CHR ''='') (k @ CHR ''='' # s) = CHR ''='' # s" for s
    using assms(1) kv by (simp_all add: takeWhile_append dropWhile_append plain_kv_def)
  then show ?thesis using assms kv by (simp add: kv_item_def show_kv_def values_roundtrip plain_kv_def)
qed

lemma last_value:
  assumes "plain_value v" and "line_end t"
  shows "\<exists>r. value_p P (show_value v @ t) = (attach t v, r) \<and> (r = [] \<or> hd r = CHR '' '')"
proof (cases v)
  case (AnyBool b)
  have "\<not> number_start (show_value v @ t)" using AnyBool by (simp add: number_start_def digit_char_def)
  from value_text [OF this] AnyBool assms(2) show ?thesis by (auto simp: line_end_def)
next
  case (AnyInt i)
  with assms show ?thesis
    by (auto simp: value_p_def int_printed [OF _ _ line_end_facts(2)] real_has_point [OF line_end_facts(1)] line_end_def)
next
  case (AnyString s)
  have n: "\<not> number_start (s @ t)" using assms AnyString line_end_facts(3) [of t] by (cases s) (auto simp: number_start_def)
  have nb: "\<not> starts ''true'' s" "\<not> starts ''false'' s" using assms(1) unfolding AnyString plain_value.simps by blast+
  have "t = [] \<or> hd t = CHR '' ''" using assms(2) unfolding line_end_def by blast
  then have "t = [] \<or> hd t \<notin> set ''true''" "t = [] \<or> hd t \<notin> set ''false''" by auto
  then have b: "\<not> starts ''true'' (s @ t)" "\<not> starts ''false'' (s @ t)"
    using nb starts_value [of "''true''" s t] starts_value [of "''false''" s t] by blast+
  then have "s @ t \<noteq> ''true''" "s @ t \<noteq> ''false''" using starts_append [of _ "[]"] by (metis append_Nil2)+
  then have a: "assign_chars (s @ t) = AnyString (s @ t)" by (simp add: assign_chars_def)
  have tw: "takeWhile (\<lambda>c. c \<noteq> CHR '','' \<and> c \<noteq> CHR ''&'') (s @ t) = s @ t"
    "dropWhile (\<lambda>c. c \<noteq> CHR '','' \<and> c \<noteq> CHR ''&'') (s @ t) = []"
    using assms AnyString line_end_facts(4,5) [OF assms(2)] by (simp_all add: takeWhile_append dropWhile_append)
  have "value_p P (s @ t) = (AnyString (s @ t), [])" using b by (simp only: value_text [OF n] tw a if_False)
  then show ?thesis using AnyString by simp
qed (use assms in simp)

lemma values_last:
  "vs \<noteq> [] \<Longrightarrow> \<forall>v \<in> set vs. plain_value v \<Longrightarrow> line_end t \<Longrightarrow>
    \<exists>r. values_p P (show_values vs @ t) = (on_last (attach t) vs, r) \<and> (r = [] \<or> hd r = CHR '' '')"
proof (induction vs rule: show_values.induct)
  case (2 v)
  then have "plain_value v" by simp
  from last_value [OF this 2(3)] obtain r where "value_p P (show_value v @ t) = (attach t v, r)" "r = [] \<or> hd r = CHR '' ''" by blast
  then show ?case by (subst show_values.simps, subst values_p.simps) (cases r; auto)
next
  case (3 v v' vs)
  have "value_p P (show_value v @ CHR '','' # show_values (v' # vs) @ t) = (v, CHR '','' # show_values (v' # vs) @ t)"
    using 3 by (intro value_roundtrip) (auto simp: value_end_def)
  moreover obtain r where "values_p P (show_values (v' # vs) @ t) = (on_last (attach t) (v' # vs), r)" "r = [] \<or> hd r = CHR '' ''"
    using 3 by auto
  ultimately show ?case by (subst values_p.simps) simp
qed simp

lemma kv_last:
  assumes "plain_kv kv" and "line_end t"
  shows "\<exists>r. kv_item P (show_kv kv @ t) = Some ((fst kv, on_last (attach t) (snd kv)), r) \<and> (r = [] \<or> hd r = CHR '' '')"
proof -
  obtain k vs where kv: "kv = (k, vs)" by fastforce
  have "takeWhile (\<lambda>c. c \<noteq> CHR ''='') (k @ CHR ''='' # s) = k" "dropWhile (\<lambda>c. c \<noteq> CHR ''='') (k @ CHR ''='' # s) = CHR ''='' # s" for s
    using assms(1) kv by (simp_all add: takeWhile_append dropWhile_append plain_kv_def)
  moreover obtain r where "values_p P (show_values vs @ t) = (on_last (attach t) vs, r)" "r = [] \<or> hd r = CHR '' ''"
    using values_last [of vs t] assms kv by (auto simp: plain_kv_def)
  ultimately show ?thesis using kv by (simp add: kv_item_def show_kv_def)
qed

lemma kvs_roundtrip:
  "kvs \<noteq> [] \<Longrightarrow> \<forall>kv \<in> set kvs. plain_kv kv \<Longrightarrow> line_end t \<Longrightarrow> \<exists>r. kv_p P (show_kvs kvs @ t) = Some (as_read t kvs, r)"
proof (induction kvs rule: show_kvs.induct)
  case (2 kv)
  then obtain r where "kv_item P (show_kv kv @ t) = Some ((fst kv, on_last (attach t) (snd kv)), r)" "r = [] \<or> hd r = CHR '' ''"
    using kv_last [of kv t] by auto
  then show ?case by (cases r; cases kv) (simp_all add: kv_p.simps as_read_def)
next
  case (3 kv kv' kvs)
  then obtain r where r: "kv_p P (show_kvs (kv' # kvs) @ t) = Some (as_read t (kv' # kvs), r)" by auto
  with 3 kv_roundtrip [of kv "CHR ''&'' # show_kvs (kv' # kvs) @ t"] show ?case
    by (subst kv_p.simps) (auto simp: as_read_def)
qed simp

lemma suffix_roundtrip:
  assumes "e \<in> {None, Some ''xml'', Some ''html'', Some ''htm''}" and "\<forall>kv \<in> set kvs. plain_kv kv" and "line_end t" and "kvs = [] \<Longrightarrow> t \<noteq> []"
  shows "suffix_p P ((case e of Some x \<Rightarrow> CHR ''.'' # x | None \<Rightarrow> []) @ (if kvs = [] then [] else CHR ''?'' # show_kvs kvs) @ t)
    = Some (e, as_read t kvs)"
proof -
  define u where "u = (if kvs = [] then [] else CHR ''?'' # show_kvs kvs) @ t"
  have blank: "kvs = [] \<Longrightarrow> u \<noteq> [] \<and> hd u = CHR '' ''" using assms(3,4) by (auto simp: u_def line_end_def)
  have "opts P u = (if kvs = [] then None else Some (as_read t kvs))"
  proof (cases "kvs = []")
    case True
    with blank show ?thesis by (cases u) (auto simp: opts_def)
  next
    case False
    with kvs_roundtrip [OF False assms(2,3)] show ?thesis by (auto simp: opts_def u_def)
  qed
  moreover have hd_u: "u \<noteq> []" "hd u = CHR ''?'' \<or> hd u = CHR '' ''" using blank by (cases "kvs = []"; auto simp: u_def)+
  then have "exts u = None" by (cases u) (auto simp: exts_def)
  moreover have x: "exts (CHR ''.'' # ''xml'' @ u) = Some (''xml'', u)" "exts (CHR ''.'' # ''html'' @ u) = Some (''html'', u)"
    "exts (CHR ''.'' # ''htm'' @ u) = (if starts ''l'' u then Some (''html'', drop 1 u) else Some (''htm'', u))"
    by (simp_all add: exts_def starts_def take_Cons')
  have "\<not> starts ''l'' u" using hd_u by (cases u) auto
  with x have "e = Some y \<Longrightarrow> exts (CHR ''.'' # y @ u) = Some (y, u)" for y using assms(1) by auto
  moreover have "kvs = [] \<Longrightarrow> as_read t kvs = []" "kvs = [] \<Longrightarrow> space_p (hd u)" using blank by (simp_all add: as_read_def space_p_def)
  ultimately show ?thesis unfolding u_def [symmetric] using hd_u(1) by (cases e) (auto simp: suffix_p_def)
qed

end

section \<open>Command words\<close>

definition word_char :: "char \<Rightarrow> bool" where
  "word_char c \<longleftrightarrow> c \<in> set ''abcdefghijklmnopqrstuvwxyz_''"

lemma table_words:
  "distinct (map fst action_table)" "(k, a) \<in> set action_table \<Longrightarrow> k \<noteq> [] \<and> list_all word_char k \<and> hd k \<noteq> CHR ''g''"
proof -
  have "list_all (\<lambda>(k, a). k \<noteq> [] \<and> list_all word_char k \<and> hd k \<noteq> CHR ''g'') action_table" by code_simp
  then show "(k, a) \<in> set action_table \<Longrightarrow> k \<noteq> [] \<and> list_all word_char k \<and> hd k \<noteq> CHR ''g''"
    by (auto simp: list_all_iff)
qed (simp add: action_table_def)

lemma starts_word:
  "starts k (s @ r) \<Longrightarrow> list_all word_char k \<Longrightarrow> r = [] \<or> \<not> word_char (hd r) \<Longrightarrow> length k \<le> length s"
proof (induction k arbitrary: s)
  case (Cons c k)
  then show ?case by (cases s; cases r) auto
qed simp

lemma word_chars: "word_char c \<Longrightarrow> \<not> space_p c \<and> \<not> blank_p c \<and> c \<noteq> CHR ''?'' \<and> (c \<noteq> CHR ''g'' \<longrightarrow> to_lower c \<noteq> CHR ''g'')"
proof -
  have "list_all (\<lambda>c. \<not> space_p c \<and> \<not> blank_p c \<and> c \<noteq> CHR ''?'' \<and> (c \<noteq> CHR ''g'' \<longrightarrow> to_lower c \<noteq> CHR ''g''))
    ''abcdefghijklmnopqrstuvwxyz_''" by code_simp
  then show "word_char c \<Longrightarrow> ?thesis" unfolding list_all_iff word_char_def by blast
qed

lemma GET_none: "s \<noteq> [] \<Longrightarrow> word_char (hd s) \<Longrightarrow> hd s \<noteq> CHR ''g'' \<Longrightarrow> GET s = None"
  by (cases s) (use word_chars in \<open>auto simp: GET_def Let_def\<close>)

lemma GET_some: "s \<noteq> [] \<Longrightarrow> GET (''GET /'' @ s) = Some s"
proof -
  have "map to_lower ''GET'' = ''get''" by code_simp
  then show "GET (''GET /'' @ s) = Some s" by (simp add: GET_def space_p_def)
qed

context spirit
begin

lemma word_match:
  assumes "(word, a) \<in> set action_table" and "r = [] \<or> \<not> word_char (hd r)"
  shows "sp_symbols P action_table (word @ r) = Some (a, length word)"
  by (rule symbols_longest [OF table_words(1) assms(1) starts_append]) (use assms(2) table_words(2) starts_word in blast)

lemma parse_shown:
  assumes "(word, a) \<in> set action_table" and "e \<in> {None, Some ''xml'', Some ''html'', Some ''htm''}"
    and "\<forall>kv \<in> set kvs. plain_kv kv"
  shows "parse_line P (show_line get word e kvs) =
    Command a (case e of Some x \<Rightarrow> x | None \<Rightarrow> if get then ''html'' else ''text'') (nv_of (as_read (if get then http_version else []) kvs))"
proof -
  let ?t = "if get then http_version else if kvs = [] then '' '' else []"
  let ?r = "(case e of Some x \<Rightarrow> CHR ''.'' # x | None \<Rightarrow> []) @ (if kvs = [] then [] else CHR ''?'' # show_kvs kvs) @ ?t"
  have t: "line_end ?t" "kvs = [] \<Longrightarrow> ?t \<noteq> []" by (simp_all add: http_version_def line_end_def)
  have w: "word \<noteq> []" "word_char (hd word)" "hd word \<noteq> CHR ''g''"
    using table_words(2) [OF assms(1)] by (auto simp: list_all_iff)
  have "\<not> word_char (hd ?r)" by (auto simp: word_char_def http_version_def split: option.split)
  then have m: "sp_symbols P action_table (word @ ?r) = Some (a, length word)" by (intro word_match assms(1)) blast
  have g: "(case GET (show_line get word e kvs) of Some s \<Rightarrow> (''html'', s) | None \<Rightarrow> (''text'', show_line get word e kvs))
      = (if get then ''html'' else ''text'', word @ ?r)"
    using w GET_some [of "word @ ?r"] GET_none [of "word @ ?r"] by (cases get) (simp_all add: show_line_def)
  have "as_read ?t kvs = as_read (if get then http_version else []) kvs" by (simp add: as_read_def)
  then show ?thesis using suffix_roundtrip [OF assms(2,3) t] by (simp add: parse_line_def g m split: option.split)
qed

lemma bare_word:
  assumes "(word, a) \<in> set action_table"
  shows "parse_line P word = File word"
proof -
  have w: "word \<noteq> []" "word_char (hd word)" "hd word \<noteq> CHR ''g''" "list_all word_char word"
    using table_words(2) [OF assms(1)] by (auto simp: list_all_iff)
  have "takeWhile (\<lambda>c. c \<noteq> CHR ''?'' \<and> \<not> blank_p c) word = word"
    using w(4) word_chars by (auto simp: takeWhile_eq_all_conv list_all_iff)
  moreover have "suffix_p P [] = None" by (simp add: suffix_p_def exts_def opts_def)
  ultimately show ?thesis using word_match [OF assms, of "[]"] GET_none [OF w(1-3)] by (simp add: parse_line_def)
qed

end

section \<open>Parsers that keep the contract\<close>

fun best_symbol :: "(string \<times> Action_t) list \<Rightarrow> string \<Rightarrow> (Action_t \<times> nat) option" where
  "best_symbol [] s = None"
| "best_symbol ((k, a) # tab) s =
     (case best_symbol tab s of
        Some (b, n) \<Rightarrow> if starts k s \<and> n < length k then Some (a, length k) else Some (b, n)
      | None \<Rightarrow> if starts k s then Some (a, length k) else None)"

definition split_sign :: "string \<Rightarrow> string \<times> string" where
  "split_sign s = (if s \<noteq> [] \<and> hd s \<in> set ''+-'' then (take 1 s, drop 1 s) else ([], s))"

definition digits_value :: "string \<Rightarrow> nat" where
  "digits_value ds = foldl (\<lambda>v c. 10 * v + (of_char c - 48)) 0 ds"

definition read_int :: "string \<Rightarrow> (int \<times> nat) option" where
  "read_int s =
     (let (sg, t) = split_sign s; ds = takeWhile digit_char t;
          v = (if sg = ''-'' then - int (digits_value ds) else int (digits_value ds))
      in if ds = [] \<or> v < - (2 ^ 31) \<or> 2 ^ 31 \<le> v then None else Some (v, length sg + length ds))"

definition read_real :: "string \<Rightarrow> (real \<times> nat) option" where
  "read_real s =
     (let (sg, t) = split_sign s; ds = takeWhile digit_char t; u = dropWhile digit_char t;
          fs = takeWhile digit_char (drop 1 u);
          v = real (digits_value ds) + real (digits_value fs) / 10 ^ length fs
      in if take 1 u \<noteq> ''.'' \<or> ds = [] \<and> fs = [] then None
         else Some (if sg = ''-'' then - v else v, length sg + length ds + 1 + length fs))"

definition example_spirit :: spirit_ops where
  "example_spirit = \<lparr>sp_strict_real_p = read_real, sp_int_p = read_int, sp_symbols = best_symbol\<rparr>"

lemma best_symbol_None: "best_symbol tab s = None \<longleftrightarrow> (\<forall>(k, a) \<in> set tab. \<not> starts k s)"
  by (induction tab s rule: best_symbol.induct) (auto split: option.splits)

lemma best_symbol_Some:
  "best_symbol tab s = Some (a, n) \<Longrightarrow> (\<exists>k. (k, a) \<in> set tab \<and> starts k s \<and> n = length k) \<and>
    (\<forall>(k, b) \<in> set tab. starts k s \<longrightarrow> length k \<le> n)"
proof (induction tab s arbitrary: a n rule: best_symbol.induct)
  case (2 k b tab s)
  show ?case
  proof (cases "best_symbol tab s")
    case None
    with 2 show ?thesis by (auto simp: best_symbol_None split: if_splits)
  next
    case (Some r)
    with 2 show ?thesis by (cases r) (fastforce split: if_splits)
  qed
qed simp

lemma best_symbol_longest:
  assumes "distinct (map fst tab)" and "(k, a) \<in> set tab" and "starts k s"
    and "\<And>k' a'. (k', a') \<in> set tab \<Longrightarrow> starts k' s \<Longrightarrow> length k' \<le> length k"
  shows "best_symbol tab s = Some (a, length k)"
proof -
  obtain b n where b: "best_symbol tab s = Some (b, n)"
    using assms(2,3) best_symbol_None [of tab s] by (cases "best_symbol tab s") auto
  then obtain k' where k': "(k', b) \<in> set tab" "starts k' s" "n = length k'" "length k \<le> length k'"
    using best_symbol_Some [OF b] assms(2,3) by fastforce
  then have "length k' = length k" using assms(4) [of k' b] by simp
  then have "k' = k" using k'(2) assms(3) by (simp add: starts_def)
  with k' assms(1,2) b show ?thesis using eq_key_imp_eq_value by fastforce
qed

lemma digit_values: "n < 10 \<Longrightarrow> of_char (char_of (48 + n :: nat)) = 48 + n"
  by simp

lemma digits_value_digits: "digits_value (digits n) = n"
proof (induction n rule: digits.induct)
  case (1 n)
  then show ?case by (subst digits.simps) (auto simp: digits_value_def)
qed

lemma split_sign_cast:
  "split_sign (lexical_cast i @ r) = (if i < 0 then ''-'' else [], digits (nat \<bar>i\<bar>) @ r)"
proof (cases "i < 0")
  case False
  have "digit_char (hd (digits (nat i)))" using digits_digits [of "nat i"] hd_in_set by blast
  moreover have "digit_char c \<Longrightarrow> c \<notin> set ''+-''" for c by (auto simp: digit_char_def)
  ultimately show ?thesis using False digits_digits(1) [of "nat i"] by (simp add: split_sign_def lexical_cast_def)
qed (simp add: split_sign_def lexical_cast_def)

lemma take_digits:
  "r = [] \<or> \<not> digit_char (hd r) \<Longrightarrow> takeWhile digit_char (digits n @ r) = digits n"
  "r = [] \<or> \<not> digit_char (hd r) \<Longrightarrow> dropWhile digit_char (digits n @ r) = r"
  using digits_digits(2) [of n] by (cases r; simp add: takeWhile_append dropWhile_append)+

lemma not_number:
  "\<not> number_start s \<Longrightarrow> split_sign s = ([], s) \<and> takeWhile digit_char s = [] \<and> dropWhile digit_char s = s \<and> take (Suc 0) s \<noteq> ''.''"
  by (cases s) (auto simp: number_start_def split_sign_def)

interpretation example_grammar: spirit example_spirit
proof
  fix i :: int and r
  assume i: "- (2 ^ 31) \<le> i" "i < 2 ^ 31" and r: "r = [] \<or> \<not> digit_char (hd r)"
  show "sp_int_p example_spirit (lexical_cast i @ r) = Some (i, length (lexical_cast i))"
    using i by (simp add: example_spirit_def read_int_def split_sign_cast take_digits [OF r] digits_value_digits digits_digits)
      (auto simp: lexical_cast_def Let_def digits_value_digits)
next
  fix i :: int and r
  assume "r = [] \<or> hd r \<in> set '',& ''"
  then have r: "r = [] \<or> \<not> digit_char (hd r)" "take 1 r \<noteq> ''.''" by (cases r; auto simp: digit_char_def)+
  then show "sp_strict_real_p example_spirit (lexical_cast i @ r) = None"
    by (simp add: example_spirit_def read_real_def split_sign_cast take_digits [OF r(1)] Let_def)
qed (auto simp: example_spirit_def best_symbol_longest best_symbol_None read_int_def read_real_def not_number Let_def)

section \<open>Properties\<close>

text \<open>
  C38. Round trip of the command language: a command word with an extension, and options whose values are whole
  numbers in the range of \<open>int\<close>, booleans or strings that do not read as something else, is parsed as exactly that
  command, with that extension and these options, as a line on the command channel. In a request, where the version of the protocol follows
  the path, the same is read but for the last value: if it is a string, it goes on to the end of the line (\<open>as_read\<close>), as strings end at
  a comma or an ampersand only.
\<close>

theorem command_line_roundtrip:
  assumes "spirit P" and "(word, a) \<in> set action_table"
    and "e \<in> {None, Some ''xml'', Some ''html'', Some ''htm''}" and "\<forall>kv \<in> set kvs. plain_kv kv"
  shows "parse_line P (show_line False word e kvs) = Command a (case e of Some x \<Rightarrow> x | None \<Rightarrow> ''text'') (nv_of kvs) \<and>
    parse_line P (show_line True word e kvs) = Command a (case e of Some x \<Rightarrow> x | None \<Rightarrow> ''html'') (nv_of (as_read '' HTTP/1.1'' kvs))"
  using spirit.parse_shown [OF assms, of False] spirit.parse_shown [OF assms, of True]
  by (simp only: if_True if_False as_read_nothing http_version_def)

theorem command_line_roundtrip_witness:
  "parse_line example_spirit ''kill.xml?job=3,-4&name=x'' =
    Command kill_a ''xml'' [(''job'', AnyInt 3), (''job'', AnyInt (- 4)), (''name'', AnyString ''x'')] \<and>
   parse_line example_spirit ''GET /kill.xml?job=3,-4&name=x HTTP/1.1'' =
    Command kill_a ''xml'' [(''job'', AnyInt 3), (''job'', AnyInt (- 4)), (''name'', AnyString ''x HTTP/1.1'')]"
proof -
  let ?kvs = "[(''job'', [AnyInt 3, AnyInt (- 4)]), (''name'', [AnyString ''x''])]"
  have l: "show_line False ''kill'' (Some ''xml'') ?kvs = ''kill.xml?job=3,-4&name=x''"
    "show_line True ''kill'' (Some ''xml'') ?kvs = ''GET /kill.xml?job=3,-4&name=x HTTP/1.1''" by code_simp+
  have n: "nv_of ?kvs = [(''job'', AnyInt 3), (''job'', AnyInt (- 4)), (''name'', AnyString ''x'')]"
    "nv_of (as_read '' HTTP/1.1'' ?kvs) = [(''job'', AnyInt 3), (''job'', AnyInt (- 4)), (''name'', AnyString ''x HTTP/1.1'')]" by code_simp+
  have k: "\<forall>kv \<in> set ?kvs. plain_kv kv" "(''kill'', kill_a) \<in> set action_table"
    by (simp_all add: plain_kv_def number_start_def digit_char_def action_table_def)
  from command_line_roundtrip [OF example_grammar.spirit_axioms k(2) _ k(1), of "Some ''xml''"] show ?thesis
    unfolding l n by simp
qed

end
