(* ===== verification/CommandChannel.thy ===== *)
theory CommandChannel
  imports CommandGrammar
begin

text \<open>
  The command channel as a whole: no command leaves a dangling address in the tables, so the command parser of
  the model meets what \<open>TableSafety\<close> asks of it; the kill command reaches the models of its job; only \<open>disconnect\<close> and
  \<open>quit\<close> ask for the channel to be closed; and what the code does not check. The statements about commands are about the functions of the commands: the
  object through which \<open>process\<close> calls them reads a destroyed string (\<open>command_lines_undefined\<close>).
\<close>

section \<open>Commands keep the tables\<close>

lemma command_fields [simp]:
  "heap_ok (w\<lparr>my_ch := p\<rparr>) = heap_ok w" "heap_ok (w\<lparr>cmd_debug := b\<rparr>) = heap_ok w"
  "the_ch p (w\<lparr>my_ch := q\<rparr>) = the_ch p w" "the_rec rp (w\<lparr>my_ch := q\<rparr>) = the_rec rp w"
  by (simp_all add: heap_ok_def linked_def owns_def the_ch_def the_rec_def)

lemma ctrl_type: "has_type (eh_hdr (ctrl_header E j d i type flags)) t \<longleftrightarrow> type = t"
  by (auto simp: ctrl_header_def has_type_def Let_def type_code_inj)

lemma ends_True [simp]: "ends (\<lambda>r. True) m"
  by (simp add: ends_def)

lemmas ends_reports = ends_get [where m = "table_handlers rps w" for rps w] ends_get [where m = "status_lines S b ps w" for S b ps w]
  ends_get [where m = "served_transceiver w" for w] ends_get [where m = event for event :: "bytes option"]

context dispatcher_env
begin

lemma publish_heap: "heap_ok w \<Longrightarrow> \<not> has_type (eh_hdr eh) HELLO \<Longrightarrow> keeps2 (publish E msg eh rh w)"
  by (auto simp: publish_def PubSubDispatch_process_def status_response_def Let_def heap_keeps case_prod_beta)

lemma ctrl_heap [heap_keeps]:
  "heap_ok w \<Longrightarrow> type \<noteq> HELLO \<Longrightarrow> keeps2 (sendCtrlMsgToJob E j type flags rh w)"
  "heap_ok w \<Longrightarrow> type \<noteq> HELLO \<Longrightarrow> keeps2 (sendCtrlMsgToModel E j type flags rh w)"
  by (auto simp: sendCtrlMsgToJob_def sendCtrlMsgToModel_def ctrl_type intro!: publish_heap)

lemma control_heap [heap_keeps]: "heap_ok w \<Longrightarrow> type \<noteq> HELLO \<Longrightarrow> keeps1 (nv_control E type nv w)"
proof (induction nv arbitrary: w)
  case (Cons x nv)
  obtain k v where x: "x = (k, v)" by fastforce
  show ?case unfolding x nv_control.simps
  proof (rule ends_seq(1))
    show "heap_ok w' \<Longrightarrow> keeps1 (nv_control E type nv w')" for w' using Cons by simp
    show "keeps1 (case v of AnyInt i \<Rightarrow>
          (if k = ''job'' then do {
             ch \<leftarrow> served_transceiver w;
             (_, w1) \<leftarrow> sendCtrlMsgToJob E i type (flag_mask flag_status_log_local) ch w;
             Some w1
           } else if k = ''model'' then do {
             ch \<leftarrow> served_transceiver w;
             (_, w1) \<leftarrow> sendCtrlMsgToModel E i type (flag_mask flag_status_log_sender) ch w;
             Some w1
           } else Some w)
      | _ \<Rightarrow> Some w)"
      using Cons.prems by (cases v) (auto intro!: ends_reports simp: heap_keeps)
  qed
qed simp

lemma report_heap [heap_keeps]: "heap_ok w \<Longrightarrow> keeps2 (nv_connections C ext w)"
  by (auto simp: nv_connections_def status_connections_report_def heap_keeps intro!: ends_reports)

lemma action_heap: "heap_ok w \<Longrightarrow> keeps3 (run_action C E a nv ext rv w)"
  by (cases a) (auto simp: action_defs heap_keeps
      case_prod_beta)

lemma line_heap: "heap_ok w \<Longrightarrow> keeps2 (process_line C E buf h w)"
  by (auto simp: process_line_def Action_ext_def heap_keeps split: command_line.split)

lemma command_parser_heap: "parser_keeps (CommandParser_process C E)"
  by (auto simp: parser_keeps_def CommandParser_process_def line_heap intro!: ends_reports)

end

section \<open>A kill command\<close>

lemma served: "the_ch rh w = Some h \<Longrightarrow> ch_class h = TransceiverHandler \<Longrightarrow> rh \<noteq> 0 \<Longrightarrow> my_ch w = rh \<Longrightarrow> served_transceiver w = Some rh"
  by (simp add: served_transceiver_def)

lemma ctrl_fields [simp]:
  "h_run_id (eh_hdr (ctrl_header E r d i t f)) = r"
  "h_dispatched (eh_hdr (ctrl_header E r d i t f)) = h_dispatched (eh_hdr (hd_new_samson (hdr E)))"
  by (simp_all add: ctrl_header_def Let_def)

text \<open>The header of a control message to a job.\<close>

abbreviation job_header :: "('x, 'k, 't) env \<Rightarrow> int \<Rightarrow> int \<Rightarrow> SimMsgType \<Rightarrow> EventHeaderObj" where
  "job_header E j i type \<equiv> ctrl_header E (word_of_int j) 0 i type (flag_mask flag_status_log_local OR flag_mask flag_job)"

lemma job_header_facts:
  "routed_type (eh_hdr (job_header E j i GOODBYE_REQUEST))"
  "\<not> header_enabled (eh_hdr (job_header E j i t)) flag_master_only" "\<not> header_enabled (eh_hdr (job_header E j i t)) flag_p2p"
  "header_enabled (eh_hdr (job_header E j i t)) flag_job"
  by (simp_all add: routed_type_def ctrl_type) (simp_all add: ctrl_header_def header_enabled_def flag_test_def Let_def)

lemma nv_of_single: "nv_of [(k, [v])] = [(k, v)]"
  by (simp add: nv_of_def)


text \<open>The reply to a line goes to the stream of the channel that is bound under its handle, and nowhere else.\<close>

lemma reply_to_channel:
  assumes "sending_socket E out" and "the_ch rh w = Some h" and "ch_class h = TransceiverHandler" and "i \<noteq> 0" and "rh \<noteq> 0"
    and "c_getCHfromCHID (cC E) (word_of_int i) (d2c_table w) = rh" and "accepts_block E h report"
  shows "\<exists>h' fc. cmd_status E i report w = Some ((set_ch rh h' w)\<lparr>first_call := fc\<rparr>) \<and>
    ch_stream out h' = ch_stream out h @ report \<and> same_but_io h h'"
proof -
  obtain k e h' fc where "put_block E rh [report] w = Some (k, e, False, (set_ch rh h' w)\<lparr>first_call := fc\<rparr>)"
    "0 \<le> k" "ch_stream out h' = ch_stream out h @ report" "same_but_io h h'"
    using sending_socket.put_block_advanced [OF assms(1,2), of "[report]"] assms(7)
    by (auto simp: sending_socket.advanced_def [OF assms(1)])
  with assms(2-6) show ?thesis by (intro exI [of _ h'] exI [of _ fc]) (simp add: cmd_status_def)
qed

text \<open>
  C25. The kill command. The line \<open>kill?job=j\<close> is read as the command \<open>kill\<close> with the number \<open>j\<close> of the job, and the function of
  this command, called while a command channel is served, sends one GOODBYE\_REQUEST for the job to every model of the job that is bound here and to every other
  dispatcher that is bound, as far as their connections are up, forgets the routes of the job in both caches, touches no other
  connection, and returns the reply of \<open>create_OK\<close>. The conditions on the bound handlers are those of C4. The statement is about
  the function \<open>nv_kill\<close>: \<open>process\<close> calls it with an extension it reads from a destroyed string, and nothing is claimed of that.
\<close>

theorem kill_command_ends_job:
  assumes "routing_env E out" and "subscription_cache (sC E)" and "peer_route_cache (pC E)" and "spirit (cp_spirit C)"
    and "\<And>x. om_getOtherDispatchers (om E) x = nodes" and "h_dispatched (eh_hdr (hd_new_samson (hdr E))) = 0"
    and "the_ch rh w = Some h" and "ch_class h = TransceiverHandler" and "rh \<noteq> 0" and "my_ch w = rh"
    and "- (2 ^ 31) \<le> j" and "j < 2 ^ 31"
    and "ps = map m_ch (allRecordsInJob (mC E) (word_of_int j) (d2m_table w)) @ node_targets E nodes w"
    and "\<forall>p \<in> set ps. deliverable E
      (wire_message E (Some []) (hd_encode (hdr E) (mark_dispatched (job_header E j (ch_handle h) GOODBYE_REQUEST)))) w p"
    and "distinct (filter (listening w) ps)"
  shows "parse_line (cp_spirit C) (''kill?job='' @ lexical_cast j) = Command kill_a ''text'' [(''job'', AnyInt j)] \<and>
    (\<exists>w'. run_action C E kill_a [(''job'', AnyInt j)] ext rv w = Some (create_OK ext, rv, w') \<and>
      dispatched out (filter (listening w) ps)
        (wire_message E (Some []) (hd_encode (hdr E) (mark_dispatched (job_header E j (ch_handle h) GOODBYE_REQUEST)))) w w' \<and>
      (\<forall>r \<in> set (s_map (subscr w')). theJobID r \<noteq> word_of_int j) \<and> (\<forall>r \<in> set (p_map (proute w')). theRunID r \<noteq> word_of_int j))"
proof -
  let ?eh = "job_header E j (ch_handle h) GOODBYE_REQUEST"
  have "show_line False ''kill'' None [(''job'', [AnyInt j])] = ''kill?job='' @ lexical_cast j"
    by (simp add: show_line_def show_kv_def)
  with spirit.parse_shown [OF assms(4), of "''kill''" kill_a None "[(''job'', [AnyInt j])]" False] assms(11,12)
  have line: "parse_line (cp_spirit C) (''kill?job='' @ lexical_cast j) = Command kill_a ''text'' [(''job'', AnyInt j)]"
    by (simp add: plain_kv_def nv_of_single action_table_def)
  note f = job_header_facts(2-4) [of E j "ch_handle h" GOODBYE_REQUEST]
  obtain eh' w' where w': "PubSubDispatch_process E rh (Some []) ?eh w = Some (0, eh', w')"
    "dispatched out (filter (listening w) ps) (wire_message E (Some []) (hd_encode (hdr E) (mark_dispatched ?eh))) w w'"
    "\<forall>r \<in> set (s_map (subscr w')). theJobID r \<noteq> word_of_int j" "\<forall>r \<in> set (p_map (proute w')). theRunID r \<noteq> word_of_int j"
    using job_dispatches [OF assms(1-3) job_header_facts(1) f assms(5), where w = w and rh = rh
        and data = "Some []" and ps = ps] assms(6,13-15) by (auto simp: ctrl_type)
  moreover have "sendCtrlMsgToJob E j GOODBYE_REQUEST (flag_mask flag_status_log_local) rh w = Some (0, w')"
    using w'(1) assms(7) unfolding sendCtrlMsgToJob_def publish_def by simp
  ultimately have "run_action C E kill_a [(''job'', AnyInt j)] ext rv w = Some (create_OK ext, rv, w')"
    using served [OF assms(7-10)] by (simp add: run_action_def nv_kill_def)
  with line w'(2-4) show ?thesis by blast
qed

text \<open>A command channel beside the models 7 and 8 of job 1 and the dispatcher of node 4.\<close>

definition example_cmd :: "(string list, sock, int) cmd_ops" where
  "example_cmd =
     \<lparr>cp_spirit = example_spirit,
      cp_show = \<lparr>sh_ptr = (\<lambda>p. digits p), sh_double = (\<lambda>x. lexical_cast \<lfloor>x\<rfloor>), sh_host_addr = fst,
        sh_data_frag = (\<lambda>d. ''0''), sh_header_frag = (\<lambda>h. ''0'')\<rparr>,
      cp_report = (\<lambda>r w. []), cp_init_key = None, cp_printable = map (\<lambda>b. char_of (unat b)),
      cp_ise_root = ''/ise'', cp_read_file = (\<lambda>p x. if p = ''/ise/www/html/../../etc/db.xml'' then Some ''secret'' else None),
      cp_debug_on = (\<lambda>x. ''debug'' # x), cp_debug_off = (\<lambda>x. ''quiet'' # x), cp_is_tracing = (\<lambda>x. False),
      cp_start_tracing = (\<lambda>x. x), cp_stop_tracing = (\<lambda>x. x), cp_end_event_loop = (\<lambda>x. ''end'' # x)\<rparr>"

definition example_cmd_ch :: "(sock, int) ConnectionHandler" where
  "example_cmd_ch = (example_ch 24)\<lparr>ch_entity := 2\<rparr>"

definition example_cmd_w :: example_dispatcher where
  "example_cmd_w = example_net_w\<lparr>handlers := (handlers example_net_w)(4 \<mapsto> example_cmd_ch),
     records := (records example_net_w)(2 \<mapsto> example_record\<lparr>r_proxy_role := CHR ''C'', r_ch_set := [4]\<rparr>),
     d2c_table := \<lparr>c_map = [\<lparr>c_chid = 24, c_ch = 4\<rparr>], c_state = Active\<rparr>, my_ch := 4\<rparr>"

lemma example_cmd_facts:
  "the_ch 4 example_cmd_w = Some example_cmd_ch" "ch_class example_cmd_ch = TransceiverHandler" "ch_handle example_cmd_ch = 24"
  "my_ch example_cmd_w = 4"
  "map m_ch (allRecordsInJob (mC example_env) 1 (d2m_table example_cmd_w)) @ node_targets example_env [4] example_cmd_w = [1, 2, 3]"
  "p = 1 \<or> p = 2 \<or> p = 3 \<Longrightarrow> listening example_cmd_w p \<and> deliverable example_env msg example_cmd_w p"
proof -
  have o: "listening example_cmd_w p = listening example_net_w p"
    "deliverable example_env msg example_cmd_w p = deliverable example_env msg example_net_w p" if "p \<noteq> 4" for p
    using that by (simp_all add: listening_def deliverable_def example_cmd_w_def the_ch_def)
  show "p = 1 \<or> p = 2 \<or> p = 3 \<Longrightarrow> listening example_cmd_w p \<and> deliverable example_env msg example_cmd_w p"
    using o example_net_targets(3) [of p] by auto
  have "node_targets example_env [4] example_cmd_w = node_targets example_env [4] example_net_w"
    by (simp add: node_targets_def example_cmd_w_def)
  then show "map m_ch (allRecordsInJob (mC example_env) 1 (d2m_table example_cmd_w)) @ node_targets example_env [4] example_cmd_w = [1, 2, 3]"
    using example_net_targets(2) by (simp add: example_cmd_w_def example_net_w_def allRecordsInJob_def example_defs example_model_def)
qed (simp_all add: example_cmd_w_def example_cmd_ch_def the_ch_def example_ch_def new_handler_def Let_def example_defs)

theorem kill_command_ends_job_witness:
  "parse_line example_spirit ''kill?job=1'' = Command kill_a ''text'' [(''job'', AnyInt 1)] \<and>
   (\<exists>w'. run_action example_cmd example_env kill_a [(''job'', AnyInt 1)] ''text'' 0 example_cmd_w = Some (create_OK ''text'', 0, w') \<and>
     dispatched snd [1, 2, 3]
       (wire_message example_env (Some []) (hd_encode (hdr example_env) (mark_dispatched (job_header example_env 1 24 GOODBYE_REQUEST)))) example_cmd_w w')"
proof -
  have p: "''kill?job=1'' = ''kill?job='' @ lexical_cast 1" by code_simp
  have c: "cp_spirit example_cmd = example_spirit" by (simp add: example_cmd_def)
  have n: "om_getOtherDispatchers (om example_env) x = [4]" "h_dispatched (eh_hdr (hd_new_samson (hdr example_env))) = 0" for x
    by (simp_all add: example_defs blank_header_def)
  have s: "subscription_cache (sC example_env)" "peer_route_cache (pC example_env)"
    using subscr_set.subscription_cache_axioms peer_route_set.peer_route_cache_axioms by (simp_all add: example_env_def)
  have sp: "spirit (cp_spirit example_cmd)" using c example_grammar.spirit_axioms by simp
  have h: "(4 :: chptr) \<noteq> 0" "- (2 ^ 31) \<le> (1 :: int)" "(1 :: int) < 2 ^ 31" by simp_all
  have ps: "[1, 2, 3] = map m_ch (allRecordsInJob (mC example_env) (word_of_int 1) (d2m_table example_cmd_w)) @ node_targets example_env [4] example_cmd_w"
    using example_cmd_facts(5) by simp
  have l: "filter (listening example_cmd_w) [1, 2, 3] = [1, 2, 3]" "\<forall>p \<in> set [1, 2, 3]. deliverable example_env msg example_cmd_w p" for msg
    using example_cmd_facts(6) by auto
  have d: "distinct (filter (listening example_cmd_w) [1, 2, 3])" unfolding l(1) by simp
  from kill_command_ends_job [OF example_route.routing_env_axioms s sp n example_cmd_facts(1,2) h(1) example_cmd_facts(4) h(2,3) ps l(2) d,
      of "''text''" 0]
  show ?thesis unfolding p c l(1) example_cmd_facts(3) by blast
qed

section \<open>Properties\<close>

text \<open>
  Every line that is a command is undefined behaviour: the object that calls the function of the command holds a reference to
  a string that was destroyed when the object was made, and all commands read it.
\<close>

lemma command_lines_undefined:
  "parse_line (cp_spirit C) buf = Command a ext nv \<Longrightarrow> process_line C E buf h w = None"
  by (simp add: process_line_def Action_ext_def)

text \<open>The functions of the commands: \<open>disconnect\<close> (or \<open>d\<close>) and \<open>quit\<close> ask for the connection to be closed, the others do not.\<close>

lemma action_retval:
  "run_action C E a nv ext rv w = Some (b, r, w') \<Longrightarrow> r = (if a = disconnect_a \<or> a = quit_a then 1 else rv)"
  by (cases a) (auto simp: action_defs split: bind_splits)

text \<open>A line that is not a command names a file; it is answered, and the connection stays open.\<close>

lemma line_retval: "process_line C E buf h w = Some (r, w') \<Longrightarrow> r = 0 \<and> (\<exists>name. parse_line (cp_spirit C) buf = File name)"
  by (auto simp: process_line_def Action_ext_def split: command_line.splits bind_splits if_splits)

text \<open>A control command that is not served for a transceiver sends through a null pointer.\<close>

lemma nv_insert_set: "set (nv_insert k v nv) = insert (k, v) (set nv)"
  by (induction nv) auto

lemma nv_of_set: "set (nv_of kvs) = {(k, v). \<exists>vs. (k, vs) \<in> set kvs \<and> v \<in> set vs}"
proof -
  have "set (fold (\<lambda>(k, v). nv_insert k v) xs nv) = set xs \<union> set nv" for xs nv
    by (induction xs arbitrary: nv) (auto simp: nv_insert_set)
  then show ?thesis by (auto simp: nv_of_def)
qed

lemma control_null:
  assumes "my_ch w = 0" and "the_ch 0 w = None" and "(k, AnyInt i) \<in> set nv" and "k = ''job'' \<or> k = ''model''"
  shows "nv_control E type nv w = None"
  using assms(3)
proof (induction nv)
  case (Cons x nv)
  obtain k' v where x: "x = (k', v)" by fastforce
  have "served_transceiver w = Some 0" using assms(1) by (simp add: served_transceiver_def)
  then show ?case using Cons x assms(2,4)
    by (cases v) (auto simp: sendCtrlMsgToJob_def sendCtrlMsgToModel_def)
qed simp

text \<open>
  A \<open>kill\<close> or \<open>status\<close> command typed at the console would be undefined behaviour even with a live extension: \<open>process(buf, h)\<close> is then called without
  a connection handler, and the control message it sends for a job or a model number asks a null pointer for its handle.
\<close>

lemma console_control_undefined:
  assumes "spirit (cp_spirit C)" and "(word, a) = (''kill'', kill_a) \<or> (word, a) = (''status'', status_a)" and "\<forall>kv \<in> set kvs. plain_kv kv"
    and "(k, vs) \<in> set kvs" and "AnyInt i \<in> set vs" and "k = ''job'' \<or> k = ''model''"
    and "my_ch w = 0" and "the_ch 0 w = None"
  shows "\<exists>nv. parse_line (cp_spirit C) (show_line False word None kvs) = Command a ''text'' nv \<and> run_action C E a nv ext rv w = None"
proof -
  have "(k, AnyInt i) \<in> set (nv_of kvs)" using assms(4,5) by (auto simp: nv_of_set)
  from control_null [OF assms(7,8) this assms(6)] have n: "nv_control E type (nv_of kvs) w = None" for type .
  from assms(2) have "(word, a) \<in> set action_table" by (auto simp: action_table_def)
  from spirit.parse_shown [OF assms(1) this, of None kvs False] assms(3)
  have "parse_line (cp_spirit C) (show_line False word None kvs) = Command a ''text'' (nv_of kvs)" by simp
  moreover have "run_action C E a (nv_of kvs) ext rv w = None"
    using assms(2) n by (auto simp: run_action_def nv_kill_def nv_status_def)
  ultimately show ?thesis by blast
qed

context spirit
begin

lemma dots_are_file:
  assumes "list_all (\<lambda>c. c \<noteq> CHR ''?'' \<and> \<not> blank_p c) path"
  shows "parse_line P (''GET /../'' @ path @ '' HTTP/1.1'') = File (''../'' @ path)"
proof -
  have "GET (''GET /'' @ ''../'' @ path @ '' HTTP/1.1'') = Some (''../'' @ path @ '' HTTP/1.1'')" by (rule GET_some) simp
  moreover have "sp_symbols P action_table (''../'' @ path @ '' HTTP/1.1'') = None"
  proof (rule symbols_none)
    fix k a assume "(k, a) \<in> set action_table"
    from table_words(2) [OF this] show "\<not> starts k (''../'' @ path @ '' HTTP/1.1'')"
      by (cases k) (auto simp: word_char_def)
  qed
  moreover have "takeWhile (\<lambda>c. c \<noteq> CHR ''?'' \<and> \<not> blank_p c) (''../'' @ path @ '' HTTP/1.1'') = ''../'' @ path"
    using assms by (simp add: takeWhile_append list_all_iff blank_p_def)
  ultimately show ?thesis by (simp add: parse_line_def)
qed

end

text \<open>
  A path that is not a command is read from the file system below \<open>$ISE_ROOT/www/html/\<close>, but not confined to it: for
  a path that begins with \<open>../\<close> and ends in \<open>.xml\<close>, \<open>.xsl\<close>, \<open>.htm\<close> or \<open>.html\<close>, the contents of the file outside the
  directory are sent back as the answer, and a file that cannot be read gives the 404 page.
\<close>

lemma file_request_not_confined:
  assumes "spirit (cp_spirit C)" and "list_all (\<lambda>c. c \<noteq> CHR ''?'' \<and> \<not> blank_p c) path" and "file_ext (''../'' @ path) \<noteq> ''text''"
  shows "process_line C E (''GET /../'' @ path @ '' HTTP/1.1'') h w =
    map_option (Pair 0) (cmd_status E h
      (case cp_read_file C (cp_ise_root C @ ''/www/html/../'' @ path) (outside w) of
         Some str \<Rightarrow> create_block_as_HTTP str 200
       | None \<Rightarrow> create_block_as_HTTP not_found_page 404) w)"
proof -
  have e: "file_ext (''../'' @ path) \<in> {''xml'', ''html'', ''htm'', ''xsl''}"
    using assms(3) by (simp add: file_ext_def split: if_splits)
  then have "send_file C (''../'' @ path) (outside w) =
      (case cp_read_file C (cp_ise_root C @ ''/www/html/../'' @ path) (outside w) of
         Some str \<Rightarrow> create_block_as_HTTP str 200 | None \<Rightarrow> create_block_as_HTTP not_found_page 404)"
    by (auto simp: send_file_def Let_def web_ext_def HtmlPath_def create_NOT_OK_def split: option.split)
  with spirit.dots_are_file [OF assms(1,2)] show ?thesis
    by (cases "cmd_status E h (send_file C (''../'' @ path) (outside w)) w") (simp_all add: process_line_def)
qed

lemma file_request_not_confined_witness:
  "process_line example_cmd example_env ''GET /../../etc/db.xml HTTP/1.1'' 24 example_cmd_w =
    map_option (Pair 0) (cmd_status example_env 24 (create_block_as_HTTP ''secret'' 200) example_cmd_w)"
proof -
  have s: "spirit (cp_spirit example_cmd)" using example_grammar.spirit_axioms by (simp add: example_cmd_def)
  have p: "list_all (\<lambda>c. c \<noteq> CHR ''?'' \<and> \<not> blank_p c) ''../etc/db.xml''" by code_simp
  have e: "file_ext (''../'' @ ''../etc/db.xml'') \<noteq> ''text''" by code_simp
  have "cp_read_file example_cmd (cp_ise_root example_cmd @ ''/www/html/../'' @ ''../etc/db.xml'') x = Some ''secret''" for x
    by (simp add: example_cmd_def)
  with file_request_not_confined [OF s p e, of example_env 24 example_cmd_w] show ?thesis by simp
qed

end
