(* ===== verification/ControllerBase.thy ===== *)
theory ControllerBase
  imports Protocol Complex_Main
begin

text \<open>
  What the three controllers of a simulation job share (\<open>src/Utilities/FramedController\<close>, \<open>TimedController\<close> and
  \<open>SimpleController\<close>). A controller is the model that drives a job: it waits until the models of the job have started, makes
  them initialize a case, starts frames, ends the case and shuts the job down. The base class \<open>SamsonModel\<close>, the peer table and
  the object manager are not part of the repository. Of the base class only the data members the controllers read or write
  appear, as the record \<open>SamsonModel\<close>, and a call of one of its \<open>send\<close> functions is an entry of the log \<open>actions\<close>; the same
  holds for the timers of the reactor. The answers of the object manager, the reactor and the clocks are functions of the
  record \<open>controller_env\<close>, which see the log, so that they may answer differently every time. A peer table is the list of its
  records in the order of the iterator.

  Three handlers wait until every peer of a set has reported, with a function-local set of those still missing. \<open>rendezvous\<close>
  is such a set, and the locale \<open>barrier\<close> is its contract.
\<close>

section \<open>Peers, timers and the outside world\<close>

record PeerRecord =
  peer_id :: int
  rate :: int
  waiting_on_endframe :: bool
  waiting_on_timeadvance :: bool
  powered_down :: bool

datatype controller_timer = STARTUP | WATCHDOG | FRAME | UNTAGGED

datatype controller_action =
    SendCtrlMsg SimMsgType SimMsgFlag
  | SendInitCase
  | SendAdvanceTime
  | SendStartFrame int
  | SendEndCase
  | SendEndRun
  | SendDispatcherCommand string
  | RequestJobStatus
  | Sleep real
  | StopSimulation
  | SetRunMaster
  | StartFrameOnly
  | NoEndFrameResponse
  | ScheduleTimer controller_timer real "real option"
  | CancelTimer int
  | SampleSchedule real

record SamsonModel =
  model_id :: int
  run_id :: int
  caseNumber :: int
  currFrame :: int
  currTime :: real
  frame_count :: int
  separate_advance_time :: bool
  timing_rate :: real
  actions :: "controller_action list"

record controller_env =
  schedule_timer :: "controller_timer \<Rightarrow> real \<Rightarrow> real option \<Rightarrow> controller_action list \<Rightarrow> int"
  checkPeersStarted :: "controller_action list \<Rightarrow> PeerRecord list \<Rightarrow> bool \<times> PeerRecord list"
  getStepRate :: "controller_action list \<Rightarrow> int"
  getPeerTable :: "int \<Rightarrow> int \<times> PeerRecord list"
  peer_table_empty :: "PeerRecord list \<Rightarrow> PeerRecord list"
  frame_seconds :: "controller_action list \<Rightarrow> real"
  timing_set :: "int \<Rightarrow> real"

text \<open>Log an action; log the start of a timer and return its number, or -1.\<close>

definition act :: "controller_action \<Rightarrow> 'a SamsonModel_scheme \<Rightarrow> 'a SamsonModel_scheme" where
  "act a c = c\<lparr>actions := actions c @ [a]\<rparr>"

definition sched :: "controller_env \<Rightarrow> controller_timer \<Rightarrow> real \<Rightarrow> real option \<Rightarrow> 'a SamsonModel_scheme
    \<Rightarrow> int \<times> 'a SamsonModel_scheme" where
  "sched E t delay recur c = (schedule_timer E t delay recur (actions c), act (ScheduleTimer t delay recur) c)"

definition cancel_timer :: "int \<Rightarrow> 'a SamsonModel_scheme \<Rightarrow> 'a SamsonModel_scheme" where
  "cancel_timer t c = (if t > 0 then act (CancelTimer t) c else c)"

lemma act_simps [simp]:
  "actions (act a c) = actions c @ [a]" "model_id (act a c) = model_id c" "caseNumber (act a c) = caseNumber c"
  "currFrame (act a c) = currFrame c" "frame_count (act a c) = frame_count c"
  "separate_advance_time (act a c) = separate_advance_time c" "timing_rate (act a c) = timing_rate c"
  "SamsonModel.more (act a c) = SamsonModel.more c"
  by (simp_all add: act_def)

section \<open>Waiting for every peer of a set\<close>

record rendezvous =
  rv_set :: "int set"
  rv_initialized :: bool

definition rv_init :: rendezvous where
  "rv_init = \<lparr>rv_set = {}, rv_initialized = False\<rparr>"

text \<open>
  The code the handlers repeat: on the first message of a round all members go into the set, then the sender is erased.
  \<open>rv_done\<close> is the test \<open>set.empty()\<close>, and \<open>rv_reset\<close> what a completed round does, so that the next message starts a new
  one.
\<close>

definition rv_erase :: "int list \<Rightarrow> int \<Rightarrow> rendezvous \<Rightarrow> rendezvous" where
  "rv_erase members p r =
     (let r1 = (if \<not> rv_initialized r then \<lparr>rv_set = rv_set r \<union> set members, rv_initialized = True\<rparr> else r)
      in r1\<lparr>rv_set := rv_set r1 - {p}\<rparr>)"

definition rv_done :: "rendezvous \<Rightarrow> bool" where
  "rv_done r = (rv_set r = {})"

definition rv_reset :: "rendezvous \<Rightarrow> rendezvous" where
  "rv_reset r = r\<lparr>rv_initialized := False\<rparr>"

text \<open>One message, with the reset of a completed round, and the members that are still missing.\<close>

definition rv_arrive :: "int list \<Rightarrow> int \<Rightarrow> rendezvous \<Rightarrow> bool \<times> rendezvous" where
  "rv_arrive members p r =
     (let r1 = rv_erase members p r in if rv_done r1 then (True, rv_reset r1) else (False, r1))"

definition rv_missing :: "int list \<Rightarrow> rendezvous \<Rightarrow> int set" where
  "rv_missing members r = rv_set r \<union> (if rv_initialized r then {} else set members)"

text \<open>
  The contract: a message completes the round exactly when nobody but its sender was missing, and the next round waits for all
  members again. Then a round in which some member stays silent is never completed, and one in which every member reports is
  completed by the message of the last one, whatever the order.
\<close>

locale barrier =
  fixes arrive :: "'p \<Rightarrow> 's \<Rightarrow> bool \<times> 's" and missing :: "'s \<Rightarrow> 'p set" and members :: "'p set"
  assumes arrive_done: "fst (arrive p s) \<longleftrightarrow> missing s \<subseteq> {p}"
    and arrive_reset: "fst (arrive p s) \<Longrightarrow> missing (snd (arrive p s)) = members"
    and arrive_missing: "\<not> fst (arrive p s) \<Longrightarrow> missing (snd (arrive p s)) = missing s - {p}"
begin

fun round :: "'p list \<Rightarrow> 's \<Rightarrow> bool list \<times> 's" where
  "round [] s = ([], s)"
| "round (p # ps) s = (let (d, s1) = arrive p s; (ds, s2) = round ps s1 in (d # ds, s2))"

lemma round_silent:
  "\<not> missing s \<subseteq> set ps \<Longrightarrow> round ps s = (replicate (length ps) False, snd (round ps s)) \<and>
    missing (snd (round ps s)) = missing s - set ps"
proof (induction ps arbitrary: s)
  case (Cons p ps)
  let ?t = "snd (arrive p s)"
  have "\<not> fst (arrive p s)" using Cons.prems arrive_done [of p s] by auto
  then have t: "arrive p s = (False, ?t)" "missing ?t = missing s - {p}" using arrive_missing by (auto simp: prod_eq_iff)
  moreover have "\<not> missing ?t \<subseteq> set ps" using Cons.prems t(2) by auto
  from Cons.IH [OF this] t show ?case by (simp add: case_prod_beta Let_def) (metis Diff_insert2 Diff_insert fst_conv snd_conv)
qed simp

lemma round_complete:
  assumes "missing s = set ps" "distinct ps" "ps \<noteq> []"
  shows "fst (round ps s) = replicate (length ps - 1) False @ [True] \<and> missing (snd (round ps s)) = members"
  using assms
proof (induction ps arbitrary: s)
  case (Cons p ps)
  let ?t = "snd (arrive p s)"
  show ?case
  proof (cases ps)
    case Nil
    with Cons.prems arrive_done [of p s] arrive_reset [of p s] show ?thesis by (simp add: case_prod_beta Let_def)
  next
    case (Cons q qs)
    have "\<not> fst (arrive p s)" using Cons.prems arrive_done [of p s] Cons by auto
    moreover from this have "missing ?t = set ps" using Cons.prems arrive_missing by auto
    ultimately show ?thesis using Cons.IH [of ?t] Cons.prems Cons by (simp add: case_prod_beta Let_def)
  qed
qed simp

end

lemma rv_arrive_eqs:
  "fst (rv_arrive ms p r) \<longleftrightarrow> rv_missing ms r \<subseteq> {p}"
  "fst (rv_arrive ms p r) \<Longrightarrow> rv_missing ms (snd (rv_arrive ms p r)) = set ms"
  "\<not> fst (rv_arrive ms p r) \<Longrightarrow> rv_missing ms (snd (rv_arrive ms p r)) = rv_missing ms r - {p}"
  by (auto simp: rv_arrive_def rv_erase_def rv_done_def rv_reset_def rv_missing_def Let_def split: if_splits)

interpretation rv: barrier "rv_arrive ms" "rv_missing ms" "set ms" for ms
  by unfold_locales (auto simp: rv_arrive_eqs)

section \<open>Ending the run\<close>

record Controller = SamsonModel +
  peer_table :: "PeerRecord list"
  nmodels :: int
  endGame :: bool

text \<open>Mark a peer as powered down, and test whether all peers but the controller itself are.\<close>

definition power_down :: "int \<Rightarrow> PeerRecord list \<Rightarrow> PeerRecord list" where
  "power_down p = map (\<lambda>a. if peer_id a = p \<and> \<not> powered_down a then a\<lparr>powered_down := True\<rparr> else a)"

definition others_down :: "int \<Rightarrow> PeerRecord list \<Rightarrow> bool" where
  "others_down me tbl \<longleftrightarrow> list_all (\<lambda>a. \<not> (peer_id a \<noteq> me \<and> \<not> powered_down a)) tbl"

text \<open>
  What the controllers promise of an END_RUN complete message: the run is stopped by exactly those messages after which every
  other peer of the table has reported. \<open>stop_points\<close> counts them in a sequence of messages, from the senders alone.
\<close>

definition all_reported :: "int \<Rightarrow> PeerRecord list \<Rightarrow> int list \<Rightarrow> bool" where
  "all_reported me tbl ps \<longleftrightarrow> list_all (\<lambda>a. peer_id a = me \<or> powered_down a \<or> peer_id a \<in> set ps) tbl"

definition stop_points :: "int \<Rightarrow> PeerRecord list \<Rightarrow> int list \<Rightarrow> nat" where
  "stop_points me tbl ps = length (filter (\<lambda>k. all_reported me tbl (take k ps)) [1..<Suc (length ps)])"

lemma stop_points_snoc:
  "stop_points me tbl (ps @ [p]) = stop_points me tbl ps + (if all_reported me tbl (ps @ [p]) then 1 else 0)"
proof -
  have "filter (\<lambda>k. all_reported me tbl (take k (ps @ [p]))) [1..<Suc (length ps)] =
      filter (\<lambda>k. all_reported me tbl (take k ps)) [1..<Suc (length ps)]"
    by (rule filter_cong) auto
  then show ?thesis by (simp add: stop_points_def)
qed

lemma power_down_reported:
  "all_reported me (power_down p tbl) ps \<longleftrightarrow> all_reported me tbl (p # ps)"
  by (auto simp: all_reported_def power_down_def list_all_iff)

lemma others_down_reported: "others_down me tbl \<longleftrightarrow> all_reported me tbl []"
  by (auto simp: others_down_def all_reported_def list_all_iff)

lemma reported_me: "all_reported me tbl (me # ps) \<longleftrightarrow> all_reported me tbl ps"
  by (auto simp: all_reported_def list_all_iff)

locale run_end =
  fixes complete :: "int \<Rightarrow> 's \<Rightarrow> 's" and table :: "'s \<Rightarrow> PeerRecord list" and me :: "'s \<Rightarrow> int" and stops :: "'s \<Rightarrow> nat"
  assumes table_complete: "table (complete p s) = (if p = me s then table s else power_down p (table s))"
    and me_complete: "me (complete p s) = me s"
    and stops_complete: "stops (complete p s) = stops s + (if others_down (me s) (table (complete p s)) then 1 else 0)"
begin

lemma reported_complete: "all_reported (me s) (table (complete p s)) ps \<longleftrightarrow> all_reported (me s) (table s) (p # ps)"
  by (simp add: table_complete power_down_reported reported_me)

lemma fold_complete:
  "me (fold complete ps s) = me s \<and>
   (\<forall>qs. all_reported (me s) (table (fold complete ps s)) qs \<longleftrightarrow> all_reported (me s) (table s) (ps @ qs))"
proof (induction ps arbitrary: s)
  case (Cons p ps)
  then show ?case using reported_complete me_complete by simp (metis me_complete)
qed simp

lemma stops_fold: "stops (fold complete ps s) = stops s + stop_points (me s) (table s) ps"
proof (induction ps rule: rev_induct)
  case (snoc p ps)
  let ?t = "fold complete ps s"
  have "others_down (me ?t) (table (complete p ?t)) \<longleftrightarrow> all_reported (me s) (table s) (ps @ [p])"
    using fold_complete [of ps s] reported_complete [of ?t p "[]"] by (simp add: others_down_reported)
  with snoc stops_complete [of p ?t] show ?case by (simp add: stop_points_snoc)
qed (simp add: stop_points_def)

end

end
