(* ===== verification/FramedController.thy ===== *)
theory FramedController
  imports ControllerBase
begin

text \<open>
  The controller of models that are stepped in frames (\<open>src/Utilities/FramedController\<close>). When every model has initialized
  the case it sends START_FRAME, waits for the END_FRAME of every model with a non-zero rate, and sends the next START_FRAME:
  at once, or at the next tick of a frame timer when a rate in Hz is set. With \<open>separate_advance_time\<close> an ADVANCE_TIME message
  and the answers to it come before every START_FRAME. The static variables of the handlers are members of the record.
\<close>

section \<open>State\<close>

record FramedController = Controller +
  end_engagement_set :: "int set"
  start_timer :: int
  watchdog_timer :: int
  frame_timer :: int
  step_count :: int
  frame_count_sent :: int
  MonteCarlo_Number_Of_Runs :: int
  start_frame_hz :: int
  missed_timeout :: bool
  ready_to_start_frame :: bool
  paused :: bool
  max_frame :: u32
  init_case :: rendezvous
  endframe :: rendezvous
  endcase_complete :: rendezvous
  saved_frame_count :: int
  msg_sent :: bool

definition FramedController_new :: "SamsonModel \<Rightarrow> FramedController" where
  "FramedController_new b =
     \<lparr>model_id = model_id b, run_id = run_id b, caseNumber = caseNumber b, currFrame = currFrame b, currTime = currTime b,
      frame_count = frame_count b, separate_advance_time = separate_advance_time b,
      timing_rate = timing_rate b, actions = actions b, peer_table = [], nmodels = 0, endGame = False, end_engagement_set = {}, start_timer = -1, watchdog_timer = -1,
      frame_timer = -1, step_count = 0, frame_count_sent = 0, MonteCarlo_Number_Of_Runs = 1, start_frame_hz = 0,
      missed_timeout = False, ready_to_start_frame = False, paused = False, max_frame = 0,
      init_case = rv_init, endframe = rv_init, endcase_complete = rv_init, saved_frame_count = -1, msg_sent = False\<rparr>"

section \<open>Frames\<close>

text \<open>The loops over the peer table that note whose answer is awaited, and that an answer came.\<close>

definition await_endframe :: "PeerRecord list \<Rightarrow> PeerRecord list" where
  "await_endframe = map (\<lambda>a. if rate a \<noteq> 0 then a\<lparr>waiting_on_endframe := True\<rparr> else a)"

definition await_timeadvance :: "PeerRecord list \<Rightarrow> PeerRecord list" where
  "await_timeadvance = map (\<lambda>a. if rate a \<noteq> 0 then a\<lparr>waiting_on_timeadvance := True\<rparr> else a)"

definition endframe_received :: "int \<Rightarrow> PeerRecord list \<Rightarrow> PeerRecord list" where
  "endframe_received p = map (\<lambda>a. if peer_id a = p then a\<lparr>waiting_on_endframe := False\<rparr> else a)"

definition timeadvance_received :: "int \<Rightarrow> PeerRecord list \<Rightarrow> PeerRecord list" where
  "timeadvance_received p = map (\<lambda>a. if peer_id a = p then a\<lparr>waiting_on_timeadvance := False\<rparr> else a)"

definition AdvanceTime :: "controller_env \<Rightarrow> FramedController \<Rightarrow> FramedController" where
  "AdvanceTime E c =
     (let c1 = c\<lparr>currFrame := currFrame c + 1\<rparr>;
          c2 = c1\<lparr>currTime := of_int (currFrame c1) * timing_rate c1\<rparr>;
          c3 = c2\<lparr>peer_table := await_timeadvance (peer_table c2)\<rparr>;
          c4 = act SendAdvanceTime c3
      in if start_frame_hz c4 \<noteq> 0
         then let (t, c5) = sched E FRAME (1 / of_int (start_frame_hz c4)) None c4 in c5\<lparr>frame_timer := t\<rparr>
         else c4)"

definition StartNewFrame :: "controller_env \<Rightarrow> FramedController \<Rightarrow> FramedController" where
  "StartNewFrame E c =
     (let c1 = act (SampleSchedule (frame_seconds E (actions c))) c;
          c2 = (if \<not> separate_advance_time c1
                then let d = c1\<lparr>currFrame := currFrame c1 + 1\<rparr> in d\<lparr>currTime := of_int (currFrame d) * timing_rate d\<rparr>
                else c1);
          c3 = c2\<lparr>frame_count := frame_count c2 + 1\<rparr>;
          c4 = c3\<lparr>peer_table := await_endframe (peer_table c3)\<rparr>;
          c5 = act (SendStartFrame 0) c4;
          c6 = c5\<lparr>frame_count_sent := frame_count_sent c5 + 1\<rparr>
      in if \<not> separate_advance_time c6 \<and> start_frame_hz c6 \<noteq> 0
         then let (t, c7) = sched E FRAME (1 / of_int (start_frame_hz c6)) None c6 in c7\<lparr>frame_timer := t\<rparr>
         else c6)"

text \<open>The choice four handlers make when the next frame is due.\<close>

definition next_frame :: "controller_env \<Rightarrow> FramedController \<Rightarrow> FramedController" where
  "next_frame E c = (if separate_advance_time c then AdvanceTime E c else StartNewFrame E c)"

section \<open>Start up and timers\<close>

definition schedule_start :: "controller_env \<Rightarrow> int \<Rightarrow> FramedController \<Rightarrow> FramedController" where
  "schedule_start E ntime c = (let (t, c1) = sched E STARTUP (of_int ntime) None c in c1\<lparr>start_timer := t\<rparr>)"

text \<open>The long options \<open>get_opt\<close> finds in the command line, as pairs of a name and its argument.\<close>

definition framed_option :: "string \<times> string \<Rightarrow> FramedController \<Rightarrow> FramedController" where
  "framed_option opt c =
     (let (name, arg) = opt in
      if name = ''MC'' then c\<lparr>MonteCarlo_Number_Of_Runs := atoi arg\<rparr>
      else if name = ''advance_time'' then c\<lparr>separate_advance_time := True\<rparr>
      else if name = ''start_frame_hz'' then c\<lparr>start_frame_hz := atoi arg\<rparr>
      else if name = ''max_frame'' then c\<lparr>max_frame := word_of_int (atoi arg)\<rparr>
      else c)"

definition Framed_init :: "controller_env \<Rightarrow> (string \<times> string) list \<Rightarrow> FramedController \<Rightarrow> FramedController" where
  "Framed_init E opts c =
     (let (n, tbl) = getPeerTable E (run_id c);
          c1 = act SetRunMaster (c\<lparr>nmodels := n, peer_table := tbl\<rparr>);
          c2 = fold framed_option opts c1
      in schedule_start E 3 (c2\<lparr>timing_rate := timing_set E 0\<rparr>))"

definition MonteCarlo_InitCase :: "FramedController \<Rightarrow> FramedController" where
  "MonteCarlo_InitCase c = c\<lparr>frame_count_sent := 0, currFrame := 0\<rparr>"

definition Framed_fini :: "controller_env \<Rightarrow> FramedController \<Rightarrow> FramedController" where
  "Framed_fini E c =
     (let c1 = cancel_timer (start_timer c) c;
          c2 = cancel_timer (watchdog_timer c1) c1;
          c3 = cancel_timer (frame_timer c2) c2
      in c3\<lparr>peer_table := peer_table_empty E (peer_table c3)\<rparr>)"

definition startsim_action :: "controller_env \<Rightarrow> FramedController \<Rightarrow> FramedController" where
  "startsim_action E c =
     (let (ok, tbl) = checkPeersStarted E (actions c) (peer_table c);
          c1 = c\<lparr>peer_table := tbl\<rparr>
      in if \<not> ok then schedule_start E 3 c1
         else act SendInitCase (act (SendCtrlMsg LOG_EVENT_CHANNEL_STATUS flag_job)
                (c1\<lparr>step_count := getStepRate E (actions c1)\<rparr>)))"

definition watchdog_action :: "FramedController \<Rightarrow> FramedController" where
  "watchdog_action c =
     (if saved_frame_count c = frame_count_sent c \<and> \<not> endGame c \<and> \<not> msg_sent c
      then act StopSimulation (act (Sleep 3) (act RequestJobStatus (c\<lparr>msg_sent := True\<rparr>)))
      else c\<lparr>saved_frame_count := frame_count_sent c\<rparr>)"

definition Framed_handle_timeout :: "controller_env \<Rightarrow> controller_timer \<Rightarrow> FramedController \<Rightarrow> FramedController" where
  "Framed_handle_timeout E tag c =
     (case tag of
        STARTUP \<Rightarrow> startsim_action E (c\<lparr>start_timer := -1\<rparr>)
      | WATCHDOG \<Rightarrow> watchdog_action c
      | FRAME \<Rightarrow>
          if \<not> paused c \<and> ready_to_start_frame c
          then (next_frame E c)\<lparr>missed_timeout := False, ready_to_start_frame := False\<rparr>
          else c\<lparr>missed_timeout := True\<rparr>
      | UNTAGGED \<Rightarrow> c)"

section \<open>Messages\<close>

definition doInitCaseComplete :: "controller_env \<Rightarrow> int \<Rightarrow> FramedController \<Rightarrow> FramedController" where
  "doInitCaseComplete E p c =
     (let c1 = c\<lparr>init_case := rv_erase (map peer_id (peer_table c)) p (init_case c)\<rparr>
      in if rv_done (init_case c1)
         then let (t, c2) = sched E WATCHDOG 3600 (Some 3600) c1;
                  c3 = c2\<lparr>watchdog_timer := t, endGame := False, init_case := rv_reset (init_case c2)\<rparr>
              in next_frame E c3
         else c1)"

definition stepping_ids :: "PeerRecord list \<Rightarrow> int list" where
  "stepping_ids tbl = map peer_id (filter (\<lambda>a. rate a \<noteq> 0) tbl)"

definition doEndFrame :: "controller_env \<Rightarrow> int \<Rightarrow> FramedController \<Rightarrow> FramedController" where
  "doEndFrame E p c =
     (if endGame c then c
      else let ef = rv_erase (stepping_ids (peer_table c)) p (endframe c);
               c1 = c\<lparr>peer_table := endframe_received p (peer_table c), endframe := ef\<rparr>
           in if rv_done ef
              then let c2 = (if word_of_int (frame_count c1) = max_frame c1 then act SendEndCase c1
                             else if \<not> paused c1 \<and> (start_frame_hz c1 = 0 \<or> start_frame_hz c1 \<noteq> 0 \<and> missed_timeout c1)
                             then (next_frame E c1)\<lparr>ready_to_start_frame := False\<rparr>
                             else c1\<lparr>ready_to_start_frame := True\<rparr>)
                   in c2\<lparr>endframe := rv_reset (endframe c2)\<rparr>
              else c1)"

definition doEndCaseComplete :: "int \<Rightarrow> FramedController \<Rightarrow> FramedController" where
  "doEndCaseComplete p c =
     (let ec = rv_erase (map peer_id (peer_table c)) p (endcase_complete c)
      in if rv_done ec
         then let c1 = c\<lparr>endGame := False, endcase_complete := rv_reset ec\<rparr>
              in if caseNumber c1 \<ge> MonteCarlo_Number_Of_Runs c1 then act SendEndRun c1
                 else act SendInitCase (c1\<lparr>caseNumber := caseNumber c1 + 1\<rparr>)
         else c\<lparr>endcase_complete := ec\<rparr>)"

definition doEndRunComplete :: "int \<Rightarrow> FramedController \<Rightarrow> FramedController" where
  "doEndRunComplete p c =
     (let c1 = c\<lparr>endGame := True\<rparr>;
          c2 = (if model_id c1 \<noteq> p then c1\<lparr>peer_table := power_down p (peer_table c1)\<rparr> else c1)
      in if others_down (model_id c2) (peer_table c2) then act StopSimulation c2 else c2)"

definition doRegisterEndEngage :: "int \<Rightarrow> FramedController \<Rightarrow> FramedController" where
  "doRegisterEndEngage p c = c\<lparr>end_engagement_set := insert p (end_engagement_set c)\<rparr>"

definition doEndEngagement :: "int \<Rightarrow> FramedController \<Rightarrow> FramedController" where
  "doEndEngagement p c =
     (let c1 = c\<lparr>end_engagement_set := end_engagement_set c - {p}\<rparr>
      in if end_engagement_set c1 = {} then act SendEndCase (act (SendDispatcherCommand ''verbose'') c1) else c1)"

definition doPauseSimulation :: "FramedController \<Rightarrow> FramedController" where
  "doPauseSimulation c = c\<lparr>paused := True\<rparr>"

definition doStartSimulation :: "controller_env \<Rightarrow> FramedController \<Rightarrow> FramedController" where
  "doStartSimulation E c =
     (let c1 = c\<lparr>paused := False\<rparr>
      in if ready_to_start_frame c1 then (next_frame E c1)\<lparr>ready_to_start_frame := False\<rparr> else c1)"

definition doTimeAdvanced :: "controller_env \<Rightarrow> int \<Rightarrow> FramedController \<Rightarrow> FramedController" where
  "doTimeAdvanced E p c =
     (let c1 = c\<lparr>peer_table := timeadvance_received p (peer_table c)\<rparr>
      in if list_ex waiting_on_timeadvance (peer_table c1) then c1 else StartNewFrame E c1)"

section \<open>Events\<close>

text \<open>The upcalls of the controller: the messages it subscribes to with their senders, its timers, and the case downcall.\<close>

datatype frame_event =
    InitCaseComplete int | EndFrame int | EndCaseComplete int | EndRunComplete int | TimeAdvanced int
  | RegisterEndEngage int | EndEngagement int | PauseSimulation | StartSimulation
  | Timeout controller_timer | InitCase

fun frame_step :: "controller_env \<Rightarrow> frame_event \<Rightarrow> FramedController \<Rightarrow> FramedController" where
  "frame_step E (InitCaseComplete p) c = doInitCaseComplete E p c"
| "frame_step E (EndFrame p) c = doEndFrame E p c"
| "frame_step E (EndCaseComplete p) c = doEndCaseComplete p c"
| "frame_step E (EndRunComplete p) c = doEndRunComplete p c"
| "frame_step E (TimeAdvanced p) c = doTimeAdvanced E p c"
| "frame_step E (RegisterEndEngage p) c = doRegisterEndEngage p c"
| "frame_step E (EndEngagement p) c = doEndEngagement p c"
| "frame_step E PauseSimulation c = doPauseSimulation c"
| "frame_step E StartSimulation c = doStartSimulation E c"
| "frame_step E (Timeout t) c = Framed_handle_timeout E t c"
| "frame_step E InitCase c = MonteCarlo_InitCase c"

section \<open>No frame overtakes another\<close>

text \<open>The stepped peers, those that were sent a START_FRAME and have not ended it, and those that have not advanced time.\<close>

definition stepped :: "PeerRecord list \<Rightarrow> int set" where
  "stepped tbl = set (map peer_id (filter (\<lambda>a. rate a \<noteq> 0) tbl))"

definition running_frame :: "PeerRecord list \<Rightarrow> int set" where
  "running_frame tbl = set (map peer_id (filter (\<lambda>a. rate a \<noteq> 0 \<and> waiting_on_endframe a) tbl))"

definition moving_time :: "PeerRecord list \<Rightarrow> int set" where
  "moving_time tbl = set (map peer_id (filter (\<lambda>a. rate a \<noteq> 0 \<and> waiting_on_timeadvance a) tbl))"

abbreviation stepping :: "FramedController \<Rightarrow> int set" where
  "stepping c \<equiv> stepped (peer_table c)"

abbreviation in_frame :: "FramedController \<Rightarrow> int set" where
  "in_frame c \<equiv> running_frame (peer_table c)"

abbreviation advancing :: "FramedController \<Rightarrow> int set" where
  "advancing c \<equiv> moving_time (peer_table c)"

abbreviation frames_started :: "FramedController \<Rightarrow> nat" where
  "frames_started c \<equiv> count_list (actions c) (SendStartFrame 0)"

abbreviation cases_ended :: "FramedController \<Rightarrow> nat" where
  "cases_ended c \<equiv> count_list (actions c) SendEndCase"

named_theorems frame_simps \<open>what a frame operation leaves of the state\<close>

lemma set_stepping_ids [frame_simps]: "set (stepping_ids tbl) = stepped tbl"
  by (auto simp: stepped_def stepping_ids_def)

lemma frame_subsets: "running_frame tbl \<subseteq> stepped tbl" "moving_time tbl \<subseteq> stepped tbl"
  by (auto simp: stepped_def running_frame_def moving_time_def)

lemma StartNewFrame_state [frame_simps]:
  "peer_table (StartNewFrame E c) = await_endframe (peer_table c)"
  "endframe (StartNewFrame E c) = endframe c" "ready_to_start_frame (StartNewFrame E c) = ready_to_start_frame c"
  "missed_timeout (StartNewFrame E c) = missed_timeout c" "paused (StartNewFrame E c) = paused c"
  "start_frame_hz (StartNewFrame E c) = start_frame_hz c" "endGame (StartNewFrame E c) = endGame c"
  "max_frame (StartNewFrame E c) = max_frame c" "separate_advance_time (StartNewFrame E c) = separate_advance_time c"
  "frame_count (StartNewFrame E c) = frame_count c + 1"
  "frames_started (StartNewFrame E c) = Suc (frames_started c)" "cases_ended (StartNewFrame E c) = cases_ended c"
  by (simp_all add: StartNewFrame_def sched_def act_def Let_def)

lemma AdvanceTime_state [frame_simps]:
  "peer_table (AdvanceTime E c) = await_timeadvance (peer_table c)"
  "endframe (AdvanceTime E c) = endframe c" "ready_to_start_frame (AdvanceTime E c) = ready_to_start_frame c"
  "missed_timeout (AdvanceTime E c) = missed_timeout c" "paused (AdvanceTime E c) = paused c"
  "start_frame_hz (AdvanceTime E c) = start_frame_hz c" "endGame (AdvanceTime E c) = endGame c"
  "max_frame (AdvanceTime E c) = max_frame c" "separate_advance_time (AdvanceTime E c) = separate_advance_time c"
  "frame_count (AdvanceTime E c) = frame_count c"
  "frames_started (AdvanceTime E c) = frames_started c" "cases_ended (AdvanceTime E c) = cases_ended c"
  by (simp_all add: AdvanceTime_def sched_def act_def Let_def)

lemma next_frame_state [frame_simps]:
  "endframe (next_frame E c) = endframe c" "ready_to_start_frame (next_frame E c) = ready_to_start_frame c"
  "missed_timeout (next_frame E c) = missed_timeout c" "paused (next_frame E c) = paused c"
  "start_frame_hz (next_frame E c) = start_frame_hz c" "endGame (next_frame E c) = endGame c"
  "max_frame (next_frame E c) = max_frame c" "separate_advance_time (next_frame E c) = separate_advance_time c"
  "cases_ended (next_frame E c) = cases_ended c"
  "frames_started (next_frame E c) = (if separate_advance_time c then frames_started c else Suc (frames_started c))"
  by (simp_all add: next_frame_def frame_simps)

lemma act_state [simp]:
  "peer_table (act a c) = peer_table c" "endGame (act a c) = endGame c" "endframe (act a c) = endframe c"
  "ready_to_start_frame (act a c) = ready_to_start_frame c" "missed_timeout (act a c) = missed_timeout c"
  "paused (act a c) = paused c" "start_frame_hz (act a c) = start_frame_hz c" "max_frame (act a c) = max_frame c"
  by (simp_all add: act_def)

lemma image_map_filter:
  assumes "\<And>a. peer_id (f a) = peer_id a"
  shows "set (map peer_id (filter P (map f xs))) = set (map peer_id (filter (\<lambda>a. P (f a)) xs))"
  using assms by (fastforce simp: image_iff)

lemma table_sets [frame_simps]:
  "stepped (await_endframe tbl) = stepped tbl"
  "running_frame (await_endframe tbl) = stepped tbl"
  "moving_time (await_endframe tbl) = moving_time tbl"
  "stepped (await_timeadvance tbl) = stepped tbl"
  "running_frame (await_timeadvance tbl) = running_frame tbl"
  "moving_time (await_timeadvance tbl) = stepped tbl"
  "stepped (timeadvance_received p tbl) = stepped tbl"
  "running_frame (timeadvance_received p tbl) = running_frame tbl"
  "moving_time (timeadvance_received p tbl) = moving_time tbl - {p}"
  "stepped (endframe_received p tbl) = stepped tbl"
  "running_frame (endframe_received p tbl) = running_frame tbl - {p}"
  "moving_time (endframe_received p tbl) = moving_time tbl"
  "stepped (power_down p tbl) = stepped tbl" "running_frame (power_down p tbl) = running_frame tbl"
  "moving_time (power_down p tbl) = moving_time tbl"
  unfolding stepped_def running_frame_def moving_time_def power_down_def
    await_endframe_def await_timeadvance_def endframe_received_def timeadvance_received_def
  by (subst image_map_filter; auto simp: image_iff)+

lemma all_advanced: "\<not> list_ex waiting_on_timeadvance tbl \<Longrightarrow> moving_time tbl = {}"
  by (auto simp: moving_time_def list_ex_iff)

text \<open>
  The invariant of a case. While END_FRAME messages of a frame come in, the set of the handler has everybody who has not ended
  it; and when the next frame is due, or time is being advanced, nobody is in a frame and no message of the next frame came.
\<close>

definition frame_ok :: "PeerRecord list \<Rightarrow> rendezvous \<Rightarrow> bool \<Rightarrow> bool" where
  "frame_ok tbl ef ready \<longleftrightarrow>
     (rv_initialized ef \<longrightarrow> running_frame tbl \<subseteq> rv_set ef) \<and>
     (ready \<or> moving_time tbl \<noteq> {} \<longrightarrow> running_frame tbl = {} \<and> (rv_initialized ef \<longrightarrow> stepped tbl \<subseteq> rv_set ef)) \<and>
     (moving_time tbl \<noteq> {} \<longrightarrow> \<not> ready)"

abbreviation frame_inv :: "FramedController \<Rightarrow> bool" where
  "frame_inv c \<equiv> frame_ok (peer_table c) (endframe c) (ready_to_start_frame c)"

text \<open>
  What the peers owe: a stepped peer sends END_FRAME only for a frame it was started for, and TIME_ADVANCED only when it was
  asked. Initialization messages and the start-up timer belong to the time before the case.
\<close>

fun answers :: "frame_event \<Rightarrow> FramedController \<Rightarrow> bool" where
  "answers (EndFrame p) c \<longleftrightarrow> (p \<in> stepping c \<longrightarrow> p \<in> in_frame c)"
| "answers (TimeAdvanced p) c \<longleftrightarrow> p \<in> advancing c"
| "answers (InitCaseComplete p) c \<longleftrightarrow> False"
| "answers (Timeout t) c \<longleftrightarrow> t \<noteq> STARTUP"
| "answers _ c \<longleftrightarrow> True"

definition case_ready :: "FramedController \<Rightarrow> bool" where
  "case_ready c \<longleftrightarrow> in_frame c = {} \<and> advancing c = {} \<and> \<not> ready_to_start_frame c \<and> \<not> rv_initialized (endframe c)"

text \<open>
  The states of a case: it begins with the message that completes the initialization, and goes on with any events; in between
  the base class may do with its own members what it wants.
\<close>

inductive in_case :: "controller_env \<Rightarrow> FramedController \<Rightarrow> bool" for E where
  starts: "case_ready c \<Longrightarrow> rv_missing (map peer_id (peer_table c)) (init_case c) \<subseteq> {p} \<Longrightarrow>
    in_case E (doInitCaseComplete E p c)"
| event: "in_case E c \<Longrightarrow> answers e c \<Longrightarrow> in_case E (frame_step E e c)"
| base: "in_case E c \<Longrightarrow> SamsonModel.more c' = SamsonModel.more c \<Longrightarrow> in_case E c'"

lemma next_frame_ok:
  assumes "in_frame c = {}" "advancing c = {}" "rv_initialized ef \<longrightarrow> stepping c \<subseteq> rv_set ef"
  shows "frame_ok (peer_table (next_frame E c)) ef False"
  using assms by (auto simp: next_frame_def frame_simps frame_ok_def)

lemma quiet_ok: "running_frame tbl = {} \<Longrightarrow> moving_time tbl = {} \<Longrightarrow> \<not> rv_initialized ef \<Longrightarrow> frame_ok tbl ef r"
  by (simp add: frame_ok_def)

lemma endframe_done:
  assumes "frame_inv c" "answers (EndFrame p) c" "rv_done (rv_erase (stepping_ids (peer_table c)) p (endframe c))"
  shows "in_frame c \<subseteq> {p}" "advancing c = {}"
proof -
  show "in_frame c \<subseteq> {p}" using assms frame_subsets(1) [of "peer_table c"]
    by (auto simp: frame_ok_def rv_done_def rv_erase_def frame_simps Let_def split: if_splits)
  show "advancing c = {}"
  proof (rule ccontr)
    assume *: "advancing c \<noteq> {}"
    with assms(1) have "in_frame c = {}" and "rv_initialized (endframe c) \<longrightarrow> stepping c \<subseteq> rv_set (endframe c)"
      by (auto simp: frame_ok_def)
    with assms(2,3) have "stepping c = {}"
      by (auto simp: rv_done_def rv_erase_def frame_simps Let_def split: if_splits)
    with * frame_subsets(2) show False by blast
  qed
qed

lemma doEndFrame_inv:
  assumes "frame_inv c" "answers (EndFrame p) c"
  shows "frame_inv (doEndFrame E p c)"
proof (cases "endGame c")
  case False
  let ?ef = "rv_erase (stepping_ids (peer_table c)) p (endframe c)"
  show ?thesis
  proof (cases "rv_done ?ef")
    case True
    note d = endframe_done [OF assms True]
    let ?c1 = "c\<lparr>peer_table := endframe_received p (peer_table c), endframe := ?ef\<rparr>"
    have "in_frame ?c1 = {}" "advancing ?c1 = {}" using d by (auto simp: frame_simps)
    then have "frame_ok (peer_table (next_frame E ?c1)) (rv_reset ?ef) False" "\<And>r. frame_ok (peer_table ?c1) (rv_reset ?ef) r"
      by (simp_all add: next_frame_ok quiet_ok rv_reset_def)
    with \<open>\<not> endGame c\<close> True show ?thesis by (simp add: doEndFrame_def next_frame_state Let_def)
  next
    case nd: False
    then show ?thesis using assms \<open>\<not> endGame c\<close> frame_subsets(1) [of "peer_table c"]
      by (auto simp: doEndFrame_def frame_simps Let_def frame_ok_def rv_erase_def split: if_splits)
  qed
qed (use assms in \<open>simp add: doEndFrame_def\<close>)

lemma doTimeAdvanced_inv:
  assumes "frame_inv c" "answers (TimeAdvanced p) c"
  shows "frame_inv (doTimeAdvanced E p c)"
proof -
  let ?c1 = "c\<lparr>peer_table := timeadvance_received p (peer_table c)\<rparr>"
  have "\<not> list_ex waiting_on_timeadvance (peer_table ?c1) \<Longrightarrow> advancing ?c1 = {}" by (rule all_advanced) simp
  with assms show ?thesis by (auto simp: doTimeAdvanced_def frame_simps frame_ok_def Let_def)
qed

lemma frame_step_inv:
  assumes "frame_inv c" "answers e c"
  shows "frame_inv (frame_step E e c)"
proof (cases e)
  case (Timeout t)
  with assms next_frame_ok [of c "endframe c" E] show ?thesis
    by (cases t) (auto simp: Framed_handle_timeout_def watchdog_action_def act_def frame_simps frame_ok_def)
next
  case StartSimulation
  with assms next_frame_ok [of "c\<lparr>paused := False\<rparr>" "endframe c" E] show ?thesis
    by (auto simp: doStartSimulation_def frame_simps frame_ok_def Let_def)
qed (use assms doEndFrame_inv doTimeAdvanced_inv in
    \<open>simp_all add: doEndCaseComplete_def doEndRunComplete_def doRegisterEndEngage_def doEndEngagement_def doPauseSimulation_def
      MonteCarlo_InitCase_def act_def Let_def frame_simps frame_ok_def\<close>)

lemma doInitCaseComplete_begins:
  assumes "case_ready c" "rv_missing (map peer_id (peer_table c)) (init_case c) \<subseteq> {p}"
  shows "frame_inv (doInitCaseComplete E p c)"
proof -
  let ?c1 = "c\<lparr>init_case := rv_erase (map peer_id (peer_table c)) p (init_case c)\<rparr>"
  have "rv_done (init_case ?c1)" using assms(2) by (auto simp: rv_done_def rv_erase_def rv_missing_def Let_def image_subset_iff split: if_splits)
  then show ?thesis using assms(1)
    by (simp add: doInitCaseComplete_def Let_def sched_def act_def case_ready_def next_frame_state next_frame_ok)
qed

lemma in_case_inv: "in_case E c \<Longrightarrow> frame_inv c"
proof (induction rule: in_case.induct)
  case (base c c')
  then show ?case by (cases c; cases c') simp
qed (simp_all add: doInitCaseComplete_begins frame_step_inv)

text \<open>The sender whose answer an event brings.\<close>

fun reporter :: "frame_event \<Rightarrow> int set" where
  "reporter (EndFrame p) = {p}"
| "reporter (TimeAdvanced p) = {p}"
| "reporter _ = {}"

lemma doEndFrame_starts:
  assumes "frame_inv c" "answers (EndFrame p) c"
  shows "frames_started (doEndFrame E p c) = frames_started c \<or>
    frames_started (doEndFrame E p c) = Suc (frames_started c) \<and> in_frame c \<union> advancing c \<subseteq> {p} \<and>
    in_frame (doEndFrame E p c) = stepping c"
proof (cases "endGame c \<or> \<not> rv_done (rv_erase (stepping_ids (peer_table c)) p (endframe c))")
  case False
  with endframe_done [OF assms] show ?thesis by (auto simp: doEndFrame_def Let_def next_frame_def frame_simps)
qed (auto simp: doEndFrame_def Let_def)

lemma doTimeAdvanced_starts:
  assumes "frame_inv c" "answers (TimeAdvanced p) c"
  shows "frames_started (doTimeAdvanced E p c) = frames_started c \<or>
    frames_started (doTimeAdvanced E p c) = Suc (frames_started c) \<and> in_frame c \<union> advancing c \<subseteq> {p} \<and>
    in_frame (doTimeAdvanced E p c) = stepping c"
  using assms all_advanced [of "timeadvance_received p (peer_table c)"]
  by (auto simp: doTimeAdvanced_def Let_def frame_simps frame_ok_def)

lemma frame_step_starts:
  assumes "frame_inv c" "answers e c"
  shows "frames_started (frame_step E e c) = frames_started c \<or>
    frames_started (frame_step E e c) = Suc (frames_started c) \<and> in_frame c \<union> advancing c \<subseteq> reporter e \<and>
    in_frame (frame_step E e c) = stepping c"
proof (cases e)
  case (Timeout t)
  with assms show ?thesis
    by (cases t) (auto simp: Framed_handle_timeout_def watchdog_action_def next_frame_def frame_simps frame_ok_def)
next
  case StartSimulation
  with assms show ?thesis by (auto simp: doStartSimulation_def Let_def next_frame_def frame_simps frame_ok_def)
qed (use assms doEndFrame_starts doTimeAdvanced_starts in
    \<open>simp_all add: doEndCaseComplete_def doEndRunComplete_def doRegisterEndEngage_def doEndEngagement_def doPauseSimulation_def
      MonteCarlo_InitCase_def Let_def\<close>)

text \<open>
  C8. No START_FRAME overtakes a frame. In every state of a case, whatever messages, timers, pauses and restarts came before,
  the handling of an event sends at most one START_FRAME; and it sends one only if no stepped peer is still in a frame or still
  advancing its time, except the peer whose answer is being handled. From then on every stepped peer is in a frame again.
\<close>

theorem frames_never_overlap:
  assumes "in_case E c" and "answers e c"
  shows "frames_started (frame_step E e c) = frames_started c \<or>
    frames_started (frame_step E e c) = Suc (frames_started c) \<and> in_frame c \<union> advancing c \<subseteq> reporter e \<and>
    in_frame (frame_step E e c) = stepping c"
  using frame_step_starts [OF in_case_inv [OF assms(1)] assms(2)] .

definition example_controller_env :: controller_env where
  "example_controller_env = \<lparr>schedule_timer = (\<lambda>t d r log. int (length log)), checkPeersStarted = (\<lambda>log tbl. (True, tbl)),
     getStepRate = (\<lambda>log. 2), getPeerTable = (\<lambda>j. (0, [])), peer_table_empty = (\<lambda>tbl. []), frame_seconds = (\<lambda>log. 0),
     timing_set = (\<lambda>n. 0)\<rparr>"

definition example_peer :: "int \<Rightarrow> int \<Rightarrow> PeerRecord" where
  "example_peer p r = \<lparr>peer_id = p, rate = r, waiting_on_endframe = False, waiting_on_timeadvance = False, powered_down = False\<rparr>"

definition example_base :: SamsonModel where
  "example_base = \<lparr>model_id = 1, run_id = 7, caseNumber = 1, currFrame = 0, currTime = 0, frame_count = 0,
     separate_advance_time = False, timing_rate = 0, actions = []\<rparr>"

definition example_framed :: FramedController where
  "example_framed = (FramedController_new example_base)\<lparr>peer_table := [example_peer 1 0, example_peer 2 10, example_peer 3 20]\<rparr>"

lemmas example_framed_defs = example_framed_def example_base_def example_peer_def example_controller_env_def
  FramedController_new_def rv_init_def

lemmas framed_eval = doInitCaseComplete_def doEndFrame_def next_frame_def StartNewFrame_def AdvanceTime_def sched_def act_def
  rv_erase_def rv_done_def rv_reset_def rv_missing_def stepping_ids_def endframe_received_def await_endframe_def

definition example_in_frame :: FramedController where
  "example_in_frame = doInitCaseComplete example_controller_env 3 (example_framed\<lparr>init_case := \<lparr>rv_set = {3}, rv_initialized = True\<rparr>\<rparr>)"

lemma example_in_case: "in_case example_controller_env example_in_frame"
  unfolding example_in_frame_def
  by (rule in_case.starts) (simp_all add: case_ready_def example_framed_defs running_frame_def moving_time_def rv_missing_def)

theorem frames_never_overlap_witness:
  "in_frame (doEndFrame example_controller_env 3 (doEndFrame example_controller_env 2 example_in_frame)) = {2, 3} \<and>
   frames_started (doEndFrame example_controller_env 3 (doEndFrame example_controller_env 2 example_in_frame)) = 2"
proof -
  let ?E = example_controller_env
  let ?c = "doEndFrame ?E 2 example_in_frame"
  have a: "answers (EndFrame 2) example_in_frame" "answers (EndFrame 3) ?c"
    by (auto simp: example_in_frame_def example_framed_defs framed_eval running_frame_def image_iff)
  have "in_case ?E ?c" using in_case.event [OF example_in_case a(1)] by simp
  from frames_never_overlap [OF this a(2)] have "frames_started (doEndFrame ?E 3 ?c) = frames_started ?c \<or>
    in_frame (doEndFrame ?E 3 ?c) = stepping ?c" by auto
  moreover have "frames_started (doEndFrame ?E 3 ?c) = 2" "frames_started ?c = 1" "stepping ?c = {2, 3}"
    by (auto simp: example_in_frame_def example_framed_defs framed_eval stepped_def image_iff)
  ultimately show ?thesis by simp
qed

section \<open>Every round starts the next frame\<close>

text \<open>The controller runs freely: not paused, no frame rate, one message per frame.\<close>

definition unpaced :: "FramedController \<Rightarrow> bool" where
  "unpaced c \<longleftrightarrow> \<not> endGame c \<and> \<not> paused c \<and> start_frame_hz c = 0 \<and> \<not> separate_advance_time c"

abbreviation missing_endframes :: "FramedController \<Rightarrow> int set" where
  "missing_endframes c \<equiv> rv_missing (stepping_ids (peer_table c)) (endframe c)"

lemma stepping_ids_table [frame_simps]:
  "stepping_ids (await_endframe tbl) = stepping_ids tbl" "stepping_ids (endframe_received p tbl) = stepping_ids tbl"
  "stepping_ids (await_timeadvance tbl) = stepping_ids tbl"
  by (induction tbl) (simp_all add: stepping_ids_def await_endframe_def endframe_received_def await_timeadvance_def)

lemma rv_done_missing: "rv_done (rv_erase ms p r) \<longleftrightarrow> rv_missing ms r \<subseteq> {p}"
  by (auto simp: rv_done_def rv_erase_def rv_missing_def Let_def)

lemma rv_missing_erase: "rv_missing ms (rv_erase ms p r) = rv_missing ms r - {p}"
  by (auto simp: rv_erase_def rv_missing_def Let_def)

lemma rv_missing_reset: "rv_done r \<Longrightarrow> rv_missing ms (rv_reset r) = set ms"
  by (auto simp: rv_done_def rv_reset_def rv_missing_def)

text \<open>What a completed round does: the next frame, or the end of the case after the last one.\<close>

definition round_over :: "FramedController \<Rightarrow> FramedController \<Rightarrow> bool" where
  "round_over c c' \<longleftrightarrow> unpaced c' \<and> max_frame c' = max_frame c \<and> stepping_ids (peer_table c') = stepping_ids (peer_table c) \<and>
     rv_missing (stepping_ids (peer_table c)) (endframe c') = stepping c \<and>
     (if word_of_int (frame_count c) = max_frame c
      then frame_count c' = frame_count c \<and> frames_started c' = frames_started c \<and> cases_ended c' = Suc (cases_ended c)
      else frame_count c' = frame_count c + 1 \<and> frames_started c' = Suc (frames_started c) \<and> cases_ended c' = cases_ended c)"

lemma doEndFrame_last: "unpaced c \<Longrightarrow> missing_endframes c \<subseteq> {p} \<Longrightarrow> round_over c (doEndFrame E p c)"
  by (simp add: doEndFrame_def unpaced_def round_over_def Let_def next_frame_def frame_simps rv_done_missing rv_missing_reset)

lemma doEndFrame_waits:
  assumes "unpaced c" "\<not> missing_endframes c \<subseteq> {p}"
  shows "unpaced (doEndFrame E p c)" "missing_endframes (doEndFrame E p c) = missing_endframes c - {p}"
    "stepping_ids (peer_table (doEndFrame E p c)) = stepping_ids (peer_table c)"
    "round_over (doEndFrame E p c) c' \<Longrightarrow> round_over c c'"
proof -
  have "doEndFrame E p c = c\<lparr>peer_table := endframe_received p (peer_table c),
      endframe := rv_erase (stepping_ids (peer_table c)) p (endframe c)\<rparr>"
    using assms by (simp add: doEndFrame_def unpaced_def Let_def rv_done_missing)
  then show "unpaced (doEndFrame E p c)" "missing_endframes (doEndFrame E p c) = missing_endframes c - {p}"
    "stepping_ids (peer_table (doEndFrame E p c)) = stepping_ids (peer_table c)"
    "round_over (doEndFrame E p c) c' \<Longrightarrow> round_over c c'"
    using assms by (simp_all add: unpaced_def rv_missing_erase frame_simps round_over_def cong: if_cong)
qed

lemma endframe_round:
  assumes "unpaced c" "missing_endframes c = set ps" "distinct ps" "ps \<noteq> []"
  shows "round_over c (fold (doEndFrame E) ps c)"
  using assms
proof (induction ps arbitrary: c)
  case (Cons p ps)
  show ?case
  proof (cases "ps = []")
    case True
    with Cons.prems doEndFrame_last show ?thesis by simp
  next
    case False
    with Cons.prems have "\<not> missing_endframes c \<subseteq> {p}" by (cases ps) auto
    note w = doEndFrame_waits [OF Cons.prems(1) this, of E]
    have "round_over (doEndFrame E p c) (fold (doEndFrame E) ps (doEndFrame E p c))"
      using Cons.IH [OF w(1)] Cons.prems False w(2) by simp
    then show ?thesis using w(4) by simp
  qed
qed simp

lemma frame_rounds:
  assumes "unpaced c" "missing_endframes c = stepping c" "stepping c \<noteq> {}"
    and "max_frame c = of_nat n" "n < 2 ^ 32" "frame_count c = int m" "m + length rounds \<le> Suc n" "m \<le> n"
    and "\<forall>ps \<in> set rounds. distinct ps \<and> set ps = stepping c"
  shows "frames_started (fold (fold (doEndFrame E)) rounds c) = frames_started c + min (length rounds) (n - m) \<and>
    cases_ended (fold (fold (doEndFrame E)) rounds c) = cases_ended c + (if m + length rounds = Suc n then 1 else 0)"
  using assms
proof (induction rounds arbitrary: c m)
  case (Cons ps rounds)
  let ?c = "fold (doEndFrame E) ps c"
  have "round_over c ?c" using Cons.prems by (intro endframe_round) auto
  then have r: "unpaced ?c" "missing_endframes ?c = stepping ?c" "stepping ?c = stepping c" "max_frame ?c = of_nat n"
    using Cons.prems(4) unfolding round_over_def by (auto simp flip: set_stepping_ids)
  have last: "word_of_int (frame_count c) = max_frame c \<longleftrightarrow> m = n"
    using Cons.prems(4-8) count_eq [of m n] by simp
  show ?case
  proof (cases "m = n")
    case True
    with Cons.prems \<open>round_over c ?c\<close> last show ?thesis by (simp add: round_over_def)
  next
    case False
    then have "frame_count ?c = int (Suc m)" "frames_started ?c = Suc (frames_started c)" "cases_ended ?c = cases_ended c"
      using \<open>round_over c ?c\<close> last Cons.prems(6) by (auto simp: round_over_def)
    with Cons.IH [of ?c "Suc m"] Cons.prems r False show ?thesis by simp
  qed
qed simp

text \<open>
  C9. A case with a limit of \<open>n\<close> frames runs to its end, when the controller is as fast as its models: it is not paused, no frame
  rate is set (\<open>start_frame_hz = 0\<close>; with a rate the next frame is started by the timer, see below), the advance of time is not a separate
  step (\<open>separate_advance_time\<close> is false), some model is stepped, and the case starts at frame 0. When the last model has initialized the
  case and then, round after round, every stepped model ends its frame once, in any order, each round makes the controller start the
  next frame: after \<open>k \<le> n\<close> rounds it has started \<open>min (k + 1) n\<close> frames, and with the \<open>n\<close>th round it ends the case, once.
\<close>

theorem case_runs_to_max_frame:
  assumes "case_ready c" and "rv_missing (map peer_id (peer_table c)) (init_case c) \<subseteq> {p}" and "rv_set (endframe c) = {}"
    and "\<not> paused c" and "start_frame_hz c = 0" and "\<not> separate_advance_time c" and "stepping c \<noteq> {}"
    and "frame_count c = 0" and "max_frame c = of_nat n" and "0 < n" and "n < 2 ^ 32"
    and "length rounds \<le> n" and "\<forall>ps \<in> set rounds. distinct ps \<and> set ps = stepping c"
  shows "frames_started (fold (fold (doEndFrame E)) rounds (doInitCaseComplete E p c)) =
      frames_started c + min (Suc (length rounds)) n \<and>
    cases_ended (fold (fold (doEndFrame E)) rounds (doInitCaseComplete E p c)) = cases_ended c + (if length rounds = n then 1 else 0)"
proof -
  let ?c = "doInitCaseComplete E p c"
  have "rv_done (rv_erase (map peer_id (peer_table c)) p (init_case c))" using assms(2) by (simp add: rv_done_missing)
  then have "unpaced ?c" "endframe ?c = endframe c" "stepping ?c = stepping c" "max_frame ?c = max_frame c"
    "frame_count ?c = 1" "frames_started ?c = Suc (frames_started c)" "cases_ended ?c = cases_ended c"
    "stepping_ids (peer_table ?c) = stepping_ids (peer_table c)"
    using assms by (simp_all add: doInitCaseComplete_def Let_def sched_def act_def next_frame_def frame_simps unpaced_def)
  moreover have "rv_missing (stepping_ids (peer_table c)) (endframe c) = stepping c"
    using assms(1,3) by (simp add: rv_missing_def case_ready_def frame_simps)
  ultimately show ?thesis using frame_rounds [of ?c n 1 rounds E] assms by (simp add: min_def) linarith
qed

theorem case_runs_to_max_frame_witness:
  "frames_started (fold (fold (doEndFrame example_controller_env)) [[2, 3], [3, 2]] (doInitCaseComplete example_controller_env 3
      (example_framed\<lparr>init_case := \<lparr>rv_set = {3}, rv_initialized = True\<rparr>, max_frame := 2\<rparr>))) = 2 \<and>
   cases_ended (fold (fold (doEndFrame example_controller_env)) [[2, 3], [3, 2]] (doInitCaseComplete example_controller_env 3
      (example_framed\<lparr>init_case := \<lparr>rv_set = {3}, rv_initialized = True\<rparr>, max_frame := 2\<rparr>))) = 1"
  using case_runs_to_max_frame [of "example_framed\<lparr>init_case := \<lparr>rv_set = {3}, rv_initialized = True\<rparr>, max_frame := 2\<rparr>" 3 2
      "[[2, 3], [3, 2]]" example_controller_env]
  by (simp add: case_ready_def example_framed_defs running_frame_def moving_time_def stepped_def rv_missing_def insert_commute)

section \<open>The frame rate\<close>

text \<open>A frame rate is set, a tick of the frame timer was missed, and the next frame is not waiting to be started.\<close>

definition tick_missed :: "FramedController \<Rightarrow> bool" where
  "tick_missed c \<longleftrightarrow> start_frame_hz c \<noteq> 0 \<and> missed_timeout c \<and> \<not> ready_to_start_frame c \<and> \<not> paused c"

lemma frame_step_tick_missed:
  assumes "tick_missed c" "e \<noteq> PauseSimulation"
  shows "tick_missed (frame_step E e c)"
proof (cases e)
  case (EndFrame p)
  with assms show ?thesis by (auto simp: tick_missed_def doEndFrame_def Let_def frame_simps)
next
  case (Timeout t)
  with assms show ?thesis
    by (cases t) (auto simp: tick_missed_def Framed_handle_timeout_def watchdog_action_def startsim_action_def schedule_start_def
        sched_def act_def case_prod_beta Let_def)
qed (use assms in \<open>auto simp: tick_missed_def doInitCaseComplete_def doEndCaseComplete_def doEndRunComplete_def doTimeAdvanced_def
      doRegisterEndEngage_def doEndEngagement_def doStartSimulation_def MonteCarlo_InitCase_def sched_def act_def Let_def frame_simps\<close>)

lemma fold_tick_missed:
  "tick_missed c \<Longrightarrow> PauseSimulation \<notin> set es \<Longrightarrow> tick_missed (fold (frame_step E) es c)"
  by (induction es arbitrary: c) (auto simp: frame_step_tick_missed)

text \<open>
  The frame rate is lost with the first frame that takes too long. After one tick of the frame timer that finds the
  frame still running, the mark \<open>missed_timeout\<close> stays set whatever follows, unless the simulation is paused: every END_FRAME
  that completes a round starts the next frame at once, without waiting for the timer.
\<close>

lemma frame_rate_lost:
  assumes "start_frame_hz c \<noteq> 0" and "\<not> ready_to_start_frame c" and "\<not> paused c" and "PauseSimulation \<notin> set es"
    and "c' = fold (frame_step E) (Timeout FRAME # es) c"
    and "\<not> endGame c'" and "rv_missing (stepping_ids (peer_table c')) (endframe c') \<subseteq> {p}"
    and "word_of_int (frame_count c') \<noteq> max_frame c'" and "\<not> separate_advance_time c'"
  shows "missed_timeout c' \<and> frames_started (doEndFrame E p c') = Suc (frames_started c')"
proof -
  have "tick_missed (frame_step E (Timeout FRAME) c)" using assms(1-3) by (simp add: tick_missed_def Framed_handle_timeout_def)
  then have "tick_missed c'" using fold_tick_missed assms(4,5) by simp
  then show ?thesis using assms(6-9)
    by (simp add: tick_missed_def doEndFrame_def Let_def rv_done_missing next_frame_def frame_simps)
qed

lemma frame_rate_lost_witness:
  "missed_timeout (frame_step example_controller_env (Timeout FRAME) (example_in_frame\<lparr>start_frame_hz := 50\<rparr>)) \<and>
   frames_started (doEndFrame example_controller_env 3 (doEndFrame example_controller_env 2
     (frame_step example_controller_env (Timeout FRAME) (example_in_frame\<lparr>start_frame_hz := 50\<rparr>)))) = 2"
proof -
  let ?E = example_controller_env
  let ?c = "example_in_frame\<lparr>start_frame_hz := 50\<rparr>"
  let ?d = "fold (frame_step ?E) [Timeout FRAME, EndFrame 2] ?c"
  have "\<not> endGame ?d" "rv_missing (stepping_ids (peer_table ?d)) (endframe ?d) \<subseteq> {3}"
    "word_of_int (frame_count ?d) \<noteq> max_frame ?d" "\<not> separate_advance_time ?d" "frames_started ?d = 1"
    by (simp_all add: Framed_handle_timeout_def example_in_frame_def example_framed_defs framed_eval)
  moreover have "\<not> ready_to_start_frame ?c" "\<not> paused ?c" "start_frame_hz ?c \<noteq> 0"
    by (simp_all add: example_in_frame_def example_framed_defs framed_eval)
  ultimately show ?thesis using frame_rate_lost [of ?c "[EndFrame 2]" ?d ?E 3]
    by (simp add: Framed_handle_timeout_def)
qed

section \<open>Cases\<close>

text \<open>
  The reference for a Monte Carlo run of \<open>N\<close> cases: what the end of a case does to the number of the case and to the numbers of
  INIT_CASE and END_RUN messages sent. The set of the handler decides when a case has ended.
\<close>

definition case_over :: "int \<Rightarrow> int \<times> nat \<times> nat \<Rightarrow> int \<times> nat \<times> nat" where
  "case_over N v = (let (n, i, e) = v in if n \<ge> N then (n, i, Suc e) else (n + 1, Suc i, e))"

definition case_view :: "FramedController \<Rightarrow> int \<times> nat \<times> nat" where
  "case_view c = (caseNumber c, count_list (actions c) SendInitCase, count_list (actions c) SendEndRun)"

abbreviation all_ids :: "FramedController \<Rightarrow> int list" where
  "all_ids c \<equiv> map peer_id (peer_table c)"

lemma doEndCaseComplete_view:
  "endcase_complete (doEndCaseComplete p c) = snd (rv_arrive (all_ids c) p (endcase_complete c))"
  "peer_table (doEndCaseComplete p c) = peer_table c"
  "MonteCarlo_Number_Of_Runs (doEndCaseComplete p c) = MonteCarlo_Number_Of_Runs c"
  "case_view (doEndCaseComplete p c) =
     (if fst (rv_arrive (all_ids c) p (endcase_complete c)) then case_over (MonteCarlo_Number_Of_Runs c) (case_view c)
      else case_view c)"
  by (simp_all add: doEndCaseComplete_def rv_arrive_def case_view_def case_over_def act_def Let_def)

lemma end_case_refines:
  "case_view (fold doEndCaseComplete ps c) =
     (case_over (MonteCarlo_Number_Of_Runs c) ^^ count_list (fst (rv.round (all_ids c) ps (endcase_complete c))) True) (case_view c) \<and>
   endcase_complete (fold doEndCaseComplete ps c) = snd (rv.round (all_ids c) ps (endcase_complete c)) \<and>
   peer_table (fold doEndCaseComplete ps c) = peer_table c \<and>
   MonteCarlo_Number_Of_Runs (fold doEndCaseComplete ps c) = MonteCarlo_Number_Of_Runs c"
proof (induction ps arbitrary: c)
  case (Cons p ps)
  show ?case using Cons.IH [of "doEndCaseComplete p c"]
    by (simp add: doEndCaseComplete_view case_prod_beta Let_def funpow_swap1)
qed simp

lemma end_case_round:
  assumes "rv_missing (all_ids c) (endcase_complete c) = set ps" "distinct ps" "ps \<noteq> []"
  shows "case_view (fold doEndCaseComplete ps c) = case_over (MonteCarlo_Number_Of_Runs c) (case_view c)"
    "rv_missing (all_ids c) (endcase_complete (fold doEndCaseComplete ps c)) = set (all_ids c)"
  using rv.round_complete [OF assms] end_case_refines [of ps c] by simp_all

lemma case_over_power:
  "n \<le> int N \<Longrightarrow> (case_over (int N) ^^ k) (n, i, e) =
    (if n + int k \<le> int N then (n + int k, i + k, e) else (int N, i + nat (int N - n), e + (k - nat (int N - n))))"
proof (induction k arbitrary: n i e)
  case (Suc k)
  show ?case
  proof (cases "n = int N")
    case True
    with Suc.IH [of n i "Suc e"] show ?thesis by (simp add: funpow_swap1 case_over_def split: if_splits)
  next
    case False
    with Suc.prems Suc.IH [of "n + 1" "Suc i" e] show ?thesis
      by (auto simp: funpow_swap1 case_over_def nat_diff_distrib split: if_splits)
  qed
qed simp

lemma end_case_rounds:
  assumes "rv_missing (all_ids c) (endcase_complete c) = set (all_ids c)" "peer_table c \<noteq> []"
    and "\<forall>ps \<in> set rounds. distinct ps \<and> set ps = set (all_ids c)"
  shows "case_view (fold (fold doEndCaseComplete) rounds c) =
      (case_over (MonteCarlo_Number_Of_Runs c) ^^ length rounds) (case_view c) \<and>
    rv_missing (all_ids c) (endcase_complete (fold (fold doEndCaseComplete) rounds c)) = set (all_ids c) \<and>
    peer_table (fold (fold doEndCaseComplete) rounds c) = peer_table c"
  using assms
proof (induction rounds arbitrary: c)
  case (Cons ps rounds)
  let ?c = "fold doEndCaseComplete ps c"
  have ps: "rv_missing (all_ids c) (endcase_complete c) = set ps" "distinct ps" "ps \<noteq> []" using Cons.prems by auto
  note r = end_case_round [OF this] end_case_refines [of ps c]
  with Cons.IH [of ?c] Cons.prems show ?case by (simp add: funpow_swap1)
qed simp

lemma end_case_silent:
  assumes "\<not> rv_missing (all_ids c) (endcase_complete c) \<subseteq> set late"
  shows "case_view (fold doEndCaseComplete late c) = case_view c"
proof -
  have "fst (rv.round (all_ids c) late (endcase_complete c)) = replicate (length late) False"
    using rv.round_silent [OF assms] by (metis fst_conv)
  then have "count_list (fst (rv.round (all_ids c) late (endcase_complete c))) True = 0" by (simp add: count_list_0_iff)
  then show ?thesis using end_case_refines [of late c] by simp
qed

text \<open>
  C28. A Monte Carlo run has the number of cases it was asked for. From the first of \<open>N\<close> cases on, let every peer of the table
  report the end of each case once, in any order. Each round but the last makes the controller initialize the next case, the
  \<open>N\<close>th makes it end the run, and a round in which some peer has not reported sends nothing.
\<close>

theorem monte_carlo_runs_all_cases:
  assumes "rv_missing (all_ids c) (endcase_complete c) = set (all_ids c)" and "peer_table c \<noteq> []"
    and "caseNumber c = 1" and "MonteCarlo_Number_Of_Runs c = int N" and "0 < N" and "length rounds \<le> N"
    and "\<forall>ps \<in> set rounds. distinct ps \<and> set ps = set (all_ids c)" and "\<not> set (all_ids c) \<subseteq> set late"
    and "c' = fold doEndCaseComplete late (fold (fold doEndCaseComplete) rounds c)"
  shows "count_list (actions c') SendInitCase = count_list (actions c) SendInitCase + min (length rounds) (N - 1) \<and>
    count_list (actions c') SendEndRun = count_list (actions c) SendEndRun + (if length rounds = N then 1 else 0)"
proof -
  let ?c = "fold (fold doEndCaseComplete) rounds c"
  note r = end_case_rounds [OF assms(1,2,7)]
  then have "case_view c' = case_view ?c" using end_case_silent [of ?c late] assms(8,9) by simp
  then have "case_view c' = (case_over (int N) ^^ length rounds) (case_view c)" using r assms(4) by simp
  also have "case_view c = (1, count_list (actions c) SendInitCase, count_list (actions c) SendEndRun)"
    using assms(3) by (simp add: case_view_def)
  finally show ?thesis using assms(5,6) case_over_power [of 1 N "length rounds"]
    by (auto simp: case_view_def split: if_splits)
qed

theorem monte_carlo_runs_all_cases_witness:
  "count_list (actions (fold doEndCaseComplete [2] (fold (fold doEndCaseComplete) [[1, 2, 3], [3, 1, 2]]
     (example_framed\<lparr>MonteCarlo_Number_Of_Runs := 2\<rparr>)))) SendInitCase = 1 \<and>
   count_list (actions (fold doEndCaseComplete [2] (fold (fold doEndCaseComplete) [[1, 2, 3], [3, 1, 2]]
     (example_framed\<lparr>MonteCarlo_Number_Of_Runs := 2\<rparr>)))) SendEndRun = 1"
  using monte_carlo_runs_all_cases [of "example_framed\<lparr>MonteCarlo_Number_Of_Runs := 2\<rparr>" 2 "[[1, 2, 3], [3, 1, 2]]" "[2]", OF _ _ _ _ _ _ _ _ refl]
  by (simp add: example_framed_defs rv_missing_def insert_commute)

section \<open>The end of the run\<close>

abbreviation stop_count :: "'a SamsonModel_scheme \<Rightarrow> nat" where
  "stop_count c \<equiv> count_list (actions c) StopSimulation"

interpretation framed_end: run_end doEndRunComplete peer_table model_id stop_count
  by unfold_locales (simp_all add: doEndRunComplete_def Let_def act_def)

end
