(* ===== verification/TimedController.thy ===== *)
theory TimedController
  imports FramedController
begin

text \<open>
  The two other controllers: \<open>src/Utilities/TimedController\<close>, which starts frames on the ticks of a periodic timer and does not
  wait for answers, and \<open>src/Utilities/SimpleController\<close>, which starts a run and waits for its end. A job of one of the three
  controllers stops at the same message (the contract \<open>run_end\<close>).
\<close>

section \<open>SimpleController\<close>

record SimpleController = Controller +
  s_start_timer :: int

definition SimpleController_new :: "SamsonModel \<Rightarrow> SimpleController" where
  "SimpleController_new b =
     \<lparr>model_id = model_id b, run_id = run_id b, caseNumber = caseNumber b, currFrame = currFrame b, currTime = currTime b,
      frame_count = frame_count b, separate_advance_time = separate_advance_time b,
      timing_rate = timing_rate b, actions = actions b, peer_table = [], nmodels = 0, endGame = False, s_start_timer = -1\<rparr>"

definition Simple_schedule_start :: "controller_env \<Rightarrow> int \<Rightarrow> SimpleController \<Rightarrow> SimpleController" where
  "Simple_schedule_start E ntime c = (let (t, c1) = sched E STARTUP (of_int ntime) None c in c1\<lparr>s_start_timer := t\<rparr>)"

definition Simple_init :: "controller_env \<Rightarrow> SimpleController \<Rightarrow> SimpleController" where
  "Simple_init E c =
     (let (n, tbl) = getPeerTable E (run_id c);
          c1 = act SetRunMaster (c\<lparr>nmodels := n, peer_table := tbl\<rparr>)
      in Simple_schedule_start E 3 (c1\<lparr>timing_rate := timing_set E 0\<rparr>))"

definition Simple_fini :: "controller_env \<Rightarrow> SimpleController \<Rightarrow> SimpleController" where
  "Simple_fini E c = (let c1 = cancel_timer (s_start_timer c) c in c1\<lparr>peer_table := peer_table_empty E (peer_table c1)\<rparr>)"

definition Simple_startsim_action :: "controller_env \<Rightarrow> SimpleController \<Rightarrow> SimpleController" where
  "Simple_startsim_action E c =
     (let (ok, tbl) = checkPeersStarted E (actions c) (peer_table c);
          c1 = c\<lparr>peer_table := tbl\<rparr>
      in if \<not> ok then Simple_schedule_start E 3 c1
         else act SendInitCase (act (SendCtrlMsg LOG_EVENT_CHANNEL_STATUS flag_job) c1))"

definition Simple_handle_timeout :: "controller_env \<Rightarrow> controller_timer \<Rightarrow> SimpleController \<Rightarrow> SimpleController" where
  "Simple_handle_timeout E tag c = (if tag = STARTUP then Simple_startsim_action E (c\<lparr>s_start_timer := -1\<rparr>) else c)"

definition Simple_doEndEngagement :: "SimpleController \<Rightarrow> SimpleController" where
  "Simple_doEndEngagement c = act SendEndRun (act (SendDispatcherCommand ''verbose'') c)"

definition Simple_doEndRunComplete :: "int \<Rightarrow> SimpleController \<Rightarrow> SimpleController" where
  "Simple_doEndRunComplete p c =
     (let c1 = c\<lparr>endGame := True\<rparr>;
          c2 = (if model_id c1 \<noteq> p then c1\<lparr>peer_table := power_down p (peer_table c1)\<rparr> else c1)
      in if others_down (model_id c2) (peer_table c2) then act StopSimulation c2 else c2)"

interpretation simple_end: run_end Simple_doEndRunComplete peer_table model_id stop_count
  by unfold_locales (simp_all add: Simple_doEndRunComplete_def Let_def act_def)

section \<open>TimedController\<close>

text \<open>The member function the next timer calls, and the static variables of three functions.\<close>

datatype timeout_action = Action_startSimulation | Action_StartNewFrame

record TimedController = Controller +
  t_end_engagement_set :: "int set"
  t_step_count :: int
  t_frame_count_sent :: int
  step_hz :: int
  step_time :: real
  my_timer_id :: int
  number_of_steps :: int
  t_action :: timeout_action
  sent_endCase :: bool
  init_message_cnt :: int
  endcase_message_cnt :: int

definition Timed_schedule_start :: "controller_env \<Rightarrow> int \<Rightarrow> TimedController \<Rightarrow> TimedController" where
  "Timed_schedule_start E ntime c = snd (sched E UNTAGGED (of_int ntime) None (c\<lparr>t_action := Action_startSimulation\<rparr>))"

text \<open>The options \<open>-m\<close> and \<open>-f\<close> of the command line with their arguments.\<close>

definition timed_option :: "char \<times> string \<Rightarrow> TimedController \<Rightarrow> TimedController" where
  "timed_option opt c =
     (let (o1, arg) = opt in
      if o1 = CHR ''m'' then c\<lparr>number_of_steps := atoi arg\<rparr>
      else if o1 = CHR ''f'' then c\<lparr>step_hz := atoi arg\<rparr>
      else c)"

definition Timed_init :: "controller_env \<Rightarrow> (char \<times> string) list \<Rightarrow> TimedController \<Rightarrow> TimedController" where
  "Timed_init E opts c =
     (let c1 = c\<lparr>t_step_count := 0, t_frame_count_sent := 0, my_timer_id := 0\<rparr>;
          (n, tbl) = getPeerTable E (run_id c1);
          c2 = act SetRunMaster (c1\<lparr>nmodels := n, peer_table := tbl\<rparr>);
          c3 = fold timed_option opts c2;
          c4 = act NoEndFrameResponse (act StartFrameOnly c3)
      in Timed_schedule_start E 3 (c4\<lparr>timing_rate := timing_set E 0\<rparr>))"

definition Timed_startSimulation :: "controller_env \<Rightarrow> TimedController \<Rightarrow> TimedController" where
  "Timed_startSimulation E c =
     (let (ok, tbl) = checkPeersStarted E (actions c) (peer_table c);
          c1 = c\<lparr>peer_table := tbl\<rparr>
      in if \<not> ok then Timed_schedule_start E 3 c1
         else act SendInitCase (act (SendCtrlMsg LOG_EVENT_CHANNEL_STATUS flag_job)
                (c1\<lparr>t_step_count := getStepRate E (actions c1)\<rparr>)))"

definition Timed_StartNewFrame :: "controller_env \<Rightarrow> TimedController \<Rightarrow> TimedController" where
  "Timed_StartNewFrame E c =
     (let c1 = act (SampleSchedule (frame_seconds E (actions c))) c
      in if t_frame_count_sent c1 \<ge> number_of_steps c1 \<and> t_frame_count_sent c1 \<noteq> 0
         then (if \<not> sent_endCase c1 then (act SendEndCase c1)\<lparr>sent_endCase := True\<rparr> else c1)
         else if \<not> endGame c1
         then let c2 = c1\<lparr>currTime := currTime c1 + 1 / of_int (step_hz c1), currFrame := currFrame c1 + 1,
                          frame_count := frame_count c1 + 1\<rparr>;
                  c3 = act (SendStartFrame 0) c2
              in c3\<lparr>t_frame_count_sent := t_frame_count_sent c3 + 1\<rparr>
         else c1)"

definition Timed_fini :: "controller_env \<Rightarrow> TimedController \<Rightarrow> TimedController" where
  "Timed_fini E c = (let c1 = cancel_timer (my_timer_id c) c in c1\<lparr>peer_table := peer_table_empty E (peer_table c1)\<rparr>)"

definition Timed_handle_timeout :: "controller_env \<Rightarrow> TimedController \<Rightarrow> TimedController" where
  "Timed_handle_timeout E c =
     (case t_action c of Action_startSimulation \<Rightarrow> Timed_startSimulation E c | Action_StartNewFrame \<Rightarrow> Timed_StartNewFrame E c)"

definition Timed_doInitCaseComplete :: "controller_env \<Rightarrow> TimedController \<Rightarrow> TimedController" where
  "Timed_doInitCaseComplete E c =
     (let c1 = c\<lparr>init_message_cnt := init_message_cnt c + 1\<rparr>
      in if init_message_cnt c1 = nmodels c1
         then let c2 = c1\<lparr>t_action := Action_StartNewFrame, step_time := 1 / of_int (step_hz c1)\<rparr>;
                  (t, c3) = sched E UNTAGGED (step_time c2) (Some (step_time c2)) c2
              in c3\<lparr>my_timer_id := t, endGame := False, init_message_cnt := 0\<rparr>
         else c1)"

definition Timed_doEndCaseComplete :: "TimedController \<Rightarrow> TimedController" where
  "Timed_doEndCaseComplete c =
     (let c1 = c\<lparr>endcase_message_cnt := endcase_message_cnt c + 1\<rparr>
      in if endcase_message_cnt c1 = t_step_count c1
         then act SendEndRun (c1\<lparr>endGame := False, endcase_message_cnt := 0\<rparr>)
         else c1)"

definition Timed_doEndRunComplete :: "int \<Rightarrow> TimedController \<Rightarrow> TimedController" where
  "Timed_doEndRunComplete p c =
     (let c1 = c\<lparr>endGame := True\<rparr>;
          c2 = (if model_id c1 \<noteq> p then c1\<lparr>peer_table := power_down p (peer_table c1)\<rparr> else c1)
      in if others_down (model_id c2) (peer_table c2) then act StopSimulation c2 else c2)"

definition Timed_doRegisterEndEngage :: "int \<Rightarrow> TimedController \<Rightarrow> TimedController" where
  "Timed_doRegisterEndEngage p c = c\<lparr>t_end_engagement_set := insert p (t_end_engagement_set c)\<rparr>"

definition Timed_doEndEngagement :: "int \<Rightarrow> TimedController \<Rightarrow> TimedController" where
  "Timed_doEndEngagement p c =
     (let c1 = c\<lparr>t_end_engagement_set := t_end_engagement_set c - {p}\<rparr>
      in if t_end_engagement_set c1 = {} then act SendEndCase c1 else c1)"

interpretation timed_end: run_end Timed_doEndRunComplete peer_table model_id stop_count
  by unfold_locales (simp_all add: Timed_doEndRunComplete_def Let_def act_def)

text \<open>
  C35. All three controllers stop a run at the same messages. Whatever END_RUN complete messages come in, in whatever order
  and however often, \<open>stopSimulation\<close> is called by exactly those after which every peer of the table other than the controller
  itself has reported.
\<close>

theorem run_stops_when_all_reported:
  "stop_count (fold doEndRunComplete ps f) = stop_count f + stop_points (model_id f) (peer_table f) ps \<and>
   stop_count (fold Timed_doEndRunComplete ps t) = stop_count t + stop_points (model_id t) (peer_table t) ps \<and>
   stop_count (fold Simple_doEndRunComplete ps s) = stop_count s + stop_points (model_id s) (peer_table s) ps"
  by (simp add: framed_end.stops_fold timed_end.stops_fold simple_end.stops_fold)

section \<open>Frames on a clock\<close>

text \<open>How many frames a timed run has; a run asked for no frame still has one.\<close>

definition timed_frames :: "TimedController \<Rightarrow> nat" where
  "timed_frames c = nat (max 1 (number_of_steps c))"

definition timed_start :: "TimedController \<Rightarrow> bool" where
  "timed_start c \<longleftrightarrow> t_action c = Action_StartNewFrame \<and> t_frame_count_sent c = 0 \<and> \<not> sent_endCase c \<and> \<not> endGame c"

lemma Timed_tick:
  assumes "t_action c = Action_StartNewFrame" "\<not> endGame c" "0 \<le> t_frame_count_sent c"
  shows "t_action (Timed_handle_timeout E c) = Action_StartNewFrame \<and> \<not> endGame (Timed_handle_timeout E c) \<and>
    number_of_steps (Timed_handle_timeout E c) = number_of_steps c \<and> step_hz (Timed_handle_timeout E c) = step_hz c \<and>
    (if t_frame_count_sent c < max 1 (number_of_steps c)
     then t_frame_count_sent (Timed_handle_timeout E c) = t_frame_count_sent c + 1 \<and>
       currTime (Timed_handle_timeout E c) = currTime c + 1 / step_hz c \<and>
       sent_endCase (Timed_handle_timeout E c) = sent_endCase c \<and>
       count_list (actions (Timed_handle_timeout E c)) (SendStartFrame 0) = Suc (count_list (actions c) (SendStartFrame 0)) \<and>
       count_list (actions (Timed_handle_timeout E c)) SendEndCase = count_list (actions c) SendEndCase
     else t_frame_count_sent (Timed_handle_timeout E c) = t_frame_count_sent c \<and>
       currTime (Timed_handle_timeout E c) = currTime c \<and> sent_endCase (Timed_handle_timeout E c) \<and>
       count_list (actions (Timed_handle_timeout E c)) (SendStartFrame 0) = count_list (actions c) (SendStartFrame 0) \<and>
       count_list (actions (Timed_handle_timeout E c)) SendEndCase =
         count_list (actions c) SendEndCase + (if sent_endCase c then 0 else 1))"
  using assms by (auto simp: Timed_handle_timeout_def Timed_StartNewFrame_def act_def Let_def)

lemma Timed_ticks:
  fixes E
  assumes "timed_start c"
  defines "d \<equiv> \<lambda>k. (Timed_handle_timeout E ^^ k) c"
  shows "t_action (d k) = Action_StartNewFrame \<and> \<not> endGame (d k) \<and> number_of_steps (d k) = number_of_steps c \<and>
    step_hz (d k) = step_hz c \<and> t_frame_count_sent (d k) = int (min k (timed_frames c)) \<and>
    (sent_endCase (d k) \<longleftrightarrow> k > timed_frames c) \<and>
    count_list (actions (d k)) (SendStartFrame 0) = count_list (actions c) (SendStartFrame 0) + min k (timed_frames c) \<and>
    count_list (actions (d k)) SendEndCase = count_list (actions c) SendEndCase + (if k > timed_frames c then 1 else 0) \<and>
    currTime (d k) = currTime c + real (min k (timed_frames c)) / step_hz c"
proof (induction k)
  case 0
  then show ?case using assms by (simp add: timed_start_def)
next
  case (Suc k)
  have less: "int (min k (timed_frames c)) < max 1 (number_of_steps c) \<longleftrightarrow> k < timed_frames c"
    by (auto simp: timed_frames_def min_def)
  have step: "d (Suc k) = Timed_handle_timeout E (d k)" by (simp add: d_def)
  have pre: "t_action (d k) = Action_StartNewFrame" "\<not> endGame (d k)" "0 \<le> t_frame_count_sent (d k)" using Suc.IH by auto
  show ?case
  proof (cases "k < timed_frames c")
    case True
    with Suc.IH less Timed_tick [OF pre, of E] show ?thesis by (simp add: step add_divide_distrib)
  next
    case False
    with Suc.IH less Timed_tick [OF pre, of E] show ?thesis by (auto simp: step min_def)
  qed
qed

text \<open>
  A timed run has the frames it was asked for. The ticks of the clock start one frame each, with the simulated time
  moving by the length of a step, until the number of steps is reached; the next tick ends the case, once, and all later
  ones do nothing.
\<close>

lemma timed_run_sends_steps:
  assumes "timed_start c"
  shows "count_list (actions ((Timed_handle_timeout E ^^ k) c)) (SendStartFrame 0) =
      count_list (actions c) (SendStartFrame 0) + min k (nat (max 1 (number_of_steps c))) \<and>
    count_list (actions ((Timed_handle_timeout E ^^ k) c)) SendEndCase =
      count_list (actions c) SendEndCase + (if k > nat (max 1 (number_of_steps c)) then 1 else 0) \<and>
    currTime ((Timed_handle_timeout E ^^ k) c) = currTime c + real (min k (nat (max 1 (number_of_steps c)))) / step_hz c"
  using Timed_ticks [OF assms, of k E] by (simp add: timed_frames_def)

definition example_timed :: TimedController where
  "example_timed = \<lparr>model_id = 1, run_id = 7, caseNumber = 1, currFrame = 0, currTime = 0, frame_count = 0,
     separate_advance_time = False, timing_rate = 0, actions = [], peer_table = [example_peer 1 0, example_peer 2 10],
     nmodels = 2, endGame = False, t_end_engagement_set = {}, t_step_count = 1, t_frame_count_sent = 0, step_hz = 10,
     step_time = 1 / 10, my_timer_id = 4, number_of_steps = 3, t_action = Action_StartNewFrame, sent_endCase = False,
     init_message_cnt = 0, endcase_message_cnt = 0\<rparr>"

lemma timed_run_sends_steps_witness:
  "timed_start example_timed \<and>
   count_list (actions ((Timed_handle_timeout example_controller_env ^^ 5) example_timed)) (SendStartFrame 0) = 3 \<and>
   count_list (actions ((Timed_handle_timeout example_controller_env ^^ 5) example_timed)) SendEndCase = 1"
proof -
  have "timed_start example_timed" by (simp add: timed_start_def example_timed_def)
  with timed_run_sends_steps [OF this, of 5 example_controller_env] show ?thesis by (simp add: example_timed_def)
qed

end
