(* ===== verification/PeerHandler.thy ===== *)
theory PeerHandler
  imports ReceiveHandler "HOL-Library.Monad_Syntax"
begin

text \<open>
  \<open>src/Peer/Peer_Handler\<close>: the end of a connection to the dispatcher that runs in the process of a model. It frames and sends
  messages as the handlers of the dispatcher do, with one kind of header and without their statistics, and keeps what the socket
  does not take in a queue. The receive operation is shown to be that of the dispatcher; sending is shown to keep the
  stream of bytes as long as the socket does not fail and the queue does not fill up, and to lose or double bytes when they do.

  \<open>None\<close> is undefined behaviour, as everywhere, and an assertion that fails.
\<close>

section \<open>State and environment\<close>

record 'k Peer_Handler =
  ph_rx :: rx_state
  ph_queue :: "bytes list"
  ph_wakeup :: bool
  ph_sock :: 'k
  ph_open :: bool

record 'k peer_net =
  pn_rx :: "'k rx_env"
  pn_new_header :: EventHeaderObj
  pn_send_n :: "'k \<Rightarrow> bytes \<Rightarrow> int \<times> errno \<times> 'k"
  pn_queue_full :: "bytes list \<Rightarrow> bool"
  pn_wakeup_ok :: bool
  pn_register_ok :: bool
  pn_svc_open_ok :: bool
  pn_nonblock_ok :: "'k \<Rightarrow> bool"

definition Peer_Handler_new :: "'k \<Rightarrow> 'k Peer_Handler" where
  "Peer_Handler_new k = \<lparr>ph_rx = rx_init, ph_queue = [], ph_wakeup = False, ph_sock = k, ph_open = False\<rparr>"

definition ph_open_handler :: "'k peer_net \<Rightarrow> 'k Peer_Handler \<Rightarrow> int \<times> 'k Peer_Handler" where
  "ph_open_handler N p =
     (if \<not> pn_register_ok N then (-1, p)
      else if \<not> pn_svc_open_ok N then (-1, p\<lparr>ph_open := True\<rparr>)
      else if \<not> pn_nonblock_ok N (ph_sock p) then (-1, p\<lparr>ph_open := True\<rparr>)
      else if ph_queue p \<noteq> [] then
        (if pn_wakeup_ok N then (0, p\<lparr>ph_open := True, ph_wakeup := True\<rparr>) else (-1, p\<lparr>ph_open := True\<rparr>))
      else (0, p\<lparr>ph_open := True\<rparr>))"

definition ph_handle_close :: "'k Peer_Handler \<Rightarrow> 'k Peer_Handler" where
  "ph_handle_close p = p\<lparr>ph_open := False, ph_wakeup := False\<rparr>"

text \<open>A timer and the destructor close the handler.\<close>

definition ph_handle_timeout :: "'k Peer_Handler \<Rightarrow> 'k Peer_Handler" where
  "ph_handle_timeout p = ph_handle_close p"

section \<open>Sending\<close>

text \<open>
  \<open>send\<close>: the result, \<open>errno\<close>, the block (\<open>None\<close> when it was sent whole and released) and the handler. A result of
  \<open>send_n\<close> that is not positive becomes 0, since the code tests the constant \<open>EWOULDBLOCK\<close> and not \<open>errno\<close>.
\<close>

definition ph_send :: "'k peer_net \<Rightarrow> bytes \<Rightarrow> 'k Peer_Handler \<Rightarrow> int \<times> errno \<times> bytes option \<times> 'k Peer_Handler" where
  "ph_send N ev p =
     (let (n, err, k) = pn_send_n N (ph_sock p) ev;
          p1 = p\<lparr>ph_sock := k\<rparr>
      in if n \<le> 0 then (if EWOULDBLOCK \<noteq> NO_ERROR then 0 else n, err, Some ev, p1)
         else if n < int (length ev) then (n, EWOULDBLOCK, Some (drop (nat n) ev), p1)
         else (n, NO_ERROR, None, p1))"

text \<open>Where a block is after a call: deleted, in the queue, or still in the hands of the caller.\<close>

datatype block_state = Released | InQueue | Loose

definition ph_nonblk_put ::
  "'k peer_net \<Rightarrow> bytes \<Rightarrow> 'k Peer_Handler \<Rightarrow> (int \<times> errno \<times> block_state \<times> 'k Peer_Handler) option" where
  "ph_nonblk_put N ev p =
     (let (n, err, blk, p1) = ph_send N ev p
      in if n = -1 then Some (-1, err, Loose, p1)
         else if err = EWOULDBLOCK then
           (case blk of
              None \<Rightarrow> None
            | Some b \<Rightarrow>
                if pn_queue_full N (ph_queue p1) then Some (-1, err, Loose, p1)
                else if \<not> pn_wakeup_ok N then Some (-1, err, InQueue, p1\<lparr>ph_queue := b # ph_queue p1\<rparr>)
                else Some (0, err, InQueue, p1\<lparr>ph_queue := b # ph_queue p1, ph_wakeup := True\<rparr>))
         else Some (n, err, if blk = None then Released else Loose, p1))"

definition ph_put ::
  "'k peer_net \<Rightarrow> bytes \<Rightarrow> 'k Peer_Handler \<Rightarrow> (int \<times> errno \<times> block_state \<times> 'k Peer_Handler) option" where
  "ph_put N ev p =
     (if ph_queue p = [] then ph_nonblk_put N ev p
      else if pn_queue_full N (ph_queue p) then Some (-1, EWOULDBLOCK, Loose, p)
      else Some (int (length (ph_queue p)) + 1, NO_ERROR, InQueue, p\<lparr>ph_queue := ph_queue p @ [ev]\<rparr>))"

definition ph_consolidate :: "bytes list \<Rightarrow> bytes" where
  "ph_consolidate chain = concat chain"

text \<open>
  A chain of blocks is sent as one block. When \<open>put\<close> fails the first block of the chain is released: it is gone already when
  the chain was consolidated, and it is still in use when it was queued.
\<close>

definition ph_transmit :: "'k peer_net \<Rightarrow> bytes list \<Rightarrow> 'k Peer_Handler \<Rightarrow> (int \<times> 'k Peer_Handler) option" where
  "ph_transmit N chain p =
     (case chain of
        [] \<Rightarrow> None
      | b # bs \<Rightarrow> do {
          let block2send = (if bs \<noteq> [] then ph_consolidate chain else b);
          (result, err, st, p1) \<leftarrow> ph_put N block2send p;
          if result = -1 then (if bs = [] \<and> st = Loose then Some (-1, p1) else None)
          else Some (result, p1)
        })"

definition ph_handle_output :: "'k peer_net \<Rightarrow> 'k Peer_Handler \<Rightarrow> (int \<times> 'k Peer_Handler) option" where
  "ph_handle_output N p =
     (case ph_queue p of
        [] \<Rightarrow> Some (0, p)
      | ev # q \<Rightarrow> do {
          (n, err, st, p1) \<leftarrow> ph_nonblk_put N ev (p\<lparr>ph_queue := q\<rparr>);
          if n = 0 then (if err = EWOULDBLOCK then Some (0, p1) else None)
          else if n = -1 \<and> st = InQueue then None
          else Some (0, if ph_queue p1 = [] then p1\<lparr>ph_wakeup := False\<rparr> else p1)
        })"

section \<open>Receiving\<close>

text \<open>
  The receive action: its header is always a \<open>SamsonHeader\<close>. The stages that read the data are the same code as in the
  dispatcher.
\<close>

definition ph_recv_data :: "'k rx_env \<Rightarrow> EventHeaderObj \<Rightarrow> errno \<Rightarrow> rx_state \<Rightarrow> 'k \<Rightarrow> 'k rx_result" where
  [simp]: "ph_recv_data = recv_data"

definition ph_recv :: "'k peer_net \<Rightarrow> errno \<Rightarrow> rx_state \<Rightarrow> 'k \<Rightarrow> 'k rx_result option" where
  "ph_recv N err st k =
     (let E = pn_rx N;
          (eh, st1) = (case header_frag st of
             Some eh \<Rightarrow> (eh, st)
           | None \<Rightarrow> (pn_new_header N, st\<lparr>header_frag := Some (pn_new_header N), header_recvd := 0\<rparr>));
          size = evh_length E eh
      in if header_recvd st1 \<noteq> size then
           (let (r, k1) = sock_recv E k (nat (size - header_recvd st1));
                recvd = header_recvd st1 + rx_count r;
                err1 = rx_err r NO_ERROR
            in case write_at (header_recvd st1) (rx_bytes r) (eh_raw eh) of
                 None \<Rightarrow> None
               | Some raw \<Rightarrow>
                   (let eh1 = eh\<lparr>eh_raw := raw\<rparr>;
                        st2 = st1\<lparr>header_frag := Some eh1, header_recvd := recvd\<rparr>
                    in if recvd \<noteq> size then
                         (let (res, err2) =
                            (if recvd > 0 \<and> err1 = NO_ERROR then (-1, EWOULDBLOCK)
                             else if err1 = EWOULDBLOCK then (-1, err1)
                             else (0, err1))
                          in Some \<lparr>rx_ret = res, rx_errno = err2, rx_event = None, rx_header = None,
                                   rx_next = st2, rx_sock = k1\<rparr>)
                       else
                         (let eh2 = evh_decode E (set_encoded True eh1)
                          in Some (ph_recv_data E eh2 err1 (st2\<lparr>header_frag := Some eh2\<rparr>) k1))))
         else Some (ph_recv_data E eh err st1 k))"

section \<open>The two receive actions are the same\<close>

text \<open>
  \<open>recv_header\<close> of the dispatcher writes its connection id and its handle into every header. The receive action of the peer is
  the same function for a connection that has the ids a new header has, as long as decoding leaves them alone.
\<close>

definition hidden_ids :: "EventHeaderObj \<Rightarrow> int \<times> int" where
  "hidden_ids eh = (h_connection_id (eh_hdr eh), h_handle (eh_hdr eh))"

definition rx_hidden :: "int \<Rightarrow> int \<Rightarrow> rx_state \<Rightarrow> bool" where
  "rx_hidden c h st \<longleftrightarrow> (\<forall>eh. header_frag st = Some eh \<longrightarrow> hidden_ids eh = (c, h))"

lemma fill_hidden_same: "hidden_ids eh = (c, h) \<Longrightarrow> fill_hidden c h eh = eh"
  by (simp add: hidden_ids_def fill_hidden_def)

lemma rx_hidden_init [simp]: "rx_hidden c h rx_init"
  by (simp add: rx_hidden_def rx_init_def)

lemma recv_data_hidden:
  assumes "hidden_ids eh = (c, h)" and "header_frag st = Some eh"
  shows "rx_hidden c h (rx_next (recv_data E eh err st k))"
  using assms by (auto simp: recv_data_def rx_hidden_def rx_init_def Let_def split: prod.split rx.split)

locale samson_peer =
  fixes N :: "'k peer_net" and t c0 h0 :: int
  assumes factory: "evh_get (pn_rx N) t = Some (pn_new_header N)"
    and hidden_new: "hidden_ids (pn_new_header N) = (c0, h0)"
    and hidden_decode: "hidden_ids eh = (c0, h0) \<Longrightarrow> hidden_ids (evh_decode (pn_rx N) (set_encoded True eh)) = (c0, h0)"
begin

lemma hidden_raw: "hidden_ids eh = (c0, h0) \<Longrightarrow> hidden_ids (eh\<lparr>eh_raw := raw\<rparr>) = (c0, h0)"
  by (simp add: hidden_ids_def)

lemma recv_same:
  assumes "rx_hidden c0 h0 st"
  shows "ph_recv N err st k = recv_header (pn_rx N) t c0 h0 err st k"
proof -
  have "fill_hidden c0 h0 (evh_decode (pn_rx N) (set_encoded True (eh\<lparr>eh_raw := raw\<rparr>))) =
      evh_decode (pn_rx N) (set_encoded True (eh\<lparr>eh_raw := raw\<rparr>))" if "hidden_ids eh = (c0, h0)" for eh raw
    using hidden_decode [OF hidden_raw [OF that]] by (rule fill_hidden_same)
  with assms show ?thesis
    by (cases "header_frag st") (simp_all add: ph_recv_def recv_header_def factory hidden_new rx_hidden_def Let_def cong: option.case_cong if_cong)
qed

lemma recv_hidden:
  assumes "rx_hidden c0 h0 st" and "ph_recv N err st k = Some r"
  shows "rx_hidden c0 h0 (rx_next r)"
proof -
  obtain eh st1 where start: "(case header_frag st of Some eh \<Rightarrow> (eh, st)
      | None \<Rightarrow> (pn_new_header N, st\<lparr>header_frag := Some (pn_new_header N), header_recvd := 0\<rparr>)) = (eh, st1)" by force
  then have "hidden_ids eh = (c0, h0)" "header_frag st1 = Some eh"
    using assms(1) hidden_new by (auto simp: rx_hidden_def split: option.splits)
  with start assms(2) show ?thesis
    by (auto simp: ph_recv_def Let_def hidden_raw hidden_decode intro!: recv_data_hidden
        split: prod.splits option.splits if_splits) (auto simp: rx_hidden_def hidden_raw)
qed

end

section \<open>The stream of a peer\<close>

definition ph_stream :: "('k \<Rightarrow> bytes) \<Rightarrow> 'k Peer_Handler \<Rightarrow> bytes" where
  "ph_stream out p = out (ph_sock p) @ concat (ph_queue p)"

text \<open>
  What \<open>send_n\<close> documents: a positive result is the number of bytes that went out, from the front of the block; when it fails, some of the
  block may have gone out (how much is reported through a parameter this code does not pass); what was received and not
  read is not touched. \<open>out k\<close> are the bytes a socket took, \<open>pending k\<close> those that wait to be read.
\<close>

locale peer_socket =
  fixes N :: "'k peer_net" and out pending :: "'k \<Rightarrow> bytes"
  assumes send_takes: "pn_send_n N k bs = (n, e, k') \<Longrightarrow> 0 < n \<Longrightarrow> nat n \<le> length bs \<and> out k' = out k @ take (nat n) bs"
    and send_part: "pn_send_n N k bs = (n, e, k') \<Longrightarrow> n \<le> 0 \<Longrightarrow> \<exists>bt \<le> length bs. out k' = out k @ take bt bs"
    and send_pending: "pn_send_n N k bs = (n, e, k') \<Longrightarrow> pending k' = pending k"

text \<open>
  When the code has no failure to handle. \<open>ph_goes_through N out k bs q\<close>: if the socket \<open>k\<close> takes less than the block \<open>bs\<close>, the
  queue \<open>q\<close> is below its high water mark and the reactor accepts the wakeup; and if it reports failure, this is \<open>EWOULDBLOCK\<close> and
  it took nothing. \<open>ph_accepts N out p bs\<close>: the block goes through to the socket when nothing is queued, and the queue is below its mark
  when something is.
\<close>

definition ph_goes_through :: "'k peer_net \<Rightarrow> ('k \<Rightarrow> bytes) \<Rightarrow> 'k \<Rightarrow> bytes \<Rightarrow> bytes list \<Rightarrow> bool" where
  "ph_goes_through N out k bs q \<longleftrightarrow>
     (let (n, e, k') = pn_send_n N k bs
      in (n \<le> 0 \<longrightarrow> e = EWOULDBLOCK \<and> out k' = out k) \<and>
         (n \<le> 0 \<or> n < int (length bs) \<longrightarrow> \<not> pn_queue_full N q \<and> pn_wakeup_ok N))"

definition ph_accepts :: "'k peer_net \<Rightarrow> ('k \<Rightarrow> bytes) \<Rightarrow> 'k Peer_Handler \<Rightarrow> bytes \<Rightarrow> bool" where
  "ph_accepts N out p bs \<longleftrightarrow>
     (if ph_queue p = [] then ph_goes_through N out (ph_sock p) bs [] else \<not> pn_queue_full N (ph_queue p))"

context peer_socket
begin

text \<open>\<open>ph_sent p s p'\<close>: only socket, queue and wakeup changed, nothing was read, and the stream is \<open>s\<close>.\<close>

definition ph_sent :: "'k Peer_Handler \<Rightarrow> bytes \<Rightarrow> 'k Peer_Handler \<Rightarrow> bool" where
  "ph_sent p s p' \<longleftrightarrow> ph_rx p' = ph_rx p \<and> ph_open p' = ph_open p \<and> pending (ph_sock p') = pending (ph_sock p) \<and> ph_stream out p' = s"

lemma nonblk_put_sent:
  assumes "ph_goes_through N out (ph_sock p) ev (ph_queue p)"
  shows "\<exists>n e st p'. ph_nonblk_put N ev p = Some (n, e, st, p') \<and> n \<noteq> -1 \<and> (n = 0 \<longrightarrow> e = EWOULDBLOCK) \<and>
    ph_sent p (out (ph_sock p) @ ev @ concat (ph_queue p)) p'"
proof -
  obtain n e k where s: "pn_send_n N (ph_sock p) ev = (n, e, k)" by (cases "pn_send_n N (ph_sock p) ev") auto
  consider "n \<le> 0" | "0 < n" "n < int (length ev)" | "0 < n" "n = int (length ev)" using send_takes [OF s] by fastforce
  then show ?thesis
  proof cases
    case 1
    with assms send_pending [OF s] s show ?thesis
      by (simp add: ph_nonblk_put_def ph_send_def ph_sent_def ph_stream_def ph_goes_through_def)
  next
    case 2
    with assms send_takes [OF s] send_pending [OF s] s show ?thesis
      by (simp add: ph_nonblk_put_def ph_send_def ph_sent_def ph_stream_def ph_goes_through_def)
  next
    case 3
    with send_takes [OF s] send_pending [OF s] s show ?thesis
      by (simp add: ph_nonblk_put_def ph_send_def ph_sent_def ph_stream_def)
  qed
qed

lemma transmit_sent:
  assumes "chain \<noteq> []" and "ph_accepts N out p (concat chain)"
  shows "\<exists>n p'. ph_transmit N chain p = Some (n, p') \<and> n \<noteq> -1 \<and> ph_sent p (ph_stream out p @ concat chain) p'"
proof -
  obtain b bs where chain: "chain = b # bs" using assms(1) by (cases chain) auto
  let ?ev = "if bs \<noteq> [] then ph_consolidate chain else b"
  have ev: "?ev = concat chain" using chain by (simp add: ph_consolidate_def)
  show ?thesis
  proof (cases "ph_queue p = []")
    case True
    with assms(2) have "ph_goes_through N out (ph_sock p) (concat chain) (ph_queue p)" by (simp add: ph_accepts_def)
    from nonblk_put_sent [OF this] True chain ev show ?thesis by (auto simp: ph_transmit_def ph_put_def ph_stream_def Let_def)
  next
    case False
    with assms(2) chain ev show ?thesis by (auto simp: ph_transmit_def ph_put_def ph_sent_def ph_stream_def ph_accepts_def Let_def)
  qed
qed

lemma handle_output_sent:
  assumes "case ph_queue p of [] \<Rightarrow> True | b # q \<Rightarrow> ph_goes_through N out (ph_sock p) b q"
  shows "\<exists>p'. ph_handle_output N p = Some (0, p') \<and> ph_sent p (ph_stream out p) p'"
proof (cases "ph_queue p")
  case (Cons ev q)
  with assms nonblk_put_sent [of "p\<lparr>ph_queue := q\<rparr>" ev] show ?thesis
    by (auto simp: ph_handle_output_def ph_sent_def ph_stream_def Let_def)
qed (simp add: ph_handle_output_def ph_sent_def)

end

text \<open>
  What happens otherwise. A failed send that took the first bytes of a block queues the whole block again: these bytes go out
  twice. A message that finds the queue at its mark is dropped when it is a single block; a chain was released before, when it was made one block, and is
  released once more.
\<close>

lemma failed_send_doubles:
  assumes "pn_send_n N (ph_sock p) ev = (n, EWOULDBLOCK, k)" and "n \<le> 0" and "out k = out (ph_sock p) @ take bt ev"
    and "ph_queue p = []" and "\<not> pn_queue_full N []" and "pn_wakeup_ok N"
  shows "\<exists>p'. ph_transmit N [ev] p = Some (0, p') \<and> ph_stream out p' = ph_stream out p @ take bt ev @ ev"
  using assms by (simp add: ph_transmit_def ph_put_def ph_nonblk_put_def ph_send_def ph_stream_def Let_def)

lemma full_queue_drops_block:
  assumes "ph_queue p \<noteq> []" and "pn_queue_full N (ph_queue p)"
  shows "ph_transmit N [b] p = Some (-1, p)" "ph_transmit N (b # c # chain) p = None"
  using assms by (simp_all add: ph_transmit_def ph_put_def Let_def)

end
