(* ===== verification/SharedAppMgr.thy ===== *)
theory SharedAppMgr
  imports PeerHandler "HOL-Library.Multiset"
begin

text \<open>
  \<open>src/Peer/SharedAppMgr\<close> and the upcalls of \<open>Peer_Handler\<close>: what happens in the process of a model with a message that
  arrived, and how the model publishes one. A model registers a handler per message id; data messages wait in a priority queue
  until the model is ready for data. The model itself, the registered handlers, the object manager and the service repository
  are code outside the repository: functions of the record \<open>peer_env\<close> that may change the whole state, since a model may send,
  register and unregister messages whenever it is called. ACE's map manager and the priority queue are used through their
  documented laws (locales \<open>map_manager\<close> and \<open>event_queue\<close>).
\<close>

section \<open>State and environment\<close>

type_synonym SamsonEvent = "bytes option \<times> SamsonHeader"

record ('a, 'm, 'q, 'k) Peer =
  am_active :: bool
  am_app :: bool
  am_registered :: bool
  am_map :: 'm
  am_queue :: 'q
  am_send_cb :: "SamsonHeader list"
  am_recv_cb :: "SamsonHeader list"
  am_send_count :: u32
  am_peer :: "'k Peer_Handler"
  am_loop :: bool
  am_model :: 'a

text \<open>Address 0 is the null pointer to a message handler.\<close>

record ('a, 'm, 'q, 'k) peer_env =
  pe_net :: "'k peer_net"
  pe_encode :: "EventHeaderObj \<Rightarrow> EventHeaderObj"
  pe_crc :: "bytes \<Rightarrow> u32"
  pe_report :: "SamsonHeader \<Rightarrow> string"
  mm_find :: "int \<Rightarrow> 'm \<Rightarrow> nat option"
  mm_bind :: "int \<Rightarrow> nat \<Rightarrow> 'm \<Rightarrow> int \<times> 'm"
  mm_unbind_all :: "'m \<Rightarrow> 'm"
  pq_empty :: "'q \<Rightarrow> bool"
  pq_push :: "SamsonEvent \<Rightarrow> 'q \<Rightarrow> 'q"
  pq_top :: "'q \<Rightarrow> SamsonEvent"
  pq_pop :: "'q \<Rightarrow> 'q"
  msg_handle_event :: "nat \<Rightarrow> bytes option \<Rightarrow> SamsonHeader \<Rightarrow> ('a, 'm, 'q, 'k) Peer \<Rightarrow> ('a, 'm, 'q, 'k) Peer"
  app_data_ready :: "('a, 'm, 'q, 'k) Peer \<Rightarrow> bool"
  app_closeSimulation :: "('a, 'm, 'q, 'k) Peer \<Rightarrow> ('a, 'm, 'q, 'k) Peer"
  app_helloResponse :: "('a, 'm, 'q, 'k) Peer \<Rightarrow> ('a, 'm, 'q, 'k) Peer"
  app_requestJobStatus :: "('a, 'm, 'q, 'k) Peer \<Rightarrow> ('a, 'm, 'q, 'k) Peer"
  app_stopSimulation :: "('a, 'm, 'q, 'k) Peer \<Rightarrow> ('a, 'm, 'q, 'k) Peer"
  app_info :: "('a, 'm, 'q, 'k) Peer \<Rightarrow> string"
  app_init :: "string list \<Rightarrow> ('a, 'm, 'q, 'k) Peer \<Rightarrow> int \<times> ('a, 'm, 'q, 'k) Peer"
  app_fini :: "('a, 'm, 'q, 'k) Peer \<Rightarrow> ('a, 'm, 'q, 'k) Peer"
  svc_process :: "string \<Rightarrow> ('a, 'm, 'q, 'k) Peer \<Rightarrow> ('a, 'm, 'q, 'k) Peer"
  svc_find :: "string \<Rightarrow> ('a, 'm, 'q, 'k) Peer \<Rightarrow> int"
  svc_instance :: "string \<Rightarrow> ('a, 'm, 'q, 'k) Peer \<Rightarrow> bool"
  obj_extendedStatus :: "string \<Rightarrow> 'a \<Rightarrow> string"
  obj_RunID :: "'a \<Rightarrow> u32"
  obj_ModelID :: "'a \<Rightarrow> u32"
  obj_UnitID :: "'a \<Rightarrow> u16"
  obj_AppLib :: "'a \<Rightarrow> string"
  opt_embedded :: bool

definition to_bytes :: "string \<Rightarrow> bytes" where
  "to_bytes = map of_char"

definition push_history :: "SamsonHeader \<Rightarrow> SamsonHeader list \<Rightarrow> SamsonHeader list" where
  "push_history sh cb = (let cb1 = sh # cb in if length cb1 > 10 then butlast cb1 else cb1)"

section \<open>Publishing\<close>

definition am_publish ::
  "('a, 'm, 'q, 'k) peer_env \<Rightarrow> bytes option \<Rightarrow> EventHeaderObj \<Rightarrow> ('a, 'm, 'q, 'k) Peer \<Rightarrow> (int \<times> ('a, 'm, 'q, 'k) Peer) option" where
  "am_publish E data eh s = do {
     let crc32 = (case data of Some d \<Rightarrow> if d \<noteq> [] then pe_crc E d else 0 | None \<Rightarrow> 0);
     let eh1 = eh\<lparr>eh_hdr := (eh_hdr eh)\<lparr>h_send_count := am_send_count s, h_message_crc32 := crc32\<rparr>\<rparr>;
     let s1 = s\<lparr>am_send_count := am_send_count s + 1, am_send_cb := push_history (eh_hdr eh1) (am_send_cb s)\<rparr>;
     let eh2 = pe_encode E eh1;
     let header = take (nat (evh_length (pn_rx (pe_net E)) eh2)) (eh_raw eh2);
     (n, p) \<leftarrow> ph_transmit (pe_net E) (header # (case data of Some d \<Rightarrow> [d] | None \<Rightarrow> [])) (am_peer s1);
     Some (n, s1\<lparr>am_peer := p\<rparr>)
   }"

definition am_publish_string ::
  "('a, 'm, 'q, 'k) peer_env \<Rightarrow> string \<Rightarrow> EventHeaderObj \<Rightarrow> ('a, 'm, 'q, 'k) Peer \<Rightarrow> (int \<times> ('a, 'm, 'q, 'k) Peer) option" where
  "am_publish_string E msg eh s = am_publish E (Some (to_bytes msg)) eh s"

text \<open>The header the sending functions fill in.\<close>

definition am_header ::
  "('a, 'm, 'q, 'k) peer_env \<Rightarrow> u32 \<Rightarrow> u32 \<Rightarrow> u32 \<Rightarrow> u32 \<Rightarrow> ('a, 'm, 'q, 'k) Peer \<Rightarrow> EventHeaderObj" where
  "am_header E type flags msg_id len s =
     (let eh = pn_new_header (pe_net E) in
      eh\<lparr>eh_hdr := (eh_hdr eh)\<lparr>h_run_id := obj_RunID E (am_model s), h_peer_id := obj_ModelID E (am_model s), h_message_id := msg_id,
        h_app_msg_id := 0, h_unit_id := obj_UnitID E (am_model s), h_type := type, h_flags := flags, h_frame_count := 0,
        h_send_count := 0, h_message_length := len\<rparr>\<rparr>)"

definition am_sendCtrlMsg ::
  "('a, 'm, 'q, 'k) peer_env \<Rightarrow> u32 \<Rightarrow> u16 \<Rightarrow> ('a, 'm, 'q, 'k) Peer \<Rightarrow> (int \<times> ('a, 'm, 'q, 'k) Peer) option" where
  "am_sendCtrlMsg E type flag s = am_publish E None (am_header E type (ucast flag) 0 0 s) s"

definition am_sendCmdMsg ::
  "('a, 'm, 'q, 'k) peer_env \<Rightarrow> string \<Rightarrow> ('a, 'm, 'q, 'k) Peer \<Rightarrow> (int \<times> ('a, 'm, 'q, 'k) Peer) option" where
  "am_sendCmdMsg E msg s =
     am_publish_string E msg
       (am_header E (type_code DISPATCHER_COMMAND) (flag_mask flag_nowhere) 0 (of_nat (length msg)) s) s"

definition am_sendMsg ::
  "('a, 'm, 'q, 'k) peer_env \<Rightarrow> u32 \<Rightarrow> string \<Rightarrow> u32 \<Rightarrow> u32 \<Rightarrow> ('a, 'm, 'q, 'k) Peer \<Rightarrow> (int \<times> ('a, 'm, 'q, 'k) Peer) option" where
  "am_sendMsg E type msg flag msg_id s =
     am_publish_string E msg (am_header E type flag msg_id (of_nat (length msg)) s) s"

definition am_sendMsgOnCID ::
  "('a, 'm, 'q, 'k) peer_env \<Rightarrow> u32 \<Rightarrow> bytes \<Rightarrow> ('a, 'm, 'q, 'k) Peer \<Rightarrow> (int \<times> ('a, 'm, 'q, 'k) Peer) option" where
  "am_sendMsgOnCID E cid msg s =
     (let eh = am_header E (type_code DATA) (flag_mask flag_p2ch) 0 (of_nat (length msg)) s
      in am_publish E (Some msg) (eh\<lparr>eh_hdr := (eh_hdr eh)\<lparr>h_dest_peer_id := cid\<rparr>\<rparr>) s)"

section \<open>Registered messages\<close>

definition registerProcess ::
  "('a, 'm, 'q, 'k) peer_env \<Rightarrow> int \<Rightarrow> nat \<Rightarrow> ('a, 'm, 'q, 'k) Peer \<Rightarrow> int \<times> ('a, 'm, 'q, 'k) Peer" where
  "registerProcess E i m s = (let (r, mp) = mm_bind E i m (am_map s) in (r, s\<lparr>am_map := mp\<rparr>))"

definition unregisterProcess ::
  "('a, 'm, 'q, 'k) peer_env \<Rightarrow> int \<Rightarrow> ('a, 'm, 'q, 'k) Peer \<Rightarrow> int \<times> ('a, 'm, 'q, 'k) Peer" where
  "unregisterProcess E i s = (let (r, mp) = mm_bind E i 0 (am_map s) in (r, s\<lparr>am_map := mp\<rparr>))"

definition handoff_event ::
  "('a, 'm, 'q, 'k) peer_env \<Rightarrow> SamsonEvent \<Rightarrow> ('a, 'm, 'q, 'k) Peer \<Rightarrow> ('a, 'm, 'q, 'k) Peer option" where
  "handoff_event E ev s =
     (let (mb, sh) = ev in
      case mm_find E (uint (h_app_msg_id sh)) (am_map s) of
        None \<Rightarrow> Some s
      | Some m \<Rightarrow> if m = 0 then None else Some (msg_handle_event E m mb sh s))"

text \<open>The loop over the queue. It ends unless the handlers put new events into the queue for ever.\<close>

partial_function (option) drain ::
  "('a, 'm, 'q, 'k) peer_env \<Rightarrow> ('a, 'm, 'q, 'k) Peer \<Rightarrow> ('a, 'm, 'q, 'k) Peer option" where
  "drain E s =
     (if pq_empty E (am_queue s) then Some s
      else Option.bind (handoff_event E (pq_top E (am_queue s)) s)
             (\<lambda>s1. drain E (s1\<lparr>am_queue := pq_pop E (am_queue s1)\<rparr>)))"

section \<open>Events\<close>

definition history_text :: "('a, 'm, 'q, 'k) peer_env \<Rightarrow> string \<Rightarrow> SamsonHeader list \<Rightarrow> string" where
  "history_text E mark cb = concat (map (\<lambda>h. mark @ pe_report E h @ [CHR 0x0A]) cb)"

definition status_text :: "('a, 'm, 'q, 'k) peer_env \<Rightarrow> ('a, 'm, 'q, 'k) Peer \<Rightarrow> string" where
  "status_text E s =
     obj_extendedStatus E (app_info E s @ [CHR 0x0A] @ history_text E ''>> '' (am_send_cb s) @ [CHR 0x0A] @
       history_text E ''<< '' (am_recv_cb s)) (am_model s)"

text \<open>The flags of the request are kept in a 16 bit variable, and so are those of the response.\<close>

definition status_request ::
  "('a, 'm, 'q, 'k) peer_env \<Rightarrow> SamsonHeader \<Rightarrow> ('a, 'm, 'q, 'k) Peer \<Rightarrow> ('a, 'm, 'q, 'k) Peer option" where
  "status_request E sh s =
     (if am_app s then
        (let flags = ucast (h_flags sh) :: u16;
             on = (\<lambda>f. (ucast flags :: u32) AND flag_mask f \<noteq> 0)
         in if on flag_status_log_dispatcherd \<or> on flag_status_log_sender then
              (let o0 = ucast (flag_mask flag_nowhere) :: u16;
                   o1 = (if on flag_status_log_dispatcherd then o0 OR ucast (flag_mask flag_status_log_dispatcherd) else o0);
                   o2 = (if on flag_status_log_sender then o1 OR ucast (flag_mask flag_status_log_sender) else o1)
               in map_option snd (am_sendMsg E (type_code OK_STATUS_RESPONSE) (status_text E s) (ucast o2) (h_message_id sh) s))
            else Some s)
      else map_option snd (am_sendCtrlMsg E (type_code RECOVERABLE_ERROR_STATUS_RESPONSE) 0 s))"

text \<open>Every other message: hand it over or queue it, then empty the queue when the model is ready for data.\<close>

definition model_event ::
  "('a, 'm, 'q, 'k) peer_env \<Rightarrow> SamsonEvent \<Rightarrow> ('a, 'm, 'q, 'k) Peer \<Rightarrow> ('a, 'm, 'q, 'k) Peer option" where
  "model_event E ev s = do {
     let sh = snd ev;
     s1 \<leftarrow> (if \<not> has_type sh DATA \<or> header_enabled sh flag_control then handoff_event E ev s
           else if \<not> am_app s then None
           else if app_data_ready E s then handoff_event E ev s
           else Some (s\<lparr>am_queue := pq_push E ev (am_queue s)\<rparr>));
     if pq_empty E (am_queue s1) then Some s1
     else if \<not> am_app s1 then None
     else if app_data_ready E s1 then drain E s1
     else Some s1
   }"

definition am_handle_event ::
  "('a, 'm, 'q, 'k) peer_env \<Rightarrow> SamsonEvent \<Rightarrow> ('a, 'm, 'q, 'k) Peer \<Rightarrow> ('a, 'm, 'q, 'k) Peer option" where
  "am_handle_event E ev s =
     (let sh = snd ev;
          s1 = s\<lparr>am_recv_cb := push_history sh (am_recv_cb s)\<rparr>
      in if has_type sh GOODBYE_REQUEST then Some (if am_app s1 then app_closeSimulation E s1 else s1)
         else if has_type sh HELLO then
           map_option (\<lambda>(n, s2). if am_app s2 then app_helloResponse E s2 else s2) (am_sendCtrlMsg E (type_code HELLO) 0 s1)
         else if has_type sh STATUS_REQUEST then status_request E sh s1
         else model_event E ev s1)"

section \<open>Upcalls\<close>

text \<open>
  \<open>await_events\<close>. A result of \<open>recv\<close> other than 0 and -1 counts as a message: the header is read, so a result of -2, which comes
  without one, is undefined. A wrong checksum stops the simulation, and the message is handled all the same.
\<close>

definition await_events ::
  "('a, 'm, 'q, 'k) peer_env \<Rightarrow> ('a, 'm, 'q, 'k) Peer \<Rightarrow> (int \<times> ('a, 'm, 'q, 'k) Peer) option" where
  "await_events E s = do {
     r \<leftarrow> ph_recv (pe_net E) NO_ERROR (ph_rx (am_peer s)) (ph_sock (am_peer s));
     let s1 = s\<lparr>am_peer := (am_peer s)\<lparr>ph_rx := rx_next r, ph_sock := rx_sock r\<rparr>\<rparr>;
     if rx_ret r = 0 then Some (-1, s1)
     else if rx_ret r = -1 then Some (if rx_errno r = EWOULDBLOCK then 0 else -1, s1)
     else (case rx_header r of
         None \<Rightarrow> if am_registered s1 then None else Some (0, s1)
       | Some eh \<Rightarrow> do {
           s2 \<leftarrow> (if (case rx_event r of Some d \<Rightarrow> d \<noteq> [] \<and> h_message_crc32 (eh_hdr eh) \<noteq> pe_crc E d | None \<Rightarrow> False) then
                   (if am_registered s1 \<and> am_app s1 then Some (app_stopSimulation E (app_requestJobStatus E s1)) else None)
                 else Some s1);
           if am_registered s2 then map_option (\<lambda>s3. (0, s3)) (am_handle_event E (rx_event r, eh_hdr eh) s2) else Some (0, s2)
         })
   }"

definition ph_handle_input ::
  "('a, 'm, 'q, 'k) peer_env \<Rightarrow> ('a, 'm, 'q, 'k) Peer \<Rightarrow> (int \<times> ('a, 'm, 'q, 'k) Peer) option" where
  "ph_handle_input E s = map_option (\<lambda>(retval, s1). (0, if retval < 0 then s1\<lparr>am_loop := False\<rparr> else s1)) (await_events E s)"

section \<open>Start and end\<close>

text \<open>The constructor, with the parts of the process it does not set.\<close>

definition am_new :: "'m \<Rightarrow> 'q \<Rightarrow> 'k Peer_Handler \<Rightarrow> 'a \<Rightarrow> ('a, 'm, 'q, 'k) Peer" where
  "am_new m q p a = \<lparr>am_active = False, am_app = False, am_registered = False, am_map = m, am_queue = q, am_send_cb = [],
     am_recv_cb = [], am_send_count = 0, am_peer = p, am_loop = True, am_model = a\<rparr>"

definition am_handler_set :: "'k Peer_Handler option \<Rightarrow> ('a, 'm, 'q, 'k) Peer \<Rightarrow> ('a, 'm, 'q, 'k) Peer option" where
  "am_handler_set peer s = map_option (\<lambda>p. s\<lparr>am_peer := p, am_registered := True\<rparr>) peer"

definition app_directive :: "string \<Rightarrow> string list \<Rightarrow> string" where
  "app_directive adll argv =
     ''dynamic '' @ adll @ '' Service_Object * '' @ adll @ '':_make_'' @ adll @ ''() active '' @ [CHR 0x22] @
     concat (map (\<lambda>a. a @ '' '') argv) @ [CHR 0x22]"

definition am_init ::
  "('a, 'm, 'q, 'k) peer_env \<Rightarrow> 'k Peer_Handler option \<Rightarrow> bool \<Rightarrow> string list \<Rightarrow> ('a, 'm, 'q, 'k) Peer
     \<Rightarrow> (int \<times> ('a, 'm, 'q, 'k) Peer) option" where
  "am_init E peer eap argv s =
     (case peer of
        None \<Rightarrow> Some (-1, s)
      | Some p \<Rightarrow>
          (let s1 = s\<lparr>am_peer := p, am_registered := True, am_active := True\<rparr>;
               adll = obj_AppLib E (am_model s1)
           in if \<not> opt_embedded E then
                (let s2 = svc_process E (app_directive adll argv) s1;
                     retval = svc_find E adll s2
                 in Some (retval, if retval \<noteq> -1 then s2\<lparr>am_app := svc_instance E adll s2\<rparr> else s2))
              else if \<not> eap then None
              else Some (app_init E argv (s1\<lparr>am_app := True\<rparr>))))"

definition am_close :: "('a, 'm, 'q, 'k) peer_env \<Rightarrow> ('a, 'm, 'q, 'k) Peer \<Rightarrow> int \<times> ('a, 'm, 'q, 'k) Peer" where
  "am_close E s =
     (let s1 = (if am_app s then app_fini E s else s);
          s2 = svc_process E (''remove '' @ obj_AppLib E (am_model s1)) s1
      in (1, s2\<lparr>am_map := mm_unbind_all E (am_map s2), am_active := False\<rparr>))"

definition am_destroy :: "('a, 'm, 'q, 'k) peer_env \<Rightarrow> ('a, 'm, 'q, 'k) Peer \<Rightarrow> ('a, 'm, 'q, 'k) Peer" where
  "am_destroy E s = (if am_active s then snd (am_close E s) else s)"

section \<open>Contracts\<close>

text \<open>
  ACE's map manager: \<open>bind\<close> adds an entry and returns 0, or leaves the entry the key has and returns 1.
\<close>

locale map_manager =
  fixes find :: "int \<Rightarrow> 'm \<Rightarrow> nat option" and bind :: "int \<Rightarrow> nat \<Rightarrow> 'm \<Rightarrow> int \<times> 'm" and unbind_all :: "'m \<Rightarrow> 'm"
  assumes bind_new: "find i m = None \<Longrightarrow> fst (bind i v m) = 0 \<and> (\<forall>j. find j (snd (bind i v m)) = (if j = i then Some v else find j m))"
    and bind_old: "find i m = Some w \<Longrightarrow> bind i v m = (1, m)"
    and find_unbind_all: "find i (unbind_all m) = None"

text \<open>
  The standard priority queue over \<open>operator<\<close> of the events, as a bag: \<open>top\<close> is an element no other one is greater than, and
  \<open>pop\<close> removes it.
\<close>

locale event_queue =
  fixes is_empty :: "'q \<Rightarrow> bool" and push :: "'e \<Rightarrow> 'q \<Rightarrow> 'q" and top :: "'q \<Rightarrow> 'e" and pop :: "'q \<Rightarrow> 'q"
    and less :: "'e \<Rightarrow> 'e \<Rightarrow> bool" and elements :: "'q \<Rightarrow> 'e multiset"
  assumes is_empty_iff: "is_empty q \<longleftrightarrow> elements q = {#}"
    and elements_push: "elements (push e q) = add_mset e (elements q)"
    and top_in: "elements q \<noteq> {#} \<Longrightarrow> top q \<in># elements q"
    and top_max: "e \<in># elements q \<Longrightarrow> \<not> less (top q) e"
    and elements_pop: "elements q \<noteq> {#} \<Longrightarrow> elements (pop q) = elements q - {#top q#}"

text \<open>
  A model whose handlers take what they are given: \<open>seen\<close> are the events handed to it so far. A handler may do anything but
  change the queue, the registrations and the receiving side of the connection.
\<close>

definition same_reception :: "('k \<Rightarrow> bytes) \<Rightarrow> ('a, 'm, 'q, 'k) Peer \<Rightarrow> ('a, 'm, 'q, 'k) Peer \<Rightarrow> bool" where
  "same_reception pending s s' \<longleftrightarrow> am_map s' = am_map s \<and> am_app s' = am_app s \<and> am_registered s' = am_registered s \<and>
     am_loop s' = am_loop s \<and> ph_rx (am_peer s') = ph_rx (am_peer s) \<and>
     pending (ph_sock (am_peer s')) = pending (ph_sock (am_peer s))"

lemma same_reception_refl [simp]: "same_reception pending s s"
  by (simp add: same_reception_def)

lemma same_reception_trans: "same_reception pending s s' \<Longrightarrow> same_reception pending s' s'' \<Longrightarrow> same_reception pending s s''"
  by (simp add: same_reception_def)

definition takes :: "('a, 'm, 'q, 'k) peer_env \<Rightarrow> SamsonEvent \<Rightarrow> ('a, 'm, 'q, 'k) Peer \<Rightarrow> bool" where
  "takes E ev s \<longleftrightarrow> (\<exists>m. mm_find E (uint (h_app_msg_id (snd ev))) (am_map s) = Some m \<and> m \<noteq> 0)"

definition plain_event :: "SamsonEvent \<Rightarrow> bool" where
  "plain_event ev \<longleftrightarrow> \<not> has_type (snd ev) GOODBYE_REQUEST \<and> \<not> has_type (snd ev) HELLO \<and> \<not> has_type (snd ev) STATUS_REQUEST"

locale model_contract = event_queue "pq_empty E" "pq_push E" "pq_top E" "pq_pop E" less elements
  for E :: "('a, 'm, 'q, 'k) peer_env" and less elements +
  fixes pending :: "'k \<Rightarrow> bytes" and seen :: "'a \<Rightarrow> SamsonEvent list"
  assumes handler_sees: "seen (am_model (msg_handle_event E m mb sh s)) = seen (am_model s) @ [(mb, sh)]"
    and handler_queue: "am_queue (msg_handle_event E m mb sh s) = am_queue s"
    and handler_keeps: "same_reception pending s (msg_handle_event E m mb sh s)"
begin

abbreviation seen_by :: "('a, 'm, 'q, 'k) Peer \<Rightarrow> SamsonEvent list" where
  "seen_by s \<equiv> seen (am_model s)"

abbreviation queued :: "('a, 'm, 'q, 'k) Peer \<Rightarrow> SamsonEvent multiset" where
  "queued s \<equiv> elements (am_queue s)"

lemma handoff_takes:
  assumes "takes E ev s"
  shows "\<exists>s'. handoff_event E ev s = Some s' \<and> seen_by s' = seen_by s @ [ev] \<and> am_queue s' = am_queue s \<and> same_reception pending s s'"
  using assms handler_sees handler_queue handler_keeps by (fastforce simp: handoff_event_def takes_def split: prod.split)

lemma takes_same: "same_reception pending s s' \<Longrightarrow> takes E ev s' = takes E ev s"
  by (simp add: same_reception_def takes_def)

lemma drain_hands_over:
  assumes "\<forall>ev \<in># queued s. takes E ev s"
  shows "\<exists>s' evs. drain E s = Some s' \<and> queued s' = {#} \<and> seen_by s' = seen_by s @ evs \<and> mset evs = queued s \<and>
    sorted_wrt (\<lambda>x y. \<not> less x y) evs \<and> same_reception pending s s'"
  using assms
proof (induction "size (queued s)" arbitrary: s)
  case 0
  then show ?case by (subst drain.simps) (auto simp: is_empty_iff intro!: exI [of _ "[]"])
next
  case (Suc n)
  then have ne: "queued s \<noteq> {#}" by auto
  let ?t = "pq_top E (am_queue s)"
  have t: "?t \<in># queued s" using top_in [OF ne] .
  then obtain s1 where s1: "handoff_event E ?t s = Some s1" "seen_by s1 = seen_by s @ [?t]" "am_queue s1 = am_queue s"
    "same_reception pending s s1" using handoff_takes Suc.prems by blast
  let ?s2 = "s1\<lparr>am_queue := pq_pop E (am_queue s1)\<rparr>"
  have q2: "queued ?s2 = queued s - {#?t#}" using s1 elements_pop [OF ne] by simp
  have same2: "same_reception pending s ?s2" using s1(4) by (simp add: same_reception_def)
  have "n = size (queued ?s2)" using Suc.hyps(2) q2 t by (simp add: size_Diff_singleton)
  moreover have "\<forall>ev \<in># queued ?s2. takes E ev ?s2" using Suc.prems q2 takes_same [OF same2] by (auto dest: in_diffD)
  ultimately obtain s' evs where r: "drain E ?s2 = Some s'" "queued s' = {#}" "seen_by s' = seen_by ?s2 @ evs"
    "mset evs = queued ?s2" "sorted_wrt (\<lambda>x y. \<not> less x y) evs" "same_reception pending ?s2 s'"
    using Suc.hyps(1) by blast
  have "set_mset (mset evs) \<subseteq> set_mset (queued s)" unfolding r(4) q2 by (auto dest: in_diffD)
  then have "sorted_wrt (\<lambda>x y. \<not> less x y) (?t # evs)" using r(5) top_max by auto
  moreover have "mset (?t # evs) = queued s" using r(4) q2 t by simp
  moreover have "drain E s = Some s'" using ne s1(1) r(1) by (subst drain.simps) (simp add: is_empty_iff)
  ultimately show ?case using r s1(2) same_reception_trans [OF same2 r(6)]
    by (intro exI [of _ s'] exI [of _ "?t # evs"]) auto
qed

text \<open>\<open>accounted s es s'\<close>: between \<open>s\<close> and \<open>s'\<close> the events \<open>es\<close> came in, and each of them, and of those that were queued, was
  handed over once or is still queued; and nothing stays queued once the model is ready.\<close>

definition accounted :: "('a, 'm, 'q, 'k) Peer \<Rightarrow> SamsonEvent list \<Rightarrow> ('a, 'm, 'q, 'k) Peer \<Rightarrow> bool" where
  "accounted s es s' \<longleftrightarrow> same_reception pending s s' \<and>
     (\<exists>evs. seen_by s' = seen_by s @ evs \<and> mset evs + queued s' = queued s + mset es) \<and>
     (queued s' = {#} \<or> \<not> app_data_ready E s')"

lemma accounted_trans:
  assumes "accounted s es s'" and "accounted s' fs s''"
  shows "accounted s (es @ fs) s''"
proof -
  obtain evs evs' where "seen_by s' = seen_by s @ evs" "mset evs + queued s' = queued s + mset es"
    "seen_by s'' = seen_by s' @ evs'" "mset evs' + queued s'' = queued s' + mset fs"
    using assms by (auto simp: accounted_def)
  then have "seen_by s'' = seen_by s @ evs @ evs'" "mset (evs @ evs') + queued s'' = queued s + mset (es @ fs)"
    by (simp_all add: union_assoc)
  moreover have "same_reception pending s s''" using assms same_reception_trans by (auto simp: accounted_def)
  ultimately show ?thesis using assms(2) unfolding accounted_def by blast
qed

lemma model_event_accounted:
  assumes "takes E ev s" and "\<forall>e \<in># queued s. takes E e s" and "am_app s"
  shows "\<exists>s'. model_event E ev s = Some s' \<and> accounted s [ev] s' \<and> (\<forall>e \<in># queued s'. takes E e s')"
proof -
  let ?now = "\<not> has_type (snd ev) DATA \<or> header_enabled (snd ev) flag_control \<or> app_data_ready E s"
  obtain s1 evs1 where s1: "(if \<not> has_type (snd ev) DATA \<or> header_enabled (snd ev) flag_control then handoff_event E ev s
      else if \<not> am_app s then None else if app_data_ready E s then handoff_event E ev s
      else Some (s\<lparr>am_queue := pq_push E ev (am_queue s)\<rparr>)) = Some s1"
    "seen_by s1 = seen_by s @ evs1" "mset evs1 + queued s1 = add_mset ev (queued s)" "same_reception pending s s1"
  proof (cases ?now)
    case True
    obtain s1 where "handoff_event E ev s = Some s1" "seen_by s1 = seen_by s @ [ev]" "am_queue s1 = am_queue s"
      "same_reception pending s s1" using handoff_takes [OF assms(1)] by blast
    with True assms(3) that [of s1 "[ev]"] show ?thesis by (cases "has_type (snd ev) DATA \<and> \<not> header_enabled (snd ev) flag_control") auto
  next
    case False
    with assms(3) that [of "s\<lparr>am_queue := pq_push E ev (am_queue s)\<rparr>" "[]"] show ?thesis
      by (auto simp: elements_push same_reception_def)
  qed
  have app1: "am_app s1" using s1(4) assms(3) by (simp add: same_reception_def)
  have q1: "\<forall>e \<in># queued s1. takes E e s1"
  proof
    fix e assume "e \<in># queued s1"
    then have "e \<in># add_mset ev (queued s)" unfolding s1(3) [symmetric] by simp
    then show "takes E e s1" using assms(1,2) takes_same [OF s1(4)] by auto
  qed
  show ?thesis
  proof (cases "queued s1 = {#} \<or> \<not> app_data_ready E s1")
    case True
    with s1(1) app1 have "model_event E ev s = Some s1" by (auto simp: model_event_def is_empty_iff Let_def)
    moreover have "accounted s [ev] s1" unfolding accounted_def using s1(2-4) True by auto
    ultimately show ?thesis using q1 by blast
  next
    case False
    with s1(1) app1 have run: "model_event E ev s = drain E s1" by (auto simp: model_event_def is_empty_iff Let_def)
    obtain s' evs where d: "drain E s1 = Some s'" "queued s' = {#}" "seen_by s' = seen_by s1 @ evs" "mset evs = queued s1"
      "same_reception pending s1 s'" using drain_hands_over [OF q1] by blast
    have "accounted s [ev] s'" unfolding accounted_def
      using s1(2,3) d(2-4) same_reception_trans [OF s1(4) d(5)] by (auto intro!: exI [of _ "evs1 @ evs"])
    with d run show ?thesis by auto
  qed
qed

lemma handle_event_accounted:
  assumes "takes E ev s" and "plain_event ev" and "\<forall>e \<in># queued s. takes E e s" and "am_app s"
  shows "\<exists>s'. am_handle_event E ev s = Some s' \<and> accounted s [ev] s' \<and> (\<forall>e \<in># queued s'. takes E e s')"
proof -
  let ?s1 = "s\<lparr>am_recv_cb := push_history (snd ev) (am_recv_cb s)\<rparr>"
  have "takes E e ?s1 = takes E e s" for e by (simp add: takes_def)
  with model_event_accounted [of ev ?s1] assms have "\<exists>s'. model_event E ev ?s1 = Some s' \<and> accounted ?s1 [ev] s' \<and>
      (\<forall>e \<in># queued s'. takes E e s')" by simp
  then show ?thesis using assms(2) by (auto simp: am_handle_event_def plain_event_def accounted_def same_reception_def Let_def)
qed

end

text \<open>A sequence of events.\<close>

fun event_run ::
  "('a, 'm, 'q, 'k) peer_env \<Rightarrow> SamsonEvent list \<Rightarrow> ('a, 'm, 'q, 'k) Peer \<Rightarrow> ('a, 'm, 'q, 'k) Peer option" where
  "event_run E [] s = Some s"
| "event_run E (ev # evs) s = Option.bind (am_handle_event E ev s) (event_run E evs)"

context model_contract
begin

lemma event_run_accounted:
  assumes "\<forall>ev \<in> set es. takes E ev s \<and> plain_event ev" and "\<forall>e \<in># queued s. takes E e s" and "am_app s" and "es \<noteq> []"
  shows "\<exists>s'. event_run E es s = Some s' \<and> accounted s es s' \<and> (\<forall>e \<in># queued s'. takes E e s')"
  using assms
proof (induction es arbitrary: s)
  case (Cons ev es)
  then obtain s1 where s1: "am_handle_event E ev s = Some s1" "accounted s [ev] s1" "\<forall>e \<in># queued s1. takes E e s1"
    using handle_event_accounted [of ev s] by auto
  then have same: "same_reception pending s s1" by (simp add: accounted_def)
  then have app1: "am_app s1" using Cons.prems by (simp add: same_reception_def)
  show ?case
  proof (cases "es = []")
    case True
    with s1 show ?thesis by simp
  next
    case False
    with Cons.IH [of s1] Cons.prems s1 app1 takes_same [OF same] obtain s2 where
      "event_run E es s1 = Some s2" "accounted s1 es s2" "\<forall>e \<in># queued s2. takes E e s2" by auto
    with s1 accounted_trans [OF s1(2), of es s2] show ?thesis by simp
  qed
qed simp

end

section \<open>From the socket to the model\<close>

text \<open>The upcalls the reactor makes while the socket is readable.\<close>

fun peer_pump :: "('a, 'm, 'q, 'k) peer_env \<Rightarrow> nat \<Rightarrow> ('a, 'm, 'q, 'k) Peer \<Rightarrow> ('a, 'm, 'q, 'k) Peer option" where
  "peer_pump E 0 s = Some s"
| "peer_pump E (Suc n) s =
     (if \<not> sock_readable (pn_rx (pe_net E)) (ph_sock (am_peer s)) then Some s
      else Option.bind (ph_handle_input E s) (\<lambda>(i, s1). peer_pump E n s1))"

text \<open>The event a frame is, and a frame whose checksum is that of its data.\<close>

definition frame_event_of :: "'k rx_env \<Rightarrow> int \<Rightarrow> int \<Rightarrow> int \<Rightarrow> bytes \<times> bytes \<Rightarrow> SamsonEvent" where
  "frame_event_of R t c h m = (if snd m = [] then None else Some (snd m), eh_hdr (framed_header R t c h (fst m)))"

definition crc_right :: "('a, 'm, 'q, 'k) peer_env \<Rightarrow> SamsonEvent \<Rightarrow> bool" where
  "crc_right E ev \<longleftrightarrow> (case fst ev of Some d \<Rightarrow> h_message_crc32 (snd ev) = pe_crc E d | None \<Rightarrow> True)"

locale peer_reception =
  stream_socket "pn_rx (pe_net E)" t pending hsize + samson_peer "pe_net E" t c0 h0 + model_contract E less elements pending seen
  for E :: "('a, 'm, 'q, 'k) peer_env" and t pending hsize c0 h0 less elements and seen :: "'a \<Rightarrow> SamsonEvent list"
begin

abbreviation event_of :: "bytes \<times> bytes \<Rightarrow> SamsonEvent" where
  "event_of \<equiv> frame_event_of (pn_rx (pe_net E)) t c0 h0"

abbreviation received :: "'k rx_result \<Rightarrow> ('a, 'm, 'q, 'k) Peer \<Rightarrow> ('a, 'm, 'q, 'k) Peer" where
  "received r s \<equiv> s\<lparr>am_peer := (am_peer s)\<lparr>ph_rx := rx_next r, ph_sock := rx_sock r\<rparr>\<rparr>"

lemma upcall_short:
  assumes "ph_recv (pe_net E) NO_ERROR (ph_rx (am_peer s)) (ph_sock (am_peer s)) = Some r"
    and "rx_ret r = -1" and "rx_errno r = EWOULDBLOCK"
  shows "ph_handle_input E s = Some (0, received r s)"
  using assms by (simp add: ph_handle_input_def await_events_def Let_def)

lemma upcall_complete:
  assumes "ph_recv (pe_net E) NO_ERROR (ph_rx (am_peer s)) (ph_sock (am_peer s)) = Some r"
    and "complete c0 h0 (fst m) (snd m) tail r" and "crc_right E (event_of m)" and "am_registered s"
  shows "ph_handle_input E s = map_option (\<lambda>s3. (0, s3)) (am_handle_event E (event_of m) (received r s))"
proof -
  have r: "rx_ret r > 0" "rx_header r = Some (framed_header (pn_rx (pe_net E)) t c0 h0 (fst m))"
    "rx_event r = (if snd m = [] then None else Some (snd m))"
    using assms(2) header_size by (auto simp: complete_def delivered_def)
  with assms(1,3,4) show ?thesis
    by (auto simp: ph_handle_input_def await_events_def Let_def frame_event_of_def crc_right_def option.map_comp o_def)
qed

text \<open>The events of \<open>ms\<close> are what the model got or will get, between \<open>s\<close> and \<open>s'\<close>.\<close>

definition passed :: "('a, 'm, 'q, 'k) Peer \<Rightarrow> (bytes \<times> bytes) list \<Rightarrow> ('a, 'm, 'q, 'k) Peer \<Rightarrow> bool" where
  "passed s ms s' \<longleftrightarrow> am_loop s' = am_loop s \<and> ph_rx (am_peer s') = rx_init \<and> pending (ph_sock (am_peer s')) = [] \<and>
     (\<exists>evs. seen_by s' = seen_by s @ evs \<and> mset evs + queued s' = queued s + mset (map event_of ms))"

definition good :: "('a, 'm, 'q, 'k) Peer \<Rightarrow> bytes \<times> bytes \<Rightarrow> bool" where
  "good s m \<longleftrightarrow> is_frame (pn_rx (pe_net E)) t c0 h0 hsize m \<and> crc_right E (event_of m) \<and> plain_event (event_of m) \<and>
     takes E (event_of m) s"

definition listening :: "('a, 'm, 'q, 'k) Peer \<Rightarrow> bool" where
  "listening s \<longleftrightarrow> am_app s \<and> am_registered s \<and> rx_hidden c0 h0 (ph_rx (am_peer s)) \<and> (\<forall>e \<in># queued s. takes E e s)"

lemma upcall_next:
  assumes "listening s" "good s m" "complete c0 h0 (fst m) (snd m) tail r" "rx_hidden c0 h0 (rx_next r)"
    and "ph_recv (pe_net E) NO_ERROR (ph_rx (am_peer s)) (ph_sock (am_peer s)) = Some r"
  shows "\<exists>s'. ph_handle_input E s = Some (0, s') \<and> accounted (received r s) [event_of m] s' \<and> listening s' \<and>
    (\<forall>m'. good s' m' = good s m')"
proof -
  let ?s = "received r s"
  have "takes E e ?s = takes E e s" for e by (simp add: takes_def)
  then obtain s' where s': "am_handle_event E (event_of m) ?s = Some s'" "accounted ?s [event_of m] s'"
    "\<forall>e \<in># queued s'. takes E e s'"
    using handle_event_accounted [of "event_of m" ?s] assms(1,2) by (auto simp: listening_def good_def)
  then have "same_reception pending ?s s'" by (simp add: accounted_def)
  then have "listening s'" "\<And>m'. good s' m' = good s m'"
    using assms(1,4) s'(3) by (simp_all add: listening_def good_def same_reception_def takes_def)
  with s' upcall_complete [OF assms(5,3)] assms(1,2) show ?thesis by (auto simp: listening_def good_def)
qed

lemma pump_passes:
  assumes "listening s" and "\<forall>m \<in> set ms. good s m" and "holds c0 h0 ms (ph_rx (am_peer s)) pre"
    and "pre @ pending (ph_sock (am_peer s)) = wire ms" and "length (pending (ph_sock (am_peer s))) \<le> fuel"
  shows "\<exists>s'. peer_pump E fuel s = Some s' \<and> passed s ms s'"
  using assms
proof (induction fuel arbitrary: ms s pre)
  case 0
  have "\<forall>m \<in> set ms. is_frame (pn_rx (pe_net E)) t c0 h0 hsize m" using 0 by (auto simp: good_def)
  with 0 drained [of ms c0 h0 "ph_rx (am_peer s)" pre] show ?case by (auto simp: passed_def)
next
  case (Suc n)
  have frames: "\<forall>m \<in> set ms. is_frame (pn_rx (pe_net E)) t c0 h0 hsize m" using Suc.prems by (auto simp: good_def)
  show ?case
  proof (cases "pending (ph_sock (am_peer s)) = []")
    case True
    with Suc.prems drained [OF frames Suc.prems(3)] readable show ?thesis by (auto simp: passed_def)
  next
    case False
    with Suc.prems(3,4) obtain m ms' where ms: "ms = m # ms'" by (cases ms) (auto simp: holds_def)
    with frames Suc.prems have "is_frame (pn_rx (pe_net E)) t c0 h0 hsize (fst m, snd m)"
      "part c0 h0 (fst m) (snd m) (ph_rx (am_peer s)) pre"
      "pre @ pending (ph_sock (am_peer s)) = fst m @ snd m @ wire ms'" by (auto simp: holds_def)
    then obtain r where r0: "recv_header (pn_rx (pe_net E)) t c0 h0 NO_ERROR (ph_rx (am_peer s)) (ph_sock (am_peer s)) = Some r"
      "short c0 h0 (fst m) (snd m) (wire ms') r \<or> complete c0 h0 (fst m) (snd m) (wire ms') r"
      and less: "length (pending (rx_sock r)) < length (pending (ph_sock (am_peer s)))"
      using recv_header_step False by blast
    have hid: "rx_hidden c0 h0 (ph_rx (am_peer s))" using Suc.prems(1) by (simp add: listening_def)
    then have r: "ph_recv (pe_net E) NO_ERROR (ph_rx (am_peer s)) (ph_sock (am_peer s)) = Some r" using r0(1) recv_same by simp
    note hid' = recv_hidden [OF hid r]
    from r0(2) show ?thesis
    proof
      assume "short c0 h0 (fst m) (snd m) (wire ms') r"
      then obtain pre' where sh: "rx_ret r = -1" "rx_errno r = EWOULDBLOCK" "holds c0 h0 ms (rx_next r) pre'"
        "pre' @ pending (rx_sock r) = wire ms" by (auto simp: short_def holds_def ms)
      let ?s = "received r s"
      have "listening ?s" "\<And>m'. good ?s m' = good s m'" using Suc.prems(1) hid' by (simp_all add: listening_def good_def takes_def)
      with Suc.IH [of ?s ms pre'] Suc.prems sh less obtain s' where "peer_pump E n ?s = Some s'" "passed ?s ms s'" by auto
      with upcall_short [OF r sh(1,2)] False readable show ?thesis by (auto simp: passed_def)
    next
      assume c: "complete c0 h0 (fst m) (snd m) (wire ms') r"
      have "good s m" using Suc.prems(2) ms by simp
      from upcall_next [OF Suc.prems(1) this c hid' r] obtain s1 where s1: "ph_handle_input E s = Some (0, s1)"
        "accounted (received r s) [event_of m] s1" "listening s1" "\<And>m'. good s1 m' = good s m'" by blast
      have rx1: "ph_rx (am_peer s1) = rx_init" "pending (ph_sock (am_peer s1)) = wire ms'" "am_loop s1 = am_loop s"
        using s1(2) c by (auto simp: accounted_def same_reception_def complete_def)
      have "pending (rx_sock r) = wire ms'" using c by (simp add: complete_def)
      then have "length (pending (ph_sock (am_peer s1))) \<le> n" using less Suc.prems(5) rx1(2) by simp
      with Suc.IH [of s1 ms' "[]"] s1 Suc.prems(2) ms rx1 holds_init obtain s' where
        s': "peer_pump E n s1 = Some s'" "passed s1 ms' s'" by auto
      obtain evs1 evs2 where "seen_by s1 = seen_by s @ evs1" "mset evs1 + queued s1 = add_mset (event_of m) (queued s)"
        "seen_by s' = seen_by s1 @ evs2" "mset evs2 + queued s' = queued s1 + mset (map event_of ms')"
        using s1(2) s'(2) by (auto simp: accounted_def passed_def)
      then have "seen_by s' = seen_by s @ evs1 @ evs2" "mset (evs1 @ evs2) + queued s' = queued s + mset (map event_of ms)"
        by (simp_all add: ms union_assoc)
      then have "passed s ms s'" using s'(2) rx1(3) unfolding passed_def by auto
      with s1(1) s'(1) False readable show ?thesis by auto
    qed
  qed
qed

end

end
