(* ===== verification/PeerMessages.thy ===== *)
theory PeerMessages
  imports SharedAppMgr
begin

text \<open>
  Messages from model to model, and what the peer library does with the events it gets: the theorems about
  \<open>src/Peer/Peer_Handler.cpp\<close> and \<open>src/Peer/SharedAppMgr.cpp\<close>, with an example environment for their contracts.
\<close>

section \<open>Publishing\<close>

text \<open>The header a message goes out with, and its bytes.\<close>

definition published_header :: "('a, 'm, 'q, 'k) peer_env \<Rightarrow> u32 \<Rightarrow> bytes option \<Rightarrow> EventHeaderObj \<Rightarrow> EventHeaderObj" where
  "published_header E cnt data eh = eh\<lparr>eh_hdr := (eh_hdr eh)\<lparr>h_send_count := cnt,
     h_message_crc32 := (case data of Some d \<Rightarrow> if d \<noteq> [] then pe_crc E d else 0 | None \<Rightarrow> 0)\<rparr>\<rparr>"

definition raw_header :: "('a, 'm, 'q, 'k) peer_env \<Rightarrow> EventHeaderObj \<Rightarrow> bytes" where
  "raw_header E eh = take (nat (evh_length (pn_rx (pe_net E)) (pe_encode E eh))) (eh_raw (pe_encode E eh))"

text \<open>A history of a sending peer: messages its model publishes, and writable upcalls.\<close>

datatype peer_op = Publish "bytes option" EventHeaderObj | PeerWritable

fun peer_run :: "('a, 'm, 'q, 'k) peer_env \<Rightarrow> peer_op list \<Rightarrow> ('a, 'm, 'q, 'k) Peer \<Rightarrow> ('a, 'm, 'q, 'k) Peer option" where
  "peer_run E [] s = Some s"
| "peer_run E (Publish data eh # ops) s = Option.bind (am_publish E data eh s) (\<lambda>(n, s1). peer_run E ops s1)"
| "peer_run E (PeerWritable # ops) s =
     Option.bind (ph_handle_output (pe_net E) (am_peer s)) (\<lambda>(n, p). peer_run E ops (s\<lparr>am_peer := p\<rparr>))"

fun published :: "peer_op list \<Rightarrow> (bytes option \<times> EventHeaderObj) list" where
  "published [] = []"
| "published (Publish data eh # ops) = (data, eh) # published ops"
| "published (PeerWritable # ops) = published ops"

fun numbered :: "('a, 'm, 'q, 'k) peer_env \<Rightarrow> u32 \<Rightarrow> (bytes option \<times> EventHeaderObj) list \<Rightarrow> (bytes option \<times> EventHeaderObj) list" where
  "numbered E cnt [] = []"
| "numbered E cnt ((data, eh) # ms) = (data, published_header E cnt data eh) # numbered E (cnt + 1) ms"

definition out_frame :: "('a, 'm, 'q, 'k) peer_env \<Rightarrow> bytes option \<times> EventHeaderObj \<Rightarrow> bytes \<times> bytes" where
  "out_frame E m = (raw_header E (snd m), case fst m of Some d \<Rightarrow> d | None \<Rightarrow> [])"

text \<open>When an operation meets no failure.\<close>

fun peer_untroubled :: "('a, 'm, 'q, 'k) peer_env \<Rightarrow> ('k \<Rightarrow> bytes) \<Rightarrow> peer_op \<Rightarrow> ('a, 'm, 'q, 'k) Peer \<Rightarrow> bool" where
  "peer_untroubled E out (Publish data eh) s =
     (let m = out_frame E (data, published_header E (am_send_count s) data eh)
      in ph_accepts (pe_net E) out (am_peer s) (fst m @ snd m))"
| "peer_untroubled E out PeerWritable s =
     (case ph_queue (am_peer s) of [] \<Rightarrow> True | b # q \<Rightarrow> ph_goes_through (pe_net E) out (ph_sock (am_peer s)) b q)"

context peer_socket
begin

lemma publish_stream:
  assumes "pe_net E = N" and "peer_untroubled E out (Publish data eh) s"
  shows "\<exists>n s'. am_publish E data eh s = Some (n, s') \<and> am_send_count s' = am_send_count s + 1 \<and>
    ph_stream out (am_peer s') = ph_stream out (am_peer s) @
      (let m = out_frame E (data, published_header E (am_send_count s) data eh) in fst m @ snd m)"
proof -
  let ?m = "out_frame E (data, published_header E (am_send_count s) data eh)"
  let ?chain = "fst ?m # (case data of Some d \<Rightarrow> [d] | None \<Rightarrow> [])"
  have c: "concat ?chain = fst ?m @ snd ?m" by (simp add: out_frame_def split: option.split)
  obtain n p where "ph_transmit N ?chain (am_peer s) = Some (n, p)" "ph_sent (am_peer s) (ph_stream out (am_peer s) @ concat ?chain) p"
    using transmit_sent [of ?chain "am_peer s"] assms unfolding c by (auto simp: Let_def)
  with c show ?thesis using assms(1)
    by (auto simp: am_publish_def out_frame_def raw_header_def published_header_def ph_sent_def Let_def)
qed

lemma op_stream:
  assumes "pe_net E = N" and "peer_untroubled E out op s"
  shows "\<exists>s'. (\<forall>ops. peer_run E (op # ops) s = peer_run E ops s') \<and> am_send_count s' = am_send_count s + of_nat (length (published [op])) \<and>
    ph_stream out (am_peer s') = ph_stream out (am_peer s) @ wire (map (out_frame E) (numbered E (am_send_count s) (published [op])))"
proof (cases op)
  case (Publish data eh)
  with publish_stream [OF assms(1), of data eh s] assms(2) obtain n s1 where "am_publish E data eh s = Some (n, s1)" "am_send_count s1 = am_send_count s + 1"
      "ph_stream out (am_peer s1) = ph_stream out (am_peer s) @
        (let m = out_frame E (data, published_header E (am_send_count s) data eh) in fst m @ snd m)"
    by blast
  with Publish show ?thesis by (intro exI [of _ s1]) (simp add: Let_def)
next
  case PeerWritable
  with handle_output_sent [of "am_peer s"] assms obtain p where "ph_handle_output N (am_peer s) = Some (0, p)" "ph_stream out p = ph_stream out (am_peer s)"
    by (auto simp: ph_sent_def)
  with PeerWritable assms(1) show ?thesis by (intro exI [of _ "s\<lparr>am_peer := p\<rparr>"]) simp
qed

lemma numbered_append:
  "numbered E cnt (ms @ ns) = numbered E cnt ms @ numbered E (cnt + of_nat (length ms)) ns"
  by (induction ms arbitrary: cnt) (auto simp: add.assoc)

lemma published_Cons: "published (op # ops) = published [op] @ published ops"
  by (cases op) simp_all

lemma peer_run_stream:
  assumes "pe_net E = N"
  shows "\<exists>n s'. n \<le> length ops \<and> peer_run E (take n ops) s = Some s' \<and> ph_stream out (am_peer s') =
    ph_stream out (am_peer s) @ wire (map (out_frame E) (numbered E (am_send_count s) (published (take n ops)))) \<and>
    (n = length ops \<or> \<not> peer_untroubled E out (ops ! n) s')"
proof (induction ops arbitrary: s)
  case (Cons op ops)
  show ?case
  proof (cases "peer_untroubled E out op s")
    case True
    from op_stream [OF assms True] obtain s1 where s1: "\<And>ops. peer_run E (op # ops) s = peer_run E ops s1"
      "am_send_count s1 = am_send_count s + of_nat (length (published [op]))"
      "ph_stream out (am_peer s1) = ph_stream out (am_peer s) @ wire (map (out_frame E) (numbered E (am_send_count s) (published [op])))" by blast
    from Cons.IH [of s1] obtain n s' where n: "n \<le> length ops" "peer_run E (take n ops) s1 = Some s'"
      "ph_stream out (am_peer s') = ph_stream out (am_peer s1) @ wire (map (out_frame E) (numbered E (am_send_count s1) (published (take n ops))))"
      "n = length ops \<or> \<not> peer_untroubled E out (ops ! n) s'" by blast
    have "numbered E (am_send_count s) (published (op # take n ops)) =
        numbered E (am_send_count s) (published [op]) @ numbered E (am_send_count s1) (published (take n ops))"
      unfolding published_Cons [of op "take n ops"] numbered_append s1(2) ..
    with n s1 show ?thesis by (intro exI [of _ "Suc n"] exI [of _ s']) auto
  next
    case False
    then show ?thesis by (intro exI [of _ 0] exI [of _ s]) simp
  qed
qed simp

end

section \<open>From model to model\<close>

text \<open>
  What both ends agree on: the bytes a header is encoded to, decoded again, give its fields back, except the ones that are
  local to a process; and both use the same checksum.
\<close>

definition local_ids :: "int \<Rightarrow> int \<Rightarrow> SamsonHeader \<Rightarrow> SamsonHeader" where
  "local_ids c h sh = sh\<lparr>h_connection_id := c, h_handle := h, h_encoded := False\<rparr>"

definition event_sent :: "int \<Rightarrow> int \<Rightarrow> bytes option \<times> EventHeaderObj \<Rightarrow> SamsonEvent" where
  "event_sent c h m = (case fst m of Some d \<Rightarrow> if d = [] then None else Some d | None \<Rightarrow> None, local_ids c h (eh_hdr (snd m)))"

text \<open>A header that can be sent: its magic is one that the encoding can carry, and it announces the length of the data.\<close>

definition header_right :: "bytes option \<times> EventHeaderObj \<Rightarrow> bool" where
  "header_right m \<longleftrightarrow> magic_ok (h_magic (eh_hdr (snd m))) \<and> uint (h_message_length (eh_hdr (snd m))) = int (length (case fst m of Some d \<Rightarrow> d | None \<Rightarrow> []))"

locale samson_codec =
  fixes A :: "('a, 'm, 'q, 'k) peer_env" and B :: "('b, 'n, 'r, 'j) peer_env" and t c0 h0 :: int and hsize :: nat
  assumes raw_size: "length (raw_header A eh) = hsize"
    and decoded: "magic_ok (h_magic (eh_hdr eh)) \<Longrightarrow>
      eh_hdr (framed_header (pn_rx (pe_net B)) t c0 h0 (raw_header A eh)) = local_ids c0 h0 (eh_hdr eh)"
    and announced: "evh_data_length (pn_rx (pe_net B)) x = uint (h_message_length (eh_hdr x))"
    and checksum: "pe_crc B = pe_crc A"
begin

lemma numbered_header_right: "\<forall>m \<in> set ms. header_right m \<Longrightarrow> m \<in> set (numbered A cnt ms) \<Longrightarrow> header_right m"
  by (induction ms arbitrary: cnt) (auto simp: header_right_def published_header_def)

lemma frame_of_sent: "header_right m \<Longrightarrow> is_frame (pn_rx (pe_net B)) t c0 h0 hsize (out_frame A m)"
  by (simp add: is_frame_def out_frame_def raw_size announced decoded local_ids_def header_right_def)

lemma event_of_sent: "header_right m \<Longrightarrow> frame_event_of (pn_rx (pe_net B)) t c0 h0 (out_frame A m) = event_sent c0 h0 m"
  by (simp add: frame_event_of_def out_frame_def event_sent_def decoded header_right_def split: option.split)

lemma crc_of_sent: "m \<in> set (numbered A cnt ms) \<Longrightarrow> crc_right B (event_sent c0 h0 m)"
  by (induction ms arbitrary: cnt)
    (auto simp: crc_right_def event_sent_def published_header_def local_ids_def checksum split: option.splits)

end

lemma published_take: "m \<in> set (published (take n ops)) \<Longrightarrow> m \<in> set (published ops)"
  by (induction ops arbitrary: n rule: published.induct) (auto simp: take_Cons split: nat.splits)

text \<open>
  C2. A message a model publishes reaches the model at the other end. One peer publishes a history of messages on a fresh
  connection, whatever part of each block its socket takes: all of it, or up to the first operation at which the queue has reached its high water
  mark, the reactor refuses a wakeup, or the socket reports an error or a failure after it took a part of the block (which the code does not learn). Once its
  queue is empty, another peer reads the bytes that went out,
  however the stream is cut. It returns from its upcalls with every message that was published verified (the checksum is right, so the simulation is
  not stopped) and handed to the handler registered for it exactly once or, if the model is not ready for data, queued; none is
  lost or doubled, and each has the fields and the data it was published with.
\<close>

theorem models_exchange_messages:
  assumes "peer_socket (pe_net A) out pendA" and "out (ph_sock (am_peer s)) = []" and "ph_queue (am_peer s) = []"
    and "samson_codec A B t c0 h0 hsize" and "\<forall>m \<in> set (published ops). header_right m"
    and "peer_reception B t pending hsize c0 h0 lt elements seen"
  shows "\<exists>n s'. n \<le> length ops \<and> peer_run A (take n ops) s = Some s' \<and>
    (n = length ops \<or> \<not> peer_untroubled A out (ops ! n) s') \<and> (ph_queue (am_peer s') = [] \<longrightarrow>
    (\<forall>r fuel sent. sent = map (event_sent c0 h0) (numbered A (am_send_count s) (published (take n ops))) \<and>
      pending (ph_sock (am_peer r)) = out (ph_sock (am_peer s')) \<and> length (pending (ph_sock (am_peer r))) \<le> fuel \<and>
      ph_rx (am_peer r) = rx_init \<and> am_app r \<and> am_registered r \<and> (\<forall>e \<in># elements (am_queue r). takes B e r) \<and>
      (\<forall>e \<in> set sent. plain_event e \<and> takes B e r) \<longrightarrow>
      (\<exists>r' evs. peer_pump B fuel r = Some r' \<and> seen (am_model r') = seen (am_model r) @ evs \<and>
        mset evs + elements (am_queue r') = elements (am_queue r) + mset sent \<and> am_loop r' = am_loop r)))"
proof -
  obtain n s' where n: "n \<le> length ops" "peer_run A (take n ops) s = Some s'" "n = length ops \<or> \<not> peer_untroubled A out (ops ! n) s'"
    and st: "ph_stream out (am_peer s') = wire (map (out_frame A) (numbered A (am_send_count s) (published (take n ops))))"
    using peer_socket.peer_run_stream [OF assms(1), of A ops s] assms(2,3) by (auto simp: ph_stream_def)
  let ?ms = "numbered A (am_send_count s) (published (take n ops))"
  have right: "\<forall>m \<in> set (published (take n ops)). header_right m" using assms(5) published_take by blast
  note codec = samson_codec.numbered_header_right [OF assms(4) right] samson_codec.frame_of_sent [OF assms(4)]
    samson_codec.event_of_sent [OF assms(4)] samson_codec.crc_of_sent [OF assms(4)]
  have "\<exists>r' evs. peer_pump B fuel r = Some r' \<and> seen (am_model r') = seen (am_model r) @ evs \<and>
        mset evs + elements (am_queue r') = elements (am_queue r) + mset (map (event_sent c0 h0) ?ms) \<and> am_loop r' = am_loop r"
    if "ph_queue (am_peer s') = []" "pending (ph_sock (am_peer r)) = out (ph_sock (am_peer s'))"
      "length (pending (ph_sock (am_peer r))) \<le> fuel" "ph_rx (am_peer r) = rx_init" "am_app r" "am_registered r"
      "\<forall>e \<in># elements (am_queue r). takes B e r" "\<forall>e \<in> set (map (event_sent c0 h0) ?ms). plain_event e \<and> takes B e r" for r fuel
  proof -
    let ?fs = "map (out_frame A) ?ms"
    note enough = that(3)
    have "peer_reception.listening B c0 h0 elements r"
      using that by (simp add: peer_reception.listening_def [OF assms(6)])
    moreover have "\<forall>m \<in> set ?fs. peer_reception.good B t hsize c0 h0 r m"
      using that(8) codec by (auto simp: peer_reception.good_def [OF assms(6)])
    moreover have "stream_socket.holds (pn_rx (pe_net B)) t hsize c0 h0 ?fs (ph_rx (am_peer r)) []"
      using that(4) stream_socket.holds_init [OF peer_reception.axioms(1) [OF assms(6)]] by simp
    moreover have "[] @ pending (ph_sock (am_peer r)) = wire ?fs" using st that(1,2) by (simp add: ph_stream_def)
    ultimately obtain r' where "peer_pump B fuel r = Some r'"
      "peer_reception.passed B t pending c0 h0 elements seen r ?fs r'"
      using peer_reception.pump_passes [OF assms(6)] enough by blast
    moreover have "map (frame_event_of (pn_rx (pe_net B)) t c0 h0) ?fs = map (event_sent c0 h0) ?ms" using codec(1,3) by simp
    ultimately show ?thesis unfolding peer_reception.passed_def [OF assms(6)] by metis
  qed
  with n show ?thesis by blast
qed

section \<open>An example environment\<close>

text \<open>
  The socket has the segments that arrived and the bytes that went out, and takes forty bytes at a time. The model keeps what
  it is given, and is ready for data once it has been given something. Events with a lower frame number come first.
\<close>

type_synonym peer_sock = "bytes list \<times> bytes"
type_synonym example_peer_state = "(SamsonEvent list, (int, nat) smap, SamsonEvent list, peer_sock) Peer"

definition peer_rx :: "peer_sock rx_env" where
  "peer_rx = \<lparr>sock_recv = (\<lambda>(cs, o1) n. let (r, cs') = chunk_recv cs n in (r, (cs', o1))),
     sock_readable = (\<lambda>(cs, o1). list_ex (\<lambda>c. c \<noteq> []) cs), evh_get = evh_get samson_env, evh_length = evh_length samson_env,
     evh_decode = evh_decode samson_env, evh_data_length = evh_data_length samson_env,
     evh_set_data_length = evh_set_data_length samson_env, mb_alloc = mb_alloc samson_env\<rparr>"

definition new_samson :: EventHeaderObj where
  "new_samson = \<lparr>eh_raw = replicate samson_header_length 0, eh_hdr = blank_header\<rparr>"

definition example_peer_net :: "peer_sock peer_net" where
  "example_peer_net = \<lparr>pn_rx = peer_rx, pn_new_header = new_samson,
     pn_send_n = (\<lambda>(cs, o1) bs. if bs = [] then (0, EWOULDBLOCK, (cs, o1)) else (int (min 40 (length bs)), NO_ERROR, (cs, o1 @ take 40 bs))),
     pn_queue_full = (\<lambda>q. length q > 100), pn_wakeup_ok = True, pn_register_ok = True, pn_svc_open_ok = True, pn_nonblock_ok = (\<lambda>k. True)\<rparr>"

definition event_key :: "SamsonEvent \<Rightarrow> nat" where
  "event_key ev = unat (h_frame_count (snd ev))"

definition first_event :: "SamsonEvent list \<Rightarrow> SamsonEvent" where
  "first_event q = (if q = [] then (None, blank_header) else arg_min_list event_key q)"

definition example_peer_env :: "(SamsonEvent list, (int, nat) smap, SamsonEvent list, peer_sock) peer_env" where
  "example_peer_env = \<lparr>pe_net = example_peer_net, pe_encode = (\<lambda>eh. eh\<lparr>eh_raw := encode_header (eh_hdr eh)\<rparr>),
     pe_crc = (\<lambda>d. of_nat (length d)), pe_report = (\<lambda>h. []),
     mm_find = smap_find, mm_bind = (\<lambda>i v m. let (m', new) = smap_insert i v m in (if new then 0 else 1, m')), mm_unbind_all = (\<lambda>m. []),
     pq_empty = (\<lambda>q. q = []), pq_push = (\<lambda>e q. q @ [e]), pq_top = first_event, pq_pop = (\<lambda>q. remove1 (first_event q) q),
     msg_handle_event = (\<lambda>m mb sh s. s\<lparr>am_model := am_model s @ [(mb, sh)]\<rparr>), app_data_ready = (\<lambda>s. am_model s \<noteq> []),
     app_closeSimulation = (\<lambda>s. s\<lparr>am_loop := False\<rparr>), app_helloResponse = (\<lambda>s. s), app_requestJobStatus = (\<lambda>s. s),
     app_stopSimulation = (\<lambda>s. s\<lparr>am_loop := False\<rparr>), app_info = (\<lambda>s. ''model''), app_init = (\<lambda>a s. (0, s)), app_fini = (\<lambda>s. s),
     svc_process = (\<lambda>d s. s), svc_find = (\<lambda>n s. 0), svc_instance = (\<lambda>n s. True), obj_extendedStatus = (\<lambda>t a. t),
     obj_RunID = (\<lambda>a. 5), obj_ModelID = (\<lambda>a. 9), obj_UnitID = (\<lambda>a. 1), obj_AppLib = (\<lambda>a. ''lib''), opt_embedded = False\<rparr>"

definition example_peer_state :: example_peer_state where
  "example_peer_state = \<lparr>am_active = True, am_app = True, am_registered = True, am_map = [(0, 4), (3, 6)], am_queue = [],
     am_send_cb = [], am_recv_cb = [], am_send_count = 0, am_peer = Peer_Handler_new ([], []), am_loop = True, am_model = []\<rparr>"

lemmas peer_example_defs = example_peer_env_def example_peer_net_def peer_rx_def samson_env_def new_samson_def

interpretation example_map: map_manager "mm_find example_peer_env" "mm_bind example_peer_env" "mm_unbind_all example_peer_env"
  by unfold_locales (auto simp: peer_example_defs smap_insert_def smap_find_set Let_def split: option.splits)

interpretation example_events: event_queue "pq_empty example_peer_env" "pq_push example_peer_env" "pq_top example_peer_env"
    "pq_pop example_peer_env" "\<lambda>a b. event_key b < event_key a" mset
proof unfold_locales
  fix q e
  show "mset q \<noteq> {#} \<Longrightarrow> pq_top example_peer_env q \<in># mset q"
    by (simp add: peer_example_defs first_event_def arg_min_list_in)
  show "e \<in># mset q \<Longrightarrow> \<not> event_key e < event_key (pq_top example_peer_env q)"
    using f_arg_min_list_f [of q event_key] by (auto simp: peer_example_defs first_event_def not_less)
qed (simp_all add: peer_example_defs)

interpretation example_flow: peer_socket "pe_net example_peer_env" snd "\<lambda>k. concat (fst k)"
  by unfold_locales (auto simp: peer_example_defs min_def intro: exI [of _ 0] split: if_splits)

lemma decode_hidden: "decode_header bs = Some h \<Longrightarrow> h_connection_id h = 0 \<and> h_handle h = 0"
  by (auto simp: decode_header_def blank_header_def split: if_splits)

interpretation example_peer: samson_peer "pe_net example_peer_env" t 0 0
  by unfold_locales (auto simp: peer_example_defs hidden_ids_def blank_header_def set_encoded_def dest: decode_hidden split: option.split)

interpretation example_stream: stream_socket "pn_rx (pe_net example_peer_env)" t "\<lambda>k. concat (fst k)" samson_header_length
proof unfold_locales
  fix k :: peer_sock and n :: nat
  obtain cs o1 where k: "k = (cs, o1)" by (cases k)
  show "sock_readable (pn_rx (pe_net example_peer_env)) k \<longleftrightarrow> concat (fst k) \<noteq> []"
    by (auto simp: peer_example_defs k list_ex_iff)
  show "\<exists>bs k'. sock_recv (pn_rx (pe_net example_peer_env)) k n = (Rx bs, k') \<and> bs \<noteq> [] \<and> length bs \<le> n \<and>
      concat (fst k) = bs @ concat (fst k')" if "concat (fst k) \<noteq> []" "0 < n"
    using chunk_recv_some [of cs n] that by (auto simp: peer_example_defs k)
  show "\<exists>k'. sock_recv (pn_rx (pe_net example_peer_env)) k n = (RxFail EWOULDBLOCK, k') \<and> concat (fst k') = []"
    if "concat (fst k) = []"
    using chunk_recv_none [of cs n] that by (auto simp: peer_example_defs k)
qed (simp_all add: peer_example_defs samson_header_length_def)

interpretation example_model: model_contract example_peer_env "\<lambda>a b. event_key b < event_key a" mset "\<lambda>k. concat (fst k)" id
  by unfold_locales (simp_all add: peer_example_defs same_reception_def)

interpretation example_reception: peer_reception example_peer_env t "\<lambda>k. concat (fst k)" samson_header_length 0 0
    "\<lambda>a b. event_key b < event_key a" mset id
  by unfold_locales

interpretation example_codec: samson_codec example_peer_env example_peer_env t 0 0 samson_header_length
proof unfold_locales
  fix eh :: EventHeaderObj
  have raw: "raw_header example_peer_env eh = encode_header (eh_hdr eh)"
    by (simp add: raw_header_def peer_example_defs)
  show "length (raw_header example_peer_env eh) = samson_header_length" by (simp add: raw)
  show "eh_hdr (framed_header (pn_rx (pe_net example_peer_env)) t 0 0 (raw_header example_peer_env eh)) = local_ids 0 0 (eh_hdr eh)"
    if "magic_ok (h_magic (eh_hdr eh))"
    using that decode_encode_header [of "eh_hdr eh" "[]"] unfolding raw
    by (simp add: framed_header_def peer_example_defs local_ids_def fill_hidden_def set_encoded_def)
qed (simp_all add: peer_example_defs)

definition example_data :: EventHeaderObj where
  "example_data = new_samson\<lparr>eh_hdr := blank_header\<lparr>h_type := type_code DATA, h_app_msg_id := 3, h_message_length := 2\<rparr>\<rparr>"

lemma example_published:
  "\<exists>s'. peer_run example_peer_env [Publish (Some [1, 2]) example_data, PeerWritable] example_peer_state = Some s' \<and>
    ph_queue (am_peer s') = []"
  by (simp add: am_publish_def ph_transmit_def ph_put_def ph_nonblk_put_def ph_send_def ph_handle_output_def ph_consolidate_def
      example_peer_state_def Peer_Handler_new_def peer_example_defs samson_header_length_def Let_def)

lemma example_goes_through: "length q \<le> 100 \<Longrightarrow> ph_goes_through (pe_net example_peer_env) snd k bs q"
  by (cases k) (auto simp: ph_goes_through_def peer_example_defs)

lemma example_published_one:
  "\<exists>s'. peer_run example_peer_env [Publish (Some [1, 2]) example_data] example_peer_state = Some s' \<and> length (ph_queue (am_peer s')) = 1"
  by (simp add: am_publish_def ph_transmit_def ph_put_def ph_nonblk_put_def ph_send_def ph_consolidate_def
      example_peer_state_def Peer_Handler_new_def peer_example_defs samson_header_length_def Let_def)

theorem models_exchange_messages_witness:
  "\<exists>s' r' evs. peer_run example_peer_env [Publish (Some [1, 2]) example_data, PeerWritable] example_peer_state = Some s' \<and>
    peer_pump example_peer_env (length (snd (ph_sock (am_peer s'))))
      (example_peer_state\<lparr>am_peer := Peer_Handler_new ([take 20 (snd (ph_sock (am_peer s'))), drop 20 (snd (ph_sock (am_peer s')))], [])\<rparr>) = Some r' \<and>
    am_model r' = evs \<and> mset evs + mset (am_queue r') = {#event_sent 0 0 (Some [1, 2], published_header example_peer_env 0 (Some [1, 2]) example_data)#}"
proof -
  let ?ops = "[Publish (Some [1, 2]) example_data, PeerWritable]"
  let ?e = "event_sent 0 0 (Some [1, 2], published_header example_peer_env 0 (Some [1, 2]) example_data)"
  obtain s' where s': "peer_run example_peer_env ?ops example_peer_state = Some s'" "ph_queue (am_peer s') = []"
    using example_published by blast
  let ?o = "snd (ph_sock (am_peer s'))"
  let ?r = "example_peer_state\<lparr>am_peer := Peer_Handler_new ([take 20 ?o, drop 20 ?o], [])\<rparr>"
  have start: "snd (ph_sock (am_peer example_peer_state)) = []" "ph_queue (am_peer example_peer_state) = []"
    "\<forall>m \<in> set (published ?ops). header_right m"
    by (simp_all add: example_peer_state_def Peer_Handler_new_def header_right_def example_data_def)
  have ev: "map (event_sent 0 0) (numbered example_peer_env (am_send_count example_peer_state) (published ?ops)) = [?e]"
    "plain_event ?e" "takes example_peer_env ?e ?r" "\<forall>e \<in># mset (am_queue ?r). takes example_peer_env e ?r"
    by (simp_all add: example_peer_state_def event_sent_def published_header_def example_data_def local_ids_def plain_event_def
        has_type_def takes_def peer_example_defs)
  obtain n s2 where n: "n \<le> length ?ops" "peer_run example_peer_env (take n ?ops) example_peer_state = Some s2"
    "n = length ?ops \<or> \<not> peer_untroubled example_peer_env snd (?ops ! n) s2"
    and rx: "ph_queue (am_peer s2) = [] \<longrightarrow> (\<forall>r fuel sent.
      sent = map (event_sent 0 0) (numbered example_peer_env (am_send_count example_peer_state) (published (take n ?ops))) \<and>
      concat (fst (ph_sock (am_peer r))) = snd (ph_sock (am_peer s2)) \<and>
      length (concat (fst (ph_sock (am_peer r)))) \<le> fuel \<and> ph_rx (am_peer r) = rx_init \<and> am_app r \<and> am_registered r \<and>
      (\<forall>e \<in># mset (am_queue r). takes example_peer_env e r) \<and> (\<forall>e \<in> set sent. plain_event e \<and> takes example_peer_env e r) \<longrightarrow>
      (\<exists>r' evs. peer_pump example_peer_env fuel r = Some r' \<and> id (am_model r') = id (am_model r) @ evs \<and>
        mset evs + mset (am_queue r') = mset (am_queue r) + mset sent \<and> am_loop r' = am_loop r))"
    using models_exchange_messages [OF example_flow.peer_socket_axioms start(1,2) example_codec.samson_codec_axioms start(3)
        example_reception.peer_reception_axioms] by blast
  have "n = 2"
  proof (rule ccontr)
    assume "n \<noteq> 2"
    then consider "n = 0" | "n = 1" using n(1) by fastforce
    then show False
    proof cases
      case 1
      with n start(2) example_goes_through show ?thesis by (simp add: ph_accepts_def Let_def)
    next
      case 2
      with n example_published_one have "length (ph_queue (am_peer s2)) = 1" by auto
      with 2 n example_goes_through show ?thesis by (cases "ph_queue (am_peer s2)") simp_all
    qed
  qed
  then have all: "take n ?ops = ?ops" by simp
  note s2 = n(2) [unfolded all] rx [unfolded all ev(1)]
  have "s2 = s'" using s2(1) s'(1) by simp
  moreover have "concat (fst (ph_sock (am_peer ?r))) = ?o" "ph_rx (am_peer ?r) = rx_init" "am_app ?r" "am_registered ?r"
    by (simp_all add: Peer_Handler_new_def example_peer_state_def)
  ultimately obtain r' evs where "peer_pump example_peer_env (length ?o) ?r = Some r'" "id (am_model r') = id (am_model ?r) @ evs"
    "mset evs + mset (am_queue r') = mset (am_queue ?r) + mset [?e]"
    using s2(2) s'(2) ev(2-4) by (metis (no_types, lifting) empty_iff insert_iff le_refl list.set(1) list.set(2))
  then show ?thesis using s'(1) by (auto simp: example_peer_state_def)
qed

section \<open>Events in the order of their arrival\<close>

text \<open>
  C23. A model gets every event that is for it. Let a model with registered handlers receive any sequence of events, other
  than the three the library answers itself. Handling them ends, every event is handed to its handler exactly once or waits in
  the queue, and nothing waits any more when the model is ready for data.
\<close>

theorem events_handed_over:
  assumes "model_contract E lt elements pending seen"
    and "\<forall>ev \<in> set es. takes E ev s \<and> plain_event ev" and "\<forall>ev \<in># elements (am_queue s). takes E ev s"
    and "am_app s" and "es \<noteq> []"
  shows "\<exists>s' evs. event_run E es s = Some s' \<and> seen (am_model s') = seen (am_model s) @ evs \<and>
    mset evs + elements (am_queue s') = elements (am_queue s) + mset es \<and>
    (elements (am_queue s') = {#} \<or> \<not> app_data_ready E s')"
  using model_contract.event_run_accounted [OF assms] unfolding model_contract.accounted_def [OF assms(1)] by blast

theorem events_handed_over_witness:
  "\<exists>s' evs. event_run example_peer_env [(Some [1], blank_header\<lparr>h_type := type_code DATA, h_app_msg_id := 3\<rparr>),
      (None, blank_header\<lparr>h_type := type_code START_FRAME\<rparr>)] example_peer_state = Some s' \<and>
    am_model s' = evs \<and> size (mset evs + mset (am_queue s')) = 2 \<and> (am_queue s' = [] \<or> evs = [])"
proof -
  let ?es = "[(Some [1], blank_header\<lparr>h_type := type_code DATA, h_app_msg_id := 3\<rparr>),
      (None, blank_header\<lparr>h_type := type_code START_FRAME\<rparr>)] :: SamsonEvent list"
  have "\<forall>ev \<in> set ?es. takes example_peer_env ev example_peer_state \<and> plain_event ev"
    by (simp add: takes_def plain_event_def has_type_def peer_example_defs example_peer_state_def blank_header_def)
  moreover have "\<forall>ev \<in># mset (am_queue example_peer_state). takes example_peer_env ev example_peer_state" "am_app example_peer_state"
    by (simp_all add: example_peer_state_def)
  ultimately obtain s' evs where r: "event_run example_peer_env ?es example_peer_state = Some s'"
    "id (am_model s') = id (am_model example_peer_state) @ evs" "mset evs + mset (am_queue s') = mset (am_queue example_peer_state) + mset ?es"
    "mset (am_queue s') = {#} \<or> \<not> app_data_ready example_peer_env s'"
    using events_handed_over [OF example_model.model_contract_axioms, of ?es example_peer_state] by blast
  then show ?thesis
    by (intro exI [of _ s'] exI [of _ evs]) (simp add: example_peer_state_def peer_example_defs)
qed

section \<open>Where the library does not do what it means to\<close>

text \<open>
  A connection that fails loses messages without anybody noticing. When the socket reports an error other than
  \<open>EWOULDBLOCK\<close>, \<open>transmit\<close> returns 0, as if the message had been queued, but it is neither sent nor queued; and when a queued
  message meets the error, the assertion in \<open>handle_output\<close> fails.
\<close>

lemma send_error_loses_message:
  assumes "pn_send_n N (ph_sock p) (concat chain) = (n, e, k)" and "n \<le> 0" and "e \<noteq> EWOULDBLOCK"
    and "chain \<noteq> []" and "ph_queue p = []"
  shows "ph_transmit N chain p = Some (0, p\<lparr>ph_sock := k\<rparr>) \<and> ph_handle_output N (p\<lparr>ph_queue := [concat chain]\<rparr>) = None"
proof -
  obtain b bs where chain: "chain = b # bs" using assms(4) by (cases chain) auto
  have nb: "ph_nonblk_put N (concat chain) p = Some (0, e, Loose, p\<lparr>ph_sock := k\<rparr>)"
    using assms(1-3) by (simp add: ph_nonblk_put_def ph_send_def)
  have "ph_transmit N chain p = Some (0, p\<lparr>ph_sock := k\<rparr>)"
    using nb assms(5) by (cases bs) (simp_all add: ph_transmit_def chain ph_put_def ph_consolidate_def Let_def)
  moreover have "p\<lparr>ph_queue := []\<rparr> = p" using assms(5) by (cases p) simp
  ultimately show ?thesis using nb assms(3) by (simp add: ph_handle_output_def)
qed

lemma send_error_loses_message_witness:
  "ph_transmit (example_peer_net\<lparr>pn_send_n := \<lambda>k bs. (-1, OTHER_ERROR, k)\<rparr>) [[7], [8, 9]] (Peer_Handler_new ([], [])) =
     Some (0, Peer_Handler_new ([], []))"
  using send_error_loses_message [of "example_peer_net\<lparr>pn_send_n := \<lambda>k bs. (-1, OTHER_ERROR, k)\<rparr>" "Peer_Handler_new ([], [])"
      "[[7], [8, 9]]" "-1" OTHER_ERROR "([], [])"]
  by (simp add: Peer_Handler_new_def)

text \<open>
  \<open>unregisterProcess\<close> does not unregister. A message that has a handler keeps it, and its events are handed over as
  before; one that has none gets a null handler, so that the next event for it is undefined.
\<close>

lemma unregister_keeps_handler:
  assumes "map_manager (mm_find E) (mm_bind E) (mm_unbind_all E)" and "i = uint (h_app_msg_id (snd ev))"
  shows "case mm_find E i (am_map s) of
      Some m \<Rightarrow> unregisterProcess E i s = (1, s)
    | None \<Rightarrow> handoff_event E ev s = Some s \<and> handoff_event E ev (snd (unregisterProcess E i s)) = None"
proof (cases "mm_find E i (am_map s)")
  case None
  with map_manager.bind_new [OF assms(1) None, of 0] assms(2) show ?thesis
    by (simp add: unregisterProcess_def handoff_event_def case_prod_beta)
next
  case (Some m)
  with map_manager.bind_old [OF assms(1) Some, of 0] show ?thesis by (simp add: unregisterProcess_def)
qed

lemma unregister_keeps_handler_witness:
  "unregisterProcess example_peer_env 3 example_peer_state = (1, example_peer_state) \<and>
   handoff_event example_peer_env (None, blank_header\<lparr>h_app_msg_id := 8\<rparr>)
     (snd (unregisterProcess example_peer_env 8 example_peer_state)) = None"
  using unregister_keeps_handler [OF example_map.map_manager_axioms, of 3 "(None, blank_header\<lparr>h_app_msg_id := 3\<rparr>)" example_peer_state]
    unregister_keeps_handler [OF example_map.map_manager_axioms, of 8 "(None, blank_header\<lparr>h_app_msg_id := 8\<rparr>)" example_peer_state]
  by (simp add: peer_example_defs example_peer_state_def)

lemma cut_status_flags:
  "(ucast (ucast (f :: u32) :: u16) :: u32) AND 0x00200000 = 0" "(ucast (ucast (f :: u32) :: u16) :: u32) AND 0x00400000 = 0"
proof -
  have "(ucast (ucast f :: u16) :: u32) AND push_bit n 1 = 0" if "16 \<le> n" for n
    using that by (intro bit_word_eqI) (auto simp: bit_simps)
  from this [of 21] this [of 22] show "(ucast (ucast (f :: u32) :: u16) :: u32) AND 0x00200000 = 0"
    "(ucast (ucast (f :: u32) :: u16) :: u32) AND 0x00400000 = 0" by simp_all
qed

text \<open>
  A status request is never answered. The flags of the request are cut to sixteen bits, and the bits that ask for the
  answer are above them: whatever the flags are, the model only notes that the request came in.
\<close>

lemma status_request_unanswered:
  assumes "has_type (snd ev) STATUS_REQUEST" and "am_app s"
  shows "am_handle_event E ev s = Some (s\<lparr>am_recv_cb := push_history (snd ev) (am_recv_cb s)\<rparr>)"
  using assms by (simp add: am_handle_event_def status_request_def cut_status_flags has_type_def Let_def)

lemma status_request_unanswered_witness:
  "am_handle_event example_peer_env (None, blank_header\<lparr>h_type := type_code STATUS_REQUEST, h_flags := 0x00600000\<rparr>) example_peer_state =
     Some (example_peer_state\<lparr>am_recv_cb := [blank_header\<lparr>h_type := type_code STATUS_REQUEST, h_flags := 0x00600000\<rparr>]\<rparr>)"
  using status_request_unanswered [of "(None, blank_header\<lparr>h_type := type_code STATUS_REQUEST, h_flags := 0x00600000\<rparr>)"
      example_peer_state example_peer_env]
  by (simp add: has_type_def example_peer_state_def push_history_def)

end
