(* ===== verification/SimKernel.thy ===== *)
theory SimKernel
  imports Prelude Complex_Main
begin

text \<open>
  The object-oriented simulation kernel under the CMD models (\<open>src/Models/CMD/osk\<close>). \<open>State\<close> holds the clock of the
  simulation in its static members and, per object, one integrated variable; \<open>Block\<close> is a component of a simulation, whose
  \<open>init\<close>, \<open>update\<close> and \<open>rpt\<close> are virtual; \<open>Sim::run\<close> runs the stages of a simulation, each a vector of blocks, until a block
  sets \<open>Sim::stop\<close> or the time \<open>tmax\<close> is reached. A step of the clock is made in passes: every pass calls \<open>update\<close> of every
  block, which computes the derivatives, and then lets every integrator move its variable.

  \<^item> A \<open>double\<close> is read as a real number: rounding is not modelled.
  \<^item> The \<open>double\<close> variables that \<open>State\<close> points to are cells of a memory, named by the object they are members of and the
    member's name, so that two integrators may share a cell.
  \<^item> The virtual functions are a parameter, the record \<open>block_ops\<close>; what the kernel relies on is the locale \<open>block_contract\<close>.
  \<^item> \<open>while (true)\<close> is a \<open>partial_function\<close>: \<open>None\<close> is a stage that never ends.
\<close>

named_theorems kernel_defs \<open>the operations of the clock and of the integrators\<close>

section \<open>The clock\<close>

record clock =
  st_dt :: real
  st_dtp :: real
  st_t :: real
  st_t1 :: real
  st_kpass :: nat
  st_ready :: bool
  st_tickfirst :: int
  st_ticklast :: int

definition EVENT :: real where
  "EVENT = -1"

definition EPS :: real where
  "EPS = 1 / 100000000"

definition State_set :: "clock \<Rightarrow> clock" where
  "State_set c = c\<lparr>st_kpass := 0, st_ready := True, st_t := 0, st_ticklast := 0\<rparr>"

definition State_reset :: "real \<Rightarrow> clock \<Rightarrow> clock" where
  "State_reset dtp c = c\<lparr>st_dtp := dtp, st_dt := dtp, st_t1 := st_t c + dtp\<rparr>"

text \<open>The end of the sample or step that the time \<open>t\<close> lies in.\<close>

definition next_multiple :: "real \<Rightarrow> real \<Rightarrow> real" where
  "next_multiple t d = of_int \<lfloor>(t + EPS) / d + 1\<rfloor> * d"

definition State_sample :: "real \<Rightarrow> real \<Rightarrow> clock \<Rightarrow> int \<times> clock" where
  "State_sample sdt t_event c =
     (if \<not> st_ready c then (0, c)
      else if sdt < 0 then
        let c1 = (if t_event < st_t1 c - EPS \<and> t_event \<ge> st_t c + EPS then c\<lparr>st_t1 := t_event\<rparr> else c);
            c2 = c1\<lparr>st_dt := st_t1 c1 - st_t c1\<rparr>
        in (if \<bar>t_event - st_t c2\<bar> < EPS then 1 else 0, c2)
      else
        let ts = next_multiple (st_t c) sdt;
            c1 = (if ts < st_t1 c - EPS then c\<lparr>st_t1 := ts\<rparr> else c);
            c2 = c1\<lparr>st_dt := st_t1 c1 - st_t c1\<rparr>
        in (if st_t c2 - ts + sdt < EPS then 1 else 0, c2))"

definition State_sample0 :: "clock \<Rightarrow> int" where
  "State_sample0 c = (if \<not> st_ready c then 0 else 1)"

section \<open>Integrators\<close>

text \<open>The classes of integrators: the base class (Runge-Kutta, fourth order), Euler, midpoint and Merson.\<close>

datatype integrator = State_rk4 | State_euler | State_rk2 | State_mm

type_synonym cell = "nat \<times> string"
type_synonym memory = "cell \<Rightarrow> real"

record state_obj =
  so_class :: integrator
  so_x :: cell
  so_xd :: cell
  so_x0 :: real
  so_xd0 :: real
  so_xd1 :: real
  so_xd2 :: real
  so_xd3 :: real
  so_k1 :: real
  so_k2 :: real
  so_k3 :: real
  so_k4 :: real
  so_k5 :: real

text \<open>The members but the two pointers start with what the memory of the object held.\<close>

definition State_new :: "integrator \<Rightarrow> real \<Rightarrow> cell \<Rightarrow> cell \<Rightarrow> state_obj" where
  "State_new cls junk x xd = \<lparr>so_class = cls, so_x = x, so_xd = xd, so_x0 = junk, so_xd0 = junk, so_xd1 = junk, so_xd2 = junk,
     so_xd3 = junk, so_k1 = junk, so_k2 = junk, so_k3 = junk, so_k4 = junk, so_k5 = junk\<rparr>"

definition State_propagate :: "clock \<Rightarrow> state_obj \<Rightarrow> memory \<Rightarrow> state_obj \<times> memory" where
  "State_propagate c s m =
     (if st_kpass c = 0 then
        let s1 = s\<lparr>so_x0 := m (so_x s), so_xd0 := m (so_xd s)\<rparr>
        in (s1, m(so_x s := so_x0 s1 + st_dt c / 2 * so_xd0 s1))
      else if st_kpass c = 1 then
        let s1 = s\<lparr>so_xd1 := m (so_xd s)\<rparr>
        in (s1, m(so_x s := so_x0 s1 + st_dt c / 2 * so_xd1 s1))
      else if st_kpass c = 2 then
        let s1 = s\<lparr>so_xd2 := m (so_xd s)\<rparr>
        in (s1, m(so_x s := so_x0 s1 + st_dt c * so_xd2 s1))
      else if st_kpass c = 3 then
        let s1 = s\<lparr>so_xd3 := m (so_xd s)\<rparr>
        in (s1, m(so_x s := so_x0 s1 + st_dt c / 6 * (so_xd0 s1 + 2 * so_xd1 s1 + 2 * so_xd2 s1 + so_xd3 s1)))
      else (s, m))"

definition State_updateclock :: "clock \<Rightarrow> clock" where
  "State_updateclock c =
     (let c1 = (if st_kpass c = 0 then c\<lparr>st_t := st_t c + st_dt c / 2\<rparr> else c);
          c2 = (if st_kpass c1 = 2 then c1\<lparr>st_t := st_t1 c1\<rparr> else c1);
          c3 = c2\<lparr>st_kpass := (st_kpass c2 + 1) mod 4\<rparr>
      in if st_kpass c3 = 0 then c3\<lparr>st_ready := True, st_t1 := next_multiple (st_t c3) (st_dtp c3)\<rparr>
         else c3\<lparr>st_ready := False\<rparr>)"

definition State_euler_propagate :: "clock \<Rightarrow> state_obj \<Rightarrow> memory \<Rightarrow> state_obj \<times> memory" where
  "State_euler_propagate c s m =
     (let s1 = s\<lparr>so_x0 := m (so_x s)\<rparr> in (s1, m(so_x s := so_x0 s1 + st_dt c * m (so_xd s))))"

definition State_euler_updateclock :: "clock \<Rightarrow> clock" where
  "State_euler_updateclock c =
     (let c1 = c\<lparr>st_t := st_t1 c\<rparr> in c1\<lparr>st_t1 := next_multiple (st_t c1) (st_dtp c1), st_ready := True\<rparr>)"

definition State_rk2_propagate :: "clock \<Rightarrow> state_obj \<Rightarrow> memory \<Rightarrow> state_obj \<times> memory" where
  "State_rk2_propagate c s m =
     (if st_kpass c = 0 then
        let s1 = s\<lparr>so_x0 := m (so_x s), so_xd0 := m (so_xd s)\<rparr>
        in (s1, m(so_x s := so_x0 s1 + st_dt c / 2 * so_xd0 s1))
      else if st_kpass c = 1 then
        let s1 = s\<lparr>so_xd1 := m (so_xd s)\<rparr>
        in (s1, m(so_x s := so_x0 s1 + st_dt c * so_xd1 s1))
      else (s, m))"

definition State_rk2_updateclock :: "clock \<Rightarrow> clock" where
  "State_rk2_updateclock c =
     (let c1 = (if st_kpass c = 0 then c\<lparr>st_t := st_t c + st_dt c / 2\<rparr> else c);
          c2 = (if st_kpass c1 = 1 then c1\<lparr>st_t := st_t1 c1\<rparr> else c1);
          c3 = c2\<lparr>st_kpass := (st_kpass c2 + 1) mod 2\<rparr>
      in if st_kpass c3 = 0 then c3\<lparr>st_ready := True, st_t1 := next_multiple (st_t c3) (st_dtp c3)\<rparr>
         else c3\<lparr>st_ready := False\<rparr>)"

definition State_mm_propagate :: "clock \<Rightarrow> state_obj \<Rightarrow> memory \<Rightarrow> state_obj \<times> memory" where
  "State_mm_propagate c s m =
     (if st_kpass c = 0 then
        let s1 = s\<lparr>so_x0 := m (so_x s), so_k1 := st_dt c * m (so_xd s)\<rparr>
        in (s1, m(so_x s := so_x0 s1 + 1 / 3 * so_k1 s1))
      else if st_kpass c = 1 then
        let s1 = s\<lparr>so_k2 := st_dt c * m (so_xd s)\<rparr>
        in (s1, m(so_x s := so_x0 s1 + 1 / 6 * so_k1 s1 + 1 / 6 * so_k2 s1))
      else if st_kpass c = 2 then
        let s1 = s\<lparr>so_k3 := st_dt c * m (so_xd s)\<rparr>
        in (s1, m(so_x s := so_x0 s1 + 1 / 8 * so_k1 s1 + 3 / 8 * so_k3 s1))
      else if st_kpass c = 3 then
        let s1 = s\<lparr>so_k4 := st_dt c * m (so_xd s)\<rparr>
        in (s1, m(so_x s := so_x0 s1 + 1 / 2 * so_k1 s1 - 3 / 2 * so_k3 s1 + 2 * so_k4 s1))
      else if st_kpass c = 4 then
        let s1 = s\<lparr>so_k5 := st_dt c * m (so_xd s)\<rparr>
        in (s1, m(so_x s := so_x0 s1 + 1 / 6 * (so_k1 s1 + 4 * so_k4 s1 + so_k5 s1)))
      else (s, m))"

definition State_mm_updateclock :: "clock \<Rightarrow> clock" where
  "State_mm_updateclock c =
     (let c1 = (if st_kpass c = 0 then c\<lparr>st_t := st_t c + st_dt c / 3\<rparr> else c);
          c2 = (if st_kpass c1 = 2 then c1\<lparr>st_t := st_t c1 + 1 / 6 * st_dt c1\<rparr> else c1);
          c3 = (if st_kpass c2 = 3 then c2\<lparr>st_t := st_t1 c2\<rparr> else c2);
          c4 = c3\<lparr>st_kpass := (st_kpass c3 + 1) mod 5\<rparr>
      in if st_kpass c4 = 0 then c4\<lparr>st_ready := True, st_t1 := next_multiple (st_t c4) (st_dtp c4)\<rparr>
         else c4\<lparr>st_ready := False\<rparr>)"

text \<open>The virtual functions \<open>propagate\<close>, \<open>updateclock\<close> and \<open>factory\<close>.\<close>

definition propagate :: "clock \<Rightarrow> state_obj \<Rightarrow> memory \<Rightarrow> state_obj \<times> memory" where
  "propagate c s = (case so_class s of State_rk4 \<Rightarrow> State_propagate c s | State_euler \<Rightarrow> State_euler_propagate c s
     | State_rk2 \<Rightarrow> State_rk2_propagate c s | State_mm \<Rightarrow> State_mm_propagate c s)"

definition updateclock :: "integrator \<Rightarrow> clock \<Rightarrow> clock" where
  "updateclock cls = (case cls of State_rk4 \<Rightarrow> State_updateclock | State_euler \<Rightarrow> State_euler_updateclock
     | State_rk2 \<Rightarrow> State_rk2_updateclock | State_mm \<Rightarrow> State_mm_updateclock)"

definition factory :: "integrator \<Rightarrow> real \<Rightarrow> cell \<Rightarrow> cell \<Rightarrow> state_obj" where
  "factory cls junk x xd = (case cls of State_rk4 \<Rightarrow> State_new State_rk4 junk x xd | State_euler \<Rightarrow> State_new State_euler junk x xd
     | State_rk2 \<Rightarrow> State_new State_rk2 junk x xd | State_mm \<Rightarrow> State_new State_mm junk x xd)"

section \<open>Blocks\<close>

text \<open>The memory and the static members of a simulation; the members of blocks other than \<open>double\<close> variables are \<open>w_user\<close>.\<close>

record 'u world =
  w_clk :: clock
  w_mem :: memory
  w_integrator :: integrator
  w_vState :: "nat \<Rightarrow> state_obj list"
  w_initCount :: "nat \<Rightarrow> int"
  w_stop :: int
  w_stop0 :: int
  w_user :: 'u

record 'u block_ops =
  init_op :: "nat \<Rightarrow> 'u world \<Rightarrow> 'u world"
  update_op :: "nat \<Rightarrow> 'u world \<Rightarrow> 'u world"
  rpt_op :: "nat \<Rightarrow> 'u world \<Rightarrow> 'u world"

text \<open>\<open>None\<close> is the call of \<open>exit(1)\<close> when the class of the integrator has no \<open>factory\<close> of its own.\<close>

definition addIntegrator :: "real \<Rightarrow> nat \<Rightarrow> cell \<Rightarrow> cell \<Rightarrow> 'u world \<Rightarrow> 'u world option" where
  "addIntegrator junk b x xd w =
     (let s = factory (w_integrator w) junk x xd
      in if w_integrator w \<noteq> so_class s then None
         else Some (w\<lparr>w_vState := (w_vState w)(b := w_vState w b @ [s])\<rparr>))"

fun propagate_list :: "clock \<Rightarrow> state_obj list \<Rightarrow> memory \<Rightarrow> state_obj list \<times> memory" where
  "propagate_list c [] m = ([], m)"
| "propagate_list c (s # ss) m =
     (let (s1, m1) = propagate c s m; (ss1, m2) = propagate_list c ss m1 in (s1 # ss1, m2))"

definition propagateStates :: "nat \<Rightarrow> 'u world \<Rightarrow> 'u world" where
  "propagateStates b w =
     (let (ss, m) = propagate_list (w_clk w) (w_vState w b) (w_mem w)
      in w\<lparr>w_vState := (w_vState w)(b := ss), w_mem := m\<rparr>)"

section \<open>Runs\<close>

datatype sim_error = No_stage | Empty_stage | No_dts

datatype 'u pass = Continue "'u world" | Break "'u world" | Undefined sim_error

text \<open>The body of the loop of \<open>Sim::run\<close>; \<open>*(stage->begin())\<close> does not exist in an empty stage.\<close>

definition observe :: "'u block_ops \<Rightarrow> real \<Rightarrow> nat list \<Rightarrow> 'u world \<Rightarrow> 'u world" where
  "observe ops tmax bs w = fold (update_op ops) bs (w\<lparr>w_clk := snd (State_sample EVENT tmax (w_clk w))\<rparr>)"

definition report :: "'u block_ops \<Rightarrow> nat list \<Rightarrow> 'u world \<Rightarrow> 'u world" where
  "report ops bs w = (let w1 = fold (rpt_op ops) bs w in w1\<lparr>w_clk := (w_clk w1)\<lparr>st_tickfirst := 0\<rparr>\<rparr>)"

definition integrate :: "nat list \<Rightarrow> 'u world \<Rightarrow> 'u pass" where
  "integrate bs w =
     (let w1 = fold propagateStates bs w
      in if bs = [] then Undefined Empty_stage
         else Continue (w1\<lparr>w_clk := updateclock (w_integrator w1) (w_clk w1)\<rparr>))"

definition kernel_pass :: "'u block_ops \<Rightarrow> real \<Rightarrow> nat list \<Rightarrow> 'u world \<Rightarrow> 'u pass" where
  "kernel_pass ops tmax bs w =
     (let w1 = observe ops tmax bs w
      in if st_ready (w_clk w1) then
           let w2 = report ops bs w1
           in if w_stop w2 \<noteq> w_stop0 w2 then Break (w2\<lparr>w_stop0 := w_stop w2\<rparr>)
              else if st_t (w_clk w2) + EPS \<ge> tmax then Break (w2\<lparr>w_stop := -1\<rparr>)
              else integrate bs w2
         else integrate bs w1)"

partial_function (option) stage_loop ::
  "'u block_ops \<Rightarrow> real \<Rightarrow> nat list \<Rightarrow> 'u world \<Rightarrow> (sim_error + 'u world) option" where
  "stage_loop ops tmax bs w =
     (case kernel_pass ops tmax bs w of
        Continue w1 \<Rightarrow> stage_loop ops tmax bs w1
      | Break w1 \<Rightarrow> Some (Inr w1)
      | Undefined e \<Rightarrow> Some (Inl e))"

definition init_block :: "'u block_ops \<Rightarrow> nat \<Rightarrow> 'u world \<Rightarrow> 'u world" where
  "init_block ops b w = (let w1 = init_op ops b w in w1\<lparr>w_initCount := (w_initCount w1)(b := w_initCount w1 b + 1)\<rparr>)"

definition start_stage :: "'u block_ops \<Rightarrow> real \<Rightarrow> nat list \<Rightarrow> 'u world \<Rightarrow> 'u world" where
  "start_stage ops dts bs w =
     fold (init_block ops) bs (w\<lparr>w_clk := (State_reset dts ((w_clk w)\<lparr>st_dt := dts\<rparr>))\<lparr>st_tickfirst := 1\<rparr>\<rparr>)"

text \<open>The stages from the one with index \<open>ii\<close> on; the last stage that was begun is \<open>stage0\<close>.\<close>

fun run_stages ::
  "'u block_ops \<Rightarrow> real \<Rightarrow> real list \<Rightarrow> nat list list \<Rightarrow> nat list \<Rightarrow> 'u world \<Rightarrow> (sim_error + (nat list \<times> 'u world)) option"
where
  "run_stages ops tmax dts [] stage0 w = Some (Inr (stage0, w))"
| "run_stages ops tmax [] (bs # stages) stage0 w = Some (Inl No_dts)"
| "run_stages ops tmax (d # dts) (bs # stages) stage0 w =
     (case stage_loop ops tmax bs (start_stage ops d bs w) of
        None \<Rightarrow> None
      | Some (Inl e) \<Rightarrow> Some (Inl e)
      | Some (Inr w1) \<Rightarrow>
          if w_stop w1 < 0 then Some (Inr (bs, w1)) else run_stages ops tmax dts stages bs w1)"

text \<open>What \<open>Sim::run\<close> does before the first stage.\<close>

definition start_run :: "nat list list \<Rightarrow> 'u world \<Rightarrow> 'u world" where
  "start_run vStage w =
     fold (\<lambda>b v. v\<lparr>w_initCount := (w_initCount v)(b := 0)\<rparr>) (concat vStage)
       (w\<lparr>w_clk := State_set (w_clk w), w_stop := 0, w_stop0 := 0\<rparr>)"

definition Sim_run ::
  "'u block_ops \<Rightarrow> real list \<Rightarrow> real \<Rightarrow> nat list list \<Rightarrow> 'u world \<Rightarrow> (sim_error + 'u world) option" where
  "Sim_run ops dts tmax vStage w =
     (if vStage = [] then Some (Inl No_stage)
      else case run_stages ops tmax dts vStage [] (start_run vStage w) of
             None \<Rightarrow> None
           | Some (Inl e) \<Rightarrow> Some (Inl e)
           | Some (Inr (stage0, w1)) \<Rightarrow>
               Some (Inr (fold (rpt_op ops) stage0 (w1\<lparr>w_clk := (w_clk w1)\<lparr>st_ticklast := 1\<rparr>\<rparr>))))"

lemma start_run_eq:
  "\<exists>n. start_run vStage w = w\<lparr>w_clk := State_set (w_clk w), w_stop := 0, w_stop0 := 0, w_initCount := n\<rparr>"
proof -
  have "\<exists>n. fold (\<lambda>b v. v\<lparr>w_initCount := (w_initCount v)(b := 0)\<rparr>) bs v = v\<lparr>w_initCount := n\<rparr>" for bs and v :: "'a world"
  proof (induction bs arbitrary: v)
    case Nil
    show ?case by (auto intro: exI [of _ "w_initCount v"])
  next
    case (Cons b bs)
    from Cons.IH [of "v\<lparr>w_initCount := (w_initCount v)(b := 0)\<rparr>"] show ?case by (simp del: fun_upd_apply)
  qed
  from this [of "concat vStage" "w\<lparr>w_clk := State_set (w_clk w), w_stop := 0, w_stop0 := 0\<rparr>"] show ?thesis
    by (simp add: start_run_def)
qed

section \<open>What the kernel relies on of a block\<close>

text \<open>
  A block may sample: it may let the step that is about to begin end earlier. It does not touch the rest of the clock, and
  nothing of it within a step.
\<close>

definition samples_clock :: "clock \<Rightarrow> clock \<Rightarrow> bool" where
  "samples_clock c c' \<longleftrightarrow>
     c' = c\<lparr>st_t1 := st_t1 c', st_dt := st_dt c'\<rparr> \<and>
     (\<not> st_ready c \<longrightarrow> c' = c) \<and>
     (st_t1 c > st_t c + EPS \<longrightarrow> st_dt c = st_t1 c - st_t c \<longrightarrow>
        st_t1 c' \<le> st_t1 c \<and> st_t1 c' > st_t c + EPS \<and> st_dt c' = st_t1 c' - st_t c)"

definition samples_only :: "'u world \<Rightarrow> 'u world \<Rightarrow> bool" where
  "samples_only w w' \<longleftrightarrow>
     samples_clock (w_clk w) (w_clk w') \<and> w_vState w' = w_vState w \<and> w_integrator w' = w_integrator w"

lemma EPS_pos [simp]: "0 < EPS" "0 \<le> EPS" "\<not> EPS \<le> 0" "EPS \<noteq> 0"
  by (simp_all add: EPS_def)

lemma below_EPS: "a < b - EPS \<Longrightarrow> a \<le> b"
  using EPS_pos(1) by linarith

lemma samples_clock_refl [simp]: "samples_clock c c"
  by (simp add: samples_clock_def)

lemma samples_clock_fields:
  assumes "samples_clock c c'"
  shows "st_t c' = st_t c" "st_kpass c' = st_kpass c" "st_ready c' = st_ready c" "st_dtp c' = st_dtp c"
    "st_tickfirst c' = st_tickfirst c" "st_ticklast c' = st_ticklast c"
proof -
  have "c' = c\<lparr>st_t1 := st_t1 c', st_dt := st_dt c'\<rparr>" using assms by (simp add: samples_clock_def)
  then show "st_t c' = st_t c" "st_kpass c' = st_kpass c" "st_ready c' = st_ready c" "st_dtp c' = st_dtp c"
    "st_tickfirst c' = st_tickfirst c" "st_ticklast c' = st_ticklast c" by (metis clock.select_convs clock.surjective clock.update_convs)+
qed

lemma samples_clock_within: "samples_clock c c' \<Longrightarrow> \<not> st_ready c \<Longrightarrow> c' = c"
  by (simp add: samples_clock_def)

lemma samples_clock_step:
  assumes "samples_clock c c'" "st_t1 c > st_t c + EPS" "st_dt c = st_t1 c - st_t c"
  shows "st_t1 c' \<le> st_t1 c" "st_t1 c' > st_t c + EPS" "st_dt c' = st_t1 c' - st_t c"
  using assms unfolding samples_clock_def by blast+

lemma samples_clock_trans:
  assumes "samples_clock a b" "samples_clock b c"
  shows "samples_clock a c"
proof -
  have "c = a\<lparr>st_t1 := st_t1 c, st_dt := st_dt c\<rparr>"
    using samples_clock_fields [OF assms(1)] samples_clock_fields [OF assms(2)] by simp
  moreover have "\<not> st_ready a \<Longrightarrow> c = a" using assms samples_clock_within by metis
  moreover have "st_t1 c \<le> st_t1 a \<and> st_t1 c > st_t a + EPS \<and> st_dt c = st_t1 c - st_t a"
    if "st_t1 a > st_t a + EPS" "st_dt a = st_t1 a - st_t a"
    using samples_clock_step [OF assms(1) that] samples_clock_step [OF assms(2)] samples_clock_fields(1) [OF assms(1)] by auto
  ultimately show ?thesis by (simp add: samples_clock_def)
qed

lemma samples_only_refl [simp]: "samples_only w w"
  by (simp add: samples_only_def)

lemma samples_only_trans: "samples_only u v \<Longrightarrow> samples_only v w \<Longrightarrow> samples_only u w"
  by (auto simp: samples_only_def intro: samples_clock_trans)

lemma samples_only_fold: "(\<And>b w. b \<in> set bs \<Longrightarrow> samples_only w (f b w)) \<Longrightarrow> samples_only w (fold f bs w)"
  by (induction bs arbitrary: w) (auto intro: samples_only_trans)

text \<open>Every multiple of a positive step lies beyond the present time, but not further than one step.\<close>

lemma next_multiple_bounds:
  assumes "0 < d"
  shows "next_multiple t d > t + EPS" "next_multiple t d \<le> t + EPS + d"
proof -
  have f: "(t + EPS) / d < of_int \<lfloor>(t + EPS) / d + 1\<rfloor>" "of_int \<lfloor>(t + EPS) / d + 1\<rfloor> \<le> (t + EPS) / d + 1" by linarith+
  show "next_multiple t d > t + EPS" using mult_strict_right_mono [OF f(1) assms] assms by (simp add: next_multiple_def)
  show "next_multiple t d \<le> t + EPS + d"
    using mult_right_mono [OF f(2), of d] assms by (simp add: next_multiple_def distrib_right add_divide_distrib)
qed

text \<open>\<open>State::sample\<close> itself keeps the contract, with a positive sample time, and with an event.\<close>

lemma sample_samples: "0 < sdt \<Longrightarrow> samples_clock c (snd (State_sample sdt t_event c))"
  using next_multiple_bounds [of sdt "st_t c"] by (auto simp: State_sample_def samples_clock_def Let_def intro: below_EPS)

lemma event_bounds:
  assumes "st_ready c" "st_t1 c > st_t c + EPS" "t_event > st_t c + EPS"
  defines "c' \<equiv> snd (State_sample EVENT t_event c)"
  shows "c' = c\<lparr>st_t1 := st_t1 c', st_dt := st_dt c'\<rparr>" "st_t1 c' > st_t c + EPS" "st_t1 c' \<le> st_t1 c"
    "st_dt c' = st_t1 c' - st_t c" "st_t1 c' \<le> t_event + EPS"
  using assms(1-3) unfolding c'_def by (auto simp: State_sample_def EVENT_def Let_def intro: below_EPS)

section \<open>The clock in a step\<close>

text \<open>The passes of a step; within them the clock runs from the start of the step to its end.\<close>

definition passes :: "integrator \<Rightarrow> nat" where
  "passes cls = (case cls of State_rk4 \<Rightarrow> 4 | State_euler \<Rightarrow> 1 | State_rk2 \<Rightarrow> 2 | State_mm \<Rightarrow> 5)"

lemmas updateclock_defs = updateclock_def State_updateclock_def State_euler_updateclock_def State_rk2_updateclock_def
  State_mm_updateclock_def

lemma updateclock_pass:
  "st_kpass c = 0 \<Longrightarrow> updateclock State_rk4 c = c\<lparr>st_t := st_t c + st_dt c / 2, st_kpass := 1, st_ready := False\<rparr>"
  "st_kpass c = 1 \<Longrightarrow> updateclock State_rk4 c = c\<lparr>st_kpass := 2, st_ready := False\<rparr>"
  "st_kpass c = 2 \<Longrightarrow> updateclock State_rk4 c = c\<lparr>st_t := st_t1 c, st_kpass := 3, st_ready := False\<rparr>"
  "st_kpass c = 3 \<Longrightarrow> updateclock State_rk4 c =
     c\<lparr>st_kpass := 0, st_ready := True, st_t1 := next_multiple (st_t c) (st_dtp c)\<rparr>"
  "updateclock State_euler c = c\<lparr>st_t := st_t1 c, st_ready := True, st_t1 := next_multiple (st_t1 c) (st_dtp c)\<rparr>"
  "st_kpass c = 0 \<Longrightarrow> updateclock State_rk2 c = c\<lparr>st_t := st_t c + st_dt c / 2, st_kpass := 1, st_ready := False\<rparr>"
  "st_kpass c = 1 \<Longrightarrow> updateclock State_rk2 c =
     c\<lparr>st_t := st_t1 c, st_kpass := 0, st_ready := True, st_t1 := next_multiple (st_t1 c) (st_dtp c)\<rparr>"
  "st_kpass c = 0 \<Longrightarrow> updateclock State_mm c = c\<lparr>st_t := st_t c + st_dt c / 3, st_kpass := 1, st_ready := False\<rparr>"
  "st_kpass c = 1 \<Longrightarrow> updateclock State_mm c = c\<lparr>st_kpass := 2, st_ready := False\<rparr>"
  "st_kpass c = 2 \<Longrightarrow> updateclock State_mm c = c\<lparr>st_t := st_t c + 1 / 6 * st_dt c, st_kpass := 3, st_ready := False\<rparr>"
  "st_kpass c = 3 \<Longrightarrow> updateclock State_mm c = c\<lparr>st_t := st_t1 c, st_kpass := 4, st_ready := False\<rparr>"
  "st_kpass c = 4 \<Longrightarrow> updateclock State_mm c =
     c\<lparr>st_kpass := 0, st_ready := True, st_t1 := next_multiple (st_t c) (st_dtp c)\<rparr>"
  by (simp_all add: updateclock_defs Let_def)

lemma updateclock_within:
  assumes "st_kpass c = 0" "0 < k" "k < passes cls"
  shows "\<not> st_ready ((updateclock cls ^^ k) c)" "st_kpass ((updateclock cls ^^ k) c) = k"
proof -
  have "k = 1 \<or> k = 2 \<or> k = 3 \<or> k = 4" using assms(2,3) by (auto simp: passes_def split: integrator.splits)
  then have "\<not> st_ready ((updateclock cls ^^ k) c) \<and> st_kpass ((updateclock cls ^^ k) c) = k"
    using assms by (cases cls) (elim disjE; simp add: updateclock_pass passes_def numeral_eq_Suc)+
  then show "\<not> st_ready ((updateclock cls ^^ k) c)" "st_kpass ((updateclock cls ^^ k) c) = k" by simp_all
qed

lemma updateclock_step:
  assumes "st_kpass c = 0"
  shows "(updateclock cls ^^ passes cls) c =
    c\<lparr>st_t := st_t1 c, st_ready := True, st_t1 := next_multiple (st_t1 c) (st_dtp c)\<rparr>"
  using assms by (cases cls) (simp_all add: updateclock_pass passes_def numeral_eq_Suc)

section \<open>One pass\<close>

lemmas propagate_defs = propagate_def State_propagate_def State_euler_propagate_def State_rk2_propagate_def State_mm_propagate_def

text \<open>What an integrator makes of the value of its variable and of its derivative, whatever cells they are in.\<close>

definition apart :: "state_obj \<Rightarrow> state_obj" where
  "apart s = s\<lparr>so_x := (0, ''x''), so_xd := (0, ''xd'')\<rparr>"

definition moved_obj :: "clock \<Rightarrow> state_obj \<Rightarrow> real \<Rightarrow> real \<Rightarrow> state_obj" where
  "moved_obj c s x xd = (fst (propagate c (apart s) (\<lambda>a. if a = (0, ''x'') then x else xd)))\<lparr>so_x := so_x s, so_xd := so_xd s\<rparr>"

definition moved_val :: "clock \<Rightarrow> state_obj \<Rightarrow> real \<Rightarrow> real \<Rightarrow> real" where
  "moved_val c s x xd = snd (propagate c (apart s) (\<lambda>a. if a = (0, ''x'') then x else xd)) (0, ''x'')"

lemma propagate_moves:
  "propagate c s m =
     (moved_obj c s (m (so_x s)) (m (so_xd s)), m(so_x s := moved_val c s (m (so_x s)) (m (so_xd s))))"
  by (cases "so_class s") (simp_all add: moved_obj_def moved_val_def apart_def propagate_defs Let_def)

lemma moved_obj_cells [simp]:
  "so_x (moved_obj c s x xd) = so_x s" "so_xd (moved_obj c s x xd) = so_xd s" "so_class (moved_obj c s x xd) = so_class s"
  by (cases "so_class s"; simp add: moved_obj_def apart_def propagate_defs Let_def)+

text \<open>
  The integrators of a stage move one after the other. They all see the memory as it was before the pass when no variable is
  integrated twice or is the derivative of a later one.
\<close>

definition in_order :: "(cell \<times> cell) list \<Rightarrow> bool" where
  "in_order cells \<longleftrightarrow> sorted_wrt (\<lambda>p q. fst p \<noteq> fst q \<and> fst p \<noteq> snd q) cells"

abbreviation state_cells :: "state_obj list \<Rightarrow> (cell \<times> cell) list" where
  "state_cells \<equiv> map (\<lambda>s. (so_x s, so_xd s))"

lemma propagate_list_Cons:
  "propagate_list c (s # ss) m =
     (let m1 = m(so_x s := moved_val c s (m (so_x s)) (m (so_xd s)))
      in (moved_obj c s (m (so_x s)) (m (so_xd s)) # fst (propagate_list c ss m1), snd (propagate_list c ss m1)))"
  by (simp add: propagate_moves Let_def split: prod.splits)

declare propagate_list.simps(2) [simp del]

lemma propagate_list_other: "a \<notin> so_x ` set ss \<Longrightarrow> snd (propagate_list c ss m) a = m a"
  by (induction ss arbitrary: m) (auto simp: propagate_list_Cons Let_def)

lemma propagate_list_objs:
  "in_order (state_cells ss) \<Longrightarrow>
     fst (propagate_list c ss m) = map (\<lambda>s. moved_obj c s (m (so_x s)) (m (so_xd s))) ss"
  by (induction ss arbitrary: m) (fastforce simp: in_order_def propagate_list_Cons Let_def)+

lemma propagate_list_vals:
  "in_order (state_cells ss) \<Longrightarrow> s \<in> set ss \<Longrightarrow>
     snd (propagate_list c ss m) (so_x s) = moved_val c s (m (so_x s)) (m (so_xd s))"
proof (induction ss arbitrary: m)
  case (Cons r ss)
  let ?m = "m(so_x r := moved_val c r (m (so_x r)) (m (so_xd r)))"
  have o: "in_order (state_cells ss)" "\<And>q. q \<in> set ss \<Longrightarrow> so_x r \<noteq> so_x q \<and> so_x r \<noteq> so_xd q"
    using Cons.prems(1) by (auto simp: in_order_def)
  show ?case
  proof (cases "s \<in> set ss")
    case True
    then have "?m (so_x s) = m (so_x s)" "?m (so_xd s) = m (so_xd s)" using o(2) [OF True] by auto
    with Cons.IH [OF o(1) True, of ?m] show ?thesis by (simp add: propagate_list_Cons Let_def del: fun_upd_apply)
  next
    case False
    with Cons.prems(2) have "s = r" "so_x r \<notin> so_x ` set ss" using o(2) by auto
    then show ?thesis by (simp add: propagate_list_Cons Let_def propagate_list_other)
  qed
qed simp

lemma propagate_list_append:
  "propagate_list c (ss @ ts) m =
     (let (ss1, m1) = propagate_list c ss m; (ts1, m2) = propagate_list c ts m1 in (ss1 @ ts1, m2))"
  by (induction ss arbitrary: m) (simp_all add: propagate_list_Cons Let_def split: prod.splits)

abbreviation stage_states :: "nat list \<Rightarrow> 'u world \<Rightarrow> state_obj list" where
  "stage_states bs w \<equiv> concat (map (w_vState w) bs)"

lemma propagateStates_eq:
  "propagateStates b w =
     w\<lparr>w_vState := (w_vState w)(b := fst (propagate_list (w_clk w) (w_vState w b) (w_mem w))),
       w_mem := snd (propagate_list (w_clk w) (w_vState w b) (w_mem w))\<rparr>"
  by (simp add: propagateStates_def split: prod.splits)

lemma propagateStates_fields [simp]:
  "w_clk (propagateStates b w) = w_clk w"
  "w_vState (propagateStates b w) b = fst (propagate_list (w_clk w) (w_vState w b) (w_mem w))"
  "w_mem (propagateStates b w) = snd (propagate_list (w_clk w) (w_vState w b) (w_mem w))"
  "(propagateStates b w)\<lparr>w_mem := m, w_vState := v\<rparr> = w\<lparr>w_mem := m, w_vState := v\<rparr>"
  by (simp_all add: propagateStates_eq)

lemma propagateStates_other [simp]: "a \<noteq> b \<Longrightarrow> w_vState (propagateStates b w) a = w_vState w a"
  by (simp add: propagateStates_def split: prod.splits)

lemma fold_propagateStates_other: "a \<notin> set bs \<Longrightarrow> w_vState (fold propagateStates bs w) a = w_vState w a"
  by (induction bs arbitrary: w) auto

lemma fold_propagateStates:
  assumes "distinct bs"
  shows "stage_states bs (fold propagateStates bs w) = fst (propagate_list (w_clk w) (stage_states bs w) (w_mem w))"
    and "\<exists>v. fold propagateStates bs w =
           w\<lparr>w_mem := snd (propagate_list (w_clk w) (stage_states bs w) (w_mem w)), w_vState := v\<rparr>"
  using assms
proof (induction bs arbitrary: w)
  case Nil
  { case 1 show ?case by simp next case 2 show ?case by (auto intro!: exI [of _ "w_vState w"]) }
next
  case (Cons b bs)
  {
    case 1
    then have "map (w_vState (propagateStates b w)) bs = map (w_vState w) bs" by (auto intro!: propagateStates_other)
    with 1 Cons(1) [of "propagateStates b w"] show ?case
      by (simp add: propagate_list_append fold_propagateStates_other case_prod_beta)
  next
    case 2
    then have e: "map (w_vState (propagateStates b w)) bs = map (w_vState w) bs" by (auto intro!: propagateStates_other)
    have "distinct bs" using 2 by simp
    from Cons(2) [OF this, of "propagateStates b w"] show ?case
      by (simp add: e propagate_list_append case_prod_beta)
  }
qed

end
