(* ===== verification/RungeKutta.thy ===== *)
theory RungeKutta
  imports SimKernel
begin

text \<open>
  What the passes of the simulation kernel compute. The reference is the explicit Runge-Kutta method of numerical analysis,
  given by a Butcher tableau; the four integrator classes are proved to be its instances with the tableaux of the classical
  method, of Euler's, of the midpoint method and of Merson's. The interface between the kernel and the blocks of a stage is
  the locale \<open>block_contract\<close>, from which the termination of the stage is proved, and its extension \<open>differential\<close> for blocks
  whose \<open>update\<close> computes the right-hand side of a system of differential equations.
\<close>

section \<open>The reference method\<close>

type_synonym tableau = "(real \<times> real list) list \<times> real list"
type_synonym state_vector = "cell \<Rightarrow> real"

text \<open>The sum of slopes, each with its coefficient.\<close>

fun weighted :: "real list \<Rightarrow> state_vector list \<Rightarrow> state_vector" where
  "weighted (a # as) (k # ks) x = a * k x + weighted as ks x"
| "weighted _ _ x = 0"

fun rk_slopes :: "(real \<Rightarrow> state_vector \<Rightarrow> state_vector) \<Rightarrow> real \<Rightarrow> real \<Rightarrow> state_vector \<Rightarrow> (real \<times> real list) list \<Rightarrow>
    state_vector list \<Rightarrow> state_vector list" where
  "rk_slopes F t h y [] ks = ks"
| "rk_slopes F t h y ((c, as) # rows) ks =
     rk_slopes F t h y rows (ks @ [F (t + c * h) (\<lambda>x. y x + h * weighted as ks x)])"

definition rk_step :: "tableau \<Rightarrow> (real \<Rightarrow> state_vector \<Rightarrow> state_vector) \<Rightarrow> real \<Rightarrow> real \<Rightarrow> state_vector \<Rightarrow> state_vector" where
  "rk_step tab F t h y = (\<lambda>x. y x + h * weighted (snd tab) (rk_slopes F t h y (fst tab) []) x)"

text \<open>The tableaux of the classical method, of Euler's method, of the midpoint method and of Merson's method.\<close>

definition tableau_of :: "integrator \<Rightarrow> tableau" where
  "tableau_of cls = (case cls of
     State_rk4 \<Rightarrow> ([(0, []), (1/2, [1/2]), (1/2, [0, 1/2]), (1, [0, 0, 1])], [1/6, 1/3, 1/3, 1/6])
   | State_euler \<Rightarrow> ([(0, [])], [1])
   | State_rk2 \<Rightarrow> ([(0, []), (1/2, [1/2])], [0, 1])
   | State_mm \<Rightarrow> ([(0, []), (1/3, [1/3]), (1/3, [1/6, 1/6]), (1/2, [1/8, 0, 3/8]), (1, [1/2, 0, -3/2, 2])],
                 [1/6, 0, 0, 2/3, 1/6]))"

section \<open>The passes compute a Runge-Kutta step\<close>

text \<open>A pass, seen on the vector of the integrated variables and the integrator objects alone.\<close>

definition pass_objs :: "(real \<Rightarrow> state_vector \<Rightarrow> state_vector) \<Rightarrow> clock \<Rightarrow> (cell \<Rightarrow> state_obj) \<Rightarrow> state_vector \<Rightarrow> cell \<Rightarrow> state_obj"
where
  "pass_objs F c ob y = (\<lambda>x. moved_obj c (ob x) (y x) (F (st_t c) y x))"

definition pass_vals ::
  "cell set \<Rightarrow> (real \<Rightarrow> state_vector \<Rightarrow> state_vector) \<Rightarrow> clock \<Rightarrow> (cell \<Rightarrow> state_obj) \<Rightarrow> state_vector \<Rightarrow> state_vector" where
  "pass_vals X F c ob y = (\<lambda>x. if x \<in> X then moved_val c (ob x) (y x) (F (st_t c) y x) else 0)"

definition vector_pass :: "cell set \<Rightarrow> (real \<Rightarrow> state_vector \<Rightarrow> state_vector) \<Rightarrow> integrator \<Rightarrow>
    clock \<times> (cell \<Rightarrow> state_obj) \<times> state_vector \<Rightarrow> clock \<times> (cell \<Rightarrow> state_obj) \<times> state_vector" where
  "vector_pass X F cls p = (case p of (c, ob, y) \<Rightarrow> (updateclock cls c, pass_objs F c ob y, pass_vals X F c ob y))"

lemma vector_passI:
  assumes "updateclock cls c = c'" "\<And>x. moved_obj c (ob x) (y x) (F (st_t c) y x) = ob' x"
    and "\<And>x. x \<in> X \<Longrightarrow> moved_val c (ob x) (y x) (F (st_t c) y x) = y' x" "\<And>x. x \<notin> X \<Longrightarrow> y' x = 0"
  shows "vector_pass X F cls (c, ob, y) = (c', ob', y')"
  using assms by (auto simp: vector_pass_def pass_objs_def pass_vals_def)

lemmas moved_defs = moved_val_def moved_obj_def apart_def propagate_defs

lemma moved_rk4:
  "so_class s = State_rk4 \<Longrightarrow> st_kpass c = 0 \<Longrightarrow> moved_val c s x d = x + st_dt c / 2 * d"
  "so_class s = State_rk4 \<Longrightarrow> st_kpass c = 1 \<Longrightarrow> moved_val c s x d = so_x0 s + st_dt c / 2 * d"
  "so_class s = State_rk4 \<Longrightarrow> st_kpass c = 2 \<Longrightarrow> moved_val c s x d = so_x0 s + st_dt c * d"
  "so_class s = State_rk4 \<Longrightarrow> st_kpass c = 3 \<Longrightarrow>
     moved_val c s x d = so_x0 s + st_dt c / 6 * (so_xd0 s + 2 * so_xd1 s + 2 * so_xd2 s + d)"
  "so_class s = State_rk4 \<Longrightarrow> st_kpass c = 0 \<Longrightarrow> moved_obj c s x d = s\<lparr>so_x0 := x, so_xd0 := d\<rparr>"
  "so_class s = State_rk4 \<Longrightarrow> st_kpass c = 1 \<Longrightarrow> moved_obj c s x d = s\<lparr>so_xd1 := d\<rparr>"
  "so_class s = State_rk4 \<Longrightarrow> st_kpass c = 2 \<Longrightarrow> moved_obj c s x d = s\<lparr>so_xd2 := d\<rparr>"
  "so_class s = State_rk4 \<Longrightarrow> st_kpass c = 3 \<Longrightarrow> moved_obj c s x d = s\<lparr>so_xd3 := d\<rparr>"
  by (simp_all add: moved_defs Let_def)

lemma moved_euler:
  "so_class s = State_euler \<Longrightarrow> moved_val c s x d = x + st_dt c * d"
  by (simp_all add: moved_defs Let_def)

lemma moved_rk2:
  "so_class s = State_rk2 \<Longrightarrow> st_kpass c = 0 \<Longrightarrow> moved_val c s x d = x + st_dt c / 2 * d"
  "so_class s = State_rk2 \<Longrightarrow> st_kpass c = 1 \<Longrightarrow> moved_val c s x d = so_x0 s + st_dt c * d"
  "so_class s = State_rk2 \<Longrightarrow> st_kpass c = 0 \<Longrightarrow> moved_obj c s x d = s\<lparr>so_x0 := x, so_xd0 := d\<rparr>"
  by (simp_all add: moved_defs Let_def)

lemma moved_mm:
  "so_class s = State_mm \<Longrightarrow> st_kpass c = 0 \<Longrightarrow> moved_val c s x d = x + st_dt c * d / 3"
  "so_class s = State_mm \<Longrightarrow> st_kpass c = 1 \<Longrightarrow> moved_val c s x d = so_x0 s + 1 / 6 * so_k1 s + 1 / 6 * (st_dt c * d)"
  "so_class s = State_mm \<Longrightarrow> st_kpass c = 2 \<Longrightarrow> moved_val c s x d = so_x0 s + 1 / 8 * so_k1 s + 3 / 8 * (st_dt c * d)"
  "so_class s = State_mm \<Longrightarrow> st_kpass c = 3 \<Longrightarrow>
     moved_val c s x d = so_x0 s + 1 / 2 * so_k1 s - 3 / 2 * so_k3 s + 2 * (st_dt c * d)"
  "so_class s = State_mm \<Longrightarrow> st_kpass c = 4 \<Longrightarrow>
     moved_val c s x d = so_x0 s + 1 / 6 * (so_k1 s + 4 * so_k4 s + st_dt c * d)"
  "so_class s = State_mm \<Longrightarrow> st_kpass c = 0 \<Longrightarrow> moved_obj c s x d = s\<lparr>so_x0 := x, so_k1 := st_dt c * d\<rparr>"
  "so_class s = State_mm \<Longrightarrow> st_kpass c = 1 \<Longrightarrow> moved_obj c s x d = s\<lparr>so_k2 := st_dt c * d\<rparr>"
  "so_class s = State_mm \<Longrightarrow> st_kpass c = 2 \<Longrightarrow> moved_obj c s x d = s\<lparr>so_k3 := st_dt c * d\<rparr>"
  "so_class s = State_mm \<Longrightarrow> st_kpass c = 3 \<Longrightarrow> moved_obj c s x d = s\<lparr>so_k4 := st_dt c * d\<rparr>"
  by (simp_all add: moved_defs Let_def)

lemma rk4_passes:
  assumes "\<And>x. so_class (ob x) = State_rk4" "st_kpass c = 0" "st_dt c = st_t1 c - st_t c"
    and z: "\<And>x. x \<notin> X \<Longrightarrow> y x = 0" "\<And>t y x. x \<notin> X \<Longrightarrow> F t y x = 0"
  shows "snd (snd ((vector_pass X F State_rk4 ^^ 4) (c, ob, y))) = rk_step (tableau_of State_rk4) F (st_t c) (st_dt c) y"
proof -
  let ?h = "st_dt c" let ?t = "st_t c" let ?v = "vector_pass X F State_rk4"
  define c1 where "c1 = c\<lparr>st_t := ?t + ?h / 2, st_kpass := 1, st_ready := False\<rparr>"
  define c2 where "c2 = c1\<lparr>st_kpass := 2\<rparr>"
  define c3 where "c3 = c2\<lparr>st_t := st_t1 c, st_kpass := 3\<rparr>"
  define k1 where "k1 = F ?t y"
  define y1 where "y1 = (\<lambda>x. y x + ?h * (1/2 * k1 x))"
  define k2 where "k2 = F (?t + 1/2 * ?h) y1"
  define y2 where "y2 = (\<lambda>x. y x + ?h * (1/2 * k2 x))"
  define k3 where "k3 = F (?t + 1/2 * ?h) y2"
  define y3 where "y3 = (\<lambda>x. y x + ?h * k3 x)"
  define k4 where "k4 = F (?t + ?h) y3"
  define y4 where "y4 = (\<lambda>x. y x + ?h * (1/6 * k1 x + (1/3 * k2 x + (1/3 * k3 x + 1/6 * k4 x))))"
  define o1 where "o1 = (\<lambda>x. (ob x)\<lparr>so_x0 := y x, so_xd0 := k1 x\<rparr>)"
  define o2 where "o2 = (\<lambda>x. (o1 x)\<lparr>so_xd1 := k2 x\<rparr>)"
  define o3 where "o3 = (\<lambda>x. (o2 x)\<lparr>so_xd2 := k3 x\<rparr>)"
  have k0: "x \<notin> X \<Longrightarrow> k1 x = 0" "x \<notin> X \<Longrightarrow> k2 x = 0" "x \<notin> X \<Longrightarrow> k3 x = 0" "x \<notin> X \<Longrightarrow> k4 x = 0" for x
    by (simp_all add: k1_def k2_def k3_def k4_def z)
  have "?v (c, ob, y) = (c1, o1, y1)"
    by (rule vector_passI) (simp_all add: assms c1_def o1_def y1_def k1_def updateclock_pass moved_rk4 z)
  moreover have "?v (c1, o1, y1) = (c2, o2, y2)"
    by (rule vector_passI) (simp_all add: assms c1_def c2_def o1_def o2_def y2_def k2_def updateclock_pass moved_rk4 z)
  moreover have "?v (c2, o2, y2) = (c3, o3, y3)"
    by (rule vector_passI) (simp_all add: assms c1_def c2_def c3_def o1_def o2_def o3_def y3_def k3_def updateclock_pass moved_rk4 z)
  moreover have "snd (snd (?v (c3, o3, y3))) = y4"
    by (rule ext) (auto simp: assms c1_def c2_def c3_def o1_def o2_def o3_def y4_def k4_def vector_pass_def pass_vals_def
        moved_rk4 k0 z field_simps)
  moreover have "y4 = rk_step (tableau_of State_rk4) F ?t ?h y"
    by (simp add: y4_def k1_def k2_def k3_def k4_def y1_def y2_def y3_def rk_step_def tableau_of_def)
  ultimately show ?thesis by (simp add: numeral_eq_Suc)
qed

lemma euler_passes:
  assumes "\<And>x. so_class (ob x) = State_euler" "\<And>x. x \<notin> X \<Longrightarrow> y x = 0" "\<And>t y x. x \<notin> X \<Longrightarrow> F t y x = 0"
  shows "snd (snd ((vector_pass X F State_euler ^^ 1) (c, ob, y))) = rk_step (tableau_of State_euler) F (st_t c) (st_dt c) y"
  using assms by (auto simp: vector_pass_def pass_vals_def moved_euler rk_step_def tableau_of_def)

lemma rk2_passes:
  assumes "\<And>x. so_class (ob x) = State_rk2" "st_kpass c = 0"
    and z: "\<And>x. x \<notin> X \<Longrightarrow> y x = 0" "\<And>t y x. x \<notin> X \<Longrightarrow> F t y x = 0"
  shows "snd (snd ((vector_pass X F State_rk2 ^^ 2) (c, ob, y))) = rk_step (tableau_of State_rk2) F (st_t c) (st_dt c) y"
proof -
  let ?h = "st_dt c" let ?t = "st_t c" let ?v = "vector_pass X F State_rk2"
  define c1 where "c1 = c\<lparr>st_t := ?t + ?h / 2, st_kpass := 1, st_ready := False\<rparr>"
  define y1 where "y1 = (\<lambda>x. y x + ?h * (1/2 * F ?t y x))"
  define o1 where "o1 = (\<lambda>x. (ob x)\<lparr>so_x0 := y x, so_xd0 := F ?t y x\<rparr>)"
  have "?v (c, ob, y) = (c1, o1, y1)"
    by (rule vector_passI) (simp_all add: assms c1_def o1_def y1_def updateclock_pass moved_rk2 z)
  moreover have "snd (snd (?v (c1, o1, y1))) = rk_step (tableau_of State_rk2) F ?t ?h y"
    by (rule ext) (simp add: assms c1_def o1_def y1_def vector_pass_def pass_vals_def moved_rk2 rk_step_def tableau_of_def z)
  ultimately show ?thesis by (simp add: numeral_eq_Suc)
qed

lemma mm_passes:
  assumes "\<And>x. so_class (ob x) = State_mm" "st_kpass c = 0" "st_dt c = st_t1 c - st_t c"
    and z: "\<And>x. x \<notin> X \<Longrightarrow> y x = 0" "\<And>t y x. x \<notin> X \<Longrightarrow> F t y x = 0"
  shows "snd (snd ((vector_pass X F State_mm ^^ 5) (c, ob, y))) = rk_step (tableau_of State_mm) F (st_t c) (st_dt c) y"
proof -
  let ?h = "st_dt c" let ?t = "st_t c" let ?v = "vector_pass X F State_mm"
  define c1 where "c1 = c\<lparr>st_t := ?t + ?h / 3, st_kpass := 1, st_ready := False\<rparr>"
  define c2 where "c2 = c1\<lparr>st_kpass := 2\<rparr>"
  define c3 where "c3 = c2\<lparr>st_t := ?t + 1/2 * ?h, st_kpass := 3\<rparr>"
  define c4 where "c4 = c3\<lparr>st_t := st_t1 c, st_kpass := 4\<rparr>"
  define k1 where "k1 = F ?t y"
  define y1 where "y1 = (\<lambda>x. y x + ?h * (1/3 * k1 x))"
  define k2 where "k2 = F (?t + 1/3 * ?h) y1"
  define y2 where "y2 = (\<lambda>x. y x + ?h * (1/6 * k1 x + 1/6 * k2 x))"
  define k3 where "k3 = F (?t + 1/3 * ?h) y2"
  define y3 where "y3 = (\<lambda>x. y x + ?h * (1/8 * k1 x + 3/8 * k3 x))"
  define k4 where "k4 = F (?t + 1/2 * ?h) y3"
  define y4 where "y4 = (\<lambda>x. y x + ?h * (1/2 * k1 x + (-3/2 * k3 x + 2 * k4 x)))"
  define k5 where "k5 = F (?t + ?h) y4"
  define y5 where "y5 = (\<lambda>x. y x + ?h * (1/6 * k1 x + (2/3 * k4 x + 1/6 * k5 x)))"
  define o1 where "o1 = (\<lambda>x. (ob x)\<lparr>so_x0 := y x, so_k1 := ?h * k1 x\<rparr>)"
  define o2 where "o2 = (\<lambda>x. (o1 x)\<lparr>so_k2 := ?h * k2 x\<rparr>)"
  define o3 where "o3 = (\<lambda>x. (o2 x)\<lparr>so_k3 := ?h * k3 x\<rparr>)"
  define o4 where "o4 = (\<lambda>x. (o3 x)\<lparr>so_k4 := ?h * k4 x\<rparr>)"
  note clocks = c1_def c2_def c3_def c4_def and objs = o1_def o2_def o3_def o4_def
  have k0: "x \<notin> X \<Longrightarrow> k1 x = 0" "x \<notin> X \<Longrightarrow> k2 x = 0" "x \<notin> X \<Longrightarrow> k3 x = 0" "x \<notin> X \<Longrightarrow> k4 x = 0" "x \<notin> X \<Longrightarrow> k5 x = 0"
    for x by (simp_all add: k1_def k2_def k3_def k4_def k5_def z)
  have "?v (c, ob, y) = (c1, o1, y1)"
    by (rule vector_passI) (simp_all add: assms clocks objs y1_def k1_def updateclock_pass moved_mm z)
  moreover have "?v (c1, o1, y1) = (c2, o2, y2)"
    by (rule vector_passI) (simp_all add: assms clocks objs y2_def k2_def updateclock_pass moved_mm z k0 distrib_left)
  moreover have "?v (c2, o2, y2) = (c3, o3, y3)"
    by (rule vector_passI) (simp_all add: assms clocks objs y3_def k3_def updateclock_pass moved_mm z k0 distrib_left)
  moreover have "?v (c3, o3, y3) = (c4, o4, y4)"
    by (rule vector_passI) (auto simp: assms clocks objs y4_def k4_def updateclock_pass moved_mm z k0 field_simps)
  moreover have "snd (snd (?v (c4, o4, y4))) = y5"
    by (rule ext) (auto simp: assms clocks objs y5_def k5_def vector_pass_def pass_vals_def moved_mm k0 z field_simps)
  moreover have "y5 = rk_step (tableau_of State_mm) F ?t ?h y"
    by (simp add: y5_def k1_def k2_def k3_def k4_def k5_def y1_def y2_def y3_def y4_def rk_step_def tableau_of_def)
  ultimately show ?thesis by (simp add: numeral_eq_Suc)
qed

lemma passes_compute_rk_step:
  assumes "\<And>x. so_class (ob x) = cls" "st_kpass c = 0" "st_dt c = st_t1 c - st_t c"
    and "\<And>x. x \<notin> X \<Longrightarrow> y x = 0" "\<And>t y x. x \<notin> X \<Longrightarrow> F t y x = 0"
  shows "snd (snd ((vector_pass X F cls ^^ passes cls) (c, ob, y))) = rk_step (tableau_of cls) F (st_t c) (st_dt c) y"
  using assms rk4_passes [of ob c X y F] euler_passes [of ob X y F c] rk2_passes [of ob c X y F] mm_passes [of ob c X y F]
  by (cases cls) (simp_all add: passes_def)

section \<open>Stages end\<close>

text \<open>Some passes of the loop in a row.\<close>

fun run_passes :: "'u block_ops \<Rightarrow> real \<Rightarrow> nat list \<Rightarrow> nat \<Rightarrow> 'u world \<Rightarrow> 'u pass" where
  "run_passes ops tmax bs 0 w = Continue w"
| "run_passes ops tmax bs (Suc n) w =
     (case kernel_pass ops tmax bs w of Continue w1 \<Rightarrow> run_passes ops tmax bs n w1 | Break w1 \<Rightarrow> Break w1 | Undefined e \<Rightarrow> Undefined e)"

lemma stage_loop_passes: "run_passes ops tmax bs n w = Continue w' \<Longrightarrow> stage_loop ops tmax bs w = stage_loop ops tmax bs w'"
proof (induction n arbitrary: w)
  case (Suc n)
  from Suc.prems obtain w1 where "kernel_pass ops tmax bs w = Continue w1" "run_passes ops tmax bs n w1 = Continue w'"
    by (auto split: pass.splits)
  with Suc.IH [of w1] stage_loop.simps [of ops tmax bs w] show ?case by simp
qed simp

lemma run_passes_add:
  "run_passes ops tmax bs m w = Continue w' \<Longrightarrow> run_passes ops tmax bs (m + n) w = run_passes ops tmax bs n w'"
  by (induction m arbitrary: w) (auto split: pass.splits)

lemma fold_propagate_keeps:
  "w_clk (fold propagateStates bs w) = w_clk w" "w_integrator (fold propagateStates bs w) = w_integrator w"
  "w_stop (fold propagateStates bs w) = w_stop w" "w_stop0 (fold propagateStates bs w) = w_stop0 w"
  by (induction bs arbitrary: w) (simp_all add: propagateStates_eq)

text \<open>The clock stands at the start of a step.\<close>

definition at_step :: "real \<Rightarrow> 'u world \<Rightarrow> bool" where
  "at_step tmax w \<longleftrightarrow> st_ready (w_clk w) \<and> st_kpass (w_clk w) = 0 \<and> st_t (w_clk w) + EPS < st_t1 (w_clk w) \<and>
     0 < st_dtp (w_clk w) \<and> st_t (w_clk w) \<le> tmax + EPS"

definition at_step_clock :: "real \<Rightarrow> clock \<Rightarrow> bool" where
  "at_step_clock tmax c \<longleftrightarrow> st_ready c \<and> st_kpass c = 0 \<and> st_t c \<le> tmax + EPS"

lemma EPS_steps:
  assumes "a + EPS < b"
  shows "(c - b) / EPS < (c - a) / EPS - 1"
proof -
  have "(c - b) / EPS < (c - a - EPS) / EPS" using assms EPS_pos(1) by (intro divide_strict_right_mono) linarith+
  also have "\<dots> = (c - a) / EPS - 1" using EPS_pos(1) by (simp add: diff_divide_distrib [of "c - a" EPS])
  finally show ?thesis .
qed

locale block_contract =
  fixes ops :: "'u block_ops" and bs :: "nat list"
  assumes some_block: "bs \<noteq> []"
    and update_samples: "b \<in> set bs \<Longrightarrow> samples_only w (update_op ops b w)"
    and rpt_samples: "b \<in> set bs \<Longrightarrow> samples_only w (rpt_op ops b w)"
    and init_clock: "b \<in> set bs \<Longrightarrow> w_clk (init_op ops b w) = w_clk w"
begin

lemma updates_sample: "samples_only w (fold (update_op ops) bs w)"
  by (rule samples_only_fold) (rule update_samples)

lemma rpts_sample: "samples_only w (fold (rpt_op ops) bs w)"
  by (rule samples_only_fold) (rule rpt_samples)

lemma observe_keeps:
  "w_vState (observe ops tmax bs w) = w_vState w" "w_integrator (observe ops tmax bs w) = w_integrator w"
  using updates_sample by (simp_all add: observe_def samples_only_def)

lemma report_keeps: "w_vState (report ops bs w) = w_vState w" "w_integrator (report ops bs w) = w_integrator w"
  using rpts_sample by (simp_all add: report_def samples_only_def Let_def)

lemma observe_within: "\<not> st_ready (w_clk w) \<Longrightarrow> w_clk (observe ops tmax bs w) = w_clk w"
  using updates_sample [of "w\<lparr>w_clk := snd (State_sample EVENT tmax (w_clk w))\<rparr>"]
  by (simp add: observe_def samples_only_def State_sample_def) (metis samples_clock_within)

text \<open>The clock with which the first pass of a step integrates.\<close>

abbreviation step_clock :: "real \<Rightarrow> 'u world \<Rightarrow> clock" where
  "step_clock tmax w \<equiv> w_clk (report ops bs (observe ops tmax bs w))"

lemma sampled_clock:
  "samples_clock (snd (State_sample EVENT tmax (w_clk w))) (w_clk (observe ops tmax bs w))"
  "samples_clock (w_clk (observe ops tmax bs w)) (w_clk (fold (rpt_op ops) bs (observe ops tmax bs w)))"
  "step_clock tmax w = (w_clk (fold (rpt_op ops) bs (observe ops tmax bs w)))\<lparr>st_tickfirst := 0\<rparr>"
  using updates_sample [of "w\<lparr>w_clk := snd (State_sample EVENT tmax (w_clk w))\<rparr>"] rpts_sample
  by (simp_all add: observe_def report_def samples_only_def Let_def)

lemma step_clock_fields:
  shows "st_t (step_clock tmax w) = st_t (w_clk w)" "st_kpass (step_clock tmax w) = st_kpass (w_clk w)"
    "st_dtp (step_clock tmax w) = st_dtp (w_clk w)" "st_ready (step_clock tmax w) = st_ready (w_clk w)"
    "st_ready (w_clk (observe ops tmax bs w)) = st_ready (w_clk w)"
  using samples_clock_fields [OF sampled_clock(1), of tmax w] samples_clock_fields [OF sampled_clock(2), of tmax w]
  unfolding sampled_clock(3) by (auto simp: State_sample_def EVENT_def Let_def)

lemma step_clock_bounds:
  assumes "at_step tmax w" "st_t (w_clk w) + EPS < tmax"
  shows "st_t (w_clk w) + EPS < st_t1 (step_clock tmax w)" "st_t1 (step_clock tmax w) \<le> tmax + EPS"
    "st_dt (step_clock tmax w) = st_t1 (step_clock tmax w) - st_t (w_clk w)"
proof -
  let ?e = "snd (State_sample EVENT tmax (w_clk w))"
  have a: "st_ready (w_clk w)" "st_t1 (w_clk w) > st_t (w_clk w) + EPS" using assms by (auto simp: at_step_def)
  note e = event_bounds [OF a assms(2)]
  have et: "st_t ?e = st_t (w_clk w)" using e(1) by (metis clock.select_convs(3) clock.surjective clock.update_convs(1,4))
  note o = samples_clock_step [OF sampled_clock(1)] samples_clock_fields(1) [OF sampled_clock(1)]
  note r = samples_clock_step [OF sampled_clock(2)]
  show "st_t (w_clk w) + EPS < st_t1 (step_clock tmax w)" "st_t1 (step_clock tmax w) \<le> tmax + EPS"
    "st_dt (step_clock tmax w) = st_t1 (step_clock tmax w) - st_t (w_clk w)"
    using e o [of tmax w] r [of tmax w] et unfolding sampled_clock(3) by auto
qed

lemma pass_within:
  assumes "\<not> st_ready (w_clk w)"
  shows "\<exists>w'. kernel_pass ops tmax bs w = Continue w' \<and> w' = (fold propagateStates bs (observe ops tmax bs w))
    \<lparr>w_clk := updateclock (w_integrator w) (w_clk w)\<rparr> \<and> w_integrator w' = w_integrator w"
  using assms observe_keeps(2) [of tmax w] observe_within [of w tmax] some_block
  by (simp add: kernel_pass_def integrate_def Let_def fold_propagate_keeps)

lemma pass_at_step:
  assumes "at_step tmax w" "kernel_pass ops tmax bs w = Continue w'"
  shows "w' = (fold propagateStates bs (report ops bs (observe ops tmax bs w)))
      \<lparr>w_clk := updateclock (w_integrator w) (step_clock tmax w)\<rparr>"
    and "w_integrator w' = w_integrator w" "st_t (w_clk w) + EPS < tmax"
    and "st_kpass (step_clock tmax w) = 0"
  using assms observe_keeps(2) [of tmax w] report_keeps(2) [of "observe ops tmax bs w"] step_clock_fields [of tmax w] some_block
  by (auto simp: kernel_pass_def integrate_def Let_def fold_propagate_keeps at_step_def split: if_splits)

lemma passes_clock:
  assumes "at_step tmax w" "kernel_pass ops tmax bs w = Continue w1" "k < passes (w_integrator w)"
  shows "\<exists>w'. run_passes ops tmax bs (Suc k) w = Continue w' \<and> w_integrator w' = w_integrator w \<and>
    w_clk w' = (updateclock (w_integrator w) ^^ Suc k) (step_clock tmax w)"
  using assms(3)
proof (induction k)
  case 0
  then show ?case using assms(2) pass_at_step [OF assms(1,2)] by simp
next
  case (Suc k)
  then obtain v where v: "run_passes ops tmax bs (Suc k) w = Continue v" "w_integrator v = w_integrator w"
    "w_clk v = (updateclock (w_integrator w) ^^ Suc k) (step_clock tmax w)" by auto
  have "\<not> st_ready (w_clk v)"
    unfolding v(3) using updateclock_within(1) [OF pass_at_step(4) [OF assms(1,2)], of "Suc k"] Suc.prems by simp
  from pass_within [OF this, of tmax] obtain w' where
    "kernel_pass ops tmax bs v = Continue w'" "w_clk w' = updateclock (w_integrator v) (w_clk v)" "w_integrator w' = w_integrator v"
    by fastforce
  with v run_passes_add [OF v(1), of 1] show ?case by simp
qed

text \<open>A step that is begun is completed, and the clock stands at the start of the next one.\<close>

lemma step_completed:
  assumes "at_step tmax w" "kernel_pass ops tmax bs w = Continue w1"
  shows "\<exists>w'. run_passes ops tmax bs (passes (w_integrator w)) w = Continue w' \<and> w_integrator w' = w_integrator w \<and>
    at_step tmax w' \<and> st_t (w_clk w') = st_t1 (step_clock tmax w) \<and> st_t (w_clk w') > st_t (w_clk w) + EPS"
proof -
  let ?c = "step_clock tmax w"
  obtain k where k: "passes (w_integrator w) = Suc k" by (cases "w_integrator w") (simp_all add: passes_def)
  from passes_clock [OF assms, of k] k obtain w' where w': "run_passes ops tmax bs (passes (w_integrator w)) w = Continue w'"
    "w_integrator w' = w_integrator w" "w_clk w' = (updateclock (w_integrator w) ^^ passes (w_integrator w)) ?c" by auto
  have c: "w_clk w' = ?c\<lparr>st_t := st_t1 ?c, st_ready := True, st_t1 := next_multiple (st_t1 ?c) (st_dtp ?c)\<rparr>"
    unfolding w'(3) by (rule updateclock_step [OF pass_at_step(4) [OF assms]])
  have "0 < st_dtp ?c" using assms(1) by (simp add: step_clock_fields(3) at_step_def)
  with step_clock_bounds [OF assms(1) pass_at_step(3) [OF assms]] w'(1,2) c next_multiple_bounds(1) [of "st_dtp ?c" "st_t1 ?c"]
    pass_at_step(4) [OF assms]
  show ?thesis by (auto simp: at_step_def)
qed

lemma no_undefined_pass: "kernel_pass ops tmax bs w \<noteq> Undefined e"
  using some_block by (auto simp: kernel_pass_def integrate_def Let_def split: if_splits)

text \<open>
  The rule for what holds of the world a stage returns: an invariant of the starts of steps, whose breaking pass gives the
  conclusion. The stage always returns, since every step moves the clock by more than \<open>EPS\<close> and none begins after \<open>tmax\<close>.
\<close>

lemma stage_loop_returns:
  assumes "at_step tmax w" "P w"
    and step: "\<And>w w'. at_step tmax w \<Longrightarrow> P w \<Longrightarrow> at_step tmax w' \<Longrightarrow>
      run_passes ops tmax bs (passes (w_integrator w)) w = Continue w' \<Longrightarrow> P w'"
    and stop: "\<And>w w'. at_step tmax w \<Longrightarrow> P w \<Longrightarrow> kernel_pass ops tmax bs w = Break w' \<Longrightarrow> Q w'"
  shows "\<exists>w'. stage_loop ops tmax bs w = Some (Inr w') \<and> Q w'"
  using assms(1,2)
proof (induction "nat \<lceil>(tmax + 2 * EPS - st_t (w_clk w)) / EPS\<rceil>" arbitrary: w rule: less_induct)
  case less
  show ?case
  proof (cases "kernel_pass ops tmax bs w")
    case (Break w')
    with stop [OF less.prems Break] stage_loop.simps [of ops tmax bs w] show ?thesis by simp
  next
    case (Undefined e)
    with no_undefined_pass show ?thesis by blast
  next
    case (Continue w1)
    from step_completed [OF less.prems(1) this] obtain w' where
      w': "run_passes ops tmax bs (passes (w_integrator w)) w = Continue w'" "at_step tmax w'"
        "st_t (w_clk w') > st_t (w_clk w) + EPS" by blast
    have "(tmax + 2 * EPS - st_t (w_clk w')) / EPS < (tmax + 2 * EPS - st_t (w_clk w)) / EPS - 1"
      by (rule EPS_steps [OF w'(3)])
    moreover have "(tmax + 2 * EPS - st_t (w_clk w)) / EPS > 0"
    proof (rule divide_pos_pos)
      have "st_t (w_clk w) \<le> tmax + EPS" using less.prems(1) by (simp add: at_step_def)
      then show "0 < tmax + 2 * EPS - st_t (w_clk w)" using EPS_pos(1) by linarith
    qed simp
    ultimately have "nat \<lceil>(tmax + 2 * EPS - st_t (w_clk w')) / EPS\<rceil> < nat \<lceil>(tmax + 2 * EPS - st_t (w_clk w)) / EPS\<rceil>" by linarith
    from less.hyps [OF this w'(2) step [OF less.prems w'(2,1)]] stage_loop_passes [OF w'(1)] show ?thesis by simp
  qed
qed

lemma break_pass:
  assumes "at_step tmax w" "kernel_pass ops tmax bs w = Break w'"
  shows "at_step_clock tmax (w_clk w')"
    and "w_stop w' = w_stop0 w' \<or> w_stop w' = -1 \<and> tmax \<le> st_t (w_clk w') + EPS"
    and "st_t (w_clk w') = st_t (w_clk w)"
  using assms step_clock_fields [of tmax w]
  by (auto simp: kernel_pass_def integrate_def Let_def at_step_def at_step_clock_def split: if_splits)

lemma inits_clock: "set cs \<subseteq> set bs \<Longrightarrow> w_clk (fold (init_block ops) cs w) = w_clk w"
  by (induction cs arbitrary: w) (simp_all add: init_block_def init_clock Let_def)

lemma start_stage_at_step:
  assumes "at_step_clock tmax (w_clk w)" "EPS < d"
  shows "at_step tmax (start_stage ops d bs w)"
proof -
  have "0 < d" using assms(2) EPS_pos(1) by linarith
  with assms show ?thesis
    by (simp add: start_stage_def inits_clock State_reset_def at_step_def at_step_clock_def)
qed

lemma stage_returns:
  assumes "at_step_clock tmax (w_clk w)" "EPS < d"
  shows "\<exists>w'. stage_loop ops tmax bs (start_stage ops d bs w) = Some (Inr w') \<and> at_step_clock tmax (w_clk w') \<and>
    (w_stop w' = w_stop0 w' \<or> w_stop w' = -1 \<and> tmax \<le> st_t (w_clk w') + EPS)"
  by (rule stage_loop_returns [where P = "\<lambda>w. True"]) (use start_stage_at_step [OF assms] break_pass in auto)

end

section \<open>Runs end\<close>

text \<open>How a stage or a run may end: at the time \<open>tmax\<close>, or because a block stopped it.\<close>

definition ended :: "real \<Rightarrow> 'u world \<Rightarrow> bool" where
  "ended tmax w \<longleftrightarrow> st_t (w_clk w) \<le> tmax + EPS \<and> (w_stop w = w_stop0 w \<or> w_stop w = -1 \<and> tmax \<le> st_t (w_clk w) + EPS)"

lemma run_stages_return:
  assumes "\<And>bs. bs \<in> set vStage \<Longrightarrow> block_contract ops bs" "\<forall>d \<in> set dts. EPS < d" "length vStage \<le> length dts"
    and "at_step_clock tmax (w_clk w)" "ended tmax w"
  shows "\<exists>w' bs. run_stages ops tmax dts vStage stage0 w = Some (Inr (bs, w')) \<and> at_step_clock tmax (w_clk w') \<and>
    ended tmax w' \<and> bs \<in> (if vStage = [] then {stage0} else set vStage)"
  using assms
proof (induction vStage arbitrary: dts w stage0)
  case (Cons bs vStage)
  from Cons.prems(3) obtain d ds where dts: "dts = d # ds" by (cases dts) auto
  have "block_contract ops bs" "EPS < d" using Cons.prems(1,2) dts by auto
  from block_contract.stage_returns [OF this(1) Cons.prems(4) this(2)] obtain w1 where
    w1: "stage_loop ops tmax bs (start_stage ops d bs w) = Some (Inr w1)" "at_step_clock tmax (w_clk w1)" "ended tmax w1"
    by (auto simp: ended_def at_step_clock_def)
  show ?case
  proof (cases "w_stop w1 < 0")
    case True
    with w1 dts show ?thesis by auto
  next
    case False
    from Cons.IH [of ds w1 bs] Cons.prems dts w1(2,3) obtain w' cs where
      "run_stages ops tmax ds vStage bs w1 = Some (Inr (cs, w'))" "at_step_clock tmax (w_clk w')" "ended tmax w'"
      "cs \<in> (if vStage = [] then {bs} else set vStage)" by auto
    with False w1 dts show ?thesis by (auto split: if_splits)
  qed
qed simp

lemma Sim_run_returns:
  assumes "\<And>bs. bs \<in> set vStage \<Longrightarrow> block_contract ops bs" "\<forall>d \<in> set dts. EPS < d" "length vStage \<le> length dts"
    and "vStage \<noteq> []" "0 \<le> tmax"
  shows "\<exists>w' stage0 v. Sim_run ops dts tmax vStage w = Some (Inr w') \<and> stage0 \<in> set vStage \<and> ended tmax v \<and>
    w' = fold (rpt_op ops) stage0 (v\<lparr>w_clk := (w_clk v)\<lparr>st_ticklast := 1\<rparr>\<rparr>)"
proof -
  let ?w = "start_run vStage w"
  have "0 \<le> tmax + EPS" using assms(5) EPS_pos(1) by linarith
  then have "at_step_clock tmax (w_clk ?w)" "ended tmax ?w"
    using start_run_eq [of vStage w] by (auto simp: at_step_clock_def ended_def State_set_def)
  from run_stages_return [OF assms(1-3) this, where ?stage0.0 = "[]"] assms(4) obtain v stage0 where
    "run_stages ops tmax dts vStage [] ?w = Some (Inr (stage0, v))" "ended tmax v" "stage0 \<in> set vStage" by auto
  with assms(4) show ?thesis by (auto simp: Sim_run_def)
qed

section \<open>Stages of differential equations\<close>

text \<open>
  The blocks of a stage describe a system of differential equations: \<open>cells\<close> are the variables with their derivatives, in the
  order of the integrators, and \<open>update\<close> stores the right-hand side \<open>F\<close> in the derivatives. \<open>inv\<close> is what the blocks keep of
  their other members.
\<close>

definition state_vec :: "(cell \<times> cell) list \<Rightarrow> 'u world \<Rightarrow> state_vector" where
  "state_vec cells w = (\<lambda>x. if x \<in> fst ` set cells then w_mem w x else 0)"

definition integrates :: "(cell \<times> cell) list \<Rightarrow> nat list \<Rightarrow> 'u world \<Rightarrow> (cell \<Rightarrow> state_obj) \<Rightarrow> bool" where
  "integrates cells bs w ob \<longleftrightarrow> stage_states bs w = map ob (map fst cells) \<and> (\<forall>x. so_class (ob x) = w_integrator w) \<and>
     (\<forall>(x, d) \<in> set cells. so_x (ob x) = x \<and> so_xd (ob x) = d)"

locale differential = block_contract ops bs for ops :: "'u block_ops" and bs +
  fixes cells :: "(cell \<times> cell) list" and F :: "real \<Rightarrow> state_vector \<Rightarrow> state_vector" and inv :: "'u world \<Rightarrow> bool"
  assumes distinct_blocks: "distinct bs"
    and ordered: "in_order cells"
    and F_zero: "x \<notin> fst ` set cells \<Longrightarrow> F t y x = 0"
    and update_derivs: "inv w \<Longrightarrow> (x, d) \<in> set cells \<Longrightarrow>
      w_mem (fold (update_op ops) bs w) d = F (st_t (w_clk w)) (state_vec cells w) x"
    and update_values: "inv w \<Longrightarrow> (x, d) \<in> set cells \<Longrightarrow> w_mem (fold (update_op ops) bs w) x = w_mem w x"
    and update_inv: "inv w \<Longrightarrow> inv (fold (update_op ops) bs w)"
    and rpt_values: "inv w \<Longrightarrow> (x, d) \<in> set cells \<Longrightarrow>
      w_mem (fold (rpt_op ops) bs w) x = w_mem w x \<and> w_mem (fold (rpt_op ops) bs w) d = w_mem w d"
    and rpt_inv: "inv w \<Longrightarrow> inv (fold (rpt_op ops) bs w)"
    and inv_moves: "inv w \<Longrightarrow> (\<And>a. a \<notin> fst ` set cells \<Longrightarrow> m a = w_mem w a) \<Longrightarrow>
      inv (w\<lparr>w_clk := c, w_mem := m, w_vState := v\<rparr>)"
begin

abbreviation variables :: "cell set" where
  "variables \<equiv> fst ` set cells"

lemma integrates_cells: "integrates cells bs w ob \<Longrightarrow> state_cells (stage_states bs w) = cells"
  by (auto simp: integrates_def intro!: map_idI)

text \<open>The world in which the integrators move: the derivatives are those of the start of the pass.\<close>

definition derived :: "'u world \<Rightarrow> 'u world \<Rightarrow> bool" where
  "derived w v \<longleftrightarrow> inv v \<and> w_vState v = w_vState w \<and> w_integrator v = w_integrator w \<and> st_t (w_clk v) = st_t (w_clk w) \<and>
     (\<forall>(x, d) \<in> set cells. w_mem v x = w_mem w x \<and> w_mem v d = F (st_t (w_clk w)) (state_vec cells w) x)"

lemma pass_moves:
  assumes "integrates cells bs w ob" "derived w v" and u_def: "u = (fold propagateStates bs v)\<lparr>w_clk := c\<rparr>"
  shows "integrates cells bs u (pass_objs F (w_clk v) ob (state_vec cells w))"
    and "state_vec cells u = pass_vals variables F (w_clk v) ob (state_vec cells w)" "inv u"
proof -
  let ?y = "state_vec cells w" let ?c = "w_clk v"
  let ?p = "propagate_list ?c (stage_states bs v) (w_mem v)"
  have v: "w_vState v = w_vState w" "st_t ?c = st_t (w_clk w)" using assms(2) by (simp_all add: derived_def)
  have ob: "(x, d) \<in> set cells \<Longrightarrow> so_x (ob x) = x \<and> so_xd (ob x) = d" for x d using assms(1) by (auto simp: integrates_def)
  have ss: "stage_states bs v = map ob (map fst cells)" using assms(1) by (simp add: v(1) integrates_def)
  have io: "in_order (state_cells (stage_states bs v))" using integrates_cells [OF assms(1)] ordered by (simp add: v(1))
  have val: "w_mem v x = ?y x \<and> w_mem v d = F (st_t ?c) ?y x" if "(x, d) \<in> set cells" for x d
    using assms(2) that v(2) by (force simp: derived_def state_vec_def)
  obtain vs where "fold propagateStates bs v = v\<lparr>w_mem := snd ?p, w_vState := vs\<rparr>"
    using fold_propagateStates(2) [OF distinct_blocks, of v] by blast
  then have u: "u = v\<lparr>w_clk := c, w_mem := snd ?p, w_vState := vs\<rparr>" by (simp add: u_def)
  have st: "stage_states bs u = fst ?p" using fold_propagateStates(1) [OF distinct_blocks, of v] by (simp add: u_def)
  have "stage_states bs u = map (pass_objs F ?c ob ?y) (map fst cells)"
    unfolding st propagate_list_objs [OF io] unfolding ss using ob val by (auto simp: pass_objs_def)
  moreover have "so_class (ob x) = w_integrator u" for x using assms(1,2) by (cases x) (simp add: u integrates_def derived_def)
  ultimately show "integrates cells bs u (pass_objs F ?c ob ?y)"
    using ob unfolding integrates_def by (auto simp: pass_objs_def)
  have new: "snd ?p x = moved_val ?c (ob x) (?y x) (F (st_t ?c) ?y x)" if "(x, d) \<in> set cells" for x d
    using propagate_list_vals [OF io, of "ob x" ?c "w_mem v"] ob [OF that] val [OF that] that by (force simp: ss)
  show "state_vec cells u = pass_vals variables F ?c ob ?y"
  proof (rule ext)
    show "state_vec cells u x = pass_vals variables F ?c ob ?y x" for x
    proof (cases "x \<in> variables")
      case True
      then obtain d where "(x, d) \<in> set cells" by auto
      from new [OF this] True show ?thesis by (simp only: state_vec_def [of cells u] pass_vals_def) (simp add: u)
    qed (simp add: state_vec_def [of cells u] pass_vals_def)
  qed
  have "a \<notin> variables \<Longrightarrow> snd ?p a = w_mem v a" for a
    using propagate_list_other [of a "stage_states bs v" ?c "w_mem v"] ob by (force simp: ss)
  then show "inv u" unfolding u using assms(2) by (intro inv_moves) (auto simp: derived_def)
qed

lemma observe_derived:
  assumes "inv w"
  shows "derived w (observe ops tmax bs w)"
proof -
  let ?v = "w\<lparr>w_clk := snd (State_sample EVENT tmax (w_clk w))\<rparr>"
  have "inv ?v" using inv_moves [OF assms, where m = "w_mem w" and c = "w_clk ?v" and v = "w_vState w"] by simp
  moreover have "state_vec cells ?v = state_vec cells w" by (auto simp: state_vec_def fun_eq_iff)
  moreover have "st_t (w_clk ?v) = st_t (w_clk w)" by (simp add: State_sample_def EVENT_def Let_def)
  ultimately show ?thesis
    using update_derivs [of ?v] update_values [of ?v] update_inv [of ?v] observe_keeps [of tmax w]
      samples_clock_fields(1) [OF sampled_clock(1) [of tmax w]]
    by (auto simp: derived_def observe_def)
qed

lemma report_derived:
  assumes "derived w v"
  shows "derived w (report ops bs v)"
proof -
  let ?r = "fold (rpt_op ops) bs v"
  have i: "inv v" using assms by (simp add: derived_def)
  have "inv (report ops bs v)"
    using inv_moves [OF rpt_inv [OF i], where m = "w_mem ?r" and c = "(w_clk ?r)\<lparr>st_tickfirst := 0\<rparr>" and v = "w_vState ?r"]
    by (simp add: report_def Let_def)
  moreover have "st_t (w_clk ?r) = st_t (w_clk v)"
    using rpts_sample [of v] samples_clock_fields(1) unfolding samples_only_def by blast
  ultimately show ?thesis using assms rpt_values [OF i] report_keeps [of v] by (auto simp: derived_def report_def Let_def)
qed

text \<open>The passes of a step do what \<open>vector_pass\<close> does of the vector of the variables.\<close>

lemma passes_vector:
  assumes "at_step tmax w" "kernel_pass ops tmax bs w = Continue w1" "integrates cells bs w ob" "inv w"
    and "k < passes (w_integrator w)"
  shows "\<exists>w' ob'. run_passes ops tmax bs (Suc k) w = Continue w' \<and> w_integrator w' = w_integrator w \<and> inv w' \<and>
    integrates cells bs w' ob' \<and> (w_clk w', ob', state_vec cells w') =
      (vector_pass variables F (w_integrator w) ^^ Suc k) (step_clock tmax w, ob, state_vec cells w)"
  using assms(5)
proof (induction k)
  case 0
  note p = pass_at_step [OF assms(1,2)]
  note m = pass_moves [OF assms(3) report_derived [OF observe_derived [OF assms(4)]] p(1)]
  show ?case using assms(2) p(2) m p(1) by (auto simp: vector_pass_def)
next
  case (Suc k)
  then obtain v ob' where v: "run_passes ops tmax bs (Suc k) w = Continue v" "w_integrator v = w_integrator w" "inv v"
    "integrates cells bs v ob'" "(w_clk v, ob', state_vec cells v) =
      (vector_pass variables F (w_integrator w) ^^ Suc k) (step_clock tmax w, ob, state_vec cells w)" by auto
  from passes_clock [OF assms(1,2), of k] Suc.prems v(1)
  have "w_clk v = (updateclock (w_integrator w) ^^ Suc k) (step_clock tmax w)" by simp
  then have nr: "\<not> st_ready (w_clk v)"
    using updateclock_within(1) [OF pass_at_step(4) [OF assms(1,2)], of "Suc k"] Suc.prems by simp
  from pass_within [OF nr, of tmax] obtain w' where p: "kernel_pass ops tmax bs v = Continue w'"
    "w' = (fold propagateStates bs (observe ops tmax bs v))\<lparr>w_clk := updateclock (w_integrator v) (w_clk v)\<rparr>"
    "w_integrator w' = w_integrator v" by blast
  note m = pass_moves [OF v(4) observe_derived [OF v(3)] p(2)]
  have "(w_clk w', pass_objs F (w_clk v) ob' (state_vec cells v), state_vec cells w') =
      vector_pass variables F (w_integrator w) (w_clk v, ob', state_vec cells v)"
    using m(2) p(2) v(2) observe_within [OF nr, of tmax] by (simp add: vector_pass_def)
  with v p m run_passes_add [OF v(1), of 1] observe_within [OF nr, of tmax] show ?case by fastforce
qed

lemma step_is_rk_step:
  assumes "at_step tmax w" "kernel_pass ops tmax bs w = Continue w1" "integrates cells bs w ob" "inv w"
  shows "\<exists>w' ob'. run_passes ops tmax bs (passes (w_integrator w)) w = Continue w' \<and> inv w' \<and> integrates cells bs w' ob' \<and>
    w_integrator w' = w_integrator w \<and> st_t (w_clk w') > st_t (w_clk w) + EPS \<and>
    state_vec cells w' = rk_step (tableau_of (w_integrator w)) F (st_t (w_clk w)) (st_t (w_clk w') - st_t (w_clk w)) (state_vec cells w)"
proof -
  let ?cls = "w_integrator w" let ?c = "step_clock tmax w" let ?y = "state_vec cells w"
  obtain k where k: "passes ?cls = Suc k" by (cases ?cls) (simp_all add: passes_def)
  from passes_vector [OF assms, of k] k obtain w' ob' where w': "run_passes ops tmax bs (passes ?cls) w = Continue w'"
    "inv w'" "integrates cells bs w' ob'" "w_integrator w' = ?cls"
    "(w_clk w', ob', state_vec cells w') = (vector_pass variables F ?cls ^^ passes ?cls) (?c, ob, ?y)" by auto
  note b = step_clock_bounds [OF assms(1) pass_at_step(3) [OF assms(1,2)]]
  have "snd (snd ((vector_pass variables F ?cls ^^ passes ?cls) (?c, ob, ?y))) = rk_step (tableau_of ?cls) F (st_t ?c) (st_dt ?c) ?y"
    by (rule passes_compute_rk_step) (use assms(3) pass_at_step(4) [OF assms(1,2)] b(3) F_zero in
        \<open>auto simp: integrates_def step_clock_fields(1) state_vec_def\<close>)
  then have "state_vec cells w' = rk_step (tableau_of ?cls) F (st_t (w_clk w)) (st_dt ?c) ?y"
    unfolding w'(5) [symmetric] by (simp add: step_clock_fields(1))
  with step_completed [OF assms(1,2)] w' b(3) show ?thesis by auto
qed

text \<open>An invariant of the steps of a stage: its values at the end follow from one Runge-Kutta step.\<close>

lemma completed_step_is_rk_step:
  assumes "at_step tmax w" "run_passes ops tmax bs (passes (w_integrator w)) w = Continue w'"
    and "\<exists>ob. integrates cells bs w ob" "inv w"
  shows "inv w'" "\<exists>ob. integrates cells bs w' ob" "w_integrator w' = w_integrator w"
    "state_vec cells w' = rk_step (tableau_of (w_integrator w)) F (st_t (w_clk w)) (st_t (w_clk w') - st_t (w_clk w)) (state_vec cells w)"
proof -
  have "\<exists>w1. kernel_pass ops tmax bs w = Continue w1"
    using assms(2) by (cases "w_integrator w") (auto simp: passes_def numeral_eq_Suc split: pass.splits)
  then obtain w1 ob where "kernel_pass ops tmax bs w = Continue w1" "integrates cells bs w ob" using assms(3) by blast
  from step_is_rk_step [OF assms(1) this assms(4)] assms(2)
  show "inv w'" "\<exists>ob. integrates cells bs w' ob" "w_integrator w' = w_integrator w"
    "state_vec cells w' = rk_step (tableau_of (w_integrator w)) F (st_t (w_clk w)) (st_t (w_clk w') - st_t (w_clk w)) (state_vec cells w)"
    by auto
qed

lemma stage_loop_inv:
  assumes "at_step tmax w" "inv w" "\<exists>ob. integrates cells bs w ob"
    and "\<And>w w'. at_step tmax w \<Longrightarrow> inv w \<Longrightarrow> \<exists>ob. integrates cells bs w ob \<Longrightarrow> kernel_pass ops tmax bs w = Break w' \<Longrightarrow> Q w'"
  shows "\<exists>w'. stage_loop ops tmax bs w = Some (Inr w') \<and> Q w'"
  by (rule stage_loop_returns [where P = "\<lambda>w. inv w \<and> (\<exists>ob. integrates cells bs w ob)"])
    (use assms completed_step_is_rk_step(1,2) in blast)+

end

text \<open>The integrators that \<open>addIntegrator\<close> made, in the order of the variables.\<close>

definition has_integrators :: "(cell \<times> cell) list \<Rightarrow> nat list \<Rightarrow> 'u world \<Rightarrow> bool" where
  "has_integrators cells bs w \<longleftrightarrow> state_cells (stage_states bs w) = cells \<and>
     (\<forall>s \<in> set (stage_states bs w). so_class s = w_integrator w)"

lemma integrates_has: "integrates cells bs w ob \<Longrightarrow> has_integrators cells bs w"
  by (auto simp: integrates_def has_integrators_def intro!: map_idI)

lemma integratesI:
  "map ob (map fst cells) = stage_states bs w \<Longrightarrow> (\<And>x. so_class (ob x) = w_integrator w) \<Longrightarrow>
     (\<And>x d. (x, d) \<in> set cells \<Longrightarrow> so_x (ob x) = x \<and> so_xd (ob x) = d) \<Longrightarrow> integrates cells bs w ob"
  by (auto simp: integrates_def)

lemma in_order_distinct: "in_order cells \<Longrightarrow> distinct (map fst cells)"
  by (induction cells) (auto simp: in_order_def)

lemma has_integrates:
  assumes "has_integrators cells bs w" "in_order cells"
  shows "\<exists>ob. integrates cells bs w ob"
proof -
  let ?ss = "stage_states bs w"
  let ?ob = "\<lambda>x. case map_of (zip (map fst cells) ?ss) x of Some s \<Rightarrow> s | None \<Rightarrow> State_new (w_integrator w) 0 x x"
  have c: "cells = state_cells ?ss" using assms(1) by (simp add: has_integrators_def)
  then have l: "length cells = length ?ss" by (metis length_map)
  have d: "distinct (map fst cells)" by (rule in_order_distinct [OF assms(2)])
  have ob: "?ob (fst (cells ! i)) = ?ss ! i" if "i < length cells" for i
    using map_of_zip_nth [of "map fst cells" ?ss i] d l that by simp
  have "map ?ob (map fst cells) = ?ss" using ob l by (intro nth_equalityI) auto
  moreover have "so_class (?ob x) = w_integrator w" for x
  proof (cases "map_of (zip (map fst cells) ?ss) x")
    case (Some s)
    then have "s \<in> set ?ss" by (metis map_of_SomeD set_zip_rightD)
    then have "so_class s = w_integrator w" using assms(1) unfolding has_integrators_def by blast
    with Some show ?thesis by simp
  qed (simp add: State_new_def)
  moreover have "so_x (?ob x) = x \<and> so_xd (?ob x) = e" if xe: "(x, e) \<in> set cells" for x e
  proof -
    from xe obtain i where i: "i < length cells" "cells ! i = (x, e)" by (metis in_set_conv_nth)
    have "state_cells ?ss ! i = (so_x (?ss ! i), so_xd (?ss ! i))" using i(1) l by (intro nth_map) simp
    then have "(x, e) = (so_x (?ss ! i), so_xd (?ss ! i))" using arg_cong [OF c, of "\<lambda>z. z ! i"] i(2) by (simp only:)
    moreover have "?ob x = ?ss ! i" using ob [OF i(1)] i(2) by (simp only: fst_conv)
    ultimately show ?thesis by (simp only: prod.inject)
  qed
  ultimately show ?thesis by (intro exI [of _ ?ob] integratesI)
qed

end
