(* ===== verification/CmdModels.thy ===== *)
theory CmdModels
  imports RungeKutta
begin

text \<open>
  The blocks of the CMD models (\<open>src/Models/CMD/CMD_Target.cpp\<close>, \<open>CMD_Radar.cpp\<close>, \<open>CMD_Missile.cpp\<close>): a target flying straight
  on, the servo of a radar following it, and a missile flying towards it, each run by the simulation kernel in a thread of its
  own process. The \<open>double\<close> members of a block are the cells of the object; the global \<open>gTarget\<close> and \<open>gTime\<close> are cells of object
  0. The lines that \<open>rpt\<close> prints are kept in \<open>w_user\<close>. The functions here are those of the classes \<open>Target\<close>, \<open>Radar\<close> and \<open>Missile\<close>;
  the waits that the class \<open>Surrogate\<close> puts around those of the target and the radar are the subject of the theories \<open>LockStep\<close> and
  \<open>RadarThreads\<close>. A quotient with a zero divisor is the argument \<open>nan\<close>
  where C++ has no number either.
\<close>

section \<open>Blocks\<close>

datatype print_line = Print_Target real real real | Print_Radar real real | Print_Missile real real real real

type_synonym cmd_world = "print_line list world"

definition gTarget_x :: cell where "gTarget_x = (0, ''gTarget.x'')"
definition gTarget_y :: cell where "gTarget_y = (0, ''gTarget.y'')"
definition gTime :: cell where "gTime = (0, ''gTime'')"

definition print :: "print_line \<Rightarrow> cmd_world \<Rightarrow> cmd_world" where
  "print l w = w\<lparr>w_user := w_user w @ [l]\<rparr>"

definition store :: "cell \<Rightarrow> real \<Rightarrow> 'u world \<Rightarrow> 'u world" where
  "store a v w = w\<lparr>w_mem := (w_mem w)(a := v)\<rparr>"

definition Target_new :: "real \<Rightarrow> nat \<Rightarrow> real \<Rightarrow> real \<Rightarrow> real \<Rightarrow> real \<Rightarrow> cmd_world \<Rightarrow> cmd_world option" where
  "Target_new junk b x y vx vy w =
     (let w1 = store (b, ''vy'') vy (store (b, ''vx'') vx (store (b, ''y'') y (store (b, ''x'') x w)))
      in case addIntegrator junk b (b, ''x'') (b, ''vx'') w1 of
           None \<Rightarrow> None
         | Some w2 \<Rightarrow> addIntegrator junk b (b, ''y'') (b, ''vy'') w2)"

definition Target_rpt :: "nat \<Rightarrow> cmd_world \<Rightarrow> cmd_world" where
  "Target_rpt b w = print (Print_Target (st_t (w_clk w)) (w_mem w (b, ''x'')) (w_mem w (b, ''y''))) w"

definition Block_init :: "nat \<Rightarrow> cmd_world \<Rightarrow> cmd_world" where
  "Block_init b w = w"

definition Block_update :: "nat \<Rightarrow> cmd_world \<Rightarrow> cmd_world" where
  "Block_update b w = w"

definition target_ops :: "print_line list block_ops" where
  "target_ops = \<lparr>init_op = Block_init, update_op = Block_update, rpt_op = Target_rpt\<rparr>"

text \<open>Radians to degrees.\<close>

definition deg :: real where
  "deg = 180 / pi"

definition atan_quotient :: "real \<Rightarrow> real \<Rightarrow> real \<Rightarrow> real" where
  "atan_quotient nan y x =
     (if x \<noteq> 0 then arctan (y / x) else if y > 0 then pi / 2 else if y < 0 then - (pi / 2) else nan)"

definition Radar_new :: "real \<Rightarrow> nat \<Rightarrow> real \<Rightarrow> real \<Rightarrow> real \<Rightarrow> cmd_world \<Rightarrow> cmd_world option" where
  "Radar_new junk b theta wn zeta w =
     (let w1 = store (b, ''zeta'') zeta (store (b, ''wn'') wn (store (b, ''x2'') 0 (store (b, ''x1'') (theta / deg) w)))
      in case addIntegrator junk b (b, ''x1'') (b, ''x1d'') w1 of
           None \<Rightarrow> None
         | Some w2 \<Rightarrow> addIntegrator junk b (b, ''x2'') (b, ''x2d'') w2)"

text \<open>The constructor of the surrogate of the radar puts the target to (0, 5).\<close>

definition Surrogate_Radar_new :: "real \<Rightarrow> nat \<Rightarrow> real \<Rightarrow> real \<Rightarrow> real \<Rightarrow> cmd_world \<Rightarrow> cmd_world option" where
  "Surrogate_Radar_new junk b theta wn zeta w =
     (case Radar_new junk b theta wn zeta w of None \<Rightarrow> None | Some w1 \<Rightarrow> Some (store gTarget_y 5 (store gTarget_x 0 w1)))"

definition Radar_update :: "real \<Rightarrow> nat \<Rightarrow> cmd_world \<Rightarrow> cmd_world" where
  "Radar_update nan b w =
     (let m = w_mem w;
          theta_target = atan_quotient nan (m gTarget_y) (m gTarget_x);
          theta_err = theta_target - m (b, ''x1'');
          w1 = store (b, ''theta_err'') theta_err w;
          w2 = (if \<bar>theta_err * deg\<bar> < 1 \<and> w_stop w1 = 0 then w1\<lparr>w_stop := 1\<rparr> else w1);
          w3 = store (b, ''x1d'') (w_mem w2 (b, ''x2'')) w2
      in store (b, ''x2d'') (theta_err * m (b, ''wn'') * m (b, ''wn'') - 2 * m (b, ''zeta'') * m (b, ''wn'') * m (b, ''x2'')) w3)"

definition Radar_rpt :: "nat \<Rightarrow> cmd_world \<Rightarrow> cmd_world" where
  "Radar_rpt b w = print (Print_Radar (st_t (w_clk w)) (w_mem w (b, ''theta_err'') * deg)) w"

text \<open>
  The virtual functions of the class \<open>Radar\<close>. \<open>Surrogate<Radar>\<close> overrides \<open>update\<close>, and calls this one between its wait and its notification
  (\<open>RadarThreads.Surrogate_update\<close>).
\<close>

definition radar_ops :: "real \<Rightarrow> print_line list block_ops" where
  "radar_ops nan = \<lparr>init_op = Block_init, update_op = Radar_update nan, rpt_op = Radar_rpt\<rparr>"

definition quotient :: "real \<Rightarrow> real \<Rightarrow> real \<Rightarrow> real" where
  "quotient nan a d = (if d = 0 then nan else a / d)"

definition Missile_new :: "real \<Rightarrow> nat \<Rightarrow> real \<Rightarrow> real \<Rightarrow> real \<Rightarrow> cmd_world \<Rightarrow> cmd_world option" where
  "Missile_new junk b x y vel w =
     (let w1 = store (b, ''vel'') vel (store (b, ''y'') y (store (b, ''x'') x w))
      in case addIntegrator junk b (b, ''x'') (b, ''vx'') w1 of
           None \<Rightarrow> None
         | Some w2 \<Rightarrow> addIntegrator junk b (b, ''y'') (b, ''vy'') w2)"

definition Missile_update :: "real \<Rightarrow> nat \<Rightarrow> cmd_world \<Rightarrow> cmd_world" where
  "Missile_update nan b w =
     (let m = w_mem w;
          dx = m gTarget_x - m (b, ''x'');
          dy = m gTarget_y - m (b, ''y'');
          d = sqrt (dx * dx + dy * dy);
          w1 = store (b, ''d'') d w;
          w2 = store (b, ''vx'') (quotient nan (m (b, ''vel'') * (m gTarget_x - m (b, ''x''))) d) w1;
          w3 = store (b, ''vy'') (quotient nan (m (b, ''vel'') * (m gTarget_y - m (b, ''y''))) d) w2
      in if d \<le> 1 / 10 then w3\<lparr>w_stop := -1\<rparr> else w3)"

definition Missile_rpt :: "nat \<Rightarrow> cmd_world \<Rightarrow> cmd_world" where
  "Missile_rpt b w =
     print (Print_Missile (st_t (w_clk w)) (w_mem w (b, ''x'')) (w_mem w (b, ''y'')) (w_mem w (b, ''d''))) w"

text \<open>The surrogate of the missile: it starts again with every stage, and stands still until the stop of the radar came.\<close>

definition Surrogate_Missile_new :: "real \<Rightarrow> nat \<Rightarrow> real \<Rightarrow> real \<Rightarrow> real \<Rightarrow> int \<Rightarrow> cmd_world \<Rightarrow> cmd_world option" where
  "Surrogate_Missile_new junk b x y vel ini w =
     (case Missile_new junk b x y vel w of
        None \<Rightarrow> None
      | Some w1 \<Rightarrow>
          let w2 = store (b, ''velo'') vel (store (b, ''yo'') y (store (b, ''xo'') x w1))
          in Some (if ini \<noteq> 0 then store gTarget_y 5 (store gTarget_x 20 w2) else w2))"

definition Surrogate_Missile_init :: "nat \<Rightarrow> cmd_world \<Rightarrow> cmd_world" where
  "Surrogate_Missile_init b w =
     (let w0 = Block_init b w;
          c = (w_clk w0)\<lparr>st_t := w_mem w0 gTime + st_dtp (w_clk w0)\<rparr>;
          w1 = w0\<lparr>w_clk := c\<lparr>st_t1 := st_t c + st_dtp c\<rparr>\<rparr>
      in store (b, ''vel'') (w_mem w1 (b, ''velo''))
           (store (b, ''vy'') 0 (store (b, ''vx'') 0
             (store (b, ''y'') (w_mem w1 (b, ''yo'')) (store (b, ''x'') (w_mem w1 (b, ''xo'')) w1)))))"

definition Surrogate_Missile_update :: "real \<Rightarrow> nat \<Rightarrow> cmd_world \<Rightarrow> cmd_world" where
  "Surrogate_Missile_update nan b w =
     (if w_stop w = 0 then w\<lparr>w_clk := (w_clk w)\<lparr>st_t := 0\<rparr>\<rparr> else Missile_update nan b w)"

definition Surrogate_Missile_rpt :: "nat \<Rightarrow> cmd_world \<Rightarrow> cmd_world" where
  "Surrogate_Missile_rpt b w = (if w_stop w = 0 then w else Missile_rpt b w)"

definition missile_ops :: "real \<Rightarrow> print_line list block_ops" where
  "missile_ops nan = \<lparr>init_op = Surrogate_Missile_init, update_op = Surrogate_Missile_update nan, rpt_op = Surrogate_Missile_rpt\<rparr>"

section \<open>The model of the target\<close>

text \<open>
  The members of \<open>CMD_Target\<close> and the globals of its file: the target in use, the stages of the simulation, the messages
  published, and the targets that were deleted. The stages are a global that every case appends to.
\<close>

record cmd_target =
  ct_x :: real
  ct_y :: real
  ct_vx :: real
  ct_vy :: real
  ct_stop :: int
  ct_target :: nat
  ct_vStage :: "nat list list"
  ct_published :: "(real \<times> real \<times> real \<times> real) list"
  ct_deleted :: "nat list"

definition target_dts :: "real list" where
  "target_dts = [1 / 100, 1 / 100]"

definition target_tmax :: real where
  "target_tmax = 10"

definition target_state :: "nat \<Rightarrow> cmd_world \<Rightarrow> real \<times> real \<times> real \<times> real" where
  "target_state b w = (w_mem w (b, ''x''), w_mem w (b, ''y''), w_mem w (b, ''vx''), w_mem w (b, ''vy''))"

text \<open>\<open>b\<close> is the address of the new target.\<close>

definition CMD_Target_InitCase :: "real \<Rightarrow> nat \<Rightarrow> cmd_target \<times> cmd_world \<Rightarrow> (cmd_target \<times> cmd_world) option" where
  "CMD_Target_InitCase junk b s =
     (let (m, w) = s;
          m1 = m\<lparr>ct_x := 20, ct_y := 5, ct_vx := -1, ct_vy := 0, ct_stop := 0\<rparr>
      in case Target_new junk b (ct_x m1) (ct_y m1) (ct_vx m1) (ct_vy m1) w of
           None \<Rightarrow> None
         | Some w1 \<Rightarrow>
             Some (m1\<lparr>ct_target := b, ct_vStage := ct_vStage m1 @ [[b]] @ [[b]],
                      ct_published := ct_published m1 @ [target_state b w1]\<rparr>, w1))"

definition run_cmd_side :: "cmd_target \<Rightarrow> cmd_world \<Rightarrow> (sim_error + cmd_world) option" where
  "run_cmd_side m w = Sim_run target_ops target_dts target_tmax (ct_vStage m) w"

text \<open>What \<open>MonteCarlo_Step\<close> does when it is its turn.\<close>

definition CMD_Target_publish :: "cmd_target \<Rightarrow> cmd_world \<Rightarrow> cmd_target" where
  "CMD_Target_publish m w =
     (let (x, y, vx, vy) = target_state (ct_target m) w
      in m\<lparr>ct_x := x, ct_y := y, ct_vx := vx, ct_vy := vy, ct_published := ct_published m @ [(x, y, vx, vy)]\<rparr>)"

definition CMD_Target_EndRun :: "cmd_target \<Rightarrow> cmd_target" where
  "CMD_Target_EndRun m = m\<lparr>ct_deleted := ct_deleted m @ [ct_target m]\<rparr>"

definition CMD_Target_processStop :: "int \<Rightarrow> cmd_world \<Rightarrow> cmd_world" where
  "CMD_Target_processStop stop w = w\<lparr>w_stop := stop\<rparr>"

section \<open>The blocks are differential equations\<close>

text \<open>The members that only the constructors write, and the rest of the world, which a run of the target leaves alone.\<close>

definition target_inv :: "nat \<Rightarrow> real \<Rightarrow> real \<Rightarrow> memory \<Rightarrow> cmd_world \<Rightarrow> bool" where
  "target_inv b vx vy m0 w \<longleftrightarrow> w_mem w (b, ''vx'') = vx \<and> w_mem w (b, ''vy'') = vy \<and> w_stop w = 0 \<and> w_stop0 w = 0 \<and>
     (\<forall>a. fst a \<noteq> b \<longrightarrow> w_mem w a = m0 a)"

abbreviation target_cells :: "nat \<Rightarrow> (cell \<times> cell) list" where
  "target_cells b \<equiv> [((b, ''x''), (b, ''vx'')), ((b, ''y''), (b, ''vy''))]"

definition target_rhs :: "nat \<Rightarrow> real \<Rightarrow> real \<Rightarrow> real \<Rightarrow> state_vector \<Rightarrow> state_vector" where
  "target_rhs b vx vy t y = (\<lambda>a. if a = (b, ''x'') then vx else if a = (b, ''y'') then vy else 0)"

lemmas target_simps = target_ops_def Block_init_def Block_update_def Target_rpt_def print_def

interpretation target: differential target_ops "[b]" "target_cells b" "target_rhs b vx vy" "target_inv b vx vy m0"
  for b vx vy m0
  by unfold_locales (auto simp: target_simps samples_only_def in_order_def target_rhs_def target_inv_def)

abbreviation radar_cells :: "nat \<Rightarrow> (cell \<times> cell) list" where
  "radar_cells b \<equiv> [((b, ''x1''), (b, ''x1d'')), ((b, ''x2''), (b, ''x2d''))]"

definition radar_inv :: "nat \<Rightarrow> real \<Rightarrow> real \<Rightarrow> real \<Rightarrow> real \<Rightarrow> int \<Rightarrow> cmd_world \<Rightarrow> bool" where
  "radar_inv b tx ty wn zeta s w \<longleftrightarrow> w_mem w gTarget_x = tx \<and> w_mem w gTarget_y = ty \<and> w_mem w (b, ''wn'') = wn \<and>
     w_mem w (b, ''zeta'') = zeta \<and> w_stop0 w = s \<and> (w_stop w = s \<or> s = 0 \<and> w_stop w = 1)"

text \<open>The servo: a damped oscillator of frequency \<open>wn\<close> and damping \<open>zeta\<close> about the direction of the target.\<close>

definition radar_rhs :: "real \<Rightarrow> nat \<Rightarrow> real \<Rightarrow> real \<Rightarrow> real \<Rightarrow> real \<Rightarrow> real \<Rightarrow> state_vector \<Rightarrow> state_vector" where
  "radar_rhs nan b tx ty wn zeta t y =
     (\<lambda>a. if a = (b, ''x1'') then y (b, ''x2'')
          else if a = (b, ''x2'') then (atan_quotient nan ty tx - y (b, ''x1'')) * wn * wn - 2 * zeta * wn * y (b, ''x2'')
          else 0)"

lemmas radar_simps = radar_ops_def Block_init_def Radar_update_def Radar_rpt_def print_def store_def gTarget_x_def gTarget_y_def Let_def

interpretation radar: differential "radar_ops nan" "[b]" "radar_cells b" "radar_rhs nan b tx ty wn zeta" "radar_inv b tx ty wn zeta s"
  for nan b tx ty wn zeta s
  by unfold_locales (auto simp: radar_simps samples_only_def in_order_def radar_rhs_def radar_inv_def state_vec_def)

section \<open>A run of the target\<close>

text \<open>With constant slopes every integrator is exact.\<close>

lemma rk_step_constant: "rk_step (tableau_of cls) (target_rhs b vx vy) t h y a = y a + h * target_rhs b vx vy t y a"
  by (cases cls) (simp_all add: rk_step_def tableau_of_def target_rhs_def)

abbreviation on_line :: "nat \<Rightarrow> (real \<times> real) \<times> (real \<times> real) \<Rightarrow> cmd_world \<Rightarrow> bool" where
  "on_line b l w \<equiv> w_mem w (b, ''x'') = fst (fst l) + fst (snd l) * st_t (w_clk w) \<and>
     w_mem w (b, ''y'') = snd (fst l) + snd (snd l) * st_t (w_clk w)"

definition flying :: "nat \<Rightarrow> (real \<times> real) \<times> (real \<times> real) \<Rightarrow> integrator \<Rightarrow> memory \<Rightarrow> cmd_world \<Rightarrow> bool" where
  "flying b l cls m0 w \<longleftrightarrow> target_inv b (fst (snd l)) (snd (snd l)) m0 w \<and> has_integrators (target_cells b) [b] w \<and>
     w_integrator w = cls \<and> on_line b l w"

lemma flying_step:
  assumes "at_step tmax w" "flying b l cls m0 w" "run_passes target_ops tmax [b] (passes (w_integrator w)) w = Continue w'"
  shows "flying b l cls m0 w'"
proof -
  have "\<exists>ob. integrates (target_cells b) [b] w ob"
    using assms(2) by (intro has_integrates) (auto simp: flying_def in_order_def)
  note s = target.completed_step_is_rk_step [OF assms(1,3) this, of "fst (snd l)" "snd (snd l)" m0]
  have i: "target_inv b (fst (snd l)) (snd (snd l)) m0 w" using assms(2) by (simp add: flying_def)
  have m: "w_mem w' a = w_mem w a + (st_t (w_clk w') - st_t (w_clk w)) * target_rhs b (fst (snd l)) (snd (snd l)) 0 (w_mem w) a"
    if "a \<in> {(b, ''x''), (b, ''y'')}" for a
    using fun_cong [OF s(4) [OF i], of a] that by (auto simp: rk_step_constant state_vec_def target_rhs_def)
  have "on_line b l w'"
    using assms(2) m [of "(b, ''x'')"] m [of "(b, ''y'')"] by (simp add: flying_def target_rhs_def) (simp add: algebra_simps)
  with s(1-3) [OF i] assms(2) show ?thesis by (auto simp: flying_def dest: integrates_has)
qed

lemma target_observe: "observe target_ops tmax [b] w = w\<lparr>w_clk := snd (State_sample EVENT tmax (w_clk w))\<rparr>"
  by (simp add: observe_def target_simps)

lemma target_report: "report target_ops [b] w = (Target_rpt b w)\<lparr>w_clk := (w_clk w)\<lparr>st_tickfirst := 0\<rparr>\<rparr>"
  by (simp add: report_def target_simps)

lemma flying_clock:
  "st_t c = st_t (w_clk w) \<Longrightarrow> flying b l cls m0 (w\<lparr>w_clk := c, w_user := u\<rparr>) = flying b l cls m0 w"
  by (simp add: flying_def target_inv_def has_integrators_def)

lemma flying_break:
  assumes "at_step tmax w" "flying b l cls m0 w" "kernel_pass target_ops tmax [b] w = Break w'"
  shows "w_stop w' = -1" "tmax \<le> st_t (w_clk w') + EPS" "st_t (w_clk w') \<le> tmax + EPS" "flying b l cls m0 (w'\<lparr>w_stop := 0\<rparr>)"
proof -
  let ?c = "(snd (State_sample EVENT tmax (w_clk w)))\<lparr>st_tickfirst := 0\<rparr>"
  have t: "st_t ?c = st_t (w_clk w)" "st_ready ?c = st_ready (w_clk w)" by (simp_all add: State_sample_def EVENT_def Let_def)
  define u where "u = w_user w @ [Print_Target (st_t (w_clk w)) (w_mem w (b, ''x'')) (w_mem w (b, ''y''))]"
  have r: "report target_ops [b] (observe target_ops tmax [b] w) = w\<lparr>w_clk := ?c, w_user := u\<rparr>"
    using t(1) by (simp add: target_observe target_report Target_rpt_def print_def u_def)
  have z: "w_stop w = 0" "w_stop0 w = 0" "st_ready (w_clk w)" "st_t (w_clk w) \<le> tmax + EPS"
    using assms(1,2) by (simp_all add: flying_def target_inv_def at_step_def)
  have "tmax \<le> st_t (w_clk w) + EPS \<and> w' = w\<lparr>w_clk := ?c, w_user := u, w_stop := -1\<rparr>"
    using assms(3) z t by (auto simp: kernel_pass_def Let_def r [unfolded target_observe] integrate_def target_observe split: if_splits)
  then have w': "tmax \<le> st_t (w_clk w) + EPS" "w' = w\<lparr>w_clk := ?c, w_user := u, w_stop := -1\<rparr>" by auto
  show "w_stop w' = -1" "tmax \<le> st_t (w_clk w') + EPS" "st_t (w_clk w') \<le> tmax + EPS"
    using w' z(4) t(1) by (simp_all del: clock.update_convs)
  have "w'\<lparr>w_stop := 0\<rparr> = w\<lparr>w_clk := ?c, w_user := u\<rparr>" using z(1) unfolding w'(2) by simp
  then show "flying b l cls m0 (w'\<lparr>w_stop := 0\<rparr>)" using flying_clock [OF t(1)] assms(2) by simp
qed

text \<open>A stage of the target alone returns at \<open>tmax\<close>.\<close>

lemma flying_stage:
  assumes "at_step tmax w" "flying b l cls m0 w"
  shows "\<exists>w'. stage_loop target_ops tmax [b] w = Some (Inr w') \<and> w_stop w' = -1 \<and> \<bar>st_t (w_clk w') - tmax\<bar> \<le> EPS \<and>
    flying b l cls m0 (w'\<lparr>w_stop := 0\<rparr>)"
proof (rule target.stage_loop_returns [where P = "flying b l cls m0"])
  fix w w' :: cmd_world
  assume "at_step tmax w" "flying b l cls m0 w" "kernel_pass target_ops tmax [b] w = Break w'"
  from flying_break [OF this] show "w_stop w' = -1 \<and> \<bar>st_t (w_clk w') - tmax\<bar> \<le> EPS \<and> flying b l cls m0 (w'\<lparr>w_stop := 0\<rparr>)"
    by linarith
qed (use assms flying_step in blast)+

definition line_of :: "nat \<Rightarrow> cmd_world \<Rightarrow> (real \<times> real) \<times> (real \<times> real)" where
  "line_of b w = ((w_mem w (b, ''x''), w_mem w (b, ''y'')), (w_mem w (b, ''vx''), w_mem w (b, ''vy'')))"

lemma flying_start:
  assumes "has_integrators (target_cells b) [b] w" "EPS < d" "0 \<le> tmax"
    and w0_def: "w0 = start_stage target_ops d [b] (start_run ([b] # rest) w)"
  shows "at_step tmax w0" "flying b (line_of b w) (w_integrator w) (w_mem w) w0" "st_ticklast (w_clk w0) = 0"
proof -
  obtain n where n: "start_run ([b] # rest) w = w\<lparr>w_clk := State_set (w_clk w), w_stop := 0, w_stop0 := 0, w_initCount := n\<rparr>"
    using start_run_eq by blast
  have "0 \<le> tmax + EPS" using assms(3) EPS_pos(1) by linarith
  then show "at_step tmax w0"
    unfolding w0_def using assms(2) by (intro target.start_stage_at_step) (simp_all add: n at_step_clock_def State_set_def)
  show "flying b (line_of b w) (w_integrator w) (w_mem w) w0" "st_ticklast (w_clk w0) = 0"
    using assms(1) unfolding w0_def
    by (simp_all add: n flying_def target_inv_def has_integrators_def start_stage_def init_block_def target_simps State_set_def
        State_reset_def line_of_def)
qed

text \<open>
  A run whose first stage is a target moves this target on its straight line up to \<open>tmax\<close>, and nothing else: the run is over
  with its first stage.
\<close>

lemma target_run:
  assumes "has_integrators (target_cells b) [b] w" "EPS < d" "0 \<le> tmax"
  shows "\<exists>w'. Sim_run target_ops (d # dts) tmax ([b] # rest) w = Some (Inr w') \<and> \<bar>st_t (w_clk w') - tmax\<bar> \<le> EPS \<and>
    w_mem w' (b, ''x'') = w_mem w (b, ''x'') + w_mem w (b, ''vx'') * st_t (w_clk w') \<and>
    w_mem w' (b, ''y'') = w_mem w (b, ''y'') + w_mem w (b, ''vy'') * st_t (w_clk w') \<and>
    w_mem w' (b, ''vx'') = w_mem w (b, ''vx'') \<and> w_mem w' (b, ''vy'') = w_mem w (b, ''vy'') \<and>
    (\<forall>a. fst a \<noteq> b \<longrightarrow> w_mem w' a = w_mem w a) \<and> w_integrator w' = w_integrator w \<and>
    has_integrators (target_cells b) [b] w'"
proof -
  let ?w = "start_stage target_ops d [b] (start_run ([b] # rest) w)"
  obtain v where v: "stage_loop target_ops tmax [b] ?w = Some (Inr v)" "w_stop v = -1" "\<bar>st_t (w_clk v) - tmax\<bar> \<le> EPS"
    "flying b (line_of b w) (w_integrator w) (w_mem w) (v\<lparr>w_stop := 0\<rparr>)"
    using flying_stage [OF flying_start(1,2) [OF assms refl]] by blast
  then have "Sim_run target_ops (d # dts) tmax ([b] # rest) w =
      Some (Inr (Target_rpt b (v\<lparr>w_clk := (w_clk v)\<lparr>st_ticklast := 1\<rparr>\<rparr>)))"
    by (simp add: Sim_run_def) (simp add: target_ops_def)
  with v(3,4) show ?thesis
    by (auto simp: flying_def target_inv_def has_integrators_def Target_rpt_def print_def line_of_def)
qed

section \<open>A run of the radar\<close>

text \<open>A stage of the radar ends at \<open>tmax\<close>, or when the target is within one degree for the first time.\<close>

lemma radar_break:
  assumes "at_step tmax w" "radar_inv b tx ty wn zeta s w" "has_integrators (radar_cells b) [b] w"
    and "kernel_pass (radar_ops nan) tmax [b] w = Break w'"
  shows "at_step_clock tmax (w_clk w')" "has_integrators (radar_cells b) [b] w'"
    "w_stop w' = -1 \<and> tmax \<le> st_t (w_clk w') + EPS \<or> s = 0 \<and> radar_inv b tx ty wn zeta 1 w'"
proof -
  let ?o = "observe (radar_ops nan) tmax [b] w"
  let ?r = "report (radar_ops nan) [b] ?o"
  have d: "radar.derived b nan tx ty wn zeta s w ?r"
    by (rule radar.report_derived [OF radar.observe_derived [OF assms(2)]])
  have "has_integrators (radar_cells b) [b] ?r" using assms(3) d by (simp add: has_integrators_def radar.derived_def)
  moreover have "w' = ?r\<lparr>w_stop0 := w_stop ?r\<rparr> \<or> w' = ?r\<lparr>w_stop := -1\<rparr>"
    using assms(4) by (auto simp: kernel_pass_def integrate_def Let_def split: if_splits)
  ultimately show "has_integrators (radar_cells b) [b] w'" by (auto simp: has_integrators_def)
  show "at_step_clock tmax (w_clk w')" by (rule radar.break_pass(1) [OF assms(1,4)])
  have i: "radar_inv b tx ty wn zeta s ?r" using d by (simp add: radar.derived_def)
  then show "w_stop w' = -1 \<and> tmax \<le> st_t (w_clk w') + EPS \<or> s = 0 \<and> radar_inv b tx ty wn zeta 1 w'"
    using assms(1,4) radar.step_clock_fields(5) [where tmax = tmax and w = w]
    by (auto simp: kernel_pass_def integrate_def Let_def at_step_def radar_inv_def split: if_splits)
qed

lemma radar_stage:
  assumes "at_step tmax w" "radar_inv b tx ty wn zeta s w" "has_integrators (radar_cells b) [b] w"
  shows "\<exists>w'. stage_loop (radar_ops nan) tmax [b] w = Some (Inr w') \<and> at_step_clock tmax (w_clk w') \<and>
    has_integrators (radar_cells b) [b] w' \<and>
    (w_stop w' = -1 \<and> tmax \<le> st_t (w_clk w') + EPS \<or> s = 0 \<and> radar_inv b tx ty wn zeta 1 w')"
proof (rule radar.stage_loop_inv [OF assms(1,2)])
  show "\<exists>ob. integrates (radar_cells b) [b] w ob" using assms(3) by (rule has_integrates) (simp add: in_order_def)
  fix v w'
  assume v: "at_step tmax v" "radar_inv b tx ty wn zeta s v" "\<exists>ob. integrates (radar_cells b) [b] v ob"
    "kernel_pass (radar_ops nan) tmax [b] v = Break w'"
  then have "has_integrators (radar_cells b) [b] v" using integrates_has by blast
  from radar_break [OF v(1,2) this v(4)] show "at_step_clock tmax (w_clk w') \<and> has_integrators (radar_cells b) [b] w' \<and>
      (w_stop w' = -1 \<and> tmax \<le> st_t (w_clk w') + EPS \<or> s = 0 \<and> radar_inv b tx ty wn zeta 1 w')" by blast
qed

lemma radar_start:
  assumes "at_step_clock tmax (w_clk w)" "radar_inv b tx ty wn zeta s w" "has_integrators (radar_cells b) [b] w" "EPS < d"
  shows "at_step tmax (start_stage (radar_ops nan) d [b] w)" "radar_inv b tx ty wn zeta s (start_stage (radar_ops nan) d [b] w)"
    "has_integrators (radar_cells b) [b] (start_stage (radar_ops nan) d [b] w)"
  using radar.start_stage_at_step [OF assms(1,4)] assms(2,3)
  by (simp_all add: radar_inv_def has_integrators_def start_stage_def init_block_def radar_ops_def Block_init_def State_reset_def)

text \<open>
  Two stages of a bare \<open>Radar\<close>, whose update never waits: whether or not the target is found, the run ends at \<open>tmax\<close>. The run that
  \<open>CMD_Radar\<close> makes has the radar inside its surrogate, see the theory \<open>RadarThreads\<close>.
\<close>

lemma radar_run:
  assumes "has_integrators (radar_cells b) [b] w" "EPS < d1" "EPS < d2" "0 \<le> tmax"
  shows "\<exists>w'. Sim_run (radar_ops nan) [d1, d2] tmax [[b], [b]] w = Some (Inr w') \<and> \<bar>st_t (w_clk w') - tmax\<bar> \<le> EPS \<and>
    w_stop w' = -1 \<and> st_ticklast (w_clk w') = 1"
proof -
  let ?I = "radar_inv b (w_mem w gTarget_x) (w_mem w gTarget_y) (w_mem w (b, ''wn'')) (w_mem w (b, ''zeta''))"
  obtain n where n: "start_run [[b], [b]] w = w\<lparr>w_clk := State_set (w_clk w), w_stop := 0, w_stop0 := 0, w_initCount := n\<rparr>"
    using start_run_eq by blast
  let ?w = "start_run [[b], [b]] w"
  have "0 \<le> tmax + EPS" using assms(4) EPS_pos(1) by linarith
  then have c: "at_step_clock tmax (w_clk ?w)" "?I 0 ?w" "has_integrators (radar_cells b) [b] ?w"
    using assms(1) by (simp_all add: n at_step_clock_def State_set_def radar_inv_def has_integrators_def)
  from radar_stage [OF radar_start [OF c assms(2)]] obtain w1 where
    w1: "stage_loop (radar_ops nan) tmax [b] (start_stage (radar_ops nan) d1 [b] ?w) = Some (Inr w1)" "at_step_clock tmax (w_clk w1)"
      "has_integrators (radar_cells b) [b] w1" "w_stop w1 = -1 \<and> tmax \<le> st_t (w_clk w1) + EPS \<or> ?I 1 w1" by blast
  have "\<exists>v. run_stages (radar_ops nan) tmax [d1, d2] [[b], [b]] [] ?w = Some (Inr ([b], v)) \<and> w_stop v = -1 \<and>
      at_step_clock tmax (w_clk v) \<and> tmax \<le> st_t (w_clk v) + EPS"
  proof (cases "w_stop w1 = -1")
    case True
    then have "\<not> ?I 1 w1" by (simp add: radar_inv_def)
    with True w1 show ?thesis by auto
  next
    case False
    with w1(4) have i: "?I 1 w1" by blast
    from radar_stage [OF radar_start [OF w1(2) i w1(3) assms(3)]] obtain w2 where
      "stage_loop (radar_ops nan) tmax [b] (start_stage (radar_ops nan) d2 [b] w1) = Some (Inr w2)" "at_step_clock tmax (w_clk w2)"
      "w_stop w2 = -1" "tmax \<le> st_t (w_clk w2) + EPS" by auto
    moreover have "w_stop w1 = 1" using i by (simp add: radar_inv_def)
    ultimately show ?thesis using w1(1) by auto
  qed
  then obtain v where "run_stages (radar_ops nan) tmax [d1, d2] [[b], [b]] [] ?w = Some (Inr ([b], v))" "w_stop v = -1"
    "at_step_clock tmax (w_clk v)" "tmax \<le> st_t (w_clk v) + EPS" by blast
  then show ?thesis
    by (auto simp: Sim_run_def radar_ops_def Radar_rpt_def print_def at_step_clock_def abs_le_iff)
qed

section \<open>Properties of the CMD models\<close>

lemma addIntegrator_Some:
  "addIntegrator junk b x xd w = Some (w\<lparr>w_vState := (w_vState w)(b := w_vState w b @ [State_new (w_integrator w) junk x xd])\<rparr>)"
  by (cases "w_integrator w") (simp_all add: addIntegrator_def factory_def State_new_def)

lemma Target_new_Some:
  "\<exists>w1. Target_new junk b x y vx vy w = Some w1 \<and> w_integrator w1 = w_integrator w \<and> target_state b w1 = (x, y, vx, vy) \<and>
     (\<forall>a. fst a \<noteq> b \<longrightarrow> w_mem w1 a = w_mem w a) \<and> (\<forall>c. c \<noteq> b \<longrightarrow> w_vState w1 c = w_vState w c) \<and>
     (w_vState w b = [] \<longrightarrow> has_integrators (target_cells b) [b] w1)"
  by (auto simp: Target_new_def addIntegrator_Some store_def target_state_def has_integrators_def State_new_def Let_def)

lemma InitCase_Some:
  "\<exists>m1 w1. CMD_Target_InitCase junk b (m, w) = Some (m1, w1) \<and> ct_target m1 = b \<and> ct_vStage m1 = ct_vStage m @ [[b], [b]] \<and>
     w_integrator w1 = w_integrator w \<and> target_state b w1 = (20, 5, -1, 0) \<and>
     (\<forall>a. fst a \<noteq> b \<longrightarrow> w_mem w1 a = w_mem w a) \<and> (\<forall>c. c \<noteq> b \<longrightarrow> w_vState w1 c = w_vState w c) \<and>
     (w_vState w b = [] \<longrightarrow> has_integrators (target_cells b) [b] w1)"
  using Target_new_Some [of junk b 20 5 "-1" 0 w] by (auto simp: CMD_Target_InitCase_def Let_def)

lemma run_cmd_side_runs:
  assumes "ct_vStage m = [b] # rest" "has_integrators (target_cells b) [b] w"
  shows "\<exists>w'. run_cmd_side m w = Some (Inr w') \<and> \<bar>st_t (w_clk w') - target_tmax\<bar> \<le> EPS \<and>
    target_state b w' = (w_mem w (b, ''x'') + w_mem w (b, ''vx'') * st_t (w_clk w'),
      w_mem w (b, ''y'') + w_mem w (b, ''vy'') * st_t (w_clk w'), w_mem w (b, ''vx''), w_mem w (b, ''vy'')) \<and>
    (\<forall>a. fst a \<noteq> b \<longrightarrow> w_mem w' a = w_mem w a) \<and> w_integrator w' = w_integrator w \<and> has_integrators (target_cells b) [b] w'"
  using target_run [OF assms(2), of "1 / 100" target_tmax "[1 / 100]" rest]
  unfolding run_cmd_side_def assms(1) target_dts_def target_state_def by (auto simp: EPS_def target_tmax_def)

text \<open>
  C10. One step of the kernel moves the servo of the radar by one step of the explicit Runge-Kutta method whose Butcher tableau
  belongs to the integrator in use (the classical method of order four by default, Euler's, the midpoint method or Merson's), applied
  to the differential equation of a damped oscillator about the direction of the target. The passes of the step are all
  completed, the step is longer than the time tolerance, and the clock then stands at the start of the next step. The step is one of
  the class \<open>Radar\<close>, with the target in one place; \<open>RadarThreads.uninterrupted_pass\<close> has the passes inside the surrogate.
\<close>

theorem radar_step_is_runge_kutta:
  assumes "at_step tmax w" "has_integrators (radar_cells b) [b] w"
    and "radar_inv b tx ty wn zeta s w" "kernel_pass (radar_ops nan) tmax [b] w = Continue w1"
  shows "\<exists>w'. run_passes (radar_ops nan) tmax [b] (passes (w_integrator w)) w = Continue w' \<and> at_step tmax w' \<and>
    st_t (w_clk w') > st_t (w_clk w) + EPS \<and>
    state_vec (radar_cells b) w' =
      rk_step (tableau_of (w_integrator w)) (radar_rhs nan b tx ty wn zeta) (st_t (w_clk w)) (st_t (w_clk w') - st_t (w_clk w))
        (state_vec (radar_cells b) w)"
proof -
  obtain ob where "integrates (radar_cells b) [b] w ob" using has_integrates [OF assms(2)] by (auto simp: in_order_def)
  from radar.step_is_rk_step [OF assms(1,4) this assms(3)] radar.step_completed [OF assms(1,4)] show ?thesis by auto
qed

definition example_cmd_world :: cmd_world where
  "example_cmd_world = \<lparr>w_clk = \<lparr>st_dt = 1, st_dtp = 1, st_t = 0, st_t1 = 1, st_kpass = 0, st_ready = True, st_tickfirst = 1, st_ticklast = 0\<rparr>,
     w_mem = (\<lambda>a. 0), w_integrator = State_rk4, w_vState = (\<lambda>b. []), w_initCount = (\<lambda>b. 0), w_stop = 0, w_stop0 = 0, w_user = []\<rparr>"

definition example_radar :: cmd_world where
  "example_radar = (case Radar_new 0 1 deg 1 0 example_cmd_world of Some w \<Rightarrow> store gTarget_x 1 w)"

lemma deg_bounds: "1 < deg" "deg \<noteq> 0"
  using pi_less_4 pi_gt_zero by (simp_all add: deg_def)

lemma example_radar_eq:
  "example_radar = example_cmd_world\<lparr>w_mem := (\<lambda>a. if a \<in> {gTarget_x, (1, ''x1''), (1, ''wn'')} then 1 else 0),
     w_vState := (\<lambda>b. if b = 1 then [State_new State_rk4 0 (1, ''x1'') (1, ''x1d''), State_new State_rk4 0 (1, ''x2'') (1, ''x2d'')] else [])\<rparr>"
  using deg_bounds(2)
  by (auto simp: example_radar_def Radar_new_def addIntegrator_Some store_def example_cmd_world_def gTarget_x_def fun_eq_iff Let_def)

lemma example_radar_ok:
  "at_step 1 example_radar" "has_integrators (radar_cells 1) [1] example_radar" "radar_inv 1 1 0 1 0 0 example_radar"
  by (simp_all add: example_radar_eq example_cmd_world_def at_step_def EPS_def has_integrators_def State_new_def radar_inv_def
      gTarget_x_def gTarget_y_def)

lemma example_radar_pass: "\<exists>w1. kernel_pass (radar_ops 0) 1 [1] example_radar = Continue w1"
  using deg_bounds(1)
  by (auto simp: example_radar_eq example_cmd_world_def kernel_pass_def integrate_def observe_def report_def radar_simps
      State_sample_def EVENT_def EPS_def atan_quotient_def)

theorem radar_step_is_runge_kutta_witness:
  "\<exists>w'. run_passes (radar_ops 0) 1 [1] 4 example_radar = Continue w' \<and> st_t (w_clk w') > EPS \<and>
    state_vec (radar_cells 1) w' =
      rk_step (tableau_of State_rk4) (radar_rhs 0 1 1 0 1 0) 0 (st_t (w_clk w')) (state_vec (radar_cells 1) example_radar)"
proof -
  obtain w1 where "kernel_pass (radar_ops 0) 1 [1] example_radar = Continue w1" using example_radar_pass by blast
  moreover have "w_integrator example_radar = State_rk4" "st_t (w_clk example_radar) = 0"
    by (simp_all add: example_radar_eq example_cmd_world_def)
  ultimately show ?thesis using radar_step_is_runge_kutta [OF example_radar_ok, of 0 w1] by (auto simp: passes_def)
qed

text \<open>
  The first case of \<open>CMD_Target\<close> flies the target from (20, 5) straight on to the left for ten seconds, with every
  integrator. The second case appends its new target to the same global stages, whose first stage is still the target of
  the first case: its run moves the old target on from where it was, and the new target, whose state the model publishes,
  stays at (20, 5).
\<close>

lemma second_case_moves_first_target:
  assumes "ct_vStage m = []" "w_vState w b1 = []" "b1 \<noteq> b2"
  shows "\<exists>m1 w1 w2 m3 w3 w4.
    CMD_Target_InitCase junk b1 (m, w) = Some (m1, w1) \<and> run_cmd_side m1 w1 = Some (Inr w2) \<and> \<bar>st_t (w_clk w2) - 10\<bar> \<le> EPS \<and>
    last (ct_published (CMD_Target_publish m1 w2)) = (20 - st_t (w_clk w2), 5, -1, 0) \<and>
    CMD_Target_InitCase junk b2 (m1, w2) = Some (m3, w3) \<and> run_cmd_side m3 w3 = Some (Inr w4) \<and> \<bar>st_t (w_clk w4) - 10\<bar> \<le> EPS \<and>
    last (ct_published (CMD_Target_publish m3 w4)) = (20, 5, -1, 0) \<and>
    target_state b1 w4 = (20 - st_t (w_clk w2) - st_t (w_clk w4), 5, -1, 0)"
proof -
  obtain m1 w1 where i1: "CMD_Target_InitCase junk b1 (m, w) = Some (m1, w1)" "ct_target m1 = b1" "ct_vStage m1 = [[b1], [b1]]"
    "target_state b1 w1 = (20, 5, -1, 0)" "has_integrators (target_cells b1) [b1] w1"
    using InitCase_Some [of junk b1 m w] assms(1,2) by auto
  obtain w2 where r1: "run_cmd_side m1 w1 = Some (Inr w2)" "\<bar>st_t (w_clk w2) - 10\<bar> \<le> EPS"
    "target_state b1 w2 = (20 - st_t (w_clk w2), 5, -1, 0)" "has_integrators (target_cells b1) [b1] w2"
    using run_cmd_side_runs [OF i1(3,5)] i1(4) by (auto simp: target_state_def target_tmax_def)
  obtain m3 w3 where i2: "CMD_Target_InitCase junk b2 (m1, w2) = Some (m3, w3)" "ct_target m3 = b2"
    "ct_vStage m3 = [b1] # [[b1], [b2], [b2]]" "target_state b2 w3 = (20, 5, -1, 0)" "\<forall>a. fst a \<noteq> b2 \<longrightarrow> w_mem w3 a = w_mem w2 a"
    "w_integrator w3 = w_integrator w2" "w_vState w3 b1 = w_vState w2 b1"
    using InitCase_Some [of junk b2 m1 w2] i1(3) assms(3) by auto
  have "has_integrators (target_cells b1) [b1] w3" using r1(4) i2(6,7) by (simp add: has_integrators_def)
  from run_cmd_side_runs [OF i2(3) this] obtain w4 where r2: "run_cmd_side m3 w3 = Some (Inr w4)" "\<bar>st_t (w_clk w4) - 10\<bar> \<le> EPS"
    "target_state b1 w4 = (20 - st_t (w_clk w2) - st_t (w_clk w4), 5, -1, 0)" "\<forall>a. fst a \<noteq> b1 \<longrightarrow> w_mem w4 a = w_mem w3 a"
    using i2(5) assms(3) r1(3) by (auto simp: target_state_def target_tmax_def)
  have "target_state b2 w4 = (20, 5, -1, 0)" using i2(4) r2(4) assms(3) by (auto simp: target_state_def)
  with i1 r1 i2 r2 show ?thesis by (auto simp: CMD_Target_publish_def Let_def)
qed

definition example_cmd_target :: cmd_target where
  "example_cmd_target = \<lparr>ct_x = 0, ct_y = 0, ct_vx = 0, ct_vy = 0, ct_stop = 0, ct_target = 0, ct_vStage = [], ct_published = [],
     ct_deleted = []\<rparr>"

lemma second_case_moves_first_target_witness:
  "\<exists>m1 w1 w2 m3 w3 w4.
    CMD_Target_InitCase 0 1 (example_cmd_target, example_cmd_world) = Some (m1, w1) \<and> run_cmd_side m1 w1 = Some (Inr w2) \<and>
    CMD_Target_InitCase 0 2 (m1, w2) = Some (m3, w3) \<and> run_cmd_side m3 w3 = Some (Inr w4) \<and>
    last (ct_published (CMD_Target_publish m3 w4)) = (20, 5, -1, 0)"
  using second_case_moves_first_target [of example_cmd_target example_cmd_world 1 2 0]
  by (simp add: example_cmd_target_def example_cmd_world_def) blast

end
