(* ===== verification/LockStep.thy ===== *)
theory LockStep
  imports CmdModels
begin

text \<open>
  The two threads of \<open>src/Models/CMD/CMD_Target.cpp\<close>. The simulation kernel runs in a thread of its own, and the class \<open>Surrogate\<close>
  lets its reports alternate with the calls of \<open>MonteCarlo_Step\<close> in the thread of the peer library, by two flags under a
  mutex and two condition variables. A step of the relation is a section of the code that no other section under the mutex
  interrupts; a wait for a condition is the guard of a step. What the kernel does between two reports happens without the
  mutex, one pass at a time.
\<close>

section \<open>The threads\<close>

text \<open>Where the kernel is: before a pass, after a report, before the last report of \<open>Sim::run\<close>, or at the end.\<close>

datatype sim_pc = Pass | Reported | Ending | Ended

text \<open>Where the other thread is: in its event loop, waiting in \<open>MonteCarlo_Step\<close>, in the \<open>join\<close> of \<open>MonteCarlo_EndRun\<close>, or after it.\<close>

datatype ise_pc = Idle | Waiting | Joining | Joined

record lockstep =
  ls_w :: cmd_world
  ls_model :: cmd_target
  ls_waiting_for_ise :: bool
  ls_waiting_for_cmd :: bool
  ls_sim :: sim_pc
  ls_stage :: "nat list"
  ls_stages :: "(real \<times> nat list) list"
  ls_ise :: ise_pc
  ls_reports :: nat
  ls_steps :: nat

text \<open>The rest of a pass after the reports, as in \<open>kernel_pass\<close>.\<close>

definition after_report :: "real \<Rightarrow> nat list \<Rightarrow> 'u world \<Rightarrow> 'u pass" where
  "after_report tmax bs w =
     (if w_stop w \<noteq> w_stop0 w then Break (w\<lparr>w_stop0 := w_stop w\<rparr>)
      else if st_t (w_clk w) + EPS \<ge> tmax then Break (w\<lparr>w_stop := -1\<rparr>)
      else integrate bs w)"

lemma kernel_pass_after_report:
  "kernel_pass ops tmax bs w =
     (let w1 = observe ops tmax bs w
      in if st_ready (w_clk w1) then after_report tmax bs (report ops bs w1) else integrate bs w1)"
  by (simp add: kernel_pass_def after_report_def Let_def)

text \<open>What follows the loop of a stage: the next stage, or the end of the run.\<close>

definition leave_stage :: "cmd_world \<Rightarrow> lockstep \<Rightarrow> lockstep" where
  "leave_stage w s =
     (case ls_stages s of
        [] \<Rightarrow> s\<lparr>ls_sim := Ending, ls_w := w\<lparr>w_clk := (w_clk w)\<lparr>st_ticklast := 1\<rparr>\<rparr>\<rparr>
      | (d, bs) # rest \<Rightarrow>
          if w_stop w < 0 then s\<lparr>ls_sim := Ending, ls_w := w\<lparr>w_clk := (w_clk w)\<lparr>st_ticklast := 1\<rparr>\<rparr>\<rparr>
          else s\<lparr>ls_sim := Pass, ls_stage := bs, ls_stages := rest, ls_w := start_stage target_ops d bs w\<rparr>)"

text \<open>The two sections under the mutex.\<close>

definition Surrogate_rpt :: "(cmd_world \<Rightarrow> cmd_world) \<Rightarrow> lockstep \<Rightarrow> lockstep" where
  "Surrogate_rpt rpt s =
     s\<lparr>ls_waiting_for_ise := True, ls_w := rpt (ls_w s), ls_waiting_for_cmd := False, ls_reports := ls_reports s + 1\<rparr>"

definition MonteCarlo_Step_body :: "lockstep \<Rightarrow> lockstep" where
  "MonteCarlo_Step_body s =
     s\<lparr>ls_waiting_for_cmd := True, ls_model := CMD_Target_publish (ls_model s) (ls_w s), ls_waiting_for_ise := False,
       ls_steps := ls_steps s + 1\<rparr>"

inductive lock_step :: "real \<Rightarrow> lockstep \<Rightarrow> lockstep \<Rightarrow> bool" for tmax where
  within_step: "lock_step tmax s (s\<lparr>ls_w := w1\<rparr>)"
    if "ls_sim s = Pass" "\<not> st_ready (w_clk (ls_w s))" "kernel_pass target_ops tmax (ls_stage s) (ls_w s) = Continue w1"
| rpt: "lock_step tmax s ((Surrogate_rpt (\<lambda>w. report target_ops (ls_stage s) (observe target_ops tmax (ls_stage s) w)) s)\<lparr>ls_sim := Reported\<rparr>)"
    if "ls_sim s = Pass" "st_ready (w_clk (ls_w s))" "\<not> ls_waiting_for_ise s"
| next_step: "lock_step tmax s (s\<lparr>ls_sim := Pass, ls_w := w1\<rparr>)"
    if "ls_sim s = Reported" "after_report tmax (ls_stage s) (ls_w s) = Continue w1"
| stage_over: "lock_step tmax s (leave_stage w1 s)"
    if "ls_sim s = Reported" "after_report tmax (ls_stage s) (ls_w s) = Break w1"
| last_rpt: "lock_step tmax s ((Surrogate_rpt (fold (rpt_op target_ops) (ls_stage s)) s)\<lparr>ls_sim := Ended\<rparr>)"
    if "ls_sim s = Ending" "\<not> ls_waiting_for_ise s"
| Step_enter: "lock_step tmax s (s\<lparr>ls_ise := Waiting\<rparr>)"
    if "ls_ise s = Idle" "st_ticklast (w_clk (ls_w s)) = 0"
| Step_late: "lock_step tmax s s"
    if "ls_ise s = Idle" "st_ticklast (w_clk (ls_w s)) \<noteq> 0"
| Step_publish: "lock_step tmax s ((MonteCarlo_Step_body s)\<lparr>ls_ise := Idle\<rparr>)"
    if "ls_ise s = Waiting" "\<not> ls_waiting_for_cmd s"
| stop_message: "lock_step tmax s (s\<lparr>ls_w := CMD_Target_processStop n (ls_w s)\<rparr>)"
    if "ls_ise s = Idle"
| EndRun: "lock_step tmax s (s\<lparr>ls_ise := Joining\<rparr>)"
    if "ls_ise s = Idle"
| joined: "lock_step tmax s (s\<lparr>ls_ise := Joined, ls_model := CMD_Target_EndRun (ls_model s)\<rparr>)"
    if "ls_ise s = Joining" "ls_sim s = Ended"

text \<open>The state that \<open>MonteCarlo_InitCase\<close> leaves: the thread of the kernel has entered its first stage.\<close>

definition lock_init :: "real \<Rightarrow> nat \<Rightarrow> cmd_target \<Rightarrow> cmd_world \<Rightarrow> lockstep" where
  "lock_init d b m w =
     \<lparr>ls_w = start_stage target_ops d [b] (start_run [[b], [b]] w), ls_model = m,
      ls_waiting_for_ise = False, ls_waiting_for_cmd = True, ls_sim = Pass, ls_stage = [b], ls_stages = [(d, [b])], ls_ise = Idle,
      ls_reports = 0, ls_steps = 0\<rparr>"

definition lock_reachable :: "real \<Rightarrow> lockstep \<Rightarrow> lockstep \<Rightarrow> bool" where
  "lock_reachable tmax s s' \<longleftrightarrow> (lock_step tmax)\<^sup>*\<^sup>* s s'"

section \<open>Reports and steps alternate\<close>

definition alternating :: "nat \<Rightarrow> lockstep \<Rightarrow> bool" where
  "alternating n s \<longleftrightarrow> (ls_waiting_for_ise s \<longleftrightarrow> \<not> ls_waiting_for_cmd s) \<and>
     ls_reports s = ls_steps s + (if ls_waiting_for_ise s then 1 else 0) \<and> length (ct_published (ls_model s)) = n + ls_steps s"

lemmas lock_defs = Surrogate_rpt_def MonteCarlo_Step_body_def leave_stage_def

lemma leave_stage_keeps [simp]:
  "ls_waiting_for_ise (leave_stage w s) = ls_waiting_for_ise s" "ls_waiting_for_cmd (leave_stage w s) = ls_waiting_for_cmd s"
  "ls_reports (leave_stage w s) = ls_reports s" "ls_steps (leave_stage w s) = ls_steps s" "ls_ise (leave_stage w s) = ls_ise s"
  "ls_model (leave_stage w s) = ls_model s"
  by (simp_all add: leave_stage_def split: list.splits)

lemma publish_length: "length (ct_published (CMD_Target_publish m w)) = Suc (length (ct_published m))"
  by (simp add: CMD_Target_publish_def Let_def case_prod_beta)

lemma alternating_step: "lock_step tmax s s' \<Longrightarrow> alternating n s \<Longrightarrow> alternating n s'"
  by (induction rule: lock_step.induct)
    (auto simp: alternating_def Surrogate_rpt_def MonteCarlo_Step_body_def publish_length CMD_Target_EndRun_def)

lemma alternating_reachable: "lock_reachable tmax s s' \<Longrightarrow> alternating n s \<Longrightarrow> alternating n s'"
  unfolding lock_reachable_def by (induction rule: rtranclp_induct) (auto intro: alternating_step)

section \<open>The end of a run\<close>

text \<open>The kernel waits for a step that the other thread does not make any more.\<close>

definition stuck :: "lockstep \<Rightarrow> bool" where
  "stuck s \<longleftrightarrow> ls_sim s = Ending \<and> ls_waiting_for_ise s \<and> ls_ise s \<in> {Idle, Joining} \<and> st_ticklast (w_clk (ls_w s)) \<noteq> 0"

inductive_cases lock_stepE: "lock_step tmax s s'"

lemma stuck_step: "lock_step tmax s s' \<Longrightarrow> stuck s \<Longrightarrow> stuck s'"
  by (induction rule: lock_step.induct) (auto simp: stuck_def CMD_Target_processStop_def)

lemma stuck_reachable: "lock_reachable tmax s s' \<Longrightarrow> stuck s \<Longrightarrow> stuck s'"
  unfolding lock_reachable_def by (induction rule: rtranclp_induct) (auto intro: stuck_step)

text \<open>The threads in turn: a state in which the kernel is about to begin a pass with the world \<open>w\<close> and the other thread is idle.\<close>

definition in_turn :: "real \<Rightarrow> lockstep \<Rightarrow> nat \<Rightarrow> cmd_world \<Rightarrow> lockstep \<Rightarrow> bool" where
  "in_turn tmax s0 b w s \<longleftrightarrow> lock_reachable tmax s0 s \<and> ls_w s = w \<and> ls_sim s = Pass \<and> ls_stage s = [b] \<and> ls_ise s = Idle \<and>
     \<not> ls_waiting_for_ise s \<and> st_ticklast (w_clk w) = 0"

lemma lock_reachable_step: "lock_reachable tmax s0 s \<Longrightarrow> lock_step tmax s s' \<Longrightarrow> lock_reachable tmax s0 s'"
  by (simp add: lock_reachable_def)

lemma updateclock_ticklast [simp]: "st_ticklast (updateclock cls c) = st_ticklast c"
  by (cases cls) (simp_all add: updateclock_defs Let_def)

lemma target_pass_ticklast:
  "st_ticklast (w_clk (report target_ops [b] w)) = st_ticklast (w_clk w)"
  "st_ticklast (w_clk (observe target_ops tmax [b] w)) = st_ticklast (w_clk w)"
  "st_ready (w_clk (observe target_ops tmax [b] w)) = st_ready (w_clk w)"
  by (simp_all add: target_report target_observe State_sample_def EVENT_def Let_def)

lemma integrate_ticklast: "integrate bs w = Continue w1 \<Longrightarrow> st_ticklast (w_clk w1) = st_ticklast (w_clk w)"
  by (auto simp: integrate_def Let_def fold_propagate_keeps split: if_splits)

text \<open>A report that the other thread takes before the kernel goes on.\<close>

lemma in_turn_report:
  assumes "in_turn tmax s0 b w s" "st_ready (w_clk w)"
  defines "w1 \<equiv> report target_ops [b] (observe target_ops tmax [b] w)"
  shows "\<exists>s1. lock_reachable tmax s0 s1 \<and> ls_w s1 = w1 \<and> ls_sim s1 = Reported \<and> ls_stage s1 = [b] \<and> ls_ise s1 = Idle \<and>
      ls_waiting_for_ise s1"
    and "\<exists>s1. lock_reachable tmax s0 s1 \<and> ls_w s1 = w1 \<and> ls_sim s1 = Reported \<and> ls_stage s1 = [b] \<and> ls_ise s1 = Idle \<and>
      \<not> ls_waiting_for_ise s1"
proof -
  let ?s1 = "(Surrogate_rpt (\<lambda>w. report target_ops (ls_stage s) (observe target_ops tmax (ls_stage s) w)) s)\<lparr>ls_sim := Reported\<rparr>"
  have s: "ls_sim s = Pass" "st_ready (w_clk (ls_w s))" "\<not> ls_waiting_for_ise s" "ls_ise s = Idle" "ls_stage s = [b]" "ls_w s = w"
    "lock_reachable tmax s0 s" "st_ticklast (w_clk w) = 0" using assms by (auto simp: in_turn_def)
  have r1: "lock_reachable tmax s0 ?s1" by (rule lock_reachable_step [OF s(7) lock_step.rpt [OF s(1-3)]])
  then show "\<exists>s1. lock_reachable tmax s0 s1 \<and> ls_w s1 = w1 \<and> ls_sim s1 = Reported \<and> ls_stage s1 = [b] \<and> ls_ise s1 = Idle \<and>
      ls_waiting_for_ise s1"
    using s by (intro exI [of _ ?s1]) (simp add: Surrogate_rpt_def w1_def)
  let ?s2 = "?s1\<lparr>ls_ise := Waiting\<rparr>" let ?s3 = "(MonteCarlo_Step_body ?s2)\<lparr>ls_ise := Idle\<rparr>"
  have "lock_step tmax ?s1 ?s2" by (rule lock_step.Step_enter) (use s in \<open>simp_all add: Surrogate_rpt_def target_pass_ticklast\<close>)
  moreover have "lock_step tmax ?s2 ?s3" by (rule lock_step.Step_publish) (simp_all add: Surrogate_rpt_def)
  ultimately have "lock_reachable tmax s0 ?s3" using r1 lock_reachable_step by blast
  then show "\<exists>s1. lock_reachable tmax s0 s1 \<and> ls_w s1 = w1 \<and> ls_sim s1 = Reported \<and> ls_stage s1 = [b] \<and> ls_ise s1 = Idle \<and>
      \<not> ls_waiting_for_ise s1"
    using s by (intro exI [of _ ?s3]) (simp add: Surrogate_rpt_def MonteCarlo_Step_body_def w1_def)
qed

lemma in_turn_pass:
  assumes "in_turn tmax s0 b w s" "kernel_pass target_ops tmax [b] w = Continue w1"
  shows "\<exists>s1. in_turn tmax s0 b w1 s1"
proof (cases "st_ready (w_clk w)")
  case False
  have "lock_step tmax s (s\<lparr>ls_w := w1\<rparr>)" by (rule lock_step.within_step) (use assms False in \<open>simp_all add: in_turn_def\<close>)
  moreover have "st_ticklast (w_clk w1) = 0"
    using assms False integrate_ticklast [of "[b]" "observe target_ops tmax [b] w" w1]
    by (simp add: kernel_pass_after_report Let_def target_pass_ticklast in_turn_def)
  ultimately show ?thesis
    using assms(1) lock_reachable_step by (intro exI [of _ "s\<lparr>ls_w := w1\<rparr>"]) (auto simp: in_turn_def)
next
  case True
  let ?r = "report target_ops [b] (observe target_ops tmax [b] w)"
  have a: "after_report tmax [b] ?r = Continue w1"
    using assms(2) True by (simp add: kernel_pass_after_report Let_def target_pass_ticklast)
  then have "st_ticklast (w_clk w1) = 0"
    using assms(1) integrate_ticklast [of "[b]" ?r w1]
    by (auto simp: after_report_def target_pass_ticklast in_turn_def split: if_splits)
  moreover from in_turn_report(2) [OF assms(1) True] obtain s1 where s1: "lock_reachable tmax s0 s1" "ls_w s1 = ?r" "ls_sim s1 = Reported"
    "ls_stage s1 = [b]" "ls_ise s1 = Idle" "\<not> ls_waiting_for_ise s1" by blast
  moreover have "lock_step tmax s1 (s1\<lparr>ls_sim := Pass, ls_w := w1\<rparr>)" by (rule lock_step.next_step) (use s1 a in simp_all)
  ultimately show ?thesis
    using lock_reachable_step by (intro exI [of _ "s1\<lparr>ls_sim := Pass, ls_w := w1\<rparr>"]) (auto simp: in_turn_def)
qed

lemma in_turn_passes:
  "run_passes target_ops tmax [b] n w = Continue w' \<Longrightarrow> \<exists>s. in_turn tmax s0 b w s \<Longrightarrow> \<exists>s. in_turn tmax s0 b w' s"
proof (induction n arbitrary: w)
  case (Suc n)
  from Suc.prems(1) obtain w1 where "kernel_pass target_ops tmax [b] w = Continue w1" "run_passes target_ops tmax [b] n w1 = Continue w'"
    by (auto split: pass.splits)
  with Suc.IH [of w1] Suc.prems(2) in_turn_pass show ?case by blast
qed simp

text \<open>The last report is not taken: the kernel sets \<open>ticklast\<close>, and no step follows.\<close>

lemma in_turn_stuck:
  assumes "in_turn tmax s0 b w s" "st_ready (w_clk w)" "kernel_pass target_ops tmax [b] w = Break w1" "w_stop w1 = -1"
  shows "\<exists>s1. lock_reachable tmax s0 s1 \<and> stuck s1"
proof -
  let ?r = "report target_ops [b] (observe target_ops tmax [b] w)"
  from in_turn_report(1) [OF assms(1,2)] obtain s1 where s1: "lock_reachable tmax s0 s1" "ls_w s1 = ?r" "ls_sim s1 = Reported"
    "ls_stage s1 = [b]" "ls_ise s1 = Idle" "ls_waiting_for_ise s1" by blast
  have "after_report tmax [b] ?r = Break w1"
    using assms(2,3) by (simp add: kernel_pass_after_report Let_def target_pass_ticklast)
  then have "lock_step tmax s1 (leave_stage w1 s1)" by (intro lock_step.stage_over) (use s1 in simp_all)
  moreover have "stuck (leave_stage w1 s1)" using s1 assms(4) by (auto simp: stuck_def leave_stage_def split: list.splits)
  ultimately show ?thesis using s1(1) lock_reachable_step by blast
qed

lemma target_init: "init_op target_ops b w = w"
  by (simp add: target_ops_def Block_init_def)

section \<open>Properties\<close>

text \<open>
  C15. The reports of the kernel and the steps of the model alternate, whatever the threads do: every step publishes one
  state and takes one report, no report is skipped or taken twice, and the flags say whose turn it is.
\<close>

theorem reports_and_steps_alternate:
  assumes "lock_reachable tmax (lock_init d b m w) s"
  shows "(ls_reports s = ls_steps s \<and> ls_waiting_for_cmd s \<and> \<not> ls_waiting_for_ise s \<or>
      ls_reports s = Suc (ls_steps s) \<and> \<not> ls_waiting_for_cmd s \<and> ls_waiting_for_ise s) \<and>
    length (ct_published (ls_model s)) = length (ct_published m) + ls_steps s"
proof -
  have "alternating (length (ct_published m)) (lock_init d b m w)" by (simp add: alternating_def lock_init_def)
  from alternating_reachable [OF assms this] show ?thesis by (auto simp: alternating_def split: if_splits)
qed

theorem reports_and_steps_alternate_witness:
  "ls_reports ((Surrogate_rpt (\<lambda>w. report target_ops [2] (observe target_ops 10 [2] w)) (lock_init 1 2 example_cmd_target example_cmd_world))
     \<lparr>ls_sim := Reported\<rparr>) = Suc 0"
proof -
  let ?s0 = "lock_init 1 2 example_cmd_target example_cmd_world"
  let ?s1 = "(Surrogate_rpt (\<lambda>w. report target_ops [2] (observe target_ops 10 [2] w)) ?s0)\<lparr>ls_sim := Reported\<rparr>"
  obtain n where n: "start_run [[2], [2]] example_cmd_world = example_cmd_world\<lparr>w_clk := State_set (w_clk example_cmd_world),
      w_stop := 0, w_stop0 := 0, w_initCount := n\<rparr>" using start_run_eq by blast
  have "st_ready (w_clk (ls_w ?s0))"
    by (simp add: lock_init_def start_stage_def init_block_def n target_init State_set_def State_reset_def Let_def)
  moreover have "ls_sim ?s0 = Pass" "\<not> ls_waiting_for_ise ?s0" "ls_stage ?s0 = [2]" by (simp_all add: lock_init_def)
  ultimately have "lock_step 10 ?s0 ?s1" using lock_step.rpt [of ?s0 10] by simp
  then have "lock_reachable 10 ?s0 ?s1" by (simp add: lock_reachable_def)
  from reports_and_steps_alternate [OF this] show ?thesis by (auto simp: Surrogate_rpt_def lock_init_def)
qed

text \<open>
  C39. A run of the target may end in a deadlock. When the kernel makes its report at \<open>tmax\<close> and sets \<open>ticklast\<close> before the
  next call of \<open>MonteCarlo_Step\<close>, that call returns at once and does not take the report, and the kernel waits in its last
  report for ever: from then on no behaviour of the two threads lets \<open>Sim::run\<close> return, and the \<open>join\<close> of
  \<open>MonteCarlo_EndRun\<close> does not return either.
\<close>

theorem end_of_run_deadlocks:
  assumes "CMD_Target_InitCase junk b (m, w) = Some (m1, w1)" "w_vState w b = []"
  shows "\<exists>s. lock_reachable target_tmax (lock_init (1 / 100) b m1 w1) s \<and>
    (\<forall>s'. lock_reachable target_tmax s s' \<longrightarrow> ls_sim s' = Ending \<and> ls_ise s' \<noteq> Joined)"
proof -
  let ?s0 = "lock_init (1 / 100) b m1 w1"
  let ?P = "\<lambda>w. flying b (line_of b w1) (w_integrator w1) (w_mem w1) w \<and> (\<exists>s. in_turn target_tmax ?s0 b w s)"
  have i: "has_integrators (target_cells b) [b] w1" using InitCase_Some [of junk b m w] assms by auto
  have d: "EPS < 1 / 100" "0 \<le> target_tmax" by (simp_all add: EPS_def target_tmax_def)
  have w0: "ls_w ?s0 = start_stage target_ops (1 / 100) [b] (start_run ([b] # [[b]]) w1)" by (simp add: lock_init_def)
  note f = flying_start [OF i d w0]
  have "in_turn target_tmax ?s0 b (ls_w ?s0) ?s0"
    using f(3) by (simp add: in_turn_def lock_reachable_def) (simp add: lock_init_def)
  then have "\<exists>w'. stage_loop target_ops target_tmax [b] (ls_w ?s0) = Some (Inr w') \<and>
      (\<exists>s. lock_reachable target_tmax ?s0 s \<and> stuck s)"
  proof (intro target.stage_loop_returns [where P = ?P])
    fix v v' assume "at_step target_tmax v" "?P v" "kernel_pass target_ops target_tmax [b] v = Break v'"
    with flying_break(1) [of target_tmax v] in_turn_stuck show "\<exists>s. lock_reachable target_tmax ?s0 s \<and> stuck s"
      by (metis at_step_def)
  qed (use f in_turn_passes flying_step in blast)+
  then show ?thesis using stuck_reachable by (fastforce simp: stuck_def)
qed

theorem end_of_run_deadlocks_witness:
  "\<exists>m1 w1 s. CMD_Target_InitCase 0 1 (example_cmd_target, example_cmd_world) = Some (m1, w1) \<and>
    lock_reachable target_tmax (lock_init (1 / 100) 1 m1 w1) s \<and>
    (\<forall>s'. lock_reachable target_tmax s s' \<longrightarrow> ls_ise s' \<noteq> Joined)"
proof -
  obtain m1 w1 where i: "CMD_Target_InitCase 0 1 (example_cmd_target, example_cmd_world) = Some (m1, w1)"
    using InitCase_Some [of 0 1 example_cmd_target example_cmd_world] by blast
  have "w_vState example_cmd_world 1 = []" by (simp add: example_cmd_world_def)
  from end_of_run_deadlocks [OF i this] i show ?thesis by blast
qed

text \<open>
  The state that a step publishes need not be the one that was reported: the kernel reports the target at (20, 5), goes on
  without the mutex, and the step publishes the target half a time step further, where the first pass of the
  Runge-Kutta method put it.
\<close>

lemma published_state_is_mid_step:
  assumes "CMD_Target_InitCase junk b (m, w) = Some (m1, w1)" "w_vState w b = []" "w_integrator w = State_rk4" "w_user w = []"
  shows "\<exists>s. lock_reachable target_tmax (lock_init (1 / 100) b m1 w1) s \<and> ls_steps s = 1 \<and>
    w_user (ls_w s) = [Print_Target 0 20 5] \<and> last (ct_published (ls_model s)) = (20 - 1 / 200, 5, -1, 0)"
proof -
  let ?s0 = "lock_init (1 / 100) b m1 w1"
  let ?s1 = "(Surrogate_rpt (\<lambda>w. report target_ops (ls_stage ?s0) (observe target_ops target_tmax (ls_stage ?s0) w)) ?s0)\<lparr>ls_sim := Reported\<rparr>"
  obtain n where n: "start_run [[b], [b]] w1 = w1\<lparr>w_clk := State_set (w_clk w1), w_stop := 0, w_stop0 := 0, w_initCount := n\<rparr>"
    using start_run_eq by blast
  have w1: "w_mem w1 = (w_mem w)((b, ''x'') := 20, (b, ''y'') := 5, (b, ''vx'') := -1, (b, ''vy'') := 0)" "w_user w1 = []"
    "w_vState w1 b = [State_new State_rk4 junk (b, ''x'') (b, ''vx''), State_new State_rk4 junk (b, ''y'') (b, ''vy'')]"
    "w_integrator w1 = State_rk4" "ct_target m1 = b"
    using assms by (auto simp: CMD_Target_InitCase_def Target_new_def addIntegrator_Some store_def Let_def)
  note ev = lock_init_def Surrogate_rpt_def target_report target_observe start_stage_def init_block_def Target_rpt_def print_def
    n w1 State_set_def State_reset_def State_sample_def EVENT_def EPS_def target_tmax_def Let_def
  obtain w2 where w2: "after_report target_tmax (ls_stage ?s1) (ls_w ?s1) = Continue w2" "w_mem w2 (b, ''x'') = 20 - 1 / 200"
    "w_mem w2 (b, ''y'') = 5" "w_mem w2 (b, ''vx'') = -1" "w_mem w2 (b, ''vy'') = 0" "w_user w2 = [Print_Target 0 20 5]"
    "st_ticklast (w_clk w2) = 0"
    by (simp add: ev after_report_def integrate_def propagateStates_eq propagate_list_Cons moved_rk4 target_init State_new_def)
  let ?s2 = "?s1\<lparr>ls_sim := Pass, ls_w := w2\<rparr>" let ?s3 = "?s2\<lparr>ls_ise := Waiting\<rparr>"
  let ?s4 = "(MonteCarlo_Step_body ?s3)\<lparr>ls_ise := Idle\<rparr>"
  have "lock_step target_tmax ?s0 ?s1" by (rule lock_step.rpt) (simp_all add: ev target_init)
  moreover have "lock_step target_tmax ?s1 ?s2" by (rule lock_step.next_step [OF _ w2(1)]) simp
  moreover have "lock_step target_tmax ?s2 ?s3" by (rule lock_step.Step_enter) (simp_all add: w2(7) Surrogate_rpt_def lock_init_def)
  moreover have "lock_step target_tmax ?s3 ?s4" by (rule lock_step.Step_publish) (simp_all add: Surrogate_rpt_def)
  ultimately have "lock_reachable target_tmax ?s0 ?s4"
    unfolding lock_reachable_def by (meson converse_rtranclp_into_rtranclp r_into_rtranclp)
  then show ?thesis
    by (intro exI [of _ ?s4])
      (simp add: MonteCarlo_Step_body_def CMD_Target_publish_def target_state_def Surrogate_rpt_def lock_init_def w1(5) w2)
qed

lemma published_state_is_mid_step_witness:
  "\<exists>m1 w1 s. CMD_Target_InitCase 0 1 (example_cmd_target, example_cmd_world) = Some (m1, w1) \<and>
    lock_reachable target_tmax (lock_init (1 / 100) 1 m1 w1) s \<and> last (ct_published (ls_model s)) = (20 - 1 / 200, 5, -1, 0)"
proof -
  obtain m1 w1 where i: "CMD_Target_InitCase 0 1 (example_cmd_target, example_cmd_world) = Some (m1, w1)"
    using InitCase_Some [of 0 1 example_cmd_target example_cmd_world] by blast
  have "w_vState example_cmd_world 1 = []" "w_integrator example_cmd_world = State_rk4" "w_user example_cmd_world = []"
    by (simp_all add: example_cmd_world_def)
  from published_state_is_mid_step [OF i this] i show ?thesis by blast
qed

end
