(* ===== verification/RadarThreads.thy ===== *)
theory RadarThreads
  imports LockStep
begin

text \<open>
  The two threads of \<open>src/Models/CMD/CMD_Radar.cpp\<close>. The block that \<open>MonteCarlo_InitCase\<close> puts into the simulation is not a \<open>Radar\<close> but a
  \<open>Surrogate<Radar>\<close>: at the start of every step its \<open>update\<close> waits, under a mutex, until the other thread has got a position of the target
  (\<open>processTargetInput\<close>), and only then updates the radar. The operations of \<open>Radar\<close> itself are in the theory \<open>CmdModels\<close>. A step of the
  relation is a section of the code that no other section under the mutex interrupts; a wait for a condition is the guard of a step. What
  the kernel does within a step, and the two assignments to \<open>gTarget\<close>, happen without the mutex. This is the first case of a run: a later
  case appends its stages to the global \<open>vStage\<close>, whose first stages still name the radar that \<open>MonteCarlo_EndRun\<close> has deleted.
\<close>

section \<open>The threads\<close>

text \<open>
  Where the kernel is: before a pass, after an update, after the loop of a stage, before the last report of \<open>Sim::run\<close>, or at the end.
\<close>

datatype radar_pc = At_pass | Updated | Left_loop | At_end | Returned

text \<open>
  Where the other thread is: in its event loop, in \<open>processTargetInput\<close> before the second assignment, before the lock, at the wait, in
  the \<open>join\<close> of \<open>MonteCarlo_EndRun\<close>, or after it.
\<close>

datatype input_pc = Free | Half real | Locking | At_wait | At_join | After_join

datatype thread = Kernel | Input

record radar_threads =
  rt_w :: cmd_world
  rt_radar :: nat
  rt_waiting_for_ise :: bool
  rt_waiting_for_cmd :: bool
  rt_sim :: radar_pc
  rt_dts :: "real list"
  rt_input :: input_pc
  rt_stop :: int
  rt_published :: "(real \<times> int) list"
  rt_updates :: nat
  rt_taken :: nat

definition radar_tmax :: real where "radar_tmax = 10"
definition radar_dt :: real where "radar_dt = 1 / 100"

text \<open>\<open>State::sample (State::EVENT, tmax)\<close>, which every pass begins with.\<close>

definition sample_event :: "radar_threads \<Rightarrow> radar_threads" where
  "sample_event s = s\<lparr>rt_w := (rt_w s)\<lparr>w_clk := snd (State_sample EVENT radar_tmax (w_clk (rt_w s)))\<rparr>\<rparr>"

definition Surrogate_update_waits :: "radar_threads \<Rightarrow> bool" where
  "Surrogate_update_waits s \<longleftrightarrow> st_ready (w_clk (rt_w s)) \<and> rt_waiting_for_ise s"

definition Surrogate_update :: "real \<Rightarrow> radar_threads \<Rightarrow> radar_threads" where
  "Surrogate_update nan s =
     (if st_ready (w_clk (rt_w s)) then
        s\<lparr>rt_waiting_for_ise := True, rt_w := Radar_update nan (rt_radar s) (rt_w s), rt_waiting_for_cmd := False,
          rt_updates := rt_updates s + 1\<rparr>
      else s\<lparr>rt_w := Radar_update nan (rt_radar s) (rt_w s)\<rparr>)"

text \<open>What follows the loop of a stage: the next stage, or the end of the run.\<close>

definition radar_leave :: "real \<Rightarrow> radar_threads \<Rightarrow> radar_threads" where
  "radar_leave nan s =
     (let w = rt_w s
      in if w_stop w < 0 \<or> rt_dts s = [] then s\<lparr>rt_sim := At_end, rt_w := w\<lparr>w_clk := (w_clk w)\<lparr>st_ticklast := 1\<rparr>\<rparr>\<rparr>
         else s\<lparr>rt_sim := At_pass, rt_dts := tl (rt_dts s), rt_w := start_stage (radar_ops nan) (hd (rt_dts s)) [rt_radar s] w\<rparr>)"

text \<open>The section of \<open>processTargetInput\<close> after its wait; the record of the data base is not modelled.\<close>

definition processTargetInput_body :: "radar_threads \<Rightarrow> radar_threads" where
  "processTargetInput_body s =
     (let s1 = s\<lparr>rt_waiting_for_cmd := True\<rparr>;
          s2 = (if rt_stop s1 \<noteq> w_stop (rt_w s1) then
                  s1\<lparr>rt_stop := w_stop (rt_w s1), rt_published := rt_published s1 @ [(st_t (w_clk (rt_w s1)), w_stop (rt_w s1))]\<rparr>
                else s1)
      in s2\<lparr>rt_waiting_for_ise := False, rt_taken := rt_taken s2 + 1\<rparr>)"

inductive radar_step :: "real \<Rightarrow> thread \<Rightarrow> radar_threads \<Rightarrow> radar_threads \<Rightarrow> bool" for nan where
  within_step: "radar_step nan Kernel s ((Surrogate_update nan (sample_event s))\<lparr>rt_w := w1\<rparr>)"
    if "rt_sim s = At_pass" "\<not> st_ready (w_clk (rt_w s))"
      "integrate [rt_radar s] (rt_w (Surrogate_update nan (sample_event s))) = Continue w1"
| update: "radar_step nan Kernel s ((Surrogate_update nan (sample_event s))\<lparr>rt_sim := Updated\<rparr>)"
    if "rt_sim s = At_pass" "st_ready (w_clk (rt_w s))" "\<not> Surrogate_update_waits s"
| next_step: "radar_step nan Kernel s (s\<lparr>rt_sim := At_pass, rt_w := w1\<rparr>)"
    if "rt_sim s = Updated" "after_report radar_tmax [rt_radar s] (report (radar_ops nan) [rt_radar s] (rt_w s)) = Continue w1"
| loop_over: "radar_step nan Kernel s (s\<lparr>rt_sim := Left_loop, rt_w := w1\<rparr>)"
    if "rt_sim s = Updated" "after_report radar_tmax [rt_radar s] (report (radar_ops nan) [rt_radar s] (rt_w s)) = Break w1"
| stage_over: "radar_step nan Kernel s (radar_leave nan s)"
    if "rt_sim s = Left_loop"
| last_rpt: "radar_step nan Kernel s (s\<lparr>rt_sim := Returned, rt_w := Radar_rpt (rt_radar s) (rt_w s)\<rparr>)"
    if "rt_sim s = At_end"
| target_x: "radar_step nan Input s (s\<lparr>rt_input := Half y, rt_w := store gTarget_x x (rt_w s)\<rparr>)"
    if "rt_input s = Free"
| target_y: "radar_step nan Input s (s\<lparr>rt_input := Locking, rt_w := store gTarget_y y (rt_w s)\<rparr>)"
    if "rt_input s = Half y"
| late: "radar_step nan Input s (s\<lparr>rt_input := Free\<rparr>)"
    if "rt_input s = Locking" "st_ticklast (w_clk (rt_w s)) \<noteq> 0"
| in_time: "radar_step nan Input s (s\<lparr>rt_input := At_wait\<rparr>)"
    if "rt_input s = Locking" "st_ticklast (w_clk (rt_w s)) = 0"
| taken: "radar_step nan Input s ((processTargetInput_body s)\<lparr>rt_input := Free\<rparr>)"
    if "rt_input s = At_wait" "\<not> rt_waiting_for_cmd s"
| stop_message: "radar_step nan Input s (s\<lparr>rt_w := (rt_w s)\<lparr>w_stop := n\<rparr>\<rparr>)"
    if "rt_input s = Free"
| EndRun: "radar_step nan Input s (s\<lparr>rt_input := At_join\<rparr>)"
    if "rt_input s = Free"
| joined: "radar_step nan Input s (s\<lparr>rt_input := After_join\<rparr>)"
    if "rt_input s = At_join" "rt_sim s = Returned"

text \<open>A history of the two threads, as the list of whose turn it was.\<close>

inductive radar_run :: "real \<Rightarrow> thread list \<Rightarrow> radar_threads \<Rightarrow> radar_threads \<Rightarrow> bool" for nan where
  no_step: "radar_run nan [] s s"
| one_more: "radar_run nan (as @ [a]) s s2" if "radar_run nan as s s1" "radar_step nan a s1 s2"

text \<open>
  \<open>MonteCarlo_InitCase\<close>: a radar at 60 degrees, in two stages of the same time step; the thread of the kernel has entered the first one.
  \<open>stop\<close> is what the member \<open>stop\<close> of the message \<open>mSimStop\<close> holds.
\<close>

definition CMD_Radar_InitCase :: "real \<Rightarrow> real \<Rightarrow> nat \<Rightarrow> int \<Rightarrow> cmd_world \<Rightarrow> radar_threads option" where
  "CMD_Radar_InitCase nan junk b stop w =
     (case Surrogate_Radar_new junk b 60 2.643 0.7 w of
        None \<Rightarrow> None
      | Some w1 \<Rightarrow> Some \<lparr>rt_w = start_stage (radar_ops nan) radar_dt [b] (start_run [[b], [b]] w1), rt_radar = b,
          rt_waiting_for_ise = True, rt_waiting_for_cmd = False, rt_sim = At_pass, rt_dts = [radar_dt], rt_input = Free, rt_stop = stop,
          rt_published = [], rt_updates = 0, rt_taken = 0\<rparr>)"

section \<open>The clock of a run\<close>

text \<open>The number of whole time steps up to a time, as \<open>State::updateclock\<close> counts them.\<close>

definition ticks :: "real \<Rightarrow> int" where
  "ticks t = \<lfloor>(t + EPS) / radar_dt\<rfloor>"

text \<open>Where the clock is going: the present time at the start of a step, the end of the step within it.\<close>

definition bound_for :: "clock \<Rightarrow> real" where
  "bound_for c = (if st_ready c then st_t c else st_t1 c)"

definition steps_left :: "clock \<Rightarrow> nat" where
  "steps_left c = nat (1000 - ticks (bound_for c))"

definition radar_clock :: "integrator \<Rightarrow> clock \<Rightarrow> bool" where
  "radar_clock cls c \<longleftrightarrow> st_dtp c = radar_dt \<and>
     (if st_ready c then st_kpass c = 0 \<and> ticks (st_t c) < ticks (st_t1 c)
      else 0 < st_kpass c \<and> st_kpass c < passes cls \<and>
        (cls = State_rk4 \<and> st_kpass c = 3 \<or> cls = State_mm \<and> st_kpass c = 4 \<longrightarrow> st_t c = st_t1 c))"

lemma ticks_next: "ticks t < ticks (next_multiple t radar_dt)"
proof -
  have "next_multiple t radar_dt / radar_dt = of_int (ticks t + 1)" by (simp add: next_multiple_def ticks_def radar_dt_def)
  moreover have "0 \<le> EPS / radar_dt" by (simp add: radar_dt_def)
  ultimately have "of_int (ticks t + 1) \<le> (next_multiple t radar_dt + EPS) / radar_dt" by (simp add: add_divide_distrib)
  then have "ticks t + 1 \<le> ticks (next_multiple t radar_dt)" unfolding ticks_def [of "next_multiple t radar_dt"] by (simp add: le_floor_iff)
  then show ?thesis by simp
qed

lemma ticks_step: "ticks (t + radar_dt) = ticks t + 1"
  by (simp add: ticks_def radar_dt_def add_divide_distrib algebra_simps)

lemma ticks_before_end: "t + EPS < radar_tmax \<Longrightarrow> ticks t < 1000"
  by (simp add: ticks_def radar_tmax_def radar_dt_def floor_less_iff)

lemma ticks_end: "ticks radar_tmax = 1000"
  by (simp add: ticks_def radar_tmax_def radar_dt_def EPS_def floor_eq_iff)

lemma updateclock_starts:
  assumes "st_kpass c = 0" "st_dtp c = radar_dt" "st_ready c"
  shows "radar_clock cls (updateclock cls c)" "bound_for (updateclock cls c) = st_t1 c"
  using assms ticks_next by (cases cls; simp add: radar_clock_def bound_for_def passes_def updateclock_pass)+

lemma updateclock_goes_on:
  assumes "radar_clock cls c" "\<not> st_ready c"
  shows "radar_clock cls (updateclock cls c)" "bound_for (updateclock cls c) = bound_for c"
    "\<not> st_ready (updateclock cls c) \<Longrightarrow> st_kpass (updateclock cls c) = Suc (st_kpass c)" "0 < st_kpass c" "st_kpass c < 5"
proof -
  have k: "0 < st_kpass c" "st_kpass c < passes cls" "st_dtp c = radar_dt" using assms by (simp_all add: radar_clock_def)
  then have "st_kpass c = 1 \<or> st_kpass c = 2 \<or> st_kpass c = 3 \<or> st_kpass c = 4" by (auto simp: passes_def split: integrator.splits)
  then show "radar_clock cls (updateclock cls c)" "bound_for (updateclock cls c) = bound_for c"
    "\<not> st_ready (updateclock cls c) \<Longrightarrow> st_kpass (updateclock cls c) = Suc (st_kpass c)" "0 < st_kpass c" "st_kpass c < 5"
    using assms k ticks_next by (cases cls; auto simp: radar_clock_def bound_for_def passes_def updateclock_pass)+
qed

lemma integrate_clock:
  "integrate [b] w = Continue w1 \<Longrightarrow> w_clk w1 = updateclock (w_integrator w) (w_clk w) \<and> w_integrator w1 = w_integrator w"
  by (auto simp: integrate_def Let_def propagateStates_eq)

section \<open>What every step keeps\<close>

definition radar_ok :: "radar_threads \<Rightarrow> bool" where
  "radar_ok s \<longleftrightarrow>
     (let w = rt_w s; c = w_clk w
      in (case rt_sim s of
            At_pass \<Rightarrow> radar_clock (w_integrator w) c \<and> st_ticklast c = 0
          | Updated \<Rightarrow> st_ready c \<and> st_kpass c = 0 \<and> st_dtp c = radar_dt \<and> (st_t c + EPS < radar_tmax \<longrightarrow> ticks (st_t c) < ticks (st_t1 c)) \<and>
              st_ticklast c = 0
          | Left_loop \<Rightarrow> st_ready c \<and> st_kpass c = 0 \<and> st_ticklast c = 0
          | _ \<Rightarrow> st_ticklast c = 1)) \<and>
     set (rt_dts s) \<subseteq> {radar_dt} \<and> (rt_waiting_for_ise s \<longleftrightarrow> \<not> rt_waiting_for_cmd s) \<and>
     rt_taken s = rt_updates s + (if rt_waiting_for_ise s then 0 else 1)"

text \<open>The steps that the kernel has left, and the updates among them that wait for the other thread.\<close>

definition work :: "radar_threads \<Rightarrow> nat" where
  "work s = (let c = w_clk (rt_w s); n = 8 * steps_left c + 10 * length (rt_dts s)
     in case rt_sim s of
          At_pass \<Rightarrow> n + 5 + (if st_ready c then 0 else 5 - st_kpass c)
        | Updated \<Rightarrow> n + 4
        | Left_loop \<Rightarrow> n + 3
        | At_end \<Rightarrow> 1
        | Returned \<Rightarrow> 0)"

definition updates_left :: "radar_threads \<Rightarrow> nat" where
  "updates_left s = (let n = steps_left (w_clk (rt_w s)) + length (rt_dts s)
     in case rt_sim s of At_pass \<Rightarrow> n + 1 | Updated \<Rightarrow> n | Left_loop \<Rightarrow> n | _ \<Rightarrow> 0)"

definition advances :: "thread \<Rightarrow> radar_threads \<Rightarrow> radar_threads \<Rightarrow> bool" where
  "advances a s s' \<longleftrightarrow> radar_ok s' \<and> work s' + (if a = Kernel then 1 else 0) \<le> work s \<and>
     rt_updates s' + updates_left s' \<le> rt_updates s + updates_left s"

lemmas radar_world_simps = Radar_update_def Radar_rpt_def print_def store_def radar_ops_def Let_def

lemma Radar_keeps [simp]:
  "w_clk (Radar_update nan b w) = w_clk w" "w_integrator (Radar_update nan b w) = w_integrator w"
  "w_clk (Radar_rpt b w) = w_clk w" "w_integrator (Radar_rpt b w) = w_integrator w"
  "w_clk (store a v w) = w_clk w" "w_integrator (store a v w) = w_integrator w"
  by (simp_all add: radar_world_simps)

lemma radar_report: "report (radar_ops nan) [b] w = (Radar_rpt b w)\<lparr>w_clk := (w_clk w)\<lparr>st_tickfirst := 0\<rparr>\<rparr>"
  by (simp add: report_def radar_world_simps)

lemma radar_start_stage:
  "w_clk (start_stage (radar_ops nan) d [b] w) = (State_reset d ((w_clk w)\<lparr>st_dt := d\<rparr>))\<lparr>st_tickfirst := 1\<rparr>"
  "w_integrator (start_stage (radar_ops nan) d [b] w) = w_integrator w"
  by (simp_all add: start_stage_def init_block_def radar_ops_def Block_init_def Let_def)

lemma event_sampled:
  assumes "st_ready c" "ticks (st_t c) < ticks (st_t1 c)"
  defines "c' \<equiv> snd (State_sample EVENT radar_tmax c)"
  shows "st_ready c'" "st_kpass c' = st_kpass c" "st_dtp c' = st_dtp c" "st_t c' = st_t c" "st_ticklast c' = st_ticklast c"
    "st_t c' + EPS < radar_tmax \<Longrightarrow> ticks (st_t c') < ticks (st_t1 c')"
  using assms ticks_before_end [of "st_t c"] ticks_end by (auto simp: State_sample_def EVENT_def Let_def)

lemma event_within: "\<not> st_ready c \<Longrightarrow> snd (State_sample EVENT radar_tmax c) = c"
  by (simp add: State_sample_def)

lemma within_advances:
  assumes "radar_ok s" "rt_sim s = At_pass" "\<not> st_ready (w_clk (rt_w s))"
    "integrate [rt_radar s] (rt_w (Surrogate_update nan (sample_event s))) = Continue w1"
  shows "advances Kernel s ((Surrogate_update nan (sample_event s))\<lparr>rt_w := w1\<rparr>)"
proof -
  let ?c = "w_clk (rt_w s)" and ?i = "w_integrator (rt_w s)"
  have c: "w_clk w1 = updateclock ?i ?c" "w_integrator w1 = ?i"
    using integrate_clock [OF assms(4)] assms(3) by (simp_all add: Surrogate_update_def sample_event_def event_within)
  have r: "radar_clock ?i ?c" "st_ticklast ?c = 0" using assms(1,2) by (simp_all add: radar_ok_def Let_def)
  note u = updateclock_goes_on [OF r(1) assms(3)]
  have "steps_left (w_clk w1) = steps_left ?c" using u(2) c by (simp add: steps_left_def)
  then show ?thesis
    using assms(1-3) u(1,3-5) c r(2)
    by (auto simp: advances_def radar_ok_def work_def updates_left_def Surrogate_update_def sample_event_def event_within Let_def)
qed

lemma update_advances:
  assumes "radar_ok s" "rt_sim s = At_pass" "st_ready (w_clk (rt_w s))" "\<not> Surrogate_update_waits s"
  shows "advances Kernel s ((Surrogate_update nan (sample_event s))\<lparr>rt_sim := Updated\<rparr>)"
proof -
  let ?c = "w_clk (rt_w s)"
  have "st_kpass ?c = 0" "st_dtp ?c = radar_dt" "ticks (st_t ?c) < ticks (st_t1 ?c)" "\<not> rt_waiting_for_ise s" "st_ticklast ?c = 0"
    using assms by (simp_all add: radar_ok_def radar_clock_def Surrogate_update_waits_def Let_def)
  moreover note e = event_sampled [OF assms(3) this(3)]
  have "steps_left (snd (State_sample EVENT radar_tmax ?c)) = steps_left ?c" using e(1,4) assms(3) by (simp add: steps_left_def bound_for_def)
  ultimately show ?thesis
    using assms(1-3) e
    by (simp add: advances_def radar_ok_def work_def updates_left_def Surrogate_update_def sample_event_def Let_def)
qed

lemma after_report_cases:
  assumes "after_report tmax [b] w = p"
  shows "p = Break (w\<lparr>w_stop0 := w_stop w\<rparr>) \<or> p = Break (w\<lparr>w_stop := -1\<rparr>) \<or>
    st_t (w_clk w) + EPS < tmax \<and> p = integrate [b] w"
  using assms by (auto simp: after_report_def split: if_splits)

lemma next_advances:
  assumes "radar_ok s" "rt_sim s = Updated"
    "after_report radar_tmax [rt_radar s] (report (radar_ops nan) [rt_radar s] (rt_w s)) = Continue w1"
  shows "advances Kernel s (s\<lparr>rt_sim := At_pass, rt_w := w1\<rparr>)"
proof -
  let ?c = "w_clk (rt_w s)" and ?i = "w_integrator (rt_w s)"
  have r: "st_ready ?c" "st_kpass ?c = 0" "st_dtp ?c = radar_dt" "st_t ?c + EPS < radar_tmax \<longrightarrow> ticks (st_t ?c) < ticks (st_t1 ?c)" "st_ticklast ?c = 0"
    using assms(1,2) by (simp_all add: radar_ok_def Let_def)
  from after_report_cases [OF assms(3)] have t: "st_t ?c + EPS < radar_tmax"
    and "integrate [rt_radar s] (report (radar_ops nan) [rt_radar s] (rt_w s)) = Continue w1" by (simp_all add: radar_report)
  from integrate_clock [OF this(2)] have c: "w_clk w1 = updateclock ?i (?c\<lparr>st_tickfirst := 0\<rparr>)" "w_integrator w1 = ?i" by (simp_all add: radar_report)
  note u = updateclock_starts [of "?c\<lparr>st_tickfirst := 0\<rparr>" ?i, folded c(1)]
  have "ticks (st_t ?c) < 1000" "ticks (st_t ?c) < ticks (st_t1 ?c)" using t r(4) ticks_before_end by simp_all
  then have "steps_left (w_clk w1) < steps_left ?c" using u(2) r(1-3) by (simp add: steps_left_def bound_for_def)
  moreover have "st_ready (w_clk w1) \<or> 0 < st_kpass (w_clk w1)" "radar_clock (w_integrator w1) (w_clk w1)" "st_ticklast (w_clk w1) = 0"
    using u(1) r(1-3,5) c by (simp_all) (auto simp: radar_clock_def split: if_splits)
  ultimately show ?thesis
    using assms(1,2) by (auto simp: advances_def radar_ok_def work_def updates_left_def Let_def)
qed

lemma loop_over_advances:
  assumes "radar_ok s" "rt_sim s = Updated"
    "after_report radar_tmax [rt_radar s] (report (radar_ops nan) [rt_radar s] (rt_w s)) = Break w1"
  shows "advances Kernel s (s\<lparr>rt_sim := Left_loop, rt_w := w1\<rparr>)"
proof -
  let ?c = "w_clk (rt_w s)"
  have c: "w_clk w1 = ?c\<lparr>st_tickfirst := 0\<rparr>"
    using after_report_cases [OF assms(3)] by (auto simp: radar_report integrate_def Let_def)
  then have "steps_left (w_clk w1) = steps_left ?c" by (simp add: steps_left_def bound_for_def)
  then show ?thesis using assms(1,2) c by (simp add: advances_def radar_ok_def work_def updates_left_def Let_def)
qed

lemma leave_advances:
  assumes "radar_ok s" "rt_sim s = Left_loop"
  shows "advances Kernel s (radar_leave nan s)"
proof (cases "w_stop (rt_w s) < 0 \<or> rt_dts s = []")
  case True
  then show ?thesis
    using assms by (auto simp: advances_def radar_ok_def work_def updates_left_def radar_leave_def Let_def)
next
  case False
  let ?c = "w_clk (rt_w s)" and ?w = "start_stage (radar_ops nan) radar_dt [rt_radar s] (rt_w s)"
  have r: "st_ready ?c" "st_kpass ?c = 0" "st_ticklast ?c = 0" "set (rt_dts s) \<subseteq> {radar_dt}"
    using assms by (simp_all add: radar_ok_def Let_def)
  have "radar_clock (w_integrator ?w) (w_clk ?w)" "st_ticklast (w_clk ?w) = 0" "steps_left (w_clk ?w) = steps_left ?c" "st_ready (w_clk ?w)"
    using r(1-3) by (simp_all add: radar_start_stage State_reset_def radar_clock_def ticks_step steps_left_def bound_for_def)
  then show ?thesis
    using assms r(4) False by (cases "rt_dts s") (simp_all add: advances_def radar_ok_def work_def updates_left_def radar_leave_def Let_def)
qed

lemma step_advances: "radar_step nan a s s' \<Longrightarrow> radar_ok s \<Longrightarrow> advances a s s'"
proof (induction rule: radar_step.induct)
  case (within_step s w1)
  then show ?case by (intro within_advances)
next
  case (update s)
  then show ?case by (intro update_advances)
next
  case (next_step s w1)
  then show ?case by (intro next_advances)
next
  case (loop_over s w1)
  then show ?case by (intro loop_over_advances)
next
  case (stage_over s)
  then show ?case by (intro leave_advances)
qed (auto simp: advances_def radar_ok_def work_def updates_left_def processTargetInput_body_def Let_def split: radar_pc.splits)

section \<open>Histories\<close>

lemma run_advances:
  "radar_run nan as s s' \<Longrightarrow> radar_ok s \<Longrightarrow>
     radar_ok s' \<and> work s' + count_list as Kernel \<le> work s \<and> rt_updates s' + updates_left s' \<le> rt_updates s + updates_left s"
proof (induction rule: radar_run.induct)
  case (one_more as s s1 a s2)
  have "advances a s1 s2" using one_more step_advances by blast
  then show ?case using one_more by (cases a) (auto simp: advances_def)
qed simp

lemma run_trans: "radar_run nan bs s1 s2 \<Longrightarrow> radar_run nan as s s1 \<Longrightarrow> radar_run nan (as @ bs) s s2"
proof (induction rule: radar_run.induct)
  case (one_more bs s1 s2 b s3)
  have "radar_run nan ((as @ bs) @ [b]) s s3" by (rule radar_run.one_more [OF one_more.IH one_more.hyps(2)]) (rule one_more.prems)
  then show ?case by simp
qed simp

lemma run_Cons: "radar_step nan a s s1 \<Longrightarrow> radar_run nan as s1 s2 \<Longrightarrow> radar_run nan (a # as) s s2"
  using run_trans [of nan as s1 s2 "[a]" s] radar_run.one_more [OF radar_run.no_step, of nan a s s1] by simp

text \<open>The kernel goes on, unless it waits for a position.\<close>

lemma kernel_goes_on:
  assumes "rt_sim s \<noteq> Returned"
  shows "(\<exists>s'. radar_step nan Kernel s s' \<and> rt_input s' = rt_input s) \<or> rt_sim s = At_pass \<and> Surrogate_update_waits s"
proof (cases "rt_sim s")
  case At_pass
  consider "Surrogate_update_waits s" | "st_ready (w_clk (rt_w s))" "\<not> Surrogate_update_waits s" | "\<not> st_ready (w_clk (rt_w s))" by blast
  then show ?thesis
  proof cases
    case 2
    from radar_step.update [OF At_pass 2] show ?thesis by (fastforce simp: Surrogate_update_def sample_event_def)
  next
    case 3
    obtain w1 where "integrate [rt_radar s] (rt_w (Surrogate_update nan (sample_event s))) = Continue w1" by (simp add: integrate_def Let_def)
    from radar_step.within_step [OF At_pass 3 this] show ?thesis by (fastforce simp: Surrogate_update_def sample_event_def)
  qed (use At_pass in blast)
next
  case Updated
  let ?w = "report (radar_ops nan) [rt_radar s] (rt_w s)"
  show ?thesis
  proof (cases "after_report radar_tmax [rt_radar s] ?w")
    case (Continue w1)
    from radar_step.next_step [OF Updated this] show ?thesis by fastforce
  next
    case (Break w1)
    from radar_step.loop_over [OF Updated this] show ?thesis by fastforce
  qed (use after_report_cases [of radar_tmax "rt_radar s" ?w] in \<open>auto simp: integrate_def Let_def\<close>)
next
  case Left_loop
  from radar_step.stage_over [OF this, of nan] show ?thesis by (fastforce simp: radar_leave_def Let_def)
next
  case At_end
  from radar_step.last_rpt [OF this] show ?thesis by fastforce
qed (use assms in simp)

text \<open>A position that the other thread takes lets it go on.\<close>

lemma taken_unblocks:
  assumes "radar_ok s" "rt_sim s = At_pass" "Surrogate_update_waits s" "rt_input s = At_wait"
  shows "\<exists>s'. radar_step nan Input s s' \<and> rt_sim s' = At_pass \<and> \<not> Surrogate_update_waits s' \<and> rt_input s' = Free"
proof -
  have "\<not> rt_waiting_for_cmd s" using assms by (simp add: radar_ok_def Surrogate_update_waits_def Let_def)
  from radar_step.taken [OF assms(4) this] show ?thesis
    using assms(2) by (fastforce simp: processTargetInput_body_def Surrogate_update_waits_def Let_def)
qed

fun input_rank :: "input_pc \<Rightarrow> nat" where
  "input_rank Free = 3"
| "input_rank (Half y) = 2"
| "input_rank Locking = 1"
| "input_rank p = 0"

lemma input_moves:
  assumes "radar_ok s" "rt_sim s = At_pass" "Surrogate_update_waits s" "rt_input s \<notin> {At_wait, At_join, After_join}"
  shows "\<exists>s'. radar_step nan Input s s' \<and> radar_ok s' \<and> rt_sim s' = At_pass \<and> Surrogate_update_waits s' \<and>
    rt_input s' \<notin> {At_join, After_join} \<and> input_rank (rt_input s') < input_rank (rt_input s)"
proof -
  have t: "st_ticklast (w_clk (rt_w s)) = 0" using assms(1,2) by (simp add: radar_ok_def Let_def)
  have "\<exists>s'. radar_step nan Input s s' \<and> rt_sim s' = At_pass \<and> Surrogate_update_waits s' \<and>
      rt_input s' \<notin> {At_join, After_join} \<and> input_rank (rt_input s') < input_rank (rt_input s)"
  proof (cases "rt_input s")
    case Free
    from radar_step.target_x [OF this, of nan 0 0] Free assms(2,3) show ?thesis by (fastforce simp: Surrogate_update_waits_def)
  next
    case (Half y)
    from radar_step.target_y [OF this, of nan] Half assms(2,3) show ?thesis by (fastforce simp: Surrogate_update_waits_def)
  next
    case Locking
    from radar_step.in_time [OF this t, of nan] Locking assms(2,3) show ?thesis by (fastforce simp: Surrogate_update_waits_def)
  qed (use assms(4) in simp_all)
  then show ?thesis using step_advances [OF _ assms(1)] by (auto simp: advances_def)
qed

lemma position_arrives:
  assumes "radar_ok s" "rt_sim s = At_pass" "Surrogate_update_waits s" "rt_input s \<notin> {At_join, After_join}"
  shows "\<exists>as s'. radar_run nan as s s' \<and> rt_sim s' = At_pass \<and> Surrogate_update_waits s' \<and> rt_input s' = At_wait"
  using assms
proof (induction "input_rank (rt_input s)" arbitrary: s rule: less_induct)
  case less
  show ?case
  proof (cases "rt_input s = At_wait")
    case True
    then show ?thesis using less.prems radar_run.no_step by blast
  next
    case False
    then obtain t where t: "radar_step nan Input s t" "radar_ok t" "rt_sim t = At_pass" "Surrogate_update_waits t"
      "rt_input t \<notin> {At_join, After_join}" "input_rank (rt_input t) < input_rank (rt_input s)"
      using input_moves [of s nan] less.prems by blast
    from less.hyps [OF t(6,2-5)] run_Cons [OF t(1)] show ?thesis by blast
  qed
qed

lemma run_can_return:
  assumes "radar_ok s" "rt_input s \<notin> {At_join, After_join}"
  shows "\<exists>as s'. radar_run nan as s s' \<and> rt_sim s' = Returned"
  using assms
proof (induction "work s" arbitrary: s rule: less_induct)
  case less
  have kernel: "\<exists>as s'. radar_run nan as t s' \<and> rt_sim s' = Returned"
    if t: "radar_ok t" "rt_input t \<notin> {At_join, After_join}" "work t \<le> work s" "rt_sim t = At_pass \<longrightarrow> \<not> Surrogate_update_waits t" "rt_sim t \<noteq> Returned" for t
  proof -
    obtain t' where t': "radar_step nan Kernel t t'" "rt_input t' = rt_input t" using kernel_goes_on [OF t(5), of nan] t(4) by blast
    have "advances Kernel t t'" using step_advances t'(1) t(1) by blast
    then have "radar_ok t'" "work t' < work s" using t(3) by (simp_all add: advances_def)
    with less.hyps [of t'] t(2) t'(2) obtain as s' where "radar_run nan as t' s'" "rt_sim s' = Returned" by auto
    then show ?thesis using run_Cons [OF t'(1)] by blast
  qed
  show ?case
  proof (cases "rt_sim s = At_pass \<and> Surrogate_update_waits s")
    case True
    then obtain as t where t: "radar_run nan as s t" "rt_sim t = At_pass" "Surrogate_update_waits t" "rt_input t = At_wait"
      using position_arrives [OF less.prems(1) _ _ less.prems(2)] by blast
    have ok: "radar_ok t" "work t \<le> work s" using run_advances [OF t(1) less.prems(1)] by simp_all
    from taken_unblocks [OF ok(1) t(2-4)] obtain u where
      u: "radar_step nan Input t u" "rt_sim u = At_pass" "\<not> Surrogate_update_waits u" "rt_input u = Free" by blast
    have "advances Input t u" using step_advances u(1) ok(1) by blast
    then have "radar_ok u" "work u \<le> work s" using ok(2) by (simp_all add: advances_def)
    from kernel [OF this(1) _ this(2)] u obtain bs s' where "radar_run nan bs u s'" "rt_sim s' = Returned" by auto
    then show ?thesis using run_trans [OF run_Cons [OF u(1)] t(1)] by blast
  next
    case False
    then show ?thesis
    proof (cases "rt_sim s = Returned")
      case True
      then show ?thesis using radar_run.no_step by blast
    qed (use kernel [OF less.prems order_refl] in blast)
  qed
qed

section \<open>A pass without interruption\<close>

text \<open>When the other thread leaves it alone, the kernel makes the passes of the bare \<open>Radar\<close>, once the wait of the surrogate is over.\<close>

lemma surrogate_observes:
  "rt_w (Surrogate_update nan (sample_event s)) = observe (radar_ops nan) radar_tmax [rt_radar s] (rt_w s)"
  by (simp add: Surrogate_update_def sample_event_def observe_def radar_ops_def)

lemma uninterrupted_pass:
  assumes "rt_sim s = At_pass" "\<not> Surrogate_update_waits s"
    and "kernel_pass (radar_ops nan) radar_tmax [rt_radar s] (rt_w s) = Continue w1"
  shows "\<exists>n s'. radar_run nan (replicate n Kernel) s s' \<and> rt_w s' = w1 \<and> rt_sim s' = At_pass"
proof -
  let ?o = "observe (radar_ops nan) radar_tmax [rt_radar s] (rt_w s)"
  have r: "st_ready (w_clk ?o) = st_ready (w_clk (rt_w s))" by (simp add: observe_def radar_ops_def State_sample_def EVENT_def Let_def)
  show ?thesis
  proof (cases "st_ready (w_clk (rt_w s))")
    case True
    let ?t = "(Surrogate_update nan (sample_event s))\<lparr>rt_sim := Updated\<rparr>"
    have t: "rt_radar ?t = rt_radar s" "rt_w ?t = ?o" "rt_sim ?t = Updated"
      by (simp_all add: surrogate_observes) (simp add: Surrogate_update_def sample_event_def)
    have "radar_step nan Kernel s ?t" by (rule radar_step.update [OF assms(1) True assms(2)])
    moreover have "radar_step nan Kernel ?t (?t\<lparr>rt_sim := At_pass, rt_w := w1\<rparr>)"
      by (rule radar_step.next_step [OF t(3)]) (use assms(3) True in \<open>simp add: t r kernel_pass_after_report Let_def\<close>)
    ultimately have "radar_run nan [Kernel, Kernel] s (?t\<lparr>rt_sim := At_pass, rt_w := w1\<rparr>)" by (meson run_Cons radar_run.no_step)
    then show ?thesis by (intro exI [of _ "2"]) (fastforce simp: numeral_2_eq_2)
  next
    case False
    then have "integrate [rt_radar s] (rt_w (Surrogate_update nan (sample_event s))) = Continue w1"
      using assms(3) by (simp add: surrogate_observes kernel_pass_after_report r Let_def)
    from radar_step.within_step [OF assms(1) False this] have "radar_run nan [Kernel] s ((Surrogate_update nan (sample_event s))\<lparr>rt_w := w1\<rparr>)"
      using run_Cons radar_run.no_step by blast
    then show ?thesis using assms(1) by (intro exI [of _ "1"]) (fastforce simp: Surrogate_update_def sample_event_def)
  qed
qed

section \<open>The end of a run\<close>

text \<open>An end of the run before its time leaves both threads waiting for each other.\<close>

lemma early_end_deadlocks:
  assumes "rt_input s = At_join" "rt_sim s = At_pass" "Surrogate_update_waits s"
  shows "\<not> radar_step nan a s s'"
  using assms by (auto simp: Surrogate_update_waits_def elim: radar_step.cases)

lemma InitCase_ok:
  assumes "CMD_Radar_InitCase nan junk b stop w = Some s0"
  shows "radar_ok s0" "work s0 = 8015" "updates_left s0 = 1002" "rt_updates s0 = 0" "rt_input s0 = Free"
proof -
  obtain w1 where "Surrogate_Radar_new junk b 60 2.643 0.7 w = Some w1" using assms by (auto simp: CMD_Radar_InitCase_def split: option.splits)
  moreover obtain n where n: "start_run [[b], [b]] w1 = w1\<lparr>w_clk := State_set (w_clk w1), w_stop := 0, w_stop0 := 0, w_initCount := n\<rparr>"
    using start_run_eq by blast
  ultimately have s0: "s0 = \<lparr>rt_w = start_stage (radar_ops nan) radar_dt [b] (w1\<lparr>w_clk := State_set (w_clk w1), w_stop := 0, w_stop0 := 0, w_initCount := n\<rparr>),
      rt_radar = b, rt_waiting_for_ise = True, rt_waiting_for_cmd = False, rt_sim = At_pass, rt_dts = [radar_dt], rt_input = Free, rt_stop = stop,
      rt_published = [], rt_updates = 0, rt_taken = 0\<rparr>"
    using assms by (simp add: CMD_Radar_InitCase_def)
  have "ticks 0 = 0" by (simp add: ticks_def EPS_def radar_dt_def)
  then show "radar_ok s0" "work s0 = 8015" "updates_left s0 = 1002" "rt_updates s0 = 0" "rt_input s0 = Free"
    unfolding s0 using ticks_step [of 0]
    by (simp_all add: radar_ok_def radar_clock_def work_def updates_left_def steps_left_def bound_for_def radar_start_stage State_set_def
        State_reset_def Let_def)
qed

text \<open>
  C16. A run of \<open>CMD_Radar\<close> as the model makes it, with the radar inside its surrogate, ends as long as positions of the target come in.
  In every history of the two threads after \<open>MonteCarlo_InitCase\<close>, whatever positions and stop messages arrive and when: the kernel
  makes at most 8015 steps, among them at most 1002 updates at the start of a time step, each of which takes one position; when it has
  not returned, it can go on or it waits for the next position, with all positions taken; and unless \<open>MonteCarlo_EndRun\<close> was called, the
  history can be continued to one in which \<open>Sim::run\<close> has returned.
\<close>

theorem radar_run_ends:
  assumes "CMD_Radar_InitCase nan junk b stop w = Some s0" "radar_run nan as s0 s"
  shows "count_list as Kernel \<le> 8015 \<and> rt_updates s \<le> 1002 \<and>
    rt_taken s = rt_updates s + (if rt_waiting_for_ise s then 0 else 1) \<and>
    (rt_sim s \<noteq> Returned \<longrightarrow> (\<exists>s'. radar_step nan Kernel s s') \<or> rt_sim s = At_pass \<and> rt_waiting_for_ise s \<and> rt_taken s = rt_updates s) \<and>
    (rt_input s \<notin> {At_join, After_join} \<longrightarrow> (\<exists>as' s'. radar_run nan as' s s' \<and> rt_sim s' = Returned))"
proof -
  have "radar_ok s \<and> work s + count_list as Kernel \<le> 8015 \<and> rt_updates s + updates_left s \<le> 1002"
    using run_advances [OF assms(2)] InitCase_ok [OF assms(1)] by simp
  moreover from this have "rt_taken s = rt_updates s + (if rt_waiting_for_ise s then 0 else 1)" by (simp add: radar_ok_def)
  ultimately show ?thesis
    using kernel_goes_on [of s nan] run_can_return [of s nan] by (auto simp: Surrogate_update_waits_def)
qed

theorem radar_run_ends_witness:
  "\<exists>s0 as' s'. CMD_Radar_InitCase 0 0 1 0 example_cmd_world = Some s0 \<and> radar_run 0 as' s0 s' \<and> rt_sim s' = Returned"
proof -
  obtain s0 where s0: "CMD_Radar_InitCase 0 0 1 0 example_cmd_world = Some s0"
    by (simp add: CMD_Radar_InitCase_def Surrogate_Radar_new_def Radar_new_def addIntegrator_Some Let_def)
  from radar_run_ends [OF this radar_run.no_step] InitCase_ok(5) [OF s0] s0 show ?thesis by auto
qed

end
