(* ===== verification/InterpTables.thy ===== *)
theory InterpTables
  imports Prelude Complex_Main "HOL-Library.Monad_Syntax"
begin

text \<open>
  The tables of the CMD models (\<open>src/Models/CMD/table\<close>): functions of one, two or three variables, read from a text file and
  interpolated linearly between their points. A \<open>double\<close> is read as a real number. \<open>None\<close> is undefined behaviour: an index out of
  range, or a line longer than the buffer it is copied to; also the exception that a negative array length raises. The generator \<open>rand()\<close> is the list of its quotients by \<open>RAND_MAX\<close>.
\<close>

section \<open>Text\<close>

definition elem_at :: "'a list \<Rightarrow> int \<Rightarrow> 'a option" where
  "elem_at xs i = (if 0 \<le> i \<and> i < int (length xs) then Some (xs ! nat i) else None)"

definition c_str :: "string \<Rightarrow> string" where
  "c_str s = takeWhile (\<lambda>c. c \<noteq> CHR 0x00) s"

text \<open>The tokens that \<open>strtok\<close> finds.\<close>

function tokens :: "string \<Rightarrow> string \<Rightarrow> string list" where
  "tokens ds s =
     (let r = dropWhile (\<lambda>c. c \<in> set ds) s
      in if r = [] then [] else takeWhile (\<lambda>c. c \<notin> set ds) r # tokens ds (dropWhile (\<lambda>c. c \<notin> set ds) r))"
  by pat_completeness auto
termination
proof (relation "measure (\<lambda>(ds, s). length s)", goal_cases)
  case (2 ds s r)
  then obtain c rs where r: "r = c # rs" "c \<notin> set ds" by (metis hd_dropWhile list.collapse)
  then have "length (dropWhile (\<lambda>c. c \<notin> set ds) r) < length r" by (simp add: le_imp_less_Suc length_dropWhile_le)
  also have "length r \<le> length s" using 2 by (simp add: length_dropWhile_le)
  finally show ?case by simp
qed simp

declare tokens.simps [simp del]

text \<open>\<open>StrTok::str_split\<close> copies the line to an array of 256 characters.\<close>

definition str_split :: "string \<Rightarrow> string \<Rightarrow> string list option" where
  "str_split delims s =
     (if length (c_str s) \<ge> 256 then None
      else let v = tokens delims (c_str s) in Some (if v = [] then [[]] else v))"

definition is_space :: "char \<Rightarrow> bool" where
  "is_space c \<longleftrightarrow> c \<in> {CHR '' '', CHR 0x09, CHR 0x0A, CHR 0x0B, CHR 0x0C, CHR 0x0D}"

definition is_digit :: "char \<Rightarrow> bool" where
  "is_digit c \<longleftrightarrow> c \<in> set ''0123456789''"

fun strip_sign :: "string \<Rightarrow> bool \<times> string" where
  "strip_sign (c # s) = (if c = CHR ''-'' then (True, s) else if c = CHR ''+'' then (False, s) else (False, c # s))"
| "strip_sign [] = (False, [])"

text \<open>\<open>atof\<close> of the C library, for decimal numbers.\<close>

definition exponent_factor :: "string \<Rightarrow> real" where
  "exponent_factor s =
     (case s of
        [] \<Rightarrow> 1
      | c # r \<Rightarrow>
          let (neg, ds) = strip_sign r; e = takeWhile is_digit ds
          in if c \<in> set ''eE'' \<and> e \<noteq> [] then (if neg then 1 / 10 ^ nat (digits_value 0 e) else 10 ^ nat (digits_value 0 e)) else 1)"

definition atof :: "string \<Rightarrow> real" where
  "atof s =
     (let (neg, r) = strip_sign (dropWhile is_space s);
          ip = takeWhile is_digit r;
          r1 = dropWhile is_digit r;
          point = r1 \<noteq> [] \<and> hd r1 = CHR ''.'';
          fp = (if point then takeWhile is_digit (tl r1) else []);
          r2 = (if point then dropWhile is_digit (tl r1) else r1);
          m = real_of_int (digits_value 0 (ip @ fp)) / 10 ^ length fp
      in if ip = [] \<and> fp = [] then 0 else (if neg then - m else m) * exponent_factor r2)"

section \<open>Search\<close>

definition limit :: "real \<Rightarrow> real \<Rightarrow> real \<Rightarrow> real" where
  "limit x b1 b2 = (if x < b1 then b1 else if x > b2 then b2 else x)"

definition rand0 :: "real \<Rightarrow> real \<Rightarrow> real \<Rightarrow> real" where
  "rand0 r b1 b2 = r * (b2 - b1) + b1"

text \<open>The place of \<open>x\<close> between two points of the table.\<close>

definition located :: "real \<Rightarrow> real list \<Rightarrow> int \<Rightarrow> int \<Rightarrow> (int \<times> int \<times> real) option" where
  "located x v il im = do { a \<leftarrow> elem_at v il; b \<leftarrow> elem_at v im; Some (il, im, (x - a) / (b - a)) }"

function search_loop :: "real \<Rightarrow> real list \<Rightarrow> int \<Rightarrow> int \<Rightarrow> (int \<times> int \<times> real) option" where
  "search_loop x v low high =
     (if low \<le> high then
        let mid = (low + high) div 2
        in case elem_at v mid of
             None \<Rightarrow> None
           | Some a \<Rightarrow>
               if x < a then search_loop x v low (mid - 1)
               else if x > a then search_loop x v (mid + 1) high
               else located x v mid (mid + 1)
      else located x v high (high + 1))"
  by pat_completeness auto
termination by (relation "measure (\<lambda>(x, v, low, high). nat (high - low + 1))") auto

declare search_loop.simps [simp del]

definition binsearch :: "real \<Rightarrow> real list \<Rightarrow> int \<Rightarrow> (int \<times> int \<times> real) option" where
  "binsearch x v n =
     do { a \<leftarrow> elem_at v 0;
          if x \<le> a then Some (0, 0, 0)
          else do { b \<leftarrow> elem_at v (n - 1);
                    if x \<ge> b then Some (n - 1, n - 1, 0) else search_loop x v 0 (n - 1) } }"

section \<open>Tables of one variable\<close>

record Table1 =
  t1_tabname :: string
  t1_tabnameFound :: bool
  t1_tabRead :: bool
  t1_x1name :: string
  t1_yname :: string
  t1_nx1 :: int
  t1_x1 :: "real list"
  t1_y :: "real list"

definition Table1_interp :: "Table1 \<Rightarrow> real \<Rightarrow> real option" where
  "Table1_interp t xi =
     (if \<not> t1_tabRead t then Some 0
      else do { (il, im, d) \<leftarrow> binsearch xi (t1_x1 t) (t1_nx1 t);
                ym \<leftarrow> elem_at (t1_y t) im;
                yl \<leftarrow> elem_at (t1_y t) il;
                Some (d * (ym - yl) + yl) })"

text \<open>The index of the line that begins with the name of the table; the inner \<open>None\<close>: there is none.\<close>

abbreviation table_delims :: string where
  "table_delims \<equiv> [CHR '' '', CHR ''='', CHR 0x09]"

fun find_table :: "string \<Rightarrow> string list \<Rightarrow> int \<Rightarrow> int option option" where
  "find_table tabname [] i = Some None"
| "find_table tabname (l # ls) i =
     do { vs \<leftarrow> str_split table_delims l;
          if hd vs = [] then find_table tabname ls (i + 1)
          else if c_str (hd vs) = c_str tabname then Some (Some i)
          else find_table tabname ls (i + 1) }"

definition split_line :: "string list \<Rightarrow> int \<Rightarrow> string list option" where
  "split_line vlines i = do { l \<leftarrow> elem_at vlines i; str_split table_delims l }"

text \<open>The first \<open>n\<close> columns of a line; \<open>new double[n]\<close> throws for a negative length.\<close>

definition read_row :: "string list \<Rightarrow> int \<Rightarrow> real list option" where
  "read_row vs n = those (map (\<lambda>j. map_option atof (elem_at vs (int j))) [0..<nat n])"

fun read_rows :: "string list \<Rightarrow> int \<Rightarrow> int \<Rightarrow> nat \<Rightarrow> (real list list \<times> int) option" where
  "read_rows vlines n i 0 = Some ([], i)"
| "read_rows vlines n i (Suc m) =
     do { vs \<leftarrow> split_line vlines (i + 1);
          r \<leftarrow> read_row vs n;
          (rs, k) \<leftarrow> read_rows vlines n (i + 1) m;
          Some (r # rs, k) }"

definition Table1_parse :: "string list \<Rightarrow> int \<Rightarrow> Table1 \<Rightarrow> Table1 option" where
  "Table1_parse vlines i t =
     do { vs \<leftarrow> split_line vlines (i + 1);
          n \<leftarrow> map_option atoi (elem_at vs 0);
          if n < 0 then None
          else do { names \<leftarrow> split_line vlines (i + 2);
                    x1name \<leftarrow> elem_at names 0;
                    yname \<leftarrow> elem_at names 1;
                    (rows, k) \<leftarrow> read_rows vlines 2 (i + 2) (nat n);
                    Some (t\<lparr>t1_tabnameFound := True, t1_nx1 := n, t1_x1name := x1name, t1_yname := yname,
                            t1_x1 := map (\<lambda>r. r ! 0) rows, t1_y := map (\<lambda>r. r ! 1) rows, t1_tabRead := True\<rparr>) } }"

definition Table1_read :: "string \<Rightarrow> string list \<Rightarrow> Table1 \<Rightarrow> Table1 option" where
  "Table1_read tabname vlines t =
     do { let t1 = t\<lparr>t1_tabname := tabname\<rparr>;
          r \<leftarrow> find_table tabname vlines 0;
          case r of None \<Rightarrow> Some t1 | Some i \<Rightarrow> Table1_parse vlines i t1 }"

definition Table1_readCSF_thrust :: "string list \<Rightarrow> Table1 \<Rightarrow> Table1 option" where
  "Table1_readCSF_thrust vlines t =
     do { vs \<leftarrow> split_line vlines 0;
          tabname \<leftarrow> elem_at vs 0;
          let n = int (length vlines) - 2;
          if n < 0 then None
          else do { (rows, k) \<leftarrow> read_rows vlines 2 1 (nat n);
                    Some (t\<lparr>t1_tabname := tabname, t1_x1name := ''time'', t1_yname := ''thrust'', t1_nx1 := n,
                            t1_x1 := map (\<lambda>r. r ! 0) rows, t1_y := map (\<lambda>r. r ! 1) rows, t1_tabRead := True\<rparr>) } }"

section \<open>Tables of two and of three variables\<close>

record Table2 =
  t2_tabname :: string
  t2_tabnameFound :: bool
  t2_tabRead :: bool
  t2_x1name :: string
  t2_x2name :: string
  t2_yname :: string
  t2_nx1 :: int
  t2_nx2 :: int
  t2_x1 :: "real list"
  t2_x2 :: "real list"
  t2_y :: "real list"

definition Table2_interp :: "Table2 \<Rightarrow> real \<Rightarrow> real \<Rightarrow> real option" where
  "Table2_interp t xi1 xi2 =
     (if \<not> t2_tabRead t then Some 0
      else do { (ilr, imr, dr) \<leftarrow> binsearch xi1 (t2_x1 t) (t2_nx1 t);
                (ilc, imc, dc) \<leftarrow> binsearch xi2 (t2_x2 t) (t2_nx2 t);
                p1 \<leftarrow> elem_at (t2_y t) (ilr * t2_nx2 t + ilc);
                p2 \<leftarrow> elem_at (t2_y t) (ilr * t2_nx2 t + imc);
                p3 \<leftarrow> elem_at (t2_y t) (imr * t2_nx2 t + ilc);
                p4 \<leftarrow> elem_at (t2_y t) (imr * t2_nx2 t + imc);
                let xp1 = dr * (p3 - p1) + p1;
                let xp2 = dr * (p4 - p2) + p2;
                Some (dc * (xp2 - xp1) + xp1) })"

definition Table2_parse :: "string list \<Rightarrow> int \<Rightarrow> Table2 \<Rightarrow> Table2 option" where
  "Table2_parse vlines i t =
     do { vs \<leftarrow> split_line vlines (i + 1);
          n1 \<leftarrow> map_option atoi (elem_at vs 0);
          n2 \<leftarrow> map_option atoi (elem_at vs 1);
          if n1 < 0 \<or> n2 < 0 then None
          else do { x1name \<leftarrow> map_option hd (split_line vlines (i + 2));
                    v1 \<leftarrow> split_line vlines (i + 3);
                    x1 \<leftarrow> read_row v1 n1;
                    x2name \<leftarrow> map_option hd (split_line vlines (i + 4));
                    v2 \<leftarrow> split_line vlines (i + 5);
                    x2 \<leftarrow> read_row v2 n2;
                    yname \<leftarrow> map_option hd (split_line vlines (i + 6));
                    (rows, k) \<leftarrow> read_rows vlines n2 (i + 6) (nat n1);
                    Some (t\<lparr>t2_tabnameFound := True, t2_nx1 := n1, t2_nx2 := n2, t2_x1name := x1name, t2_x2name := x2name,
                            t2_yname := yname, t2_x1 := x1, t2_x2 := x2, t2_y := concat rows, t2_tabRead := True\<rparr>) } }"

definition Table2_read :: "string \<Rightarrow> string list \<Rightarrow> Table2 \<Rightarrow> Table2 option" where
  "Table2_read tabname vlines t =
     do { let t1 = t\<lparr>t2_tabname := tabname\<rparr>;
          r \<leftarrow> find_table tabname vlines 0;
          case r of None \<Rightarrow> Some t1 | Some i \<Rightarrow> Table2_parse vlines i t1 }"

record Table3 =
  t3_tabname :: string
  t3_tabnameFound :: bool
  t3_tabRead :: bool
  t3_x1name :: string
  t3_x2name :: string
  t3_x3name :: string
  t3_yname :: string
  t3_nx1 :: int
  t3_nx2 :: int
  t3_nx3 :: int
  t3_x1 :: "real list"
  t3_x2 :: "real list"
  t3_x3 :: "real list"
  t3_y :: "real list"

definition Table3_interp :: "Table3 \<Rightarrow> real \<Rightarrow> real \<Rightarrow> real \<Rightarrow> real option" where
  "Table3_interp t xi1 xi2 xi3 =
     (if \<not> t3_tabRead t then Some 0
      else do { (ilr, imr, dr) \<leftarrow> binsearch xi1 (t3_x1 t) (t3_nx1 t);
                (ilc, imc, dc) \<leftarrow> binsearch xi2 (t3_x2 t) (t3_nx2 t);
                (ils, ims, ds) \<leftarrow> binsearch xi3 (t3_x3 t) (t3_nx3 t);
                let m = t3_nx1 t * t3_nx2 t;
                p1 \<leftarrow> elem_at (t3_y t) (ils * m + ilr * t3_nx2 t + ilc);
                p2 \<leftarrow> elem_at (t3_y t) (ils * m + ilr * t3_nx2 t + imc);
                p3 \<leftarrow> elem_at (t3_y t) (ils * m + imr * t3_nx2 t + ilc);
                p4 \<leftarrow> elem_at (t3_y t) (ils * m + imr * t3_nx2 t + imc);
                p5 \<leftarrow> elem_at (t3_y t) (ims * m + ilr * t3_nx2 t + ilc);
                p6 \<leftarrow> elem_at (t3_y t) (ims * m + ilr * t3_nx2 t + imc);
                p7 \<leftarrow> elem_at (t3_y t) (ims * m + imr * t3_nx2 t + ilc);
                p8 \<leftarrow> elem_at (t3_y t) (ims * m + imr * t3_nx2 t + imc);
                let xp1 = dr * (p3 - p1) + p1;
                let xp2 = dr * (p4 - p2) + p2;
                let xp3 = dr * (p7 - p5) + p5;
                let xp4 = dr * (p8 - p6) + p6;
                let xr1 = dc * (xp2 - xp1) + xp1;
                let xr2 = dc * (xp4 - xp3) + xp3;
                Some (ds * (xr2 - xr1) + xr1) })"

text \<open>The lines of the values: before each of them, empty lines are skipped. The fuel is the number of lines.\<close>

fun next_line :: "string list \<Rightarrow> int \<Rightarrow> nat \<Rightarrow> (string list \<times> int) option" where
  "next_line vlines i 0 = None"
| "next_line vlines i (Suc n) =
     do { vs \<leftarrow> split_line vlines (i + 1);
          if hd vs = [] then next_line vlines (i + 1) n else Some (vs, i + 1) }"

fun read_blocks :: "string list \<Rightarrow> int \<Rightarrow> int \<Rightarrow> nat \<Rightarrow> (real list list \<times> int) option" where
  "read_blocks vlines n i 0 = Some ([], i)"
| "read_blocks vlines n i (Suc m) =
     do { (vs, j) \<leftarrow> next_line vlines i (Suc (length vlines));
          r \<leftarrow> read_row vs n;
          (rs, k) \<leftarrow> read_blocks vlines n j m;
          Some (r # rs, k) }"

definition Table3_parse :: "string list \<Rightarrow> int \<Rightarrow> Table3 \<Rightarrow> Table3 option" where
  "Table3_parse vlines i t =
     do { vs \<leftarrow> split_line vlines (i + 1);
          n1 \<leftarrow> map_option atoi (elem_at vs 0);
          n2 \<leftarrow> map_option atoi (elem_at vs 1);
          n3 \<leftarrow> map_option atoi (elem_at vs 2);
          if n1 < 0 \<or> n2 < 0 \<or> n3 < 0 then None
          else do { x1name \<leftarrow> map_option hd (split_line vlines (i + 2));
                    v1 \<leftarrow> split_line vlines (i + 3);
                    x1 \<leftarrow> read_row v1 n1;
                    x2name \<leftarrow> map_option hd (split_line vlines (i + 4));
                    v2 \<leftarrow> split_line vlines (i + 5);
                    x2 \<leftarrow> read_row v2 n2;
                    x3name \<leftarrow> map_option hd (split_line vlines (i + 6));
                    v3 \<leftarrow> split_line vlines (i + 7);
                    x3 \<leftarrow> read_row v3 n3;
                    yname \<leftarrow> map_option hd (split_line vlines (i + 8));
                    (rows, k) \<leftarrow> read_blocks vlines n2 (i + 8) (nat n3 * nat n1);
                    Some (t\<lparr>t3_tabnameFound := True, t3_nx1 := n1, t3_nx2 := n2, t3_nx3 := n3, t3_x1name := x1name,
                            t3_x2name := x2name, t3_x3name := x3name, t3_yname := yname, t3_x1 := x1, t3_x2 := x2, t3_x3 := x3,
                            t3_y := concat rows, t3_tabRead := True\<rparr>) } }"

definition Table3_read :: "string \<Rightarrow> string list \<Rightarrow> Table3 \<Rightarrow> Table3 option" where
  "Table3_read tabname vlines t =
     do { let t1 = t\<lparr>t3_tabname := tabname\<rparr>;
          r \<leftarrow> find_table tabname vlines 0;
          case r of None \<Rightarrow> Some t1 | Some i \<Rightarrow> Table3_parse vlines i t1 }"

section \<open>Self-tests\<close>

text \<open>\<open>passed\<close> of the test functions; \<open>rs\<close> are the random numbers, one per argument.\<close>

definition close_to :: "real option \<Rightarrow> real \<Rightarrow> bool option" where
  "close_to yi y = map_option (\<lambda>v. \<not> \<bar>v - y\<bar> > 1 / 1000000) yi"

definition all_passed :: "bool option list \<Rightarrow> bool option" where
  "all_passed bs = map_option (\<lambda>l. list_all id l) (those bs)"

definition Table1_test :: "string \<Rightarrow> Table1 \<Rightarrow> real list \<Rightarrow> bool option" where
  "Table1_test fname t rs =
     (if \<not> t1_tabRead t then Some False
      else if c_str fname \<noteq> ''table.dat'' then Some False
      else all_passed
        (map (\<lambda>i. do { x \<leftarrow> elem_at (t1_x1 t) (int i); close_to (Table1_interp t x) (x * 1000) }) [0..<nat (t1_nx1 t)] @
         map (\<lambda>r. let p1 = rand0 r (-1) 5; pp1 = limit p1 0 4 in close_to (Table1_interp t p1) (pp1 * 1000)) rs))"

definition Table2_test :: "string \<Rightarrow> Table2 \<Rightarrow> (real \<times> real) list \<Rightarrow> bool option" where
  "Table2_test fname t rs =
     (if \<not> t2_tabRead t then Some False
      else if c_str fname \<noteq> ''table.dat'' then Some False
      else all_passed
        ([do { p1 \<leftarrow> elem_at (t2_x1 t) (int i); p2 \<leftarrow> elem_at (t2_x2 t) (int j); close_to (Table2_interp t p1 p2) (p1 * p2) }.
            i \<leftarrow> [0..<nat (t2_nx1 t)], j \<leftarrow> [0..<nat (t2_nx2 t)]] @
         map (\<lambda>(r1, r2). let p1 = rand0 r1 0 5; p2 = rand0 r2 0 16; pp1 = limit p1 1 4; pp2 = limit p2 5 15
                         in close_to (Table2_interp t p1 p2) (pp1 * pp2)) rs))"

definition Table3_test :: "string \<Rightarrow> Table3 \<Rightarrow> (real \<times> real \<times> real) list \<Rightarrow> bool option" where
  "Table3_test fname t rs =
     (if \<not> t3_tabRead t then Some False
      else if c_str fname \<noteq> ''table.dat'' then Some False
      else all_passed
        ([do { p1 \<leftarrow> elem_at (t3_x1 t) (int i); p2 \<leftarrow> elem_at (t3_x2 t) (int j); p3 \<leftarrow> elem_at (t3_x3 t) (int k);
               close_to (Table3_interp t p1 p2 p3) (p1 * p2 * p3) }.
            i \<leftarrow> [0..<nat (t3_nx1 t)], j \<leftarrow> [0..<nat (t3_nx2 t)], k \<leftarrow> [0..<nat (t3_nx3 t)]] @
         map (\<lambda>(r1, r2, r3).
                let p1 = rand0 r1 0 5; p2 = rand0 r2 0 20; p3 = rand0 r3 0 11; pp1 = limit p1 1 4; pp2 = limit p2 5 15; pp3 = limit p3 1 10
                in close_to (Table3_interp t p1 p2 p3) (pp1 * pp2 * pp3)) rs))"

section \<open>Output\<close>

text \<open>The inserters, with the number formats of the stream as arguments. The third one writes the second variable twice.\<close>

definition spaced :: "(real \<Rightarrow> string) \<Rightarrow> real list \<Rightarrow> string" where
  "spaced fmt vs = concat (map (\<lambda>v. fmt v @ '' '') vs)"

definition Table1_print :: "(real \<Rightarrow> string) \<Rightarrow> (int \<Rightarrow> string) \<Rightarrow> Table1 \<Rightarrow> string list option" where
  "Table1_print fmt ifmt t =
     do { rows \<leftarrow> those (map (\<lambda>j. do { a \<leftarrow> elem_at (t1_x1 t) (int j); b \<leftarrow> elem_at (t1_y t) (int j); Some (fmt a @ '' '' @ fmt b) })
            [0..<nat (t1_nx1 t)]);
          Some ([t1_tabname t, ifmt (t1_nx1 t), t1_x1name t @ '' '' @ t1_yname t] @ rows) }"

definition columns :: "real list \<Rightarrow> int \<Rightarrow> int \<Rightarrow> real list option" where
  "columns y from n = those (map (\<lambda>k. elem_at y (from + int k)) [0..<nat n])"

definition Table2_print :: "(real \<Rightarrow> string) \<Rightarrow> (int \<Rightarrow> string) \<Rightarrow> Table2 \<Rightarrow> string list option" where
  "Table2_print fmt ifmt t =
     do { v1 \<leftarrow> columns (t2_x1 t) 0 (t2_nx1 t);
          v2 \<leftarrow> columns (t2_x2 t) 0 (t2_nx2 t);
          rows \<leftarrow> those (map (\<lambda>j. columns (t2_y t) (int j * t2_nx2 t) (t2_nx2 t)) [0..<nat (t2_nx1 t)]);
          Some ([t2_tabname t, ifmt (t2_nx1 t) @ '' '' @ ifmt (t2_nx2 t), t2_x1name t, spaced fmt v1, t2_x2name t, spaced fmt v2,
                 t2_yname t] @ map (spaced fmt) rows) }"

definition Table3_print :: "(real \<Rightarrow> string) \<Rightarrow> (int \<Rightarrow> string) \<Rightarrow> Table3 \<Rightarrow> string list option" where
  "Table3_print fmt ifmt t =
     do { v1 \<leftarrow> columns (t3_x1 t) 0 (t3_nx1 t);
          v2 \<leftarrow> columns (t3_x2 t) 0 (t3_nx2 t);
          rows \<leftarrow> those [columns (t3_y t) (int m * (t3_nx1 t * t3_nx2 t) + int j * t3_nx2 t) (t3_nx2 t).
                       m \<leftarrow> [0..<nat (t3_nx3 t)], j \<leftarrow> [0..<nat (t3_nx1 t)]];
          Some ([t3_tabname t, ifmt (t3_nx1 t) @ '' '' @ ifmt (t3_nx2 t), t3_x1name t, spaced fmt v1, t3_x2name t, spaced fmt v2,
                 t3_x2name t, spaced fmt v2, t3_yname t] @ map (spaced fmt) rows) }"

section \<open>The search finds the place of its argument\<close>

lemma elem_at_int [simp]: "i < length xs \<Longrightarrow> elem_at xs (int i) = Some (xs ! i)"
  by (simp add: elem_at_def)

text \<open>The points of a table of one variable, in increasing order.\<close>

abbreviation increasing :: "real list \<Rightarrow> bool" where
  "increasing v \<equiv> sorted_wrt (<) v"

lemma increasing_less: "increasing v \<Longrightarrow> i < j \<Longrightarrow> j < length v \<Longrightarrow> v ! i < v ! j"
  by (simp add: sorted_wrt_nth_less)

lemma increasing_mono: "increasing v \<Longrightarrow> i \<le> j \<Longrightarrow> j < length v \<Longrightarrow> v ! i \<le> v ! j"
  using increasing_less [of v i j] by (cases "i = j") auto

text \<open>Two neighbours that \<open>x\<close> lies between.\<close>

definition brackets :: "real \<Rightarrow> real list \<Rightarrow> (int \<times> int \<times> real) option \<Rightarrow> bool" where
  "brackets x v r \<longleftrightarrow> (\<exists>i. Suc i < length v \<and> v ! i \<le> x \<and> x < v ! Suc i \<and>
     r = Some (int i, int (Suc i), (x - v ! i) / (v ! Suc i - v ! i)))"

lemma located_brackets:
  "Suc i < length v \<Longrightarrow> v ! i \<le> x \<Longrightarrow> x < v ! Suc i \<Longrightarrow> brackets x v (located x v (int i) (int i + 1))"
  using elem_at_int [of i v] elem_at_int [of "Suc i" v] by (auto simp: brackets_def located_def add.commute)

lemma search_loop_brackets:
  assumes "increasing v" "v ! 0 < x" "x < v ! (length v - 1)" "0 \<le> low" "low \<le> high + 1" "high < int (length v)"
    and "\<forall>i. int i < low \<longrightarrow> v ! i < x" "\<forall>i < length v. high < int i \<longrightarrow> x < v ! i"
  shows "brackets x v (search_loop x v low high)"
  using assms
proof (induction x v low high rule: search_loop.induct)
  case (1 x v low high)
  have v: "v \<noteq> []" using "1.prems" by (cases v) auto
  show ?case
  proof (cases "low \<le> high")
    case True
    define mid where "mid = (low + high) div 2"
    have mid: "low \<le> mid" "mid \<le> high" using True by (simp_all add: mid_def)
    define k where "k = nat mid"
    have k: "mid = int k" "k < length v" using mid "1.prems"(4,6) by (simp_all add: k_def)
    have a: "elem_at v mid = Some (v ! k)" using k by simp
    consider "x < v ! k" | "x > v ! k" | "x = v ! k" by linarith
    then show ?thesis
    proof cases
      case 1
      have "x < v ! i" if "i < length v" "mid - 1 < int i" for i
        using 1 increasing_mono [OF "1.prems"(1) _ that(1), of k] that(2) k(1) by (intro less_le_trans [OF 1]) simp
      then have "brackets x v (search_loop x v low (mid - 1))"
        using mid k(1) "1.prems" 1 by (intro "1.IH"(1) [OF True mid_def a]) auto
      then show ?thesis using True a 1 by (simp add: search_loop.simps [of x v low high] mid_def)
    next
      case 2
      have n: "\<not> x < v ! k" using 2 by simp
      have "v ! i < x" if "int i < mid + 1" for i
        using increasing_mono [OF "1.prems"(1) _ k(2), of i] that k(1) by (intro le_less_trans [OF _ 2]) simp
      then have "brackets x v (search_loop x v (mid + 1) high)"
        using mid k(1) "1.prems" 2 by (intro "1.IH"(2) [OF True mid_def a n]) auto
      then show ?thesis using True a 2 by (simp add: search_loop.simps [of x v low high] mid_def)
    next
      case 3
      have "Suc k < length v" using 3 "1.prems"(3) k(2) by (metis Suc_lessI diff_Suc_1 less_irrefl)
      then have "brackets x v (located x v (int k) (int k + 1))"
        using 3 increasing_less [OF "1.prems"(1), of k "Suc k"] by (intro located_brackets) auto
      moreover have "search_loop x v low high = located x v (int k) (int k + 1)"
        using True a 3 k(1) by (subst search_loop.simps) (simp add: mid_def Let_def)
      ultimately show ?thesis by simp
    qed
  next
    case False
    then have l: "low = high + 1" using "1.prems"(5) by simp
    have "0 \<le> high"
    proof (rule ccontr)
      assume "\<not> 0 \<le> high"
      then have "x < v ! 0" using "1.prems"(8) v by auto
      then show False using "1.prems"(2) by simp
    qed
    define k where "k = nat high"
    have k: "high = int k" "k < length v" using \<open>0 \<le> high\<close> "1.prems"(6) by (simp_all add: k_def)
    have "v ! k < x" using "1.prems"(7) k l by simp
    then have "Suc k < length v" using "1.prems"(3) k(2) by (metis Suc_lessI diff_Suc_1 not_less_iff_gr_or_eq)
    moreover have "x < v ! Suc k" using "1.prems"(8) k \<open>Suc k < length v\<close> by simp
    ultimately show ?thesis
      using \<open>v ! k < x\<close> located_brackets [of k v x] k(1) False by (subst search_loop.simps) simp
  qed
qed

text \<open>A point of the table, or a place between two neighbours: where a search ends.\<close>

definition place :: "real list \<Rightarrow> real \<Rightarrow> nat \<times> nat \<times> real \<Rightarrow> bool" where
  "place v x p \<longleftrightarrow> (case p of (i, j, d) \<Rightarrow> i \<le> j \<and> j \<le> Suc i \<and> j < length v \<and> 0 \<le> d \<and> d < 1 \<and> v ! i + d * (v ! j - v ! i) = x)"

lemma limit_ends: "v \<noteq> [] \<Longrightarrow> increasing v \<Longrightarrow> x \<le> v ! 0 \<Longrightarrow> limit x (hd v) (last v) = v ! 0"
  "v \<noteq> [] \<Longrightarrow> increasing v \<Longrightarrow> x \<ge> v ! (length v - 1) \<Longrightarrow> limit x (hd v) (last v) = v ! (length v - 1)"
  using increasing_mono [of v 0 "length v - 1"] by (auto simp: limit_def hd_conv_nth last_conv_nth)

lemma binsearch_place:
  assumes "v \<noteq> []" "increasing v"
  shows "\<exists>i j d. binsearch x v (int (length v)) = Some (int i, int j, d) \<and> place v (limit x (hd v) (last v)) (i, j, d)"
proof -
  let ?n = "length v"
  have e: "elem_at v 0 = Some (v ! 0)" "elem_at v (int ?n - 1) = Some (v ! (?n - 1))"
    using assms(1) elem_at_int [of 0 v] elem_at_int [of "?n - 1" v] by (auto simp: of_nat_diff Suc_leI)
  consider "x \<le> v ! 0" | "x > v ! 0" "x \<ge> v ! (?n - 1)" | "x > v ! 0" "x < v ! (?n - 1)" by linarith
  then show ?thesis
  proof cases
    case 1
    then show ?thesis
      using assms e limit_ends(1) [OF assms 1] by (intro exI [of _ 0] exI [of _ "0::real"]) (simp add: binsearch_def place_def)
  next
    case 2
    then show ?thesis using assms e limit_ends(2) [OF assms 2(2)]
      by (intro exI [of _ "?n - 1"] exI [of _ "0::real"]) (simp add: binsearch_def place_def of_nat_diff Suc_leI)
  next
    case 3
    then have "brackets x v (search_loop x v 0 (int ?n - 1))" using assms by (intro search_loop_brackets) auto
    then obtain i where i: "Suc i < ?n" "v ! i \<le> x" "x < v ! Suc i"
      "search_loop x v 0 (int ?n - 1) = Some (int i, int (Suc i), (x - v ! i) / (v ! Suc i - v ! i))" by (auto simp: brackets_def)
    moreover have "limit x (hd v) (last v) = x" using 3 assms(1) by (simp add: limit_def hd_conv_nth last_conv_nth)
    moreover have "place v x (i, Suc i, (x - v ! i) / (v ! Suc i - v ! i))" using i(1-3) by (simp add: place_def field_simps)
    ultimately show ?thesis using 3 e by (intro exI [of _ i] exI [of _ "Suc i"]) (auto simp: binsearch_def)
  qed
qed

text \<open>At a point of the table the search returns this point.\<close>

lemma increasing_inj: "increasing v \<Longrightarrow> i < length v \<Longrightarrow> j < length v \<Longrightarrow> v ! i = v ! j \<Longrightarrow> i = j"
  by (metis increasing_less less_irrefl nat_neq_iff)

lemma place_node:
  assumes "increasing v" "k < length v" "place v (v ! k) (i, j, d)"
  shows "i = k \<and> (d = 0 \<or> j = k)"
proof (cases "j = i")
  case True
  then show ?thesis using assms increasing_inj [of v i k] by (simp add: place_def)
next
  case False
  with assms(3) have "j = Suc i" by (auto simp: place_def)
  with assms(3) have p: "j = Suc i" "Suc i < length v" "0 \<le> d" "d < 1" "v ! i + d * (v ! Suc i - v ! i) = v ! k" by (auto simp: place_def)
  have s: "v ! i < v ! Suc i" by (rule increasing_less [OF assms(1) _ p(2)]) simp
  then have "d * (v ! Suc i - v ! i) < v ! Suc i - v ! i" using p(4) by simp
  moreover have "0 \<le> d * (v ! Suc i - v ! i)" using s p(3) by simp
  ultimately have "v ! i \<le> v ! k" "v ! k < v ! Suc i" using p(5) by linarith+
  then have "i = k"
    using increasing_less [OF assms(1), of k i] increasing_mono [OF assms(1), of "Suc i" k] assms(2) p(2)
    by (meson Suc_leI Suc_lessD leD linorder_neqE_nat)
  with p(5) s show ?thesis by simp
qed

section \<open>What interpolation gives\<close>

text \<open>A value \<open>d\<close> of the way from \<open>a\<close> to \<open>b\<close> lies between them.\<close>

lemma between:
  fixes d :: real
  assumes "0 \<le> d" "d < 1" "lo \<le> a" "a \<le> hi" "lo \<le> b" "b \<le> hi"
  shows "lo \<le> d * (b - a) + a" "d * (b - a) + a \<le> hi"
proof -
  have e: "d * (b - a) + a = (1 - d) * a + d * b" by (simp add: algebra_simps)
  have "(1 - d) * lo + d * lo \<le> (1 - d) * a + d * b" "(1 - d) * a + d * b \<le> (1 - d) * hi + d * hi"
    using assms by (intro add_mono mult_left_mono; simp)+
  then show "lo \<le> d * (b - a) + a" "d * (b - a) + a \<le> hi" unfolding e by (simp_all add: algebra_simps)
qed

definition affine :: "(real \<Rightarrow> real) \<Rightarrow> bool" where
  "affine g \<longleftrightarrow> (\<forall>u w d. g (u + d * (w - u)) = g u + d * (g w - g u))"

lemma affine_place: "affine g \<Longrightarrow> place v x (i, j, d) \<Longrightarrow> d * (g (v ! j) - g (v ! i)) + g (v ! i) = g x"
  by (auto simp: affine_def place_def)

lemma affine_linear [simp]: "affine (\<lambda>x. c * x)" "affine (\<lambda>x. x * c)"
  by (auto simp: affine_def algebra_simps)

text \<open>The tables a file with increasing variables gives.\<close>

definition Table1_ok :: "Table1 \<Rightarrow> bool" where
  "Table1_ok t \<longleftrightarrow> t1_tabRead t \<and> t1_x1 t \<noteq> [] \<and> increasing (t1_x1 t) \<and> t1_nx1 t = int (length (t1_x1 t)) \<and>
     length (t1_y t) = length (t1_x1 t)"

definition Table2_ok :: "Table2 \<Rightarrow> bool" where
  "Table2_ok t \<longleftrightarrow> t2_tabRead t \<and> t2_x1 t \<noteq> [] \<and> increasing (t2_x1 t) \<and> t2_nx1 t = int (length (t2_x1 t)) \<and>
     t2_x2 t \<noteq> [] \<and> increasing (t2_x2 t) \<and> t2_nx2 t = int (length (t2_x2 t)) \<and>
     length (t2_y t) = length (t2_x1 t) * length (t2_x2 t)"

definition Table3_ok :: "Table3 \<Rightarrow> bool" where
  "Table3_ok t \<longleftrightarrow> t3_tabRead t \<and> t3_x1 t \<noteq> [] \<and> increasing (t3_x1 t) \<and> t3_nx1 t = int (length (t3_x1 t)) \<and>
     t3_x2 t \<noteq> [] \<and> increasing (t3_x2 t) \<and> t3_nx2 t = int (length (t3_x2 t)) \<and>
     t3_x3 t \<noteq> [] \<and> increasing (t3_x3 t) \<and> t3_nx3 t = int (length (t3_x3 t)) \<and>
     length (t3_y t) = length (t3_x3 t) * (length (t3_x1 t) * length (t3_x2 t))"

lemma Table1_interp_eq:
  assumes "Table1_ok t"
  shows "\<exists>i j d. place (t1_x1 t) (limit x (hd (t1_x1 t)) (last (t1_x1 t))) (i, j, d) \<and>
    Table1_interp t x = Some (d * (t1_y t ! j - t1_y t ! i) + t1_y t ! i)"
proof -
  from assms obtain i j d where p: "binsearch x (t1_x1 t) (t1_nx1 t) = Some (int i, int j, d)"
    "place (t1_x1 t) (limit x (hd (t1_x1 t)) (last (t1_x1 t))) (i, j, d)"
    using binsearch_place [of "t1_x1 t" x] by (auto simp: Table1_ok_def)
  then have "i < length (t1_y t)" "j < length (t1_y t)" using assms by (auto simp: place_def Table1_ok_def)
  with p assms show ?thesis by (intro exI [of _ i] exI [of _ j] exI [of _ d]) (simp add: Table1_interp_def Table1_ok_def)
qed

text \<open>The value of a table of two variables in row \<open>i\<close> and column \<open>j\<close>, and its place in the array.\<close>

lemma row_index: "i < n \<Longrightarrow> j < m \<Longrightarrow> i * m + j < n * (m::nat)"
proof -
  assume "i < n" "j < m"
  then have "i * m + j < Suc i * m" by simp
  also have "\<dots> \<le> n * m" using \<open>i < n\<close> by (intro mult_right_mono) auto
  finally show ?thesis .
qed

lemma Table2_interp_eq:
  assumes "Table2_ok t"
  defines "n \<equiv> length (t2_x2 t)"
  shows "\<exists>i i' d j j' e. place (t2_x1 t) (limit x (hd (t2_x1 t)) (last (t2_x1 t))) (i, i', d) \<and>
    place (t2_x2 t) (limit y (hd (t2_x2 t)) (last (t2_x2 t))) (j, j', e) \<and>
    Table2_interp t x y =
      Some (let p = (\<lambda>i j. t2_y t ! (i * n + j)); q = (\<lambda>j. d * (p i' j - p i j) + p i j) in e * (q j' - q j) + q j)"
proof -
  from assms obtain i i' d where p: "binsearch x (t2_x1 t) (t2_nx1 t) = Some (int i, int i', d)"
    "place (t2_x1 t) (limit x (hd (t2_x1 t)) (last (t2_x1 t))) (i, i', d)"
    using binsearch_place [of "t2_x1 t" x] by (auto simp: Table2_ok_def)
  from assms obtain j j' e where q: "binsearch y (t2_x2 t) (t2_nx2 t) = Some (int j, int j', e)"
    "place (t2_x2 t) (limit y (hd (t2_x2 t)) (last (t2_x2 t))) (j, j', e)"
    using binsearch_place [of "t2_x2 t" y] by (auto simp: Table2_ok_def)
  have elem: "elem_at (t2_y t) (int a * t2_nx2 t + int b) = Some (t2_y t ! (a * n + b))"
    if "a \<in> {i, i'}" "b \<in> {j, j'}" for a b
  proof -
    have "a < length (t2_x1 t)" "b < n" using that p(2) q(2) by (auto simp: place_def n_def)
    then have "a * n + b < length (t2_y t)" using row_index [of a "length (t2_x1 t)" b n] assms by (simp add: Table2_ok_def)
    then have "elem_at (t2_y t) (int (a * n + b)) = Some (t2_y t ! (a * n + b))" by (rule elem_at_int)
    then show ?thesis using assms by (simp add: Table2_ok_def)
  qed
  show ?thesis
    using p q assms elem
    by (intro exI [of _ i] exI [of _ i'] exI [of _ d] exI [of _ j] exI [of _ j'] exI [of _ e])
      (simp add: Table2_interp_def Table2_ok_def Let_def)
qed

lemma Table3_interp_eq:
  assumes "Table3_ok t"
  defines "n \<equiv> length (t3_x2 t)" and "m \<equiv> length (t3_x1 t)"
  shows "\<exists>i i' d j j' e k k' f. place (t3_x1 t) (limit x (hd (t3_x1 t)) (last (t3_x1 t))) (i, i', d) \<and>
    place (t3_x2 t) (limit y (hd (t3_x2 t)) (last (t3_x2 t))) (j, j', e) \<and>
    place (t3_x3 t) (limit z (hd (t3_x3 t)) (last (t3_x3 t))) (k, k', f) \<and>
    Table3_interp t x y z =
      Some (let p = (\<lambda>k i j. t3_y t ! (k * (m * n) + i * n + j)); q = (\<lambda>k j. d * (p k i' j - p k i j) + p k i j);
                r = (\<lambda>k. e * (q k j' - q k j) + q k j) in f * (r k' - r k) + r k)"
proof -
  from assms obtain i i' d where p: "binsearch x (t3_x1 t) (t3_nx1 t) = Some (int i, int i', d)"
    "place (t3_x1 t) (limit x (hd (t3_x1 t)) (last (t3_x1 t))) (i, i', d)"
    using binsearch_place [of "t3_x1 t" x] by (auto simp: Table3_ok_def)
  from assms obtain j j' e where q: "binsearch y (t3_x2 t) (t3_nx2 t) = Some (int j, int j', e)"
    "place (t3_x2 t) (limit y (hd (t3_x2 t)) (last (t3_x2 t))) (j, j', e)"
    using binsearch_place [of "t3_x2 t" y] by (auto simp: Table3_ok_def)
  from assms obtain k k' f where r: "binsearch z (t3_x3 t) (t3_nx3 t) = Some (int k, int k', f)"
    "place (t3_x3 t) (limit z (hd (t3_x3 t)) (last (t3_x3 t))) (k, k', f)"
    using binsearch_place [of "t3_x3 t" z] by (auto simp: Table3_ok_def)
  have elem: "elem_at (t3_y t) (int c * (t3_nx1 t * t3_nx2 t) + int a * t3_nx2 t + int b) = Some (t3_y t ! (c * (m * n) + a * n + b))"
    if "c \<in> {k, k'}" "a \<in> {i, i'}" "b \<in> {j, j'}" for a b c
  proof -
    have "c < length (t3_x3 t)" "a < m" "b < n" using that p(2) q(2) r(2) by (auto simp: place_def n_def m_def)
    then have "c * (m * n) + (a * n + b) < length (t3_y t)"
      using row_index [of c "length (t3_x3 t)" "a * n + b" "m * n"] row_index [of a m b n] assms by (simp add: Table3_ok_def)
    then have "elem_at (t3_y t) (int (c * (m * n) + (a * n + b))) = Some (t3_y t ! (c * (m * n) + (a * n + b)))" by (rule elem_at_int)
    then show ?thesis using assms by (simp add: Table3_ok_def add.assoc)
  qed
  have "t3_tabRead t" using assms(1) by (simp add: Table3_ok_def)
  then have "Table3_interp t x y z =
      Some (let p = (\<lambda>k i j. t3_y t ! (k * (m * n) + i * n + j)); q = (\<lambda>k j. d * (p k i' j - p k i j) + p k i j);
                r = (\<lambda>k. e * (q k j' - q k j) + q k j) in f * (r k' - r k) + r k)"
    by (simp add: Table3_interp_def p(1) q(1) r(1) elem Let_def)
  with p(2) q(2) r(2) show ?thesis by blast
qed

lemma limit_node: "increasing v \<Longrightarrow> k < length v \<Longrightarrow> limit (v ! k) (hd v) (last v) = v ! k"
  using increasing_mono [of v 0 k] increasing_mono [of v k "length v - 1"]
  by (cases v) (auto simp: limit_def hd_conv_nth last_conv_nth)

text \<open>The value lies between the bounds of the data.\<close>

lemma Table3_interp_bounded:
  assumes "Table3_ok t" "\<forall>v \<in> set (t3_y t). lo \<le> v \<and> v \<le> hi"
  shows "\<exists>v. Table3_interp t x y z = Some v \<and> lo \<le> v \<and> v \<le> hi"
proof -
  let ?n = "length (t3_x2 t)" and ?m = "length (t3_x1 t)"
  from Table3_interp_eq [OF assms(1), of x y z] obtain i i' d j j' e k k' f where
    p: "place (t3_x1 t) (limit x (hd (t3_x1 t)) (last (t3_x1 t))) (i, i', d)"
      "place (t3_x2 t) (limit y (hd (t3_x2 t)) (last (t3_x2 t))) (j, j', e)"
      "place (t3_x3 t) (limit z (hd (t3_x3 t)) (last (t3_x3 t))) (k, k', f)"
    and v: "Table3_interp t x y z =
      Some (let p = (\<lambda>k i j. t3_y t ! (k * (?m * ?n) + i * ?n + j)); q = (\<lambda>k j. d * (p k i' j - p k i j) + p k i j);
                r = (\<lambda>k. e * (q k j' - q k j) + q k j) in f * (r k' - r k) + r k)" by blast
  define p where "p = (\<lambda>k i j. t3_y t ! (k * (?m * ?n) + i * ?n + j))"
  define q where "q = (\<lambda>k j. d * (p k i' j - p k i j) + p k i j)"
  define r where "r = (\<lambda>k. e * (q k j' - q k j) + q k j)"
  have pb: "lo \<le> p c a b \<and> p c a b \<le> hi" if "c < length (t3_x3 t)" "a < ?m" "b < ?n" for a b c
  proof -
    have "c * (?m * ?n) + (a * ?n + b) < length (t3_y t)"
      using row_index [OF that(1) row_index [OF that(2,3)]] assms(1) by (simp add: Table3_ok_def)
    then show ?thesis using assms(2) nth_mem by (auto simp: p_def add.assoc)
  qed
  have l: "i < ?m" "i' < ?m" "j < ?n" "j' < ?n" "k < length (t3_x3 t)" "k' < length (t3_x3 t)" "0 \<le> d" "d < 1" "0 \<le> e" "e < 1"
    "0 \<le> f" "f < 1" using p by (auto simp: place_def)
  have qb: "lo \<le> q c b \<and> q c b \<le> hi" if "c < length (t3_x3 t)" "b < ?n" for b c
    unfolding q_def using between [OF l(7,8), of lo "p c i b" hi "p c i' b"] pb [OF that(1) l(1) that(2)] pb [OF that(1) l(2) that(2)]
    by simp
  have rb: "lo \<le> r c \<and> r c \<le> hi" if "c < length (t3_x3 t)" for c
    unfolding r_def using between [OF l(9,10), of lo "q c j" hi "q c j'"] qb [OF that l(3)] qb [OF that l(4)] by simp
  have "lo \<le> f * (r k' - r k) + r k \<and> f * (r k' - r k) + r k \<le> hi"
    using between [OF l(11,12), of lo "r k" hi "r k'"] rb [OF l(5)] rb [OF l(6)] by simp
  moreover have "Table3_interp t x y z = Some (f * (r k' - r k) + r k)" unfolding v p_def q_def r_def by (simp only: Let_def)
  ultimately show ?thesis by blast
qed

lemma Table3_interp_node:
  assumes "Table3_ok t" "i < length (t3_x1 t)" "j < length (t3_x2 t)" "k < length (t3_x3 t)"
  shows "Table3_interp t (t3_x1 t ! i) (t3_x2 t ! j) (t3_x3 t ! k) =
    Some (t3_y t ! (k * (length (t3_x1 t) * length (t3_x2 t)) + i * length (t3_x2 t) + j))"
proof -
  have inc: "increasing (t3_x1 t)" "increasing (t3_x2 t)" "increasing (t3_x3 t)" using assms(1) by (auto simp: Table3_ok_def)
  note l = limit_node [OF inc(1) assms(2)] limit_node [OF inc(2) assms(3)] limit_node [OF inc(3) assms(4)]
  from Table3_interp_eq [OF assms(1), of "t3_x1 t ! i" "t3_x2 t ! j" "t3_x3 t ! k", unfolded l] obtain i1 i2 d j1 j2 e k1 k2 f where
    p: "place (t3_x1 t) (t3_x1 t ! i) (i1, i2, d)" "place (t3_x2 t) (t3_x2 t ! j) (j1, j2, e)" "place (t3_x3 t) (t3_x3 t ! k) (k1, k2, f)"
    and v: "Table3_interp t (t3_x1 t ! i) (t3_x2 t ! j) (t3_x3 t ! k) =
      Some (let p = (\<lambda>k i j. t3_y t ! (k * (length (t3_x1 t) * length (t3_x2 t)) + i * length (t3_x2 t) + j));
                q = (\<lambda>k j. d * (p k i2 j - p k i1 j) + p k i1 j);
                r = (\<lambda>k. e * (q k j2 - q k j1) + q k j1) in f * (r k2 - r k1) + r k1)" by blast
  have z: "w * (g b - g a) + g a = g c" if "a = c \<and> (w = 0 \<or> b = c)" for w :: real and a b c :: nat and g :: "nat \<Rightarrow> real"
    using that by auto
  note n = z [OF place_node [OF inc(1) assms(2) p(1)]] z [OF place_node [OF inc(2) assms(3) p(2)]]
    z [OF place_node [OF inc(3) assms(4) p(3)]]
  show ?thesis
    unfolding v Let_def
    using n(1) [of "\<lambda>a. t3_y t ! (c * (length (t3_x1 t) * length (t3_x2 t)) + a * length (t3_x2 t) + b)" for b c]
      n(2) [of "\<lambda>b. t3_y t ! (c * (length (t3_x1 t) * length (t3_x2 t)) + i * length (t3_x2 t) + b)" for c]
      n(3) [of "\<lambda>c. t3_y t ! (c * (length (t3_x1 t) * length (t3_x2 t)) + i * length (t3_x2 t) + j)"] by (simp only:)
qed

section \<open>Data that is affine in each variable\<close>

lemma Table1_interp_affine:
  assumes "Table1_ok t" "\<forall>i < length (t1_x1 t). t1_y t ! i = g (t1_x1 t ! i)" "affine g"
  shows "Table1_interp t x = Some (g (limit x (hd (t1_x1 t)) (last (t1_x1 t))))"
proof -
  from Table1_interp_eq [OF assms(1), of x] obtain i j d where p: "place (t1_x1 t) (limit x (hd (t1_x1 t)) (last (t1_x1 t))) (i, j, d)"
    "Table1_interp t x = Some (d * (t1_y t ! j - t1_y t ! i) + t1_y t ! i)" by blast
  moreover have "t1_y t ! j = g (t1_x1 t ! j)" "t1_y t ! i = g (t1_x1 t ! i)" using assms(2) p(1) by (auto simp: place_def)
  ultimately show ?thesis using affine_place [OF assms(3) p(1)] by simp
qed

lemma Table2_interp_bilinear:
  assumes "Table2_ok t"
    and "\<forall>i < length (t2_x1 t). \<forall>j < length (t2_x2 t). t2_y t ! (i * length (t2_x2 t) + j) = g (t2_x1 t ! i) (t2_x2 t ! j)"
    and "\<And>b. affine (\<lambda>a. g a b)" "\<And>a. affine (\<lambda>b. g a b)"
  shows "Table2_interp t x y = Some (g (limit x (hd (t2_x1 t)) (last (t2_x1 t))) (limit y (hd (t2_x2 t)) (last (t2_x2 t))))"
proof -
  from Table2_interp_eq [OF assms(1), of x y] obtain i i' d j j' e where
    p: "place (t2_x1 t) (limit x (hd (t2_x1 t)) (last (t2_x1 t))) (i, i', d)"
      "place (t2_x2 t) (limit y (hd (t2_x2 t)) (last (t2_x2 t))) (j, j', e)"
    and v: "Table2_interp t x y = Some (let p = (\<lambda>i j. t2_y t ! (i * length (t2_x2 t) + j)); q = (\<lambda>j. d * (p i' j - p i j) + p i j)
      in e * (q j' - q j) + q j)" by blast
  have "t2_y t ! (a * length (t2_x2 t) + b) = g (t2_x1 t ! a) (t2_x2 t ! b)" if "a \<in> {i, i'}" "b \<in> {j, j'}" for a b
    using assms(2) p that by (auto simp: place_def)
  then show ?thesis
    unfolding v by (simp add: Let_def affine_place [OF assms(3) p(1)] affine_place [OF assms(4) p(2)])
qed

lemma Table3_interp_trilinear:
  assumes "Table3_ok t"
    and "\<forall>k < length (t3_x3 t). \<forall>i < length (t3_x1 t). \<forall>j < length (t3_x2 t).
      t3_y t ! (k * (length (t3_x1 t) * length (t3_x2 t)) + i * length (t3_x2 t) + j) = g (t3_x1 t ! i) (t3_x2 t ! j) (t3_x3 t ! k)"
    and "\<And>b c. affine (\<lambda>a. g a b c)" "\<And>a c. affine (\<lambda>b. g a b c)" "\<And>a b. affine (\<lambda>c. g a b c)"
  shows "Table3_interp t x y z = Some (g (limit x (hd (t3_x1 t)) (last (t3_x1 t))) (limit y (hd (t3_x2 t)) (last (t3_x2 t)))
    (limit z (hd (t3_x3 t)) (last (t3_x3 t))))"
proof -
  from Table3_interp_eq [OF assms(1), of x y z] obtain i i' d j j' e k k' f where
    p: "place (t3_x1 t) (limit x (hd (t3_x1 t)) (last (t3_x1 t))) (i, i', d)"
      "place (t3_x2 t) (limit y (hd (t3_x2 t)) (last (t3_x2 t))) (j, j', e)"
      "place (t3_x3 t) (limit z (hd (t3_x3 t)) (last (t3_x3 t))) (k, k', f)"
    and v: "Table3_interp t x y z =
      Some (let p = (\<lambda>k i j. t3_y t ! (k * (length (t3_x1 t) * length (t3_x2 t)) + i * length (t3_x2 t) + j));
                q = (\<lambda>k j. d * (p k i' j - p k i j) + p k i j);
                r = (\<lambda>k. e * (q k j' - q k j) + q k j) in f * (r k' - r k) + r k)" by blast
  have y: "t3_y t ! (c * (length (t3_x1 t) * length (t3_x2 t)) + a * length (t3_x2 t) + b) = g (t3_x1 t ! a) (t3_x2 t ! b) (t3_x3 t ! c)"
    if "c \<in> {k, k'}" "a \<in> {i, i'}" "b \<in> {j, j'}" for a b c
    using assms(2) p that by (auto simp: place_def)
  show ?thesis
    unfolding v
    by (simp add: y Let_def affine_place [OF assms(3) p(1)] affine_place [OF assms(4) p(2)] affine_place [OF assms(5) p(3)])
qed

section \<open>The tables of the example file\<close>

text \<open>The lines of \<open>table.dat\<close>.\<close>

definition table_dat :: "string list" where
  "table_dat =
  [''example data file'', ''mike = 999.99'', [], ''thrust_mag = 10.00'', ''cd_table'', ''4 3'', ''mach'', ''1. 2. 3. 4.'',
     ''alph'', ''5. 10. 15.0'', ''cd'', ''5. 10. 15.'', ''10. 20. 30.'', ''15. 30. 45.'', ''20. 40. 60.'', [],
     ''thrust_profile'', ''5'', ''time thrust'', ''0. 0.'', ''1. 1000.'', ''2. 2000.'', ''3. 3000.'', ''4. 4000.'', [], [],
     ''cd_table_thrust'', ''4 3 2'', ''mach'', ''1. 2. 3. 4.'', ''alph'', ''5. 10. 15.0'', ''thrust'', ''1. 10.'', ''cd'',
     ''5. 10. 15.'', ''10. 20. 30.'', ''15. 30. 45.'', ''20. 40. 60.'', [], ''50. 100. 150.'', ''100. 200. 300.'',
     ''150. 300. 450.'', ''200. 400. 600.'', [], ''Stage 1'', ''mass = 100.'', ''Stage 2'', ''mass = 200.'']"

definition no_table1 :: Table1 where
  "no_table1 = \<lparr>t1_tabname = [], t1_tabnameFound = False, t1_tabRead = False, t1_x1name = [], t1_yname = [], t1_nx1 = 0, t1_x1 = [],
     t1_y = []\<rparr>"

definition no_table2 :: Table2 where
  "no_table2 = \<lparr>t2_tabname = [], t2_tabnameFound = False, t2_tabRead = False, t2_x1name = [], t2_x2name = [], t2_yname = [],
     t2_nx1 = 0, t2_nx2 = 0, t2_x1 = [], t2_x2 = [], t2_y = []\<rparr>"

definition no_table3 :: Table3 where
  "no_table3 = \<lparr>t3_tabname = [], t3_tabnameFound = False, t3_tabRead = False, t3_x1name = [], t3_x2name = [], t3_x3name = [],
     t3_yname = [], t3_nx1 = 0, t3_nx2 = 0, t3_nx3 = 0, t3_x1 = [], t3_x2 = [], t3_x3 = [], t3_y = []\<rparr>"

definition thrust_profile :: Table1 where
  "thrust_profile = \<lparr>t1_tabname = ''thrust_profile'', t1_tabnameFound = True, t1_tabRead = True, t1_x1name = ''time'',
     t1_yname = ''thrust'', t1_nx1 = 5, t1_x1 = [0, 1, 2, 3, 4], t1_y = [0, 1000, 2000, 3000, 4000]\<rparr>"

definition cd_table :: Table2 where
  "cd_table = \<lparr>t2_tabname = ''cd_table'', t2_tabnameFound = True, t2_tabRead = True, t2_x1name = ''mach'', t2_x2name = ''alph'',
     t2_yname = ''cd'', t2_nx1 = 4, t2_nx2 = 3, t2_x1 = [1, 2, 3, 4], t2_x2 = [5, 10, 15],
     t2_y = [5, 10, 15, 10, 20, 30, 15, 30, 45, 20, 40, 60]\<rparr>"

definition cd_table_thrust :: Table3 where
  "cd_table_thrust = \<lparr>t3_tabname = ''cd_table_thrust'', t3_tabnameFound = True, t3_tabRead = True, t3_x1name = ''mach'',
     t3_x2name = ''alph'', t3_x3name = ''thrust'', t3_yname = ''cd'', t3_nx1 = 4, t3_nx2 = 3, t3_nx3 = 2,
     t3_x1 = [1, 2, 3, 4], t3_x2 = [5, 10, 15], t3_x3 = [1, 10],
     t3_y = [5, 10, 15, 10, 20, 30, 15, 30, 45, 20, 40, 60, 50, 100, 150, 100, 200, 300, 150, 300, 450, 200, 400, 600]\<rparr>"

lemma table_dat_read:
  "Table1_read ''thrust_profile'' table_dat no_table1 = Some thrust_profile"
  "Table2_read ''cd_table'' table_dat no_table2 = Some cd_table"
  "Table3_read ''cd_table_thrust'' table_dat no_table3 = Some cd_table_thrust"
  by code_simp+

lemma example_tables_ok: "Table1_ok thrust_profile" "Table2_ok cd_table" "Table3_ok cd_table_thrust"
  by (simp_all add: thrust_profile_def cd_table_def cd_table_thrust_def Table1_ok_def Table2_ok_def Table3_ok_def)

lemma all_passed_True: "(\<And>b. b \<in> set bs \<Longrightarrow> b = Some True) \<Longrightarrow> all_passed bs = Some True"
proof (induction bs)
  case (Cons b bs)
  then have "b = Some True" "all_passed bs = Some True" by auto
  then show ?case by (auto simp: all_passed_def)
qed (simp add: all_passed_def)

lemma close_to_same: "yi = Some y \<Longrightarrow> close_to yi y = Some True"
  by (simp add: close_to_def)

lemma limit_inside: "b1 \<le> x \<Longrightarrow> x \<le> b2 \<Longrightarrow> limit x b1 b2 = x"
  by (simp add: limit_def)

lemma example_interp:
  "Table1_interp thrust_profile x = Some (limit x 0 4 * 1000)"
  "Table2_interp cd_table x y = Some (limit x 1 4 * limit y 5 15)"
  "Table3_interp cd_table_thrust x y z = Some (limit x 1 4 * limit y 5 15 * limit z 1 10)"
proof -
  have "\<forall>i < length (t1_x1 thrust_profile). t1_y thrust_profile ! i = t1_x1 thrust_profile ! i * 1000"
    by (simp add: thrust_profile_def All_less_Suc)
  from Table1_interp_affine [OF example_tables_ok(1) this] show "Table1_interp thrust_profile x = Some (limit x 0 4 * 1000)"
    by (simp add: thrust_profile_def)
  have "\<forall>i < length (t2_x1 cd_table). \<forall>j < length (t2_x2 cd_table).
      t2_y cd_table ! (i * length (t2_x2 cd_table) + j) = t2_x1 cd_table ! i * t2_x2 cd_table ! j"
    by (simp add: cd_table_def All_less_Suc)
  from Table2_interp_bilinear [OF example_tables_ok(2) this] show "Table2_interp cd_table x y = Some (limit x 1 4 * limit y 5 15)"
    by (simp add: cd_table_def)
  let ?t = cd_table_thrust
  have "\<forall>k < length (t3_x3 ?t). \<forall>i < length (t3_x1 ?t). \<forall>j < length (t3_x2 ?t).
      t3_y ?t ! (k * (length (t3_x1 ?t) * length (t3_x2 ?t)) + i * length (t3_x2 ?t) + j) = t3_x1 ?t ! i * t3_x2 ?t ! j * t3_x3 ?t ! k"
    by (simp add: cd_table_thrust_def All_less_Suc)
  moreover have "affine (\<lambda>a. a * b * c)" "affine (\<lambda>b. a * b * c)" "affine (\<lambda>c. a * b * c)" for a b c :: real
    by (auto simp: affine_def algebra_simps)
  ultimately show "Table3_interp ?t x y z = Some (limit x 1 4 * limit y 5 15 * limit z 1 10)"
    using Table3_interp_trilinear [OF example_tables_ok(3), where g = "\<lambda>a b c. a * b * c"] by (simp add: cd_table_thrust_def)
qed

lemmas example_fields [simp] =
  arg_cong [OF thrust_profile_def, of t1_tabRead, simplified] arg_cong [OF thrust_profile_def, of t1_nx1, simplified]
  arg_cong [OF thrust_profile_def, of t1_x1, simplified]
  arg_cong [OF cd_table_def, of t2_tabRead, simplified] arg_cong [OF cd_table_def, of t2_nx1, simplified]
  arg_cong [OF cd_table_def, of t2_nx2, simplified] arg_cong [OF cd_table_def, of t2_x1, simplified]
  arg_cong [OF cd_table_def, of t2_x2, simplified]
  arg_cong [OF cd_table_thrust_def, of t3_tabRead, simplified] arg_cong [OF cd_table_thrust_def, of t3_nx1, simplified]
  arg_cong [OF cd_table_thrust_def, of t3_nx2, simplified] arg_cong [OF cd_table_thrust_def, of t3_nx3, simplified]
  arg_cong [OF cd_table_thrust_def, of t3_x1, simplified] arg_cong [OF cd_table_thrust_def, of t3_x2, simplified]
  arg_cong [OF cd_table_thrust_def, of t3_x3, simplified]

lemma table_dat_name: "c_str ''table.dat'' = ''table.dat''"
  by code_simp

lemma all_passed_append: "all_passed bs = Some True \<Longrightarrow> all_passed cs = Some True \<Longrightarrow> all_passed (bs @ cs) = Some True"
  by (induction bs) (auto simp: all_passed_def split: option.splits)

lemmas test_simps = table_dat_name example_interp close_to_def elem_at_def limit_inside

lemma example_tests:
  "Table1_test ''table.dat'' thrust_profile r1 = Some True"
  "Table2_test ''table.dat'' cd_table r2 = Some True"
  "Table3_test ''table.dat'' cd_table_thrust r3 = Some True"
  unfolding Table1_test_def Table2_test_def Table3_test_def
  by (simp add: test_simps, intro all_passed_append; rule all_passed_True; auto simp: eval_nat_numeral less_Suc_eq limit_inside)+

section \<open>Written tables\<close>

text \<open>A word that a table can hold.\<close>

definition clean :: "string \<Rightarrow> bool" where
  "clean w \<longleftrightarrow> w \<noteq> [] \<and> (\<forall>c \<in> set w. c \<notin> set table_delims \<and> c \<noteq> CHR 0x00)"

lemma clean_str: "clean w \<Longrightarrow> c_str w = w" "clean w \<Longrightarrow> clean u \<Longrightarrow> c_str (w @ '' '' @ u) = w @ '' '' @ u"
  by (auto simp: clean_def c_str_def takeWhile_eq_all_conv)

lemma clean_drop: "clean w \<Longrightarrow> dropWhile (\<lambda>c. c \<in> set table_delims) (w @ s) = w @ s"
  by (cases w) (auto simp: clean_def)

lemma tokens_Nil [simp]: "tokens ds [] = []"
  by (subst tokens.simps) simp

lemma tokens_word: "clean w \<Longrightarrow> tokens table_delims w = [w]"
  using clean_drop [of w "[]"]
  by (subst tokens.simps) (auto simp: clean_def Let_def takeWhile_eq_all_conv dropWhile_eq_Nil_conv [THEN iffD2])

lemma tokens_words:
  assumes "clean w"
  shows "tokens table_delims (w @ '' '' @ s) = w # tokens table_delims s"
proof -
  have "takeWhile (\<lambda>c. c \<notin> set table_delims) (w @ '' '' @ s) = w" "dropWhile (\<lambda>c. c \<notin> set table_delims) (w @ '' '' @ s) = '' '' @ s"
    using assms by (auto simp: clean_def takeWhile_append2 dropWhile_append2)
  moreover have "tokens table_delims ('' '' @ s) = tokens table_delims s"
    by (subst (1 2) tokens.simps) simp
  ultimately show ?thesis
    using assms clean_drop [OF assms] by (subst tokens.simps) (simp add: clean_def Let_def)
qed

lemma split_word: "clean w \<Longrightarrow> length w < 256 \<Longrightarrow> str_split table_delims w = Some [w]"
  by (simp add: str_split_def clean_str tokens_word)

lemma split_words:
  assumes "clean w" "clean u" "length (w @ '' '' @ u) < 256"
  shows "str_split table_delims (w @ '' '' @ u) = Some [w, u]"
  using assms(3) unfolding str_split_def clean_str(2) [OF assms(1,2)] tokens_words [OF assms(1)] tokens_word [OF assms(2)] by simp

lemma read_rows_map:
  "(\<And>j. j < m \<Longrightarrow> split_line vlines (i + 1 + int j) = Some (ws j) \<and> read_row (ws j) n = Some (rs j)) \<Longrightarrow>
     read_rows vlines n i m = Some (map rs [0..<m], i + int m)"
proof (induction m arbitrary: i ws rs)
  case (Suc m)
  have "read_rows vlines n (i + 1) m = Some (map (\<lambda>j. rs (Suc j)) [0..<m], i + 1 + int m)"
    by (rule Suc.IH [of "i + 1" "\<lambda>j. ws (Suc j)"]) (use Suc.prems [of "Suc j" for j] in \<open>simp add: add.assoc\<close>)
  then show ?case using Suc.prems [of 0] by (simp add: map_upt_Suc del: upt_Suc)
qed simp

lemma those_map_Some: "(\<And>x. x \<in> set xs \<Longrightarrow> f x = Some (g x)) \<Longrightarrow> those (map f xs) = Some (map g xs)"
  by (induction xs) simp_all

text \<open>
  What the inserter of a table of three variables writes cannot be read back: the second line has the lengths of two variables
  only, and the reader takes the third from beyond its words.
\<close>

lemma Table3_print_unreadable:
  assumes "Table3_print fmt ifmt t = Some ls" "clean (t3_tabname t)" "clean (ifmt (t3_nx1 t))" "clean (ifmt (t3_nx2 t))"
    and "\<forall>l \<in> set ls. length l < 256"
  shows "Table3_read (t3_tabname t) ls t0 = None"
proof -
  let ?n = "ifmt (t3_nx1 t) @ '' '' @ ifmt (t3_nx2 t)"
  obtain rest where ls: "ls = t3_tabname t # ?n # rest" using assms(1) by (auto simp: Table3_print_def bind_eq_Some_conv)
  have len: "length (t3_tabname t) < 256" "length ?n < 256" using assms(5) unfolding ls by auto
  have "find_table (t3_tabname t) ls 0 = Some (Some 0)" using split_word [OF assms(2) len(1)] assms(2) by (simp add: ls clean_def)
  moreover have "split_line ls 1 = Some [ifmt (t3_nx1 t), ifmt (t3_nx2 t)]"
    using split_words [OF assms(3,4) len(2)] by (simp add: split_line_def ls elem_at_def)
  ultimately show ?thesis by (simp add: Table3_read_def Table3_parse_def elem_at_def)
qed

section \<open>Properties\<close>

text \<open>
  C17. Interpolation in a table of three variables that a file with increasing variables gave returns a value for all
  arguments, no index leaves the arrays, and the value lies between the least and the greatest value of the table; at a
  point of the table it is the value the table has there.
\<close>

theorem Table3_interp_within_data:
  assumes "Table3_ok t" "\<forall>v \<in> set (t3_y t). lo \<le> v \<and> v \<le> hi"
  shows "(\<exists>v. Table3_interp t x y z = Some v \<and> lo \<le> v \<and> v \<le> hi) \<and>
    (\<forall>i j k. i < length (t3_x1 t) \<and> j < length (t3_x2 t) \<and> k < length (t3_x3 t) \<longrightarrow>
      Table3_interp t (t3_x1 t ! i) (t3_x2 t ! j) (t3_x3 t ! k) =
        Some (t3_y t ! (k * (length (t3_x1 t) * length (t3_x2 t)) + i * length (t3_x2 t) + j)))"
  using Table3_interp_bounded [OF assms] Table3_interp_node [OF assms(1)] by blast

theorem Table3_interp_within_data_witness:
  "(\<exists>v. Table3_interp cd_table_thrust (5/2) 7 20 = Some v \<and> 5 \<le> v \<and> v \<le> 600) \<and> Table3_interp cd_table_thrust 2 10 10 = Some 200"
proof -
  have "\<forall>v \<in> set (t3_y cd_table_thrust). 5 \<le> v \<and> v \<le> 600" by (simp add: cd_table_thrust_def)
  note t = Table3_interp_within_data [OF example_tables_ok(3) this]
  from t [of "5/2" 7 20] spec [OF spec [OF spec [OF conjunct2 [OF t], of 1], of 1], of 1] show ?thesis
    by (simp add: cd_table_thrust_def)
qed

text \<open>
  The three tables of the example file \<open>table.dat\<close> are read as they stand there, and the self-test of each table passes,
  whatever random arguments it draws: the values are products of the variables, which interpolation reproduces.
\<close>

lemma table_dat_self_tests_pass:
  "\<exists>t1 t2 t3. Table1_read ''thrust_profile'' table_dat no_table1 = Some t1 \<and> Table2_read ''cd_table'' table_dat no_table2 = Some t2 \<and>
    Table3_read ''cd_table_thrust'' table_dat no_table3 = Some t3 \<and> Table1_test ''table.dat'' t1 r1 = Some True \<and>
    Table2_test ''table.dat'' t2 r2 = Some True \<and> Table3_test ''table.dat'' t3 r3 = Some True"
  using table_dat_read example_tests by blast

text \<open>
  A table of one variable that is written with its inserter is read back unchanged, by whatever table object reads it,
  when the names are words, the number formats lose nothing and no line is longer than the buffer of the tokenizer.
\<close>

lemma Table1_roundtrip:
  assumes "t1_tabRead t" "t1_tabnameFound t" "t1_nx1 t = int (length (t1_x1 t))" "length (t1_y t) = length (t1_x1 t)"
    and "clean (t1_tabname t)" "clean (t1_x1name t)" "clean (t1_yname t)"
    and "\<forall>v \<in> set (t1_x1 t) \<union> set (t1_y t). clean (fmt v) \<and> atof (fmt v) = v"
    and "clean (ifmt (t1_nx1 t))" "atoi (ifmt (t1_nx1 t)) = t1_nx1 t"
    and "Table1_print fmt ifmt t = Some ls" "\<forall>l \<in> set ls. length l < 256"
  shows "Table1_read (t1_tabname t) ls t0 = Some t"
proof -
  let ?n = "length (t1_x1 t)"
  let ?x = "\<lambda>j. t1_x1 t ! j" and ?y = "\<lambda>j. t1_y t ! j"
  let ?row = "\<lambda>j. fmt (?x j) @ '' '' @ fmt (?y j)"
  have ls: "ls = [t1_tabname t, ifmt (t1_nx1 t), t1_x1name t @ '' '' @ t1_yname t] @ map ?row [0..<?n]"
  proof -
    have "those (map (\<lambda>j. do { a \<leftarrow> elem_at (t1_x1 t) (int j); b \<leftarrow> elem_at (t1_y t) (int j); Some (fmt a @ '' '' @ fmt b) })
        [0..<nat (t1_nx1 t)]) = Some (map ?row [0..<?n])"
      unfolding assms(3) nat_int by (rule those_map_Some) (simp add: assms(4))
    then show ?thesis using assms(11) unfolding Table1_print_def by simp
  qed
  have len: "length (t1_tabname t) < 256" "length (ifmt (t1_nx1 t)) < 256" "length (t1_x1name t @ '' '' @ t1_yname t) < 256"
    "\<And>j. j < ?n \<Longrightarrow> length (?row j) < 256" using assms(12) unfolding ls by auto
  have c: "clean (fmt (?x j))" "atof (fmt (?x j)) = ?x j" "clean (fmt (?y j))" "atof (fmt (?y j)) = ?y j" if "j < ?n" for j
    using assms(4,8) that nth_mem by (metis Un_iff)+
  have f: "find_table (t1_tabname t) ls 0 = Some (Some 0)"
    using split_word [OF assms(5) len(1)] assms(5) by (simp add: ls clean_def)
  have l1: "split_line ls 1 = Some [ifmt (t1_nx1 t)]"
    using split_word [OF assms(9) len(2)] by (simp add: split_line_def ls elem_at_def)
  have l2: "split_line ls 2 = Some [t1_x1name t, t1_yname t]"
    using split_words [OF assms(6,7) len(3)] by (simp add: split_line_def ls elem_at_def)
  have "read_rows ls 2 (0 + 2) ?n = Some (map (\<lambda>j. [?x j, ?y j]) [0..<?n], 0 + 2 + int ?n)"
  proof (rule read_rows_map [where ws = "\<lambda>j. [fmt (?x j), fmt (?y j)]"])
    fix j assume j: "j < ?n"
    have "elem_at ls (int (3 + j)) = Some (?row j)" using j by (subst elem_at_int) (simp_all add: ls)
    then have "split_line ls (0 + 2 + 1 + int j) = Some [fmt (?x j), fmt (?y j)]"
      using split_words [OF c(1) [OF j] c(3) [OF j] len(4) [OF j]] by (simp add: split_line_def)
    moreover have "read_row [fmt (?x j), fmt (?y j)] 2 = Some [?x j, ?y j]"
      using c [OF j] by (simp add: read_row_def elem_at_def upt_rec)
    ultimately show "split_line ls (0 + 2 + 1 + int j) = Some [fmt (?x j), fmt (?y j)] \<and>
      read_row [fmt (?x j), fmt (?y j)] 2 = Some [?x j, ?y j]" by blast
  qed
  then have "Table1_read (t1_tabname t) ls t0 =
      Some (t0\<lparr>t1_tabname := t1_tabname t, t1_tabnameFound := True, t1_nx1 := t1_nx1 t, t1_x1name := t1_x1name t,
        t1_yname := t1_yname t, t1_x1 := t1_x1 t, t1_y := t1_y t, t1_tabRead := True\<rparr>)"
    using assms(3,4,10) map_nth [of "t1_x1 t"] map_nth [of "t1_y t"]
    by (simp add: Table1_read_def f Table1_parse_def l1 l2 elem_at_def comp_def)
  also have "\<dots> = Some t" using assms(1,2) by (simp add: Table1.equality)
  finally show ?thesis .
qed

definition example_fmt :: "real \<Rightarrow> string" where
  "example_fmt v = (if v = 0 then ''0'' else if v = 1 then ''1'' else if v = 2 then ''2'' else if v = 3 then ''3.0'' else if v = 4 then ''4''
     else if v = 1000 then ''1e3'' else if v = 2000 then ''2000'' else if v = 3000 then ''3000'' else ''4000'')"

lemma example_atof:
  "atof ''0'' = 0" "atof ''1'' = 1" "atof ''2'' = 2" "atof ''3.0'' = 3" "atof ''4'' = 4" "atof ''1e3'' = 1000" "atof ''2000'' = 2000"
  "atof ''3000'' = 3000" "atof ''4000'' = 4000"
  by code_simp+

lemma Table1_roundtrip_witness:
  "\<exists>ls. Table1_print example_fmt (\<lambda>n. ''5'') thrust_profile = Some ls \<and> Table1_read ''thrust_profile'' ls no_table1 = Some thrust_profile"
proof -
  have p: "Table1_print example_fmt (\<lambda>n. ''5'') thrust_profile =
      Some [''thrust_profile'', ''5'', ''time thrust'', ''0 0'', ''1 1e3'', ''2 2000'', ''3.0 3000'', ''4 4000'']"
    by code_simp
  have "atoi ''5'' = 5" by code_simp
  with Table1_roundtrip [where fmt = example_fmt and ifmt = "\<lambda>n. ''5''", OF _ _ _ _ _ _ _ _ _ _ p] p show ?thesis
    by (simp add: thrust_profile_def clean_def example_fmt_def example_atof)
qed

end
