(* ===== verification/SamsonMath.thy ===== *)
theory SamsonMath
  imports Prelude Complex_Main
begin

text \<open>
  The vectors, quaternions and matrices of \<open>src/Models/MathUtilities1p2\<close> (\<open>Constants.hpp\<close>, \<open>Vec3.ipp\<close>, \<open>Quaternion.ipp\<close>,
  \<open>Matrix.ipp\<close>). A double is a real number, so rounding is not modelled; the guards against a division by a small number are.

  Every operation exists twice in the source: as an operator that returns a value, and as a ``fast'' operator that writes its
  result through a reference, one component after the other. The fast ones are modelled on a store of vectors (matrices,
  quaternions) indexed by addresses, and they read the store again for every component, so that a result reference that is
  also an argument is seen as the code sees it. The lemmas show which of them may be called with such a reference, and that
  both forms compute the same where they do.
\<close>

section \<open>Constants\<close>

definition EQUATOR_RADIUS :: real where "EQUATOR_RADIUS = 6378137"
definition EQUATOR_RADIUS_2 :: real where "EQUATOR_RADIUS_2 = EQUATOR_RADIUS * EQUATOR_RADIUS"
definition ELLIPSOID_FLATTENING :: real where "ELLIPSOID_FLATTENING = 1 / 298.257223563"
definition POLAR_RADIUS :: real where "POLAR_RADIUS = EQUATOR_RADIUS * (1 - ELLIPSOID_FLATTENING)"
definition POLAR_RADIUS_2 :: real where "POLAR_RADIUS_2 = POLAR_RADIUS * POLAR_RADIUS"
definition FIRST_ECCENTRICITY :: real where
  "FIRST_ECCENTRICITY = sqrt ((EQUATOR_RADIUS_2 - POLAR_RADIUS_2) / EQUATOR_RADIUS_2)"
definition SECOND_ECCENTRICITY :: real where
  "SECOND_ECCENTRICITY = sqrt ((EQUATOR_RADIUS_2 - POLAR_RADIUS_2) / POLAR_RADIUS_2)"
definition FIRST_ECCENTRICITY_2 :: real where "FIRST_ECCENTRICITY_2 = FIRST_ECCENTRICITY * FIRST_ECCENTRICITY"
definition SECOND_ECCENTRICITY_2 :: real where "SECOND_ECCENTRICITY_2 = SECOND_ECCENTRICITY * SECOND_ECCENTRICITY"
definition OMEGA_EARTH :: real where "OMEGA_EARTH = 0.00007292115"
definition GRAV_CONST :: real where "GRAV_CONST = 6.673 / 10 ^ 11"
definition EARTH_MASS :: real where "EARTH_MASS = 5.9763 * 10 ^ 24"
definition RJ2 :: real where "RJ2 = 0.00108261579"
definition EPSILON :: real where "EPSILON = 1 / 10 ^ 12"

lemma EPSILON_pos: "0 < EPSILON"
  by (simp add: EPSILON_def)

section \<open>Vectors\<close>

record Vec3 =
  mX :: real
  mY :: real
  mZ :: real

definition Vec3 :: "real \<Rightarrow> real \<Rightarrow> real \<Rightarrow> Vec3" where
  "Vec3 x y z = \<lparr>mX = x, mY = y, mZ = z\<rparr>"

definition Vec3_eq :: "Vec3 \<Rightarrow> Vec3 \<Rightarrow> bool" where
  "Vec3_eq a rhs = (if mX rhs \<noteq> mX a \<or> mY rhs \<noteq> mY a \<or> mZ rhs \<noteq> mZ a then False else True)"

definition Vec3_plus :: "Vec3 \<Rightarrow> Vec3 \<Rightarrow> Vec3" where
  "Vec3_plus a rhs = Vec3 (mX a + mX rhs) (mY a + mY rhs) (mZ a + mZ rhs)"

definition Vec3_minus :: "Vec3 \<Rightarrow> Vec3 \<Rightarrow> Vec3" where
  "Vec3_minus a rhs = Vec3 (mX a - mX rhs) (mY a - mY rhs) (mZ a - mZ rhs)"

definition Vec3_scale :: "Vec3 \<Rightarrow> real \<Rightarrow> Vec3" where
  "Vec3_scale a k = Vec3 (mX a * k) (mY a * k) (mZ a * k)"

text \<open>The division refuses every scalar that is not above \<open>EPSILON\<close>, the negative ones too.\<close>

definition Vec3_div :: "Vec3 \<Rightarrow> real \<Rightarrow> Vec3" where
  "Vec3_div a k = (if k > EPSILON then Vec3 (mX a / k) (mY a / k) (mZ a / k) else Vec3 0 0 0)"

definition Vec3_dot :: "Vec3 \<Rightarrow> Vec3 \<Rightarrow> real" where
  "Vec3_dot a rhs = mX a * mX rhs + mY a * mY rhs + mZ a * mZ rhs"

definition Vec3_cross :: "Vec3 \<Rightarrow> Vec3 \<Rightarrow> Vec3" where
  "Vec3_cross a rhs = Vec3 (mZ rhs * mY a - mY rhs * mZ a) (mX rhs * mZ a - mZ rhs * mX a) (mY rhs * mX a - mX rhs * mY a)"

definition Vec3_magnitude :: "Vec3 \<Rightarrow> real" where
  "Vec3_magnitude a = sqrt (mX a * mX a + mY a * mY a + mZ a * mZ a)"

definition Vec3_unit :: "Vec3 \<Rightarrow> Vec3" where
  "Vec3_unit a = (if Vec3_magnitude a > EPSILON then Vec3_div a (Vec3_magnitude a) else a)"

subsection \<open>The operators that write through a reference\<close>

type_synonym vecs = "nat \<Rightarrow> Vec3"

definition Vec3_add_into :: "nat \<Rightarrow> nat \<Rightarrow> nat \<Rightarrow> vecs \<Rightarrow> vecs" where
  "Vec3_add_into this rhs ans s =
     (let s1 = s(ans := (s ans)\<lparr>mX := mX (s rhs) + mX (s this)\<rparr>);
          s2 = s1(ans := (s1 ans)\<lparr>mY := mY (s1 rhs) + mY (s1 this)\<rparr>)
      in s2(ans := (s2 ans)\<lparr>mZ := mZ (s2 rhs) + mZ (s2 this)\<rparr>))"

definition Vec3_subtract_into :: "nat \<Rightarrow> nat \<Rightarrow> nat \<Rightarrow> vecs \<Rightarrow> vecs" where
  "Vec3_subtract_into this rhs ans s =
     (let s1 = s(ans := (s ans)\<lparr>mX := mX (s this) - mX (s rhs)\<rparr>);
          s2 = s1(ans := (s1 ans)\<lparr>mY := mY (s1 this) - mY (s1 rhs)\<rparr>)
      in s2(ans := (s2 ans)\<lparr>mZ := mZ (s2 this) - mZ (s2 rhs)\<rparr>))"

definition Vec3_multiply_into :: "nat \<Rightarrow> real \<Rightarrow> nat \<Rightarrow> vecs \<Rightarrow> vecs" where
  "Vec3_multiply_into this k ans s =
     (let s1 = s(ans := (s ans)\<lparr>mX := mX (s this) * k\<rparr>);
          s2 = s1(ans := (s1 ans)\<lparr>mY := mY (s1 this) * k\<rparr>)
      in s2(ans := (s2 ans)\<lparr>mZ := mZ (s2 this) * k\<rparr>))"

definition Vec3_divide_into :: "nat \<Rightarrow> real \<Rightarrow> nat \<Rightarrow> vecs \<Rightarrow> vecs" where
  "Vec3_divide_into this k ans s =
     (if k > EPSILON
      then let s1 = s(ans := (s ans)\<lparr>mX := mX (s this) / k\<rparr>);
               s2 = s1(ans := (s1 ans)\<lparr>mY := mY (s1 this) / k\<rparr>)
           in s2(ans := (s2 ans)\<lparr>mZ := mZ (s2 this) / k\<rparr>)
      else s(ans := Vec3 0 0 0))"

definition Vec3_cross_into :: "nat \<Rightarrow> nat \<Rightarrow> nat \<Rightarrow> vecs \<Rightarrow> vecs" where
  "Vec3_cross_into this rhs ans s =
     (let s1 = s(ans := (s ans)\<lparr>mX := mZ (s rhs) * mY (s this) - mY (s rhs) * mZ (s this)\<rparr>);
          s2 = s1(ans := (s1 ans)\<lparr>mY := mX (s1 rhs) * mZ (s1 this) - mZ (s1 rhs) * mX (s1 this)\<rparr>)
      in s2(ans := (s2 ans)\<lparr>mZ := mY (s2 rhs) * mX (s2 this) - mX (s2 rhs) * mY (s2 this)\<rparr>))"

definition Vec3_unitize :: "nat \<Rightarrow> nat \<Rightarrow> vecs \<Rightarrow> vecs" where
  "Vec3_unitize this ans s =
     (let mag = Vec3_magnitude (s this)
      in if mag > EPSILON then s(ans := Vec3_div (s this) mag) else s(ans := s this))"

lemmas Vec3_ops = Vec3_def Vec3_plus_def Vec3_minus_def Vec3_scale_def Vec3_div_def Vec3_dot_def Vec3_cross_def

lemma Vec3_sel [simp]: "mX (Vec3 x y z) = x" "mY (Vec3 x y z) = y" "mZ (Vec3 x y z) = z"
  by (simp_all add: Vec3_def)

lemma Vec3_eqI: "mX a = mX b \<Longrightarrow> mY a = mY b \<Longrightarrow> mZ a = mZ b \<Longrightarrow> a = (b :: Vec3)"
  by simp

lemma Vec3_inject [simp]: "Vec3 x y z = Vec3 x' y' z' \<longleftrightarrow> x = x' \<and> y = y' \<and> z = z'"
  by (auto simp: Vec3_def)

lemma Vec3_cases: obtains x y z where "a = Vec3 x y z"
  by (cases a) (simp add: Vec3_def)

lemma Vec3_eq_iff: "Vec3_eq a b \<longleftrightarrow> a = b"
  by (auto simp: Vec3_eq_def)

text \<open>The fast operators that work component by component may write over their own arguments.\<close>

lemma Vec3_add_into: "Vec3_add_into this rhs ans s = s(ans := Vec3_plus (s this) (s rhs))"
  by (rule ext, rule Vec3_eqI) (auto simp: Vec3_add_into_def Vec3_ops Let_def)

lemma Vec3_subtract_into: "Vec3_subtract_into this rhs ans s = s(ans := Vec3_minus (s this) (s rhs))"
  by (rule ext, rule Vec3_eqI) (auto simp: Vec3_subtract_into_def Vec3_ops Let_def)

lemma Vec3_multiply_into: "Vec3_multiply_into this k ans s = s(ans := Vec3_scale (s this) k)"
  by (rule ext, rule Vec3_eqI) (auto simp: Vec3_multiply_into_def Vec3_ops Let_def)

lemma Vec3_divide_into: "Vec3_divide_into this k ans s = s(ans := Vec3_div (s this) k)"
  by (rule ext, rule Vec3_eqI) (auto simp: Vec3_divide_into_def Vec3_ops Let_def)

lemma Vec3_unitize: "Vec3_unitize this ans s = s(ans := Vec3_unit (s this))"
  by (simp add: Vec3_unitize_def Vec3_unit_def Let_def)

text \<open>The cross product may not: it is right when the result is a third vector.\<close>

lemma Vec3_cross_into:
  "ans \<noteq> this \<Longrightarrow> ans \<noteq> rhs \<Longrightarrow> Vec3_cross_into this rhs ans s = s(ans := Vec3_cross (s this) (s rhs))"
  by (rule ext, rule Vec3_eqI) (auto simp: Vec3_cross_into_def Vec3_ops Let_def)

lemmas Vec3_into = Vec3_add_into Vec3_subtract_into Vec3_multiply_into Vec3_divide_into Vec3_cross_into Vec3_unitize

subsection \<open>Laws of the vectors\<close>

lemma Vec3_magnitude_dot: "Vec3_magnitude a * Vec3_magnitude a = Vec3_dot a a"
  by (simp add: Vec3_magnitude_def Vec3_dot_def)

lemma Vec3_magnitude_nonneg: "0 \<le> Vec3_magnitude a"
  by (simp add: Vec3_magnitude_def)

lemma Vec3_cross_orthogonal: "Vec3_dot (Vec3_cross a b) a = 0" "Vec3_dot (Vec3_cross a b) b = 0"
  by (simp_all add: Vec3_ops algebra_simps)

lemma Vec3_lagrange:
  "Vec3_dot (Vec3_cross a b) (Vec3_cross a b) + Vec3_dot a b * Vec3_dot a b = Vec3_dot a a * Vec3_dot b b"
  by (simp add: Vec3_ops) algebra

lemma Vec3_magnitude_div: "k > EPSILON \<Longrightarrow> Vec3_magnitude (Vec3_div a k) = Vec3_magnitude a / k"
  using EPSILON_pos
  by (simp add: Vec3_magnitude_def Vec3_div_def flip: add_divide_distrib) (simp add: real_sqrt_divide)

lemma Vec3_unit_magnitude:
  "Vec3_magnitude (Vec3_unit a) = (if Vec3_magnitude a > EPSILON then 1 else Vec3_magnitude a)"
  using EPSILON_pos by (auto simp: Vec3_unit_def Vec3_magnitude_div)

section \<open>Quaternions\<close>

record Quaternion =
  mQ0 :: real
  mQ1 :: real
  mQ2 :: real
  mQ3 :: real

definition Quaternion :: "real \<Rightarrow> real \<Rightarrow> real \<Rightarrow> real \<Rightarrow> Quaternion" where
  "Quaternion a b c d = \<lparr>mQ0 = a, mQ1 = b, mQ2 = c, mQ3 = d\<rparr>"

definition Quaternion_eq :: "Quaternion \<Rightarrow> Quaternion \<Rightarrow> bool" where
  "Quaternion_eq q p = (if mQ0 p \<noteq> mQ0 q \<or> mQ1 p \<noteq> mQ1 q \<or> mQ2 p \<noteq> mQ2 q \<or> mQ3 p \<noteq> mQ3 q then False else True)"

definition Quaternion_plus :: "Quaternion \<Rightarrow> Quaternion \<Rightarrow> Quaternion" where
  "Quaternion_plus q rhs = Quaternion (mQ0 q + mQ0 rhs) (mQ1 q + mQ1 rhs) (mQ2 q + mQ2 rhs) (mQ3 q + mQ3 rhs)"

definition Quaternion_minus :: "Quaternion \<Rightarrow> Quaternion \<Rightarrow> Quaternion" where
  "Quaternion_minus q p = Quaternion (mQ0 q - mQ0 p) (mQ1 q - mQ1 p) (mQ2 q - mQ2 p) (mQ3 q - mQ3 p)"

definition Quaternion_scale :: "Quaternion \<Rightarrow> real \<Rightarrow> Quaternion" where
  "Quaternion_scale q k = Quaternion (mQ0 q * k) (mQ1 q * k) (mQ2 q * k) (mQ3 q * k)"

definition Quaternion_div :: "Quaternion \<Rightarrow> real \<Rightarrow> Quaternion" where
  "Quaternion_div q k = Quaternion (mQ0 q / k) (mQ1 q / k) (mQ2 q / k) (mQ3 q / k)"

definition Quaternion_magnitude :: "Quaternion \<Rightarrow> real" where
  "Quaternion_magnitude q = sqrt (mQ0 q * mQ0 q + mQ1 q * mQ1 q + mQ2 q * mQ2 q + mQ3 q * mQ3 q)"

text \<open>The operator \<open>!\<close> divides without a guard, \<open>normalize\<close> leaves a quaternion as small as \<open>EPSILON\<close> alone.\<close>

definition Quaternion_unit :: "Quaternion \<Rightarrow> Quaternion" where
  "Quaternion_unit q =
     (let m = Quaternion_magnitude q in Quaternion (mQ0 q / m) (mQ1 q / m) (mQ2 q / m) (mQ3 q / m))"

definition Quaternion_normalize :: "Quaternion \<Rightarrow> Quaternion" where
  "Quaternion_normalize q =
     (let m = Quaternion_magnitude q
      in if m > EPSILON then \<lparr>mQ0 = mQ0 q / m, mQ1 = mQ1 q / m, mQ2 = mQ2 q / m, mQ3 = mQ3 q / m\<rparr> else q)"

definition Quaternion_inverse :: "Quaternion \<Rightarrow> Quaternion" where
  "Quaternion_inverse q = Quaternion (mQ0 q) (- mQ1 q) (- mQ2 q) (- mQ3 q)"

subsection \<open>The operators that write through a reference\<close>

type_synonym quats = "nat \<Rightarrow> Quaternion"

definition Quaternion_add_into :: "nat \<Rightarrow> nat \<Rightarrow> nat \<Rightarrow> quats \<Rightarrow> quats" where
  "Quaternion_add_into this q1 res s =
     (let s1 = s(res := (s res)\<lparr>mQ0 := mQ0 (s q1) + mQ0 (s this)\<rparr>);
          s2 = s1(res := (s1 res)\<lparr>mQ1 := mQ1 (s1 q1) + mQ1 (s1 this)\<rparr>);
          s3 = s2(res := (s2 res)\<lparr>mQ2 := mQ2 (s2 q1) + mQ2 (s2 this)\<rparr>)
      in s3(res := (s3 res)\<lparr>mQ3 := mQ3 (s3 q1) + mQ3 (s3 this)\<rparr>))"

text \<open>The fast subtraction takes the object it is called on from its argument, the operator the argument from the object.\<close>

definition Quaternion_subtract_into :: "nat \<Rightarrow> nat \<Rightarrow> nat \<Rightarrow> quats \<Rightarrow> quats" where
  "Quaternion_subtract_into this q1 res s =
     (let s1 = s(res := (s res)\<lparr>mQ0 := mQ0 (s q1) - mQ0 (s this)\<rparr>);
          s2 = s1(res := (s1 res)\<lparr>mQ1 := mQ1 (s1 q1) - mQ1 (s1 this)\<rparr>);
          s3 = s2(res := (s2 res)\<lparr>mQ2 := mQ2 (s2 q1) - mQ2 (s2 this)\<rparr>)
      in s3(res := (s3 res)\<lparr>mQ3 := mQ3 (s3 q1) - mQ3 (s3 this)\<rparr>))"

definition quaternionScale :: "nat \<Rightarrow> real \<Rightarrow> nat \<Rightarrow> quats \<Rightarrow> quats" where
  "quaternionScale this k res s =
     (let s1 = s(res := (s res)\<lparr>mQ0 := mQ0 (s this) * k\<rparr>);
          s2 = s1(res := (s1 res)\<lparr>mQ1 := mQ1 (s1 this) * k\<rparr>);
          s3 = s2(res := (s2 res)\<lparr>mQ2 := mQ2 (s2 this) * k\<rparr>)
      in s3(res := (s3 res)\<lparr>mQ3 := mQ3 (s3 this) * k\<rparr>))"

definition quaternionDivideScale :: "nat \<Rightarrow> real \<Rightarrow> nat \<Rightarrow> quats \<Rightarrow> quats" where
  "quaternionDivideScale this k res s =
     (let s1 = s(res := (s res)\<lparr>mQ0 := mQ0 (s this) / k\<rparr>);
          s2 = s1(res := (s1 res)\<lparr>mQ1 := mQ1 (s1 this) / k\<rparr>);
          s3 = s2(res := (s2 res)\<lparr>mQ2 := mQ2 (s2 this) / k\<rparr>)
      in s3(res := (s3 res)\<lparr>mQ3 := mQ3 (s3 this) / k\<rparr>))"

definition Quaternion_multiply_into :: "nat \<Rightarrow> nat \<Rightarrow> nat \<Rightarrow> quats \<Rightarrow> quats" where
  "Quaternion_multiply_into this q1 res s =
     (let s1 = s(res := (s res)\<lparr>mQ0 := mQ0 (s q1) * mQ0 (s this) - mQ1 (s q1) * mQ1 (s this)
                                       - mQ2 (s q1) * mQ2 (s this) - mQ3 (s q1) * mQ3 (s this)\<rparr>);
          s2 = s1(res := (s1 res)\<lparr>mQ1 := mQ1 (s1 q1) * mQ0 (s1 this) + mQ0 (s1 q1) * mQ1 (s1 this)
                                          - mQ3 (s1 q1) * mQ2 (s1 this) + mQ2 (s1 q1) * mQ3 (s1 this)\<rparr>);
          s3 = s2(res := (s2 res)\<lparr>mQ2 := mQ2 (s2 q1) * mQ0 (s2 this) + mQ3 (s2 q1) * mQ1 (s2 this)
                                          + mQ0 (s2 q1) * mQ2 (s2 this) - mQ1 (s2 q1) * mQ3 (s2 this)\<rparr>)
      in s3(res := (s3 res)\<lparr>mQ3 := mQ3 (s3 q1) * mQ0 (s3 this) - mQ2 (s3 q1) * mQ1 (s3 this)
                                    + mQ1 (s3 q1) * mQ2 (s3 this) + mQ0 (s3 q1) * mQ3 (s3 this)\<rparr>))"

text \<open>The Hamilton product, of which the multiplication is the one with the factors exchanged.\<close>

definition hamilton :: "Quaternion \<Rightarrow> Quaternion \<Rightarrow> Quaternion" where
  "hamilton p q = Quaternion
     (mQ0 p * mQ0 q - mQ1 p * mQ1 q - mQ2 p * mQ2 q - mQ3 p * mQ3 q)
     (mQ0 p * mQ1 q + mQ1 p * mQ0 q + mQ2 p * mQ3 q - mQ3 p * mQ2 q)
     (mQ0 p * mQ2 q - mQ1 p * mQ3 q + mQ2 p * mQ0 q + mQ3 p * mQ1 q)
     (mQ0 p * mQ3 q + mQ1 p * mQ2 q - mQ2 p * mQ1 q + mQ3 p * mQ0 q)"

lemmas Quaternion_ops = Quaternion_def Quaternion_plus_def Quaternion_minus_def Quaternion_scale_def Quaternion_div_def
  Quaternion_inverse_def hamilton_def

lemma Quaternion_sel [simp]:
  "mQ0 (Quaternion a b c d) = a" "mQ1 (Quaternion a b c d) = b" "mQ2 (Quaternion a b c d) = c" "mQ3 (Quaternion a b c d) = d"
  by (simp_all add: Quaternion_def)

lemma Quaternion_eqI:
  "mQ0 p = mQ0 q \<Longrightarrow> mQ1 p = mQ1 q \<Longrightarrow> mQ2 p = mQ2 q \<Longrightarrow> mQ3 p = mQ3 q \<Longrightarrow> p = (q :: Quaternion)"
  by simp

lemma Quaternion_eq_iff: "Quaternion_eq p q \<longleftrightarrow> p = q"
  by (auto simp: Quaternion_eq_def)

lemma Quaternion_add_into: "Quaternion_add_into this q1 res s = s(res := Quaternion_plus (s this) (s q1))"
  by (rule ext, rule Quaternion_eqI) (auto simp: Quaternion_add_into_def Quaternion_ops Let_def)

lemma Quaternion_subtract_into: "Quaternion_subtract_into this q1 res s = s(res := Quaternion_minus (s q1) (s this))"
  by (rule ext, rule Quaternion_eqI) (auto simp: Quaternion_subtract_into_def Quaternion_ops Let_def)

lemma quaternionScale: "quaternionScale this k res s = s(res := Quaternion_scale (s this) k)"
  by (rule ext, rule Quaternion_eqI) (auto simp: quaternionScale_def Quaternion_ops Let_def)

lemma quaternionDivideScale: "quaternionDivideScale this k res s = s(res := Quaternion_div (s this) k)"
  by (rule ext, rule Quaternion_eqI) (auto simp: quaternionDivideScale_def Quaternion_ops Let_def)

lemma Quaternion_multiply_into:
  "res \<noteq> this \<Longrightarrow> res \<noteq> q1 \<Longrightarrow> Quaternion_multiply_into this q1 res s = s(res := hamilton (s q1) (s this))"
  by (rule ext, rule Quaternion_eqI) (auto simp: Quaternion_multiply_into_def Quaternion_ops Let_def algebra_simps)

subsection \<open>Laws of the quaternions\<close>

definition qnorm2 :: "Quaternion \<Rightarrow> real" where
  "qnorm2 q = mQ0 q * mQ0 q + mQ1 q * mQ1 q + mQ2 q * mQ2 q + mQ3 q * mQ3 q"

lemma qnorm2_nonneg: "0 \<le> qnorm2 q"
  by (simp add: qnorm2_def)

lemma Quaternion_magnitude: "Quaternion_magnitude q = sqrt (qnorm2 q)"
  by (simp add: Quaternion_magnitude_def qnorm2_def)

lemma qnorm2_hamilton: "qnorm2 (hamilton p q) = qnorm2 p * qnorm2 q"
  unfolding qnorm2_def hamilton_def Quaternion_sel by algebra

lemma Quaternion_magnitude_hamilton:
  "Quaternion_magnitude (hamilton p q) = Quaternion_magnitude p * Quaternion_magnitude q"
  by (simp add: Quaternion_magnitude qnorm2_hamilton real_sqrt_mult)

lemma hamilton_inverse: "hamilton q (Quaternion_inverse q) = Quaternion (qnorm2 q) 0 0 0"
  "hamilton (Quaternion_inverse q) q = Quaternion (qnorm2 q) 0 0 0"
  by (simp_all add: Quaternion_ops qnorm2_def)

lemma qnorm2_div: "qnorm2 (Quaternion_div q k) = qnorm2 q / (k * k)"
  by (simp add: qnorm2_def Quaternion_div_def flip: add_divide_distrib)

lemma Quaternion_normalize_div:
  "Quaternion_normalize q = (if Quaternion_magnitude q > EPSILON then Quaternion_div q (Quaternion_magnitude q) else q)"
  by (simp add: Quaternion_normalize_def Quaternion_ops Let_def)

lemma qnorm2_normalize:
  assumes "Quaternion_magnitude q > EPSILON"
  shows "qnorm2 (Quaternion_normalize q) = 1"
proof -
  have "Quaternion_magnitude q * Quaternion_magnitude q = qnorm2 q"
    using qnorm2_nonneg by (simp add: Quaternion_magnitude)
  with assms EPSILON_pos show ?thesis
    by (auto simp: Quaternion_normalize_div qnorm2_div)
qed

section \<open>Matrices\<close>

text \<open>The three rows of \<open>mMatrix\<close>. The source indexes them with an \<open>int\<close>: a row that does not exist is \<open>None\<close>.\<close>

record Matrix =
  row0 :: Vec3
  row1 :: Vec3
  row2 :: Vec3

definition Matrix :: "Vec3 \<Rightarrow> Vec3 \<Rightarrow> Vec3 \<Rightarrow> Matrix" where
  "Matrix a b c = \<lparr>row0 = a, row1 = b, row2 = c\<rparr>"

definition Matrix_zero :: Matrix where
  "Matrix_zero = Matrix (Vec3 0 0 0) (Vec3 0 0 0) (Vec3 0 0 0)"

definition getRow :: "Matrix \<Rightarrow> int \<Rightarrow> Vec3 option" where
  "getRow m i = (if i = 0 then Some (row0 m) else if i = 1 then Some (row1 m) else if i = 2 then Some (row2 m) else None)"

definition setRow :: "int \<Rightarrow> Vec3 \<Rightarrow> Matrix \<Rightarrow> Matrix option" where
  "setRow i v m = (if i = 0 then Some (m\<lparr>row0 := v\<rparr>) else if i = 1 then Some (m\<lparr>row1 := v\<rparr>)
     else if i = 2 then Some (m\<lparr>row2 := v\<rparr>) else None)"

definition setToIdentity :: "Matrix \<Rightarrow> Matrix" where
  "setToIdentity m = m\<lparr>row0 := Vec3 1 0 0, row1 := Vec3 0 1 0, row2 := Vec3 0 0 1\<rparr>"

text \<open>One row of a product.\<close>

definition row_times :: "Vec3 \<Rightarrow> Matrix \<Rightarrow> Vec3" where
  "row_times r m = Vec3 (mX r * mX (row0 m) + mY r * mX (row1 m) + mZ r * mX (row2 m))
                        (mX r * mY (row0 m) + mY r * mY (row1 m) + mZ r * mY (row2 m))
                        (mX r * mZ (row0 m) + mY r * mZ (row1 m) + mZ r * mZ (row2 m))"

type_synonym mats = "nat \<Rightarrow> Matrix"

definition times_row :: "nat \<Rightarrow> nat \<Rightarrow> nat \<Rightarrow> int \<Rightarrow> mats \<Rightarrow> mats" where
  "times_row this rhs ans i s =
     (case getRow (s this) i of
        None \<Rightarrow> s
      | Some r \<Rightarrow> (case setRow i (row_times r (s rhs)) (s ans) of None \<Rightarrow> s | Some m \<Rightarrow> s(ans := m)))"

text \<open>
  The operator \<open>*\<close> sets the rows of its left operand to the rows of the product, inside the arguments of the constructor that
  builds the result, which a compiler may evaluate in any order. The rows are returned by value, so that the result is the
  left operand as it is after all three.
\<close>

definition Matrix_times :: "int list \<Rightarrow> nat \<Rightarrow> nat \<Rightarrow> mats \<Rightarrow> Matrix \<times> mats" where
  "Matrix_times order this rhs s = (let s' = fold (times_row this rhs this) order s in (s' this, s'))"

definition Matrix_multiply_into :: "nat \<Rightarrow> nat \<Rightarrow> nat \<Rightarrow> mats \<Rightarrow> mats" where
  "Matrix_multiply_into this rhs ans s =
     times_row this rhs ans 2 (times_row this rhs ans 1 (times_row this rhs ans 0 s))"

text \<open>The determinant and the inverse are written for a symmetric matrix: they read the lower triangle only.\<close>

definition determinant :: "Matrix \<Rightarrow> real" where
  "determinant m = mX (row0 m) * mY (row1 m) * mZ (row2 m) - mX (row0 m) * mY (row2 m) * mY (row2 m)
     - mX (row1 m) * mX (row1 m) * mZ (row2 m) + 2 * mX (row1 m) * mX (row2 m) * mY (row2 m)
     - mX (row2 m) * mX (row2 m) * mY (row1 m)"

definition one_over :: "real \<Rightarrow> real" where
  "one_over d = (if d \<noteq> 0 then 1 / d else 0)"

definition Matrix_inverse :: "Matrix \<Rightarrow> Matrix" where
  "Matrix_inverse m =
     (let k = one_over (determinant m);
          a0 = Vec3 ((mY (row1 m) * mZ (row2 m) - mY (row2 m) * mY (row2 m)) * k)
                    (- (mX (row1 m) * mZ (row2 m) - mX (row2 m) * mY (row2 m)) * k)
                    ((mX (row1 m) * mY (row2 m) - mY (row1 m) * mX (row2 m)) * k);
          a1 = Vec3 (mY a0)
                    ((mX (row0 m) * mZ (row2 m) - mX (row2 m) * mX (row2 m)) * k)
                    (- (mX (row0 m) * mY (row2 m) - mX (row1 m) * mX (row2 m)) * k);
          a2 = Vec3 (mZ a0) (mZ a1) ((mX (row0 m) * mY (row1 m) - mX (row1 m) * mX (row1 m)) * k)
      in Matrix a0 a1 a2)"

text \<open>The fast inverse reads the matrix again for every row of the answer.\<close>

definition Matrix_inverse_into :: "nat \<Rightarrow> nat \<Rightarrow> mats \<Rightarrow> mats" where
  "Matrix_inverse_into this ans s =
     (let k = one_over (determinant (s this));
          m = s this;
          s1 = s(ans := (s ans)\<lparr>row0 := Vec3 ((mY (row1 m) * mZ (row2 m) - mY (row2 m) * mY (row2 m)) * k)
                    (- (mX (row1 m) * mZ (row2 m) - mX (row2 m) * mY (row2 m)) * k)
                    ((mX (row1 m) * mY (row2 m) - mY (row1 m) * mX (row2 m)) * k)\<rparr>);
          m1 = s1 this;
          s2 = s1(ans := (s1 ans)\<lparr>row1 := Vec3 (mY (row0 (s1 ans)))
                    ((mX (row0 m1) * mZ (row2 m1) - mX (row2 m1) * mX (row2 m1)) * k)
                    (- (mX (row0 m1) * mY (row2 m1) - mX (row1 m1) * mX (row2 m1)) * k)\<rparr>);
          m2 = s2 this
      in s2(ans := (s2 ans)\<lparr>row2 := Vec3 (mZ (row0 (s2 ans))) (mZ (row1 (s2 ans)))
                    ((mX (row0 m2) * mY (row1 m2) - mX (row1 m2) * mX (row1 m2)) * k)\<rparr>))"

text \<open>
  The rotations write their answer through a reference to a vector; \<open>setX\<close>, \<open>setY\<close> and \<open>setZ\<close> one after the other, with the
  vector to rotate read again each time.
\<close>

definition rotate_into :: "Matrix \<Rightarrow> nat \<Rightarrow> nat \<Rightarrow> vecs \<Rightarrow> vecs" where
  "rotate_into m lhs ans s =
     (let s1 = s(ans := (s ans)\<lparr>mX := mX (s lhs) * mX (row0 m) + mY (s lhs) * mY (row0 m) + mZ (s lhs) * mZ (row0 m)\<rparr>);
          s2 = s1(ans := (s1 ans)\<lparr>mY := mX (s1 lhs) * mX (row1 m) + mY (s1 lhs) * mY (row1 m) + mZ (s1 lhs) * mZ (row1 m)\<rparr>)
      in s2(ans := (s2 ans)\<lparr>mZ := mX (s2 lhs) * mX (row2 m) + mY (s2 lhs) * mY (row2 m) + mZ (s2 lhs) * mZ (row2 m)\<rparr>))"

definition rotate_transpose_into :: "Matrix \<Rightarrow> nat \<Rightarrow> nat \<Rightarrow> vecs \<Rightarrow> vecs" where
  "rotate_transpose_into m lhs ans s =
     (let s1 = s(ans := (s ans)\<lparr>mX := mX (s lhs) * mX (row0 m) + mY (s lhs) * mX (row1 m) + mZ (s lhs) * mX (row2 m)\<rparr>);
          s2 = s1(ans := (s1 ans)\<lparr>mY := mX (s1 lhs) * mY (row0 m) + mY (s1 lhs) * mY (row1 m) + mZ (s1 lhs) * mY (row2 m)\<rparr>)
      in s2(ans := (s2 ans)\<lparr>mZ := mX (s2 lhs) * mZ (row0 m) + mY (s2 lhs) * mZ (row1 m) + mZ (s2 lhs) * mZ (row2 m)\<rparr>))"

text \<open>What they compute when the answer is another vector.\<close>

definition rotateVector :: "Matrix \<Rightarrow> Vec3 \<Rightarrow> Vec3" where
  "rotateVector m v = Vec3 (Vec3_dot v (row0 m)) (Vec3_dot v (row1 m)) (Vec3_dot v (row2 m))"

definition rotateTransposeVector :: "Matrix \<Rightarrow> Vec3 \<Rightarrow> Vec3" where
  "rotateTransposeVector m v = row_times v m"

text \<open>The product and the identity of linear algebra.\<close>

definition mat_mult :: "Matrix \<Rightarrow> Matrix \<Rightarrow> Matrix" where
  "mat_mult a b = Matrix (row_times (row0 a) b) (row_times (row1 a) b) (row_times (row2 a) b)"

definition mat_one :: Matrix where
  "mat_one = Matrix (Vec3 1 0 0) (Vec3 0 1 0) (Vec3 0 0 1)"

definition symmetric_matrix :: "Matrix \<Rightarrow> bool" where
  "symmetric_matrix m \<longleftrightarrow> mY (row0 m) = mX (row1 m) \<and> mZ (row0 m) = mX (row2 m) \<and> mZ (row1 m) = mY (row2 m)"

lemma Matrix_sel [simp]: "row0 (Matrix a b c) = a" "row1 (Matrix a b c) = b" "row2 (Matrix a b c) = c"
  by (simp_all add: Matrix_def)

lemma Matrix_eqI: "row0 a = row0 b \<Longrightarrow> row1 a = row1 b \<Longrightarrow> row2 a = row2 b \<Longrightarrow> a = (b :: Matrix)"
  by simp

lemma Matrix_inject [simp]: "Matrix a b c = Matrix a' b' c' \<longleftrightarrow> a = a' \<and> b = b' \<and> c = c'"
  by (auto simp: Matrix_def)

lemmas Matrix_ops = mat_mult_def mat_one_def row_times_def rotateVector_def rotateTransposeVector_def Vec3_dot_def

lemma rotate_into: "ans \<noteq> lhs \<Longrightarrow> rotate_into m lhs ans s = s(ans := rotateVector m (s lhs))"
  by (rule ext, rule Vec3_eqI) (auto simp: rotate_into_def rotateVector_def Vec3_dot_def Let_def)

lemma rotate_transpose_into: "ans \<noteq> lhs \<Longrightarrow> rotate_transpose_into m lhs ans s = s(ans := rotateTransposeVector m (s lhs))"
  by (rule ext, rule Vec3_eqI) (auto simp: rotate_transpose_into_def rotateTransposeVector_def row_times_def Let_def)

lemma Matrix_multiply_into:
  "ans \<noteq> rhs \<Longrightarrow> Matrix_multiply_into this rhs ans s = s(ans := mat_mult (s this) (s rhs))"
  by (rule ext, rule Matrix_eqI) (auto simp: Matrix_multiply_into_def times_row_def getRow_def setRow_def mat_mult_def)

lemma Matrix_inverse_into: "ans \<noteq> this \<Longrightarrow> Matrix_inverse_into this ans s = s(ans := Matrix_inverse (s this))"
  by (rule ext, rule Matrix_eqI) (auto simp: Matrix_inverse_into_def Matrix_inverse_def Let_def)

lemma Matrix_times:
  assumes "mset order = mset [0, 1, 2]" "rhs \<noteq> this"
  shows "Matrix_times order this rhs s = (mat_mult (s this) (s rhs), s(this := mat_mult (s this) (s rhs)))"
proof -
  have "distinct order" "set order = {0, 1, 2}" "length order = 3"
    using mset_eq_imp_distinct_iff [OF assms(1)] mset_eq_setD [OF assms(1)] mset_eq_length [OF assms(1)] by simp_all
  then obtain a b c where order: "order = [a, b, c]" "distinct [a, b, c]" "{a, b, c} = {0, 1, 2}"
    by (auto simp: numeral_3_eq_3 length_Suc_conv)
  have "a \<in> {0, 1, 2}" "b \<in> {0, 1, 2}" "c \<in> {0, 1, 2}"
    unfolding order(3) [symmetric] by simp_all
  with order have "order \<in> {[0,1,2], [0,2,1], [1,0,2], [1,2,0], [2,0,1], [2,1,0]}"
    by auto
  then show ?thesis
    using assms(2)
    by (auto simp: Matrix_times_def times_row_def getRow_def setRow_def Let_def mat_mult_def Matrix_def fun_eq_iff)
qed

lemma Matrix_inverse_symmetric:
  assumes "symmetric_matrix m" "determinant m \<noteq> 0"
  shows "mat_mult m (Matrix_inverse m) = mat_one" "mat_mult (Matrix_inverse m) m = mat_one"
proof -
  obtain a b c d e f where m: "m = Matrix (Vec3 a b c) (Vec3 b d e) (Vec3 c e f)"
    using assms(1) that [of "mX (row0 m)" "mY (row0 m)" "mZ (row0 m)" "mY (row1 m)" "mZ (row1 m)" "mZ (row2 m)"]
    by (simp add: symmetric_matrix_def Matrix_def Vec3_def)
  define k where "k = one_over (determinant m)"
  have K: "k * (a * d * f - a * e * e - b * b * f + 2 * b * c * e - c * c * d) = 1"
    using assms(2) by (simp add: k_def one_over_def m determinant_def)
  show "mat_mult m (Matrix_inverse m) = mat_one"
    unfolding Matrix_inverse_def k_def [symmetric] Let_def
    unfolding m Matrix_ops Matrix_sel Vec3_sel Matrix_inject Vec3_inject
    by (intro conjI) (use K in algebra | simp add: algebra_simps)+
  show "mat_mult (Matrix_inverse m) m = mat_one"
    unfolding Matrix_inverse_def k_def [symmetric] Let_def
    unfolding m Matrix_ops Matrix_sel Vec3_sel Matrix_inject Vec3_inject
    by (intro conjI) (use K in algebra | simp add: algebra_simps)+
qed

lemma mat_mult_assoc: "mat_mult (mat_mult a b) c = mat_mult a (mat_mult b c)"
  by (simp add: Matrix_ops algebra_simps)

lemma mat_mult_one [simp]: "mat_mult a mat_one = a" "mat_mult mat_one a = a"
  by (simp_all add: Matrix_ops Matrix_def Vec3_def)

definition lower_symmetric :: "Matrix \<Rightarrow> Matrix" where
  "lower_symmetric m = Matrix (Vec3 (mX (row0 m)) (mX (row1 m)) (mX (row2 m)))
     (Vec3 (mX (row1 m)) (mY (row1 m)) (mY (row2 m))) (Vec3 (mX (row2 m)) (mY (row2 m)) (mZ (row2 m)))"

lemma lower_symmetric:
  "symmetric_matrix (lower_symmetric m)" "determinant (lower_symmetric m) = determinant m"
  "Matrix_inverse (lower_symmetric m) = Matrix_inverse m" "symmetric_matrix m \<Longrightarrow> lower_symmetric m = m"
  by (auto simp: lower_symmetric_def symmetric_matrix_def determinant_def Matrix_inverse_def Let_def Matrix_def Vec3_def)

text \<open>
  The inverse of a matrix is right exactly for symmetric matrices: when the determinant that the code computes is not zero, the
  product of a matrix and its \<open>inverse\<close> is the identity if and only if the matrix is symmetric.\<close>

lemma inverse_for_symmetric_only:
  assumes "determinant m \<noteq> 0"
  shows "(mat_mult m (Matrix_inverse m) = mat_one \<longleftrightarrow> symmetric_matrix m) \<and>
    (mat_mult (Matrix_inverse m) m = mat_one \<longleftrightarrow> symmetric_matrix m)"
proof -
  let ?l = "lower_symmetric m" and ?x = "Matrix_inverse m"
  have x: "mat_mult ?l ?x = mat_one" "mat_mult ?x ?l = mat_one"
    using Matrix_inverse_symmetric [of ?l] assms by (simp_all add: lower_symmetric(1-3))
  have "mat_mult m ?x = mat_one \<Longrightarrow> m = ?l" using mat_mult_assoc [of m ?x ?l] x by simp
  moreover have "mat_mult ?x m = mat_one \<Longrightarrow> m = ?l" using mat_mult_assoc [of ?l ?x m] x by simp
  moreover have "symmetric_matrix m \<Longrightarrow> m = ?l" using lower_symmetric(4) [of m] by simp
  ultimately show ?thesis using x lower_symmetric(1) [of m] by metis
qed

lemma inverse_for_symmetric_only_witness:
  "mat_mult (Matrix (Vec3 1 5 0) (Vec3 0 1 0) (Vec3 0 0 1)) (Matrix_inverse (Matrix (Vec3 1 5 0) (Vec3 0 1 0) (Vec3 0 0 1))) \<noteq> mat_one"
  using inverse_for_symmetric_only [of "Matrix (Vec3 1 5 0) (Vec3 0 1 0) (Vec3 0 0 1)"]
  by (simp add: determinant_def symmetric_matrix_def)

end
