(* ===== verification/Conversions.thy ===== *)
theory Conversions
  imports SamsonMath
begin

text \<open>
  The conversions of \<open>src/Models/MathUtilities1p2/Conversions.ipp\<close> between coordinates of the earth (latitude, longitude and
  altitude; earth-centred fixed and inertial; north, east and down) and between the descriptions of an attitude (Euler angles,
  direction cosine matrices, quaternions). The classes \<open>EulerAngles\<close>, \<open>Lla\<close>, \<open>Ned\<close>, \<open>Ecef\<close> and \<open>Eci\<close> only give other names to
  the components of a \<open>Vec3\<close>, and \<open>EulerMatrix\<close> is a \<open>Matrix\<close>.

  What a direction cosine matrix promises is the locale \<open>rotation\<close>; it is interpreted on the matrices the code builds. Four
  functions of the file cannot be instantiated (they call methods that do not exist: \<open>egtX\<close>, \<open>QuaternionMultiply\<close>,
  \<open>QuaternionInverse\<close>, \<open>EcefToLla\<close>, or name \<open>getQ2\<close> without calling it) and are left out with the functions that call them.
\<close>

section \<open>Direction cosine matrices\<close>

definition mat_transpose :: "Matrix \<Rightarrow> Matrix" where
  "mat_transpose m = Matrix (Vec3 (mX (row0 m)) (mX (row1 m)) (mX (row2 m)))
                            (Vec3 (mY (row0 m)) (mY (row1 m)) (mY (row2 m)))
                            (Vec3 (mZ (row0 m)) (mZ (row1 m)) (mZ (row2 m)))"

lemma rotateVector_mult: "rotateVector (mat_mult a b) v = rotateVector a (rotateVector b v)"
  by (simp add: Matrix_ops algebra_simps)

lemma rotateTransposeVector_transpose: "rotateTransposeVector m v = rotateVector (mat_transpose m) v"
  by (simp add: Matrix_ops mat_transpose_def algebra_simps)

lemma rotateVector_one [simp]: "rotateVector mat_one v = v"
  by (rule Vec3_eqI) (simp_all add: Matrix_ops)

lemma rotateVector_adjoint: "Vec3_dot (rotateVector m v) w = Vec3_dot v (rotateTransposeVector m w)"
  by (simp add: Matrix_ops algebra_simps)

lemma rotateVector_linear:
  "rotateVector m (Vec3_plus v w) = Vec3_plus (rotateVector m v) (rotateVector m w)"
  "rotateVector m (Vec3_minus v w) = Vec3_minus (rotateVector m v) (rotateVector m w)"
  by (simp_all add: Matrix_ops Vec3_plus_def Vec3_minus_def algebra_simps)

locale rotation =
  fixes M :: Matrix
  assumes rows: "mat_mult M (mat_transpose M) = mat_one"
    and columns: "mat_mult (mat_transpose M) M = mat_one"
begin

lemma rotate_then_back [simp]: "rotateTransposeVector M (rotateVector M v) = v"
  by (simp add: rotateTransposeVector_transpose columns flip: rotateVector_mult)

lemma back_then_rotate [simp]: "rotateVector M (rotateTransposeVector M v) = v"
  by (simp add: rotateTransposeVector_transpose rows flip: rotateVector_mult)

lemma keeps_dot: "Vec3_dot (rotateVector M v) (rotateVector M w) = Vec3_dot v w"
  by (simp add: rotateVector_adjoint)

lemma keeps_magnitude: "Vec3_magnitude (rotateVector M v) = Vec3_magnitude v"
  using keeps_dot [of v v] Vec3_magnitude_dot
  by (metis Vec3_magnitude_nonneg real_sqrt_abs2 abs_of_nonneg)

end

lemma orthonormalI:
  assumes "Vec3_dot a a = 1" "Vec3_dot b b = 1" "Vec3_dot c c = 1" "Vec3_dot a b = 0" "Vec3_dot a c = 0" "Vec3_dot b c = 0"
  shows "mat_mult (Matrix a b c) (mat_transpose (Matrix a b c)) = mat_one"
  using assms by (simp add: Matrix_ops mat_transpose_def algebra_simps)

section \<open>Euler angles\<close>

abbreviation (input) "getRoll \<equiv> mX"
abbreviation (input) "getPitch \<equiv> mY"
abbreviation (input) "getYaw \<equiv> mZ"

abbreviation (input) EulerAngles :: "real \<Rightarrow> real \<Rightarrow> real \<Rightarrow> Vec3" where
  "EulerAngles \<equiv> Vec3"

definition maxa :: "real \<Rightarrow> real \<Rightarrow> real" where
  "maxa x y = (if x > y then x else y)"

definition mina :: "real \<Rightarrow> real \<Rightarrow> real" where
  "mina x y = (if x < y then x else y)"

text \<open>The four-quadrant arc tangent of the C library.\<close>

definition atan2 :: "real \<Rightarrow> real \<Rightarrow> real" where
  "atan2 y x =
     (if x > 0 then arctan (y / x)
      else if x < 0 then (if y \<ge> 0 then arctan (y / x) + pi else arctan (y / x) - pi)
      else if y > 0 then pi / 2 else if y < 0 then - (pi / 2) else 0)"

definition eulerAnglesToMatrix :: "Vec3 \<Rightarrow> Matrix" where
  "eulerAnglesToMatrix a =
     (let cosPhi = cos (getRoll a); sinPhi = sin (getRoll a); cosTheta = cos (getPitch a); sinTheta = sin (getPitch a);
          cosPsi = cos (getYaw a); sinPsi = sin (getYaw a)
      in Matrix (Vec3 (cosTheta * cosPsi) (cosTheta * sinPsi) (- sinTheta))
                (Vec3 (- cosPhi * sinPsi + sinPhi * sinTheta * cosPsi) (cosPhi * cosPsi + sinPhi * sinTheta * sinPsi)
                      (sinPhi * cosTheta))
                (Vec3 (sinPhi * sinPsi + cosPhi * sinTheta * cosPsi) (- sinPhi * cosPsi + cosPhi * sinTheta * sinPsi)
                      (cosPhi * cosTheta)))"

text \<open>One of the angles from the sine and the cosine of it, both times a common factor.\<close>

definition angle_of :: "real \<Rightarrow> real \<Rightarrow> real" where
  "angle_of s c =
     (if c \<noteq> 0 then (if s \<noteq> 0 then atan2 s c else 0)
      else if s \<noteq> 0 then (if s > 0 then pi / 2 else - (pi / 2)) else 0)"

definition eulerMatrixToAngles :: "Matrix \<Rightarrow> Vec3" where
  "eulerMatrixToAngles m =
     EulerAngles (angle_of (mZ (row1 m)) (mZ (row2 m)))
                 (arcsin (max (-1) (mina 1 (- mZ (row0 m)))))
                 (angle_of (mY (row0 m)) (mX (row0 m)))"

definition bodyRatesToEulerRates :: "Vec3 \<Rightarrow> Vec3 \<Rightarrow> Vec3" where
  "bodyRatesToEulerRates pqr a =
     EulerAngles (getRoll pqr + getYaw a * sin (getPitch a))
                 (getPitch pqr * cos (getRoll a) - getYaw pqr * sin (getRoll a))
                 ((getPitch pqr * sin (getRoll a) + getYaw pqr * cos (getRoll a)) / (cos (getPitch a) + EPSILON))"

definition eulerRatesToBodyRates :: "Vec3 \<Rightarrow> Vec3 \<Rightarrow> Vec3" where
  "eulerRatesToBodyRates a r =
     EulerAngles (getRoll r - getYaw r * sin (getPitch a))
                 (getPitch r * cos (getRoll a) + getYaw r * cos (getPitch a) * sin (getRoll a))
                 (getYaw r * cos (getPitch a) * cos (getRoll a) - getPitch r * sin (getRoll a))"

lemma atan2_right:
  assumes "0 < r" "- (pi / 2) < t" "t < pi / 2"
  shows "atan2 (r * sin t) (r * cos t) = t" "atan2 (- (r * sin t)) (- (r * cos t)) = (if t \<le> 0 then t + pi else t - pi)"
proof -
  have c: "0 < r * cos t" using assms cos_gt_zero_pi by simp
  have q: "r * sin t / (r * cos t) = tan t" using assms(1) by (simp add: tan_def)
  have s: "r * sin t \<le> 0 \<longleftrightarrow> t \<le> 0"
    using assms(1) sin_gt_zero [of t] sin_gt_zero [of "- t"] assms(2,3) pi_gt_zero
    by (cases t "0 :: real" rule: linorder_cases) (auto simp: mult_le_0_iff)
  show "atan2 (r * sin t) (r * cos t) = t"
    using c by (simp only: atan2_def q if_True arctan_tan [OF assms(2,3)])
  show "atan2 (- (r * sin t)) (- (r * cos t)) = (if t \<le> 0 then t + pi else t - pi)"
    using c s arctan_tan [OF assms(2,3)] by (simp only: atan2_def minus_divide_divide q) auto
qed

lemma atan2_polar:
  assumes "0 < r" "- pi < t" "t \<le> pi"
  shows "atan2 (r * sin t) (r * cos t) = t"
proof -
  consider "\<bar>t\<bar> < pi / 2" | "t = pi / 2" | "t = - (pi / 2)" | "pi / 2 < t" | "t < - (pi / 2)"
    by linarith
  then show ?thesis
  proof cases
    case 1
    then show ?thesis using atan2_right(1) [of r t] assms(1) by linarith
  next
    case 4
    then show ?thesis using atan2_right(2) [of r "t - pi"] assms by (simp add: sin_diff cos_diff)
  next
    case 5
    then show ?thesis using atan2_right(2) [of r "t + pi"] assms by simp
  qed (use assms(1) in \<open>simp_all only: atan2_def sin_pi_half cos_pi_half sin_minus cos_minus\<close>, simp_all)
qed

lemma angle_of_atan2: "s \<noteq> 0 \<Longrightarrow> angle_of s c = atan2 s c"
  by (simp add: angle_of_def atan2_def)

text \<open>An angle of exactly half a turn is lost: its sine is zero, and the code then answers zero.\<close>

lemma angle_of_polar:
  assumes "0 < r" "- pi < t" "t < pi"
  shows "angle_of (r * sin t) (r * cos t) = t"
proof (cases "t = 0")
  case False
  then have "r * sin t \<noteq> 0" using assms sin_eq_0_pi by auto
  then show ?thesis using assms by (simp add: angle_of_atan2 atan2_polar)
qed (use assms(1) in \<open>simp add: angle_of_def\<close>)

lemma angle_of_half_turn: "angle_of (r * sin pi) (r * cos pi) = 0"
  by (simp add: angle_of_def)

lemma euler_matrix_roundtrip:
  assumes "\<bar>getRoll a\<bar> < pi" "\<bar>getPitch a\<bar> < pi / 2" "\<bar>getYaw a\<bar> < pi"
  shows "eulerMatrixToAngles (eulerAnglesToMatrix a) = a"
proof (rule Vec3_eqI)
  have c: "0 < cos (getPitch a)" using assms(2) by (intro cos_gt_zero_pi) auto
  show "mX (eulerMatrixToAngles (eulerAnglesToMatrix a)) = mX a"
    using angle_of_polar [OF c, of "getRoll a"] assms(1)
    by (simp add: eulerMatrixToAngles_def eulerAnglesToMatrix_def Let_def abs_less_iff mult.commute minus_less_iff)
  show "mZ (eulerMatrixToAngles (eulerAnglesToMatrix a)) = mZ a"
    using angle_of_polar [OF c, of "getYaw a"] assms(3)
    by (simp add: eulerMatrixToAngles_def eulerAnglesToMatrix_def Let_def abs_less_iff minus_less_iff)
  have "max (-1) (mina 1 (sin (getPitch a))) = sin (getPitch a)"
    using sin_ge_minus_one [of "getPitch a"] sin_le_one [of "getPitch a"]
    by (simp add: mina_def max_def del: sin_le_one sin_ge_minus_one)
  then show "mY (eulerMatrixToAngles (eulerAnglesToMatrix a)) = mY a"
    using assms(2) arcsin_sin [of "getPitch a"]
    by (simp add: eulerMatrixToAngles_def eulerAnglesToMatrix_def Let_def abs_less_iff)
qed

text \<open>The matrix of Euler angles is a direction cosine matrix.\<close>

lemma sin_cos_1: "sin x * sin x + cos x * cos x = (1 :: real)"
  using sin_cos_squared_add [of x] by (simp add: power2_eq_square)

lemma euler_rotation: "rotation (eulerAnglesToMatrix a)"
proof
  note U = sin_cos_1 [of "getRoll a"] sin_cos_1 [of "getPitch a"] sin_cos_1 [of "getYaw a"]
  show "mat_mult (eulerAnglesToMatrix a) (mat_transpose (eulerAnglesToMatrix a)) = mat_one"
    "mat_mult (mat_transpose (eulerAnglesToMatrix a)) (eulerAnglesToMatrix a) = mat_one"
    unfolding eulerAnglesToMatrix_def Let_def mat_transpose_def Matrix_ops Matrix_sel Vec3_sel Matrix_inject Vec3_inject
    by (intro conjI; (use U in algebra))+
qed

interpretation euler: rotation "eulerAnglesToMatrix a" for a
  by (rule euler_rotation)

section \<open>Quaternions and matrices\<close>

definition quaternionToMatrix :: "Quaternion \<Rightarrow> Matrix" where
  "quaternionToMatrix q =
     (let q00 = mQ0 q * mQ0 q; q11 = mQ1 q * mQ1 q; q22 = mQ2 q * mQ2 q; q33 = mQ3 q * mQ3 q;
          q01 = mQ0 q * mQ1 q; q02 = mQ0 q * mQ2 q; q03 = mQ0 q * mQ3 q;
          q12 = mQ1 q * mQ2 q; q13 = mQ1 q * mQ3 q; q23 = mQ2 q * mQ3 q
      in Matrix (Vec3 (q00 + q11 - q22 - q33) (2 * (q12 + q03)) (2 * (q13 - q02)))
                (Vec3 (2 * (q12 - q03)) (q00 - q11 + q22 - q33) (2 * (q23 + q01)))
                (Vec3 (2 * (q13 + q02)) (2 * (q23 - q01)) (q00 - q11 - q22 + q33)))"

definition eulerToQuaternion :: "Vec3 \<Rightarrow> Quaternion" where
  "eulerToQuaternion a =
     (let cosYaw2 = cos (getYaw a * (1 / 2)); sinYaw2 = sin (getYaw a * (1 / 2));
          cosPitch2 = cos (getPitch a * (1 / 2)); sinPitch2 = sin (getPitch a * (1 / 2));
          cosRoll2 = cos (getRoll a * (1 / 2)); sinRoll2 = sin (getRoll a * (1 / 2))
      in Quaternion_normalize (Quaternion
           (cosYaw2 * cosPitch2 * cosRoll2 + sinYaw2 * sinPitch2 * sinRoll2)
           (cosYaw2 * cosPitch2 * sinRoll2 - sinYaw2 * sinPitch2 * cosRoll2)
           (cosYaw2 * sinPitch2 * cosRoll2 + sinYaw2 * cosPitch2 * sinRoll2)
           (cosYaw2 * cosPitch2 * cosRoll2 - cosYaw2 * sinPitch2 * sinRoll2)))"

definition matrixToQuaternion :: "Matrix \<Rightarrow> Quaternion" where
  "matrixToQuaternion m = eulerToQuaternion (eulerMatrixToAngles m)"

definition bodyRatesToQuaternionRates :: "Quaternion \<Rightarrow> Vec3 \<Rightarrow> Quaternion" where
  "bodyRatesToQuaternionRates q w = Quaternion
     (- 0.5 * (mX w * mQ1 q + mY w * mQ2 q + mZ w * mQ3 q))
     (0.5 * (mX w * mQ0 q - mY w * mQ3 q + mZ w * mQ2 q))
     (0.5 * (mX w * mQ3 q - mY w * mQ0 q + mZ w * mQ1 q))
     (0.5 * (- mX w * mQ2 q - mY w * mQ1 q + mZ w * mQ0 q))"

definition quaternionRateToBodyRates :: "Quaternion \<Rightarrow> Quaternion \<Rightarrow> Vec3" where
  "quaternionRateToBodyRates r q = Vec3
     (- 2 * (- mQ1 r * mQ0 q + mQ0 r * mQ1 q + mQ3 r * mQ2 q - mQ2 r * mQ3 q))
     (- 2 * (- mQ2 r * mQ0 q - mQ3 r * mQ1 q + mQ0 r * mQ2 q + mQ1 r * mQ3 q))
     (- 2 * (- mQ3 r * mQ0 q - mQ2 r * mQ1 q + mQ1 r * mQ2 q + mQ0 r * mQ3 q))"

text \<open>A product of quaternions is the product of their matrices, in the other order.\<close>

lemma quaternionToMatrix_hamilton:
  "quaternionToMatrix (hamilton p q) = mat_mult (quaternionToMatrix q) (quaternionToMatrix p)"
  unfolding quaternionToMatrix_def hamilton_def Let_def Matrix_ops Matrix_sel Vec3_sel Quaternion_sel Matrix_inject Vec3_inject
  by (intro conjI; algebra)

lemma quaternionToMatrix_transpose: "mat_transpose (quaternionToMatrix q) = quaternionToMatrix (Quaternion_inverse q)"
  by (simp add: quaternionToMatrix_def mat_transpose_def Quaternion_inverse_def Let_def)

lemma quaternionToMatrix_one: "quaternionToMatrix (Quaternion 1 0 0 0) = mat_one"
  by (simp add: quaternionToMatrix_def mat_one_def)

lemma unit_quaternion_rotation: "qnorm2 q = 1 \<Longrightarrow> rotation (quaternionToMatrix q)"
  by unfold_locales
    (simp_all add: quaternionToMatrix_transpose hamilton_inverse quaternionToMatrix_one flip: quaternionToMatrix_hamilton)

text \<open>
  The multiplication of quaternions composes rotations: turning a vector by the product that \<open>q.multiply (p, answer)\<close> leaves in
  \<open>answer\<close>, an object of its own, is turning it by \<open>p\<close> first and by \<open>q\<close> then.\<close>

lemma multiply_composes_rotations:
  assumes "res \<noteq> this" "res \<noteq> q1"
  shows "rotateVector (quaternionToMatrix (Quaternion_multiply_into this q1 res s res)) v =
    rotateVector (quaternionToMatrix (s this)) (rotateVector (quaternionToMatrix (s q1)) v)"
  by (simp add: Quaternion_multiply_into [OF assms] quaternionToMatrix_hamilton rotateVector_mult)

lemma multiply_composes_rotations_witness:
  "rotateVector (quaternionToMatrix (Quaternion_multiply_into 0 1 2 (\<lambda>n. if n = 0 then Quaternion 0 0 1 0 else Quaternion 0 1 0 0) 2))
      (Vec3 1 2 3) = Vec3 (-1) (-2) 3"
  by (subst multiply_composes_rotations) (simp_all add: quaternionToMatrix_def Matrix_ops)

text \<open>The quaternion of Euler angles has its last component wrong: at rest it is a quarter turn in yaw.\<close>

lemma eulerToQuaternion_at_rest: "eulerToQuaternion (EulerAngles 0 0 0) = Quaternion (1 / sqrt 2) 0 0 (1 / sqrt 2)"
proof -
  have "EPSILON < 1" "1 < sqrt (2 :: real)" by (simp_all add: EPSILON_def)
  then have "EPSILON < sqrt 2" by linarith
  then show ?thesis
    by (simp add: eulerToQuaternion_def Quaternion_normalize_def Quaternion_magnitude_def Quaternion_def Let_def)
qed

lemma eulerAnglesToMatrix_at_rest: "eulerAnglesToMatrix (EulerAngles 0 0 0) = mat_one"
  by (simp add: eulerAnglesToMatrix_def mat_one_def)

text \<open>
  Going from Euler rates to body rates and back: the roll rate is corrected with the yaw angle where the yaw rate belongs, and
  the yaw rate is scaled by the constant that guards the division.
\<close>

lemma body_rates_roundtrip:
  "bodyRatesToEulerRates (eulerRatesToBodyRates a r) a =
     EulerAngles (getRoll r + (getYaw a - getYaw r) * sin (getPitch a)) (getPitch r)
       (getYaw r * cos (getPitch a) / (cos (getPitch a) + EPSILON))"
proof -
  note U = sin_cos_1 [of "getRoll a"]
  have "(getPitch r * cos (getRoll a) + getYaw r * cos (getPitch a) * sin (getRoll a)) * cos (getRoll a) -
      (getYaw r * cos (getPitch a) * cos (getRoll a) - getPitch r * sin (getRoll a)) * sin (getRoll a) = getPitch r"
    using U by algebra
  moreover have "(getPitch r * cos (getRoll a) + getYaw r * cos (getPitch a) * sin (getRoll a)) * sin (getRoll a) +
      (getYaw r * cos (getPitch a) * cos (getRoll a) - getPitch r * sin (getRoll a)) * cos (getRoll a) =
      getYaw r * cos (getPitch a)"
    using U by algebra
  ultimately show ?thesis
    by (simp add: bodyRatesToEulerRates_def eulerRatesToBodyRates_def algebra_simps)
qed

text \<open>The quaternion rates have two signs wrong: from rest a pitch rate comes back negated.\<close>

lemma quaternion_rates_at_rest:
  "quaternionRateToBodyRates (bodyRatesToQuaternionRates (Quaternion 1 0 0 0) w) (Quaternion 1 0 0 0) =
     Vec3 (mX w) (- mY w) (mZ w)"
  by (simp add: quaternionRateToBodyRates_def bodyRatesToQuaternionRates_def)

section \<open>North, east, down\<close>

abbreviation (input) "getNorth \<equiv> mX"
abbreviation (input) "getEast \<equiv> mY"
abbreviation (input) "getDown \<equiv> mZ"
abbreviation (input) "getLatitude \<equiv> mX"
abbreviation (input) "getLongitude \<equiv> mY"
abbreviation (input) "getAltitude \<equiv> mZ"

text \<open>The matrix is filled from row 1 to row 3; there is no row 3.\<close>

definition ecefToNedMatrix :: "Vec3 \<Rightarrow> Matrix option" where
  "ecefToNedMatrix lla =
     (let cosLatitude = cos (getLatitude lla); cosLongitude = cos (getLongitude lla);
          sinLatitude = sin (getLatitude lla); sinLongitude = sin (getLongitude lla)
      in case setRow 1 (Vec3 (- sinLatitude * cosLongitude) (- sinLatitude * sinLongitude) cosLatitude) Matrix_zero of
           None \<Rightarrow> None
         | Some m1 \<Rightarrow> (case setRow 2 (Vec3 (- sinLongitude) cosLongitude 0) m1 of
             None \<Rightarrow> None
           | Some m2 \<Rightarrow> setRow 3 (Vec3 (- cosLatitude * cosLongitude) (- cosLatitude * sinLongitude) (- sinLatitude)) m2))"

definition nedToEcefPos :: "Vec3 \<Rightarrow> Matrix \<Rightarrow> Vec3 \<Rightarrow> Vec3" where
  "nedToEcefPos ned m ref = Vec3
     (mX (row0 m) * getNorth ned + mY (row0 m) * getEast ned + mZ (row0 m) * getDown ned + mX ref)
     (mX (row1 m) * getNorth ned + mY (row1 m) * getEast ned + mZ (row1 m) * getDown ned + mY ref)
     (mX (row2 m) * getNorth ned + mY (row2 m) * getEast ned + mZ (row2 m) * getDown ned + mZ ref)"

definition nedToEcefVel :: "Vec3 \<Rightarrow> Matrix \<Rightarrow> Vec3" where
  "nedToEcefVel ned m = Vec3
     (mX (row0 m) * getNorth ned + mY (row0 m) * getEast ned + mZ (row0 m) * getDown ned)
     (mX (row1 m) * getNorth ned + mY (row1 m) * getEast ned + mZ (row1 m) * getDown ned)
     (mX (row2 m) * getNorth ned + mY (row2 m) * getEast ned + mZ (row2 m) * getDown ned)"

definition ecefToNedPos :: "Vec3 \<Rightarrow> Matrix \<Rightarrow> Vec3 \<Rightarrow> Vec3" where
  "ecefToNedPos ecef m ref =
     (let r = Vec3_minus ecef ref
      in Vec3 (mX (row0 m) * mX r + mY (row0 m) * mY r + mZ (row0 m) * mZ r)
              (mX (row1 m) * mX r + mY (row1 m) * mY r + mZ (row1 m) * mZ r)
              (mX (row2 m) * mX r + mY (row2 m) * mY r + mZ (row2 m) * mZ r))"

definition ecefToNedVel :: "Vec3 \<Rightarrow> Matrix \<Rightarrow> Vec3" where
  "ecefToNedVel v m = Vec3
     (mX (row0 m) * mX v + mY (row0 m) * mY v + mZ (row0 m) * mZ v)
     (mX (row1 m) * mX v + mY (row1 m) * mY v + mZ (row1 m) * mZ v)
     (mX (row2 m) * mX v + mY (row2 m) * mY v + mZ (row2 m) * mZ v)"

lemma ecefToNedMatrix_out_of_range: "ecefToNedMatrix lla = None"
  by (simp add: ecefToNedMatrix_def setRow_def Let_def)

lemma ned_as_rotation:
  "nedToEcefPos ned m ref = Vec3_plus (rotateVector m ned) ref" "nedToEcefVel ned m = rotateVector m ned"
  "ecefToNedPos ecef m ref = rotateVector m (Vec3_minus ecef ref)" "ecefToNedVel ecef m = rotateVector m ecef"
  by (simp_all add: nedToEcefPos_def nedToEcefVel_def ecefToNedPos_def ecefToNedVel_def Matrix_ops Vec3_plus_def Let_def
      algebra_simps)

lemma Vec3_minus_plus [simp]: "Vec3_minus (Vec3_plus v w) w = v" "Vec3_plus (Vec3_minus v w) w = v"
  by (rule Vec3_eqI; simp add: Vec3_ops)+

lemma rotateVector_cong: "(\<forall>v. rotateVector a v = rotateVector b v) \<longleftrightarrow> a = b"
proof
  assume *: "\<forall>v. rotateVector a v = rotateVector b v"
  show "a = b"
    using * [rule_format, of "Vec3 1 0 0"] * [rule_format, of "Vec3 0 1 0"] * [rule_format, of "Vec3 0 0 1"]
    by (intro Matrix_eqI Vec3_eqI) (simp_all add: Matrix_ops)
qed simp

text \<open>
  Both directions multiply with the same matrix, where one of them needs the transposed one: going to the earth-centred frame
  and back is turning twice.
\<close>

lemma ned_roundtrip: "ecefToNedPos (nedToEcefPos ned m ref) m ref = rotateVector (mat_mult m m) ned"
  by (simp add: ned_as_rotation rotateVector_mult)

lemma ned_roundtrip_iff: "(\<forall>ned. ecefToNedPos (nedToEcefPos ned m ref) m ref = ned) \<longleftrightarrow> mat_mult m m = mat_one"
  using rotateVector_cong [of "mat_mult m m" mat_one] by (simp add: ned_roundtrip)

section \<open>The inertial frame\<close>

definition ecefToEciDcm :: "real \<Rightarrow> Matrix" where
  "ecefToEciDcm t =
     (let w = OMEGA_EARTH * t
      in Matrix (Vec3 (cos w) (- sin w) 0) (Vec3 (sin w) (cos w) 0) (Vec3 0 0 1))"

text \<open>
  The arguments are copies, and of the references that are both argument and result the operators called on them allow it
  (\<open>Vec3_add_into\<close>, \<open>Vec3_subtract_into\<close>). Both functions call \<open>rotateTransposeVector\<close> on a matrix built for \<open>rotateVector\<close>.
\<close>

definition ecefStatesToEci :: "real \<Rightarrow> Vec3 \<Rightarrow> Vec3 \<Rightarrow> Vec3 \<times> Vec3" where
  "ecefStatesToEci t pos vel =
     (let omegaEarthVector = Vec3 0 0 OMEGA_EARTH; w = OMEGA_EARTH * t;
          rotateEcefToEci = Matrix (Vec3 (cos w) (- sin w) 0) (Vec3 (sin w) (cos w) 0) (Vec3 0 0 1);
          positionEci = rotateTransposeVector rotateEcefToEci pos;
          velocityEci = rotateTransposeVector rotateEcefToEci vel;
          omegaCrossPositionEci = Vec3_cross omegaEarthVector positionEci
      in (positionEci, Vec3_plus velocityEci omegaCrossPositionEci))"

definition eciStatesToEcef :: "real \<Rightarrow> Vec3 \<Rightarrow> Vec3 \<Rightarrow> Vec3 \<times> Vec3" where
  "eciStatesToEcef t pos vel =
     (let omegaEarthVector = Vec3 0 0 OMEGA_EARTH; w = OMEGA_EARTH * t;
          rotateEciToEcef = Matrix (Vec3 (cos w) (sin w) 0) (Vec3 (- sin w) (cos w) 0) (Vec3 0 0 1);
          positionEcef = rotateTransposeVector rotateEciToEcef pos;
          omegaCrossPositionEci = Vec3_cross omegaEarthVector pos;
          relative = Vec3_minus vel omegaCrossPositionEci
      in (positionEcef, rotateTransposeVector rotateEciToEcef relative))"

lemma eci_rotation: "rotation (ecefToEciDcm t)"
  using sin_cos_1 [of "OMEGA_EARTH * t"]
  by unfold_locales (simp_all add: ecefToEciDcm_def Let_def mat_transpose_def Matrix_ops algebra_simps)

interpretation eci: rotation "ecefToEciDcm t" for t
  by (rule eci_rotation)

lemma eci_states:
  "ecefStatesToEci t pos vel =
     (rotateTransposeVector (ecefToEciDcm t) pos,
      Vec3_plus (rotateTransposeVector (ecefToEciDcm t) vel)
        (Vec3_cross (Vec3 0 0 OMEGA_EARTH) (rotateTransposeVector (ecefToEciDcm t) pos)))"
  by (simp add: ecefStatesToEci_def ecefToEciDcm_def Let_def)

lemma ecef_states:
  "eciStatesToEcef t pos vel =
     (rotateVector (ecefToEciDcm t) pos,
      rotateVector (ecefToEciDcm t) (Vec3_minus vel (Vec3_cross (Vec3 0 0 OMEGA_EARTH) pos)))"
  by (simp add: eciStatesToEcef_def ecefToEciDcm_def rotateTransposeVector_transpose mat_transpose_def Let_def)

lemma eci_then_ecef: "case ecefStatesToEci t pos vel of (p, v) \<Rightarrow> eciStatesToEcef t p v = (pos, vel)"
  by (simp add: eci_states ecef_states)

lemma ecef_then_eci: "case eciStatesToEcef t pos vel of (p, v) \<Rightarrow> ecefStatesToEci t p v = (pos, vel)"
  by (simp add: eci_states ecef_states)

text \<open>
  A point that stands still on the earth moves in the inertial frame against the turn of the earth, while the velocity given for
  it goes with the turn.
\<close>

lemma fixed_point_velocity:
  defines "P \<equiv> \<lambda>t pos. fst (ecefStatesToEci t pos (Vec3 0 0 0))" and "V \<equiv> \<lambda>t pos. snd (ecefStatesToEci t pos (Vec3 0 0 0))"
  shows "((\<lambda>t. mX (P t pos)) has_real_derivative - mX (V t pos)) (at t)"
    "((\<lambda>t. mY (P t pos)) has_real_derivative - mY (V t pos)) (at t)"
  unfolding P_def V_def eci_states ecefToEciDcm_def Let_def Matrix_ops Vec3_ops
  by (auto intro!: derivative_eq_intros simp: algebra_simps)

text \<open>\<open>Eci::getEciGravity\<close>, of the position it is called on, the latitude and the longitude, and the time.\<close>

definition gravity_north :: "Vec3 \<Rightarrow> Vec3 \<Rightarrow> real" where
  "gravity_north pos lla =
     (let r2 = Vec3_dot pos pos; temporary = GRAV_CONST * EARTH_MASS / r2; eta = EQUATOR_RADIUS * EQUATOR_RADIUS / r2
      in - 3 * temporary * eta * RJ2 * sin (getLatitude lla) * cos (getLatitude lla))"

definition gravity_down :: "Vec3 \<Rightarrow> Vec3 \<Rightarrow> real" where
  "gravity_down pos lla =
     (let r2 = Vec3_dot pos pos; temporary = GRAV_CONST * EARTH_MASS / r2; eta = EQUATOR_RADIUS * EQUATOR_RADIUS / r2
      in temporary * (1 + 3 * RJ2 * eta * 0.5 * (1 - 3 * sin (getLatitude lla) * sin (getLatitude lla))))"

definition getEciGravity :: "Vec3 \<Rightarrow> Vec3 \<Rightarrow> real \<Rightarrow> Vec3" where
  "getEciGravity pos lla t =
     (let cosLatitude = cos (getLatitude lla); sinLatitude = sin (getLatitude lla);
          cosLongitude = cos (getLongitude lla + OMEGA_EARTH * t); sinLongitude = sin (getLongitude lla + OMEGA_EARTH * t);
          ggcn = gravity_north pos lla; ggcd = gravity_down pos lla
      in Vec3 (ggcn * cosLatitude - ggcd * sinLatitude)
              (- ggcn * sinLongitude * sinLatitude - ggcd * sinLongitude * cosLatitude)
              (ggcn * cosLongitude * sinLatitude + ggcd * cosLongitude * cosLatitude))"

lemma gravity_magnitude:
  "Vec3_dot (getEciGravity pos lla t) (getEciGravity pos lla t) = (gravity_north pos lla)\<^sup>2 + (gravity_down pos lla)\<^sup>2"
  using sin_cos_1 [of "getLatitude lla"] sin_cos_1 [of "getLongitude lla + OMEGA_EARTH * t"]
  unfolding getEciGravity_def Let_def Vec3_dot_def Vec3_sel by algebra

text \<open>Over the north pole gravity points along the first axis, although the earth turns about the third.\<close>

lemma gravity_at_the_pole: "getEciGravity pos (Vec3 (pi / 2) lon alt) t = Vec3 (- gravity_down pos (Vec3 (pi / 2) lon alt)) 0 0"
  by (simp add: getEciGravity_def gravity_north_def Let_def)

section \<open>Degrees, minutes, seconds\<close>

text \<open>The degrees and the minutes are taken with \<open>abs\<close>, which for a double is the absolute value and not the whole part.\<close>

definition radiansToDms :: "real \<Rightarrow> Vec3" where
  "radiansToDms r =
     (let inputDegreesMag = \<bar>r * 180 / pi\<bar>; degrees = \<bar>inputDegreesMag\<bar>;
          minutes = \<bar>60 * (inputDegreesMag - degrees)\<bar>;
          seconds = 3600 * (inputDegreesMag - degrees - minutes / 60)
      in Vec3 (if r < EPSILON then - 1 * degrees else degrees) minutes seconds)"

lemma radiansToDms_whole: "mY (radiansToDms r) = 0" "mZ (radiansToDms r) = 0" "\<bar>mX (radiansToDms r)\<bar> = \<bar>r\<bar> * 180 / pi"
  by (simp_all add: radiansToDms_def Let_def abs_mult)

section \<open>Latitude, longitude, altitude\<close>

definition llaToEcef :: "Vec3 \<Rightarrow> Vec3" where
  "llaToEcef lla =
     (let sinLatitude = sin (getLatitude lla); cosLatitude = cos (getLatitude lla);
          denCurvature = sqrt (1 - FIRST_ECCENTRICITY_2 * sinLatitude * sinLatitude)
      in if denCurvature > EPSILON
         then let radiusOfCurvature = EQUATOR_RADIUS / denCurvature;
                  temp = (radiusOfCurvature + getAltitude lla) * cosLatitude
              in Vec3 (temp * cos (getLongitude lla)) (temp * sin (getLongitude lla))
                   (((POLAR_RADIUS_2 / EQUATOR_RADIUS_2) * radiusOfCurvature + getAltitude lla) * sinLatitude)
         else Vec3 0 0 0)"

definition ecefToLla :: "Vec3 \<Rightarrow> Vec3" where
  "ecefToLla e =
     (let p = sqrt (mX e * mX e + mY e * mY e);
          theta = atan2 (mZ e * EQUATOR_RADIUS) (p * POLAR_RADIUS);
          sinThetaCube = sin theta * sin theta * sin theta;
          cosThetaCube = cos theta * cos theta * cos theta;
          longitude = atan2 (mY e) (mX e);
          latitude = atan2 (mZ e + SECOND_ECCENTRICITY_2 * POLAR_RADIUS * sinThetaCube)
                           (p - FIRST_ECCENTRICITY_2 * EQUATOR_RADIUS * cosThetaCube);
          denCurvature = sqrt (1 - FIRST_ECCENTRICITY_2 * sin latitude * sin latitude);
          radiusOfCurvature = EQUATOR_RADIUS / denCurvature
      in Vec3 latitude longitude (p / cos latitude - radiusOfCurvature))"

subsection \<open>The ellipsoid\<close>

lemma earth_radii: "0 < POLAR_RADIUS" "POLAR_RADIUS < EQUATOR_RADIUS" "0 < EQUATOR_RADIUS"
  by (simp_all add: POLAR_RADIUS_def EQUATOR_RADIUS_def ELLIPSOID_FLATTENING_def)

lemma eccentricities:
  "FIRST_ECCENTRICITY_2 = (EQUATOR_RADIUS\<^sup>2 - POLAR_RADIUS\<^sup>2) / EQUATOR_RADIUS\<^sup>2"
  "SECOND_ECCENTRICITY_2 = (EQUATOR_RADIUS\<^sup>2 - POLAR_RADIUS\<^sup>2) / POLAR_RADIUS\<^sup>2"
  using earth_radii power_mono [of POLAR_RADIUS EQUATOR_RADIUS 2]
  by (simp_all add: FIRST_ECCENTRICITY_2_def SECOND_ECCENTRICITY_2_def FIRST_ECCENTRICITY_def SECOND_ECCENTRICITY_def
      EQUATOR_RADIUS_2_def POLAR_RADIUS_2_def power2_eq_square)

text \<open>
  On an ellipsoid with the radii \<open>a\<close> and \<open>b\<close>, a point at geodetic latitude \<open>phi\<close> has a parametric latitude \<open>theta\<close>, from which one
  step of Bowring's method gives \<open>phi\<close> exactly.
\<close>

definition curvature :: "real \<Rightarrow> real \<Rightarrow> real \<Rightarrow> real" where
  "curvature a b phi = sqrt (1 - (a\<^sup>2 - b\<^sup>2) / a\<^sup>2 * sin phi * sin phi)"

lemma curvature_lower:
  assumes "0 < b" "b < a"
  shows "b / a \<le> curvature a b phi" "curvature a b phi * curvature a b phi = 1 - (a\<^sup>2 - b\<^sup>2) / a\<^sup>2 * sin phi * sin phi"
proof -
  have ab: "0 \<le> (a\<^sup>2 - b\<^sup>2) / a\<^sup>2" using assms power_mono [of b a 2] by simp
  have "sin phi * sin phi \<le> 1" using sin_cos_1 [of phi] zero_le_square [of "cos phi"] by linarith
  then have "(a\<^sup>2 - b\<^sup>2) / a\<^sup>2 * (sin phi * sin phi) \<le> (a\<^sup>2 - b\<^sup>2) / a\<^sup>2 * 1"
    by (rule mult_left_mono [OF _ ab])
  moreover have "(b / a)\<^sup>2 = 1 - (a\<^sup>2 - b\<^sup>2) / a\<^sup>2" using assms by (simp add: field_simps)
  ultimately have *: "(b / a)\<^sup>2 \<le> 1 - (a\<^sup>2 - b\<^sup>2) / a\<^sup>2 * sin phi * sin phi" by simp
  then show "b / a \<le> curvature a b phi" unfolding curvature_def by (rule real_le_rsqrt)
  have "0 \<le> 1 - (a\<^sup>2 - b\<^sup>2) / a\<^sup>2 * sin phi * sin phi" using * zero_le_power2 order_trans by blast
  then show "curvature a b phi * curvature a b phi = 1 - (a\<^sup>2 - b\<^sup>2) / a\<^sup>2 * sin phi * sin phi"
    unfolding curvature_def by simp
qed

lemma bowring:
  assumes ab: "0 < b" "b < a" and phi: "\<bar>phi\<bar> < pi / 2"
    and p: "p = a / curvature a b phi * cos phi" and z: "z = b\<^sup>2 / a\<^sup>2 * (a / curvature a b phi) * sin phi"
  obtains theta k where "\<bar>theta\<bar> < pi / 2" "z * a = a * b * sin theta" "p * b = a * b * cos theta" "0 < k"
    "z + (a\<^sup>2 - b\<^sup>2) / b\<^sup>2 * b * (sin theta * sin theta * sin theta) = k * sin phi"
    "p - (a\<^sup>2 - b\<^sup>2) / a\<^sup>2 * a * (cos theta * cos theta * cos theta) = k * cos phi"
proof -
  define W where "W = curvature a b phi"
  have W: "0 < W" "W * W = 1 - (a\<^sup>2 - b\<^sup>2) / a\<^sup>2 * sin phi * sin phi"
    using curvature_lower [OF ab] ab by (auto simp: W_def intro: less_le_trans [of 0 "b / a"])
  have c: "0 < cos phi" using phi by (intro cos_gt_zero_pi) auto
  define s where "s = b / a * sin phi / W"
  have W2: "W * W * a\<^sup>2 = a\<^sup>2 - (a\<^sup>2 - b\<^sup>2) * (sin phi * sin phi)"
    using ab by (simp add: W(2) field_simps)
  have sc: "s * s + (cos phi / W) * (cos phi / W) = 1"
  proof -
    have "b\<^sup>2 * (sin phi * sin phi) + a\<^sup>2 * (cos phi * cos phi) = W * W * a\<^sup>2"
      using W2 sin_cos_1 [of phi] by algebra
    then show ?thesis using ab W(1) by (simp add: s_def field_simps power2_eq_square)
  qed
  have "s\<^sup>2 < 1" using sc c W(1) by (simp add: power2_eq_square) (metis add_less_same_cancel1 divide_pos_pos mult_pos_pos
      not_less_iff_gr_or_eq add.commute less_add_same_cancel1)
  then have s1: "-1 < s" "s < 1" by (simp_all add: abs_square_less_1 abs_less_iff minus_less_iff)
  define theta where "theta = arcsin s"
  have st: "sin theta = s" using s1 by (simp add: theta_def)
  have th: "\<bar>theta\<bar> < pi / 2" using arcsin_lt_bounded [OF s1] unfolding theta_def by linarith
  have ct: "cos theta = cos phi / W"
  proof -
    have "cos theta * cos theta = (cos phi / W) * (cos phi / W)"
      using sin_cos_1 [of theta] sc by (simp add: st)
    moreover have "0 < cos theta" using th by (intro cos_gt_zero_pi) auto
    ultimately show ?thesis using c W(1) by (simp add: power2_eq_iff_nonneg flip: power2_eq_square)
  qed
  define k where "k = (b\<^sup>2 + (a\<^sup>2 - b\<^sup>2) * (s * s)) / (a * W)"
  show thesis
  proof (rule that)
    show "z * a = a * b * sin theta" "p * b = a * b * cos theta"
      using ab W(1) by (simp_all add: p z st ct s_def field_simps power2_eq_square flip: W_def)
    have "0 \<le> a\<^sup>2 - b\<^sup>2" using ab power_mono [of b a 2] by simp
    then have "0 < b\<^sup>2 + (a\<^sup>2 - b\<^sup>2) * (s * s)" using ab(1) by (intro add_pos_nonneg) simp_all
    then show "0 < k" using ab W(1) by (simp add: k_def)
    have sp: "sin phi = s * a * W / b" and cp: "cos phi = cos theta * W"
      using ab W(1) by (simp_all add: s_def ct)
    have zs: "z = b * s" and pc: "p = a * cos theta"
      using ab W(1) by (simp_all add: p z s_def ct field_simps power2_eq_square flip: W_def)
    show "z + (a\<^sup>2 - b\<^sup>2) / b\<^sup>2 * b * (sin theta * sin theta * sin theta) = k * sin phi"
      using ab W(1) by (simp add: zs st k_def sp field_simps power2_eq_square)
    have "a\<^sup>2 - (a\<^sup>2 - b\<^sup>2) * (cos theta * cos theta) = b\<^sup>2 + (a\<^sup>2 - b\<^sup>2) * (s * s)"
      using sin_cos_1 [of theta] unfolding st by algebra
    then have "cos theta * (a\<^sup>2 - (a\<^sup>2 - b\<^sup>2) * (cos theta * cos theta)) / a = k * cos phi"
      using ab W(1) by (simp add: k_def cp)
    then show "p - (a\<^sup>2 - b\<^sup>2) / a\<^sup>2 * a * (cos theta * cos theta * cos theta) = k * cos phi"
      using ab by (simp add: pc field_simps power2_eq_square) algebra
  qed (rule th)
qed

lemma llaToEcef_surface:
  assumes "getAltitude lla = 0"
  shows "llaToEcef lla =
    (let N = EQUATOR_RADIUS / curvature EQUATOR_RADIUS POLAR_RADIUS (getLatitude lla)
     in Vec3 (N * cos (getLatitude lla) * cos (getLongitude lla)) (N * cos (getLatitude lla) * sin (getLongitude lla))
          (POLAR_RADIUS\<^sup>2 / EQUATOR_RADIUS\<^sup>2 * N * sin (getLatitude lla)))"
proof -
  have "EPSILON < POLAR_RADIUS / EQUATOR_RADIUS"
    by (simp add: EPSILON_def POLAR_RADIUS_def EQUATOR_RADIUS_def ELLIPSOID_FLATTENING_def)
  also have "\<dots> \<le> curvature EQUATOR_RADIUS POLAR_RADIUS (getLatitude lla)"
    using curvature_lower(1) earth_radii by blast
  finally show ?thesis
    using assms unfolding llaToEcef_def Let_def eccentricities
    by (simp add: curvature_def POLAR_RADIUS_2_def EQUATOR_RADIUS_2_def power2_eq_square)
qed

text \<open>
  C18.
  Geodetic coordinates are exact on the ground: for a point of the ellipsoid with latitude inside a quarter turn and longitude up to half a
  turn, \<open>ecefToLla\<close>, which approximates the latitude without iteration, gives back the coordinates \<open>llaToEcef\<close> was given.\<close>

theorem lla_roundtrip:
  assumes lat: "\<bar>getLatitude lla\<bar> < pi / 2" and lon: "- pi < getLongitude lla" "getLongitude lla \<le> pi"
    and alt: "getAltitude lla = 0"
  shows "ecefToLla (llaToEcef lla) = lla"
proof -
  define a b phi W where "a = EQUATOR_RADIUS" and "b = POLAR_RADIUS" and "phi = getLatitude lla" and "W = curvature a b phi"
  define p z where "p = a / W * cos phi" and "z = b\<^sup>2 / a\<^sup>2 * (a / W) * sin phi"
  have ab: "0 < b" "b < a" using earth_radii by (simp_all add: a_def b_def)
  have W: "0 < W" using curvature_lower(1) [OF ab] ab by (auto simp: W_def intro: less_le_trans [of 0 "b / a"])
  have c: "0 < cos phi" using lat by (intro cos_gt_zero_pi) (auto simp: phi_def)
  obtain theta k where th: "\<bar>theta\<bar> < pi / 2" and k: "0 < k"
    and t: "z * a = a * b * sin theta" "p * b = a * b * cos theta"
    and l: "z + (a\<^sup>2 - b\<^sup>2) / b\<^sup>2 * b * (sin theta * sin theta * sin theta) = k * sin phi"
      "p - (a\<^sup>2 - b\<^sup>2) / a\<^sup>2 * a * (cos theta * cos theta * cos theta) = k * cos phi"
    using bowring [of b a phi p z] ab lat by (metis W_def p_def z_def phi_def)
  have pp: "0 < p" using ab W c by (simp add: p_def)
  have e: "llaToEcef lla = Vec3 (p * cos (getLongitude lla)) (p * sin (getLongitude lla)) z"
    using llaToEcef_surface [OF alt] by (simp add: p_def z_def W_def a_def b_def phi_def Let_def)
  have r: "sqrt (p * cos (getLongitude lla) * (p * cos (getLongitude lla)) + p * sin (getLongitude lla) * (p * sin (getLongitude lla))) = p"
  proof -
    have "p * cos (getLongitude lla) * (p * cos (getLongitude lla)) + p * sin (getLongitude lla) * (p * sin (getLongitude lla)) = p * p"
      using sin_cos_1 [of "getLongitude lla"] by algebra
    then show ?thesis using pp by simp
  qed
  have theta: "atan2 (z * a) (p * b) = theta"
    unfolding t using atan2_polar [of "a * b" theta] ab th by (simp add: abs_less_iff)
  have phi: "atan2 (k * sin phi) (k * cos phi) = phi"
    using atan2_polar [OF k, of phi] lat by (simp add: phi_def abs_less_iff)
  have "ecefToLla (llaToEcef lla) = Vec3 phi (getLongitude lla) (p / cos phi - a / W)"
    unfolding e ecefToLla_def Let_def Vec3_sel r eccentricities a_def [symmetric] b_def [symmetric] theta l phi
      atan2_polar [OF pp lon] W_def curvature_def ..
  also have "p / cos phi - a / W = 0" using c by (simp add: p_def)
  finally show ?thesis using alt by (simp add: phi_def Vec3_def)
qed

theorem lla_roundtrip_witness: "ecefToLla (llaToEcef (Vec3 (- pi / 3) (pi / 2) 0)) = Vec3 (- pi / 3) (pi / 2) 0"
  using pi_gt_zero by (intro lla_roundtrip) simp_all

end
