(* ===== verification/AirDefence.thy ===== *)
theory AirDefence
  imports Conversions "HOL-Library.Monad_Syntax"
begin

text \<open>
  The air defence models of \<open>src/Models\<close>: the target (\<open>Target/TargetModel.cpp\<close>), the surveillance radar (\<open>SurvRadar/Sr.cpp\<close>), the
  operations centre (\<open>TOC/Toc.cpp\<close>), the track radar (\<open>TrkRadar/TrkRadar.cpp\<close>), the launcher (\<open>Launcher/Launcher.cpp\<close>) and the
  missile (\<open>Missile/Missile.cpp\<close>), with the messages of \<open>Messages/\<close> they exchange.

  The base class \<open>SamsonModel\<close> is not part of the repository: what the models read of it (the unit id, the time, the rate) is in
  the record \<open>model\<close>, and what they ask of it (to publish a message, to register for and to send the end of the engagement,
  to archive the state) is appended to \<open>mdl_out\<close> in the order of the calls. An array access outside the array is \<open>None\<close>; a
  handler otherwise returns its status and the new state. Doubles are real numbers.
\<close>

section \<open>Messages and the base class\<close>

datatype msg =
  TruthTargetStates real Vec3 Vec3 u32
| SrMeasuredTargetStates real Vec3 u32
| TrkRadarOnCmd real bool u32
| TrkRadarMeasuredTargetStates real Vec3 u32
| LaunchRequest real u32
| LaunchCmd real u32
| TrkRadarUplink real Vec3 u32
| MissileDownlink real Vec3 Vec3 u32
| MissileInitializePos real Vec3 Vec3 u32
| TargetDestroyed real bool u32

text \<open>A message is published for all units or for one.\<close>

datatype base_call = Publish "u32 option" msg | ToDB string | RegisterEndEngage | EndEngage

record model =
  mdl_unit :: u32
  mdl_time :: real
  mdl_rate :: real
  mdl_frequency :: real
  mdl_save :: bool
  mdl_send_count :: u32
  mdl_out :: "base_call list"

definition base_do :: "base_call \<Rightarrow> 'a model_scheme \<Rightarrow> 'a model_scheme" where
  "base_do c m = m\<lparr>mdl_out := mdl_out m @ [c]\<rparr>"

text \<open>\<open>publish (currFrame, send_count++, unit)\<close>\<close>

definition publish :: "u32 option \<Rightarrow> msg \<Rightarrow> 'a model_scheme \<Rightarrow> 'a model_scheme" where
  "publish u x m = base_do (Publish u x) (m\<lparr>mdl_send_count := mdl_send_count m + 1\<rparr>)"

definition archive :: "string \<Rightarrow> 'a model_scheme \<Rightarrow> 'a model_scheme" where
  "archive name m = (if mdl_save m then base_do (ToDB name) m else m)"

text \<open>The arrays have three elements, one per unit, indexed with the unit id less one as an \<open>int\<close>.\<close>

definition unit_index :: "u32 \<Rightarrow> int" where
  "unit_index u = sint u - 1"

definition array_get :: "'a list \<Rightarrow> int \<Rightarrow> 'a option" where
  "array_get xs i = (if 0 \<le> i \<and> nat i < length xs then Some (xs ! nat i) else None)"

definition array_set :: "'a list \<Rightarrow> int \<Rightarrow> 'a \<Rightarrow> 'a list option" where
  "array_set xs i v = (if 0 \<le> i \<and> nat i < length xs then Some (xs[nat i := v]) else None)"

definition RAD_TO_DEG :: real where "RAD_TO_DEG = 180 / pi"
definition M_TO_KM :: real where "M_TO_KM = 1 / 1000"
definition KM_TO_M :: real where "KM_TO_M = 1000"

section \<open>The target\<close>

record target_model = model +
  tg_position :: Vec3
  tg_attitude :: Vec3
  tg_engagementTime :: real
  tg_stepSize :: real
  tg_xRange :: real
  tg_xAxis :: real
  tg_yAxis :: real
  tg_zAxis :: real
  tg_roll :: real
  tg_pitch :: real
  tg_yaw :: real
  tg_alpha :: real
  tg_alphaZ :: real
  tg_alphaZA :: real
  tg_xInitialCondition :: real
  tg_xAxisPrev :: real
  tg_yAxisPrev :: real
  tg_zAxisPrev :: real
  tg_destroyed :: bool

text \<open>
  \<open>ISEXMLWrapper_searchNodesAndFill\<close>, which is not part of the repository, reads each parameter from a configuration or takes the
  default: it is the argument \<open>cfg\<close>. Neither \<open>zAxis\<close> nor \<open>destroyed\<close> is set at the start of a case.
\<close>

definition TargetModel_InitCase :: "(string \<Rightarrow> real \<Rightarrow> real) \<Rightarrow> target_model \<Rightarrow> target_model" where
  "TargetModel_InitCase cfg m =
     (let m1 = m\<lparr>tg_xInitialCondition := cfg ''xInitCond'' 40000, tg_xRange := cfg ''xRange'' (40000 - 13333.33),
                 tg_stepSize := cfg ''stepSize'' 1999, tg_yAxis := cfg ''yAxis'' 0, tg_pitch := cfg ''pitch'' 116.5,
                 tg_xAxisPrev := cfg ''xAxisPrev'' 0, tg_yAxisPrev := cfg ''yAxisPrev'' 0, tg_zAxisPrev := cfg ''zAxisPrev'' 0,
                 tg_alphaZ := cfg ''alphaZ'' 1, tg_alphaZA := cfg ''alphaZA'' 0,
                 tg_engagementTime := cfg ''engagementTime'' 200, tg_roll := cfg ''roll'' 0, tg_yaw := cfg ''yaw'' 0\<rparr>;
          m2 = m1\<lparr>tg_position := Vec3 (tg_xAxisPrev m1) (tg_yAxisPrev m1) (tg_zAxisPrev m1)\<rparr>;
          m3 = m2\<lparr>tg_pitch := 0\<rparr>;
          m4 = m3\<lparr>tg_attitude := EulerAngles (tg_roll m3) (tg_pitch m3) (tg_yaw m3)\<rparr>;
          m5 = m4\<lparr>tg_alpha := tg_xRange m4 / tg_stepSize m4\<rparr>;
          m6 = m5\<lparr>tg_xAxis := tg_xInitialCondition m5, tg_yAxis := tg_yAxisPrev m5\<rparr>
      in base_do RegisterEndEngage m6)"

definition TargetModel_fly :: "target_model \<Rightarrow> target_model" where
  "TargetModel_fly m =
     (let m1 = m\<lparr>tg_xAxisPrev := tg_xAxis m, tg_yAxisPrev := tg_yAxis m, tg_zAxisPrev := tg_zAxis m\<rparr>;
          m2 = m1\<lparr>tg_xAxis := tg_xAxisPrev m1 - tg_alpha m1\<rparr>;
          m3 = m2\<lparr>tg_zAxis := tg_alphaZ m2 * (0.00005 * (tg_xAxis m2 * tg_xAxis m2) - 2 * tg_xAxis m2) + tg_alphaZA m2,
                  tg_yAxis := tg_yAxisPrev m2, tg_roll := 0\<rparr>;
          m4 = m3\<lparr>tg_pitch := atan2 (- (tg_zAxis m3 - tg_zAxisPrev m3)) (tg_xAxis m3 - tg_xAxisPrev m3) * RAD_TO_DEG,
                  tg_yaw := 0\<rparr>;
          m5 = m4\<lparr>tg_position := Vec3 (tg_xAxis m4) (tg_yAxis m4) (tg_zAxis m4),
                  tg_attitude := EulerAngles (tg_roll m4) (tg_pitch m4) (tg_yaw m4)\<rparr>
      in publish None (TruthTargetStates (mdl_time m5) (tg_position m5) (tg_attitude m5) (mdl_unit m5)) m5)"

definition TargetModel_Step :: "target_model \<Rightarrow> target_model" where
  "TargetModel_Step m =
     (let m1 = archive ''TargetModel'' m
      in if mdl_time m1 < tg_engagementTime m1
         then (if \<not> tg_destroyed m1 then TargetModel_fly m1 else m1)
         else base_do EndEngage m1)"

definition doTargetDestroyed :: "target_model \<Rightarrow> int \<times> target_model" where
  "doTargetDestroyed m = (1, m\<lparr>tg_destroyed := True\<rparr>)"

section \<open>The surveillance radar\<close>

record sr_model = model +
  sr_blindZone :: real

definition Sr_InitCase :: "sr_model \<Rightarrow> sr_model" where
  "Sr_InitCase m = m\<lparr>sr_blindZone := 30000\<rparr>"

definition ground_range :: "Vec3 \<Rightarrow> real" where
  "ground_range p = sqrt (mX p * mX p + mY p * mY p)"

definition Sr_processTargetInput :: "Vec3 \<Rightarrow> u32 \<Rightarrow> sr_model \<Rightarrow> int \<times> sr_model" where
  "Sr_processTargetInput position unitID m =
     (1, if ground_range position \<le> sr_blindZone m
         then publish (Some unitID) (SrMeasuredTargetStates (mdl_time m) position unitID) m else m)"

section \<open>The operations centre\<close>

record toc_model = model +
  tocState :: u32
  mfcrRange :: real
  mfcrOnTime :: real
  mfcrOn :: "bool list"
  toc_launch :: "bool list"
  tgtdest :: "bool list"
  launchRange :: real

definition TOC_InitCase :: "toc_model \<Rightarrow> toc_model" where
  "TOC_InitCase m = m\<lparr>tocState := 0, mfcrRange := 25000, mfcrOnTime := -999,
     mfcrOn := replicate 3 False, toc_launch := replicate 3 False, tgtdest := replicate 3 False, launchRange := 17340\<rparr>"

definition processSrInput :: "Vec3 \<Rightarrow> u32 \<Rightarrow> toc_model \<Rightarrow> (int \<times> toc_model) option" where
  "processSrInput position tgtUnitID m =
     (let ndx = unit_index tgtUnitID; m1 = m\<lparr>tocState := or (tocState m) 1\<rparr>
      in if ground_range position \<le> mfcrRange m1
         then do {
           on \<leftarrow> array_get (mfcrOn m1) ndx;
           if \<not> on then do {
             a \<leftarrow> array_set (mfcrOn m1) ndx True;
             Some (1, publish None (TrkRadarOnCmd (mdl_time m1) True tgtUnitID) (m1\<lparr>mfcrOnTime := 0, mfcrOn := a\<rparr>))
           } else Some (1, m1)
         }
         else Some (1, m1))"

definition toc_try_launch :: "real \<Rightarrow> u32 \<Rightarrow> toc_model \<Rightarrow> toc_model option" where
  "toc_try_launch rng tgtUnitID m =
     (if rng \<le> launchRange m
      then do {
        launched \<leftarrow> array_get (toc_launch m) (unit_index tgtUnitID);
        if \<not> launched then do {
          a \<leftarrow> array_set (toc_launch m) (unit_index tgtUnitID) True;
          Some (publish (Some tgtUnitID) (LaunchRequest (mdl_time m + mdl_rate m) tgtUnitID) (m\<lparr>toc_launch := a\<rparr>))
        } else Some m
      }
      else Some m)"

definition toc_try_destroy :: "real \<Rightarrow> u32 \<Rightarrow> toc_model \<Rightarrow> toc_model option" where
  "toc_try_destroy positionX tgtUnitID m =
     (if positionX \<le> 13346.67
      then do {
        launched \<leftarrow> array_get (toc_launch m) (unit_index tgtUnitID);
        if launched then do {
          dest \<leftarrow> array_get (tgtdest m) (unit_index tgtUnitID);
          if \<not> dest then do {
            a \<leftarrow> array_set (tgtdest m) (unit_index tgtUnitID) True;
            Some (publish (Some tgtUnitID) (TargetDestroyed (mdl_time m) True tgtUnitID) (m\<lparr>tgtdest := a\<rparr>))
          } else Some m
        } else Some m
      }
      else Some m)"

definition processTrkRadarInputToc :: "Vec3 \<Rightarrow> u32 \<Rightarrow> toc_model \<Rightarrow> (int \<times> toc_model) option" where
  "processTrkRadarInputToc position tgtUnitID m = do {
     m1 \<leftarrow> toc_try_launch (mX position) tgtUnitID (m\<lparr>tocState := or (tocState m) 2\<rparr>);
     m2 \<leftarrow> toc_try_destroy (mX position) tgtUnitID m1;
     Some (1, m2)
   }"

section \<open>The track radar\<close>

record trk_model = model +
  trk_launchMissile :: "bool list"
  trkRadarOn :: "bool list"
  timeStampRadarOn :: "real list"
  trk_missilePosition :: "Vec3 list"

definition TrkRadar_InitCase :: "trk_model \<Rightarrow> trk_model" where
  "TrkRadar_InitCase m = m\<lparr>trk_launchMissile := replicate 3 False, trkRadarOn := replicate 3 False\<rparr>"

definition bad_index :: "int \<Rightarrow> bool" where
  "bad_index ndx \<longleftrightarrow> ndx < 0 \<or> ndx > 2"

definition processTrkRadarOn :: "bool \<Rightarrow> u32 \<Rightarrow> trk_model \<Rightarrow> (int \<times> trk_model) option" where
  "processTrkRadarOn on unitID m =
     (let ndx = unit_index unitID
      in if bad_index ndx then Some (0, m)
         else do {
           a \<leftarrow> array_set (trkRadarOn m) ndx on;
           b \<leftarrow> array_set (timeStampRadarOn m) ndx (mdl_time m);
           Some (1, m\<lparr>trkRadarOn := a, timeStampRadarOn := b\<rparr>)
         })"

definition doTrackTarget :: "Vec3 \<Rightarrow> u32 \<Rightarrow> trk_model \<Rightarrow> (int \<times> trk_model) option" where
  "doTrackTarget position tgtUnitID m =
     (let ndx = unit_index tgtUnitID
      in if bad_index ndx then Some (1, m)
         else do {
           on \<leftarrow> array_get (trkRadarOn m) ndx;
           stamp \<leftarrow> array_get (timeStampRadarOn m) ndx;
           let m1 = (if on \<and> stamp \<noteq> mdl_time m
                     then publish (Some tgtUnitID) (TrkRadarMeasuredTargetStates (mdl_time m) position tgtUnitID) m else m);
           launched \<leftarrow> array_get (trk_launchMissile m1) ndx;
           Some (1, if launched then publish (Some tgtUnitID) (TrkRadarUplink (mdl_time m1) position tgtUnitID) m1 else m1)
         })"

definition missileAway :: "u32 \<Rightarrow> trk_model \<Rightarrow> (int \<times> trk_model) option" where
  "missileAway unitID m =
     (let ndx = unit_index unitID
      in if bad_index ndx then Some (1, m)
         else do { a \<leftarrow> array_set (trk_launchMissile m) ndx True; Some (1, m\<lparr>trk_launchMissile := a\<rparr>) })"

definition processDownlink :: "Vec3 \<Rightarrow> u32 \<Rightarrow> trk_model \<Rightarrow> (int \<times> trk_model) option" where
  "processDownlink position unitID m =
     (let ndx = unit_index unitID
      in if bad_index ndx then Some (1, m)
         else do { a \<leftarrow> array_set (trk_missilePosition m) ndx position; Some (1, m\<lparr>trk_missilePosition := a\<rparr>) })"

section \<open>The launcher\<close>

record launcher_model = model +
  missileLaunched :: "bool list"

definition Launcher_InitCase :: "launcher_model \<Rightarrow> launcher_model" where
  "Launcher_InitCase m = m\<lparr>missileLaunched := replicate 3 False\<rparr>"

definition Launcher_launchMissile :: "real \<Rightarrow> u32 \<Rightarrow> launcher_model \<Rightarrow> (int \<times> launcher_model) option" where
  "Launcher_launchMissile launchTime mslUnitID m = do {
     launched \<leftarrow> array_get (missileLaunched m) (unit_index mslUnitID);
     if \<not> launched then do {
       a \<leftarrow> array_set (missileLaunched m) (unit_index mslUnitID) True;
       Some (1, publish (Some mslUnitID) (LaunchCmd launchTime mslUnitID) (m\<lparr>missileLaunched := a\<rparr>))
     } else Some (1, m)
   }"

section \<open>The missile\<close>

record missile_model = model +
  ms_position :: Vec3
  ms_attitude :: Vec3
  ms_launchMissile :: bool
  ms_initialTurnTime :: real
  ms_x :: real
  ms_y :: real
  ms_z :: real
  ms_xRangeInitial :: real
  ms_xRangeTurn :: real
  ms_launchTime :: real
  ms_timeSinceLaunch :: real
  ms_rollRate :: real
  ms_roll :: real
  ms_pitch :: real
  ms_deltax :: real
  ms_deltay :: real
  ms_pitchdist :: real
  ms_yaw :: real
  ms_stepSizeInitial :: int
  ms_stepSizeTurn :: int
  ms_alphaInitial :: real
  ms_alphaTurn :: real
  ms_alphaY :: real
  ms_xPrev :: real
  ms_yPrev :: real
  ms_zPrev :: real
  ms_once :: bool

definition Missile_InitCase :: "missile_model \<Rightarrow> missile_model option" where
  "Missile_InitCase m =
     (let m1 = m\<lparr>ms_initialTurnTime := 3, ms_stepSizeInitial := 30, ms_stepSizeTurn := 269, ms_xRangeInitial := 868.241\<rparr>;
          m2 = m1\<lparr>ms_xRangeTurn := 13333.33 - ms_xRangeInitial m1\<rparr>;
          m3 = m2\<lparr>ms_alphaInitial := (ms_xRangeInitial m2 / of_int (ms_stepSizeInitial m2)) * mdl_frequency m2,
                  ms_alphaTurn := (ms_xRangeTurn m2 / of_int (ms_stepSizeTurn m2)) * mdl_frequency m2,
                  ms_rollRate := 360 / 2, ms_launchMissile := False, ms_launchTime := -999,
                  ms_x := 0, ms_y := 0, ms_z := 0, ms_timeSinceLaunch := 0, ms_roll := 0, ms_pitch := 80,
                  ms_xPrev := 0, ms_yPrev := 0, ms_zPrev := 0\<rparr>
      in do { a \<leftarrow> array_get [0, 10000 / 29.9, - (15000 / 29.9)] (unit_index (mdl_unit m3)); Some (m3\<lparr>ms_alphaY := a\<rparr>) })"

text \<open>The place of the missile, straight up for the first three seconds and on a parabola afterwards.\<close>

definition missile_place :: "missile_model \<Rightarrow> missile_model" where
  "missile_place m =
     (if mdl_time m \<le> ms_launchTime m + ms_initialTurnTime m
      then let x = ms_alphaInitial m * ms_timeSinceLaunch m
           in m\<lparr>ms_x := x, ms_y := ms_alphaY m * ms_timeSinceLaunch m, ms_z := - (5.67128 * x)\<rparr>
      else let x = ms_alphaTurn m * (ms_timeSinceLaunch m - ms_initialTurnTime m) + ms_xRangeInitial m
           in m\<lparr>ms_x := x, ms_y := ms_alphaY m * ms_timeSinceLaunch m,
                ms_z := (0.082725 * (x * M_TO_KM * x * M_TO_KM) - 2.205994 * x * M_TO_KM - 3.07111) * KM_TO_M\<rparr>)"

definition missile_attitude :: "int \<Rightarrow> missile_model \<Rightarrow> missile_model option" where
  "missile_attitude ndx m =
     (let roll1 = ms_roll m + ms_rollRate m * mdl_rate m;
          m1 = m\<lparr>ms_roll := (if roll1 < 360 then roll1 else roll1 - 360),
                 ms_deltax := (ms_x m - ms_xPrev m) * (ms_x m - ms_xPrev m),
                 ms_deltay := (ms_y m - ms_yPrev m) * (ms_y m - ms_yPrev m)\<rparr>;
          m2 = m1\<lparr>ms_pitchdist := sqrt (ms_deltax m1 + ms_deltay m1)\<rparr>;
          m3 = m2\<lparr>ms_pitch := atan2 (- (ms_z m2 - ms_zPrev m2)) (ms_pitchdist m2) * RAD_TO_DEG\<rparr>
      in do {
           yaw \<leftarrow> array_get (if mdl_time m3 \<le> ms_launchTime m3 + ms_initialTurnTime m3 then [0, 48, -58.7] else [0, 35.6, -47.45]) ndx;
           Some (m3\<lparr>ms_yaw := yaw\<rparr>)
         })"

definition Missile_doStep :: "u32 \<Rightarrow> missile_model \<Rightarrow> (int \<times> missile_model) option" where
  "Missile_doStep mslUnitID m =
     (if ms_launchMissile m then do {
        m3 \<leftarrow> (if mdl_time m \<ge> ms_launchTime m then
                 (let m1 = m\<lparr>ms_xPrev := ms_x m, ms_yPrev := ms_y m, ms_zPrev := ms_z m,
                             ms_timeSinceLaunch := mdl_time m - ms_launchTime m\<rparr>;
                      m2 = missile_place m1
                  in if ms_timeSinceLaunch m2 > 0 then missile_attitude (unit_index mslUnitID) m2 else Some m2)
               else Some m);
        let m4 = m3\<lparr>ms_position := Vec3 (ms_x m3) (ms_y m3) (ms_z m3),
                    ms_attitude := EulerAngles (ms_roll m3) (ms_pitch m3) (ms_yaw m3)\<rparr>;
        Some (1, publish None (MissileDownlink (mdl_time m4) (ms_position m4) (ms_attitude m4) (mdl_unit m4)) m4)
      } else Some (1, m))"

definition Missile_doLaunchCmd :: "real \<Rightarrow> missile_model \<Rightarrow> int \<times> missile_model" where
  "Missile_doLaunchCmd t m = (1, m\<lparr>ms_launchTime := t, ms_launchMissile := True\<rparr>)"

text \<open>The position is reported once in the life of the process: \<open>once\<close> is a static variable, which no case resets.\<close>

definition Missile_Step :: "missile_model \<Rightarrow> missile_model" where
  "Missile_Step m =
     (let m1 = archive ''Missile'' m
      in if \<not> ms_once m1
         then let m2 = m1\<lparr>ms_once := True, ms_position := Vec3 (ms_x m1) (ms_y m1) (ms_z m1),
                          ms_attitude := EulerAngles (ms_roll m1) (ms_pitch m1) 0\<rparr>
              in publish None (MissileInitializePos (mdl_time m2) (ms_position m2) (ms_attitude m2) (mdl_unit m2)) m2
         else m1)"

end
