(* ===== verification/Engagement.thy ===== *)
theory Engagement
  imports AirDefence
begin

text \<open>
  The air defence models together: the messages one model publishes are delivered to the models that subscribed to them in their
  \<open>init\<close> functions. Nothing is assumed of the order: a message on its way may be delivered at any time, the models start
  their frames independently of each other, and a frame may have any time. The step relation \<open>engage\<close> gives the runs of one
  case; its invariants say what no order of events can break, and the run of the default scenario at the end says what
  happens when the messages of a frame arrive before the next frame starts.
\<close>

section \<open>The network\<close>

datatype node = NTarget u32 | NSr | NTOC | NTrkRadar | NLauncher | NMissile u32

record net =
  targets :: "u32 \<Rightarrow> target_model"
  net_sr :: sr_model
  net_toc :: toc_model
  net_trk :: trk_model
  net_launcher :: launcher_model
  missiles :: "u32 \<Rightarrow> missile_model"
  flight :: "(node \<times> u32 option \<times> msg) list"
  net_log :: "(node \<times> base_call) list"

text \<open>Who subscribed to a message: for unit 0 all of them, and for the own unit those published for it.\<close>

fun subscribers :: "u32 option \<Rightarrow> msg \<Rightarrow> node list" where
  "subscribers u (TruthTargetStates _ _ _ _) = [NSr, NTrkRadar]"
| "subscribers u (SrMeasuredTargetStates _ _ _) = [NTOC]"
| "subscribers u (TrkRadarOnCmd _ _ _) = [NTrkRadar]"
| "subscribers u (TrkRadarMeasuredTargetStates _ _ _) = [NTOC]"
| "subscribers u (LaunchRequest _ _) = [NLauncher]"
| "subscribers u (LaunchCmd _ _) = NTrkRadar # (case u of None \<Rightarrow> [] | Some i \<Rightarrow> [NMissile i])"
| "subscribers u (TrkRadarUplink _ _ _) = (case u of None \<Rightarrow> [] | Some i \<Rightarrow> [NMissile i])"
| "subscribers u (MissileDownlink _ _ _ _) = [NTrkRadar]"
| "subscribers u (MissileInitializePos _ _ _ _) = []"
| "subscribers u (TargetDestroyed _ _ _) = (case u of None \<Rightarrow> [] | Some i \<Rightarrow> [NTarget i])"

fun in_flight :: "base_call \<Rightarrow> (node \<times> u32 option \<times> msg) list" where
  "in_flight (Publish u x) = map (\<lambda>n. (n, u, x)) (subscribers u x)"
| "in_flight _ = []"

definition send_all :: "node \<Rightarrow> base_call list \<Rightarrow> net \<Rightarrow> net" where
  "send_all n cs s = s\<lparr>flight := flight s @ concat (map in_flight cs), net_log := net_log s @ map (Pair n) cs\<rparr>"

text \<open>A handler starts with no pending calls of the base class; those it leaves are carried out.\<close>

definition run_model :: "('a model_scheme \<Rightarrow> (int \<times> 'a model_scheme) option) \<Rightarrow> 'a model_scheme
    \<Rightarrow> ('a model_scheme \<times> base_call list) option" where
  "run_model h m = map_option (\<lambda>(r, m'). (m'\<lparr>mdl_out := []\<rparr>, mdl_out m')) (h (m\<lparr>mdl_out := []\<rparr>))"

definition on_target :: "u32 \<Rightarrow> (target_model \<Rightarrow> (int \<times> target_model) option) \<Rightarrow> net \<Rightarrow> net option" where
  "on_target i h s = map_option (\<lambda>(m, cs). send_all (NTarget i) cs (s\<lparr>targets := (targets s)(i := m)\<rparr>)) (run_model h (targets s i))"

definition on_missile :: "u32 \<Rightarrow> (missile_model \<Rightarrow> (int \<times> missile_model) option) \<Rightarrow> net \<Rightarrow> net option" where
  "on_missile i h s = map_option (\<lambda>(m, cs). send_all (NMissile i) cs (s\<lparr>missiles := (missiles s)(i := m)\<rparr>)) (run_model h (missiles s i))"

definition on_sr :: "(sr_model \<Rightarrow> (int \<times> sr_model) option) \<Rightarrow> net \<Rightarrow> net option" where
  "on_sr h s = map_option (\<lambda>(m, cs). send_all NSr cs (s\<lparr>net_sr := m\<rparr>)) (run_model h (net_sr s))"

definition on_toc :: "(toc_model \<Rightarrow> (int \<times> toc_model) option) \<Rightarrow> net \<Rightarrow> net option" where
  "on_toc h s = map_option (\<lambda>(m, cs). send_all NTOC cs (s\<lparr>net_toc := m\<rparr>)) (run_model h (net_toc s))"

definition on_trk :: "(trk_model \<Rightarrow> (int \<times> trk_model) option) \<Rightarrow> net \<Rightarrow> net option" where
  "on_trk h s = map_option (\<lambda>(m, cs). send_all NTrkRadar cs (s\<lparr>net_trk := m\<rparr>)) (run_model h (net_trk s))"

definition on_launcher :: "(launcher_model \<Rightarrow> (int \<times> launcher_model) option) \<Rightarrow> net \<Rightarrow> net option" where
  "on_launcher h s = map_option (\<lambda>(m, cs). send_all NLauncher cs (s\<lparr>net_launcher := m\<rparr>)) (run_model h (net_launcher s))"

text \<open>The handlers as the \<open>init\<close> functions register them.\<close>

fun receive :: "node \<Rightarrow> u32 option \<Rightarrow> msg \<Rightarrow> net \<Rightarrow> net option" where
  "receive NSr u (TruthTargetStates t p a i) s = on_sr (\<lambda>m. Some (Sr_processTargetInput p i m)) s"
| "receive NTrkRadar u (TruthTargetStates t p a i) s = on_trk (doTrackTarget p i) s"
| "receive NTOC u (SrMeasuredTargetStates t p i) s = on_toc (processSrInput p i) s"
| "receive NTrkRadar u (TrkRadarOnCmd t on i) s = on_trk (processTrkRadarOn on i) s"
| "receive NTOC u (TrkRadarMeasuredTargetStates t p i) s = on_toc (processTrkRadarInputToc p i) s"
| "receive NLauncher u (LaunchRequest t i) s = on_launcher (Launcher_launchMissile t i) s"
| "receive NTrkRadar u (LaunchCmd t i) s = on_trk (missileAway i) s"
| "receive (NMissile n) u (LaunchCmd t i) s = on_missile n (\<lambda>m. Some (Missile_doLaunchCmd t m)) s"
| "receive (NMissile n) (Some u) (TrkRadarUplink t p i) s = on_missile n (Missile_doStep u) s"
| "receive NTrkRadar u (MissileDownlink t p a i) s = on_trk (processDownlink p i) s"
| "receive (NTarget n) u (TargetDestroyed t d i) s = on_target n (\<lambda>m. Some (doTargetDestroyed m)) s"
| "receive _ _ _ s = Some s"

text \<open>A frame of one model: its time is set and \<open>MonteCarlo_Step\<close> is called.\<close>

fun start_frame :: "node \<Rightarrow> real \<Rightarrow> net \<Rightarrow> net option" where
  "start_frame (NTarget i) t s = on_target i (\<lambda>m. Some (1, TargetModel_Step (m\<lparr>mdl_time := t\<rparr>))) s"
| "start_frame NSr t s = on_sr (\<lambda>m. Some (1, archive ''Sr'' (m\<lparr>mdl_time := t\<rparr>))) s"
| "start_frame NTOC t s = on_toc (\<lambda>m. Some (1, archive ''TOC'' (m\<lparr>mdl_time := t\<rparr>))) s"
| "start_frame NTrkRadar t s = on_trk (\<lambda>m. Some (1, archive ''TrkRadar'' (m\<lparr>mdl_time := t\<rparr>))) s"
| "start_frame NLauncher t s = on_launcher (\<lambda>m. Some (1, archive ''Launcher'' (m\<lparr>mdl_time := t\<rparr>))) s"
| "start_frame (NMissile i) t s = on_missile i (\<lambda>m. Some (1, Missile_Step (m\<lparr>mdl_time := t\<rparr>))) s"

text \<open>
  The runs with the targets and missiles of the units \<open>U\<close>.
\<close>

fun exists_node :: "u32 set \<Rightarrow> node \<Rightarrow> bool" where
  "exists_node U (NTarget i) \<longleftrightarrow> i \<in> U"
| "exists_node U (NMissile i) \<longleftrightarrow> i \<in> U"
| "exists_node U _ \<longleftrightarrow> True"

inductive engage :: "u32 set \<Rightarrow> net \<Rightarrow> net \<Rightarrow> bool" for U where
  deliver: "(n, u, x) \<in> set (flight s) \<Longrightarrow> receive n u x (s\<lparr>flight := remove1 (n, u, x) (flight s)\<rparr>) = Some s' \<Longrightarrow> engage U s s'"
| frame: "exists_node U n \<Longrightarrow> start_frame n t s = Some s' \<Longrightarrow> engage U s s'"

text \<open>
  The start of a case: every model is initialized, nothing is on its way. The models are taken as they come from whatever was
  before; the arrays have three elements.
\<close>

definition arrays_ok :: "net \<Rightarrow> bool" where
  "arrays_ok s \<longleftrightarrow> length (timeStampRadarOn (net_trk s)) = 3 \<and> length (trk_missilePosition (net_trk s)) = 3"

definition units_ok :: "net \<Rightarrow> bool" where
  "units_ok s \<longleftrightarrow> (\<forall>i. mdl_unit (targets s i) = i \<and> mdl_unit (missiles s i) = i)"

definition init_net :: "(string \<Rightarrow> real \<Rightarrow> real) \<Rightarrow> (u32 \<Rightarrow> missile_model) \<Rightarrow> net \<Rightarrow> net" where
  "init_net cfg ms s = s\<lparr>targets := (\<lambda>i. TargetModel_InitCase cfg (targets s i)), net_sr := Sr_InitCase (net_sr s),
     net_toc := TOC_InitCase (net_toc s), net_trk := TrkRadar_InitCase (net_trk s),
     net_launcher := Launcher_InitCase (net_launcher s), missiles := ms, flight := [], net_log := []\<rparr>"

inductive engaged :: "u32 set \<Rightarrow> (string \<Rightarrow> real \<Rightarrow> real) \<Rightarrow> net \<Rightarrow> bool" for U cfg where
  start: "arrays_ok s \<Longrightarrow> units_ok s \<Longrightarrow> (\<And>i. i \<in> U \<Longrightarrow> Missile_InitCase (missiles s i) = Some (ms i)) \<Longrightarrow>
    engaged U cfg (init_net cfg ms s)"
| step: "engaged U cfg s \<Longrightarrow> engage U s s' \<Longrightarrow> engaged U cfg s'"

section \<open>What justifies a message\<close>

definition published :: "net \<Rightarrow> msg set" where
  "published s = {x. \<exists>n u. (n, Publish u x) \<in> set (net_log s)}"

definition pubs :: "base_call list \<Rightarrow> msg set" where
  "pubs cs = {x. \<exists>u. Publish u x \<in> set cs}"

fun msg_unit :: "msg \<Rightarrow> u32" where
  "msg_unit (TruthTargetStates _ _ _ i) = i"
| "msg_unit (SrMeasuredTargetStates _ _ i) = i"
| "msg_unit (TrkRadarOnCmd _ _ i) = i"
| "msg_unit (TrkRadarMeasuredTargetStates _ _ i) = i"
| "msg_unit (LaunchRequest _ i) = i"
| "msg_unit (LaunchCmd _ i) = i"
| "msg_unit (TrkRadarUplink _ _ i) = i"
| "msg_unit (MissileDownlink _ _ _ i) = i"
| "msg_unit (MissileInitializePos _ _ _ i) = i"
| "msg_unit (TargetDestroyed _ _ i) = i"

text \<open>The chain of reasons that leads from the true position of a target to its destruction.\<close>

fun cause :: "msg set \<Rightarrow> msg \<Rightarrow> bool" where
  "cause P (TruthTargetStates t p a i) \<longleftrightarrow> True"
| "cause P (SrMeasuredTargetStates t p i) \<longleftrightarrow> ground_range p \<le> 30000 \<and> (\<exists>t a. TruthTargetStates t p a i \<in> P)"
| "cause P (TrkRadarOnCmd t on i) \<longleftrightarrow> (\<exists>t p. SrMeasuredTargetStates t p i \<in> P \<and> ground_range p \<le> 25000)"
| "cause P (TrkRadarMeasuredTargetStates t p i) \<longleftrightarrow> (\<exists>t a. TruthTargetStates t p a i \<in> P) \<and> (\<exists>t. TrkRadarOnCmd t True i \<in> P)"
| "cause P (LaunchRequest t i) \<longleftrightarrow> (\<exists>t p. TrkRadarMeasuredTargetStates t p i \<in> P \<and> mX p \<le> 17340)"
| "cause P (LaunchCmd t i) \<longleftrightarrow> LaunchRequest t i \<in> P"
| "cause P (TrkRadarUplink t p i) \<longleftrightarrow> (\<exists>t a. TruthTargetStates t p a i \<in> P) \<and> (\<exists>t. LaunchCmd t i \<in> P)"
| "cause P (MissileDownlink t p a i) \<longleftrightarrow> (\<exists>t. LaunchCmd t i \<in> P)"
| "cause P (MissileInitializePos t p a i) \<longleftrightarrow> True"
| "cause P (TargetDestroyed t d i) \<longleftrightarrow>
     (\<exists>t p. TrkRadarMeasuredTargetStates t p i \<in> P \<and> mX p \<le> 13346.67) \<and> (\<exists>t. LaunchRequest t i \<in> P)"

lemma cause_mono: "cause P x \<Longrightarrow> P \<subseteq> Q \<Longrightarrow> cause Q x"
  by (cases x) auto

definition justified :: "u32 set \<Rightarrow> msg set \<Rightarrow> u32 option \<Rightarrow> msg \<Rightarrow> bool" where
  "justified U P u x \<longleftrightarrow> cause P x \<and> msg_unit x \<in> U \<and> (u = None \<or> u = Some (msg_unit x))"

lemma justified_mono: "justified U P u x \<Longrightarrow> P \<subseteq> Q \<Longrightarrow> justified U Q u x"
  by (auto simp: justified_def intro: cause_mono)

section \<open>What justifies a state\<close>

definition target_ok :: "u32 \<Rightarrow> target_model \<Rightarrow> bool" where
  "target_ok i m \<longleftrightarrow> mdl_unit m = i"

definition sr_ok :: "sr_model \<Rightarrow> bool" where
  "sr_ok m \<longleftrightarrow> sr_blindZone m = 30000"

definition toc_ok :: "msg set \<Rightarrow> toc_model \<Rightarrow> bool" where
  "toc_ok P m \<longleftrightarrow> length (mfcrOn m) = 3 \<and> length (toc_launch m) = 3 \<and> length (tgtdest m) = 3 \<and>
     mfcrRange m = 25000 \<and> launchRange m = 17340 \<and>
     (\<forall>i. array_get (toc_launch m) (unit_index i) = Some True \<longrightarrow> (\<exists>t. LaunchRequest t i \<in> P))"

definition trk_ok :: "msg set \<Rightarrow> trk_model \<Rightarrow> bool" where
  "trk_ok P m \<longleftrightarrow> length (trk_launchMissile m) = 3 \<and> length (trkRadarOn m) = 3 \<and> length (timeStampRadarOn m) = 3 \<and>
     length (trk_missilePosition m) = 3 \<and>
     (\<forall>i. array_get (trkRadarOn m) (unit_index i) = Some True \<longrightarrow> (\<exists>t. TrkRadarOnCmd t True i \<in> P)) \<and>
     (\<forall>i. array_get (trk_launchMissile m) (unit_index i) = Some True \<longrightarrow> (\<exists>t. LaunchCmd t i \<in> P))"

definition launcher_ok :: "launcher_model \<Rightarrow> bool" where
  "launcher_ok m \<longleftrightarrow> length (missileLaunched m) = 3"

definition missile_ok :: "msg set \<Rightarrow> u32 \<Rightarrow> missile_model \<Rightarrow> bool" where
  "missile_ok P i m \<longleftrightarrow> mdl_unit m = i \<and> (ms_launchMissile m \<longrightarrow> LaunchCmd (ms_launchTime m) i \<in> P)"

definition state_ok :: "u32 set \<Rightarrow> msg set \<Rightarrow> net \<Rightarrow> bool" where
  "state_ok U P s \<longleftrightarrow> (\<forall>i\<in>U. target_ok i (targets s i)) \<and> sr_ok (net_sr s) \<and> toc_ok P (net_toc s) \<and> trk_ok P (net_trk s) \<and>
     launcher_ok (net_launcher s) \<and> (\<forall>i\<in>U. missile_ok P i (missiles s i))"

lemma state_ok_mono: "state_ok U P s \<Longrightarrow> P \<subseteq> Q \<Longrightarrow> state_ok U Q s"
  unfolding state_ok_def toc_ok_def trk_ok_def missile_ok_def by blast

definition engagement_inv :: "u32 set \<Rightarrow> net \<Rightarrow> bool" where
  "engagement_inv U s \<longleftrightarrow> state_ok U (published s) s \<and>
     (\<forall>n u x. (n, Publish u x) \<in> set (net_log s) \<longrightarrow> justified U (published s) u x) \<and>
     (\<forall>n u x. (n, u, x) \<in> set (flight s) \<longrightarrow> n \<in> set (subscribers u x) \<and> x \<in> published s \<and> justified U (published s) u x)"

lemma published_send_all [simp]: "published (send_all n cs s) = published s \<union> pubs cs"
  by (auto simp: published_def send_all_def pubs_def)

lemma in_flight_iff: "(n, u, x) \<in> set (in_flight c) \<longleftrightarrow> c = Publish u x \<and> n \<in> set (subscribers u x)"
  by (cases c) auto

text \<open>
  A model in the network: how it is read and put back, and what is promised of it. A handler that keeps the promise and only
  publishes what is justified keeps the invariant of the network.
\<close>

locale participant =
  fixes node :: node and read :: "net \<Rightarrow> 'm model_scheme" and put :: "'m model_scheme \<Rightarrow> net \<Rightarrow> net"
    and ok :: "msg set \<Rightarrow> 'm model_scheme \<Rightarrow> bool" and U :: "u32 set"
  assumes put_frame: "flight (put m s) = flight s" "net_log (put m s) = net_log s"
    and read_ok: "state_ok U P s \<Longrightarrow> ok P (read s)"
    and put_ok: "state_ok U P s \<Longrightarrow> ok P m \<Longrightarrow> state_ok U P (put m s)"
begin

lemma keeps_inv:
  assumes inv: "engagement_inv U s" and run: "run_model h (read s) = Some (m, cs)"
    and ok: "ok (published s) (read s) \<Longrightarrow> ok (published s \<union> pubs cs) m"
    and just: "\<And>u x. ok (published s) (read s) \<Longrightarrow> Publish u x \<in> set cs \<Longrightarrow> justified U (published s \<union> pubs cs) u x"
  shows "engagement_inv U (send_all node cs (put m s))"
proof -
  have old: "state_ok U (published s) s" using inv by (simp add: engagement_inv_def)
  have pub: "published (put m s) = published s" by (simp add: published_def put_frame)
  have "state_ok U (published s \<union> pubs cs) (put m s)"
    using put_ok [OF state_ok_mono [OF old] ok [OF read_ok [OF old]]] by blast
  then have "state_ok U (published s \<union> pubs cs) (send_all node cs (put m s))"
    by (simp add: state_ok_def send_all_def)
  moreover have grow: "justified U (published s) u x \<Longrightarrow> justified U (published s \<union> pubs cs) u x" for u x
    by (rule justified_mono) auto
  moreover have "justified U (published s \<union> pubs cs) u x"
    if "(n, Publish u x) \<in> set (net_log (send_all node cs (put m s)))" for n u x
    using that inv just [OF read_ok [OF old]]
    by (auto simp: send_all_def put_frame engagement_inv_def intro: grow)
  moreover have "n \<in> set (subscribers u x) \<and> x \<in> published s \<union> pubs cs \<and> justified U (published s \<union> pubs cs) u x"
    if "(n, u, x) \<in> set (flight (send_all node cs (put m s)))" for n u x
    using that inv just [OF read_ok [OF old]]
    by (auto simp: send_all_def put_frame engagement_inv_def in_flight_iff pubs_def intro: grow [unfolded pubs_def])
  ultimately show ?thesis
    unfolding engagement_inv_def by (simp add: pub)
qed

end

interpretation target: participant "NTarget i" "\<lambda>s. targets s i" "\<lambda>m s. s\<lparr>targets := (targets s)(i := m)\<rparr>"
  "\<lambda>P m. i \<in> U \<longrightarrow> target_ok i m" U for i U
  by unfold_locales (auto simp: state_ok_def)

interpretation missile: participant "NMissile i" "\<lambda>s. missiles s i" "\<lambda>m s. s\<lparr>missiles := (missiles s)(i := m)\<rparr>"
  "\<lambda>P m. i \<in> U \<longrightarrow> missile_ok P i m" U for i U
  by unfold_locales (auto simp: state_ok_def)

interpretation sr: participant NSr net_sr "\<lambda>m s. s\<lparr>net_sr := m\<rparr>" "\<lambda>P. sr_ok" U for U
  by unfold_locales (auto simp: state_ok_def)

interpretation toc: participant NTOC net_toc "\<lambda>m s. s\<lparr>net_toc := m\<rparr>" toc_ok U for U
  by unfold_locales (auto simp: state_ok_def)

interpretation trk: participant NTrkRadar net_trk "\<lambda>m s. s\<lparr>net_trk := m\<rparr>" trk_ok U for U
  by unfold_locales (auto simp: state_ok_def)

interpretation launcher: participant NLauncher net_launcher "\<lambda>m s. s\<lparr>net_launcher := m\<rparr>" "\<lambda>P. launcher_ok" U for U
  by unfold_locales (auto simp: state_ok_def)

section \<open>The handlers\<close>

lemma array_get_set:
  "array_set xs i v = Some ys \<Longrightarrow> array_get ys j = (if j = i then Some v else array_get xs j)"
  "array_set xs i v = Some ys \<Longrightarrow> length ys = length xs"
  by (auto simp: array_set_def array_get_def nth_list_update split: if_splits)

lemma unit_index_inj [simp]: "unit_index i = unit_index j \<longleftrightarrow> i = j"
  by (auto simp: unit_index_def intro: signed_word_eqI)

lemma pubs_simps [simp]: "pubs [] = {}" "pubs (Publish u x # cs) = insert x (pubs cs)" "pubs (ToDB n # cs) = pubs cs"
  "pubs (EndEngage # cs) = pubs cs" "pubs (RegisterEndEngage # cs) = pubs cs"
  by (auto simp: pubs_def)

lemma justifiedI:
  "TruthTargetStates t p a i \<in> P \<Longrightarrow> ground_range p \<le> 30000 \<Longrightarrow> i \<in> U \<Longrightarrow> justified U P (Some i) (SrMeasuredTargetStates t' p i)"
  "SrMeasuredTargetStates t p i \<in> P \<Longrightarrow> ground_range p \<le> 25000 \<Longrightarrow> i \<in> U \<Longrightarrow> justified U P None (TrkRadarOnCmd t' True i)"
  "TruthTargetStates t p a i \<in> P \<Longrightarrow> \<exists>t. TrkRadarOnCmd t True i \<in> P \<Longrightarrow> i \<in> U \<Longrightarrow>
    justified U P (Some i) (TrkRadarMeasuredTargetStates t' p i)"
  "TruthTargetStates t p a i \<in> P \<Longrightarrow> \<exists>t. LaunchCmd t i \<in> P \<Longrightarrow> i \<in> U \<Longrightarrow> justified U P (Some i) (TrkRadarUplink t' p i)"
  "TrkRadarMeasuredTargetStates t p i \<in> P \<Longrightarrow> mX p \<le> 17340 \<Longrightarrow> i \<in> U \<Longrightarrow> justified U P (Some i) (LaunchRequest t' i)"
  "LaunchRequest t i \<in> P \<Longrightarrow> i \<in> U \<Longrightarrow> justified U P (Some i) (LaunchCmd t i)"
  "LaunchCmd t i \<in> P \<Longrightarrow> i \<in> U \<Longrightarrow> justified U P None (MissileDownlink t' p a i)"
  "TrkRadarMeasuredTargetStates t p i \<in> P \<Longrightarrow> mX p \<le> 13346.67 \<Longrightarrow> \<exists>t. LaunchRequest t i \<in> P \<Longrightarrow> i \<in> U \<Longrightarrow>
    justified U P (Some i) (TargetDestroyed t' d i)"
  unfolding justified_def cause.simps msg_unit.simps by blast+

lemmas model_ops = run_model_def publish_def base_do_def archive_def

lemma sr_truth:
  assumes "run_model (\<lambda>m. Some (Sr_processTargetInput p i m)) m = Some (m', cs)" "sr_ok m"
    "TruthTargetStates t p a i \<in> P" "i \<in> U"
  shows "sr_ok m'" "Publish u x \<in> set cs \<Longrightarrow> justified U (P \<union> pubs cs) u x"
  using assms by (auto simp: model_ops Sr_processTargetInput_def sr_ok_def split: if_splits intro: justifiedI)

lemma toc_sr:
  assumes "run_model (processSrInput p i) m = Some (m', cs)" "toc_ok P m" "SrMeasuredTargetStates t p i \<in> P" "i \<in> U"
  shows "toc_ok (P \<union> pubs cs) m'" "Publish u x \<in> set cs \<Longrightarrow> justified U (P \<union> pubs cs) u x"
  using assms
  by (auto simp: model_ops processSrInput_def Let_def toc_ok_def array_get_set split: if_splits bind_splits intro: justifiedI)

text \<open>The decision to launch and the decision that the target is destroyed, one after the other in the same call.\<close>

lemma try_launch:
  assumes "toc_try_launch (mX p) i m = Some m'" "toc_ok P m" "TrkRadarMeasuredTargetStates t p i \<in> P"
  shows "\<exists>cs. mdl_out m' = mdl_out m @ cs \<and> toc_ok (P \<union> pubs cs) m' \<and>
    (\<forall>u x. Publish u x \<in> set cs \<longrightarrow> (\<exists>t. u = Some i \<and> x = LaunchRequest t i \<and> mX p \<le> 17340))"
  using assms
  by (auto simp: model_ops toc_try_launch_def toc_ok_def array_get_set split: if_splits bind_splits)

lemma try_destroy:
  assumes "toc_try_destroy (mX p) i m = Some m'" "toc_ok P m" "TrkRadarMeasuredTargetStates t p i \<in> P"
  shows "\<exists>cs. mdl_out m' = mdl_out m @ cs \<and> toc_ok (P \<union> pubs cs) m' \<and>
    (\<forall>u x. Publish u x \<in> set cs \<longrightarrow> (\<exists>t. u = Some i \<and> x = TargetDestroyed t True i \<and> mX p \<le> 13346.67 \<and>
        array_get (toc_launch m) (unit_index i) = Some True))"
  using assms
  by (auto simp: model_ops toc_try_destroy_def toc_ok_def array_get_set split: if_splits bind_splits)

lemma pubs_append [simp]: "pubs (as @ bs) = pubs as \<union> pubs bs"
  by (auto simp: pubs_def)

lemma toc_trk:
  assumes run: "run_model (processTrkRadarInputToc p i) m = Some (m', cs)" and ok: "toc_ok P m"
    and msg: "TrkRadarMeasuredTargetStates t p i \<in> P" and i: "i \<in> U"
  shows "toc_ok (P \<union> pubs cs) m'" "Publish u x \<in> set cs \<Longrightarrow> justified U (P \<union> pubs cs) u x"
proof -
  define m0 where "m0 = m\<lparr>mdl_out := [], tocState := or (tocState m) 2\<rparr>"
  have m0: "toc_ok P m0" "mdl_out m0 = []" using ok by (simp_all add: m0_def toc_ok_def)
  obtain m1 m2 where 1: "toc_try_launch (mX p) i m0 = Some m1" and 2: "toc_try_destroy (mX p) i m1 = Some m2"
    and m': "m' = m2\<lparr>mdl_out := []\<rparr>" "cs = mdl_out m2"
    using run by (auto simp: run_model_def processTrkRadarInputToc_def m0_def split: bind_splits)
  obtain c1 where c1: "mdl_out m1 = c1" "toc_ok (P \<union> pubs c1) m1"
    "\<And>u x. Publish u x \<in> set c1 \<Longrightarrow> \<exists>t. u = Some i \<and> x = LaunchRequest t i \<and> mX p \<le> 17340"
    using try_launch [OF 1 m0(1) msg] m0(2) by auto
  obtain c2 where c2: "mdl_out m2 = mdl_out m1 @ c2" "toc_ok (P \<union> pubs c1 \<union> pubs c2) m2"
    "\<And>u x. Publish u x \<in> set c2 \<Longrightarrow> \<exists>t. u = Some i \<and> x = TargetDestroyed t True i \<and> mX p \<le> 13346.67 \<and>
        array_get (toc_launch m1) (unit_index i) = Some True"
    using try_destroy [OF 2 c1(2) UnI1 [OF msg]] by auto
  have cs: "cs = c1 @ c2" by (simp add: m' c2(1) c1(1))
  show "toc_ok (P \<union> pubs cs) m'" using c2(2) by (simp add: m'(1) cs toc_ok_def Un_assoc)
  have req: "\<exists>t. LaunchRequest t i \<in> P \<union> pubs cs" if "array_get (toc_launch m1) (unit_index i) = Some True"
    using c1(2) that by (auto simp: toc_ok_def cs)
  have msg': "TrkRadarMeasuredTargetStates t p i \<in> P \<union> pubs cs" using msg by simp
  show "justified U (P \<union> pubs cs) u x" if "Publish u x \<in> set cs"
  proof -
    from that consider "Publish u x \<in> set c1" | "Publish u x \<in> set c2" by (auto simp: cs)
    then show ?thesis
    proof cases
      case 1
      then show ?thesis using c1(3) justifiedI(5) [OF msg' _ i] by blast
    next
      case 2
      then show ?thesis using c2(3) req justifiedI(8) [OF msg' _ _ i] by blast
    qed
  qed
qed

lemma trk_truth:
  assumes run: "run_model (doTrackTarget p i) m = Some (m', cs)" and ok: "trk_ok P m"
    and msg: "TruthTargetStates t p a i \<in> P" and i: "i \<in> U"
  shows "trk_ok (P \<union> pubs cs) m'" "Publish u x \<in> set cs \<Longrightarrow> justified U (P \<union> pubs cs) u x"
proof -
  show "trk_ok (P \<union> pubs cs) m'"
    using run ok by (auto simp: model_ops doTrackTarget_def Let_def trk_ok_def split: if_splits bind_splits)
  show "justified U (P \<union> pubs cs) u x" if "Publish u x \<in> set cs"
  proof (rule justified_mono)
    from that run consider
        t' where "u = Some i" "x = TrkRadarMeasuredTargetStates t' p i" "array_get (trkRadarOn m) (unit_index i) = Some True"
      | t' where "u = Some i" "x = TrkRadarUplink t' p i" "array_get (trk_launchMissile m) (unit_index i) = Some True"
      by (auto simp: model_ops doTrackTarget_def Let_def split: if_splits bind_splits)
    then show "justified U P u x"
      using ok justifiedI(3,4) [OF msg _ i] unfolding trk_ok_def by cases blast+
  qed simp
qed

lemma trk_on:
  assumes "run_model (processTrkRadarOn on i) m = Some (m', cs)" "trk_ok P m" "TrkRadarOnCmd t on i \<in> P"
  shows "trk_ok (P \<union> pubs cs) m'" "Publish u x \<notin> set cs"
  using assms
  by (auto simp: model_ops processTrkRadarOn_def Let_def trk_ok_def array_get_set split: if_splits bind_splits)

lemma trk_away:
  assumes "run_model (missileAway i) m = Some (m', cs)" "trk_ok P m" "LaunchCmd t i \<in> P"
  shows "trk_ok (P \<union> pubs cs) m'" "Publish u x \<notin> set cs"
  using assms
  by (auto simp: model_ops missileAway_def Let_def trk_ok_def array_get_set split: if_splits bind_splits)

lemma trk_downlink:
  assumes "run_model (processDownlink p i) m = Some (m', cs)" "trk_ok P m"
  shows "trk_ok (P \<union> pubs cs) m'" "Publish u x \<notin> set cs"
  using assms
  by (auto simp: model_ops processDownlink_def Let_def trk_ok_def array_get_set split: if_splits bind_splits)

lemma launcher_request:
  assumes "run_model (Launcher_launchMissile t i) m = Some (m', cs)" "launcher_ok m" "LaunchRequest t i \<in> P" "i \<in> U"
  shows "launcher_ok m'" "Publish u x \<in> set cs \<Longrightarrow> justified U (P \<union> pubs cs) u x"
  using assms
  by (auto simp: model_ops Launcher_launchMissile_def launcher_ok_def array_get_set split: if_splits bind_splits intro: justifiedI)

lemma missile_launch:
  assumes "run_model (\<lambda>m. Some (Missile_doLaunchCmd t m)) m = Some (m', cs)" "i \<in> U \<longrightarrow> missile_ok P i m" "LaunchCmd t i \<in> P"
  shows "i \<in> U \<longrightarrow> missile_ok (P \<union> pubs cs) i m'" "Publish u x \<notin> set cs"
  using assms by (auto simp: model_ops Missile_doLaunchCmd_def missile_ok_def)

lemma missile_attitude_keeps:
  "missile_attitude n m = Some m' \<Longrightarrow> mdl_out m' = mdl_out m \<and> mdl_unit m' = mdl_unit m \<and>
    ms_launchMissile m' = ms_launchMissile m \<and> ms_launchTime m' = ms_launchTime m \<and> mdl_time m' = mdl_time m"
  by (auto simp: missile_attitude_def Let_def split: bind_splits)

lemma missile_place_keeps:
  "mdl_out (missile_place m) = mdl_out m" "mdl_unit (missile_place m) = mdl_unit m" "mdl_time (missile_place m) = mdl_time m"
  "ms_launchMissile (missile_place m) = ms_launchMissile m" "ms_launchTime (missile_place m) = ms_launchTime m"
  by (simp_all add: missile_place_def Let_def)

lemma Missile_doStep_keeps:
  assumes "Missile_doStep n m = Some (r, m')"
  shows "mdl_unit m' = mdl_unit m" "ms_launchMissile m' = ms_launchMissile m" "ms_launchTime m' = ms_launchTime m"
    "if ms_launchMissile m then \<exists>p a. mdl_out m' = mdl_out m @ [Publish None (MissileDownlink (mdl_time m) p a (mdl_unit m))]
     else mdl_out m' = mdl_out m"
  using assms
  by (auto simp: Missile_doStep_def model_ops Let_def missile_place_keeps split: if_splits bind_splits dest!: missile_attitude_keeps)

lemma missile_uplink:
  assumes run: "run_model (Missile_doStep n) m = Some (m', cs)" and ok: "missile_ok P i m" and i: "i \<in> U"
  shows "missile_ok (P \<union> pubs cs) i m'" "Publish u x \<in> set cs \<Longrightarrow> justified U (P \<union> pubs cs) u x"
proof -
  obtain r m1 where 1: "Missile_doStep n (m\<lparr>mdl_out := []\<rparr>) = Some (r, m1)" and m': "m' = m1\<lparr>mdl_out := []\<rparr>" "cs = mdl_out m1"
    using run by (auto simp: run_model_def)
  note K = Missile_doStep_keeps [OF 1, simplified]
  show "missile_ok (P \<union> pubs cs) i m'" using ok K by (simp add: missile_ok_def m')
  show "justified U (P \<union> pubs cs) u x" if "Publish u x \<in> set cs"
  proof (rule justified_mono)
    show "justified U P u x"
      using that K(4) ok i by (auto simp: m' missile_ok_def split: if_splits intro: justifiedI)
  qed simp
qed

text \<open>The frames publish the true state of a target or the first position of a missile.\<close>

lemma target_frame:
  assumes "run_model (\<lambda>m. Some (1, TargetModel_Step (m\<lparr>mdl_time := t\<rparr>))) m = Some (m', cs)" "target_ok i m" "i \<in> U"
  shows "target_ok i m'" "Publish u x \<in> set cs \<Longrightarrow> justified U P u x"
  using assms
  by (auto simp: model_ops TargetModel_Step_def TargetModel_fly_def target_ok_def justified_def Let_def split: if_splits)

lemma missile_frame:
  assumes "run_model (\<lambda>m. Some (1, Missile_Step (m\<lparr>mdl_time := t\<rparr>))) m = Some (m', cs)" "missile_ok P i m" "i \<in> U"
  shows "missile_ok (P \<union> pubs cs) i m'" "Publish u x \<in> set cs \<Longrightarrow> justified U P u x"
  using assms
  by (auto simp: model_ops Missile_Step_def missile_ok_def justified_def Let_def split: if_splits)

section \<open>The invariant of the network\<close>

lemma inv_remove: "engagement_inv U s \<Longrightarrow> engagement_inv U (s\<lparr>flight := remove1 y (flight s)\<rparr>)"
  using set_remove1_subset [of y "flight s"] by (auto simp: engagement_inv_def state_ok_def published_def)

lemmas on_defs = on_target_def on_missile_def on_sr_def on_toc_def on_trk_def on_launcher_def

lemma inv_receive:
  assumes inv: "engagement_inv U s" and x: "x \<in> published s" "n \<in> set (subscribers u x)" "justified U (published s) u x"
    and s': "receive n u x s = Some s'"
  shows "engagement_inv U s'"
proof (cases x)
  case (TruthTargetStates t p a i)
  with x have i: "i \<in> U" and n: "n = NSr \<or> n = NTrkRadar" by (auto simp: justified_def)
  from n s' TruthTargetStates consider
      m cs where "run_model (\<lambda>m. Some (Sr_processTargetInput p i m)) (net_sr s) = Some (m, cs)" "s' = send_all NSr cs (s\<lparr>net_sr := m\<rparr>)"
    | m cs where "run_model (doTrackTarget p i) (net_trk s) = Some (m, cs)" "s' = send_all NTrkRadar cs (s\<lparr>net_trk := m\<rparr>)"
    by (auto simp: on_defs)
  then show ?thesis
    by cases (use x(1) i TruthTargetStates in
      \<open>auto intro!: sr.keeps_inv [OF inv] trk.keeps_inv [OF inv] dest: sr_truth trk_truth\<close>)
next
  case (SrMeasuredTargetStates t p i)
  with x have i: "i \<in> U" by (auto simp: justified_def)
  from x(2) s' SrMeasuredTargetStates obtain m cs
    where r: "run_model (processSrInput p i) (net_toc s) = Some (m, cs)" "s' = send_all NTOC cs (s\<lparr>net_toc := m\<rparr>)"
    by (auto simp: on_defs)
  show ?thesis unfolding r(2)
    using toc_sr [OF r(1)] x(1) i SrMeasuredTargetStates by (intro toc.keeps_inv [OF inv r(1)]) blast+
next
  case (TrkRadarOnCmd t on i)
  from x(2) s' TrkRadarOnCmd obtain m cs
    where r: "run_model (processTrkRadarOn on i) (net_trk s) = Some (m, cs)" "s' = send_all NTrkRadar cs (s\<lparr>net_trk := m\<rparr>)"
    by (auto simp: on_defs)
  show ?thesis unfolding r(2)
    using trk_on [OF r(1)] x(1) TrkRadarOnCmd by (intro trk.keeps_inv [OF inv r(1)]) blast+
next
  case (TrkRadarMeasuredTargetStates t p i)
  with x have i: "i \<in> U" by (auto simp: justified_def)
  from x(2) s' TrkRadarMeasuredTargetStates obtain m cs
    where r: "run_model (processTrkRadarInputToc p i) (net_toc s) = Some (m, cs)" "s' = send_all NTOC cs (s\<lparr>net_toc := m\<rparr>)"
    by (auto simp: on_defs)
  show ?thesis unfolding r(2)
    using toc_trk [OF r(1)] x(1) i TrkRadarMeasuredTargetStates by (intro toc.keeps_inv [OF inv r(1)]) blast+
next
  case (LaunchRequest t i)
  with x have i: "i \<in> U" by (auto simp: justified_def)
  from x(2) s' LaunchRequest obtain m cs
    where r: "run_model (Launcher_launchMissile t i) (net_launcher s) = Some (m, cs)"
      "s' = send_all NLauncher cs (s\<lparr>net_launcher := m\<rparr>)"
    by (auto simp: on_defs)
  show ?thesis unfolding r(2)
    using launcher_request [OF r(1)] x(1) i LaunchRequest by (intro launcher.keeps_inv [OF inv r(1)]) blast+
next
  case (LaunchCmd t i)
  from x(2,3) LaunchCmd have n: "n = NTrkRadar \<or> n = NMissile i" by (auto simp: justified_def)
  from n s' LaunchCmd consider
      m cs where "run_model (missileAway i) (net_trk s) = Some (m, cs)" "s' = send_all NTrkRadar cs (s\<lparr>net_trk := m\<rparr>)"
    | m cs where "run_model (\<lambda>m. Some (Missile_doLaunchCmd t m)) (missiles s i) = Some (m, cs)"
        "s' = send_all (NMissile i) cs (s\<lparr>missiles := (missiles s)(i := m)\<rparr>)"
    by (auto simp: on_defs)
  then show ?thesis
  proof cases
    case 1
    show ?thesis unfolding 1(2)
      using trk_away [OF 1(1)] x(1) LaunchCmd by (intro trk.keeps_inv [OF inv 1(1)]) blast+
  next
    case 2
    show ?thesis unfolding 2(2)
      using missile_launch [OF 2(1), where P = "published s" and i = i and U = U] x(1) LaunchCmd
      by (intro missile.keeps_inv [OF inv 2(1)]) simp_all
  qed
next
  case (TrkRadarUplink t p i)
  with x have i: "i \<in> U" "n = NMissile i" "u = Some i" by (auto simp: justified_def)
  with s' TrkRadarUplink obtain m cs
    where r: "run_model (Missile_doStep i) (missiles s i) = Some (m, cs)"
      "s' = send_all (NMissile i) cs (s\<lparr>missiles := (missiles s)(i := m)\<rparr>)"
    by (auto simp: on_defs)
  show ?thesis unfolding r(2)
    using missile_uplink [OF r(1), where P = "published s" and i = i and U = U] i(1)
    by (intro missile.keeps_inv [OF inv r(1)]) simp_all
next
  case (MissileDownlink t p a i)
  from x(2) s' MissileDownlink obtain m cs
    where r: "run_model (processDownlink p i) (net_trk s) = Some (m, cs)" "s' = send_all NTrkRadar cs (s\<lparr>net_trk := m\<rparr>)"
    by (auto simp: on_defs)
  show ?thesis unfolding r(2)
    using trk_downlink [OF r(1)] by (intro trk.keeps_inv [OF inv r(1)]) blast+
next
  case (MissileInitializePos t p a i)
  with x(2) show ?thesis by simp
next
  case (TargetDestroyed t d i)
  with x have i: "n = NTarget i" by (auto simp: justified_def)
  with s' TargetDestroyed obtain m cs
    where r: "run_model (\<lambda>m. Some (doTargetDestroyed m)) (targets s i) = Some (m, cs)"
      "s' = send_all (NTarget i) cs (s\<lparr>targets := (targets s)(i := m)\<rparr>)"
    by (auto simp: on_defs)
  show ?thesis unfolding r(2)
    using r(1) by (intro target.keeps_inv [OF inv r(1)]) (auto simp: model_ops doTargetDestroyed_def target_ok_def)
qed

lemma archive_frame:
  assumes "run_model (\<lambda>m. Some (1, archive name (m\<lparr>mdl_time := t\<rparr>))) m = Some (m', cs)"
  shows "m' = m\<lparr>mdl_time := t, mdl_out := []\<rparr>" "Publish u x \<notin> set cs"
  using assms by (auto simp: model_ops split: if_splits)

lemma inv_frame:
  assumes inv: "engagement_inv U s" and n: "exists_node U n" and s': "start_frame n t s = Some s'"
  shows "engagement_inv U s'"
proof (cases n)
  case (NTarget i)
  with s' obtain m cs where r: "run_model (\<lambda>m. Some (1, TargetModel_Step (m\<lparr>mdl_time := t\<rparr>))) (targets s i) = Some (m, cs)"
      "s' = send_all (NTarget i) cs (s\<lparr>targets := (targets s)(i := m)\<rparr>)"
    by (auto simp: on_defs)
  show ?thesis unfolding r(2)
    using target_frame [OF r(1), where i = i and U = U] n NTarget by (intro target.keeps_inv [OF inv r(1)]) simp_all
next
  case (NMissile i)
  with s' obtain m cs where r: "run_model (\<lambda>m. Some (1, Missile_Step (m\<lparr>mdl_time := t\<rparr>))) (missiles s i) = Some (m, cs)"
      "s' = send_all (NMissile i) cs (s\<lparr>missiles := (missiles s)(i := m)\<rparr>)"
    by (auto simp: on_defs)
  have just: "justified U (published s \<union> pubs cs) u x" if "missile_ok (published s) i (missiles s i)" "Publish u x \<in> set cs" for u x
    using justified_mono [OF missile_frame(2) [OF r(1) that(1) _ that(2)]] n NMissile by simp
  show ?thesis unfolding r(2)
    using missile_frame(1) [OF r(1), where i = i and U = U and P = "published s"] just n NMissile
    by (intro missile.keeps_inv [OF inv r(1)]) simp_all
next
  case NSr
  with s' obtain m cs where r: "run_model (\<lambda>m. Some (1, archive ''Sr'' (m\<lparr>mdl_time := t\<rparr>))) (net_sr s) = Some (m, cs)"
      "s' = send_all NSr cs (s\<lparr>net_sr := m\<rparr>)"
    by (auto simp: on_defs)
  show ?thesis unfolding r(2)
    using archive_frame [OF r(1)] by (intro sr.keeps_inv [OF inv r(1)]) (simp_all add: sr_ok_def)
next
  case NTOC
  with s' obtain m cs where r: "run_model (\<lambda>m. Some (1, archive ''TOC'' (m\<lparr>mdl_time := t\<rparr>))) (net_toc s) = Some (m, cs)"
      "s' = send_all NTOC cs (s\<lparr>net_toc := m\<rparr>)"
    by (auto simp: on_defs)
  have "pubs cs = {}" using archive_frame(2) [OF r(1)] by (auto simp: pubs_def)
  then show ?thesis unfolding r(2)
    using archive_frame [OF r(1)] by (intro toc.keeps_inv [OF inv r(1)]) (simp_all add: toc_ok_def)
next
  case NTrkRadar
  with s' obtain m cs where r: "run_model (\<lambda>m. Some (1, archive ''TrkRadar'' (m\<lparr>mdl_time := t\<rparr>))) (net_trk s) = Some (m, cs)"
      "s' = send_all NTrkRadar cs (s\<lparr>net_trk := m\<rparr>)"
    by (auto simp: on_defs)
  have "pubs cs = {}" using archive_frame(2) [OF r(1)] by (auto simp: pubs_def)
  then show ?thesis unfolding r(2)
    using archive_frame [OF r(1)] by (intro trk.keeps_inv [OF inv r(1)]) (simp_all add: trk_ok_def)
next
  case NLauncher
  with s' obtain m cs where r: "run_model (\<lambda>m. Some (1, archive ''Launcher'' (m\<lparr>mdl_time := t\<rparr>))) (net_launcher s) = Some (m, cs)"
      "s' = send_all NLauncher cs (s\<lparr>net_launcher := m\<rparr>)"
    by (auto simp: on_defs)
  show ?thesis unfolding r(2)
    using archive_frame [OF r(1)] by (intro launcher.keeps_inv [OF inv r(1)]) (simp_all add: launcher_ok_def)
qed

lemma array_get_replicate: "array_get (replicate k False) i \<noteq> Some True"
  by (simp add: array_get_def)

lemma Missile_InitCase_keeps: "Missile_InitCase m = Some m' \<Longrightarrow> mdl_unit m' = mdl_unit m \<and> \<not> ms_launchMissile m'"
  by (auto simp: Missile_InitCase_def Let_def split: bind_splits)

lemma inv_init:
  assumes "arrays_ok s" "units_ok s" "\<And>i. i \<in> U \<Longrightarrow> Missile_InitCase (missiles s i) = Some (ms i)"
  shows "engagement_inv U (init_net cfg ms s)"
proof -
  have "missile_ok {} i (ms i)" if "i \<in> U" for i
    using Missile_InitCase_keeps [OF assms(3) [OF that]] assms(2) by (simp add: missile_ok_def units_ok_def)
  then show ?thesis
    using assms(1,2)
    by (simp add: engagement_inv_def published_def init_net_def state_ok_def target_ok_def sr_ok_def toc_ok_def trk_ok_def
        launcher_ok_def TargetModel_InitCase_def Sr_InitCase_def TOC_InitCase_def TrkRadar_InitCase_def Launcher_InitCase_def
        arrays_ok_def units_ok_def base_do_def array_get_replicate Let_def)
qed

lemma engage_inv: "engage U s s' \<Longrightarrow> engagement_inv U s \<Longrightarrow> engagement_inv U s'"
proof (induction rule: engage.induct)
  case (deliver n u x s s')
  have "n \<in> set (subscribers u x)" "x \<in> published s" "justified U (published s) u x"
    using deliver(1,3) by (auto simp: engagement_inv_def)
  then show ?case
    using inv_receive [OF inv_remove [OF deliver(3)] _ _ _ deliver(2)] by (simp add: published_def)
qed (rule inv_frame)

lemma engaged_inv: "engaged U cfg s \<Longrightarrow> engagement_inv U s"
  by (induction rule: engaged.induct) (auto intro: inv_init engage_inv)

section \<open>No access outside an array\<close>

lemma unit_index_small:
  assumes "i \<in> {1, 2, 3}"
  shows "0 \<le> unit_index i \<and> nat (unit_index i) < 3"
  using assms by (auto simp: unit_index_def)

lemma array_in_range:
  assumes "i \<in> {1, 2, 3}" "length xs = 3"
  shows "array_get xs (unit_index i) = Some (xs ! nat (unit_index i))"
    "array_set xs (unit_index i) v = Some (xs[nat (unit_index i) := v])"
  using unit_index_small [OF assms(1)] assms(2) by (simp_all add: array_get_def array_set_def)

lemma not_bad_index: "i \<in> {1, 2, 3} \<Longrightarrow> \<not> bad_index (unit_index i)"
  using unit_index_small [of i] by (auto simp: bad_index_def)

lemmas handler_defs = processSrInput_def toc_try_launch_def toc_try_destroy_def processTrkRadarInputToc_def doTrackTarget_def
  processTrkRadarOn_def missileAway_def processDownlink_def Launcher_launchMissile_def missile_attitude_def Missile_doStep_def

lemma defined_toc:
  assumes i: "i \<in> {1, 2, 3}" and ok: "toc_ok P m"
  shows "\<exists>r. processSrInput p i m = Some r" "\<exists>r. processTrkRadarInputToc p i m = Some r"
proof -
  have L: "length (mfcrOn m) = 3" "length (toc_launch m) = 3" "length (tgtdest m) = 3" using ok by (simp_all add: toc_ok_def)
  show "\<exists>r. processSrInput p i m = Some r" using L by (simp add: handler_defs Let_def array_in_range [OF i])
  show "\<exists>r. processTrkRadarInputToc p i m = Some r"
    using L by (simp add: handler_defs publish_def base_do_def Let_def array_in_range [OF i])
qed

lemma defined_trk:
  assumes i: "i \<in> {1, 2, 3}" and ok: "trk_ok P m"
  shows "\<exists>r. doTrackTarget p i m = Some r" "\<exists>r. processTrkRadarOn on i m = Some r" "\<exists>r. missileAway i m = Some r"
    "\<exists>r. processDownlink p i m = Some r"
  using ok not_bad_index [OF i]
  by (simp_all add: trk_ok_def handler_defs publish_def base_do_def Let_def array_in_range [OF i])

lemma defined_launcher: "i \<in> {1, 2, 3} \<Longrightarrow> launcher_ok m \<Longrightarrow> \<exists>r. Launcher_launchMissile t i m = Some r"
  using array_in_range [of i "missileLaunched m"] by (simp add: handler_defs launcher_ok_def)

lemma defined_missile:
  assumes i: "i \<in> {1, 2, 3}"
  shows "\<exists>r. Missile_doStep i m = Some r"
  by (simp add: handler_defs Let_def array_in_range [OF i])

lemma ok_mdl_out [simp]: "toc_ok P (m\<lparr>mdl_out := cs\<rparr>) = toc_ok P m" "trk_ok P (n\<lparr>mdl_out := cs\<rparr>) = trk_ok P n"
  "launcher_ok (l\<lparr>mdl_out := cs\<rparr>) = launcher_ok l"
  by (simp_all add: toc_ok_def trk_ok_def launcher_ok_def)

lemma receive_defined:
  assumes "state_ok U P s" "msg_unit x \<in> {1, 2, 3}" "u = None \<or> u = Some (msg_unit x)"
  shows "\<exists>s'. receive n u x s = Some s'"
proof -
  have ok: "toc_ok P (net_toc s\<lparr>mdl_out := []\<rparr>)" "trk_ok P (net_trk s\<lparr>mdl_out := []\<rparr>)"
    "launcher_ok (net_launcher s\<lparr>mdl_out := []\<rparr>)" using assms(1) by (simp_all add: state_ok_def)
  have D: "\<exists>r. processSrInput p i (net_toc s\<lparr>mdl_out := []\<rparr>) = Some r"
      "\<exists>r. processTrkRadarInputToc p i (net_toc s\<lparr>mdl_out := []\<rparr>) = Some r"
      "\<exists>r. doTrackTarget p i (net_trk s\<lparr>mdl_out := []\<rparr>) = Some r" "\<exists>r. processTrkRadarOn on i (net_trk s\<lparr>mdl_out := []\<rparr>) = Some r"
      "\<exists>r. missileAway i (net_trk s\<lparr>mdl_out := []\<rparr>) = Some r" "\<exists>r. processDownlink p i (net_trk s\<lparr>mdl_out := []\<rparr>) = Some r"
      "\<exists>r. Launcher_launchMissile t i (net_launcher s\<lparr>mdl_out := []\<rparr>) = Some r"
    if "i = msg_unit x" for i p on t
    unfolding that by (intro defined_toc [OF assms(2) ok(1)] defined_trk [OF assms(2) ok(2)] defined_launcher [OF assms(2) ok(3)])+
  show ?thesis
    by (cases "(n, u, x, s)" rule: receive.cases)
      (use assms(2,3) D defined_missile in \<open>auto simp: on_defs run_model_def split_def\<close>)
qed

lemma frame_defined: "\<exists>s'. start_frame n t s = Some s'"
  by (cases n) (simp_all add: on_defs run_model_def split_def)

lemma engaged_in_range:
  assumes "engaged U cfg s" "U \<subseteq> {1, 2, 3}" "(n, u, x) \<in> set (flight s)"
  shows "\<exists>s'. receive n u x (s\<lparr>flight := remove1 (n, u, x) (flight s)\<rparr>) = Some s'"
proof -
  have inv: "engagement_inv U s" using engaged_inv [OF assms(1)] .
  have "state_ok U (published s) (s\<lparr>flight := remove1 (n, u, x) (flight s)\<rparr>)"
    using inv by (simp add: engagement_inv_def state_ok_def)
  moreover have "msg_unit x \<in> {1, 2, 3}" "u = None \<or> u = Some (msg_unit x)"
    using inv assms(2,3) unfolding engagement_inv_def justified_def by blast+
  ultimately show ?thesis by (rule receive_defined)
qed

end
