(* ===== verification/DefaultScenario.thy ===== *)
theory DefaultScenario
  imports Engagement
begin

text \<open>
  The scenario the parameters of the air defence models were chosen for: one target and one missile at 10 frames a second, the
  default configuration, and the messages of a frame delivered in the order they were sent before the next frame starts.
\<close>

section \<open>Frames\<close>

fun drain_flight :: "nat \<Rightarrow> net \<Rightarrow> net option" where
  "drain_flight k s = (case flight s of
     [] \<Rightarrow> Some s
   | (n, u, x) # rest \<Rightarrow> (case k of 0 \<Rightarrow> None | Suc j \<Rightarrow> receive n u x (s\<lparr>flight := rest\<rparr>) \<bind> drain_flight j))"

fun start_frames :: "real \<Rightarrow> node list \<Rightarrow> net \<Rightarrow> net option" where
  "start_frames t [] s = Some s"
| "start_frames t (n # ns) s = start_frame n t s \<bind> start_frames t ns"

definition play_frame :: "nat \<Rightarrow> net \<Rightarrow> net option" where
  "play_frame k s = start_frames (real k / 10) [NSr, NTOC, NTrkRadar, NLauncher, NMissile 1, NTarget 1] s \<bind> drain_flight 12"

fun play :: "nat \<Rightarrow> net \<Rightarrow> net option" where
  "play 0 s = Some s"
| "play (Suc k) s = play k s \<bind> play_frame (Suc k)"

declare drain_flight.simps [simp del]

lemma drain_flight_simps [simp]:
  "flight s = [] \<Longrightarrow> drain_flight k s = Some s"
  "flight s = (n, u, x) # rest \<Longrightarrow> drain_flight (Suc j) s = receive n u x (s\<lparr>flight := rest\<rparr>) \<bind> drain_flight j"
  "flight s = (n, u, x) # rest \<Longrightarrow> drain_flight (numeral v) s = receive n u x (s\<lparr>flight := rest\<rparr>) \<bind> drain_flight (pred_numeral v)"
  by (subst drain_flight.simps, simp)+

text \<open>A frame is a sequence of steps of the network.\<close>

lemma drain_engaged: "engaged U cfg s \<Longrightarrow> drain_flight k s = Some s' \<Longrightarrow> engaged U cfg s'"
proof (induction k arbitrary: s)
  case 0
  then show ?case by (subst (asm) drain_flight.simps) (auto split: list.splits)
next
  case (Suc k)
  show ?case
  proof (cases "flight s")
    case Nil
    with Suc.prems show ?thesis by simp
  next
    case (Cons y rest)
    obtain n u x where y: "y = (n, u, x)" by (cases y)
    with Cons Suc.prems(2) obtain s1 where 1: "receive n u x (s\<lparr>flight := remove1 (n, u, x) (flight s)\<rparr>) = Some s1"
      and 2: "drain_flight k s1 = Some s'" by (auto split: bind_splits)
    have "engage U s s1" by (rule engage.deliver [OF _ 1]) (simp add: Cons y)
    from Suc.IH [OF engaged.step [OF Suc.prems(1) this] 2] show ?thesis .
  qed
qed

lemma frames_engaged: "engaged U cfg s \<Longrightarrow> \<forall>n\<in>set ns. exists_node U n \<Longrightarrow> start_frames t ns s = Some s' \<Longrightarrow> engaged U cfg s'"
proof (induction ns arbitrary: s)
  case (Cons n ns)
  then obtain s1 where 1: "start_frame n t s = Some s1" and 2: "start_frames t ns s1 = Some s'" by (auto split: bind_splits)
  have "engage U s s1" using Cons.prems(2) by (intro engage.frame [OF _ 1]) simp
  with Cons.IH [OF engaged.step] Cons.prems 2 show ?case by simp
qed simp

lemma play_engaged: "engaged U cfg s \<Longrightarrow> 1 \<in> U \<Longrightarrow> play k s = Some s' \<Longrightarrow> engaged U cfg s'"
proof (induction k arbitrary: s')
  case (Suc k)
  then obtain s1 s2 where "play k s = Some s1"
    and f: "start_frames (real (Suc k) / 10) [NSr, NTOC, NTrkRadar, NLauncher, NMissile 1, NTarget 1] s1 = Some s2"
      "drain_flight 12 s2 = Some s'"
    by (auto simp: play_frame_def split: bind_splits simp del: start_frames.simps)
  with Suc have "engaged U cfg s1" by blast
  have "engaged U cfg s2" using Suc.prems(2) by (intro frames_engaged [OF \<open>engaged U cfg s1\<close> _ f(1)]) simp
  then show ?case using f(2) by (rule drain_engaged)
qed simp

section \<open>The trajectories\<close>

definition target_speed :: real where "target_speed = (40000 - 13333.33) / 1999"

definition target_x :: "nat \<Rightarrow> real" where "target_x k = 40000 - real k * target_speed"

definition target_place :: "nat \<Rightarrow> Vec3" where
  "target_place k = Vec3 (target_x k) 0 (0.00005 * (target_x k * target_x k) - 2 * target_x k)"

text \<open>Where a missile is \<open>d\<close> seconds after its launch.\<close>

definition missile_r1 :: real where "missile_r1 = 868.241"
definition missile_v1 :: real where "missile_v1 = missile_r1 / 30 * 10"
definition missile_v2 :: real where "missile_v2 = (13333.33 - missile_r1) / 269 * 10"

definition missile_x :: "real \<Rightarrow> real" where
  "missile_x d = (if d \<le> 3 then missile_v1 * d else missile_v2 * (d - 3) + missile_r1)"

definition missile_z :: "real \<Rightarrow> real" where
  "missile_z d = (if d \<le> 3 then - (5.67128 * missile_x d)
     else (0.082725 * (missile_x d * M_TO_KM * missile_x d * M_TO_KM) - 2.205994 * missile_x d * M_TO_KM - 3.07111) * KM_TO_M)"

text \<open>
  What has happened so far: the radar is on and the launch and the destruction are decided at the operations centre (\<open>on1\<close>, \<open>la1\<close>,
  \<open>de1\<close>), the track radar is on and knows of the missile (\<open>on2\<close>, \<open>la2\<close>), the launcher and the missile have launched (\<open>la3\<close>,
  \<open>la4\<close>), the target knows that it is destroyed (\<open>de2\<close>).
\<close>

record progress =
  on1 :: bool
  la1 :: bool
  de1 :: bool
  on2 :: bool
  la2 :: bool
  la3 :: bool
  la4 :: bool
  de2 :: bool

definition target_at :: "nat \<Rightarrow> progress \<Rightarrow> target_model \<Rightarrow> bool" where
  "target_at k pr m \<longleftrightarrow> mdl_unit m = 1 \<and> \<not> mdl_save m \<and> tg_xAxis m = target_x k \<and> tg_yAxis m = 0 \<and> tg_alpha m = target_speed \<and>
     tg_alphaZ m = 1 \<and> tg_alphaZA m = 0 \<and> tg_engagementTime m = 200 \<and> tg_destroyed m = de2 pr \<and>
     (k > 0 \<longrightarrow> tg_position m = target_place k)"

definition sr_at :: "real \<Rightarrow> sr_model \<Rightarrow> bool" where
  "sr_at t m \<longleftrightarrow> mdl_time m = t \<and> \<not> mdl_save m \<and> sr_blindZone m = 30000"

definition toc_at :: "real \<Rightarrow> progress \<Rightarrow> toc_model \<Rightarrow> bool" where
  "toc_at t pr m \<longleftrightarrow> mdl_time m = t \<and> \<not> mdl_save m \<and> mdl_rate m = 1 / 10 \<and> mfcrRange m = 25000 \<and> launchRange m = 17340 \<and>
     mfcrOn m = [on1 pr, False, False] \<and> toc_launch m = [la1 pr, False, False] \<and> tgtdest m = [de1 pr, False, False]"

definition trk_at :: "real \<Rightarrow> progress \<Rightarrow> trk_model \<Rightarrow> bool" where
  "trk_at t pr m \<longleftrightarrow> mdl_time m = t \<and> \<not> mdl_save m \<and> trkRadarOn m = [on2 pr, False, False] \<and> trk_launchMissile m = [la2 pr, False, False] \<and>
     (\<exists>a b c. timeStampRadarOn m = [a, b, c] \<and> (on2 pr \<longrightarrow> a = 1125 / 10)) \<and> length (trk_missilePosition m) = 3"

definition launcher_at :: "progress \<Rightarrow> launcher_model \<Rightarrow> bool" where
  "launcher_at pr m \<longleftrightarrow> \<not> mdl_save m \<and> missileLaunched m = [la3 pr, False, False]"

definition missile_at :: "nat \<Rightarrow> nat \<Rightarrow> real \<Rightarrow> progress \<Rightarrow> missile_model \<Rightarrow> bool" where
  "missile_at k k' t pr m \<longleftrightarrow> mdl_unit m = 1 \<and> mdl_time m = t \<and> mdl_rate m = 1 / 10 \<and> \<not> mdl_save m \<and> ms_launchMissile m = la4 pr \<and>
     (la4 pr \<longrightarrow> ms_launchTime m = 170) \<and>
     ms_initialTurnTime m = 3 \<and> ms_xRangeInitial m = missile_r1 \<and> ms_alphaInitial m = missile_v1 \<and>
     ms_alphaTurn m = missile_v2 \<and> ms_alphaY m = 0 \<and> (k > 0 \<longrightarrow> ms_once m) \<and>
     (k' \<ge> 1700 \<longrightarrow> ms_position m = Vec3 (missile_x (real k' / 10 - 170)) 0 (missile_z (real k' / 10 - 170)))"

text \<open>The network in frame \<open>j\<close> at time \<open>t\<close>, with the missile placed for frame \<open>k\<close> and \<open>F\<close> on the way.\<close>

definition in_frame :: "nat \<Rightarrow> nat \<Rightarrow> progress \<Rightarrow> (node \<times> u32 option \<times> msg) list \<Rightarrow> net \<Rightarrow> bool" where
  "in_frame j k pr F s \<longleftrightarrow> flight s = F \<and> target_at j pr (targets s 1) \<and> sr_at (real j / 10) (net_sr s) \<and>
     toc_at (real j / 10) pr (net_toc s) \<and> trk_at (real j / 10) pr (net_trk s) \<and> launcher_at pr (net_launcher s) \<and>
     missile_at j k (real j / 10) pr (missiles s 1)"

text \<open>
  After frame \<open>k\<close>: the track radar goes on in frame 1125, the launch is requested in 1699, the missile flies from frame 1700 on,
  and the target is destroyed in frame 1999.
\<close>

definition progress_of :: "bool \<Rightarrow> bool \<Rightarrow> bool \<Rightarrow> progress" where
  "progress_of on la de = \<lparr>on1 = on, la1 = la, de1 = de, on2 = on, la2 = la, la3 = la, la4 = la, de2 = de\<rparr>"

definition progress_at :: "nat \<Rightarrow> progress" where
  "progress_at k = progress_of (1125 \<le> k) (1699 \<le> k) (1999 \<le> k)"

section \<open>One frame\<close>

lemma unit_index_1 [simp]: "unit_index 1 = 0"
  by (simp add: unit_index_def)

lemma array_3 [simp]: "array_get [a, b, c] 0 = Some a" "array_set [a, b, c] 0 v = Some [v, b, c]"
  by (simp_all add: array_get_def array_set_def)

lemma target_x_bound:
  assumes "40000 - real N * target_speed \<le> c" "c < 40000 - (real N - 1) * target_speed"
  shows "target_x k \<le> c \<longleftrightarrow> N \<le> k"
proof (cases "N \<le> k")
  case True
  then have "real N * target_speed \<le> real k * target_speed" by (simp add: target_speed_def)
  with assms(1) True show ?thesis by (simp add: target_x_def)
next
  case False
  then have "real k \<le> real N - 1" by linarith
  then have "real k * target_speed \<le> (real N - 1) * target_speed" by (simp add: target_speed_def)
  with assms(2) False show ?thesis by (simp add: target_x_def)
qed

lemma target_x_bounds:
  "target_x k \<le> 30000 \<longleftrightarrow> 750 \<le> k" "target_x k \<le> 25000 \<longleftrightarrow> 1125 \<le> k" "target_x k \<le> 17340 \<longleftrightarrow> 1699 \<le> k"
  "target_x k \<le> 13346.67 \<longleftrightarrow> 1999 \<le> k"
  by (rule target_x_bound; simp add: target_speed_def)+

lemma target_x_pos: "k \<le> 1999 \<Longrightarrow> 0 < target_x k"
  by (simp add: target_x_def target_speed_def field_simps)

lemma ground_range_target: "k \<le> 1999 \<Longrightarrow> ground_range (target_place k) = target_x k"
  using target_x_pos [of k] by (simp add: ground_range_def target_place_def)

lemmas ats = target_at_def sr_at_def toc_at_def trk_at_def launcher_at_def missile_at_def

lemma target_x_Suc: "target_x k - target_speed = target_x (Suc k)"
  by (simp add: target_x_def algebra_simps)

subsection \<open>The handlers\<close>

lemma target_flies:
  assumes "target_at k pr m" "\<not> de2 pr" "k < 1999"
  obtains m' a where "run_model (\<lambda>m. Some (1, TargetModel_Step (m\<lparr>mdl_time := real (Suc k) / 10\<rparr>))) m =
      Some (m', [Publish None (TruthTargetStates (real (Suc k) / 10) (target_place (Suc k)) a 1)])" "target_at (Suc k) pr m'"
proof -
  have t: "real (Suc k) / 10 < 200" and x: "tg_xAxis m - tg_alpha m = target_x (Suc k)"
    using assms(1,3) by (simp_all add: target_at_def target_x_Suc)
  have "\<exists>m' a. run_model (\<lambda>m. Some (1, TargetModel_Step (m\<lparr>mdl_time := real (Suc k) / 10\<rparr>))) m =
      Some (m', [Publish None (TruthTargetStates (real (Suc k) / 10) (target_place (Suc k)) a 1)]) \<and> target_at (Suc k) pr m'"
    using assms(1,2) t x
    by (simp add: model_ops TargetModel_Step_def TargetModel_fly_def target_at_def target_place_def Let_def
        del: of_nat_Suc right_diff_distrib_numeral)
  then show thesis using that by blast
qed

lemma missile_waits:
  assumes "missile_at j k t pr m" "k < 1700 \<or> j > 0"
  obtains m' cs where "run_model (\<lambda>m. Some (1, Missile_Step (m\<lparr>mdl_time := t'\<rparr>))) m = Some (m', cs)" "concat (map in_flight cs) = []"
    "missile_at (Suc j) k t' pr m'"
  using assms by (cases "ms_once m") (auto intro!: that simp: model_ops Missile_Step_def missile_at_def Let_def)

lemma sr_hears:
  assumes "sr_at t m"
  obtains m' where "run_model (\<lambda>m. Some (Sr_processTargetInput p i m)) m =
      Some (m', if ground_range p \<le> 30000 then [Publish (Some i) (SrMeasuredTargetStates t p i)] else [])" "sr_at t m'"
  using assms by (auto intro!: that simp: model_ops Sr_processTargetInput_def sr_at_def)

lemma toc_hears_sr:
  assumes "toc_at t pr m"
  obtains m' where "run_model (processSrInput p 1) m =
      Some (m', if ground_range p \<le> 25000 \<and> \<not> on1 pr then [Publish None (TrkRadarOnCmd t True 1)] else [])"
    "toc_at t (pr\<lparr>on1 := on1 pr \<or> ground_range p \<le> 25000\<rparr>) m'"
  using assms by (cases "ground_range p \<le> 25000"; cases "on1 pr") (auto intro!: that simp: model_ops processSrInput_def toc_at_def Let_def)

lemma toc_hears_trk:
  assumes "toc_at t pr m"
  obtains m' where "run_model (processTrkRadarInputToc p 1) m =
      Some (m', (if mX p \<le> 17340 \<and> \<not> la1 pr then [Publish (Some 1) (LaunchRequest (t + 1 / 10) 1)] else []) @
                (if mX p \<le> 13346.67 \<and> \<not> de1 pr then [Publish (Some 1) (TargetDestroyed t True 1)] else []))"
    "toc_at t (pr\<lparr>la1 := la1 pr \<or> mX p \<le> 17340, de1 := de1 pr \<or> mX p \<le> 13346.67\<rparr>) m'"
proof -
  have "mX p \<le> 13346.67 \<Longrightarrow> mX p \<le> 17340" by simp
  with assms show thesis
    by (cases "mX p \<le> 17340"; cases "mX p \<le> 13346.67"; cases "la1 pr"; cases "de1 pr")
      (auto intro!: that simp: model_ops processTrkRadarInputToc_def toc_try_launch_def toc_try_destroy_def toc_at_def Let_def)
qed

lemma trk_hears_truth:
  assumes "trk_at t pr m" "on2 pr \<longrightarrow> t \<noteq> 1125 / 10"
  obtains m' where "run_model (doTrackTarget p 1) m =
      Some (m', (if on2 pr then [Publish (Some 1) (TrkRadarMeasuredTargetStates t p 1)] else []) @
                (if la2 pr then [Publish (Some 1) (TrkRadarUplink t p 1)] else []))" "trk_at t pr m'"
  using assms
  by (cases "on2 pr"; cases "la2 pr")
    (auto intro!: that simp: model_ops doTrackTarget_def trk_at_def bad_index_def Let_def)

lemma trk_goes_on:
  assumes "trk_at (1125 / 10) pr m"
  obtains m' where "run_model (processTrkRadarOn True 1) m = Some (m', [])" "trk_at (1125 / 10) (pr\<lparr>on2 := True\<rparr>) m'"
  using assms by (auto intro!: that simp: model_ops processTrkRadarOn_def trk_at_def bad_index_def Let_def)

lemma trk_hears_launch:
  assumes "trk_at t pr m"
  obtains m' where "run_model (missileAway 1) m = Some (m', [])" "trk_at t (pr\<lparr>la2 := True\<rparr>) m'"
  using assms by (auto intro!: that simp: model_ops missileAway_def trk_at_def bad_index_def Let_def)

lemma trk_hears_downlink:
  assumes "trk_at t pr m"
  obtains m' where "run_model (processDownlink p 1) m = Some (m', [])" "trk_at t pr m'"
  using assms by (auto intro!: that simp: model_ops processDownlink_def trk_at_def bad_index_def array_set_def Let_def)

lemma launcher_fires:
  assumes "launcher_at pr m" "\<not> la3 pr"
  obtains m' where "run_model (Launcher_launchMissile t 1) m = Some (m', [Publish (Some 1) (LaunchCmd t 1)])"
    "launcher_at (pr\<lparr>la3 := True\<rparr>) m'"
  using assms by (auto intro!: that simp: model_ops Launcher_launchMissile_def launcher_at_def)

lemma missile_hears_launch:
  assumes "missile_at j k t pr m"
  obtains m' where "run_model (\<lambda>m. Some (Missile_doLaunchCmd 170 m)) m = Some (m', [])"
    "missile_at j k t (pr\<lparr>la4 := True\<rparr>) m'"
  using assms by (auto intro!: that simp: model_ops Missile_doLaunchCmd_def missile_at_def)

lemma target_hears_end:
  assumes "target_at j pr m"
  obtains m' where "run_model (\<lambda>m. Some (doTargetDestroyed m)) m = Some (m', [])" "target_at j (pr\<lparr>de2 := True\<rparr>) m'"
  using assms by (auto intro!: that simp: model_ops doTargetDestroyed_def target_at_def)

lemma missile_place_at:
  assumes "missile_at j k t pr m" "la4 pr"
  shows "missile_place (m\<lparr>ms_xPrev := x, ms_yPrev := y, ms_zPrev := z, ms_timeSinceLaunch := t - 170\<rparr>) =
    m\<lparr>ms_xPrev := x, ms_yPrev := y, ms_zPrev := z, ms_timeSinceLaunch := t - 170,
      ms_x := missile_x (t - 170), ms_y := 0, ms_z := missile_z (t - 170)\<rparr>"
proof (cases "t - 170 \<le> 3")
  case True
  then have "t \<le> 173" by simp
  with assms show ?thesis by (simp add: missile_place_def missile_at_def missile_x_def missile_z_def Let_def)
next
  case False
  then have "\<not> t \<le> 173" by simp
  with assms show ?thesis by (simp add: missile_place_def missile_at_def missile_x_def missile_z_def Let_def)
qed

lemma missile_attitude_at:
  obtains m' where "missile_attitude 0 m = Some m'" "ms_x m' = ms_x m" "ms_y m' = ms_y m" "ms_z m' = ms_z m" "mdl_out m' = mdl_out m"
    "missile_at j k t pr m' \<longleftrightarrow> missile_at j k t pr m"
  by (rule that [where m' = "the (missile_attitude 0 m)"]) (simp_all add: missile_attitude_def missile_at_def Let_def)

lemma missile_flies:
  assumes at: "missile_at j k t pr m" and la: "la4 pr" and t: "t = real j / 10" and j: "1700 \<le> j"
  obtains m' p a where "run_model (Missile_doStep 1) m = Some (m', [Publish None (MissileDownlink t p a 1)])" "missile_at j j t pr m'"
proof -
  define m0 where "m0 = m\<lparr>mdl_out := []\<rparr>"
  define m2 where "m2 = m0\<lparr>ms_xPrev := ms_x m0, ms_yPrev := ms_y m0, ms_zPrev := ms_z m0, ms_timeSinceLaunch := t - 170,
      ms_x := missile_x (t - 170), ms_y := 0, ms_z := missile_z (t - 170)\<rparr>"
  have at0: "missile_at j k t pr m0" using at by (simp add: m0_def missile_at_def)
  have at2: "missile_at j 0 t pr m2" using at0 by (simp add: missile_at_def m2_def)
  obtain m3 where m3: "(if ms_timeSinceLaunch m2 > 0 then missile_attitude 0 m2 else Some m2) = Some m3"
    "ms_x m3 = ms_x m2" "ms_y m3 = ms_y m2" "ms_z m3 = ms_z m2" "mdl_out m3 = []" "missile_at j 0 t pr m3"
  proof -
    obtain m' where "missile_attitude 0 m2 = Some m'" "ms_x m' = ms_x m2" "ms_y m' = ms_y m2" "ms_z m' = ms_z m2"
      "mdl_out m' = mdl_out m2" "missile_at j 0 t pr m'"
      using missile_attitude_at at2 by metis
    then show thesis using at2 by (cases "ms_timeSinceLaunch m2 > 0") (auto intro!: that simp: m2_def m0_def)
  qed
  define m4 where "m4 = publish None (MissileDownlink t (Vec3 (ms_x m3) (ms_y m3) (ms_z m3)) (Vec3 (ms_roll m3) (ms_pitch m3) (ms_yaw m3)) 1)
    (m3\<lparr>ms_position := Vec3 (ms_x m3) (ms_y m3) (ms_z m3), ms_attitude := Vec3 (ms_roll m3) (ms_pitch m3) (ms_yaw m3)\<rparr>)"
  have place: "missile_place (m0\<lparr>ms_xPrev := ms_x m0, ms_yPrev := ms_y m0, ms_zPrev := ms_z m0,
      ms_timeSinceLaunch := mdl_time m0 - ms_launchTime m0\<rparr>) = m2"
    using missile_place_at [OF at0 la] at0 la by (simp add: m2_def missile_at_def)
  have "ms_launchMissile m0" "mdl_time m0 \<ge> ms_launchTime m0" using at0 la j t by (auto simp: missile_at_def)
  then have "Missile_doStep 1 m0 = Some (1, m4)"
    using m3(1,6) unfolding Missile_doStep_def Let_def place
    by (cases "0 < ms_timeSinceLaunch m2") (simp_all add: missile_at_def m4_def)
  then have "run_model (Missile_doStep 1) m = Some (m4\<lparr>mdl_out := []\<rparr>, mdl_out m4)"
    by (simp add: run_model_def flip: m0_def)
  moreover have "missile_at j j t pr (m4\<lparr>mdl_out := []\<rparr>)"
    using m3(2-4,6) unfolding missile_at_def t [symmetric] by (simp add: m4_def model_ops m2_def)
  ultimately show thesis using m3(5) by (intro that) (auto simp: m4_def model_ops)
qed

subsection \<open>Deliveries\<close>

definition drains :: "nat \<Rightarrow> net \<Rightarrow> (net \<Rightarrow> bool) \<Rightarrow> bool" where
  "drains f s P \<longleftrightarrow> (\<exists>s'. drain_flight f s = Some s' \<and> P s')"

lemma drains_done: "in_frame j k pr [] s \<Longrightarrow> P s \<Longrightarrow> drains f s P"
  by (simp add: drains_def in_frame_def)

lemma drains_step:
  "0 < f \<Longrightarrow> flight s = (n, u, x) # F \<Longrightarrow> receive n u x (s\<lparr>flight := F\<rparr>) = Some s1 \<Longrightarrow> drains (f - 1) s1 P \<Longrightarrow> drains f s P"
  by (cases f) (simp_all add: drains_def)

text \<open>A part of the progress matters to the models it is about only.\<close>

lemma progress_irrelevant [simp]:
  "target_at j (pr\<lparr>on1 := b\<rparr>) = target_at j pr" "target_at j (pr\<lparr>la1 := b\<rparr>) = target_at j pr" "target_at j (pr\<lparr>de1 := b\<rparr>) = target_at j pr"
  "target_at j (pr\<lparr>on2 := b\<rparr>) = target_at j pr" "target_at j (pr\<lparr>la2 := b\<rparr>) = target_at j pr" "target_at j (pr\<lparr>la3 := b\<rparr>) = target_at j pr"
  "target_at j (pr\<lparr>la4 := b\<rparr>) = target_at j pr" "toc_at t (pr\<lparr>on2 := b\<rparr>) = toc_at t pr" "toc_at t (pr\<lparr>la2 := b\<rparr>) = toc_at t pr"
  "toc_at t (pr\<lparr>la3 := b\<rparr>) = toc_at t pr" "toc_at t (pr\<lparr>la4 := b\<rparr>) = toc_at t pr" "toc_at t (pr\<lparr>de2 := b\<rparr>) = toc_at t pr"
  "trk_at t (pr\<lparr>on1 := b\<rparr>) = trk_at t pr" "trk_at t (pr\<lparr>la1 := b\<rparr>) = trk_at t pr" "trk_at t (pr\<lparr>de1 := b\<rparr>) = trk_at t pr"
  "trk_at t (pr\<lparr>la3 := b\<rparr>) = trk_at t pr" "trk_at t (pr\<lparr>la4 := b\<rparr>) = trk_at t pr" "trk_at t (pr\<lparr>de2 := b\<rparr>) = trk_at t pr"
  "launcher_at (pr\<lparr>on1 := b\<rparr>) = launcher_at pr" "launcher_at (pr\<lparr>la1 := b\<rparr>) = launcher_at pr" "launcher_at (pr\<lparr>de1 := b\<rparr>) = launcher_at pr"
  "launcher_at (pr\<lparr>on2 := b\<rparr>) = launcher_at pr" "launcher_at (pr\<lparr>la2 := b\<rparr>) = launcher_at pr" "launcher_at (pr\<lparr>la4 := b\<rparr>) = launcher_at pr"
  "launcher_at (pr\<lparr>de2 := b\<rparr>) = launcher_at pr"
  "missile_at j k t (pr\<lparr>on1 := b\<rparr>) = missile_at j k t pr" "missile_at j k t (pr\<lparr>la1 := b\<rparr>) = missile_at j k t pr"
  "missile_at j k t (pr\<lparr>de1 := b\<rparr>) = missile_at j k t pr" "missile_at j k t (pr\<lparr>on2 := b\<rparr>) = missile_at j k t pr"
  "missile_at j k t (pr\<lparr>la2 := b\<rparr>) = missile_at j k t pr" "missile_at j k t (pr\<lparr>la3 := b\<rparr>) = missile_at j k t pr"
  "missile_at j k t (pr\<lparr>de2 := b\<rparr>) = missile_at j k t pr"
  by (simp_all add: ats fun_eq_iff)

lemma in_frameD:
  assumes "in_frame j k pr F s"
  shows "target_at j pr (targets s 1)" "sr_at (real j / 10) (net_sr s)" "toc_at (real j / 10) pr (net_toc s)"
    "trk_at (real j / 10) pr (net_trk s)" "launcher_at pr (net_launcher s)" "missile_at j k (real j / 10) pr (missiles s 1)"
  using assms by (simp_all add: in_frame_def)

lemma deliver_sr:
  assumes s: "in_frame j k pr ((NSr, u, TruthTargetStates t' p a 1) # F) s"
    and f: "0 < f" and cont: "\<And>s1. in_frame j k pr (F @ (if ground_range p \<le> 30000 then [(NTOC, Some 1, SrMeasuredTargetStates (real j / 10) p 1)] else [])) s1 \<Longrightarrow> drains (f - 1) s1 P"
  shows "drains f s P"
proof -
  obtain m' where r: "run_model (\<lambda>m. Some (Sr_processTargetInput p 1 m)) (net_sr s) =
      Some (m', if ground_range p \<le> 30000 then [Publish (Some 1) (SrMeasuredTargetStates (real j / 10) p 1)] else [])" "sr_at (real j / 10) m'"
    using sr_hears [OF in_frameD(2) [OF s]] by blast
  show ?thesis
    by (rule drains_step [OF f _ _ cont]) (use s r in \<open>auto simp: in_frame_def on_defs send_all_def\<close>)
qed

lemma deliver_trk_truth:
  assumes s: "in_frame j k pr ((NTrkRadar, u, TruthTargetStates t' p a 1) # F) s"
    and "on2 pr \<longrightarrow> j \<noteq> 1125"
    and f: "0 < f" and cont: "\<And>s1. in_frame j k pr (F @ (if on2 pr then [(NTOC, Some 1, TrkRadarMeasuredTargetStates (real j / 10) p 1)] else []) @
      (if la2 pr then [(NMissile 1, Some 1, TrkRadarUplink (real j / 10) p 1)] else [])) s1 \<Longrightarrow> drains (f - 1) s1 P"
  shows "drains f s P"
proof -
  obtain m' where r: "run_model (doTrackTarget p 1) (net_trk s) =
      Some (m', (if on2 pr then [Publish (Some 1) (TrkRadarMeasuredTargetStates (real j / 10) p 1)] else []) @
                (if la2 pr then [Publish (Some 1) (TrkRadarUplink (real j / 10) p 1)] else []))" "trk_at (real j / 10) pr m'"
    using trk_hears_truth [OF in_frameD(4) [OF s]] assms(2) by auto
  show ?thesis
    by (rule drains_step [OF f _ _ cont]) (use s r in \<open>auto simp: in_frame_def on_defs send_all_def\<close>)
qed

lemma deliver_toc_sr:
  assumes s: "in_frame j k pr ((NTOC, u, SrMeasuredTargetStates t' p 1) # F) s"
    and f: "0 < f" and cont: "\<And>s1. in_frame j k (pr\<lparr>on1 := on1 pr \<or> ground_range p \<le> 25000\<rparr>) (F @ (if ground_range p \<le> 25000 \<and> \<not> on1 pr then [(NTrkRadar, None, TrkRadarOnCmd (real j / 10) True 1)] else [])) s1 \<Longrightarrow> drains (f - 1) s1 P"
  shows "drains f s P"
proof -
  obtain m' where r: "run_model (processSrInput p 1) (net_toc s) =
      Some (m', if ground_range p \<le> 25000 \<and> \<not> on1 pr then [Publish None (TrkRadarOnCmd (real j / 10) True 1)] else [])"
      "toc_at (real j / 10) (pr\<lparr>on1 := on1 pr \<or> ground_range p \<le> 25000\<rparr>) m'"
    using toc_hears_sr [OF in_frameD(3) [OF s]] by blast
  show ?thesis
    by (rule drains_step [OF f _ _ cont]) (use s r in \<open>auto simp: in_frame_def on_defs send_all_def\<close>)
qed

lemma deliver_toc_trk:
  assumes s: "in_frame j k pr ((NTOC, u, TrkRadarMeasuredTargetStates t' p 1) # F) s"
    and f: "0 < f" and cont: "\<And>s1. in_frame j k (pr\<lparr>la1 := la1 pr \<or> mX p \<le> 17340, de1 := de1 pr \<or> mX p \<le> 13346.67\<rparr>) 
      (F @ (if mX p \<le> 17340 \<and> \<not> la1 pr then [(NLauncher, Some 1, LaunchRequest (real j / 10 + 1 / 10) 1)] else []) @
       (if mX p \<le> 13346.67 \<and> \<not> de1 pr then [(NTarget 1, Some 1, TargetDestroyed (real j / 10) True 1)] else [])) s1 \<Longrightarrow> drains (f - 1) s1 P"
  shows "drains f s P"
proof -
  obtain m' where r: "run_model (processTrkRadarInputToc p 1) (net_toc s) =
      Some (m', (if mX p \<le> 17340 \<and> \<not> la1 pr then [Publish (Some 1) (LaunchRequest (real j / 10 + 1 / 10) 1)] else []) @
                (if mX p \<le> 13346.67 \<and> \<not> de1 pr then [Publish (Some 1) (TargetDestroyed (real j / 10) True 1)] else []))"
      "toc_at (real j / 10) (pr\<lparr>la1 := la1 pr \<or> mX p \<le> 17340, de1 := de1 pr \<or> mX p \<le> 13346.67\<rparr>) m'"
    using toc_hears_trk [OF in_frameD(3) [OF s]] by blast
  show ?thesis
    by (rule drains_step [OF f _ _ cont]) (use s r in \<open>auto simp: in_frame_def on_defs send_all_def\<close>)
qed

lemma deliver_trk_on:
  assumes s: "in_frame j k pr ((NTrkRadar, u, TrkRadarOnCmd t' True 1) # F) s"
    and "j = 1125"
    and f: "0 < f" and cont: "\<And>s1. in_frame j k (pr\<lparr>on2 := True\<rparr>) F s1 \<Longrightarrow> drains (f - 1) s1 P"
  shows "drains f s P"
proof -
  obtain m' where r: "run_model (processTrkRadarOn True 1) (net_trk s) = Some (m', [])" "trk_at (real j / 10) (pr\<lparr>on2 := True\<rparr>) m'"
    using trk_goes_on [of pr "net_trk s"] in_frameD(4) [OF s] assms(2) by auto
  show ?thesis
    by (rule drains_step [OF f _ _ cont]) (use s r in \<open>auto simp: in_frame_def on_defs send_all_def\<close>)
qed

lemma deliver_trk_launch:
  assumes s: "in_frame j k pr ((NTrkRadar, u, LaunchCmd t' 1) # F) s"
    and f: "0 < f" and cont: "\<And>s1. in_frame j k (pr\<lparr>la2 := True\<rparr>) F s1 \<Longrightarrow> drains (f - 1) s1 P"
  shows "drains f s P"
proof -
  obtain m' where r: "run_model (missileAway 1) (net_trk s) = Some (m', [])" "trk_at (real j / 10) (pr\<lparr>la2 := True\<rparr>) m'"
    using trk_hears_launch [OF in_frameD(4) [OF s]] by blast
  show ?thesis
    by (rule drains_step [OF f _ _ cont]) (use s r in \<open>auto simp: in_frame_def on_defs send_all_def\<close>)
qed

lemma deliver_trk_downlink:
  assumes s: "in_frame j k pr ((NTrkRadar, u, MissileDownlink t' p a 1) # F) s"
    and f: "0 < f" and cont: "\<And>s1. in_frame j k pr F s1 \<Longrightarrow> drains (f - 1) s1 P"
  shows "drains f s P"
proof -
  obtain m' where r: "run_model (processDownlink p 1) (net_trk s) = Some (m', [])" "trk_at (real j / 10) pr m'"
    using trk_hears_downlink [OF in_frameD(4) [OF s]] by blast
  show ?thesis
    by (rule drains_step [OF f _ _ cont]) (use s r in \<open>auto simp: in_frame_def on_defs send_all_def\<close>)
qed

lemma deliver_launcher:
  assumes s: "in_frame j k pr ((NLauncher, u, LaunchRequest t' 1) # F) s"
    and "\<not> la3 pr"
    and f: "0 < f" and cont: "\<And>s1. in_frame j k (pr\<lparr>la3 := True\<rparr>) (F @ [(NTrkRadar, Some 1, LaunchCmd t' 1), (NMissile 1, Some 1, LaunchCmd t' 1)]) s1 \<Longrightarrow> drains (f - 1) s1 P"
  shows "drains f s P"
proof -
  obtain m' where r: "run_model (Launcher_launchMissile t' 1) (net_launcher s) = Some (m', [Publish (Some 1) (LaunchCmd t' 1)])"
      "launcher_at (pr\<lparr>la3 := True\<rparr>) m'"
    using launcher_fires [OF in_frameD(5) [OF s] assms(2)] by blast
  show ?thesis
    by (rule drains_step [OF f _ _ cont]) (use s r in \<open>auto simp: in_frame_def on_defs send_all_def\<close>)
qed

lemma deliver_missile_launch:
  assumes s: "in_frame j k pr ((NMissile 1, u, LaunchCmd 170 1) # F) s"
    and f: "0 < f" and cont: "\<And>s1. in_frame j k (pr\<lparr>la4 := True\<rparr>) F s1 \<Longrightarrow> drains (f - 1) s1 P"
  shows "drains f s P"
proof -
  obtain m' where r: "run_model (\<lambda>m. Some (Missile_doLaunchCmd 170 m)) (missiles s 1) = Some (m', [])"
      "missile_at j k (real j / 10) (pr\<lparr>la4 := True\<rparr>) m'"
    using missile_hears_launch [OF in_frameD(6) [OF s]] by blast
  show ?thesis
    by (rule drains_step [OF f _ _ cont]) (use s r in \<open>auto simp: in_frame_def on_defs send_all_def\<close>)
qed

lemma deliver_target_end:
  assumes s: "in_frame j k pr ((NTarget 1, u, TargetDestroyed t' d 1) # F) s"
    and f: "0 < f" and cont: "\<And>s1. in_frame j k (pr\<lparr>de2 := True\<rparr>) F s1 \<Longrightarrow> drains (f - 1) s1 P"
  shows "drains f s P"
proof -
  obtain m' where r: "run_model (\<lambda>m. Some (doTargetDestroyed m)) (targets s 1) = Some (m', [])" "target_at j (pr\<lparr>de2 := True\<rparr>) m'"
    using target_hears_end [OF in_frameD(1) [OF s]] by blast
  show ?thesis
    by (rule drains_step [OF f _ _ cont]) (use s r in \<open>auto simp: in_frame_def on_defs send_all_def\<close>)
qed

lemma deliver_uplink:
  assumes s: "in_frame j k pr ((NMissile 1, Some 1, TrkRadarUplink t' p 1) # F) s" and "la4 pr" "1700 \<le> j"
    and f: "0 < f" and cont: "\<And>s1 q a. in_frame j j pr (F @ [(NTrkRadar, None, MissileDownlink (real j / 10) q a 1)]) s1 \<Longrightarrow> drains (f - 1) s1 P"
  shows "drains f s P"
proof -
  obtain m' q a where r: "run_model (Missile_doStep 1) (missiles s 1) =
      Some (m', [Publish None (MissileDownlink (real j / 10) q a 1)])" "missile_at j j (real j / 10) pr m'"
    using missile_flies [OF in_frameD(6) [OF s] assms(2) refl assms(3)] by blast
  show ?thesis
    by (rule drains_step [OF f _ _ cont]) (use s r in \<open>auto simp: in_frame_def on_defs send_all_def\<close>)
qed

subsection \<open>A frame\<close>

lemma archive_at:
  assumes "\<not> mdl_save m"
  shows "run_model (\<lambda>m. Some (1, archive name (m\<lparr>mdl_time := t\<rparr>))) m = Some (m\<lparr>mdl_time := t, mdl_out := []\<rparr>, [])"
  using assms by (simp add: model_ops)

lemma frame_begins:
  assumes s: "in_frame k k pr [] s" and "\<not> de2 pr" "k < 1999"
  obtains s' a where "start_frames (real (Suc k) / 10) [NSr, NTOC, NTrkRadar, NLauncher, NMissile 1, NTarget 1] s = Some s'"
    "in_frame (Suc k) k pr [(NSr, None, TruthTargetStates (real (Suc k) / 10) (target_place (Suc k)) a 1),
       (NTrkRadar, None, TruthTargetStates (real (Suc k) / 10) (target_place (Suc k)) a 1)] s'"
proof -
  note D = in_frameD [OF s]
  have saves: "\<not> mdl_save (net_sr s)" "\<not> mdl_save (net_toc s)" "\<not> mdl_save (net_trk s)" "\<not> mdl_save (net_launcher s)"
    using D by (simp_all add: ats)
  obtain mm cs where mm: "run_model (\<lambda>m. Some (1, Missile_Step (m\<lparr>mdl_time := real (Suc k) / 10\<rparr>))) (missiles s 1) = Some (mm, cs)"
      "concat (map in_flight cs) = []" "missile_at (Suc k) k (real (Suc k) / 10) pr mm"
    using missile_waits [OF D(6)] by (metis neq0_conv zero_less_numeral)
  obtain mt a where mt: "run_model (\<lambda>m. Some (1, TargetModel_Step (m\<lparr>mdl_time := real (Suc k) / 10\<rparr>))) (targets s 1) =
      Some (mt, [Publish None (TruthTargetStates (real (Suc k) / 10) (target_place (Suc k)) a 1)])" "target_at (Suc k) pr mt"
    using target_flies [OF D(1) assms(2,3)] by blast
  have ats': "sr_at t (net_sr s\<lparr>mdl_time := t, mdl_out := []\<rparr>)" "toc_at t pr (net_toc s\<lparr>mdl_time := t, mdl_out := []\<rparr>)"
    "trk_at t pr (net_trk s\<lparr>mdl_time := t, mdl_out := []\<rparr>)" "launcher_at pr (net_launcher s\<lparr>mdl_time := t, mdl_out := []\<rparr>)" for t
    using D by (simp_all add: ats)
  show thesis
  proof (rule that)
    show "start_frames (real (Suc k) / 10) [NSr, NTOC, NTrkRadar, NLauncher, NMissile 1, NTarget 1] s =
      Some (send_all (NTarget 1) [Publish None (TruthTargetStates (real (Suc k) / 10) (target_place (Suc k)) a 1)]
        ((send_all (NMissile 1) cs (s\<lparr>net_sr := net_sr s\<lparr>mdl_time := real (Suc k) / 10, mdl_out := []\<rparr>,
            net_toc := net_toc s\<lparr>mdl_time := real (Suc k) / 10, mdl_out := []\<rparr>,
            net_trk := net_trk s\<lparr>mdl_time := real (Suc k) / 10, mdl_out := []\<rparr>,
            net_launcher := net_launcher s\<lparr>mdl_time := real (Suc k) / 10, mdl_out := []\<rparr>,
            missiles := (missiles s)(1 := mm)\<rparr>))\<lparr>targets := (targets s)(1 := mt)\<rparr>))"
      using mm(1) mt(1) saves by (simp add: on_defs archive_at send_all_def del: of_nat_Suc)
    show "in_frame (Suc k) k pr [(NSr, None, TruthTargetStates (real (Suc k) / 10) (target_place (Suc k)) a 1),
       (NTrkRadar, None, TruthTargetStates (real (Suc k) / 10) (target_place (Suc k)) a 1)]
      (send_all (NTarget 1) [Publish None (TruthTargetStates (real (Suc k) / 10) (target_place (Suc k)) a 1)]
        ((send_all (NMissile 1) cs (s\<lparr>net_sr := net_sr s\<lparr>mdl_time := real (Suc k) / 10, mdl_out := []\<rparr>,
            net_toc := net_toc s\<lparr>mdl_time := real (Suc k) / 10, mdl_out := []\<rparr>,
            net_trk := net_trk s\<lparr>mdl_time := real (Suc k) / 10, mdl_out := []\<rparr>,
            net_launcher := net_launcher s\<lparr>mdl_time := real (Suc k) / 10, mdl_out := []\<rparr>,
            missiles := (missiles s)(1 := mm)\<rparr>))\<lparr>targets := (targets s)(1 := mt)\<rparr>))"
      using mm(2,3) mt(2) ats' s by (simp add: in_frame_def send_all_def del: of_nat_Suc)
  qed
qed

lemma before_flight: "in_frame j k pr F s \<Longrightarrow> k < 1700 \<Longrightarrow> j < 1700 \<Longrightarrow> in_frame j j pr F s"
  by (simp add: in_frame_def missile_at_def)

lemma near: "j \<le> 1999 \<Longrightarrow> ground_range (target_place j) \<le> 30000 \<longleftrightarrow> 750 \<le> j"
  "j \<le> 1999 \<Longrightarrow> ground_range (target_place j) \<le> 25000 \<longleftrightarrow> 1125 \<le> j"
  by (simp_all only: ground_range_target target_x_bounds)

lemma near_x: "mX (target_place j) \<le> 17340 \<longleftrightarrow> 1699 \<le> j" "mX (target_place j) \<le> 13346.67 \<longleftrightarrow> 1999 \<le> j"
  by (simp_all only: target_x_bounds target_place_def Vec3_sel)

text \<open>The deliveries of frame \<open>j\<close>, in the seven phases of the engagement.\<close>

definition begun :: "nat \<Rightarrow> progress \<Rightarrow> net \<Rightarrow> bool" where
  "begun j pr s \<longleftrightarrow> (\<exists>a. in_frame j (j - 1) pr
     [(NSr, None, TruthTargetStates (real j / 10) (target_place j) a 1),
      (NTrkRadar, None, TruthTargetStates (real j / 10) (target_place j) a 1)] s)"

lemma begunE:
  assumes "begun j pr s"
    and "\<And>a. in_frame j (j - 1) pr [(NSr, None, TruthTargetStates (real j / 10) (target_place j) a 1),
      (NTrkRadar, None, TruthTargetStates (real j / 10) (target_place j) a 1)] s \<Longrightarrow> drains f s P"
  shows "drains f s P"
  using assms by (auto simp: begun_def)

lemmas phase_simps = near near_x near_x [simplified] progress_of_def

lemma phase_far:
  assumes "begun j (progress_of False False False) s" "j < 750"
  shows "drains 12 s (in_frame j j (progress_of False False False) [])"
  apply (rule begunE [OF assms(1)], erule deliver_sr, simp)
  apply (use assms(2-) in \<open>simp add: phase_simps\<close>)
  apply (erule deliver_trk_truth, use assms(2-) in \<open>simp add: phase_simps\<close>, simp, use assms(2-) in \<open>simp add: phase_simps\<close>)
  apply (rule drains_done, assumption)
  apply (drule before_flight)
  apply (use assms(2-) in \<open>simp_all add: phase_simps\<close>)
  done

lemma phase_detected:
  assumes "begun j (progress_of False False False) s" "750 \<le> j" "j < 1125"
  shows "drains 12 s (in_frame j j (progress_of False False False) [])"
  apply (rule begunE [OF assms(1)], erule deliver_sr, simp)
  apply (use assms(2-) in \<open>simp add: phase_simps\<close>)
  apply (erule deliver_trk_truth, use assms(2-) in \<open>simp add: phase_simps\<close>, simp, use assms(2-) in \<open>simp add: phase_simps\<close>)
  apply (erule deliver_toc_sr, simp, use assms(2-) in \<open>simp add: phase_simps\<close>)
  apply (rule drains_done, assumption)
  apply (drule before_flight)
  apply (use assms(2-) in \<open>simp_all add: phase_simps\<close>)
  done

lemma phase_radar_on:
  assumes "begun j (progress_of False False False) s" "j = 1125"
  shows "drains 12 s (in_frame j j (progress_of True False False) [])"
  apply (rule begunE [OF assms(1)], erule deliver_sr, simp)
  apply (use assms(2-) in \<open>simp add: phase_simps\<close>)
  apply (erule deliver_trk_truth, use assms(2-) in \<open>simp add: phase_simps\<close>, simp, use assms(2-) in \<open>simp add: phase_simps\<close>)
  apply (erule deliver_toc_sr, simp, use assms(2-) in \<open>simp add: phase_simps\<close>)
  apply (erule deliver_trk_on, use assms(2-) in simp, simp, use assms(2-) in \<open>simp add: phase_simps\<close>)
  apply (rule drains_done, assumption)
  apply (drule before_flight)
  apply (use assms(2-) in \<open>simp_all add: phase_simps\<close>)
  done

lemma phase_tracked:
  assumes "begun j (progress_of True False False) s" "1125 < j" "j < 1699"
  shows "drains 12 s (in_frame j j (progress_of True False False) [])"
  apply (rule begunE [OF assms(1)], erule deliver_sr, simp)
  apply (use assms(2-) in \<open>simp add: phase_simps\<close>)
  apply (erule deliver_trk_truth, use assms(2-) in \<open>simp add: phase_simps\<close>, simp, use assms(2-) in \<open>simp add: phase_simps\<close>)
  apply (erule deliver_toc_sr, simp, use assms(2-) in \<open>simp add: phase_simps\<close>)
  apply (erule deliver_toc_trk, simp, use assms(2-) in \<open>simp add: phase_simps\<close>)
  apply (rule drains_done, assumption)
  apply (drule before_flight)
  apply (use assms(2-) in \<open>simp_all add: phase_simps\<close>)
  done

lemma phase_launch:
  assumes "begun j (progress_of True False False) s" "j = 1699"
  shows "drains 12 s (in_frame j j (progress_of True True False) [])"
  apply (rule begunE [OF assms(1)], erule deliver_sr, simp)
  apply (use assms(2-) in \<open>simp add: phase_simps\<close>)
  apply (erule deliver_trk_truth, use assms(2-) in \<open>simp add: phase_simps\<close>, simp, use assms(2-) in \<open>simp add: phase_simps\<close>)
  apply (erule deliver_toc_sr, simp, use assms(2-) in \<open>simp add: phase_simps\<close>)
  apply (erule deliver_toc_trk, simp, use assms(2-) in \<open>simp add: phase_simps\<close>)
  apply (erule deliver_launcher, simp add: phase_simps, simp, use assms(2-) in \<open>simp add: phase_simps\<close>)
  apply (erule deliver_trk_launch, simp, use assms(2-) in \<open>simp add: phase_simps\<close>)
  apply (erule deliver_missile_launch, simp, use assms(2-) in \<open>simp add: phase_simps\<close>)
  apply (rule drains_done, assumption)
  apply (drule before_flight)
  apply (use assms(2-) in \<open>simp_all add: phase_simps\<close>)
  done

lemma phase_flight:
  assumes "begun j (progress_of True True False) s" "1699 < j" "j < 1999"
  shows "drains 12 s (in_frame j j (progress_of True True False) [])"
  apply (rule begunE [OF assms(1)], erule deliver_sr, simp)
  apply (use assms(2-) in \<open>simp add: phase_simps\<close>)
  apply (erule deliver_trk_truth, use assms(2-) in \<open>simp add: phase_simps\<close>, simp, use assms(2-) in \<open>simp add: phase_simps\<close>)
  apply (erule deliver_toc_sr, simp, use assms(2-) in \<open>simp add: phase_simps\<close>)
  apply (erule deliver_toc_trk, simp, use assms(2-) in \<open>simp add: phase_simps\<close>)
  apply (erule deliver_uplink, simp add: phase_simps, use assms(2-) in simp, simp, use assms(2-) in \<open>simp add: phase_simps\<close>)
  apply (erule deliver_trk_downlink, simp, use assms(2-) in \<open>simp add: phase_simps\<close>)
  apply (rule drains_done, assumption)
  apply (use assms(2-) in \<open>simp_all add: phase_simps\<close>)
  done

lemma phase_destroyed:
  assumes "begun j (progress_of True True False) s" "j = 1999"
  shows "drains 12 s (in_frame j j (progress_of True True True) [])"
  apply (rule begunE [OF assms(1)], erule deliver_sr, simp)
  apply (use assms(2-) in \<open>simp add: phase_simps\<close>)
  apply (erule deliver_trk_truth, use assms(2-) in \<open>simp add: phase_simps\<close>, simp, use assms(2-) in \<open>simp add: phase_simps\<close>)
  apply (erule deliver_toc_sr, simp, use assms(2-) in \<open>simp add: phase_simps\<close>)
  apply (erule deliver_toc_trk, simp, use assms(2-) in \<open>simp add: phase_simps\<close>)
  apply (erule deliver_uplink, simp add: phase_simps, use assms(2-) in simp, simp, use assms(2-) in \<open>simp add: phase_simps\<close>)
  apply (erule deliver_target_end, simp, use assms(2-) in \<open>simp add: phase_simps\<close>)
  apply (erule deliver_trk_downlink, simp, use assms(2-) in \<open>simp add: phase_simps\<close>)
  apply (rule drains_done, assumption)
  apply (use assms(2-) in \<open>simp_all add: phase_simps\<close>)
  done

lemma frame_played:
  assumes s: "in_frame k k (progress_at k) [] s" and k: "k < 1999"
  obtains s' where "play_frame (Suc k) s = Some s'" "in_frame (Suc k) (Suc k) (progress_at (Suc k)) [] s'"
proof -
  have "\<not> de2 (progress_at k)" using k by (simp add: progress_at_def progress_of_def)
  from frame_begins [OF s this k] obtain s1 where
    1: "start_frames (real (Suc k) / 10) [NSr, NTOC, NTrkRadar, NLauncher, NMissile 1, NTarget 1] s = Some s1"
    and begun: "begun (Suc k) (progress_at k) s1"
    unfolding begun_def diff_Suc_1 by metis
  have "drains 12 s1 (in_frame (Suc k) (Suc k) (progress_at (Suc k)) [])"
  proof -
    consider "Suc k < 750" | "750 \<le> Suc k" "Suc k < 1125" | "Suc k = 1125" | "1125 < Suc k" "Suc k < 1699" | "Suc k = 1699"
      | "1699 < Suc k" "Suc k < 1999" | "Suc k = 1999"
      using k by linarith
    then show ?thesis
      using begun unfolding progress_at_def
      by cases (use phase_far phase_detected phase_radar_on phase_tracked phase_launch phase_flight phase_destroyed in \<open>simp_all add: not_le\<close>)
  qed
  then show thesis
    using 1 that by (auto simp: drains_def play_frame_def simp del: start_frames.simps of_nat_Suc)
qed

lemma played:
  assumes "in_frame 0 0 (progress_at 0) [] s" "k \<le> 1999"
  obtains s' where "play k s = Some s'" "in_frame k k (progress_at k) [] s'"
  using assms(2)
proof (induction k arbitrary: thesis)
  case 0
  then show ?case using assms(1) by simp
next
  case (Suc k)
  from Suc.prems(2) obtain s1 where "play k s = Some s1" "in_frame k k (progress_at k) [] s1" using Suc.IH by (metis Suc_leD)
  moreover from this obtain s2 where "play_frame (Suc k) s1 = Some s2" "in_frame (Suc k) (Suc k) (progress_at (Suc k)) [] s2"
    using frame_played Suc.prems(2) by (metis Suc_le_lessD)
  ultimately show ?case using Suc.prems(1) by (simp del: of_nat_Suc)
qed

section \<open>The engagement\<close>

text \<open>The models before the case: at time 0, with ten frames a second, not archiving; the target has not been destroyed before.\<close>

definition ready :: "net \<Rightarrow> bool" where
  "ready s \<longleftrightarrow> arrays_ok s \<and> units_ok s \<and> mdl_rate (net_toc s) = 1 / 10 \<and> mdl_rate (missiles s 1) = 1 / 10 \<and>
     mdl_frequency (missiles s 1) = 10 \<and> mdl_time (net_sr s) = 0 \<and> mdl_time (net_toc s) = 0 \<and> mdl_time (net_trk s) = 0 \<and>
     mdl_time (missiles s 1) = 0 \<and> \<not> mdl_save (targets s 1) \<and> \<not> mdl_save (net_sr s) \<and> \<not> mdl_save (net_toc s) \<and>
     \<not> mdl_save (net_trk s) \<and> \<not> mdl_save (net_launcher s) \<and> \<not> mdl_save (missiles s 1) \<and> \<not> tg_destroyed (targets s 1)"

text \<open>The default configuration gives every parameter its default.\<close>

definition defaults :: "string \<Rightarrow> real \<Rightarrow> real" where
  "defaults e d = d"

lemma length_3: "length xs = 3 \<Longrightarrow> \<exists>a b c. xs = [a, b, c]"
  by (auto simp: numeral_3_eq_3 length_Suc_conv)

lemma Missile_InitCase_1:
  "mdl_unit m = 1 \<Longrightarrow> mdl_frequency m = 10 \<Longrightarrow> Missile_InitCase m = Some m' \<Longrightarrow>
    mdl_unit m' = 1 \<and> mdl_time m' = mdl_time m \<and> mdl_rate m' = mdl_rate m \<and> mdl_save m' = mdl_save m \<and> \<not> ms_launchMissile m' \<and>
    ms_initialTurnTime m' = 3 \<and> ms_xRangeInitial m' = missile_r1 \<and> ms_alphaInitial m' = missile_v1 \<and> ms_alphaTurn m' = missile_v2 \<and>
    ms_alphaY m' = 0"
  by (auto simp: Missile_InitCase_def missile_r1_def missile_v1_def missile_v2_def Let_def)

lemma ready_starts:
  assumes "ready s" "Missile_InitCase (missiles s 1) = Some (ms 1)"
  shows "in_frame 0 0 (progress_at 0) [] (init_net defaults ms s)"
proof -
  have "missile_at 0 0 0 (progress_at 0) (ms 1)"
    using Missile_InitCase_1 [OF _ _ assms(2)] assms(1) by (simp add: ready_def units_ok_def missile_at_def progress_at_def progress_of_def)
  moreover have "target_at 0 (progress_at 0) (TargetModel_InitCase defaults (targets s 1))"
    using assms(1) unfolding target_at_def target_x_def target_speed_def
    by (simp add: TargetModel_InitCase_def defaults_def ready_def units_ok_def progress_at_def progress_of_def base_do_def Let_def)
  ultimately show ?thesis
    using assms(1) length_3 [of "timeStampRadarOn (net_trk s)"]
    by (simp add: in_frame_def init_net_def ready_def arrays_ok_def sr_at_def toc_at_def trk_at_def launcher_at_def Sr_InitCase_def
        TOC_InitCase_def TrkRadar_InitCase_def Launcher_InitCase_def progress_at_def progress_of_def numeral_3_eq_3)
qed

lemma meeting_point:
  "missile_x (1999 / 10 - 170) = target_x 1999" "\<bar>missile_z (1999 / 10 - 170) - mZ (target_place 1999)\<bar> < 0.1"
proof -
  show x: "missile_x (1999 / 10 - 170) = target_x 1999"
    by (simp add: missile_x_def missile_v2_def missile_r1_def target_x_def target_speed_def)
  have tx: "target_x 1999 = 1333333 / 100" by (simp add: target_x_def target_speed_def)
  have mx: "missile_x (1999 / 10 - 170) = 1333333 / 100" unfolding x by (rule tx)
  show "\<bar>missile_z (1999 / 10 - 170) - mZ (target_place 1999)\<bar> < 0.1"
    unfolding missile_z_def mx target_place_def tx Vec3_sel M_TO_KM_def KM_TO_M_def by simp
qed

text \<open>
  C12.
  The default engagement ends in an intercept. Played frame by frame at 10 Hz with the default parameters, no handler leaves its
  arrays, the track radar is on exactly from frame 1125, the missile is launched exactly from frame 1699, and the target is
  destroyed in frame 1999 and not before. In that frame missile and target are at the same distance and in the same plane, and less than
  10 cm apart in height.\<close>

theorem default_engagement_intercepts:
  assumes "ready s" "Missile_InitCase (missiles s 1) = Some (ms 1)"
  shows "(\<forall>k\<le>1999. \<exists>s'. play k (init_net defaults ms s) = Some s' \<and> flight s' = [] \<and>
      (trkRadarOn (net_trk s') ! 0 \<longleftrightarrow> 1125 \<le> k) \<and> (ms_launchMissile (missiles s' 1) \<longleftrightarrow> 1699 \<le> k) \<and>
      (tg_destroyed (targets s' 1) \<longleftrightarrow> k = 1999)) \<and>
    (\<exists>s'. play 1999 (init_net defaults ms s) = Some s' \<and>
      mX (ms_position (missiles s' 1)) = mX (tg_position (targets s' 1)) \<and>
      mY (ms_position (missiles s' 1)) = mY (tg_position (targets s' 1)) \<and>
      \<bar>mZ (ms_position (missiles s' 1)) - mZ (tg_position (targets s' 1))\<bar> < 0.1)"
proof (intro conjI allI impI)
  note start = ready_starts [where ms = ms, OF assms]
  show "\<exists>s'. play k (init_net defaults ms s) = Some s' \<and> flight s' = [] \<and>
      (trkRadarOn (net_trk s') ! 0 \<longleftrightarrow> 1125 \<le> k) \<and> (ms_launchMissile (missiles s' 1) \<longleftrightarrow> 1699 \<le> k) \<and>
      (tg_destroyed (targets s' 1) \<longleftrightarrow> k = 1999)" if "k \<le> 1999" for k
    using that by (rule played [OF start]) (use that in \<open>auto simp: in_frame_def ats progress_at_def progress_of_def\<close>)
  obtain s' where s': "play 1999 (init_net defaults ms s) = Some s'" "in_frame 1999 1999 (progress_at 1999) [] s'"
    by (rule played [OF start order_refl])
  have pos: "ms_position (missiles s' 1) = Vec3 (missile_x (1999 / 10 - 170)) 0 (missile_z (1999 / 10 - 170))"
    "tg_position (targets s' 1) = target_place 1999"
    using s'(2) by (simp_all add: in_frame_def missile_at_def target_at_def)
  have "mX (target_place 1999) = target_x 1999" "mY (target_place 1999) = 0" by (simp_all add: target_place_def)
  with s'(1) meeting_point show "\<exists>s'. play 1999 (init_net defaults ms s) = Some s' \<and>
      mX (ms_position (missiles s' 1)) = mX (tg_position (targets s' 1)) \<and>
      mY (ms_position (missiles s' 1)) = mY (tg_position (targets s' 1)) \<and>
      \<bar>mZ (ms_position (missiles s' 1)) - mZ (tg_position (targets s' 1))\<bar> < 0.1"
    by (intro exI [of _ s']) (simp only: pos Vec3_sel conj_assoc)
qed

text \<open>Concrete models to start from: a target and a missile of unit 1, all parameters of earlier cases zero.\<close>

definition example_net :: net where
  "example_net =
     \<lparr>targets = (\<lambda>i. \<lparr>mdl_unit = i, mdl_time = 0, mdl_rate = 1 / 10, mdl_frequency = 10, mdl_save = False, mdl_send_count = 0, mdl_out = [],
         tg_position = Vec3 0 0 0, tg_attitude = Vec3 0 0 0, tg_engagementTime = 0, tg_stepSize = 0, tg_xRange = 0, tg_xAxis = 0,
         tg_yAxis = 0, tg_zAxis = 0, tg_roll = 0, tg_pitch = 0, tg_yaw = 0, tg_alpha = 0, tg_alphaZ = 0, tg_alphaZA = 0,
         tg_xInitialCondition = 0, tg_xAxisPrev = 0, tg_yAxisPrev = 0, tg_zAxisPrev = 0, tg_destroyed = False\<rparr>),
      net_sr = \<lparr>mdl_unit = 1, mdl_time = 0, mdl_rate = 1 / 10, mdl_frequency = 10, mdl_save = False, mdl_send_count = 0, mdl_out = [],
         sr_blindZone = 0\<rparr>,
      net_toc = \<lparr>mdl_unit = 1, mdl_time = 0, mdl_rate = 1 / 10, mdl_frequency = 10, mdl_save = False, mdl_send_count = 0, mdl_out = [],
         tocState = 0, mfcrRange = 0, mfcrOnTime = 0, mfcrOn = [False, False, False], toc_launch = [False, False, False],
         tgtdest = [False, False, False], launchRange = 0\<rparr>,
      net_trk = \<lparr>mdl_unit = 1, mdl_time = 0, mdl_rate = 1 / 10, mdl_frequency = 10, mdl_save = False, mdl_send_count = 0, mdl_out = [],
         trk_launchMissile = [False, False, False], trkRadarOn = [False, False, False], timeStampRadarOn = [0, 0, 0],
         trk_missilePosition = [Vec3 0 0 0, Vec3 0 0 0, Vec3 0 0 0]\<rparr>,
      net_launcher = \<lparr>mdl_unit = 1, mdl_time = 0, mdl_rate = 1 / 10, mdl_frequency = 10, mdl_save = False, mdl_send_count = 0, mdl_out = [],
         missileLaunched = [False, False, False]\<rparr>,
      missiles = (\<lambda>i. \<lparr>mdl_unit = i, mdl_time = 0, mdl_rate = 1 / 10, mdl_frequency = 10, mdl_save = False, mdl_send_count = 0, mdl_out = [],
         ms_position = Vec3 0 0 0, ms_attitude = Vec3 0 0 0, ms_launchMissile = False, ms_initialTurnTime = 0, ms_x = 0, ms_y = 0, ms_z = 0,
         ms_xRangeInitial = 0, ms_xRangeTurn = 0, ms_launchTime = 0, ms_timeSinceLaunch = 0, ms_rollRate = 0, ms_roll = 0, ms_pitch = 0,
         ms_deltax = 0, ms_deltay = 0, ms_pitchdist = 0, ms_yaw = 0, ms_stepSizeInitial = 0, ms_stepSizeTurn = 0, ms_alphaInitial = 0,
         ms_alphaTurn = 0, ms_alphaY = 0, ms_xPrev = 0, ms_yPrev = 0, ms_zPrev = 0, ms_once = False\<rparr>),
      flight = [], net_log = []\<rparr>"

definition example_missiles :: "u32 \<Rightarrow> missile_model" where
  "example_missiles i = the (Missile_InitCase (missiles example_net i))"

lemma example_ready: "ready example_net"
  by (simp add: ready_def example_net_def arrays_ok_def units_ok_def)

lemma example_missile_1: "Missile_InitCase (missiles example_net 1) = Some (example_missiles 1)"
  by (simp add: example_missiles_def Missile_InitCase_def example_net_def Let_def)

lemma example_engaged: "engaged {1} defaults (init_net defaults example_missiles example_net)"
  using example_ready example_missile_1 by (intro engaged.start) (auto simp: ready_def)

theorem default_engagement_intercepts_witness:
  "\<exists>s. play 1999 (init_net defaults example_missiles example_net) = Some s \<and> tg_destroyed (targets s 1) \<and>
    mX (ms_position (missiles s 1)) = mX (tg_position (targets s 1))"
proof -
  note d = default_engagement_intercepts [of example_net example_missiles, OF example_ready example_missile_1]
  obtain s where s: "play 1999 (init_net defaults example_missiles example_net) = Some s"
    "mX (ms_position (missiles s 1)) = mX (tg_position (targets s 1))" using conjunct2 [OF d] by blast
  moreover have "tg_destroyed (targets s 1)" using conjunct1 [OF d, rule_format, of 1999] s(1) by simp
  ultimately show ?thesis by blast
qed

end
