(* ===== verification/WeaponsRelease.thy ===== *)
theory WeaponsRelease
  imports DefaultScenario
begin

text \<open>
  What holds of the air defence models in every order of events: no missile without a reason, no command given twice, no access
  outside an array, and what becomes of a target that was destroyed in an earlier case.
\<close>

section \<open>The steps by the model that acts\<close>

inductive_set target_handlers :: "(target_model \<Rightarrow> (int \<times> target_model) option) set" where
  "(\<lambda>m. Some (doTargetDestroyed m)) \<in> target_handlers"
| "(\<lambda>m. Some (1, TargetModel_Step (m\<lparr>mdl_time := t\<rparr>))) \<in> target_handlers"

inductive_set missile_handlers :: "(missile_model \<Rightarrow> (int \<times> missile_model) option) set" where
  "(\<lambda>m. Some (Missile_doLaunchCmd t m)) \<in> missile_handlers"
| "Missile_doStep i \<in> missile_handlers"
| "(\<lambda>m. Some (1, Missile_Step (m\<lparr>mdl_time := t\<rparr>))) \<in> missile_handlers"

inductive_set sr_handlers :: "(sr_model \<Rightarrow> (int \<times> sr_model) option) set" where
  "(\<lambda>m. Some (Sr_processTargetInput p i m)) \<in> sr_handlers"
| "(\<lambda>m. Some (1, archive ''Sr'' (m\<lparr>mdl_time := t\<rparr>))) \<in> sr_handlers"

inductive_set toc_handlers :: "(toc_model \<Rightarrow> (int \<times> toc_model) option) set" where
  "processSrInput p i \<in> toc_handlers"
| "processTrkRadarInputToc p i \<in> toc_handlers"
| "(\<lambda>m. Some (1, archive ''TOC'' (m\<lparr>mdl_time := t\<rparr>))) \<in> toc_handlers"

inductive_set trk_handlers :: "(trk_model \<Rightarrow> (int \<times> trk_model) option) set" where
  "doTrackTarget p i \<in> trk_handlers"
| "processTrkRadarOn on i \<in> trk_handlers"
| "missileAway i \<in> trk_handlers"
| "processDownlink p i \<in> trk_handlers"
| "(\<lambda>m. Some (1, archive ''TrkRadar'' (m\<lparr>mdl_time := t\<rparr>))) \<in> trk_handlers"

inductive_set launcher_handlers :: "(launcher_model \<Rightarrow> (int \<times> launcher_model) option) set" where
  "Launcher_launchMissile t i \<in> launcher_handlers"
| "(\<lambda>m. Some (1, archive ''Launcher'' (m\<lparr>mdl_time := t\<rparr>))) \<in> launcher_handlers"

lemmas handlers = target_handlers.intros missile_handlers.intros sr_handlers.intros toc_handlers.intros trk_handlers.intros
  launcher_handlers.intros

lemmas handler_cases = target_handlers.cases missile_handlers.cases sr_handlers.cases toc_handlers.cases trk_handlers.cases
  launcher_handlers.cases

inductive acts :: "net \<Rightarrow> net \<Rightarrow> bool" where
  none: "acts s s"
| target: "h \<in> target_handlers \<Longrightarrow> run_model h (targets s i) = Some (m, cs) \<Longrightarrow>
    acts s (send_all (NTarget i) cs (s\<lparr>targets := (targets s)(i := m)\<rparr>))"
| missile: "h \<in> missile_handlers \<Longrightarrow> run_model h (missiles s i) = Some (m, cs) \<Longrightarrow>
    acts s (send_all (NMissile i) cs (s\<lparr>missiles := (missiles s)(i := m)\<rparr>))"
| sr: "h \<in> sr_handlers \<Longrightarrow> run_model h (net_sr s) = Some (m, cs) \<Longrightarrow> acts s (send_all NSr cs (s\<lparr>net_sr := m\<rparr>))"
| toc: "h \<in> toc_handlers \<Longrightarrow> run_model h (net_toc s) = Some (m, cs) \<Longrightarrow> acts s (send_all NTOC cs (s\<lparr>net_toc := m\<rparr>))"
| trk: "h \<in> trk_handlers \<Longrightarrow> run_model h (net_trk s) = Some (m, cs) \<Longrightarrow> acts s (send_all NTrkRadar cs (s\<lparr>net_trk := m\<rparr>))"
| launcher: "h \<in> launcher_handlers \<Longrightarrow> run_model h (net_launcher s) = Some (m, cs) \<Longrightarrow>
    acts s (send_all NLauncher cs (s\<lparr>net_launcher := m\<rparr>))"

lemma on_acts:
  "on_target i h1 s = Some s' \<Longrightarrow> h1 \<in> target_handlers \<Longrightarrow> acts s s'"
  "on_missile i h2 s = Some s' \<Longrightarrow> h2 \<in> missile_handlers \<Longrightarrow> acts s s'"
  "on_sr h3 s = Some s' \<Longrightarrow> h3 \<in> sr_handlers \<Longrightarrow> acts s s'"
  "on_toc h4 s = Some s' \<Longrightarrow> h4 \<in> toc_handlers \<Longrightarrow> acts s s'"
  "on_trk h5 s = Some s' \<Longrightarrow> h5 \<in> trk_handlers \<Longrightarrow> acts s s'"
  "on_launcher h6 s = Some s' \<Longrightarrow> h6 \<in> launcher_handlers \<Longrightarrow> acts s s'"
  by (auto simp: on_defs intro: acts.intros)

lemma receive_acts: "receive n u x s = Some s' \<Longrightarrow> acts s s'"
  by (cases "(n, u, x, s)" rule: receive.cases) (auto intro: acts.none handlers elim: on_acts)

lemma frame_acts: "start_frame n t s = Some s' \<Longrightarrow> acts s s'"
  by (cases n) (auto intro: handlers elim: on_acts)

text \<open>
  An invariant of the log and of the models holds in every state of a case when it holds at the start and no model breaks it.
\<close>

locale log_invariant =
  fixes I :: "net \<Rightarrow> bool"
  assumes acts: "acts s s' \<Longrightarrow> I s \<Longrightarrow> I s'" and flight: "I s \<Longrightarrow> I (s\<lparr>flight := f\<rparr>)"
begin

lemma engage: "engage U s s' \<Longrightarrow> I s \<Longrightarrow> I s'"
  by (induction rule: engage.induct) (blast intro: acts flight receive_acts frame_acts)+

lemma engages: "(engage U)\<^sup>*\<^sup>* s s' \<Longrightarrow> I s \<Longrightarrow> I s'"
  by (induction rule: rtranclp_induct) (auto intro: engage)

lemma engaged:
  assumes "engaged U cfg s" "\<And>cfg ms s. I (init_net cfg ms s)"
  shows "I s"
  using assms(1) by (induction rule: engaged.induct) (auto intro: engage assms(2))

end

section \<open>No command twice\<close>

definition entries :: "node \<Rightarrow> (base_call \<Rightarrow> bool) \<Rightarrow> net \<Rightarrow> nat" where
  "entries n P s = length (filter (\<lambda>(n', c). n' = n \<and> P c) (net_log s))"

fun is_radar_on :: "u32 \<Rightarrow> base_call \<Rightarrow> bool" where
  "is_radar_on i (Publish _ (TrkRadarOnCmd _ _ j)) \<longleftrightarrow> j = i" | "is_radar_on i _ \<longleftrightarrow> False"

fun is_request :: "u32 \<Rightarrow> base_call \<Rightarrow> bool" where
  "is_request i (Publish _ (LaunchRequest _ j)) \<longleftrightarrow> j = i" | "is_request i _ \<longleftrightarrow> False"

fun is_report :: "u32 \<Rightarrow> base_call \<Rightarrow> bool" where
  "is_report i (Publish _ (TargetDestroyed _ _ j)) \<longleftrightarrow> j = i" | "is_report i _ \<longleftrightarrow> False"

fun is_launch :: "u32 \<Rightarrow> base_call \<Rightarrow> bool" where
  "is_launch i (Publish _ (LaunchCmd _ j)) \<longleftrightarrow> j = i" | "is_launch i _ \<longleftrightarrow> False"

definition flag :: "bool list \<Rightarrow> u32 \<Rightarrow> nat" where
  "flag xs i = (if array_get xs (unit_index i) = Some True then 1 else 0)"

lemma entries_send_all [simp]:
  "entries n P (send_all n' cs s) = entries n P s + (if n' = n then length (filter P cs) else 0)"
proof -
  have "filter (\<lambda>(n', c). n' = n \<and> P c) (map (Pair n') cs) = (if n' = n then map (Pair n) (filter P cs) else [])"
    by (induction cs) auto
  then show ?thesis by (simp add: entries_def send_all_def)
qed

lemma entries_put [simp]:
  "entries n P (s\<lparr>targets := a\<rparr>) = entries n P s" "entries n P (s\<lparr>missiles := b\<rparr>) = entries n P s"
  "entries n P (s\<lparr>net_sr := c\<rparr>) = entries n P s" "entries n P (s\<lparr>net_toc := d\<rparr>) = entries n P s"
  "entries n P (s\<lparr>net_trk := e\<rparr>) = entries n P s" "entries n P (s\<lparr>net_launcher := f\<rparr>) = entries n P s"
  "entries n P (s\<lparr>flight := g\<rparr>) = entries n P s"
  by (simp_all add: entries_def)

lemma send_all_models [simp]:
  "targets (send_all n cs s) = targets s" "missiles (send_all n cs s) = missiles s" "net_toc (send_all n cs s) = net_toc s"
  "net_launcher (send_all n cs s) = net_launcher s"
  by (simp_all add: send_all_def)

lemma toc_once:
  assumes "h \<in> toc_handlers" "run_model h m = Some (m', cs)"
  shows "flag (mfcrOn m') i = flag (mfcrOn m) i + length (filter (is_radar_on i) cs)"
    "flag (toc_launch m') i = flag (toc_launch m) i + length (filter (is_request i) cs)"
    "flag (tgtdest m') i = flag (tgtdest m) i + length (filter (is_report i) cs)"
  using assms
  by (auto elim!: handler_cases simp: model_ops processSrInput_def processTrkRadarInputToc_def toc_try_launch_def toc_try_destroy_def
      flag_def array_get_set Let_def split: if_splits bind_splits)

lemma launcher_once:
  assumes "h \<in> launcher_handlers" "run_model h m = Some (m', cs)"
  shows "flag (missileLaunched m') i = flag (missileLaunched m) i + length (filter (is_launch i) cs)"
  using assms
  by (auto elim!: handler_cases simp: model_ops Launcher_launchMissile_def flag_def array_get_set split: if_splits bind_splits)

definition once_inv :: "u32 \<Rightarrow> net \<Rightarrow> bool" where
  "once_inv i s \<longleftrightarrow> entries NTOC (is_radar_on i) s = flag (mfcrOn (net_toc s)) i \<and>
     entries NTOC (is_request i) s = flag (toc_launch (net_toc s)) i \<and>
     entries NTOC (is_report i) s = flag (tgtdest (net_toc s)) i \<and>
     entries NLauncher (is_launch i) s = flag (missileLaunched (net_launcher s)) i"

interpretation once: log_invariant "once_inv i" for i
proof
  show "once_inv i s'" if "acts s s'" "once_inv i s" for s s'
    using that by (induction rule: acts.induct) (auto simp: once_inv_def toc_once launcher_once)
qed (simp add: once_inv_def)

lemma once_init: "once_inv i (init_net cfg ms s)"
  by (simp add: once_inv_def entries_def init_net_def flag_def TOC_InitCase_def Launcher_InitCase_def array_get_replicate)

section \<open>A target destroyed in an earlier case\<close>

text \<open>Nobody but the target itself publishes its true position.\<close>

definition no_truth :: "base_call list \<Rightarrow> bool" where
  "no_truth cs \<longleftrightarrow> (\<forall>u t p a i. Publish u (TruthTargetStates t p a i) \<notin> set cs)"

lemma truth_only_by_target:
  "h1 \<in> missile_handlers \<Longrightarrow> run_model h1 m1 = Some (m1', cs) \<Longrightarrow> no_truth cs"
  "h2 \<in> sr_handlers \<Longrightarrow> run_model h2 m2 = Some (m2', cs) \<Longrightarrow> no_truth cs"
  "h3 \<in> toc_handlers \<Longrightarrow> run_model h3 m3 = Some (m3', cs) \<Longrightarrow> no_truth cs"
  "h4 \<in> trk_handlers \<Longrightarrow> run_model h4 m4 = Some (m4', cs) \<Longrightarrow> no_truth cs"
  "h5 \<in> launcher_handlers \<Longrightarrow> run_model h5 m5 = Some (m5', cs) \<Longrightarrow> no_truth cs"
  by (auto elim!: handler_cases simp: model_ops handler_defs no_truth_def Missile_doLaunchCmd_def Missile_Step_def missile_place_def
      Sr_processTargetInput_def Let_def split: if_splits bind_splits)

lemma target_acts:
  assumes "h \<in> target_handlers" "run_model h m = Some (m', cs)"
  shows "mdl_unit m' = mdl_unit m" "tg_destroyed m \<Longrightarrow> tg_destroyed m' \<and> no_truth cs"
    "Publish u (TruthTargetStates t p a i) \<in> set cs \<Longrightarrow> i = mdl_unit m"
  using assms
  by (auto elim!: handler_cases simp: model_ops doTargetDestroyed_def TargetModel_Step_def TargetModel_fly_def no_truth_def Let_def
      split: if_splits)

definition out_of_play :: "u32 \<Rightarrow> net \<Rightarrow> bool" where
  "out_of_play i s \<longleftrightarrow> tg_destroyed (targets s i) \<and> (\<forall>j. mdl_unit (targets s j) = j) \<and> (\<forall>t p a. TruthTargetStates t p a i \<notin> published s)"

lemma published_put [simp]:
  "published (s\<lparr>targets := a\<rparr>) = published s" "published (s\<lparr>missiles := b\<rparr>) = published s"
  "published (s\<lparr>net_sr := c\<rparr>) = published s" "published (s\<lparr>net_toc := d\<rparr>) = published s"
  "published (s\<lparr>net_trk := e\<rparr>) = published s" "published (s\<lparr>net_launcher := f\<rparr>) = published s"
  "published (s\<lparr>flight := g\<rparr>) = published s"
  by (simp_all add: published_def)

lemma no_truth_pubs: "no_truth cs \<Longrightarrow> TruthTargetStates t p a i \<notin> pubs cs"
  by (auto simp: no_truth_def pubs_def)

interpretation out_of_play: log_invariant "out_of_play i" for i
proof
  show "out_of_play i s'" if "acts s s'" "out_of_play i s" for s s'
    using that
  proof (induction rule: acts.induct)
    case (target h s j m cs)
    have "TruthTargetStates t p a i \<notin> pubs cs" for t p a
    proof (cases "j = i")
      case True
      then show ?thesis using target target_acts(2) [OF target(1,2)] by (auto simp: out_of_play_def dest: no_truth_pubs)
    next
      case False
      then show ?thesis using target target_acts(3) [OF target(1,2)] by (auto simp: out_of_play_def pubs_def)
    qed
    with target show ?case using target_acts(1,2) [OF target(1,2)] by (auto simp: out_of_play_def)
  qed (auto simp: out_of_play_def dest: truth_only_by_target no_truth_pubs)
qed (simp add: out_of_play_def)

lemma case_engaged:
  assumes "arrays_ok s0" "units_ok s0" "\<forall>j\<in>U. Missile_InitCase (missiles s0 j) = Some (ms j)"
    and "(engage U)\<^sup>*\<^sup>* (init_net cfg ms s0) s"
  shows "engaged U cfg s"
  using assms(4) by (induction rule: rtranclp_induct) (use assms(1-3) in \<open>auto intro: engaged.intros\<close>)

lemma published_cause:
  assumes "engaged U cfg s" "x \<in> published s"
  shows "cause (published s) x"
  using engaged_inv [OF assms(1)] assms(2) unfolding engagement_inv_def justified_def published_def by blast

section \<open>The properties\<close>

text \<open>
  C11.
  No missile without a reason. In every state of a case, whatever the order in which messages arrive and frames start: when a
  target is reported destroyed, a launch was requested for it and the track radar measured it at 13346.67 m or nearer; a missile that
  is launched was commanded by the launcher with the launch time the missile has, on a request of the operations centre with that
  time; a launch is requested only when the track radar measured the target at 17340 m or nearer, at a position the target really had;
  and the track radar measures a target only after it was switched on, when the surveillance radar measured the target, where it
  really was, at 25000 m or nearer.\<close>

theorem weapons_release_justified:
  assumes "engaged U cfg s"
  shows "(\<forall>t d. TargetDestroyed t d i \<in> published s \<longrightarrow>
      (\<exists>t. LaunchRequest t i \<in> published s) \<and> (\<exists>t p. TrkRadarMeasuredTargetStates t p i \<in> published s \<and> mX p \<le> 13346.67)) \<and>
    (i \<in> U \<longrightarrow> ms_launchMissile (missiles s i) \<longrightarrow>
      LaunchCmd (ms_launchTime (missiles s i)) i \<in> published s \<and> LaunchRequest (ms_launchTime (missiles s i)) i \<in> published s) \<and>
    (\<forall>t. LaunchRequest t i \<in> published s \<longrightarrow>
      (\<exists>tm p tt a. TrkRadarMeasuredTargetStates tm p i \<in> published s \<and> mX p \<le> 17340 \<and> TruthTargetStates tt p a i \<in> published s)) \<and>
    (\<forall>t p. TrkRadarMeasuredTargetStates t p i \<in> published s \<longrightarrow>
      (\<exists>ton ts q tt a. TrkRadarOnCmd ton True i \<in> published s \<and> SrMeasuredTargetStates ts q i \<in> published s \<and>
        ground_range q \<le> 25000 \<and> TruthTargetStates tt q a i \<in> published s))"
proof (intro conjI allI impI)
  note c = published_cause [OF assms]
  have ok: "missile_ok (published s) i (missiles s i)" if "i \<in> U"
    using engaged_inv [OF assms] that by (simp add: engagement_inv_def state_ok_def)
  show "\<exists>t. LaunchRequest t i \<in> published s" "\<exists>t p. TrkRadarMeasuredTargetStates t p i \<in> published s \<and> mX p \<le> 13346.67"
    if "TargetDestroyed t d i \<in> published s" for t d
    using c [OF that] by simp_all
  show cmd: "LaunchCmd (ms_launchTime (missiles s i)) i \<in> published s" if "i \<in> U" "ms_launchMissile (missiles s i)"
    using that ok by (simp add: missile_ok_def)
  show "LaunchRequest (ms_launchTime (missiles s i)) i \<in> published s" if "i \<in> U" "ms_launchMissile (missiles s i)"
    using c [OF cmd [OF that]] by simp
  show "\<exists>tm p tt a. TrkRadarMeasuredTargetStates tm p i \<in> published s \<and> mX p \<le> 17340 \<and> TruthTargetStates tt p a i \<in> published s"
    if req: "LaunchRequest t i \<in> published s" for t
  proof -
    obtain tm q where m: "TrkRadarMeasuredTargetStates tm q i \<in> published s" "mX q \<le> 17340" using c [OF req] by auto
    then show ?thesis using c [OF m(1)] by auto
  qed
  show "\<exists>ton ts q tt a. TrkRadarOnCmd ton True i \<in> published s \<and> SrMeasuredTargetStates ts q i \<in> published s \<and>
        ground_range q \<le> 25000 \<and> TruthTargetStates tt q a i \<in> published s"
    if m: "TrkRadarMeasuredTargetStates t p i \<in> published s" for t p
  proof -
    obtain ton where on: "TrkRadarOnCmd ton True i \<in> published s" using c [OF m] by auto
    obtain ts q where sr: "SrMeasuredTargetStates ts q i \<in> published s" "ground_range q \<le> 25000" using c [OF on] by auto
    show ?thesis using on sr c [OF sr(1)] by auto
  qed
qed

text \<open>The state of the default scenario after the interception, a state of a case.\<close>

lemma example_played:
  obtains s where "engaged {1} defaults s" "ms_launchMissile (missiles s 1)" "play 1999 (init_net defaults example_missiles example_net) = Some s"
proof -
  obtain s where s: "play 1999 (init_net defaults example_missiles example_net) = Some s" "in_frame 1999 1999 (progress_at 1999) [] s"
    by (rule played [OF ready_starts [where ms = example_missiles, OF example_ready example_missile_1] order_refl])
  show ?thesis
    by (rule that [OF play_engaged [OF example_engaged _ s(1)] _ s(1)])
      (use s(2) in \<open>auto simp: in_frame_def ats progress_at_def progress_of_def\<close>)
qed

theorem weapons_release_justified_witness:
  "\<exists>s. engaged {1} defaults s \<and> ms_launchMissile (missiles s 1) \<and> LaunchCmd (ms_launchTime (missiles s 1)) 1 \<in> published s \<and>
    (\<exists>t p. TrkRadarMeasuredTargetStates t p 1 \<in> published s \<and> mX p \<le> 17340)"
proof -
  obtain s where s: "engaged {1} defaults s" "ms_launchMissile (missiles s 1)" by (rule example_played)
  from weapons_release_justified [OF s(1), of 1] s show ?thesis by blast
qed

text \<open>
  C14.
  No access outside an array. In a case with units out of 1, 2 and 3, every message on its way can be received and every model
  can start a frame: no handler leaves its arrays, and all arrays keep their three elements.\<close>

theorem air_defence_in_range:
  assumes "engaged U cfg s" "U \<subseteq> {1, 2, 3}"
  shows "(\<forall>(n, u, x) \<in> set (flight s). \<exists>s'. receive n u x (s\<lparr>flight := remove1 (n, u, x) (flight s)\<rparr>) = Some s') \<and>
    (\<forall>n t. \<exists>s'. start_frame n t s = Some s') \<and>
    (\<forall>xs \<in> {mfcrOn (net_toc s), toc_launch (net_toc s), tgtdest (net_toc s), trk_launchMissile (net_trk s), trkRadarOn (net_trk s),
       missileLaunched (net_launcher s)}. length xs = 3) \<and>
    length (timeStampRadarOn (net_trk s)) = 3 \<and> length (trk_missilePosition (net_trk s)) = 3"
  using engaged_in_range [OF assms] frame_defined engaged_inv [OF assms(1)]
  by (auto simp: engagement_inv_def state_ok_def toc_ok_def trk_ok_def launcher_ok_def)

theorem air_defence_in_range_witness:
  "\<exists>s s'. engaged {1} defaults s \<and> ms_launchMissile (missiles s 1) \<and> start_frame (NMissile 1) 200 s = Some s' \<and>
    length (tgtdest (net_toc s)) = 3"
proof -
  obtain s where s: "engaged {1} defaults s" "ms_launchMissile (missiles s 1)" by (rule example_played)
  from air_defence_in_range [OF s(1)] s show ?thesis by (simp del: start_frame.simps) blast
qed

text \<open>
  C13.
  No command twice. In every state of a case the operations centre has switched the track radar on for a unit, requested its missile and
  reported its target destroyed exactly as often as its flag for it says, which is once or never; and so has the launcher
  launched its missile.\<close>

theorem no_command_twice:
  assumes "engaged U cfg s"
  shows "(entries NTOC (is_radar_on i) s = (if array_get (mfcrOn (net_toc s)) (unit_index i) = Some True then 1 else 0)) \<and>
    (entries NTOC (is_request i) s = (if array_get (toc_launch (net_toc s)) (unit_index i) = Some True then 1 else 0)) \<and>
    (entries NTOC (is_report i) s = (if array_get (tgtdest (net_toc s)) (unit_index i) = Some True then 1 else 0)) \<and>
    (entries NLauncher (is_launch i) s = (if array_get (missileLaunched (net_launcher s)) (unit_index i) = Some True then 1 else 0))"
  using once.engaged [OF assms once_init, of i] by (simp add: once_inv_def flag_def)

theorem no_command_twice_witness:
  "\<exists>s. engaged {1} defaults s \<and> ms_launchMissile (missiles s 1) \<and> entries NLauncher (is_launch 1) s \<le> 1"
proof -
  obtain s where s: "engaged {1} defaults s" "ms_launchMissile (missiles s 1)" by (rule example_played)
  from no_command_twice [OF s(1), of 1] s show ?thesis by (intro exI [of _ s]) simp
qed

text \<open>
  C40.
  A target stays destroyed. Nothing resets \<open>destroyed\<close>: when a target was destroyed in an earlier case, it publishes no position in any
  later one; no radar measures it, no launch is requested for it, its missile stays on the launcher and it is not reported
  destroyed, whatever the other models do.\<close>

theorem destroyed_target_stays_destroyed:
  assumes "arrays_ok s0" "units_ok s0" "\<forall>j\<in>U. Missile_InitCase (missiles s0 j) = Some (ms j)"
    and "tg_destroyed (targets s0 i)" "(engage U)\<^sup>*\<^sup>* (init_net cfg ms s0) s"
  shows "tg_destroyed (targets s i) \<and> (\<forall>x \<in> published s. msg_unit x = i \<longrightarrow> (\<exists>t p a. x = MissileInitializePos t p a i)) \<and>
    (i \<in> U \<longrightarrow> \<not> ms_launchMissile (missiles s i))"
proof -
  have "out_of_play i (init_net cfg ms s0)"
    using assms(2,4) by (simp add: out_of_play_def init_net_def published_def units_ok_def TargetModel_InitCase_def base_do_def Let_def)
  with assms(5) have out: "out_of_play i s" by (rule out_of_play.engages)
  have en: "engaged U cfg s" by (rule case_engaged [OF assms(1-3,5)])
  note c = published_cause [OF en]
  have T: "TruthTargetStates t p a i \<notin> published s" for t p a using out by (simp add: out_of_play_def)
  have S: "SrMeasuredTargetStates t p i \<notin> published s" for t p using c [of "SrMeasuredTargetStates t p i"] T by auto
  have M: "TrkRadarMeasuredTargetStates t p i \<notin> published s" for t p using c [of "TrkRadarMeasuredTargetStates t p i"] T by auto
  have R: "LaunchRequest t i \<notin> published s" for t using c [of "LaunchRequest t i"] M by auto
  have L: "LaunchCmd t i \<notin> published s" for t using c [of "LaunchCmd t i"] R by auto
  have "\<exists>t p a. x = MissileInitializePos t p a i" if "x \<in> published s" "msg_unit x = i" for x
    using that c [OF that(1)] T S M R L by (cases x) auto
  moreover have "\<not> ms_launchMissile (missiles s i)" if "i \<in> U"
    using engaged_inv [OF en] that L by (auto simp: engagement_inv_def state_ok_def missile_ok_def)
  ultimately show ?thesis using out by (auto simp: out_of_play_def)
qed

definition second_case :: net where
  "second_case = example_net\<lparr>targets := (\<lambda>i. (targets example_net i)\<lparr>tg_destroyed := True\<rparr>)\<rparr>"

theorem destroyed_target_stays_destroyed_witness:
  "\<not> ms_launchMissile (missiles (init_net defaults example_missiles second_case) 1) \<and>
   tg_destroyed (targets (init_net defaults example_missiles second_case) 1)"
proof -
  have "arrays_ok second_case" "units_ok second_case" "tg_destroyed (targets second_case 1)"
    using example_ready by (simp_all add: second_case_def ready_def arrays_ok_def units_ok_def)
  moreover have "\<forall>j\<in>{1}. Missile_InitCase (missiles second_case j) = Some (example_missiles j)"
    using example_missile_1 by (simp add: second_case_def)
  ultimately show ?thesis
    using destroyed_target_stays_destroyed [of second_case "{1}" example_missiles 1, OF _ _ _ _ rtranclp.rtrancl_refl] by blast
qed

end
