(* ===== verification/XMLConfig.thy ===== *)
theory XMLConfig
  imports CommandChannel
begin

text \<open>
  The XML parser of the dispatcher (\<open>src/dispatcherd/XMLParser.cpp\<close>), with the rule for connection records that
  \<open>ConnectionTable::initialize\<close> registers. The combinators are those of Boost.Spirit (classic): a rule reads a beginning of the text
  and runs its actions on the state, which stays changed when the rule fails later. Reading a record from its archive
  (\<open>boost::archive::xml_iarchive\<close>) is the argument \<open>read\<close>: the record, or the exception that was thrown.
\<close>

section \<open>Rules\<close>

datatype exn = Archive_exception | Std_exception

datatype 's scan = Hit string 's | Miss 's | Threw exn 's

type_synonym 's rule = "string \<Rightarrow> 's \<Rightarrow> 's scan option"

type_synonym 's action = "string \<Rightarrow> 's \<Rightarrow> (exn option \<times> 's) option"

text \<open>\<open>*(anychar_p - close)\<close>: everything before the first occurrence of \<open>close\<close>, and the rest.\<close>

fun until :: "string \<Rightarrow> string \<Rightarrow> string \<times> string" where
  "until close [] = ([], [])"
| "until close (c # cs) = (if starts close (c # cs) then ([], c # cs) else (c # fst (until close cs), snd (until close cs)))"

text \<open>\<open>confix_p (open, (*anychar_p)[act], close)\<close>: the action runs when the body was read, before \<open>close\<close> is.\<close>

definition confix_p :: "string \<Rightarrow> 's action \<Rightarrow> string \<Rightarrow> 's rule" where
  "confix_p opn act close inp s =
     (if starts opn inp
      then do {
        let (body, rest) = until close (drop (length opn) inp);
        (e, s1) \<leftarrow> act body s;
        Some (case e of Some x \<Rightarrow> Threw x s1
              | None \<Rightarrow> if starts close rest then Hit (drop (length close) rest) s1 else Miss s1)
      }
      else Some (Miss s))"

definition space_rule :: "'s rule" where
  "space_rule inp s = Some (if inp \<noteq> [] \<and> space_p (hd inp) then Hit (tl inp) s else Miss s)"

fun alternative :: "'s rule list \<Rightarrow> 's rule" where
  "alternative [] inp s = Some (Miss s)"
| "alternative (r # rs) inp s = do {
     x \<leftarrow> r inp s;
     case x of Miss s1 \<Rightarrow> alternative rs inp s1 | Hit rest s1 \<Rightarrow> Some (Hit rest s1) | Threw e s1 \<Rightarrow> Some (Threw e s1)
   }"

text \<open>A rule again and again. When the rule can match nothing at all, the loop does not end.\<close>

partial_function (option) kleene :: "'s rule \<Rightarrow> string \<Rightarrow> 's \<Rightarrow> (exn option \<times> string \<times> 's) option" where
  "kleene r inp s = do {
     x \<leftarrow> r inp s;
     case x of Hit rest s1 \<Rightarrow> kleene r rest s1 | Miss s1 \<Rightarrow> Some (None, inp, s1) | Threw e s1 \<Rightarrow> Some (Some e, inp, s1)
   }"

section \<open>The parser\<close>

record 's XMLParser =
  xp_dirty :: bool
  orRules :: "'s rule list"
  registered_parsers :: "'s rule list"

definition XMLParser_new :: "'s XMLParser" where
  "XMLParser_new = \<lparr>xp_dirty = True, orRules = [], registered_parsers = []\<rparr>"

definition register_parser :: "'s rule \<Rightarrow> 's XMLParser \<Rightarrow> 's XMLParser" where
  "register_parser r X = X\<lparr>orRules := orRules X @ [r], xp_dirty := True\<rparr>"

definition combine_rules :: "'s XMLParser \<Rightarrow> 's XMLParser" where
  "combine_rules X = (if xp_dirty X then X\<lparr>registered_parsers := space_rule # orRules X, xp_dirty := False\<rparr> else X)"

definition XMLParser_parse :: "string \<Rightarrow> 's XMLParser \<Rightarrow> 's \<Rightarrow> (int \<times> 's XMLParser \<times> 's) option" where
  "XMLParser_parse buf X s = do {
     let X1 = combine_rules X;
     (e, rest, s1) \<leftarrow> kleene (alternative (registered_parsers X1)) (dropWhile (\<lambda>c. c \<noteq> CHR ''<'') buf) s;
     Some (if e = Some Std_exception then -1 else 0, X1, s1)
   }"

text \<open>A file that cannot be opened ends the program (\<open>assert\<close>).\<close>

definition XMLParser_fprocess ::
  "(string \<Rightarrow> string option) \<Rightarrow> string \<Rightarrow> 's XMLParser \<Rightarrow> 's \<Rightarrow> (int \<times> 's XMLParser \<times> 's) option" where
  "XMLParser_fprocess files theFile X s = do { buf \<leftarrow> files theFile; XMLParser_parse (takeWhile (\<lambda>c. c \<noteq> CHR 0x00) buf) X s }"

text \<open>The data of a message, which the code relies on to end with a zero byte.\<close>

definition c_string :: "bytes \<Rightarrow> string option" where
  "c_string d = (if 0 \<in> set d then Some (map (\<lambda>b. char_of (unat b)) (takeWhile (\<lambda>b. b \<noteq> 0) d)) else None)"

definition XMLParser_process ::
  "('x, 'k, 't) dispatcher XMLParser \<Rightarrow> chptr \<Rightarrow> bytes option \<Rightarrow> ('x, 'k, 't) dispatcher
     \<Rightarrow> (int \<times> ('x, 'k, 't) dispatcher XMLParser \<times> ('x, 'k, 't) dispatcher) option" where
  "XMLParser_process X rh event w = do {
     d \<leftarrow> event;
     buf \<leftarrow> c_string d;
     (result, X1, w1) \<leftarrow> XMLParser_parse buf X (w\<lparr>my_ch := rh\<rparr>);
     Some (result, X1, w1\<lparr>my_ch := 0\<rparr>)
   }"

section \<open>Connection records\<close>

text \<open>\<open>ConnectionTable::restore\<close> of a text. The record that was allocated before an exception is lost.\<close>

definition restore_text ::
  "('x, 'k, 't) env \<Rightarrow> (string \<Rightarrow> exn + ConnectionRecord) \<Rightarrow> ('x, 'k, 't) dispatcher action" where
  "restore_text E read body w = (case read body of
     Inr r \<Rightarrow> map_option (Pair None) (ConnectionTable_restore E r w)
   | Inl e \<Rightarrow> do {
       w1 \<leftarrow> (if ctable_state w = Populated then ConnectionTable_destroy E w else Some w);
       Some (Some e, w1\<lparr>ctable_state := Populating\<rparr>)
     })"

definition record_open :: string where "record_open = ''<ConnectionRecord>''"
definition record_close :: string where "record_close = ''</ConnectionRecord>''"

definition record_rule ::
  "('x, 'k, 't) env \<Rightarrow> (string \<Rightarrow> exn + ConnectionRecord) \<Rightarrow> ('x, 'k, 't) dispatcher rule" where
  "record_rule E read = confix_p record_open (restore_text E read) record_close"

text \<open>\<open>ConnectionTable::initialize\<close>\<close>

definition ConnectionTable_initialize ::
  "('x, 'k, 't) env \<Rightarrow> (string \<Rightarrow> exn + ConnectionRecord) \<Rightarrow> ('x, 'k, 't) dispatcher XMLParser \<Rightarrow> ('x, 'k, 't) dispatcher
     \<Rightarrow> int \<times> ('x, 'k, 't) dispatcher XMLParser \<times> ('x, 'k, 't) dispatcher" where
  "ConnectionTable_initialize E read X w = (1, register_parser (record_rule E read) X, w\<lparr>ctable_state := Empty\<rparr>)"

section \<open>The loop ends\<close>

fun scan_state :: "'s scan \<Rightarrow> 's" where
  "scan_state (Hit rest s) = s"
| "scan_state (Miss s) = s"
| "scan_state (Threw e s) = s"

text \<open>A rule that, in the states of \<open>P\<close>, is defined, keeps \<open>P\<close> and takes at least one character when it matches.\<close>

definition step_ok :: "('s \<Rightarrow> bool) \<Rightarrow> string \<Rightarrow> 's scan option \<Rightarrow> bool" where
  "step_ok P inp y \<longleftrightarrow> (\<exists>x. y = Some x \<and> P (scan_state x) \<and> (\<forall>rest s. x = Hit rest s \<longrightarrow> length rest < length inp))"

definition progresses :: "('s \<Rightarrow> bool) \<Rightarrow> 's rule \<Rightarrow> bool" where
  "progresses P r \<longleftrightarrow> (\<forall>inp s. P s \<longrightarrow> step_ok P inp (r inp s))"

lemma kleene_ends:
  assumes "progresses P r" "P s"
  shows "\<exists>e rest s'. kleene r inp s = Some (e, rest, s') \<and> P s'"
  using assms(2)
proof (induction "length inp" arbitrary: inp s rule: less_induct)
  case less
  obtain x where x: "r inp s = Some x" "P (scan_state x)" "\<And>rest s1. x = Hit rest s1 \<Longrightarrow> length rest < length inp"
    using assms(1) less.prems unfolding progresses_def step_ok_def by blast
  show ?case
  proof (cases x)
    case (Hit rest s1)
    with less.hyps [OF x(3) [OF Hit], of s1] x show ?thesis by (subst kleene.simps) simp
  qed (use x in \<open>(subst kleene.simps, simp)+\<close>)
qed

lemma length_until: "length (snd (until close inp)) \<le> length inp"
  by (induction inp) auto

lemma progresses_alternative: "(\<And>r. r \<in> set rs \<Longrightarrow> progresses P r) \<Longrightarrow> progresses P (alternative rs)"
proof (induction rs)
  case (Cons r rs)
  have r: "\<And>inp s. P s \<Longrightarrow> step_ok P inp (r inp s)" and rs: "\<And>inp s. P s \<Longrightarrow> step_ok P inp (alternative rs inp s)"
    using Cons unfolding progresses_def by simp_all
  have "step_ok P inp (alternative (r # rs) inp s)" if p: "P s" for inp s
  proof -
    obtain x where x: "r inp s = Some x" "P (scan_state x)" "\<forall>rest s1. x = Hit rest s1 \<longrightarrow> length rest < length inp"
      using r [OF p, of inp] unfolding step_ok_def by blast
    then show ?thesis using rs [of "scan_state x" inp] by (cases x) (simp_all add: step_ok_def)
  qed
  then show ?case by (simp add: progresses_def)
qed (simp add: progresses_def step_ok_def)

lemma progresses_space: "progresses P space_rule"
  by (auto simp: progresses_def step_ok_def space_rule_def)

lemma progresses_confix:
  assumes "opn \<noteq> []" "\<And>body s. P s \<Longrightarrow> \<exists>e s1. act body s = Some (e, s1) \<and> P s1"
  shows "progresses P (confix_p opn act close)"
  unfolding progresses_def
proof (intro allI impI)
  fix inp s assume "P s"
  let ?b = "until close (drop (length opn) inp)"
  obtain e s1 where a: "act (fst ?b) s = Some (e, s1)" "P s1" using assms(2) [OF \<open>P s\<close>, of "fst ?b"] by auto
  have "length (drop (length close) (snd ?b)) < length inp" if "starts opn inp"
  proof -
    have "length opn \<le> length inp" using that by (metis starts_def length_take min.cobounded1)
    moreover have "0 < length opn" using assms(1) by simp
    ultimately show ?thesis using length_until [of close "drop (length opn) inp"] by (simp only: length_drop)
  qed
  then show "step_ok P inp (confix_p opn act close inp s)"
    using a \<open>P s\<close> by (auto simp: confix_p_def step_ok_def case_prod_beta split: option.splits)
qed

section \<open>What is read\<close>

fun occurs :: "string \<Rightarrow> string \<Rightarrow> bool" where
  "occurs k [] \<longleftrightarrow> k = []"
| "occurs k (c # cs) \<longleftrightarrow> starts k (c # cs) \<or> occurs k cs"

lemma tags:
  "length record_open = 18" "length record_close = 19" "hd record_open = CHR ''<''" "record_close ! 0 = CHR ''<''" "record_open \<noteq> []"
  by (simp_all add: record_open_def record_close_def)

lemma close_tag: "0 < n \<Longrightarrow> n < 19 \<Longrightarrow> record_close ! n \<noteq> CHR ''<''"
proof -
  have "list_all (\<lambda>c. c \<noteq> CHR ''<'') (tl record_close)" by (simp add: record_close_def)
  moreover assume "0 < n" "n < 19"
  ultimately show ?thesis by (cases n) (auto simp: list_all_length nth_tl tags)
qed

lemma starts_self [simp]: "starts k (k @ s)"
  by (simp add: starts_def)

lemma starts_within:
  assumes "starts record_close (b @ record_close @ rest)" "b \<noteq> []"
  shows "starts record_close b"
proof (cases "length b < 19")
  case True
  have "take 19 (b @ record_close @ rest) = record_close" using assms(1) by (simp add: starts_def tags)
  then have "record_close ! length b = (b @ record_close @ rest) ! length b" using True by (metis nth_take)
  then have "record_close ! length b = CHR ''<''" by (simp add: nth_append tags)
  with close_tag [of "length b"] True assms(2) show ?thesis by simp
next
  case False
  then show ?thesis using assms(1) by (simp add: starts_def tags)
qed

lemma until_record: "\<not> occurs record_close b \<Longrightarrow> until record_close (b @ record_close @ rest) = (b, record_close @ rest)"
proof (induction b)
  case Nil
  show ?case using starts_self [of record_close rest] by (cases "record_close @ rest") simp_all
next
  case (Cons c b)
  then have "\<not> starts record_close ((c # b) @ record_close @ rest)" using starts_within [of "c # b" rest] by auto
  with Cons show ?case by simp
qed

fun restore_all ::
  "('x, 'k, 't) env \<Rightarrow> ConnectionRecord list \<Rightarrow> ('x, 'k, 't) dispatcher \<Rightarrow> ('x, 'k, 't) dispatcher option" where
  "restore_all E [] w = Some w"
| "restore_all E (r # rs) w = ConnectionTable_restore E r w \<bind> restore_all E rs"

text \<open>A configuration: records, with white space behind each.\<close>

definition show_records :: "(string \<times> string) list \<Rightarrow> string" where
  "show_records items = concat (map (\<lambda>(body, ws). record_open @ body @ record_close @ ws) items)"

definition config_rule ::
  "('x, 'k, 't) env \<Rightarrow> (string \<Rightarrow> exn + ConnectionRecord) \<Rightarrow> ('x, 'k, 't) dispatcher rule" where
  "config_rule E read = alternative [space_rule, record_rule E read]"

lemma config_space: "space_p c \<Longrightarrow> config_rule E read (c # inp) w = Some (Hit inp w)"
  by (simp add: config_rule_def space_rule_def)

lemma no_space: "\<not> space_p CHR ''<''"
  by (simp add: space_p_def)

lemma config_record:
  assumes "\<not> occurs record_close body"
  shows "config_rule E read (record_open @ body @ record_close @ rest) w = do {
    (e, w1) \<leftarrow> restore_text E read body w; Some (case e of Some x \<Rightarrow> Threw x w1 | None \<Rightarrow> Hit rest w1) }"
proof -
  let ?inp = "record_open @ body @ record_close @ rest"
  have u: "until record_close (drop (length record_open) ?inp) = (body, record_close @ rest)"
    using until_record [OF assms] by simp
  have "hd ?inp = CHR ''<''" by (simp add: tags)
  then have n: "space_rule ?inp w = Some (Miss w)" by (simp add: space_rule_def no_space)
  have r: "record_rule E read ?inp w = do {
    (e, w1) \<leftarrow> restore_text E read body w; Some (case e of Some x \<Rightarrow> Threw x w1 | None \<Rightarrow> Hit rest w1) }"
    unfolding record_rule_def confix_p_def if_P [OF starts_self] u by (simp cong: option.case_cong)
  show ?thesis
    unfolding config_rule_def alternative.simps n
    by (cases "restore_text E read body w") (auto simp: r split: option.splits)
qed

lemma kleene_rules:
  "r inp s = Some (Hit rest s1) \<Longrightarrow> kleene r inp s = kleene r rest s1"
  "r inp s = Some (Miss s1) \<Longrightarrow> kleene r inp s = Some (None, inp, s1)"
  "r inp s = Some (Threw e s1) \<Longrightarrow> kleene r inp s = Some (Some e, inp, s1)"
  "r inp s = None \<Longrightarrow> kleene r inp s = None"
  by (subst kleene.simps, simp)+

lemma kleene_spaces: "list_all space_p ws \<Longrightarrow> kleene (config_rule E read) (ws @ inp) w = kleene (config_rule E read) inp w"
proof (induction ws)
  case (Cons c ws)
  then have "config_rule E read (c # ws @ inp) w = Some (Hit (ws @ inp) w)" by (simp add: config_space)
  from kleene_rules(1) [where r = "config_rule E read", OF this] Cons show ?case by simp
qed simp

lemma kleene_record:
  assumes "\<not> occurs record_close body" "read body = Inr r" "list_all space_p ws"
  shows "kleene (config_rule E read) (record_open @ body @ record_close @ ws @ rest) w =
    ConnectionTable_restore E r w \<bind> kleene (config_rule E read) rest"
proof (cases "ConnectionTable_restore E r w")
  case None
  with assms config_record [OF assms(1), of E read "ws @ rest" w] show ?thesis
    by (simp add: kleene_rules(4) restore_text_def)
next
  case (Some w1)
  with assms config_record [OF assms(1), of E read "ws @ rest" w] show ?thesis
    by (simp add: kleene_rules(1) restore_text_def kleene_spaces)
qed

text \<open>A text at which reading stops: no white space and no record.\<close>

definition stops :: "string \<Rightarrow> bool" where
  "stops tail \<longleftrightarrow> tail = [] \<or> \<not> space_p (hd tail) \<and> \<not> starts record_open tail"

lemma config_stops: "stops tail \<Longrightarrow> config_rule E read tail w = Some (Miss w)"
proof -
  assume "stops tail"
  then have "\<not> starts record_open tail" by (auto simp: stops_def starts_def record_open_def)
  with \<open>stops tail\<close> show ?thesis by (auto simp: stops_def config_rule_def space_rule_def record_rule_def confix_p_def)
qed

definition plain_item :: "(string \<Rightarrow> exn + ConnectionRecord) \<Rightarrow> string \<times> string \<Rightarrow> ConnectionRecord \<Rightarrow> bool" where
  "plain_item read = (\<lambda>(body, ws) r. \<not> occurs record_close body \<and> list_all space_p ws \<and> read body = Inr r)"

lemma show_records_Cons: "show_records ((body, ws) # items) @ rest = record_open @ body @ record_close @ ws @ show_records items @ rest"
  by (simp add: show_records_def)

lemma kleene_records:
  assumes "list_all2 (plain_item read) items rs"
  shows "kleene (config_rule E read) (show_records items @ tail) w =
    restore_all E rs w \<bind> kleene (config_rule E read) tail"
  using assms
proof (induction items rs arbitrary: w rule: list_all2_induct)
  case Nil
  show ?case by (simp add: show_records_def)
next
  case (Cons item items r rs)
  obtain body ws where item: "item = (body, ws)" by (cases item)
  have "kleene (config_rule E read) (show_records (item # items) @ tail) w =
      ConnectionTable_restore E r w \<bind> kleene (config_rule E read) (show_records items @ tail)"
    unfolding item show_records_Cons using Cons(1) by (intro kleene_record) (simp_all add: plain_item_def item)
  then show ?case using Cons.IH by (cases "ConnectionTable_restore E r w") simp_all
qed

definition config_parser :: "('x, 'k, 't) env \<Rightarrow> (string \<Rightarrow> exn + ConnectionRecord) \<Rightarrow> ('x, 'k, 't) dispatcher XMLParser" where
  "config_parser E read = register_parser (record_rule E read) XMLParser_new"

lemma combine_config: "registered_parsers (combine_rules (config_parser E read)) = [space_rule, record_rule E read]"
  by (simp add: combine_rules_def config_parser_def register_parser_def XMLParser_new_def)

lemma skip_junk:
  assumes "CHR ''<'' \<notin> set junk" "items \<noteq> []"
  shows "dropWhile (\<lambda>c. c \<noteq> CHR ''<'') (junk @ show_records items @ tail) = show_records items @ tail"
proof -
  obtain body ws items' where i: "items = (body, ws) # items'" using assms(2) by (cases items) auto
  have "dropWhile (\<lambda>c. c \<noteq> CHR ''<'') (junk @ xs) = dropWhile (\<lambda>c. c \<noteq> CHR ''<'') xs" for xs
    using assms(1) by (intro dropWhile_append2) auto
  then show ?thesis unfolding i show_records_Cons by (simp add: record_open_def)
qed

lemma parse_config:
  assumes "CHR ''<'' \<notin> set junk" "items \<noteq> []" "list_all2 (plain_item read) items rs"
  shows "XMLParser_parse (junk @ show_records items @ tail) (config_parser E read) w = do {
    w1 \<leftarrow> restore_all E rs w;
    (e, rest, w2) \<leftarrow> kleene (config_rule E read) tail w1;
    Some (if e = Some Std_exception then -1 else 0, combine_rules (config_parser E read), w2) }"
  unfolding XMLParser_parse_def Let_def combine_config config_rule_def [symmetric] skip_junk [OF assms(1,2)] kleene_records [OF assms(3)]
  by simp

section \<open>The table a configuration makes\<close>

definition has_record :: "('x, 'k, 't) env \<Rightarrow> ('x, 'k, 't) dispatcher \<Rightarrow> ConnectionRecord \<Rightarrow> bool" where
  "has_record E w r \<longleftrightarrow> (\<exists>p < next_rec w. smap_find (sint (r_id r)) (ctable w) = Some p \<and> the_rec p w = Some (restored E r))"

lemma sint_inj [simp]: "sint (a :: u32) = sint b \<longleftrightarrow> a = b"
  by (auto intro: signed_word_eqI)

lemma restore_step:
  assumes "ctable_state w \<noteq> Populated" "smap_ok (ctable w)" "r_id r \<noteq> 0" "smap_find (sint (r_id r)) (ctable w) = None"
  obtains w' where "ConnectionTable_restore E r w = Some w'" "ctable_state w' = Populating" "smap_ok (ctable w')" "has_record E w' r"
    "\<And>k. smap_find k (ctable w') = (if k = sint (r_id r) then Some (next_rec w) else smap_find k (ctable w))"
    "\<And>r'. r_id r' \<noteq> r_id r \<Longrightarrow> has_record E w r' \<Longrightarrow> has_record E w' r'"
proof -
  define w' where "w' = (set_rec (next_rec w) (restored E r) w)\<lparr>next_rec := next_rec w + 1, ctable_state := Populating,
    ctable := smap_set (sint (r_id r)) (next_rec w) (ctable w)\<rparr>"
  have ins: "smap_insert (sint (r_id r)) (next_rec w) (ctable w) = (smap_set (sint (r_id r)) (next_rec w) (ctable w), True)"
    using assms(4) by (simp add: smap_insert_def)
  have f: "smap_find k (smap_set (sint (r_id r)) (next_rec w) (ctable w)) = (if k = sint (r_id r) then Some (next_rec w) else smap_find k (ctable w))" for k
    using stdmap.find_insert_new [OF assms(2,4) ins] by simp
  have "ConnectionTable_restore E r w = Some w'"
    using assms(1,3) ins
    by (simp add: ConnectionTable_restore_def new_record_def ct_bind_def restored_def w'_def set_rec_def the_rec_def Let_def)
  moreover have "smap_ok (ctable w')" using stdmap.ok_insert [OF assms(2) ins] by (simp add: w'_def)
  moreover have "smap_find k (ctable w') = (if k = sint (r_id r) then Some (next_rec w) else smap_find k (ctable w))" for k
    by (simp add: w'_def f)
  moreover have "has_record E w' r" by (auto simp: has_record_def w'_def f the_rec_def set_rec_def)
  moreover have "has_record E w' r'" if ne: "r_id r' \<noteq> r_id r" and hr: "has_record E w r'" for r'
  proof -
    obtain p where "p < next_rec w" "smap_find (sint (r_id r')) (ctable w) = Some p" "the_rec p w = Some (restored E r')"
      using hr by (auto simp: has_record_def)
    then show ?thesis using ne by (auto simp: has_record_def w'_def f the_rec_def set_rec_def intro!: exI [of _ p])
  qed
  ultimately show ?thesis by (rule_tac w' = w' in that) (simp_all add: w'_def)
qed

lemma restore_all_table:
  assumes "ctable_state w \<noteq> Populated" "smap_ok (ctable w)" "distinct (map r_id rs)" "0 \<notin> r_id ` set rs"
    and "\<forall>r \<in> set rs. smap_find (sint (r_id r)) (ctable w) = None"
  shows "\<exists>w'. restore_all E rs w = Some w' \<and> ctable_state w' \<noteq> Populated \<and> (\<forall>r \<in> set rs. has_record E w' r) \<and>
    (\<forall>r. has_record E w r \<longrightarrow> r_id r \<notin> r_id ` set rs \<longrightarrow> has_record E w' r)"
  using assms
proof (induction rs arbitrary: w)
  case (Cons r rs)
  have new: "smap_find (sint (r_id r)) (ctable w) = None" "r_id r \<noteq> 0" using Cons.prems(4,5) by auto
  obtain w1 where w1: "ConnectionTable_restore E r w = Some w1" "ctable_state w1 = Populating" "smap_ok (ctable w1)" "has_record E w1 r"
    "\<And>k. smap_find k (ctable w1) = (if k = sint (r_id r) then Some (next_rec w) else smap_find k (ctable w))"
    "\<And>r'. r_id r' \<noteq> r_id r \<Longrightarrow> has_record E w r' \<Longrightarrow> has_record E w1 r'"
    using restore_step [OF Cons.prems(1,2) new(2,1), of E] by blast
  have "\<forall>r' \<in> set rs. smap_find (sint (r_id r')) (ctable w1) = None"
  proof
    fix r' assume "r' \<in> set rs"
    then have "r_id r' \<in> r_id ` set rs" "smap_find (sint (r_id r')) (ctable w) = None" using Cons.prems(5) by simp_all
    moreover have "r_id r \<notin> r_id ` set rs" using Cons.prems(3) by simp
    ultimately show "smap_find (sint (r_id r')) (ctable w1) = None" by (metis w1(5) sint_inj)
  qed
  then obtain w' where w': "restore_all E rs w1 = Some w'" "ctable_state w' \<noteq> Populated" "\<forall>r \<in> set rs. has_record E w' r"
    "\<forall>r. has_record E w1 r \<longrightarrow> r_id r \<notin> r_id ` set rs \<longrightarrow> has_record E w' r"
    using Cons.IH [of w1] Cons.prems(3,4) w1(2,3) by auto
  then show ?case using w1 Cons.prems(3) by auto
qed simp

text \<open>
  A configuration is read. When the records of a text, with white space behind each and anything but a tag before the first, have ids
  of their own that are not zero, parsing returns 0 and every record can be found in the table under its id, with the defaults filled in.
\<close>

lemma records_read:
  assumes "CHR ''<'' \<notin> set junk" "items \<noteq> []" "list_all2 (plain_item read) items rs" "stops tail"
    and "ctable w = []" "ctable_state w \<noteq> Populated" "distinct (map r_id rs)" "0 \<notin> r_id ` set rs"
  shows "\<exists>w' X. XMLParser_parse (junk @ show_records items @ tail) (config_parser E read) w = Some (0, X, w') \<and>
    restore_all E rs w = Some w' \<and>
    (\<forall>r \<in> set rs. \<exists>p. smap_find (sint (r_id r)) (ctable w') = Some p \<and> the_rec p w' = Some (restored E r))"
proof -
  have "smap_ok (ctable w)" "\<forall>r \<in> set rs. smap_find (sint (r_id r)) (ctable w) = None" using assms(5) by (simp_all add: smap_ok_def)
  then obtain w' where w': "restore_all E rs w = Some w'" "\<forall>r \<in> set rs. has_record E w' r"
    using restore_all_table [OF assms(6) _ assms(7,8), of E] by blast
  have "kleene (config_rule E read) tail w' = Some (None, tail, w')"
    using kleene_rules(2) [where r = "config_rule E read", OF config_stops [OF assms(4)]] .
  with w' show ?thesis unfolding parse_config [OF assms(1-3)] has_record_def by auto
qed

definition config_text :: string where
  "config_text = ''?>'' @ record_open @ ''models'' @ record_close @ '' '' @ record_open @ ''other'' @ record_close @ ''<end>''"

definition example_read :: "string \<Rightarrow> exn + ConnectionRecord" where
  "example_read body =
     (if body = ''models'' then Inr example_record else if body = ''other'' then Inr (example_record\<lparr>r_id := 13\<rparr>) else Inl Archive_exception)"

lemma example_items:
  "list_all2 (plain_item example_read) [(''models'', '' ''), (''other'', '''')] [example_record, example_record\<lparr>r_id := 13\<rparr>]"
  by (simp add: plain_item_def example_read_def record_close_def starts_def space_p_def)



section \<open>Reading before the channel is opened\<close>

text \<open>The states before the event channel is opened: no table to destroy.\<close>

definition starting :: "('x, 'k, 't) env \<Rightarrow> ('x, 'k, 't) xml_parser \<Rightarrow> ('x, 'k, 't) xml_parser \<Rightarrow> ('x, 'k, 't) dispatcher \<Rightarrow> bool" where
  "starting E xml cmd w \<longleftrightarrow> settled E xml cmd w \<and> ctable_state w \<noteq> Populated"

lemma restore_unpopulated:
  "ctable_state w \<noteq> Populated \<Longrightarrow> \<exists>w'. ConnectionTable_restore E r w = Some w' \<and> ctable_state w' = Populating"
  by (simp add: ConnectionTable_restore_def new_record_def ct_bind_def the_rec_def set_rec_def Let_def case_prod_beta split: if_splits)

lemma restore_text_starting:
  assumes "starting E xml cmd w"
  shows "\<exists>e w'. restore_text E read body w = Some (e, w') \<and> starting E xml cmd w'"
proof (cases "read body")
  case (Inl e)
  then show ?thesis using assms dispatcher_states.restore_fails [of no_bound_reconnect E xml cmd w] by (simp add: restore_text_def starting_def)
next
  case (Inr r)
  obtain w' where "ConnectionTable_restore E r w = Some w'" "ctable_state w' = Populating"
    using assms restore_unpopulated unfolding starting_def by blast
  then show ?thesis using Inr assms dispatcher_states.restore [of no_bound_reconnect E xml cmd w r w'] by (simp add: restore_text_def starting_def)
qed

lemma config_progresses: "progresses (starting E xml cmd) (alternative [space_rule, record_rule E read])"
  unfolding record_rule_def
  by (intro progresses_alternative) (auto intro: progresses_space progresses_confix restore_text_starting simp: tags)

text \<open>
  C32.
  Reading a configuration ends. Whatever the text, and whatever the archive makes of its records, parsing it before the channel is opened
  returns, with 0 or -1, in a state a dispatcher can be in.\<close>

theorem parsing_ends:
  assumes "starting E xml cmd w"
  shows "\<exists>result X w'. XMLParser_parse buf (config_parser E read) w = Some (result, X, w') \<and> result \<in> {0, -1} \<and> starting E xml cmd w'"
  using kleene_ends [OF config_progresses [of E xml cmd read] assms, of "dropWhile (\<lambda>c. c \<noteq> CHR ''<'') buf"]
  unfolding XMLParser_parse_def Let_def combine_config by auto

theorem parsing_ends_witness:
  "\<exists>result X w'. XMLParser_parse config_text (config_parser example_env example_read)
      (snd (EventChannel_initialize example_env (dispatcher_init 0 []))) = Some (result, X, w') \<and> result \<in> {0, -1}"
proof -
  have "starting example_env (\<lambda>p d w. None) (\<lambda>p d w. None) (snd (EventChannel_initialize example_env (dispatcher_init 0 [])))"
    by (simp add: starting_def dispatcher_states.start) (simp add: EventChannel_initialize_def dispatcher_init_def)
  from parsing_ends [OF this] show ?thesis by blast
qed

section \<open>XML commands of a running dispatcher\<close>

text \<open>
  A message of type XML\_COMMAND on a command channel is given to the same parser. The only rule is that for connection records, so a
  text that does not begin with a record changes nothing. One that does is restored while the dispatcher runs, which destroys all
  connections first (\<open>ConnectionTable::restore\<close> of a populated table); it is left out here: \<open>xml_commands\<close> gives no
  result for it.
\<close>

definition carries_record :: "bytes option \<Rightarrow> bool" where
  "carries_record event =
     (case Option.bind event c_string of
        Some buf \<Rightarrow> starts record_open (dropWhile (\<lambda>c. c \<noteq> CHR ''<'') buf)
      | None \<Rightarrow> False)"

definition xml_commands ::
  "('x, 'k, 't) env \<Rightarrow> (string \<Rightarrow> exn + ConnectionRecord) \<Rightarrow> ('x, 'k, 't) xml_parser" where
  "xml_commands E read rh event w =
     (if carries_record event then None
      else map_option (\<lambda>(result, X, w1). (result, w1)) (XMLParser_process (config_parser E read) rh event w))"

lemma xml_without_record:
  fixes E :: "('x, 'k, 't) env"
  assumes "\<not> carries_record (Some d)" and "c_string d = Some buf"
  shows "XMLParser_process (config_parser E read) rh (Some d) w = Some (0, combine_rules (config_parser E read), w\<lparr>my_ch := 0\<rparr>)"
proof -
  let ?t = "dropWhile (\<lambda>c. c \<noteq> CHR ''<'') buf"
  have "?t = [] \<or> hd ?t = CHR ''<''" using hd_dropWhile [of "\<lambda>c. c \<noteq> CHR ''<''" buf] by blast
  then have "space_rule ?t s = Some (Miss s)" for s :: "('x, 'k, 't) dispatcher" by (auto simp: space_rule_def space_p_def)
  moreover have "record_rule E read ?t s = Some (Miss s)" for s
    using assms by (simp add: record_rule_def confix_p_def carries_record_def)
  ultimately have "alternative [space_rule, record_rule E read] ?t s = Some (Miss s)" for s by simp
  then have "kleene (alternative [space_rule, record_rule E read]) ?t s = Some (None, ?t, s)" for s by (subst kleene.simps) simp
  then show ?thesis using assms(2) by (simp add: XMLParser_process_def XMLParser_parse_def combine_config Let_def)
qed

lemma xml_commands_keep:
  fixes E :: "('x, 'k, 't) env"
  shows "parser_keeps (xml_commands E read)"
  unfolding parser_keeps_def
proof (intro allI impI)
  fix p d and w :: "('x, 'k, 't) dispatcher"
  assume "heap_ok w"
  show "keeps2 (xml_commands E read p d w)"
  proof (cases "\<exists>b buf. d = Some b \<and> c_string b = Some buf \<and> \<not> carries_record d")
    case True
    then obtain b buf where "d = Some b" "c_string b = Some buf" "\<not> carries_record (Some b)" by auto
    with xml_without_record [of b buf E read p w] \<open>heap_ok w\<close> show ?thesis by (simp add: xml_commands_def ends_def)
  next
    case False
    then have "xml_commands E read p d w = None" by (cases d; cases "Option.bind d c_string") (auto simp: xml_commands_def XMLParser_process_def)
    then show ?thesis by (simp add: ends_def)
  qed
qed

text \<open>
  C3. No dangling handlers. In every state of a dispatcher with the parsers of the model, whatever messages, command lines and
  XML commands arrive and whatever sockets and database answer, every record of the three identity
  tables holds the address of a live handler, with the handle this handler has, whose connection record is live and of
  the right role; and this is still so after the function of any command was called there. Two things are excepted (\<open>settled\<close>, \<open>xml_commands\<close>): that
  the timer of a handler that is bound in a table goes off, so that it reconnects under another handle, which breaks the link
  (\<open>bound_reconnect_unlinks\<close>), and that an XML command carries a connection record, which replaces the connection table.
\<close>

theorem commands_never_dangle:
  assumes "dispatcher_env E" and "settled E (xml_commands E read) (CommandParser_process C E) w"
  shows "linked w \<and> (\<forall>a nv ext rv reply r w'. run_action C E a nv ext rv w = Some (reply, r, w') \<longrightarrow> linked w')"
proof -
  have h: "heap_ok w"
    using settled_heap [OF assms(1) xml_commands_keep dispatcher_env.command_parser_heap [OF assms(1)] assms(2)] .
  moreover have "linked w'" if "run_action C E a nv ext rv w = Some (reply, r, w')" for a nv ext rv reply r w'
    using dispatcher_env.action_heap [OF assms(1) h, of C a nv ext rv] that by (simp add: ends_def heap_ok_def)
  ultimately show ?thesis by (auto simp: heap_ok_def)
qed

theorem commands_never_dangle_witness:
  "\<exists>w. settled example_env (xml_commands example_env example_read) (CommandParser_process example_cmd example_env) w \<and> linked w \<and>
    c_map (d2c_table w) = [\<lparr>c_chid = 21, c_ch = 1\<rparr>]"
proof -
  obtain w where w: "reactor_step example_env (xml_commands example_env example_read) (CommandParser_process example_cmd example_env)
      (Accept 1 21 ([], [])) example_open = Some w"
    "c_map (d2c_table w) = [\<lparr>c_chid = 21, c_ch = 1\<rparr>]"
    using example_accepts by auto
  have "settled example_env (xml_commands example_env example_read) (CommandParser_process example_cmd example_env) w"
    by (rule dispatcher_states.upcall [OF dispatcher_states.opened [OF dispatcher_states.start example_opens] _ w(1)])
      (simp add: no_bound_reconnect_def)
  with w(2) commands_never_dangle [OF example.dispatcher_env_axioms this] show ?thesis by blast
qed

end
