(* ===== verification/DispatcherOptions.thy ===== *)
theory DispatcherOptions
  imports Prelude
begin

unbundle bit_operations_syntax

text \<open>
  The options of the dispatcher (\<open>src/dispatcherd/Options.cpp\<close>, \<open>Options.inl\<close>). What \<open>ACE_Get_Opt\<close> makes of the command line is
  the argument of \<open>parse_args\<close>: the letters its calls return, each with the argument of the option.
\<close>

section \<open>The options\<close>

abbreviation (input) OPT_VERBOSE :: "64 word" where "OPT_VERBOSE \<equiv> 0x0004"
abbreviation (input) OPT_DEBUG :: "64 word" where "OPT_DEBUG \<equiv> 0x0008"
abbreviation (input) OPT_OSTREAM :: "64 word" where "OPT_OSTREAM \<equiv> 0x0010"
abbreviation (input) OPT_NETLOG :: "64 word" where "OPT_NETLOG \<equiv> 0x0020"
abbreviation (input) OPT_DAEMON :: "64 word" where "OPT_DAEMON \<equiv> 0x0040"
abbreviation (input) OPT_CMDSTDIN :: "64 word" where "OPT_CMDSTDIN \<equiv> 0x0080"
abbreviation (input) OPT_FILE_INIT :: "64 word" where "OPT_FILE_INIT \<equiv> 0x0100"
abbreviation (input) OPT_DATABASE_INIT :: "64 word" where "OPT_DATABASE_INIT \<equiv> 0x0200"

record Options =
  performance_window :: int
  blocking_semantics :: int
  options :: "64 word"
  command_port :: u16
  d2m_port :: u16
  d2d_port :: u16
  num_threads :: int
  master_svc :: bool
  no_cache :: bool
  max_timeout :: int
  max_queue_size :: int
  max_buffer_size :: int
  initialization_file :: string
  initialization_key :: string

text \<open>The constructor; the argument is the constant \<open>ACE_NONBLOCK\<close> of the platform.\<close>

definition Options_new :: "int \<Rightarrow> Options" where
  "Options_new ACE_NONBLOCK =
     \<lparr>performance_window = 0, blocking_semantics = ACE_NONBLOCK, options = OPT_DATABASE_INIT, command_port = 8010, d2m_port = 8001,
      d2d_port = 8002, num_threads = 1, master_svc = False, no_cache = False, max_timeout = 32, max_queue_size = 1024 * 1024 * 16,
      max_buffer_size = 1024, initialization_file = '''', initialization_key = ''dispatcher_default''\<rparr>"

definition Options_enabled :: "64 word \<Rightarrow> Options \<Rightarrow> bool" where
  "Options_enabled opt ops \<longleftrightarrow> options ops AND opt \<noteq> 0"

definition Options_enable :: "64 word \<Rightarrow> Options \<Rightarrow> Options" where
  "Options_enable opt ops = ops\<lparr>options := options ops OR opt\<rparr>"

definition Options_disable :: "64 word \<Rightarrow> Options \<Rightarrow> Options" where
  "Options_disable opt ops = ops\<lparr>options := options ops AND NOT opt\<rparr>"

section \<open>parse_args\<close>

text \<open>One round of the loop.\<close>

definition parse_arg :: "char \<times> string \<Rightarrow> Options \<Rightarrow> Options" where
  "parse_arg = (\<lambda>(c, optarg) ops.
     if c = CHR ''a'' then ops\<lparr>command_port := word_of_int (atoi optarg)\<rparr>
     else if c = CHR ''B'' then ops\<lparr>max_buffer_size := atoi optarg\<rparr>
     else if c = CHR ''Q'' then ops\<lparr>max_queue_size := atoi optarg\<rparr>
     else if c = CHR ''b'' then ops\<lparr>blocking_semantics := 1\<rparr>
     else if c = CHR ''c'' then ops\<lparr>no_cache := True\<rparr>
     else if c = CHR ''f'' then (Options_enable OPT_FILE_INIT ops)\<lparr>initialization_file := optarg\<rparr>
     else if c = CHR ''k'' then (Options_enable OPT_DATABASE_INIT ops)\<lparr>initialization_key := optarg\<rparr>
     else if c = CHR ''t'' then ops\<lparr>num_threads := atoi optarg\<rparr>
     else if c = CHR ''v'' then Options_enable OPT_VERBOSE ops
     else if c = CHR ''w'' then ops\<lparr>performance_window := atoi optarg, blocking_semantics := 0\<rparr>
     else if c = CHR ''N'' then Options_enable OPT_NETLOG ops
     else if c = CHR ''O'' then Options_enable OPT_OSTREAM ops
     else if c = CHR ''S'' then Options_enable OPT_CMDSTDIN ops
     else if c = CHR ''D'' then Options_disable OPT_CMDSTDIN (Options_disable OPT_OSTREAM (Options_enable OPT_NETLOG (Options_enable OPT_DAEMON ops)))
     else ops)"

definition parse_args :: "int \<Rightarrow> (char \<times> string) list \<Rightarrow> Options \<Rightarrow> int \<times> Options" where
  "parse_args argc got ops = (0, if argc \<noteq> 0 then fold parse_arg got ops else ops)"

definition Options_report :: "Options \<Rightarrow> string" where
  "Options_report ops =
     (let endl = [CHR 0x0A]; line = replicate 18 (CHR ''-'') @ endl;
          show = (\<lambda>name opt. name @ (if Options_enabled opt ops then ''true'' else ''false'') @ endl)
      in ''Options'' @ endl @ line @ show ''DAEMON '' OPT_DAEMON @ show ''DEBUG '' OPT_DEBUG @ show ''VERBOSE '' OPT_VERBOSE @
         show ''CMDSTDIN '' OPT_CMDSTDIN @ show ''NETLOG '' OPT_NETLOG @ line)"

section \<open>What a command line means\<close>

text \<open>The options after the last option \<open>c\<close>, and the argument of the last option \<open>c\<close>.\<close>

definition after_last :: "char \<Rightarrow> (char \<times> string) list \<Rightarrow> (char \<times> string) list" where
  "after_last c got = rev (takeWhile (\<lambda>x. fst x \<noteq> c) (rev got))"

definition last_arg :: "char \<Rightarrow> (char \<times> string) list \<Rightarrow> string option" where
  "last_arg c got = map_of (rev got) c"

definition given :: "char \<Rightarrow> (char \<times> string) list \<Rightarrow> bool" where
  "given c got \<longleftrightarrow> c \<in> fst ` set got"

lemma given_snoc [simp]: "given c [] = False" "given c (got @ [(d, s)]) \<longleftrightarrow> d = c \<or> given c got"
  by (auto simp: given_def)

lemma after_last_snoc [simp]: "after_last c [] = []"
  "after_last c (got @ [(d, s)]) = (if d = c then [] else after_last c got @ [(d, s)])"
  by (simp_all add: after_last_def)

lemma last_arg_snoc [simp]: "last_arg c [] = None" "last_arg c (got @ [(d, s)]) = (if d = c then Some s else last_arg c got)"
  by (simp_all add: last_arg_def)

lemma enabled_ops:
  "Options_enabled x (Options_enable y ops) \<longleftrightarrow> Options_enabled x ops \<or> x AND y \<noteq> 0"
  "x AND y = 0 \<Longrightarrow> Options_enabled x (Options_disable y ops) \<longleftrightarrow> Options_enabled x ops"
  "\<not> Options_enabled y (Options_disable y ops)"
proof -
  have 1: "(options ops OR y) AND x = (options ops AND x) OR (y AND x)" by (simp add: bit_eq_iff bit_simps) blast
  have 2: "(a OR b = 0) \<longleftrightarrow> a = 0 \<and> b = 0" for a b :: "64 word" by (auto simp: bit_eq_iff bit_simps)
  show "Options_enabled x (Options_enable y ops) \<longleftrightarrow> Options_enabled x ops \<or> x AND y \<noteq> 0"
    unfolding Options_enabled_def Options_enable_def by (simp add: 1 2 and.commute [of x y])
  show "Options_enabled x (Options_disable y ops) \<longleftrightarrow> Options_enabled x ops" if "x AND y = 0"
  proof -
    have "(options ops AND NOT y) AND x = options ops AND x" using that by (auto simp: bit_eq_iff bit_simps)
    then show ?thesis by (simp add: Options_enabled_def Options_disable_def)
  qed
  show "\<not> Options_enabled y (Options_disable y ops)"
    by (simp add: Options_enabled_def Options_disable_def) (auto simp: bit_eq_iff bit_simps)
qed

lemma enabled_update [simp]:
  "Options_enabled x (ops\<lparr>command_port := a\<rparr>) = Options_enabled x ops" "Options_enabled x (ops\<lparr>max_buffer_size := b\<rparr>) = Options_enabled x ops"
  "Options_enabled x (ops\<lparr>max_queue_size := c\<rparr>) = Options_enabled x ops" "Options_enabled x (ops\<lparr>blocking_semantics := d\<rparr>) = Options_enabled x ops"
  "Options_enabled x (ops\<lparr>no_cache := e\<rparr>) = Options_enabled x ops" "Options_enabled x (ops\<lparr>initialization_file := f\<rparr>) = Options_enabled x ops"
  "Options_enabled x (ops\<lparr>initialization_key := f\<rparr>) = Options_enabled x ops" "Options_enabled x (ops\<lparr>num_threads := d\<rparr>) = Options_enabled x ops"
  "Options_enabled x (ops\<lparr>performance_window := d\<rparr>) = Options_enabled x ops"
  by (simp_all add: Options_enabled_def)

lemma enabled_if: "Options_enabled x (if b then p else q) \<longleftrightarrow> (if b then Options_enabled x p else Options_enabled x q)"
  by simp

lemma enabled_parse_arg:
  "Options_enabled OPT_VERBOSE (parse_arg (c, s) ops) \<longleftrightarrow> c = CHR ''v'' \<or> Options_enabled OPT_VERBOSE ops"
  "Options_enabled OPT_DAEMON (parse_arg (c, s) ops) \<longleftrightarrow> c = CHR ''D'' \<or> Options_enabled OPT_DAEMON ops"
  "Options_enabled OPT_NETLOG (parse_arg (c, s) ops) \<longleftrightarrow> c = CHR ''N'' \<or> c = CHR ''D'' \<or> Options_enabled OPT_NETLOG ops"
  "Options_enabled OPT_FILE_INIT (parse_arg (c, s) ops) \<longleftrightarrow> c = CHR ''f'' \<or> Options_enabled OPT_FILE_INIT ops"
  "Options_enabled OPT_DATABASE_INIT (parse_arg (c, s) ops) \<longleftrightarrow> c = CHR ''k'' \<or> Options_enabled OPT_DATABASE_INIT ops"
  "Options_enabled OPT_CMDSTDIN (parse_arg (c, s) ops) \<longleftrightarrow> c = CHR ''S'' \<or> c \<noteq> CHR ''D'' \<and> Options_enabled OPT_CMDSTDIN ops"
  "Options_enabled OPT_OSTREAM (parse_arg (c, s) ops) \<longleftrightarrow> c = CHR ''O'' \<or> c \<noteq> CHR ''D'' \<and> Options_enabled OPT_OSTREAM ops"
  unfolding parse_arg_def prod.case enabled_if by (simp_all add: enabled_ops)

lemma field_parse_arg:
  "command_port (parse_arg (c, s) ops) = (if c = CHR ''a'' then word_of_int (atoi s) else command_port ops)"
  "max_buffer_size (parse_arg (c, s) ops) = (if c = CHR ''B'' then atoi s else max_buffer_size ops)"
  "max_queue_size (parse_arg (c, s) ops) = (if c = CHR ''Q'' then atoi s else max_queue_size ops)"
  "num_threads (parse_arg (c, s) ops) = (if c = CHR ''t'' then atoi s else num_threads ops)"
  "initialization_file (parse_arg (c, s) ops) = (if c = CHR ''f'' then s else initialization_file ops)"
  "initialization_key (parse_arg (c, s) ops) = (if c = CHR ''k'' then s else initialization_key ops)"
  "no_cache (parse_arg (c, s) ops) \<longleftrightarrow> c = CHR ''c'' \<or> no_cache ops"
  "max_timeout (parse_arg (c, s) ops) = max_timeout ops" "d2d_port (parse_arg (c, s) ops) = d2d_port ops"
  by (simp_all add: parse_arg_def Options_enable_def Options_disable_def)

lemma enabled_new:
  "\<not> Options_enabled OPT_VERBOSE (Options_new nb)" "\<not> Options_enabled OPT_DAEMON (Options_new nb)"
  "\<not> Options_enabled OPT_NETLOG (Options_new nb)" "\<not> Options_enabled OPT_FILE_INIT (Options_new nb)"
  "Options_enabled OPT_DATABASE_INIT (Options_new nb)" "\<not> Options_enabled OPT_CMDSTDIN (Options_new nb)"
  "\<not> Options_enabled OPT_OSTREAM (Options_new nb)"
  by (simp_all add: Options_enabled_def Options_new_def)

text \<open>A field that only one option sets has the value of the last one.\<close>

lemma field_of_line:
  assumes "\<And>c s ops. get (parse_arg (c, s) ops) = (if c = k then f s else get ops)"
  shows "get (fold parse_arg got ops) = (case last_arg k got of None \<Rightarrow> get ops | Some s \<Rightarrow> f s)"
  by (induction got rule: rev_induct) (simp_all add: assms split_paired_all)

lemma flags_of_line:
  "let ops = fold parse_arg got (Options_new nb) in
    (Options_enabled OPT_VERBOSE ops \<longleftrightarrow> given CHR ''v'' got) \<and> (Options_enabled OPT_DAEMON ops \<longleftrightarrow> given CHR ''D'' got) \<and>
    (Options_enabled OPT_NETLOG ops \<longleftrightarrow> given CHR ''N'' got \<or> given CHR ''D'' got) \<and>
    (Options_enabled OPT_FILE_INIT ops \<longleftrightarrow> given CHR ''f'' got) \<and> Options_enabled OPT_DATABASE_INIT ops \<and>
    (Options_enabled OPT_CMDSTDIN ops \<longleftrightarrow> given CHR ''S'' (after_last CHR ''D'' got)) \<and>
    (Options_enabled OPT_OSTREAM ops \<longleftrightarrow> given CHR ''O'' (after_last CHR ''D'' got))"
  unfolding Let_def
  by (induction got rule: rev_induct) (simp_all add: enabled_new enabled_parse_arg split_paired_all disj_comms)

lemma fields_of_line:
  "let ops = fold parse_arg got (Options_new nb) in
    command_port ops = (case last_arg CHR ''a'' got of None \<Rightarrow> 8010 | Some s \<Rightarrow> word_of_int (atoi s)) \<and>
    max_buffer_size ops = (case last_arg CHR ''B'' got of None \<Rightarrow> 1024 | Some s \<Rightarrow> atoi s) \<and>
    max_queue_size ops = (case last_arg CHR ''Q'' got of None \<Rightarrow> 16777216 | Some s \<Rightarrow> atoi s) \<and>
    num_threads ops = (case last_arg CHR ''t'' got of None \<Rightarrow> 1 | Some s \<Rightarrow> atoi s) \<and>
    initialization_file ops = (case last_arg CHR ''f'' got of None \<Rightarrow> '''' | Some s \<Rightarrow> s) \<and>
    initialization_key ops = (case last_arg CHR ''k'' got of None \<Rightarrow> ''dispatcher_default'' | Some s \<Rightarrow> s) \<and>
    (no_cache ops \<longleftrightarrow> given CHR ''c'' got)"
proof -
  have "no_cache (fold parse_arg got (Options_new nb)) \<longleftrightarrow> given CHR ''c'' got"
    by (induction got rule: rev_induct) (simp_all add: Options_new_def field_parse_arg split_paired_all)
  then show ?thesis
    by (simp add: Let_def Options_new_def field_parse_arg field_of_line [where k = "CHR ''a''" and f = "\<lambda>s. word_of_int (atoi s)"]
        field_of_line [where k = "CHR ''B''" and f = atoi] field_of_line [where k = "CHR ''Q''" and f = atoi]
        field_of_line [where k = "CHR ''t''" and f = atoi] field_of_line [where k = "CHR ''f''" and f = "\<lambda>s. s"]
        field_of_line [where k = "CHR ''k''" and f = "\<lambda>s. s"] cong: option.case_cong)
qed

text \<open>
  What a command line means. The flags are those of the options given, whatever their order, with one exception: standard input and the
  log file are enabled by \<open>-S\<close> and \<open>-O\<close> exactly when they are given after the last \<open>-D\<close>, so a daemon can have them. The
  database is always a source of the configuration. Of an option with an argument the last one counts; ports wrap at 65536.\<close>

lemma command_line_options:
  assumes "argc \<noteq> 0" and "parse_args argc got (Options_new nb) = (r, ops)"
  shows "r = 0 \<and>
    (Options_enabled OPT_VERBOSE ops \<longleftrightarrow> given CHR ''v'' got) \<and> (Options_enabled OPT_DAEMON ops \<longleftrightarrow> given CHR ''D'' got) \<and>
    (Options_enabled OPT_NETLOG ops \<longleftrightarrow> given CHR ''N'' got \<or> given CHR ''D'' got) \<and>
    (Options_enabled OPT_FILE_INIT ops \<longleftrightarrow> given CHR ''f'' got) \<and> Options_enabled OPT_DATABASE_INIT ops \<and>
    (Options_enabled OPT_CMDSTDIN ops \<longleftrightarrow> given CHR ''S'' (after_last CHR ''D'' got)) \<and>
    (Options_enabled OPT_OSTREAM ops \<longleftrightarrow> given CHR ''O'' (after_last CHR ''D'' got)) \<and>
    command_port ops = (case last_arg CHR ''a'' got of None \<Rightarrow> 8010 | Some s \<Rightarrow> word_of_int (atoi s)) \<and>
    max_buffer_size ops = (case last_arg CHR ''B'' got of None \<Rightarrow> 1024 | Some s \<Rightarrow> atoi s) \<and>
    max_queue_size ops = (case last_arg CHR ''Q'' got of None \<Rightarrow> 16777216 | Some s \<Rightarrow> atoi s) \<and>
    num_threads ops = (case last_arg CHR ''t'' got of None \<Rightarrow> 1 | Some s \<Rightarrow> atoi s) \<and>
    initialization_file ops = (case last_arg CHR ''f'' got of None \<Rightarrow> '''' | Some s \<Rightarrow> s) \<and>
    initialization_key ops = (case last_arg CHR ''k'' got of None \<Rightarrow> ''dispatcher_default'' | Some s \<Rightarrow> s) \<and>
    (no_cache ops \<longleftrightarrow> given CHR ''c'' got)"
  using assms flags_of_line [of got nb] fields_of_line [of got nb] unfolding Let_def parse_args_def by (simp only: if_True prod.inject) simp

text \<open>The command line of \<open>src/etc/ISE/dispatcherd.conf\<close>: a daemon that also writes a log file.\<close>

definition conf_got :: "(char \<times> string) list" where
  "conf_got = [(CHR ''a'', ''8010''), (CHR ''D'', ''''), (CHR ''O'', ''''), (CHR ''t'', ''10''), (CHR ''k'', ''dispatcher_default''), (CHR ''?'', '''')]"

lemma command_line_options_witness:
  "(let ops = snd (parse_args 7 conf_got (Options_new 2048))
    in Options_enabled OPT_OSTREAM ops \<and> Options_enabled OPT_NETLOG ops \<and> \<not> Options_enabled OPT_CMDSTDIN ops \<and> num_threads ops = 10)"
  using command_line_options [of 7 conf_got 2048, OF _ prod.collapse [symmetric]]
  by (simp add: Let_def conf_got_def given_def after_last_def last_arg_def)

end
