(* ===== verification/DispatcherFactory.thy ===== *)
theory DispatcherFactory
  imports XMLConfig DispatcherOptions
begin

text \<open>
  Starting and stopping the dispatcher (\<open>src/dispatcherd/DispatcherFactory.cpp\<close>): the singletons are started in a fixed order, the
  configuration is read from a file or the database, standard input is attached, and the event channel is opened. Calls into
  ACE, the object manager and the task threads are the operations of \<open>factory_ops\<close>; they change the state of the outside.
\<close>

section \<open>State\<close>

text \<open>The flags of \<open>ACE_LOG_MSG\<close>.\<close>

datatype log_flag = STDERR | OSTREAM | LOGGER

record ('x, 'k, 't) service =
  fa_options :: Options
  fa_parser :: "('x, 'k, 't) dispatcher XMLParser"
  fa_disp :: "('x, 'k, 't) dispatcher"
  persist_timer :: int
  cmd_stdin :: bool
  log_flags :: "log_flag set"

record 'x factory_ops =
  fo_debug_args :: "(char \<times> string) list \<Rightarrow> 'x \<Rightarrow> 'x"
  fo_log_file :: "'x \<Rightarrow> bool \<times> 'x"
  fo_log_open :: "'x \<Rightarrow> 'x"
  fo_objmgr_initialize :: "'x \<Rightarrow> int \<times> 'x"
  fo_task_start :: "int \<Rightarrow> 'x \<Rightarrow> int \<times> 'x"
  fo_files :: "string \<Rightarrow> string option"
  fo_read :: "string \<Rightarrow> exn + ConnectionRecord"
  fo_key_value :: "string \<Rightarrow> 'x \<Rightarrow> (int \<times> string) \<times> 'x"
  fo_register_stdin :: "'x \<Rightarrow> int \<times> 'x"
  fo_schedule_timer :: "int \<Rightarrow> int \<Rightarrow> 'x \<Rightarrow> int \<times> 'x"
  fo_status :: "int \<Rightarrow> 'x \<Rightarrow> 'x"
  fo_persist_check :: "'x \<Rightarrow> int \<times> 'x"
  fo_cancel_timer :: "int \<Rightarrow> 'x \<Rightarrow> 'x"
  fo_objmgr_close :: "'x \<Rightarrow> 'x"
  fo_remove_stdin :: "'x \<Rightarrow> 'x"
  fo_read_stdin :: "'x \<Rightarrow> int \<times> string \<times> 'x"

text \<open>The object as the service configurator makes it, in a process whose log goes to standard error.\<close>

definition factory_new :: "int \<Rightarrow> 't \<Rightarrow> 'x \<Rightarrow> ('x, 'k, 't) service" where
  "factory_new nb t x = \<lparr>fa_options = Options_new nb, fa_parser = XMLParser_new, fa_disp = dispatcher_init t x, persist_timer = 0,
     cmd_stdin = False, log_flags = {STDERR}\<rparr>"

definition outside_call :: "('x \<Rightarrow> 'a \<times> 'x) \<Rightarrow> ('x, 'k, 't) service \<Rightarrow> 'a \<times> ('x, 'k, 't) service" where
  "outside_call f st = (let (a, x) = f (outside (fa_disp st)) in (a, st\<lparr>fa_disp := (fa_disp st)\<lparr>outside := x\<rparr>\<rparr>))"

definition outside_do :: "('x \<Rightarrow> 'x) \<Rightarrow> ('x, 'k, 't) service \<Rightarrow> ('x, 'k, 't) service" where
  "outside_do f st = snd (outside_call (\<lambda>x. ((), f x)) st)"

text \<open>The dispatcher reads its options where it uses them.\<close>

definition env_with :: "Options \<Rightarrow> ('x, 'k, 't) env \<Rightarrow> ('x, 'k, 't) env" where
  "env_with ops E = E\<lparr>opt_max_timeout := word_of_int (max_timeout ops), opt_max_buffer_size := word_of_int (max_buffer_size ops),
     opt_command_port := command_port ops, opt_d2d_port := d2d_port ops\<rparr>"

section \<open>Starting\<close>

definition LoggerControl :: "'x factory_ops \<Rightarrow> ('x, 'k, 't) service \<Rightarrow> int \<times> ('x, 'k, 't) service" where
  "LoggerControl F st =
     (if Options_enabled OPT_OSTREAM (fa_options st) then
        (let (good, st1) = outside_call (fo_log_file F) st in
         if good then (1, st1\<lparr>log_flags := insert OSTREAM (log_flags st1 - {STDERR})\<rparr>) else (-1, st1))
      else if Options_enabled OPT_NETLOG (fa_options st)
      then (1, outside_do (fo_log_open F) (st\<lparr>log_flags := insert LOGGER (log_flags st)\<rparr>))
      else (1, st))"

definition XMLParser_initialize :: int where "XMLParser_initialize = 1"
definition CommandParser_initialize :: int where "CommandParser_initialize = 0"

definition initialize_channel ::
  "'x factory_ops \<Rightarrow> ('x, 'k, 't) env \<Rightarrow> ('x, 'k, 't) service \<Rightarrow> int \<times> ('x, 'k, 't) service" where
  "initialize_channel F E st =
     (let (i, X, w) = ConnectionTable_initialize E (fo_read F) (fa_parser st) (fa_disp st)
      in (1, st\<lparr>fa_parser := X, fa_disp := snd (EventChannel_initialize E w)\<rparr>))"

text \<open>The chain of \<open>else if\<close>s, in the order the comment of the code insists on.\<close>

definition start_services ::
  "'x factory_ops \<Rightarrow> ('x, 'k, 't) env \<Rightarrow> ('x, 'k, 't) service \<Rightarrow> int \<times> ('x, 'k, 't) service" where
  "start_services F E st =
     (let (r, st1) = LoggerControl F st in
      if r < 0 then (-1, st1)
      else if XMLParser_initialize < 0 then (-1, st1)
      else if CommandParser_initialize < 0 then (-1, st1)
      else let (r, st2) = outside_call (fo_objmgr_initialize F) st1 in
      if r < 0 then (-1, st2)
      else let (r, st3) = initialize_channel F E st2 in
      if r < 0 then (-1, st3)
      else let (r, st4) = outside_call (fo_task_start F (num_threads (fa_options st3))) st3 in
      if r < 0 then (-1, st4) else (0, st4))"

definition c_str :: "string \<Rightarrow> string" where
  "c_str s = takeWhile (\<lambda>c. c \<noteq> CHR 0x00) s"

definition load_configuration :: "'x factory_ops \<Rightarrow> ('x, 'k, 't) service \<Rightarrow> (int \<times> ('x, 'k, 't) service) option" where
  "load_configuration F st =
     (if Options_enabled OPT_FILE_INIT (fa_options st) then
        (if initialization_file (fa_options st) \<noteq> '''' then do {
           (result, X, w) \<leftarrow> XMLParser_fprocess (fo_files F) (c_str (initialization_file (fa_options st))) (fa_parser st) (fa_disp st);
           Some (if result < 0 then -1 else 0, st\<lparr>fa_parser := X, fa_disp := w\<rparr>)
         }
         else Some (-1, st))
      else if Options_enabled OPT_DATABASE_INIT (fa_options st) then
        (let ((result, temp), st1) = outside_call (fo_key_value F (c_str (initialization_key (fa_options st)))) st in
         if result < 0 then Some (-1, st1)
         else do {
           (result, X, w) \<leftarrow> XMLParser_parse (c_str temp) (fa_parser st1) (fa_disp st1);
           Some (if result < 0 then -1 else 0, st1\<lparr>fa_parser := X, fa_disp := w\<rparr>)
         })
      else Some (0, st))"

definition attach_stdin :: "'x factory_ops \<Rightarrow> ('x, 'k, 't) service \<Rightarrow> int \<times> ('x, 'k, 't) service" where
  "attach_stdin F st =
     (if Options_enabled OPT_CMDSTDIN (fa_options st)
      then (let (r, st1) = outside_call (fo_register_stdin F) (st\<lparr>cmd_stdin := True\<rparr>) in (if r = -1 then -1 else 0, st1))
      else (0, st))"

text \<open>The channel, its report (of whose parts only the one on connections writes), and the timer.\<close>

definition open_channel ::
  "'x factory_ops \<Rightarrow> ('x, 'k, 't) env \<Rightarrow> ('x, 'k, 't) service \<Rightarrow> (int \<times> ('x, 'k, 't) service) option" where
  "open_channel F E st = do {
     (ec_result, w1) \<leftarrow> EventChannel_open E (fa_disp st);
     w2 \<leftarrow> (if Options_enabled OPT_NETLOG (fa_options st) then status_connections w1 else Some w1);
     let (timer, st1) = outside_call (fo_schedule_timer F 1001 600) (st\<lparr>fa_disp := w2\<rparr>);
     Some (ec_result, outside_do (fo_status F 2) (st1\<lparr>persist_timer := timer\<rparr>))
   }"

definition parse_command_line ::
  "'x factory_ops \<Rightarrow> int \<Rightarrow> (char \<times> string) list \<Rightarrow> ('x, 'k, 't) service \<Rightarrow> ('x, 'k, 't) service" where
  "parse_command_line F argc got st = outside_do (fo_debug_args F got)
     (st\<lparr>persist_timer := -1, cmd_stdin := False, fa_options := snd (parse_args argc got (fa_options st))\<rparr>)"

definition DispatcherFactory_init ::
  "'x factory_ops \<Rightarrow> ('x, 'k, 't) env \<Rightarrow> int \<Rightarrow> (char \<times> string) list \<Rightarrow> ('x, 'k, 't) service
     \<Rightarrow> (int \<times> ('x, 'k, 't) service) option" where
  "DispatcherFactory_init F E0 argc got st = do {
     let st0 = parse_command_line F argc got st;
     let E = env_with (fa_options st0) E0;
     let (r1, st1) = start_services F E st0;
     if r1 < 0 then Some (-1, st1) else do {
       (r2, st2) \<leftarrow> load_configuration F st1;
       if r2 < 0 then Some (-1, st2) else
         let (r3, st3) = attach_stdin F st2 in
         if r3 < 0 then Some (-1, st3) else open_channel F E st3
     }
   }"

section \<open>Upcalls and stopping\<close>

definition DispatcherFactory_handle_timeout :: "'x factory_ops \<Rightarrow> int \<Rightarrow> ('x, 'k, 't) service \<Rightarrow> int \<times> ('x, 'k, 't) service" where
  "DispatcherFactory_handle_timeout F timer_tag st =
     (0, if timer_tag = 1001 then snd (outside_call (fo_persist_check F) st) else st)"

text \<open>
  A line from standard input. The buffer is not initialized (\<open>stack\<close> is what is in it) and not terminated: what is behind the bytes
  that were read belongs to the command, up to the first zero byte.
\<close>

definition DispatcherFactory_handle_input ::
  "'x factory_ops \<Rightarrow> ('x, 'k, 't) cmd_ops \<Rightarrow> ('x, 'k, 't) env \<Rightarrow> string \<Rightarrow> int \<Rightarrow> ('x, 'k, 't) service
     \<Rightarrow> (int \<times> ('x, 'k, 't) service) option" where
  "DispatcherFactory_handle_input F C E stack h st =
     (let (n, got, x) = fo_read_stdin F (outside (fa_disp st)); st1 = st\<lparr>fa_disp := (fa_disp st)\<lparr>outside := x\<rparr>\<rparr> in
      if n > 0 then do {
        let buf = got @ drop (length got) stack;
        line \<leftarrow> (if CHR 0x00 \<in> set buf then Some (c_str buf) else None);
        (_, w) \<leftarrow> process_line C E line h (fa_disp st1);
        Some (0, st1\<lparr>fa_disp := w\<rparr>)
      }
      else Some (0, st1))"

definition DispatcherFactory_fini ::
  "'x factory_ops \<Rightarrow> ('x, 'k, 't) env \<Rightarrow> ('x, 'k, 't) service \<Rightarrow> (int \<times> ('x, 'k, 't) service) option" where
  "DispatcherFactory_fini F E st = do {
     let st1 = (if persist_timer st \<noteq> -1 then (outside_do (fo_cancel_timer F (persist_timer st)) st)\<lparr>persist_timer := -1\<rparr> else st);
     w \<leftarrow> EventChannel_destroy E (fa_disp st1);
     let st2 = outside_do (fo_objmgr_close F) (st1\<lparr>fa_disp := w\<rparr>);
     let st3 = st2\<lparr>fa_disp := (fa_disp st2)\<lparr>subscr := SubscriptionCache_destroy (subscr (fa_disp st2))\<rparr>, fa_parser := XMLParser_new\<rparr>;
     let st4 = (if cmd_stdin st3 then outside_do (fo_remove_stdin F) st3 else st3);
     Some (0, if Options_enabled OPT_OSTREAM (fa_options st4) then st4\<lparr>log_flags := insert STDERR (log_flags st4 - {OSTREAM})\<rparr>
              else if Options_enabled OPT_NETLOG (fa_options st4) then st4\<lparr>log_flags := insert STDERR (log_flags st4 - {LOGGER})\<rparr>
              else st4)
   }"


section \<open>The states of start-up\<close>

lemma outside_call_fields [simp]:
  "fa_options (snd (outside_call f st)) = fa_options st" "fa_parser (snd (outside_call f st)) = fa_parser st"
  "persist_timer (snd (outside_call f st)) = persist_timer st" "cmd_stdin (snd (outside_call f st)) = cmd_stdin st"
  "log_flags (snd (outside_call f st)) = log_flags st"
  "\<exists>x. fa_disp (snd (outside_call f st)) = (fa_disp st)\<lparr>outside := x\<rparr>"
  by (auto simp: outside_call_def case_prod_beta Let_def)

lemma outside_do_fields [simp]:
  "fa_options (outside_do g st) = fa_options st" "fa_parser (outside_do g st) = fa_parser st"
  "persist_timer (outside_do g st) = persist_timer st" "cmd_stdin (outside_do g st) = cmd_stdin st"
  "log_flags (outside_do g st) = log_flags st"
  "\<exists>x. fa_disp (outside_do g st) = (fa_disp st)\<lparr>outside := x\<rparr>"
  unfolding outside_do_def by simp_all

text \<open>A dispatcher that differs from another one only outside.\<close>

definition same_inside :: "('x, 'k, 't) dispatcher \<Rightarrow> ('x, 'k, 't) dispatcher \<Rightarrow> bool" where
  "same_inside w w' \<longleftrightarrow> (\<exists>x. w' = w\<lparr>outside := x\<rparr>)"

lemma same_inside_call [simp]:
  "same_inside (fa_disp st) (fa_disp (snd (outside_call f st)))" "same_inside (fa_disp st) (fa_disp (outside_do g st))"
  by (simp_all add: same_inside_def)

lemma same_inside_refl [simp]: "same_inside w w"
  by (auto simp: same_inside_def intro: exI [of _ "outside w"])

lemma same_inside_trans [trans]: "same_inside w w1 \<Longrightarrow> same_inside w1 w2 \<Longrightarrow> same_inside w w2"
  by (auto simp: same_inside_def)

lemma same_inside_running: "same_inside w w' \<Longrightarrow> settled E xml cmd w \<Longrightarrow> settled E xml cmd w'"
  by (auto simp: same_inside_def intro: dispatcher_states.elsewhere)

lemma same_inside_starting: "same_inside w w' \<Longrightarrow> starting E xml cmd w \<Longrightarrow> starting E xml cmd w'"
  by (auto simp: starting_def same_inside_def intro: dispatcher_states.elsewhere)

lemma logger_inside:
  "same_inside (fa_disp st) (fa_disp (snd (LoggerControl F st)))" "fa_parser (snd (LoggerControl F st)) = fa_parser st"
  "fa_options (snd (LoggerControl F st)) = fa_options st"
  using same_inside_call(2) [of "st\<lparr>log_flags := insert LOGGER (log_flags st)\<rparr>" "fo_log_open F"]
  by (simp_all add: LoggerControl_def case_prod_beta Let_def)

lemma channel_initialized:
  assumes "same_inside (dispatcher_init t x) (fa_disp st)"
  shows "starting E xml cmd (fa_disp (snd (initialize_channel F E st))) \<and> ctable (fa_disp (snd (initialize_channel F E st))) = []"
proof -
  obtain x' where x': "fa_disp st = dispatcher_init t x'" using assms by (auto simp: same_inside_def dispatcher_init_def)
  have "fa_disp (snd (initialize_channel F E st)) = snd (EventChannel_initialize E (dispatcher_init t x'))"
    by (simp add: initialize_channel_def ConnectionTable_initialize_def x' EventChannel_initialize_def)
  then show ?thesis by (simp add: starting_def dispatcher_states.start) (simp add: EventChannel_initialize_def dispatcher_init_def)
qed

lemma services_steps:
  fixes st :: "('x, 'k, 't) service"
  assumes "start_services F E st = (r, st')"
  defines "st1 \<equiv> snd (LoggerControl F st)"
  defines "st2 \<equiv> snd (outside_call (fo_objmgr_initialize F) st1)"
  defines "st3 \<equiv> snd (initialize_channel F E st2)"
  defines "st4 \<equiv> snd (outside_call (fo_task_start F (num_threads (fa_options st3))) st3)"
  shows "(r, st') \<in> {(-1, st1), (-1, st2), (-1, st3), (-1, st4), (0, st4)}"
  using assms(1) unfolding start_services_def case_prod_beta Let_def assms(2-5) by (auto split: if_splits)

text \<open>What a call of \<open>start_services\<close> leaves: a dispatcher that never began, or one that waits for its configuration.\<close>

lemma services_started:
  assumes "same_inside (dispatcher_init t x) (fa_disp st)" "fa_parser st = XMLParser_new" "start_services F E st = (r, st')"
  shows "fa_options st' = fa_options st \<and>
    (r = -1 \<and> same_inside (dispatcher_init t x) (fa_disp st') \<or>
     (r = 0 \<or> r = -1) \<and> starting E xml cmd (fa_disp st') \<and> ctable (fa_disp st') = [] \<and> fa_parser st' = config_parser E (fo_read F))"
proof -
  define st1 where "st1 = snd (LoggerControl F st)"
  define st2 where "st2 = snd (outside_call (fo_objmgr_initialize F) st1)"
  define st3 where "st3 = snd (initialize_channel F E st2)"
  define st4 where "st4 = snd (outside_call (fo_task_start F (num_threads (fa_options st3))) st3)"
  note d = st1_def st2_def st3_def st4_def
  have i1: "same_inside (dispatcher_init t x) (fa_disp st1)" using same_inside_trans [OF assms(1) logger_inside(1)] by (simp add: st1_def)
  then have i2: "same_inside (dispatcher_init t x) (fa_disp st2)" unfolding st2_def using same_inside_trans same_inside_call(1) by blast
  have s3: "starting E xml cmd (fa_disp st3)" "ctable (fa_disp st3) = []" unfolding st3_def using channel_initialized [OF i2] by blast+
  have i4: "same_inside (fa_disp st3) (fa_disp st4)" by (simp add: st4_def)
  with s3 have s4: "starting E xml cmd (fa_disp st4)" "ctable (fa_disp st4) = []"
    using same_inside_starting by (blast, auto simp: same_inside_def)
  have o: "fa_options st1 = fa_options st" "fa_options st2 = fa_options st" "fa_options st3 = fa_options st" "fa_options st4 = fa_options st"
    by (simp_all add: d logger_inside initialize_channel_def case_prod_beta Let_def)
  have p: "fa_parser st3 = config_parser E (fo_read F)" "fa_parser st4 = config_parser E (fo_read F)"
    by (simp_all add: d logger_inside initialize_channel_def ConnectionTable_initialize_def assms(2) config_parser_def)
  have "(r, st') \<in> {(-1, st1), (-1, st2), (-1, st3), (-1, st4), (0, st4)}"
    using services_steps [OF assms(3)] unfolding d .
  then show ?thesis using i1 i2 s3 s4 o p by auto
qed


lemma parse_starting:
  assumes "starting E xml cmd w" "XMLParser_parse buf (config_parser E read) w = Some (r, X, w')"
  shows "starting E xml cmd w'"
proof -
  have "\<exists>e rest s'. kleene (alternative [space_rule, record_rule E read]) (dropWhile (\<lambda>c. c \<noteq> CHR ''<'') buf) w = Some (e, rest, s') \<and>
      starting E xml cmd s'"
    by (rule kleene_ends [OF config_progresses assms(1)])
  with assms(2) show ?thesis unfolding XMLParser_parse_def Let_def combine_config by auto
qed

lemma configuration_starting:
  assumes "starting E xml cmd (fa_disp st)" "fa_parser st = config_parser E (fo_read F)" "load_configuration F st = Some (r, st')"
  shows "starting E xml cmd (fa_disp st') \<and> fa_options st' = fa_options st"
proof (cases "Options_enabled OPT_FILE_INIT (fa_options st)")
  case True
  with assms show ?thesis
    by (auto simp: load_configuration_def XMLParser_fprocess_def Option.bind_eq_Some_conv split: if_splits dest: parse_starting)
next
  case False
  let ?c = "outside_call (fo_key_value F (c_str (initialization_key (fa_options st)))) st"
  have s: "starting E xml cmd (fa_disp (snd ?c))" using same_inside_starting [OF same_inside_call(1) assms(1)] .
  have p: "fa_parser (snd ?c) = config_parser E (fo_read F)" using assms(2) by simp
  show ?thesis
  proof (cases "Options_enabled OPT_DATABASE_INIT (fa_options st) \<and> fst (fst ?c) \<ge> 0")
    case True
    with False assms(3) p obtain i X w where "XMLParser_parse (c_str (snd (fst ?c))) (config_parser E (fo_read F)) (fa_disp (snd ?c)) = Some (i, X, w)"
      "st' = (snd ?c)\<lparr>fa_parser := X, fa_disp := w\<rparr>"
      by (auto simp: load_configuration_def case_prod_beta Let_def Option.bind_eq_Some_conv)
    then show ?thesis using parse_starting [OF s] by simp
  qed (use False assms(1,3) s in \<open>auto simp: load_configuration_def case_prod_beta Let_def split: if_splits\<close>)
qed

lemma open_running:
  assumes "settled E xml cmd (fa_disp st)" "open_channel F E st = Some (r, st')"
  shows "settled E xml cmd (fa_disp st') \<and> fa_options st' = fa_options st"
proof -
  obtain i w1 where o: "EventChannel_open E (fa_disp st) = Some (i, w1)"
    using assms(2) by (cases "EventChannel_open E (fa_disp st)") (auto simp: open_channel_def)
  obtain w2 where w: "(if Options_enabled OPT_NETLOG (fa_options st) then status_connections w1 else Some w1) = Some w2"
    using assms(2) o by (cases "if Options_enabled OPT_NETLOG (fa_options st) then status_connections w1 else Some w1")
      (simp_all add: open_channel_def)
  have st': "st' = (let (timer, st1) = outside_call (fo_schedule_timer F 1001 600) (st\<lparr>fa_disp := w2\<rparr>)
      in outside_do (fo_status F 2) (st1\<lparr>persist_timer := timer\<rparr>))"
    using assms(2) unfolding open_channel_def o by (simp add: w case_prod_beta Let_def)
  have "settled E xml cmd w1" using dispatcher_states.opened [OF assms(1) o] .
  then have "settled E xml cmd w2" using w dispatcher_states.reported [of no_bound_reconnect E xml cmd w1 w2] by (auto split: if_splits)
  moreover have "same_inside w2 (fa_disp st')"
  proof -
    let ?c = "outside_call (fo_schedule_timer F 1001 600) (st\<lparr>fa_disp := w2\<rparr>)"
    have "same_inside w2 (fa_disp (snd ?c))" using same_inside_call(1) [of "st\<lparr>fa_disp := w2\<rparr>"] by simp
    also have "same_inside (fa_disp (snd ?c)) (fa_disp st')"
      using same_inside_call(2) [of "(snd ?c)\<lparr>persist_timer := fst ?c\<rparr>" "fo_status F 2"] by (simp add: st' case_prod_beta Let_def)
    finally show ?thesis .
  qed
  ultimately show ?thesis using same_inside_running by (auto simp: st' case_prod_beta Let_def)
qed

lemma env_with_dispatcher: "dispatcher_env E \<Longrightarrow> dispatcher_env (env_with ops E)"
  by (simp add: dispatcher_env_def env_with_def)

lemma new_inside:
  "same_inside (dispatcher_init t x) (fa_disp (parse_command_line F argc got (factory_new nb t x)))"
  "fa_parser (parse_command_line F argc got (factory_new nb t x)) = XMLParser_new"
  using same_inside_call(2) [of "(factory_new nb t x)\<lparr>persist_timer := -1, cmd_stdin := False,
    fa_options := snd (parse_args argc got (Options_new nb))\<rparr>"]
  by (simp_all add: parse_command_line_def factory_new_def)

lemma init_states:
  fixes E :: "('x, 'k, 't) env"
  assumes "DispatcherFactory_init F E argc got (factory_new nb t x) = Some (r, st')"
  shows "settled (env_with (fa_options st') E) xml cmd (fa_disp st') \<or> r = -1 \<and> same_inside (dispatcher_init t x) (fa_disp st')"
proof -
  define st0 :: "('x, 'k, 't) service" where "st0 = parse_command_line F argc got (factory_new nb t x)"
  define E1 where "E1 = env_with (fa_options st0) E"
  obtain r1 st1 where s1: "start_services F E1 st0 = (r1, st1)" by fastforce
  have i0: "same_inside (dispatcher_init t x) (fa_disp st0)" "fa_parser st0 = XMLParser_new"
    unfolding st0_def by (rule new_inside)+
  note s = services_started [OF i0 s1, of xml cmd]
  have init: "DispatcherFactory_init F E argc got (factory_new nb t x) = (if r1 < 0 then Some (-1, st1) else do {
      (r2, st2) \<leftarrow> load_configuration F st1;
      if r2 < 0 then Some (-1, st2) else let (r3, st3) = attach_stdin F st2 in
        if r3 < 0 then Some (-1, st3) else open_channel F E1 st3 })"
    unfolding DispatcherFactory_init_def Let_def st0_def [symmetric] E1_def [symmetric] s1 by simp
  show ?thesis
  proof (cases "r1 < 0")
    case True
    then show ?thesis using assms s unfolding init by (auto simp: starting_def E1_def)
  next
    case False
    with s have st1: "starting E1 xml cmd (fa_disp st1)" "fa_parser st1 = config_parser E1 (fo_read F)" "fa_options st1 = fa_options st0" by auto
    from False assms obtain r2 st2 where s2: "load_configuration F st1 = Some (r2, st2)"
      and rest: "(if r2 < 0 then Some (-1, st2) else let (r3, st3) = attach_stdin F st2 in
        if r3 < 0 then Some (-1, st3) else open_channel F E1 st3) = Some (r, st')"
      unfolding init by (auto simp: Option.bind_eq_Some_conv)
    have st2: "settled E1 xml cmd (fa_disp st2)" "fa_options st2 = fa_options st0"
      using configuration_starting [OF st1(1,2) s2] st1(3) by (auto simp: starting_def)
    let ?st3 = "snd (attach_stdin F st2)"
    have "same_inside (fa_disp st2) (fa_disp ?st3)" "fa_options ?st3 = fa_options st0"
      using same_inside_call(1) [of "st2\<lparr>cmd_stdin := True\<rparr>" "fo_register_stdin F"] st2(2) by (simp_all add: attach_stdin_def case_prod_beta Let_def)
    then have st3: "settled E1 xml cmd (fa_disp ?st3)" "fa_options ?st3 = fa_options st0" using st2(1) same_inside_running by blast+
    have "settled E1 xml cmd (fa_disp st') \<and> fa_options st' = fa_options st0"
      using rest st2 st3 open_running [OF st3(1)] by (auto simp: case_prod_beta Let_def split: if_splits)
    then show ?thesis by (simp add: E1_def)
  qed
qed

text \<open>
  C31.
  The states of start-up. Whatever the command line and whatever the calls to the outside return, \<open>init\<close> leaves a dispatcher that was not
  started (and says so), or one in a settled state, in which the properties of a dispatcher hold: its identity tables are linked.\<close>

theorem started_tables_linked:
  assumes "dispatcher_env E" "parser_keeps xml" "parser_keeps cmd"
    and "DispatcherFactory_init F E argc got (factory_new nb t x) = Some (r, st')"
  shows "settled (env_with (fa_options st') E) xml cmd (fa_disp st') \<and> linked (fa_disp st') \<or>
    r = -1 \<and> (\<exists>x'. fa_disp st' = dispatcher_init t x')"
proof -
  from init_states [OF assms(4)]
  have "settled (env_with (fa_options st') E) xml cmd (fa_disp st') \<or> r = -1 \<and> (\<exists>x'. fa_disp st' = dispatcher_init t x')"
    by (auto simp: same_inside_def dispatcher_init_def)
  then show ?thesis using settled_heap [OF env_with_dispatcher [OF assms(1)] assms(2,3)] by (auto simp: heap_ok_def)
qed

text \<open>An outside in which everything succeeds: it records the calls. The file \<open>conf.xml\<close> holds two records, the database none.\<close>

definition example_fops :: "string list factory_ops" where
  "example_fops =
     \<lparr>fo_debug_args = (\<lambda>got x. x), fo_log_file = (\<lambda>x. (True, x @ [''log''])), fo_log_open = (\<lambda>x. x @ [''logger'']),
      fo_objmgr_initialize = (\<lambda>x. (1, x @ [''objmgr''])), fo_task_start = (\<lambda>n x. (0, x @ [''tasks''])),
      fo_files = (\<lambda>f. if f = ''conf.xml'' then Some config_text else None), fo_read = example_read,
      fo_key_value = (\<lambda>k x. ((0, ''''), x @ [k])), fo_register_stdin = (\<lambda>x. (0, x @ [''stdin''])),
      fo_schedule_timer = (\<lambda>tag s x. (77, x @ [''timer''])), fo_status = (\<lambda>n x. x @ [''status'']),
      fo_persist_check = (\<lambda>x. (0, x)), fo_cancel_timer = (\<lambda>i x. x @ [''cancel'']), fo_objmgr_close = (\<lambda>x. x @ [''close'']),
      fo_remove_stdin = (\<lambda>x. x @ [''no stdin'']), fo_read_stdin = (\<lambda>x. (0, '''', x))\<rparr>"

definition started :: "(string list, sock, int) service" where
  "started = snd (the (DispatcherFactory_init example_fops example_env 2 [(CHR ''S'', '''')] (factory_new 0 0 [])))"

lemma parse_empty: "XMLParser_parse [] (register_parser (record_rule E read) XMLParser_new) w =
    Some (0, combine_rules (register_parser (record_rule E read) XMLParser_new), w)"
proof -
  have "kleene (config_rule E read) [] w = Some (None, [], w)"
    by (rule kleene_rules(2) [where r = "config_rule E read", OF config_stops]) (simp add: stops_def)
  then show ?thesis
    unfolding XMLParser_parse_def Let_def config_parser_def [symmetric] combine_config config_rule_def [symmetric] by simp
qed

lemmas factory_defs = DispatcherFactory_init_def start_services_def parse_command_line_def outside_do_def outside_call_def factory_new_def
  LoggerControl_def XMLParser_initialize_def CommandParser_initialize_def initialize_channel_def load_configuration_def attach_stdin_def
  open_channel_def ConnectionTable_initialize_def c_str_def

lemma example_starts:
  "\<exists>st. DispatcherFactory_init example_fops example_env 2 [(CHR ''S'', '''')] (factory_new 0 0 []) = Some (0, st) \<and>
    outside (fa_disp st) = [''objmgr'', ''tasks'', ''dispatcher_default'', ''stdin'', ''timer'', ''status''] \<and> length (ctable (fa_disp st)) = 1 \<and>
    persist_timer st = 77 \<and> cmd_stdin st"
  by (simp add: factory_defs example_fops_def parse_args_def parse_arg_def Options_enabled_def Options_enable_def Options_new_def Let_def parse_empty
      EventChannel_open_def EventChannel_initialize_def initiate_command_acceptor_def new_record_def ct_bind_def
      initiate_connections_def initiate_connection_def dispatcher_init_def the_rec_def set_rec_def auto_record_def
      env_with_def example_defs smap_insert_def ChannelFilterMgr_initialize_def ChannelFilterMgr_new_def)

lemma example_started: "DispatcherFactory_init example_fops example_env 2 [(CHR ''S'', '''')] (factory_new 0 0 []) = Some (0, started)"
  "outside (fa_disp started) = [''objmgr'', ''tasks'', ''dispatcher_default'', ''stdin'', ''timer'', ''status'']"
  "length (ctable (fa_disp started)) = 1" "persist_timer started = 77" "cmd_stdin started"
  using example_starts by (auto simp: started_def)

theorem started_tables_linked_witness: "linked (fa_disp started) \<and> length (ctable (fa_disp started)) = 1"
proof -
  have keeps: "parser_keeps no_parser" by (simp add: parser_keeps_def no_parser_def)
  from started_tables_linked [OF example.dispatcher_env_axioms keeps keeps example_started(1)] example_started(3)
  show ?thesis by simp
qed


section \<open>From the command line to the table\<close>

lemma options_of_line:
  "argc \<noteq> 0 \<Longrightarrow> fa_options (parse_command_line F argc got (factory_new nb t x)) = fold parse_arg got (Options_new nb)"
  by (simp add: parse_command_line_def parse_args_def factory_new_def)

lemma last_given: "last_arg c got = Some s \<Longrightarrow> given c got"
  using map_of_SomeD [of "rev got" c s] by (force simp: last_arg_def given_def)

lemma c_str_id: "CHR 0x00 \<notin> set s \<Longrightarrow> c_str s = s"
  by (auto simp: c_str_def takeWhile_eq_all_conv)

text \<open>
  C30.
  From the command line to the connection table. When the last \<open>-f\<close> names a file whose records have ids of their own, and the services
  start, the configuration is loaded: every record is in the table under its id, and where it leaves its read buffer open it has the
  size of the last \<open>-B\<close>, or 1024. What follows the records in the file is ignored from the first thing on that is neither
  white space nor a record, and this is not reported.\<close>

theorem file_configuration_loaded:
  assumes "argc \<noteq> 0" "last_arg CHR ''f'' got = Some file" "file \<noteq> ''''" "CHR 0x00 \<notin> set file"
    and "fo_files F file = Some (junk @ show_records items @ tail)" "CHR 0x00 \<notin> set (junk @ show_records items @ tail)"
    and "CHR ''<'' \<notin> set junk" "items \<noteq> []" "list_all2 (plain_item (fo_read F)) items rs" "stops tail"
    and "distinct (map r_id rs)" "0 \<notin> r_id ` set rs"
    and "st0 = parse_command_line F argc got (factory_new nb t x)" "start_services F (env_with (fa_options st0) E) st0 = (0, st1)"
  shows "\<exists>st2. load_configuration F st1 = Some (0, st2) \<and>
    (\<forall>r \<in> set rs. \<exists>p r'. smap_find (sint (r_id r)) (ctable (fa_disp st2)) = Some p \<and> the_rec p (fa_disp st2) = Some r' \<and>
      r' = restored (env_with (fa_options st0) E) r \<and>
      (r_read_buff r = 0 \<longrightarrow> r_read_buff r' = word_of_int (case last_arg CHR ''B'' got of None \<Rightarrow> 1024 | Some s \<Rightarrow> atoi s)))"
proof -
  let ?E = "env_with (fa_options st0) E"
  have o: "fa_options st0 = fold parse_arg got (Options_new nb)" using options_of_line [OF assms(1)] assms(13) by simp
  have f: "Options_enabled OPT_FILE_INIT (fa_options st0)" "initialization_file (fa_options st0) = file"
    "max_buffer_size (fa_options st0) = (case last_arg CHR ''B'' got of None \<Rightarrow> 1024 | Some s \<Rightarrow> atoi s)"
    using flags_of_line [of got nb] fields_of_line [of got nb] assms(2) last_given [OF assms(2)] by (simp_all add: o Let_def)
  have i0: "same_inside (dispatcher_init t x) (fa_disp st0)" "fa_parser st0 = XMLParser_new"
    unfolding assms(13) by (rule new_inside)+
  have s1: "fa_options st1 = fa_options st0" "starting ?E (\<lambda>_ _ _. None) (\<lambda>_ _ _. None) (fa_disp st1)" "fa_parser st1 = config_parser ?E (fo_read F)"
    "ctable (fa_disp st1) = []"
    using services_started [OF i0 assms(14), of "\<lambda>_ _ _. None" "\<lambda>_ _ _. None"] by auto
  obtain w X where w: "XMLParser_parse (junk @ show_records items @ tail) (config_parser ?E (fo_read F)) (fa_disp st1) = Some (0, X, w)"
    "\<forall>r \<in> set rs. \<exists>p. smap_find (sint (r_id r)) (ctable w) = Some p \<and> the_rec p w = Some (restored ?E r)"
    using records_read [OF assms(7-10) s1(4) _ assms(11,12), of ?E] s1(2) by (auto simp: starting_def)
  have "XMLParser_fprocess (fo_files F) file (fa_parser st1) (fa_disp st1) = Some (0, X, w)"
    unfolding XMLParser_fprocess_def assms(5) c_str_def [symmetric] bind.bind_lunit c_str_id [OF assms(6)] s1(3) by (fact w(1))
  then have "load_configuration F st1 = Some (0, st1\<lparr>fa_parser := X, fa_disp := w\<rparr>)"
    using f(1,2) assms(3) s1(1) c_str_id [OF assms(4)] by (simp add: load_configuration_def)
  moreover have "r_read_buff r = 0 \<longrightarrow>
    r_read_buff (restored ?E r) = word_of_int (case last_arg CHR ''B'' got of None \<Rightarrow> 1024 | Some s \<Rightarrow> atoi s)" for r
    by (simp add: restored_def env_with_def f(3) split: option.split)
  ultimately show ?thesis using w(2) by auto
qed

definition file_got :: "(char \<times> string) list" where
  "file_got = [(CHR ''f'', ''conf.xml''), (CHR ''B'', ''512'')]"

theorem file_configuration_loaded_witness:
  "(let st0 = parse_command_line example_fops 5 file_got (factory_new 0 0 []);
       (r, st1) = start_services example_fops (env_with (fa_options st0) example_env) st0
    in \<exists>st2 p r'. load_configuration example_fops st1 = Some (0, st2) \<and>
      smap_find 13 (ctable (fa_disp st2)) = Some p \<and> the_rec p (fa_disp st2) = Some r' \<and> r_read_buff r' = 512)"
proof -
  let ?st0 = "parse_command_line example_fops 5 file_got (factory_new 0 0 []) :: (string list, sock, int) service"
  let ?E = "env_with (fa_options ?st0) example_env"
  obtain st1 where s: "start_services example_fops ?E ?st0 = (0, st1)"
    by (simp add: factory_defs example_fops_def file_got_def parse_args_def parse_arg_def Options_enabled_def Options_enable_def Options_new_def
        Let_def EventChannel_initialize_def)
  have st: "stops ''<end>''" by (simp add: stops_def space_p_def starts_def record_open_def)
  have t: "config_text = ''?>'' @ show_records [(''models'', '' ''), (''other'', '''')] @ ''<end>''"
    by (simp add: config_text_def show_records_def)
  have n: "CHR 0x00 \<notin> set config_text" by (simp add: config_text_def record_open_def record_close_def)
  have i: "list_all2 (plain_item (fo_read example_fops)) [(''models'', '' ''), (''other'', '''')] [example_record, example_record\<lparr>r_id := 13\<rparr>]"
    using example_items by (simp add: example_fops_def)
  have d: "distinct (map r_id [example_record, example_record\<lparr>r_id := 13\<rparr>])" "0 \<notin> r_id ` set [example_record, example_record\<lparr>r_id := 13\<rparr>]"
    by (simp_all add: example_record_def)
  have l: "last_arg CHR ''f'' file_got = Some ''conf.xml''" "last_arg CHR ''B'' file_got = Some ''512''" by (simp_all add: last_arg_def file_got_def)
  have a: "atoi ''512'' = 512" by code_simp
  have "fo_files example_fops ''conf.xml'' = Some (''?>'' @ show_records [(''models'', '' ''), (''other'', '''')] @ ''<end>'')"
    by (simp add: example_fops_def t)
  from file_configuration_loaded [OF _ l(1) _ _ this _ _ _ i st d refl s] n show ?thesis
    unfolding Let_def s by (auto simp: t l a example_record_def)
qed

section \<open>Stopping\<close>

lemma channel_fields:
  "fa_options (snd (initialize_channel F E st)) = fa_options st" "log_flags (snd (initialize_channel F E st)) = log_flags st"
  by (simp_all add: initialize_channel_def case_prod_beta Let_def)

lemma log_of_services:
  assumes "start_services F E st = (r, st')"
  shows "fa_options st' = fa_options st \<and> log_flags st' = log_flags (snd (LoggerControl F st))"
proof -
  let ?st1 = "snd (LoggerControl F st)"
  let ?st2 = "snd (outside_call (fo_objmgr_initialize F) ?st1)"
  let ?st3 = "snd (initialize_channel F E ?st2)"
  let ?st4 = "snd (outside_call (fo_task_start F (num_threads (fa_options ?st3))) ?st3)"
  have "st' \<in> {?st1, ?st2, ?st3, ?st4}" using services_steps [OF assms] by auto
  then show ?thesis by (elim insertE emptyE) (simp_all add: logger_inside channel_fields)
qed

lemma load_fields:
  "load_configuration F st = Some (r, st') \<Longrightarrow>
    fa_options st' = fa_options st \<and> log_flags st' = log_flags st"
  by (auto simp: load_configuration_def case_prod_beta Let_def Option.bind_eq_Some_conv split: if_splits)

lemma attach_fields:
  "fa_options (snd (attach_stdin F st)) = fa_options st" "log_flags (snd (attach_stdin F st)) = log_flags st"
  by (simp_all add: attach_stdin_def case_prod_beta Let_def)

lemma open_fields:
  "open_channel F E st = Some (r, st') \<Longrightarrow> fa_options st' = fa_options st \<and> log_flags st' = log_flags st"
  by (auto simp: open_channel_def case_prod_beta Let_def Option.bind_eq_Some_conv)

lemma log_of_init:
  fixes E :: "('x, 'k, 't) env"
  assumes "DispatcherFactory_init F E argc got (factory_new nb t x) = Some (r, st)"
  shows "\<exists>st0 :: ('x, 'k, 't) service. log_flags st0 = {STDERR} \<and> fa_options st = fa_options st0 \<and> log_flags st = log_flags (snd (LoggerControl F st0))"
proof -
  define st0 :: "('x, 'k, 't) service" where "st0 = parse_command_line F argc got (factory_new nb t x)"
  obtain r1 st1 where s1: "start_services F (env_with (fa_options st0) E) st0 = (r1, st1)" by fastforce
  have l: "log_flags st0 = {STDERR}" by (simp add: st0_def parse_command_line_def factory_new_def)
  have k: "fa_options st = fa_options st1 \<and> log_flags st = log_flags st1"
  proof (cases "r1 < 0")
    case True
    then show ?thesis using assms unfolding DispatcherFactory_init_def Let_def st0_def [symmetric] s1 by simp
  next
    case False
    with assms obtain r2 st2 where s2: "load_configuration F st1 = Some (r2, st2)"
      and r: "(if r2 < 0 then Some (-1, st2) else (case attach_stdin F st2 of (r3, st3) \<Rightarrow>
        if r3 < 0 then Some (-1, st3) else open_channel F (env_with (fa_options st0) E) st3)) = Some (r, st)"
      unfolding DispatcherFactory_init_def Let_def st0_def [symmetric] s1 by (auto simp: Option.bind_eq_Some_conv)
    have "st = st2 \<or> st = snd (attach_stdin F st2) \<or> open_channel F (env_with (fa_options st0) E) (snd (attach_stdin F st2)) = Some (r, st)"
      using r by (auto simp: case_prod_beta split: if_splits)
    then show ?thesis using load_fields [OF s2] open_fields attach_fields by metis
  qed
  with l log_of_services [OF s1] show ?thesis by metis
qed

lemma stdin_of_services:
  assumes "start_services F E st = (r, st')"
  shows "cmd_stdin st' = cmd_stdin st"
proof -
  let ?st1 = "snd (LoggerControl F st)"
  let ?st2 = "snd (outside_call (fo_objmgr_initialize F) ?st1)"
  let ?st3 = "snd (initialize_channel F E ?st2)"
  let ?st4 = "snd (outside_call (fo_task_start F (num_threads (fa_options ?st3))) ?st3)"
  have "cmd_stdin ?st1 = cmd_stdin st" by (simp add: LoggerControl_def case_prod_beta Let_def)
  moreover have "cmd_stdin ?st3 = cmd_stdin ?st2" by (simp add: initialize_channel_def case_prod_beta Let_def)
  moreover have "st' \<in> {?st1, ?st2, ?st3, ?st4}" using services_steps [OF assms] by auto
  ultimately show ?thesis by (elim insertE emptyE) simp_all
qed

text \<open>What a successful \<open>init\<close> leaves for \<open>fini\<close>: the id of the timer and whether standard input is to be removed.\<close>

lemma init_remembers:
  fixes E :: "('x, 'k, 't) env"
  assumes "argc \<noteq> 0" and "\<And>x. fst (fo_schedule_timer F 1001 600 x) = timer"
    and "DispatcherFactory_init F E argc got (factory_new nb t x) = Some (r, st)" and "r \<noteq> -1"
  shows "persist_timer st = timer \<and> cmd_stdin st = given CHR ''S'' (after_last CHR ''D'' got)"
proof -
  define st0 :: "('x, 'k, 't) service" where "st0 = parse_command_line F argc got (factory_new nb t x)"
  obtain r1 st1 where s1: "start_services F (env_with (fa_options st0) E) st0 = (r1, st1)" by fastforce
  have r1: "\<not> r1 < 0" using assms(3,4) unfolding DispatcherFactory_init_def Let_def st0_def [symmetric] s1 by auto
  with assms(3,4) obtain r2 st2 where s2: "load_configuration F st1 = Some (r2, st2)"
    and o: "open_channel F (env_with (fa_options st0) E) (snd (attach_stdin F st2)) = Some (r, st)"
    unfolding DispatcherFactory_init_def Let_def st0_def [symmetric] s1
    by (auto simp: Option.bind_eq_Some_conv case_prod_beta split: if_splits)
  have "cmd_stdin st2 = cmd_stdin st1"
    using s2 by (auto simp: load_configuration_def case_prod_beta Let_def Option.bind_eq_Some_conv split: if_splits)
  moreover have "\<not> cmd_stdin st0" by (simp add: st0_def parse_command_line_def)
  ultimately have "cmd_stdin (snd (attach_stdin F st2)) = Options_enabled OPT_CMDSTDIN (fa_options st2)"
    using stdin_of_services [OF s1] by (auto simp: attach_stdin_def case_prod_beta Let_def split: if_splits)
  moreover have "fa_options st2 = fold parse_arg got (Options_new nb)"
    using load_fields [OF s2] log_of_services [OF s1] options_of_line [OF assms(1)] by (simp add: st0_def)
  moreover have "persist_timer st = timer" "cmd_stdin st = cmd_stdin (snd (attach_stdin F st2))"
    using o assms(2) by (auto simp: open_channel_def case_prod_beta Let_def Option.bind_eq_Some_conv outside_call_def)
  ultimately show ?thesis using flags_of_line [of got nb] by (simp add: Let_def)
qed


text \<open>
  The flag is set before standard input is registered: when the registration fails, \<open>init\<close> fails with the flag set, and \<open>fini\<close> removes a handler that
  was never registered.
\<close>

lemma failed_registration_remembered:
  assumes "Options_enabled OPT_CMDSTDIN (fa_options st)" and "fst (fo_register_stdin F (outside (fa_disp st))) = -1"
  shows "\<exists>st'. attach_stdin F st = (-1, st') \<and> cmd_stdin st'"
  using assms by (simp add: attach_stdin_def outside_call_def case_prod_beta Let_def)

lemma example_destroys: "\<exists>w. EventChannel_destroy example_env (dispatcher_init 0 x) = Some w \<and> outside w = x"
  by (simp add: EventChannel_destroy_def dispatcher_init_def ConnectionTable_destroy_def ChannelFilterMgr_destroy_def ChannelFilterMgr_new_def
      example_defs Let_def)



section \<open>Commands from standard input\<close>

text \<open>Whatever the line, the dispatcher keeps its tables linked.\<close>

lemma stdin_keeps_heap:
  assumes "dispatcher_env E" "heap_ok (fa_disp st)" "DispatcherFactory_handle_input F C E stack h st = Some (r, st')"
  shows "r = 0 \<and> heap_ok (fa_disp st')"
  using assms(2,3) dispatcher_env.line_heap [OF assms(1), of "(fa_disp st)\<lparr>outside := x\<rparr>" for x]
  by (auto simp: DispatcherFactory_handle_input_def case_prod_beta Let_def Option.bind_eq_Some_conv ends_def split: if_splits)

text \<open>What is left in the buffer behind a short line becomes part of the command.\<close>

lemma stdin_reads_on:
  assumes "fo_read_stdin F (outside (fa_disp st)) = (n, got, x)" "n > 0" "CHR 0x00 \<notin> set got"
    and "CHR 0x00 \<in> set (drop (length got) stack)" "process_line C E (got @ c_str (drop (length got) stack)) h ((fa_disp st)\<lparr>outside := x\<rparr>) = Some (i, w)"
  shows "DispatcherFactory_handle_input F C E stack h st = Some (0, st\<lparr>fa_disp := w\<rparr>)"
proof -
  have "c_str (got @ drop (length got) stack) = got @ c_str (drop (length got) stack)"
    using assms(3) unfolding c_str_def by (subst takeWhile_append2) auto
  then show ?thesis using assms by (simp add: DispatcherFactory_handle_input_def)
qed

end
