(* ===== verification/Coord.thy ===== *)
theory Coord
  imports Conversions
begin

text \<open>
  The header \<open>src/Models/MathUtilities1p2/Coord.h\<close>, the coordinates of the DIS gateway: degrees and radians, geodetic
  coordinates and the geocentric frame (\<open>GCC\<close>), the local north-east-down axes, the orientation angles of DIS, and the class
  \<open>LCS\<close>, a local coordinate system at a point of the ellipsoid. The tuples of the source are tuples.
\<close>

section \<open>Angles and the ellipsoid\<close>

definition Degrees_of_Radians :: "real \<Rightarrow> real" where "Degrees_of_Radians v = 180 / pi * v"
definition Radians_of_Degrees :: "real \<Rightarrow> real" where "Radians_of_Degrees v = pi / 180 * v"

definition wgs_a :: real where "wgs_a = 6378137.0000"
definition wgs_b :: real where "wgs_b = 6356752.3142"
definition wgs_e2 :: real where "wgs_e2 = (wgs_a * wgs_a - wgs_b * wgs_b) / (wgs_a * wgs_a)"
definition wgs_ep2 :: real where "wgs_ep2 = (wgs_a * wgs_a - wgs_b * wgs_b) / (wgs_b * wgs_b)"

definition coord_N :: "real \<Rightarrow> real" where
  "coord_N phi = wgs_a / sqrt (1 - wgs_e2 * (sin phi)\<^sup>2)"

definition lat_lon_alt_to_gcc :: "real \<Rightarrow> real \<Rightarrow> real \<Rightarrow> real \<times> real \<times> real" where
  "lat_lon_alt_to_gcc lat lon alt =
     (let N = coord_N lat; P = (N + alt) * cos lat
      in (P * cos lon, P * sin lon, (N * (1 - wgs_e2) + alt) * sin lat))"

definition gcc_to_lat_lon_alt :: "real \<Rightarrow> real \<Rightarrow> real \<Rightarrow> real \<times> real \<times> real" where
  "gcc_to_lat_lon_alt x y z =
     (let p = sqrt (x\<^sup>2 + y\<^sup>2);
          theta = arctan (z * wgs_a / (p * wgs_b));
          lat = arctan ((z + wgs_ep2 * wgs_b * sin theta ^ 3) / (p - wgs_e2 * wgs_a * cos theta ^ 3));
          lon = atan2 y x
      in (lat, lon, p / cos lat - coord_N lat))"

section \<open>Orientation\<close>

definition angles_of :: "real \<Rightarrow> real \<Rightarrow> real \<Rightarrow> real \<Rightarrow> real \<Rightarrow> real \<times> real \<times> real" where
  "angles_of r11 r21 r31 r32 r33 = (atan2 r21 r11, atan2 (- r31) (sqrt (r32 * r32 + r33 * r33)), atan2 r32 r33)"

definition lat_lon_hdg_to_psi_theta_phi :: "real \<Rightarrow> real \<Rightarrow> real \<Rightarrow> real \<times> real \<times> real" where
  "lat_lon_hdg_to_psi_theta_phi lat lon hdg =
     (let alph = lon; beta = - lat - pi * 0.5; gamm = hdg;
          r11 = cos alph * cos beta * cos gamm - sin alph * sin gamm;
          r21 = sin alph * cos beta * cos gamm + cos alph * sin gamm;
          r31 = - sin beta * cos gamm; r32 = sin beta * sin gamm; r33 = cos beta
      in angles_of r11 r21 r31 r32 r33)"

definition lat_lon_hpr_to_psi_theta_phi :: "real \<Rightarrow> real \<Rightarrow> real \<Rightarrow> real \<Rightarrow> real \<Rightarrow> real \<times> real \<times> real" where
  "lat_lon_hpr_to_psi_theta_phi lat lon h p r =
     (let alph = lon; beta = - (lat + pi * 0.5);
          As = sin alph; Ac = cos alph; Bs = sin beta; Bc = cos beta; Hs = sin h; Hc = cos h;
          Ps = sin p; Pc = cos p; Rs = sin r; Rc = cos r;
          r11 = (Ac * Bc * Hc - As * Hs) * Pc - Ac * Bs * Ps;
          r21 = (As * Bc * Hc + Ac * Hs) * Pc - As * Bs * Ps;
          r31 = - Bs * Hc * Pc - Bc * Ps;
          r32 = Bs * Hs * Rc + (- Bs * Hc * Ps + Bc * Pc) * Rs;
          r33 = - Bs * Hs * Rs + (- Bs * Hc * Ps + Bc * Pc) * Rc
      in angles_of r11 r21 r31 r32 r33)"

section \<open>The local axes\<close>

definition ned_to_xyz :: "real \<Rightarrow> real \<Rightarrow> real \<Rightarrow> real \<Rightarrow> real \<Rightarrow> real \<times> real \<times> real" where
  "ned_to_xyz lat lon n e d =
     (let psi = lon; phi = - lat; c_psi = cos psi; s_psi = sin psi; c_phi = cos phi; s_phi = sin phi
      in (- c_psi * c_phi * d - s_psi * e + c_psi * s_phi * n,
          - s_psi * c_phi * d + c_psi * e + s_psi * s_phi * n,
          s_phi * d + c_phi * n))"

definition xyz_to_ned :: "real \<Rightarrow> real \<Rightarrow> real \<Rightarrow> real \<Rightarrow> real \<Rightarrow> real \<times> real \<times> real" where
  "xyz_to_ned lat lon x y z =
     (let psi = lon; phi = - lat; c_psi = cos psi; s_psi = sin psi; c_phi = cos phi; s_phi = sin phi;
          d = - c_psi * c_phi * x - s_psi * c_phi * y + s_phi * z;
          e = - s_psi * x + c_psi * y;
          n = c_psi * s_phi * x + s_psi * s_phi * y + c_phi * z
      in (n, e, d))"

record LCS =
  xo :: real
  yo :: real
  zo :: real
  a11 :: real
  a12 :: real
  a13 :: real
  a21 :: real
  a22 :: real
  a23 :: real
  a31 :: real
  a32 :: real
  a33 :: real

definition LCS :: "real \<Rightarrow> real \<Rightarrow> LCS" where
  "LCS lat lon =
     (let (x, y, z) = lat_lon_alt_to_gcc lat lon 0
      in \<lparr>xo = x, yo = y, zo = z,
          a11 = - cos lon * cos lat, a12 = - sin lon, a13 = - cos lon * sin lat,
          a21 = - sin lon * cos lat, a22 = cos lon, a23 = - sin lon * sin lat,
          a31 = - sin lat, a32 = 0, a33 = cos lat\<rparr>)"

definition to_gcc_delta :: "LCS \<Rightarrow> real \<times> real \<times> real \<Rightarrow> real \<times> real \<times> real" where
  "to_gcc_delta l = (\<lambda>(n, e, d). (a11 l * d + a12 l * e + a13 l * n, a21 l * d + a22 l * e + a23 l * n,
     a31 l * d + a32 l * e + a33 l * n))"

definition to_gcc :: "LCS \<Rightarrow> real \<times> real \<times> real \<Rightarrow> real \<times> real \<times> real" where
  "to_gcc l = (\<lambda>(n, e, d). (a11 l * d + a12 l * e + a13 l * n + xo l, a21 l * d + a22 l * e + a23 l * n + yo l,
     a31 l * d + a32 l * e + a33 l * n + zo l))"

definition from_gcc_delta :: "LCS \<Rightarrow> real \<times> real \<times> real \<Rightarrow> real \<times> real \<times> real" where
  "from_gcc_delta l = (\<lambda>(x, y, z).
     let d = a11 l * x + a21 l * y + a31 l * z; e = a12 l * x + a22 l * y + a32 l * z; n = a13 l * x + a23 l * y + a33 l * z
     in (n, e, d))"

definition from_gcc :: "LCS \<Rightarrow> real \<times> real \<times> real \<Rightarrow> real \<times> real \<times> real" where
  "from_gcc l = (\<lambda>(x, y, z).
     let x = x - xo l; y = y - yo l; z = z - zo l;
         d = a11 l * x + a21 l * y + a31 l * z; e = a12 l * x + a22 l * y + a32 l * z; n = a13 l * x + a23 l * y + a33 l * z
     in (n, e, d))"

definition to_lle :: "LCS \<Rightarrow> real \<times> real \<times> real \<Rightarrow> real \<times> real \<times> real" where
  "to_lle l ned = (let (xg, yg, zg) = to_gcc l ned in gcc_to_lat_lon_alt xg yg zg)"

definition from_lle :: "LCS \<Rightarrow> real \<Rightarrow> real \<Rightarrow> real \<Rightarrow> real \<times> real \<times> real" where
  "from_lle l lat lon alt = from_gcc l (lat_lon_alt_to_gcc lat lon alt)"

section \<open>Round trips\<close>

lemma degrees_radians: "Radians_of_Degrees (Degrees_of_Radians v) = v" "Degrees_of_Radians (Radians_of_Degrees v) = v"
  by (simp_all add: Radians_of_Degrees_def Degrees_of_Radians_def)

lemma xyz_ned: "case ned_to_xyz lat lon n e d of (x, y, z) \<Rightarrow> xyz_to_ned lat lon x y z = (n, e, d)"
  using sin_cos_1 [of lat] sin_cos_1 [of lon]
  unfolding ned_to_xyz_def xyz_to_ned_def Let_def prod.case prod.inject sin_minus cos_minus
  by - (intro conjI; algebra)

lemma ned_xyz: "case xyz_to_ned lat lon x y z of (n, e, d) \<Rightarrow> ned_to_xyz lat lon n e d = (x, y, z)"
  using sin_cos_1 [of lat] sin_cos_1 [of lon]
  unfolding ned_to_xyz_def xyz_to_ned_def Let_def prod.case prod.inject sin_minus cos_minus
  by - (intro conjI; algebra)

text \<open>The local system at a point has the axes of \<open>ned_to_xyz\<close> there.\<close>

lemma to_gcc_delta: "to_gcc_delta (LCS lat lon) (n, e, d) = ned_to_xyz lat lon n e d"
  by (simp add: to_gcc_delta_def LCS_def ned_to_xyz_def Let_def split: prod.split)

lemma from_gcc_delta: "from_gcc_delta (LCS lat lon) (x, y, z) = xyz_to_ned lat lon x y z"
  by (simp add: from_gcc_delta_def LCS_def xyz_to_ned_def Let_def split: prod.split)

lemma to_gcc_xyz: "to_gcc (LCS lat lon) (n, e, d) =
  (case (lat_lon_alt_to_gcc lat lon 0, ned_to_xyz lat lon n e d) of ((x0, y0, z0), (x, y, z)) \<Rightarrow> (x + x0, y + y0, z + z0))"
  by (simp add: to_gcc_def LCS_def ned_to_xyz_def Let_def split: prod.split)

lemma from_gcc_xyz: "from_gcc (LCS lat lon) (x, y, z) =
  (case lat_lon_alt_to_gcc lat lon 0 of (x0, y0, z0) \<Rightarrow> xyz_to_ned lat lon (x - x0) (y - y0) (z - z0))"
  by (simp add: from_gcc_def LCS_def xyz_to_ned_def Let_def split: prod.split)

text \<open>A change of frame: two conversions that undo each other.\<close>

locale frame_change =
  fixes into :: "'a \<Rightarrow> 'b" and out :: "'b \<Rightarrow> 'a"
  assumes out_into [simp]: "out (into v) = v"
    and into_out [simp]: "into (out w) = w"
begin

lemma into_eq_iff: "into v = w \<longleftrightarrow> v = out w"
  by auto

lemma bij_into: "bij into"
  by (rule bijI') (metis out_into, metis into_out)

end

interpretation ned: frame_change "\<lambda>(n, e, d). ned_to_xyz lat lon n e d" "\<lambda>(x, y, z). xyz_to_ned lat lon x y z" for lat lon
  by unfold_locales
    (use xyz_ned in \<open>force split: prod.splits\<close>, use ned_xyz in \<open>force split: prod.splits\<close>)

interpretation lcs: frame_change "to_gcc (LCS lat lon)" "from_gcc (LCS lat lon)" for lat lon
proof
  fix v w :: "real \<times> real \<times> real"
  show "from_gcc (LCS lat lon) (to_gcc (LCS lat lon) v) = v"
    using xyz_ned [of lat lon "fst v" "fst (snd v)" "snd (snd v)"]
    by (cases v) (simp add: to_gcc_xyz from_gcc_xyz split: prod.splits)
  obtain x0 y0 z0 where o: "lat_lon_alt_to_gcc lat lon 0 = (x0, y0, z0)" by (metis prod_cases3)
  obtain x y z where w: "w = (x, y, z)" by (metis prod_cases3)
  obtain n e d where ned: "xyz_to_ned lat lon (x - x0) (y - y0) (z - z0) = (n, e, d)" by (metis prod_cases3)
  show "to_gcc (LCS lat lon) (from_gcc (LCS lat lon) w) = w"
    using ned_xyz [of lat lon "x - x0" "y - y0" "z - z0"] by (simp add: w o ned to_gcc_xyz from_gcc_xyz)
qed

subsection \<open>Points of the ellipsoid\<close>

lemma wgs_radii: "0 < wgs_b" "wgs_b < wgs_a"
  by (simp_all add: wgs_a_def wgs_b_def)

lemma coord_N: "coord_N phi = wgs_a / curvature wgs_a wgs_b phi"
  by (simp add: coord_N_def curvature_def wgs_e2_def power2_eq_square)

lemma arctan_ratio: "0 < r \<Longrightarrow> \<bar>t\<bar> < pi / 2 \<Longrightarrow> arctan (r * sin t / (r * cos t)) = t"
  using arctan_tan [of t] by (simp add: tan_def abs_less_iff minus_less_iff)

lemma gcc_roundtrip:
  assumes lat: "\<bar>lat\<bar> < pi / 2" and lon: "- pi < lon" "lon \<le> pi"
  shows "case lat_lon_alt_to_gcc lat lon 0 of (x, y, z) \<Rightarrow> gcc_to_lat_lon_alt x y z = (lat, lon, 0)"
proof -
  define p z where "p = wgs_a / curvature wgs_a wgs_b lat * cos lat"
    and "z = wgs_b\<^sup>2 / wgs_a\<^sup>2 * (wgs_a / curvature wgs_a wgs_b lat) * sin lat"
  have W: "0 < curvature wgs_a wgs_b lat"
    using curvature_lower(1) [OF wgs_radii] wgs_radii by (auto intro: less_le_trans [of 0 "wgs_b / wgs_a"])
  have c: "0 < cos lat" using lat by (intro cos_gt_zero_pi) auto
  have pp: "0 < p" using wgs_radii W c by (simp add: p_def)
  have e: "lat_lon_alt_to_gcc lat lon 0 = (p * cos lon, p * sin lon, z)"
    using wgs_radii by (simp add: lat_lon_alt_to_gcc_def coord_N p_def z_def wgs_e2_def Let_def field_simps power2_eq_square)
  have r: "sqrt ((p * cos lon)\<^sup>2 + (p * sin lon)\<^sup>2) = p"
    using pp by (simp add: power_mult_distrib flip: distrib_left)
  obtain theta k where th: "\<bar>theta\<bar> < pi / 2" and k: "0 < k"
    and t: "z * wgs_a = wgs_a * wgs_b * sin theta" "p * wgs_b = wgs_a * wgs_b * cos theta"
    and l: "z + (wgs_a\<^sup>2 - wgs_b\<^sup>2) / wgs_b\<^sup>2 * wgs_b * (sin theta * sin theta * sin theta) = k * sin lat"
      "p - (wgs_a\<^sup>2 - wgs_b\<^sup>2) / wgs_a\<^sup>2 * wgs_a * (cos theta * cos theta * cos theta) = k * cos lat"
    using bowring [of wgs_b wgs_a lat p z] wgs_radii lat by (metis p_def z_def)
  have theta: "arctan (z * wgs_a / (p * wgs_b)) = theta"
    unfolding t using wgs_radii th by (intro arctan_ratio) simp_all
  have "arctan ((z + wgs_ep2 * wgs_b * sin theta ^ 3) / (p - wgs_e2 * wgs_a * cos theta ^ 3)) = lat"
    using l arctan_ratio [OF k lat] by (simp add: wgs_ep2_def wgs_e2_def power2_eq_square power3_eq_cube)
  moreover have "p / cos lat - coord_N lat = 0" using c by (simp add: p_def coord_N)
  ultimately show ?thesis
    using r by (simp add: e gcc_to_lat_lon_alt_def theta atan2_polar [OF pp lon] Let_def)
qed

text \<open>A point of the ellipsoid, written in the local system of any place and read back from it.\<close>

lemma local_roundtrip:
  assumes "\<bar>lat\<bar> < pi / 2" "- pi < lon" "lon \<le> pi"
  shows "to_lle (LCS lat0 lon0) (from_lle (LCS lat0 lon0) lat lon 0) = (lat, lon, 0)"
  using gcc_roundtrip [OF assms] by (simp add: to_lle_def from_lle_def split: prod.splits)

section \<open>The orientation angles\<close>

lemma atan2_unit:
  assumes "x\<^sup>2 + y\<^sup>2 = 1"
  shows "cos (atan2 y x) = x" "sin (atan2 y x) = y"
proof -
  obtain t where t: "0 \<le> t" "t < 2 * pi" "x = cos t" "y = sin t"
    using sincos_total_2pi [OF assms] by blast
  define u where "u = (if t \<le> pi then t else t - 2 * pi)"
  have u: "- pi < u" "u \<le> pi" "cos u = x" "sin u = y"
    using t pi_gt_zero by (auto simp: u_def cos_diff sin_diff)
  have "atan2 y x = u" using atan2_polar [of 1 u] u by simp
  then show "cos (atan2 y x) = x" "sin (atan2 y x) = y" by (simp_all add: u)
qed

lemma atan2_scaled: "0 < r \<Longrightarrow> atan2 (r * y) (r * x) = atan2 y x"
  by (simp add: atan2_def zero_less_mult_iff mult_less_0_iff zero_le_mult_iff)

lemma atan2_components:
  shows "sqrt (x\<^sup>2 + y\<^sup>2) * cos (atan2 y x) = x" "sqrt (x\<^sup>2 + y\<^sup>2) * sin (atan2 y x) = y"
proof -
  define r where "r = sqrt (x\<^sup>2 + y\<^sup>2)"
  consider "x = 0" "y = 0" | "0 < r" using sum_power2_gt_zero_iff [of x y] unfolding r_def real_sqrt_gt_0_iff by blast
  then have "r * cos (atan2 y x) = x \<and> r * sin (atan2 y x) = y"
  proof cases
    case 2
    then have "(x / r)\<^sup>2 + (y / r)\<^sup>2 = 1" 
      by (simp add: r_def power_divide sum_power2_gt_zero_iff flip: add_divide_distrib)
    from atan2_unit [OF this] atan2_scaled [OF 2, of "y / r" "x / r"] 2 show ?thesis by (simp add: field_simps)
  qed (simp add: r_def)
  then show "sqrt (x\<^sup>2 + y\<^sup>2) * cos (atan2 y x) = x" "sqrt (x\<^sup>2 + y\<^sup>2) * sin (atan2 y x) = y"
    by (simp_all add: r_def)
qed

text \<open>
  The three angles describe a right-handed direction cosine matrix completely, unless its first axis is vertical: they are taken
  from the first row and the last column, and the matrix of the angles is the matrix.
\<close>

lemma angles_of_rotation:
  assumes "rotation m" and right: "row2 m = Vec3_cross (row0 m) (row1 m)" and level: "mX (row0 m) \<noteq> 0 \<or> mY (row0 m) \<noteq> 0"
    and angles: "angles_of (mX (row0 m)) (mY (row0 m)) (mZ (row0 m)) (mZ (row1 m)) (mZ (row2 m)) = (psi, theta, phi)"
  shows "eulerAnglesToMatrix (EulerAngles phi theta psi) = m"
proof -
  obtain a b c d e f g h i where m: "m = Matrix (Vec3 a b c) (Vec3 d e f) (Vec3 g h i)"
    by (metis Matrix_eqI Matrix_sel Vec3_cases)
  have unit: "a * a + b * b + c * c = 1" and ad: "a * d + b * e + c * f = 0" and col: "c * c + f * f + i * i = 1"
    using rotation.rows [OF assms(1)] rotation.columns [OF assms(1)] by (simp_all add: m Matrix_ops mat_transpose_def)
  have cross: "g = f * b - e * c" "h = d * c - f * a" "i = e * a - d * b"
    using right by (simp_all add: m Vec3_cross_def)
  define C where "C = sqrt (f * f + i * i)"
  have CC: "C * C = f * f + i * i" by (simp add: C_def)
  then have C2: "C * C = a * a + b * b" using unit col by linarith
  have "C * C \<noteq> 0" using level by (simp add: C2 m sum_squares_eq_zero_iff)
  then have C0: "C \<noteq> 0" by simp
  have ang: "psi = atan2 b a" "theta = atan2 (- c) C" "phi = atan2 f i"
    using angles by (simp_all add: angles_of_def C_def m)
  have th: "cos theta = C" "sin theta = - c"
    using atan2_unit [of C "- c"] C2 unit by (simp_all add: ang power2_eq_square)
  have "0 \<le> C" by (simp add: C_def)
  then have "sqrt (a * a + b * b) = C" "sqrt (i * i + f * f) = C"
    unfolding C2 [symmetric] by (simp_all add: C_def add.commute)
  then have ps: "C * cos psi = a" "C * sin psi = b" and ph: "C * cos phi = i" "C * sin phi = f"
    using atan2_components [of a b] atan2_components [of i f] by (simp_all add: ang power2_eq_square)
  have elim: "u = v" if "C * C * u = (a * a + b * b) * v" for u v using that C0 by (simp add: C2 [symmetric])
  have "- cos phi * sin psi + sin phi * - c * cos psi = d"
  proof (rule elim)
    have "C * C * (- cos phi * sin psi + sin phi * - c * cos psi) = - (i * b) - f * c * a"
      unfolding ps [symmetric] ph [symmetric] by (simp add: algebra_simps)
    also have "\<dots> = (a * a + b * b) * d" using cross(3) ad by algebra
    finally show "C * C * (- cos phi * sin psi + sin phi * - c * cos psi) = (a * a + b * b) * d" .
  qed
  moreover have "cos phi * cos psi + sin phi * - c * sin psi = e"
  proof (rule elim)
    have "C * C * (cos phi * cos psi + sin phi * - c * sin psi) = i * a - f * c * b"
      unfolding ps [symmetric] ph [symmetric] by (simp add: algebra_simps)
    also have "\<dots> = (a * a + b * b) * e" using cross(3) ad by algebra
    finally show "C * C * (cos phi * cos psi + sin phi * - c * sin psi) = (a * a + b * b) * e" .
  qed
  moreover have "sin phi * sin psi + cos phi * - c * cos psi = g"
  proof (rule elim)
    have "C * C * (sin phi * sin psi + cos phi * - c * cos psi) = f * b - i * c * a"
      unfolding ps [symmetric] ph [symmetric] by (simp add: algebra_simps)
    also have "\<dots> = (a * a + b * b) * g" using cross ad unit by algebra
    finally show "C * C * (sin phi * sin psi + cos phi * - c * cos psi) = (a * a + b * b) * g" .
  qed
  moreover have "- sin phi * cos psi + cos phi * - c * sin psi = h"
  proof (rule elim)
    have "C * C * (- sin phi * cos psi + cos phi * - c * sin psi) = - (f * a) - i * c * b"
      unfolding ps [symmetric] ph [symmetric] by (simp add: algebra_simps)
    also have "\<dots> = (a * a + b * b) * h" using cross ad unit by algebra
    finally show "C * C * (- sin phi * cos psi + cos phi * - c * sin psi) = (a * a + b * b) * h" .
  qed
  ultimately show ?thesis
    using ps ph unfolding m eulerAnglesToMatrix_def Let_def Vec3_sel th Matrix_inject Vec3_inject
    by (simp add: mult.commute [of _ C])
qed

text \<open>
  The orientation of a body, as the turns that lead from the geocentric axes to the axes of the body: about the polar axis by
  the longitude, about the east axis down to the local horizontal, then heading, pitch and roll. The rows are the body axes.
\<close>

definition turn_x :: "real \<Rightarrow> Matrix" where
  "turn_x t = Matrix (Vec3 1 0 0) (Vec3 0 (cos t) (- sin t)) (Vec3 0 (sin t) (cos t))"

definition turn_y :: "real \<Rightarrow> Matrix" where
  "turn_y t = Matrix (Vec3 (cos t) 0 (sin t)) (Vec3 0 1 0) (Vec3 (- sin t) 0 (cos t))"

definition turn_z :: "real \<Rightarrow> Matrix" where
  "turn_z t = Matrix (Vec3 (cos t) (- sin t) 0) (Vec3 (sin t) (cos t) 0) (Vec3 0 0 1)"

definition body_axes :: "real \<Rightarrow> real \<Rightarrow> real \<Rightarrow> real \<Rightarrow> real \<Rightarrow> Matrix" where
  "body_axes lat lon h p r = mat_transpose
     (mat_mult (mat_mult (mat_mult (mat_mult (turn_z lon) (turn_y (- (lat + pi / 2)))) (turn_z h)) (turn_y p)) (turn_x r))"

lemma mat_transpose_mult: "mat_transpose (mat_mult a b) = mat_mult (mat_transpose b) (mat_transpose a)"
  by (simp add: Matrix_ops mat_transpose_def algebra_simps)

lemma mat_transpose_transpose [simp]: "mat_transpose (mat_transpose m) = m"
  by (rule Matrix_eqI; rule Vec3_eqI; simp add: mat_transpose_def)

lemma rotation_mult: "rotation a \<Longrightarrow> rotation b \<Longrightarrow> rotation (mat_mult a b)"
  unfolding rotation_def mat_transpose_mult
  by (metis mat_mult_assoc mat_mult_one(2))

lemma rotation_transpose: "rotation a \<Longrightarrow> rotation (mat_transpose a)"
  by (simp add: rotation_def)

text \<open>Turns keep the orientation of the axes: their determinant is 1, and the third axis is the cross product of the others.\<close>

definition mat_det :: "Matrix \<Rightarrow> real" where
  "mat_det m = Vec3_dot (Vec3_cross (row0 m) (row1 m)) (row2 m)"

lemma mat_det_mult: "mat_det (mat_mult a b) = mat_det a * mat_det b"
  unfolding mat_det_def Vec3_cross_def Matrix_ops Matrix_sel Vec3_sel by algebra

lemma mat_det_transpose: "mat_det (mat_transpose a) = mat_det a"
  by (simp add: mat_det_def Vec3_cross_def Matrix_ops mat_transpose_def algebra_simps)

lemma rotation_third_axis:
  assumes "rotation m" "mat_det m = 1"
  shows "row2 m = Vec3_cross (row0 m) (row1 m)"
proof -
  have "rotateVector m (Vec3_cross (row0 m) (row1 m)) = Vec3 0 0 1"
    using assms(2) by (simp add: rotateVector_def Vec3_cross_orthogonal mat_det_def)
  then have "Vec3_cross (row0 m) (row1 m) = rotateTransposeVector m (Vec3 0 0 1)"
    using rotation.rotate_then_back [OF assms(1)] by metis
  also have "\<dots> = row2 m" by (rule Vec3_eqI) (simp_all add: Matrix_ops)
  finally show ?thesis by simp
qed

lemma turns: "rotation (turn_x t)" "rotation (turn_y t)" "rotation (turn_z t)"
  "mat_det (turn_x t) = 1" "mat_det (turn_y t) = 1" "mat_det (turn_z t) = 1"
  using sin_cos_1 [of t]
  by (simp_all add: rotation_def turn_x_def turn_y_def turn_z_def mat_det_def mat_transpose_def Matrix_ops Vec3_cross_def add.commute)

lemma body_axes_rotation: "rotation (body_axes lat lon h p r)" "mat_det (body_axes lat lon h p r) = 1"
  by (simp_all add: body_axes_def rotation_transpose rotation_mult turns mat_det_transpose mat_det_mult)

lemma body_axes_entries:
  "mX (row0 (body_axes lat lon h p r)) =
    (cos lon * cos (- (lat + pi / 2)) * cos h - sin lon * sin h) * cos p - cos lon * sin (- (lat + pi / 2)) * sin p"
  "mY (row0 (body_axes lat lon h p r)) =
    (sin lon * cos (- (lat + pi / 2)) * cos h + cos lon * sin h) * cos p - sin lon * sin (- (lat + pi / 2)) * sin p"
  "mZ (row0 (body_axes lat lon h p r)) = - sin (- (lat + pi / 2)) * cos h * cos p - cos (- (lat + pi / 2)) * sin p"
  "mZ (row1 (body_axes lat lon h p r)) = sin (- (lat + pi / 2)) * sin h * cos r +
    (- sin (- (lat + pi / 2)) * cos h * sin p + cos (- (lat + pi / 2)) * cos p) * sin r"
  "mZ (row2 (body_axes lat lon h p r)) = - sin (- (lat + pi / 2)) * sin h * sin r +
    (- sin (- (lat + pi / 2)) * cos h * sin p + cos (- (lat + pi / 2)) * cos p) * cos r"
  unfolding body_axes_def turn_x_def turn_y_def turn_z_def mat_transpose_def mat_mult_def row_times_def Matrix_sel Vec3_sel
  by algebra+

lemma hpr_angles:
  "lat_lon_hpr_to_psi_theta_phi lat lon h p r =
     (let m = body_axes lat lon h p r
      in angles_of (mX (row0 m)) (mY (row0 m)) (mZ (row0 m)) (mZ (row1 m)) (mZ (row2 m)))"
  by (simp only: lat_lon_hpr_to_psi_theta_phi_def Let_def body_axes_entries) simp

text \<open>
  C19.
  The attitude of a vehicle is exact: the angles \<open>lat_lon_hpr_to_psi_theta_phi\<close> computes from latitude, longitude, heading, pitch
  and roll are Euler angles of the body axes those five turns lead to, unless the nose points along the axis of the earth.\<close>

theorem hpr_angles_exact:
  assumes "mX (row0 (body_axes lat lon h p r)) \<noteq> 0 \<or> mY (row0 (body_axes lat lon h p r)) \<noteq> 0"
  shows "case lat_lon_hpr_to_psi_theta_phi lat lon h p r of (psi, theta, phi) \<Rightarrow>
    eulerAnglesToMatrix (EulerAngles phi theta psi) = body_axes lat lon h p r"
proof -
  obtain psi theta phi where e: "lat_lon_hpr_to_psi_theta_phi lat lon h p r = (psi, theta, phi)" by (rule prod_cases3)
  have "eulerAnglesToMatrix (EulerAngles phi theta psi) = body_axes lat lon h p r"
    using e unfolding hpr_angles Let_def
    by (rule angles_of_rotation [OF body_axes_rotation(1) rotation_third_axis [OF body_axes_rotation] assms])
  with e show ?thesis by simp
qed

theorem hpr_angles_exact_witness:
  "case lat_lon_hpr_to_psi_theta_phi 0 0 (pi / 2) 0 0 of (psi, theta, phi) \<Rightarrow>
    eulerAnglesToMatrix (EulerAngles phi theta psi) = body_axes 0 0 (pi / 2) 0 0"
  by (rule hpr_angles_exact) (simp add: body_axes_entries)

lemma hdg_angles: "lat_lon_hdg_to_psi_theta_phi lat lon hdg = lat_lon_hpr_to_psi_theta_phi lat lon hdg 0 0"
  by (simp add: lat_lon_hdg_to_psi_theta_phi_def lat_lon_hpr_to_psi_theta_phi_def Let_def)

end
