(* ===== verification/Tframes.thy ===== *)
theory Tframes
  imports Coord
begin

text \<open>
  The vectors, matrices and quaternions of the CMD models (\<open>src/Models/CMD/vec\<close>, namespace \<open>tframes\<close>), and the checks of its
  \<open>main.cpp\<close>. A double is a real number. Access with an index that does not exist ends the program (\<open>None\<close>). The member \<open>m\<close> of
  a vector, which no function reads or writes, is left out.
\<close>

section \<open>Vectors\<close>

datatype Vec = Vec (Vx: real) (Vy: real) (Vz: real)

definition Vec_new :: Vec where "Vec_new = Vec 0 0 0"

definition Vec_call :: "real \<Rightarrow> real \<Rightarrow> real \<Rightarrow> Vec \<Rightarrow> Vec" where
  "Vec_call x y z v = Vec x y z"

definition Vec_extract :: "Vec \<Rightarrow> real \<times> real \<times> real" where
  "Vec_extract v = (Vx v, Vy v, Vz v)"

definition Vec_at :: "Vec \<Rightarrow> int \<Rightarrow> real option" where
  "Vec_at v i = (if i = 0 then Some (Vx v) else if i = 1 then Some (Vy v) else if i = 2 then Some (Vz v) else None)"

definition Vec_mag :: "Vec \<Rightarrow> real" where
  "Vec_mag v = sqrt (Vx v * Vx v + Vy v * Vy v + Vz v * Vz v)"

definition Vec_apply :: "(real \<Rightarrow> real) \<Rightarrow> Vec \<Rightarrow> Vec" where
  "Vec_apply f v = Vec (f (Vx v)) (f (Vy v)) (f (Vz v))"

definition Vec_scale :: "Vec \<Rightarrow> real \<Rightarrow> Vec" where
  "Vec_scale v a = Vec (Vx v * a) (Vy v * a) (Vz v * a)"

definition Vec_assign :: "real \<Rightarrow> Vec \<Rightarrow> Vec" where
  "Vec_assign a v = Vec a a a"

definition Vec_times :: "Vec \<Rightarrow> real \<Rightarrow> Vec" where
  "Vec_times v a = Vec (Vx v * a) (Vy v * a) (Vz v * a)"

definition Vec_divide :: "Vec \<Rightarrow> real \<Rightarrow> Vec" where
  "Vec_divide v a = Vec (Vx v / a) (Vy v / a) (Vz v / a)"

definition Vec_times_assign :: "Vec \<Rightarrow> real \<Rightarrow> Vec" where
  "Vec_times_assign v a = Vec (Vx v * a) (Vy v * a) (Vz v * a)"

definition Vec_plus :: "Vec \<Rightarrow> Vec \<Rightarrow> Vec" where
  "Vec_plus v w = Vec (Vx v + Vx w) (Vy v + Vy w) (Vz v + Vz w)"

definition Vec_minus :: "Vec \<Rightarrow> Vec \<Rightarrow> Vec" where
  "Vec_minus v w = Vec (Vx v - Vx w) (Vy v - Vy w) (Vz v - Vz w)"

definition Vec_unit :: "Vec \<Rightarrow> Vec" where
  "Vec_unit v = (let a = Vec_mag v in Vec (Vx v / a) (Vy v / a) (Vz v / a))"

definition Vec_dot :: "Vec \<Rightarrow> Vec \<Rightarrow> real" where
  "Vec_dot v w = Vx v * Vx w + Vy v * Vy w + Vz v * Vz w"

definition Vec_cross :: "Vec \<Rightarrow> Vec \<Rightarrow> Vec" where
  "Vec_cross v w = Vec (Vy v * Vz w - Vz v * Vy w) (Vz v * Vx w - Vx v * Vz w) (Vx v * Vy w - Vy v * Vx w)"

section \<open>Matrices\<close>

datatype Mat = Mat (Mv0: Vec) (Mv1: Vec) (Mv2: Vec)

definition Mat_of :: "real \<Rightarrow> real \<Rightarrow> real \<Rightarrow> real \<Rightarrow> real \<Rightarrow> real \<Rightarrow> real \<Rightarrow> real \<Rightarrow> real \<Rightarrow> Mat" where
  "Mat_of p00 p01 p02 p10 p11 p12 p20 p21 p22 = Mat (Vec p00 p01 p02) (Vec p10 p11 p12) (Vec p20 p21 p22)"

definition Mat_new :: Mat where "Mat_new = Mat (Vec 0 0 0) (Vec 0 0 0) (Vec 0 0 0)"

definition Mat_at :: "Mat \<Rightarrow> int \<Rightarrow> Vec option" where
  "Mat_at m i = (if i = 0 then Some (Mv0 m) else if i = 1 then Some (Mv1 m) else if i = 2 then Some (Mv2 m) else None)"

definition Mat_call :: "Vec \<Rightarrow> Vec \<Rightarrow> Vec \<Rightarrow> Mat \<Rightarrow> Mat" where
  "Mat_call x y z m = Mat x y z"

definition Mat_scale :: "Mat \<Rightarrow> real \<Rightarrow> Mat" where
  "Mat_scale m a = Mat (Vec_scale (Mv0 m) a) (Vec_scale (Mv1 m) a) (Vec_scale (Mv2 m) a)"

definition Mat_plus :: "Mat \<Rightarrow> Mat \<Rightarrow> Mat" where
  "Mat_plus m n = Mat (Vec_plus (Mv0 m) (Mv0 n)) (Vec_plus (Mv1 m) (Mv1 n)) (Vec_plus (Mv2 m) (Mv2 n))"

definition Mat_minus :: "Mat \<Rightarrow> Mat \<Rightarrow> Mat" where
  "Mat_minus m n = Mat (Vec_minus (Mv0 m) (Mv0 n)) (Vec_minus (Mv1 m) (Mv1 n)) (Vec_minus (Mv2 m) (Mv2 n))"

definition Mat_vec :: "Mat \<Rightarrow> Vec \<Rightarrow> Vec" where
  "Mat_vec m v =
     Vec (Vx (Mv0 m) * Vx v + Vy (Mv0 m) * Vy v + Vz (Mv0 m) * Vz v)
         (Vx (Mv1 m) * Vx v + Vy (Mv1 m) * Vy v + Vz (Mv1 m) * Vz v)
         (Vx (Mv2 m) * Vx v + Vy (Mv2 m) * Vy v + Vz (Mv2 m) * Vz v)"

definition Mat_times_assign :: "Mat \<Rightarrow> real \<Rightarrow> Mat" where
  "Mat_times_assign m a = Mat (Vec_times_assign (Mv0 m) a) (Vec_times_assign (Mv1 m) a) (Vec_times_assign (Mv2 m) a)"

text \<open>A row of the product.\<close>

definition row_product :: "Vec \<Rightarrow> Mat \<Rightarrow> Vec" where
  "row_product r n =
     Vec (Vx r * Vx (Mv0 n) + Vy r * Vx (Mv1 n) + Vz r * Vx (Mv2 n))
         (Vx r * Vy (Mv0 n) + Vy r * Vy (Mv1 n) + Vz r * Vy (Mv2 n))
         (Vx r * Vz (Mv0 n) + Vy r * Vz (Mv1 n) + Vz r * Vz (Mv2 n))"

definition Mat_mat :: "Mat \<Rightarrow> Mat \<Rightarrow> Mat" where
  "Mat_mat m n = Mat (row_product (Mv0 m) n) (row_product (Mv1 m) n) (row_product (Mv2 m) n)"

definition Mat_times :: "Mat \<Rightarrow> real \<Rightarrow> Mat" where
  "Mat_times m a = Mat (Vec_times (Mv0 m) a) (Vec_times (Mv1 m) a) (Vec_times (Mv2 m) a)"

definition Mat_divide :: "Mat \<Rightarrow> real \<Rightarrow> Mat" where
  "Mat_divide m a = Mat (Vec_divide (Mv0 m) a) (Vec_divide (Mv1 m) a) (Vec_divide (Mv2 m) a)"

definition Mat_transpose :: "Mat \<Rightarrow> Mat" where
  "Mat_transpose m = Mat (Vec (Vx (Mv0 m)) (Vx (Mv1 m)) (Vx (Mv2 m))) (Vec (Vy (Mv0 m)) (Vy (Mv1 m)) (Vy (Mv2 m)))
     (Vec (Vz (Mv0 m)) (Vz (Mv1 m)) (Vz (Mv2 m)))"

definition Mat_apply :: "(real \<Rightarrow> real) \<Rightarrow> Mat \<Rightarrow> Mat" where
  "Mat_apply f m = Mat (Vec_apply f (Mv0 m)) (Vec_apply f (Mv1 m)) (Vec_apply f (Mv2 m))"

definition Mat_det :: "Mat \<Rightarrow> real" where
  "Mat_det m =
     (let a = Vx (Mv0 m); b = Vy (Mv0 m); c = Vz (Mv0 m); d = Vx (Mv1 m); e = Vy (Mv1 m); f = Vz (Mv1 m);
          g = Vx (Mv2 m); h = Vy (Mv2 m); i = Vz (Mv2 m)
      in a * e * i + b * f * g + c * d * h - c * e * g - b * d * i - a * f * h)"

definition Mat_inv :: "Mat \<Rightarrow> Mat" where
  "Mat_inv m =
     (let xdet = Mat_det m; a = Vx (Mv0 m); b = Vy (Mv0 m); c = Vz (Mv0 m); d = Vx (Mv1 m); e = Vy (Mv1 m); f = Vz (Mv1 m);
          g = Vx (Mv2 m); h = Vy (Mv2 m); i = Vz (Mv2 m)
      in Mat_of ((e * i - f * h) / xdet) ((c * h - b * i) / xdet) ((b * f - e * c) / xdet)
                ((g * f - d * i) / xdet) ((a * i - g * c) / xdet) ((d * c - a * f) / xdet)
                ((d * h - g * e) / xdet) ((g * b - a * h) / xdet) ((a * e - b * d) / xdet))"

definition Vec_getDCM :: "Vec \<Rightarrow> Mat" where
  "Vec_getDCM v =
     (let (phi, theta, psi) = Vec_extract v;
          c1 = cos phi; c2 = cos theta; c3 = cos psi; s1 = sin phi; s2 = sin theta; s3 = sin psi
      in Mat_of (c2 * c3) (c2 * s3) (- s2)
                (s1 * s2 * c3 - c1 * s3) (s1 * s2 * s3 + c1 * c3) (c2 * s1)
                (c1 * s2 * c3 + s1 * s3) (c1 * s2 * s3 - s1 * c3) (c2 * c1))"

definition Mat_getEuler :: "Mat \<Rightarrow> Vec" where
  "Mat_getEuler m =
     (let x1 = Vy (Mv0 m); y1 = Vx (Mv0 m);
          psi = atan2 x1 y1;
          x1 = sin psi; y1 = cos psi;
          x3 = Vx (Mv2 m) * x1 - Vy (Mv2 m) * y1;
          y3 = Vy (Mv1 m) * y1 - Vx (Mv1 m) * x1;
          x2 = - Vz (Mv0 m);
          y2 = Vz (Mv2 m) * y3 + Vz (Mv1 m) * x3
      in Vec (atan2 x3 y3) (atan2 x2 y2) psi)"

section \<open>Quaternions\<close>

datatype Quat = Quat (Qs: real) (Qx: real) (Qy: real) (Qz: real)

definition Quat_new :: Quat where "Quat_new = Quat 0 0 0 0"

definition Quat_call :: "real \<Rightarrow> real \<Rightarrow> real \<Rightarrow> real \<Rightarrow> Quat \<Rightarrow> Quat" where
  "Quat_call s x y z q = Quat s x y z"

definition Quat_at :: "Quat \<Rightarrow> int \<Rightarrow> real option" where
  "Quat_at q i = (if i = 0 then Some (Qs q) else if i = 1 then Some (Qx q) else if i = 2 then Some (Qy q) else if i = 3 then Some (Qz q) else None)"

definition Quat_normalize :: "Quat \<Rightarrow> Quat" where
  "Quat_normalize q =
     (let q_mag = sqrt (Qs q * Qs q + Qx q * Qx q + Qy q * Qy q + Qz q * Qz q)
      in Quat (Qs q / q_mag) (Qx q / q_mag) (Qy q / q_mag) (Qz q / q_mag))"

definition Quat_getDCM :: "Quat \<Rightarrow> Mat" where
  "Quat_getDCM q =
     Mat_of (2 * (Qs q * Qs q + Qx q * Qx q) - 1) (2 * (Qx q * Qy q + Qs q * Qz q)) (2 * (Qx q * Qz q - Qs q * Qy q))
            (2 * (Qx q * Qy q - Qs q * Qz q)) (2 * (Qs q * Qs q + Qy q * Qy q) - 1) (2 * (Qy q * Qz q + Qs q * Qx q))
            (2 * (Qx q * Qz q + Qs q * Qy q)) (2 * (Qy q * Qz q - Qs q * Qx q)) (2 * (Qs q * Qs q + Qz q * Qz q) - 1)"

definition Mat_getQuat :: "Mat \<Rightarrow> Quat" where
  "Mat_getQuat m =
     (let q0 = 0.5 * sqrt (Vx (Mv0 m) + Vy (Mv1 m) + Vz (Mv2 m) + 1)
      in Quat q0 ((Vz (Mv1 m) - Vy (Mv2 m)) / (4 * q0)) ((Vx (Mv2 m) - Vz (Mv0 m)) / (4 * q0)) ((Vy (Mv0 m) - Vx (Mv1 m)) / (4 * q0)))"

definition Vec_getQuat :: "Vec \<Rightarrow> Quat" where
  "Vec_getQuat v =
     (let (phi, theta, psi) = Vec_extract v;
          cpsi2 = cos (psi / 2); spsi2 = sin (psi / 2); ctht2 = cos (theta / 2); stht2 = sin (theta / 2);
          cphi2 = cos (phi / 2); sphi2 = sin (phi / 2)
      in Quat (cpsi2 * ctht2 * cphi2 + spsi2 * stht2 * sphi2) (cpsi2 * ctht2 * sphi2 - spsi2 * stht2 * cphi2)
              (cpsi2 * stht2 * cphi2 + spsi2 * ctht2 * sphi2) (spsi2 * ctht2 * cphi2 - cpsi2 * stht2 * sphi2))"

section \<open>Inverse\<close>

definition Mat_one :: Mat where "Mat_one = Mat_of 1 0 0 0 1 0 0 0 1"

lemma Mat_eq: "m = n \<longleftrightarrow> Vx (Mv0 m) = Vx (Mv0 n) \<and> Vy (Mv0 m) = Vy (Mv0 n) \<and> Vz (Mv0 m) = Vz (Mv0 n) \<and>
    Vx (Mv1 m) = Vx (Mv1 n) \<and> Vy (Mv1 m) = Vy (Mv1 n) \<and> Vz (Mv1 m) = Vz (Mv1 n) \<and>
    Vx (Mv2 m) = Vx (Mv2 n) \<and> Vy (Mv2 m) = Vy (Mv2 n) \<and> Vz (Mv2 m) = Vz (Mv2 n)"
  by (cases m; cases n; cases "Mv0 m"; cases "Mv1 m"; cases "Mv2 m"; cases "Mv0 n"; cases "Mv1 n"; cases "Mv2 n") auto

lemma inv_left_right:
  assumes "Mat_det m \<noteq> 0"
  shows "Mat_mat (Mat_inv m) m = Mat_one" "Mat_mat m (Mat_inv m) = Mat_one"
proof -
  obtain a b c d e f g h i where m: "m = Mat (Vec a b c) (Vec d e f) (Vec g h i)" by (metis Mat.exhaust Vec.exhaust)
  define D where "D = a * e * i + b * f * g + c * d * h - c * e * g - b * d * i - a * f * h"
  have det: "Mat_det m = D" by (simp add: D_def m Mat_det_def)
  then have D: "D \<noteq> 0" using assms by simp
  have inv: "Mat_inv m = Mat (Vec ((e * i - f * h) / D) ((c * h - b * i) / D) ((b * f - e * c) / D))
      (Vec ((g * f - d * i) / D) ((a * i - g * c) / D) ((d * c - a * f) / D))
      (Vec ((d * h - g * e) / D) ((g * b - a * h) / D) ((a * e - b * d) / D))"
    unfolding Mat_inv_def det by (simp add: Let_def Mat_of_def m)
  have zero: "x / D * p + y / D * q + z / D * r = 0" "p * (x / D) + q * (y / D) + r * (z / D) = 0"
    if "x * p + y * q + z * r = 0" for x y z p q r
    using that by (simp_all add: mult.commute flip: add_divide_distrib)
  have one: "x / D * p + y / D * q + z / D * r = 1" "p * (x / D) + q * (y / D) + r * (z / D) = 1"
    if "x * p + y * q + z * r = D" for x y z p q r
    using that D by (simp_all add: mult.commute flip: add_divide_distrib)
  show "Mat_mat (Mat_inv m) m = Mat_one" "Mat_mat m (Mat_inv m) = Mat_one"
    unfolding inv unfolding m Mat_mat_def row_product_def Mat_one_def Mat_of_def Mat.sel Vec.sel Mat.inject Vec.inject
    by (intro conjI zero one; simp add: D_def algebra_simps)+
qed

lemma Mat_vec_mat: "Mat_vec a (Mat_vec b v) = Mat_vec (Mat_mat a b) v"
  by (simp add: Mat_vec_def Mat_mat_def row_product_def algebra_simps)

lemma Mat_vec_one: "Mat_vec Mat_one v = v"
  by (simp add: Mat_vec_def Mat_one_def Mat_of_def)

lemma inv_solves: "Mat_det m \<noteq> 0 \<Longrightarrow> Mat_vec (Mat_inv m) (Mat_vec m v) = v"
  by (simp add: Mat_vec_mat inv_left_right Mat_vec_one)

section \<open>Euler angles\<close>

lemma sc1: "sin x * sin x + cos x * cos x = (1 :: real)"
  using sin_cos_squared_add [of x] by (simp add: power2_eq_square)

definition dcm :: "real \<Rightarrow> real \<Rightarrow> real \<Rightarrow> Mat" where
  "dcm phi theta psi = Vec_getDCM (Vec phi theta psi)"

lemma dcm_entries:
  "dcm phi theta psi = Mat
     (Vec (cos theta * cos psi) (cos theta * sin psi) (- sin theta))
     (Vec (sin phi * sin theta * cos psi - cos phi * sin psi) (sin phi * sin theta * sin psi + cos phi * cos psi) (cos theta * sin phi))
     (Vec (cos phi * sin theta * cos psi + sin phi * sin psi) (cos phi * sin theta * sin psi - sin phi * cos psi) (cos theta * cos phi))"
  by (simp add: dcm_def Vec_getDCM_def Vec_extract_def Mat_of_def Let_def)

text \<open>A matrix of angles is a rotation, and its transpose undoes it.\<close>

lemma dcm_orthogonal:
  "Mat_mat (dcm phi theta psi) (Mat_transpose (dcm phi theta psi)) = Mat_one" "Mat_mat (Mat_transpose (dcm phi theta psi)) (dcm phi theta psi) = Mat_one"
proof -
  define a b c d e f where ab: "a = sin phi" "b = cos phi" "c = sin theta" "d = cos theta" "e = sin psi" "f = cos psi"
  have h: "a * a + b * b = 1" "c * c + d * d = 1" "e * e + f * f = 1" using sc1 by (simp_all add: ab)
  show "Mat_mat (dcm phi theta psi) (Mat_transpose (dcm phi theta psi)) = Mat_one" "Mat_mat (Mat_transpose (dcm phi theta psi)) (dcm phi theta psi) = Mat_one"
    unfolding dcm_entries Mat_mat_def Mat_transpose_def row_product_def Mat_one_def Mat_of_def Mat.sel Vec.sel Mat.inject Vec.inject
      ab [symmetric]
    by (intro conjI; use h in algebra)+
qed

text \<open>So turning to the body axes and turning back is a change of frame.\<close>

interpretation body: frame_change "Mat_vec (Vec_getDCM v)" "Mat_vec (Mat_transpose (Vec_getDCM v))" for v
proof
  obtain phi theta psi where v: "v = Vec phi theta psi" by (cases v)
  show "Mat_vec (Mat_transpose (Vec_getDCM v)) (Mat_vec (Vec_getDCM v) u) = u" "Mat_vec (Vec_getDCM v) (Mat_vec (Mat_transpose (Vec_getDCM v)) w) = w" for u w
    using dcm_orthogonal [of phi theta psi] by (simp_all add: Mat_vec_mat Mat_vec_one v dcm_def)
qed

text \<open>What \<open>getEuler\<close> computes from a matrix of angles, given an angle with the sine and cosine of the heading.\<close>

lemma euler_core:
  assumes "u = atan2 (cos theta * sin psi) (cos theta * cos psi)"
  shows "Mat_getEuler (dcm phi theta psi) =
    (let x3 = (cos phi * sin theta * cos psi + sin phi * sin psi) * sin u - (cos phi * sin theta * sin psi - sin phi * cos psi) * cos u;
         y3 = (sin phi * sin theta * sin psi + cos phi * cos psi) * cos u - (sin phi * sin theta * cos psi - cos phi * sin psi) * sin u
     in Vec (atan2 x3 y3) (atan2 (sin theta) (cos theta * cos phi * y3 + cos theta * sin phi * x3)) u)"
  using assms by (simp add: dcm_entries Mat_getEuler_def Let_def)

lemma euler_exact:
  assumes "cos theta > 0" "- pi < phi" "phi \<le> pi" "- (pi / 2) < theta" "theta < pi / 2" "- pi < psi" "psi \<le> pi"
  shows "Mat_getEuler (dcm phi theta psi) = Vec phi theta psi"
proof -
  have u: "psi = atan2 (cos theta * sin psi) (cos theta * cos psi)" using atan2_polar [of "cos theta" psi] assms by simp
  have sc: "sin psi * sin psi + cos psi * cos psi = 1" "sin phi * sin phi + cos phi * cos phi = 1"
    using sin_cos_squared_add [of psi] sin_cos_squared_add [of phi] by (simp_all add: power2_eq_square)
  have x3: "(cos phi * sin theta * cos psi + sin phi * sin psi) * sin psi - (cos phi * sin theta * sin psi - sin phi * cos psi) * cos psi = sin phi"
    using sc(1) by algebra
  have y3: "(sin phi * sin theta * sin psi + cos phi * cos psi) * cos psi - (sin phi * sin theta * cos psi - cos phi * sin psi) * sin psi = cos phi"
    using sc(1) by algebra
  have y2: "cos theta * cos phi * cos phi + cos theta * sin phi * sin phi = cos theta" using sc(2) by algebra
  have "atan2 (sin phi) (cos phi) = phi" "atan2 (sin theta) (cos theta) = theta"
    using atan2_polar [of 1 phi] atan2_polar [of 1 theta] assms by simp_all
  then show ?thesis unfolding euler_core [OF u] Let_def x3 y3 y2 by simp
qed

text \<open>Two triples of angles whose sines and cosines give the same products describe the same attitude.\<close>

lemma euler_flipped:
  assumes "k * k = 1" "sin v = k * sin phi" "cos v = k * cos phi" "sin t = sin theta" "cos t = k * cos theta"
    "sin u = k * sin psi" "cos u = k * cos psi"
  shows "dcm v t u = dcm phi theta psi"
proof -
  have k: "k * a * (k * b) = a * b" "k * a * b * (k * c) = a * b * c" for a b c using assms(1) by algebra+
  show ?thesis unfolding dcm_entries assms(2-7) k ..
qed

lemma euler_vertical:
  assumes "cos theta = 0" "x3 = (cos phi * sin theta * cos psi + sin phi * sin psi) * sin u - (cos phi * sin theta * sin psi - sin phi * cos psi) * cos u"
    "y3 = (sin phi * sin theta * sin psi + cos phi * cos psi) * cos u - (sin phi * sin theta * cos psi - cos phi * sin psi) * sin u"
  shows "y3\<^sup>2 + x3\<^sup>2 = 1" "sin v = x3 \<Longrightarrow> cos v = y3 \<Longrightarrow> sin t = sin theta \<Longrightarrow> cos t = 0 \<Longrightarrow> dcm v t u = dcm phi theta psi"
proof -
  define a b c d e f g where ab: "a = sin phi" "b = cos phi" "c = sin theta" "d = sin psi" "e = cos psi" "f = sin u" "g = cos u"
  have h: "a * a + b * b = 1" "c * c = 1" "d * d + e * e = 1" "f * f + g * g = 1"
    using sc1 [of phi] sc1 [of theta] sc1 [of psi] sc1 [of u] assms(1) by (simp_all add: ab)
  have x3: "x3 = (b * c * e + a * d) * f - (b * c * d - a * e) * g" and y3: "y3 = (a * c * d + b * e) * g - (a * c * e - b * d) * f"
    using assms(2,3) by (simp_all add: ab)
  show "y3\<^sup>2 + x3\<^sup>2 = 1" using h x3 y3 by algebra
  assume v: "sin v = x3" "cos v = y3" "sin t = sin theta" "cos t = 0"
  have "x3 * c * g - y3 * f = a * c * e - b * d" "x3 * c * f + y3 * g = a * c * d + b * e"
    "y3 * c * g + x3 * f = b * c * e + a * d" "y3 * c * f - x3 * g = b * c * d - a * e"
    using h x3 y3 by algebra+
  then show "dcm v t u = dcm phi theta psi"
    unfolding dcm_entries v assms(1) by (simp add: ab)
qed

text \<open>
  C20.
  Euler angles and attitudes. The matrix of the angles that \<open>getEuler\<close> takes from the matrix of any angles is that matrix, also when the
  nose points straight up or down; and the angles are the ones given, when pitch is less than a right angle and roll and yaw
  are in the range of \<open>atan2\<close>.\<close>

theorem euler_roundtrip:
  "Vec_getDCM (Mat_getEuler (Vec_getDCM v)) = Vec_getDCM v \<and>
   (\<bar>Vy v\<bar> < pi / 2 \<and> - pi < Vx v \<and> Vx v \<le> pi \<and> - pi < Vz v \<and> Vz v \<le> pi \<longrightarrow> Mat_getEuler (Vec_getDCM v) = v)"
proof -
  obtain phi theta psi where v: "v = Vec phi theta psi" by (cases v)
  define u where "u = atan2 (cos theta * sin psi) (cos theta * cos psi)"
  define x3 where "x3 = (cos phi * sin theta * cos psi + sin phi * sin psi) * sin u - (cos phi * sin theta * sin psi - sin phi * cos psi) * cos u"
  define y3 where "y3 = (sin phi * sin theta * sin psi + cos phi * cos psi) * cos u - (sin phi * sin theta * cos psi - cos phi * sin psi) * sin u"
  define y2 where "y2 = cos theta * cos phi * y3 + cos theta * sin phi * x3"
  have e: "Mat_getEuler (dcm phi theta psi) = Vec (atan2 x3 y3) (atan2 (sin theta) y2) u"
    unfolding euler_core [OF u_def] Let_def x3_def y3_def y2_def ..
  have "dcm (atan2 x3 y3) (atan2 (sin theta) y2) u = dcm phi theta psi"
  proof (cases "cos theta = 0")
    case True
    note vert = euler_vertical [OF True x3_def y3_def]
    have "y2 = 0" by (simp add: y2_def True)
    moreover have "0\<^sup>2 + (sin theta)\<^sup>2 = (1 :: real)" using sc1 [of theta] True by (simp add: power2_eq_square)
    ultimately show ?thesis using vert(2) [OF atan2_unit(2,1) [OF vert(1)]] atan2_unit [of 0 "sin theta"] by simp
  next
    case False
    define k where "k = sgn (cos theta)"
    have k: "k * k = 1" "\<bar>cos theta\<bar> = k * cos theta" using False by (auto simp: k_def sgn_real_def)
    have "sqrt ((cos theta * cos psi)\<^sup>2 + (cos theta * sin psi)\<^sup>2) = \<bar>cos theta\<bar>"
    proof -
      have "(cos theta * cos psi)\<^sup>2 + (cos theta * sin psi)\<^sup>2 = (cos theta)\<^sup>2" using sc1 [of psi] by algebra
      then show ?thesis by simp
    qed
    with atan2_components [of "cos theta * cos psi" "cos theta * sin psi"]
    have "k * cos theta * cos u = cos theta * cos psi" "k * cos theta * sin u = cos theta * sin psi"
      unfolding u_def [symmetric] k(2) by simp_all
    then have u: "sin u = k * sin psi" "cos u = k * cos psi" using False k(1) by algebra+
    have x3: "x3 = k * sin phi" and y3: "y3 = k * cos phi"
      unfolding x3_def y3_def u using sc1 [of psi] by algebra+
    have y2: "y2 = k * cos theta" unfolding y2_def x3 y3 using sc1 [of phi] by algebra
    have "y3\<^sup>2 + x3\<^sup>2 = 1" unfolding x3 y3 using sc1 [of phi] k(1) by algebra
    note v = atan2_unit [OF this]
    have "y2\<^sup>2 + (sin theta)\<^sup>2 = 1" unfolding y2 using sc1 [of theta] k(1) by algebra
    note t = atan2_unit [OF this]
    show ?thesis by (rule euler_flipped [OF k(1) trans [OF v(2) x3] trans [OF v(1) y3] t(2) trans [OF t(1) y2] u])
  qed
  moreover have "Mat_getEuler (dcm phi theta psi) = Vec phi theta psi"
    if "\<bar>theta\<bar> < pi / 2" "- pi < phi" "phi \<le> pi" "- pi < psi" "psi \<le> pi"
    by (rule euler_exact) (use that cos_gt_zero_pi [of theta] in auto)
  ultimately show ?thesis unfolding v using e by (auto simp: dcm_def)
qed


theorem euler_roundtrip_witness: "Mat_getEuler (Vec_getDCM (Vec (pi / 4) (- (pi / 6)) (pi / 3))) = Vec (pi / 4) (- (pi / 6)) (pi / 3)"
  using euler_roundtrip [of "Vec (pi / 4) (- (pi / 6)) (pi / 3)"] pi_gt_zero by simp

section \<open>Quaternions of attitudes\<close>

definition norm2 :: "Quat \<Rightarrow> real" where
  "norm2 q = Qs q * Qs q + Qx q * Qx q + Qy q * Qy q + Qz q * Qz q"

lemma half_angles:
  fixes x :: real
  shows "sin x = 2 * sin (x / 2) * cos (x / 2)" "cos x = cos (x / 2) * cos (x / 2) - sin (x / 2) * sin (x / 2)"
  using sin_double [of "x / 2"] cos_double [of "x / 2"] by (simp_all add: power2_eq_square)

lemma quat_of_angles: "norm2 (Vec_getQuat v) = 1" "Quat_getDCM (Vec_getQuat v) = Vec_getDCM v"
proof -
  obtain phi theta psi where v: "v = Vec phi theta psi" by (cases v)
  define a b c d e f where ab: "a = sin (phi / 2)" "b = cos (phi / 2)" "c = sin (theta / 2)" "d = cos (theta / 2)"
    "e = sin (psi / 2)" "f = cos (psi / 2)"
  have h: "a * a + b * b = 1" "c * c + d * d = 1" "e * e + f * f = 1" using sc1 by (simp_all add: ab)
  have q: "Vec_getQuat v = Quat (f * d * b + e * c * a) (f * d * a - e * c * b) (f * c * b + e * d * a) (e * d * b - f * c * a)"
    by (simp add: Vec_getQuat_def v Vec_extract_def ab Let_def)
  show "norm2 (Vec_getQuat v) = 1" unfolding q norm2_def Quat.sel using h by algebra
  have t: "sin phi = 2 * a * b" "cos phi = b * b - a * a" "sin theta = 2 * c * d" "cos theta = d * d - c * c"
    "sin psi = 2 * e * f" "cos psi = f * f - e * e"
    unfolding ab by (rule half_angles)+
  have m: "Vec_getDCM v = dcm phi theta psi" by (simp add: v dcm_def)
  show "Quat_getDCM (Vec_getQuat v) = Vec_getDCM v"
    unfolding m dcm_entries q Quat_getDCM_def Mat_of_def Quat.sel Mat.inject Vec.inject t
    by (intro conjI; use h in algebra)
qed

lemma quat_of_dcm:
  assumes "norm2 q = 1" "Qs q \<noteq> 0"
  shows "Mat_getQuat (Quat_getDCM q) = (let k = sgn (Qs q) in Quat (k * Qs q) (k * Qx q) (k * Qy q) (k * Qz q))"
proof -
  obtain s x y z where q: "q = Quat s x y z" by (cases q)
  have "2 * (s * s + x * x) - 1 + (2 * (s * s + y * y) - 1) + (2 * (s * s + z * z) - 1) + 1 = (2 * s)\<^sup>2"
    using assms(1) by (simp add: q norm2_def power2_eq_square)
  then have r: "0.5 * sqrt (2 * (s * s + x * x) - 1 + (2 * (s * s + y * y) - 1) + (2 * (s * s + z * z) - 1) + 1) = \<bar>s\<bar>"
    by (simp only: real_sqrt_abs)
  have d: "t * s / \<bar>s\<bar> = sgn s * t" for t using assms(2) by (auto simp: q sgn_real_def)
  have e: "(2 * (p + s * t) - 2 * (p - s * t)) / (4 * \<bar>s\<bar>) = sgn s * t" "(2 * (p + s * t) - 2 * (p - s * t)) / (4 * \<bar>s\<bar>) = sgn s * t" for p t
    using d [of t] by (simp_all add: mult.commute)
  show ?thesis
    unfolding q Mat_getQuat_def Quat_getDCM_def Mat_of_def Mat.sel Vec.sel Quat.sel r Let_def e by (simp add: e abs_sgn mult.commute)
qed

lemma negated_quat: "k * k = 1 \<Longrightarrow> Quat_getDCM (Quat (k * s) (k * x) (k * y) (k * z)) = Quat_getDCM (Quat s x y z)"
proof -
  assume "k * k = 1"
  then have k: "k * a * (k * b) = a * b" for a b by algebra
  show ?thesis unfolding Quat_getDCM_def Quat.sel k ..
qed

text \<open>
  Quaternions and attitudes. The quaternion of any angles has length one and the matrix of these angles; taken back from the matrix it
  is the same, when its scalar part is positive, and in any case, unless the scalar part is zero, a quaternion of that matrix.\<close>

lemma quaternion_roundtrip:
  "norm2 (Vec_getQuat v) = 1 \<and> Quat_getDCM (Vec_getQuat v) = Vec_getDCM v \<and> Quat_normalize (Vec_getQuat v) = Vec_getQuat v \<and>
   (0 < Qs (Vec_getQuat v) \<longrightarrow> Mat_getQuat (Vec_getDCM v) = Vec_getQuat v) \<and>
   (Qs (Vec_getQuat v) \<noteq> 0 \<longrightarrow> Quat_getDCM (Mat_getQuat (Vec_getDCM v)) = Vec_getDCM v)"
proof (intro conjI impI)
  let ?q = "Vec_getQuat v"
  note q = quat_of_angles [of v]
  show "norm2 ?q = 1" "Quat_getDCM ?q = Vec_getDCM v" by (rule q)+
  show "Quat_normalize ?q = ?q" using q(1) by (simp add: Quat_normalize_def norm2_def)
  show "Mat_getQuat (Vec_getDCM v) = ?q" if "0 < Qs ?q"
    using quat_of_dcm [OF q(1)] that by (simp add: q(2))
  show "Quat_getDCM (Mat_getQuat (Vec_getDCM v)) = Vec_getDCM v" if "Qs ?q \<noteq> 0"
    using quat_of_dcm [OF q(1) that] negated_quat [of "sgn (Qs ?q)" "Qs ?q" "Qx ?q" "Qy ?q" "Qz ?q"] that q(2)
    by (simp add: Let_def sgn_real_def)
qed

lemma quaternion_roundtrip_witness: "Mat_getQuat (Vec_getDCM (Vec 0 0 (pi / 3))) = Vec_getQuat (Vec 0 0 (pi / 3))"
proof -
  have "Qs (Vec_getQuat (Vec 0 0 (pi / 3))) = cos (pi / 6)" by (simp add: Vec_getQuat_def Vec_extract_def)
  moreover have "0 < cos (pi / 6)" by (simp add: cos_30)
  ultimately show ?thesis using quaternion_roundtrip [of "Vec 0 0 (pi / 3)"] by simp
qed

section \<open>The checks of main.cpp\<close>

definition threshold :: "real \<Rightarrow> real" where
  "threshold x = (if \<bar>x\<bar> < 0.000001 then 0 else x)"

definition add1 :: "real \<Rightarrow> real" where
  "add1 x = x + 1"

text \<open>
  The values that the comments of \<open>main\<close> announce (``should be''), for the random matrices \<open>m0\<close> and \<open>m1\<close> and the random vector \<open>v0\<close> it
  draws: the two products with inverses, the axes, and the quaternions.
\<close>

record vec_main =
  identity_check :: Mat
  solve_check :: Vec
  dot_check :: real
  cross_check :: Vec
  quat_check :: Mat
  same_check :: "Quat \<times> Quat"

definition vec_main_checks :: "Mat \<Rightarrow> Mat \<Rightarrow> Vec \<Rightarrow> vec_main" where
  "vec_main_checks m0 m1 v0 =
     (let R = 4 * arctan 1 / 180;
          vEuler = Vec_times_assign (Vec 0 10 30) R;
          mDCM = Vec_getDCM vEuler;
          vx1 = Mat_vec mDCM (Vec 100 0 0); vy1 = Mat_vec mDCM (Vec 0 100 0); vz1 = Vec_cross vx1 vy1;
          q0 = Quat_normalize (Vec_getQuat vEuler)
      in \<lparr>identity_check = Mat_apply threshold (Mat_mat (Mat_inv m0) m0),
          solve_check = Vec_apply threshold (Vec_minus v0 (Mat_vec (Mat_inv m1) (Mat_vec m1 v0))),
          dot_check = Vec_dot vx1 vy1,
          cross_check = Vec_divide (Vec_divide (Mat_vec (Mat_transpose mDCM) vz1) 100) 100,
          quat_check = Mat_apply threshold (Mat_minus (Quat_getDCM q0) mDCM),
          same_check = (q0, Mat_getQuat mDCM)\<rparr>)"

lemma dcm_axes:
  "Vec_dot (Mat_vec (Vec_getDCM v) (Vec 100 0 0)) (Mat_vec (Vec_getDCM v) (Vec 0 100 0)) = 0"
  "Mat_vec (Mat_transpose (Vec_getDCM v)) (Vec_cross (Mat_vec (Vec_getDCM v) (Vec 100 0 0)) (Mat_vec (Vec_getDCM v) (Vec 0 100 0))) = Vec 0 0 10000"
proof -
  obtain phi theta psi where v: "v = Vec phi theta psi" by (cases v)
  define a b c d e f where ab: "a = sin phi" "b = cos phi" "c = sin theta" "d = cos theta" "e = sin psi" "f = cos psi"
  have h: "a * a + b * b = 1" "c * c + d * d = 1" "e * e + f * f = 1" using sc1 by (simp_all add: ab)
  have m: "Vec_getDCM v = Mat (Vec (d * f) (d * e) (- c)) (Vec (a * c * f - b * e) (a * c * e + b * f) (d * a))
      (Vec (b * c * f + a * e) (b * c * e - a * f) (d * b))"
    using dcm_entries [of phi theta psi] by (simp add: v dcm_def ab)
  show "Vec_dot (Mat_vec (Vec_getDCM v) (Vec 100 0 0)) (Mat_vec (Vec_getDCM v) (Vec 0 100 0)) = 0"
    unfolding m Vec_dot_def Mat_vec_def Mat.sel Vec.sel using h by algebra
  show "Mat_vec (Mat_transpose (Vec_getDCM v)) (Vec_cross (Mat_vec (Vec_getDCM v) (Vec 100 0 0)) (Mat_vec (Vec_getDCM v) (Vec 0 100 0))) = Vec 0 0 10000"
  proof -
    have "(a * c * f - b * e) * (b * c * e - a * f) - (b * c * f + a * e) * (a * c * e + b * f) = - c"
      "(b * c * f + a * e) * (d * e) - (d * f) * (b * c * e - a * f) = d * a"
      "(d * f) * (a * c * e + b * f) - (a * c * f - b * e) * (d * e) = d * b"
      using h by algebra+
    note x = this
    have k: "p * 100 * (q * 100) - r * 100 * (s * 100) = 10000 * (p * q - r * s)" for p q r s :: real by (simp add: algebra_simps)
    have cr: "Vec_cross (Mat_vec (Vec_getDCM v) (Vec 100 0 0)) (Mat_vec (Vec_getDCM v) (Vec 0 100 0)) = Vec (10000 * (- c)) (10000 * (d * a)) (10000 * (d * b))"
      by (simp only: m Vec_cross_def Mat_vec_def Mat.sel Vec.sel mult_zero_right add_0_left add_0_right k x)
    have "d * f * (10000 * - c) + (a * c * f - b * e) * (10000 * (d * a)) + (b * c * f + a * e) * (10000 * (d * b)) = 0"
      "d * e * (10000 * - c) + (a * c * e + b * f) * (10000 * (d * a)) + (b * c * e - a * f) * (10000 * (d * b)) = 0"
      "- c * (10000 * - c) + d * a * (10000 * (d * a)) + d * b * (10000 * (d * b)) = 10000"
      using h by algebra+
    then show ?thesis unfolding cr unfolding m Mat_vec_def Mat_transpose_def Mat.sel Vec.sel Vec.inject by blast
  qed
qed

lemma main_angles: "0 < Qs (Vec_getQuat (Vec_times_assign (Vec 0 10 30) (4 * arctan 1 / 180)))"
proof -
  have "Vec_times_assign (Vec 0 10 30) (4 * arctan 1 / 180) = Vec 0 (pi / 18) (pi / 6)" by (simp add: Vec_times_assign_def arctan_one)
  then have "Qs (Vec_getQuat (Vec_times_assign (Vec 0 10 30) (4 * arctan 1 / 180))) = cos (pi / 12) * cos (pi / 36)"
    by (simp add: Vec_getQuat_def Vec_extract_def Let_def)
  moreover have "0 < cos (pi / 12)" "0 < cos (pi / 36)" by (rule cos_gt_zero_pi; use pi_gt_zero in simp)+
  ultimately show ?thesis by simp
qed

text \<open>
  The demonstration program. Whatever invertible matrices and whatever vector it draws, the values are those its comments announce: the
  identity, zero vectors and matrices, the third axis, and twice the same quaternion.\<close>

lemma vec_main_as_announced:
  assumes "Mat_det m0 \<noteq> 0" "Mat_det m1 \<noteq> 0"
  shows "\<exists>q. vec_main_checks m0 m1 v0 = \<lparr>identity_check = Mat_one, solve_check = Vec_new, dot_check = 0, cross_check = Vec 0 0 1,
    quat_check = Mat_new, same_check = (q, q)\<rparr>"
proof -
  let ?e = "Vec_times_assign (Vec 0 10 30) (4 * arctan 1 / 180)"
  have n: "Quat_normalize (Vec_getQuat ?e) = Vec_getQuat ?e" using quat_of_angles(1) [of ?e] by (simp add: Quat_normalize_def norm2_def)
  have s: "Mat_getQuat (Vec_getDCM ?e) = Vec_getQuat ?e"
    using quat_of_dcm [OF quat_of_angles(1), of ?e] main_angles by (simp add: quat_of_angles(2))
  have t: "threshold 0 = 0" "threshold 1 = 1" by (simp_all add: threshold_def)
  show ?thesis
    unfolding vec_main_checks_def Let_def inv_left_right(1) [OF assms(1)] inv_solves [OF assms(2)] dcm_axes n s quat_of_angles(2)
    by (simp add: t Mat_one_def Mat_of_def Mat_apply_def Vec_apply_def Vec_minus_def Vec_new_def Vec_divide_def Mat_new_def Mat_minus_def)
qed

lemma vec_main_as_announced_witness:
  "solve_check (vec_main_checks (Mat_of 1 2 3 4 5 6 7 8 10) (Mat_of 2 0 0 0 2 0 0 1 2) (Vec 1 2 3)) = Vec_new"
proof -
  have "Mat_det (Mat_of 1 2 3 4 5 6 7 8 10) \<noteq> 0" "Mat_det (Mat_of 2 0 0 0 2 0 0 1 2) \<noteq> 0" by (simp_all add: Mat_det_def Mat_of_def)
  from vec_main_as_announced [OF this, of "Vec 1 2 3"] show ?thesis by auto
qed

end
