(* ===== verification/TaterRing.thy ===== *)
theory TaterRing
  imports Prelude "HOL-Library.Monad_Syntax"
begin

text \<open>
  The hot potato model (\<open>src/Models/Tater\<close>): taters 1 to n pass a message on in a ring until it came back to the first one often enough.
  A tater subscribes to the messages of its predecessor, or, with option \<open>-T\<close>, to those of all taters, and then ignores those of
  the others. Publishing puts a message in flight; a message in flight is delivered to the taters that subscribed to its sender, in
  the order of publication, as the dispatcher does on one node.
\<close>

section \<open>A tater\<close>

record TaterMsg =
  tm_tater :: int
  tm_count :: int
  tm_payload :: "u8 list"

record Tater =
  tt_unit_id :: int
  tt_callback_count :: int
  tt_max_taters :: int
  tt_max_passes :: int
  tt_subscribe_all :: bool
  tt_payload_size :: nat
  tt_msg :: TaterMsg
  tt_subscribed :: int

datatype tater_act = Publish int TaterMsg | StopSimulation

definition Tater_predecessor :: "Tater \<Rightarrow> int" where
  "Tater_predecessor t = (if tt_unit_id t \<noteq> 1 then tt_unit_id t - 1 else tt_max_taters t)"

text \<open>Writing the elements of the payload; \<open>None\<close> is a write behind the end of the vector.\<close>

definition clear_payload :: "nat \<Rightarrow> u8 list \<Rightarrow> u8 list option" where
  "clear_payload n xs = (if n \<le> length xs then Some (replicate n 0 @ drop n xs) else None)"

definition passTheTater :: "Tater \<Rightarrow> (Tater \<times> tater_act list) option" where
  "passTheTater t0 =
     (let t = t0\<lparr>tt_callback_count := tt_callback_count t0 + 1\<rparr> in
      if tt_subscribe_all t \<and> Tater_predecessor t \<noteq> tm_tater (tt_msg t) then Some (t, [])
      else if tt_callback_count t = tt_max_passes t \<and> tt_unit_id t = 1 then Some (t, [StopSimulation])
      else do {
        p \<leftarrow> clear_payload (tt_payload_size t) (tm_payload (tt_msg t));
        let m = \<lparr>tm_tater = tt_unit_id t, tm_count = tt_callback_count t, tm_payload = p\<rparr>;
        Some (t\<lparr>tt_msg := m\<rparr>, [Publish (tt_unit_id t) m])
      })"

text \<open>The part of \<open>init\<close> behind the options.\<close>

definition Tater_init :: "int \<Rightarrow> int \<Rightarrow> int \<Rightarrow> bool \<Rightarrow> nat \<Rightarrow> Tater" where
  "Tater_init unit n passes all len =
     \<lparr>tt_unit_id = unit, tt_callback_count = 0, tt_max_taters = n, tt_max_passes = passes, tt_subscribe_all = all, tt_payload_size = len,
      tt_msg = \<lparr>tm_tater = 0, tm_count = 0, tm_payload = []\<rparr>,
      tt_subscribed = (if \<not> all then (if unit \<noteq> 1 then unit - 1 else n) else 0)\<rparr>"

text \<open>\<open>initWaitForAll\<close>: a timer, or the first message when all peers have started.\<close>

definition initWaitForAll :: "bool \<Rightarrow> Tater \<Rightarrow> Tater \<times> tater_act list" where
  "initWaitForAll all_started t =
     (if \<not> all_started then (t, [])
      else (let m = \<lparr>tm_tater = tt_unit_id t, tm_count = 0,
                     tm_payload = tm_payload (tt_msg t) @ map of_nat [0 ..< tt_payload_size t]\<rparr>
            in (t\<lparr>tt_msg := m\<rparr>, [Publish (tt_unit_id t) m])))"

section \<open>The ring\<close>

record ring =
  rg_taters :: "Tater list"
  rg_flight :: "(int \<times> TaterMsg) list"
  rg_stopped :: bool

text \<open>Unit 0 of a subscription stands for every unit.\<close>

definition wants :: "int \<Rightarrow> Tater \<Rightarrow> bool" where
  "wants u t \<longleftrightarrow> tt_subscribed t = 0 \<or> tt_subscribed t = u"

definition receive_tater :: "int \<Rightarrow> TaterMsg \<Rightarrow> Tater \<Rightarrow> (Tater \<times> tater_act list) option" where
  "receive_tater u m t = (if wants u t then passTheTater (t\<lparr>tt_msg := m\<rparr>) else Some (t, []))"

fun deliver_tater :: "int \<Rightarrow> TaterMsg \<Rightarrow> Tater list \<Rightarrow> (Tater list \<times> tater_act list) option" where
  "deliver_tater u m [] = Some ([], [])"
| "deliver_tater u m (t # ts) = do {
     (t1, as) \<leftarrow> receive_tater u m t;
     (ts1, bs) \<leftarrow> deliver_tater u m ts;
     Some (t1 # ts1, as @ bs)
   }"

definition published :: "tater_act list \<Rightarrow> (int \<times> TaterMsg) list" where
  "published as = concat (map (\<lambda>a. case a of Publish u m \<Rightarrow> [(u, m)] | StopSimulation \<Rightarrow> []) as)"

definition ring_step :: "ring \<Rightarrow> ring option" where
  "ring_step s = (case rg_flight s of
     [] \<Rightarrow> Some s
   | (u, m) # fs \<Rightarrow> do {
       (ts, as) \<leftarrow> deliver_tater u m (rg_taters s);
       Some \<lparr>rg_taters = ts, rg_flight = fs @ published as, rg_stopped = rg_stopped s \<or> StopSimulation \<in> set as\<rparr>
     })"

fun ring_run :: "nat \<Rightarrow> ring \<Rightarrow> ring option" where
  "ring_run 0 s = Some s"
| "ring_run (Suc k) s = Option.bind (ring_run k s) ring_step"

definition ring_start :: "nat \<Rightarrow> int \<Rightarrow> bool \<Rightarrow> nat \<Rightarrow> ring" where
  "ring_start n passes all len =
     (let ts = map (\<lambda>i. Tater_init (int i + 1) (int n) passes all len) [0 ..< n];
          (t, as) = initWaitForAll True (hd ts)
      in \<lparr>rg_taters = t # tl ts, rg_flight = published as, rg_stopped = False\<rparr>)"

section \<open>Where the potato is\<close>

text \<open>How often tater \<open>i + 1\<close> was called in the first \<open>k\<close> deliveries.\<close>

definition calls :: "nat \<Rightarrow> bool \<Rightarrow> nat \<Rightarrow> nat \<Rightarrow> nat" where
  "calls n all k i = (if all then k else if i = 0 then k div n else (k + n - i) div n)"

definition tater_ok :: "nat \<Rightarrow> int \<Rightarrow> bool \<Rightarrow> nat \<Rightarrow> nat \<Rightarrow> nat \<Rightarrow> Tater \<Rightarrow> bool" where
  "tater_ok n passes all len k i t \<longleftrightarrow> tt_unit_id t = int i + 1 \<and> tt_callback_count t = int (calls n all k i) \<and> tt_max_taters t = int n \<and>
     tt_max_passes t = passes \<and> tt_subscribe_all t = all \<and> tt_payload_size t = len \<and>
     tt_subscribed t = (if all then 0 else if i = 0 then int n else int i)"

text \<open>After \<open>k\<close> deliveries the message of one tater is in flight.\<close>

definition ring_ok :: "nat \<Rightarrow> int \<Rightarrow> bool \<Rightarrow> nat \<Rightarrow> nat \<Rightarrow> ring \<Rightarrow> bool" where
  "ring_ok n passes all len k s \<longleftrightarrow> length (rg_taters s) = n \<and> (\<forall>i < n. tater_ok n passes all len k i (rg_taters s ! i)) \<and>
     \<not> rg_stopped s \<and> (\<exists>m. rg_flight s = [(int (k mod n) + 1, m)] \<and> tm_tater m = int (k mod n) + 1 \<and> length (tm_payload m) = len)"

lemma start_ok:
  assumes "0 < n"
  shows "ring_ok n passes all len 0 (ring_start n passes all len)"
proof -
  let ?f = "\<lambda>i. Tater_init (int i + 1) (int n) passes all len"
  let ?m = "\<lparr>tm_tater = 1, tm_count = 0, tm_payload = map of_nat [0 ..< len]\<rparr>"
  have ts: "map ?f [0 ..< n] = ?f 0 # map ?f [1 ..< n]" using assms by (simp add: upt_conv_Cons)
  have s: "ring_start n passes all len = \<lparr>rg_taters = (?f 0)\<lparr>tt_msg := ?m\<rparr> # map ?f [1 ..< n], rg_flight = [(1, ?m)], rg_stopped = False\<rparr>"
    unfolding ring_start_def Let_def ts by (simp add: initWaitForAll_def Tater_init_def published_def Let_def)
  have "tater_ok n passes all len 0 i (((?f 0)\<lparr>tt_msg := ?m\<rparr> # map ?f [1 ..< n]) ! i)" if "i < n" for i
    using that assms by (cases i) (auto simp: tater_ok_def Tater_init_def calls_def)
  then show ?thesis using assms by (simp add: ring_ok_def s)
qed

text \<open>A tater that the message is not for: it does not hear it, or counts it and ignores it.\<close>

definition bystander :: "int \<Rightarrow> TaterMsg \<Rightarrow> Tater \<Rightarrow> Tater" where
  "bystander u m t = (if wants u t then t\<lparr>tt_msg := m, tt_callback_count := tt_callback_count t + 1\<rparr> else t)"

lemma deliver_one:
  assumes "\<And>x. x \<in> set pre \<union> set post \<Longrightarrow> receive_tater u m x = Some (bystander u m x, [])" "receive_tater u m t = Some (t', as)"
  shows "deliver_tater u m (pre @ t # post) = Some (map (bystander u m) pre @ t' # map (bystander u m) post, as)"
proof -
  have b: "deliver_tater u m xs = Some (map (bystander u m) xs, [])" if "\<forall>x \<in> set xs. receive_tater u m x = Some (bystander u m x, [])" for xs
    using that by (induction xs) simp_all
  show ?thesis using assms by (induction pre) (simp_all add: b)
qed

lemma calls_Suc:
  assumes "0 < n" "i < n"
  shows "calls n all (Suc k) i = (if all \<or> i = Suc k mod n then calls n all k i + 1 else calls n all k i)"
proof -
  have "(Suc k + n - i) div n = (if i = Suc k mod n then (k + n - i) div n + 1 else (k + n - i) div n)" if "0 < i"
  proof -
    have e: "Suc k + n - i = Suc (k + n - i)" using assms(2) by simp
    have "Suc (k + n - i) mod n = 0 \<longleftrightarrow> i = Suc k mod n"
    proof -
      have "(Suc k + n) mod n = i mod n \<longleftrightarrow> n dvd Suc k + n - i" using assms(2) by (intro mod_eq_dvd_iff_nat) simp
      moreover have "(Suc k + n) mod n = Suc k mod n" by (rule mod_add_self2)
      ultimately show ?thesis using assms(2) by (auto simp only: e mod_eq_0_iff_dvd mod_less)
    qed
    then show ?thesis unfolding e div_Suc by simp
  qed
  moreover have "Suc k div n = (if 0 = Suc k mod n then k div n + 1 else k div n)" by (simp add: div_Suc)
  ultimately show ?thesis by (auto simp: calls_def)
qed

lemma bystander_ok:
  assumes "tater_ok n passes all len k i t" "i < n" "i \<noteq> Suc k mod n" "tm_tater m = int (k mod n) + 1"
  shows "receive_tater (int (k mod n) + 1) m t = Some (bystander (int (k mod n) + 1) m t, [])"
    "tater_ok n passes all len (Suc k) i (bystander (int (k mod n) + 1) m t)"
proof -
  have n: "0 < n" using assms(2) by simp
  have p: "(if i = 0 then int n else int i) \<noteq> int (k mod n) + 1"
    using assms(2,3) by (auto simp: mod_Suc split: if_splits)
  then show "receive_tater (int (k mod n) + 1) m t = Some (bystander (int (k mod n) + 1) m t, [])"
    using assms(1,4) n by (auto simp: receive_tater_def wants_def tater_ok_def bystander_def passTheTater_def Tater_predecessor_def Let_def)
  show "tater_ok n passes all len (Suc k) i (bystander (int (k mod n) + 1) m t)"
    using assms(1,3) n p calls_Suc [OF n assms(2), of all k] by (auto simp: tater_ok_def bystander_def wants_def)
qed

lemma tater_fields:
  assumes "tater_ok n passes all len k i t"
  shows "tt_unit_id t = int i + 1" "tt_max_taters t = int n" "tt_max_passes t = passes" "tt_subscribe_all t = all" "tt_payload_size t = len"
    "tt_subscribed t = (if all then 0 else if i = 0 then int n else int i)" "tt_callback_count t = int (calls n all k i)"
  using assms by (simp_all add: tater_ok_def)

text \<open>The tater the message is for.\<close>

lemma holder_passes:
  assumes "tater_ok n passes all len k i t" "(if i = 0 then int n else int i) = tm_tater m" "u = tm_tater m"
  shows "receive_tater u m t =
    (let c = tt_callback_count t + 1; t1 = t\<lparr>tt_msg := m, tt_callback_count := c\<rparr> in
     if c = passes \<and> i = 0 then Some (t1, [StopSimulation])
     else do {
       p \<leftarrow> clear_payload len (tm_payload m);
       let m1 = \<lparr>tm_tater = int i + 1, tm_count = c, tm_payload = p\<rparr>;
       Some (t1\<lparr>tt_msg := m1\<rparr>, [Publish (int i + 1) m1])
     })"
proof -
  note f = tater_fields [OF assms(1)]
  have w: "wants u t" unfolding wants_def f(6) assms(3) assms(2) [symmetric] by simp
  have p: "Tater_predecessor (t\<lparr>tt_msg := m, tt_callback_count := c\<rparr>) = tm_tater m" for c
    unfolding assms(2) [symmetric] by (simp add: Tater_predecessor_def f)
  show ?thesis using w by (cases "i = 0") (simp_all add: receive_tater_def passTheTater_def Let_def p f(1-6))
qed

lemma holder_receives:
  assumes "tater_ok n passes all len k i t" "i = Suc k mod n" "i < n" "tm_tater m = int (k mod n) + 1" "length (tm_payload m) = len"
    and "\<not> (i = 0 \<and> int (calls n all (Suc k) 0) = passes)"
  shows "\<exists>t' m'. receive_tater (int (k mod n) + 1) m t = Some (t', [Publish (int i + 1) m']) \<and> tater_ok n passes all len (Suc k) i t' \<and>
    tm_tater m' = int i + 1 \<and> length (tm_payload m') = len"
proof -
  have n: "0 < n" using assms(3) by simp
  have p: "(if i = 0 then int n else int i) = tm_tater m" unfolding assms(4)
    using assms(2,3) by (auto simp: mod_Suc split: if_splits)
  have c: "tt_callback_count t + 1 = int (calls n all (Suc k) i)"
    using calls_Suc [OF n assms(3), of all k] assms(2) tater_fields(7) [OF assms(1)] by simp
  have "\<not> (int (calls n all (Suc k) i) = passes \<and> i = 0)" using assms(6) by blast
  moreover have "clear_payload len (tm_payload m) = Some (replicate len 0)" using assms(5) by (simp add: clear_payload_def)
  ultimately show ?thesis
    unfolding holder_passes [OF assms(1) p assms(4) [symmetric]] c Let_def
    using tater_fields [OF assms(1)] by (simp add: tater_ok_def)
qed

lemma other_index:
  assumes "x \<in> set (take i xs) \<union> set (drop (Suc i) xs)"
  shows "\<exists>j < length xs. j \<noteq> i \<and> x = xs ! j"
  using assms
proof (elim UnE)
  assume "x \<in> set (take i xs)"
  then obtain j where "j < length (take i xs)" "x = take i xs ! j" by (metis in_set_conv_nth)
  then show ?thesis by (intro exI [of _ j]) simp
next
  assume "x \<in> set (drop (Suc i) xs)"
  then obtain j where "j < length (drop (Suc i) xs)" "x = drop (Suc i) xs ! j" by (metis in_set_conv_nth)
  then show ?thesis by (intro exI [of _ "Suc i + j"]) simp
qed

lemma ring_step_ok:
  assumes "ring_ok n passes all len k s" "0 < n" "\<not> (n dvd Suc k \<and> int (calls n all (Suc k) 0) = passes)"
  shows "\<exists>s'. ring_step s = Some s' \<and> ring_ok n passes all len (Suc k) s'"
proof -
  let ?u = "int (k mod n) + 1"
  define i where "i = Suc k mod n"
  have i: "i < n" "i = 0 \<longleftrightarrow> n dvd Suc k" using assms(2) by (auto simp: i_def mod_eq_0_iff_dvd)
  obtain m where m: "rg_flight s = [(?u, m)]" "tm_tater m = ?u" "length (tm_payload m) = len"
    and ts: "length (rg_taters s) = n" "\<And>j. j < n \<Longrightarrow> tater_ok n passes all len k j (rg_taters s ! j)" "\<not> rg_stopped s"
    using assms(1) by (auto simp: ring_ok_def)
  let ?ts = "rg_taters s"
  obtain t' m' where t': "receive_tater ?u m (?ts ! i) = Some (t', [Publish (int i + 1) m'])" "tater_ok n passes all len (Suc k) i t'"
    "tm_tater m' = int i + 1" "length (tm_payload m') = len"
    using holder_receives [OF ts(2) [OF i(1)] i_def i(1) m(2,3)] i(2) assms(3) by blast
  have split: "?ts = take i ?ts @ ?ts ! i # drop (Suc i) ?ts" using i(1) ts(1) by (simp add: id_take_nth_drop)
  have bys: "receive_tater ?u m x = Some (bystander ?u m x, [])" if x: "x \<in> set (take i ?ts) \<union> set (drop (Suc i) ?ts)" for x
  proof -
    obtain j where "j < n" "j \<noteq> i" "x = ?ts ! j" using other_index [OF x] ts(1) i(1) by blast
    then show ?thesis using bystander_ok(1) [OF ts(2) _ _ m(2)] by (simp add: i_def)
  qed
  let ?new = "map (bystander ?u m) (take i ?ts) @ t' # map (bystander ?u m) (drop (Suc i) ?ts)"
  have d: "deliver_tater ?u m ?ts = Some (?new, [Publish (int i + 1) m'])"
    using deliver_one [OF bys t'(1)] split by metis
  have "tater_ok n passes all len (Suc k) j (?new ! j)" if "j < n" for j
  proof (cases "j = i")
    case True
    then show ?thesis using t'(2) ts(1) i(1) by (simp add: nth_append)
  next
    case False
    have "?new ! j = bystander ?u m (?ts ! j)"
      using False that ts(1) i(1) by (auto simp: nth_append nth_Cons' min_def)
    then show ?thesis using bystander_ok(2) [OF ts(2) [OF that] that _ m(2)] False by (simp add: i_def)
  qed
  moreover have "length ?new = n" using ts(1) i(1) by simp
  ultimately show ?thesis using ts(3) t'(3,4) by (simp add: ring_step_def m(1) d ring_ok_def published_def i_def)
qed

lemma ring_step_stops:
  assumes "ring_ok n passes all len k s" "0 < n" "n dvd Suc k" "int (calls n all (Suc k) 0) = passes"
  shows "\<exists>s'. ring_step s = Some s' \<and> rg_stopped s' \<and> rg_flight s' = [] \<and> length (rg_taters s') = n \<and>
    (\<forall>i < n. tt_callback_count (rg_taters s' ! i) = int (calls n all (Suc k) i))"
proof -
  let ?u = "int (k mod n) + 1"
  have i: "Suc k mod n = 0" using assms(3) by (simp add: mod_eq_0_iff_dvd)
  obtain m where m: "rg_flight s = [(?u, m)]" "tm_tater m = ?u"
    and ts: "length (rg_taters s) = n" "\<And>j. j < n \<Longrightarrow> tater_ok n passes all len k j (rg_taters s ! j)"
    using assms(1) by (auto simp: ring_ok_def)
  obtain t rest where s: "rg_taters s = t # rest" using ts(1) assms(2) by (cases "rg_taters s") auto
  have t: "tater_ok n passes all len k 0 t" using ts(2) [OF assms(2)] s by simp
  have p: "(if 0 = (0 :: nat) then int n else int 0) = tm_tater m" unfolding m(2) using i assms(2) by (auto simp: mod_Suc split: if_splits)
  have c: "tt_callback_count t + 1 = passes"
    using calls_Suc [OF assms(2) assms(2), of all k] tater_fields(7) [OF t] i assms(4) by simp
  let ?t' = "t\<lparr>tt_msg := m, tt_callback_count := passes\<rparr>"
  have r: "receive_tater ?u m t = Some (?t', [StopSimulation])"
    unfolding holder_passes [OF t p m(2) [symmetric]] Let_def c by simp
  have rest: "tater_ok n passes all len k (Suc j) (rest ! j)" if "j < length rest" for j
    using ts(2) [of "Suc j"] that ts(1) s by simp
  have bys: "receive_tater ?u m x = Some (bystander ?u m x, [])" if x: "x \<in> set [] \<union> set rest" for x
  proof -
    obtain j where "j < length rest" "x = rest ! j" using x by (auto simp: set_conv_nth)
    then show ?thesis using bystander_ok(1) [OF rest _ _ m(2)] i ts(1) s by simp
  qed
  have d: "deliver_tater ?u m (t # rest) = Some (?t' # map (bystander ?u m) rest, [StopSimulation])"
    using deliver_one [where pre = "[]", OF _ r] bys by simp
  have "tt_callback_count ((?t' # map (bystander ?u m) rest) ! j) = int (calls n all (Suc k) j)" if "j < n" for j
  proof (cases j)
    case 0
    then show ?thesis using assms(4) by simp
  next
    case (Suc l)
    then have "l < length rest" using that ts(1) s by simp
    then have "tater_ok n passes all len (Suc k) j (bystander ?u m (rest ! l))"
      using bystander_ok(2) [OF rest _ _ m(2), of l] i Suc that by simp
    then show ?thesis using Suc \<open>l < length rest\<close> by (simp add: tater_ok_def)
  qed
  moreover have "ring_step s = Some \<lparr>rg_taters = ?t' # map (bystander ?u m) rest, rg_flight = [], rg_stopped = True\<rparr>"
    unfolding ring_step_def m(1) s list.case prod.case d by (simp add: published_def)
  ultimately show ?thesis using ts(1) s by simp
qed

lemma ring_run_ok:
  assumes "0 < n" "\<And>j. 0 < j \<Longrightarrow> j \<le> k \<Longrightarrow> \<not> (n dvd j \<and> int (calls n all j 0) = passes)"
  shows "\<exists>s. ring_run k (ring_start n passes all len) = Some s \<and> ring_ok n passes all len k s"
  using assms(2)
proof (induction k)
  case 0
  then show ?case using start_ok [OF assms(1)] by simp
next
  case (Suc k)
  then obtain s where "ring_run k (ring_start n passes all len) = Some s" "ring_ok n passes all len k s" by auto
  then show ?case using ring_step_ok [of n passes all len k s] assms(1) Suc.prems [of "Suc k"] by auto
qed

lemma ring_run_stops:
  assumes "0 < n" "0 < k" "n dvd k" "int (calls n all k 0) = passes" "\<And>j. 0 < j \<Longrightarrow> j < k \<Longrightarrow> \<not> (n dvd j \<and> int (calls n all j 0) = passes)"
  shows "\<exists>s. ring_run k (ring_start n passes all len) = Some s \<and> rg_stopped s \<and> rg_flight s = [] \<and> length (rg_taters s) = n \<and>
    (\<forall>i < n. tt_callback_count (rg_taters s ! i) = int (calls n all k i))"
proof -
  obtain l where l: "k = Suc l" using assms(2) by (cases k) auto
  obtain s where s: "ring_run l (ring_start n passes all len) = Some s" "ring_ok n passes all len l s"
    using ring_run_ok [OF assms(1), of l all passes len] assms(5) l by auto
  from ring_step_stops [OF s(2) assms(1)] assms(3,4) s(1) l show ?thesis by auto
qed

section \<open>Properties\<close>

text \<open>
  C29.
  The potato goes round. When every tater subscribes to its predecessor, the first tater stops the simulation after exactly as many
  rounds as were asked for: no delivery before writes outside the payload or stops, every tater was then called once per round, and
  nothing is left in flight.\<close>

theorem potato_goes_round:
  assumes "0 < n" "0 < passes"
  shows "(\<forall>k < n * passes. \<exists>s. ring_run k (ring_start n (int passes) False len) = Some s \<and> \<not> rg_stopped s) \<and>
    (\<exists>s. ring_run (n * passes) (ring_start n (int passes) False len) = Some s \<and> rg_stopped s \<and> rg_flight s = [] \<and>
      length (rg_taters s) = n \<and> (\<forall>t \<in> set (rg_taters s). tt_callback_count t = int passes))"
proof -
  have stop: "\<not> (n dvd j \<and> int (calls n False j 0) = int passes)" if "0 < j" "j < n * passes" for j
    using that assms by (auto simp: calls_def)
  have "\<exists>s. ring_run k (ring_start n (int passes) False len) = Some s \<and> \<not> rg_stopped s" if "k < n * passes" for k
    using ring_run_ok [OF assms(1), of k False "int passes" len] stop that by (force simp: ring_ok_def)
  moreover have "calls n False (n * passes) i = passes" if "i < n" for i
  proof (cases "i = 0")
    case False
    then have e: "n * passes + n - i = (n - i) + n * passes" "n - i < n" using that by simp_all
    have "((n - i) + n * passes) div n = passes" using e(2) assms(1) by (simp add: div_mult_self2)
    then show ?thesis using False by (simp only: calls_def e(1) if_False)
  qed (use assms in \<open>simp add: calls_def\<close>)
  then have "\<exists>s. ring_run (n * passes) (ring_start n (int passes) False len) = Some s \<and> rg_stopped s \<and> rg_flight s = [] \<and>
      length (rg_taters s) = n \<and> (\<forall>t \<in> set (rg_taters s). tt_callback_count t = int passes)"
    using ring_run_stops [OF assms(1) _ dvd_triv_left _ stop, of passes len] assms by (auto simp: in_set_conv_nth calls_def)
  ultimately show ?thesis by blast
qed

theorem potato_goes_round_witness:
  "\<exists>s. ring_run 6 (ring_start 3 2 False 10) = Some s \<and> rg_stopped s \<and> map tt_callback_count (rg_taters s) = [2, 2, 2]"
proof -
  obtain s where s: "ring_run 6 (ring_start 3 2 False 10) = Some s" "rg_stopped s" "length (rg_taters s) = 3"
    "\<forall>t \<in> set (rg_taters s). tt_callback_count t = 2"
    using potato_goes_round [of 3 2 10] by auto
  then obtain a b c where "rg_taters s = [a, b, c]" by (auto simp: length_Suc_conv numeral_3_eq_3)
  with s show ?thesis by simp
qed

text \<open>
  Subscribing to everybody changes the game. With option \<open>-T\<close> a tater also counts the messages it ignores, so the first one stops when
  the number of all messages is the number of passes, and only looks when the potato is back: the simulation stops after
  as many messages as rounds were asked for when the number of taters divides it, and otherwise never.\<close>

lemma potato_for_all:
  assumes "0 < n" "0 < passes"
  shows "(\<exists>k s. ring_run k (ring_start n (int passes) True len) = Some s \<and> rg_stopped s) \<longleftrightarrow> n dvd passes"
proof
  assume "\<exists>k s. ring_run k (ring_start n (int passes) True len) = Some s \<and> rg_stopped s"
  then obtain k s where s: "ring_run k (ring_start n (int passes) True len) = Some s" "rg_stopped s" by blast
  show "n dvd passes"
  proof (rule ccontr)
    assume "\<not> n dvd passes"
    then have "\<exists>s. ring_run k (ring_start n (int passes) True len) = Some s \<and> ring_ok n (int passes) True len k s"
      by (intro ring_run_ok [OF assms(1)]) (auto simp: calls_def)
    with s show False by (auto simp: ring_ok_def)
  qed
next
  assume "n dvd passes"
  then show "\<exists>k s. ring_run k (ring_start n (int passes) True len) = Some s \<and> rg_stopped s"
    using ring_run_stops [OF assms, of True "int passes" len] by (auto simp: calls_def)
qed

lemma potato_for_all_witness: "\<not> (\<exists>k s. ring_run k (ring_start 3 100 True 10) = Some s \<and> rg_stopped s)"
  using potato_for_all [of 3 100 10] by simp

section \<open>The framed variant\<close>

text \<open>
  \<open>src/Models/FramedTater\<close>: one round per frame. The first tater passes the potato at the start of a frame, every tater that gets it passes
  it on and ends its frame. Here the elements of the payload are appended to the message that was received.
\<close>

record FramedTaterMsg =
  fm_tater :: int
  fm_cb_count :: int
  fm_fr_count :: int
  fm_inFrame :: bool
  fm_payload :: "int list"

record FramedTater =
  ft_unit_id :: int
  ft_callback_count :: int
  ft_frame_count :: int
  ft_inFrame :: bool
  ft_max_passes :: int
  ft_payload_size :: nat
  ft_send_count :: int
  ft_msg :: FramedTaterMsg

datatype framed_act = PublishFramed FramedTaterMsg | SendEndCase | SendEndFrame

definition framed_message :: "FramedTater \<Rightarrow> FramedTaterMsg" where
  "framed_message t =
     \<lparr>fm_tater = ft_unit_id t, fm_cb_count = ft_callback_count t, fm_fr_count = ft_frame_count t, fm_inFrame = ft_inFrame t,
      fm_payload = fm_payload (ft_msg t) @ map int [0 ..< ft_payload_size t]\<rparr>"

definition FramedTater_pass :: "FramedTater \<Rightarrow> FramedTater \<times> framed_act list" where
  "FramedTater_pass t0 =
     (let t = t0\<lparr>ft_callback_count := ft_callback_count t0 + 1\<rparr> in
      if ft_callback_count t \<ge> ft_max_passes t \<and> ft_unit_id t = 1 then (t, [SendEndCase, SendEndFrame])
      else if ft_unit_id t \<noteq> 1 then (t\<lparr>ft_msg := framed_message t, ft_send_count := ft_send_count t + 1\<rparr>, [PublishFramed (framed_message t), SendEndFrame])
      else (t, [SendEndFrame]))"

definition FramedTater_Step :: "FramedTater \<Rightarrow> FramedTater \<times> framed_act list" where
  "FramedTater_Step t =
     (if ft_unit_id t = 1 then (t\<lparr>ft_msg := framed_message t, ft_send_count := ft_send_count t + 1\<rparr>, [PublishFramed (framed_message t)]) else (t, []))"

text \<open>One frame: the first tater steps, the others pass the message on in turn, and the first one gets it back.\<close>

definition framed_receive :: "FramedTaterMsg \<Rightarrow> FramedTater \<Rightarrow> FramedTater \<times> framed_act list" where
  "framed_receive m t = FramedTater_pass (t\<lparr>ft_msg := m\<rparr>)"

fun framed_hops :: "FramedTaterMsg \<Rightarrow> FramedTater list \<Rightarrow> FramedTater list \<times> FramedTaterMsg \<times> framed_act list" where
  "framed_hops m [] = ([], m, [])"
| "framed_hops m (t # ts) =
     (let (t1, as) = framed_receive m t; (ts1, m1, bs) = framed_hops (ft_msg t1) ts in (t1 # ts1, m1, as @ bs))"

definition framed_frame :: "FramedTater \<times> FramedTater list \<Rightarrow> (FramedTater \<times> FramedTater list) \<times> framed_act list" where
  "framed_frame = (\<lambda>(t, ts).
     let (t1, as) = FramedTater_Step t; (ts1, m, bs) = framed_hops (ft_msg t1) ts; (t2, cs) = framed_receive m t1
     in ((t2, ts1), as @ bs @ cs))"

definition after_frames :: "nat \<Rightarrow> FramedTater \<times> FramedTater list \<Rightarrow> FramedTater \<times> FramedTater list" where
  "after_frames f s = ((\<lambda>s. fst (framed_frame s)) ^^ f) s"

definition framed_ring :: "nat \<Rightarrow> FramedTater \<times> FramedTater list \<Rightarrow> bool" where
  "framed_ring len = (\<lambda>(t, ts). ft_unit_id t = 1 \<and> ft_payload_size t = len \<and> (\<forall>x \<in> set ts. ft_unit_id x \<noteq> 1 \<and> ft_payload_size x = len))"

lemma hops_grow:
  assumes "\<forall>x \<in> set ts. ft_unit_id x \<noteq> 1 \<and> ft_payload_size x = len" "framed_hops m ts = (ts1, m1, as)"
  shows "length (fm_payload m1) = length (fm_payload m) + len * length ts \<and> length ts1 = length ts \<and>
    (\<forall>x \<in> set ts1. ft_unit_id x \<noteq> 1 \<and> ft_payload_size x = len) \<and> length (filter (\<lambda>a. a = SendEndFrame) as) = length ts \<and> SendEndCase \<notin> set as"
  using assms
proof (induction ts arbitrary: m ts1 m1 as)
  case (Cons t ts)
  let ?t = "t\<lparr>ft_msg := m, ft_callback_count := ft_callback_count t + 1\<rparr>"
  obtain ts2 m2 bs where h: "framed_hops (framed_message ?t) ts = (ts2, m2, bs)" by (metis prod_cases3)
  have r: "framed_receive m t = (?t\<lparr>ft_msg := framed_message ?t, ft_send_count := ft_send_count ?t + 1\<rparr>, [PublishFramed (framed_message ?t), SendEndFrame])"
    using Cons.prems(1) by (simp add: framed_receive_def FramedTater_pass_def Let_def)
  have "length (fm_payload (framed_message ?t)) = length (fm_payload m) + len" using Cons.prems(1) by (simp add: framed_message_def)
  moreover have "ts1 = ?t\<lparr>ft_msg := framed_message ?t, ft_send_count := ft_send_count ?t + 1\<rparr> # ts2" "m1 = m2" "as = PublishFramed (framed_message ?t) # SendEndFrame # bs"
    using Cons.prems(2) by (simp_all add: r h)
  ultimately show ?case using Cons.IH [OF _ h] Cons.prems(1) by simp
qed simp

lemma frame_grows:
  assumes "framed_ring len (t, ts)" "framed_frame (t, ts) = ((t2, ts2), as)"
  shows "framed_ring len (t2, ts2) \<and> length ts2 = length ts \<and>
    length (fm_payload (ft_msg t2)) = length (fm_payload (ft_msg t)) + len * (length ts + 1) \<and>
    length (filter (\<lambda>a. a = SendEndFrame) as) = length ts + 1"
proof -
  obtain ts1 m bs where h: "framed_hops (framed_message t) ts = (ts1, m, bs)" by (metis prod_cases3)
  have g: "length (fm_payload (framed_message t)) = length (fm_payload (ft_msg t)) + len" using assms(1) by (simp add: framed_message_def framed_ring_def)
  have ts: "\<forall>x \<in> set ts. ft_unit_id x \<noteq> 1 \<and> ft_payload_size x = len" using assms(1) by (simp add: framed_ring_def)
  show ?thesis
    using assms hops_grow [OF ts h] g
    by (auto simp: framed_frame_def FramedTater_Step_def framed_ring_def h framed_receive_def FramedTater_pass_def Let_def algebra_simps split: if_splits)
qed

text \<open>
  The message never stops growing: after \<open>f\<close> frames of a ring it carries one portion of payload for every pass there ever was. Each frame
  every tater ends its frame once.
\<close>

lemma framed_payload_grows:
  assumes "framed_ring len (t, ts)"
  shows "framed_ring len (after_frames f (t, ts)) \<and> length (snd (after_frames f (t, ts))) = length ts \<and>
    length (fm_payload (ft_msg (fst (after_frames f (t, ts))))) = length (fm_payload (ft_msg t)) + f * (len * (length ts + 1))"
proof (induction f)
  case (Suc f)
  obtain u us where s: "after_frames f (t, ts) = (u, us)" by fastforce
  obtain v vs as where fr: "framed_frame (u, us) = ((v, vs), as)" by (metis prod.exhaust)
  have "after_frames (Suc f) (t, ts) = (v, vs)" using s fr by (simp add: after_frames_def)
  with Suc frame_grows [where len = len, OF _ fr] s show ?case by simp
qed (use assms in \<open>simp add: after_frames_def\<close>)

end
