(* ===== verification/WayPoints.thy ===== *)
theory WayPoints
  imports Coord
begin

text \<open>
  The way points of \<open>src/Models/DIS2\<close>: bearings, great circle distances and destinations on a sphere (\<open>WayPoint.h\<close>), and the path that
  \<open>DIS2\<close> flies (\<open>DIS2.cpp\<close>). Angles are in radians.
\<close>

section \<open>Way points\<close>

definition RE :: real where "RE = 6371"

record WayPoint =
  wp_lon :: real
  wp_lat :: real
  wp_alt :: real
  wp_grnd_spd :: real
  wp_brng :: real
  wp_time :: real
  wp_d2n :: real

definition WayPoint_radians :: "real \<Rightarrow> real \<Rightarrow> WayPoint" where
  "WayPoint_radians lon lat = \<lparr>wp_lon = lon, wp_lat = lat, wp_alt = 0, wp_grnd_spd = 0, wp_brng = 0, wp_time = 0, wp_d2n = 0\<rparr>"

definition WayPoint_degrees :: "real \<Rightarrow> real \<Rightarrow> real \<Rightarrow> real \<Rightarrow> WayPoint" where
  "WayPoint_degrees lon lat alt grnd_spd =
     \<lparr>wp_lon = Radians_of_Degrees lon, wp_lat = Radians_of_Degrees lat, wp_alt = alt, wp_grnd_spd = grnd_spd, wp_brng = 0, wp_time = 0, wp_d2n = 0\<rparr>"

definition WayPoint_bearing :: "WayPoint \<Rightarrow> WayPoint \<Rightarrow> WayPoint" where
  "WayPoint_bearing a2 w =
     (let dLon = wp_lon a2 - wp_lon w;
          y = sin dLon * cos (wp_lat a2);
          x = cos (wp_lat w) * sin (wp_lat a2) - sin (wp_lat w) * cos (wp_lat a2) * cos dLon;
          a = atan2 y x;
          a = (if a < 0 then a + 2 * pi else a)
      in w\<lparr>wp_brng := a\<rparr>)"

definition dist_haversine :: "WayPoint \<Rightarrow> WayPoint \<Rightarrow> real" where
  "dist_haversine to w =
     (let dlon_2 = (wp_lon to - wp_lon w) / 2; dlat_2 = (wp_lat to - wp_lat w) / 2;
          a = sin dlat_2 * sin dlat_2 + cos (wp_lat w) * cos (wp_lat to) * sin dlon_2 * sin dlon_2;
          c = 2 * atan2 (sqrt a) (sqrt (1 - a))
      in RE * c)"

definition WayPoint_distance :: "WayPoint \<Rightarrow> WayPoint \<Rightarrow> WayPoint" where
  "WayPoint_distance a2 w = w\<lparr>wp_d2n := dist_haversine a2 w\<rparr>"

definition destPoint :: "real \<Rightarrow> WayPoint \<Rightarrow> WayPoint" where
  "destPoint d w =
     (let tlat = arcsin (sin (wp_lat w) * cos (d / RE) + cos (wp_lat w) * sin (d / RE) * cos (wp_brng w));
          tlon = wp_lon w + atan2 (sin (wp_brng w) * sin (d / RE) * cos (wp_lat w)) (cos (d / RE) - sin (wp_lat w) * sin tlat);
          tlon = (if tlon < 0 then tlon + 2 * pi else tlon)
      in WayPoint_radians tlat tlon)"

section \<open>Great circles\<close>

text \<open>The cosine of the angle between two points, as seen from the centre.\<close>

definition central_cos :: "WayPoint \<Rightarrow> WayPoint \<Rightarrow> real" where
  "central_cos a b = sin (wp_lat a) * sin (wp_lat b) + cos (wp_lat a) * cos (wp_lat b) * cos (wp_lon b - wp_lon a)"

lemma sin_cos_one: "sin x * sin x + cos x * cos x = (1 :: real)"
  using sin_cos_squared_add [of x] by (simp add: power2_eq_square)

lemma central_square:
  fixes p1 p2 d :: real
  defines "y \<equiv> sin d * cos p2" and "x \<equiv> cos p1 * sin p2 - sin p1 * cos p2 * cos d" and "C \<equiv> sin p1 * sin p2 + cos p1 * cos p2 * cos d"
  shows "x\<^sup>2 + y\<^sup>2 = 1 - C\<^sup>2"
  using sin_cos_one [of p1] sin_cos_one [of p2] sin_cos_one [of d] unfolding assms by algebra

lemma central_bound: "\<bar>central_cos a b\<bar> \<le> 1"
proof -
  let ?d = "wp_lon b - wp_lon a"
  have "0 \<le> 1 - (central_cos a b)\<^sup>2"
    using central_square [of "wp_lat a" "wp_lat b" ?d] unfolding central_cos_def by (metis sum_power2_ge_zero)
  then show ?thesis by (simp add: abs_square_le_1)
qed

lemma haversine_half: "sin (d / 2) * sin (d / 2) = (1 - cos d) / (2 :: real)"
  using cos_double_sin [of "d / 2"] by (simp add: power2_eq_square)

lemma haversine_eq:
  fixes p1 p2 d :: real
  shows "sin ((p2 - p1) / 2) * sin ((p2 - p1) / 2) + cos p1 * cos p2 * sin (d / 2) * sin (d / 2) = (1 - (sin p1 * sin p2 + cos p1 * cos p2 * cos d)) / 2"
proof -
  have "cos p1 * cos p2 * sin (d / 2) * sin (d / 2) = cos p1 * cos p2 * ((1 - cos d) / 2)"
    using haversine_half [of d] by (simp add: mult.assoc)
  then show ?thesis unfolding haversine_half by (simp add: cos_diff field_simps)
qed

lemma half_angle_arccos:
  assumes "\<bar>C\<bar> \<le> 1"
  shows "2 * atan2 (sqrt ((1 - C) / 2)) (sqrt (1 - (1 - C) / 2)) = arccos C"
proof -
  define t where "t = arccos C"
  have t: "0 \<le> t" "t \<le> pi" "cos t = C" using assms by (simp_all add: t_def arccos_lbound arccos_ubound cos_arccos abs_le_iff)
  have "0 \<le> sin (t / 2)" "0 \<le> cos (t / 2)" using t(1,2) by (intro sin_ge_zero cos_ge_zero; simp)+
  moreover have "(sin (t / 2))\<^sup>2 = (1 - C) / 2" "(cos (t / 2))\<^sup>2 = 1 - (1 - C) / 2"
    using haversine_half [of t] sin_cos_one [of "t / 2"] unfolding t(3) power2_eq_square by linarith+
  ultimately have "sqrt ((1 - C) / 2) = sin (t / 2)" "sqrt (1 - (1 - C) / 2) = cos (t / 2)" by (metis real_sqrt_unique)+
  moreover have "atan2 (sin (t / 2)) (cos (t / 2)) = t / 2" using atan2_polar [of 1 "t / 2"] t(1,2) pi_gt_zero by simp
  ultimately show ?thesis by (simp add: t_def)
qed

text \<open>The haversine formula gives the angle between the points as seen from the centre.\<close>

lemma haversine_arccos: "dist_haversine b a = RE * arccos (central_cos a b)"
proof -
  have "sin ((wp_lat b - wp_lat a) / 2) * sin ((wp_lat b - wp_lat a) / 2) +
      cos (wp_lat a) * cos (wp_lat b) * sin ((wp_lon b - wp_lon a) / 2) * sin ((wp_lon b - wp_lon a) / 2) = (1 - central_cos a b) / 2"
    unfolding central_cos_def by (rule haversine_eq)
  then show ?thesis unfolding dist_haversine_def Let_def by (simp only: half_angle_arccos [OF central_bound])
qed


text \<open>The direction in which \<open>b\<close> lies, seen from \<open>a\<close>: east and north components.\<close>

definition east_of :: "WayPoint \<Rightarrow> WayPoint \<Rightarrow> real" where
  "east_of a b = sin (wp_lon b - wp_lon a) * cos (wp_lat b)"

definition north_of :: "WayPoint \<Rightarrow> WayPoint \<Rightarrow> real" where
  "north_of a b = cos (wp_lat a) * sin (wp_lat b) - sin (wp_lat a) * cos (wp_lat b) * cos (wp_lon b - wp_lon a)"

lemma direction_norm: "sqrt ((north_of a b)\<^sup>2 + (east_of a b)\<^sup>2) = sin (arccos (central_cos a b))"
proof -
  have "\<bar>central_cos a b\<bar> \<le> 1" by (rule central_bound)
  then have "sin (arccos (central_cos a b)) = sqrt (1 - (central_cos a b)\<^sup>2)" by (intro sin_arccos) linarith+
  then show ?thesis
    using central_square [of "wp_lat a" "wp_lat b" "wp_lon b - wp_lon a"] by (simp add: north_of_def east_of_def central_cos_def)
qed

definition full_turn :: "real \<Rightarrow> real" where
  "full_turn a = (if a < 0 then a + 2 * pi else a)"

lemma full_turn_periodic [simp]: "sin (full_turn a) = sin a" "cos (full_turn a) = cos a"
  by (simp_all add: full_turn_def)

lemma full_turn_minus: "sin (full_turn (x + y) - x) = sin y" "cos (full_turn (x + y) - x) = cos y"
  using sin_periodic [of y] cos_periodic [of y] by (simp_all add: full_turn_def)

lemma bearing_direction: "WayPoint_bearing b a = a\<lparr>wp_brng := full_turn (atan2 (east_of a b) (north_of a b))\<rparr>"
  by (simp add: WayPoint_bearing_def full_turn_def east_of_def north_of_def Let_def)

lemma destination_fields:
  "wp_lon (destPoint d w) = arcsin (sin (wp_lat w) * cos (d / RE) + cos (wp_lat w) * sin (d / RE) * cos (wp_brng w))"
  "wp_lat (destPoint d w) = full_turn (wp_lon w + atan2 (sin (wp_brng w) * sin (d / RE) * cos (wp_lat w))
     (cos (d / RE) - sin (wp_lat w) * sin (wp_lon (destPoint d w))))"
  by (simp_all add: destPoint_def WayPoint_radians_def full_turn_def Let_def)

lemma direction_components:
  "sin (arccos (central_cos a b)) * sin (atan2 (east_of a b) (north_of a b)) = east_of a b"
  "sin (arccos (central_cos a b)) * cos (atan2 (east_of a b) (north_of a b)) = north_of a b"
  unfolding direction_norm [symmetric] by (rule atan2_components)+

lemma direction_latitude: "sin (wp_lat a) * central_cos a b + cos (wp_lat a) * north_of a b = sin (wp_lat b)"
  unfolding central_cos_def north_of_def using sin_cos_one [of "wp_lat a"] by algebra

lemma RE_pos: "0 < RE" by (simp add: RE_def)

lemma haversine_angle: "dist_haversine b a / RE = arccos (central_cos a b)"
  using RE_pos by (simp add: haversine_arccos)

lemma cos_pos: "\<bar>x\<bar> < pi / 2 \<Longrightarrow> 0 < cos x"
  by (rule cos_gt_zero_pi) linarith+

text \<open>
  C21. Flying from a point in the direction \<open>bearing\<close> gives for another point, over the distance \<open>dist_haversine\<close> gives, \<open>destPoint\<close>
  computes that other point, but hands it over with longitude and latitude exchanged: it calls \<open>WayPoint(Radians(tlat), Radians(tlon))\<close>,
  and the constructor takes the longitude first. (Longitudes at most half a turn apart, no pole, and the longitude given from 0 on.)
\<close>

theorem destination_of_bearing:
  assumes lats: "\<bar>wp_lat a\<bar> < pi / 2" "\<bar>wp_lat b\<bar> < pi / 2" and lons: "- pi < wp_lon b - wp_lon a" "wp_lon b - wp_lon a \<le> pi"
  shows "destPoint (dist_haversine b a) (WayPoint_bearing b a) =
    WayPoint_radians (wp_lat b) (if wp_lon b < 0 then wp_lon b + 2 * pi else wp_lon b)"
proof -
  let ?w = "WayPoint_bearing b a" and ?d = "dist_haversine b a"
  let ?C = "central_cos a b"
  have w: "wp_lat ?w = wp_lat a" "wp_lon ?w = wp_lon a" "wp_brng ?w = full_turn (atan2 (east_of a b) (north_of a b))"
    by (simp_all add: bearing_direction)
  have C: "cos (arccos ?C) = ?C" using central_bound [of a b] by (simp add: abs_le_iff)
  have "sin (wp_lat a) * ?C + cos (wp_lat a) * sin (arccos ?C) * cos (wp_brng ?w) = sin (wp_lat b)"
    using direction_latitude [of a b] direction_components(2) [of a b] by (simp add: w mult.assoc)
  then have lon: "wp_lon (destPoint ?d ?w) = wp_lat b"
    using lats(2) by (simp add: destination_fields(1) w(1) haversine_angle C arcsin_sin)
  have p: "0 < cos (wp_lat a) * cos (wp_lat b)" using lats by (simp add: cos_pos)
  have "atan2 (sin (wp_brng ?w) * sin (arccos ?C) * cos (wp_lat a)) (?C - sin (wp_lat a) * sin (wp_lat b)) =
      atan2 (cos (wp_lat a) * cos (wp_lat b) * sin (wp_lon b - wp_lon a)) (cos (wp_lat a) * cos (wp_lat b) * cos (wp_lon b - wp_lon a))"
    using direction_components(1) [of a b] by (simp add: w mult.commute mult.left_commute east_of_def central_cos_def)
  also have "\<dots> = wp_lon b - wp_lon a" by (rule atan2_polar [OF p lons])
  finally have "wp_lat (destPoint ?d ?w) = full_turn (wp_lon b)"
    by (simp add: destination_fields(2) lon w(1,2) haversine_angle C)
  with lon show ?thesis by (simp add: destPoint_def WayPoint_radians_def Let_def full_turn_def)
qed


theorem destination_of_bearing_witness:
  "let a = WayPoint_radians 0 (pi / 6); b = WayPoint_radians (- (pi / 4)) (- (pi / 3))
   in destPoint (dist_haversine b a) (WayPoint_bearing b a) = WayPoint_radians (- (pi / 3)) (- (pi / 4) + 2 * pi)"
  using destination_of_bearing [of "WayPoint_radians 0 (pi / 6)" "WayPoint_radians (- (pi / 4)) (- (pi / 3))"] pi_gt_zero
  by (simp add: WayPoint_radians_def Let_def)

text \<open>The destination with its two fields read as they were meant.\<close>

definition exchanged :: "WayPoint \<Rightarrow> WayPoint" where
  "exchanged w = w\<lparr>wp_lon := wp_lat w, wp_lat := wp_lon w\<rparr>"

lemma destination_norm:
  fixes p b t :: real
  defines "S \<equiv> sin p * cos t + cos p * sin t * cos b"
  shows "(cos t - sin p * S)\<^sup>2 + (sin b * sin t * cos p)\<^sup>2 = (cos p)\<^sup>2 * (1 - S\<^sup>2)"
    and "1 - S\<^sup>2 = (sin b * sin t)\<^sup>2 + (cos p * cos t - sin p * sin t * cos b)\<^sup>2"
  using sin_cos_one [of p] sin_cos_one [of b] sin_cos_one [of t] unfolding S_def by algebra+

text \<open>Where \<open>destPoint\<close> goes: the components of its direction, with the fields read as they were meant.\<close>

lemma destination_direction:
  fixes d :: real
  defines "r \<equiv> \<lambda>w. exchanged (destPoint d w)"
  assumes "\<bar>wp_lat w\<bar> < pi / 2"
  shows "central_cos w (r w) = cos (d / RE)"
    and "east_of w (r w) = sin (d / RE) * sin (wp_brng w)" "north_of w (r w) = sin (d / RE) * cos (wp_brng w)"
proof -
  let ?p = "wp_lat w" and ?b = "wp_brng w" and ?t = "d / RE"
  define S where "S = sin ?p * cos ?t + cos ?p * sin ?t * cos ?b"
  define N where "N = sin ?b * sin ?t * cos ?p"
  define D where "D = cos ?t - sin ?p * S"
  have p: "0 < cos ?p" by (rule cos_pos) fact
  have n: "D\<^sup>2 + N\<^sup>2 = (cos ?p)\<^sup>2 * (1 - S\<^sup>2)" unfolding D_def N_def S_def by (rule destination_norm(1))
  have s: "0 \<le> 1 - S\<^sup>2" unfolding S_def destination_norm(2) by simp
  then have "\<bar>S\<bar> \<le> 1" by (simp add: abs_square_le_1)
  then have S1: "- 1 \<le> S" "S \<le> 1" by simp_all
  have lat: "wp_lat (r w) = arcsin S" by (simp add: r_def exchanged_def destination_fields(1) S_def)
  have sl: "sin (wp_lat (r w)) = S" and cl: "cos (wp_lat (r w)) = sqrt (1 - S\<^sup>2)" using S1 by (simp_all add: lat cos_arcsin)
  have "wp_lon (r w) = full_turn (wp_lon w + atan2 N D)"
    using sl unfolding r_def exchanged_def by (simp add: destination_fields(2) N_def D_def)
  then have lon: "sin (wp_lon (r w) - wp_lon w) = sin (atan2 N D)" "cos (wp_lon (r w) - wp_lon w) = cos (atan2 N D)"
    by (simp_all only: full_turn_minus)
  have "sqrt (D\<^sup>2 + N\<^sup>2) = cos ?p * sqrt (1 - S\<^sup>2)" using p by (simp add: n real_sqrt_mult)
  with atan2_components [where x = D and y = N]
  have c: "cos ?p * (cos (wp_lat (r w)) * cos (wp_lon (r w) - wp_lon w)) = D" "cos ?p * (cos (wp_lat (r w)) * sin (wp_lon (r w) - wp_lon w)) = N"
    by (simp_all add: cl lon mult.assoc)
  show "central_cos w (r w) = cos ?t" using c(1) by (simp add: central_cos_def sl D_def mult.assoc)
  have "cos ?p * east_of w (r w) = cos ?p * (sin ?t * sin ?b)" using c(2) by (simp add: east_of_def N_def mult_ac)
  then show "east_of w (r w) = sin ?t * sin ?b" using p by simp
  have "cos ?p * north_of w (r w) = cos ?p * cos ?p * S - sin ?p * D"
    unfolding north_of_def sl c(1) [symmetric] by (simp add: algebra_simps)
  also have "\<dots> = cos ?p * (sin ?t * cos ?b)" unfolding D_def S_def using sin_cos_one [of ?p] by algebra
  finally show "north_of w (r w) = sin ?t * cos ?b" using p by simp
qed

text \<open>
  Read with its two fields exchanged, the destination is where it was asked for: from the start, it lies at the given distance and
  in the direction of the start's bearing (up to half way round the earth, from a start that is not a pole).
\<close>

lemma destination_where_asked:
  assumes "\<bar>wp_lat w\<bar> < pi / 2" "0 < d" "d < pi * RE" "0 \<le> wp_brng w" "wp_brng w < 2 * pi"
  shows "dist_haversine (exchanged (destPoint d w)) w = d \<and> WayPoint_bearing (exchanged (destPoint d w)) w = w"
proof
  let ?r = "exchanged (destPoint d w)" and ?t = "d / RE"
  note dir = destination_direction [OF assms(1), of d]
  have t: "0 < ?t" "?t < pi" using assms(2,3) RE_pos by (simp_all add: divide_less_eq)
  have "arccos (cos ?t) = ?t" using t by (intro arccos_cos) simp_all
  then show "dist_haversine ?r w = d" using RE_pos by (simp add: haversine_arccos dir(1))
  have s: "0 < sin ?t" using t by (rule sin_gt_zero)
  have "full_turn (atan2 (sin ?t * sin (wp_brng w)) (sin ?t * cos (wp_brng w))) = wp_brng w"
  proof (cases "wp_brng w \<le> pi")
    case True
    then show ?thesis using atan2_polar [OF s, of "wp_brng w"] assms(4) pi_gt_zero by (simp add: full_turn_def)
  next
    case False
    have "atan2 (sin ?t * sin (wp_brng w - 2 * pi)) (sin ?t * cos (wp_brng w - 2 * pi)) = wp_brng w - 2 * pi"
      using False assms(5) pi_gt_zero by (intro atan2_polar s) linarith+
    moreover have "sin (wp_brng w - 2 * pi) = sin (wp_brng w)" "cos (wp_brng w - 2 * pi) = cos (wp_brng w)"
      using sin_periodic [of "wp_brng w - 2 * pi"] cos_periodic [of "wp_brng w - 2 * pi"] by simp_all
    ultimately show ?thesis using assms(5) by (simp add: full_turn_def)
  qed
  then show "WayPoint_bearing ?r w = w" by (simp add: bearing_direction dir)
qed


lemma destination_where_asked_witness:
  "let w = (WayPoint_radians 1 (pi / 6))\<lparr>wp_brng := 3 * pi / 2\<rparr>
   in dist_haversine (exchanged (destPoint 100 w)) w = 100 \<and> WayPoint_bearing (exchanged (destPoint 100 w)) w = w"
  using destination_where_asked [of "(WayPoint_radians 1 (pi / 6))\<lparr>wp_brng := 3 * pi / 2\<rparr>" 100] pi_ge_two
  by (simp add: WayPoint_radians_def RE_def)

text \<open>The destination as it is handed over is another point: it is not at the distance asked for.\<close>

lemma destination_off:
  "\<exists>w d. \<bar>wp_lat w\<bar> < pi / 2 \<and> 0 < d \<and> d < pi * RE \<and> dist_haversine (destPoint d w) w \<noteq> d"
proof (intro exI conjI)
  let ?w = "WayPoint_radians (pi / 2) 0" and ?d = "RE * (pi / 6)"
  let ?t = "destPoint ?d ?w"
  have dr: "?d / RE = pi / 6" using RE_pos by simp
  have w: "wp_lat ?w = 0" "wp_lon ?w = pi / 2" "wp_brng ?w = 0" by (simp_all add: WayPoint_radians_def)
  have "arcsin (sin (pi / 6)) = pi / 6" by (intro arcsin_sin) (simp_all add: pi_ge_zero)
  then have lon: "wp_lon ?t = pi / 6" by (simp only: destination_fields(1) w dr) simp
  have "atan2 0 (cos (pi / 6)) = 0" by (simp add: atan2_def cos_30)
  then have lat: "wp_lat ?t = pi / 2" by (simp only: destination_fields(2) lon w dr) (simp add: full_turn_def)
  have "central_cos ?w ?t = 0" unfolding central_cos_def lon lat w by simp
  then have "dist_haversine ?t ?w = RE * (pi / 2)" by (simp add: haversine_arccos)
  moreover have "?d < RE * (pi / 2)" using RE_pos by simp
  ultimately show "dist_haversine ?t ?w \<noteq> ?d" by linarith
  show "\<bar>wp_lat ?w\<bar> < pi / 2" "0 < ?d" "?d < pi * RE" using RE_pos by (simp_all add: w(1))
qed


section \<open>The path\<close>

text \<open>One round of the loop in \<open>DIS2::init\<close>: the leg that ends in way point \<open>i\<close>.\<close>

definition path_leg :: "nat \<Rightarrow> real \<times> WayPoint list \<Rightarrow> real \<times> WayPoint list" where
  "path_leg i = (\<lambda>(t, path).
     let (t, path) =
       (if i > 0
        then let w = WayPoint_distance (path ! i) (WayPoint_bearing (path ! i) (path ! (i - 1)))
             in (t + wp_d2n w / wp_grnd_spd w, path[i - 1 := w])
        else (t, path))
     in (t, path[i := (path ! i)\<lparr>wp_time := t\<rparr>]))"

definition path_init :: "WayPoint list \<Rightarrow> WayPoint list" where
  "path_init path = snd (fold path_leg [0 ..< length path] (0, path))"

text \<open>The path that is built in.\<close>

definition DIS2_path :: "WayPoint list" where
  "DIS2_path = [
     WayPoint_degrees 56.38713562943536 27.23195345932947 10 0.16667,
     WayPoint_degrees 56.37965389362012 27.21924894440819 50 0.16667,
     WayPoint_degrees 56.37113126376319 27.20477911580908 500 0.16667,
     WayPoint_degrees 56.40292779638973 27.16543775199442 1500 0.16667,
     WayPoint_degrees 56.68612814512881 26.73759747842227 5000 0.16667,
     WayPoint_degrees 57.41375057424977 25.74836125027824 10000 0.16667,
     WayPoint_degrees 58.19272562186809 25.03192293995436 10000 0.16667,
     WayPoint_degrees 57.70596663788606 24.68353392681291 10000 0.16667,
     WayPoint_degrees 56.66671006404006 25.45420037689536 10000 0.16667,
     WayPoint_degrees 56.44261895119726 26.60849079785284 10000 0.16667,
     WayPoint_degrees 53.75778272995753 25.17274005360037 10000 0.16667,
     WayPoint_degrees 53.72698475773784 26.08293536054368 10000 0.16667,
     WayPoint_degrees 54.93056643433106 26.01405473367423 10000 0.16667,
     WayPoint_degrees 55.32002455539371 26.36978546259198 10000 0.16667,
     WayPoint_degrees 55.85831951738142 26.55061361451593 5000 0.16667,
     WayPoint_degrees 56.37638304701274 27.25529998625124 1000 0.16667,
     WayPoint_degrees 56.39486033164841 27.25981463870624 500 0.16667,
     WayPoint_degrees 56.39343920597472 27.24280997934855 300 0.16667,
     WayPoint_degrees 56.38671356350633 27.23138527851264 10 0.16667]"

text \<open>\<open>MonteCarlo_Step\<close> sends the way point the static index is at, and moves the index on.\<close>

definition path_step :: "WayPoint list \<Rightarrow> nat \<Rightarrow> WayPoint \<times> nat" where
  "path_step path i = (path ! i, (i + 1) mod length path)"

fun path_steps :: "WayPoint list \<Rightarrow> nat \<Rightarrow> nat \<Rightarrow> WayPoint list" where
  "path_steps path 0 i = []"
| "path_steps path (Suc k) i = (let (w, j) = path_step path i in w # path_steps path k j)"

text \<open>The time of arrival at way point \<open>i\<close>.\<close>

definition arrival :: "WayPoint list \<Rightarrow> nat \<Rightarrow> real" where
  "arrival path i = (\<Sum>j < i. dist_haversine (path ! Suc j) (path ! j) / wp_grnd_spd (path ! j))"

definition on_path :: "WayPoint list \<Rightarrow> nat \<Rightarrow> nat \<Rightarrow> WayPoint" where
  "on_path path n i =
     (if i < n then (let w = (path ! i)\<lparr>wp_time := arrival path i\<rparr>
                     in if Suc i < n then WayPoint_distance (path ! Suc i) (WayPoint_bearing (path ! Suc i) w) else w)
      else path ! i)"

lemma on_path_place: "wp_lon (on_path path n i) = wp_lon (path ! i)" "wp_lat (on_path path n i) = wp_lat (path ! i)"
    "wp_grnd_spd (on_path path n i) = wp_grnd_spd (path ! i)"
  by (simp_all add: on_path_def WayPoint_distance_def bearing_direction Let_def)

lemma path_loop:
  "n \<le> length path \<Longrightarrow> fold path_leg [0 ..< n] (0, path) = (arrival path (n - 1), map (on_path path n) [0 ..< length path])"
proof (induction n)
  case 0
  have "map (on_path path 0) [0 ..< length path] = path" by (rule nth_equalityI) (simp_all add: on_path_def)
  then show ?case by (simp add: arrival_def)
next
  case (Suc n)
  let ?q = "map (on_path path n) [0 ..< length path]"
  have IH: "fold path_leg [0 ..< n] (0, path) = (arrival path (n - 1), ?q)" using Suc by simp
  have n: "n < length path" using Suc.prems by simp
  have q: "?q ! n = path ! n" using n by (simp add: on_path_def)
  show ?case
  proof (cases n)
    case 0
    have "path_leg 0 (0, path) = (0, path[0 := (path ! 0)\<lparr>wp_time := 0\<rparr>])" by (simp add: path_leg_def)
    moreover have "path[0 := (path ! 0)\<lparr>wp_time := 0\<rparr>] = map (on_path path 1) [0 ..< length path]"
      using n 0 by (intro nth_equalityI) (simp_all add: on_path_def arrival_def nth_list_update)
    ultimately show ?thesis by (simp add: 0 arrival_def)
  next
    case (Suc m)
    let ?w = "WayPoint_distance (path ! n) (WayPoint_bearing (path ! n) (?q ! m))"
    have qm: "?q ! m = (path ! m)\<lparr>wp_time := arrival path m\<rparr>" using n Suc by (simp add: on_path_def)
    have d: "wp_d2n ?w = dist_haversine (path ! n) (path ! m)" "wp_grnd_spd ?w = wp_grnd_spd (path ! m)"
      by (simp_all add: qm WayPoint_distance_def bearing_direction dist_haversine_def)
    have t: "arrival path m + wp_d2n ?w / wp_grnd_spd ?w = arrival path n" unfolding d by (simp add: arrival_def Suc)
    have "path_leg n (arrival path m, ?q) = (arrival path n, ?q[m := ?w, n := (path ! n)\<lparr>wp_time := arrival path n\<rparr>])"
      using t q Suc n by (simp add: path_leg_def Let_def nth_list_update del: nth_map)
    moreover have "?q[m := ?w, n := (path ! n)\<lparr>wp_time := arrival path n\<rparr>] = map (on_path path (Suc n)) [0 ..< length path]"
      using n Suc qm by (intro nth_equalityI) (auto simp: nth_list_update on_path_def Let_def less_Suc_eq)
    ultimately show ?thesis using IH Suc by simp
  qed
qed


lemma haversine_nonneg: "0 \<le> dist_haversine b a"
  using RE_pos central_bound [of a b] by (simp add: haversine_arccos arccos_lbound abs_le_iff)

lemma path_fields:
  assumes "i < length path"
  shows "path_init path ! i = on_path path (length path) i"
  using assms by (simp add: path_init_def path_loop)

text \<open>
  The path as \<open>DIS2::init\<close> prepares it: every way point keeps its place, knows the time of arrival when each leg is flown with the
  ground speed of its start, and, but for the last one, the distance and bearing to the next; for positive speeds the times
  do not decrease. The model then sends the way points one per step, over and over.
\<close>

lemma path_prepared:
  assumes "i < length path"
  shows "let w = path_init path ! i in
      wp_lon w = wp_lon (path ! i) \<and> wp_lat w = wp_lat (path ! i) \<and> wp_time w = (\<Sum>j < i. wp_d2n (path_init path ! j) / wp_grnd_spd (path ! j)) \<and>
      (Suc i < length path \<longrightarrow> wp_d2n w = dist_haversine (path ! Suc i) (path ! i) \<and> wp_brng w = wp_brng (WayPoint_bearing (path ! Suc i) (path ! i)) \<and>
        (0 < wp_grnd_spd (path ! i) \<longrightarrow> wp_time w \<le> wp_time (path_init path ! Suc i))) \<and>
      path_steps path (Suc k) 0 ! k = path ! (k mod length path)"
proof -
  let ?n = "length path"
  have d: "wp_d2n (path_init path ! j) = dist_haversine (path ! Suc j) (path ! j)" if "Suc j < ?n" for j
    using that by (simp add: path_fields on_path_def WayPoint_distance_def bearing_direction dist_haversine_def Let_def)
  have t: "wp_time (path_init path ! j) = arrival path j" if "j < ?n" for j
    using that by (simp add: path_fields on_path_def WayPoint_distance_def bearing_direction Let_def)
  have "arrival path i = (\<Sum>j < i. wp_d2n (path_init path ! j) / wp_grnd_spd (path ! j))"
    using assms unfolding arrival_def by (intro sum.cong) (simp_all add: d)
  moreover have "wp_brng (path_init path ! i) = wp_brng (WayPoint_bearing (path ! Suc i) (path ! i))" if "Suc i < ?n"
    using that by (simp add: path_fields on_path_def WayPoint_distance_def bearing_direction east_of_def north_of_def Let_def)
  moreover have "arrival path i \<le> arrival path (Suc i)" if "0 < wp_grnd_spd (path ! i)"
    using that haversine_nonneg by (simp add: arrival_def)
  moreover have "path_steps path (Suc m) j ! m = path ! ((j + m) mod ?n)" if "j < ?n" for j m
    using that
  proof (induction m arbitrary: j)
    case 0
    then show ?case by (simp add: path_step_def)
  next
    case (Suc m)
    have "(j + 1) mod ?n < ?n" using Suc.prems by (intro mod_less_divisor) linarith
    from Suc.IH [OF this] show ?case by (simp add: path_step_def mod_add_left_eq Let_def)
  qed
  from this [of 0 k] have "path_steps path (Suc k) 0 ! k = path ! (k mod ?n)"
    using assms by (simp del: path_steps.simps length_greater_0_conv)
  ultimately show ?thesis using assms d t on_path_place [of path ?n i] by (simp add: path_fields [OF assms, symmetric] Let_def del: path_steps.simps)
qed

lemma path_prepared_witness:
  "let path = [WayPoint_degrees 56 27 10 1, WayPoint_degrees 57 26 50 2]
   in wp_time (path_init path ! 1) = wp_d2n (path_init path ! 0) \<and> path_steps path 4 0 ! 3 = path ! 1"
proof -
  define path where "path = [WayPoint_degrees 56 27 10 1, WayPoint_degrees 57 26 50 2]"
  have "length path = 2" "wp_grnd_spd (path ! 0) = 1" by (simp_all add: path_def WayPoint_degrees_def)
  with path_prepared [of 1 path 3] have "wp_time (path_init path ! 1) = wp_d2n (path_init path ! 0) \<and> path_steps path 4 0 ! 3 = path ! 1"
    by (simp add: Let_def del: path_steps.simps)
  then show ?thesis unfolding Let_def path_def .
qed

end
