(* ===== verification/DisPdu.thy ===== *)
theory DisPdu
  imports WayPoints
begin

text \<open>
  The entity state datagrams of \<open>DIS\<close> and \<open>DIS2\<close> (\<open>pdu_packed.h\<close>, \<open>DIS.cpp\<close>, \<open>DIS2.cpp\<close>). A PDU is an array of 1500 bytes; its
  members are windows into that array, laid out in the order of their declarations, and an assignment to a member writes the bytes of the
  value in network order. The bytes of floating point numbers are a parameter \<open>fl\<close> (width in bytes, number, host order), and so are
  the contents of the array before the first assignment, which nothing initialises.

  The members keep pointers into the array of their own object, and \<open>initEntityStatePDU\<close> returns the object by value. The model builds it
  in place: it assumes that the compiler elides that copy (which the standard allows for a named local, and does not require). A copied
  object would have members that write into the array of the local object, which no longer exists.
\<close>

section \<open>Windows\<close>

text \<open>\<open>Packed::Type\<close>: each constructor takes the place where the previous one ended.\<close>

fun Type_place :: "nat \<Rightarrow> ('f \<times> nat) list \<Rightarrow> 'f \<Rightarrow> (nat \<times> nat) option" where
  "Type_place offset [] f = None"
| "Type_place offset ((g, n) # fs) f = (if f = g then Some (offset, n) else Type_place (offset + n) fs f)"

text \<open>The host keeps the least significant byte first, so that \<open>std::reverse_copy\<close> gives network order.\<close>

definition host_bytes :: "nat \<Rightarrow> int \<Rightarrow> u8 list" where
  "host_bytes n v = map (\<lambda>i. of_int (v div 256 ^ i)) [0 ..< n]"

definition host_value :: "u8 list \<Rightarrow> int" where
  "host_value bs = foldr (\<lambda>b v. uint b + 256 * v) bs 0"

definition Type_assign :: "nat \<Rightarrow> u8 list \<Rightarrow> u8 list \<Rightarrow> u8 list" where
  "Type_assign ptr c data = take ptr data @ rev c @ drop (ptr + length c) data"

definition Type_read :: "nat \<Rightarrow> nat \<Rightarrow> u8 list \<Rightarrow> u8 list" where
  "Type_read ptr n data = rev (take n (drop ptr data))"

lemma host_bytes_Suc: "host_bytes (Suc n) v = of_int v # host_bytes n (v div 256)"
  by (simp add: host_bytes_def upt_conv_Cons map_Suc_upt [symmetric] zdiv_zmult2_eq [symmetric] o_def mult.commute del: upt_Suc)

lemma host_bytes_length [simp]: "length (host_bytes n v) = n"
  by (simp add: host_bytes_def)

lemma host_value_bytes: "host_value (host_bytes n v) = v mod 256 ^ n"
proof (induction n arbitrary: v)
  case 0
  show ?case by (simp add: host_bytes_def host_value_def)
next
  case (Suc n)
  have "host_value (host_bytes (Suc n) v) = v mod 256 + 256 * (v div 256 mod 256 ^ n)"
    using Suc [of "v div 256"] by (simp add: host_bytes_Suc host_value_def uint_word_of_int_eq take_bit_eq_mod)
  also have "\<dots> = v mod 256 ^ Suc n" by (simp add: mod_mult2_eq' zmod_zmult2_eq)
  finally show ?case .
qed

lemma place_bounds: "Type_place k fs f = Some (p, n) \<Longrightarrow> k \<le> p \<and> p + n \<le> k + sum_list (map snd fs)"
  by (induction k fs f rule: Type_place.induct) (auto split: if_splits)

lemma place_disjoint:
  "Type_place k fs f = Some (p, n) \<Longrightarrow> Type_place k fs g = Some (q, m) \<Longrightarrow> f \<noteq> g \<Longrightarrow> p + n \<le> q \<or> q + m \<le> p"
  by (induction k fs f rule: Type_place.induct) (auto split: if_splits dest: place_bounds)

lemma assign_length [simp]: "ptr + length c \<le> length data \<Longrightarrow> length (Type_assign ptr c data) = length data"
  by (simp add: Type_assign_def)

lemma read_assign: "ptr + length c \<le> length data \<Longrightarrow> Type_read ptr (length c) (Type_assign ptr c data) = c"
  by (simp add: Type_assign_def Type_read_def)

lemma read_other:
  assumes "p + length c \<le> length data" "p + length c \<le> q \<or> q + m \<le> p"
  shows "Type_read q m (Type_assign p c data) = Type_read q m data"
proof -
  have "take m (drop q (Type_assign p c data)) = take m (drop q data)"
    using assms by (intro nth_equalityI) (auto simp: Type_assign_def nth_append)
  then show ?thesis by (simp add: Type_read_def)
qed

section \<open>Entity state PDU\<close>

datatype DisEnumType = Kind | Domain | Country | Category | Subcategory | Specific | Extra
datatype ArtParam = Type_designator | Change | ID_attached_to | Parameter_type | Parameter_value

datatype EntityStatePDU =
    Protocol_version | Exercise_id | Pdu_type | Protocol_family | Time_stamp | Pdu_length | Padding
  | Site | Application | Entity | Force_id | Num_articulation_params
  | Entity_type DisEnumType | Alt_entity_type DisEnumType
  | Velocity nat | Location nat | Orientation nat
  | Entity_appearance | Dead_reckoning_algorithm | Dead_reckoning_params nat | Acceleration nat | Angular_velocity nat
  | Character_set | Entity_marking nat | Capabilities | Articulation_parameter nat ArtParam

definition array_of :: "nat \<Rightarrow> nat \<Rightarrow> (nat \<Rightarrow> 'f) \<Rightarrow> ('f \<times> nat) list" where
  "array_of k n f = map (\<lambda>i. (f i, n)) [0 ..< k]"

definition enum_type :: "(DisEnumType \<Rightarrow> 'f) \<Rightarrow> ('f \<times> nat) list" where
  "enum_type f = [(f Kind, 1), (f Domain, 1), (f Country, 2), (f Category, 1), (f Subcategory, 1), (f Specific, 1), (f Extra, 1)]"

text \<open>The members in the order of their declarations, with their widths: those of \<open>PDU\<close> first.\<close>

definition PDU_header :: "(EntityStatePDU \<times> nat) list" where
  "PDU_header = [(Protocol_version, 1), (Exercise_id, 1), (Pdu_type, 1), (Protocol_family, 1), (Time_stamp, 4), (Pdu_length, 2), (Padding, 2)]"

definition ES_fixed :: "(EntityStatePDU \<times> nat) list" where
  "ES_fixed = PDU_header @ [(Site, 2), (Application, 2), (Entity, 2), (Force_id, 1), (Num_articulation_params, 1)] @
     enum_type Entity_type @ enum_type Alt_entity_type @ array_of 3 4 Velocity @ array_of 3 8 Location @ array_of 3 4 Orientation @
     [(Entity_appearance, 4), (Dead_reckoning_algorithm, 1)] @ array_of 15 1 Dead_reckoning_params @ array_of 3 4 Acceleration @
     array_of 3 4 Angular_velocity @ [(Character_set, 1)] @ array_of 11 1 Entity_marking @ [(Capabilities, 4)]"

definition ES_articulation :: "(EntityStatePDU \<times> nat) list" where
  "ES_articulation = concat (map (\<lambda>i. [(Articulation_parameter i Type_designator, 1), (Articulation_parameter i Change, 1),
     (Articulation_parameter i ID_attached_to, 2), (Articulation_parameter i Parameter_type, 4), (Articulation_parameter i Parameter_value, 8)]) [0 ..< 78])"

definition ES_place :: "EntityStatePDU \<Rightarrow> (nat \<times> nat) option" where
  "ES_place = Type_place 0 (ES_fixed @ ES_articulation)"

definition ES_assign :: "EntityStatePDU \<Rightarrow> u8 list \<Rightarrow> u8 list \<Rightarrow> u8 list" where
  "ES_assign f c data = (case ES_place f of Some (ptr, n) \<Rightarrow> Type_assign ptr c data | None \<Rightarrow> data)"

definition ES_put :: "EntityStatePDU \<Rightarrow> int \<Rightarrow> u8 list \<Rightarrow> u8 list" where
  "ES_put f v data = (case ES_place f of Some (ptr, n) \<Rightarrow> Type_assign ptr (host_bytes n v) data | None \<Rightarrow> data)"

definition ES_read :: "EntityStatePDU \<Rightarrow> u8 list \<Rightarrow> u8 list" where
  "ES_read f data = (case ES_place f of Some (ptr, n) \<Rightarrow> Type_read ptr n data | None \<Rightarrow> [])"

definition ES_get :: "EntityStatePDU \<Rightarrow> u8 list \<Rightarrow> int" where
  "ES_get f data = host_value (ES_read f data)"

text \<open>\<open>begin\<close> to \<open>end\<close>: what is sent.\<close>

definition ES_size :: "u8 list \<Rightarrow> nat" where
  "ES_size data = 144 + nat (ES_get Num_articulation_params data) * 16"

definition ES_construct :: "u8 list \<Rightarrow> u8 list" where
  "ES_construct data = ES_put Num_articulation_params 0 (ES_put Pdu_type 1 data)"

lemma place_append: "Type_place k xs f = Some p \<Longrightarrow> Type_place k (xs @ ys) f = Some p"
  by (induction k xs f rule: Type_place.induct) (auto split: if_splits)

lemma ES_place_fixed: "Type_place 0 ES_fixed f = Some p \<Longrightarrow> ES_place f = Some p"
  by (simp add: ES_place_def place_append)

lemmas layout_defs = ES_fixed_def PDU_header_def enum_type_def array_of_def upt_rec

text \<open>Where the DIS standard has the members of the fixed part.\<close>

lemma ES_places [simp]:
  "ES_place Protocol_version = Some (0, 1)" "ES_place Exercise_id = Some (1, 1)" "ES_place Pdu_type = Some (2, 1)"
  "ES_place Protocol_family = Some (3, 1)" "ES_place Time_stamp = Some (4, 4)" "ES_place Pdu_length = Some (8, 2)"
  "ES_place Padding = Some (10, 2)" "ES_place Site = Some (12, 2)" "ES_place Application = Some (14, 2)" "ES_place Entity = Some (16, 2)"
  "ES_place Force_id = Some (18, 1)" "ES_place Num_articulation_params = Some (19, 1)"
  "ES_place (Entity_type e) = Some (20 + (case e of Kind \<Rightarrow> 0 | Domain \<Rightarrow> 1 | Country \<Rightarrow> 2 | Category \<Rightarrow> 4 | Subcategory \<Rightarrow> 5 | Specific \<Rightarrow> 6 | Extra \<Rightarrow> 7), case e of Country \<Rightarrow> 2 | _ \<Rightarrow> 1)"
  "ES_place (Alt_entity_type e) = Some (28 + (case e of Kind \<Rightarrow> 0 | Domain \<Rightarrow> 1 | Country \<Rightarrow> 2 | Category \<Rightarrow> 4 | Subcategory \<Rightarrow> 5 | Specific \<Rightarrow> 6 | Extra \<Rightarrow> 7), case e of Country \<Rightarrow> 2 | _ \<Rightarrow> 1)"
  "ES_place Entity_appearance = Some (84, 4)" "ES_place Dead_reckoning_algorithm = Some (88, 1)"
  "ES_place Character_set = Some (128, 1)" "ES_place Capabilities = Some (140, 4)"
  by (intro ES_place_fixed; cases e; simp add: layout_defs)+

lemma ES_arrays [simp]:
  "i < 3 \<Longrightarrow> ES_place (Velocity i) = Some (36 + 4 * i, 4)" "i < 3 \<Longrightarrow> ES_place (Location i) = Some (48 + 8 * i, 8)"
  "i < 3 \<Longrightarrow> ES_place (Orientation i) = Some (72 + 4 * i, 4)" "i < 11 \<Longrightarrow> ES_place (Entity_marking i) = Some (129 + i, 1)"
  by (intro ES_place_fixed; auto simp: layout_defs less_Suc_eq numeral_eq_Suc)+

lemma ES_inside: "ES_place f = Some (p, n) \<Longrightarrow> p + n \<le> 1392"
proof -
  assume f: "ES_place f = Some (p, n)"
  have "sum_list (map snd (concat (map (\<lambda>i. [(Articulation_parameter i Type_designator, 1), (Articulation_parameter i Change, 1),
      (Articulation_parameter i ID_attached_to, 2), (Articulation_parameter i Parameter_type, 4), (Articulation_parameter i Parameter_value, 8)]) xs)))
      = 16 * length xs" for xs by (induction xs) simp_all
  then have "sum_list (map snd ES_articulation) = 1248" by (simp add: ES_articulation_def del: upt_Suc)
  moreover have "sum_list (map snd ES_fixed) = 144" by (simp add: layout_defs)
  moreover have "p + n \<le> sum_list (map snd ES_fixed) + sum_list (map snd ES_articulation)"
    using place_bounds [OF f [unfolded ES_place_def]] by simp
  ultimately show ?thesis by simp
qed

definition place_width :: "EntityStatePDU \<Rightarrow> nat" where
  "place_width f = (case ES_place f of Some (ptr, n) \<Rightarrow> n | None \<Rightarrow> 0)"

lemma assign_lookup:
  assumes "length data = 1500" "length c = place_width f"
  shows "ES_read g (ES_assign f c data) = (if g = f then c else ES_read g data)" "length (ES_assign f c data) = 1500"
proof -
  have "ES_read g (ES_assign f c data) = (if g = f then c else ES_read g data) \<and> length (ES_assign f c data) = 1500"
  proof (cases "ES_place f")
    case None
    then show ?thesis using assms by (simp add: ES_assign_def ES_read_def place_width_def)
  next
    case (Some a)
    then obtain p n where f: "ES_place f = Some (p, n)" by (cases a) simp
    have n: "length c = n" "p + length c \<le> length data" using assms ES_inside [OF f] by (simp_all add: place_width_def f)
    have "Type_read q m (Type_assign p c data) = Type_read q m data" if "ES_place g = Some (q, m)" "g \<noteq> f" for q m
      using place_disjoint [OF f [unfolded ES_place_def] that(1) [unfolded ES_place_def]] that(2) n by (intro read_other) auto
    then show ?thesis using n assms(1) read_assign [OF n(2)] by (auto simp: ES_assign_def ES_read_def f split: option.split)
  qed
  then show "ES_read g (ES_assign f c data) = (if g = f then c else ES_read g data)" "length (ES_assign f c data) = 1500" by simp_all
qed

lemma put_assign: "ES_put f v data = ES_assign f (host_bytes (place_width f) v) data"
  by (simp add: ES_put_def ES_assign_def place_width_def split: option.split)

lemma put_lookup [simp]:
  assumes "length data = 1500"
  shows "ES_get g (ES_put f v data) = (if g = f then v mod 256 ^ place_width f else ES_get g data)"
    "ES_read g (ES_put f v data) = (if g = f then host_bytes (place_width f) v else ES_read g data)" "length (ES_put f v data) = 1500"
  using assign_lookup [OF assms, of "host_bytes (place_width f) v" f] by (simp_all add: put_assign ES_get_def host_value_bytes)

section \<open>The datagrams\<close>

fun ES_puts :: "(EntityStatePDU \<times> int) list \<Rightarrow> u8 list \<Rightarrow> u8 list" where
  "ES_puts [] data = data"
| "ES_puts ((f, v) # fs) data = ES_puts fs (ES_put f v data)"

text \<open>\<open>initEntityStatePDU\<close> of \<open>DIS2.cpp\<close>; that of \<open>DIS.cpp\<close> has another exercise, domain and country.\<close>

definition init_entity_state :: "int \<Rightarrow> int \<Rightarrow> int \<Rightarrow> u8 list \<Rightarrow> u8 list" where
  "init_entity_state exercise domain country data =
     (let es = ES_construct data;
          es = ES_puts [(Protocol_version, 4), (Exercise_id, exercise), (Pdu_type, 1), (Protocol_family, 1), (Time_stamp, 1234)] es;
          es = ES_puts [(Pdu_length, int (ES_size es)), (Padding, 0), (Site, 61), (Application, 39), (Entity, 1005), (Force_id, 1),
             (Num_articulation_params, 0), (Entity_type Kind, 2), (Entity_type Domain, domain), (Entity_type Country, country),
             (Entity_type Category, 1), (Entity_type Subcategory, 6), (Entity_type Specific, 1), (Entity_type Extra, 1)] es
      in fold (\<lambda>e es. ES_put (Alt_entity_type e) (ES_get (Entity_type e) es) es) [Kind, Domain, Country, Category, Subcategory, Specific, Extra] es)"

definition DIS2_initEntityStatePDU :: "u8 list \<Rightarrow> u8 list" where
  "DIS2_initEntityStatePDU = init_entity_state 20 1 255"

definition DIS_initEntityStatePDU :: "u8 list \<Rightarrow> u8 list" where
  "DIS_initEntityStatePDU = init_entity_state 12 2 225"

definition entity_number :: "int \<Rightarrow> int \<Rightarrow> int" where
  "entity_number unitID modelID = (push_bit 8 unitID OR modelID)"

definition marking :: "int list" where
  "marking = [84, 97, 114, 103, 101, 116, 0, 0, 0, 0, 0]"

definition put_three :: "(nat \<Rightarrow> EntityStatePDU) \<Rightarrow> (real \<Rightarrow> u8 list) \<Rightarrow> real \<times> real \<times> real \<Rightarrow> u8 list \<Rightarrow> u8 list" where
  "put_three f enc = (\<lambda>(x, y, z) es. ES_assign (f 2) (enc z) (ES_assign (f 1) (enc y) (ES_assign (f 0) (enc x) es)))"

text \<open>The assignments that both \<open>processToDIS\<close> make.\<close>

definition fill_entity_state :: "(nat \<Rightarrow> real \<Rightarrow> u8 list) \<Rightarrow> int \<Rightarrow> int \<Rightarrow> bool \<Rightarrow> real \<times> real \<times> real \<Rightarrow> real \<times> real \<times> real \<Rightarrow> u8 list \<Rightarrow> u8 list" where
  "fill_entity_state fl unitID modelID friendly location orientation es =
     (let es = ES_put Force_id (if friendly then 1 else 2) es;
          es = ES_put Entity (entity_number unitID modelID) es;
          es = put_three Velocity (fl 4) (0, 0, 0) es;
          es = put_three Location (fl 8) location es;
          es = put_three Orientation (fl 4) orientation es
      in ES_puts ([(Dead_reckoning_algorithm, 1), (Character_set, 1)] @ map (\<lambda>i. (Entity_marking i, marking ! i)) [0 ..< 11] @ [(Capabilities, 0)]) es)"

definition lat_origin :: real where "lat_origin = Radians_of_Degrees 27.16861"
definition lon_origin :: real where "lon_origin = Radians_of_Degrees 56.17484"

definition DIS2_processToDIS :: "(nat \<Rightarrow> real \<Rightarrow> u8 list) \<Rightarrow> int \<Rightarrow> int \<Rightarrow> WayPoint \<Rightarrow> bool \<Rightarrow> u8 list \<Rightarrow> u8 list \<times> u8 list" where
  "DIS2_processToDIS fl unitID modelID point friendly es =
     (let es = fill_entity_state fl unitID modelID friendly (lat_lon_alt_to_gcc (wp_lat point) (wp_lon point) (wp_alt point))
          (lat_lon_hpr_to_psi_theta_phi lat_origin lon_origin (Radians_of_Degrees 0) (Radians_of_Degrees 0) (Radians_of_Degrees 0)) es
      in (es, take (ES_size es) es))"

definition DIS_processToDIS :: "(nat \<Rightarrow> real \<Rightarrow> u8 list) \<Rightarrow> int \<Rightarrow> int \<Rightarrow> real \<times> real \<times> real \<Rightarrow> real \<times> real \<times> real \<Rightarrow> bool \<Rightarrow> u8 list \<Rightarrow> u8 list \<times> u8 list" where
  "DIS_processToDIS fl unitID modelID = (\<lambda>(N, E, D) (Y, P, R) friendly es.
     let es = fill_entity_state fl unitID modelID friendly (to_gcc (LCS lat_origin lon_origin) (N, E, D))
          (lat_lon_hpr_to_psi_theta_phi lat_origin lon_origin (Radians_of_Degrees Y) (Radians_of_Degrees P) (Radians_of_Degrees R)) es
      in (es, take (ES_size es) es))"


lemma widths [simp]:
  "place_width Protocol_version = 1" "place_width Exercise_id = 1" "place_width Pdu_type = 1" "place_width Protocol_family = 1"
  "place_width Time_stamp = 4" "place_width Pdu_length = 2" "place_width Padding = 2" "place_width Site = 2" "place_width Application = 2"
  "place_width Entity = 2" "place_width Force_id = 1" "place_width Num_articulation_params = 1"
  "place_width (Entity_type e) = (case e of Country \<Rightarrow> 2 | _ \<Rightarrow> 1)" "place_width (Alt_entity_type e) = (case e of Country \<Rightarrow> 2 | _ \<Rightarrow> 1)"
  "place_width Dead_reckoning_algorithm = 1" "place_width Character_set = 1" "place_width Capabilities = 4"
  "i < 3 \<Longrightarrow> place_width (Velocity i) = 4" "i < 3 \<Longrightarrow> place_width (Location i) = 8" "i < 3 \<Longrightarrow> place_width (Orientation i) = 4"
  "i < 11 \<Longrightarrow> place_width (Entity_marking i) = 1"
  by (simp_all add: place_width_def)

lemma puts_length [simp]: "length data = 1500 \<Longrightarrow> length (ES_puts fs data) = 1500"
  by (induction fs data rule: ES_puts.induct) simp_all

lemma get_puts:
  "length data = 1500 \<Longrightarrow>
   ES_get g (ES_puts fs data) = (case map_of (rev fs) g of Some v \<Rightarrow> v mod 256 ^ place_width g | None \<Rightarrow> ES_get g data)"
  by (induction fs data rule: ES_puts.induct) (auto simp: map_add_def split: option.split)

lemma read_puts: "length data = 1500 \<Longrightarrow> g \<notin> fst ` set fs \<Longrightarrow> ES_read g (ES_puts fs data) = ES_read g data"
  by (induction fs data rule: ES_puts.induct) auto

definition copy_type :: "u8 list \<Rightarrow> u8 list" where
  "copy_type = fold (\<lambda>e es. ES_put (Alt_entity_type e) (ES_get (Entity_type e) es) es) [Kind, Domain, Country, Category, Subcategory, Specific, Extra]"

lemma copy_other: "length es = 1500 \<Longrightarrow> (\<And>e. g \<noteq> Alt_entity_type e) \<Longrightarrow> ES_get g (copy_type es) = ES_get g es"
  by (simp add: copy_type_def)

lemma copy_alt: "length es = 1500 \<Longrightarrow> ES_get (Alt_entity_type e) (copy_type es) = ES_get (Entity_type e) es mod 256 ^ place_width (Entity_type e)"
  by (cases e) (simp_all add: copy_type_def)

lemma copy_length: "length es = 1500 \<Longrightarrow> length (copy_type es) = 1500"
  by (simp add: copy_type_def)

text \<open>What stays the same in all datagrams.\<close>

definition entity_constants :: "int \<Rightarrow> int \<Rightarrow> int \<Rightarrow> u8 list \<Rightarrow> bool" where
  "entity_constants exercise domain country es \<longleftrightarrow>
     (\<forall>(f, v) \<in> set [(Protocol_version, 4), (Exercise_id, exercise), (Pdu_type, 1), (Protocol_family, 1), (Time_stamp, 1234), (Pdu_length, 144), (Padding, 0),
        (Site, 61), (Application, 39), (Num_articulation_params, 0)]. ES_get f es = v) \<and>
     (\<forall>(e, v) \<in> set [(Kind, 2), (Domain, domain), (Country, country), (Category, 1), (Subcategory, 6), (Specific, 1), (Extra, 1)].
        ES_get (Entity_type e) es = v \<and> ES_get (Alt_entity_type e) es = v)"

lemma init_ok:
  assumes "length data = 1500" "0 \<le> exercise" "exercise < 256" "0 \<le> domain" "domain < 256" "0 \<le> country" "country < 65536"
  shows "length (init_entity_state exercise domain country data) = 1500" "entity_constants exercise domain country (init_entity_state exercise domain country data)"
proof -
  let ?h = "[(Protocol_version, 4), (Exercise_id, exercise), (Pdu_type, 1), (Protocol_family, 1), (Time_stamp, 1234)]"
  define es where "es = ES_puts ?h (ES_construct data)"
  define fs where "fs = [(Pdu_length, 144), (Padding, 0), (Site, 61), (Application, 39), (Entity, 1005), (Force_id, 1),
     (Num_articulation_params, 0), (Entity_type Kind, 2), (Entity_type Domain, domain), (Entity_type Country, country),
     (Entity_type Category, 1), (Entity_type Subcategory, 6), (Entity_type Specific, 1), (Entity_type Extra, 1)]"
  have c: "length (ES_construct data) = 1500" using assms(1) by (simp add: ES_construct_def)
  have es: "length es = 1500" unfolding es_def using c by (rule puts_length)
  have "ES_get Num_articulation_params (ES_construct data) = 0" using assms(1) by (simp add: ES_construct_def)
  then have "ES_size es = 144" using get_puts [OF c, of Num_articulation_params ?h] by (simp add: ES_size_def es_def)
  then have i: "init_entity_state exercise domain country data = copy_type (ES_puts fs es)"
    by (simp only: init_entity_state_def es_def [symmetric] Let_def copy_type_def fs_def) simp
  have h: "ES_get Protocol_version es = 4" "ES_get Exercise_id es = exercise" "ES_get Pdu_type es = 1" "ES_get Protocol_family es = 1" "ES_get Time_stamp es = 1234"
    using assms unfolding es_def get_puts [OF c] by simp_all
  have l: "length (ES_puts fs es) = 1500" using es by (rule puts_length)
  show "length (init_entity_state exercise domain country data) = 1500" unfolding i by (rule copy_length [OF l])
  show "entity_constants exercise domain country (init_entity_state exercise domain country data)"
    using assms h unfolding entity_constants_def i
    by (simp add: copy_other [OF l] copy_alt [OF l] get_puts [OF es]) (simp add: fs_def)
qed

lemma three_lookup:
  assumes "length es = 1500" "\<And>x. length (enc x) = n" "\<And>i. i < 3 \<Longrightarrow> place_width (f i) = n" "inj f"
  shows "ES_read g (put_three f enc (x, y, z) es) = (if g = f 2 then enc z else if g = f 1 then enc y else if g = f 0 then enc x else ES_read g es)"
    and "length (put_three f enc (x, y, z) es) = 1500"
  using assms by (simp_all add: put_three_def assign_lookup)


definition floats :: "(nat \<Rightarrow> real \<Rightarrow> u8 list) \<Rightarrow> bool" where
  "floats fl \<longleftrightarrow> (\<forall>x. length (fl 4 x) = 4 \<and> length (fl 8 x) = 8)"

definition marks :: "(EntityStatePDU \<times> int) list" where
  "marks = [(Dead_reckoning_algorithm, 1), (Character_set, 1)] @ map (\<lambda>i. (Entity_marking i, marking ! i)) [0 ..< 11] @ [(Capabilities, 0)]"

definition coordinates :: "(nat \<Rightarrow> real \<Rightarrow> u8 list) \<Rightarrow> int \<Rightarrow> int \<Rightarrow> bool \<Rightarrow> real \<times> real \<times> real \<Rightarrow> real \<times> real \<times> real \<Rightarrow> u8 list \<Rightarrow> u8 list" where
  "coordinates fl u m friendly location orientation es =
     put_three Orientation (fl 4) orientation (put_three Location (fl 8) location (put_three Velocity (fl 4) (0, 0, 0)
       (ES_put Entity (entity_number u m) (ES_put Force_id (if friendly then 1 else 2) es))))"

lemma fill_shape: "fill_entity_state fl u m friendly loc ori es = ES_puts marks (coordinates fl u m friendly loc ori es)"
  by (simp only: fill_entity_state_def Let_def coordinates_def marks_def)

lemma coordinates_read:
  assumes fl: "floats fl" and es: "length es = 1500"
  shows "length (coordinates fl u m friendly (x, y, z) (psi, theta, phi) es) = 1500"
    and "ES_read g (coordinates fl u m friendly (x, y, z) (psi, theta, phi) es) =
      (if g = Orientation 2 then fl 4 phi else if g = Orientation 1 then fl 4 theta else if g = Orientation 0 then fl 4 psi
       else if g = Location 2 then fl 8 z else if g = Location 1 then fl 8 y else if g = Location 0 then fl 8 x
       else if g = Velocity 2 then fl 4 0 else if g = Velocity 1 then fl 4 0 else if g = Velocity 0 then fl 4 0
       else if g = Entity then host_bytes 2 (entity_number u m) else if g = Force_id then host_bytes 1 (if friendly then 1 else 2) else ES_read g es)"
proof -
  have l: "length (fl 4 v) = 4" "length (fl 8 v) = 8" for v using fl by (simp_all add: floats_def)
  have V: "ES_read g (put_three Velocity (fl 4) (a, b, c) d) = (if g = Velocity 2 then fl 4 c else if g = Velocity 1 then fl 4 b else if g = Velocity 0 then fl 4 a else ES_read g d)"
      "length (put_three Velocity (fl 4) (a, b, c) d) = 1500" if "length d = 1500" for g a b c d
    using that l by (simp_all add: three_lookup [of _ _ 4] inj_def)
  have L: "ES_read g (put_three Location (fl 8) (a, b, c) d) = (if g = Location 2 then fl 8 c else if g = Location 1 then fl 8 b else if g = Location 0 then fl 8 a else ES_read g d)"
      "length (put_three Location (fl 8) (a, b, c) d) = 1500" if "length d = 1500" for g a b c d
    using that l by (simp_all add: three_lookup [of _ _ 8] inj_def)
  have O: "ES_read g (put_three Orientation (fl 4) (a, b, c) d) = (if g = Orientation 2 then fl 4 c else if g = Orientation 1 then fl 4 b else if g = Orientation 0 then fl 4 a else ES_read g d)"
      "length (put_three Orientation (fl 4) (a, b, c) d) = 1500" if "length d = 1500" for g a b c d
    using that l by (simp_all add: three_lookup [of _ _ 4] inj_def)
  define e where "e = ES_put Entity (entity_number u m) (ES_put Force_id (if friendly then 1 else 2) es)"
  have e: "length e = 1500" "ES_read g e = (if g = Entity then host_bytes 2 (entity_number u m) else if g = Force_id then host_bytes 1 (if friendly then 1 else 2) else ES_read g es)"
    using es by (simp_all add: e_def)
  show "length (coordinates fl u m friendly (x, y, z) (psi, theta, phi) es) = 1500"
    unfolding coordinates_def e_def [symmetric] by (intro V L O e)
  show "ES_read g (coordinates fl u m friendly (x, y, z) (psi, theta, phi) es) =
      (if g = Orientation 2 then fl 4 phi else if g = Orientation 1 then fl 4 theta else if g = Orientation 0 then fl 4 psi
       else if g = Location 2 then fl 8 z else if g = Location 1 then fl 8 y else if g = Location 0 then fl 8 x
       else if g = Velocity 2 then fl 4 0 else if g = Velocity 1 then fl 4 0 else if g = Velocity 0 then fl 4 0
       else if g = Entity then host_bytes 2 (entity_number u m) else if g = Force_id then host_bytes 1 (if friendly then 1 else 2) else ES_read g es)"
    unfolding coordinates_def e_def [symmetric] by (simp only: V L O e)
qed


fun is_mark :: "EntityStatePDU \<Rightarrow> bool" where
  "is_mark (Entity_marking i) = True"
| "is_mark Dead_reckoning_algorithm = True"
| "is_mark Character_set = True"
| "is_mark Capabilities = True"
| "is_mark _ = False"

lemma marks_untouched: "\<not> is_mark g \<Longrightarrow> g \<notin> fst ` set marks"
  by (auto simp: marks_def)

lemma fill_constants:
  assumes "floats fl" "length es = 1500" "entity_constants exercise domain country es"
  shows "length (fill_entity_state fl u m friendly loc ori es) = 1500" "entity_constants exercise domain country (fill_entity_state fl u m friendly loc ori es)"
proof -
  obtain x y z psi theta phi where p: "loc = (x, y, z)" "ori = (psi, theta, phi)" by (metis prod.exhaust)
  note c = coordinates_read [OF assms(1,2), where u = u and m = m and friendly = friendly and x = x and y = y and z = z and psi = psi and theta = theta and phi = phi]
  show "length (fill_entity_state fl u m friendly loc ori es) = 1500" unfolding fill_shape p using c(1) by (rule puts_length)
  have "ES_get g (fill_entity_state fl u m friendly loc ori es) = ES_get g es"
    if "g \<in> {Protocol_version, Exercise_id, Pdu_type, Protocol_family, Time_stamp, Pdu_length, Padding, Site, Application, Num_articulation_params} \<union>
        range Entity_type \<union> range Alt_entity_type" for g
    using that read_puts [OF c(1) marks_untouched, of g] unfolding ES_get_def fill_shape p c(2) by auto
  then show "entity_constants exercise domain country (fill_entity_state fl u m friendly loc ori es)"
    using assms(3) by (simp add: entity_constants_def)
qed

lemma fill_fields:
  assumes "floats fl" "length es = 1500"
  defines "r \<equiv> \<lambda>u m friendly x y z psi theta phi. fill_entity_state fl u m friendly (x, y, z) (psi, theta, phi) es"
  shows "ES_get Entity (r u m friendly x y z psi theta phi) = entity_number u m mod 65536"
    "ES_get Force_id (r u m friendly x y z psi theta phi) = (if friendly then 1 else 2)"
    "map (\<lambda>i. ES_read (Location i) (r u m friendly x y z psi theta phi)) [0, 1, 2] = [fl 8 x, fl 8 y, fl 8 z]"
    "map (\<lambda>i. ES_read (Orientation i) (r u m friendly x y z psi theta phi)) [0, 1, 2] = [fl 4 psi, fl 4 theta, fl 4 phi]"
    "map (\<lambda>i. ES_get (Entity_marking i) (r u m friendly x y z psi theta phi)) [0 ..< 11] = marking"
proof -
  note c = coordinates_read [OF assms(1,2), where u = u and m = m and friendly = friendly and x = x and y = y and z = z and psi = psi and theta = theta and phi = phi]
  have o: "ES_read g (r u m friendly x y z psi theta phi) = ES_read g (coordinates fl u m friendly (x, y, z) (psi, theta, phi) es)"
    if "\<not> is_mark g" for g
    unfolding r_def fill_shape using that by (intro read_puts c(1) marks_untouched)
  show "ES_get Entity (r u m friendly x y z psi theta phi) = entity_number u m mod 65536"
    "ES_get Force_id (r u m friendly x y z psi theta phi) = (if friendly then 1 else 2)"
    "map (\<lambda>i. ES_read (Location i) (r u m friendly x y z psi theta phi)) [0, 1, 2] = [fl 8 x, fl 8 y, fl 8 z]"
    "map (\<lambda>i. ES_read (Orientation i) (r u m friendly x y z psi theta phi)) [0, 1, 2] = [fl 4 psi, fl 4 theta, fl 4 phi]"
    by (auto simp: ES_get_def o c(2) host_value_bytes)
  have "ES_get (Entity_marking i) (ES_puts marks (coordinates fl u m friendly (x, y, z) (psi, theta, phi) es)) = marking ! i" if "i < 11" for i
    using that unfolding get_puts [OF c(1)]
    by (auto simp: marks_def marking_def upt_rec less_Suc_eq numeral_eq_Suc)
  then show "map (\<lambda>i. ES_get (Entity_marking i) (r u m friendly x y z psi theta phi)) [0 ..< 11] = marking"
    unfolding r_def fill_shape by (intro nth_equalityI) (simp_all add: marking_def)
qed

lemma read_taken: "ES_place f = Some (p, n) \<Longrightarrow> p + n \<le> k \<Longrightarrow> ES_read f (take k d) = ES_read f d"
  by (simp add: ES_read_def Type_read_def drop_take min_def)


lemma entity_number_eq:
  assumes "0 \<le> m" "m < 256"
  shows "entity_number u m = 256 * u + m"
proof -
  have m: "m = take_bit 8 m" using assms by (simp add: take_bit_eq_mod)
  have "\<not> bit (push_bit 8 u) n \<or> \<not> bit m n" for n by (subst m) (auto simp: bit_push_bit_iff bit_take_bit_iff)
  from disjunctive_add [OF this] show ?thesis by (simp add: entity_number_def push_bit_eq_mult)
qed

text \<open>Entities are told apart by units and models below 256; unit 256 sends under the number of unit 0.\<close>

lemma entities_distinct:
  assumes "u \<in> {0 ..< 256}" "u' \<in> {0 ..< 256}" "m \<in> {0 ..< 256}" "m' \<in> {0 ..< 256}"
  shows "entity_number u m mod 65536 = entity_number u' m' mod 65536 \<longleftrightarrow> u = u' \<and> m = m'"
proof
  assume "entity_number u m mod 65536 = entity_number u' m' mod 65536"
  then have eq: "256 * u + m = 256 * u' + m'" using assms by (simp add: entity_number_eq)
  from arg_cong [OF eq, of "\<lambda>k. k mod 256"] have "m = m'" using assms by simp
  with eq show "u = u' \<and> m = m'" by simp
qed simp

lemma entities_collide: "entity_number 256 m mod 65536 = entity_number 0 m mod 65536"
proof -
  have "entity_number 256 m mod 2 ^ 16 = entity_number 0 m mod 2 ^ 16"
    by (simp only: entity_number_def take_bit_eq_mod [symmetric] take_bit_or take_bit_push_bit) (simp add: take_bit_eq_mod)
  then show ?thesis by simp
qed

text \<open>The flight of \<open>DIS2\<close>: the static PDU goes through one call per step.\<close>

definition DIS2_flight :: "(nat \<Rightarrow> real \<Rightarrow> u8 list) \<Rightarrow> u8 list \<Rightarrow> (int \<times> int \<times> WayPoint \<times> bool) list \<Rightarrow> u8 list" where
  "DIS2_flight fl data calls = fold (\<lambda>(u, m, w, friendly) es. fst (DIS2_processToDIS fl u m w friendly es)) calls (DIS2_initEntityStatePDU data)"

lemma flight_ok:
  assumes "floats fl" "length data = 1500"
  shows "length (DIS2_flight fl data calls) = 1500 \<and> entity_constants 20 1 255 (DIS2_flight fl data calls)"
proof (induction calls rule: rev_induct)
  case Nil
  show ?case using init_ok [OF assms(2)] by (simp add: DIS2_flight_def DIS2_initEntityStatePDU_def)
next
  case (snoc c calls)
  obtain u m w friendly where c: "c = (u, m, w, friendly)" by (metis prod.exhaust)
  have "DIS2_flight fl data (calls @ [c]) = fst (DIS2_processToDIS fl u m w friendly (DIS2_flight fl data calls))" by (simp add: DIS2_flight_def c)
  then show ?case using fill_constants [OF assms(1), of "DIS2_flight fl data calls" 20 1 255] snoc.IH by (simp add: DIS2_processToDIS_def Let_def)
qed

lemma datagram_read:
  assumes "entity_constants exercise domain country es" "length es = 1500" "ES_place f = Some (p, n)" "p + n \<le> 144"
  shows "ES_size es = 144" "ES_read f (take (ES_size es) es) = ES_read f es"
proof -
  show s: "ES_size es = 144" using assms(1) by (simp add: ES_size_def entity_constants_def)
  show "ES_read f (take (ES_size es) es) = ES_read f es" unfolding s using assms(3,4) by (rule read_taken)
qed

text \<open>What both models send, for a static PDU that has the constants.\<close>

lemma fill_datagram:
  assumes "floats fl" "length es = 1500" "entity_constants exercise domain country es"
  defines "d \<equiv> \<lambda>u m friendly x y z psi theta phi. let r = fill_entity_state fl u m friendly (x, y, z) (psi, theta, phi) es in take (ES_size r) r"
  shows "length (d u m friendly x y z psi theta phi) = 144 \<and> entity_constants exercise domain country (d u m friendly x y z psi theta phi) \<and>
    ES_get Entity (d u m friendly x y z psi theta phi) = entity_number u m mod 65536 \<and> ES_get Force_id (d u m friendly x y z psi theta phi) = (if friendly then 1 else 2) \<and>
    map (\<lambda>i. ES_read (Location i) (d u m friendly x y z psi theta phi)) [0, 1, 2] = [fl 8 x, fl 8 y, fl 8 z] \<and>
    map (\<lambda>i. ES_read (Orientation i) (d u m friendly x y z psi theta phi)) [0, 1, 2] = [fl 4 psi, fl 4 theta, fl 4 phi] \<and>
    map (\<lambda>i. ES_get (Entity_marking i) (d u m friendly x y z psi theta phi)) [0 ..< 11] = marking"
proof -
  define r where "r = fill_entity_state fl u m friendly (x, y, z) (psi, theta, phi) es"
  have r: "length r = 1500" "entity_constants exercise domain country r" unfolding r_def by (rule fill_constants [OF assms(1-3)])+
  have d: "d u m friendly x y z psi theta phi = take 144 r"
    using datagram_read(1) [OF r(2,1) ES_places(1)] by (simp add: d_def r_def Let_def)
  note t = read_taken [where k = 144 and d = r]
  have c: "entity_constants exercise domain country (take 144 r)" using r(2) by (simp add: entity_constants_def ES_get_def t)
  note f = fill_fields [OF assms(1,2), where u = u and m = m and friendly = friendly and x = x and y = y and z = z and psi = psi and theta = theta and phi = phi,
    folded r_def]
  have "ES_get (Entity_marking i) (take 144 r) = ES_get (Entity_marking i) r" if "i < 11" for i using that by (simp add: ES_get_def t)
  then have k: "map (\<lambda>i. ES_get (Entity_marking i) (take 144 r)) [0 ..< 11] = marking" unfolding f(5) [symmetric] by (intro map_cong) simp_all
  have g: "ES_get Entity (take 144 r) = ES_get Entity r" "ES_get Force_id (take 144 r) = ES_get Force_id r" by (simp_all add: ES_get_def t)
  show ?thesis using c f(3,4) r(1) unfolding d k g f(1,2) by (simp add: t)
qed

section \<open>The reader of the standard\<close>

text \<open>
  A receiver knows nothing of the windows above. It has the octets of the datagram, the offsets and widths of the DIS standard (IEEE
  1278.1, entity state PDU), and reads a number with its most significant octet first.
\<close>

definition octets :: "u8 list \<Rightarrow> nat \<Rightarrow> nat \<Rightarrow> u8 list" where
  "octets d offset n = take n (drop offset d)"

definition net_value :: "u8 list \<Rightarrow> int" where
  "net_value bs = foldl (\<lambda>v b. 256 * v + uint b) 0 bs"

definition net_values :: "u8 list \<Rightarrow> (nat \<times> nat) list \<Rightarrow> int list" where
  "net_values d places = map (\<lambda>(offset, n). net_value (octets d offset n)) places"

lemma octets_read: "ES_place f = Some (p, n) \<Longrightarrow> octets d p n = rev (ES_read f d)"
  by (simp add: octets_def ES_read_def Type_read_def)

lemma net_value_rev: "net_value (rev bs) = host_value bs"
  by (induction bs) (simp_all add: net_value_def host_value_def)

lemma net_value_get: "ES_place f = Some (p, n) \<Longrightarrow> net_value (octets d p n) = ES_get f d"
  by (simp add: octets_read net_value_rev ES_get_def)

lemma get_on_the_wire: "ES_get f d = (case ES_place f of Some (p, n) \<Rightarrow> net_value (octets d p n) | None \<Rightarrow> 0)"
  by (auto simp: net_value_get ES_get_def ES_read_def host_value_def split: option.split)

lemmas header_values = ES_places(1-7) [THEN net_value_get]
lemmas entity_values = ES_places(8-12) [THEN net_value_get]

lemma type_values:
  "net_values d [(20, 1), (21, 1), (22, 2), (24, 1), (25, 1), (26, 1), (27, 1)] =
     map (\<lambda>e. ES_get (Entity_type e) d) [Kind, Domain, Country, Category, Subcategory, Specific, Extra]"
  "net_values d [(28, 1), (29, 1), (30, 2), (32, 1), (33, 1), (34, 1), (35, 1)] =
     map (\<lambda>e. ES_get (Alt_entity_type e) d) [Kind, Domain, Country, Category, Subcategory, Specific, Extra]"
  by (simp_all add: net_values_def get_on_the_wire)

lemma constants_on_the_wire:
  assumes "entity_constants exercise domain country d"
  shows "net_values d [(0, 1), (1, 1), (2, 1), (3, 1), (4, 4), (8, 2), (10, 2)] = [4, exercise, 1, 1, 1234, 144, 0]"
    "net_values d [(12, 2), (14, 2), (19, 1)] = [61, 39, 0]"
    "net_values d [(20, 1), (21, 1), (22, 2), (24, 1), (25, 1), (26, 1), (27, 1)] = [2, domain, country, 1, 6, 1, 1]"
    "net_values d [(28, 1), (29, 1), (30, 2), (32, 1), (33, 1), (34, 1), (35, 1)] = [2, domain, country, 1, 6, 1, 1]"
  using assms unfolding type_values by (simp_all add: entity_constants_def net_values_def header_values entity_values del: One_nat_def)

lemma coordinates_on_the_wire:
  assumes "map (\<lambda>i. ES_read (Location i) d) [0, 1, 2] = [a, b, c]" "map (\<lambda>i. ES_read (Orientation i) d) [0, 1, 2] = [e, f, g]"
  shows "map (\<lambda>offset. octets d offset 8) [48, 56, 64] = [rev a, rev b, rev c]"
    "map (\<lambda>offset. octets d offset 4) [72, 76, 80] = [rev e, rev f, rev g]"
  using assms ES_arrays(2) [THEN octets_read, of 0 d] ES_arrays(2) [THEN octets_read, of 1 d] ES_arrays(2) [THEN octets_read, of 2 d]
    ES_arrays(3) [THEN octets_read, of 0 d] ES_arrays(3) [THEN octets_read, of 1 d] ES_arrays(3) [THEN octets_read, of 2 d]
  by simp_all

lemma marking_on_the_wire:
  "net_values d (map (\<lambda>i. (129 + i, 1)) [0 ..< 11]) = map (\<lambda>i. ES_get (Entity_marking i) d) [0 ..< 11]"
  by (auto simp: net_values_def net_value_get [OF ES_arrays(4)] simp del: One_nat_def)

text \<open>
  C22. Every datagram \<open>DIS2\<close> broadcasts, whatever it sent before, is an entity state PDU of 144 bytes for the point of this step: a receiver
  that reads it at the offsets of the DIS standard, most significant octet first, finds the header (version, exercise, type, family, time
  stamp, length), the site and application, the low 16 bits of the entity number, the force, no articulation parameters, the type and the
  alternative type, the three geocentric coordinates of the way point and its three angles as the 8 and 4 bytes of the floating point
  numbers in network order, and the marking. The PDU is taken to be built in place by \<open>initEntityStatePDU\<close>, with its copy elided.
\<close>

theorem entity_state_datagram:
  assumes "floats fl" "length data = 1500"
  shows "let d = snd (DIS2_processToDIS fl u m w friendly (DIS2_flight fl data calls));
       (x, y, z) = lat_lon_alt_to_gcc (wp_lat w) (wp_lon w) (wp_alt w);
       (psi, theta, phi) = lat_lon_hpr_to_psi_theta_phi lat_origin lon_origin 0 0 0
     in length d = 144 \<and>
        net_values d [(0, 1), (1, 1), (2, 1), (3, 1), (4, 4), (8, 2), (10, 2)] = [4, 20, 1, 1, 1234, 144, 0] \<and>
        net_values d [(12, 2), (14, 2), (19, 1)] = [61, 39, 0] \<and>
        net_values d [(16, 2), (18, 1)] = [entity_number u m mod 65536, if friendly then 1 else 2] \<and>
        net_values d [(20, 1), (21, 1), (22, 2), (24, 1), (25, 1), (26, 1), (27, 1)] = [2, 1, 255, 1, 6, 1, 1] \<and>
        net_values d [(28, 1), (29, 1), (30, 2), (32, 1), (33, 1), (34, 1), (35, 1)] = [2, 1, 255, 1, 6, 1, 1] \<and>
        map (\<lambda>offset. octets d offset 8) [48, 56, 64] = [rev (fl 8 x), rev (fl 8 y), rev (fl 8 z)] \<and>
        map (\<lambda>offset. octets d offset 4) [72, 76, 80] = [rev (fl 4 psi), rev (fl 4 theta), rev (fl 4 phi)] \<and>
        net_values d (map (\<lambda>i. (129 + i, 1)) [0 ..< 11]) = [84, 97, 114, 103, 101, 116, 0, 0, 0, 0, 0]"
proof -
  obtain x y z where loc: "lat_lon_alt_to_gcc (wp_lat w) (wp_lon w) (wp_alt w) = (x, y, z)" by (metis prod.exhaust)
  obtain psi theta phi where ori: "lat_lon_hpr_to_psi_theta_phi lat_origin lon_origin 0 0 0 = (psi, theta, phi)" by (metis prod.exhaust)
  define d where "d = snd (DIS2_processToDIS fl u m w friendly (DIS2_flight fl data calls))"
  have "length (DIS2_flight fl data calls) = 1500" "entity_constants 20 1 255 (DIS2_flight fl data calls)" using flight_ok [OF assms] by simp_all
  from fill_datagram [OF assms(1) this, of u m friendly x y z psi theta phi]
  have d: "length d = 144" "entity_constants 20 1 255 d" "ES_get Entity d = entity_number u m mod 65536"
    "ES_get Force_id d = (if friendly then 1 else 2)" "map (\<lambda>i. ES_get (Entity_marking i) d) [0 ..< 11] = marking"
    and xyz: "map (\<lambda>i. ES_read (Location i) d) [0, 1, 2] = [fl 8 x, fl 8 y, fl 8 z]"
      "map (\<lambda>i. ES_read (Orientation i) d) [0, 1, 2] = [fl 4 psi, fl 4 theta, fl 4 phi]"
    by (simp_all add: d_def DIS2_processToDIS_def loc ori Let_def Radians_of_Degrees_def)
  have "net_values d [(16, 2), (18, 1)] = [entity_number u m mod 65536, if friendly then 1 else 2]"
    using d(3,4) by (simp add: net_values_def entity_values del: One_nat_def)
  then show ?thesis
    using d(1,5) constants_on_the_wire [OF d(2)] coordinates_on_the_wire [OF xyz]
    unfolding d_def [symmetric] loc ori marking_on_the_wire by (simp only: Let_def prod.case marking_def simp_thms)
qed

theorem entity_state_datagram_witness:
  "let fl = (\<lambda>n x. replicate n (if x = 0 then 0 else 1)); w = WayPoint_radians 0 0;
       d = snd (DIS2_processToDIS fl 3 5 w False (DIS2_flight fl (replicate 1500 7) [(300, 1, w, True)]))
   in length d = 144 \<and> net_values d [(16, 2), (18, 1)] = [773, 2] \<and> octets d 64 8 = replicate 8 0"
proof -
  let ?fl = "\<lambda>n x. replicate n (if x = 0 then 0 else 1) :: u8 list" and ?w = "WayPoint_radians 0 0"
  have "floats ?fl" by (simp add: floats_def)
  from entity_state_datagram [OF this, of "replicate 1500 7" 3 5 ?w False "[(300, 1, ?w, True)]"]
  show ?thesis by (simp add: Let_def entity_number_eq lat_lon_alt_to_gcc_def WayPoint_radians_def split: prod.splits)
qed

section \<open>Targets and missiles\<close>

text \<open>\<open>DIS::processTarget\<close> and \<open>DIS::processMissile\<close>: position and attitude of a message.\<close>

definition processTarget :: "(nat \<Rightarrow> real \<Rightarrow> u8 list) \<Rightarrow> int \<Rightarrow> int \<Rightarrow> Vec3 \<Rightarrow> Vec3 \<Rightarrow> u8 list \<Rightarrow> u8 list \<times> u8 list" where
  "processTarget fl unitID modelID position attitude es =
     DIS_processToDIS fl unitID modelID (mX position, mY position, mZ position) (mZ attitude, mY attitude, mX attitude) False es"

definition processMissile :: "(nat \<Rightarrow> real \<Rightarrow> u8 list) \<Rightarrow> int \<Rightarrow> int \<Rightarrow> Vec3 \<Rightarrow> Vec3 \<Rightarrow> u8 list \<Rightarrow> u8 list \<times> u8 list" where
  "processMissile fl unitID modelID position attitude es =
     DIS_processToDIS fl unitID modelID (mX position, mY position, mZ position) (mZ attitude, mY attitude, mX attitude) True es"

text \<open>The handlers share the static PDU: every message is a target or a missile.\<close>

definition DIS_handle :: "(nat \<Rightarrow> real \<Rightarrow> u8 list) \<Rightarrow> bool \<times> int \<times> int \<times> Vec3 \<times> Vec3 \<Rightarrow> u8 list \<Rightarrow> u8 list \<times> u8 list" where
  "DIS_handle fl = (\<lambda>(missile, u, m, position, attitude) es.
     if missile then processMissile fl u m position attitude es else processTarget fl u m position attitude es)"

definition DIS_run :: "(nat \<Rightarrow> real \<Rightarrow> u8 list) \<Rightarrow> u8 list \<Rightarrow> (bool \<times> int \<times> int \<times> Vec3 \<times> Vec3) list \<Rightarrow> u8 list" where
  "DIS_run fl data msgs = fold (\<lambda>a es. fst (DIS_handle fl a es)) msgs (DIS_initEntityStatePDU data)"

lemma handle_fills:
  "\<exists>x y z psi theta phi. to_gcc (LCS lat_origin lon_origin) (mX position, mY position, mZ position) = (x, y, z) \<and>
     DIS_handle fl (missile, u, m, position, attitude) es =
       (let r = fill_entity_state fl u m missile (x, y, z) (psi, theta, phi) es in (r, take (ES_size r) r))"
proof -
  obtain x y z where "to_gcc (LCS lat_origin lon_origin) (mX position, mY position, mZ position) = (x, y, z)" by (metis prod.exhaust)
  moreover obtain psi theta phi where "lat_lon_hpr_to_psi_theta_phi lat_origin lon_origin (Radians_of_Degrees (mZ attitude))
      (Radians_of_Degrees (mY attitude)) (Radians_of_Degrees (mX attitude)) = (psi, theta, phi)" by (metis prod.exhaust)
  ultimately show ?thesis by (auto simp: DIS_handle_def processTarget_def processMissile_def DIS_processToDIS_def Let_def)
qed

lemma run_ok:
  assumes "floats fl" "length data = 1500"
  shows "length (DIS_run fl data msgs) = 1500 \<and> entity_constants 12 2 225 (DIS_run fl data msgs)"
proof (induction msgs rule: rev_induct)
  case Nil
  show ?case using init_ok [OF assms(2)] by (simp add: DIS_run_def DIS_initEntityStatePDU_def)
next
  case (snoc a msgs)
  obtain missile u m position attitude where a: "a = (missile, u, m, position, attitude)" by (metis prod.exhaust)
  obtain x y z psi theta phi where "DIS_handle fl a (DIS_run fl data msgs) =
      (let r = fill_entity_state fl u m missile (x, y, z) (psi, theta, phi) (DIS_run fl data msgs) in (r, take (ES_size r) r))"
    unfolding a using handle_fills by blast
  then have "DIS_run fl data (msgs @ [a]) = fill_entity_state fl u m missile (x, y, z) (psi, theta, phi) (DIS_run fl data msgs)"
    by (simp add: DIS_run_def Let_def)
  then show ?case using fill_constants [OF assms(1), of "DIS_run fl data msgs" 12 2 225] snoc.IH by simp
qed

text \<open>
  Every datagram of \<open>DIS\<close> carries the force and number of its sender and a place in geocentric coordinates; a receiver with the same origin
  that takes them back to the local frame gets the position of the message.
\<close>

lemma DIS_datagrams:
  assumes "floats fl" "length data = 1500"
  shows "\<exists>x y z. from_gcc (LCS lat_origin lon_origin) (x, y, z) = (mX position, mY position, mZ position) \<and>
    (let d = snd (DIS_handle fl (missile, u, m, position, attitude) (DIS_run fl data msgs))
     in length d = 144 \<and> entity_constants 12 2 225 d \<and> ES_get Entity d = entity_number u m mod 65536 \<and>
        ES_get Force_id d = (if missile then 1 else 2) \<and> map (\<lambda>i. ES_read (Location i) d) [0, 1, 2] = [fl 8 x, fl 8 y, fl 8 z])"
proof -
  obtain x y z psi theta phi where h: "to_gcc (LCS lat_origin lon_origin) (mX position, mY position, mZ position) = (x, y, z)"
      "DIS_handle fl (missile, u, m, position, attitude) (DIS_run fl data msgs) =
        (let r = fill_entity_state fl u m missile (x, y, z) (psi, theta, phi) (DIS_run fl data msgs) in (r, take (ES_size r) r))"
    using handle_fills by blast
  have "from_gcc (LCS lat_origin lon_origin) (x, y, z) = (mX position, mY position, mZ position)"
    unfolding h(1) [symmetric] by (rule lcs.out_into)
  moreover have "length (DIS_run fl data msgs) = 1500" "entity_constants 12 2 225 (DIS_run fl data msgs)" using run_ok [OF assms] by simp_all
  note fill_datagram [OF assms(1) this, of u m missile x y z psi theta phi]
  ultimately show ?thesis using h(2) by (simp add: Let_def) blast
qed

end
