(* ===== verification/Spec2Isabelle.thy ===== *)
theory Spec2Isabelle
  imports CommandChannel TimedController PeerMessages RadarThreads InterpTables WeaponsRelease DispatcherFactory Tframes TaterRing DisPdu
begin

text \<open>
  \<^bold>\<open>NISE: the message dispatcher, the peer library and the controllers.\<close>

  NISE connects simulation models, running as processes on several nodes, by messages. On every node a dispatcher
  (\<open>src/dispatcherd\<close>) accepts the TCP connections of the models, exchanges hello messages with them, and routes each
  message it receives to the subscribers of the message, to one model, to the models of a job, to the master of a job or
  to a connection, on this node or through the dispatcher of another node. In the process of a model the peer library
  (\<open>src/Peer\<close>) is the other end of the connection: it publishes the messages of the model and hands it those that arrive. One
  model of a job is its controller (\<open>src/Utilities\<close>), which steps the others by START_FRAME and END_FRAME messages. This
  development models these three parts, and of the simulation models (\<open>src/Models\<close>) those of the CMD example with the
  simulation kernel, the tables and the transforms they use, the six air defence models with the mathematics the models share, the hot
  potato models, and the two models that send DIS datagrams.

  \<^bold>\<open>The parts and the theories.\<close>

  \<^item> \<open>Prelude\<close>: the containers the program uses (\<open>std::map\<close>, \<open>std::set\<close>, Boost's \<open>multi_index_container\<close>) with their
    contracts as the locales \<open>ordered_map\<close> and \<open>multi_index\<close>, and 32 bit counters.
  \<^item> \<open>Protocol\<close>: the message header on the wire, message types and flags. The C++ header classes are in a library outside
    the repository; the layout, codes and masks are those of the Ruby library (\<open>src/Models/RubyModels/lib\<close>).
  \<^item> \<open>IdentityTables\<close> (\<open>ModelIdentity\<close>, \<open>DispatcherIdentity\<close>, \<open>CommandIdentity\<close>): which model, dispatcher or command
    client is on which connection. \<open>RouteCaches\<close> (\<open>SubscriptionCache\<close>, \<open>PeerRouteCache\<close>): the routes read from the
    database; they refine partial maps. \<open>MessageTrace\<close> (\<open>SamsonTrace\<close>, \<open>IdentityTrace\<close>) and \<open>RouterStats\<close>: bounded traces
    and statistics. \<open>ChannelFilterMgr\<close>: filter libraries, reference counted.
  \<^item> \<open>ReceiveHandler\<close> (\<open>recv_header\<close>, \<open>recv_noheader\<close>): messages are reassembled from the pieces TCP delivers.
  \<^item> \<open>DispatcherState\<close>: the state of a running dispatcher, a record \<open>dispatcher\<close> with a heap of connection handlers, a heap of
    connection records and the tables above, and the outside world as a record \<open>env\<close> of functions (sockets, reactor, timers,
    header classes, object manager, service repository, options). \<open>ExampleEnv\<close> is an instance for examples.
  \<^item> \<open>ConnectionHandler\<close>: construction, retry timeout, closing, destruction. \<open>TransmitHandler\<close>: \<open>put\<close>, \<open>handle_output\<close> and the
    queue of what the socket did not take.
  \<^item> \<open>ConnectionTable\<close>: the table of connection records, opening connections (\<open>Peer_Connector\<close>, \<open>Peer_Acceptor\<close>,
    \<open>ConnectionHandler::open\<close>) and the \<open>initiate_\<close> operations of \<open>EventChannel\<close>.
  \<^item> \<open>PubSubDispatch\<close>: what happens with a message (\<open>process\<close> and the five routes), and \<open>SamsonMsgSender\<close>.
  \<^item> \<open>EventChannel\<close>: \<open>process\<close>, \<open>ReceiveHandler::handle_input\<close>, \<open>initialize\<close>, \<open>open\<close>, \<open>destroy\<close>, and the upcalls of the
    reactor (\<open>reactor_step\<close>).
  \<^item> \<open>TableSafety\<close>: the states of a dispatcher (\<open>dispatcher_states\<close>), \<open>running\<close> under all upcalls, and \<open>settled\<close> under all but the retry of a
    handler that is still bound in a table; the invariant of the settled ones, and how such a retry breaks it. This theory: a
    message from the sender's \<open>put\<close> to the receiver's upcall.
  \<^item> \<open>CommandReply\<close>: replies of the command parser (\<open>CommandParser.inl\<close>, \<open>cmd_status\<close>). \<open>Reports\<close>: the text reports of tables,
    connections and statistics. \<open>CommandParser\<close>: the grammar of a command line, the commands (\<open>nv_\<close> functions) and
    \<open>process\<close>. \<open>CommandGrammar\<close>: what the grammar accepts. \<open>CommandChannel\<close>: commands and the rest of the dispatcher.
  \<^item> \<open>XMLConfig\<close> (\<open>XMLParser\<close>): the grammar of the configuration, the records the archive makes of its text, and what becomes of them.
    \<open>DispatcherOptions\<close> (\<open>Options\<close>): the command line. \<open>DispatcherFactory\<close>: \<open>init\<close>, \<open>fini\<close>, standard input and the log.
  \<^item> \<open>PeerHandler\<close> (\<open>src/Peer/Peer_Handler\<close>): sending and receiving in the process of a model; receiving is the function of the
    dispatcher. \<open>SharedAppMgr\<close>: publishing, registered handlers, the priority queue of data events, the upcalls.
    \<open>PeerMessages\<close>: messages from model to model.
  \<^item> \<open>ControllerBase\<close>: peer tables, timers, the sets of peers whose answer is awaited, the end of a run. \<open>FramedController\<close>:
    frames, cases and Monte Carlo runs (\<open>frame_step\<close> is one upcall, \<open>in_case\<close> the states of a case). \<open>TimedController\<close>: the
    controllers that step by a clock, or not at all (\<open>SimpleController\<close>).
  \<^item> \<open>SimKernel\<close> (\<open>src/Models/CMD/osk\<close>): the clock, the integrators, blocks and \<open>Sim::run\<close>. \<open>RungeKutta\<close>: what the passes compute,
    and that stages end. \<open>CmdModels\<close>: the blocks of target, radar and missile and the model of the target. \<open>LockStep\<close> and
    \<open>RadarThreads\<close>: the two threads of the target and of the radar, with the waits of their surrogates, as step relations. \<open>InterpTables\<close> (\<open>src/Models/CMD/table\<close>): tables read from text and interpolated.
    \<open>Tframes\<close> (\<open>src/Models/CMD/vec\<close>): vectors, matrices, quaternions and attitudes.
  \<^item> \<open>SamsonMath\<close> and \<open>Conversions\<close> (\<open>src/Models/MathUtilities1p2\<close>): vectors, quaternions, matrices, Euler angles, earth-fixed,
    inertial, local and geodetic coordinates, gravity. A function that writes its answer through a reference acts on a store of objects,
    so that the answer may be one of the arguments. \<open>Coord\<close> (\<open>Coord.h\<close>): the functions of the namespace \<open>coord\<close>.
  \<^item> \<open>AirDefence\<close> (\<open>src/Models/Target\<close>, \<open>SurvRadar\<close>, \<open>TOC\<close>, \<open>TrkRadar\<close>, \<open>Launcher\<close>, \<open>Missile\<close>, \<open>Messages\<close>): the handlers of the
    six models. \<open>Engagement\<close>: the models connected by their subscriptions, a step relation \<open>engage\<close> that delivers messages and
    starts frames in any order. \<open>DefaultScenario\<close>: the 1999 frames of the default scenario. \<open>WeaponsRelease\<close>: what no order of events
    can break.

  \<^item> \<open>TaterRing\<close> (\<open>src/Models/Tater\<close>, \<open>FramedTater\<close>): taters that pass a message round. \<open>WayPoints\<close> (\<open>src/Models/DIS2\<close>): bearings, distances,
    destinations and the path. \<open>DisPdu\<close> (\<open>pdu_packed.h\<close>, \<open>DIS\<close>, \<open>DIS2\<close>): the bytes of the datagrams.

  \<^bold>\<open>How the code is modelled.\<close> One definition per function, with the name of the function (with a prefix where two
  classes share a name). Functions that change the state take and return a \<open>dispatcher\<close>, a \<open>Peer\<close> or the record of a controller. A pointer is a number, null is 0, and
  following a pointer reads a heap (\<open>the_ch\<close>, \<open>the_rec\<close>). Results are \<open>option\<close>s: \<open>None\<close> is undefined behaviour of C++ (a null or
  dangling pointer that is followed, a write outside an object, a block that is released twice, an iterator that was
  invalidated, a string that was destroyed), so a theorem that says \<open>Some\<close> also says that the code is memory safe there. A line that the
  command parser recognizes as a command is such a case: the action of the grammar keeps a reference to a string that is gone, so
  \<open>process_line\<close> is \<open>None\<close>, and the theorems about commands are about the grammar and about the functions behind it. Integers have their width (\<open>u8\<close>,
  \<open>u16\<close>, \<open>u32\<close>) where they can wrap; \<open>int\<close> results of functions are unbounded; \<open>double\<close> is \<open>real\<close>, without rounding. Logging is
  left out, except where a report changes the state. Locks are left out, except in \<open>LockStep\<close> and \<open>RadarThreads\<close>: every upcall runs to its
  end before the next.

  \<^bold>\<open>Interfaces.\<close> What the code relies on of foreign code is a locale: \<open>multi_index\<close> and its extensions (Boost containers),
  \<open>stream_socket\<close> (a TCP stream read in pieces of any size), \<open>sending_socket\<close> (\<open>send_n\<close> takes any prefix, with or without an
  error; nothing is assumed of errors, of the reactor or of the size of the queue: the first operation that meets one of these is where
  \<open>untroubled\<close> ends), \<open>routing_env\<close> (a \<open>sending_socket\<close> with headers of a fixed length, where encoding a header twice is encoding it once), \<open>dispatcher_env\<close> (the containers of the tables), \<open>spirit\<close> (the
  number parsers and the symbol table of Boost.Spirit; the combinators of the grammar are read as the documentation defines them),
  \<open>peer_socket\<close> (again any prefix, with or without an error), \<open>samson_peer\<close> and \<open>samson_codec\<close> (socket and headers of a peer), \<open>map_manager\<close> and \<open>event_queue\<close> (ACE's map and
  the standard priority queue), \<open>model_contract\<close> (handlers that do not touch the queue and the receiving side). Each is
  interpreted on the list containers and the sockets of \<open>ExampleEnv\<close> and \<open>PeerMessages\<close>, which the witnesses use. Other locales are
  contracts of the code itself: \<open>block_contract\<close> and \<open>differential\<close> (what the simulation kernel relies on of a block, and what a
  block that describes differential equations promises) hold of the target and of the radar; \<open>barrier\<close> (a round is completed by its last member) holds of the sets of the framed controller, and
  \<open>run_end\<close> (when a run is stopped) of all three controllers; \<open>rotation\<close> (a matrix whose transpose is its inverse) of the matrices of
  Euler angles and of the rotation of the earth, \<open>frame_change\<close> (two functions that undo each other) of the local frames of
  \<open>Coord.h\<close> and of the body axes of \<open>Tframes\<close>; \<open>participant\<close> (how a model is read from the network and put back, and what is promised of it) of the six
  air defence models, and \<open>log_invariant\<close> (what no model breaks) of the two invariants of \<open>WeaponsRelease\<close>.

  \<^bold>\<open>What is shown.\<close> Messages reach exactly the handlers that listen among those the routing rules name, once each, when each of these
  handlers can take the message (\<open>deliverable\<close>: its socket and queue are not in trouble and it has no filter); a message that went through a
  dispatcher is not sent to dispatchers again; streams are reassembled, and sent whole and in order up to the first operation that meets
  an error or a full queue; closing, destroying the
  table, GOODBYE and every other upcall but the retry of a bound handler leave no dangling address in the tables, and so do all records
  of a configuration and all command functions; caches refine maps; filters are counted;
  retry delays double up to their limit; statistics and traces report what they should. Command lines are read back as they were
  printed, and so are requests, but for their last value, which takes in the protocol version; the function of the kill command reaches the
  models of its job, and only three commands close a command channel. Messages a model publishes are
  verified and handed to their handlers once; no frame is started while a model is still in the last one, every round of answers
  starts the next frame, and cases, Monte Carlo runs and timed runs have the length they were asked for. The four integrators of
  the simulation kernel are the Runge-Kutta methods of their Butcher tableaux, runs end at their time limit, the run of the radar after at
  most 1002 positions of the target, reports and steps of the two threads of the target alternate; tables are read back as written, and interpolation stays within the data and is exact where it can be. Products of quaternions compose rotations, attitudes are exact, geodetic coordinates on the ellipsoid are exact although nothing is
  iterated. In the air defence models no missile is launched and no target reported destroyed without the chain of messages that
  justifies it, nothing is commanded twice, no array is left, and in the default scenario the missile meets the target in frame
  1999. Reading a configuration ends for every text; what it names is in the table; starting leaves linked tables whatever fails, and stopping
  cancels the timer that starting scheduled and removes standard input when starting tried to register it. Euler angles and quaternions are got back from their matrices. The potato goes round as often as asked for; way points are
  reached at the distance and in the direction given; a receiver of a datagram reads, at the offsets of the
  standard and in network order, what was put in. Several theorems show what the code
  does where its comments or its evident intention say something else: status responses are never relayed, the hello
  of a dispatcher is lost when debug output is on, a read that would block moves the header index below zero, the end of a
  stream inside a message is not noticed, a transmission error releases a block twice, a full queue drops a message whole or cuts it in two, the
  destructor of a handler that reconnected leaves its entry, every command line reads a destroyed string, the last value of a request takes
  in the protocol version, extremes of statistics skip the first sample, HTTP replies announce a wrong length, requests for
  files leave the HTML directory, control commands at the console follow a null pointer;
  a peer loses messages on a socket error or a full queue and repeats the bytes that a failed transmission had sent, does not unregister handlers and does not answer status requests; the framed
  controller loses its frame rate after one slow frame; the second case of the CMD target moves the wrong target, and its threads
  can deadlock at the end of a run, as those of the radar do when a run is ended early; the inverse of a matrix is right for symmetric matrices only, and a target destroyed in one
  case never flies again; an exception of the archive leaves the rest of a configuration unread without an error; taters that hear everybody
  stop too early or never; a destination has its longitude and latitude exchanged.

  \<^bold>\<open>Fuel.\<close> \<open>rx_pump\<close> takes the number of receive calls; as many as there are bytes are enough, since every call on a
  readable socket takes at least one; the same holds for \<open>peer_pump\<close>. \<open>drain\<close> is a loop that need not end for every model (a
  partial function, \<open>None\<close> when it does not); it is shown to end for handlers that do not fill the queue. So is \<open>stage_loop\<close>,
  which is shown to end for blocks that keep the contract. \<open>next_line\<close> has as much fuel as there are lines. \<open>drain_flight\<close> delivers
  at most twelve messages in a frame, and the default scenario never has more. \<open>kleene\<close>, the repetition of the configuration's grammar, is a
  partial function that is shown to end. \<open>ring_run\<close> counts deliveries: it is an argument of the statements, not a bound. Every other definition is
  total without fuel.

  \<^bold>\<open>What is not modelled.\<close> The reports in XML; threads, but for those of \<open>LockStep\<close> and \<open>RadarThreads\<close>; the main programs and the factories of the peer library,
  which hand over to ACE; the base classes of models and messages, the peer table, the object manager and the C++ header classes, and the
  Link 16 messages of \<open>DIS\<close>, whose code is not in the repository; the logger; the example filters; the functions of \<open>Conversions.ipp\<close> that do
  not compile when they are used; the vendored numeric libraries; and the other simulation models.
\<close>

section \<open>From one end to the other\<close>

text \<open>The frame a message makes: the bytes of its encoded header, and its data.\<close>

fun op_frame :: "('x, 'k, 't) env \<Rightarrow> tx_op \<Rightarrow> (bytes \<times> bytes) list" where
  "op_frame E (Put ev eh) =
     [(take (nat (evh_length (n_rx (net E)) eh)) (eh_raw (hd_encode (hdr E) eh)), case ev of Some d \<Rightarrow> d | None \<Rightarrow> [])]"
| "op_frame E Writable = []"

lemma frames_of_history:
  assumes "type_id \<noteq> hd_noheader (hdr E)" and "\<And>eh. evh_length (n_rx (net E)) eh > 0"
  shows "concat (map (op_bytes E type_id) ops) = wire (concat (map (op_frame E) ops))"
proof (induction ops)
  case (Cons a ops)
  with assms show ?case by (cases a) (simp_all add: message_bytes_def)
qed simp

text \<open>
  C1. End to end. A dispatcher sends a history of messages on a fresh connection, whatever part of each block its socket
  takes and whenever it becomes writable: all of it, or up to the first operation at which its socket reports an error, the reactor
  refuses a wakeup, or the queue has reached its high water mark. Once the queue is empty, a receiver that reads the bytes that went out, however
  TCP cuts them into pieces, gets exactly the messages of the operations that were performed, in order, each with its header and its data, and is ready for the
  next one. The messages are frames: their encoded headers have the receiver's header size and announce their data.
\<close>

theorem messages_arrive:
  assumes "sending_socket E out" and "the_ch p w = Some h" and "ch_ready E h" and "\<And>eh. evh_length (n_rx (net E)) eh > 0"
    and "out (ch_sock h) = []" and "ch_queue h = []"
    and "stream_socket R t pending hsize" and "\<forall>m \<in> set (concat (map (op_frame E) ops)). is_frame R t cid i hsize m"
  shows "\<exists>n w' h'. n \<le> length ops \<and> tx_run E p (take n ops) w = Some w' \<and> the_ch p w' = Some h' \<and>
    (n = length ops \<or> \<not> untroubled E (ops ! n) h') \<and>
    (ch_queue h' = [] \<longrightarrow> (\<forall>k fuel. pending k = out (ch_sock h') \<and> length (pending k) \<le> fuel \<longrightarrow>
      (\<exists>k'. rx_pump R t cid i fuel rx_init k =
        Some (map (delivered R t cid i) (concat (map (op_frame E) (take n ops))), rx_init, k') \<and> pending k' = [])))"
proof -
  obtain n w' h' where run: "n \<le> length ops" "tx_run E p (take n ops) w = Some w'" "the_ch p w' = Some h'"
    "ch_stream out h' = ch_stream out h @ concat (map (op_bytes E (ch_header_type_id h)) (take n ops))"
    "n = length ops \<or> \<not> untroubled E (ops ! n) h'"
    using sending_socket.tx_run_stream [OF assms(1,4,2,3), of ops] by auto
  let ?ms = "concat (map (op_frame E) (take n ops))"
  have "ch_header_type_id h \<noteq> hd_noheader (hdr E)" using assms(3) by (simp add: ch_ready_def)
  then have bytes: "concat (map (op_bytes E (ch_header_type_id h)) (take n ops)) = wire ?ms" using frames_of_history assms(4) by blast
  have frames: "\<forall>m \<in> set ?ms. is_frame R t cid i hsize m" using assms(8) by (auto dest: in_set_takeD)
  have "\<exists>k'. rx_pump R t cid i fuel rx_init k = Some (map (delivered R t cid i) ?ms, rx_init, k') \<and> pending k' = []"
    if "ch_queue h' = []" "pending k = out (ch_sock h')" "length (pending k) \<le> fuel" for k fuel
    using stream_socket.pump_delivers [OF assms(7) frames stream_socket.holds_init [OF assms(7)], of k fuel] that run(4) bytes assms(5,6)
    by (simp add: ch_stream_def)
  with run(1-3,5) show ?thesis by blast
qed

lemma example_sent:
  "\<exists>w' h'. tx_run example_env 1 [Put (Some [1, 2]) \<lparr>eh_raw = [], eh_hdr = example_header\<rparr>] example_w = Some w' \<and>
    the_ch 1 w' = Some h' \<and> ch_queue h' = [] \<and> snd (ch_sock h') = encode_header example_header @ [1, 2]"
  using example_w_facts(2)
  by (simp add: put_def put_block_def nonblk_put_def total_bytes_send_def consolidate_def example_defs
      example_ch_def new_handler_def example_record_def samson_env_def samson_header_length_def Let_def case_prod_beta the_ch_def set_ch_def)

theorem messages_arrive_witness:
  "\<exists>w' h' k'. tx_run example_env 1 [Put (Some [1, 2]) \<lparr>eh_raw = [], eh_hdr = example_header\<rparr>] example_w = Some w' \<and>
    the_ch 1 w' = Some h' \<and> ch_queue h' = [] \<and>
    rx_pump samson_env 1 12 30 60 rx_init [take 20 (snd (ch_sock h')), drop 20 (snd (ch_sock h'))] =
      Some ([delivered samson_env 1 12 30 (encode_header example_header, [1, 2])], rx_init, k')"
proof -
  let ?ops = "[Put (Some [1, 2]) \<lparr>eh_raw = [], eh_hdr = example_header\<rparr>]"
  have frames: "concat (map (op_frame example_env) ?ops) = [(encode_header example_header, [1, 2])]"
    by (simp add: example_defs samson_env_def samson_header_length_def)
  have "\<forall>m \<in> set (concat (map (op_frame example_env) ?ops)). is_frame samson_env 1 12 30 samson_header_length m"
    unfolding frames using example_frame by simp
  from messages_arrive [OF example_out.sending_socket_axioms example_w_facts(2) example_ch_ready(1) example_length example_ch_ready(3,2)
      tcp.stream_socket_axioms this]
  obtain n w' h' where n: "n \<le> length ?ops" "tx_run example_env 1 (take n ?ops) example_w = Some w'" "the_ch 1 w' = Some h'"
    "n = length ?ops \<or> \<not> untroubled example_env (?ops ! n) h'"
    and rx: "ch_queue h' = [] \<longrightarrow> (\<forall>k fuel. concat k = snd (ch_sock h') \<and> length (concat k) \<le> fuel \<longrightarrow>
      (\<exists>k'. rx_pump samson_env 1 12 30 fuel rx_init k =
        Some (map (delivered samson_env 1 12 30) (concat (map (op_frame example_env) (take n ?ops))), rx_init, k') \<and> concat k' = []))" by blast
  have "n = 1"
  proof (rule ccontr)
    assume "n \<noteq> 1"
    then have "n = 0" using n(1) by simp
    with n example_w_facts(2) show False by (simp add: example_ch_ready(4))
  qed
  then have all: "take n ?ops = ?ops" by simp
  have h': "ch_queue h' = []" "snd (ch_sock h') = encode_header example_header @ [1, 2]"
    using example_sent n(2,3) all by auto
  have "concat [take 20 (snd (ch_sock h')), drop 20 (snd (ch_sock h'))] = snd (ch_sock h')" by simp
  moreover have "length (snd (ch_sock h')) \<le> 60" using h'(2) by (simp add: samson_header_length_def)
  ultimately obtain k' where "rx_pump samson_env 1 12 30 60 rx_init [take 20 (snd (ch_sock h')), drop 20 (snd (ch_sock h'))] =
      Some (map (delivered samson_env 1 12 30) (concat (map (op_frame example_env) ?ops)), rx_init, k')"
    using rx [rule_format, of "[take 20 (snd (ch_sock h')), drop 20 (snd (ch_sock h'))]" 60] h'(1) unfolding all by auto
  then have "rx_pump samson_env 1 12 30 60 rx_init [take 20 (snd (ch_sock h')), drop 20 (snd (ch_sock h'))] =
      Some ([delivered samson_env 1 12 30 (encode_header example_header, [1, 2])], rx_init, k')"
    unfolding frames by simp
  with n(2,3) h'(1) show ?thesis unfolding all by blast
qed

end
